(* ===== verification/Js_Prelude.thy ===== *)
theory Js_Prelude
  imports Complex_Main
begin

section \<open>Shared vocabulary of the models\<close>

text \<open>
  What every component of the development uses of TypeScript and of the small helpers the
  repository shares: results that may be an error, strings, numbers that are tested with
  \<^verbatim>\<open>Number.isSafeInteger\<close> or \<^verbatim>\<open>Number.isFinite\<close>, first-seen
  deduplication, and the insertion-ordered \<^verbatim>\<open>Map\<close>.

  Conventions. \<^verbatim>\<open>T | null\<close> and \<^verbatim>\<open>T | undefined\<close> are
  \<open>'a option\<close>; a field that can be undefined, null or a value is
  \<open>'a option option\<close> (undefined is \<open>None\<close>, null is \<open>Some None\<close>). A thrown error is
  \<open>Inl\<close>. A string is a list of code units below 256 (\<open>string\<close>); clock values, counters
  and cursors are \<open>int\<close>, exact as they are in JavaScript up to \<open>2^53 - 1\<close>.
\<close>

subsection \<open>Results\<close>

text \<open>\<open>bnd\<close> runs the continuation unless the first step threw.\<close>

fun bnd :: "'e + 'a \<Rightarrow> ('a \<Rightarrow> 'e + 'b) \<Rightarrow> 'e + 'b" where
  "bnd (Inl e) f = Inl e"
| "bnd (Inr x) f = f x"

lemma bnd_cong [fundef_cong]:
  "m = m' \<Longrightarrow> (\<And>x. m' = Inr x \<Longrightarrow> f x = f' x) \<Longrightarrow> bnd m f = bnd m' f'"
  by (cases m') auto

lemma bnd_Inr_iff: "bnd m f = Inr y \<longleftrightarrow> (\<exists>x. m = Inr x \<and> f x = Inr y)"
  by (cases m) auto

lemma bnd_InrE [elim!]:
  assumes "bnd m f = Inr y"
  obtains x where "m = Inr x" "f x = Inr y"
  using assms by (cases m) auto

lemma if_Inl_Inr [simp]:
  "((if b then Inl e else m) = Inr y) \<longleftrightarrow> \<not> b \<and> m = Inr y"
  "((if b then m else Inl e) = Inr y) \<longleftrightarrow> b \<and> m = Inr y"
  by auto

text \<open>\<open>succeeds m\<close>: the step did not throw.\<close>

definition succeeds :: "'e + 'a \<Rightarrow> bool" where
  "succeeds m \<longleftrightarrow> \<not> isl m"

lemma succeeds_simps [simp]: "succeeds (Inr x)" "\<not> succeeds (Inl e)"
  by (simp_all add: succeeds_def)

lemma succeeds_iff: "succeeds m \<longleftrightarrow> (\<exists>x. m = Inr x)"
  by (cases m) auto

text \<open>\<open>map_res f xs\<close> is \<^verbatim>\<open>xs.map(f)\<close> for a callback that may throw.\<close>

fun map_res :: "('a \<Rightarrow> 'e + 'b) \<Rightarrow> 'a list \<Rightarrow> 'e + 'b list" where
  "map_res f [] = Inr []"
| "map_res f (x # xs) = bnd (f x) (\<lambda>y. bnd (map_res f xs) (\<lambda>ys. Inr (y # ys)))"

lemma map_res_Inr: "map_res f xs = Inr ys \<longleftrightarrow> list_all2 (\<lambda>x y. f x = Inr y) xs ys"
proof (induction xs arbitrary: ys)
  case (Cons x xs)
  show ?case by (cases ys) (simp_all add: bnd_Inr_iff Cons.IH)
qed auto

lemma map_res_map: "(\<And>x. x \<in> set xs \<Longrightarrow> f x = Inr (g x)) \<Longrightarrow> map_res f xs = Inr (map g xs)"
  by (induction xs) auto

lemma map_res_set: "map_res f xs = Inr ys \<Longrightarrow> y \<in> set ys \<Longrightarrow> \<exists>x\<in>set xs. f x = Inr y"
proof (induction xs arbitrary: ys)
  case (Cons x xs)
  then obtain z zs where "f x = Inr z" "map_res f xs = Inr zs" "ys = z # zs"
    by (simp add: bnd_Inr_iff) blast
  with Cons show ?case by (cases "y = z") simp_all
qed simp

subsection \<open>Strings\<close>

text \<open>\<^verbatim>\<open>s.split(c)\<close> for a one-character separator, and \<^verbatim>\<open>xs.join(c)\<close>.\<close>

fun js_split :: "char \<Rightarrow> string \<Rightarrow> string list" where
  "js_split c [] = [[]]"
| "js_split c (x # xs) =
     (if x = c then [] # js_split c xs
      else (case js_split c xs of [] \<Rightarrow> [[x]] | s # ss \<Rightarrow> (x # s) # ss))"

fun js_join :: "char \<Rightarrow> string list \<Rightarrow> string" where
  "js_join c [] = []"
| "js_join c [s] = s"
| "js_join c (s # t # ss) = s @ c # js_join c (t # ss)"

lemma js_split_not_Nil [simp]: "js_split c s \<noteq> []"
  by (induction s) (auto split: list.splits)

lemma js_split_no_sep: "seg \<in> set (js_split c s) \<Longrightarrow> c \<notin> set seg"
proof (induction s arbitrary: seg)
  case (Cons x xs)
  then show ?case by (fastforce split: if_splits list.splits)
qed simp

lemma js_join_split [simp]: "js_join c (js_split c s) = s"
proof (induction s)
  case (Cons x xs)
  obtain a as where "js_split c xs = a # as" by (cases "js_split c xs") auto
  with Cons show ?case by (cases as) auto
qed simp

lemma js_split_plain: "c \<notin> set s \<Longrightarrow> js_split c s = [s]"
  by (induction s) auto

lemma js_split_append_sep: "c \<notin> set s \<Longrightarrow> js_split c (s @ c # t) = s # js_split c t"
  by (induction s) auto

lemma js_split_join:
  "ss \<noteq> [] \<Longrightarrow> (\<And>s. s \<in> set ss \<Longrightarrow> c \<notin> set s) \<Longrightarrow> js_split c (js_join c ss) = ss"
  by (induction c ss rule: js_join.induct) (auto simp: js_split_plain js_split_append_sep)

text \<open>
  The white space \<^verbatim>\<open>String.prototype.trim\<close> removes, among code units below 256:
  tab, line feed, vertical tab, form feed, carriage return, space, no-break space.
\<close>

definition js_space :: "char \<Rightarrow> bool" where
  "js_space c \<longleftrightarrow>
     c \<in> set [CHR 0x09, CHR 0x0A, CHR 0x0B, CHR 0x0C, CHR 0x0D, CHR 0x20, CHR 0xA0]"

definition js_trim :: "string \<Rightarrow> string" where
  "js_trim s = rev (dropWhile js_space (rev (dropWhile js_space s)))"

lemma dropWhile_last_kept:
  "xs \<noteq> [] \<Longrightarrow> \<not> P (last xs) \<Longrightarrow> dropWhile P xs \<noteq> [] \<and> last (dropWhile P xs) = last xs"
  by (induction xs) auto

lemma js_trim_trim [simp]: "js_trim (js_trim s) = js_trim s"
proof -
  define a where "a = dropWhile js_space s"
  define b where "b = dropWhile js_space (rev a)"
  have hd_a: "a \<noteq> [] \<Longrightarrow> \<not> js_space (hd a)"
    unfolding a_def by (rule hd_dropWhile)
  have hd_b: "b \<noteq> [] \<Longrightarrow> \<not> js_space (hd b)"
    unfolding b_def by (rule hd_dropWhile)
  have last_b: "\<not> js_space (last b)" if "b \<noteq> []"
  proof -
    from that have "a \<noteq> []" by (auto simp: b_def)
    with hd_a show ?thesis
      using dropWhile_last_kept [of "rev a" js_space] that
      by (simp add: b_def last_rev)
  qed
  have "dropWhile js_space (rev b) = rev b"
    using last_b by (cases "rev b") (auto simp: hd_rev [symmetric])
  moreover have "dropWhile js_space b = b"
    using hd_b by (cases b) auto
  ultimately show ?thesis
    by (simp add: js_trim_def a_def b_def)
qed

lemma js_trim_Nil [simp]: "js_trim [] = []"
  by (simp add: js_trim_def)

text \<open>\<^verbatim>\<open>toLowerCase\<close> on code units below 256.\<close>

definition js_lower_char :: "char \<Rightarrow> char" where
  "js_lower_char c =
     (let n = of_char c :: nat
      in if 65 \<le> n \<and> n \<le> 90 \<or> 192 \<le> n \<and> n \<le> 222 \<and> n \<noteq> 215 then char_of (n + 32) else c)"

definition js_lower :: "string \<Rightarrow> string" where
  "js_lower s = map js_lower_char s"

text \<open>Truthiness of an optional string: undefined, null and the empty string are falsy.\<close>

fun truthy_str :: "string option \<Rightarrow> bool" where
  "truthy_str None = False"
| "truthy_str (Some s) = (s \<noteq> [])"

lemma truthy_str_iff: "truthy_str x \<longleftrightarrow> (\<exists>s. x = Some s \<and> s \<noteq> [])"
  by (cases x) auto

subsection \<open>Numbers\<close>

definition js_max_safe :: int where
  "js_max_safe = 9007199254740991"

definition js_is_safe :: "int \<Rightarrow> bool" where
  "js_is_safe n \<longleftrightarrow> - js_max_safe \<le> n \<and> n \<le> js_max_safe"

text \<open>
  A JavaScript number where the code tells finite values from the others: the finite doubles
  are rational numbers.
\<close>

datatype js_num = NaN | PosInf | NegInf | Fin rat

fun js_finite :: "js_num \<Rightarrow> rat option" where
  "js_finite (Fin r) = Some r"
| "js_finite _ = None"

subsection \<open>First-seen deduplication\<close>

text \<open>\<^verbatim>\<open>uniqueValues\<close>: spreading a \<^verbatim>\<open>Set\<close> built from the values.\<close>

fun uniqueValues_from :: "'a set \<Rightarrow> 'a list \<Rightarrow> 'a list" where
  "uniqueValues_from seen [] = []"
| "uniqueValues_from seen (x # xs) =
     (if x \<in> seen then uniqueValues_from seen xs
      else x # uniqueValues_from (insert x seen) xs)"

definition uniqueValues :: "'a list \<Rightarrow> 'a list" where
  "uniqueValues xs = uniqueValues_from {} xs"

lemma set_uniqueValues_from: "set (uniqueValues_from seen xs) = set xs - seen"
  by (induction seen xs rule: uniqueValues_from.induct) auto

lemma distinct_uniqueValues_from: "distinct (uniqueValues_from seen xs)"
  by (induction seen xs rule: uniqueValues_from.induct) (auto simp: set_uniqueValues_from)

lemma uniqueValues_from_distinct:
  "distinct xs \<Longrightarrow> set xs \<inter> seen = {} \<Longrightarrow> uniqueValues_from seen xs = xs"
  by (induction seen xs rule: uniqueValues_from.induct) auto

lemma set_uniqueValues [simp]: "set (uniqueValues xs) = set xs"
  by (simp add: uniqueValues_def set_uniqueValues_from)

lemma distinct_uniqueValues [simp]: "distinct (uniqueValues xs)"
  by (simp add: uniqueValues_def distinct_uniqueValues_from)

lemma uniqueValues_distinct [simp]: "distinct xs \<Longrightarrow> uniqueValues xs = xs"
  by (simp add: uniqueValues_def uniqueValues_from_distinct)

lemma uniqueValues_Nil_iff [simp]: "uniqueValues xs = [] \<longleftrightarrow> xs = []"
  using set_uniqueValues [of xs] by (metis set_empty)

end
