(* ===== verification/Posix_Path.thy ===== *)
theory Posix_Path
  imports Js_Prelude
begin

section \<open>POSIX paths\<close>

text \<open>
  The functions of Node's \<^verbatim>\<open>path.posix\<close> that the workspace modules call. Both
  \<^verbatim>\<open>normalize\<close> and \<^verbatim>\<open>resolve\<close> run the segments of the path over a stack;
  \<open>norm_push\<close> is one step of that scan, the stack having its last segment first.
\<close>

definition slash :: char where "slash = CHR ''/''"

definition dot :: string where "dot = ''.''"

definition dotdot :: string where "dotdot = ''..''"

fun norm_push :: "bool \<Rightarrow> string list \<Rightarrow> string \<Rightarrow> string list" where
  "norm_push allowAbove stack seg =
     (if seg = [] \<or> seg = dot then stack
      else if seg = dotdot then
        (case stack of
           [] \<Rightarrow> if allowAbove then [dotdot] else []
         | t # rest \<Rightarrow> if t = dotdot then (if allowAbove then dotdot # stack else stack) else rest)
      else seg # stack)"

definition normalizeString :: "string \<Rightarrow> bool \<Rightarrow> string list" where
  "normalizeString p allowAbove = rev (foldl (norm_push allowAbove) [] (js_split slash p))"

definition posix_isAbsolute :: "string \<Rightarrow> bool" where
  "posix_isAbsolute p \<longleftrightarrow> p \<noteq> [] \<and> hd p = slash"

definition posix_normalize :: "string \<Rightarrow> string" where
  "posix_normalize p =
     (if p = [] then dot
      else
        (let isAbs = (hd p = slash); trailing = (last p = slash);
             path = js_join slash (normalizeString p (\<not> isAbs))
         in if path = [] then (if isAbs then [slash] else if trailing then dot @ [slash] else dot)
            else (if isAbs then [slash] else []) @ path @ (if trailing then [slash] else [])))"

text \<open>
  \<^verbatim>\<open>path.posix.resolve(from, to)\<close> for an absolute first argument: an absolute second
  argument wins.
\<close>

definition posix_resolve :: "string \<Rightarrow> string \<Rightarrow> string" where
  "posix_resolve from to =
     (let full = (if posix_isAbsolute to then to else if to = [] then from else from @ slash # to)
      in slash # js_join slash (normalizeString full False))"

text \<open>\<^verbatim>\<open>path.posix.dirname\<close> of an absolute path: trailing slashes do not count.\<close>

definition posix_dirname :: "string \<Rightarrow> string" where
  "posix_dirname p =
     (let base = dropWhile (\<lambda>c. c = slash) (rev p);
          dir = dropWhile (\<lambda>c. c \<noteq> slash) base
      in if length dir \<le> 1 then [slash] else rev (tl dir))"

subsection \<open>Normal segments\<close>

definition plain_seg :: "string \<Rightarrow> bool" where
  "plain_seg s \<longleftrightarrow> s \<noteq> [] \<and> s \<noteq> dot \<and> s \<noteq> dotdot \<and> slash \<notin> set s"

text \<open>Climbing segments stay at the bottom of the stack.\<close>

definition norm_stack :: "bool \<Rightarrow> string list \<Rightarrow> bool" where
  "norm_stack allowAbove st \<longleftrightarrow>
     (\<exists>n ps. st = ps @ replicate n dotdot \<and> list_all plain_seg ps \<and> (\<not> allowAbove \<longrightarrow> n = 0))"

lemma dots [simp]: "dotdot \<noteq> []" "dot \<noteq> []" "dot \<noteq> dotdot" "dotdot \<noteq> dot" "slash \<notin> set dotdot"
    "slash \<notin> set dot"
  by (simp_all add: dotdot_def dot_def slash_def)

lemma not_plain [simp]: "\<not> plain_seg []" "\<not> plain_seg dot" "\<not> plain_seg dotdot"
  by (simp_all add: plain_seg_def)

lemma norm_stack_push:
  assumes "norm_stack a st" "slash \<notin> set seg"
  shows "norm_stack a (norm_push a st seg)"
proof -
  from assms(1) obtain n ps where st: "st = ps @ replicate n dotdot" "list_all plain_seg ps"
    "\<not> a \<longrightarrow> n = 0" by (auto simp: norm_stack_def)
  consider "seg = [] \<or> seg = dot" | "seg = dotdot" | "plain_seg seg"
    using assms(2) by (auto simp: plain_seg_def)
  then show ?thesis
  proof cases
    case 1
    with assms show ?thesis by auto
  next
    case 2
    show ?thesis
    proof (cases ps)
      case Nil
      show ?thesis
      proof (cases n)
        case 0
        with Nil st 2 show ?thesis
          by (auto simp: norm_stack_def intro!: exI [of _ "if a then 1 else 0"] exI [of _ "[]"])
      next
        case (Suc m)
        with Nil st have "norm_push a st seg = replicate (Suc n) dotdot" using 2 by auto
        with st Suc show ?thesis
          by (auto simp: norm_stack_def intro!: exI [of _ "Suc n"] exI [of _ "[]"])
      qed
    next
      case (Cons p ps')
      with st 2 have "norm_push a st seg = ps' @ replicate n dotdot" by auto
      with Cons st show ?thesis by (auto simp: norm_stack_def)
    qed
  next
    case 3
    then have "norm_push a st seg = (seg # ps) @ replicate n dotdot"
      using st by (auto simp: plain_seg_def)
    with st 3 show ?thesis unfolding norm_stack_def
      by (intro exI [of _ n] exI [of _ "seg # ps"]) simp
  qed
qed

lemma norm_stack_fold:
  "norm_stack a st \<Longrightarrow> (\<And>s. s \<in> set ss \<Longrightarrow> slash \<notin> set s) \<Longrightarrow> norm_stack a (foldl (norm_push a) st ss)"
proof (induction ss arbitrary: st)
  case (Cons s ss)
  have "norm_stack a (norm_push a st s)" using Cons.prems by (intro norm_stack_push) auto
  then show ?case using Cons by (simp del: norm_push.simps)
qed simp

text \<open>A normal form is a run of climbs followed by plain segments.\<close>

lemma normalizeString_form:
  obtains n ps where "normalizeString p a = replicate n dotdot @ ps" "list_all plain_seg ps"
    "\<not> a \<Longrightarrow> n = 0"
proof -
  have "norm_stack a []" by (auto simp: norm_stack_def)
  then have "norm_stack a (foldl (norm_push a) [] (js_split slash p))"
    by (rule norm_stack_fold) (rule js_split_no_sep)
  then obtain n ps where "foldl (norm_push a) [] (js_split slash p) = ps @ replicate n dotdot"
    "list_all plain_seg ps" "\<not> a \<longrightarrow> n = 0" by (auto simp: norm_stack_def)
  then show thesis
    using that [of n "rev ps"] by (simp add: normalizeString_def list_all_rev)
qed

lemma norm_push_plain: "plain_seg s \<Longrightarrow> norm_push a st s = s # st"
  by (simp add: plain_seg_def)

lemma foldl_plain: "list_all plain_seg ss \<Longrightarrow> foldl (norm_push a) st ss = rev ss @ st"
  by (induction ss arbitrary: st) (simp_all add: norm_push_plain del: norm_push.simps)

lemma norm_push_eqs [simp]:
  "norm_push a st [] = st" "norm_push a st dot = st"
  "norm_push False [] dotdot = []"
  "t \<noteq> dotdot \<Longrightarrow> norm_push a (t # r) dotdot = r"
  "plain_seg s \<Longrightarrow> norm_push a st s = s # st"
  by (simp_all add: plain_seg_def)

lemma set_norm_push: "set (norm_push False st s) \<subseteq> insert s (set st)"
  by (cases st) auto

declare norm_push.simps [simp del]

end
