(* ===== verification/Json.thy ===== *)
theory Json
  imports Js_Prelude
begin

section \<open>JSON values\<close>

text \<open>
  What \<^verbatim>\<open>JSON.parse\<close> returns and \<^verbatim>\<open>JSON.stringify\<close> is given, as the
  manifest and journal modules use it. A stored JSON text is represented by the value it denotes.
  Reading a property that is not there gives undefined, \<open>None\<close>.
\<close>

datatype json = JNull | JBool bool | JNum rat | JStr string | JArr "json list"
  | JObj "(string \<times> json) list"

definition jprop :: "(string \<times> json) list \<Rightarrow> string \<Rightarrow> json option" where
  "jprop fields name = map_of fields name"

text \<open>A property written as \<open>undefined\<close> is left out of the text.\<close>

fun jopt :: "string \<Rightarrow> json option \<Rightarrow> (string \<times> json) list" where
  "jopt name None = []"
| "jopt name (Some v) = [(name, v)]"

lemma jprop_append: "jprop (xs @ ys) k = (case jprop xs k of None \<Rightarrow> jprop ys k | Some v \<Rightarrow> Some v)"
  by (simp add: jprop_def map_add_def split: option.split)

lemma jprop_jopt: "jprop (jopt a v) k = (if k = a then v else None)"
  by (cases v) (simp_all add: jprop_def)

text \<open>The properties of a value; one that is no object has none.\<close>

fun object_fields :: "json option \<Rightarrow> (string \<times> json) list" where
  "object_fields (Some (JObj fs)) = fs"
| "object_fields _ = []"

text \<open>\<^verbatim>\<open>a ?? b\<close> for a JSON value\<close>

definition nullish_or :: "json option \<Rightarrow> json option \<Rightarrow> json option" where
  "nullish_or a b = (if a = None \<or> a = Some JNull then b else a)"

definition jint :: "int \<Rightarrow> json" where
  "jint n = JNum (of_int n)"

text \<open>\<^verbatim>\<open>Number.isInteger\<close>: the integer a JSON number is, if it is one.\<close>

definition json_integer :: "json option \<Rightarrow> int option" where
  "json_integer v =
     (case v of Some (JNum r) \<Rightarrow> if of_int \<lfloor>r\<rfloor> = r then Some \<lfloor>r\<rfloor> else None | _ \<Rightarrow> None)"

fun json_string :: "json option \<Rightarrow> string option" where
  "json_string (Some (JStr s)) = Some s"
| "json_string _ = None"

lemma json_integer_jint [simp]: "json_integer (Some (jint n)) = Some n"
  by (simp add: json_integer_def jint_def)

lemma json_string_Some [simp]: "json_string v = Some s \<longleftrightarrow> v = Some (JStr s)"
  by (cases "v" rule: json_string.cases) auto

subsection \<open>Fixed-width digests\<close>

definition hex_char :: "char \<Rightarrow> bool" where
  "hex_char c \<longleftrightarrow> c \<in> set ''0123456789abcdef''"

text \<open>\<^verbatim>\<open>/^[a-f0-9]{n}$/u\<close>\<close>

definition hex_text :: "nat \<Rightarrow> string \<Rightarrow> bool" where
  "hex_text n s \<longleftrightarrow> length s = n \<and> list_all hex_char s"

text \<open>\<^verbatim>\<open>/^sha256:([a-f0-9]{64})$/u\<close>\<close>

definition manifest_ref :: "string \<Rightarrow> bool" where
  "manifest_ref s \<longleftrightarrow> take 7 s = ''sha256:'' \<and> hex_text 64 (drop 7 s)"

end
