(* ===== verification/Workspace_Manifest.thy ===== *)
theory Workspace_Manifest
  imports Posix_Path Json "HOL-Library.List_Lexorder" "HOL-Library.Char_ord" "HOL-Library.Sublist"
begin

unbundle bit_operations_syntax

section \<open>Workspace manifests and reconciliation plans\<close>

text \<open>
  \<^verbatim>\<open>src/gateway/worker-environments/workspace-manifest.ts\<close> and
  \<^verbatim>\<open>workspace-path-exclusions.ts\<close>: what a worker may claim its workspace holds.
  The manifest comes from the worker, so the parser is the boundary that keeps its paths and its
  symlinks inside the workspace. The reconciliation plan is the part of a journal that is stored
  as JSON. \<^verbatim>\<open>sha256\<close> and \<^verbatim>\<open>JSON.parse\<close> of a manifest text are
  arguments of \<open>parseWorkerWorkspaceManifest\<close>.
\<close>

datatype merr = MUnsafePath | MInvalidMode | MInvalidEntry | MFileMetadata | MUnsafeSymlink
  | MSymlinkEscapes | MUnsupportedType | MTooManyEntries | MNotUniqueSorted | MNonDirectoryParent
  | MTooLarge | MRefInvalid | MDigestMismatch | MNotJson | MInvalid | MUnsupportedShape
  | MDirectoryEntry | MDuplicatePaths | MDuplicateDirectories

subsection \<open>Entries\<close>

datatype mentry =
    MFile (me_path: string) (me_mode: int) (me_size: int) (me_sha256: string)
  | MSymlink (me_path: string) (me_mode: int) (me_target: string)

datatype raw_entry = RDirectory string int | REntry mentry

fun raw_path :: "raw_entry \<Rightarrow> string" where
  "raw_path (RDirectory p m) = p"
| "raw_path (REntry e) = me_path e"

fun raw_is_dir :: "raw_entry \<Rightarrow> bool" where
  "raw_is_dir (RDirectory p m) = True"
| "raw_is_dir (REntry e) = False"

definition backslash :: char where "backslash = CHR 0x5C"

definition manifestPath :: "json option \<Rightarrow> merr + string" where
  "manifestPath value =
     (case json_string value of
        None \<Rightarrow> Inl MUnsafePath
      | Some s \<Rightarrow>
          (if s = [] \<or> backslash \<in> set s \<or> posix_isAbsolute s \<or> posix_normalize s \<noteq> s
              \<or> s = dot \<or> s = dotdot \<or> prefix (dotdot @ [slash]) s
           then Inl MUnsafePath else Inr s))"

definition manifestMode :: "json option \<Rightarrow> merr + int" where
  "manifestMode value =
     (case json_integer value of
        None \<Rightarrow> Inl MInvalidMode
      | Some n \<Rightarrow> if n < 0 \<or> n > 511 then Inl MInvalidMode else Inr n)"

definition gitFileMode :: "int \<Rightarrow> int" where
  "gitFileMode mode = (if mode AND 73 = 0 then 420 else 493)"

text \<open>\<^verbatim>\<open>path.win32.parse(target).root !== ""\<close> for a target with no backslash and no
  leading slash: a drive letter.\<close>

definition win32_rooted :: "string \<Rightarrow> bool" where
  "win32_rooted t \<longleftrightarrow> 2 \<le> length t \<and> t ! 1 = CHR '':''
     \<and> (CHR ''a'' \<le> t ! 0 \<and> t ! 0 \<le> CHR ''z'' \<or> CHR ''A'' \<le> t ! 0 \<and> t ! 0 \<le> CHR ''Z'')"

definition syntheticRoot :: string where
  "syntheticRoot = ''/workspace''"

definition symlink_resolved :: "string \<Rightarrow> string \<Rightarrow> string" where
  "symlink_resolved entryPath target =
     posix_resolve (posix_dirname (syntheticRoot @ slash # entryPath)) target"

definition parseSymlink :: "string \<Rightarrow> json option \<Rightarrow> merr + raw_entry" where
  "parseSymlink entryPath targetValue =
     (case json_string targetValue of
        None \<Rightarrow> Inl MUnsafeSymlink
      | Some target \<Rightarrow>
          (if target = [] \<or> backslash \<in> set target \<or> posix_isAbsolute target
              \<or> win32_rooted target
           then Inl MUnsafeSymlink
           else
             (let resolved = symlink_resolved entryPath target
              in if resolved \<noteq> syntheticRoot \<and> \<not> prefix (syntheticRoot @ [slash]) resolved
                 then Inl MSymlinkEscapes
                 else Inr (REntry (MSymlink entryPath 511 target)))))"

definition parseFile :: "string \<Rightarrow> int \<Rightarrow> json option \<Rightarrow> json option \<Rightarrow> merr + raw_entry" where
  "parseFile entryPath mode sizeValue shaValue =
     (case (json_integer sizeValue, json_string shaValue) of
        (Some bytes, Some sha) \<Rightarrow>
          (if \<not> js_is_safe bytes \<or> bytes < 0 \<or> \<not> hex_text 64 sha then Inl MFileMetadata
           else Inr (REntry (MFile entryPath (gitFileMode mode) bytes sha)))
      | _ \<Rightarrow> Inl MFileMetadata)"

fun parseRawEntry :: "json \<Rightarrow> merr + raw_entry" where
  "parseRawEntry (JObj entry) =
     bnd (manifestPath (jprop entry ''path'')) (\<lambda>entryPath.
     bnd (manifestMode (jprop entry ''mode'')) (\<lambda>mode.
       (if jprop entry ''type'' = Some (JStr ''directory'') then Inr (RDirectory entryPath mode)
        else if jprop entry ''type'' = Some (JStr ''file'') then
          parseFile entryPath mode (jprop entry ''size'') (jprop entry ''sha256'')
        else if jprop entry ''type'' = Some (JStr ''symlink'') then
          parseSymlink entryPath (jprop entry ''target'')
        else Inl MUnsupportedType)))"
| "parseRawEntry _ = Inl MInvalidEntry"

subsection \<open>Derived paths\<close>

definition DERIVED_WORKSPACE_DIRECTORY_NAMES :: "string list" where
  "DERIVED_WORKSPACE_DIRECTORY_NAMES =
     [''__pycache__'', ''.pytest_cache'', ''.mypy_cache'', ''.ruff_cache'', ''node_modules'']"

definition DERIVED_WORKSPACE_FILE_NAMES :: "string list" where
  "DERIVED_WORKSPACE_FILE_NAMES = [''.DS_Store'']"

definition DERIVED_WORKSPACE_FILE_SUFFIXES :: "string list" where
  "DERIVED_WORKSPACE_FILE_SUFFIXES = [''.pyc'', ''.pyo'']"

definition isDerivedWorkspacePath :: "string \<Rightarrow> bool" where
  "isDerivedWorkspacePath relativePath \<longleftrightarrow>
     list_ex (\<lambda>segment. segment \<in> set DERIVED_WORKSPACE_DIRECTORY_NAMES
         \<or> segment \<in> set DERIVED_WORKSPACE_FILE_NAMES
         \<or> list_ex (\<lambda>sfx. suffix sfx segment) DERIVED_WORKSPACE_FILE_SUFFIXES)
       (js_split slash relativePath)"

subsection \<open>Whole manifests\<close>

record manifest =
  mf_baseCommit :: "string option"
  mf_entries :: "mentry list"
  mf_directories :: "string list"

text \<open>The loop over the entries: \<open>byPath\<close> is what was seen so far, \<open>previous\<close> the last path.\<close>

fun check_entries :: "(string \<times> raw_entry) list \<Rightarrow> string \<Rightarrow> raw_entry list \<Rightarrow> merr + unit" where
  "check_entries byPath previous [] = Inr ()"
| "check_entries byPath previous (entry # rest) =
     (let p = raw_path entry; segments = js_split slash p
      in if map_of byPath p \<noteq> None \<or> (previous \<noteq> [] \<and> \<not> previous < p) then Inl MNotUniqueSorted
         else if list_ex (\<lambda>index. case map_of byPath (js_join slash (take index segments)) of
                   Some d \<Rightarrow> \<not> raw_is_dir d | None \<Rightarrow> True) [1..<length segments]
         then Inl MNonDirectoryParent
         else check_entries ((p, entry) # byPath) p rest)"

fun raw_mentries :: "raw_entry list \<Rightarrow> mentry list" where
  "raw_mentries [] = []"
| "raw_mentries (RDirectory p m # rest) = raw_mentries rest"
| "raw_mentries (REntry e # rest) =
     (if isDerivedWorkspacePath (me_path e) then raw_mentries rest else e # raw_mentries rest)"

definition validateAndProjectEntries :: "json list \<Rightarrow> merr + mentry list \<times> string list" where
  "validateAndProjectEntries values =
     (if length values > 250000 then Inl MTooManyEntries
      else bnd (map_res parseRawEntry values) (\<lambda>rawEntries.
           bnd (check_entries [] [] rawEntries) (\<lambda>_.
             Inr (raw_mentries rawEntries,
                  map raw_path (filter (\<lambda>e. raw_is_dir e \<and> \<not> isDerivedWorkspacePath (raw_path e))
                    rawEntries)))))"

text \<open>\<^verbatim>\<open>/^[a-f0-9]{40}(?:[a-f0-9]{24})?$/u\<close>\<close>

definition git_commit :: "string \<Rightarrow> bool" where
  "git_commit s \<longleftrightarrow> hex_text 40 s \<or> hex_text 64 s"

definition utf8_length :: "string \<Rightarrow> nat" where
  "utf8_length s = sum_list (map (\<lambda>c. if of_char c < (128 :: nat) then 1 else 2) s)"

definition parseWorkerWorkspaceManifest ::
    "(string \<Rightarrow> string) \<Rightarrow> (string \<Rightarrow> json option) \<Rightarrow> string \<Rightarrow> string \<Rightarrow> merr + manifest" where
  "parseWorkerWorkspaceManifest sha256 json_parse raw expectedRef =
     (if utf8_length raw > 67108864 then Inl MTooLarge
      else if \<not> manifest_ref expectedRef then Inl MRefInvalid
      else if sha256 raw \<noteq> drop 7 expectedRef then Inl MDigestMismatch
      else
        (case json_parse raw of
           None \<Rightarrow> Inl MNotJson
         | Some (JObj m) \<Rightarrow>
             (case (jprop m ''entries'', jprop m ''baseCommit'') of
                (Some (JArr values), Some base) \<Rightarrow>
                  (if jprop m ''version'' \<noteq> Some (jint 1)
                      \<or> (base \<noteq> JNull \<and> (case base of JStr s \<Rightarrow> \<not> git_commit s | _ \<Rightarrow> True))
                   then Inl MUnsupportedShape
                   else bnd (validateAndProjectEntries values) (\<lambda>(entries, directories).
                     Inr \<lparr>mf_baseCommit = json_string (Some base), mf_entries = entries,
                          mf_directories = directories\<rparr>))
              | _ \<Rightarrow> Inl MUnsupportedShape)
         | Some _ \<Rightarrow> Inl MInvalid))"

subsection \<open>Reconciliation plans\<close>

text \<open>The plan is a journal without its base pack; absent directory lists read as empty.\<close>

record wplan =
  pl_temporaryNonce :: string
  pl_baseManifestRef :: string
  pl_currentManifestRef :: string
  pl_baseEntries :: "mentry list"
  pl_appliedEntries :: "mentry list"
  pl_baseDirectories :: "string list"
  pl_appliedDirectories :: "string list"
  pl_appliedManifestRef :: "string option"
  pl_baseTree :: string
  pl_basePackSha256 :: string

fun entry_json :: "mentry \<Rightarrow> json" where
  "entry_json (MFile p m s sha) = JObj [(''path'', JStr p), (''type'', JStr ''file''),
     (''mode'', jint m), (''size'', jint s), (''sha256'', JStr sha)]"
| "entry_json (MSymlink p m t) = JObj [(''path'', JStr p), (''type'', JStr ''symlink''),
     (''mode'', jint m), (''target'', JStr t)]"

definition serializeWorkerWorkspaceReconciliationPlan :: "wplan \<Rightarrow> json" where
  "serializeWorkerWorkspaceReconciliationPlan journal = JObj
     ([(''version'', jint 1),
       (''temporaryNonce'', JStr (pl_temporaryNonce journal)),
       (''baseManifestRef'', JStr (pl_baseManifestRef journal)),
       (''currentManifestRef'', JStr (pl_currentManifestRef journal)),
       (''baseEntries'', JArr (map entry_json (pl_baseEntries journal))),
       (''appliedEntries'', JArr (map entry_json (pl_appliedEntries journal))),
       (''baseDirectories'', JArr (map JStr (pl_baseDirectories journal))),
       (''appliedDirectories'', JArr (map JStr (pl_appliedDirectories journal)))]
      @ jopt ''appliedManifestRef'' (map_option JStr (pl_appliedManifestRef journal))
      @ [(''baseTree'', JStr (pl_baseTree journal)),
         (''basePackSha256'', JStr (pl_basePackSha256 journal))])"

definition MAX_RECONCILIATION_ENTRIES :: nat where
  "MAX_RECONCILIATION_ENTRIES = 25000"

definition parseJournalEntry :: "json \<Rightarrow> merr + mentry" where
  "parseJournalEntry value =
     bnd (parseRawEntry value) (\<lambda>entry.
       (case entry of RDirectory p m \<Rightarrow> Inl MDirectoryEntry | REntry e \<Rightarrow> Inr e))"

text \<open>An optional array property: undefined is an empty list, another value is refused.\<close>

fun optional_array :: "json option \<Rightarrow> merr + json list" where
  "optional_array None = Inr []"
| "optional_array (Some (JArr xs)) = Inr xs"
| "optional_array _ = Inl MUnsupportedShape"

definition string_prop ::
    "(string \<times> json) list \<Rightarrow> string \<Rightarrow> (string \<Rightarrow> bool) \<Rightarrow> merr + string" where
  "string_prop plan name ok =
     (case json_string (jprop plan name) of
        None \<Rightarrow> Inl MUnsupportedShape
      | Some s \<Rightarrow> if ok s then Inr s else Inl MUnsupportedShape)"

fun array_prop :: "json option \<Rightarrow> merr + json list" where
  "array_prop (Some (JArr xs)) = Inr xs"
| "array_prop _ = Inl MUnsupportedShape"

fun optional_ref :: "json option \<Rightarrow> merr + string option" where
  "optional_ref None = Inr None"
| "optional_ref (Some (JStr s)) = (if manifest_ref s then Inr (Some s) else Inl MUnsupportedShape)"
| "optional_ref _ = Inl MUnsupportedShape"

fun parseWorkerWorkspaceReconciliationPlan :: "json \<Rightarrow> merr + wplan" where
  "parseWorkerWorkspaceReconciliationPlan (JObj plan) =
     (if jprop plan ''version'' \<noteq> Some (jint 1) then Inl MUnsupportedShape
      else
       bnd (string_prop plan ''temporaryNonce'' (hex_text 32)) (\<lambda>nonce.
       bnd (string_prop plan ''baseManifestRef'' manifest_ref) (\<lambda>baseRef.
       bnd (string_prop plan ''currentManifestRef'' manifest_ref) (\<lambda>currentRef.
       bnd (string_prop plan ''baseTree'' (hex_text 40)) (\<lambda>tree.
       bnd (string_prop plan ''basePackSha256'' (hex_text 64)) (\<lambda>pack.
       bnd (array_prop (jprop plan ''baseEntries'')) (\<lambda>be.
       bnd (array_prop (jprop plan ''appliedEntries'')) (\<lambda>ae.
       bnd (optional_array (jprop plan ''baseDirectories'')) (\<lambda>bd.
       bnd (optional_array (jprop plan ''appliedDirectories'')) (\<lambda>ad.
       bnd (optional_ref (jprop plan ''appliedManifestRef'')) (\<lambda>applied.
       (if length be + length ae + length bd + length ad > MAX_RECONCILIATION_ENTRIES
        then Inl MUnsupportedShape
        else
         bnd (map_res parseJournalEntry be) (\<lambda>baseEntries.
         bnd (map_res parseJournalEntry ae) (\<lambda>appliedEntries.
         bnd (map_res (\<lambda>v. manifestPath (Some v)) bd) (\<lambda>baseDirectories.
         bnd (map_res (\<lambda>v. manifestPath (Some v)) ad) (\<lambda>appliedDirectories.
           (if \<not> distinct (map me_path baseEntries) \<or> \<not> distinct (map me_path appliedEntries)
            then Inl MDuplicatePaths
            else if \<not> distinct baseDirectories \<or> \<not> distinct appliedDirectories
            then Inl MDuplicateDirectories
            else Inr \<lparr>pl_temporaryNonce = nonce, pl_baseManifestRef = baseRef,
                   pl_currentManifestRef = currentRef, pl_baseEntries = baseEntries,
                   pl_appliedEntries = appliedEntries, pl_baseDirectories = baseDirectories,
                   pl_appliedDirectories = appliedDirectories, pl_appliedManifestRef = applied,
                   pl_baseTree = tree, pl_basePackSha256 = pack\<rparr>)))))))))))))))))"
| "parseWorkerWorkspaceReconciliationPlan _ = Inl MInvalid"

end
