(* ===== verification/Placement_Record.thy ===== *)
theory Placement_Record
  imports Js_Prelude Workspace_Manifest
begin

section \<open>Worker session placement: states, records, validators\<close>

text \<open>
  \<^verbatim>\<open>src/gateway/worker-environments/placement-state.ts\<close> and
  \<^verbatim>\<open>placement-record.ts\<close>: where a session runs (its placement), who holds its
  current turn (the turn claim), and the validators every stored or returned record passes.
  The TypeScript union of ten record shapes is one record with a state field; the shape each
  state demands is what \<open>assertRecordShape\<close> checks.
\<close>

subsection \<open>States and legal transitions\<close>

datatype wstate = WLocal | WRequested | WProvisioning | WSyncing | WStarting
  | WActive | WDraining | WReconciling | WReclaimed | WFailed

definition WORKER_SESSION_PLACEMENT_STATES :: "(string \<times> wstate) list" where
  "WORKER_SESSION_PLACEMENT_STATES =
     [(''local'', WLocal), (''requested'', WRequested), (''provisioning'', WProvisioning),
      (''syncing'', WSyncing), (''starting'', WStarting), (''active'', WActive),
      (''draining'', WDraining), (''reconciling'', WReconciling), (''reclaimed'', WReclaimed),
      (''failed'', WFailed)]"

text \<open>The text of a state, as the state column stores it.\<close>

fun ws_text :: "wstate \<Rightarrow> string" where
  "ws_text WLocal = ''local''"
| "ws_text WRequested = ''requested''"
| "ws_text WProvisioning = ''provisioning''"
| "ws_text WSyncing = ''syncing''"
| "ws_text WStarting = ''starting''"
| "ws_text WActive = ''active''"
| "ws_text WDraining = ''draining''"
| "ws_text WReconciling = ''reconciling''"
| "ws_text WReclaimed = ''reclaimed''"
| "ws_text WFailed = ''failed''"

fun WORKER_SESSION_PLACEMENT_TRANSITIONS :: "wstate \<Rightarrow> wstate list" where
  "WORKER_SESSION_PLACEMENT_TRANSITIONS WLocal = [WRequested]"
| "WORKER_SESSION_PLACEMENT_TRANSITIONS WRequested = [WProvisioning, WFailed]"
| "WORKER_SESSION_PLACEMENT_TRANSITIONS WProvisioning = [WSyncing, WFailed]"
| "WORKER_SESSION_PLACEMENT_TRANSITIONS WSyncing = [WStarting, WFailed]"
| "WORKER_SESSION_PLACEMENT_TRANSITIONS WStarting = [WActive, WFailed]"
| "WORKER_SESSION_PLACEMENT_TRANSITIONS WActive = [WDraining]"
| "WORKER_SESSION_PLACEMENT_TRANSITIONS WDraining = [WReconciling]"
| "WORKER_SESSION_PLACEMENT_TRANSITIONS WReconciling = [WLocal, WReclaimed, WFailed]"
| "WORKER_SESSION_PLACEMENT_TRANSITIONS WReclaimed = [WRequested]"
| "WORKER_SESSION_PLACEMENT_TRANSITIONS WFailed = []"

definition canTransitionWorkerSessionPlacement :: "wstate \<Rightarrow> wstate \<Rightarrow> bool" where
  "canTransitionWorkerSessionPlacement from to \<longleftrightarrow>
     to \<in> set (WORKER_SESSION_PLACEMENT_TRANSITIONS from)"

subsection \<open>Errors\<close>

text \<open>One constructor per message the placement modules throw; \<open>pfield\<close> is the field it names.\<close>

datatype pfield = FSessionId | FAgentId | FSessionKey | FEnvironmentId | FActiveOwnerEpoch
  | FManifestRef | FRemoteDir | FBundleHash | FTranscriptCursor | FLiveCursor | FRecoveryError
  | FClaimId | FClaimRunId | FClaimOwnerEpoch | FTurnOwnerEnvironment | FTurnOwnerEpoch
  | FStagedResultRef

datatype perr =
    EInvalidState
  | ERequired pfield
  | EPositiveInteger pfield
  | ENonNegativeInteger pfield
  | EGenerationExhausted
  | EClaimCannotSurvive wstate
  | EShape wstate
  | ELocalClaimPlacement
  | EWorkerClaimPlacement
  | EClaimGeneration
  | ELocalClaimEpoch
  | EClaimOwner
  | EUnknownPlacement
  | EIdentityChanged
  | EChanged
  | EActiveTurnClaim
  | ELocalTurnRejected
  | EWorkerTurnRejected
  | ENotReclaimOwned
  | EPendingResult
  | ENoPendingResult
  | EResultNotAccepted
  | EClaimChanged
  | EOwnerChanged
  | ENotWorkerClaim
  | EStaleOwner
  | EManifestInvalid
  | EIllegalTransition wstate wstate
  | EUseStartReconcile
  | ETurnActive
  | ECannotDispatch
  | ECannotFail
  | EJournalChanged
  | EJournalPending
  | EJournalApplied
  | EJournalStale
  | EStagedRefInvalid
  | EAlreadyAccepted
  | EConflictInvalid
  | EOtherGateway
  | ETimeoutInvalid
  | ESqlConstraint
  | EPlan merr
  | EJournalMetadata
  | EJournalSnapshot

fun parseWorkerSessionPlacementState :: "string \<Rightarrow> perr + wstate" where
  "parseWorkerSessionPlacementState value =
     (case map_of WORKER_SESSION_PLACEMENT_STATES value of
        Some s \<Rightarrow> Inr s
      | None \<Rightarrow> Inl EInvalidState)"

lemma parse_ws_text [simp]: "parseWorkerSessionPlacementState (ws_text s) = Inr s"
  by (cases s) (simp_all add: WORKER_SESSION_PLACEMENT_STATES_def)

lemma parse_state_Inr:
  "parseWorkerSessionPlacementState v = Inr s \<Longrightarrow> v = ws_text s"
  by (auto simp: WORKER_SESSION_PLACEMENT_STATES_def split: option.splits if_splits)

lemma ws_text_inject [simp]: "ws_text s = ws_text t \<longleftrightarrow> s = t"
  by (metis parse_ws_text sum.inject(2))

declare parseWorkerSessionPlacementState.simps [simp del]

subsection \<open>Identities, claims, records, patches\<close>

record pidentity =
  i_sessionId :: string
  i_agentId :: string
  i_sessionKey :: string

datatype turn_owner = LocalOwner | WorkerOwner (o_environmentId: string) (o_ownerEpoch: int)

record turn_claim =
  tc_sessionId :: string
  tc_claimId :: string
  tc_runId :: string
  tc_placementGeneration :: int
  tc_owner :: turn_owner

datatype pclaim =
    PLocal (pc_claimId: string) (pc_runId: string) (pc_generation: int)
  | PWorker (pc_claimId: string) (pc_runId: string) (pc_generation: int) (pc_ownerEpoch: int)

record wconflict =
  wc_paths :: "string list"
  wc_stagedResultRef :: string
  wc_totalCount :: int

record placement =
  p_sessionId :: string
  p_agentId :: string
  p_sessionKey :: string
  p_generation :: int
  p_createdAtMs :: int
  p_updatedAtMs :: int
  p_stateChangedAtMs :: int
  p_state :: wstate
  p_turnClaim :: "pclaim option"
  p_environmentId :: "string option"
  p_activeOwnerEpoch :: "int option"
  p_workspaceBaseManifestRef :: "string option"
  p_remoteWorkspaceDir :: "string option"
  p_workerBundleHash :: "string option"
  p_lastTranscriptAckCursor :: "int option"
  p_lastLiveEventAckCursor :: "int option"
  p_recoveryError :: "string option"
  p_workspaceResultConflict :: "wconflict option"

text \<open>A patch field is undefined (\<open>None\<close>), null (\<open>Some None\<close>) or a value.\<close>

record ppatch =
  pp_environmentId :: "string option option"
  pp_activeOwnerEpoch :: "int option option"
  pp_workspaceBaseManifestRef :: "string option option"
  pp_remoteWorkspaceDir :: "string option option"
  pp_workerBundleHash :: "string option option"
  pp_lastTranscriptAckCursor :: "int option option"
  pp_lastLiveEventAckCursor :: "int option option"
  pp_recoveryError :: "string option option"

definition empty_patch :: ppatch where
  "empty_patch = \<lparr>pp_environmentId = None, pp_activeOwnerEpoch = None,
     pp_workspaceBaseManifestRef = None, pp_remoteWorkspaceDir = None,
     pp_workerBundleHash = None, pp_lastTranscriptAckCursor = None,
     pp_lastLiveEventAckCursor = None, pp_recoveryError = None\<rparr>"

subsection \<open>Validators\<close>

definition required :: "string \<Rightarrow> pfield \<Rightarrow> perr + string" where
  "required value field =
     (let normalized = js_trim value
      in if normalized = [] then Inl (ERequired field) else Inr normalized)"

fun nullableRequired :: "string option \<Rightarrow> pfield \<Rightarrow> perr + string option" where
  "nullableRequired None field = Inr None"
| "nullableRequired (Some value) field = bnd (required value field) (\<lambda>v. Inr (Some v))"

definition normalizeEpoch :: "int \<Rightarrow> pfield \<Rightarrow> perr + int" where
  "normalizeEpoch value field =
     (if \<not> js_is_safe value \<or> value < 1 then Inl (EPositiveInteger field) else Inr value)"

fun normalizeCursor :: "int option \<Rightarrow> pfield \<Rightarrow> perr + int option" where
  "normalizeCursor None field = Inr None"
| "normalizeCursor (Some value) field =
     (if \<not> js_is_safe value \<or> value < 0 then Inl (ENonNegativeInteger field)
      else Inr (Some value))"

fun advanceCursor :: "int option \<Rightarrow> int option \<Rightarrow> pfield \<Rightarrow> perr + int option" where
  "advanceCursor current None field = Inr current"
| "advanceCursor current (Some value) field =
     bnd (normalizeCursor (Some value) field) (\<lambda>next.
       (case (next, current) of
          (None, _) \<Rightarrow> Inr current
        | (Some n, None) \<Rightarrow> Inr (Some n)
        | (Some n, Some c) \<Rightarrow> Inr (Some (max c n))))"

definition normalizeIdentity :: "pidentity \<Rightarrow> perr + pidentity" where
  "normalizeIdentity input =
     bnd (required (i_sessionId input) FSessionId) (\<lambda>sessionId.
     bnd (required (i_agentId input) FAgentId) (\<lambda>agentId.
     bnd (required (i_sessionKey input) FSessionKey) (\<lambda>sessionKey.
       Inr \<lparr>i_sessionId = sessionId, i_agentId = agentId, i_sessionKey = sessionKey\<rparr>)))"

definition nextGeneration :: "int \<Rightarrow> perr + int" where
  "nextGeneration generation =
     (let n = generation + 1
      in if \<not> js_is_safe n then Inl EGenerationExhausted else Inr n)"

fun localTurnClaimForState :: "pclaim option \<Rightarrow> wstate \<Rightarrow> perr + pclaim option" where
  "localTurnClaimForState (Some (PWorker c r g e)) state = Inl (EClaimCannotSurvive state)"
| "localTurnClaimForState turnClaim state = Inr turnClaim"

fun workerTurnClaimForState :: "pclaim option \<Rightarrow> wstate \<Rightarrow> perr + pclaim option" where
  "workerTurnClaimForState (Some (PLocal c r g)) state = Inl (EClaimCannotSurvive state)"
| "workerTurnClaimForState turnClaim state = Inr turnClaim"

fun unclaimedTurnForState :: "pclaim option \<Rightarrow> wstate \<Rightarrow> perr + pclaim option" where
  "unclaimedTurnForState (Some c) state = Inl (EClaimCannotSurvive state)"
| "unclaimedTurnForState None state = Inr None"

record shape =
  s_state :: wstate
  s_environmentId :: "string option"
  s_activeOwnerEpoch :: "int option"
  s_workspaceBaseManifestRef :: "string option"
  s_remoteWorkspaceDir :: "string option"
  s_workerBundleHash :: "string option"
  s_lastTranscriptAckCursor :: "int option"
  s_lastLiveEventAckCursor :: "int option"
  s_recoveryError :: "string option"
  s_turnClaim :: "pclaim option"

text \<open>
  \<open>shape_metadata\<close> is the \<^verbatim>\<open>if\<close> chain over the states, \<open>shape_claim\<close> the two
  claim checks after it; \<open>assertRecordShape\<close> runs them in order.
\<close>

definition shape_metadata :: "shape \<Rightarrow> perr + unit" where
  "shape_metadata r =
     (if s_state r = WLocal \<or> s_state r = WRequested then
        (if s_environmentId r \<noteq> None \<or> s_activeOwnerEpoch r \<noteq> None
            \<or> s_workspaceBaseManifestRef r \<noteq> None \<or> s_remoteWorkspaceDir r \<noteq> None
            \<or> s_workerBundleHash r \<noteq> None \<or> s_lastTranscriptAckCursor r \<noteq> None
            \<or> s_lastLiveEventAckCursor r \<noteq> None \<or> s_recoveryError r \<noteq> None
         then Inl (EShape (s_state r)) else Inr ())
      else if s_state r = WProvisioning then
        (if s_activeOwnerEpoch r \<noteq> None
            \<or> s_workspaceBaseManifestRef r \<noteq> None \<or> s_remoteWorkspaceDir r \<noteq> None
            \<or> s_workerBundleHash r \<noteq> None \<or> s_lastTranscriptAckCursor r \<noteq> None
            \<or> s_lastLiveEventAckCursor r \<noteq> None \<or> s_recoveryError r \<noteq> None
         then Inl (EShape (s_state r)) else Inr ())
      else if s_state r = WSyncing then
        (if \<not> truthy_str (s_environmentId r) \<or> s_activeOwnerEpoch r \<noteq> None
            \<or> s_workspaceBaseManifestRef r \<noteq> None \<or> s_remoteWorkspaceDir r \<noteq> None
            \<or> \<not> truthy_str (s_workerBundleHash r) \<or> s_lastTranscriptAckCursor r \<noteq> None
            \<or> s_lastLiveEventAckCursor r \<noteq> None \<or> s_recoveryError r \<noteq> None
         then Inl (EShape (s_state r)) else Inr ())
      else if s_state r = WStarting then
        (if \<not> truthy_str (s_environmentId r) \<or> s_activeOwnerEpoch r \<noteq> None
            \<or> \<not> truthy_str (s_workspaceBaseManifestRef r)
            \<or> \<not> truthy_str (s_remoteWorkspaceDir r)
            \<or> \<not> truthy_str (s_workerBundleHash r) \<or> s_lastTranscriptAckCursor r \<noteq> None
            \<or> s_lastLiveEventAckCursor r \<noteq> None \<or> s_recoveryError r \<noteq> None
         then Inl (EShape (s_state r)) else Inr ())
      else if s_state r = WActive \<or> s_state r = WDraining \<or> s_state r = WReconciling
           \<or> s_state r = WReclaimed then
        (case s_activeOwnerEpoch r of
           None \<Rightarrow> Inl (EShape (s_state r))
         | Some e \<Rightarrow>
             (if \<not> truthy_str (s_environmentId r)
                 \<or> \<not> truthy_str (s_workspaceBaseManifestRef r)
                 \<or> \<not> truthy_str (s_remoteWorkspaceDir r)
                 \<or> \<not> truthy_str (s_workerBundleHash r) \<or> s_recoveryError r \<noteq> None
              then Inl (EShape (s_state r))
              else bnd (normalizeEpoch e FActiveOwnerEpoch) (\<lambda>_. Inr ())))
      else if \<not> truthy_str (s_recoveryError r) then Inl (EShape (s_state r))
      else Inr ())"

definition shape_claim :: "shape \<Rightarrow> perr + unit" where
  "shape_claim r =
     (case s_turnClaim r of
        None \<Rightarrow> Inr ()
      | Some (PLocal c rid g) \<Rightarrow>
          (if s_state r \<noteq> WLocal \<and> s_state r \<noteq> WRequested \<and> s_state r \<noteq> WFailed
           then Inl ELocalClaimPlacement else Inr ())
      | Some (PWorker c rid g epoch) \<Rightarrow>
          (if \<not> (s_state r = WActive \<or> s_state r = WDraining)
              \<or> s_activeOwnerEpoch r \<noteq> Some epoch
           then Inl EWorkerClaimPlacement else Inr ()))"

definition assertRecordShape :: "shape \<Rightarrow> perr + unit" where
  "assertRecordShape r = bnd (shape_metadata r) (\<lambda>_. shape_claim r)"

subsection \<open>Facts about the validators\<close>

definition clean_str :: "string option \<Rightarrow> bool" where
  "clean_str x = (case x of None \<Rightarrow> True | Some s \<Rightarrow> s \<noteq> [] \<and> js_trim s = s)"

lemma clean_str_simps [simp]:
  "clean_str None" "clean_str (Some s) \<longleftrightarrow> s \<noteq> [] \<and> js_trim s = s"
  by (simp_all add: clean_str_def)

lemma required_Inr:
  "required v f = Inr s \<longleftrightarrow> s = js_trim v \<and> s \<noteq> []"
  by (auto simp: required_def Let_def)

lemma required_clean: "required v f = Inr s \<Longrightarrow> clean_str (Some s)"
  by (auto simp: required_Inr)

lemma required_stored: "clean_str (Some s) \<Longrightarrow> required s f = Inr s"
  by (simp add: required_Inr)

lemma nullableRequired_stored: "clean_str x \<Longrightarrow> nullableRequired x f = Inr x"
  by (cases x) (auto simp: required_stored)

lemma nullableRequired_clean: "nullableRequired x f = Inr y \<Longrightarrow> clean_str y"
  by (cases x) (auto dest: required_clean)

definition epoch_ok :: "int option \<Rightarrow> bool" where
  "epoch_ok x = (case x of None \<Rightarrow> True | Some e \<Rightarrow> js_is_safe e \<and> 1 \<le> e)"

definition cursor_ok :: "int option \<Rightarrow> bool" where
  "cursor_ok x = (case x of None \<Rightarrow> True | Some e \<Rightarrow> js_is_safe e \<and> 0 \<le> e)"

lemma epoch_ok_simps [simp]:
  "epoch_ok None" "epoch_ok (Some e) \<longleftrightarrow> js_is_safe e \<and> 1 \<le> e"
  by (simp_all add: epoch_ok_def)

lemma cursor_ok_simps [simp]:
  "cursor_ok None" "cursor_ok (Some e) \<longleftrightarrow> js_is_safe e \<and> 0 \<le> e"
  by (simp_all add: cursor_ok_def)

lemma normalizeEpoch_Inr: "normalizeEpoch v f = Inr e \<longleftrightarrow> e = v \<and> epoch_ok (Some e)"
  by (auto simp: normalizeEpoch_def)

lemma normalizeCursor_Inr: "normalizeCursor x f = Inr y \<longleftrightarrow> y = x \<and> cursor_ok x"
  by (cases x) auto

lemma nextGeneration_Inr: "nextGeneration g = Inr n \<longleftrightarrow> n = g + 1 \<and> js_is_safe n"
  by (auto simp: nextGeneration_def Let_def)

lemma advanceCursor_Inr:
  assumes "advanceCursor c v f = Inr n" "cursor_ok c"
  shows "cursor_ok n \<and> (\<forall>a. c = Some a \<longrightarrow> (\<exists>b. n = Some b \<and> a \<le> b))"
  using assms
  by (cases v; cases c) (auto simp: max_def split: if_splits)

lemmas validator_facts =
  required_Inr normalizeEpoch_Inr normalizeCursor_Inr nextGeneration_Inr

text \<open>
  What an accepted shape says, state by state: the statement the CHECK clauses of the table
  make as well.
\<close>

definition owned_shape :: "shape \<Rightarrow> bool" where
  "owned_shape r \<longleftrightarrow> truthy_str (s_environmentId r) \<and> s_activeOwnerEpoch r \<noteq> None
     \<and> truthy_str (s_workspaceBaseManifestRef r) \<and> truthy_str (s_remoteWorkspaceDir r)
     \<and> truthy_str (s_workerBundleHash r) \<and> s_recoveryError r = None"

lemma shape_claim_worker:
  assumes "assertRecordShape r = Inr ()" "s_turnClaim r = Some (PWorker c rid g e)"
  shows "(s_state r = WActive \<or> s_state r = WDraining) \<and> s_activeOwnerEpoch r = Some e"
  using assms by (auto simp: assertRecordShape_def shape_claim_def)

lemma shape_claim_local:
  assumes "assertRecordShape r = Inr ()" "s_turnClaim r = Some (PLocal c rid g)"
  shows "s_state r = WLocal \<or> s_state r = WRequested \<or> s_state r = WFailed"
  using assms by (auto simp: assertRecordShape_def shape_claim_def)

lemma shape_owned:
  assumes "assertRecordShape r = Inr ()"
    and "s_state r \<in> {WActive, WDraining, WReconciling, WReclaimed}"
  shows "owned_shape r \<and> epoch_ok (s_activeOwnerEpoch r)"
  using assms
  by (auto simp: assertRecordShape_def shape_metadata_def owned_shape_def normalizeEpoch_Inr
      split: option.splits)

end
