(* ===== verification/Sql_Table.thy ===== *)
theory Sql_Table
  imports Js_Prelude
begin

section \<open>Tables with a primary key\<close>

text \<open>
  What the placement modules use of SQLite through \<^verbatim>\<open>node:sqlite\<close>: a table is the
  list of its rows in row order; \<^verbatim>\<open>SELECT\<close> filters it,
  \<^verbatim>\<open>UPDATE ... SET ... WHERE\<close> rewrites the matching rows and reports how many there
  were, \<^verbatim>\<open>DELETE\<close> drops them, \<^verbatim>\<open>INSERT\<close> refuses a second row with the
  same key. A row that breaks the table's \<^verbatim>\<open>CHECK\<close> clauses makes the statement
  throw. The locale \<open>keyed_table\<close> states what the operations of a table promise a client that
  always names the row by its key; the placement, journal and pending-result tables
  interpret it.
\<close>

type_synonym 'r table = "'r list"

datatype sql_error = CheckFailed | UniqueFailed

definition sql_select :: "('r \<Rightarrow> bool) \<Rightarrow> 'r table \<Rightarrow> 'r list" where
  "sql_select w t = filter w t"

definition sql_first :: "('r \<Rightarrow> bool) \<Rightarrow> 'r table \<Rightarrow> 'r option" where
  "sql_first w t = (case sql_select w t of [] \<Rightarrow> None | r # _ \<Rightarrow> Some r)"

definition sql_update ::
    "('r \<Rightarrow> bool) \<Rightarrow> ('r \<Rightarrow> bool) \<Rightarrow> ('r \<Rightarrow> 'r) \<Rightarrow> 'r table \<Rightarrow> sql_error + ('r table \<times> nat)" where
  "sql_update chk w f t =
     (if list_all (\<lambda>r. w r \<longrightarrow> chk (f r)) t
      then Inr (map (\<lambda>r. if w r then f r else r) t, length (sql_select w t))
      else Inl CheckFailed)"

definition sql_delete :: "('r \<Rightarrow> bool) \<Rightarrow> 'r table \<Rightarrow> 'r table \<times> nat" where
  "sql_delete w t = (filter (\<lambda>r. \<not> w r) t, length (sql_select w t))"

definition sql_insert ::
    "('r \<Rightarrow> 'k) \<Rightarrow> ('r \<Rightarrow> bool) \<Rightarrow> 'r \<Rightarrow> 'r table \<Rightarrow> sql_error + 'r table" where
  "sql_insert key chk r t =
     (if \<not> chk r then Inl CheckFailed
      else if key r \<in> key ` set t then Inl UniqueFailed
      else Inr (t @ [r]))"

text \<open>\<^verbatim>\<open>ON CONFLICT (key) DO NOTHING\<close>: the number of rows inserted is 0 or 1.\<close>

definition sql_insert_ignore ::
    "('r \<Rightarrow> 'k) \<Rightarrow> ('r \<Rightarrow> bool) \<Rightarrow> 'r \<Rightarrow> 'r table \<Rightarrow> sql_error + ('r table \<times> nat)" where
  "sql_insert_ignore key chk r t =
     (if \<not> chk r then Inl CheckFailed
      else if key r \<in> key ` set t then Inr (t, 0)
      else Inr (t @ [r], 1))"

definition table_ok :: "('r \<Rightarrow> 'k) \<Rightarrow> ('r \<Rightarrow> bool) \<Rightarrow> 'r table \<Rightarrow> bool" where
  "table_ok key chk t \<longleftrightarrow> distinct (map key t) \<and> list_all chk t"

definition row_of :: "('r \<Rightarrow> 'k) \<Rightarrow> 'r table \<Rightarrow> 'k \<Rightarrow> 'r option" where
  "row_of key t k = sql_first (\<lambda>r. key r = k) t"

subsection \<open>The interface\<close>

text \<open>
  \<open>look\<close> reads the row of a key; \<open>upd\<close>, \<open>del\<close>, \<open>ins\<close> are the statements; \<open>inv\<close> is what
  every statement keeps.
\<close>

locale keyed_table =
  fixes key :: "'r \<Rightarrow> 'k"
    and look :: "'t \<Rightarrow> 'k \<Rightarrow> 'r option"
    and upd :: "('r \<Rightarrow> bool) \<Rightarrow> ('r \<Rightarrow> 'r) \<Rightarrow> 't \<Rightarrow> 'e + ('t \<times> nat)"
    and del :: "('r \<Rightarrow> bool) \<Rightarrow> 't \<Rightarrow> 't \<times> nat"
    and ins :: "'r \<Rightarrow> 't \<Rightarrow> 'e + 't"
    and inv :: "'t \<Rightarrow> bool"
  assumes look_key: "look t k = Some r \<Longrightarrow> key r = k"
    and upd_look: "\<lbrakk>inv t; upd w f t = Inr (t', n); \<And>r. w r \<Longrightarrow> key (f r) = key r\<rbrakk> \<Longrightarrow>
        look t' k = map_option (\<lambda>r. if w r then f r else r) (look t k)"
    and upd_count: "\<lbrakk>inv t; upd w f t = Inr (t', n); \<And>r. w r \<Longrightarrow> key r = k\<rbrakk> \<Longrightarrow>
        n = (case look t k of None \<Rightarrow> 0 | Some r \<Rightarrow> if w r then 1 else 0)"
    and upd_inv: "\<lbrakk>inv t; upd w f t = Inr (t', n); \<And>r. w r \<Longrightarrow> key (f r) = key r\<rbrakk> \<Longrightarrow> inv t'"
    and del_look: "inv t \<Longrightarrow> look (fst (del w t)) k =
        (case look t k of None \<Rightarrow> None | Some r \<Rightarrow> if w r then None else Some r)"
    and del_inv: "inv t \<Longrightarrow> inv (fst (del w t))"
    and ins_look: "ins r t = Inr t' \<Longrightarrow>
        look t (key r) = None \<and> look t' k = (if k = key r then Some r else look t k)"
    and ins_inv: "inv t \<Longrightarrow> ins r t = Inr t' \<Longrightarrow> inv t'"
begin

text \<open>A guarded update that names one key and reports one row found that row and rewrote it.\<close>

lemma upd_one:
  assumes "inv t" "upd w f t = Inr (t', 1)"
    and "\<And>r. w r \<Longrightarrow> key r = k" "\<And>r. w r \<Longrightarrow> key (f r) = key r"
  obtains r where "look t k = Some r" "w r" "look t' k = Some (f r)"
    "\<And>j. j \<noteq> k \<Longrightarrow> look t' j = look t j" "inv t'"
proof -
  from upd_count [OF assms(1,2) assms(3)] obtain r where r: "look t k = Some r" "w r"
    by (auto split: option.splits if_splits)
  have l: "look t' j = map_option (\<lambda>r. if w r then f r else r) (look t j)" for j
    using upd_look [OF assms(1,2) assms(4)] .
  have other: "look t' j = look t j" if "j \<noteq> k" for j
    using l [of j] that assms(3) look_key [of t j] by (cases "look t j") auto
  have "look t' k = Some (f r)" using l [of k] r by simp
  moreover have "inv t'" using upd_inv [OF assms(1,2) assms(4)] .
  ultimately show thesis using that r other by blast
qed

lemma del_other:
  "inv t \<Longrightarrow> (\<And>r. w r \<Longrightarrow> key r = k) \<Longrightarrow> j \<noteq> k \<Longrightarrow> look (fst (del w t)) j = look t j"
  using look_key by (fastforce simp: del_look split: option.splits)

end

subsection \<open>Lists of rows implement it\<close>

lemma row_of_simps [simp]:
  "row_of key [] k = None"
  "row_of key (r # t) k = (if key r = k then Some r else row_of key t k)"
  by (simp_all add: row_of_def sql_first_def sql_select_def)

lemma row_of_key: "row_of key t k = Some r \<Longrightarrow> key r = k"
  by (induction t) (auto split: if_splits)

lemma row_of_in: "row_of key t k = Some r \<Longrightarrow> r \<in> set t"
  by (induction t) (auto split: if_splits)

lemma row_of_None: "row_of key t k = None \<longleftrightarrow> k \<notin> key ` set t"
  by (induction t) auto

lemma row_of_iff:
  "distinct (map key t) \<Longrightarrow> row_of key t k = Some r \<longleftrightarrow> r \<in> set t \<and> key r = k"
  by (induction t) (auto simp: image_iff)

lemma row_of_append: "row_of key (t @ u) k =
    (case row_of key t k of None \<Rightarrow> row_of key u k | Some r \<Rightarrow> Some r)"
  by (induction t) auto

lemma row_of_map:
  "(\<And>r. w r \<Longrightarrow> key (f r) = key r) \<Longrightarrow>
   row_of key (map (\<lambda>r. if w r then f r else r) t) k =
     map_option (\<lambda>r. if w r then f r else r) (row_of key t k)"
  by (induction t) auto

lemma row_of_filter:
  "distinct (map key t) \<Longrightarrow> row_of key (filter (\<lambda>r. \<not> w r) t) k =
     (case row_of key t k of None \<Rightarrow> None | Some r \<Rightarrow> if w r then None else Some r)"
proof (induction t)
  case (Cons r t)
  have "key r = k \<Longrightarrow> row_of key t k = None"
    using Cons.prems by (auto simp: row_of_None)
  with Cons show ?case by (auto split: option.splits)
qed simp

lemma length_select_key:
  "distinct (map key t) \<Longrightarrow> (\<And>r. w r \<Longrightarrow> key r = k) \<Longrightarrow>
   length (sql_select w t) = (case row_of key t k of None \<Rightarrow> 0 | Some r \<Rightarrow> if w r then 1 else 0)"
proof (induction t)
  case Nil
  then show ?case by (simp add: sql_select_def)
next
  case (Cons r t)
  have "key r = k \<Longrightarrow> row_of key t k = None"
    using Cons.prems(1) by (auto simp: row_of_None)
  with Cons show ?case
    by (auto simp: sql_select_def split: option.splits)
qed

lemma map_key_update:
  "(\<And>r. w r \<Longrightarrow> key (f r) = key r) \<Longrightarrow> map key (map (\<lambda>r. if w r then f r else r) t) = map key t"
  by (induction t) auto

lemma keyed_table_list:
  "keyed_table key (row_of key) (sql_update chk) sql_delete (sql_insert key chk) (table_ok key chk)"
proof (unfold_locales, goal_cases)
  case (1 t k r)
  then show ?case by (rule row_of_key)
next
  case (2 t w f t' n k)
  then show ?case by (auto simp: sql_update_def row_of_map simp del: map_map split: if_splits)
next
  case (3 t w f t' n k)
  then show ?case
    by (auto simp: sql_update_def table_ok_def length_select_key split: if_splits)
next
  case (4 t w f t' n)
  then show ?case
    by (auto simp: sql_update_def table_ok_def map_key_update list_all_iff simp del: map_map
        split: if_splits)
next
  case (5 t w k)
  then show ?case by (simp add: sql_delete_def table_ok_def row_of_filter)
next
  case (6 t w)
  then show ?case
    by (auto simp: sql_delete_def table_ok_def list_all_iff distinct_map_filter)
next
  case (7 r t t' k)
  then show ?case
    using row_of_None [of key t "key r"]
    by (auto simp: sql_insert_def row_of_append split: if_splits option.splits)
next
  case (8 t r t')
  then show ?case by (auto simp: sql_insert_def table_ok_def split: if_splits)
qed

lemma sql_first_row_of: "sql_first (\<lambda>r. key r = k) t = row_of key t k"
  by (simp add: row_of_def)

end
