(* ===== verification/Placement_Codec.thy ===== *)
theory Placement_Codec
  imports Placement_Record Sql_Table Json
begin

section \<open>The placement table and its codec\<close>

text \<open>
  \<^verbatim>\<open>placement-row-codec.ts\<close> and the table definition in
  \<^verbatim>\<open>src/state/openclaw-state-schema.sql\<close>: rows, the CHECK clauses, the parser
  \<open>fromRow\<close> that every read goes through, and the values a transition writes. The database of
  the model holds the three tables of the placement modules.
\<close>

subsection \<open>Rows\<close>

record prow =
  session_id :: string
  agent_id :: string
  session_key :: string
  state :: string
  environment_id :: "string option"
  transition_generation :: int
  active_owner_epoch :: "int option"
  workspace_base_manifest_ref :: "string option"
  remote_workspace_dir :: "string option"
  worker_bundle_hash :: "string option"
  last_transcript_ack_cursor :: "int option"
  last_live_event_ack_cursor :: "int option"
  recovery_error :: "string option"
  turn_claim_owner :: "string option"
  turn_claim_id :: "string option"
  turn_claim_run_id :: "string option"
  turn_claim_generation :: "int option"
  turn_claim_owner_epoch :: "int option"
  created_at_ms :: int
  updated_at_ms :: int
  state_changed_at_ms :: int

text \<open>The journal of one workspace reconciliation: the plan column holds JSON.\<close>

record jrow =
  j_session_id :: string
  j_environment_id :: string
  j_owner_epoch :: int
  j_placement_generation :: int
  j_base_manifest_ref :: string
  j_current_manifest_ref :: string
  j_plan_json :: json
  j_base_pack :: string
  j_created_at_ms :: int

record wrow =
  w_session_id :: string
  w_environment_id :: string
  w_owner_epoch :: int
  w_placement_generation :: int
  w_claim_id :: string
  w_run_id :: string
  w_gateway_instance_id :: string
  w_recovery_requested_at_ms :: "int option"
  w_workspace_accepted_at_ms :: "int option"
  w_staged_result_ref :: "string option"
  w_created_at_ms :: int

record pdb =
  placements :: "prow table"
  journals :: "jrow table"
  pendings :: "wrow table"

subsection \<open>CHECK clauses of worker_session_placements\<close>

definition check_columns :: "prow \<Rightarrow> bool" where
  "check_columns r \<longleftrightarrow>
     state r \<in> set (map fst WORKER_SESSION_PLACEMENT_STATES)
   \<and> 0 \<le> transition_generation r
   \<and> (case active_owner_epoch r of None \<Rightarrow> True | Some e \<Rightarrow> 1 \<le> e)
   \<and> (case last_transcript_ack_cursor r of None \<Rightarrow> True | Some c \<Rightarrow> 0 \<le> c)
   \<and> (case last_live_event_ack_cursor r of None \<Rightarrow> True | Some c \<Rightarrow> 0 \<le> c)
   \<and> (case turn_claim_owner r of None \<Rightarrow> True | Some x \<Rightarrow> x \<in> {''local'', ''worker''})
   \<and> (case turn_claim_generation r of None \<Rightarrow> True | Some g \<Rightarrow> 0 \<le> g)
   \<and> (case turn_claim_owner_epoch r of None \<Rightarrow> True | Some e \<Rightarrow> 1 \<le> e)"

definition check_state_shape :: "prow \<Rightarrow> bool" where
  "check_state_shape r \<longleftrightarrow>
     (state r \<in> {''local'', ''requested''}
      \<and> environment_id r = None \<and> active_owner_epoch r = None
      \<and> workspace_base_manifest_ref r = None \<and> remote_workspace_dir r = None
      \<and> worker_bundle_hash r = None
      \<and> last_transcript_ack_cursor r = None \<and> last_live_event_ack_cursor r = None
      \<and> recovery_error r = None)
   \<or> (state r = ''provisioning''
      \<and> active_owner_epoch r = None
      \<and> workspace_base_manifest_ref r = None \<and> remote_workspace_dir r = None
      \<and> worker_bundle_hash r = None
      \<and> last_transcript_ack_cursor r = None \<and> last_live_event_ack_cursor r = None
      \<and> recovery_error r = None)
   \<or> (state r = ''syncing''
      \<and> environment_id r \<noteq> None \<and> active_owner_epoch r = None
      \<and> workspace_base_manifest_ref r = None \<and> remote_workspace_dir r = None
      \<and> worker_bundle_hash r \<noteq> None
      \<and> last_transcript_ack_cursor r = None \<and> last_live_event_ack_cursor r = None
      \<and> recovery_error r = None)
   \<or> (state r = ''starting''
      \<and> environment_id r \<noteq> None \<and> active_owner_epoch r = None
      \<and> workspace_base_manifest_ref r \<noteq> None \<and> remote_workspace_dir r \<noteq> None
      \<and> worker_bundle_hash r \<noteq> None
      \<and> last_transcript_ack_cursor r = None \<and> last_live_event_ack_cursor r = None
      \<and> recovery_error r = None)
   \<or> (state r \<in> {''active'', ''draining'', ''reconciling''}
      \<and> environment_id r \<noteq> None \<and> active_owner_epoch r \<noteq> None
      \<and> workspace_base_manifest_ref r \<noteq> None \<and> remote_workspace_dir r \<noteq> None
      \<and> worker_bundle_hash r \<noteq> None \<and> recovery_error r = None)
   \<or> (state r = ''reclaimed''
      \<and> environment_id r \<noteq> None \<and> active_owner_epoch r \<noteq> None
      \<and> workspace_base_manifest_ref r \<noteq> None \<and> remote_workspace_dir r \<noteq> None
      \<and> worker_bundle_hash r \<noteq> None \<and> recovery_error r = None
      \<and> turn_claim_owner r = None \<and> turn_claim_id r = None \<and> turn_claim_run_id r = None
      \<and> turn_claim_generation r = None \<and> turn_claim_owner_epoch r = None)
   \<or> (state r = ''failed'' \<and> recovery_error r \<noteq> None)"

definition check_claim_shape :: "prow \<Rightarrow> bool" where
  "check_claim_shape r \<longleftrightarrow>
     (turn_claim_owner r = None \<and> turn_claim_id r = None \<and> turn_claim_run_id r = None
      \<and> turn_claim_generation r = None \<and> turn_claim_owner_epoch r = None)
   \<or> (turn_claim_owner r = Some ''local'' \<and> turn_claim_id r \<noteq> None
      \<and> turn_claim_run_id r \<noteq> None \<and> turn_claim_generation r \<noteq> None
      \<and> turn_claim_owner_epoch r = None)
   \<or> (turn_claim_owner r = Some ''worker'' \<and> turn_claim_id r \<noteq> None
      \<and> turn_claim_run_id r \<noteq> None \<and> turn_claim_generation r \<noteq> None
      \<and> turn_claim_owner_epoch r \<noteq> None)"

definition check_claim_state :: "prow \<Rightarrow> bool" where
  "check_claim_state r \<longleftrightarrow>
     turn_claim_owner r = None
   \<or> (turn_claim_owner r = Some ''local'' \<and> state r \<in> {''local'', ''requested'', ''failed''})
   \<or> (turn_claim_owner r = Some ''worker'' \<and> state r \<in> {''active'', ''draining''}
      \<and> turn_claim_owner_epoch r = active_owner_epoch r)"

definition placement_check :: "prow \<Rightarrow> bool" where
  "placement_check r \<longleftrightarrow>
     check_columns r \<and> check_state_shape r \<and> check_claim_shape r \<and> check_claim_state r"

definition journal_check :: "jrow \<Rightarrow> bool" where
  "journal_check r \<longleftrightarrow> 1 \<le> j_owner_epoch r \<and> 0 \<le> j_placement_generation r
     \<and> length (j_base_pack r) \<le> 268435456"

definition pending_check :: "wrow \<Rightarrow> bool" where
  "pending_check r \<longleftrightarrow> 1 \<le> w_owner_epoch r \<and> 0 \<le> w_placement_generation r"

text \<open>The statements on the three tables; a broken CHECK clause throws.\<close>

fun sql_lift :: "sql_error + 'a \<Rightarrow> perr + 'a" where
  "sql_lift (Inl e) = Inl ESqlConstraint"
| "sql_lift (Inr x) = Inr x"

lemma sql_lift_Inr [simp]: "sql_lift m = Inr x \<longleftrightarrow> m = Inr x"
  by (cases m) auto

interpretation pt: keyed_table session_id "row_of session_id" "sql_update placement_check"
    sql_delete "sql_insert session_id placement_check" "table_ok session_id placement_check"
  by (rule keyed_table_list)

interpretation jt: keyed_table j_session_id "row_of j_session_id" "sql_update journal_check"
    sql_delete "sql_insert j_session_id journal_check" "table_ok j_session_id journal_check"
  by (rule keyed_table_list)

interpretation wt: keyed_table w_session_id "row_of w_session_id" "sql_update pending_check"
    sql_delete "sql_insert w_session_id pending_check" "table_ok w_session_id pending_check"
  by (rule keyed_table_list)

subsection \<open>Reading a row\<close>

definition parseTurnClaim :: "prow \<Rightarrow> perr + pclaim option" where
  "parseTurnClaim row =
     (case turn_claim_owner row of
        None \<Rightarrow> Inr None
      | Some own \<Rightarrow>
          bnd (required (case turn_claim_id row of None \<Rightarrow> [] | Some s \<Rightarrow> s) FClaimId) (\<lambda>claimId.
          bnd (required (case turn_claim_run_id row of None \<Rightarrow> [] | Some s \<Rightarrow> s) FClaimRunId)
            (\<lambda>runId.
          (case turn_claim_generation row of
             None \<Rightarrow> Inl EClaimGeneration
           | Some generation \<Rightarrow>
               (if \<not> js_is_safe generation \<or> generation < 0 then Inl EClaimGeneration
                else if own = ''local'' then
                  (if turn_claim_owner_epoch row \<noteq> None then Inl ELocalClaimEpoch
                   else Inr (Some (PLocal claimId runId generation)))
                else if own = ''worker'' then
                  bnd (normalizeEpoch
                        (case turn_claim_owner_epoch row of None \<Rightarrow> 0 | Some e \<Rightarrow> e)
                        FClaimOwnerEpoch)
                    (\<lambda>epoch. Inr (Some (PWorker claimId runId generation epoch)))
                else Inl EClaimOwner)))))"

record worker_meta =
  m_environmentId :: "string option"
  m_activeOwnerEpoch :: "int option"
  m_workspaceBaseManifestRef :: "string option"
  m_remoteWorkspaceDir :: "string option"
  m_workerBundleHash :: "string option"
  m_lastTranscriptAckCursor :: "int option"
  m_lastLiveEventAckCursor :: "int option"

definition EMPTY_WORKER_METADATA :: worker_meta where
  "EMPTY_WORKER_METADATA = \<lparr>m_environmentId = None, m_activeOwnerEpoch = None,
     m_workspaceBaseManifestRef = None, m_remoteWorkspaceDir = None,
     m_workerBundleHash = None, m_lastTranscriptAckCursor = None,
     m_lastLiveEventAckCursor = None\<rparr>"

definition ownedWorkerMetadata :: "worker_meta \<Rightarrow> wstate \<Rightarrow> perr + worker_meta" where
  "ownedWorkerMetadata parsed st =
     (if m_environmentId parsed = None \<or> m_activeOwnerEpoch parsed = None
         \<or> m_workspaceBaseManifestRef parsed = None \<or> m_remoteWorkspaceDir parsed = None
         \<or> m_workerBundleHash parsed = None
      then Inl (EShape st) else Inr parsed)"

text \<open>The parsed columns, in the order the reader validates them.\<close>

definition parse_worker_meta :: "prow \<Rightarrow> perr + worker_meta" where
  "parse_worker_meta row =
     bnd (nullableRequired (environment_id row) FEnvironmentId) (\<lambda>env.
     bnd (case active_owner_epoch row of None \<Rightarrow> Inr None
          | Some e \<Rightarrow> bnd (normalizeEpoch e FActiveOwnerEpoch) (\<lambda>e'. Inr (Some e'))) (\<lambda>epoch.
     bnd (nullableRequired (workspace_base_manifest_ref row) FManifestRef) (\<lambda>manifest.
     bnd (nullableRequired (remote_workspace_dir row) FRemoteDir) (\<lambda>dir.
     bnd (nullableRequired (worker_bundle_hash row) FBundleHash) (\<lambda>bundle.
     bnd (normalizeCursor (last_transcript_ack_cursor row) FTranscriptCursor) (\<lambda>tc.
     bnd (normalizeCursor (last_live_event_ack_cursor row) FLiveCursor) (\<lambda>lc.
       Inr \<lparr>m_environmentId = env, m_activeOwnerEpoch = epoch,
            m_workspaceBaseManifestRef = manifest, m_remoteWorkspaceDir = dir,
            m_workerBundleHash = bundle, m_lastTranscriptAckCursor = tc,
            m_lastLiveEventAckCursor = lc\<rparr>)))))))"

definition placement_of ::
    "prow \<Rightarrow> wstate \<Rightarrow> pclaim option \<Rightarrow> worker_meta \<Rightarrow> string option \<Rightarrow> placement" where
  "placement_of row st claim m err =
     \<lparr>p_sessionId = session_id row, p_agentId = agent_id row, p_sessionKey = session_key row,
      p_generation = transition_generation row, p_createdAtMs = created_at_ms row,
      p_updatedAtMs = updated_at_ms row, p_stateChangedAtMs = state_changed_at_ms row,
      p_state = st, p_turnClaim = claim,
      p_environmentId = m_environmentId m, p_activeOwnerEpoch = m_activeOwnerEpoch m,
      p_workspaceBaseManifestRef = m_workspaceBaseManifestRef m,
      p_remoteWorkspaceDir = m_remoteWorkspaceDir m,
      p_workerBundleHash = m_workerBundleHash m,
      p_lastTranscriptAckCursor = m_lastTranscriptAckCursor m,
      p_lastLiveEventAckCursor = m_lastLiveEventAckCursor m,
      p_recoveryError = err, p_workspaceResultConflict = None\<rparr>"

definition shape_of :: "wstate \<Rightarrow> worker_meta \<Rightarrow> string option \<Rightarrow> pclaim option \<Rightarrow> shape" where
  "shape_of st m err claim =
     \<lparr>s_state = st, s_environmentId = m_environmentId m,
      s_activeOwnerEpoch = m_activeOwnerEpoch m,
      s_workspaceBaseManifestRef = m_workspaceBaseManifestRef m,
      s_remoteWorkspaceDir = m_remoteWorkspaceDir m,
      s_workerBundleHash = m_workerBundleHash m,
      s_lastTranscriptAckCursor = m_lastTranscriptAckCursor m,
      s_lastLiveEventAckCursor = m_lastLiveEventAckCursor m,
      s_recoveryError = err, s_turnClaim = claim\<rparr>"

text \<open>The \<^verbatim>\<open>switch\<close> at the end of \<^verbatim>\<open>fromRow\<close>, state by state.\<close>

fun build_record ::
    "prow \<Rightarrow> wstate \<Rightarrow> worker_meta \<Rightarrow> string option \<Rightarrow> pclaim option \<Rightarrow> perr + placement" where
  "build_record row WLocal m err claim =
     bnd (localTurnClaimForState claim WLocal) (\<lambda>c.
       Inr (placement_of row WLocal c EMPTY_WORKER_METADATA None))"
| "build_record row WRequested m err claim =
     bnd (localTurnClaimForState claim WRequested) (\<lambda>c.
       Inr (placement_of row WRequested c EMPTY_WORKER_METADATA None))"
| "build_record row WProvisioning m err claim =
     bnd (unclaimedTurnForState claim WProvisioning) (\<lambda>c.
       Inr (placement_of row WProvisioning c
              (EMPTY_WORKER_METADATA\<lparr>m_environmentId := m_environmentId m\<rparr>) None))"
| "build_record row WSyncing m err claim =
     (if m_environmentId m = None \<or> m_workerBundleHash m = None then Inl (EShape WSyncing)
      else bnd (unclaimedTurnForState claim WSyncing) (\<lambda>c.
        Inr (placement_of row WSyncing c
               (EMPTY_WORKER_METADATA\<lparr>m_environmentId := m_environmentId m,
                  m_workerBundleHash := m_workerBundleHash m\<rparr>) None)))"
| "build_record row WStarting m err claim =
     (if m_environmentId m = None \<or> m_workspaceBaseManifestRef m = None
         \<or> m_remoteWorkspaceDir m = None \<or> m_workerBundleHash m = None
      then Inl (EShape WStarting)
      else bnd (unclaimedTurnForState claim WStarting) (\<lambda>c.
        Inr (placement_of row WStarting c
               (EMPTY_WORKER_METADATA\<lparr>m_environmentId := m_environmentId m,
                  m_workspaceBaseManifestRef := m_workspaceBaseManifestRef m,
                  m_remoteWorkspaceDir := m_remoteWorkspaceDir m,
                  m_workerBundleHash := m_workerBundleHash m\<rparr>) None)))"
| "build_record row WActive m err claim =
     bnd (workerTurnClaimForState claim WActive) (\<lambda>c.
     bnd (ownedWorkerMetadata m WActive) (\<lambda>m'. Inr (placement_of row WActive c m' None)))"
| "build_record row WDraining m err claim =
     bnd (workerTurnClaimForState claim WDraining) (\<lambda>c.
     bnd (ownedWorkerMetadata m WDraining) (\<lambda>m'. Inr (placement_of row WDraining c m' None)))"
| "build_record row WReconciling m err claim =
     bnd (unclaimedTurnForState claim WReconciling) (\<lambda>c.
     bnd (ownedWorkerMetadata m WReconciling) (\<lambda>m'.
       Inr (placement_of row WReconciling c m' None)))"
| "build_record row WReclaimed m err claim =
     bnd (unclaimedTurnForState claim WReclaimed) (\<lambda>c.
     bnd (ownedWorkerMetadata m WReclaimed) (\<lambda>m'.
       Inr (placement_of row WReclaimed c m' None)))"
| "build_record row WFailed m err claim =
     (if err = None then Inl (EShape WFailed)
      else bnd (localTurnClaimForState claim WFailed) (\<lambda>c.
        Inr (placement_of row WFailed c m err)))"

definition fromRow :: "prow \<Rightarrow> perr + placement" where
  "fromRow row =
     bnd (parseWorkerSessionPlacementState (state row)) (\<lambda>st.
     bnd (parse_worker_meta row) (\<lambda>parsed.
     bnd (nullableRequired (recovery_error row) FRecoveryError) (\<lambda>err.
     bnd (parseTurnClaim row) (\<lambda>claim.
     bnd (assertRecordShape (shape_of st parsed err claim)) (\<lambda>_.
       build_record row st parsed err claim)))))"

definition find_placement :: "pdb \<Rightarrow> string \<Rightarrow> perr + placement option" where
  "find_placement db sessionId =
     (case sql_first (\<lambda>r. session_id r = sessionId) (placements db) of
        None \<Rightarrow> Inr None
      | Some row \<Rightarrow> bnd (fromRow row) (\<lambda>p. Inr (Some p)))"

definition getRequired :: "pdb \<Rightarrow> string \<Rightarrow> perr + placement" where
  "getRequired db sessionId =
     bnd (find_placement db sessionId) (\<lambda>found.
       (case found of None \<Rightarrow> Inl EUnknownPlacement | Some p \<Rightarrow> Inr p))"

definition assertIdentity :: "placement \<Rightarrow> pidentity \<Rightarrow> perr + unit" where
  "assertIdentity p identity =
     (if p_agentId p \<noteq> i_agentId identity \<or> p_sessionKey p \<noteq> i_sessionKey identity
      then Inl EIdentityChanged else Inr ())"

definition local_row :: "pidentity \<Rightarrow> int \<Rightarrow> prow" where
  "local_row identity nowMs =
     \<lparr>session_id = i_sessionId identity, agent_id = i_agentId identity,
      session_key = i_sessionKey identity, state = ''local'', environment_id = None,
      transition_generation = 0, active_owner_epoch = None,
      workspace_base_manifest_ref = None, remote_workspace_dir = None,
      worker_bundle_hash = None, last_transcript_ack_cursor = None,
      last_live_event_ack_cursor = None, recovery_error = None, turn_claim_owner = None,
      turn_claim_id = None, turn_claim_run_id = None, turn_claim_generation = None,
      turn_claim_owner_epoch = None, created_at_ms = nowMs, updated_at_ms = nowMs,
      state_changed_at_ms = nowMs\<rparr>"

definition insertLocal :: "pdb \<Rightarrow> pidentity \<Rightarrow> int \<Rightarrow> perr + pdb \<times> placement" where
  "insertLocal db identity nowMs =
     bnd (sql_lift (sql_insert session_id placement_check (local_row identity nowMs)
            (placements db))) (\<lambda>t.
     bnd (getRequired (db\<lparr>placements := t\<rparr>) (i_sessionId identity)) (\<lambda>p.
       Inr (db\<lparr>placements := t\<rparr>, p)))"

definition ensureLocal :: "pdb \<Rightarrow> pidentity \<Rightarrow> int \<Rightarrow> perr + pdb \<times> placement" where
  "ensureLocal db identity nowMs =
     bnd (find_placement db (i_sessionId identity)) (\<lambda>found.
       (case found of
          Some current \<Rightarrow> bnd (assertIdentity current identity) (\<lambda>_. Inr (db, current))
        | None \<Rightarrow> insertLocal db identity nowMs))"

subsection \<open>The values a transition writes\<close>

text \<open>
  One patchable text column: undefined keeps the current value, null clears it, a value must be
  non-empty.
\<close>

fun patch_text :: "string option \<Rightarrow> string option option \<Rightarrow> pfield \<Rightarrow> perr + string option" where
  "patch_text current None field = Inr current"
| "patch_text current (Some None) field = Inr None"
| "patch_text current (Some (Some v)) field = bnd (required v field) (\<lambda>s. Inr (Some s))"

fun patch_epoch :: "int option \<Rightarrow> int option option \<Rightarrow> pfield \<Rightarrow> perr + int option" where
  "patch_epoch current None field = Inr current"
| "patch_epoch current (Some None) field = Inr None"
| "patch_epoch current (Some (Some v)) field = bnd (normalizeEpoch v field) (\<lambda>e. Inr (Some e))"

fun patch_cursor :: "int option \<Rightarrow> int option option \<Rightarrow> pfield \<Rightarrow> perr + int option" where
  "patch_cursor current None field = Inr current"
| "patch_cursor current (Some v) field = normalizeCursor v field"

definition transitionValues ::
    "placement \<Rightarrow> wstate \<Rightarrow> ppatch \<Rightarrow> int \<Rightarrow> perr + prow" where
  "transitionValues current to patch nowMs =
     (let clears = (to = WLocal \<or> to = WRequested) in
     bnd (if clears then Inr None
          else patch_text (p_environmentId current) (pp_environmentId patch) FEnvironmentId)
       (\<lambda>env.
     bnd (if clears \<or> to = WProvisioning \<or> to = WSyncing \<or> to = WStarting then Inr None
          else patch_epoch (p_activeOwnerEpoch current) (pp_activeOwnerEpoch patch)
                 FActiveOwnerEpoch) (\<lambda>epoch.
     bnd (nextGeneration (p_generation current)) (\<lambda>generation.
     bnd (if clears then Inr None
          else patch_text (p_workspaceBaseManifestRef current)
                 (pp_workspaceBaseManifestRef patch) FManifestRef) (\<lambda>manifest.
     bnd (if clears then Inr None
          else patch_text (p_remoteWorkspaceDir current) (pp_remoteWorkspaceDir patch)
                 FRemoteDir) (\<lambda>dir.
     bnd (if clears then Inr None
          else patch_text (p_workerBundleHash current) (pp_workerBundleHash patch)
                 FBundleHash) (\<lambda>bundle.
     bnd (if clears then Inr None
          else patch_cursor (p_lastTranscriptAckCursor current)
                 (pp_lastTranscriptAckCursor patch) FTranscriptCursor) (\<lambda>tc.
     bnd (if clears then Inr None
          else patch_cursor (p_lastLiveEventAckCursor current)
                 (pp_lastLiveEventAckCursor patch) FLiveCursor) (\<lambda>lc.
     bnd (if clears then Inr None
          else patch_text (p_recoveryError current) (pp_recoveryError patch)
                 FRecoveryError) (\<lambda>err.
     bnd (assertRecordShape
           (shape_of to
             \<lparr>m_environmentId = env, m_activeOwnerEpoch = epoch,
              m_workspaceBaseManifestRef = manifest, m_remoteWorkspaceDir = dir,
              m_workerBundleHash = bundle, m_lastTranscriptAckCursor = tc,
              m_lastLiveEventAckCursor = lc\<rparr> err None)) (\<lambda>_.
       Inr \<lparr>session_id = p_sessionId current, agent_id = p_agentId current,
            session_key = p_sessionKey current, state = ws_text to, environment_id = env,
            transition_generation = generation, active_owner_epoch = epoch,
            workspace_base_manifest_ref = manifest, remote_workspace_dir = dir,
            worker_bundle_hash = bundle, last_transcript_ack_cursor = tc,
            last_live_event_ack_cursor = lc, recovery_error = err, turn_claim_owner = None,
            turn_claim_id = None, turn_claim_run_id = None, turn_claim_generation = None,
            turn_claim_owner_epoch = None, created_at_ms = p_createdAtMs current,
            updated_at_ms = nowMs, state_changed_at_ms = nowMs\<rparr>)))))))))))"

end
