(* ===== verification/Placement_Rows.thy ===== *)
theory Placement_Rows
  imports Placement_Codec
begin

section \<open>Well-formed rows\<close>

text \<open>
  What every stored placement row satisfies, why the reader then returns its columns unchanged,
  why the schema's CHECK clauses accept it, and which updates keep it.
\<close>

definition meta_of_row :: "prow \<Rightarrow> worker_meta" where
  "meta_of_row r =
     \<lparr>m_environmentId = environment_id r, m_activeOwnerEpoch = active_owner_epoch r,
      m_workspaceBaseManifestRef = workspace_base_manifest_ref r,
      m_remoteWorkspaceDir = remote_workspace_dir r,
      m_workerBundleHash = worker_bundle_hash r,
      m_lastTranscriptAckCursor = last_transcript_ack_cursor r,
      m_lastLiveEventAckCursor = last_live_event_ack_cursor r\<rparr>"

text \<open>The claim columns as a claim, without validation.\<close>

definition claim_of_row :: "prow \<Rightarrow> pclaim option" where
  "claim_of_row r =
     (if turn_claim_owner r = None then None
      else if turn_claim_owner r = Some ''local'' then
        Some (PLocal (the (turn_claim_id r)) (the (turn_claim_run_id r))
               (the (turn_claim_generation r)))
      else Some (PWorker (the (turn_claim_id r)) (the (turn_claim_run_id r))
             (the (turn_claim_generation r)) (the (turn_claim_owner_epoch r))))"

definition columns_ok :: "prow \<Rightarrow> bool" where
  "columns_ok r \<longleftrightarrow> clean_str (Some (session_id r)) \<and> clean_str (Some (agent_id r))
     \<and> clean_str (Some (session_key r)) \<and> clean_str (environment_id r) \<and> epoch_ok (active_owner_epoch r)
     \<and> clean_str (workspace_base_manifest_ref r) \<and> clean_str (remote_workspace_dir r)
     \<and> clean_str (worker_bundle_hash r) \<and> cursor_ok (last_transcript_ack_cursor r)
     \<and> cursor_ok (last_live_event_ack_cursor r) \<and> clean_str (recovery_error r)
     \<and> 0 \<le> transition_generation r \<and> js_is_safe (transition_generation r)"

text \<open>The claim columns hold no claim, a local one or a worker one, never part of one.\<close>

fun claim_columns_ok ::
    "int \<Rightarrow> string option \<Rightarrow> string option \<Rightarrow> string option \<Rightarrow> int option \<Rightarrow> int option \<Rightarrow> bool" where
  "claim_columns_ok gen None None None None None = True"
| "claim_columns_ok gen (Some own) (Some c) (Some rid) (Some g) None =
     (own = ''local'' \<and> clean_str (Some c) \<and> clean_str (Some rid) \<and> 0 \<le> g \<and> g \<le> gen)"
| "claim_columns_ok gen (Some own) (Some c) (Some rid) (Some g) (Some e) =
     (own = ''worker'' \<and> clean_str (Some c) \<and> clean_str (Some rid) \<and> 0 \<le> g \<and> g \<le> gen
      \<and> epoch_ok (Some e))"
| "claim_columns_ok gen own c rid g e = False"

definition claim_ok :: "prow \<Rightarrow> bool" where
  "claim_ok r = claim_columns_ok (transition_generation r) (turn_claim_owner r)
     (turn_claim_id r) (turn_claim_run_id r) (turn_claim_generation r)
     (turn_claim_owner_epoch r)"

lemma claim_okE [consumes 1, case_names none local worker]:
  assumes "claim_ok r"
  obtains "turn_claim_owner r = None" "turn_claim_id r = None" "turn_claim_run_id r = None"
      "turn_claim_generation r = None" "turn_claim_owner_epoch r = None"
  | c rid g where "turn_claim_owner r = Some ''local''" "turn_claim_id r = Some c"
      "turn_claim_run_id r = Some rid" "turn_claim_generation r = Some g"
      "turn_claim_owner_epoch r = None" "clean_str (Some c)" "clean_str (Some rid)" "0 \<le> g"
      "g \<le> transition_generation r"
  | c rid g e where "turn_claim_owner r = Some ''worker''" "turn_claim_id r = Some c"
      "turn_claim_run_id r = Some rid" "turn_claim_generation r = Some g"
      "turn_claim_owner_epoch r = Some e" "clean_str (Some c)" "clean_str (Some rid)" "0 \<le> g"
      "g \<le> transition_generation r" "epoch_ok (Some e)"
  using assms unfolding claim_ok_def
  by (elim claim_columns_ok.elims) simp_all

definition row_state :: "prow \<Rightarrow> wstate" where
  "row_state r = projr (parseWorkerSessionPlacementState (state r))"

lemma row_state_text: "state r = ws_text st \<Longrightarrow> row_state r = st"
  by (simp add: row_state_def)

definition row_shape :: "prow \<Rightarrow> shape" where
  "row_shape r = shape_of (row_state r) (meta_of_row r) (recovery_error r) (claim_of_row r)"

definition row_inv :: "prow \<Rightarrow> bool" where
  "row_inv r \<longleftrightarrow> state r = ws_text (row_state r) \<and> columns_ok r \<and> claim_ok r
     \<and> assertRecordShape (row_shape r) = Inr ()"

definition raw_placement :: "prow \<Rightarrow> placement" where
  "raw_placement r =
     placement_of r (row_state r) (claim_of_row r) (meta_of_row r) (recovery_error r)"

subsection \<open>The reader returns the columns\<close>

lemma parse_worker_meta_ok: "columns_ok r \<Longrightarrow> parse_worker_meta r = Inr (meta_of_row r)"
  by (auto simp: columns_ok_def parse_worker_meta_def meta_of_row_def nullableRequired_stored
      normalizeCursor_Inr [THEN iffD2] normalizeEpoch_def split: option.splits)

lemma claim_generation_safe:
  "columns_ok r \<Longrightarrow> 0 \<le> g \<Longrightarrow> g \<le> transition_generation r \<Longrightarrow> js_is_safe g"
  by (auto simp: columns_ok_def js_is_safe_def js_max_safe_def)

lemma parseTurnClaim_ok:
  assumes "columns_ok r" "claim_ok r"
  shows "parseTurnClaim r = Inr (claim_of_row r)"
  using assms(2)
proof (cases rule: claim_okE)
  case none
  then show ?thesis by (simp add: parseTurnClaim_def claim_of_row_def)
next
  case (local c rid g)
  then show ?thesis
    using claim_generation_safe [OF assms(1) local(8,9)]
    by (simp add: parseTurnClaim_def claim_of_row_def required_stored)
next
  case (worker c rid g e)
  then show ?thesis
    using claim_generation_safe [OF assms(1) worker(8,9)]
    by (simp add: parseTurnClaim_def claim_of_row_def required_stored normalizeEpoch_def)
qed

lemma shape_of_sel [simp]:
  "s_state (shape_of st m err c) = st" "s_turnClaim (shape_of st m err c) = c"
  "s_recoveryError (shape_of st m err c) = err"
  "s_environmentId (shape_of st m err c) = m_environmentId m"
  "s_activeOwnerEpoch (shape_of st m err c) = m_activeOwnerEpoch m"
  "s_workspaceBaseManifestRef (shape_of st m err c) = m_workspaceBaseManifestRef m"
  "s_remoteWorkspaceDir (shape_of st m err c) = m_remoteWorkspaceDir m"
  "s_workerBundleHash (shape_of st m err c) = m_workerBundleHash m"
  "s_lastTranscriptAckCursor (shape_of st m err c) = m_lastTranscriptAckCursor m"
  "s_lastLiveEventAckCursor (shape_of st m err c) = m_lastLiveEventAckCursor m"
  by (simp_all add: shape_of_def)

text \<open>
  Under an accepted shape the final \<^verbatim>\<open>switch\<close> drops nothing: the columns it leaves out
  are null.
\<close>

lemma shape_metadata_split:
  "assertRecordShape s = Inr () \<longleftrightarrow> shape_metadata s = Inr () \<and> shape_claim s = Inr ()"
  by (cases "shape_metadata s") (auto simp: assertRecordShape_def)

lemma shape_metadata_bare:
  "shape_metadata s = Inr () \<Longrightarrow> s_state s \<in> {WLocal, WRequested} \<Longrightarrow>
   s_environmentId s = None \<and> s_activeOwnerEpoch s = None \<and> s_workspaceBaseManifestRef s = None
   \<and> s_remoteWorkspaceDir s = None \<and> s_workerBundleHash s = None
   \<and> s_lastTranscriptAckCursor s = None \<and> s_lastLiveEventAckCursor s = None
   \<and> s_recoveryError s = None"
  by (simp add: shape_metadata_def split: if_splits)

lemma shape_metadata_early:
  "shape_metadata s = Inr () \<Longrightarrow> s_state s \<in> {WProvisioning, WSyncing, WStarting} \<Longrightarrow>
   s_activeOwnerEpoch s = None \<and> s_lastTranscriptAckCursor s = None
   \<and> s_lastLiveEventAckCursor s = None \<and> s_recoveryError s = None
   \<and> (if s_state s = WStarting then s_workspaceBaseManifestRef s \<noteq> None \<and> s_remoteWorkspaceDir s \<noteq> None
      else s_workspaceBaseManifestRef s = None \<and> s_remoteWorkspaceDir s = None)
   \<and> (if s_state s = WProvisioning then s_workerBundleHash s = None
      else s_workerBundleHash s \<noteq> None \<and> s_environmentId s \<noteq> None)"
  by (elim insertE emptyE) (simp add: shape_metadata_def truthy_str_iff split: if_splits, blast?)+

lemma shape_metadata_owned:
  "shape_metadata s = Inr () \<Longrightarrow> s_state s \<in> {WActive, WDraining, WReconciling, WReclaimed} \<Longrightarrow>
   s_environmentId s \<noteq> None \<and> epoch_ok (s_activeOwnerEpoch s) \<and> s_activeOwnerEpoch s \<noteq> None
   \<and> s_workspaceBaseManifestRef s \<noteq> None \<and> s_remoteWorkspaceDir s \<noteq> None
   \<and> s_workerBundleHash s \<noteq> None \<and> s_recoveryError s = None"
  by (cases "s_activeOwnerEpoch s")
    (auto simp add: shape_metadata_def truthy_str_iff normalizeEpoch_Inr)

lemma shape_metadata_failed:
  "shape_metadata s = Inr () \<Longrightarrow> s_state s = WFailed \<Longrightarrow> s_recoveryError s \<noteq> None"
  by (auto simp: shape_metadata_def truthy_str_iff)

lemmas shape_metadata_facts =
  shape_metadata_bare shape_metadata_early shape_metadata_owned shape_metadata_failed

lemma shape_claim_for_state:
  assumes "shape_claim s = Inr ()"
  shows "s_state s \<in> {WLocal, WRequested, WFailed} \<Longrightarrow>
      localTurnClaimForState (s_turnClaim s) st = Inr (s_turnClaim s)"
    and "s_state s \<in> {WActive, WDraining} \<Longrightarrow>
      workerTurnClaimForState (s_turnClaim s) st = Inr (s_turnClaim s)"
    and "s_state s \<in> {WProvisioning, WSyncing, WStarting, WReconciling, WReclaimed} \<Longrightarrow>
      s_turnClaim s = None"
  using assms by (auto simp: shape_claim_def split: option.splits pclaim.splits if_splits)

lemma build_record_ok:
  assumes "assertRecordShape (shape_of st m err c) = Inr ()"
  shows "build_record row st m err c = Inr (placement_of row st c m err)"
proof -
  have md: "shape_metadata (shape_of st m err c) = Inr ()"
    and cl: "shape_claim (shape_of st m err c) = Inr ()"
    using assms by (auto simp: shape_metadata_split)
  show ?thesis
    using shape_metadata_facts [OF md] shape_claim_for_state [OF cl]
    by (cases st) (simp_all add: EMPTY_WORKER_METADATA_def ownedWorkerMetadata_def placement_of_def)
qed

lemma fromRow_raw:
  assumes "row_inv r"
  shows "fromRow r = Inr (raw_placement r)"
proof -
  from assms have st: "state r = ws_text (row_state r)" and co: "columns_ok r"
    and cl: "claim_ok r" and sh: "assertRecordShape (row_shape r) = Inr ()"
    by (auto simp: row_inv_def)
  have rec: "nullableRequired (recovery_error r) FRecoveryError = Inr (recovery_error r)"
    using co by (intro nullableRequired_stored) (simp add: columns_ok_def)
  have ps: "parseWorkerSessionPlacementState (state r) = Inr (row_state r)"
    using st parse_ws_text [of "row_state r"] by simp
  show ?thesis
    using ps sh build_record_ok [OF sh [unfolded row_shape_def]]
    by (simp add: fromRow_def parse_worker_meta_ok [OF co] rec parseTurnClaim_ok [OF co cl]
        raw_placement_def row_shape_def)
qed

subsection \<open>The schema accepts every well-formed row\<close>

lemma row_inv_facts:
  assumes "row_inv r"
  shows "columns_ok r" "claim_ok r" "state r = ws_text (row_state r)"
    "shape_metadata (row_shape r) = Inr ()" "shape_claim (row_shape r) = Inr ()"
  using assms by (simp_all add: row_inv_def shape_metadata_split)

lemma row_shape_sel [simp]:
  "s_state (row_shape r) = row_state r" "s_turnClaim (row_shape r) = claim_of_row r"
  "s_recoveryError (row_shape r) = recovery_error r"
  "s_environmentId (row_shape r) = environment_id r"
  "s_activeOwnerEpoch (row_shape r) = active_owner_epoch r"
  "s_workspaceBaseManifestRef (row_shape r) = workspace_base_manifest_ref r"
  "s_remoteWorkspaceDir (row_shape r) = remote_workspace_dir r"
  "s_workerBundleHash (row_shape r) = worker_bundle_hash r"
  "s_lastTranscriptAckCursor (row_shape r) = last_transcript_ack_cursor r"
  "s_lastLiveEventAckCursor (row_shape r) = last_live_event_ack_cursor r"
  by (simp_all add: row_shape_def meta_of_row_def)

lemma claim_of_row_local [simp]:
  "turn_claim_owner r = Some ''local'' \<Longrightarrow> claim_of_row r =
     Some (PLocal (the (turn_claim_id r)) (the (turn_claim_run_id r))
            (the (turn_claim_generation r)))"
  by (simp add: claim_of_row_def)

lemma claim_of_row_worker [simp]:
  "turn_claim_owner r = Some ''worker'' \<Longrightarrow> claim_of_row r =
     Some (PWorker (the (turn_claim_id r)) (the (turn_claim_run_id r))
            (the (turn_claim_generation r)) (the (turn_claim_owner_epoch r)))"
  by (simp add: claim_of_row_def)

lemma claim_of_row_none [simp]: "claim_of_row r = None \<longleftrightarrow> turn_claim_owner r = None"
  by (simp add: claim_of_row_def)

text \<open>Which states hold a claim of which kind.\<close>

lemma row_claim_states:
  assumes "row_inv r"
  shows "turn_claim_owner r = Some ''local'' \<Longrightarrow> row_state r \<in> {WLocal, WRequested, WFailed}"
    and "turn_claim_owner r = Some ''worker'' \<Longrightarrow>
      row_state r \<in> {WActive, WDraining} \<and> active_owner_epoch r = turn_claim_owner_epoch r"
proof -
  note cl = row_inv_facts(5) [OF assms]
  show "row_state r \<in> {WLocal, WRequested, WFailed}" if "turn_claim_owner r = Some ''local''"
    using cl that by (auto simp: shape_claim_def)
  show "row_state r \<in> {WActive, WDraining} \<and> active_owner_epoch r = turn_claim_owner_epoch r"
    if w: "turn_claim_owner r = Some ''worker''"
    using row_inv_facts(2) [OF assms]
  proof (cases rule: claim_okE)
    case (worker c rid g e)
    then show ?thesis using cl by (auto simp: shape_claim_def)
  qed (use w in auto)
qed

lemma row_check_columns:
  assumes "row_inv r"
  shows "check_columns r"
proof -
  have "state r \<in> set (map fst WORKER_SESSION_PLACEMENT_STATES)"
    unfolding row_inv_facts(3) [OF assms]
    by (cases "row_state r") (simp_all add: WORKER_SESSION_PLACEMENT_STATES_def)
  moreover have "(case active_owner_epoch r of None \<Rightarrow> True | Some e \<Rightarrow> 1 \<le> e)"
    "(case last_transcript_ack_cursor r of None \<Rightarrow> True | Some c \<Rightarrow> 0 \<le> c)"
    "(case last_live_event_ack_cursor r of None \<Rightarrow> True | Some c \<Rightarrow> 0 \<le> c)"
    "0 \<le> transition_generation r"
    using row_inv_facts(1) [OF assms]
    by (simp_all add: columns_ok_def epoch_ok_def cursor_ok_def split: option.splits)
  moreover have "(case turn_claim_owner r of None \<Rightarrow> True | Some x \<Rightarrow> x \<in> {''local'', ''worker''})
    \<and> (case turn_claim_generation r of None \<Rightarrow> True | Some g \<Rightarrow> 0 \<le> g)
    \<and> (case turn_claim_owner_epoch r of None \<Rightarrow> True | Some e \<Rightarrow> 1 \<le> e)"
    using row_inv_facts(2) [OF assms] by (cases rule: claim_okE) simp_all
  ultimately show ?thesis by (simp add: check_columns_def)
qed

lemma row_check_claim:
  assumes "row_inv r"
  shows "check_claim_shape r" "check_claim_state r"
proof -
  show "check_claim_shape r"
    using row_inv_facts(2) [OF assms] by (cases rule: claim_okE) (simp_all add: check_claim_shape_def)
  show "check_claim_state r"
    using row_inv_facts(2) [OF assms]
  proof (cases rule: claim_okE)
    case none
    then show ?thesis by (simp add: check_claim_state_def)
  next
    case (local c rid g)
    then show ?thesis
      using row_claim_states(1) [OF assms] row_inv_facts(3) [OF assms]
      by (auto simp: check_claim_state_def)
  next
    case (worker c rid g e)
    then show ?thesis
      using row_claim_states(2) [OF assms] row_inv_facts(3) [OF assms]
      by (auto simp: check_claim_state_def)
  qed
qed

lemma row_check_state:
  assumes "row_inv r"
  shows "check_state_shape r"
proof -
  have st: "state r = ws_text (row_state r)"
    using row_inv_facts(3) [OF assms] .
  have none: "row_state r = WReclaimed \<Longrightarrow> turn_claim_owner r = None \<and> turn_claim_id r = None
      \<and> turn_claim_run_id r = None \<and> turn_claim_generation r = None
      \<and> turn_claim_owner_epoch r = None"
    using row_inv_facts(2) [OF assms]
    by (cases rule: claim_okE) (use row_claim_states [OF assms] in simp_all)
  show ?thesis
    using shape_metadata_facts [OF row_inv_facts(4) [OF assms]] none st
    by (cases "row_state r") (simp_all add: check_state_shape_def)
qed

lemma row_inv_check [intro]: "row_inv r \<Longrightarrow> placement_check r"
  by (simp add: placement_check_def row_check_columns row_check_claim row_check_state)

end
