(* ===== verification/Placement_Db.thy ===== *)
theory Placement_Db
  imports Placement_Rows
begin

section \<open>The placement database: guarded updates\<close>

text \<open>
  Every operation of the placement modules ends in one guarded \<^verbatim>\<open>UPDATE\<close> whose
  affected-row count must be 1. This theory models that pattern once, gives the column
  assignments the operations use, shows that they keep rows well formed, and states what a
  successful guarded update does to the table.
\<close>

subsection \<open>Column assignments\<close>

definition clear_claim :: "int \<Rightarrow> prow \<Rightarrow> prow" where
  "clear_claim nowMs r = r\<lparr>turn_claim_owner := None, turn_claim_id := None,
     turn_claim_run_id := None, turn_claim_generation := None, turn_claim_owner_epoch := None,
     updated_at_ms := nowMs\<rparr>"

definition set_claim :: "turn_owner \<Rightarrow> string \<Rightarrow> string \<Rightarrow> int \<Rightarrow> int \<Rightarrow> prow \<Rightarrow> prow" where
  "set_claim own claimId runId generation nowMs r = r\<lparr>
     turn_claim_owner := Some (case own of LocalOwner \<Rightarrow> ''local'' | WorkerOwner e n \<Rightarrow> ''worker''),
     turn_claim_id := Some claimId, turn_claim_run_id := Some runId,
     turn_claim_generation := Some generation,
     turn_claim_owner_epoch := (case own of LocalOwner \<Rightarrow> None | WorkerOwner e n \<Rightarrow> Some n),
     updated_at_ms := nowMs\<rparr>"

definition set_cursors :: "int option \<Rightarrow> int option \<Rightarrow> int \<Rightarrow> prow \<Rightarrow> prow" where
  "set_cursors transcript liveEvent nowMs r = r\<lparr>last_transcript_ack_cursor := transcript,
     last_live_event_ack_cursor := liveEvent, updated_at_ms := nowMs\<rparr>"

definition set_manifest :: "string \<Rightarrow> int \<Rightarrow> prow \<Rightarrow> prow" where
  "set_manifest ref nowMs r = r\<lparr>workspace_base_manifest_ref := Some ref, updated_at_ms := nowMs\<rparr>"

definition set_requested :: "int \<Rightarrow> int \<Rightarrow> prow \<Rightarrow> prow" where
  "set_requested generation nowMs r = r\<lparr>state := ''requested'', environment_id := None,
     transition_generation := generation, active_owner_epoch := None,
     workspace_base_manifest_ref := None, remote_workspace_dir := None,
     worker_bundle_hash := None, last_transcript_ack_cursor := None,
     last_live_event_ack_cursor := None, recovery_error := None, updated_at_ms := nowMs,
     state_changed_at_ms := nowMs\<rparr>"

definition set_recovery_error :: "string \<Rightarrow> int \<Rightarrow> prow \<Rightarrow> prow" where
  "set_recovery_error err nowMs r = r\<lparr>recovery_error := Some err, updated_at_ms := nowMs\<rparr>"

definition set_failed :: "int \<Rightarrow> string \<Rightarrow> pclaim option \<Rightarrow> int \<Rightarrow> prow \<Rightarrow> prow" where
  "set_failed generation err localClaim nowMs r = r\<lparr>state := ''failed'',
     transition_generation := generation, recovery_error := Some err,
     turn_claim_owner := map_option (\<lambda>_. ''local'') localClaim,
     turn_claim_id := map_option pc_claimId localClaim,
     turn_claim_run_id := map_option pc_runId localClaim,
     turn_claim_generation := map_option pc_generation localClaim,
     turn_claim_owner_epoch := None, updated_at_ms := nowMs, state_changed_at_ms := nowMs\<rparr>"

text \<open>The claim columns \<^verbatim>\<open>startDrain\<close> copies from the record onto the new values.\<close>

definition keep_claim :: "pclaim option \<Rightarrow> prow \<Rightarrow> prow" where
  "keep_claim claim v =
     (case claim of
        None \<Rightarrow> v
      | Some (PLocal c rid g) \<Rightarrow> v\<lparr>turn_claim_owner := Some ''local'', turn_claim_id := Some c,
          turn_claim_run_id := Some rid, turn_claim_generation := Some g,
          turn_claim_owner_epoch := None\<rparr>
      | Some (PWorker c rid g e) \<Rightarrow> v\<lparr>turn_claim_owner := Some ''worker'',
          turn_claim_id := Some c, turn_claim_run_id := Some rid,
          turn_claim_generation := Some g, turn_claim_owner_epoch := Some e\<rparr>)"

subsection \<open>They keep rows well formed\<close>

lemma shape_metadata_claim:
  "shape_metadata (shape_of st m err c) = shape_metadata (shape_of st m err c')"
  unfolding shape_metadata_def shape_of_sel by (rule refl)

definition claim_state_ok :: "prow \<Rightarrow> wstate \<Rightarrow> bool" where
  "claim_state_ok r st \<longleftrightarrow> turn_claim_owner r = None
   \<or> turn_claim_owner r = Some ''local'' \<and> st \<in> {WLocal, WRequested, WFailed}
   \<or> turn_claim_owner r = Some ''worker'' \<and> st \<in> {WActive, WDraining}
      \<and> turn_claim_owner_epoch r = active_owner_epoch r"

lemma row_inv_intro:
  assumes "state r = ws_text st" "columns_ok r" "claim_ok r" "claim_state_ok r st"
    and "shape_metadata (shape_of st (meta_of_row r) (recovery_error r) c) = Inr ()"
  shows "row_inv r"
proof -
  have st: "row_state r = st" using assms(1) by (rule row_state_text)
  have "shape_metadata (row_shape r) = Inr ()"
    using assms(5) shape_metadata_claim by (metis row_shape_def st)
  moreover have "shape_claim (row_shape r) = Inr ()"
    using assms(3)
  proof (cases rule: claim_okE)
    case none
    then show ?thesis by (simp add: shape_claim_def claim_of_row_none [THEN iffD2])
  next
    case (local cl rid g)
    then show ?thesis using assms(4) by (auto simp: shape_claim_def claim_state_ok_def st)
  next
    case (worker cl rid g e)
    moreover from worker assms(4) have "active_owner_epoch r = Some e" "st \<in> {WActive, WDraining}"
      by (auto simp: claim_state_ok_def)
    ultimately show ?thesis by (auto simp: shape_claim_def st)
  qed
  ultimately show ?thesis
    using assms(1-3) by (simp add: row_inv_def st shape_metadata_split)
qed

lemma row_inv_claim_state: "row_inv r \<Longrightarrow> claim_state_ok r (row_state r)"
  using row_claim_states [of r] row_inv_facts(2) [of r]
  by (auto simp: claim_state_ok_def elim: claim_okE)

text \<open>An update that leaves state and worker metadata alone needs to mind the claim only.\<close>

lemma row_inv_same_shape:
  assumes "row_inv r" "state r' = state r" "meta_of_row r' = meta_of_row r"
    "recovery_error r' = recovery_error r" "columns_ok r'" "claim_ok r'"
    "claim_state_ok r' (row_state r)"
  shows "row_inv r'"
proof -
  have "shape_metadata (shape_of (row_state r) (meta_of_row r') (recovery_error r') None) = Inr ()"
    using row_inv_facts(4) [OF assms(1)] assms(3,4) shape_metadata_claim
    by (metis row_shape_def)
  with assms row_inv_facts(3) [OF assms(1)] show ?thesis
    by (intro row_inv_intro [of r' "row_state r"]) auto
qed

lemma row_inv_clear_claim [intro]:
  assumes "row_inv r" shows "row_inv (clear_claim nowMs r)"
  using row_inv_facts(1) [OF assms]
  by (intro row_inv_same_shape [OF assms])
    (simp_all add: clear_claim_def meta_of_row_def columns_ok_def claim_ok_def claim_state_ok_def)

lemma row_inv_set_claim_local:
  assumes "row_inv r" "row_state r = WLocal" "clean_str (Some c)" "clean_str (Some rid)"
  shows "row_inv (set_claim LocalOwner c rid (transition_generation r) nowMs r)"
  using row_inv_facts(1) [OF assms(1)] assms(2-)
  by (intro row_inv_same_shape [OF assms(1)])
    (simp_all add: set_claim_def meta_of_row_def columns_ok_def claim_ok_def claim_state_ok_def)

lemma row_inv_set_claim_worker:
  assumes "row_inv r" "row_state r = WActive" "clean_str (Some c)" "clean_str (Some rid)"
    "active_owner_epoch r = Some n" "epoch_ok (Some n)"
  shows "row_inv (set_claim (WorkerOwner e n) c rid (transition_generation r) nowMs r)"
  using row_inv_facts(1) [OF assms(1)] assms(2-)
  by (intro row_inv_same_shape [OF assms(1)])
    (simp_all add: set_claim_def meta_of_row_def columns_ok_def claim_ok_def claim_state_ok_def)

lemma claim_ok_cong:
  "claim_ok r \<Longrightarrow> turn_claim_owner r' = turn_claim_owner r \<Longrightarrow> turn_claim_id r' = turn_claim_id r \<Longrightarrow>
   turn_claim_run_id r' = turn_claim_run_id r \<Longrightarrow>
   turn_claim_generation r' = turn_claim_generation r \<Longrightarrow>
   turn_claim_owner_epoch r' = turn_claim_owner_epoch r \<Longrightarrow>
   transition_generation r \<le> transition_generation r' \<Longrightarrow> claim_ok r'"
  by (erule claim_okE) (simp_all add: claim_ok_def)

lemma owned_metadata_iff:
  assumes "st \<in> {WActive, WDraining, WReconciling, WReclaimed}"
  shows "shape_metadata (shape_of st m err c) = Inr () \<longleftrightarrow>
     truthy_str (m_environmentId m) \<and> truthy_str (m_workspaceBaseManifestRef m)
     \<and> truthy_str (m_remoteWorkspaceDir m) \<and> truthy_str (m_workerBundleHash m) \<and> err = None
     \<and> m_activeOwnerEpoch m \<noteq> None \<and> epoch_ok (m_activeOwnerEpoch m)"
  using assms
  by (cases "m_activeOwnerEpoch m") (auto simp: shape_metadata_def bnd_Inr_iff normalizeEpoch_Inr)

lemma owned_row:
  assumes "row_inv r" "row_state r \<in> {WActive, WDraining, WReconciling, WReclaimed}"
  shows "truthy_str (environment_id r) \<and> truthy_str (workspace_base_manifest_ref r)
     \<and> truthy_str (remote_workspace_dir r) \<and> truthy_str (worker_bundle_hash r)
     \<and> recovery_error r = None \<and> active_owner_epoch r \<noteq> None \<and> epoch_ok (active_owner_epoch r)"
  using row_inv_facts(4) [OF assms(1)] owned_metadata_iff [OF assms(2)]
  by (simp add: row_shape_def meta_of_row_def)

lemma row_inv_set_cursors:
  assumes "row_inv r" "row_state r \<in> {WActive, WDraining}" "cursor_ok a" "cursor_ok b"
  shows "row_inv (set_cursors a b nowMs r)"
proof -
  have "claim_ok (set_cursors a b nowMs r)"
    by (rule claim_ok_cong [OF row_inv_facts(2) [OF assms(1)]]) (simp_all add: set_cursors_def)
  moreover have "shape_metadata (shape_of (row_state r) (meta_of_row (set_cursors a b nowMs r))
      (recovery_error (set_cursors a b nowMs r)) None) = Inr ()"
    using owned_row [OF assms(1)] assms(2)
    by (subst owned_metadata_iff) (auto simp: meta_of_row_def set_cursors_def)
  ultimately show ?thesis
    using row_inv_facts(1,3) [OF assms(1)] row_inv_claim_state [OF assms(1)] assms(3,4)
    by (intro row_inv_intro [of _ "row_state r"])
      (simp_all add: set_cursors_def columns_ok_def claim_state_ok_def)
qed

lemma row_inv_set_manifest:
  assumes "row_inv r" "row_state r \<in> {WActive, WDraining}" "clean_str (Some ref)"
  shows "row_inv (set_manifest ref nowMs r)"
proof -
  have "claim_ok (set_manifest ref nowMs r)"
    by (rule claim_ok_cong [OF row_inv_facts(2) [OF assms(1)]]) (simp_all add: set_manifest_def)
  moreover have "shape_metadata (shape_of (row_state r) (meta_of_row (set_manifest ref nowMs r))
      (recovery_error (set_manifest ref nowMs r)) None) = Inr ()"
    using owned_row [OF assms(1)] assms(2,3)
    by (subst owned_metadata_iff) (auto simp: meta_of_row_def set_manifest_def)
  ultimately show ?thesis
    using row_inv_facts(1,3) [OF assms(1)] row_inv_claim_state [OF assms(1)] assms(3)
    by (intro row_inv_intro [of _ "row_state r"])
      (simp_all add: set_manifest_def columns_ok_def claim_state_ok_def)
qed

definition clean_identity :: "pidentity \<Rightarrow> bool" where
  "clean_identity i \<longleftrightarrow> clean_str (Some (i_sessionId i)) \<and> clean_str (Some (i_agentId i))
     \<and> clean_str (Some (i_sessionKey i))"

lemma normalizeIdentity_clean: "normalizeIdentity input = Inr i \<Longrightarrow> clean_identity i"
  by (auto simp: normalizeIdentity_def clean_identity_def required_Inr)

lemma row_inv_local_row: "clean_identity identity \<Longrightarrow> row_inv (local_row identity nowMs)"
  by (rule row_inv_intro [of _ WLocal])
    (simp_all add: clean_identity_def local_row_def columns_ok_def claim_ok_def claim_state_ok_def meta_of_row_def
      shape_metadata_def js_is_safe_def js_max_safe_def)

lemma bare_metadata:
  "shape_metadata (shape_of WRequested (meta_of_row (set_requested g n r)) None c) = Inr ()"
  by (simp add: shape_metadata_def meta_of_row_def set_requested_def)

lemma row_inv_set_requested:
  assumes "row_inv r" "row_state r \<in> {WLocal, WReclaimed}"
    and "js_is_safe g" "transition_generation r \<le> g"
  shows "row_inv (set_requested g nowMs r)"
proof (rule row_inv_intro [of _ WRequested])
  show "claim_ok (set_requested g nowMs r)"
    by (rule claim_ok_cong [OF row_inv_facts(2) [OF assms(1)]])
      (simp_all add: set_requested_def assms(4))
  show "claim_state_ok (set_requested g nowMs r) WRequested"
    using row_claim_states [OF assms(1)] row_inv_claim_state [OF assms(1)] assms(2)
    by (auto simp: claim_state_ok_def set_requested_def)
  show "columns_ok (set_requested g nowMs r)"
    using row_inv_facts(1) [OF assms(1)] assms(3,4)
    by (simp add: columns_ok_def set_requested_def)
qed (simp_all add: set_requested_def shape_metadata_def meta_of_row_def)

lemma failed_metadata: "shape_metadata (shape_of WFailed m err c) = Inr () \<longleftrightarrow> truthy_str err"
  by (simp add: shape_metadata_def)

lemma row_inv_set_recovery_error:
  assumes "row_inv r" "row_state r = WFailed" "clean_str (Some err)"
  shows "row_inv (set_recovery_error err nowMs r)"
proof (rule row_inv_intro [of _ WFailed])
  show "claim_ok (set_recovery_error err nowMs r)"
    by (rule claim_ok_cong [OF row_inv_facts(2) [OF assms(1)]]) (simp_all add: set_recovery_error_def)
  show "claim_state_ok (set_recovery_error err nowMs r) WFailed"
    using row_inv_claim_state [OF assms(1)] assms(2)
    by (simp add: claim_state_ok_def set_recovery_error_def)
  show "columns_ok (set_recovery_error err nowMs r)"
    using row_inv_facts(1) [OF assms(1)] assms(3)
    by (simp add: columns_ok_def set_recovery_error_def)
  show "state (set_recovery_error err nowMs r) = ws_text WFailed"
    using row_inv_facts(3) [OF assms(1)] assms(2) by (simp add: set_recovery_error_def)
qed (use assms(3) in \<open>simp add: failed_metadata set_recovery_error_def\<close>)

lemma row_inv_set_failed:
  assumes "row_inv r" "clean_str (Some err)" "js_is_safe g" "transition_generation r \<le> g"
    and "lc = (case claim_of_row r of Some (PLocal c rid n) \<Rightarrow> Some (PLocal c rid n) | _ \<Rightarrow> None)"
  shows "row_inv (set_failed g err lc nowMs r)"
proof (rule row_inv_intro [of _ WFailed])
  show "claim_ok (set_failed g err lc nowMs r)"
    using row_inv_facts(2) [OF assms(1)]
    by (cases rule: claim_okE) (use assms(4,5) in \<open>simp_all add: set_failed_def claim_ok_def
      claim_of_row_none [THEN iffD2]\<close>)
  show "claim_state_ok (set_failed g err lc nowMs r) WFailed"
    by (cases lc) (simp_all add: claim_state_ok_def set_failed_def)
  show "columns_ok (set_failed g err lc nowMs r)"
    using row_inv_facts(1) [OF assms(1)] assms(2-4)
    by (simp add: columns_ok_def set_failed_def)
qed (use assms(2) in \<open>simp_all add: failed_metadata set_failed_def\<close>)

subsection \<open>The values of a transition\<close>

lemma raw_placement_sel [simp]:
  "p_sessionId (raw_placement r) = session_id r" "p_agentId (raw_placement r) = agent_id r"
  "p_sessionKey (raw_placement r) = session_key r"
  "p_generation (raw_placement r) = transition_generation r"
  "p_createdAtMs (raw_placement r) = created_at_ms r"
  "p_updatedAtMs (raw_placement r) = updated_at_ms r"
  "p_stateChangedAtMs (raw_placement r) = state_changed_at_ms r"
  "p_state (raw_placement r) = row_state r" "p_turnClaim (raw_placement r) = claim_of_row r"
  "p_environmentId (raw_placement r) = environment_id r"
  "p_activeOwnerEpoch (raw_placement r) = active_owner_epoch r"
  "p_workspaceBaseManifestRef (raw_placement r) = workspace_base_manifest_ref r"
  "p_remoteWorkspaceDir (raw_placement r) = remote_workspace_dir r"
  "p_workerBundleHash (raw_placement r) = worker_bundle_hash r"
  "p_lastTranscriptAckCursor (raw_placement r) = last_transcript_ack_cursor r"
  "p_lastLiveEventAckCursor (raw_placement r) = last_live_event_ack_cursor r"
  "p_recoveryError (raw_placement r) = recovery_error r"
  "p_workspaceResultConflict (raw_placement r) = None"
  by (simp_all add: raw_placement_def placement_of_def meta_of_row_def)

lemma patch_text_clean: "clean_str c \<Longrightarrow> patch_text c p f = Inr x \<Longrightarrow> clean_str x"
  by (cases "(c, p, f)" rule: patch_text.cases) (auto simp del: clean_str_simps(2) dest: required_clean)

lemma patch_epoch_ok: "epoch_ok c \<Longrightarrow> patch_epoch c p f = Inr x \<Longrightarrow> epoch_ok x"
  by (cases "(c, p, f)" rule: patch_epoch.cases) (auto simp: normalizeEpoch_Inr)

lemma patch_cursor_ok: "cursor_ok c \<Longrightarrow> patch_cursor c p f = Inr x \<Longrightarrow> cursor_ok x"
  by (cases p) (auto simp: normalizeCursor_Inr)

lemma transitionValuesE:
  assumes "transitionValues p to patch nowMs = Inr v"
  obtains env epoch g mr dir b tc lc err u where
    "(if to = WLocal \<or> to = WRequested then Inr None
      else patch_text (p_environmentId p) (pp_environmentId patch) FEnvironmentId) = Inr env"
    "(if (to = WLocal \<or> to = WRequested) \<or> to = WProvisioning \<or> to = WSyncing \<or> to = WStarting
      then Inr None
      else patch_epoch (p_activeOwnerEpoch p) (pp_activeOwnerEpoch patch) FActiveOwnerEpoch)
     = Inr epoch"
    "nextGeneration (p_generation p) = Inr g"
    "(if to = WLocal \<or> to = WRequested then Inr None
      else patch_text (p_workspaceBaseManifestRef p) (pp_workspaceBaseManifestRef patch)
             FManifestRef) = Inr mr"
    "(if to = WLocal \<or> to = WRequested then Inr None
      else patch_text (p_remoteWorkspaceDir p) (pp_remoteWorkspaceDir patch) FRemoteDir) = Inr dir"
    "(if to = WLocal \<or> to = WRequested then Inr None
      else patch_text (p_workerBundleHash p) (pp_workerBundleHash patch) FBundleHash) = Inr b"
    "(if to = WLocal \<or> to = WRequested then Inr None
      else patch_cursor (p_lastTranscriptAckCursor p) (pp_lastTranscriptAckCursor patch)
             FTranscriptCursor) = Inr tc"
    "(if to = WLocal \<or> to = WRequested then Inr None
      else patch_cursor (p_lastLiveEventAckCursor p) (pp_lastLiveEventAckCursor patch)
             FLiveCursor) = Inr lc"
    "(if to = WLocal \<or> to = WRequested then Inr None
      else patch_text (p_recoveryError p) (pp_recoveryError patch) FRecoveryError) = Inr err"
    "assertRecordShape (shape_of to
       \<lparr>m_environmentId = env, m_activeOwnerEpoch = epoch, m_workspaceBaseManifestRef = mr,
        m_remoteWorkspaceDir = dir, m_workerBundleHash = b, m_lastTranscriptAckCursor = tc,
        m_lastLiveEventAckCursor = lc\<rparr> err None) = Inr u"
    "v = \<lparr>session_id = p_sessionId p, agent_id = p_agentId p, session_key = p_sessionKey p,
        state = ws_text to, environment_id = env, transition_generation = g,
        active_owner_epoch = epoch, workspace_base_manifest_ref = mr,
        remote_workspace_dir = dir, worker_bundle_hash = b, last_transcript_ack_cursor = tc,
        last_live_event_ack_cursor = lc, recovery_error = err, turn_claim_owner = None,
        turn_claim_id = None, turn_claim_run_id = None, turn_claim_generation = None,
        turn_claim_owner_epoch = None, created_at_ms = p_createdAtMs p, updated_at_ms = nowMs,
        state_changed_at_ms = nowMs\<rparr>"
  using assms unfolding transitionValues_def Let_def
  by (elim bnd_InrE) (rule that, assumption+, simp only: sum.inject)

lemma transitionValues_row:
  assumes "row_inv r" "transitionValues (raw_placement r) to patch nowMs = Inr v"
  shows "row_inv v \<and> session_id v = session_id r \<and> agent_id v = agent_id r
     \<and> session_key v = session_key r \<and> created_at_ms v = created_at_ms r
     \<and> state v = ws_text to \<and> row_state v = to
     \<and> transition_generation v = transition_generation r + 1 \<and> turn_claim_owner v = None
     \<and> turn_claim_id v = None \<and> turn_claim_run_id v = None \<and> turn_claim_generation v = None
     \<and> turn_claim_owner_epoch v = None"
  using assms(2)
proof (rule transitionValuesE)
  fix env epoch g mr dir b tc lc err u
  note co = row_inv_facts(1) [OF assms(1), unfolded columns_ok_def]
  assume cols: "(if to = WLocal \<or> to = WRequested then Inr None
      else patch_text (p_environmentId (raw_placement r)) (pp_environmentId patch) FEnvironmentId) = Inr env"
    "(if (to = WLocal \<or> to = WRequested) \<or> to = WProvisioning \<or> to = WSyncing \<or> to = WStarting
      then Inr None
      else patch_epoch (p_activeOwnerEpoch (raw_placement r)) (pp_activeOwnerEpoch patch)
        FActiveOwnerEpoch) = Inr epoch"
    "nextGeneration (p_generation (raw_placement r)) = Inr g"
    "(if to = WLocal \<or> to = WRequested then Inr None
      else patch_text (p_workspaceBaseManifestRef (raw_placement r))
        (pp_workspaceBaseManifestRef patch) FManifestRef) = Inr mr"
    "(if to = WLocal \<or> to = WRequested then Inr None
      else patch_text (p_remoteWorkspaceDir (raw_placement r)) (pp_remoteWorkspaceDir patch)
        FRemoteDir) = Inr dir"
    "(if to = WLocal \<or> to = WRequested then Inr None
      else patch_text (p_workerBundleHash (raw_placement r)) (pp_workerBundleHash patch)
        FBundleHash) = Inr b"
    "(if to = WLocal \<or> to = WRequested then Inr None
      else patch_cursor (p_lastTranscriptAckCursor (raw_placement r))
        (pp_lastTranscriptAckCursor patch) FTranscriptCursor) = Inr tc"
    "(if to = WLocal \<or> to = WRequested then Inr None
      else patch_cursor (p_lastLiveEventAckCursor (raw_placement r))
        (pp_lastLiveEventAckCursor patch) FLiveCursor) = Inr lc"
    "(if to = WLocal \<or> to = WRequested then Inr None
      else patch_text (p_recoveryError (raw_placement r)) (pp_recoveryError patch)
        FRecoveryError) = Inr err"
  assume sh: "assertRecordShape (shape_of to
       \<lparr>m_environmentId = env, m_activeOwnerEpoch = epoch, m_workspaceBaseManifestRef = mr,
        m_remoteWorkspaceDir = dir, m_workerBundleHash = b, m_lastTranscriptAckCursor = tc,
        m_lastLiveEventAckCursor = lc\<rparr> err None) = Inr u"
    and v: "v = \<lparr>session_id = p_sessionId (raw_placement r), agent_id = p_agentId (raw_placement r),
        session_key = p_sessionKey (raw_placement r),
        state = ws_text to, environment_id = env, transition_generation = g,
        active_owner_epoch = epoch, workspace_base_manifest_ref = mr,
        remote_workspace_dir = dir, worker_bundle_hash = b, last_transcript_ack_cursor = tc,
        last_live_event_ack_cursor = lc, recovery_error = err, turn_claim_owner = None,
        turn_claim_id = None, turn_claim_run_id = None, turn_claim_generation = None,
        turn_claim_owner_epoch = None, created_at_ms = p_createdAtMs (raw_placement r),
        updated_at_ms = nowMs, state_changed_at_ms = nowMs\<rparr>"
  have tx: "clean_str x"
    if "(if cl then Inr None else patch_text cur p f) = Inr x" "clean_str cur" for cl cur p f x
    using that patch_text_clean [OF that(2)] by (auto split: if_splits simp del: clean_str_simps(2))
  have cursor: "cursor_ok x"
    if "(if cl then Inr None else patch_cursor cur p f) = Inr x" "cursor_ok cur" for cl cur p f x
    using that patch_cursor_ok [OF that(2)] by (auto split: if_splits simp del: clean_str_simps(2))
  have epoch: "epoch_ok x"
    if "(if cl then Inr None else patch_epoch cur p f) = Inr x" "epoch_ok cur" for cl cur p f x
    using that patch_epoch_ok [OF that(2)] by (auto split: if_splits simp del: clean_str_simps(2))
  have "row_inv v"
  proof (rule row_inv_intro [of _ to])
    show "columns_ok v"
      using cols(3) tx [OF cols(1)] epoch [OF cols(2)] tx [OF cols(4)] tx [OF cols(5)]
        tx [OF cols(6)] cursor [OF cols(7)] cursor [OF cols(8)] tx [OF cols(9)] co
      by (auto simp: columns_ok_def v nextGeneration_Inr simp del: clean_str_simps(2))
    show "shape_metadata (shape_of to (meta_of_row v) (recovery_error v) None) = Inr ()"
      using sh by (simp add: shape_metadata_split v meta_of_row_def)
  qed (simp_all add: v claim_ok_def claim_state_ok_def)
  then show ?thesis
    using cols(3) by (simp add: v nextGeneration_Inr row_state_text)
qed

text \<open>
  With an empty patch between the states that own a worker, a transition keeps every column but
  the state, the generation and the claim.
\<close>

definition moved_row :: "wstate \<Rightarrow> int \<Rightarrow> prow \<Rightarrow> prow" where
  "moved_row to nowMs r = r\<lparr>state := ws_text to,
     transition_generation := transition_generation r + 1, turn_claim_owner := None,
     turn_claim_id := None, turn_claim_run_id := None, turn_claim_generation := None,
     turn_claim_owner_epoch := None, updated_at_ms := nowMs, state_changed_at_ms := nowMs\<rparr>"

lemma transitionValues_keep:
  assumes "row_inv r" "row_state r \<in> {WActive, WDraining, WReconciling, WReclaimed}"
    and to: "to \<in> {WActive, WDraining, WReconciling, WReclaimed}"
  shows "transitionValues (raw_placement r) to empty_patch nowMs =
     (if js_is_safe (transition_generation r + 1) then Inr (moved_row to nowMs r)
      else Inl EGenerationExhausted)"
proof -
  have sh: "assertRecordShape (shape_of to (meta_of_row r) (recovery_error r) None) = Inr ()"
    using owned_row [OF assms(1,2)] to
    by (simp add: shape_metadata_split owned_metadata_iff meta_of_row_def) (simp add: shape_claim_def)
  have "to \<notin> {WLocal, WRequested, WProvisioning, WSyncing, WStarting}"
    using to by auto
  then show ?thesis
    using sh by (simp add: transitionValues_def empty_patch_def nextGeneration_def Let_def
        meta_of_row_def moved_row_def)
qed

subsection \<open>Guarded updates\<close>

definition prow_at :: "pdb \<Rightarrow> string \<Rightarrow> prow option" where
  "prow_at db = row_of session_id (placements db)"

definition jrow_at :: "pdb \<Rightarrow> string \<Rightarrow> jrow option" where
  "jrow_at db = row_of j_session_id (journals db)"

definition wrow_at :: "pdb \<Rightarrow> string \<Rightarrow> wrow option" where
  "wrow_at db = row_of w_session_id (pendings db)"

text \<open>Every row of the three tables is well formed, one row per session.\<close>

definition db_ok :: "pdb \<Rightarrow> bool" where
  "db_ok db \<longleftrightarrow> table_ok session_id row_inv (placements db)
     \<and> table_ok j_session_id journal_check (journals db)
     \<and> table_ok w_session_id pending_check (pendings db)"

text \<open>
  \<^verbatim>\<open>const result = executeSqliteQuerySync(db, update); if (result.numAffectedRows !== 1n) throw\<close>
\<close>

definition update_placement ::
    "pdb \<Rightarrow> (prow \<Rightarrow> bool) \<Rightarrow> (prow \<Rightarrow> prow) \<Rightarrow> perr \<Rightarrow> perr + pdb" where
  "update_placement db w f err =
     bnd (sql_lift (sql_update placement_check w f (placements db))) (\<lambda>(t, n).
       if n \<noteq> 1 then Inl err else Inr (db\<lparr>placements := t\<rparr>))"

definition set_row :: "pdb \<Rightarrow> string \<Rightarrow> prow \<Rightarrow> pdb" where
  "set_row db k v = db\<lparr>placements := map (\<lambda>x. if session_id x = k then v else x) (placements db)\<rparr>"

lemma db_ok_placements: "db_ok db \<Longrightarrow> table_ok session_id placement_check (placements db)"
  by (auto simp: db_ok_def table_ok_def list_all_iff)

lemma prow_at_key: "prow_at db k = Some r \<Longrightarrow> session_id r = k"
  unfolding prow_at_def by (rule pt.look_key)

lemma prow_at_inv: "db_ok db \<Longrightarrow> prow_at db k = Some r \<Longrightarrow> row_inv r"
  by (auto simp: db_ok_def table_ok_def list_all_iff prow_at_def dest: row_of_in)

lemma prow_at_unique:
  "db_ok db \<Longrightarrow> prow_at db k = Some r \<Longrightarrow> x \<in> set (placements db) \<Longrightarrow> session_id x = k \<Longrightarrow> x = r"
  unfolding prow_at_def db_ok_def table_ok_def
  by (metis option.inject row_of_iff)

lemma set_row_sel [simp]:
  "journals (set_row db k v) = journals db" "pendings (set_row db k v) = pendings db"
  "jrow_at (set_row db k v) = jrow_at db" "wrow_at (set_row db k v) = wrow_at db"
  by (simp_all add: set_row_def jrow_at_def wrow_at_def)

lemma prow_at_set_row:
  assumes "session_id v = k" "prow_at db k \<noteq> None"
  shows "prow_at (set_row db k v) j = (if j = k then Some v else prow_at db j)"
proof -
  have "prow_at (set_row db k v) j =
      map_option (\<lambda>x. if session_id x = k then v else x) (prow_at db j)"
    unfolding prow_at_def set_row_def using assms(1)
    by (simp add: row_of_map [where w = "\<lambda>x. session_id x = k" and f = "\<lambda>_. v"])
  then show ?thesis
    using assms(2) prow_at_key [of db j] by (cases "prow_at db j") auto
qed

lemma db_ok_set_row:
  assumes "db_ok db" "row_inv v" "session_id v = k"
  shows "db_ok (set_row db k v)"
  using assms map_key_update [where w = "\<lambda>x. session_id x = k" and f = "\<lambda>_. v" and key = session_id]
  by (auto simp: db_ok_def table_ok_def set_row_def list_all_iff simp del: map_map)

lemma set_row_map:
  assumes "db_ok db" "prow_at db k = Some r" "w r" "\<And>x. w x \<Longrightarrow> session_id x = k"
  shows "map (\<lambda>x. if w x then f x else x) (placements db) =
         map (\<lambda>x. if session_id x = k then f r else x) (placements db)"
  using prow_at_unique [OF assms(1,2)] assms(3,4) by (intro map_cong) auto

text \<open>What a guarded update of the row of \<open>k\<close> does, on every branch.\<close>

lemma update_placement_eq:
  assumes "db_ok db" "\<And>x. w x \<Longrightarrow> session_id x = k"
  shows "update_placement db w f err =
     (case prow_at db k of
        None \<Rightarrow> Inl err
      | Some r \<Rightarrow> if \<not> w r then Inl err
                  else if placement_check (f r) then Inr (set_row db k (f r))
                  else Inl ESqlConstraint)"
proof -
  have len: "length (sql_select w (placements db)) =
      (case prow_at db k of None \<Rightarrow> 0 | Some r \<Rightarrow> if w r then 1 else 0)"
    using length_select_key [of session_id "placements db" w k] assms
    by (simp add: db_ok_def table_ok_def prow_at_def)
  have none: "filter w (placements db) = []" if "prow_at db k = None \<or> (\<exists>r. prow_at db k = Some r \<and> \<not> w r)"
    using len that by (auto simp: sql_select_def)
  show ?thesis
  proof (cases "\<exists>r. prow_at db k = Some r \<and> w r")
    case True
    then obtain r where r: "prow_at db k = Some r" "w r" by blast
    have "list_all (\<lambda>x. w x \<longrightarrow> placement_check (f x)) (placements db) \<longleftrightarrow> placement_check (f r)"
      unfolding list_all_iff
    proof
      have "r \<in> set (placements db)" using r(1) unfolding prow_at_def by (rule row_of_in)
      then show "placement_check (f r)" if "\<forall>x\<in>set (placements db). w x \<longrightarrow> placement_check (f x)"
        using that r(2) by blast
    next
      have "x = r" if "x \<in> set (placements db)" "w x" for x
        using prow_at_unique [OF assms(1) r(1) that(1)] assms(2) [OF that(2)] .
      then show "\<forall>x\<in>set (placements db). w x \<longrightarrow> placement_check (f x)" if "placement_check (f r)"
        using that by blast
    qed
    then show ?thesis
      using r len set_row_map [where w = w and f = f, OF assms(1) r assms(2)]
      by (simp add: update_placement_def sql_update_def set_row_def)
  next
    case False
    then have *: "prow_at db k = None \<or> (\<exists>r. prow_at db k = Some r \<and> \<not> w r)"
      by (cases "prow_at db k") auto
    then have "list_all (\<lambda>x. w x \<longrightarrow> placement_check (f x)) (placements db)"
      using none by (auto simp: list_all_iff filter_empty_conv)
    then show ?thesis
      using * none [OF *] by (auto simp: update_placement_def sql_update_def sql_select_def)
  qed
qed

lemma find_placement_eq:
  "db_ok db \<Longrightarrow> find_placement db k = Inr (map_option raw_placement (prow_at db k))"
  unfolding find_placement_def sql_first_row_of prow_at_def [symmetric]
  by (cases "prow_at db k") (simp_all add: fromRow_raw [OF prow_at_inv])

lemma getRequired_eq:
  "db_ok db \<Longrightarrow> getRequired db k =
     (case prow_at db k of None \<Rightarrow> Inl EUnknownPlacement | Some r \<Rightarrow> Inr (raw_placement r))"
  by (simp add: getRequired_def find_placement_eq split: option.split)

lemma getRequired_Inr:
  "db_ok db \<Longrightarrow> getRequired db k = Inr p \<longleftrightarrow> (\<exists>r. prow_at db k = Some r \<and> p = raw_placement r)"
  by (auto simp: getRequired_eq split: option.split)

text \<open>
  The tail of an operation: the guarded update of a row that is there, then the read that returns
  the new record.
\<close>

lemma update_then_read:
  assumes "db_ok db" "prow_at db k = Some r" "w r" "\<And>x. w x \<Longrightarrow> session_id x = k"
    and "row_inv (f r)" "session_id (f r) = k"
  shows "bnd (update_placement db w f err) (\<lambda>db'. bnd (getRequired db' k) (\<lambda>p. Inr (db', p)))
    = Inr (set_row db k (f r), raw_placement (f r))"
  using assms(2,3,6) row_inv_check [OF assms(5)]
  by (simp add: update_placement_eq [OF assms(1,4)] getRequired_eq [OF db_ok_set_row [OF assms(1,5,6)]]
      prow_at_set_row)

end
