(* ===== verification/Placement_Journal.thy ===== *)
theory Placement_Journal
  imports Placement_Db
begin

section \<open>The workspace reconciliation journal\<close>

text \<open>
  \<^verbatim>\<open>placement-workspace-journal.ts\<close>: the journal written before a managed
  worktree is mutated. An operation that throws rolls its transaction back: \<open>Inl\<close>; otherwise it
  returns the new database.
\<close>

record jowner =
  jo_sessionId :: string
  jo_environmentId :: string
  jo_ownerEpoch :: int
  jo_placementGeneration :: int

definition jowner_of :: "jrow \<Rightarrow> jowner" where
  "jowner_of row = \<lparr>jo_sessionId = j_session_id row, jo_environmentId = j_environment_id row,
     jo_ownerEpoch = j_owner_epoch row, jo_placementGeneration = j_placement_generation row\<rparr>"

definition jowner_row :: "jowner \<Rightarrow> jrow \<Rightarrow> bool" where
  "jowner_row own row \<longleftrightarrow> j_session_id row = jo_sessionId own
     \<and> j_environment_id row = jo_environmentId own \<and> j_owner_epoch row = jo_ownerEpoch own
     \<and> j_placement_generation row = jo_placementGeneration own"

definition journal_first :: "pdb \<Rightarrow> string \<Rightarrow> jrow option" where
  "journal_first db sessionId = sql_first (\<lambda>r. j_session_id r = sessionId) (journals db)"

definition isCurrentJournalOwner :: "placement option \<Rightarrow> jowner \<Rightarrow> bool" where
  "isCurrentJournalOwner found own \<longleftrightarrow>
     (case found of
        None \<Rightarrow> False
      | Some p \<Rightarrow> (p_state p = WActive \<or> p_state p = WDraining)
          \<and> p_environmentId p = Some (jo_environmentId own)
          \<and> p_activeOwnerEpoch p = Some (jo_ownerEpoch own)
          \<and> p_generation p = jo_placementGeneration own)"

definition failedJournalOwner :: "placement \<Rightarrow> jowner \<Rightarrow> bool" where
  "failedJournalOwner p own \<longleftrightarrow> p_state p = WFailed
     \<and> p_generation p > jo_placementGeneration own
     \<and> p_environmentId p = Some (jo_environmentId own)
     \<and> p_activeOwnerEpoch p = Some (jo_ownerEpoch own)"

definition assertJournalOwner :: "pdb \<Rightarrow> jowner \<Rightarrow> bool \<Rightarrow> perr + placement" where
  "assertJournalOwner db own allowFailedOwner =
     bnd (getRequired db (jo_sessionId own)) (\<lambda>p.
       if \<not> isCurrentJournalOwner (Some p) own \<and> \<not> (allowFailedOwner \<and> failedJournalOwner p own)
       then Inl EStaleOwner else Inr p)"

text \<open>The third argument is optional; an empty reference counts as absent.\<close>

definition clearWorkerWorkspaceReconciliation ::
    "pdb \<Rightarrow> string \<Rightarrow> string option \<Rightarrow> perr + pdb" where
  "clearWorkerWorkspaceReconciliation db sessionId currentManifestRef =
     (if (case journal_first db sessionId of
            None \<Rightarrow> False
          | Some row \<Rightarrow> truthy_str currentManifestRef
              \<and> Some (j_current_manifest_ref row) \<noteq> currentManifestRef)
      then Inl EJournalChanged
      else Inr (db\<lparr>journals := fst (sql_delete (\<lambda>r. j_session_id r = sessionId) (journals db))\<rparr>))"

definition listWorkspaceReconciliationOwners :: "pdb \<Rightarrow> jowner list" where
  "listWorkspaceReconciliationOwners db = map jowner_of (sort_key j_session_id (journals db))"

text \<open>The loop of the pruning transaction, over the owners read at its start.\<close>

fun prune_owners ::
    "(string \<Rightarrow> bool) \<Rightarrow> pdb \<Rightarrow> jowner list \<Rightarrow> perr + pdb \<times> jowner list" where
  "prune_owners retainFailedOwner db [] = Inr (db, [])"
| "prune_owners retainFailedOwner db (own # rest) =
     bnd (find_placement db (jo_sessionId own)) (\<lambda>found.
       (if isCurrentJournalOwner found own
           \<or> (case found of
                None \<Rightarrow> False
              | Some p \<Rightarrow> failedJournalOwner p own
                  \<and> (case p_recoveryError p of None \<Rightarrow> False | Some e \<Rightarrow> retainFailedOwner e))
        then prune_owners retainFailedOwner db rest
        else
          bnd (prune_owners retainFailedOwner
                (db\<lparr>journals := fst (sql_delete (jowner_row own) (journals db))\<rparr>) rest)
            (\<lambda>(db', pruned).
              Inr (db', if snd (sql_delete (jowner_row own) (journals db)) = 1
                        then own # pruned else pruned))))"

definition pruneOrphanedWorkspaceReconciliations ::
    "(string \<Rightarrow> bool) \<Rightarrow> pdb \<Rightarrow> perr + pdb \<times> jowner list" where
  "pruneOrphanedWorkspaceReconciliations retainFailedOwner db =
     prune_owners retainFailedOwner db (listWorkspaceReconciliationOwners db)"

fun plan_lift :: "merr + 'a \<Rightarrow> perr + 'a" where
  "plan_lift (Inl e) = Inl (EPlan e)"
| "plan_lift (Inr x) = Inr x"

lemma plan_lift_Inr [simp]: "plan_lift m = Inr x \<longleftrightarrow> m = Inr x"
  by (cases m) auto

definition loadWorkspaceReconciliation ::
    "(string \<Rightarrow> string) \<Rightarrow> pdb \<Rightarrow> jowner \<Rightarrow> bool \<Rightarrow> perr + (wplan \<times> string) option" where
  "loadWorkspaceReconciliation sha256 db own allowFailedOwner =
     bnd (assertJournalOwner db own allowFailedOwner) (\<lambda>p.
       (case journal_first db (jo_sessionId own) of
          None \<Rightarrow> Inr None
        | Some row \<Rightarrow>
            bnd (plan_lift (parseWorkerWorkspaceReconciliationPlan (j_plan_json row))) (\<lambda>plan.
              (if j_environment_id row \<noteq> jo_environmentId own
                  \<or> j_owner_epoch row \<noteq> jo_ownerEpoch own
                  \<or> j_placement_generation row \<noteq> jo_placementGeneration own
                  \<or> (p_workspaceBaseManifestRef p \<noteq> Some (j_base_manifest_ref row)
                     \<and> p_workspaceBaseManifestRef p \<noteq> pl_appliedManifestRef plan)
               then Inl EJournalStale
               else if pl_baseManifestRef plan \<noteq> j_base_manifest_ref row
                  \<or> pl_currentManifestRef plan \<noteq> j_current_manifest_ref row
               then Inl EJournalMetadata
               else if length (j_base_pack row) > 268435456
                  \<or> sha256 (j_base_pack row) \<noteq> pl_basePackSha256 plan
               then Inl EJournalSnapshot
               else Inr (Some (plan, j_base_pack row))))))"

definition beginWorkspaceReconciliation ::
    "pdb \<Rightarrow> jowner \<Rightarrow> wplan \<Rightarrow> string \<Rightarrow> int \<Rightarrow> perr + pdb" where
  "beginWorkspaceReconciliation db own journal basePack nowMs =
     (if truthy_str (pl_appliedManifestRef journal) then Inl EJournalApplied
      else
       bnd (assertJournalOwner db own False) (\<lambda>p.
         (if p_workspaceBaseManifestRef p \<noteq> Some (pl_baseManifestRef journal)
          then Inl EJournalChanged
          else
           bnd (sql_lift (sql_insert_ignore j_session_id journal_check
                 \<lparr>j_session_id = jo_sessionId own, j_environment_id = jo_environmentId own,
                  j_owner_epoch = jo_ownerEpoch own,
                  j_placement_generation = jo_placementGeneration own,
                  j_base_manifest_ref = pl_baseManifestRef journal,
                  j_current_manifest_ref = pl_currentManifestRef journal,
                  j_plan_json = serializeWorkerWorkspaceReconciliationPlan journal,
                  j_base_pack = basePack, j_created_at_ms = nowMs\<rparr> (journals db)))
             (\<lambda>(t, n). if n \<noteq> 1 then Inl EJournalPending else Inr (db\<lparr>journals := t\<rparr>)))))"

definition abortWorkspaceReconciliation :: "pdb \<Rightarrow> jowner \<Rightarrow> bool \<Rightarrow> perr + pdb" where
  "abortWorkspaceReconciliation db own force =
     (if \<not> force then
        bnd (assertJournalOwner db own False) (\<lambda>_.
          clearWorkerWorkspaceReconciliation db (jo_sessionId own) None)
      else
        (let (t, n) = sql_delete (jowner_row own) (journals db)
         in if n \<noteq> 1 then Inl EJournalChanged else Inr (db\<lparr>journals := t\<rparr>)))"

end
