(* ===== verification/Placement_Result.thy ===== *)
theory Placement_Result
  imports Placement_Journal
begin

section \<open>The pending workspace result\<close>

text \<open>
  \<^verbatim>\<open>placement-workspace-result.ts\<close>: the fence a completed remote turn leaves behind
  until its workspace result is reconciled. \<open>worker_claim_held\<close> is the comparison every
  operation of a worker claim makes against the stored record.
\<close>

definition worker_claim_held ::
    "placement \<Rightarrow> string \<Rightarrow> int \<Rightarrow> string \<Rightarrow> string \<Rightarrow> int \<Rightarrow> bool" where
  "worker_claim_held p environmentId ownerEpoch claimId runId generation \<longleftrightarrow>
     (p_state p = WActive \<or> p_state p = WDraining)
   \<and> p_environmentId p = Some environmentId \<and> p_activeOwnerEpoch p = Some ownerEpoch
   \<and> p_turnClaim p = Some (PWorker claimId runId generation ownerEpoch)"

definition pending_first :: "pdb \<Rightarrow> string \<Rightarrow> wrow option" where
  "pending_first db sessionId = sql_first (\<lambda>r. w_session_id r = sessionId) (pendings db)"

definition clearWorkerWorkspacePendingResult :: "pdb \<Rightarrow> string \<Rightarrow> pdb" where
  "clearWorkerWorkspacePendingResult db sessionId =
     db\<lparr>pendings := fst (sql_delete (\<lambda>r. w_session_id r = sessionId) (pendings db))\<rparr>"

definition hasWorkerWorkspacePendingResult :: "pdb \<Rightarrow> string \<Rightarrow> bool" where
  "hasWorkerWorkspacePendingResult db sessionId \<longleftrightarrow> pending_first db sessionId \<noteq> None"

definition hasAcceptedWorkerWorkspacePendingResult :: "pdb \<Rightarrow> string \<Rightarrow> bool" where
  "hasAcceptedWorkerWorkspacePendingResult db sessionId \<longleftrightarrow>
     sql_first (\<lambda>r. w_session_id r = sessionId \<and> w_workspace_accepted_at_ms r \<noteq> None) (pendings db)
     \<noteq> None"

text \<open>The row is the one of this claim: environment, epoch, generation, claim and run agree.\<close>

definition pending_of_claim :: "wrow \<Rightarrow> turn_claim \<Rightarrow> bool" where
  "pending_of_claim row claim \<longleftrightarrow>
     tc_owner claim = WorkerOwner (w_environment_id row) (w_owner_epoch row)
   \<and> w_placement_generation row = tc_placementGeneration claim
   \<and> w_claim_id row = tc_claimId claim \<and> w_run_id row = tc_runId claim"

definition insertWorkerWorkspacePendingResult ::
    "pdb \<Rightarrow> turn_claim \<Rightarrow> int \<Rightarrow> string \<Rightarrow> perr + pdb" where
  "insertWorkerWorkspacePendingResult db claim nowMs gatewayInstanceId =
     (case tc_owner claim of
        LocalOwner \<Rightarrow> Inl ENotWorkerClaim
      | WorkerOwner environmentId ownerEpoch \<Rightarrow>
          bnd (getRequired db (tc_sessionId claim)) (\<lambda>p.
            (if \<not> worker_claim_held p environmentId ownerEpoch (tc_claimId claim) (tc_runId claim)
                   (tc_placementGeneration claim)
             then Inl EStaleOwner
             else
              bnd (sql_lift (sql_insert_ignore w_session_id pending_check
                    \<lparr>w_session_id = tc_sessionId claim, w_environment_id = environmentId,
                     w_owner_epoch = ownerEpoch,
                     w_placement_generation = tc_placementGeneration claim,
                     w_claim_id = tc_claimId claim, w_run_id = tc_runId claim,
                     w_gateway_instance_id = gatewayInstanceId,
                     w_recovery_requested_at_ms = None, w_workspace_accepted_at_ms = None,
                     w_staged_result_ref = None, w_created_at_ms = nowMs\<rparr> (pendings db)))
                (\<lambda>(t, n).
                  if n = 1 then Inr (db\<lparr>pendings := t\<rparr>)
                  else
                    (case pending_first db (tc_sessionId claim) of
                       None \<Rightarrow> Inl EPendingResult
                     | Some existing \<Rightarrow>
                         if pending_of_claim existing claim then Inr db
                         else Inl EPendingResult)))))"

text \<open>A guarded update of the pending table whose row count must be 1.\<close>

definition update_pending ::
    "pdb \<Rightarrow> (wrow \<Rightarrow> bool) \<Rightarrow> (wrow \<Rightarrow> wrow) \<Rightarrow> perr \<Rightarrow> perr + pdb" where
  "update_pending db w f err =
     bnd (sql_lift (sql_update pending_check w f (pendings db))) (\<lambda>(t, n).
       if n \<noteq> 1 then Inl err else Inr (db\<lparr>pendings := t\<rparr>))"

definition markWorkerWorkspacePendingResultAccepted ::
    "pdb \<Rightarrow> turn_claim \<Rightarrow> int \<Rightarrow> perr + pdb" where
  "markWorkerWorkspacePendingResultAccepted db claim nowMs =
     (case tc_owner claim of
        LocalOwner \<Rightarrow> Inl ENotWorkerClaim
      | WorkerOwner environmentId ownerEpoch \<Rightarrow>
          update_pending db
            (\<lambda>r. w_session_id r = tc_sessionId claim \<and> pending_of_claim r claim)
            (\<lambda>r. r\<lparr>w_workspace_accepted_at_ms := Some nowMs\<rparr>) EStaleOwner)"

definition assertPendingClaim :: "pdb \<Rightarrow> turn_claim \<Rightarrow> perr + wrow" where
  "assertPendingClaim db claim =
     (case pending_first db (tc_sessionId claim) of
        None \<Rightarrow> Inl EStaleOwner
      | Some row \<Rightarrow> if pending_of_claim row claim then Inr row else Inl EStaleOwner)"

definition listPendingWorkspaceResults :: "pdb \<Rightarrow> wrow list" where
  "listPendingWorkspaceResults db = sort_key w_session_id (pendings db)"

definition markWorkspaceResultPending ::
    "string \<Rightarrow> pdb \<Rightarrow> turn_claim \<Rightarrow> int \<Rightarrow> perr + pdb" where
  "markWorkspaceResultPending instanceId db claim nowMs =
     insertWorkerWorkspacePendingResult db claim nowMs instanceId"

text \<open>\<^verbatim>\<open>/^refs\/openclaw\/worker-results\/[A-Za-z0-9-]+$/u\<close>\<close>

definition result_char :: "char \<Rightarrow> bool" where
  "result_char c \<longleftrightarrow> c \<in> set ''ABCDEFGHIJKLMNOPQRSTUVWXYZabcdefghijklmnopqrstuvwxyz0123456789-''"

definition staged_ref :: "string \<Rightarrow> bool" where
  "staged_ref s \<longleftrightarrow> take 29 s = ''refs/openclaw/worker-results/'' \<and> drop 29 s \<noteq> []
     \<and> list_all result_char (drop 29 s)"

definition recordStagedWorkspaceResult :: "pdb \<Rightarrow> turn_claim \<Rightarrow> string \<Rightarrow> perr + pdb" where
  "recordStagedWorkspaceResult db claim stagedResultRef =
     (if \<not> staged_ref stagedResultRef then Inl EStagedRefInvalid
      else
       bnd (assertPendingClaim db claim) (\<lambda>pending.
         (if w_workspace_accepted_at_ms pending \<noteq> None then Inl EAlreadyAccepted
          else if truthy_str (w_staged_result_ref pending)
                  \<and> w_staged_result_ref pending \<noteq> Some stagedResultRef
          then Inl EChanged
          else update_pending db
                 (\<lambda>r. w_session_id r = tc_sessionId claim \<and> w_claim_id r = tc_claimId claim
                      \<and> w_run_id r = tc_runId claim)
                 (\<lambda>r. r\<lparr>w_staged_result_ref := Some stagedResultRef\<rparr>) EStaleOwner)))"

definition acceptWorkspaceResult :: "pdb \<Rightarrow> turn_claim \<Rightarrow> int \<Rightarrow> perr + pdb" where
  "acceptWorkspaceResult db claim nowMs =
     bnd (assertPendingClaim db claim) (\<lambda>_.
     bnd (markWorkerWorkspacePendingResultAccepted db claim nowMs) (\<lambda>db'.
       clearWorkerWorkspaceReconciliation db' (tc_sessionId claim) None))"

definition handoffWorkspaceResultRecovery ::
    "string \<Rightarrow> pdb \<Rightarrow> turn_claim \<Rightarrow> int \<Rightarrow> perr + pdb" where
  "handoffWorkspaceResultRecovery instanceId db claim nowMs =
     bnd (assertPendingClaim db claim) (\<lambda>pending.
       (if w_gateway_instance_id pending \<noteq> instanceId then Inl EOtherGateway
        else update_pending db
               (\<lambda>r. w_session_id r = tc_sessionId claim \<and> w_gateway_instance_id r = instanceId)
               (\<lambda>r. r\<lparr>w_recovery_requested_at_ms := Some nowMs\<rparr>) EChanged))"

text \<open>
  The argument is a row of \<open>listPendingWorkspaceResults\<close>; only its key and claim are compared.
\<close>

definition abandonWorkspaceResult :: "pdb \<Rightarrow> wrow \<Rightarrow> perr + pdb" where
  "abandonWorkspaceResult db pending =
     (let (t, n) = sql_delete
            (\<lambda>r. w_session_id r = w_session_id pending
                \<and> w_environment_id r = w_environment_id pending
                \<and> w_owner_epoch r = w_owner_epoch pending
                \<and> w_placement_generation r = w_placement_generation pending
                \<and> w_claim_id r = w_claim_id pending \<and> w_run_id r = w_run_id pending)
            (pendings db)
      in if n \<noteq> 1 then Inl EChanged else Inr (db\<lparr>pendings := t\<rparr>))"

end
