(* ===== verification/Placement_Claims.thy ===== *)
theory Placement_Claims
  imports Placement_Result
begin

section \<open>Turn claims\<close>

text \<open>
  \<^verbatim>\<open>placement-turn-claims.ts\<close>: who may run the next turn of a session. The
  database part of every operation is a function of the database and the clock readings it makes;
  the waiters for a release are in the theory of the store.
\<close>

record claim_input =
  ci_identity :: pidentity
  ci_owner :: turn_owner
  ci_claimId :: string
  ci_runId :: string

fun normalizeOwner :: "turn_owner \<Rightarrow> perr + turn_owner" where
  "normalizeOwner LocalOwner = Inr LocalOwner"
| "normalizeOwner (WorkerOwner environmentId ownerEpoch) =
     bnd (required environmentId FTurnOwnerEnvironment) (\<lambda>env.
     bnd (normalizeEpoch ownerEpoch FTurnOwnerEpoch) (\<lambda>epoch. Inr (WorkerOwner env epoch)))"

text \<open>The placement a new claim needs: a local one for a local turn, an active one with the same
  environment and epoch for a worker turn.\<close>

fun turn_admitted :: "turn_owner \<Rightarrow> placement \<Rightarrow> bool" where
  "turn_admitted LocalOwner p \<longleftrightarrow> p_state p = WLocal"
| "turn_admitted (WorkerOwner env epoch) p \<longleftrightarrow> p_state p = WActive
     \<and> p_environmentId p = Some env \<and> p_activeOwnerEpoch p = Some epoch"

definition claimTurnInDatabase ::
    "pdb \<Rightarrow> claim_input \<Rightarrow> int \<Rightarrow> perr + pdb \<times> turn_claim" where
  "claimTurnInDatabase db input updatedAtMs =
     bnd (normalizeIdentity (ci_identity input)) (\<lambda>identity.
     bnd (required (ci_claimId input) FClaimId) (\<lambda>claimId.
     bnd (required (ci_runId input) FClaimRunId) (\<lambda>runId.
     bnd (normalizeOwner (ci_owner input)) (\<lambda>own.
     bnd (ensureLocal db identity updatedAtMs) (\<lambda>(db', current).
       (if p_turnClaim current \<noteq> None then Inl EActiveTurnClaim
        else if \<not> turn_admitted own current then
          Inl (case own of LocalOwner \<Rightarrow> ELocalTurnRejected | WorkerOwner _ _ \<Rightarrow> EWorkerTurnRejected)
        else
          bnd (update_placement db'
                (\<lambda>r. session_id r = p_sessionId current \<and> state r = ws_text (p_state current)
                     \<and> transition_generation r = p_generation current
                     \<and> turn_claim_owner r = None)
                (set_claim own claimId runId (p_generation current) updatedAtMs) EChanged) (\<lambda>db''.
            Inr (db'', \<lparr>tc_sessionId = p_sessionId current, tc_claimId = claimId,
                        tc_runId = runId, tc_placementGeneration = p_generation current,
                        tc_owner = own\<rparr>))))))))"

definition claimTurn :: "pdb \<Rightarrow> claim_input \<Rightarrow> int \<Rightarrow> perr + pdb \<times> turn_claim" where
  "claimTurn db input nowMs = claimTurnInDatabase db input nowMs"

definition reclaim_id :: "string \<Rightarrow> bool" where
  "reclaim_id s \<longleftrightarrow> prefix ''reclaim-'' s"

definition claimReclaimWorkspaceResult ::
    "string \<Rightarrow> pdb \<Rightarrow> claim_input \<Rightarrow> int \<Rightarrow> perr + pdb \<times> turn_claim" where
  "claimReclaimWorkspaceResult instanceId db input nowMs =
     (if ci_claimId input \<noteq> ci_runId input \<or> \<not> reclaim_id (ci_claimId input)
      then Inl ENotReclaimOwned
      else
       bnd (claimTurnInDatabase db input nowMs) (\<lambda>(db', claim).
       bnd (insertWorkerWorkspacePendingResult db' claim nowMs instanceId) (\<lambda>db''.
         Inr (db'', claim))))"

text \<open>The comparison \<^verbatim>\<open>releaseTurn\<close> and \<^verbatim>\<open>validateTurnClaim\<close> make.\<close>

fun claim_matches :: "placement \<Rightarrow> turn_owner \<Rightarrow> string \<Rightarrow> string \<Rightarrow> int \<Rightarrow> bool" where
  "claim_matches p LocalOwner claimId runId generation \<longleftrightarrow>
     p_turnClaim p = Some (PLocal claimId runId generation)"
| "claim_matches p (WorkerOwner env epoch) claimId runId generation \<longleftrightarrow>
     worker_claim_held p env epoch claimId runId generation"

definition releaseTurn :: "pdb \<Rightarrow> turn_claim \<Rightarrow> int \<Rightarrow> perr + pdb \<times> placement" where
  "releaseTurn db claim nowMs =
     bnd (required (tc_sessionId claim) FSessionId) (\<lambda>sessionId.
     bnd (required (tc_claimId claim) FClaimId) (\<lambda>claimId.
     bnd (required (tc_runId claim) FClaimRunId) (\<lambda>runId.
     bnd (getRequired db sessionId) (\<lambda>current.
       (if hasWorkerWorkspacePendingResult db sessionId then Inl EPendingResult
        else if \<not> claim_matches current (tc_owner claim) claimId runId (tc_placementGeneration claim)
        then Inl EClaimChanged
        else
          bnd (update_placement db
                (\<lambda>r. session_id r = sessionId \<and> turn_claim_id r = Some claimId
                     \<and> turn_claim_run_id r = Some runId
                     \<and> turn_claim_generation r = Some (tc_placementGeneration claim))
                (clear_claim nowMs) EClaimChanged) (\<lambda>db'.
          bnd (getRequired db' sessionId) (\<lambda>p. Inr (db', p))))))))"

definition completeWorkspaceResultAndReleaseTurn ::
    "pdb \<Rightarrow> turn_claim \<Rightarrow> bool \<Rightarrow> int \<Rightarrow> perr + pdb \<times> placement" where
  "completeWorkspaceResultAndReleaseTurn db claim reclaim nowMs =
     bnd (required (tc_sessionId claim) FSessionId) (\<lambda>sessionId.
     bnd (required (tc_claimId claim) FClaimId) (\<lambda>claimId.
     bnd (required (tc_runId claim) FClaimRunId) (\<lambda>runId.
       (if \<not> hasWorkerWorkspacePendingResult db sessionId then Inl ENoPendingResult
        else if \<not> hasAcceptedWorkerWorkspacePendingResult db sessionId then Inl EResultNotAccepted
        else
         bnd (getRequired db sessionId) (\<lambda>current.
           (case tc_owner claim of
              LocalOwner \<Rightarrow> Inl EOwnerChanged
            | WorkerOwner env epoch \<Rightarrow>
               (if \<not> worker_claim_held current env epoch claimId runId (tc_placementGeneration claim)
                then Inl EOwnerChanged
                else
                 bnd (if reclaim
                      then bnd (transitionValues current WReclaimed empty_patch nowMs)
                             (\<lambda>v. Inr (\<lambda>_. v))
                      else Inr (clear_claim nowMs)) (\<lambda>assign.
                 bnd (update_placement (clearWorkerWorkspacePendingResult db sessionId)
                       (\<lambda>r. session_id r = sessionId \<and> state r = ws_text (p_state current)
                            \<and> transition_generation r = p_generation current
                            \<and> turn_claim_id r = Some claimId
                            \<and> turn_claim_run_id r = Some runId)
                       assign EChanged) (\<lambda>db'.
                 bnd (getRequired db' sessionId) (\<lambda>p. Inr (db', p)))))))))))"

definition cancelWorkspaceResultAndReleaseTurn ::
    "pdb \<Rightarrow> turn_claim \<Rightarrow> int \<Rightarrow> perr + pdb \<times> placement" where
  "cancelWorkspaceResultAndReleaseTurn db claim nowMs =
     bnd (required (tc_sessionId claim) FSessionId) (\<lambda>sessionId.
     bnd (required (tc_claimId claim) FClaimId) (\<lambda>claimId.
     bnd (required (tc_runId claim) FClaimRunId) (\<lambda>runId.
       (if claimId \<noteq> runId \<or> \<not> reclaim_id claimId then Inl ENotReclaimOwned
        else
         bnd (getRequired db sessionId) (\<lambda>current.
           (case (tc_owner claim, pending_first db sessionId) of
              (WorkerOwner env epoch, Some pending) \<Rightarrow>
               (if \<not> worker_claim_held current env epoch claimId runId (tc_placementGeneration claim)
                   \<or> w_environment_id pending \<noteq> env \<or> w_owner_epoch pending \<noteq> epoch
                   \<or> w_placement_generation pending \<noteq> tc_placementGeneration claim
                   \<or> w_claim_id pending \<noteq> claimId \<or> w_run_id pending \<noteq> runId
                   \<or> w_workspace_accepted_at_ms pending \<noteq> None
                then Inl EOwnerChanged
                else
                 bnd (update_placement (clearWorkerWorkspacePendingResult db sessionId)
                       (\<lambda>r. session_id r = sessionId \<and> state r = ws_text (p_state current)
                            \<and> transition_generation r = p_generation current
                            \<and> turn_claim_id r = Some claimId
                            \<and> turn_claim_run_id r = Some runId)
                       (clear_claim nowMs) EChanged) (\<lambda>db'.
                 bnd (getRequired db' sessionId) (\<lambda>p. Inr (db', p))))
            | _ \<Rightarrow> Inl EOwnerChanged))))))"

definition local_claim_row :: "prow \<Rightarrow> bool" where
  "local_claim_row r \<longleftrightarrow> turn_claim_owner r = Some ''local''"

definition clearLocalTurnClaimsAfterRestart :: "pdb \<Rightarrow> int \<Rightarrow> perr + pdb \<times> string list" where
  "clearLocalTurnClaimsAfterRestart db nowMs =
     (let sessionIds = map session_id (sql_select local_claim_row (placements db))
      in bnd (sql_lift (sql_update placement_check local_claim_row (clear_claim nowMs)
               (placements db))) (\<lambda>(t, n).
           if n \<noteq> length sessionIds then Inl EChanged
           else Inr (db\<lparr>placements := t\<rparr>, sessionIds)))"

definition validateTurnClaim :: "pdb \<Rightarrow> turn_claim \<Rightarrow> perr + bool" where
  "validateTurnClaim db claim =
     bnd (required (tc_sessionId claim) FSessionId) (\<lambda>sessionId.
     bnd (find_placement db sessionId) (\<lambda>found.
       Inr (case found of
              None \<Rightarrow> False
            | Some p \<Rightarrow> claim_matches p (tc_owner claim) (tc_claimId claim) (tc_runId claim)
                (tc_placementGeneration claim))))"

text \<open>
  \<open>nowMs\<close> is the reading that stamps the row, \<open>pendingNowMs\<close> the one that stamps the fence.
\<close>

definition updateAckCursors ::
    "string \<Rightarrow> pdb \<Rightarrow> turn_claim \<Rightarrow> int option \<Rightarrow> int option \<Rightarrow> bool \<Rightarrow> int \<Rightarrow> int \<Rightarrow>
     perr + pdb \<times> placement" where
  "updateAckCursors instanceId db claim transcript liveEvent workspaceResultPending nowMs
       pendingNowMs =
     bnd (required (tc_sessionId claim) FSessionId) (\<lambda>sessionId.
     bnd (required (tc_claimId claim) FClaimId) (\<lambda>claimId.
     bnd (required (tc_runId claim) FClaimRunId) (\<lambda>runId.
       (if \<not> js_is_safe (tc_placementGeneration claim) \<or> tc_placementGeneration claim < 0
        then Inl EClaimGeneration
        else
         (case tc_owner claim of
            LocalOwner \<Rightarrow> Inl ENotWorkerClaim
          | WorkerOwner env0 epoch0 \<Rightarrow>
             bnd (required env0 FEnvironmentId) (\<lambda>environmentId.
             bnd (normalizeEpoch epoch0 FActiveOwnerEpoch) (\<lambda>ownerEpoch.
             bnd (getRequired db sessionId) (\<lambda>current.
               (if \<not> worker_claim_held current environmentId ownerEpoch claimId runId
                      (tc_placementGeneration claim)
                then Inl EStaleOwner
                else
                 bnd (advanceCursor (p_lastTranscriptAckCursor current) transcript
                       FTranscriptCursor) (\<lambda>t.
                 bnd (advanceCursor (p_lastLiveEventAckCursor current) liveEvent FLiveCursor) (\<lambda>l.
                 bnd (update_placement db
                       (\<lambda>r. session_id r = sessionId \<and> state r = ws_text (p_state current)
                          \<and> transition_generation r = p_generation current
                          \<and> environment_id r = Some environmentId
                          \<and> active_owner_epoch r = Some ownerEpoch
                          \<and> turn_claim_owner r = Some ''worker'' \<and> turn_claim_id r = Some claimId
                          \<and> turn_claim_run_id r = Some runId
                          \<and> turn_claim_generation r = Some (tc_placementGeneration claim)
                          \<and> turn_claim_owner_epoch r = Some ownerEpoch)
                       (set_cursors t l nowMs) EChanged) (\<lambda>db'.
                 bnd (if workspaceResultPending
                      then insertWorkerWorkspacePendingResult db' claim pendingNowMs instanceId
                      else Inr db') (\<lambda>db''.
                 bnd (getRequired db'' sessionId) (\<lambda>p. Inr (db'', p)))))))))))))))"

text \<open>
  A manifest update reads the journal of the session and its plan, and marks the plan as applied
  once the placement is updated.
\<close>

definition readReconciliation :: "pdb \<Rightarrow> string \<Rightarrow> perr + (jrow \<times> wplan) option" where
  "readReconciliation db sessionId =
     (case journal_first db sessionId of
        None \<Rightarrow> Inr None
      | Some row \<Rightarrow>
          bnd (plan_lift (parseWorkerWorkspaceReconciliationPlan (j_plan_json row))) (\<lambda>plan.
            Inr (Some (row, plan))))"

fun stale_reconciliation :: "(jrow \<times> wplan) option \<Rightarrow> string option \<Rightarrow> bool" where
  "stale_reconciliation None base = False"
| "stale_reconciliation (Some (row, plan)) base \<longleftrightarrow>
     Some (j_base_manifest_ref row) \<noteq> base \<and> pl_appliedManifestRef plan \<noteq> base"

fun markReconciliation ::
    "pdb \<Rightarrow> string \<Rightarrow> string \<Rightarrow> (jrow \<times> wplan) option \<Rightarrow> perr + pdb" where
  "markReconciliation db sessionId manifestRef None = Inr db"
| "markReconciliation db sessionId manifestRef (Some (row, plan)) =
     bnd (sql_lift (sql_update journal_check
           (\<lambda>r. j_session_id r = sessionId \<and> j_base_manifest_ref r = j_base_manifest_ref row)
           (\<lambda>r. r\<lparr>j_plan_json := serializeWorkerWorkspaceReconciliationPlan
                    (plan\<lparr>pl_appliedManifestRef := Some manifestRef\<rparr>)\<rparr>)
           (journals db)))
       (\<lambda>(t, n). if n \<noteq> 1 then Inl EJournalChanged else Inr (db\<lparr>journals := t\<rparr>))"

definition updateWorkspaceBaseManifest ::
    "pdb \<Rightarrow> turn_claim \<Rightarrow> string \<Rightarrow> int \<Rightarrow> perr + pdb \<times> placement" where
  "updateWorkspaceBaseManifest db claim manifest nowMs =
     bnd (required (tc_sessionId claim) FSessionId) (\<lambda>sessionId.
     bnd (required (tc_claimId claim) FClaimId) (\<lambda>claimId.
     bnd (required (tc_runId claim) FClaimRunId) (\<lambda>runId.
     bnd (required manifest FManifestRef) (\<lambda>manifestRef.
       (if \<not> manifest_ref manifestRef then Inl EManifestInvalid
        else
         (case tc_owner claim of
            LocalOwner \<Rightarrow> Inl ENotWorkerClaim
          | WorkerOwner env0 epoch0 \<Rightarrow>
             bnd (required env0 FEnvironmentId) (\<lambda>environmentId.
             bnd (normalizeEpoch epoch0 FActiveOwnerEpoch) (\<lambda>ownerEpoch.
             bnd (getRequired db sessionId) (\<lambda>current.
               (if \<not> worker_claim_held current environmentId ownerEpoch claimId runId
                      (tc_placementGeneration claim)
                then Inl EStaleOwner
                else
                 bnd (readReconciliation db sessionId) (\<lambda>reconciliation.
                 (if stale_reconciliation reconciliation (p_workspaceBaseManifestRef current)
                  then Inl EJournalStale
                  else
                   bnd (update_placement db
                         (\<lambda>r. session_id r = sessionId \<and> state r = ws_text (p_state current)
                            \<and> transition_generation r = p_generation current
                            \<and> environment_id r = Some environmentId
                            \<and> active_owner_epoch r = Some ownerEpoch
                            \<and> turn_claim_owner r = Some ''worker''
                            \<and> turn_claim_id r = Some claimId
                            \<and> turn_claim_run_id r = Some runId
                            \<and> turn_claim_generation r = Some (tc_placementGeneration claim)
                            \<and> turn_claim_owner_epoch r = Some ownerEpoch)
                         (set_manifest manifestRef nowMs) EChanged) (\<lambda>db'.
                   bnd (markReconciliation db' sessionId manifestRef reconciliation) (\<lambda>db''.
                   bnd (getRequired db'' sessionId) (\<lambda>p. Inr (db'', p))))))))))))))))"

definition acceptIdleWorkspaceReconciliation ::
    "pdb \<Rightarrow> string \<Rightarrow> string \<Rightarrow> int \<Rightarrow> int \<Rightarrow> string \<Rightarrow> int \<Rightarrow> perr + pdb \<times> placement" where
  "acceptIdleWorkspaceReconciliation db sessionId0 environmentId0 ownerEpoch0 expectedGeneration
       manifest nowMs =
     bnd (required sessionId0 FSessionId) (\<lambda>sessionId.
     bnd (required environmentId0 FEnvironmentId) (\<lambda>environmentId.
     bnd (normalizeEpoch ownerEpoch0 FActiveOwnerEpoch) (\<lambda>ownerEpoch.
     bnd (required manifest FManifestRef) (\<lambda>manifestRef.
       (if \<not> manifest_ref manifestRef then Inl EManifestInvalid
        else
         bnd (getRequired db sessionId) (\<lambda>current.
           (if p_state current \<noteq> WActive \<or> p_generation current \<noteq> expectedGeneration
               \<or> p_environmentId current \<noteq> Some environmentId
               \<or> p_activeOwnerEpoch current \<noteq> Some ownerEpoch \<or> p_turnClaim current \<noteq> None
            then Inl EStaleOwner
            else
             bnd (update_placement db
                   (\<lambda>r. session_id r = sessionId \<and> state r = ''active''
                      \<and> transition_generation r = expectedGeneration
                      \<and> environment_id r = Some environmentId
                      \<and> active_owner_epoch r = Some ownerEpoch \<and> turn_claim_owner r = None)
                   (set_manifest manifestRef nowMs) EChanged) (\<lambda>db'.
             bnd (clearWorkerWorkspaceReconciliation db' sessionId None) (\<lambda>db''.
             bnd (getRequired db'' sessionId) (\<lambda>p. Inr (db'', p)))))))))))"

end
