(* ===== verification/Js_Map.thy ===== *)
theory Js_Map
  imports Js_Prelude
begin

section \<open>The insertion-ordered Map\<close>

text \<open>
  A JavaScript \<^verbatim>\<open>Map\<close> as the list of its entries in insertion order. Setting a
  present key keeps its place, setting an absent one appends it, deleting drops it; iteration
  visits the entries in this order. The locale \<open>ordered_map\<close> is the interface the guards and
  limiters use; its client lemmas are proved once and reach the models through the
  interpretation \<open>jm\<close>.
\<close>

type_synonym ('k, 'v) jmap = "('k \<times> 'v) list"

fun jm_get :: "('k, 'v) jmap \<Rightarrow> 'k \<Rightarrow> 'v option" where
  "jm_get [] k = None"
| "jm_get ((a, v) # m) k = (if a = k then Some v else jm_get m k)"

fun jm_put :: "'k \<Rightarrow> 'v \<Rightarrow> ('k, 'v) jmap \<Rightarrow> ('k, 'v) jmap" where
  "jm_put k v [] = [(k, v)]"
| "jm_put k v ((a, w) # m) = (if a = k then (k, v) # m else (a, w) # jm_put k v m)"

definition jm_delete :: "'k \<Rightarrow> ('k, 'v) jmap \<Rightarrow> ('k, 'v) jmap" where
  "jm_delete k m = filter (\<lambda>(a, _). a \<noteq> k) m"

definition jm_keys :: "('k, 'v) jmap \<Rightarrow> 'k list" where
  "jm_keys m = map fst m"

definition jm_has :: "('k, 'v) jmap \<Rightarrow> 'k \<Rightarrow> bool" where
  "jm_has m k \<longleftrightarrow> jm_get m k \<noteq> None"

text \<open>
  A loop \<^verbatim>\<open>for (const [key, entry] of map)\<close> that deletes some of the entries it
  visits keeps the others, in order.
\<close>

definition jm_sweep :: "('k \<Rightarrow> 'v \<Rightarrow> bool) \<Rightarrow> ('k, 'v) jmap \<Rightarrow> ('k, 'v) jmap" where
  "jm_sweep dead m = filter (\<lambda>(k, v). \<not> dead k v) m"

subsection \<open>The interface\<close>

locale ordered_map =
  fixes get :: "'m \<Rightarrow> 'k \<Rightarrow> 'v option"
    and put :: "'k \<Rightarrow> 'v \<Rightarrow> 'm \<Rightarrow> 'm"
    and delete :: "'k \<Rightarrow> 'm \<Rightarrow> 'm"
    and keys :: "'m \<Rightarrow> 'k list"
  assumes get_put: "get (put k v m) j = (if j = k then Some v else get m j)"
    and get_delete: "get (delete k m) j = (if j = k then None else get m j)"
    and get_keys: "get m k \<noteq> None \<longleftrightarrow> k \<in> set (keys m)"
    and keys_put: "keys (put k v m) = (if k \<in> set (keys m) then keys m else keys m @ [k])"
    and keys_delete: "keys (delete k m) = removeAll k (keys m)"
begin

lemma get_None_keys: "get m k = None \<longleftrightarrow> k \<notin> set (keys m)"
  using get_keys by blast

lemma distinct_put: "distinct (keys m) \<Longrightarrow> distinct (keys (put k v m))"
  by (simp add: keys_put)

lemma distinct_delete: "distinct (keys m) \<Longrightarrow> distinct (keys (delete k m))"
  by (simp add: keys_delete distinct_removeAll)

text \<open>Delete-then-set (the \<^verbatim>\<open>touch\<close> idiom) moves a key to the newest place.\<close>

lemma keys_touch: "keys (put k v (delete k m)) = removeAll k (keys m) @ [k]"
  by (simp add: keys_put keys_delete)

lemma get_touch: "get (put k v (delete k m)) j = (if j = k then Some v else get m j)"
  by (simp add: get_put get_delete)

lemma distinct_touch: "distinct (keys m) \<Longrightarrow> distinct (keys (put k v (delete k m)))"
  by (simp add: keys_touch distinct_removeAll)

lemma size_put: "length (keys (put k v m)) \<le> Suc (length (keys m))"
  by (simp add: keys_put)

lemma size_delete: "length (keys (delete k m)) \<le> length (keys m)"
  by (simp add: keys_delete length_removeAll_less_eq)

lemma size_delete_present:
  "k \<in> set (keys m) \<Longrightarrow> length (keys (delete k m)) < length (keys m)"
  by (simp add: keys_delete length_removeAll_less)

end

subsection \<open>The list of entries implements it\<close>

lemma jm_get_put: "jm_get (jm_put k v m) j = (if j = k then Some v else jm_get m j)"
  by (induction m) auto

lemma jm_get_delete: "jm_get (jm_delete k m) j = (if j = k then None else jm_get m j)"
  by (induction m) (auto simp: jm_delete_def)

lemma jm_get_keys: "jm_get m k \<noteq> None \<longleftrightarrow> k \<in> set (jm_keys m)"
  by (induction m) (auto simp: jm_keys_def)

lemma jm_keys_put:
  "jm_keys (jm_put k v m) = (if k \<in> set (jm_keys m) then jm_keys m else jm_keys m @ [k])"
  by (induction k v m rule: jm_put.induct) (simp_all add: jm_keys_def)

lemma jm_keys_delete: "jm_keys (jm_delete k m) = removeAll k (jm_keys m)"
  by (induction m) (auto simp: jm_keys_def jm_delete_def)

interpretation jm: ordered_map jm_get jm_put jm_delete jm_keys
  by unfold_locales
    (simp_all only: jm_get_put jm_get_delete jm_get_keys jm_keys_put jm_keys_delete)

lemma length_jm_keys [simp]: "length (jm_keys m) = length m"
  by (simp add: jm_keys_def)

lemma jm_keys_sweep_subset: "set (jm_keys (jm_sweep d m)) \<subseteq> set (jm_keys m)"
  by (auto simp: jm_sweep_def jm_keys_def)

lemma distinct_jm_sweep: "distinct (jm_keys m) \<Longrightarrow> distinct (jm_keys (jm_sweep d m))"
  unfolding jm_sweep_def jm_keys_def by (induction m) auto

lemma length_jm_sweep: "length (jm_sweep d m) \<le> length m"
  by (simp add: jm_sweep_def)

lemma jm_get_sweep:
  "distinct (jm_keys m) \<Longrightarrow>
   jm_get (jm_sweep d m) k =
     (case jm_get m k of None \<Rightarrow> None | Some v \<Rightarrow> if d k v then None else Some v)"
proof (induction m)
  case Nil
  then show ?case by (simp add: jm_sweep_def)
next
  case (Cons e m)
  obtain a w where e: "e = (a, w)" by (cases e)
  have "a = k \<Longrightarrow> jm_get m k = None"
    using Cons.prems jm_get_keys [of m k] by (auto simp: e jm_keys_def)
  with Cons show ?case
    by (auto simp: e jm_sweep_def jm_keys_def split: option.splits)
qed

lemma jm_get_in: "jm_get m k = Some v \<Longrightarrow> (k, v) \<in> set m"
  by (induction m) (auto split: if_splits)

lemma set_jm_put: "set (jm_put k v m) \<subseteq> insert (k, v) (set m)"
  by (induction k v m rule: jm_put.induct) auto

end
