(* ===== verification/Placement_Store.thy ===== *)
theory Placement_Store
  imports Placement_Claims Js_Map
begin

section \<open>The placement store\<close>

text \<open>
  \<^verbatim>\<open>placement-store.ts\<close>: the operations that move a placement between states, the
  reads, and the process-local part of the store: the conflicts shown to operators and the
  waiters for a claim release (\<^verbatim>\<open>placement-turn-claims.ts\<close>).
\<close>

subsection \<open>Database operations\<close>

definition updateTransition ::
    "pdb \<Rightarrow> placement \<Rightarrow> wstate \<Rightarrow> ppatch \<Rightarrow> int \<Rightarrow> perr + pdb \<times> placement" where
  "updateTransition db current to patch nowMs =
     bnd (transitionValues current to patch nowMs) (\<lambda>v.
     bnd (update_placement db
           (\<lambda>r. session_id r = p_sessionId current \<and> state r = ws_text (p_state current)
                \<and> transition_generation r = p_generation current \<and> turn_claim_owner r = None)
           (\<lambda>_. v) EChanged) (\<lambda>db'.
     bnd (getRequired db' (p_sessionId current)) (\<lambda>p. Inr (db', p))))"

definition startDispatch :: "pdb \<Rightarrow> pidentity \<Rightarrow> int \<Rightarrow> int \<Rightarrow> perr + pdb \<times> placement" where
  "startDispatch db input createdMs updatedAtMs =
     bnd (normalizeIdentity input) (\<lambda>identity.
     bnd (ensureLocal db identity createdMs) (\<lambda>(db', current).
       (if p_state current \<noteq> WLocal \<and> p_state current \<noteq> WReclaimed then Inl ECannotDispatch
        else
         bnd (nextGeneration (p_generation current)) (\<lambda>generation.
         bnd (update_placement db'
               (\<lambda>r. session_id r = p_sessionId current \<and> state r = ws_text (p_state current)
                    \<and> transition_generation r = p_generation current)
               (set_requested generation updatedAtMs) EChanged) (\<lambda>db''.
         bnd (getRequired db'' (i_sessionId identity)) (\<lambda>p. Inr (db'', p)))))))"

definition transition ::
    "pdb \<Rightarrow> string \<Rightarrow> wstate \<Rightarrow> wstate \<Rightarrow> int \<Rightarrow> ppatch \<Rightarrow> int \<Rightarrow> perr + pdb \<times> placement" where
  "transition db sessionId0 from to expectedGeneration patch nowMs =
     (if \<not> canTransitionWorkerSessionPlacement from to then Inl (EIllegalTransition from to)
      else if from = WDraining \<and> to = WReconciling then Inl EUseStartReconcile
      else
       bnd (required sessionId0 FSessionId) (\<lambda>sessionId.
       bnd (getRequired db sessionId) (\<lambda>current.
         (if p_state current \<noteq> from \<or> p_generation current \<noteq> expectedGeneration then Inl EChanged
          else if p_turnClaim current \<noteq> None then Inl ETurnActive
          else updateTransition db current to patch nowMs))))"

text \<open>
  The row \<^verbatim>\<open>startDrain\<close> writes: the transition's values with the claim columns of
  the record put back.
\<close>

definition startDrain ::
    "pdb \<Rightarrow> string \<Rightarrow> string \<Rightarrow> int \<Rightarrow> int \<Rightarrow> string option \<Rightarrow> int \<Rightarrow> perr + pdb \<times> placement" where
  "startDrain db sessionId0 environmentId0 ownerEpoch0 expectedGeneration manifest nowMs =
     bnd (required sessionId0 FSessionId) (\<lambda>sessionId.
     bnd (required environmentId0 FEnvironmentId) (\<lambda>environmentId.
     bnd (normalizeEpoch ownerEpoch0 FActiveOwnerEpoch) (\<lambda>ownerEpoch.
     bnd (getRequired db sessionId) (\<lambda>current.
       (if p_state current \<noteq> WActive \<or> p_generation current \<noteq> expectedGeneration
           \<or> p_environmentId current \<noteq> Some environmentId
           \<or> p_activeOwnerEpoch current \<noteq> Some ownerEpoch
        then Inl EStaleOwner
        else if hasWorkerWorkspacePendingResult db sessionId then Inl EPendingResult
        else
         bnd (transitionValues current WDraining
               (case manifest of
                  None \<Rightarrow> empty_patch
                | Some ref \<Rightarrow> empty_patch\<lparr>pp_workspaceBaseManifestRef := Some (Some ref)\<rparr>)
               nowMs) (\<lambda>v0.
         (let turnClaim = p_turnClaim current; v = keep_claim turnClaim v0 in
         bnd (assertRecordShape
               \<lparr>s_state = WDraining, s_environmentId = Some environmentId,
                s_activeOwnerEpoch = Some ownerEpoch,
                s_workspaceBaseManifestRef = workspace_base_manifest_ref v,
                s_remoteWorkspaceDir = remote_workspace_dir v,
                s_workerBundleHash = worker_bundle_hash v,
                s_lastTranscriptAckCursor = last_transcript_ack_cursor v,
                s_lastLiveEventAckCursor = last_live_event_ack_cursor v,
                s_recoveryError = recovery_error v, s_turnClaim = turnClaim\<rparr>) (\<lambda>_.
         bnd (update_placement db
               (\<lambda>r. session_id r = sessionId \<and> state r = ''active''
                  \<and> transition_generation r = p_generation current
                  \<and> environment_id r = Some environmentId
                  \<and> active_owner_epoch r = Some ownerEpoch) (\<lambda>_. v) EChanged) (\<lambda>db'.
         bnd (case manifest of
                None \<Rightarrow> Inr db'
              | Some ref \<Rightarrow> clearWorkerWorkspaceReconciliation db' sessionId (Some ref)) (\<lambda>db''.
         bnd (getRequired db'' sessionId) (\<lambda>p. Inr (db'', p))))))))))))"

definition finishReclaim ::
    "pdb \<Rightarrow> string \<Rightarrow> string \<Rightarrow> int \<Rightarrow> int \<Rightarrow> int \<Rightarrow> perr + pdb \<times> placement" where
  "finishReclaim db sessionId0 environmentId0 ownerEpoch0 expectedGeneration nowMs =
     bnd (required sessionId0 FSessionId) (\<lambda>sessionId.
     bnd (required environmentId0 FEnvironmentId) (\<lambda>environmentId.
     bnd (normalizeEpoch ownerEpoch0 FActiveOwnerEpoch) (\<lambda>ownerEpoch.
     bnd (getRequired db sessionId) (\<lambda>current.
       (if p_state current \<noteq> WActive \<or> p_generation current \<noteq> expectedGeneration
           \<or> p_environmentId current \<noteq> Some environmentId
           \<or> p_activeOwnerEpoch current \<noteq> Some ownerEpoch \<or> p_turnClaim current \<noteq> None
           \<or> hasWorkerWorkspacePendingResult db sessionId
        then Inl EStaleOwner
        else updateTransition db current WReclaimed empty_patch nowMs)))))"

text \<open>Returns the record and whether a claim was released.\<close>

definition startReconcile ::
    "pdb \<Rightarrow> string \<Rightarrow> string \<Rightarrow> int \<Rightarrow> int \<Rightarrow> int \<Rightarrow> perr + pdb \<times> placement \<times> bool" where
  "startReconcile db sessionId0 environmentId0 ownerEpoch0 expectedGeneration nowMs =
     bnd (required sessionId0 FSessionId) (\<lambda>sessionId.
     bnd (required environmentId0 FEnvironmentId) (\<lambda>environmentId.
     bnd (normalizeEpoch ownerEpoch0 FActiveOwnerEpoch) (\<lambda>ownerEpoch.
     bnd (getRequired db sessionId) (\<lambda>current.
       (if p_state current \<noteq> WDraining \<or> p_generation current \<noteq> expectedGeneration
           \<or> p_environmentId current \<noteq> Some environmentId
           \<or> p_activeOwnerEpoch current \<noteq> Some ownerEpoch
        then Inl EStaleOwner
        else if hasWorkerWorkspacePendingResult db sessionId then Inl EPendingResult
        else
         bnd (transitionValues current WReconciling empty_patch nowMs) (\<lambda>v.
         bnd (update_placement db
               (\<lambda>r. session_id r = sessionId \<and> state r = ''draining''
                  \<and> transition_generation r = p_generation current
                  \<and> environment_id r = Some environmentId
                  \<and> active_owner_epoch r = Some ownerEpoch
                  \<and> (case p_turnClaim current of
                       None \<Rightarrow> turn_claim_owner r = None
                     | Some claim \<Rightarrow> turn_claim_owner r = Some ''worker''
                         \<and> turn_claim_id r = Some (pc_claimId claim)
                         \<and> turn_claim_run_id r = Some (pc_runId claim)
                         \<and> turn_claim_generation r = Some (pc_generation claim)
                         \<and> turn_claim_owner_epoch r =
                             (case claim of PLocal _ _ _ \<Rightarrow> None | PWorker _ _ _ e \<Rightarrow> Some e)))
               (\<lambda>_. v) EChanged) (\<lambda>db'.
         bnd (getRequired db' sessionId) (\<lambda>p.
           Inr (db', p, p_turnClaim current \<noteq> None)))))))))"

definition validateWorkerOwner ::
    "pdb \<Rightarrow> string \<Rightarrow> string \<Rightarrow> int \<Rightarrow> perr + bool" where
  "validateWorkerOwner db sessionId0 environmentId0 ownerEpoch0 =
     bnd (required sessionId0 FSessionId) (\<lambda>sessionId.
     bnd (find_placement db sessionId) (\<lambda>found.
       (case found of
          None \<Rightarrow> Inr False
        | Some current \<Rightarrow>
            (if p_state current \<noteq> WActive then Inr False
             else
              bnd (required environmentId0 FEnvironmentId) (\<lambda>environmentId.
                (if p_environmentId current \<noteq> Some environmentId then Inr False
                 else bnd (normalizeEpoch ownerEpoch0 FActiveOwnerEpoch) (\<lambda>ownerEpoch.
                        Inr (p_activeOwnerEpoch current = Some ownerEpoch))))))))"

fun local_claim :: "pclaim option \<Rightarrow> pclaim option" where
  "local_claim (Some (PLocal c r g)) = Some (PLocal c r g)"
| "local_claim _ = None"

fun is_worker_claim :: "pclaim option \<Rightarrow> bool" where
  "is_worker_claim (Some (PWorker c r g e)) = True"
| "is_worker_claim _ = False"

definition fail_placement ::
    "pdb \<Rightarrow> string \<Rightarrow> string \<Rightarrow> int option \<Rightarrow> int \<Rightarrow> perr + pdb \<times> placement \<times> bool" where
  "fail_placement db sessionId0 recoveryError0 expectedGeneration nowMs =
     bnd (required sessionId0 FSessionId) (\<lambda>sessionId.
     bnd (required recoveryError0 FRecoveryError) (\<lambda>recoveryError.
     bnd (getRequired db sessionId) (\<lambda>current.
       (if expectedGeneration \<noteq> None \<and> Some (p_generation current) \<noteq> expectedGeneration
        then Inl EChanged
        else if p_state current = WFailed then
          bnd (update_placement db
                (\<lambda>r. session_id r = sessionId \<and> state r = ''failed''
                     \<and> transition_generation r = p_generation current)
                (set_recovery_error recoveryError nowMs) EChanged) (\<lambda>db'.
          bnd (getRequired db' sessionId) (\<lambda>p. Inr (db', p, False)))
        else if \<not> canTransitionWorkerSessionPlacement (p_state current) WFailed then Inl ECannotFail
        else
          bnd (nextGeneration (p_generation current)) (\<lambda>generation.
          bnd (update_placement db
                (\<lambda>r. session_id r = sessionId \<and> state r = ws_text (p_state current)
                     \<and> transition_generation r = p_generation current)
                (set_failed generation recoveryError (local_claim (p_turnClaim current)) nowMs)
                EChanged) (\<lambda>db'.
          bnd (getRequired db' sessionId) (\<lambda>p.
            Inr (db', p, is_worker_claim (p_turnClaim current)))))))))"

definition adoptActive ::
    "pdb \<Rightarrow> string \<Rightarrow> string \<Rightarrow> int \<Rightarrow> int option \<Rightarrow> perr + placement" where
  "adoptActive db sessionId0 environmentId0 ownerEpoch0 expectedGeneration =
     bnd (required sessionId0 FSessionId) (\<lambda>sessionId.
     bnd (required environmentId0 FEnvironmentId) (\<lambda>environmentId.
     bnd (normalizeEpoch ownerEpoch0 FActiveOwnerEpoch) (\<lambda>ownerEpoch.
     bnd (getRequired db sessionId) (\<lambda>current.
       (if p_state current \<noteq> WActive \<or> p_environmentId current \<noteq> Some environmentId
           \<or> p_activeOwnerEpoch current \<noteq> Some ownerEpoch
           \<or> (expectedGeneration \<noteq> None \<and> Some (p_generation current) \<noteq> expectedGeneration)
        then Inl EStaleOwner else Inr current)))))"

subsection \<open>The store of one process\<close>

text \<open>
  The durable database, the waiters registered per session and the conflicts on show. A waiter is
  a number; registering it stands for the promise of \<^verbatim>\<open>waitForTurnClaimRelease\<close>.
\<close>

record pstore =
  st_db :: pdb
  st_waiters :: "(string \<times> nat list) list"
  st_conflicts :: "(string \<times> wconflict) list"

definition waiters_of :: "pstore \<Rightarrow> string \<Rightarrow> nat list" where
  "waiters_of s sessionId = (case jm_get (st_waiters s) sessionId of None \<Rightarrow> [] | Some ws \<Rightarrow> ws)"

text \<open>Resolving a session's waiters removes them.\<close>

definition signalTurnClaimRelease :: "string \<Rightarrow> pstore \<Rightarrow> pstore" where
  "signalTurnClaimRelease sessionId s = s\<lparr>st_waiters := jm_delete sessionId (st_waiters s)\<rparr>"

definition waitersFor :: "pstore \<Rightarrow> string \<Rightarrow> pstore" where
  "waitersFor s sessionId =
     (case jm_get (st_waiters s) sessionId of
        None \<Rightarrow> s\<lparr>st_waiters := jm_put sessionId [] (st_waiters s)\<rparr>
      | Some ws \<Rightarrow> s)"

definition addWaiter :: "pstore \<Rightarrow> string \<Rightarrow> nat \<Rightarrow> pstore" where
  "addWaiter s sessionId w =
     s\<lparr>st_waiters := jm_put sessionId
        (let ws = waiters_of s sessionId in if w \<in> set ws then ws else ws @ [w]) (st_waiters s)\<rparr>"

text \<open>\<^verbatim>\<open>finish\<close>: drop the waiter, and the session's entry with its last waiter.\<close>

definition finishWaiter :: "pstore \<Rightarrow> string \<Rightarrow> nat \<Rightarrow> pstore" where
  "finishWaiter s sessionId w =
     (let ws = filter (\<lambda>x. x \<noteq> w) (waiters_of s sessionId)
      in if ws = [] then s\<lparr>st_waiters := jm_delete sessionId (st_waiters s)\<rparr>
         else s\<lparr>st_waiters := jm_put sessionId ws (st_waiters s)\<rparr>)"

datatype wait_result = WaitDone | WaitAborted | WaitRegistered

definition claim_present :: "pdb \<Rightarrow> string \<Rightarrow> perr + bool" where
  "claim_present db sessionId =
     bnd (find_placement db sessionId) (\<lambda>found.
       Inr (case found of None \<Rightarrow> False | Some p \<Rightarrow> p_turnClaim p \<noteq> None))"

text \<open>
  The synchronous part of \<^verbatim>\<open>waitForTurnClaimRelease\<close>: check, register, read again. The
  second read sees \<open>reread\<close>, which another process may have changed since the first. A read that
  throws after the registration rejects the promise and leaves the waiter registered.
\<close>

definition waitForTurnClaimRelease ::
    "pstore \<Rightarrow> string \<Rightarrow> int \<Rightarrow> bool \<Rightarrow> nat \<Rightarrow> pdb \<Rightarrow> perr + pstore \<times> wait_result" where
  "waitForTurnClaimRelease s sessionId0 timeoutMs aborted w reread =
     bnd (required sessionId0 FSessionId) (\<lambda>sessionId.
       (if \<not> js_is_safe timeoutMs \<or> timeoutMs < 0 then Inl ETimeoutInvalid
        else
         bnd (claim_present (st_db s) sessionId) (\<lambda>held.
           (if \<not> held then Inr (s, WaitDone)
            else
             (let s1 = addWaiter (waitersFor s sessionId) sessionId w in
             bnd (claim_present reread sessionId) (\<lambda>still.
               Inr (let s2 = s1\<lparr>st_db := reread\<rparr> in
                    if \<not> still then (finishWaiter s2 sessionId w, WaitDone)
                    else if aborted then (finishWaiter s2 sessionId w, WaitAborted)
                    else (s2, WaitRegistered))))))))"

definition requireClaimOwner :: "pdb \<Rightarrow> turn_claim \<Rightarrow> perr + unit" where
  "requireClaimOwner db claim =
     bnd (required (tc_sessionId claim) FSessionId) (\<lambda>sessionId.
     bnd (find_placement db sessionId) (\<lambda>found.
       (case (tc_owner claim, found) of
          (WorkerOwner env epoch, Some current) \<Rightarrow>
            (if worker_claim_held current env epoch (tc_claimId claim) (tc_runId claim)
                  (tc_placementGeneration claim)
             then Inr () else Inl EOwnerChanged)
        | _ \<Rightarrow> Inl EOwnerChanged)))"

definition MAX_PROJECTED_CONFLICT_PATHS :: nat where
  "MAX_PROJECTED_CONFLICT_PATHS = 256"

definition MAX_PROJECTED_CONFLICT_PATH_BYTES :: nat where
  "MAX_PROJECTED_CONFLICT_PATH_BYTES = 32 * 1024"

text \<open>The loop over the sorted paths: it stops at the first path over a limit.\<close>

fun project_paths :: "nat \<Rightarrow> nat \<Rightarrow> string list \<Rightarrow> string list" where
  "project_paths count bytes [] = []"
| "project_paths count bytes (p # rest) =
     (if MAX_PROJECTED_CONFLICT_PATHS \<le> count
         \<or> MAX_PROJECTED_CONFLICT_PATH_BYTES < bytes + utf8_length p
      then []
      else p # project_paths (count + 1) (bytes + utf8_length p) rest)"

definition projectWorkspaceResultConflict ::
    "string list \<Rightarrow> string \<Rightarrow> int option \<Rightarrow> perr + wconflict" where
  "projectWorkspaceResultConflict paths stagedResultRef knownTotalCount =
     (let uniquePaths = sort (uniqueValues paths);
          projectedPaths = project_paths 0 0 uniquePaths;
          count = int (length uniquePaths)
      in if projectedPaths = [] then Inl EConflictInvalid
         else Inr \<lparr>wc_paths = projectedPaths, wc_stagedResultRef = stagedResultRef,
                   wc_totalCount = max (case knownTotalCount of None \<Rightarrow> count | Some n \<Rightarrow> n) count\<rparr>)"

text \<open>The conflict to record: its paths, its staged reference and the count it may know.\<close>

definition recordWorkspaceResultConflict ::
    "pstore \<Rightarrow> turn_claim \<Rightarrow> (string list \<times> string \<times> int option) option \<Rightarrow> perr + pstore" where
  "recordWorkspaceResultConflict s claim conflict =
     bnd (requireClaimOwner (st_db s) claim) (\<lambda>_.
       (case conflict of
          None \<Rightarrow> Inr (s\<lparr>st_conflicts := jm_delete (tc_sessionId claim) (st_conflicts s)\<rparr>)
        | Some (paths0, ref0, totalCount) \<Rightarrow>
            bnd (map_res (\<lambda>p. if p = [] then Inl EConflictInvalid else Inr p) paths0) (\<lambda>paths.
            bnd (required ref0 FStagedResultRef) (\<lambda>stagedResultRef.
              (if paths = [] \<or> \<not> staged_ref stagedResultRef then Inl EConflictInvalid
               else
                bnd (projectWorkspaceResultConflict paths stagedResultRef totalCount) (\<lambda>c.
                  Inr (s\<lparr>st_conflicts := jm_put (tc_sessionId claim) c (st_conflicts s)\<rparr>)))))))"

definition withWorkspaceResultConflict :: "pstore \<Rightarrow> placement \<Rightarrow> placement" where
  "withWorkspaceResultConflict s p =
     (case jm_get (st_conflicts s) (p_sessionId p) of
        None \<Rightarrow> p
      | Some c \<Rightarrow> p\<lparr>p_workspaceResultConflict := Some c\<rparr>)"

definition get_placement :: "pstore \<Rightarrow> string \<Rightarrow> perr + placement option" where
  "get_placement s sessionId0 =
     bnd (required sessionId0 FSessionId) (\<lambda>sessionId.
     bnd (find_placement (st_db s) sessionId) (\<lambda>found.
       Inr (map_option (withWorkspaceResultConflict s) found)))"

text \<open>
  \<^verbatim>\<open>getMany\<close>: the chunks of 250 ids together select the rows of all ids, chunk by
  chunk; the result is a \<^verbatim>\<open>Map\<close> by session.
\<close>

function id_chunks :: "string list \<Rightarrow> string list list" where
  "id_chunks ids = (if ids = [] then [] else take 250 ids # id_chunks (drop 250 ids))"
  by auto
termination by (relation "measure length") (auto simp: length_greater_0_conv [symmetric] simp del: length_greater_0_conv)

declare id_chunks.simps [simp del]

definition getMany :: "pstore \<Rightarrow> string list \<Rightarrow> perr + (string \<times> placement) list" where
  "getMany s sessionIds =
     bnd (map_res (\<lambda>i. required i FSessionId) sessionIds) (\<lambda>ids.
     bnd (map_res fromRow
           (concat (map (\<lambda>chunk. sql_select (\<lambda>r. session_id r \<in> set chunk) (placements (st_db s)))
             (id_chunks (uniqueValues ids))))) (\<lambda>records.
       Inr (foldl (\<lambda>m p. jm_put (p_sessionId p) (withWorkspaceResultConflict s p) m) [] records)))"

definition listForReconcile :: "pstore \<Rightarrow> perr + placement list" where
  "listForReconcile s =
     bnd (map_res fromRow
           (sort_key updated_at_ms (sort_key session_id
             (sql_select (\<lambda>r. state r \<notin> {''local'', ''reclaimed''}) (placements (st_db s)))))) (\<lambda>ps.
       Inr (map (withWorkspaceResultConflict s) ps))"

definition list_placements :: "pstore \<Rightarrow> perr + placement list" where
  "list_placements s =
     bnd (map_res fromRow (sort_key session_id (placements (st_db s)))) (\<lambda>ps.
       Inr (map (withWorkspaceResultConflict s) ps))"

end
