(* ===== verification/Placement_Effects.thy ===== *)
theory Placement_Effects
  imports Placement_Store
begin

section \<open>What each placement operation does to the tables\<close>

text \<open>
  One lemma per operation: from a well-formed database, a call that returns found the row its
  guards describe and rewrote exactly that row (\<open>row_updated\<close>), or inserted the fresh local row
  first (\<open>ensured\<close>). The journal and the pending results change as the operation says.
\<close>

definition row_updated :: "pdb \<Rightarrow> pdb \<Rightarrow> string \<Rightarrow> prow \<Rightarrow> prow \<Rightarrow> bool" where
  "row_updated db db' k r r' \<longleftrightarrow> prow_at db k = Some r \<and> row_inv r \<and> row_inv r'
     \<and> session_id r' = k \<and> placements db' = placements (set_row db k r')"

lemma row_updatedD:
  assumes "row_updated db db' k r r'"
  shows "prow_at db k = Some r" "prow_at db' = (prow_at db)(k \<mapsto> r')" "row_inv r" "row_inv r'"
    "session_id r' = k" "session_id r = k"
proof -
  have "prow_at db' = prow_at (set_row db k r')"
    using assms by (simp add: row_updated_def prow_at_def)
  then show "prow_at db' = (prow_at db)(k \<mapsto> r')"
    using assms by (auto simp: row_updated_def prow_at_set_row fun_eq_iff)
qed (use assms in \<open>auto simp: row_updated_def dest: prow_at_key\<close>)

lemma table_ok_row_updated:
  "db_ok db \<Longrightarrow> row_updated db db' k r r' \<Longrightarrow> table_ok session_id row_inv (placements db')"
  using db_ok_set_row [of db r' k] by (auto simp: row_updated_def db_ok_def)

lemma prow_at_clean: "db_ok db \<Longrightarrow> prow_at db k = Some r \<Longrightarrow> clean_str (Some k)"
  using prow_at_inv [of db k r] prow_at_key [of db k r] row_inv_facts(1) [of r]
  by (auto simp: columns_ok_def)

lemma update_placement_Inr:
  assumes "db_ok db" "\<And>x. w x \<Longrightarrow> session_id x = k"
    and "update_placement db w f err = Inr db'"
  obtains r where "prow_at db k = Some r" "w r" "db' = set_row db k (f r)" "row_inv r"
proof -
  have "update_placement db w f err = (case prow_at db k of None \<Rightarrow> Inl err
      | Some r \<Rightarrow> if \<not> w r then Inl err
                  else if placement_check (f r) then Inr (set_row db k (f r))
                  else Inl ESqlConstraint)"
    using assms(1,2) by (rule update_placement_eq)
  with assms(3) prow_at_inv [OF assms(1)] show thesis
    by (auto split: option.splits if_splits intro!: that)
qed

text \<open>The common shape: read the record, test it, update the row the record came from.\<close>

lemma guarded_update:
  assumes "db_ok db" "placements db0 = placements db" "db_ok db0"
    "update_placement db0 w f err = Inr db'" "\<And>x. w x \<Longrightarrow> session_id x = k"
    "prow_at db k = Some r" "row_inv r \<Longrightarrow> w r \<Longrightarrow> row_inv (f r)" "session_id (f r) = k"
  shows "row_updated db db' k r (f r) \<and> journals db' = journals db0 \<and> pendings db' = pendings db0
    \<and> db_ok db' \<and> w r"
proof -
  obtain r0 where r0: "prow_at db0 k = Some r0" "w r0" "db' = set_row db0 k (f r0)" "row_inv r0"
    using update_placement_Inr [OF assms(3) _ assms(4)] assms(5) by blast
  have "r0 = r" using r0(1) assms(2,6) by (simp add: prow_at_def)
  with r0 assms show ?thesis
    using db_ok_set_row [OF assms(3), of "f r" k]
    by (auto simp: row_updated_def set_row_def)
qed

subsection \<open>Making sure there is a row\<close>

definition ensured :: "pdb \<Rightarrow> pdb \<Rightarrow> pidentity \<Rightarrow> int \<Rightarrow> prow \<Rightarrow> bool" where
  "ensured db db1 identity nowMs r \<longleftrightarrow> db_ok db1 \<and> journals db1 = journals db
     \<and> pendings db1 = pendings db \<and> prow_at db1 (i_sessionId identity) = Some r
     \<and> agent_id r = i_agentId identity \<and> session_key r = i_sessionKey identity
     \<and> (prow_at db (i_sessionId identity) = Some r \<and> db1 = db
        \<or> prow_at db (i_sessionId identity) = None \<and> r = local_row identity nowMs
          \<and> placements db1 = placements db @ [r])"

lemma prow_at_append:
  "placements db1 = placements db @ [r] \<Longrightarrow> prow_at db (session_id r) = None \<Longrightarrow>
   prow_at db1 = (prow_at db)(session_id r \<mapsto> r)"
  by (auto simp: prow_at_def row_of_append fun_eq_iff split: option.split)

lemma local_row_id [simp]: "session_id (local_row i n) = i_sessionId i" "agent_id (local_row i n) = i_agentId i"
    "session_key (local_row i n) = i_sessionKey i" "row_state (local_row i n) = WLocal"
    "turn_claim_owner (local_row i n) = None" "transition_generation (local_row i n) = 0"
    "claim_of_row (local_row i n) = None"
  using row_state_text [of "local_row i n" WLocal]
  by (simp_all add: local_row_def claim_of_row_def)

lemma insertLocal_eq:
  assumes "db_ok db" "prow_at db (i_sessionId i) = None" "clean_identity i"
  shows "insertLocal db i n = Inr (db\<lparr>placements := placements db @ [local_row i n]\<rparr>,
      raw_placement (local_row i n))"
    and "db_ok (db\<lparr>placements := placements db @ [local_row i n]\<rparr>)"
proof -
  have new: "i_sessionId i \<notin> session_id ` set (placements db)"
    using assms(2) by (simp add: prow_at_def row_of_None)
  have ins: "sql_insert session_id placement_check (local_row i n) (placements db)
      = Inr (placements db @ [local_row i n])"
    using new row_inv_check [OF row_inv_local_row [OF assms(3), of n]] by (simp add: sql_insert_def)
  show ok: "db_ok (db\<lparr>placements := placements db @ [local_row i n]\<rparr>)"
    using assms(1) new row_inv_local_row [OF assms(3), of n] by (auto simp: db_ok_def table_ok_def)
  show "insertLocal db i n = Inr (db\<lparr>placements := placements db @ [local_row i n]\<rparr>,
      raw_placement (local_row i n))"
    using assms(2) ok
    by (simp add: insertLocal_def ins getRequired_eq prow_at_def row_of_append)
qed

lemma ensureLocal_Inr:
  assumes "db_ok db" "ensureLocal db i n = Inr (db1, current)" "clean_identity i"
  obtains r where "ensured db db1 i n r" "current = raw_placement r"
proof (cases "prow_at db (i_sessionId i)")
  case None
  with assms show thesis
    using insertLocal_eq [OF assms(1) None assms(3), of n] that [of "local_row i n"]
    by (auto simp: ensureLocal_def find_placement_eq ensured_def prow_at_def row_of_append)
next
  case (Some r)
  with assms show thesis
    using that [of r]
    by (auto simp: ensureLocal_def find_placement_eq ensured_def assertIdentity_def split: if_splits)
qed

lemma ensureLocal_ok:
  assumes "db_ok db" "prow_at db (i_sessionId i) = Some r" "agent_id r = i_agentId i"
    "session_key r = i_sessionKey i"
  shows "ensureLocal db i n = Inr (db, raw_placement r)"
  using assms by (simp add: ensureLocal_def find_placement_eq assertIdentity_def)

subsection \<open>Claiming and releasing\<close>

lemma claim_cols:
  "session_id (set_claim own c rid g n r) = session_id r"
  "session_id (clear_claim n r) = session_id r"
  "session_id (set_cursors a b n r) = session_id r"
  "session_id (set_manifest m n r) = session_id r"
  "session_id (set_requested g n r) = session_id r"
  "session_id (set_recovery_error e n r) = session_id r"
  "session_id (set_failed g e lc n r) = session_id r"
  "session_id (keep_claim lc r) = session_id r"
  by (auto simp: set_claim_def clear_claim_def set_cursors_def set_manifest_def set_requested_def
      set_recovery_error_def set_failed_def keep_claim_def split: option.split pclaim.split)

lemma claim_columns:
  assumes "row_inv r"
  shows "claim_of_row r = Some (PLocal c rid g) \<longleftrightarrow> turn_claim_owner r = Some ''local''
      \<and> turn_claim_id r = Some c \<and> turn_claim_run_id r = Some rid \<and> turn_claim_generation r = Some g"
    and "claim_of_row r = Some (PWorker c rid g e) \<longleftrightarrow> turn_claim_owner r = Some ''worker''
      \<and> turn_claim_id r = Some c \<and> turn_claim_run_id r = Some rid \<and> turn_claim_generation r = Some g
      \<and> turn_claim_owner_epoch r = Some e"
  using row_inv_facts(2) [OF assms] by (cases rule: claim_okE; auto simp: claim_of_row_def)+

lemma normalizeOwner_Inr:
  "normalizeOwner own0 = Inr own \<Longrightarrow> (case own of LocalOwner \<Rightarrow> True
     | WorkerOwner e n \<Rightarrow> clean_str (Some e) \<and> epoch_ok (Some n))"
  by (cases own0) (auto simp: required_Inr normalizeEpoch_Inr)

lemma claimTurn_effect:
  assumes "db_ok db" "claimTurnInDatabase db input nowMs = Inr (db', cl)"
  obtains identity db1 r own c rid where
    "normalizeIdentity (ci_identity input) = Inr identity" "ensured db db1 identity nowMs r"
    "normalizeOwner (ci_owner input) = Inr own" "required (ci_claimId input) FClaimId = Inr c"
    "required (ci_runId input) FClaimRunId = Inr rid"
    "turn_claim_owner r = None" "turn_admitted own (raw_placement r)"
    "row_updated db1 db' (i_sessionId identity) r
       (set_claim own c rid (transition_generation r) nowMs r)"
    "journals db' = journals db" "pendings db' = pendings db" "db_ok db'"
    "cl = \<lparr>tc_sessionId = i_sessionId identity, tc_claimId = c, tc_runId = rid,
       tc_placementGeneration = transition_generation r, tc_owner = own\<rparr>"
proof -
  from assms(2) obtain identity c rid own db1 current where
    n: "normalizeIdentity (ci_identity input) = Inr identity"
    "required (ci_claimId input) FClaimId = Inr c" "required (ci_runId input) FClaimRunId = Inr rid"
    "normalizeOwner (ci_owner input) = Inr own" and
    e: "ensureLocal db identity nowMs = Inr (db1, current)" and
    g: "p_turnClaim current = None" "turn_admitted own current" and
    u: "bnd (update_placement db1
          (\<lambda>r. session_id r = p_sessionId current \<and> state r = ws_text (p_state current)
             \<and> transition_generation r = p_generation current \<and> turn_claim_owner r = None)
          (set_claim own c rid (p_generation current) nowMs) EChanged) (\<lambda>db''.
            Inr (db'', \<lparr>tc_sessionId = p_sessionId current, tc_claimId = c,
                        tc_runId = rid, tc_placementGeneration = p_generation current,
                        tc_owner = own\<rparr>)) = Inr (db', cl)"
    unfolding claimTurnInDatabase_def
    by (elim bnd_InrE) (auto split: prod.splits if_splits)
  obtain r where r: "ensured db db1 identity nowMs r" and cur: "current = raw_placement r"
    using ensureLocal_Inr [OF assms(1) e normalizeIdentity_clean [OF n(1)]] .
  have at: "prow_at db1 (i_sessionId identity) = Some r" and ok1: "db_ok db1"
    using r by (auto simp: ensured_def)
  have id: "session_id r = i_sessionId identity" using at by (rule prow_at_key)
  let ?f = "set_claim own c rid (transition_generation r) nowMs"
  from u obtain db'' where u': "update_placement db1
          (\<lambda>x. session_id x = session_id r \<and> state x = ws_text (row_state r)
             \<and> transition_generation x = transition_generation r \<and> turn_claim_owner x = None)
          ?f EChanged = Inr db''" and res: "db'' = db'"
      "cl = \<lparr>tc_sessionId = session_id r, tc_claimId = c, tc_runId = rid,
         tc_placementGeneration = transition_generation r, tc_owner = own\<rparr>"
    unfolding cur raw_placement_sel by (elim bnd_InrE) simp
  have inv: "row_inv (?f r)" if "row_inv r"
    using that g(2) n normalizeOwner_Inr [OF n(4)] required_clean [OF n(2)] required_clean [OF n(3)]
    by (cases own) (auto simp: cur intro!: row_inv_set_claim_local row_inv_set_claim_worker)
  have "row_updated db1 db'' (i_sessionId identity) r (?f r) \<and> journals db'' = journals db1
      \<and> pendings db'' = pendings db1 \<and> db_ok db''"
    using guarded_update [OF ok1 refl ok1 u' _ at] inv id by (auto simp: claim_cols)
  then show thesis
    using that [OF n(1) r n(4,2,3)] g r res id
    by (simp add: cur ensured_def)
qed

end
