(* ===== verification/Placement_Fences.thy ===== *)
theory Placement_Fences
  imports Placement_Effects
begin

section \<open>Effects of the claim and result operations\<close>

text \<open>
  What a claim operation, a release, a workspace result or a journal write that returns has found
  and written: the claim it needed, the row it rewrote, and the entry of the pending-result or
  journal table it inserted, changed or dropped.
\<close>

subsection \<open>The two smaller tables\<close>

lemma pending_first_eq: "pending_first db k = wrow_at db k"
  by (simp add: pending_first_def wrow_at_def sql_first_row_of)

lemma journal_first_eq: "journal_first db k = jrow_at db k"
  by (simp add: journal_first_def jrow_at_def sql_first_row_of)

lemma wrow_at_key: "wrow_at db k = Some w \<Longrightarrow> w_session_id w = k"
  unfolding wrow_at_def by (rule wt.look_key)

lemma jrow_at_key: "jrow_at db k = Some w \<Longrightarrow> j_session_id w = k"
  unfolding jrow_at_def by (rule jt.look_key)

lemma hasPending_iff: "hasWorkerWorkspacePendingResult db k \<longleftrightarrow> wrow_at db k \<noteq> None"
  by (simp add: hasWorkerWorkspacePendingResult_def pending_first_eq)

lemma clearPending_sel [simp]:
  "placements (clearWorkerWorkspacePendingResult db k) = placements db"
  "journals (clearWorkerWorkspacePendingResult db k) = journals db"
  "prow_at (clearWorkerWorkspacePendingResult db k) = prow_at db"
  "jrow_at (clearWorkerWorkspacePendingResult db k) = jrow_at db"
  by (simp_all add: clearWorkerWorkspacePendingResult_def prow_at_def jrow_at_def)

lemma clearPending_ok:
  assumes "db_ok db"
  shows "db_ok (clearWorkerWorkspacePendingResult db k)"
    and "wrow_at (clearWorkerWorkspacePendingResult db k) = (wrow_at db)(k := None)"
proof -
  have t: "table_ok w_session_id pending_check (pendings db)" using assms by (simp add: db_ok_def)
  show "db_ok (clearWorkerWorkspacePendingResult db k)"
    using assms wt.del_inv [OF t, of "\<lambda>r. w_session_id r = k"]
    by (simp add: db_ok_def clearWorkerWorkspacePendingResult_def)
  show "wrow_at (clearWorkerWorkspacePendingResult db k) = (wrow_at db)(k := None)"
    using wt.del_look [OF t, of "\<lambda>r. w_session_id r = k"] wrow_at_key [of db]
    by (auto simp: wrow_at_def clearWorkerWorkspacePendingResult_def fun_eq_iff split: option.split)
qed

lemma clearJournal_Inr:
  assumes "db_ok db" "clearWorkerWorkspaceReconciliation db k cur = Inr db'"
  shows "db_ok db'" "placements db' = placements db" "pendings db' = pendings db"
    "jrow_at db' = (jrow_at db)(k := None)"
proof -
  have db': "db' = db\<lparr>journals := fst (sql_delete (\<lambda>r. j_session_id r = k) (journals db))\<rparr>"
    using assms(2) by (simp add: clearWorkerWorkspaceReconciliation_def split: if_splits)
  have t: "table_ok j_session_id journal_check (journals db)" using assms(1) by (simp add: db_ok_def)
  show "db_ok db'" "placements db' = placements db" "pendings db' = pendings db"
    using assms(1) jt.del_inv [OF t, of "\<lambda>r. j_session_id r = k"] by (simp_all add: db_ok_def db')
  show "jrow_at db' = (jrow_at db)(k := None)"
    using jt.del_look [OF t, of "\<lambda>r. j_session_id r = k"] jrow_at_key [of db]
    by (auto simp: jrow_at_def db' fun_eq_iff split: option.split)
qed

lemma clearJournal_None: "clearWorkerWorkspaceReconciliation db k None =
    Inr (db\<lparr>journals := fst (sql_delete (\<lambda>r. j_session_id r = k) (journals db))\<rparr>)"
  by (simp add: clearWorkerWorkspaceReconciliation_def split: option.split)

lemma held_raw: "worker_claim_held (raw_placement r) env epoch c rid g \<longleftrightarrow>
    row_state r \<in> {WActive, WDraining} \<and> environment_id r = Some env
    \<and> active_owner_epoch r = Some epoch \<and> claim_of_row r = Some (PWorker c rid g epoch)"
  by (auto simp: worker_claim_held_def)

text \<open>Inserting the fence: the claim is held, the row of the session is the one of this claim.\<close>

lemma insertPending_Inr:
  assumes "db_ok db" "insertWorkerWorkspacePendingResult db claim nowMs gw = Inr db'"
  obtains env epoch r w where "tc_owner claim = WorkerOwner env epoch"
    "prow_at db (tc_sessionId claim) = Some r"
    "worker_claim_held (raw_placement r) env epoch (tc_claimId claim) (tc_runId claim)
       (tc_placementGeneration claim)"
    "placements db' = placements db" "journals db' = journals db" "db_ok db'"
    "wrow_at db' = (wrow_at db)(tc_sessionId claim \<mapsto> w)" "pending_of_claim w claim"
    "wrow_at db (tc_sessionId claim) = Some w \<or> wrow_at db (tc_sessionId claim) = None"
proof -
  let ?k = "tc_sessionId claim"
  from assms(2) obtain env epoch where own: "tc_owner claim = WorkerOwner env epoch"
    by (auto simp: insertWorkerWorkspacePendingResult_def split: turn_owner.splits)
  define w where "w = \<lparr>w_session_id = ?k, w_environment_id = env, w_owner_epoch = epoch,
     w_placement_generation = tc_placementGeneration claim, w_claim_id = tc_claimId claim,
     w_run_id = tc_runId claim, w_gateway_instance_id = gw, w_recovery_requested_at_ms = None,
     w_workspace_accepted_at_ms = None, w_staged_result_ref = None, w_created_at_ms = nowMs\<rparr>"
  have wk: "w_session_id w = ?k" "pending_of_claim w claim"
    by (simp_all add: w_def pending_of_claim_def own)
  from assms(2) obtain r t n where r: "prow_at db ?k = Some r" and
    held: "worker_claim_held (raw_placement r) env epoch (tc_claimId claim) (tc_runId claim)
       (tc_placementGeneration claim)" and
    ins: "sql_insert_ignore w_session_id pending_check w (pendings db) = Inr (t, n)" and
    rest: "(if n = 1 then Inr (db\<lparr>pendings := t\<rparr>)
            else (case pending_first db ?k of
                    None \<Rightarrow> Inl EPendingResult
                  | Some existing \<Rightarrow>
                      if pending_of_claim existing claim then Inr db else Inl EPendingResult)) = Inr db'"
    unfolding insertWorkerWorkspacePendingResult_def own w_def
    by (auto simp: getRequired_Inr [OF assms(1)] split: if_splits prod.splits)
  show thesis
  proof (cases "n = 1")
    case True
    then have new: "w_session_id w \<notin> w_session_id ` set (pendings db)" "t = pendings db @ [w]"
      "pending_check w"
      using ins by (auto simp: sql_insert_ignore_def split: if_splits)
    then have ins': "sql_insert w_session_id pending_check w (pendings db) = Inr t"
      by (simp add: sql_insert_def)
    have look: "wrow_at db ?k = None \<and> wrow_at (db\<lparr>pendings := t\<rparr>) = (wrow_at db)(?k \<mapsto> w)"
      using wt.ins_look [OF ins'] by (auto simp: wrow_at_def wk fun_eq_iff)
    have "table_ok w_session_id pending_check t"
      using assms(1) by (intro wt.ins_inv [OF _ ins']) (simp add: db_ok_def)
    then show thesis
      using that [OF own r held, of w] look assms(1) True rest wk by (auto simp: db_ok_def)
  next
    case False
    then obtain ex where ex: "wrow_at db ?k = Some ex" "pending_of_claim ex claim" "db' = db"
      using rest by (auto simp: pending_first_eq split: option.splits if_splits)
    then show thesis
      using that [OF own r held, of ex] assms(1) by (auto simp: fun_upd_idem)
  qed
qed

subsection \<open>Releasing a turn\<close>

lemma claim_matches_raw: "claim_matches (raw_placement r) own c rid g \<Longrightarrow> row_inv r \<Longrightarrow>
    turn_claim_owner r \<noteq> None \<and> turn_claim_id r = Some c \<and> turn_claim_run_id r = Some rid
    \<and> turn_claim_generation r = Some g"
  by (cases own) (auto simp: held_raw claim_columns)

lemma releaseTurn_effect:
  assumes "db_ok db" "releaseTurn db claim nowMs = Inr (db', p)"
  obtains sid c rid r where "required (tc_sessionId claim) FSessionId = Inr sid"
    "required (tc_claimId claim) FClaimId = Inr c" "required (tc_runId claim) FClaimRunId = Inr rid"
    "wrow_at db sid = None"
    "claim_matches (raw_placement r) (tc_owner claim) c rid (tc_placementGeneration claim)"
    "row_updated db db' sid r (clear_claim nowMs r)"
    "journals db' = journals db" "pendings db' = pendings db" "db_ok db'"
proof -
  from assms(2) obtain sid c rid current db'' where
    n: "required (tc_sessionId claim) FSessionId = Inr sid"
    "required (tc_claimId claim) FClaimId = Inr c" "required (tc_runId claim) FClaimRunId = Inr rid"
    and cur: "getRequired db sid = Inr current"
    and g: "\<not> hasWorkerWorkspacePendingResult db sid"
    "claim_matches current (tc_owner claim) c rid (tc_placementGeneration claim)" and
    u: "update_placement db
          (\<lambda>r. session_id r = sid \<and> turn_claim_id r = Some c \<and> turn_claim_run_id r = Some rid
               \<and> turn_claim_generation r = Some (tc_placementGeneration claim))
          (clear_claim nowMs) EClaimChanged = Inr db''" and res: "db'' = db'"
    unfolding releaseTurn_def by (elim bnd_InrE) (auto split: if_splits)
  from cur obtain r where r: "prow_at db sid = Some r" "current = raw_placement r"
    by (auto simp: getRequired_Inr [OF assms(1)])
  have "row_updated db db' sid r (clear_claim nowMs r) \<and> journals db' = journals db
      \<and> pendings db' = pendings db \<and> db_ok db'"
    using guarded_update [OF assms(1) refl assms(1) u _ r(1)] res prow_at_key [OF r(1)]
    by (auto simp: claim_cols)
  then show thesis
    using that [OF n] g r by (auto simp: hasPending_iff)
qed

lemma completeResult_effect:
  assumes "db_ok db" "completeWorkspaceResultAndReleaseTurn db claim reclaim nowMs = Inr (db', p)"
  obtains sid c rid env epoch r w where "required (tc_sessionId claim) FSessionId = Inr sid"
    "required (tc_claimId claim) FClaimId = Inr c" "required (tc_runId claim) FClaimRunId = Inr rid"
    "wrow_at db sid = Some w" "w_workspace_accepted_at_ms w \<noteq> None"
    "tc_owner claim = WorkerOwner env epoch"
    "worker_claim_held (raw_placement r) env epoch c rid (tc_placementGeneration claim)"
    "row_updated db db' sid r (if reclaim then moved_row WReclaimed nowMs r else clear_claim nowMs r)"
    "journals db' = journals db" "wrow_at db' = (wrow_at db)(sid := None)" "db_ok db'"
    "reclaim \<Longrightarrow> js_is_safe (transition_generation r + 1)"
proof -
  from assms(2) obtain sid c rid current env epoch assign db'' where
    n: "required (tc_sessionId claim) FSessionId = Inr sid"
    "required (tc_claimId claim) FClaimId = Inr c" "required (tc_runId claim) FClaimRunId = Inr rid"
    and cur: "getRequired db sid = Inr current"
    and pend: "hasAcceptedWorkerWorkspacePendingResult db sid"
    and own: "tc_owner claim = WorkerOwner env epoch"
    and held: "worker_claim_held current env epoch c rid (tc_placementGeneration claim)"
    and asg: "(if reclaim then bnd (transitionValues current WReclaimed empty_patch nowMs)
                 (\<lambda>v. Inr (\<lambda>_. v)) else Inr (clear_claim nowMs)) = Inr assign"
    and u: "update_placement (clearWorkerWorkspacePendingResult db sid)
          (\<lambda>r. session_id r = sid \<and> state r = ws_text (p_state current)
               \<and> transition_generation r = p_generation current
               \<and> turn_claim_id r = Some c \<and> turn_claim_run_id r = Some rid)
          assign EChanged = Inr db''" and res: "db'' = db'"
    unfolding completeWorkspaceResultAndReleaseTurn_def
    by (elim bnd_InrE) (auto split: if_splits turn_owner.splits)
  from cur obtain r where r: "prow_at db sid = Some r" "current = raw_placement r"
    by (auto simp: getRequired_Inr [OF assms(1)])
  have inv: "row_inv r" using prow_at_inv [OF assms(1) r(1)] .
  have id: "session_id r = sid" using prow_at_key [OF r(1)] .
  have st: "row_state r \<in> {WActive, WDraining, WReconciling, WReclaimed}"
    using held by (auto simp: r held_raw)
  obtain w where w: "wrow_at db sid = Some w" "w_workspace_accepted_at_ms w \<noteq> None"
  proof -
    from pend have "filter (\<lambda>r. w_session_id r = sid \<and> w_workspace_accepted_at_ms r \<noteq> None)
        (pendings db) \<noteq> []"
      by (auto simp: hasAcceptedWorkerWorkspacePendingResult_def sql_first_def sql_select_def)
    then obtain w where "w \<in> set (pendings db)" "w_session_id w = sid"
      "w_workspace_accepted_at_ms w \<noteq> None"
      unfolding filter_empty_conv by blast
    moreover have "distinct (map w_session_id (pendings db))"
      using assms(1) by (simp add: db_ok_def table_ok_def)
    ultimately show thesis using that [of w] by (simp add: wrow_at_def row_of_iff)
  qed
  have asg': "assign r = (if reclaim then moved_row WReclaimed nowMs r else clear_claim nowMs r)
      \<and> (reclaim \<longrightarrow> js_is_safe (transition_generation r + 1) \<and> row_inv (assign r))"
  proof (cases reclaim)
    case True
    then obtain v where v: "transitionValues (raw_placement r) WReclaimed empty_patch nowMs = Inr v"
      "assign = (\<lambda>_. v)"
      using asg r(2) by auto
    have keep: "transitionValues (raw_placement r) WReclaimed empty_patch nowMs =
        (if js_is_safe (transition_generation r + 1) then Inr (moved_row WReclaimed nowMs r)
         else Inl EGenerationExhausted)"
      by (rule transitionValues_keep [OF inv st]) simp
    have "js_is_safe (transition_generation r + 1) \<and> v = moved_row WReclaimed nowMs r"
      using v(1) unfolding keep by (simp split: if_splits)
    moreover have "row_inv v" using transitionValues_row [OF inv v(1)] by blast
    ultimately show ?thesis using True v(2) by simp
  next
    case False
    then show ?thesis using asg by simp
  qed
  have fid: "session_id (assign r) = sid" using asg' id by (auto simp: claim_cols moved_row_def)
  have finv: "row_inv (assign r)" using asg' inv by (auto split: if_splits)
  have "row_updated db db' sid r (assign r) \<and> journals db' = journals db
      \<and> pendings db' = pendings (clearWorkerWorkspacePendingResult db sid) \<and> db_ok db'"
    using guarded_update [OF assms(1) _ clearPending_ok(1) [OF assms(1)] u _ r(1)] finv fid res by auto
  then show thesis
    using that [OF n w own _ _ _ _ _, of r] held r asg' clearPending_ok(2) [OF assms(1), of sid]
    by (auto simp: wrow_at_def)
qed

lemma cancelResult_effect:
  assumes "db_ok db" "cancelWorkspaceResultAndReleaseTurn db claim nowMs = Inr (db', p)"
  obtains sid c env epoch r w where "required (tc_sessionId claim) FSessionId = Inr sid"
    "required (tc_claimId claim) FClaimId = Inr c" "reclaim_id c"
    "wrow_at db sid = Some w" "w_workspace_accepted_at_ms w = None"
    "tc_owner claim = WorkerOwner env epoch"
    "worker_claim_held (raw_placement r) env epoch c c (tc_placementGeneration claim)"
    "row_updated db db' sid r (clear_claim nowMs r)"
    "journals db' = journals db" "wrow_at db' = (wrow_at db)(sid := None)" "db_ok db'"
proof -
  from assms(2) obtain sid c current env epoch w db'' where
    n: "required (tc_sessionId claim) FSessionId = Inr sid"
    "required (tc_claimId claim) FClaimId = Inr c" "reclaim_id c"
    and cur: "getRequired db sid = Inr current"
    and w: "wrow_at db sid = Some w" "w_workspace_accepted_at_ms w = None"
    and own: "tc_owner claim = WorkerOwner env epoch"
    and held: "worker_claim_held current env epoch c c (tc_placementGeneration claim)"
    and u: "update_placement (clearWorkerWorkspacePendingResult db sid)
          (\<lambda>r. session_id r = sid \<and> state r = ws_text (p_state current)
               \<and> transition_generation r = p_generation current
               \<and> turn_claim_id r = Some c \<and> turn_claim_run_id r = Some c)
          (clear_claim nowMs) EChanged = Inr db''" and res: "db'' = db'"
    unfolding cancelWorkspaceResultAndReleaseTurn_def pending_first_eq
    by (elim bnd_InrE) (auto split: if_splits turn_owner.splits option.splits)
  from cur obtain r where r: "prow_at db sid = Some r" "current = raw_placement r"
    by (auto simp: getRequired_Inr [OF assms(1)])
  have "row_updated db db' sid r (clear_claim nowMs r) \<and> journals db' = journals db
      \<and> pendings db' = pendings (clearWorkerWorkspacePendingResult db sid) \<and> db_ok db'"
    using guarded_update [OF assms(1) _ clearPending_ok(1) [OF assms(1)] u _ r(1)] res
      prow_at_key [OF r(1)] by (auto simp: claim_cols)
  then show thesis
    using that [OF n w own, of r] held r clearPending_ok(2) [OF assms(1), of sid]
    by (auto simp: wrow_at_def)
qed

lemma prow_at_clear_local:
  assumes "db_ok db" "clearLocalTurnClaimsAfterRestart db nowMs = Inr (db', ids)"
  shows "prow_at db' k = map_option
      (\<lambda>r. if local_claim_row r then clear_claim nowMs r else r) (prow_at db k)"
    and "journals db' = journals db" "pendings db' = pendings db" "db_ok db'"
    and "k \<in> set ids \<longleftrightarrow> (\<exists>r. prow_at db k = Some r \<and> local_claim_row r)"
proof -
  let ?t = "map (\<lambda>r. if local_claim_row r then clear_claim nowMs r else r) (placements db)"
  have inv: "row_inv r" if "r \<in> set (placements db)" for r
    using assms(1) that by (auto simp: db_ok_def table_ok_def list_all_iff)
  have "list_all (\<lambda>r. local_claim_row r \<longrightarrow> placement_check (clear_claim nowMs r)) (placements db)"
    using inv by (auto simp: list_all_iff)
  then have eq: "db' = db\<lparr>placements := ?t\<rparr>" "ids = map session_id (filter local_claim_row (placements db))"
    using assms(2)
    by (auto simp: clearLocalTurnClaimsAfterRestart_def sql_update_def sql_select_def Let_def)
  have keys: "map session_id ?t = map session_id (placements db)"
    by (rule map_key_update) (simp add: claim_cols)
  show "journals db' = journals db" "pendings db' = pendings db" by (simp_all add: eq)
  show "db_ok db'"
    using assms(1) inv keys by (auto simp: db_ok_def table_ok_def eq list_all_iff simp del: map_map)
  show "prow_at db' k = map_option
      (\<lambda>r. if local_claim_row r then clear_claim nowMs r else r) (prow_at db k)"
    unfolding prow_at_def eq by (simp add: row_of_map claim_cols)
  have "distinct (map session_id (placements db))"
    using assms(1) by (simp add: db_ok_def table_ok_def)
  then show "k \<in> set ids \<longleftrightarrow> (\<exists>r. prow_at db k = Some r \<and> local_claim_row r)"
    by (auto simp: eq prow_at_def row_of_iff)
qed

subsection \<open>Acknowledging and advancing the workspace\<close>

lemma updateAck_effect:
  assumes "db_ok db"
    "updateAckCursors gw db claim transcript liveEvent pending nowMs pNowMs = Inr (db', p)"
  obtains sid c rid env epoch r t l where "required (tc_sessionId claim) FSessionId = Inr sid"
    "required (tc_claimId claim) FClaimId = Inr c" "required (tc_runId claim) FClaimRunId = Inr rid"
    "worker_claim_held (raw_placement r) env epoch c rid (tc_placementGeneration claim)"
    "advanceCursor (last_transcript_ack_cursor r) transcript FTranscriptCursor = Inr t"
    "advanceCursor (last_live_event_ack_cursor r) liveEvent FLiveCursor = Inr l"
    "row_updated db db' sid r (set_cursors t l nowMs r)"
    "journals db' = journals db" "db_ok db'"
    "if pending then tc_sessionId claim = sid \<and> tc_owner claim = WorkerOwner env epoch
       \<and> tc_claimId claim = c \<and> tc_runId claim = rid
       \<and> (\<exists>w. pending_of_claim w claim \<and> wrow_at db' = (wrow_at db)(sid \<mapsto> w)
            \<and> (wrow_at db sid = Some w \<or> wrow_at db sid = None))
     else wrow_at db' = wrow_at db"
proof -
  from assms(2) obtain sid c rid env0 epoch0 env epoch current t l db1 db2 where
    n: "required (tc_sessionId claim) FSessionId = Inr sid"
    "required (tc_claimId claim) FClaimId = Inr c" "required (tc_runId claim) FClaimRunId = Inr rid"
    and own: "tc_owner claim = WorkerOwner env0 epoch0"
    and o: "required env0 FEnvironmentId = Inr env" "normalizeEpoch epoch0 FActiveOwnerEpoch = Inr epoch"
    and cur: "getRequired db sid = Inr current"
    and held: "worker_claim_held current env epoch c rid (tc_placementGeneration claim)"
    and adv: "advanceCursor (p_lastTranscriptAckCursor current) transcript FTranscriptCursor = Inr t"
    "advanceCursor (p_lastLiveEventAckCursor current) liveEvent FLiveCursor = Inr l"
    and u: "update_placement db
         (\<lambda>r. session_id r = sid \<and> state r = ws_text (p_state current)
            \<and> transition_generation r = p_generation current
            \<and> environment_id r = Some env \<and> active_owner_epoch r = Some epoch
            \<and> turn_claim_owner r = Some ''worker'' \<and> turn_claim_id r = Some c
            \<and> turn_claim_run_id r = Some rid
            \<and> turn_claim_generation r = Some (tc_placementGeneration claim)
            \<and> turn_claim_owner_epoch r = Some epoch)
         (set_cursors t l nowMs) EChanged = Inr db1"
    and ins: "(if pending then insertWorkerWorkspacePendingResult db1 claim pNowMs gw else Inr db1)
       = Inr db2" and res: "db2 = db'"
    unfolding updateAckCursors_def
    by (elim bnd_InrE) (auto split: if_splits turn_owner.splits)
  from cur obtain r where r: "prow_at db sid = Some r" "current = raw_placement r"
    by (auto simp: getRequired_Inr [OF assms(1)])
  have inv: "row_inv r" using prow_at_inv [OF assms(1) r(1)] .
  have st: "row_state r \<in> {WActive, WDraining}" using held by (auto simp: r held_raw)
  have ok: "cursor_ok t" "cursor_ok l"
    using advanceCursor_Inr adv row_inv_facts(1) [OF inv] by (fastforce simp: r columns_ok_def)+
  let ?r' = "set_cursors t l nowMs r"
  have id: "session_id ?r' = sid" using prow_at_key [OF r(1)] by (simp add: claim_cols)
  have upd: "row_updated db db1 sid r ?r' \<and> journals db1 = journals db
      \<and> pendings db1 = pendings db \<and> db_ok db1"
    using guarded_update [OF assms(1) refl assms(1) u _ r(1)]
      row_inv_set_cursors [OF inv st ok] id by auto
  have w1: "wrow_at db1 = wrow_at db" using upd by (simp add: wrow_at_def)
  have at1: "prow_at db1 sid = Some ?r'"
    using row_updatedD(2) [of db db1 sid r ?r'] upd by simp
  show thesis
  proof (cases pending)
    case False
    then show thesis
      using that [OF n, of r env epoch t l] held adv upd w1 ins res by (simp add: r)
  next
    case True
    then have ins1: "insertWorkerWorkspacePendingResult db1 claim pNowMs gw = Inr db'"
      using ins res by simp
    from insertPending_Inr [OF conjunct2 [OF conjunct2 [OF conjunct2 [OF upd]]] ins1]
    obtain r1 w where own1: "prow_at db1 (tc_sessionId claim) = Some r1"
      "worker_claim_held (raw_placement r1) env0 epoch0 (tc_claimId claim) (tc_runId claim)
         (tc_placementGeneration claim)"
      and db': "placements db' = placements db1" "journals db' = journals db1" "db_ok db'"
      "wrow_at db' = (wrow_at db1)(tc_sessionId claim \<mapsto> w)" "pending_of_claim w claim"
      "wrow_at db1 (tc_sessionId claim) = Some w \<or> wrow_at db1 (tc_sessionId claim) = None"
      using own by (metis turn_owner.inject)
    have inv1: "row_inv r1" using prow_at_inv own1(1) upd by blast
    have cols: "clean_str (Some (tc_claimId claim))" "clean_str (Some (tc_runId claim))"
      "clean_str (Some env0)"
      using row_inv_facts(1,2) [OF inv1] own1(2) claim_columns(2) [OF inv1]
      by (auto simp: held_raw columns_ok_def elim: claim_okE)
    have same: "tc_claimId claim = c" "tc_runId claim = rid" "env0 = env" "epoch0 = epoch"
      using n(2,3) o cols by (auto simp: required_Inr normalizeEpoch_Inr)
    have "tc_sessionId claim = sid"
      using prow_at_clean [OF _ own1(1)] upd n(1) by (simp add: required_Inr)
    moreover have "row_updated db db' sid r ?r'" using upd db'(1) by (simp add: row_updated_def)
    moreover have "\<exists>w. pending_of_claim w claim \<and> wrow_at db' = (wrow_at db)(tc_sessionId claim \<mapsto> w)
        \<and> (wrow_at db (tc_sessionId claim) = Some w \<or> wrow_at db (tc_sessionId claim) = None)"
      using db' w1 by (intro exI [of _ w]) simp
    ultimately show thesis
      using that [OF n, of r env epoch t l] held adv upd True db' same own by (simp add: r)
  qed
qed

lemma journal_update_sel:
  assumes "db_ok db" "sql_update journal_check w f (journals db) = Inr (t, n)"
    "\<And>r. j_session_id (f r) = j_session_id r"
  shows "db_ok (db\<lparr>journals := t\<rparr>)"
    "jrow_at (db\<lparr>journals := t\<rparr>) k = map_option (\<lambda>r. if w r then f r else r) (jrow_at db k)"
proof -
  have t: "table_ok j_session_id journal_check (journals db)" using assms(1) by (simp add: db_ok_def)
  show "db_ok (db\<lparr>journals := t\<rparr>)"
    using jt.upd_inv [OF t assms(2)] assms by (simp add: db_ok_def)
  show "jrow_at (db\<lparr>journals := t\<rparr>) k = map_option (\<lambda>r. if w r then f r else r) (jrow_at db k)"
    using jt.upd_look [OF t assms(2), of k] assms(3) by (simp add: jrow_at_def)
qed

text \<open>The rows of two databases agree on who the journals belong to.\<close>

definition same_journal_owner :: "jrow option \<Rightarrow> jrow option \<Rightarrow> bool" where
  "same_journal_owner a b \<longleftrightarrow> map_option jowner_of a = map_option jowner_of b"

lemma updateManifest_effect:
  assumes "db_ok db" "updateWorkspaceBaseManifest db claim manifest nowMs = Inr (db', p)"
  obtains sid c rid env epoch r ref where "required (tc_sessionId claim) FSessionId = Inr sid"
    "required manifest FManifestRef = Inr ref" "manifest_ref ref"
    "worker_claim_held (raw_placement r) env epoch c rid (tc_placementGeneration claim)"
    "row_updated db db' sid r (set_manifest ref nowMs r)"
    "pendings db' = pendings db" "db_ok db'"
    "\<And>k. same_journal_owner (jrow_at db k) (jrow_at db' k)"
proof -
  from assms(2) obtain sid c rid ref env epoch current rec db1 db2 where
    n: "required (tc_sessionId claim) FSessionId = Inr sid"
    and m: "required manifest FManifestRef = Inr ref" "manifest_ref ref"
    and cur: "getRequired db sid = Inr current"
    and held: "worker_claim_held current env epoch c rid (tc_placementGeneration claim)"
    and u: "update_placement db
         (\<lambda>r. session_id r = sid \<and> state r = ws_text (p_state current)
            \<and> transition_generation r = p_generation current
            \<and> environment_id r = Some env \<and> active_owner_epoch r = Some epoch
            \<and> turn_claim_owner r = Some ''worker'' \<and> turn_claim_id r = Some c
            \<and> turn_claim_run_id r = Some rid
            \<and> turn_claim_generation r = Some (tc_placementGeneration claim)
            \<and> turn_claim_owner_epoch r = Some epoch)
         (set_manifest ref nowMs) EChanged = Inr db1"
    and j: "markReconciliation db1 sid ref rec = Inr db2" and res: "db2 = db'"
    unfolding updateWorkspaceBaseManifest_def
    by (elim bnd_InrE) (auto split: if_splits turn_owner.splits)
  from cur obtain r where r: "prow_at db sid = Some r" "current = raw_placement r"
    by (auto simp: getRequired_Inr [OF assms(1)])
  have inv: "row_inv r" using prow_at_inv [OF assms(1) r(1)] .
  have st: "row_state r \<in> {WActive, WDraining}" using held by (auto simp: r held_raw)
  have id: "session_id (set_manifest ref nowMs r) = sid"
    using prow_at_key [OF r(1)] by (simp add: claim_cols)
  have upd: "row_updated db db1 sid r (set_manifest ref nowMs r) \<and> journals db1 = journals db
      \<and> pendings db1 = pendings db \<and> db_ok db1"
    using guarded_update [OF assms(1) refl assms(1) u _ r(1)]
      row_inv_set_manifest [OF inv st required_clean [OF m(1)]] id by auto
  have "db_ok db' \<and> placements db' = placements db1 \<and> pendings db' = pendings db1
      \<and> (\<forall>k. same_journal_owner (jrow_at db1 k) (jrow_at db' k))"
  proof (cases rec)
    case None
    then show ?thesis using j upd res by (simp add: same_journal_owner_def)
  next
    case (Some a)
    obtain row plan where a: "a = (row, plan)" by (cases a)
    obtain t where t: "sql_update journal_check
          (\<lambda>r. j_session_id r = sid \<and> j_base_manifest_ref r = j_base_manifest_ref row)
          (\<lambda>r. r\<lparr>j_plan_json := serializeWorkerWorkspaceReconciliationPlan
                   (plan\<lparr>pl_appliedManifestRef := Some ref\<rparr>)\<rparr>) (journals db1) = Inr (t, 1)"
      "db' = db1\<lparr>journals := t\<rparr>"
      using j res by (auto simp: Some a split: prod.splits if_splits)
    then show ?thesis
      using journal_update_sel [OF _ t(1)] upd
      by (auto simp: same_journal_owner_def jowner_of_def option.map_comp intro!: map_option_cong)
  qed
  then show thesis
    using that [OF n m, of r env epoch c rid] held upd r
    by (auto simp: row_updated_def same_journal_owner_def jrow_at_def)
qed

lemma acceptIdle_effect:
  assumes "db_ok db"
    "acceptIdleWorkspaceReconciliation db s0 e0 n0 g manifest nowMs = Inr (db', p)"
  obtains sid r ref where "required s0 FSessionId = Inr sid"
    "required manifest FManifestRef = Inr ref" "manifest_ref ref"
    "row_state r = WActive" "turn_claim_owner r = None" "transition_generation r = g"
    "row_updated db db' sid r (set_manifest ref nowMs r)"
    "pendings db' = pendings db" "db_ok db'" "jrow_at db' = (jrow_at db)(sid := None)"
proof -
  from assms(2) obtain sid env epoch ref current db1 db2 where
    n: "required s0 FSessionId = Inr sid"
    and m: "required manifest FManifestRef = Inr ref" "manifest_ref ref"
    and cur: "getRequired db sid = Inr current"
    and g: "p_state current = WActive" "p_generation current = g" "p_turnClaim current = None"
    and u: "update_placement db
         (\<lambda>r. session_id r = sid \<and> state r = ''active'' \<and> transition_generation r = g
            \<and> environment_id r = Some env \<and> active_owner_epoch r = Some epoch
            \<and> turn_claim_owner r = None)
         (set_manifest ref nowMs) EChanged = Inr db1"
    and j: "clearWorkerWorkspaceReconciliation db1 sid None = Inr db2" and res: "db2 = db'"
    unfolding acceptIdleWorkspaceReconciliation_def
    by (elim bnd_InrE) (auto split: if_splits)
  from cur obtain r where r: "prow_at db sid = Some r" "current = raw_placement r"
    by (auto simp: getRequired_Inr [OF assms(1)])
  have inv: "row_inv r" using prow_at_inv [OF assms(1) r(1)] .
  have st: "row_state r \<in> {WActive, WDraining}" using g by (simp add: r)
  have id: "session_id (set_manifest ref nowMs r) = sid"
    using prow_at_key [OF r(1)] by (simp add: claim_cols)
  have upd: "row_updated db db1 sid r (set_manifest ref nowMs r) \<and> journals db1 = journals db
      \<and> pendings db1 = pendings db \<and> db_ok db1"
    using guarded_update [OF assms(1) refl assms(1) u _ r(1)]
      row_inv_set_manifest [OF inv st required_clean [OF m(1)]] id by auto
  note c = clearJournal_Inr [OF _ j]
  show thesis
    using that [OF n m, of r] g upd c res r by (auto simp: row_updated_def jrow_at_def)
qed

end
