(* ===== verification/Placement_Moves.thy ===== *)
theory Placement_Moves
  imports Placement_Fences
begin

section \<open>Effects of the state changes\<close>

text \<open>
  The same for the operations that move a placement between states: which columns a transition
  keeps, and what dispatch, drain, reclaim, reconcile and fail leave of the row.
\<close>

lemma canTransition_iff:
  "canTransitionWorkerSessionPlacement a b \<longleftrightarrow> (a, b) \<in>
     {(WLocal, WRequested), (WRequested, WProvisioning), (WRequested, WFailed),
      (WProvisioning, WSyncing), (WProvisioning, WFailed), (WSyncing, WStarting),
      (WSyncing, WFailed), (WStarting, WActive), (WStarting, WFailed), (WActive, WDraining),
      (WDraining, WReconciling), (WReconciling, WLocal), (WReconciling, WReclaimed),
      (WReconciling, WFailed), (WReclaimed, WRequested)}"
  by (cases a) (auto simp: canTransitionWorkerSessionPlacement_def)

text \<open>What a transition keeps when the patch leaves a column alone.\<close>

lemma transitionValues_columns:
  assumes "transitionValues p to patch nowMs = Inr v"
    "to \<in> {WActive, WDraining, WReconciling, WReclaimed}"
  shows "pp_environmentId patch = None \<Longrightarrow> environment_id v = p_environmentId p"
    "pp_activeOwnerEpoch patch = None \<Longrightarrow> active_owner_epoch v = p_activeOwnerEpoch p"
    "pp_lastTranscriptAckCursor patch = None \<Longrightarrow>
      last_transcript_ack_cursor v = p_lastTranscriptAckCursor p"
    "pp_lastLiveEventAckCursor patch = None \<Longrightarrow>
      last_live_event_ack_cursor v = p_lastLiveEventAckCursor p"
  using assms by - (erule transitionValuesE; auto)+

lemma updateTransition_effect:
  assumes "db_ok db" "prow_at db k = Some r" "claim_of_row r = None"
    "updateTransition db (raw_placement r) to patch nowMs = Inr (db', p)"
  obtains v where "transitionValues (raw_placement r) to patch nowMs = Inr v"
    "row_updated db db' k r v" "journals db' = journals db" "pendings db' = pendings db" "db_ok db'"
    "p = raw_placement v"
proof -
  have id: "session_id r = k" using prow_at_key [OF assms(2)] .
  have inv: "row_inv r" using prow_at_inv [OF assms(1,2)] .
  from assms(4) obtain v db'' where v: "transitionValues (raw_placement r) to patch nowMs = Inr v"
    and u: "update_placement db
         (\<lambda>x. session_id x = k \<and> state x = ws_text (row_state r)
            \<and> transition_generation x = transition_generation r \<and> turn_claim_owner x = None)
         (\<lambda>_. v) EChanged = Inr db''" and g: "getRequired db'' k = Inr p" "db'' = db'"
    unfolding updateTransition_def raw_placement_sel id by (elim bnd_InrE) auto
  note tv = transitionValues_row [OF inv v]
  have upd: "row_updated db db' k r v \<and> journals db' = journals db
      \<and> pendings db' = pendings db \<and> db_ok db'"
    using guarded_update [OF assms(1) refl assms(1) u _ assms(2)] tv id g(2) by auto
  have "p = raw_placement v"
    using g upd row_updatedD(2) [of db db' k r v] by (auto simp: getRequired_Inr)
  then show thesis using that [OF v] upd by blast
qed

lemma transition_effect:
  assumes "db_ok db" "transition db s0 from to g patch nowMs = Inr (db', p)"
  obtains sid r v where "required s0 FSessionId = Inr sid"
    "canTransitionWorkerSessionPlacement from to" "(from, to) \<noteq> (WDraining, WReconciling)"
    "row_state r = from" "transition_generation r = g" "claim_of_row r = None"
    "row_updated db db' sid r v" "row_state v = to" "transition_generation v = g + 1"
    "claim_of_row v = None" "journals db' = journals db" "pendings db' = pendings db" "db_ok db'"
    "p = raw_placement v"
proof -
  from assms(2) obtain sid current where
    n: "required s0 FSessionId = Inr sid" "canTransitionWorkerSessionPlacement from to"
      "(from, to) \<noteq> (WDraining, WReconciling)"
    and cur: "getRequired db sid = Inr current"
    and g: "p_state current = from" "p_generation current = g" "p_turnClaim current = None"
    and u: "updateTransition db current to patch nowMs = Inr (db', p)"
    unfolding transition_def by (auto split: if_splits)
  from cur obtain r where r: "prow_at db sid = Some r" "current = raw_placement r"
    by (auto simp: getRequired_Inr [OF assms(1)])
  have claim: "claim_of_row r = None" using g r by simp
  obtain v where v: "transitionValues (raw_placement r) to patch nowMs = Inr v"
    "row_updated db db' sid r v" "journals db' = journals db" "pendings db' = pendings db" "db_ok db'"
    "p = raw_placement v"
    using updateTransition_effect [OF assms(1) r(1) claim u [unfolded r]] .
  have "row_inv r" using prow_at_inv [OF assms(1) r(1)] .
  from transitionValues_row [OF this v(1)] show thesis
    using that [OF n, of r v] g r v claim by simp
qed

lemma startDispatch_effect:
  assumes "db_ok db" "startDispatch db input created nowMs = Inr (db', p)"
  obtains identity db1 r where "normalizeIdentity input = Inr identity"
    "ensured db db1 identity created r" "row_state r = WLocal \<or> row_state r = WReclaimed"
    "row_updated db1 db' (i_sessionId identity) r
       (set_requested (transition_generation r + 1) nowMs r)"
    "journals db' = journals db" "pendings db' = pendings db" "db_ok db'"
proof -
  from assms(2) obtain identity db1 current g db'' where
    n: "normalizeIdentity input = Inr identity"
    and e: "ensureLocal db identity created = Inr (db1, current)"
    and st: "p_state current = WLocal \<or> p_state current = WReclaimed"
    and g: "nextGeneration (p_generation current) = Inr g"
    and u: "update_placement db1
         (\<lambda>x. session_id x = p_sessionId current \<and> state x = ws_text (p_state current)
            \<and> transition_generation x = p_generation current)
         (set_requested g nowMs) EChanged = Inr db''" and res: "db'' = db'"
    unfolding startDispatch_def by (elim bnd_InrE) (auto split: prod.splits if_splits)
  obtain r where r: "ensured db db1 identity created r" and cur: "current = raw_placement r"
    using ensureLocal_Inr [OF assms(1) e normalizeIdentity_clean [OF n]] .
  have at: "prow_at db1 (i_sessionId identity) = Some r" and ok1: "db_ok db1"
    using r by (auto simp: ensured_def)
  have id: "session_id r = i_sessionId identity" using at by (rule prow_at_key)
  have g': "g = transition_generation r + 1" "js_is_safe g"
    using g by (auto simp: cur nextGeneration_Inr)
  have inv: "row_inv (set_requested g nowMs r)" if "row_inv r"
    using that st g' by (intro row_inv_set_requested) (auto simp: cur)
  have "row_updated db1 db' (i_sessionId identity) r (set_requested g nowMs r)
      \<and> journals db' = journals db1 \<and> pendings db' = pendings db1 \<and> db_ok db'"
    using guarded_update [OF ok1 refl ok1 u _ at] inv id res by (auto simp: claim_cols cur)
  then show thesis
    using that [OF n r] st r g' by (auto simp: cur ensured_def)
qed

lemma keep_claim_columns:
  "row_inv r \<Longrightarrow>
   turn_claim_owner (keep_claim (claim_of_row r) v) =
     (if turn_claim_owner r = None then turn_claim_owner v else turn_claim_owner r)
   \<and> (turn_claim_owner r \<noteq> None \<longrightarrow>
       turn_claim_id (keep_claim (claim_of_row r) v) = turn_claim_id r
       \<and> turn_claim_run_id (keep_claim (claim_of_row r) v) = turn_claim_run_id r
       \<and> turn_claim_generation (keep_claim (claim_of_row r) v) = turn_claim_generation r
       \<and> turn_claim_owner_epoch (keep_claim (claim_of_row r) v) = turn_claim_owner_epoch r)"
  using row_inv_facts(2) [of r]
  by (simp, elim claim_okE) (simp_all add: keep_claim_def claim_of_row_none [THEN iffD2])

lemma keep_claim_other:
  "state (keep_claim c v) = state v" "environment_id (keep_claim c v) = environment_id v"
  "active_owner_epoch (keep_claim c v) = active_owner_epoch v"
  "transition_generation (keep_claim c v) = transition_generation v"
  "meta_of_row (keep_claim c v) = meta_of_row v" "recovery_error (keep_claim c v) = recovery_error v"
  "columns_ok (keep_claim c v) = columns_ok v"
  "last_transcript_ack_cursor (keep_claim c v) = last_transcript_ack_cursor v"
  "last_live_event_ack_cursor (keep_claim c v) = last_live_event_ack_cursor v"
  by (auto simp: keep_claim_def meta_of_row_def columns_ok_def split: option.split pclaim.split)

lemma claim_of_row_cong:
  "turn_claim_owner a = turn_claim_owner b \<Longrightarrow> turn_claim_id a = turn_claim_id b \<Longrightarrow>
   turn_claim_run_id a = turn_claim_run_id b \<Longrightarrow> turn_claim_generation a = turn_claim_generation b \<Longrightarrow>
   turn_claim_owner_epoch a = turn_claim_owner_epoch b \<Longrightarrow> claim_of_row a = claim_of_row b"
  by (simp add: claim_of_row_def)

lemma row_inv_keep_claim:
  assumes "row_inv r" "row_inv v" "row_state v \<in> {WActive, WDraining}"
    "row_state r \<in> {WActive, WDraining}" "active_owner_epoch v = active_owner_epoch r"
    "turn_claim_owner v = None" "transition_generation r \<le> transition_generation v"
  shows "row_inv (keep_claim (claim_of_row r) v)"
    and "claim_of_row (keep_claim (claim_of_row r) v) = claim_of_row r"
proof -
  let ?v = "keep_claim (claim_of_row r) v"
  note k = keep_claim_columns [OF assms(1), of v] and o = keep_claim_other [of "claim_of_row r" v]
  show "claim_of_row ?v = claim_of_row r"
  proof (cases "turn_claim_owner r")
    case None
    then show ?thesis
      using assms(6) by (simp add: keep_claim_def claim_of_row_none [THEN iffD2])
  next
    case (Some x)
    then show ?thesis using k by (intro claim_of_row_cong) simp_all
  qed
  show "row_inv ?v"
  proof (cases "turn_claim_owner r")
    case None
    then show ?thesis using assms(2) by (simp add: keep_claim_def claim_of_row_none [THEN iffD2])
  next
    case (Some x)
    have "claim_ok ?v"
      using Some k o(4) assms(7) by (intro claim_ok_cong [OF row_inv_facts(2) [OF assms(1)]]) simp_all
    moreover have "claim_state_ok ?v (row_state v)"
      using row_inv_claim_state [OF assms(1)] k o Some assms(3-5) by (auto simp: claim_state_ok_def)
    ultimately show ?thesis
      using o row_inv_facts(1,3) [OF assms(2)] by (intro row_inv_same_shape [OF assms(2)]) simp_all
  qed
qed

lemma startDrain_effect:
  assumes "db_ok db" "startDrain db s0 e0 n0 g manifest nowMs = Inr (db', p)"
  obtains sid r v where "required s0 FSessionId = Inr sid"
    "row_state r = WActive" "transition_generation r = g" "wrow_at db sid = None"
    "row_updated db db' sid r v" "row_state v = WDraining" "transition_generation v = g + 1"
    "claim_of_row v = claim_of_row r" "environment_id v = environment_id r"
    "active_owner_epoch v = active_owner_epoch r"
    "last_transcript_ack_cursor v = last_transcript_ack_cursor r"
    "last_live_event_ack_cursor v = last_live_event_ack_cursor r"
    "pendings db' = pendings db" "db_ok db'"
    "jrow_at db' = (jrow_at db)(sid := if manifest = None then jrow_at db sid else None)"
proof -
  let ?patch = "case manifest of None \<Rightarrow> empty_patch
      | Some ref \<Rightarrow> empty_patch\<lparr>pp_workspaceBaseManifestRef := Some (Some ref)\<rparr>"
  from assms(2) obtain sid env epoch current v0 db1 db2 where
    n: "required s0 FSessionId = Inr sid"
    and cur: "getRequired db sid = Inr current"
    and g: "p_state current = WActive" "p_generation current = g"
    and pend: "\<not> hasWorkerWorkspacePendingResult db sid"
    and v0: "transitionValues current WDraining ?patch nowMs = Inr v0"
    and u: "update_placement db
         (\<lambda>x. session_id x = sid \<and> state x = ''active''
            \<and> transition_generation x = p_generation current
            \<and> environment_id x = Some env \<and> active_owner_epoch x = Some epoch)
         (\<lambda>_. keep_claim (p_turnClaim current) v0) EChanged = Inr db1"
    and j: "(case manifest of None \<Rightarrow> Inr db1
             | Some ref \<Rightarrow> clearWorkerWorkspaceReconciliation db1 sid (Some ref)) = Inr db2"
    and res: "db2 = db'"
    unfolding startDrain_def Let_def by (elim bnd_InrE) (auto split: if_splits)
  from cur obtain r where r: "prow_at db sid = Some r" "current = raw_placement r"
    by (auto simp: getRequired_Inr [OF assms(1)])
  have inv: "row_inv r" using prow_at_inv [OF assms(1) r(1)] .
  note tv = transitionValues_row [OF inv v0 [unfolded r]]
  have cols: "environment_id v0 = environment_id r" "active_owner_epoch v0 = active_owner_epoch r"
    "last_transcript_ack_cursor v0 = last_transcript_ack_cursor r"
    "last_live_event_ack_cursor v0 = last_live_event_ack_cursor r"
    using transitionValues_columns [OF v0]
    by (auto simp: r empty_patch_def split: option.splits)
  have st: "row_state r = WActive" using g r by simp
  let ?v = "keep_claim (claim_of_row r) v0"
  have kinv: "row_inv ?v" and kclaim: "claim_of_row ?v = claim_of_row r"
    using row_inv_keep_claim [OF inv, of v0] tv cols st by auto
  have id: "session_id ?v = sid" using tv prow_at_key [OF r(1)] by (simp add: claim_cols)
  have upd: "row_updated db db1 sid r ?v \<and> journals db1 = journals db
      \<and> pendings db1 = pendings db \<and> db_ok db1"
    using guarded_update [OF assms(1) refl assms(1) u _ r(1)] kinv id by (auto simp: r)
  have "db_ok db' \<and> placements db' = placements db1 \<and> pendings db' = pendings db1
      \<and> jrow_at db' = (jrow_at db)(sid := if manifest = None then jrow_at db sid else None)"
  proof (cases manifest)
    case None
    then show ?thesis using j res upd by (auto simp: jrow_at_def)
  next
    case (Some ref)
    then show ?thesis
      using clearJournal_Inr [of db1 sid "Some ref" db2] j res upd by (auto simp: jrow_at_def)
  qed
  moreover have "row_state ?v = WDraining"
    using tv by (intro row_state_text) (simp add: keep_claim_other)
  ultimately show thesis
    using that [OF n st, of ?v] g r pend upd kclaim cols tv
    by (auto simp: hasPending_iff row_updated_def keep_claim_other)
qed

lemma moved_row_facts:
  assumes "row_inv r" "row_state r \<in> {WActive, WDraining, WReconciling, WReclaimed}"
    "to \<in> {WActive, WDraining, WReconciling, WReclaimed}"
    "transitionValues (raw_placement r) to empty_patch nowMs = Inr v"
  shows "v = moved_row to nowMs r" "row_inv v" "row_state v = to"
    "transition_generation v = transition_generation r + 1" "claim_of_row v = None"
    "session_id v = session_id r"
proof -
  show "v = moved_row to nowMs r"
    using assms(4) unfolding transitionValues_keep [OF assms(1-3)] by (simp split: if_splits)
  show "row_inv v" "row_state v = to" "transition_generation v = transition_generation r + 1"
    "claim_of_row v = None" "session_id v = session_id r"
    using transitionValues_row [OF assms(1,4)] by simp_all
qed

lemma finishReclaim_effect:
  assumes "db_ok db" "finishReclaim db s0 e0 n0 g nowMs = Inr (db', p)"
  obtains sid r where "required s0 FSessionId = Inr sid"
    "row_state r = WActive" "transition_generation r = g" "claim_of_row r = None"
    "wrow_at db sid = None" "row_updated db db' sid r (moved_row WReclaimed nowMs r)"
    "journals db' = journals db" "pendings db' = pendings db" "db_ok db'"
proof -
  from assms(2) obtain sid current where
    n: "required s0 FSessionId = Inr sid" and cur: "getRequired db sid = Inr current"
    and g: "p_state current = WActive" "p_generation current = g" "p_turnClaim current = None"
      "\<not> hasWorkerWorkspacePendingResult db sid"
    and u: "updateTransition db current WReclaimed empty_patch nowMs = Inr (db', p)"
    unfolding finishReclaim_def by (auto split: if_splits)
  from cur obtain r where r: "prow_at db sid = Some r" "current = raw_placement r"
    by (auto simp: getRequired_Inr [OF assms(1)])
  have inv: "row_inv r" using prow_at_inv [OF assms(1) r(1)] .
  have claim: "claim_of_row r = None" using g r by simp
  obtain v where v: "transitionValues (raw_placement r) WReclaimed empty_patch nowMs = Inr v"
    "row_updated db db' sid r v" "journals db' = journals db" "pendings db' = pendings db" "db_ok db'"
    using updateTransition_effect [OF assms(1) r(1) claim u [unfolded r]] by blast
  have "v = moved_row WReclaimed nowMs r"
    by (rule moved_row_facts(1) [OF inv _ _ v(1)]) (use g r in simp_all)
  then show thesis using that [OF n, of r] g r v claim by (simp add: hasPending_iff)
qed

lemma startReconcile_effect:
  assumes "db_ok db" "startReconcile db s0 e0 n0 g nowMs = Inr (db', p, released)"
  obtains sid r where "required s0 FSessionId = Inr sid"
    "row_state r = WDraining" "transition_generation r = g" "wrow_at db sid = None"
    "row_updated db db' sid r (moved_row WReconciling nowMs r)"
    "journals db' = journals db" "pendings db' = pendings db" "db_ok db'"
    "released \<longleftrightarrow> claim_of_row r \<noteq> None"
proof -
  from assms(2) obtain sid env epoch current v db'' where
    n: "required s0 FSessionId = Inr sid" and cur: "getRequired db sid = Inr current"
    and g: "p_state current = WDraining" "p_generation current = g"
      "\<not> hasWorkerWorkspacePendingResult db sid"
    and v: "transitionValues current WReconciling empty_patch nowMs = Inr v"
    and u: "update_placement db
               (\<lambda>r. session_id r = sid \<and> state r = ''draining''
                  \<and> transition_generation r = p_generation current
                  \<and> environment_id r = Some env \<and> active_owner_epoch r = Some epoch
                  \<and> (case p_turnClaim current of
                       None \<Rightarrow> turn_claim_owner r = None
                     | Some claim \<Rightarrow> turn_claim_owner r = Some ''worker''
                         \<and> turn_claim_id r = Some (pc_claimId claim)
                         \<and> turn_claim_run_id r = Some (pc_runId claim)
                         \<and> turn_claim_generation r = Some (pc_generation claim)
                         \<and> turn_claim_owner_epoch r =
                             (case claim of PLocal _ _ _ \<Rightarrow> None | PWorker _ _ _ e \<Rightarrow> Some e)))
               (\<lambda>_. v) EChanged = Inr db''"
    and res: "db'' = db'" "released \<longleftrightarrow> p_turnClaim current \<noteq> None"
    unfolding startReconcile_def by (elim bnd_InrE) (auto split: if_splits)
  from cur obtain r where r: "prow_at db sid = Some r" "current = raw_placement r"
    by (auto simp: getRequired_Inr [OF assms(1)])
  have inv: "row_inv r" using prow_at_inv [OF assms(1) r(1)] .
  have st: "row_state r = WDraining" using g r by simp
  have mv: "v = moved_row WReconciling nowMs r" "row_inv v" "session_id v = session_id r"
    using moved_row_facts [OF inv _ _ v [unfolded r]] st by auto
  have "row_updated db db' sid r v \<and> journals db' = journals db
      \<and> pendings db' = pendings db \<and> db_ok db'"
    using guarded_update [OF assms(1) refl assms(1) u _ r(1)] mv prow_at_key [OF r(1)] res by auto
  then show thesis using that [OF n st, of] g r mv res by (auto simp: hasPending_iff)
qed

lemma local_claim_case:
  "local_claim c = (case c of Some (PLocal i rid n) \<Rightarrow> Some (PLocal i rid n) | _ \<Rightarrow> None)"
  by (cases c rule: local_claim.cases) auto

lemma local_claim_kept:
  assumes "row_inv r" "row_state r \<notin> {WActive, WDraining}"
  shows "local_claim (claim_of_row r) = claim_of_row r" "\<not> is_worker_claim (claim_of_row r)"
  using row_inv_facts(2) [OF assms(1)] row_claim_states(2) [OF assms(1)] assms(2)
  by (cases rule: claim_okE; simp add: claim_of_row_none [THEN iffD2])+

lemma fail_effect:
  assumes "db_ok db" "fail_placement db s0 e0 g nowMs = Inr (db', p, released)"
  obtains sid r err where "required s0 FSessionId = Inr sid" "required e0 FRecoveryError = Inr err"
    "g = None \<or> g = Some (transition_generation r)"
    "row_updated db db' sid r
       (if row_state r = WFailed then set_recovery_error err nowMs r
        else set_failed (transition_generation r + 1) err (local_claim (claim_of_row r)) nowMs r)"
    "row_state r = WFailed \<or> canTransitionWorkerSessionPlacement (row_state r) WFailed"
    "journals db' = journals db" "pendings db' = pendings db" "db_ok db'" "\<not> released"
    "local_claim (claim_of_row r) = claim_of_row r"
proof -
  from assms(2) obtain sid err current where
    n: "required s0 FSessionId = Inr sid" "required e0 FRecoveryError = Inr err"
    and cur: "getRequired db sid = Inr current"
    and g: "g = None \<or> g = Some (p_generation current)"
    unfolding fail_placement_def by (elim bnd_InrE) (auto split: if_splits)
  from cur obtain r where r: "prow_at db sid = Some r" "current = raw_placement r"
    by (auto simp: getRequired_Inr [OF assms(1)])
  have inv: "row_inv r" using prow_at_inv [OF assms(1) r(1)] .
  have id: "session_id r = sid" using prow_at_key [OF r(1)] .
  note err = required_clean [OF n(2)]
  show thesis
  proof (cases "row_state r = WFailed")
    case True
    from assms(2) True obtain db'' where u: "update_placement db
         (\<lambda>x. session_id x = sid \<and> state x = ''failed''
            \<and> transition_generation x = p_generation current)
         (set_recovery_error err nowMs) EChanged = Inr db''" and res: "db'' = db'" "\<not> released"
      unfolding fail_placement_def using n cur r g by (auto split: if_splits)
    have "row_updated db db' sid r (set_recovery_error err nowMs r) \<and> journals db' = journals db
        \<and> pendings db' = pendings db \<and> db_ok db'"
      using guarded_update [OF assms(1) refl assms(1) u _ r(1)] res id
        row_inv_set_recovery_error [OF inv True err] by (auto simp: claim_cols)
    moreover have "local_claim (claim_of_row r) = claim_of_row r"
      using local_claim_kept [OF inv] True by simp
    ultimately show thesis using that [OF n, of r] g r True res by auto
  next
    case False
    from assms(2) False obtain db'' gen where gen: "nextGeneration (p_generation current) = Inr gen"
      and can: "canTransitionWorkerSessionPlacement (row_state r) WFailed"
      and u: "update_placement db
         (\<lambda>x. session_id x = sid \<and> state x = ws_text (p_state current)
            \<and> transition_generation x = p_generation current)
         (set_failed gen err (local_claim (p_turnClaim current)) nowMs) EChanged = Inr db''"
      and res: "db'' = db'" "released \<longleftrightarrow> is_worker_claim (p_turnClaim current)"
      unfolding fail_placement_def using n cur r g by (auto split: if_splits)
    have loc: "local_claim (claim_of_row r) = claim_of_row r" "\<not> is_worker_claim (claim_of_row r)"
      using local_claim_kept [OF inv] can by (auto simp: canTransition_iff)
    have finv: "row_inv (set_failed gen err (local_claim (claim_of_row r)) nowMs r)"
      using gen by (intro row_inv_set_failed [OF inv err _ _ local_claim_case])
        (auto simp: r nextGeneration_Inr)
    have "row_updated db db' sid r (set_failed gen err (local_claim (claim_of_row r)) nowMs r)
        \<and> journals db' = journals db \<and> pendings db' = pendings db \<and> db_ok db'"
      using guarded_update [OF assms(1) refl assms(1) u _ r(1)] res id finv
      by (auto simp: claim_cols r)
    then show thesis
      using that [OF n, of r] g r False res can loc gen by (auto simp: nextGeneration_Inr)
  qed
qed

end
