(* ===== verification/Placement_Protocol.thy ===== *)
theory Placement_Protocol
  imports Placement_Moves
begin

section \<open>The placement protocol\<close>

text \<open>
  The abstract specification of a placement: what a session's placement may do, seen through its
  state, its generation, its claim, its owner and its acknowledgement cursors. The theorem of this
  theory's client is that every operation of the store is, for every session, at most one step of
  this protocol (and possibly the creation of the local placement before it).
\<close>

declare claim_of_row_none [simp del]

record pview =
  v_state :: wstate
  v_gen :: int
  v_claim :: "pclaim option"
  v_env :: "string option"
  v_epoch :: "int option"
  v_tc :: "int option"
  v_lc :: "int option"

definition view :: "prow \<Rightarrow> pview" where
  "view r = \<lparr>v_state = row_state r, v_gen = transition_generation r, v_claim = claim_of_row r,
     v_env = environment_id r, v_epoch = active_owner_epoch r,
     v_tc = last_transcript_ack_cursor r, v_lc = last_live_event_ack_cursor r\<rparr>"

definition view_at :: "pdb \<Rightarrow> string \<Rightarrow> pview option" where
  "view_at db k = map_option view (prow_at db k)"

definition fresh_view :: pview where
  "fresh_view = \<lparr>v_state = WLocal, v_gen = 0, v_claim = None, v_env = None, v_epoch = None,
     v_tc = None, v_lc = None\<rparr>"

text \<open>An acknowledged cursor is never lost and never goes back.\<close>

fun cursor_le :: "int option \<Rightarrow> int option \<Rightarrow> bool" where
  "cursor_le None y = True"
| "cursor_le (Some a) (Some b) \<longleftrightarrow> a \<le> b"
| "cursor_le (Some a) None = False"

text \<open>The transition table, and the two shortcuts by which a reclaim leaves an active worker.\<close>

definition state_step :: "wstate \<Rightarrow> wstate \<Rightarrow> bool" where
  "state_step a b \<longleftrightarrow> canTransitionWorkerSessionPlacement a b
     \<or> (a = WActive \<or> a = WDraining) \<and> b = WReclaimed"

inductive protocol :: "pview \<Rightarrow> pview \<Rightarrow> bool" where
  claim_local: "\<lbrakk>v_claim v = None; v_state v = WLocal\<rbrakk> \<Longrightarrow>
    protocol v (v\<lparr>v_claim := Some (PLocal c rid (v_gen v))\<rparr>)"
| claim_worker: "\<lbrakk>v_claim v = None; v_state v = WActive; v_epoch v = Some e\<rbrakk> \<Longrightarrow>
    protocol v (v\<lparr>v_claim := Some (PWorker c rid (v_gen v) e)\<rparr>)"
| release: "v_claim v \<noteq> None \<Longrightarrow> protocol v (v\<lparr>v_claim := None\<rparr>)"
| ack: "\<lbrakk>v_claim v = Some (PWorker c rid g e); cursor_le (v_tc v) t; cursor_le (v_lc v) l\<rbrakk> \<Longrightarrow>
    protocol v (v\<lparr>v_tc := t, v_lc := l\<rparr>)"
| move: "\<lbrakk>state_step (v_state v) (v_state v'); v_gen v' = v_gen v + 1;
     v_claim v' = v_claim v \<or> v_claim v' = None \<and> v_state v' \<in> {WReconciling, WReclaimed}\<rbrakk> \<Longrightarrow>
    protocol v v'"

inductive session_step :: "pview option \<Rightarrow> pview option \<Rightarrow> bool" where
  same: "session_step v v"
| act: "protocol v v' \<Longrightarrow> session_step (Some v) (Some v')"
| create: "session_step None (Some fresh_view)"
| create_act: "protocol fresh_view v' \<Longrightarrow> session_step None (Some v')"

inductive_cases protocol_cases: "protocol v v'"
inductive_cases session_step_SomeE: "session_step (Some v) w"

lemma protocol_gen:
  "protocol v v' \<Longrightarrow> v_gen v \<le> v_gen v' \<and> (v_state v' \<noteq> v_state v \<longrightarrow> v_gen v < v_gen v')"
  by (auto elim!: protocol_cases)

lemma protocol_state:
  "protocol v v' \<Longrightarrow> v_gen v' = v_gen v \<and> v_state v' = v_state v
     \<or> v_gen v' = v_gen v + 1 \<and> state_step (v_state v) (v_state v')"
  by (auto elim!: protocol_cases)

text \<open>A claim is never replaced by another one: it is kept or given up.\<close>

lemma protocol_claim: "protocol v v' \<Longrightarrow> v_claim v = Some c \<Longrightarrow> v_claim v' \<in> {Some c, None}"
  by (auto elim!: protocol_cases)

subsection \<open>Database changes\<close>

text \<open>The fence: a pending result belongs to the worker claim its session holds.\<close>

definition fence_ok :: "pdb \<Rightarrow> string \<Rightarrow> bool" where
  "fence_ok db k \<longleftrightarrow> (case wrow_at db k of
       None \<Rightarrow> True
     | Some w \<Rightarrow> (\<exists>r. prow_at db k = Some r \<and> row_state r \<in> {WActive, WDraining}
          \<and> environment_id r = Some (w_environment_id w)
          \<and> active_owner_epoch r = Some (w_owner_epoch w)
          \<and> claim_of_row r = Some (PWorker (w_claim_id w) (w_run_id w)
               (w_placement_generation w) (w_owner_epoch w))))"

definition db_inv :: "pdb \<Rightarrow> bool" where
  "db_inv db \<longleftrightarrow> db_ok db \<and> (\<forall>k. fence_ok db k)"

definition claimed :: "pdb \<Rightarrow> string \<Rightarrow> bool" where
  "claimed db k \<longleftrightarrow> (\<exists>r. prow_at db k = Some r \<and> claim_of_row r \<noteq> None)"

text \<open>What one transaction may do; \<open>S\<close> is the set of sessions whose release is signalled.\<close>

definition db_change :: "string set \<Rightarrow> pdb \<Rightarrow> pdb \<Rightarrow> bool" where
  "db_change S db db' \<longleftrightarrow> db_inv db' \<and> (\<forall>k. session_step (view_at db k) (view_at db' k))
     \<and> (\<forall>k. claimed db k \<and> \<not> claimed db' k \<longrightarrow> k \<in> S)"

lemma db_invD: "db_inv db \<Longrightarrow> db_ok db" "db_inv db \<Longrightarrow> fence_ok db k"
  by (auto simp: db_inv_def)

lemma fence_row:
  assumes "fence_ok db k" "wrow_at db k = Some w" "prow_at db k = Some r"
  shows "row_state r \<in> {WActive, WDraining}" "environment_id r = Some (w_environment_id w)"
    "active_owner_epoch r = Some (w_owner_epoch w)"
    "claim_of_row r = Some (PWorker (w_claim_id w) (w_run_id w) (w_placement_generation w)
       (w_owner_epoch w))"
  using assms by (auto simp: fence_ok_def)

lemma fence_ok_cong:
  "prow_at db' k = prow_at db k \<Longrightarrow> wrow_at db' k = wrow_at db k \<Longrightarrow> fence_ok db' k = fence_ok db k"
  by (simp only: fence_ok_def)

lemma fence_ok_None: "wrow_at db k = None \<Longrightarrow> fence_ok db k"
  by (simp add: fence_ok_def)

lemma unclaimed_no_pending:
  "db_inv db \<Longrightarrow> prow_at db k = Some r \<Longrightarrow> claim_of_row r = None \<Longrightarrow> wrow_at db k = None"
  using fence_row(4) [of db k] db_invD(2) [of db k] by (cases "wrow_at db k") auto

lemma no_row_no_pending: "db_inv db \<Longrightarrow> prow_at db k = None \<Longrightarrow> wrow_at db k = None"
  using db_invD(2) [of db k] by (auto simp: fence_ok_def split: option.splits)

text \<open>A row whose claim, state and owner stay keeps its fence.\<close>

definition same_owner :: "prow \<Rightarrow> prow \<Rightarrow> bool" where
  "same_owner r r' \<longleftrightarrow> row_state r' \<in> {WActive, WDraining} \<and> environment_id r' = environment_id r
     \<and> active_owner_epoch r' = active_owner_epoch r \<and> claim_of_row r' = claim_of_row r"

lemma db_change_row:
  assumes inv: "db_inv db" and upd: "row_updated db db' k r r'" and ok: "db_ok db'"
    and w: "wrow_at db' = wrow_at db" and keep: "wrow_at db k = None \<or> same_owner r r'"
    and step: "view r' = view r \<or> protocol (view r) (view r')"
    and rel: "claim_of_row r' = None \<longrightarrow> claim_of_row r = None \<or> k \<in> S"
  shows "db_change S db db'"
proof -
  note u = row_updatedD [OF upd]
  have "fence_ok db' j" for j
  proof (cases "j = k")
    case True
    then show ?thesis
      using db_invD(2) [OF inv, of k] keep u(1,2) w
      by (auto simp: fence_ok_def same_owner_def split: option.splits)
  next
    case False
    then show ?thesis
      using db_invD(2) [OF inv, of j] u(2) w fence_ok_cong [of db' j db] by simp
  qed
  moreover have "session_step (view_at db j) (view_at db' j)" for j
    using step u(1,2) by (auto simp: view_at_def intro: session_step.intros)
  moreover have "claimed db j \<and> \<not> claimed db' j \<longrightarrow> j \<in> S" for j
    using rel u(1,2) by (auto simp: claimed_def split: if_splits)
  ultimately show ?thesis using ok by (simp add: db_change_def db_inv_def)
qed

text \<open>The same when the row may have been inserted first.\<close>

lemma view_local_row [simp]: "view (local_row i n) = fresh_view"
  by (simp add: view_def fresh_view_def) (simp add: local_row_def)

lemma ensured_rows:
  assumes "ensured db db1 identity n r"
  shows "prow_at db1 = (prow_at db)(i_sessionId identity \<mapsto> r)" "wrow_at db1 = wrow_at db"
    "jrow_at db1 = jrow_at db" "db_ok db1"
proof -
  show "wrow_at db1 = wrow_at db" "jrow_at db1 = jrow_at db" "db_ok db1"
    using assms by (simp_all add: ensured_def wrow_at_def jrow_at_def)
  show "prow_at db1 = (prow_at db)(i_sessionId identity \<mapsto> r)"
    using assms prow_at_append [of db1 db r] by (auto simp: ensured_def fun_upd_idem)
qed

lemma ensured_inv: "\<lbrakk>db_inv db; ensured db db1 identity n r\<rbrakk> \<Longrightarrow> db_inv db1"
proof -
  assume inv: "db_inv db" and e: "ensured db db1 identity n r"
  note rows = ensured_rows [OF e]
  have "fence_ok db1 k" for k
  proof (cases "prow_at db1 k = prow_at db k")
    case True
    then show ?thesis using fence_ok_cong [OF True] rows(2) db_invD(2) [OF inv] by simp
  next
    case False
    then have "prow_at db k = None" using e rows(1) by (auto simp: ensured_def split: if_splits)
    then show ?thesis using no_row_no_pending [OF inv] rows(2) by (simp add: fence_ok_None)
  qed
  then show ?thesis using rows(4) by (simp add: db_inv_def)
qed

lemma db_change_ensured:
  assumes "db_inv db" "ensured db db1 identity n r" "db_change S db1 db'"
    and act: "view_at db' (i_sessionId identity) = Some v'"
      "v' = view r \<or> protocol (view r) v'" "\<And>k. k \<noteq> i_sessionId identity \<Longrightarrow> view_at db' k = view_at db k"
  shows "db_change S db db'"
proof -
  note e = ensured_rows [OF assms(2)]
  have "session_step (view_at db k) (view_at db' k)" for k
  proof (cases "k = i_sessionId identity")
    case True
    from assms(2) consider "prow_at db k = Some r" | "prow_at db k = None" "view r = fresh_view"
      using True by (auto simp: ensured_def)
    then show ?thesis
      using act(1,2) True by cases (auto simp: view_at_def intro: session_step.intros)
  next
    case False
    then show ?thesis using act(3) by (auto intro: session_step.intros)
  qed
  moreover have "claimed db k \<Longrightarrow> claimed db1 k" for k
    using e(1) assms(2) by (auto simp: claimed_def ensured_def)
  ultimately show ?thesis using assms(3) by (auto simp: db_change_def)
qed

text \<open>A change that leaves the placements alone.\<close>

lemma db_change_same_rows:
  assumes "db_inv db" "placements db' = placements db" "db_ok db'"
    and "\<And>k. fence_ok db' k"
  shows "db_change S db db'"
  using assms by (auto simp: db_change_def db_inv_def view_at_def claimed_def prow_at_def
      intro: session_step.same)

lemma fences_shrink:
  assumes "db_inv db" "placements db' = placements db"
    "\<And>k. wrow_at db' k = None \<or> wrow_at db' k = wrow_at db k"
  shows "fence_ok db' k"
  using db_invD(2) [OF assms(1), of k] assms(2) assms(3) [of k]
  by (auto simp: fence_ok_def prow_at_def split: option.splits)

end
