(* ===== verification/Placement_Refinement.thy ===== *)
theory Placement_Refinement
  imports Placement_Protocol
begin

section \<open>Every operation follows the protocol\<close>

text \<open>
  For each operation of the store: from a database that satisfies the invariant, the database it
  commits satisfies it again, every session made at most one protocol step, and a session that
  lost its claim is among those whose release is signalled.
\<close>

lemma view_claims:
  "view (clear_claim n r) = (view r)\<lparr>v_claim := None\<rparr>"
  "view (set_claim LocalOwner c rid g n r) = (view r)\<lparr>v_claim := Some (PLocal c rid g)\<rparr>"
  "view (set_claim (WorkerOwner e m) c rid g n r) = (view r)\<lparr>v_claim := Some (PWorker c rid g m)\<rparr>"
  "view (set_cursors t l n r) = (view r)\<lparr>v_tc := t, v_lc := l\<rparr>"
  "view (set_manifest ref n r) = view r"
  "view (set_recovery_error err n r) = view r"
  by (simp_all add: view_def row_state_def claim_of_row_def clear_claim_def set_claim_def
      set_cursors_def set_manifest_def set_recovery_error_def)

lemma view_sel [simp]:
  "v_state (view r) = row_state r" "v_gen (view r) = transition_generation r"
  "v_claim (view r) = claim_of_row r" "v_env (view r) = environment_id r"
  "v_epoch (view r) = active_owner_epoch r" "v_tc (view r) = last_transcript_ack_cursor r"
  "v_lc (view r) = last_live_event_ack_cursor r"
  by (simp_all add: view_def)

lemma view_at_updated:
  "row_updated db db' k r r' \<Longrightarrow> view_at db' k = Some (view r')"
  "row_updated db db' k r r' \<Longrightarrow> j \<noteq> k \<Longrightarrow> view_at db' j = view_at db j"
  by (auto simp: view_at_def dest: row_updatedD(2))

lemma wrow_at_pendings: "pendings db' = pendings db \<Longrightarrow> wrow_at db' = wrow_at db"
  by (simp add: wrow_at_def)

subsection \<open>Claims\<close>

lemma claimTurn_change:
  assumes inv: "db_inv db" and op: "claimTurnInDatabase db input nowMs = Inr (db', cl)"
  shows "db_change S db db'"
  using db_invD(1) [OF inv] op
proof (rule claimTurn_effect)
  fix identity db1 r own c rid
  assume e: "ensured db db1 identity nowMs r" and free: "turn_claim_owner r = None"
    and adm: "turn_admitted own (raw_placement r)"
    and upd: "row_updated db1 db' (i_sessionId identity) r
       (set_claim own c rid (transition_generation r) nowMs r)"
    and p: "pendings db' = pendings db" and ok: "db_ok db'"
  let ?r' = "set_claim own c rid (transition_generation r) nowMs r"
  have inv1: "db_inv db1" using ensured_inv [OF inv e] .
  have w1: "wrow_at db' = wrow_at db1"
    using wrow_at_pendings [OF p] ensured_rows(2) [OF e] by simp
  have none: "claim_of_row r = None" using free by (simp add: claim_of_row_none)
  have "wrow_at db1 (i_sessionId identity) = None"
    using unclaimed_no_pending [OF inv1 row_updatedD(1) [OF upd] none] .
  moreover have step: "protocol (view r) (view ?r')"
  proof (cases own)
    case LocalOwner
    then show ?thesis
      using adm none protocol.claim_local [of "view r" c rid] by (simp add: view_claims)
  next
    case (WorkerOwner env n)
    then show ?thesis
      using adm none protocol.claim_worker [of "view r" n c rid] by (simp add: view_claims)
  qed
  moreover have "claim_of_row ?r' \<noteq> None" by (simp add: set_claim_def claim_of_row_none)
  ultimately have chg: "db_change S db1 db'"
    by (intro db_change_row [OF inv1 upd ok w1]) auto
  show ?thesis
  proof (rule db_change_ensured [OF inv e chg])
    show "view_at db' (i_sessionId identity) = Some (view ?r')" using view_at_updated(1) [OF upd] .
    show "view ?r' = view r \<or> protocol (view r) (view ?r')" using step ..
    show "view_at db' k = view_at db k" if "k \<noteq> i_sessionId identity" for k
      using view_at_updated(2) [OF upd that] that ensured_rows(1) [OF e] by (simp add: view_at_def)
  qed
qed

lemma insertPending_change:
  assumes inv: "db_inv db" and op: "insertWorkerWorkspacePendingResult db claim nowMs gw = Inr db'"
  shows "db_change S db db'" "placements db' = placements db"
  using insertPending_Inr [OF db_invD(1) [OF inv] op]
proof -
  from insertPending_Inr [OF db_invD(1) [OF inv] op]
  obtain env epoch r w where own: "tc_owner claim = WorkerOwner env epoch"
    and r: "prow_at db (tc_sessionId claim) = Some r"
    "worker_claim_held (raw_placement r) env epoch (tc_claimId claim) (tc_runId claim)
       (tc_placementGeneration claim)"
    and pl: "placements db' = placements db" and ok: "db_ok db'"
    and w: "wrow_at db' = (wrow_at db)(tc_sessionId claim \<mapsto> w)" "pending_of_claim w claim" .
  show "placements db' = placements db" by (rule pl)
  have rows: "prow_at db' = prow_at db" using pl by (simp add: prow_at_def)
  have "fence_ok db' k" for k
  proof (cases "k = tc_sessionId claim")
    case True
    then show ?thesis
      using r w own rows by (auto simp: fence_ok_def held_raw pending_of_claim_def)
  next
    case False
    then show ?thesis
      using fence_ok_cong [of db' k db] rows w(1) db_invD(2) [OF inv] by simp
  qed
  then show "db_change S db db'" using db_change_same_rows [OF inv pl ok] by blast
qed

text \<open>A change of the placements followed by one that keeps them is one change.\<close>

lemma db_change_then_same:
  assumes "db_change S db db1" "db_change S db1 db2" "placements db2 = placements db1"
  shows "db_change S db db2"
proof -
  have "prow_at db2 = prow_at db1" using assms(3) by (simp add: prow_at_def)
  with assms show ?thesis by (simp add: db_change_def view_at_def claimed_def)
qed

lemma claimReclaim_change:
  assumes inv: "db_inv db" and op: "claimReclaimWorkspaceResult gw db input nowMs = Inr (db', cl)"
  shows "db_change S db db'"
proof -
  from op obtain db1 where 1: "claimTurnInDatabase db input nowMs = Inr (db1, cl)"
    and 2: "insertWorkerWorkspacePendingResult db1 cl nowMs gw = Inr db'"
    unfolding claimReclaimWorkspaceResult_def by (auto split: if_splits prod.splits)
  note c1 = claimTurn_change [OF inv 1]
  have inv1: "db_inv db1" using c1 by (simp add: db_change_def)
  show ?thesis
    using db_change_then_same [OF c1 insertPending_change(1) [OF inv1 2]]
      insertPending_change(2) [OF inv1 2] by simp
qed

lemma release_step: "claim_of_row r \<noteq> None \<Longrightarrow> protocol (view r) (view (clear_claim n r))"
  using protocol.release [of "view r"] by (simp add: view_claims)

lemma releaseTurn_change:
  assumes inv: "db_inv db" and op: "releaseTurn db claim nowMs = Inr (db', p)"
    and sid: "required (tc_sessionId claim) FSessionId = Inr k"
  shows "db_change {k} db db'"
  using db_invD(1) [OF inv] op
proof (rule releaseTurn_effect)
  fix sid' c rid r
  assume "required (tc_sessionId claim) FSessionId = Inr sid'" and w: "wrow_at db sid' = None"
    and m: "claim_matches (raw_placement r) (tc_owner claim) c rid (tc_placementGeneration claim)"
    and upd: "row_updated db db' sid' r (clear_claim nowMs r)"
    and p: "pendings db' = pendings db" and ok: "db_ok db'"
  then have k: "sid' = k" using sid by simp
  have "claim_of_row r \<noteq> None"
    using claim_matches_raw [OF m row_updatedD(3) [OF upd]] unfolding claim_of_row_none by blast
  then show ?thesis
    using db_change_row [OF inv upd ok wrow_at_pendings [OF p]] w release_step k by simp
qed

text \<open>Clearing the fence and the claim together.\<close>

lemma db_change_drop_fence:
  assumes inv: "db_inv db" and upd: "row_updated db db' k r r'" and ok: "db_ok db'"
    and w: "wrow_at db' = (wrow_at db)(k := None)" and step: "protocol (view r) (view r')"
  shows "db_change {k} db db'"
proof -
  note u = row_updatedD [OF upd]
  have "fence_ok db' j" for j
  proof (cases "j = k")
    case True
    then show ?thesis using w by (simp add: fence_ok_None)
  next
    case False
    then show ?thesis
      using db_invD(2) [OF inv, of j] u(2) w fence_ok_cong [of db' j db] by simp
  qed
  moreover have "session_step (view_at db j) (view_at db' j)" for j
    using step u(1,2) by (auto simp: view_at_def intro: session_step.intros)
  moreover have "claimed db j \<and> \<not> claimed db' j \<longrightarrow> j = k" for j
    using u(1,2) by (auto simp: claimed_def split: if_splits)
  ultimately show ?thesis using ok by (simp add: db_change_def db_inv_def)
qed

lemma reclaim_step:
  assumes "row_inv r" "row_inv (moved_row to n r)" "row_state r \<in> {WActive, WDraining}"
    "to = WReclaimed \<or> row_state r = WDraining \<and> to = WReconciling"
  shows "protocol (view r) (view (moved_row to n r))"
proof (rule protocol.move)
  have st: "row_state (moved_row to n r) = to" by (intro row_state_text) (simp add: moved_row_def)
  show "state_step (v_state (view r)) (v_state (view (moved_row to n r)))"
    using assms(3,4) by (auto simp: st state_step_def canTransition_iff)
  show "v_claim (view (moved_row to n r)) = v_claim (view r) \<or>
      v_claim (view (moved_row to n r)) = None \<and> v_state (view (moved_row to n r)) \<in> {WReconciling, WReclaimed}"
    using assms(4) st by (auto simp: moved_row_def claim_of_row_none)
qed (simp add: moved_row_def)

lemma completeResult_change:
  assumes inv: "db_inv db"
    and op: "completeWorkspaceResultAndReleaseTurn db claim reclaim nowMs = Inr (db', p)"
    and sid: "required (tc_sessionId claim) FSessionId = Inr k"
  shows "db_change {k} db db'"
  using db_invD(1) [OF inv] op
proof (rule completeResult_effect)
  fix sid' c rid env epoch r w
  assume "required (tc_sessionId claim) FSessionId = Inr sid'"
    and held: "worker_claim_held (raw_placement r) env epoch c rid (tc_placementGeneration claim)"
    and upd: "row_updated db db' sid' r
      (if reclaim then moved_row WReclaimed nowMs r else clear_claim nowMs r)"
    and p: "wrow_at db' = (wrow_at db)(sid' := None)" and ok: "db_ok db'"
  then have k: "sid' = k" using sid by simp
  have "protocol (view r) (view (if reclaim then moved_row WReclaimed nowMs r else clear_claim nowMs r))"
    using reclaim_step [of r WReclaimed nowMs] row_updatedD(3,4) [OF upd] held release_step [of r nowMs]
    by (cases reclaim) (auto simp: held_raw)
  then show ?thesis using db_change_drop_fence [OF inv upd ok p] k by simp
qed

lemma cancelResult_change:
  assumes inv: "db_inv db"
    and op: "cancelWorkspaceResultAndReleaseTurn db claim nowMs = Inr (db', p)"
    and sid: "required (tc_sessionId claim) FSessionId = Inr k"
  shows "db_change {k} db db'"
  using db_invD(1) [OF inv] op
proof (rule cancelResult_effect)
  fix sid' c env epoch r w
  assume "required (tc_sessionId claim) FSessionId = Inr sid'"
    and held: "worker_claim_held (raw_placement r) env epoch c c (tc_placementGeneration claim)"
    and upd: "row_updated db db' sid' r (clear_claim nowMs r)"
    and p: "wrow_at db' = (wrow_at db)(sid' := None)" and ok: "db_ok db'"
  then have k: "sid' = k" using sid by simp
  show ?thesis
    using db_change_drop_fence [OF inv upd ok p] release_step [of r nowMs] held k
    by (auto simp: held_raw)
qed

lemma clearLocal_change:
  assumes inv: "db_inv db" and op: "clearLocalTurnClaimsAfterRestart db nowMs = Inr (db', ids)"
  shows "db_change (set ids) db db'"
proof -
  note e = prow_at_clear_local [OF db_invD(1) [OF inv] op]
  have w: "wrow_at db' = wrow_at db" using e(3) by (rule wrow_at_pendings)
  have "fence_ok db' k" for k
  proof (cases "wrow_at db k")
    case None
    then show ?thesis using w by (simp add: fence_ok_None)
  next
    case (Some x)
    then obtain r where r: "prow_at db k = Some r"
      using db_invD(2) [OF inv, of k] by (auto simp: fence_ok_def)
    have "claim_of_row r = Some (PWorker (w_claim_id x) (w_run_id x) (w_placement_generation x)
        (w_owner_epoch x))"
      using fence_row(4) [OF db_invD(2) [OF inv] Some r] .
    then have "\<not> local_claim_row r" by (auto simp: local_claim_row_def claim_of_row_def split: if_splits)
    then have "prow_at db' k = prow_at db k" using e(1) [of k] r by simp
    then show ?thesis using fence_ok_cong [of db' k db] w db_invD(2) [OF inv] by simp
  qed
  moreover have "session_step (view_at db k) (view_at db' k)" for k
    using e(1) [of k] release_step
    by (cases "prow_at db k")
      (auto simp: view_at_def local_claim_row_def claim_of_row_none intro: session_step.intros)
  moreover have "claimed db k \<and> \<not> claimed db' k \<longrightarrow> k \<in> set ids" for k
    using e(1) [of k] e(5) [of k]
    by (cases "prow_at db k") (auto simp: claimed_def split: if_splits)
  ultimately show ?thesis using e(4) by (simp add: db_change_def db_inv_def)
qed

lemma advanceCursor_le: "advanceCursor c v f = Inr n \<Longrightarrow> cursor_le c n"
  by (cases v; cases c) (auto split: if_splits)

lemma updateAck_change:
  assumes inv: "db_inv db"
    and op: "updateAckCursors gw db claim transcript liveEvent pending nowMs pNowMs = Inr (db', p)"
  shows "db_change S db db'"
  using db_invD(1) [OF inv] op
proof (rule updateAck_effect)
  fix sid c rid env epoch r t l
  assume held: "worker_claim_held (raw_placement r) env epoch c rid (tc_placementGeneration claim)"
    and adv: "advanceCursor (last_transcript_ack_cursor r) transcript FTranscriptCursor = Inr t"
      "advanceCursor (last_live_event_ack_cursor r) liveEvent FLiveCursor = Inr l"
    and upd: "row_updated db db' sid r (set_cursors t l nowMs r)" and ok: "db_ok db'"
    and w: "if pending then tc_sessionId claim = sid \<and> tc_owner claim = WorkerOwner env epoch
       \<and> tc_claimId claim = c \<and> tc_runId claim = rid
       \<and> (\<exists>w. pending_of_claim w claim \<and> wrow_at db' = (wrow_at db)(sid \<mapsto> w)
            \<and> (wrow_at db sid = Some w \<or> wrow_at db sid = None))
     else wrow_at db' = wrow_at db"
  let ?r' = "set_cursors t l nowMs r"
  note u = row_updatedD [OF upd]
  have h: "row_state r \<in> {WActive, WDraining}" "environment_id r = Some env"
    "active_owner_epoch r = Some epoch"
    "claim_of_row r = Some (PWorker c rid (tc_placementGeneration claim) epoch)"
    using held by (simp_all add: held_raw)
  have vw: "view ?r' = (view r)\<lparr>v_tc := t, v_lc := l\<rparr>" by (simp add: view_claims)
  have same: "same_owner r ?r'"
    using h vw by (simp add: same_owner_def view_def)
  have step: "protocol (view r) (view ?r')"
    unfolding vw using h(4) advanceCursor_le [OF adv(1)] advanceCursor_le [OF adv(2)]
    by (intro protocol.ack) simp_all
  have "fence_ok db' j" for j
  proof (cases "j = sid")
    case False
    then have "prow_at db' j = prow_at db j" "wrow_at db' j = wrow_at db j"
      using u(2) w by (auto split: if_splits)
    then show ?thesis using fence_ok_cong db_invD(2) [OF inv] by blast
  next
    case True
    have r': "prow_at db' sid = Some ?r'" using u(2) by simp
    show ?thesis
    proof (cases pending)
      case True
      then obtain x where "pending_of_claim x claim" "wrow_at db' sid = Some x"
        "tc_owner claim = WorkerOwner env epoch" "tc_claimId claim = c" "tc_runId claim = rid"
        using w by auto
      then show ?thesis
        using r' same h \<open>j = sid\<close> by (auto simp: fence_ok_def same_owner_def pending_of_claim_def)
    next
      case False
      then show ?thesis
        using w r' same u(1) db_invD(2) [OF inv, of sid] \<open>j = sid\<close>
        by (auto simp: fence_ok_def same_owner_def split: option.splits)
    qed
  qed
  moreover have "session_step (view_at db j) (view_at db' j)" for j
    using step u(1,2) by (auto simp: view_at_def intro: session_step.intros)
  moreover have "claimed db j \<Longrightarrow> claimed db' j" for j
    using u(1,2) same by (auto simp: claimed_def same_owner_def)
  ultimately show ?thesis using ok by (auto simp: db_change_def db_inv_def)
qed

lemma manifest_change:
  assumes inv: "db_inv db" and upd: "row_updated db db' k r (set_manifest ref n r)"
    and p: "pendings db' = pendings db" and ok: "db_ok db'"
    and st: "row_state r \<in> {WActive, WDraining} \<or> wrow_at db k = None"
  shows "db_change S db db'"
proof (rule db_change_row [OF inv upd ok wrow_at_pendings [OF p]])
  have "claim_of_row (set_manifest ref n r) = claim_of_row r" "row_state (set_manifest ref n r) = row_state r"
    "environment_id (set_manifest ref n r) = environment_id r"
    "active_owner_epoch (set_manifest ref n r) = active_owner_epoch r"
    by (simp_all add: set_manifest_def claim_of_row_def row_state_def)
  then show "wrow_at db k = None \<or> same_owner r (set_manifest ref n r)"
    "claim_of_row (set_manifest ref n r) = None \<longrightarrow> claim_of_row r = None \<or> k \<in> S"
    using st by (auto simp: same_owner_def)
qed (simp add: view_claims)

subsection \<open>Results and journals\<close>

lemma updateManifest_change:
  assumes inv: "db_inv db" and op: "updateWorkspaceBaseManifest db claim manifest nowMs = Inr (db', p)"
  shows "db_change S db db'"
  using db_invD(1) [OF inv] op
  by (rule updateManifest_effect)
    (rule manifest_change [OF inv], assumption+, simp add: held_raw)

lemma acceptIdle_change:
  assumes inv: "db_inv db"
    and op: "acceptIdleWorkspaceReconciliation db s0 e0 n0 g manifest nowMs = Inr (db', p)"
  shows "db_change S db db'"
  using db_invD(1) [OF inv] op
  by (rule acceptIdle_effect) (rule manifest_change [OF inv], assumption+, simp)

text \<open>An update or a deletion of pending rows that keeps the key and the claim of what it keeps.\<close>

lemma update_pending_Inr:
  assumes "db_ok db" "update_pending db w f err = Inr db'" "\<And>r. w_session_id (f r) = w_session_id r"
  shows "db_ok db'" "placements db' = placements db" "journals db' = journals db"
    "wrow_at db' k = map_option (\<lambda>r. if w r then f r else r) (wrow_at db k)"
proof -
  from assms(2) obtain t where t: "sql_update pending_check w f (pendings db) = Inr (t, 1)"
    "db' = db\<lparr>pendings := t\<rparr>"
    by (auto simp: update_pending_def split: prod.splits if_splits)
  have ok: "table_ok w_session_id pending_check (pendings db)" using assms(1) by (simp add: db_ok_def)
  show "db_ok db'"
    using wt.upd_inv [OF ok t(1)] assms(1,3) by (simp add: db_ok_def t(2))
  show "placements db' = placements db" "journals db' = journals db" by (simp_all add: t(2))
  show "wrow_at db' k = map_option (\<lambda>r. if w r then f r else r) (wrow_at db k)"
    using wt.upd_look [OF ok t(1), of k] assms(3) by (simp add: wrow_at_def t(2))
qed

lemma pending_update_change:
  assumes inv: "db_inv db" and op: "update_pending db w f err = Inr db'"
    and f: "\<And>r. w_session_id (f r) = w_session_id r \<and> w_environment_id (f r) = w_environment_id r
      \<and> w_owner_epoch (f r) = w_owner_epoch r \<and> w_claim_id (f r) = w_claim_id r
      \<and> w_run_id (f r) = w_run_id r \<and> w_placement_generation (f r) = w_placement_generation r"
  shows "db_change S db db'" "placements db' = placements db"
proof -
  note u = update_pending_Inr [OF db_invD(1) [OF inv] op]
  show pl: "placements db' = placements db" using u(2) f by blast
  have "fence_ok db' k" for k
    using db_invD(2) [OF inv, of k] u(4) [of k] f pl
    by (cases "wrow_at db k") (auto simp: fence_ok_def prow_at_def)
  then show "db_change S db db'" using db_change_same_rows [OF inv pl] u(1) f by blast
qed

lemma stage_change:
  assumes inv: "db_inv db" and op: "recordStagedWorkspaceResult db claim ref = Inr db'"
  shows "db_change S db db'"
proof -
  from op obtain w err where "update_pending db w (\<lambda>r. r\<lparr>w_staged_result_ref := Some ref\<rparr>) err = Inr db'"
    unfolding recordStagedWorkspaceResult_def by (auto split: if_splits)
  then show ?thesis by (rule pending_update_change(1) [OF inv]) simp
qed

lemma handoff_change:
  assumes inv: "db_inv db" and op: "handoffWorkspaceResultRecovery gw db claim nowMs = Inr db'"
  shows "db_change S db db'"
proof -
  from op obtain w err where
    "update_pending db w (\<lambda>r. r\<lparr>w_recovery_requested_at_ms := Some nowMs\<rparr>) err = Inr db'"
    unfolding handoffWorkspaceResultRecovery_def by (auto split: if_splits)
  then show ?thesis by (rule pending_update_change(1) [OF inv]) simp
qed

text \<open>Changes of the journal alone.\<close>

lemma journal_change:
  assumes inv: "db_inv db" and "placements db' = placements db" "pendings db' = pendings db" "db_ok db'"
  shows "db_change S db db'"
  by (rule db_change_same_rows [OF inv assms(2,4)], rule fences_shrink [OF inv assms(2)])
    (simp add: wrow_at_pendings [OF assms(3)])

lemma journal_table_ok: "db_ok db \<Longrightarrow> table_ok j_session_id journal_check (journals db)"
  by (simp add: db_ok_def)

lemma journal_delete_ok: "db_ok db \<Longrightarrow> db_ok (db\<lparr>journals := fst (sql_delete w (journals db))\<rparr>)"
  using jt.del_inv [OF journal_table_ok, of db w] by (simp add: db_ok_def)

lemma acceptResult_change:
  assumes inv: "db_inv db" and op: "acceptWorkspaceResult db claim nowMs = Inr db'"
  shows "db_change S db db'"
proof -
  from op obtain db1 where m: "markWorkerWorkspacePendingResultAccepted db claim nowMs = Inr db1"
    and c: "clearWorkerWorkspaceReconciliation db1 (tc_sessionId claim) None = Inr db'"
    unfolding acceptWorkspaceResult_def by auto
  from m obtain w err where
    u: "update_pending db w (\<lambda>r. r\<lparr>w_workspace_accepted_at_ms := Some nowMs\<rparr>) err = Inr db1"
    unfolding markWorkerWorkspacePendingResultAccepted_def by (auto split: turn_owner.splits)
  note c1 = pending_update_change [OF inv u]
  have inv1: "db_inv db1" using c1(1) by (simp add: db_change_def)
  note j = clearJournal_Inr [OF db_invD(1) [OF inv1] c]
  show ?thesis
    by (rule db_change_then_same [OF c1(1) journal_change [OF inv1 j(2,3,1)] j(2)]) simp
qed

lemma abandon_change:
  assumes inv: "db_inv db" and op: "abandonWorkspaceResult db pending = Inr db'"
  shows "db_change S db db'"
proof -
  from op obtain w where db': "db' = db\<lparr>pendings := fst (sql_delete w (pendings db))\<rparr>"
    unfolding abandonWorkspaceResult_def Let_def case_prod_unfold if_Inl_Inr sum.inject by blast
  have t: "table_ok w_session_id pending_check (pendings db)"
    using db_invD(1) [OF inv] by (simp add: db_ok_def)
  have "wrow_at db' k = None \<or> wrow_at db' k = wrow_at db k" for k
    using wt.del_look [OF t, of w k] by (auto simp: wrow_at_def db' split: option.splits)
  then have "fence_ok db' k" for k using fences_shrink [OF inv, of db'] db' by simp
  moreover have "db_ok db'" using wt.del_inv [OF t, of w] db_invD(1) [OF inv] by (simp add: db_ok_def db')
  ultimately show ?thesis using db_change_same_rows [OF inv, of db'] db' by simp
qed

lemma begin_change:
  assumes inv: "db_inv db" and op: "beginWorkspaceReconciliation db own plan pack nowMs = Inr db'"
  shows "db_change S db db'"
proof -
  from op obtain row t where ins: "sql_insert_ignore j_session_id journal_check row (journals db) = Inr (t, 1)"
    and db': "db' = db\<lparr>journals := t\<rparr>"
    unfolding beginWorkspaceReconciliation_def by (auto split: if_splits prod.splits)
  then have "sql_insert j_session_id journal_check row (journals db) = Inr t"
    by (auto simp: sql_insert_ignore_def sql_insert_def split: if_splits)
  from jt.ins_inv [OF journal_table_ok [OF db_invD(1) [OF inv]] this] have "db_ok db'"
    using db_invD(1) [OF inv] by (simp add: db_ok_def db')
  then show ?thesis using journal_change [OF inv] db' by simp
qed

lemma abort_change:
  assumes inv: "db_inv db" and op: "abortWorkspaceReconciliation db own force = Inr db'"
  shows "db_change S db db'"
proof -
  have "\<exists>w. db' = db\<lparr>journals := fst (sql_delete w (journals db))\<rparr>"
  proof (cases force)
    case True
    then have "db' = db\<lparr>journals := fst (sql_delete (jowner_row own) (journals db))\<rparr>"
      using op unfolding abortWorkspaceReconciliation_def Let_def case_prod_unfold
      by (simp split: if_splits)
    then show ?thesis by blast
  next
    case False
    then have "db' = db\<lparr>journals := fst (sql_delete (\<lambda>r. j_session_id r = jo_sessionId own) (journals db))\<rparr>"
      using op unfolding abortWorkspaceReconciliation_def clearJournal_None by auto
    then show ?thesis by blast
  qed
  then obtain w where "db' = db\<lparr>journals := fst (sql_delete w (journals db))\<rparr>" ..
  then show ?thesis
    using journal_change [OF inv, of db'] journal_delete_ok [OF db_invD(1) [OF inv], of w] by simp
qed

lemma prune_owners_change:
  "db_inv db \<Longrightarrow> prune_owners retain db owners = Inr (db', pruned) \<Longrightarrow>
   placements db' = placements db \<and> pendings db' = pendings db \<and> db_ok db'"
proof (induction retain db owners arbitrary: db' pruned rule: prune_owners.induct)
  case (1 retain db)
  then show ?case by (simp add: db_inv_def)
next
  case (2 retain db own rest)
  from 2(4) obtain found where found: "find_placement db (jo_sessionId own) = Inr found"
    by auto
  let ?keep = "isCurrentJournalOwner found own \<or> (case found of None \<Rightarrow> False
      | Some p \<Rightarrow> failedJournalOwner p own
          \<and> (case p_recoveryError p of None \<Rightarrow> False | Some e \<Rightarrow> retain e))"
  let ?db1 = "db\<lparr>journals := fst (sql_delete (jowner_row own) (journals db))\<rparr>"
  show ?case
  proof (cases ?keep)
    case True
    have "prune_owners retain db rest = Inr (db', pruned)"
      using 2(4) by (simp only: prune_owners.simps found bnd.simps if_P [OF True])
    then show ?thesis using 2(1) [OF found True] 2(3) by simp
  next
    case False
    have "bnd (prune_owners retain ?db1 rest) (\<lambda>p. Inr (fst p,
        if snd (sql_delete (jowner_row own) (journals db)) = 1 then own # snd p else snd p))
      = Inr (db', pruned)"
      using 2(4)
      by (simp only: prune_owners.simps found bnd.simps if_not_P [OF False] case_prod_unfold)
    then obtain q where q: "prune_owners retain ?db1 rest = Inr q" "fst q = db'"
      by (elim bnd_InrE) simp
    obtain pruned' where "q = (db', pruned')" using q(2) by (cases q) simp
    then have "prune_owners retain ?db1 rest = Inr (db', pruned')" using q(1) by simp
    moreover have "db_inv ?db1"
      using journal_change [OF 2(3), of ?db1 "{}"] journal_delete_ok [OF db_invD(1) [OF 2(3)]]
      by (simp add: db_change_def)
    ultimately show ?thesis
      using 2(2) [OF found False] by simp
  qed
qed

lemma prune_change:
  assumes inv: "db_inv db" and op: "pruneOrphanedWorkspaceReconciliations retain db = Inr (db', pruned)"
  shows "db_change S db db'"
  using prune_owners_change [OF inv op [unfolded pruneOrphanedWorkspaceReconciliations_def]]
    journal_change [OF inv, of db'] by simp

subsection \<open>State changes\<close>

lemma startDispatch_change:
  assumes inv: "db_inv db" and op: "startDispatch db input created nowMs = Inr (db', p)"
  shows "db_change S db db'"
  using db_invD(1) [OF inv] op
proof (rule startDispatch_effect)
  fix identity db1 r
  assume e: "ensured db db1 identity created r" and st: "row_state r = WLocal \<or> row_state r = WReclaimed"
    and upd: "row_updated db1 db' (i_sessionId identity) r
       (set_requested (transition_generation r + 1) nowMs r)"
    and p: "pendings db' = pendings db" and ok: "db_ok db'"
  let ?r' = "set_requested (transition_generation r + 1) nowMs r"
  have inv1: "db_inv db1" using ensured_inv [OF inv e] .
  note u = row_updatedD [OF upd]
  have w1: "wrow_at db' = wrow_at db1"
    using wrow_at_pendings [OF p] ensured_rows(2) [OF e] by simp
  have st': "row_state ?r' = WRequested" by (intro row_state_text) (simp add: set_requested_def)
  have cl: "claim_of_row ?r' = claim_of_row r" by (simp add: set_requested_def claim_of_row_def)
  have none: "wrow_at db1 (i_sessionId identity) = None"
  proof (rule ccontr)
    assume "wrow_at db1 (i_sessionId identity) \<noteq> None"
    then obtain w where "wrow_at db1 (i_sessionId identity) = Some w" by auto
    from fence_row(1) [OF db_invD(2) [OF inv1] this u(1)] st show False by auto
  qed
  have step: "protocol (view r) (view ?r')"
    using st st' cl
    by (intro protocol.move) (auto simp: state_step_def canTransition_iff set_requested_def)
  have chg: "db_change S db1 db'"
    using none step cl by (intro db_change_row [OF inv1 upd ok w1]) auto
  show ?thesis
  proof (rule db_change_ensured [OF inv e chg])
    show "view_at db' (i_sessionId identity) = Some (view ?r')" using view_at_updated(1) [OF upd] .
    show "view ?r' = view r \<or> protocol (view r) (view ?r')" using step ..
    show "view_at db' k = view_at db k" if "k \<noteq> i_sessionId identity" for k
      using view_at_updated(2) [OF upd that] that ensured_rows(1) [OF e] by (simp add: view_at_def)
  qed
qed

lemma transition_change:
  assumes inv: "db_inv db" and op: "transition db s0 from to g patch nowMs = Inr (db', p)"
  shows "db_change S db db'"
  using db_invD(1) [OF inv] op
proof (rule transition_effect)
  fix sid r v
  assume can: "canTransitionWorkerSessionPlacement from to" and st: "row_state r = from"
    "transition_generation r = g" and cl: "claim_of_row r = None"
    and upd: "row_updated db db' sid r v" and v: "row_state v = to" "transition_generation v = g + 1"
      "claim_of_row v = None"
    and p: "pendings db' = pendings db" and ok: "db_ok db'"
  have "wrow_at db sid = None" using unclaimed_no_pending [OF inv row_updatedD(1) [OF upd] cl] .
  moreover have "protocol (view r) (view v)"
    using can st cl v by (intro protocol.move) (auto simp: state_step_def)
  ultimately show ?thesis
    using cl by (intro db_change_row [OF inv upd ok wrow_at_pendings [OF p]]) auto
qed

lemma startDrain_change:
  assumes inv: "db_inv db" and op: "startDrain db s0 e0 n0 g manifest nowMs = Inr (db', p)"
  shows "db_change S db db'"
  using db_invD(1) [OF inv] op
proof (rule startDrain_effect)
  fix sid r v
  assume st: "row_state r = WActive" "transition_generation r = g" and w: "wrow_at db sid = None"
    and upd: "row_updated db db' sid r v" and v: "row_state v = WDraining"
      "transition_generation v = g + 1" "claim_of_row v = claim_of_row r"
    and p: "pendings db' = pendings db" and ok: "db_ok db'"
  have "protocol (view r) (view v)"
    using st v by (intro protocol.move) (auto simp: state_step_def canTransition_iff)
  then show ?thesis
    using w v by (intro db_change_row [OF inv upd ok wrow_at_pendings [OF p]]) auto
qed

lemma finishReclaim_change:
  assumes inv: "db_inv db" and op: "finishReclaim db s0 e0 n0 g nowMs = Inr (db', p)"
  shows "db_change S db db'"
  using db_invD(1) [OF inv] op
proof (rule finishReclaim_effect)
  fix sid r
  assume st: "row_state r = WActive" and cl: "claim_of_row r = None" and w: "wrow_at db sid = None"
    and upd: "row_updated db db' sid r (moved_row WReclaimed nowMs r)"
    and p: "pendings db' = pendings db" and ok: "db_ok db'"
  have "protocol (view r) (view (moved_row WReclaimed nowMs r))"
    using reclaim_step [of r WReclaimed nowMs] row_updatedD(3,4) [OF upd] st by simp
  then show ?thesis
    using w cl by (intro db_change_row [OF inv upd ok wrow_at_pendings [OF p]]) auto
qed

lemma startReconcile_change:
  assumes inv: "db_inv db" and op: "startReconcile db s0 e0 n0 g nowMs = Inr (db', p, released)"
    and sid: "required s0 FSessionId = Inr k"
  shows "db_change (if released then {k} else {}) db db'"
  using db_invD(1) [OF inv] op
proof (rule startReconcile_effect)
  fix sid' r
  assume s: "required s0 FSessionId = Inr sid'" and st: "row_state r = WDraining"
    and w: "wrow_at db sid' = None"
    and upd: "row_updated db db' sid' r (moved_row WReconciling nowMs r)"
    and p: "pendings db' = pendings db" and ok: "db_ok db'"
    and rel: "released \<longleftrightarrow> claim_of_row r \<noteq> None"
  have "sid' = k" using s sid by simp
  moreover have "protocol (view r) (view (moved_row WReconciling nowMs r))"
    using reclaim_step [of r WReconciling nowMs] row_updatedD(3,4) [OF upd] st by simp
  ultimately show ?thesis
    using w rel by (intro db_change_row [OF inv upd ok wrow_at_pendings [OF p]]) auto
qed

lemma claim_set_failed: "claim_of_row (set_failed g err lc n r) =
    map_option (\<lambda>c. PLocal (pc_claimId c) (pc_runId c) (pc_generation c)) lc"
  by (cases lc) (simp_all add: set_failed_def claim_of_row_def)

lemma fail_change:
  assumes inv: "db_inv db" and op: "fail_placement db s0 e0 g nowMs = Inr (db', p, released)"
  shows "db_change S db db'"
  using db_invD(1) [OF inv] op
proof (rule fail_effect)
  fix sid r err
  let ?r' = "if row_state r = WFailed then set_recovery_error err nowMs r
        else set_failed (transition_generation r + 1) err (local_claim (claim_of_row r)) nowMs r"
  assume upd: "row_updated db db' sid r ?r'"
    and can: "row_state r = WFailed \<or> canTransitionWorkerSessionPlacement (row_state r) WFailed"
    and p: "pendings db' = pendings db" and ok: "db_ok db'"
    and loc: "local_claim (claim_of_row r) = claim_of_row r"
  note u = row_updatedD [OF upd]
  have none: "wrow_at db sid = None"
  proof (rule ccontr)
    assume "wrow_at db sid \<noteq> None"
    then obtain w where "wrow_at db sid = Some w" by auto
    from fence_row(1) [OF db_invD(2) [OF inv] this u(1)] can show False
      by (auto simp: canTransition_iff)
  qed
  have "claim_of_row (set_recovery_error err nowMs r) = claim_of_row r"
    by (simp add: set_recovery_error_def claim_of_row_def)
  moreover have "claim_of_row (set_failed (transition_generation r + 1) err
      (local_claim (claim_of_row r)) nowMs r) = claim_of_row r"
    using loc by (cases "claim_of_row r" rule: local_claim.cases) (simp_all add: claim_set_failed)
  ultimately have cl: "claim_of_row ?r' = claim_of_row r" by simp
  have "view ?r' = view r \<or> protocol (view r) (view ?r')"
  proof (cases "row_state r = WFailed")
    case False
    have "row_state ?r' = WFailed"
      using False by (intro row_state_text) (simp add: set_failed_def)
    moreover have "transition_generation ?r' = transition_generation r + 1"
      using False by (simp add: set_failed_def)
    ultimately show ?thesis
      using False can cl by - (rule disjI2, rule protocol.move, simp_all add: state_step_def)
  qed (simp add: view_claims)
  then show ?thesis
    using none cl by (intro db_change_row [OF inv upd ok wrow_at_pendings [OF p]]) auto
qed

end
