(* ===== verification/Placement_System.thy ===== *)
theory Placement_System
  imports Placement_Refinement
begin

section \<open>The running store\<close>

text \<open>
  The store of one gateway process as a state machine: every operation that commits is a step,
  with the release signals it sends; waiting registers a waiter, a timeout or an abort drops one.
  \<open>gw\<close> is the instance id of the process.
\<close>

text \<open>Which operation a committed transaction is, and the sessions it signals.\<close>

inductive transaction :: "string \<Rightarrow> pdb \<Rightarrow> pdb \<Rightarrow> string list \<Rightarrow> bool" for gw where
  t_claim: "claimTurn db input n = Inr (db', cl) \<Longrightarrow> transaction gw db db' []"
| t_claim_reclaim: "claimReclaimWorkspaceResult gw db input n = Inr (db', cl) \<Longrightarrow>
    transaction gw db db' []"
| t_release: "releaseTurn db cl n = Inr (db', p) \<Longrightarrow> required (tc_sessionId cl) FSessionId = Inr k \<Longrightarrow>
    transaction gw db db' [k]"
| t_complete: "completeWorkspaceResultAndReleaseTurn db cl reclaim n = Inr (db', p) \<Longrightarrow>
    required (tc_sessionId cl) FSessionId = Inr k \<Longrightarrow> transaction gw db db' [k]"
| t_cancel: "cancelWorkspaceResultAndReleaseTurn db cl n = Inr (db', p) \<Longrightarrow>
    required (tc_sessionId cl) FSessionId = Inr k \<Longrightarrow> transaction gw db db' [k]"
| t_clear_local: "clearLocalTurnClaimsAfterRestart db n = Inr (db', ids) \<Longrightarrow>
    transaction gw db db' ids"
| t_ack: "updateAckCursors gw db cl t l pending n m = Inr (db', p) \<Longrightarrow> transaction gw db db' []"
| t_manifest: "updateWorkspaceBaseManifest db cl ref n = Inr (db', p) \<Longrightarrow> transaction gw db db' []"
| t_accept_idle: "acceptIdleWorkspaceReconciliation db s e o' g ref n = Inr (db', p) \<Longrightarrow>
    transaction gw db db' []"
| t_begin: "beginWorkspaceReconciliation db own plan pack n = Inr db' \<Longrightarrow> transaction gw db db' []"
| t_abort: "abortWorkspaceReconciliation db own force = Inr db' \<Longrightarrow> transaction gw db db' []"
| t_prune: "pruneOrphanedWorkspaceReconciliations retain db = Inr (db', pruned) \<Longrightarrow>
    transaction gw db db' []"
| t_pending: "markWorkspaceResultPending gw db cl n = Inr db' \<Longrightarrow> transaction gw db db' []"
| t_stage: "recordStagedWorkspaceResult db cl ref = Inr db' \<Longrightarrow> transaction gw db db' []"
| t_accept: "acceptWorkspaceResult db cl n = Inr db' \<Longrightarrow> transaction gw db db' []"
| t_handoff: "handoffWorkspaceResultRecovery gw db cl n = Inr db' \<Longrightarrow> transaction gw db db' []"
| t_abandon: "abandonWorkspaceResult db w = Inr db' \<Longrightarrow> transaction gw db db' []"
| t_dispatch: "startDispatch db identity n m = Inr (db', p) \<Longrightarrow> transaction gw db db' []"
| t_transition: "transition db s from to g patch n = Inr (db', p) \<Longrightarrow> transaction gw db db' []"
| t_drain: "startDrain db s e o' g ref n = Inr (db', p) \<Longrightarrow> transaction gw db db' []"
| t_reclaim: "finishReclaim db s e o' g n = Inr (db', p) \<Longrightarrow> transaction gw db db' []"
| t_reconcile: "startReconcile db s e o' g n = Inr (db', p, released) \<Longrightarrow>
    required s FSessionId = Inr k \<Longrightarrow> transaction gw db db' (if released then [k] else [])"
| t_fail: "fail_placement db s e g n = Inr (db', p, released) \<Longrightarrow>
    required s FSessionId = Inr k \<Longrightarrow> transaction gw db db' (if released then [k] else [])"

inductive pstep :: "string \<Rightarrow> pstore \<Rightarrow> pstore \<Rightarrow> bool" for gw where
  commit: "transaction gw (st_db s) db' ks \<Longrightarrow>
    pstep gw s (fold signalTurnClaimRelease ks (s\<lparr>st_db := db'\<rparr>))"
| wait: "waitForTurnClaimRelease s k timeout aborted w (st_db s) = Inr (s', res) \<Longrightarrow> pstep gw s s'"
| give_up: "pstep gw s (finishWaiter s k w)"
| conflict: "recordWorkspaceResultConflict s cl c = Inr s' \<Longrightarrow> pstep gw s s'"

definition empty_db :: pdb where
  "empty_db = \<lparr>placements = [], journals = [], pendings = []\<rparr>"

definition initial_store :: pstore where
  "initial_store = \<lparr>st_db = empty_db, st_waiters = [], st_conflicts = []\<rparr>"

inductive reachable :: "string \<Rightarrow> pstore \<Rightarrow> bool" for gw where
  start: "reachable gw initial_store"
| step: "reachable gw s \<Longrightarrow> pstep gw s s' \<Longrightarrow> reachable gw s'"

subsection \<open>Transactions keep the invariant\<close>

lemma claimTurn_eq: "claimTurn = claimTurnInDatabase"
  by (simp add: claimTurn_def fun_eq_iff)

lemma transaction_change:
  assumes "db_inv db" "transaction gw db db' ks"
  shows "db_change (set ks) db db'"
  using assms(2,1)
proof (induction rule: transaction.induct)
  case (t_claim db input n db' cl)
  then show ?case using claimTurn_change by (simp add: claimTurn_eq)
next
  case (t_reconcile db s e o' g n db' p released k)
  then show ?case using startReconcile_change [of db s e o' g n db' p released k] by (cases released) simp_all
next
  case (t_pending db cl n db')
  then show ?case using insertPending_change(1) by (simp add: markWorkspaceResultPending_def)
qed (simp_all add: claimReclaim_change releaseTurn_change completeResult_change cancelResult_change
      clearLocal_change updateAck_change updateManifest_change acceptIdle_change begin_change
      abort_change prune_change stage_change acceptResult_change handoff_change abandon_change
      startDispatch_change transition_change startDrain_change finishReclaim_change fail_change)

lemma fold_signal_sel [simp]:
  "st_db (fold signalTurnClaimRelease ks s) = st_db s"
  "st_conflicts (fold signalTurnClaimRelease ks s) = st_conflicts s"
  by (induction ks arbitrary: s) (simp_all add: signalTurnClaimRelease_def)

lemma waiters_signal: "waiters_of (signalTurnClaimRelease k s) j = (if j = k then [] else waiters_of s j)"
  by (simp add: waiters_of_def signalTurnClaimRelease_def jm.get_delete)

lemma waiters_fold_signal:
  "waiters_of (fold signalTurnClaimRelease ks s) j = (if j \<in> set ks then [] else waiters_of s j)"
  by (induction ks arbitrary: s) (auto simp: waiters_signal)

lemma waiters_db [simp]: "waiters_of (s\<lparr>st_db := d\<rparr>) k = waiters_of s k"
    "waiters_of (s\<lparr>st_conflicts := c\<rparr>) k = waiters_of s k"
  by (simp_all add: waiters_of_def)

lemma waiters_finish:
  "waiters_of (finishWaiter s k w) j =
     (if j = k then filter (\<lambda>x. x \<noteq> w) (waiters_of s j) else waiters_of s j)"
  by (auto simp: waiters_of_def finishWaiter_def Let_def jm.get_delete jm.get_put)

lemma waiters_add: "waiters_of (addWaiter s k w) j =
    (if j = k then (if w \<in> set (waiters_of s k) then waiters_of s k else waiters_of s k @ [w])
     else waiters_of s j)"
  by (auto simp: waiters_of_def addWaiter_def Let_def jm.get_put)

lemma waiters_waitersFor [simp]: "waiters_of (waitersFor s k) j = waiters_of s j"
  by (auto simp: waiters_of_def waitersFor_def jm.get_put split: option.splits)

lemma finish_sel [simp]: "st_db (finishWaiter s k w) = st_db s"
    "st_conflicts (finishWaiter s k w) = st_conflicts s"
  by (simp_all add: finishWaiter_def Let_def)

subsection \<open>Waiting\<close>

lemma claim_present_eq: "db_ok db \<Longrightarrow> claim_present db k = Inr (claimed db k)"
  by (auto simp: claim_present_def find_placement_eq claimed_def split: option.splits)

definition waiters_ok :: "pstore \<Rightarrow> bool" where
  "waiters_ok s \<longleftrightarrow> (\<forall>k. waiters_of s k \<noteq> [] \<longrightarrow> claimed (st_db s) k)"

definition store_inv :: "pstore \<Rightarrow> bool" where
  "store_inv s \<longleftrightarrow> db_inv (st_db s) \<and> waiters_ok s"

lemma wait_Inr:
  assumes "db_ok (st_db s)"
    "waitForTurnClaimRelease s k0 timeout aborted w (st_db s) = Inr (s', res)"
  obtains k where "required k0 FSessionId = Inr k" "st_db s' = st_db s" "st_conflicts s' = st_conflicts s"
    "res = WaitDone \<Longrightarrow> \<not> claimed (st_db s) k \<and> s' = s"
    "res \<noteq> WaitDone \<Longrightarrow> claimed (st_db s) k"
    "\<And>j. j \<noteq> k \<Longrightarrow> waiters_of s' j = waiters_of s j"
    "res = WaitRegistered \<Longrightarrow> w \<in> set (waiters_of s' k)"
proof -
  from assms(2) obtain k where k: "required k0 FSessionId = Inr k"
    and ok: "js_is_safe timeout" "\<not> timeout < 0"
    unfolding waitForTurnClaimRelease_def by (auto split: if_splits)
  show thesis
  proof (cases "claimed (st_db s) k")
    case False
    then have "s' = s \<and> res = WaitDone"
      using assms(2) k ok
      by (simp add: waitForTurnClaimRelease_def claim_present_eq [OF assms(1)])
    then show thesis using that [OF k] False by simp
  next
    case True
    let ?s1 = "addWaiter (waitersFor s k) k w"
    have db1: "st_db ?s1 = st_db s" "st_conflicts ?s1 = st_conflicts s"
      by (simp_all add: addWaiter_def waitersFor_def split: option.split)
    have "(s', res) = (if aborted then (finishWaiter (?s1\<lparr>st_db := st_db s\<rparr>) k w, WaitAborted)
        else (?s1\<lparr>st_db := st_db s\<rparr>, WaitRegistered))"
      using assms(2) k ok True
      by (simp add: waitForTurnClaimRelease_def claim_present_eq [OF assms(1)] Let_def split: if_splits)
    then show thesis
      using that [OF k] True db1
      by (cases aborted) (auto simp: waiters_finish waiters_add)
  qed
qed

lemma pstep_inv:
  assumes "store_inv s" "pstep gw s s'"
  shows "store_inv s'"
  using assms(2,1)
proof (induction rule: pstep.induct)
  case (commit s db' ks)
  then have c: "db_change (set ks) (st_db s) db'"
    using transaction_change by (simp add: store_inv_def)
  have "claimed db' k" if "waiters_of (fold signalTurnClaimRelease ks (s\<lparr>st_db := db'\<rparr>)) k \<noteq> []" for k
    using that c commit.prems
    by (auto simp: waiters_fold_signal store_inv_def waiters_ok_def db_change_def split: if_splits)
  then show ?case using c by (simp add: store_inv_def waiters_ok_def db_change_def)
next
  case (wait s k0 timeout aborted w s' res)
  have ok: "db_ok (st_db s)" using wait.prems by (simp add: store_inv_def db_inv_def)
  from wait_Inr [OF ok wait.hyps] obtain k where k: "st_db s' = st_db s"
    "res = WaitDone \<Longrightarrow> \<not> claimed (st_db s) k \<and> s' = s"
    "res \<noteq> WaitDone \<Longrightarrow> claimed (st_db s) k"
    "\<And>j. j \<noteq> k \<Longrightarrow> waiters_of s' j = waiters_of s j" by metis
  show ?case
  proof (cases "res = WaitDone")
    case True
    then show ?thesis using k(2) wait.prems by simp
  next
    case False
    then show ?thesis
      using k wait.prems unfolding store_inv_def waiters_ok_def by metis
  qed
next
  case (give_up s k w)
  have "waiters_of (finishWaiter s k w) j \<noteq> [] \<Longrightarrow> waiters_of s j \<noteq> []" for j
    by (cases "waiters_of s j") (auto simp: waiters_finish split: if_splits)
  then show ?case using give_up by (auto simp: store_inv_def waiters_ok_def)
next
  case (conflict s cl c s')
  then have "st_db s' = st_db s \<and> st_waiters s' = st_waiters s"
    unfolding recordWorkspaceResultConflict_def by (auto split: option.splits if_splits prod.splits)
  then show ?case using conflict.prems by (simp add: store_inv_def waiters_ok_def waiters_of_def)
qed

lemma reachable_inv: "reachable gw s \<Longrightarrow> store_inv s"
proof (induction rule: reachable.induct)
  case start
  then show ?case
    by (simp add: store_inv_def db_inv_def db_ok_def table_ok_def initial_store_def empty_db_def
        waiters_ok_def waiters_of_def fence_ok_def wrow_at_def)
next
  case (step s s')
  then show ?case using pstep_inv by blast
qed

lemma pstep_session:
  assumes "store_inv s" "pstep gw s s'"
  shows "session_step (view_at (st_db s) k) (view_at (st_db s') k)"
  using assms(2,1)
proof (induction rule: pstep.induct)
  case (commit s db' ks)
  then have "db_change (set ks) (st_db s) db'"
    using transaction_change by (simp add: store_inv_def)
  then show ?case by (simp add: db_change_def)
next
  case (wait s k0 timeout aborted w s' res)
  have "db_ok (st_db s)" using wait.prems by (simp add: store_inv_def db_inv_def)
  from wait_Inr [OF this wait.hyps] have "st_db s' = st_db s" by metis
  then show ?case by (simp add: session_step.same)
next
  case (give_up s k w)
  then show ?case by (simp add: session_step.same)
next
  case (conflict s cl c s')
  then have "st_db s' = st_db s"
    unfolding recordWorkspaceResultConflict_def by (auto split: option.splits if_splits prod.splits)
  then show ?case by (simp add: session_step.same)
qed

end
