(* ===== verification/Placement_Properties.thy ===== *)
theory Placement_Properties
  imports Placement_System
begin

section \<open>What the placement store guarantees\<close>

text \<open>
  The properties of the whole store along its runs: it refines the protocol, its generations fence
  its states, and its rows stay readable.
\<close>

subsection \<open>A sample run\<close>

text \<open>
  The witnesses follow one session: a local turn, its release, and a placement that reached an
  active worker with a claimed turn.
\<close>

definition demo_ref :: string where
  "demo_ref = ''sha256:'' @ replicate 64 CHR ''0''"

definition demo_identity :: pidentity where
  "demo_identity = \<lparr>i_sessionId = ''s1'', i_agentId = ''main'', i_sessionKey = ''k1''\<rparr>"

definition demo_input :: claim_input where
  "demo_input = \<lparr>ci_identity = demo_identity, ci_owner = LocalOwner, ci_claimId = ''c1'',
     ci_runId = ''r1''\<rparr>"

definition demo_local_row :: prow where
  "demo_local_row = set_claim LocalOwner ''c1'' ''r1'' 0 5 (local_row demo_identity 5)"

definition demo_claim :: turn_claim where
  "demo_claim = \<lparr>tc_sessionId = ''s1'', tc_claimId = ''c1'', tc_runId = ''r1'',
     tc_placementGeneration = 0, tc_owner = LocalOwner\<rparr>"

definition demo_db :: pdb where
  "demo_db = empty_db\<lparr>placements := [demo_local_row]\<rparr>"

lemma demo_claimed: "claimTurn empty_db demo_input 5 = Inr (demo_db, demo_claim)"
  by code_simp

lemma demo_clean [simp]: "required ''s1'' f = Inr ''s1''" "required ''c1'' f = Inr ''c1''"
    "required ''r1'' f = Inr ''r1''"
  by (cases f; code_simp)+

definition demo_store :: pstore where
  "demo_store = initial_store\<lparr>st_db := demo_db\<rparr>"

lemma empty_inv [simp]: "db_inv empty_db"
  using reachable_inv [OF reachable.start] by (simp add: store_inv_def initial_store_def)

lemma demo_step: "pstep ''gw'' initial_store demo_store"
  using pstep.commit [of "''gw''" initial_store demo_db "[]"] transaction.t_claim [OF demo_claimed]
  by (simp add: initial_store_def demo_store_def)

lemma demo_reachable: "reachable ''gw'' demo_store"
  using reachable.step [OF reachable.start demo_step] .

lemma demo_inv: "db_inv demo_db"
  using reachable_inv [OF demo_reachable] by (simp add: store_inv_def demo_store_def)

text \<open>A row owned by an active worker whose turn is claimed, and its pending result.\<close>

definition demo_worker_row :: prow where
  "demo_worker_row = (local_row demo_identity 5)\<lparr>state := ''active'', environment_id := Some ''e1'',
     transition_generation := 5, active_owner_epoch := Some 2,
     workspace_base_manifest_ref := Some demo_ref, remote_workspace_dir := Some ''/w'',
     worker_bundle_hash := Some ''b'', turn_claim_owner := Some ''worker'',
     turn_claim_id := Some ''c1'', turn_claim_run_id := Some ''r1'',
     turn_claim_generation := Some 5, turn_claim_owner_epoch := Some 2\<rparr>"

definition demo_worker_claim :: turn_claim where
  "demo_worker_claim = \<lparr>tc_sessionId = ''s1'', tc_claimId = ''c1'', tc_runId = ''r1'',
     tc_placementGeneration = 5, tc_owner = WorkerOwner ''e1'' 2\<rparr>"

definition demo_worker_db :: pdb where
  "demo_worker_db = empty_db\<lparr>placements := [demo_worker_row]\<rparr>"

definition demo_pending_db :: pdb where
  "demo_pending_db = demo_worker_db\<lparr>pendings := [\<lparr>w_session_id = ''s1'',
     w_environment_id = ''e1'', w_owner_epoch = 2, w_placement_generation = 5,
     w_claim_id = ''c1'', w_run_id = ''r1'', w_gateway_instance_id = ''gw'',
     w_recovery_requested_at_ms = None, w_workspace_accepted_at_ms = None,
     w_staged_result_ref = None, w_created_at_ms = 7\<rparr>]\<rparr>"

lemma demo_worker_row_inv: "row_inv demo_worker_row"
proof -
  have "fromRow demo_worker_row = Inr (raw_placement demo_worker_row) \<and> columns_ok demo_worker_row
      \<and> claim_ok demo_worker_row \<and> assertRecordShape (row_shape demo_worker_row) = Inr ()
      \<and> state demo_worker_row = ws_text (row_state demo_worker_row)"
    by code_simp
  then show ?thesis by (simp add: row_inv_def)
qed

lemma demo_worker_ok: "db_ok demo_worker_db" "prow_at demo_worker_db ''s1'' = Some demo_worker_row"
  using demo_worker_row_inv
  by (simp_all add: db_ok_def table_ok_def demo_worker_db_def empty_db_def prow_at_def demo_worker_row_def
      local_row_def demo_identity_def)

lemma demo_worker_inv: "db_inv demo_worker_db"
  using demo_worker_ok
  by (simp add: db_inv_def fence_ok_def wrow_at_def demo_worker_db_def empty_db_def)

lemma demo_pending_inserted:
  "markWorkspaceResultPending ''gw'' demo_worker_db demo_worker_claim 7 = Inr demo_pending_db"
  by code_simp

lemma demo_pending_inv: "db_inv demo_pending_db"
  using transaction_change [OF demo_worker_inv transaction.t_pending [OF demo_pending_inserted]]
  by (simp add: db_change_def)

subsection \<open>The protocol\<close>

text \<open>
  C1: the store implements the placement protocol. In every reachable state, whatever operation
  commits next, each session keeps its placement, takes one protocol step, or gets a fresh local
  placement (which may take its first step in the same transaction).
\<close>

theorem store_refines_protocol:
  assumes "reachable gw s" "pstep gw s s'"
  shows "session_step (view_at (st_db s) k) (view_at (st_db s') k)"
  using pstep_session [OF reachable_inv [OF assms(1)] assms(2)] .

theorem store_refines_protocol_witness:
  "session_step (view_at (st_db initial_store) ''s1'') (view_at (st_db demo_store) ''s1'')"
  by (rule store_refines_protocol [OF reachable.start demo_step])

lemma session_steps_gen:
  assumes "session_step (Some v) x"
  shows "\<exists>v'. x = Some v' \<and> v_gen v \<le> v_gen v' \<and> (v_gen v = v_gen v' \<longrightarrow> v_state v = v_state v')"
  using assms protocol_gen by (fastforce elim!: session_step_SomeE)

text \<open>
  C2: the generation is a fencing token. Along any run a session's placement never disappears, its
  generation never decreases, and two readings with the same generation saw the same state.
\<close>

theorem generation_fences_state:
  assumes "reachable gw s" "(pstep gw)\<^sup>*\<^sup>* s s'" "view_at (st_db s) k = Some v"
  shows "\<exists>v'. view_at (st_db s') k = Some v' \<and> v_gen v \<le> v_gen v'
    \<and> (v_gen v = v_gen v' \<longrightarrow> v_state v = v_state v')"
proof -
  have "reachable gw s' \<and> (\<exists>v'. view_at (st_db s') k = Some v' \<and> v_gen v \<le> v_gen v'
    \<and> (v_gen v = v_gen v' \<longrightarrow> v_state v = v_state v'))"
    using assms(2)
  proof (induction rule: rtranclp_induct)
    case base
    then show ?case using assms(1,3) by simp
  next
    case (step y z)
    then obtain v' where v': "view_at (st_db y) k = Some v'" "v_gen v \<le> v_gen v'"
      "v_gen v = v_gen v' \<longrightarrow> v_state v = v_state v'" and r: "reachable gw y" by blast
    have "session_step (Some v') (view_at (st_db z) k)"
      using pstep_session [OF reachable_inv [OF r] step(2), of k] v'(1) by simp
    from session_steps_gen [OF this] v' reachable.step [OF r step(2)] show ?case by force
  qed
  then show ?thesis ..
qed

theorem generation_fences_state_witness:
  "\<exists>v'. view_at (st_db demo_store) ''s1'' = Some v'
    \<and> v_gen (view demo_local_row) \<le> v_gen v'
    \<and> (v_gen (view demo_local_row) = v_gen v' \<longrightarrow> v_state (view demo_local_row) = v_state v')"
proof (rule generation_fences_state [OF demo_reachable rtranclp.rtrancl_refl])
  show "view_at (st_db demo_store) ''s1'' = Some (view demo_local_row)"
    by (simp add: view_at_def prow_at_def demo_store_def demo_db_def demo_local_row_def claim_cols
        demo_identity_def)
qed

subsection \<open>Stored rows\<close>

text \<open>
  C3: every placement the store ever holds can be read back. In a reachable state each row passes
  the schema's CHECK clauses, the reader accepts it and returns exactly its columns, and no two
  rows share a session.
\<close>

theorem stored_rows_readable:
  assumes "reachable gw s"
  shows "distinct (map session_id (placements (st_db s)))
    \<and> list_all (\<lambda>r. placement_check r \<and> fromRow r = Inr (raw_placement r)) (placements (st_db s))"
  using reachable_inv [OF assms]
  by (auto simp: store_inv_def db_inv_def db_ok_def table_ok_def list_all_iff fromRow_raw row_inv_check)

theorem stored_rows_readable_witness:
  "distinct (map session_id (placements (st_db demo_store)))
    \<and> list_all (\<lambda>r. placement_check r \<and> fromRow r = Inr (raw_placement r))
        (placements (st_db demo_store))"
  by (rule stored_rows_readable [OF demo_reachable])

end
