(* ===== verification/Placement_Turns.thy ===== *)
theory Placement_Turns
  imports Placement_Properties
begin

section \<open>Turn claims and their fences\<close>

text \<open>
  What the holder of a turn claim may rely on: nobody else gets the turn, giving it back restores
  the session, a pending workspace result keeps the claim where it is until the result is settled,
  and whoever waits for the turn is woken.
\<close>

subsection \<open>Exclusive claims\<close>

lemma matches_set_claim:
  assumes "turn_admitted own (raw_placement r)" "row_inv (set_claim own c rid g n r)"
  shows "claim_matches (raw_placement (set_claim own c rid g n r)) own c rid g"
  using assms
  by (cases own) (auto simp: set_claim_def held_raw claim_of_row_def row_state_def)

lemma ensured_others:
  assumes "ensured db db1 identity n r" "k \<noteq> i_sessionId identity"
  shows "prow_at db1 k = prow_at db k"
  using assms prow_at_append [of db1 db r] by (auto simp: ensured_def)

text \<open>What a committed claim did: the session's row was free and now carries the claim.\<close>

lemma claimTurn_row:
  assumes "db_inv db" "claimTurn db input n = Inr (db', cl)"
  obtains identity r r' where "db_ok db'" "prow_at db' (tc_sessionId cl) = Some r'"
    "claim_matches (raw_placement r') (tc_owner cl) (tc_claimId cl) (tc_runId cl)
       (tc_placementGeneration cl)"
    "r' = set_claim (tc_owner cl) (tc_claimId cl) (tc_runId cl) (transition_generation r) n r"
    "prow_at db (tc_sessionId cl) = Some r \<or> prow_at db (tc_sessionId cl) = None \<and> view r = fresh_view"
    "row_inv r" "claim_of_row r = None" "wrow_at db' (tc_sessionId cl) = None"
    "clean_str (Some (tc_sessionId cl))" "clean_str (Some (tc_claimId cl))"
    "clean_str (Some (tc_runId cl))" "normalizeIdentity (ci_identity input) = Inr identity"
    "prow_at db (tc_sessionId cl) = Some r
       \<or> prow_at db (tc_sessionId cl) = None \<and> r = local_row identity n"
    "prow_at db' = (prow_at db)(tc_sessionId cl \<mapsto> r')"
    "journals db' = journals db" "pendings db' = pendings db"
proof -
  obtain identity db1 r own c rid where
    id: "normalizeIdentity (ci_identity input) = Inr identity" and e: "ensured db db1 identity n r"
    and "normalizeOwner (ci_owner input) = Inr own"
    and n: "required (ci_claimId input) FClaimId = Inr c" "required (ci_runId input) FClaimRunId = Inr rid"
    and free: "turn_claim_owner r = None" and adm: "turn_admitted own (raw_placement r)"
    and u: "row_updated db1 db' (i_sessionId identity) r
       (set_claim own c rid (transition_generation r) n r)"
    and p: "journals db' = journals db" "pendings db' = pendings db" and ok: "db_ok db'"
    and cl: "cl = \<lparr>tc_sessionId = i_sessionId identity, tc_claimId = c, tc_runId = rid,
       tc_placementGeneration = transition_generation r, tc_owner = own\<rparr>"
    using claimTurn_effect [OF db_invD(1) [OF assms(1)] assms(2) [unfolded claimTurn_eq]] .
  let ?k = "i_sessionId identity" and ?r' = "set_claim own c rid (transition_generation r) n r"
  have at1: "prow_at db1 ?k = Some r" and inv: "row_inv r"
    using row_updatedD(1) [OF u] prow_at_inv [OF ensured_rows(4) [OF e]] by auto
  have at: "prow_at db' ?k = Some ?r'" using row_updatedD(2) [OF u] by simp
  have "claim_of_row r = None" using free claim_of_row_none by simp
  moreover have "wrow_at db1 ?k = None"
    using unclaimed_no_pending [OF ensured_inv [OF assms(1) e] at1 calculation] .
  then have "wrow_at db' ?k = None" using ensured_rows(2) [OF e] p by (simp add: wrow_at_def)
  moreover have "prow_at db ?k = Some r \<or> prow_at db ?k = None \<and> view r = fresh_view"
    using e by (auto simp: ensured_def)
  moreover have "prow_at db ?k = Some r \<or> prow_at db ?k = None \<and> r = local_row identity n"
    using e by (auto simp: ensured_def)
  moreover have "prow_at db' = (prow_at db)(?k \<mapsto> ?r')"
    using row_updatedD(2) [OF u] ensured_others [OF e] by (auto simp: fun_eq_iff)
  moreover have "claim_matches (raw_placement ?r') own c rid (transition_generation r)"
    using matches_set_claim [OF adm prow_at_inv [OF ok at]] .
  moreover have "clean_str (Some ?k)" using prow_at_clean [OF ok at] .
  ultimately show thesis
    by (intro that [OF ok, of ?r' r identity])
      (simp_all only: cl turn_claim.simps at [symmetric] inv id p required_clean [OF n(1)] required_clean [OF n(2)])
qed

lemma validate_eq:
  assumes "db_ok db" "clean_str (Some (tc_sessionId cl))" "prow_at db (tc_sessionId cl) = Some r"
  shows "validateTurnClaim db cl = Inr (claim_matches (raw_placement r) (tc_owner cl)
    (tc_claimId cl) (tc_runId cl) (tc_placementGeneration cl))"
  using assms by (simp add: validateTurnClaim_def required_stored find_placement_eq)

lemma second_claim_refused:
  assumes "db_ok db" "prow_at db k = Some r" "claim_of_row r \<noteq> None"
    "normalizeIdentity (ci_identity input) = Inr identity" "i_sessionId identity = k"
  shows "\<not> succeeds (claimTurn db input n)"
proof
  assume "succeeds (claimTurn db input n)"
  then obtain db' cl where "claimTurnInDatabase db input n = Inr (db', cl)"
    by (auto simp: succeeds_iff claimTurn_eq)
  from claimTurn_effect [OF assms(1) this] assms(4,5) obtain db1 r1 where
    e: "ensured db db1 identity n r1" "turn_claim_owner r1 = None"
    by (metis sum.inject(2))
  then have "r1 = r" using assms(2,5) by (auto simp: ensured_def)
  then show False
    using e(2) assms(3) claim_of_row_none by simp
qed

text \<open>
  C4: a claim is exclusive. When a claim of a session's turn succeeds, nobody held the turn, the
  returned claim is the valid one, and as long as it stands every other claim of the session's turn
  is refused.
\<close>

theorem claim_exclusive:
  assumes "reachable gw s" "claimTurn (st_db s) input n = Inr (db', cl)"
    and "normalizeIdentity (ci_identity input2) = Inr identity2"
      "i_sessionId identity2 = tc_sessionId cl"
  shows "\<not> claimed (st_db s) (tc_sessionId cl) \<and> claimed db' (tc_sessionId cl)
    \<and> validateTurnClaim db' cl = Inr True \<and> \<not> succeeds (claimTurn db' input2 m)"
proof -
  have inv: "db_inv (st_db s)" using reachable_inv [OF assms(1)] by (simp add: store_inv_def)
  from claimTurn_row [OF inv assms(2)] obtain r r' where
    ok: "db_ok db'" and at: "prow_at db' (tc_sessionId cl) = Some r'"
    and m: "claim_matches (raw_placement r') (tc_owner cl) (tc_claimId cl) (tc_runId cl)
       (tc_placementGeneration cl)"
    and old: "prow_at (st_db s) (tc_sessionId cl) = Some r \<or> prow_at (st_db s) (tc_sessionId cl) = None"
    and free: "claim_of_row r = None" and cs: "clean_str (Some (tc_sessionId cl))" by metis
  have held: "claim_of_row r' \<noteq> None"
    using claim_matches_raw [OF m prow_at_inv [OF ok at]] claim_of_row_none by simp
  show ?thesis
    using old free at held validate_eq [OF ok cs at] m
      second_claim_refused [OF ok at held assms(3,4)] by (auto simp: claimed_def)
qed

theorem claim_exclusive_witness:
  "\<not> claimed (st_db initial_store) (tc_sessionId demo_claim) \<and> claimed demo_db (tc_sessionId demo_claim)
    \<and> validateTurnClaim demo_db demo_claim = Inr True \<and> \<not> succeeds (claimTurn demo_db demo_input 9)"
proof (rule claim_exclusive [OF reachable.start])
  show "claimTurn (st_db initial_store) demo_input 5 = Inr (demo_db, demo_claim)"
    using demo_claimed by (simp add: initial_store_def)
  show "normalizeIdentity (ci_identity demo_input) = Inr demo_identity" by code_simp
  show "i_sessionId demo_identity = tc_sessionId demo_claim" by code_simp
qed

subsection \<open>Releasing a claim\<close>

lemma clear_set_claim:
  assumes "row_inv r" "claim_of_row r = None"
  shows "clear_claim m (set_claim own c rid g n r) = r\<lparr>updated_at_ms := m\<rparr>"
  using row_inv_facts(2) [OF assms(1)] assms(2)
  by (cases rule: claim_okE) (simp_all add: clear_claim_def set_claim_def claim_of_row_def)

text \<open>
  C5: claim and release are inverse. The claim just taken can be released, and the release reports
  the session unclaimed. Every column of the session's row is then as it was before the claim, but
  for the time of the last update (a session claimed for the first time keeps the fresh local row
  the claim inserted); the rows of the other sessions, the journal and the pending results are as
  before, and so is everything the protocol sees of the session.
\<close>

theorem claim_release_roundtrip:
  assumes "reachable gw s" "claimTurn (st_db s) input n = Inr (db', cl)"
  shows "\<exists>db'' p identity. releaseTurn db' cl m = Inr (db'', p) \<and> p_turnClaim p = None
    \<and> validateTurnClaim db'' cl = Inr False
    \<and> normalizeIdentity (ci_identity input) = Inr identity
    \<and> prow_at db'' = (prow_at (st_db s))(tc_sessionId cl \<mapsto>
        (case prow_at (st_db s) (tc_sessionId cl) of None \<Rightarrow> local_row identity n | Some r \<Rightarrow> r)
          \<lparr>updated_at_ms := m\<rparr>)
    \<and> journals db'' = journals (st_db s) \<and> pendings db'' = pendings (st_db s)
    \<and> view_at db'' (tc_sessionId cl)
        = Some (case view_at (st_db s) (tc_sessionId cl) of None \<Rightarrow> fresh_view | Some v \<Rightarrow> v)"
proof -
  let ?k = "tc_sessionId cl"
  have inv: "db_inv (st_db s)" using reachable_inv [OF assms(1)] by (simp add: store_inv_def)
  from claimTurn_row [OF inv assms(2)] obtain identity r r' where
    ok: "db_ok db'" and at: "prow_at db' ?k = Some r'"
    and mt: "claim_matches (raw_placement r') (tc_owner cl) (tc_claimId cl) (tc_runId cl)
       (tc_placementGeneration cl)"
    and r': "r' = set_claim (tc_owner cl) (tc_claimId cl) (tc_runId cl) (transition_generation r) n r"
    and old: "prow_at (st_db s) ?k = Some r \<or> prow_at (st_db s) ?k = None \<and> view r = fresh_view"
    and invr: "row_inv r" and free: "claim_of_row r = None" and w: "wrow_at db' ?k = None"
    and cs: "clean_str (Some ?k)" "clean_str (Some (tc_claimId cl))" "clean_str (Some (tc_runId cl))"
    and id': "normalizeIdentity (ci_identity input) = Inr identity"
    and row: "prow_at (st_db s) ?k = Some r \<or> prow_at (st_db s) ?k = None \<and> r = local_row identity n"
    and tab: "prow_at db' = (prow_at (st_db s))(?k \<mapsto> r')"
      "journals db' = journals (st_db s)" "pendings db' = pendings (st_db s)" .
  have inv': "row_inv r'" using prow_at_inv [OF ok at] .
  let ?c = "clear_claim m r'"
  have cinv: "row_inv ?c" using inv' by blast
  have id: "session_id ?c = ?k" using prow_at_key [OF at] by (simp add: claim_cols)
  have cr: "claim_of_row ?c = None" by (simp add: claim_of_row_def clear_claim_def)
  note cm = claim_matches_raw [OF mt inv']
  let ?db = "set_row db' ?k ?c"
  have rel: "releaseTurn db' cl m = Inr (?db, raw_placement ?c)"
    using update_then_read [where f = "clear_claim m" and err = EClaimChanged, OF ok at _ _ cinv id,
        of "\<lambda>r. session_id r = ?k
        \<and> turn_claim_id r = Some (tc_claimId cl) \<and> turn_claim_run_id r = Some (tc_runId cl)
        \<and> turn_claim_generation r = Some (tc_placementGeneration cl)"]
      cm prow_at_key [OF at] mt w at ok cs
    by (simp add: releaseTurn_def required_stored getRequired_eq hasPending_iff)
  have at'': "prow_at ?db ?k = Some ?c" using at id by (simp add: prow_at_set_row)
  have ok'': "db_ok ?db" by (rule db_ok_set_row [OF ok cinv id])
  have c: "?c = r\<lparr>updated_at_ms := m\<rparr>" unfolding r' using invr free by (rule clear_set_claim)
  have "prow_at ?db = (prow_at db')(?k \<mapsto> ?c)"
    using at id by (auto simp: prow_at_set_row fun_eq_iff)
  then have "prow_at ?db = (prow_at (st_db s))(?k \<mapsto>
      (case prow_at (st_db s) ?k of None \<Rightarrow> local_row identity n | Some r \<Rightarrow> r)\<lparr>updated_at_ms := m\<rparr>)"
    using row unfolding c tab(1) by auto
  moreover have "journals ?db = journals (st_db s)" "pendings ?db = pendings (st_db s)"
    using tab(2,3) by (simp_all add: set_row_def)
  moreover have "view ?c = view r"
    using free cr by (simp add: view_def r' clear_claim_def set_claim_def row_state_def claim_of_row_def)
  then have "view_at ?db ?k
      = Some (case view_at (st_db s) ?k of None \<Rightarrow> fresh_view | Some v \<Rightarrow> v)"
    using old at'' by (auto simp: view_at_def)
  moreover have "validateTurnClaim ?db cl = Inr False" "p_turnClaim (raw_placement ?c) = None"
    using cr validate_eq [OF ok'' cs(1) at'']
    by (cases "tc_owner cl"; simp add: worker_claim_held_def)+
  ultimately show ?thesis using rel id' by blast
qed

theorem claim_release_roundtrip_witness:
  "\<exists>db'' p identity. releaseTurn demo_db demo_claim 9 = Inr (db'', p) \<and> p_turnClaim p = None
    \<and> validateTurnClaim db'' demo_claim = Inr False
    \<and> normalizeIdentity (ci_identity demo_input) = Inr identity
    \<and> prow_at db'' = (prow_at (st_db initial_store))(tc_sessionId demo_claim \<mapsto>
        (case prow_at (st_db initial_store) (tc_sessionId demo_claim) of
            None \<Rightarrow> local_row identity 5 | Some r \<Rightarrow> r)\<lparr>updated_at_ms := 9\<rparr>)
    \<and> journals db'' = journals (st_db initial_store) \<and> pendings db'' = pendings (st_db initial_store)
    \<and> view_at db'' (tc_sessionId demo_claim)
        = Some (case view_at (st_db initial_store) (tc_sessionId demo_claim) of
            None \<Rightarrow> fresh_view | Some v \<Rightarrow> v)"
  by (rule claim_release_roundtrip [OF reachable.start, of demo_input 5])
    (simp add: initial_store_def demo_claimed)

subsection \<open>A run to a pending result\<close>

text \<open>
  The sample placement is dispatched, moves through the start-up states to an active worker, the
  worker claims a turn and its result becomes pending.
\<close>

definition demo_row :: "string \<Rightarrow> int \<Rightarrow> prow" where
  "demo_row st g = (local_row demo_identity 5)\<lparr>state := st, transition_generation := g\<rparr>"

definition demo_syncing :: prow where
  "demo_syncing = (demo_row ''syncing'' 3)\<lparr>environment_id := Some ''e1'',
     worker_bundle_hash := Some ''b''\<rparr>"

definition demo_starting :: prow where
  "demo_starting = demo_syncing\<lparr>state := ''starting'', transition_generation := 4,
     workspace_base_manifest_ref := Some demo_ref, remote_workspace_dir := Some ''/w''\<rparr>"

definition demo_active :: prow where
  "demo_active = demo_starting\<lparr>state := ''active'', transition_generation := 5,
     active_owner_epoch := Some 2\<rparr>"

definition demo_store_of :: "prow \<Rightarrow> pstore" where
  "demo_store_of r = initial_store\<lparr>st_db := empty_db\<lparr>placements := [r]\<rparr>\<rparr>"

definition demo_worker_input :: claim_input where
  "demo_worker_input = demo_input\<lparr>ci_owner := WorkerOwner ''e1'' 2\<rparr>"

definition demo_pending_store :: pstore where
  "demo_pending_store = initial_store\<lparr>st_db := demo_pending_db\<rparr>"

lemma committed: "map_sum id fst m = Inr d \<Longrightarrow> \<exists>p. m = Inr (d, p)"
  by (cases m) auto

lemma demo_commit:
  assumes "reachable gw (initial_store\<lparr>st_db := d\<rparr>)" "transaction gw d d' []"
  shows "reachable gw (initial_store\<lparr>st_db := d'\<rparr>)"
  using reachable.step [OF assms(1) pstep.commit, of d' "[]"] assms(2) by simp

lemma demo_moves:
  "map_sum id fst (startDispatch empty_db demo_identity 5 5) = Inr (st_db (demo_store_of (demo_row ''requested'' 1)))"
  "map_sum id fst (transition (st_db (demo_store_of (demo_row ''requested'' 1))) ''s1'' WRequested
     WProvisioning 1 empty_patch 5) = Inr (st_db (demo_store_of (demo_row ''provisioning'' 2)))"
  "map_sum id fst (transition (st_db (demo_store_of (demo_row ''provisioning'' 2))) ''s1'' WProvisioning
     WSyncing 2 (empty_patch\<lparr>pp_environmentId := Some (Some ''e1''), pp_workerBundleHash := Some (Some ''b'')\<rparr>) 5)
     = Inr (st_db (demo_store_of demo_syncing))"
  "map_sum id fst (transition (st_db (demo_store_of demo_syncing)) ''s1'' WSyncing WStarting 3
     (empty_patch\<lparr>pp_workspaceBaseManifestRef := Some (Some demo_ref), pp_remoteWorkspaceDir := Some (Some ''/w'')\<rparr>) 5)
     = Inr (st_db (demo_store_of demo_starting))"
  "map_sum id fst (transition (st_db (demo_store_of demo_starting)) ''s1'' WStarting WActive 4
     (empty_patch\<lparr>pp_activeOwnerEpoch := Some (Some 2)\<rparr>) 5) = Inr (st_db (demo_store_of demo_active))"
  "map_sum id fst (claimTurn (st_db (demo_store_of demo_active)) demo_worker_input 5) = Inr demo_worker_db"
  by code_simp+

lemma demo_step_transition:
  assumes "map_sum id fst (transition (st_db (demo_store_of r)) sid from to g patch n)
      = Inr (st_db (demo_store_of r'))" "reachable gw (demo_store_of r)"
  shows "reachable gw (demo_store_of r')"
proof -
  obtain p where "transition (st_db (demo_store_of r)) sid from to g patch n
      = Inr (st_db (demo_store_of r'), p)"
    using committed [OF assms(1)] by blast
  from demo_commit [OF _ transaction.t_transition [OF this], of gw] assms(2)
  show ?thesis by (simp add: demo_store_of_def)
qed

lemma demo_starting_reachable: "reachable gw (demo_store_of demo_starting)"
proof -
  have start: "reachable gw (initial_store\<lparr>st_db := empty_db\<rparr>)"
    using reachable.start [of gw] by (simp add: initial_store_def)
  obtain p where "startDispatch empty_db demo_identity 5 5
      = Inr (st_db (demo_store_of (demo_row ''requested'' 1)), p)"
    using committed [OF demo_moves(1)] by blast
  from demo_commit [OF start transaction.t_dispatch [OF this]]
  have "reachable gw (demo_store_of (demo_row ''requested'' 1))" by (simp add: demo_store_of_def)
  from demo_step_transition [OF demo_moves(2) this]
  have "reachable gw (demo_store_of (demo_row ''provisioning'' 2))" .
  from demo_step_transition [OF demo_moves(3) this]
  have "reachable gw (demo_store_of demo_syncing)" .
  from demo_step_transition [OF demo_moves(4) this] show ?thesis .
qed

lemma demo_active_reachable: "reachable gw (demo_store_of demo_active)"
  by (rule demo_step_transition [OF demo_moves(5) demo_starting_reachable])

lemma demo_worker_reachable: "reachable gw (initial_store\<lparr>st_db := demo_worker_db\<rparr>)"
proof -
  obtain cl where "claimTurn (st_db (demo_store_of demo_active)) demo_worker_input 5
      = Inr (demo_worker_db, cl)"
    using committed [OF demo_moves(6)] by blast
  from demo_commit [OF _ transaction.t_claim [OF this], of gw] demo_active_reachable [of gw]
  show ?thesis by (simp add: demo_store_of_def)
qed

lemma demo_pending_reachable: "reachable ''gw'' demo_pending_store"
  using demo_commit [OF demo_worker_reachable transaction.t_pending [OF demo_pending_inserted]]
  by (simp add: demo_pending_store_def)

subsection \<open>The result fence\<close>

text \<open>
  C6: a pending workspace result pins its session. The worker that produced it still holds the turn
  of an active or draining placement with the recorded environment, epoch and generation, and until
  the result is settled the turn cannot be released, drained, reconciled or reclaimed around it.
\<close>

theorem pending_result_fences:
  assumes "reachable gw s" "wrow_at (st_db s) k = Some w"
    and "required (tc_sessionId cl) FSessionId = Inr k" "required sid FSessionId = Inr k"
  shows "(\<exists>p. find_placement (st_db s) k = Inr (Some p)
      \<and> worker_claim_held p (w_environment_id w) (w_owner_epoch w) (w_claim_id w) (w_run_id w)
          (w_placement_generation w))
    \<and> \<not> succeeds (releaseTurn (st_db s) cl n)
    \<and> \<not> succeeds (startDrain (st_db s) sid env epoch g manifest n)
    \<and> \<not> succeeds (startReconcile (st_db s) sid env epoch g n)
    \<and> \<not> succeeds (finishReclaim (st_db s) sid env epoch g n)"
proof -
  have inv: "db_inv (st_db s)" using reachable_inv [OF assms(1)] by (simp add: store_inv_def)
  note ok = db_invD(1) [OF inv]
  obtain r where r: "prow_at (st_db s) k = Some r"
    using no_row_no_pending [OF inv] assms(2) by fastforce
  note fr = fence_row [OF db_invD(2) [OF inv] assms(2) r]
  have "\<exists>p. find_placement (st_db s) k = Inr (Some p)
      \<and> worker_claim_held p (w_environment_id w) (w_owner_epoch w) (w_claim_id w) (w_run_id w)
          (w_placement_generation w)"
    using r fr by (simp add: find_placement_eq [OF ok] held_raw)
  moreover have "\<not> succeeds (releaseTurn (st_db s) cl n)"
    using assms(2,3) by (auto simp: succeeds_iff elim!: releaseTurn_effect [OF ok])
  moreover have "\<not> succeeds (startDrain (st_db s) sid env epoch g manifest n)"
    using assms(2,4) by (auto simp: succeeds_iff elim!: startDrain_effect [OF ok])
  moreover have "\<not> succeeds (startReconcile (st_db s) sid env epoch g n)"
    using assms(2,4) by (auto simp: succeeds_iff elim!: startReconcile_effect [OF ok])
  moreover have "\<not> succeeds (finishReclaim (st_db s) sid env epoch g n)"
    using assms(2,4) by (auto simp: succeeds_iff elim!: finishReclaim_effect [OF ok])
  ultimately show ?thesis by blast
qed

definition demo_pending :: wrow where
  "demo_pending = hd (pendings demo_pending_db)"

theorem pending_result_fences_witness:
  "(\<exists>p. find_placement (st_db demo_pending_store) ''s1'' = Inr (Some p)
      \<and> worker_claim_held p (w_environment_id demo_pending) (w_owner_epoch demo_pending)
          (w_claim_id demo_pending) (w_run_id demo_pending) (w_placement_generation demo_pending))
    \<and> \<not> succeeds (releaseTurn (st_db demo_pending_store) demo_worker_claim 9)
    \<and> \<not> succeeds (startDrain (st_db demo_pending_store) ''s1'' ''e1'' 2 5 None 9)
    \<and> \<not> succeeds (startReconcile (st_db demo_pending_store) ''s1'' ''e1'' 2 5 9)
    \<and> \<not> succeeds (finishReclaim (st_db demo_pending_store) ''s1'' ''e1'' 2 5 9)"
proof (rule pending_result_fences [OF demo_pending_reachable])
  show "wrow_at (st_db demo_pending_store) ''s1'' = Some demo_pending"
    by (simp add: demo_pending_store_def demo_pending_def demo_pending_db_def wrow_at_def)
  show "required (tc_sessionId demo_worker_claim) FSessionId = Inr ''s1''"
    by (simp add: demo_worker_claim_def)
qed simp

end
