(* ===== verification/Placement_Projector.thy ===== *)
theory Placement_Projector
  imports Placement_Store
begin

section \<open>What operators and workers see of a placement\<close>

text \<open>
  \<^verbatim>\<open>placement-projector.ts\<close> turns a stored record into the object the gateway sends
  to operators, \<^verbatim>\<open>placement-worker-gate.ts\<close> answers whether a worker process still
  owns the turn it reports for. An object literal with conditional spreads is the list of its
  properties in source order.
\<close>

subsection \<open>The operator projection\<close>

definition opt_text :: "string \<Rightarrow> string option \<Rightarrow> (string \<times> json) list" where
  "opt_text key v = (if truthy_str v then jopt key (map_option JStr v) else [])"

definition opt_number :: "string \<Rightarrow> int option \<Rightarrow> (string \<times> json) list" where
  "opt_number key v = jopt key (map_option jint v)"

text \<open>A property the record's type guarantees to be there: null would be sent as null.\<close>

fun field_text :: "string \<Rightarrow> string option \<Rightarrow> (string \<times> json) list" where
  "field_text key None = [(key, JNull)]"
| "field_text key (Some v) = [(key, JStr v)]"

fun field_number :: "string \<Rightarrow> int option \<Rightarrow> (string \<times> json) list" where
  "field_number key None = [(key, JNull)]"
| "field_number key (Some v) = [(key, jint v)]"

definition conflict_json :: "wconflict \<Rightarrow> json" where
  "conflict_json c = JObj [(''paths'', JArr (map JStr (wc_paths c))),
     (''stagedResultRef'', JStr (wc_stagedResultRef c)), (''totalCount'', jint (wc_totalCount c))]"

definition projected_timing :: "placement \<Rightarrow> (string \<times> json) list" where
  "projected_timing p = [(''generation'', jint (p_generation p)), (''createdAtMs'', jint (p_createdAtMs p)),
     (''updatedAtMs'', jint (p_updatedAtMs p)), (''stateChangedAtMs'', jint (p_stateChangedAtMs p))]"

definition projected_cursors :: "placement \<Rightarrow> (string \<times> json) list" where
  "projected_cursors p = opt_number ''lastTranscriptAckCursor'' (p_lastTranscriptAckCursor p)
     @ opt_number ''lastLiveEventAckCursor'' (p_lastLiveEventAckCursor p)
     @ jopt ''workspaceResultConflict'' (map_option conflict_json (p_workspaceResultConflict p))"

text \<open>The body shared by active, draining and reconciling, and the one of reclaimed and failed.\<close>

definition projected_owned :: "placement \<Rightarrow> (string \<times> json) list" where
  "projected_owned p = field_text ''environmentId'' (p_environmentId p)
     @ field_number ''activeOwnerEpoch'' (p_activeOwnerEpoch p)
     @ field_text ''workerBundleHash'' (p_workerBundleHash p)
     @ field_text ''workspaceBaseManifestRef'' (p_workspaceBaseManifestRef p)
     @ field_text ''remoteWorkspaceDir'' (p_remoteWorkspaceDir p) @ projected_cursors p"

definition projected_terminal :: "placement \<Rightarrow> (string \<times> json) list" where
  "projected_terminal p = opt_text ''environmentId'' (p_environmentId p)
     @ opt_number ''activeOwnerEpoch'' (p_activeOwnerEpoch p)
     @ opt_text ''workspaceBaseManifestRef'' (p_workspaceBaseManifestRef p)
     @ opt_text ''remoteWorkspaceDir'' (p_remoteWorkspaceDir p)
     @ opt_text ''workerBundleHash'' (p_workerBundleHash p) @ projected_cursors p"

definition projectWorkerSessionPlacement :: "placement \<Rightarrow> (string \<times> json) list" where
  "projectWorkerSessionPlacement p =
     (''state'', JStr (ws_text (p_state p))) # projected_timing p
     @ (case p_state p of
          WLocal \<Rightarrow> []
        | WRequested \<Rightarrow> []
        | WProvisioning \<Rightarrow> opt_text ''environmentId'' (p_environmentId p)
        | WSyncing \<Rightarrow> field_text ''environmentId'' (p_environmentId p)
            @ field_text ''workerBundleHash'' (p_workerBundleHash p)
        | WStarting \<Rightarrow> field_text ''environmentId'' (p_environmentId p)
            @ field_text ''workerBundleHash'' (p_workerBundleHash p)
            @ field_text ''workspaceBaseManifestRef'' (p_workspaceBaseManifestRef p)
            @ field_text ''remoteWorkspaceDir'' (p_remoteWorkspaceDir p)
        | WActive \<Rightarrow> projected_owned p
        | WDraining \<Rightarrow> projected_owned p
        | WReconciling \<Rightarrow> projected_owned p
        | WReclaimed \<Rightarrow> projected_terminal p
        | WFailed \<Rightarrow> projected_terminal p @ field_text ''recoveryError'' (p_recoveryError p))"

subsection \<open>The worker gate\<close>

record turn_binding =
  b_sessionId :: string
  b_environmentId :: string
  b_ownerEpoch :: int
  b_runId :: string

definition claimForBinding :: "placement option \<Rightarrow> turn_binding \<Rightarrow> turn_claim option" where
  "claimForBinding found b =
     (case found of
        None \<Rightarrow> None
      | Some p \<Rightarrow>
          (if (p_state p \<noteq> WActive \<and> p_state p \<noteq> WDraining)
              \<or> p_environmentId p \<noteq> Some (b_environmentId b)
              \<or> p_activeOwnerEpoch p \<noteq> Some (b_ownerEpoch b)
           then None
           else (case p_turnClaim p of
                   Some (PWorker c rid g epoch) \<Rightarrow>
                     (if rid \<noteq> b_runId b \<or> epoch \<noteq> b_ownerEpoch b then None
                      else Some \<lparr>tc_sessionId = b_sessionId b, tc_claimId = c, tc_runId = rid,
                        tc_placementGeneration = g,
                        tc_owner = WorkerOwner (b_environmentId b) (b_ownerEpoch b)\<rparr>)
                 | _ \<Rightarrow> None)))"

text \<open>\<open>reread\<close> is the database at the second read, of \<^verbatim>\<open>validateTurnClaim\<close>.\<close>

definition validateWorkerTurn :: "pstore \<Rightarrow> pdb \<Rightarrow> turn_binding \<Rightarrow> perr + bool" where
  "validateWorkerTurn s reread b =
     bnd (get_placement s (b_sessionId b)) (\<lambda>found.
       (case claimForBinding found b of
          None \<Rightarrow> Inr False
        | Some claim \<Rightarrow> validateTurnClaim reread claim))"

definition gateUpdateAckCursors ::
    "string \<Rightarrow> pstore \<Rightarrow> pdb \<Rightarrow> turn_binding \<Rightarrow> int option \<Rightarrow> int option \<Rightarrow> bool \<Rightarrow> int \<Rightarrow> int \<Rightarrow>
     perr + pdb" where
  "gateUpdateAckCursors instanceId s db b transcriptSeq liveSeq pending nowMs pendingNowMs =
     bnd (get_placement s (b_sessionId b)) (\<lambda>found.
       (case claimForBinding found b of
          None \<Rightarrow> Inl EStaleOwner
        | Some claim \<Rightarrow>
            bnd (updateAckCursors instanceId db claim transcriptSeq liveSeq pending nowMs
                  pendingNowMs) (\<lambda>(db', p). Inr db')))"

subsection \<open>Uniformity\<close>

text \<open>Where a value is there the three ways to write a property agree.\<close>

lemma opt_text_clean: "clean_str v \<Longrightarrow> opt_text key v = jopt key (map_option JStr v)"
  by (cases v) (auto simp: opt_text_def)

lemma field_some:
  "v \<noteq> None \<Longrightarrow> field_text key v = jopt key (map_option JStr v)"
  "n \<noteq> None \<Longrightarrow> field_number key n = jopt key (map_option jint n)"
  by auto

lemma jprop_cons: "jprop ((a, v) # xs) k = (if k = a then Some v else jprop xs k)"
  by (simp add: jprop_def)

lemma jprop_nil: "jprop [] k = None"
  by (simp add: jprop_def)

lemma case_option_id: "(case v of None \<Rightarrow> None | Some x \<Rightarrow> Some x) = v"
    "(case map_option f w of None \<Rightarrow> None | Some x \<Rightarrow> Some x) = map_option f w"
  by (simp_all split: option.split)

lemma jprop_field_append:
  "v \<noteq> None \<Longrightarrow> jprop (field_text a v @ ys) k = (if k = a then map_option JStr v else jprop ys k)"
  "n \<noteq> None \<Longrightarrow> jprop (field_number a n @ ys) k = (if k = a then map_option jint n else jprop ys k)"
  "v \<noteq> None \<Longrightarrow> jprop (field_text a v) k = (if k = a then map_option JStr v else None)"
  by (auto simp: jprop_def)

lemma jprop_jopt_append: "jprop (jopt a v @ ys) k = (if k = a \<and> v \<noteq> None then v else jprop ys k)"
  by (cases v) (auto simp: jprop_def)

lemmas jprop_simps = jprop_field_append jprop_jopt_append jprop_cons jprop_jopt jprop_nil
  case_option_id append_assoc

text \<open>A recorded conflict adds its own property and changes no other.\<close>

definition conflict_key :: string where
  "conflict_key = ''workspaceResultConflict''"

lemma jprop_without: "k \<noteq> c \<Longrightarrow> jprop (filter (\<lambda>e. fst e \<noteq> c) xs) k = jprop xs k"
  by (induction xs) (auto simp: jprop_def)

lemma filter_written [simp]:
  "filter (\<lambda>e. fst e \<noteq> c) (jopt a v) = (if a = c then [] else jopt a v)"
  "filter (\<lambda>e. fst e \<noteq> c) (field_text a t) = (if a = c then [] else field_text a t)"
  "filter (\<lambda>e. fst e \<noteq> c) (field_number a n) = (if a = c then [] else field_number a n)"
  by (cases v, simp_all) (cases t, simp_all, cases n, simp_all)

lemma filter_written_opt [simp]:
  "filter (\<lambda>e. fst e \<noteq> c) (opt_text a t) = (if a = c then [] else opt_text a t)"
  "filter (\<lambda>e. fst e \<noteq> c) (opt_number a n) = (if a = c then [] else opt_number a n)"
  by (simp_all add: opt_text_def opt_number_def)

lemma projection_conflict:
  assumes "k \<noteq> conflict_key"
  shows "jprop (projectWorkerSessionPlacement (p\<lparr>p_workspaceResultConflict := c\<rparr>)) k
    = jprop (projectWorkerSessionPlacement p) k"
proof -
  have "filter (\<lambda>e. fst e \<noteq> conflict_key) (projectWorkerSessionPlacement (p\<lparr>p_workspaceResultConflict := c\<rparr>))
      = filter (\<lambda>e. fst e \<noteq> conflict_key) (projectWorkerSessionPlacement p)"
    by (simp add: projectWorkerSessionPlacement_def projected_timing_def projected_owned_def
        projected_terminal_def projected_cursors_def conflict_key_def split: wstate.split)
  then show ?thesis using jprop_without [OF assms] by metis
qed

lemma jopt_keys: "fst ` set (jopt a v) \<subseteq> {a}"
  by (cases v) simp_all

lemma field_keys: "fst ` set (field_text a t) \<subseteq> {a}" "fst ` set (field_number a n) \<subseteq> {a}"
  by (cases t, simp_all) (cases n, simp_all)

lemma opt_keys: "fst ` set (opt_text a t) \<subseteq> {a}" "fst ` set (opt_number a n) \<subseteq> {a}"
  using jopt_keys by (auto simp: opt_text_def opt_number_def)

lemmas written_keys = jopt_keys field_keys opt_keys

end
