(* ===== verification/Placement_Outcomes.thy ===== *)
theory Placement_Outcomes
  imports Placement_Turns Placement_Projector
begin

section \<open>Views of a placement\<close>

text \<open>
  What the projection of a placement shows to operators, compared with one uniform description of
  its properties.
\<close>

subsection \<open>The projection\<close>

definition projected_keys :: "string list" where
  "projected_keys = [''state'', ''generation'', ''createdAtMs'', ''updatedAtMs'', ''stateChangedAtMs'',
     ''environmentId'', ''activeOwnerEpoch'', ''workspaceBaseManifestRef'',
     ''remoteWorkspaceDir'', ''workerBundleHash'', ''lastTranscriptAckCursor'',
     ''lastLiveEventAckCursor'', ''recoveryError'']"

text \<open>The reference: a column is shown exactly when it is not null, whatever the state.\<close>

fun column_json :: "prow \<Rightarrow> string \<Rightarrow> json option" where
  "column_json r key =
     (if key = ''environmentId'' then map_option JStr (environment_id r)
      else if key = ''activeOwnerEpoch'' then map_option jint (active_owner_epoch r)
      else if key = ''workspaceBaseManifestRef'' then map_option JStr (workspace_base_manifest_ref r)
      else if key = ''remoteWorkspaceDir'' then map_option JStr (remote_workspace_dir r)
      else if key = ''workerBundleHash'' then map_option JStr (worker_bundle_hash r)
      else if key = ''lastTranscriptAckCursor'' then map_option jint (last_transcript_ack_cursor r)
      else if key = ''lastLiveEventAckCursor'' then map_option jint (last_live_event_ack_cursor r)
      else if key = ''recoveryError'' then map_option JStr (recovery_error r)
      else if key = ''state'' then Some (JStr (state r))
      else if key = ''generation'' then Some (jint (transition_generation r))
      else if key = ''createdAtMs'' then Some (jint (created_at_ms r))
      else if key = ''updatedAtMs'' then Some (jint (updated_at_ms r))
      else if key = ''stateChangedAtMs'' then Some (jint (state_changed_at_ms r))
      else None)"

lemma projection_columns:
  assumes "row_inv r"
  shows "list_all (\<lambda>key. jprop (projectWorkerSessionPlacement (raw_placement r)) key
    = column_json r key) projected_keys"
proof -
  note f = row_inv_facts [OF assms]
  have c: "clean_str (environment_id r)" "clean_str (workspace_base_manifest_ref r)"
    "clean_str (remote_workspace_dir r)" "clean_str (worker_bundle_hash r)" "clean_str (recovery_error r)"
    using f(1) by (simp_all add: columns_ok_def)
  note defs = projectWorkerSessionPlacement_def projected_timing_def projected_owned_def
    projected_terminal_def projected_cursors_def opt_number_def opt_text_clean [OF c(1)]
    opt_text_clean [OF c(2)] opt_text_clean [OF c(3)] opt_text_clean [OF c(4)] jprop_simps f(3)
    projected_keys_def
  have owned: "environment_id r \<noteq> None \<and> active_owner_epoch r \<noteq> None
      \<and> workspace_base_manifest_ref r \<noteq> None \<and> remote_workspace_dir r \<noteq> None
      \<and> worker_bundle_hash r \<noteq> None \<and> recovery_error r = None"
    if "row_state r \<in> {WActive, WDraining, WReconciling, WReclaimed}"
    using f(4) that by (auto simp: shape_metadata_def truthy_str_iff split: option.splits)
  have bare: "active_owner_epoch r = None \<and> last_transcript_ack_cursor r = None
      \<and> last_live_event_ack_cursor r = None \<and> recovery_error r = None"
    if "row_state r \<in> {WLocal, WRequested, WProvisioning, WSyncing, WStarting}"
    using f(4) that by (auto simp: shape_metadata_def)
  have started: "environment_id r \<noteq> None \<and> worker_bundle_hash r \<noteq> None
      \<and> (workspace_base_manifest_ref r \<noteq> None \<longleftrightarrow> row_state r = WStarting)
      \<and> (remote_workspace_dir r \<noteq> None \<longleftrightarrow> row_state r = WStarting)"
    if "row_state r \<in> {WSyncing, WStarting}"
    using f(4) that by (auto simp: shape_metadata_def truthy_str_iff)
  have failed: "recovery_error r \<noteq> None" if "row_state r = WFailed"
    using f(4) that by (auto simp: shape_metadata_def truthy_str_iff)
  show ?thesis
  proof (cases "row_state r")
    case WLocal
    then show ?thesis using f(4) bare by (simp add: defs shape_metadata_def)
  next
    case WRequested
    then show ?thesis using f(4) bare by (simp add: defs shape_metadata_def)
  next
    case WProvisioning
    then show ?thesis using f(4) bare by (simp add: defs shape_metadata_def)
  next
    case WSyncing
    then show ?thesis using started bare by (simp add: defs)
  next
    case WStarting
    then show ?thesis using started bare by (simp add: defs)
  next
    case WActive
    then show ?thesis using owned by (simp add: defs)
  next
    case WDraining
    then show ?thesis using owned by (simp add: defs)
  next
    case WReconciling
    then show ?thesis using owned by (simp add: defs)
  next
    case WReclaimed
    then show ?thesis using owned by (simp add: defs)
  next
    case WFailed
    then show ?thesis using failed by (simp add: defs)
  qed
qed

lemma projection_keys:
  "fst ` set (projectWorkerSessionPlacement p) \<subseteq> set (conflict_key # projected_keys)"
proof -
  have sub: "fst ` set xs \<subseteq> S \<Longrightarrow> fst ` set ys \<subseteq> S \<Longrightarrow> fst ` set (xs @ ys) \<subseteq> S"
    for xs ys :: "(string \<times> json) list" and S by auto
  have keys: "{a} \<subseteq> set (conflict_key # projected_keys)"
    if "a \<in> set (conflict_key # projected_keys)" for a using that by simp
  show ?thesis
    unfolding projectWorkerSessionPlacement_def projected_timing_def projected_owned_def
      projected_terminal_def projected_cursors_def
    by (cases "p_state p";
        auto simp: projected_keys_def conflict_key_def
          dest!: subsetD [OF written_keys(1), OF imageI] subsetD [OF written_keys(2), OF imageI]
            subsetD [OF written_keys(3), OF imageI] subsetD [OF written_keys(4), OF imageI]
            subsetD [OF written_keys(5), OF imageI])
qed

text \<open>
  the operator projection is uniform. Whatever state a stored placement is in, its projection
  shows each column exactly when the column is not null, and nothing else: never the turn claim,
  the agent or the session key.
\<close>

theorem projection_is_uniform:
  assumes "reachable gw s" "get_placement s k = Inr (Some p)"
  shows "\<exists>r. prow_at (st_db s) (p_sessionId p) = Some r
    \<and> list_all (\<lambda>key. jprop (projectWorkerSessionPlacement p) key = column_json r key) projected_keys
    \<and> fst ` set (projectWorkerSessionPlacement p) \<subseteq> set (conflict_key # projected_keys)"
proof -
  have ok: "db_ok (st_db s)" using reachable_inv [OF assms(1)] by (simp add: store_inv_def db_inv_def)
  from assms(2) obtain k' r where k': "required k FSessionId = Inr k'"
    and r: "prow_at (st_db s) k' = Some r" and p: "p = withWorkspaceResultConflict s (raw_placement r)"
    unfolding get_placement_def by (auto simp: find_placement_eq [OF ok])
  have id: "p_sessionId p = k'"
    using prow_at_key [OF r] by (simp add: p withWorkspaceResultConflict_def split: option.split)
  have "conflict_key \<notin> set projected_keys" by (simp add: conflict_key_def projected_keys_def)
  then have "jprop (projectWorkerSessionPlacement p) key
      = jprop (projectWorkerSessionPlacement (raw_placement r)) key" if "key \<in> set projected_keys" for key
    using that projection_conflict [of key] unfolding p withWorkspaceResultConflict_def
    by (auto split: option.split)
  then show ?thesis
    using projection_columns [OF prow_at_inv [OF ok r]] projection_keys [of p] r id
    by (auto simp: list_all_iff)
qed

theorem projection_is_uniform_witness:
  "\<exists>r. prow_at (st_db demo_store) (p_sessionId (raw_placement demo_local_row)) = Some r
    \<and> list_all (\<lambda>key. jprop (projectWorkerSessionPlacement (raw_placement demo_local_row)) key
        = column_json r key) projected_keys
    \<and> fst ` set (projectWorkerSessionPlacement (raw_placement demo_local_row))
        \<subseteq> set (conflict_key # projected_keys)"
proof (rule projection_is_uniform [OF demo_reachable])
  show "get_placement demo_store ''s1'' = Inr (Some (raw_placement demo_local_row))"
    by code_simp
qed

end
