(* ===== verification/Placement_Runs.thy ===== *)
theory Placement_Runs
  imports Placement_Turns Placement_Projector
begin

section \<open>Workers, waiters and recovery\<close>

text \<open>
  When the worker gate opens, that nobody waits in vain for a claim release, and how much of a
  workspace conflict is shown.
\<close>

subsection \<open>The worker gate\<close>

text \<open>
  a worker process may go on with its turn exactly when the session's stored placement is an
  active or draining one of its environment and epoch and carries a worker claim of its run.
\<close>

theorem worker_gate_opens:
  assumes "reachable gw s" "required (b_sessionId b) FSessionId = Inr k"
  shows "validateWorkerTurn s (st_db s) b = Inr (case prow_at (st_db s) k of
      None \<Rightarrow> False
    | Some r \<Rightarrow> row_state r \<in> {WActive, WDraining}
        \<and> environment_id r = Some (b_environmentId b) \<and> active_owner_epoch r = Some (b_ownerEpoch b)
        \<and> turn_claim_owner r = Some ''worker'' \<and> turn_claim_run_id r = Some (b_runId b))"
proof -
  have ok: "db_ok (st_db s)" using reachable_inv [OF assms(1)] by (simp add: store_inv_def db_inv_def)
  show ?thesis
  proof (cases "prow_at (st_db s) k")
    case None
    then show ?thesis
      using assms(2) by (simp add: validateWorkerTurn_def get_placement_def find_placement_eq [OF ok]
          claimForBinding_def)
  next
    case (Some r)
    let ?p = "withWorkspaceResultConflict s (raw_placement r)"
    note inv = prow_at_inv [OF ok Some]
    have sel: "p_state ?p = row_state r" "p_environmentId ?p = environment_id r"
      "p_activeOwnerEpoch ?p = active_owner_epoch r" "p_turnClaim ?p = claim_of_row r"
      by (simp_all add: withWorkspaceResultConflict_def split: option.split)
    have found: "get_placement s (b_sessionId b) = Inr (Some ?p)"
      using Some assms(2) by (simp add: get_placement_def find_placement_eq [OF ok])
    have val: "validateTurnClaim (st_db s) cl = Inr (claim_matches (raw_placement r) (tc_owner cl)
        (tc_claimId cl) (tc_runId cl) (tc_placementGeneration cl))" if "tc_sessionId cl = b_sessionId b" for cl
      using that Some assms(2) by (simp add: validateTurnClaim_def find_placement_eq [OF ok])
    show ?thesis
      using row_inv_facts(2) [OF inv]
    proof (cases rule: claim_okE)
      case (worker c rid g e)
      then have "claim_of_row r = Some (PWorker c rid g e)" "active_owner_epoch r = Some e"
        using row_claim_states(2) [OF inv] by (simp_all add: claim_of_row_def)
      then show ?thesis
        using worker Some by (auto simp: validateWorkerTurn_def found claimForBinding_def sel val held_raw)
    qed (use Some in \<open>simp_all add: validateWorkerTurn_def found claimForBinding_def sel claim_of_row_def
        split: option.split\<close>)
  qed
qed

lemma demo_pending_row: "prow_at (st_db demo_pending_store) ''s1'' = Some demo_worker_row"
  using demo_worker_ok(2) by (simp add: demo_pending_store_def demo_pending_db_def prow_at_def)

definition demo_binding :: turn_binding where
  "demo_binding = \<lparr>b_sessionId = ''s1'', b_environmentId = ''e1'', b_ownerEpoch = 2, b_runId = ''r1''\<rparr>"

theorem worker_gate_opens_witness:
  "validateWorkerTurn demo_pending_store (st_db demo_pending_store) demo_binding = Inr True"
proof -
  have k: "required (b_sessionId demo_binding) FSessionId = Inr ''s1''"
    by (simp add: demo_binding_def)
  have "row_state demo_worker_row \<in> {WActive, WDraining}
        \<and> environment_id demo_worker_row = Some (b_environmentId demo_binding)
        \<and> active_owner_epoch demo_worker_row = Some (b_ownerEpoch demo_binding)
        \<and> turn_claim_owner demo_worker_row = Some ''worker''
        \<and> turn_claim_run_id demo_worker_row = Some (b_runId demo_binding)"
    by code_simp
  then show ?thesis
    unfolding worker_gate_opens [OF demo_pending_reachable k] demo_pending_row by simp
qed

subsection \<open>Waiting for a release\<close>

lemma reachable_run: "(pstep gw)\<^sup>*\<^sup>* s s' \<Longrightarrow> reachable gw s \<Longrightarrow> reachable gw s'"
  by (induction rule: rtranclp_induct) (auto intro: reachable.step)

text \<open>
  no wake-up is lost. A wait that registers finds the turn held, and in every later state of
  the run in which the session's turn is no longer held the waiter is gone from the registry: it
  has been resolved (or has given up), never left behind.
\<close>

theorem waiters_are_woken:
  assumes "reachable gw s"
    "waitForTurnClaimRelease s k0 timeout aborted w (st_db s) = Inr (s1, WaitRegistered)"
    "required k0 FSessionId = Inr k" "(pstep gw)\<^sup>*\<^sup>* s1 s'" "\<not> claimed (st_db s') k"
  shows "claimed (st_db s) k \<and> w \<in> set (waiters_of s1 k) \<and> waiters_of s' k = []"
proof -
  have ok: "db_ok (st_db s)" using reachable_inv [OF assms(1)] by (simp add: store_inv_def db_inv_def)
  from wait_Inr [OF ok assms(2)] assms(3)
  have "claimed (st_db s) k \<and> w \<in> set (waiters_of s1 k)" by (metis sum.inject(2) wait_result.simps(4))
  moreover have "reachable gw s1" using reachable.step [OF assms(1) pstep.wait [OF assms(2)]] .
  then have "waiters_ok s'"
    using reachable_inv [OF reachable_run [OF assms(4)]] by (simp add: store_inv_def)
  ultimately show ?thesis using assms(5) by (auto simp: waiters_ok_def)
qed

definition demo_waiting :: pstore where
  "demo_waiting = demo_store\<lparr>st_waiters := [(''s1'', [7])]\<rparr>"

definition demo_released :: pstore where
  "demo_released = initial_store\<lparr>st_db := empty_db\<lparr>placements := [clear_claim 9 demo_local_row]\<rparr>\<rparr>"

lemma demo_wait: "waitForTurnClaimRelease demo_store ''s1'' 1000 False 7 (st_db demo_store)
    = Inr (demo_waiting, WaitRegistered)"
  by code_simp

lemma demo_release: "map_sum id fst (releaseTurn demo_db demo_claim 9) = Inr (st_db demo_released)"
  by code_simp

lemma demo_wake: "pstep ''gw'' demo_waiting demo_released"
proof -
  obtain p where p: "releaseTurn (st_db demo_waiting) demo_claim 9 = Inr (st_db demo_released, p)"
    using committed [OF demo_release] by (auto simp: demo_waiting_def demo_store_def)
  have "required (tc_sessionId demo_claim) FSessionId = Inr ''s1''" by (simp add: demo_claim_def)
  from pstep.commit [OF transaction.t_release [OF p this], of "''gw''"]
  show ?thesis
    by (simp add: demo_waiting_def demo_released_def demo_store_def initial_store_def
        signalTurnClaimRelease_def jm_delete_def)
qed

theorem waiters_are_woken_witness:
  "claimed (st_db demo_store) ''s1'' \<and> 7 \<in> set (waiters_of demo_waiting ''s1'')
    \<and> waiters_of demo_released ''s1'' = []"
proof (rule waiters_are_woken [OF demo_reachable demo_wait _ r_into_rtranclp [of "pstep ''gw''", OF demo_wake]])
  show "\<not> claimed (st_db demo_released) ''s1''"
    by (auto simp: claimed_def prow_at_def demo_released_def claim_of_row_def clear_claim_def)
qed simp

subsection \<open>The conflict on show\<close>

lemma project_paths_bounds:
  "count \<le> MAX_PROJECTED_CONFLICT_PATHS \<Longrightarrow> bytes \<le> MAX_PROJECTED_CONFLICT_PATH_BYTES \<Longrightarrow>
   count + length (project_paths count bytes ps) \<le> MAX_PROJECTED_CONFLICT_PATHS
   \<and> bytes + sum_list (map utf8_length (project_paths count bytes ps)) \<le> MAX_PROJECTED_CONFLICT_PATH_BYTES
   \<and> prefix (project_paths count bytes ps) ps"
proof (induction count bytes ps rule: project_paths.induct)
  case (2 count bytes p rest)
  then show ?case by (auto simp: not_le not_less)
qed simp

text \<open>The loop stops for a reason: with a path left over, the next one would pass a bound.\<close>

lemma project_paths_maximal:
  "project_paths count bytes ps = ps
   \<or> (\<exists>p rest. ps = project_paths count bytes ps @ p # rest
      \<and> (MAX_PROJECTED_CONFLICT_PATHS \<le> count + length (project_paths count bytes ps)
         \<or> MAX_PROJECTED_CONFLICT_PATH_BYTES
            < bytes + sum_list (map utf8_length (project_paths count bytes ps)) + utf8_length p))"
  by (induction count bytes ps rule: project_paths.induct) (auto simp: add.assoc)

text \<open>
  the conflict shown to operators is bounded: at most 256 paths and 32 KiB of them, sorted and
  without duplicates, the longest such start of the sorted list of all conflicting paths, with a
  count that is never below the number of them.
\<close>

theorem conflict_projection_bounded:
  assumes "projectWorkspaceResultConflict paths ref known = Inr c"
  shows "length (wc_paths c) \<le> 256 \<and> sum_list (map utf8_length (wc_paths c)) \<le> 32768
    \<and> sorted_wrt (<) (wc_paths c) \<and> wc_paths c \<noteq> []
    \<and> prefix (wc_paths c) (sort (uniqueValues paths)) \<and> int (card (set paths)) \<le> wc_totalCount c
    \<and> (wc_paths c = sort (uniqueValues paths) \<or> length (wc_paths c) = 256
       \<or> 32768 < sum_list (map utf8_length (wc_paths c))
          + utf8_length (sort (uniqueValues paths) ! length (wc_paths c)))"
proof -
  let ?u = "sort (uniqueValues paths)"
  have c: "wc_paths c = project_paths 0 0 ?u" "wc_paths c \<noteq> []"
    "int (length (uniqueValues paths)) \<le> wc_totalCount c"
    using assms by (auto simp: projectWorkspaceResultConflict_def Let_def split: if_splits)
  have b: "length (wc_paths c) \<le> 256 \<and> sum_list (map utf8_length (wc_paths c)) \<le> 32768
      \<and> prefix (wc_paths c) ?u"
    using project_paths_bounds [of 0 0 ?u] unfolding c(1)
    by (simp add: MAX_PROJECTED_CONFLICT_PATHS_def MAX_PROJECTED_CONFLICT_PATH_BYTES_def)
  have "sorted_wrt (<) ?u" by (simp add: strict_sorted_iff)
  then have "sorted_wrt (<) (wc_paths c)" using b by (auto simp: prefix_def sorted_wrt_append)
  moreover have "card (set paths) = length (uniqueValues paths)"
    using distinct_card [OF distinct_uniqueValues, of paths] by simp
  moreover have "wc_paths c = ?u \<or> length (wc_paths c) = 256
       \<or> 32768 < sum_list (map utf8_length (wc_paths c)) + utf8_length (?u ! length (wc_paths c))"
    using project_paths_maximal [of 0 0 ?u] b unfolding c(1)
    by (auto simp: MAX_PROJECTED_CONFLICT_PATHS_def MAX_PROJECTED_CONFLICT_PATH_BYTES_def
        dest: arg_cong [where f = "\<lambda>xs. xs ! length (project_paths 0 0 ?u)"])
  ultimately show ?thesis using b c(2,3) by simp
qed

theorem conflict_projection_bounded_witness:
  "length [''a'', ''b''] \<le> 256 \<and> sum_list (map utf8_length [''a'', ''b'']) \<le> 32768
    \<and> sorted_wrt (<) [''a'', ''b''] \<and> [''a'', ''b''] \<noteq> []
    \<and> prefix [''a'', ''b''] (sort (uniqueValues [''b'', ''a'', ''b'']))
    \<and> int (card (set [''b'', ''a'', ''b''])) \<le> 5"
proof -
  have s: "sort (uniqueValues [''b'', ''a'', ''b'']) = [''a'', ''b'']"
    by code_simp
  have "projectWorkspaceResultConflict [''b'', ''a'', ''b''] ''r'' (Some 5)
      = Inr \<lparr>wc_paths = [''a'', ''b''], wc_stagedResultRef = ''r'', wc_totalCount = 5\<rparr>"
    unfolding projectWorkspaceResultConflict_def s
    by (simp add: Let_def uniqueValues_def utf8_length_def MAX_PROJECTED_CONFLICT_PATHS_def
        MAX_PROJECTED_CONFLICT_PATH_BYTES_def)
  from conflict_projection_bounded [OF this] show ?thesis by simp
qed

end
