(* ===== verification/Manifest_Facts.thy ===== *)
theory Manifest_Facts
  imports Workspace_Manifest
begin

section \<open>What an accepted manifest and a stored plan promise\<close>

text \<open>
  Paths stay inside the workspace, entries come sorted with their parent directories listed,
  symlinks that never climb above the root are accepted, a stored plan reads back as it was
  written.
\<close>

subsection \<open>Paths\<close>

text \<open>
  The reference reading of a relative path from a directory: \<open>path_walk\<close> keeps the directories
  entered below the root and gives up when \<^verbatim>\<open>..\<close> would leave it.
\<close>

fun path_walk :: "string list \<Rightarrow> string list \<Rightarrow> string list option" where
  "path_walk st [] = Some st"
| "path_walk st (s # ss) =
     (if s = [] \<or> s = dot then path_walk st ss
      else if s = dotdot then (case st of [] \<Rightarrow> None | t # r \<Rightarrow> path_walk r ss)
      else path_walk (s # st) ss)"

lemma path_walk_plain: "list_all plain_seg ss \<Longrightarrow> path_walk st ss = Some (rev ss @ st)"
  by (induction ss arbitrary: st) (auto simp: plain_seg_def)

lemma path_walk_append: "path_walk st (ss @ ts) =
    (case path_walk st ss of None \<Rightarrow> None | Some st' \<Rightarrow> path_walk st' ts)"
  by (induction st ss rule: path_walk.induct) (auto split: list.splits)

lemma js_join_replicate_dotdot:
  "js_join slash (replicate (Suc n) dotdot @ ps) =
     dotdot @ (if n = 0 \<and> ps = [] then [] else slash # js_join slash (replicate n dotdot @ ps))"
  by (cases n; cases ps) auto

lemma js_split_trailing: "js_split c (s @ [c]) = js_split c s @ [[]]"
proof (induction s)
  case (Cons x xs)
  have "js_split c xs \<noteq> []" by simp
  with Cons show ?case by (cases "js_split c xs") auto
qed simp

lemma plain_no_slash: "list_all plain_seg ss \<Longrightarrow> s \<in> set ss \<Longrightarrow> slash \<notin> set s"
  by (auto simp: list_all_iff plain_seg_def)

text \<open>The shape of a path the parser accepts.\<close>

lemma manifestPath_form:
  assumes "manifestPath v = Inr p"
  obtains segs trailing where "list_all plain_seg segs"
    "p = (if segs = [] then dot else js_join slash segs) @ (if trailing then [slash] else [])"
    "segs = [] \<Longrightarrow> trailing"
proof -
  from assms have p: "p \<noteq> []" "\<not> posix_isAbsolute p" "posix_normalize p = p" "p \<noteq> dot"
    "p \<noteq> dotdot" "\<not> prefix (dotdot @ [slash]) p"
    by (auto simp: manifestPath_def split: option.splits if_splits)
  then have hd: "hd p \<noteq> slash" by (simp add: posix_isAbsolute_def)
  obtain n ps where nf: "normalizeString p True = replicate n dotdot @ ps" "list_all plain_seg ps"
    using normalizeString_form [of p True] by blast
  define tr where "tr \<longleftrightarrow> last p = slash"
  define path where "path = js_join slash (replicate n dotdot @ ps)"
  have eq: "p = (if path = [] then if tr then dot @ [slash] else dot
      else path @ (if tr then [slash] else []))"
  proof -
    have "p = posix_normalize p" using p(3) by simp
    also have "\<dots> = (if path = [] then if tr then dot @ [slash] else dot
        else path @ (if tr then [slash] else []))"
      using p(1) hd nf(1) by (simp add: posix_normalize_def Let_def tr_def path_def)
    finally show ?thesis .
  qed
  have "n = 0"
  proof (rule ccontr)
    assume "n \<noteq> 0"
    then obtain m where m: "n = Suc m" by (cases n) auto
    have "path = dotdot @ (if m = 0 \<and> ps = [] then [] else slash # js_join slash (replicate m dotdot @ ps))"
      using js_join_replicate_dotdot m path_def by simp
    then show False using eq p(5,6) by (auto split: if_splits simp: prefix_def)
  qed
  then have path: "path = js_join slash ps" by (simp add: path_def)
  have "path = [] \<longleftrightarrow> ps = []"
    using nf(2) by (cases ps; cases "tl ps") (auto simp: path plain_seg_def)
  with eq p(4) path nf(2) show thesis
    by (intro that [of ps tr]) (auto split: if_splits)
qed

text \<open>
  a path the manifest parser accepts never leaves the workspace: read segment by segment from
  the root it climbs nowhere, and no step of it goes above the root.
\<close>

theorem manifest_path_stays_inside:
  assumes "manifestPath v = Inr p"
  shows "\<not> posix_isAbsolute p \<and> path_walk [] (js_split slash p) \<noteq> None
     \<and> dotdot \<notin> set (js_split slash p)"
  using assms
proof (rule manifestPath_form)
  fix segs trailing
  assume segs: "list_all plain_seg segs" and
    p: "p = (if segs = [] then dot else js_join slash segs) @ (if trailing then [slash] else [])"
    and tr: "segs = [] \<Longrightarrow> trailing"
  have base: "js_split slash (js_join slash segs) = segs" if "segs \<noteq> []"
    using that plain_no_slash [OF segs] by (intro js_split_join) auto
  have split: "js_split slash p = (if segs = [] then [dot] else segs) @ (if trailing then [[]] else [])"
    using base by (auto simp: p js_split_trailing js_split_plain)
  have "dotdot \<notin> set segs" using segs by (auto simp: list_all_iff)
  then show ?thesis
    using path_walk_plain [OF segs, of "[]"] assms
    by (auto simp: split path_walk_append manifestPath_def split: option.splits if_splits)
qed

theorem manifest_path_stays_inside_witness:
  "\<not> posix_isAbsolute ''src/a.ts'' \<and> path_walk [] (js_split slash ''src/a.ts'') \<noteq> None
     \<and> dotdot \<notin> set (js_split slash ''src/a.ts'')"
proof -
  have "manifestPath (Some (JStr ''src/a.ts'')) = Inr ''src/a.ts''" by code_simp
  then show ?thesis by (rule manifest_path_stays_inside)
qed

subsection \<open>Stored plans\<close>

definition path_ok :: "string \<Rightarrow> bool" where
  "path_ok p \<longleftrightarrow> manifestPath (Some (JStr p)) = Inr p"

fun entry_ok :: "mentry \<Rightarrow> bool" where
  "entry_ok (MFile p m s sha) \<longleftrightarrow>
     path_ok p \<and> m \<in> {420, 493} \<and> js_is_safe s \<and> 0 \<le> s \<and> hex_text 64 sha"
| "entry_ok (MSymlink p m t) \<longleftrightarrow>
     path_ok p \<and> m = 511 \<and> parseSymlink p (Some (JStr t)) = Inr (REntry (MSymlink p 511 t))"

definition plan_ok :: "wplan \<Rightarrow> bool" where
  "plan_ok j \<longleftrightarrow> hex_text 32 (pl_temporaryNonce j) \<and> manifest_ref (pl_baseManifestRef j)
     \<and> manifest_ref (pl_currentManifestRef j) \<and> hex_text 40 (pl_baseTree j)
     \<and> hex_text 64 (pl_basePackSha256 j)
     \<and> (case pl_appliedManifestRef j of None \<Rightarrow> True | Some r \<Rightarrow> manifest_ref r)
     \<and> length (pl_baseEntries j) + length (pl_appliedEntries j) + length (pl_baseDirectories j)
        + length (pl_appliedDirectories j) \<le> 25000
     \<and> list_all entry_ok (pl_baseEntries j) \<and> list_all entry_ok (pl_appliedEntries j)
     \<and> list_all path_ok (pl_baseDirectories j) \<and> list_all path_ok (pl_appliedDirectories j)
     \<and> distinct (map me_path (pl_baseEntries j)) \<and> distinct (map me_path (pl_appliedEntries j))
     \<and> distinct (pl_baseDirectories j) \<and> distinct (pl_appliedDirectories j)"

lemma manifestPath_ok: "manifestPath v = Inr p \<Longrightarrow> path_ok p"
  by (auto simp: manifestPath_def path_ok_def split: option.splits if_splits)

lemma manifestPath_value: "manifestPath v = Inr p \<Longrightarrow> v = Some (JStr p)"
  by (auto simp: manifestPath_def split: option.splits if_splits)

lemma gitFileMode_cases: "gitFileMode m \<in> {420, 493}"
  by (simp add: gitFileMode_def)

lemma gitFileMode_fixed: "m \<in> {420, 493} \<Longrightarrow> gitFileMode m = m"
  by (auto simp: gitFileMode_def)

lemma parseSymlink_Inr:
  "parseSymlink p v = Inr e \<Longrightarrow> \<exists>t. v = Some (JStr t) \<and> e = REntry (MSymlink p 511 t)"
  by (auto simp: parseSymlink_def Let_def split: option.splits if_splits)

lemma parseFile_Inr: "parseFile p m a b = Inr e \<Longrightarrow>
    \<exists>s sha. json_integer a = Some s \<and> b = Some (JStr sha) \<and> js_is_safe s \<and> 0 \<le> s
      \<and> hex_text 64 sha \<and> e = REntry (MFile p (gitFileMode m) s sha)"
  by (auto simp: parseFile_def split: option.splits if_splits)

lemma parseRawEntry_Inr:
  assumes "parseRawEntry v = Inr e"
  shows "path_ok (raw_path e)" "e = REntry m \<Longrightarrow> entry_ok m"
proof -
  obtain fs where v: "v = JObj fs" using assms by (cases v) auto
  from assms [unfolded v parseRawEntry.simps] obtain p mode where
    p: "manifestPath (jprop fs ''path'') = Inr p" and
    rest: "(if jprop fs ''type'' = Some (JStr ''directory'') then Inr (RDirectory p mode)
        else if jprop fs ''type'' = Some (JStr ''file'') then
          parseFile p mode (jprop fs ''size'') (jprop fs ''sha256'')
        else if jprop fs ''type'' = Some (JStr ''symlink'') then
          parseSymlink p (jprop fs ''target'')
        else Inl MUnsupportedType) = Inr e"
    by (elim bnd_InrE) blast
  note ok = manifestPath_ok [OF p]
  consider (d) "e = RDirectory p mode"
    | (f) "parseFile p mode (jprop fs ''size'') (jprop fs ''sha256'') = Inr e"
    | (s) "parseSymlink p (jprop fs ''target'') = Inr e"
    using rest
    by (cases "jprop fs ''type'' = Some (JStr ''directory'')";
        cases "jprop fs ''type'' = Some (JStr ''file'')";
        cases "jprop fs ''type'' = Some (JStr ''symlink'')") simp_all
  then have "path_ok (raw_path e) \<and> (\<forall>m. e = REntry m \<longrightarrow> entry_ok m)"
  proof cases
    case d
    then show ?thesis using ok by simp
  next
    case f
    from parseFile_Inr [OF f] obtain s sha where "js_is_safe s" "0 \<le> s" "hex_text 64 sha"
      "e = REntry (MFile p (gitFileMode mode) s sha)" by blast
    then show ?thesis using ok gitFileMode_cases [of mode] by simp
  next
    case s
    from parseSymlink_Inr [OF s] obtain t where t: "jprop fs ''target'' = Some (JStr t)"
      "e = REntry (MSymlink p 511 t)" by blast
    then show ?thesis using ok s [unfolded t] by simp
  qed
  then show "path_ok (raw_path e)" "e = REntry m \<Longrightarrow> entry_ok m" by auto
qed

lemma parseJournalEntry_ok: "parseJournalEntry v = Inr e \<Longrightarrow> entry_ok e"
  by (auto simp: parseJournalEntry_def split: raw_entry.splits dest: parseRawEntry_Inr(2))

lemma manifestMode_jint: "0 \<le> m \<Longrightarrow> m \<le> 511 \<Longrightarrow> manifestMode (Some (jint m)) = Inr m"
  by (simp add: manifestMode_def)

lemma parse_entry_json: "entry_ok e \<Longrightarrow> parseJournalEntry (entry_json e) = Inr e"
proof (induction e rule: entry_ok.induct)
  case (1 p m s sha)
  then have "0 \<le> m" "m \<le> 511" by auto
  with 1 show ?case
    by (simp add: parseJournalEntry_def path_ok_def manifestMode_jint parseFile_def
        gitFileMode_fixed jprop_def)
next
  case (2 p m t)
  then show ?case
    by (simp add: parseJournalEntry_def path_ok_def manifestMode_jint jprop_def)
qed

lemma map_res_entries: "list_all entry_ok es \<Longrightarrow> map_res parseJournalEntry (map entry_json es) = Inr es"
  by (induction es) (simp_all add: parse_entry_json)

lemma map_res_paths:
  "list_all path_ok ps \<Longrightarrow> map_res (\<lambda>v. manifestPath (Some v)) (map JStr ps) = Inr ps"
  by (induction ps) (simp_all add: path_ok_def)

lemma plan_props:
  assumes "serializeWorkerWorkspaceReconciliationPlan j = JObj fs"
  shows "jprop fs ''version'' = Some (jint 1)"
    "jprop fs ''temporaryNonce'' = Some (JStr (pl_temporaryNonce j))"
    "jprop fs ''baseManifestRef'' = Some (JStr (pl_baseManifestRef j))"
    "jprop fs ''currentManifestRef'' = Some (JStr (pl_currentManifestRef j))"
    "jprop fs ''baseEntries'' = Some (JArr (map entry_json (pl_baseEntries j)))"
    "jprop fs ''appliedEntries'' = Some (JArr (map entry_json (pl_appliedEntries j)))"
    "jprop fs ''baseDirectories'' = Some (JArr (map JStr (pl_baseDirectories j)))"
    "jprop fs ''appliedDirectories'' = Some (JArr (map JStr (pl_appliedDirectories j)))"
    "jprop fs ''appliedManifestRef'' = map_option JStr (pl_appliedManifestRef j)"
    "jprop fs ''baseTree'' = Some (JStr (pl_baseTree j))"
    "jprop fs ''basePackSha256'' = Some (JStr (pl_basePackSha256 j))"
  using assms
  by (cases "pl_appliedManifestRef j";
      auto simp: serializeWorkerWorkspaceReconciliationPlan_def jprop_def)+

lemma plan_roundtrip_ok:
  assumes "plan_ok j"
  shows "parseWorkerWorkspaceReconciliationPlan (serializeWorkerWorkspaceReconciliationPlan j) = Inr j"
proof -
  obtain fs where fs: "serializeWorkerWorkspaceReconciliationPlan j = JObj fs"
    by (simp add: serializeWorkerWorkspaceReconciliationPlan_def)
  have ref: "optional_ref (map_option JStr (pl_appliedManifestRef j)) = Inr (pl_appliedManifestRef j)"
    using assms by (cases "pl_appliedManifestRef j") (simp_all add: plan_ok_def)
  show ?thesis
    using assms unfolding fs plan_ok_def
    by (simp add: plan_props [OF fs] string_prop_def ref map_res_entries map_res_paths
        MAX_RECONCILIATION_ENTRIES_def)
qed

lemma map_res_ok:
  "map_res f xs = Inr ys \<Longrightarrow> (\<And>x y. f x = Inr y \<Longrightarrow> P y) \<Longrightarrow> list_all P ys"
  by (auto simp: list_all_iff dest: map_res_set)

lemma map_res_length: "map_res f xs = Inr ys \<Longrightarrow> length ys = length xs"
  by (auto simp: map_res_Inr dest: list_all2_lengthD)

lemma string_prop_Inr: "string_prop fs k ok = Inr s \<Longrightarrow> ok s"
  by (auto simp: string_prop_def split: option.splits if_splits)

lemma optional_ref_Inr: "optional_ref v = Inr r \<Longrightarrow> case r of None \<Rightarrow> True | Some s \<Rightarrow> manifest_ref s"
  by (cases v rule: optional_ref.cases) (auto split: if_splits)

lemma parsed_plan_ok:
  assumes "parseWorkerWorkspaceReconciliationPlan v = Inr j"
  shows "plan_ok j"
proof -
  obtain fs where v: "v = JObj fs" using assms by (cases v) auto
  show ?thesis
    using assms unfolding v parseWorkerWorkspaceReconciliationPlan.simps if_Inl_Inr
    by (elim conjE bnd_InrE, simp only: if_Inl_Inr, elim conjE bnd_InrE,
        simp only: if_Inl_Inr sum.inject, elim conjE, hypsubst)
      (simp add: plan_ok_def MAX_RECONCILIATION_ENTRIES_def string_prop_Inr optional_ref_Inr
        map_res_length map_res_ok [of parseJournalEntry, OF _ parseJournalEntry_ok]
        map_res_ok [of "\<lambda>v. manifestPath (Some v)", OF _ manifestPath_ok])
qed

text \<open>
  a reconciliation plan survives the journal. Serializing a plan and parsing it back returns
  the same plan exactly for the plans the parser's rules allow, which are the ones it returns.
\<close>

theorem plan_roundtrip:
  "(parseWorkerWorkspaceReconciliationPlan (serializeWorkerWorkspaceReconciliationPlan j) = Inr j)
   = plan_ok j"
  using plan_roundtrip_ok parsed_plan_ok by blast

subsection \<open>Symlinks\<close>

lemma norm_push_walk:
  "path_walk st ss = Some st' \<Longrightarrow> list_all plain_seg st \<Longrightarrow> (\<And>s. s \<in> set ss \<Longrightarrow> slash \<notin> set s) \<Longrightarrow>
   list_all plain_seg st' \<and> foldl (norm_push False) (st @ base) ss = st' @ base"
proof (induction st ss arbitrary: st' rule: path_walk.induct)
  case (2 st s ss)
  consider "s = [] \<or> s = dot" | "s = dotdot" | "plain_seg s"
    using 2(6) [of s] by (auto simp: plain_seg_def)
  then show ?case
  proof cases
    case 1
    then show ?thesis using 2(1) [of st'] 2(4-6) by auto
  next
    case d: 2
    then obtain t r where st: "st = t # r" using 2(4) by (cases st) auto
    then have "path_walk r ss = Some st'" "t \<noteq> dotdot" "list_all plain_seg r"
      using 2(4,5) d by auto
    then show ?thesis using 2(2) [of t r st'] 2(6) d st by auto
  next
    case 3
    then have "path_walk (s # st) ss = Some st'" using 2(4) by (auto simp: plain_seg_def)
    then show ?thesis using 2(3) [of st'] 2(5,6) 3 by (auto simp: plain_seg_def)
  qed
qed simp

lemma norm_push_leave:
  "path_walk st ss = None \<Longrightarrow> list_all plain_seg st \<Longrightarrow> w \<noteq> dotdot \<Longrightarrow>
   (\<And>s. s \<in> set ss \<Longrightarrow> slash \<notin> set s) \<Longrightarrow>
   \<exists>post. set post \<subseteq> set ss \<and>
     foldl (norm_push False) (st @ [w]) ss = foldl (norm_push False) [] post"
proof (induction st ss rule: path_walk.induct)
  case (2 st s ss)
  consider "s = [] \<or> s = dot" | "s = dotdot" "st = []" | t r where "s = dotdot" "st = t # r"
    | "plain_seg s"
    using 2(7) [of s] by (cases st) (auto simp: plain_seg_def)
  then show ?case
  proof cases
    case 1
    then obtain post where "set post \<subseteq> set ss"
      "foldl (norm_push False) (st @ [w]) ss = foldl (norm_push False) [] post"
      using 2(1) 2(4-7) by auto
    then show ?thesis using 1 by (auto intro!: exI [of _ post])
  next
    case d: 2
    then show ?thesis using 2(6) by (auto intro!: exI [of _ ss])
  next
    case (3 t r)
    then have "path_walk r ss = None" "t \<noteq> dotdot" "list_all plain_seg r"
      using 2(4,5) by auto
    then obtain post where "set post \<subseteq> set ss"
      "foldl (norm_push False) (r @ [w]) ss = foldl (norm_push False) [] post"
      using 2(2) [of t r] 2(6,7) 3 by auto
    then show ?thesis using 3 \<open>t \<noteq> dotdot\<close> by (auto intro!: exI [of _ post])
  next
    case 4
    then have "path_walk (s # st) ss = None" using 2(4) by (auto simp: plain_seg_def)
    then obtain post where "set post \<subseteq> set ss"
      "foldl (norm_push False) (s # st @ [w]) ss = foldl (norm_push False) [] post"
      using 2(3) 2(5-7) 4 by (auto simp: plain_seg_def)
    then show ?thesis using 4 by (auto intro!: exI [of _ post])
  qed
qed simp

lemma foldl_push_set:
  "set (foldl (norm_push False) st ss) \<subseteq> set st \<union> set ss"
proof (induction ss arbitrary: st)
  case (Cons s ss)
  show ?case using Cons [of "norm_push False st s"] set_norm_push [of st s] by auto
qed simp

lemma js_split_join_slash: "list_all plain_seg ss \<Longrightarrow> ss \<noteq> [] \<Longrightarrow> js_split slash (js_join slash ss) = ss"
  using plain_no_slash by (intro js_split_join) auto

lemma js_join_snoc: "js_join c (xs @ [x]) = (if xs = [] then x else js_join c xs @ c # x)"
  by (induction c xs rule: js_join.induct) auto

lemma js_join_Cons: "js_join c (x # xs) = (if xs = [] then x else x @ c # js_join c xs)"
  by (cases xs) auto

definition workspace_seg :: string where "workspace_seg = ''workspace''"

lemma syntheticRoot_eq: "syntheticRoot = slash # workspace_seg"
  by (simp add: syntheticRoot_def workspace_seg_def slash_def)

lemma workspace_seg_plain [simp]: "plain_seg workspace_seg"
  by (simp add: workspace_seg_def plain_seg_def slash_def dot_def dotdot_def)

lemma posix_dirname_join:
  assumes "list_all plain_seg segs" "segs \<noteq> []" "pre \<noteq> []"
  shows "posix_dirname (slash # js_join slash (pre @ segs)) =
         slash # js_join slash (pre @ butlast segs)"
proof -
  obtain s ss where segs: "segs = ss @ [s]" using assms(2) by (cases segs rule: rev_cases) auto
  then have s: "slash \<notin> set s" "s \<noteq> []" using assms(1) by (auto simp: plain_seg_def)
  have eq: "slash # js_join slash (pre @ segs) = (slash # js_join slash (pre @ ss)) @ slash # s"
    using assms(3) by (simp add: segs js_join_snoc flip: append_assoc)
  have base: "dropWhile (\<lambda>c. c = slash) (rev s @ x) = rev s @ x" for x
    using s by (cases "rev s") (auto simp: rev_swap [of s])
  have dir: "dropWhile (\<lambda>c. c \<noteq> slash) (rev s @ slash # x) = slash # x" for x
    using s(1) by (induction s rule: rev_induct) (auto simp: dropWhile_append)
  show ?thesis
    unfolding posix_dirname_def eq Let_def
    by (simp add: base dir segs)
qed

lemma symlink_stack:
  assumes "list_all plain_seg segs" "segs \<noteq> []" "target \<noteq> []" "\<not> posix_isAbsolute target"
  shows "symlink_resolved (js_join slash segs) target = slash # js_join slash
    (rev (foldl (norm_push False) (rev (butlast segs) @ [workspace_seg]) (js_split slash target)))"
proof -
  have "syntheticRoot @ slash # js_join slash segs = slash # js_join slash ([workspace_seg] @ segs)"
    using assms(2) by (simp add: syntheticRoot_eq js_join_Cons)
  then have dir: "posix_dirname (syntheticRoot @ slash # js_join slash segs) =
      slash # js_join slash (workspace_seg # butlast segs)"
    using posix_dirname_join [OF assms(1,2), of "[workspace_seg]"] by simp
  define d where "d = workspace_seg # butlast segs"
  have d: "list_all plain_seg d" "d \<noteq> []"
    using assms(1) in_set_butlastD by (fastforce simp: d_def list_all_iff)+
  have split: "js_split slash (js_join slash d @ slash # target) = d @ js_split slash target"
    using d
  proof (induction d rule: induct_list012)
    case (3 x y zs)
    then show ?case by (simp add: js_split_append_sep plain_seg_def)
  qed (auto simp: js_split_append_sep plain_seg_def)
  have "foldl (norm_push False) [] ([] # d @ js_split slash target) =
      foldl (norm_push False) (rev d) (js_split slash target)"
    using foldl_plain [OF d(1), of False "[]"] by simp
  then show ?thesis
    using assms(3,4) split
    by (simp add: symlink_resolved_def dir posix_resolve_def normalizeString_def flip: d_def)
      (simp add: d_def)
qed

text \<open>
  A symlink from the worker is accepted whenever its target, read from the directory of the
  link, stays below the workspace root.
\<close>

lemma symlink_inside_accepted:
  assumes "list_all plain_seg segs" "segs \<noteq> []" "target \<noteq> []" "backslash \<notin> set target"
    "\<not> posix_isAbsolute target" "\<not> win32_rooted target"
    "path_walk (rev (butlast segs)) (js_split slash target) \<noteq> None"
  shows "parseSymlink (js_join slash segs) (Some (JStr target)) =
    Inr (REntry (MSymlink (js_join slash segs) 511 target))"
proof -
  obtain st where st: "path_walk (rev (butlast segs)) (js_split slash target) = Some st"
    using assms(7) by blast
  have "list_all plain_seg (rev (butlast segs))"
    using assms(1) by (auto simp: list_all_iff dest: in_set_butlastD)
  from norm_push_walk [OF st this js_split_no_sep, where base = "[workspace_seg]"]
  have "symlink_resolved (js_join slash segs) target = slash # js_join slash (workspace_seg # rev st)"
    using symlink_stack [OF assms(1-3,5)] by simp
  then have "symlink_resolved (js_join slash segs) target = syntheticRoot
      \<or> prefix (syntheticRoot @ [slash]) (symlink_resolved (js_join slash segs) target)"
    by (simp add: syntheticRoot_eq js_join_Cons)
  then show ?thesis
    using assms(3-6) by (auto simp: parseSymlink_def Let_def)
qed

text \<open>
  apart from a segment that is itself called \<^verbatim>\<open>workspace\<close>, the accepted
  targets are only those: a symlink whose target climbs above the root is refused.
\<close>

theorem symlink_escape_refused:
  assumes "list_all plain_seg segs" "segs \<noteq> []"
    "parseSymlink (js_join slash segs) (Some (JStr target)) = Inr e"
    "workspace_seg \<notin> set (js_split slash target)"
  shows "path_walk (rev (butlast segs)) (js_split slash target) \<noteq> None"
proof
  assume none: "path_walk (rev (butlast segs)) (js_split slash target) = None"
  have plain: "list_all plain_seg (rev (butlast segs))"
    using assms(1) by (auto simp: list_all_iff dest: in_set_butlastD)
  have tgt: "target \<noteq> []" "\<not> posix_isAbsolute target"
    and res: "symlink_resolved (js_join slash segs) target = syntheticRoot
      \<or> prefix (syntheticRoot @ [slash]) (symlink_resolved (js_join slash segs) target)"
    using assms(3) by (auto simp: parseSymlink_def Let_def split: if_splits)
  obtain post where post: "set post \<subseteq> set (js_split slash target)"
    "foldl (norm_push False) (rev (butlast segs) @ [workspace_seg]) (js_split slash target) =
     foldl (norm_push False) [] post"
    using norm_push_leave [OF none plain, of workspace_seg] js_split_no_sep
    by (auto simp: workspace_seg_def dotdot_def)
  define final where "final = rev (foldl (norm_push False) [] post)"
  have final: "workspace_seg \<notin> set final" "slash # js_join slash final =
      symlink_resolved (js_join slash segs) target"
    using foldl_push_set [of "[]" post] post assms(4) symlink_stack [OF assms(1,2) tgt]
    by (auto simp: final_def)
  have no: "\<And>s. s \<in> set final \<Longrightarrow> slash \<notin> set s"
    using foldl_push_set [of "[]" post] post(1) js_split_no_sep by (fastforce simp: final_def)
  have "\<exists>rest. js_join slash final = workspace_seg @ rest \<and> (rest = [] \<or> hd rest = slash)"
    using res final(2) by (auto simp: syntheticRoot_eq prefix_def)
  then obtain rest where rest: "js_join slash final = workspace_seg @ rest" "rest = [] \<or> hd rest = slash"
    by blast
  then have ne: "final \<noteq> []" by (auto simp: workspace_seg_def)
  have "slash \<notin> set workspace_seg" by (simp add: workspace_seg_def slash_def)
  then have "hd (js_split slash (workspace_seg @ rest)) = workspace_seg"
    using rest(2) by (cases rest) (auto simp: js_split_plain js_split_append_sep)
  then have "hd final = workspace_seg"
    using js_split_join [OF ne no] rest(1) by simp
  then show False using final(1) ne hd_in_set [OF ne] by simp
qed

theorem symlink_escape_refused_witness:
  "path_walk (rev (butlast [''pkg'', ''link''])) (js_split slash ''../lib/x'') \<noteq> None"
  by (rule symlink_escape_refused [of _ _ "REntry (MSymlink ''pkg/link'' 511 ''../lib/x'')"]; code_simp)






subsection \<open>Whole manifests\<close>

lemma check_entries_sorted:
  "check_entries byPath prev es = Inr () \<Longrightarrow> (\<And>e. e \<in> set es \<Longrightarrow> raw_path e \<noteq> []) \<Longrightarrow>
   sorted_wrt (<) (map raw_path es) \<and> (prev \<noteq> [] \<longrightarrow> (\<forall>e\<in>set es. prev < raw_path e))"
proof (induction byPath prev es rule: check_entries.induct)
  case (2 byPath prev e es)
  have ne: "raw_path e \<noteq> []" using 2(3) [of e] by simp
  have step: "check_entries ((raw_path e, e) # byPath) (raw_path e) es = Inr ()"
    and lt: "prev \<noteq> [] \<Longrightarrow> prev < raw_path e"
    using 2(2) by (auto simp: Let_def split: if_splits)
  from 2(1) [OF refl refl] step 2(2,3) ne
  have IH: "sorted_wrt (<) (map raw_path es)" "\<forall>x\<in>set es. raw_path e < raw_path x"
    by (auto simp: Let_def split: if_splits)
  then show ?case using lt by (auto intro: less_trans)
qed simp

lemma check_entries_parents:
  "check_entries byPath prev es = Inr () \<Longrightarrow>
   (\<And>p d. map_of byPath p = Some d \<Longrightarrow> raw_path d = p \<and> d \<in> S) \<Longrightarrow> set es \<subseteq> S \<Longrightarrow>
   e \<in> set es \<Longrightarrow> 1 \<le> i \<Longrightarrow> i < length (js_split slash (raw_path e)) \<Longrightarrow>
   \<exists>d\<in>S. raw_is_dir d \<and> raw_path d = js_join slash (take i (js_split slash (raw_path e)))"
proof (induction byPath prev es rule: check_entries.induct)
  case (2 byPath prev x es)
  let ?q = "js_join slash (take i (js_split slash (raw_path x)))"
  have step: "check_entries ((raw_path x, x) # byPath) (raw_path x) es = Inr ()"
    and par: "\<not> list_ex (\<lambda>index. case map_of byPath
        (js_join slash (take index (js_split slash (raw_path x)))) of
          Some d \<Rightarrow> \<not> raw_is_dir d | None \<Rightarrow> True) [1..<length (js_split slash (raw_path x))]"
    and g1: "\<not> (map_of byPath (raw_path x) \<noteq> None \<or> prev \<noteq> [] \<and> \<not> prev < raw_path x)"
    using 2(2) by (auto simp: Let_def split: if_splits)
  show ?case
  proof (cases "e = x")
    case True
    with 2(6,7) have "i \<in> set [1..<length (js_split slash (raw_path x))]" by simp
    with par have "\<not> (case map_of byPath ?q of Some d \<Rightarrow> \<not> raw_is_dir d | None \<Rightarrow> True)"
      unfolding list_ex_iff by blast
    then obtain d where "map_of byPath ?q = Some d" "raw_is_dir d"
      by (auto split: option.splits)
    then show ?thesis using 2(3) [of ?q d] True by auto
  next
    case False
    have inS: "raw_path d = p \<and> d \<in> S" if "map_of ((raw_path x, x) # byPath) p = Some d" for p d
      using that 2(3) [of p d] 2(4) by (auto split: if_splits)
    show ?thesis
      by (rule 2(1) [OF refl refl g1 par step inS]) (use 2(4-7) False in auto)
  qed
qed simp

lemma raw_mentries_mem: "m \<in> set (raw_mentries es) \<longleftrightarrow> REntry m \<in> set es \<and> \<not> isDerivedWorkspacePath (me_path m)"
  by (induction es rule: raw_mentries.induct) auto

lemma raw_mentries_sorted:
  "sorted_wrt (<) (map raw_path es) \<Longrightarrow> sorted_wrt (<) (map me_path (raw_mentries es))"
  by (induction es rule: raw_mentries.induct) (force simp: raw_mentries_mem)+

lemma derived_parent:
  assumes "isDerivedWorkspacePath (js_join slash (take i (js_split slash p)))" "1 \<le> i"
  shows "isDerivedWorkspacePath p"
proof -
  have ne: "take i (js_split slash p) \<noteq> []" using assms(2) by (cases i) auto
  have "js_split slash (js_join slash (take i (js_split slash p))) = take i (js_split slash p)"
    by (rule js_split_join [OF ne]) (auto dest: in_set_takeD js_split_no_sep)
  with assms(1) show ?thesis
    unfolding isDerivedWorkspacePath_def by (auto simp: list_ex_iff dest: in_set_takeD)
qed

lemma raw_path_nonempty: "path_ok (raw_path e) \<Longrightarrow> raw_path e \<noteq> []"
  by (auto simp: path_ok_def manifestPath_def)

lemma projected_entries:
  assumes "validateAndProjectEntries values = Inr (es, ds)"
  shows "sorted_wrt (<) (map me_path es)" "sorted_wrt (<) ds"
    "\<forall>d\<in>set ds. path_ok d \<and> \<not> isDerivedWorkspacePath d \<and> d \<notin> me_path ` set es"
    "\<forall>d\<in>set ds. \<forall>i\<in>{1..<length (js_split slash d)}.
       js_join slash (take i (js_split slash d)) \<in> set ds"
    "\<forall>e\<in>set es. entry_ok e \<and> \<not> isDerivedWorkspacePath (me_path e)"
    "\<forall>e\<in>set es. \<forall>i\<in>{1..<length (js_split slash (me_path e))}.
       js_join slash (take i (js_split slash (me_path e))) \<in> set ds"
proof -
  from assms obtain raw where raw: "map_res parseRawEntry values = Inr raw"
    and chk: "check_entries [] [] raw = Inr ()" and es: "es = raw_mentries raw"
    and ds: "ds = map raw_path (filter (\<lambda>e. raw_is_dir e \<and> \<not> isDerivedWorkspacePath (raw_path e)) raw)"
    unfolding validateAndProjectEntries_def by (auto split: if_splits)
  have ok: "path_ok (raw_path e)" "e = REntry m \<Longrightarrow> entry_ok m" if "e \<in> set raw" for e m
    using map_res_set [OF raw that] parseRawEntry_Inr by blast+
  have sorted: "sorted_wrt (<) (map raw_path raw)"
    using check_entries_sorted [OF chk] ok(1) raw_path_nonempty by blast
  show "sorted_wrt (<) (map me_path es)" using raw_mentries_sorted [OF sorted] es by simp
  show "sorted_wrt (<) ds"
    using sorted unfolding ds by (simp add: sorted_wrt_map sorted_wrt_filter)
  show "\<forall>e\<in>set es. entry_ok e \<and> \<not> isDerivedWorkspacePath (me_path e)"
    using ok(2) by (auto simp: es raw_mentries_mem)
  have parent: "js_join slash (take i (js_split slash (raw_path x))) \<in> set ds"
    if x: "x \<in> set raw" and nd: "\<not> isDerivedWorkspacePath (raw_path x)"
      and i: "i \<in> {1..<length (js_split slash (raw_path x))}" for x i
  proof -
    obtain d where "d \<in> set raw" "raw_is_dir d"
      "raw_path d = js_join slash (take i (js_split slash (raw_path x)))"
      using check_entries_parents [OF chk _ subset_refl x, of i] i by auto
    moreover from this nd i have "\<not> isDerivedWorkspacePath (raw_path d)"
      using derived_parent [of i "raw_path x"] by auto
    ultimately show ?thesis unfolding ds by force
  qed
  show "\<forall>e\<in>set es. \<forall>i\<in>{1..<length (js_split slash (me_path e))}.
       js_join slash (take i (js_split slash (me_path e))) \<in> set ds"
  proof (intro ballI)
    fix e i assume e: "e \<in> set es" and i: "i \<in> {1..<length (js_split slash (me_path e))}"
    from e have "REntry e \<in> set raw" "\<not> isDerivedWorkspacePath (me_path e)"
      by (auto simp: es raw_mentries_mem)
    then show "js_join slash (take i (js_split slash (me_path e))) \<in> set ds"
      using parent [of "REntry e" i] i by simp
  qed
  show "\<forall>d\<in>set ds. \<forall>i\<in>{1..<length (js_split slash d)}.
       js_join slash (take i (js_split slash d)) \<in> set ds"
    using parent by (auto simp: ds)
  have "raw_path d \<noteq> me_path m" if "d \<in> set raw" "raw_is_dir d" "REntry m \<in> set raw" for d m
  proof -
    have "distinct (map raw_path raw)" using sorted strict_sorted_iff by blast
    then have "inj_on raw_path (set raw)" by (simp add: distinct_map)
    with that inj_onD [OF this _ that(1,3)] show ?thesis by auto
  qed
  then show "\<forall>d\<in>set ds. path_ok d \<and> \<not> isDerivedWorkspacePath d \<and> d \<notin> me_path ` set es"
    using ok(1) by (auto simp: ds es raw_mentries_mem)
qed

text \<open>
  C9: a manifest is accepted only if its text hashes to the reference it was announced under. Then
  its entries and its directories are each in strictly ascending path order and no path is both, so
  no path occurs twice; every entry is valid, every path is normalized and inside the workspace and
  outside the derived caches, and every parent directory of an entry or a directory is listed.
\<close>

theorem accepted_manifest:
  assumes "parseWorkerWorkspaceManifest sha256 json_parse raw ref = Inr m"
  shows "ref = ''sha256:'' @ sha256 raw
    \<and> sorted_wrt (<) (map me_path (mf_entries m)) \<and> sorted_wrt (<) (mf_directories m)
    \<and> list_all (\<lambda>e. entry_ok e \<and> \<not> isDerivedWorkspacePath (me_path e)) (mf_entries m)
    \<and> list_all (\<lambda>d. path_ok d \<and> \<not> isDerivedWorkspacePath d \<and> d \<notin> me_path ` set (mf_entries m))
         (mf_directories m)
    \<and> list_all (\<lambda>p. list_all (\<lambda>i. js_join slash (take i (js_split slash p))
         \<in> set (mf_directories m)) [1..<length (js_split slash p)])
         (map me_path (mf_entries m) @ mf_directories m)"
proof -
  from assms have ref: "manifest_ref ref" "sha256 raw = drop 7 ref"
    and rest: "(case json_parse raw of
           None \<Rightarrow> Inl MNotJson
         | Some (JObj m) \<Rightarrow>
             (case (jprop m ''entries'', jprop m ''baseCommit'') of
                (Some (JArr values), Some base) \<Rightarrow>
                  (if jprop m ''version'' \<noteq> Some (jint 1)
                      \<or> (base \<noteq> JNull \<and> (case base of JStr s \<Rightarrow> \<not> git_commit s | _ \<Rightarrow> True))
                   then Inl MUnsupportedShape
                   else bnd (validateAndProjectEntries values) (\<lambda>(entries, directories).
                     Inr \<lparr>mf_baseCommit = json_string (Some base), mf_entries = entries,
                          mf_directories = directories\<rparr>))
              | _ \<Rightarrow> Inl MUnsupportedShape)
         | Some _ \<Rightarrow> Inl MInvalid) = Inr m"
    unfolding parseWorkerWorkspaceManifest_def by (simp_all only: if_Inl_Inr) auto
  from rest obtain vals es ds where es: "validateAndProjectEntries vals = Inr (es, ds)"
    "mf_entries m = es" "mf_directories m = ds"
    by (auto split: option.splits json.splits)
  have "ref = ''sha256:'' @ sha256 raw"
    using ref append_take_drop_id [of 7 ref] by (simp add: manifest_ref_def)
  moreover note p = projected_entries [OF es(1)]
  have "list_all (\<lambda>p. list_all (\<lambda>i. js_join slash (take i (js_split slash p)) \<in> set ds)
      [1..<length (js_split slash p)]) (map me_path es @ ds)"
    using p(4,6) by (simp only: list_all_iff set_append set_map set_upt ball_Un ball_simps)
  ultimately show ?thesis using p(1,2,3,5) unfolding es(2,3) list_all_iff by blast
qed

text \<open>A two-entry manifest and its digest, for the witness.\<close>

definition sample_digest :: string where
  "sample_digest = replicate 64 CHR ''0''"

definition sample_manifest :: json where
  "sample_manifest = JObj [(''version'', jint 1), (''baseCommit'', JNull), (''entries'', JArr
     [JObj [(''path'', JStr ''src''), (''type'', JStr ''directory''), (''mode'', jint 448)],
      JObj [(''path'', JStr ''src/a.ts''), (''type'', JStr ''file''), (''mode'', jint 420),
            (''size'', jint 3), (''sha256'', JStr sample_digest)]])]"

definition sample_parsed :: manifest where
  "sample_parsed = \<lparr>mf_baseCommit = None,
     mf_entries = [MFile ''src/a.ts'' 420 3 sample_digest], mf_directories = [''src'']\<rparr>"

theorem accepted_manifest_witness:
  "''sha256:'' @ sample_digest = ''sha256:'' @ sample_digest
    \<and> sorted_wrt (<) (map me_path (mf_entries sample_parsed))
    \<and> sorted_wrt (<) (mf_directories sample_parsed)
    \<and> list_all (\<lambda>e. entry_ok e \<and> \<not> isDerivedWorkspacePath (me_path e)) (mf_entries sample_parsed)
    \<and> list_all (\<lambda>d. path_ok d \<and> \<not> isDerivedWorkspacePath d
         \<and> d \<notin> me_path ` set (mf_entries sample_parsed)) (mf_directories sample_parsed)
    \<and> list_all (\<lambda>p. list_all (\<lambda>i. js_join slash (take i (js_split slash p))
         \<in> set (mf_directories sample_parsed)) [1..<length (js_split slash p)])
         (map me_path (mf_entries sample_parsed) @ mf_directories sample_parsed)"
proof -
  have "parseWorkerWorkspaceManifest (\<lambda>_. sample_digest) (\<lambda>_. Some sample_manifest) ''{}''
      (''sha256:'' @ sample_digest) = Inr sample_parsed"
  proof -
    have r: "manifest_ref (''sha256:'' @ sample_digest)" by code_simp
    have e1: "parseRawEntry (JObj [(''path'', JStr ''src''), (''type'', JStr ''directory''),
        (''mode'', jint 448)]) = Inr (RDirectory ''src'' 448)" by code_simp
    have e2: "parseRawEntry (JObj [(''path'', JStr ''src/a.ts''), (''type'', JStr ''file''),
        (''mode'', jint 420), (''size'', jint 3), (''sha256'', JStr sample_digest)])
      = Inr (REntry (MFile ''src/a.ts'' 420 3 sample_digest))" by code_simp
    have c: "check_entries [] [] [RDirectory ''src'' 448,
        REntry (MFile ''src/a.ts'' 420 3 sample_digest)] = Inr ()" by code_simp
    have d: "\<not> isDerivedWorkspacePath ''src''" "\<not> isDerivedWorkspacePath ''src/a.ts''"
      by code_simp+
    show ?thesis
      using r by (simp add: parseWorkerWorkspaceManifest_def utf8_length_def sample_manifest_def
          jprop_def validateAndProjectEntries_def e1 e2 c d sample_parsed_def slash_def
          del: parseRawEntry.simps)
  qed
  then show ?thesis by (rule accepted_manifest)
qed

end
