(* ===== verification/Placement_Recovery.thy ===== *)
theory Placement_Recovery
  imports Placement_Turns Manifest_Facts
begin

section \<open>Acknowledging, restarting, failing, journaling\<close>

text \<open>
  That acknowledgements only advance, what a restart of the gateway clears, what failing a placement
  keeps, and that a journal is read back as it was written.
\<close>

subsection \<open>Acknowledged cursors\<close>

lemma advanceCursor_ge: "advanceCursor c v f = Inr n \<Longrightarrow> cursor_le v n"
  by (cases "(c, v, f)" rule: advanceCursor.cases) (auto split: option.splits if_splits)

text \<open>
  C7: an acknowledgement only moves the cursors forward. It reaches the cursors it was sent and never
  takes an earlier acknowledgement back. Of the session's row it writes the two cursors and the time
  of the update; the rows of the other sessions and the journals are untouched, and so are the
  pending results, but for the one of this session's claim when the worker announces it.
\<close>

theorem acks_only_advance:
  assumes "reachable gw s" "view_at (st_db s) k = Some v" "required (tc_sessionId cl) FSessionId = Inr k"
    "updateAckCursors gw (st_db s) cl transcript live pending n m = Inr (db', p)"
  shows "\<exists>t l. view_at db' k = Some (v\<lparr>v_tc := t, v_lc := l\<rparr>)
    \<and> cursor_le (v_tc v) t \<and> cursor_le transcript t \<and> cursor_le (v_lc v) l \<and> cursor_le live l
    \<and> prow_at db' = (prow_at (st_db s))(k := map_option (\<lambda>r. r\<lparr>last_transcript_ack_cursor := t,
        last_live_event_ack_cursor := l, updated_at_ms := n\<rparr>) (prow_at (st_db s) k))
    \<and> journals db' = journals (st_db s)
    \<and> (if pending then \<exists>w. pending_of_claim w cl \<and> wrow_at db' = (wrow_at (st_db s))(k \<mapsto> w)
          \<and> (wrow_at (st_db s) k = Some w \<or> wrow_at (st_db s) k = None)
       else wrow_at db' = wrow_at (st_db s))"
proof -
  have ok: "db_ok (st_db s)" using reachable_inv [OF assms(1)] by (simp add: store_inv_def db_inv_def)
  show ?thesis
    using ok assms(4)
  proof (rule updateAck_effect)
    fix sid c rid env epoch r t l
    assume k: "required (tc_sessionId cl) FSessionId = Inr sid"
      and t: "advanceCursor (last_transcript_ack_cursor r) transcript FTranscriptCursor = Inr t"
      and l: "advanceCursor (last_live_event_ack_cursor r) live FLiveCursor = Inr l"
      and u: "row_updated (st_db s) db' sid r (set_cursors t l n r)"
      and j: "journals db' = journals (st_db s)"
      and w: "if pending then tc_sessionId cl = sid \<and> tc_owner cl = WorkerOwner env epoch
         \<and> tc_claimId cl = c \<and> tc_runId cl = rid
         \<and> (\<exists>w. pending_of_claim w cl \<and> wrow_at db' = (wrow_at (st_db s))(sid \<mapsto> w)
              \<and> (wrow_at (st_db s) sid = Some w \<or> wrow_at (st_db s) sid = None))
       else wrow_at db' = wrow_at (st_db s)"
    have sid: "sid = k" using k assms(3) by simp
    then have v: "v = view r" "view_at db' k = Some (view (set_cursors t l n r))"
      using row_updatedD(1,2) [OF u] assms(2) by (simp_all add: view_at_def)
    have "view_at db' k = Some (v\<lparr>v_tc := t, v_lc := l\<rparr>)"
      unfolding v by (simp add: view_def set_cursors_def row_state_def claim_of_row_def)
    moreover have "cursor_le (v_tc v) t \<and> cursor_le transcript t \<and> cursor_le (v_lc v) l \<and> cursor_le live l"
      using advanceCursor_le [OF t] advanceCursor_le [OF l] advanceCursor_ge [OF t] advanceCursor_ge [OF l]
      by (simp add: v(1))
    moreover have "prow_at db' = (prow_at (st_db s))(k := map_option (\<lambda>r. r\<lparr>last_transcript_ack_cursor := t,
        last_live_event_ack_cursor := l, updated_at_ms := n\<rparr>) (prow_at (st_db s) k))"
      using row_updatedD(1,2) [OF u] by (simp add: sid set_cursors_def)
    moreover have "if pending then \<exists>w. pending_of_claim w cl \<and> wrow_at db' = (wrow_at (st_db s))(k \<mapsto> w)
          \<and> (wrow_at (st_db s) k = Some w \<or> wrow_at (st_db s) k = None)
       else wrow_at db' = wrow_at (st_db s)"
      using w unfolding sid by (cases pending) simp_all
    ultimately show ?thesis using j by blast
  qed
qed

lemma demo_ack: "map_sum id (\<lambda>_. ()) (updateAckCursors ''gw'' demo_pending_db demo_worker_claim
    (Some 4) None True 9 9) = Inr ()"
  by code_simp

theorem acks_only_advance_witness:
  "\<exists>db' t l. view_at db' ''s1'' = Some ((view demo_worker_row)\<lparr>v_tc := t, v_lc := l\<rparr>)
    \<and> cursor_le (v_tc (view demo_worker_row)) t \<and> cursor_le (Some 4) t
    \<and> cursor_le (v_lc (view demo_worker_row)) l \<and> cursor_le None l
    \<and> prow_at db' = (prow_at (st_db demo_pending_store))(''s1'' :=
        map_option (\<lambda>r. r\<lparr>last_transcript_ack_cursor := t, last_live_event_ack_cursor := l,
          updated_at_ms := 9\<rparr>) (prow_at (st_db demo_pending_store) ''s1''))
    \<and> journals db' = journals (st_db demo_pending_store)
    \<and> (if True then \<exists>w. pending_of_claim w demo_worker_claim
            \<and> wrow_at db' = (wrow_at (st_db demo_pending_store))(''s1'' \<mapsto> w)
            \<and> (wrow_at (st_db demo_pending_store) ''s1'' = Some w
              \<or> wrow_at (st_db demo_pending_store) ''s1'' = None)
       else wrow_at db' = wrow_at (st_db demo_pending_store))"
proof -
  have v: "view_at (st_db demo_pending_store) ''s1'' = Some (view demo_worker_row)"
    using demo_worker_ok(2) by (simp add: view_at_def demo_pending_store_def demo_pending_db_def prow_at_def)
  obtain db' p where a: "updateAckCursors ''gw'' (st_db demo_pending_store) demo_worker_claim
      (Some 4) None True 9 9 = Inr (db', p)"
    using demo_ack by (cases "updateAckCursors ''gw'' demo_pending_db demo_worker_claim (Some 4) None True 9 9")
      (auto simp: demo_pending_store_def)
  have "required (tc_sessionId demo_worker_claim) FSessionId = Inr ''s1''"
    by (simp add: demo_worker_claim_def)
  from acks_only_advance [OF demo_pending_reachable v this a] show ?thesis by blast
qed

subsection \<open>Restart\<close>

lemma clearLocal_succeeds:
  assumes "db_ok db"
  shows "\<exists>db' ids. clearLocalTurnClaimsAfterRestart db n = Inr (db', ids)"
proof -
  have "placement_check (clear_claim n r)" if "r \<in> set (placements db)" for r
    using assms that by (intro row_inv_check row_inv_clear_claim)
      (auto simp: db_ok_def table_ok_def list_all_iff)
  then have "list_all (\<lambda>r. local_claim_row r \<longrightarrow> placement_check (clear_claim n r)) (placements db)"
    by (simp add: list_all_iff)
  then show ?thesis
    by (simp add: clearLocalTurnClaimsAfterRestart_def sql_update_def sql_select_def Let_def)
qed

lemma local_claim_row_iff:
  assumes "row_inv r"
  shows "local_claim_row r \<longleftrightarrow> (\<exists>c rid g. claim_of_row r = Some (PLocal c rid g))"
  using row_inv_facts(2) [OF assms]
  by (cases rule: claim_okE) (auto simp: local_claim_row_def claim_of_row_def)

text \<open>What a restarted gateway keeps of a session: everything but the claim of its own local turn.\<close>

definition after_restart :: "pview \<Rightarrow> pview" where
  "after_restart v = (case v_claim v of Some (PLocal _ _ _) \<Rightarrow> v\<lparr>v_claim := None\<rparr> | _ \<Rightarrow> v)"

text \<open>
  After a gateway restart the claims of local turns, whose process is gone, are cleared and
  their sessions reported; worker claims and everything else the protocol sees are untouched. The
  operation cannot fail on a database the store wrote.
\<close>

theorem restart_clears_local_claims:
  assumes "reachable gw s"
  shows "\<exists>db' ids. clearLocalTurnClaimsAfterRestart (st_db s) n = Inr (db', ids)
    \<and> view_at db' k = map_option after_restart (view_at (st_db s) k)
    \<and> (k \<in> set ids) = (\<exists>v c rid g. view_at (st_db s) k = Some v \<and> v_claim v = Some (PLocal c rid g))"
proof -
  have ok: "db_ok (st_db s)" using reachable_inv [OF assms] by (simp add: store_inv_def db_inv_def)
  obtain db' ids where op: "clearLocalTurnClaimsAfterRestart (st_db s) n = Inr (db', ids)"
    using clearLocal_succeeds [OF ok] by blast
  note e = prow_at_clear_local [OF ok op]
  have "view (if local_claim_row r then clear_claim n r else r) = after_restart (view r)"
    if "prow_at (st_db s) k = Some r" for r
    using local_claim_row_iff [OF prow_at_inv [OF ok that]]
    by (auto simp: view_def after_restart_def clear_claim_def row_state_def claim_of_row_def
        split: option.split pclaim.split)
  then have "view_at db' k = map_option after_restart (view_at (st_db s) k)"
    by (cases "prow_at (st_db s) k") (simp_all add: view_at_def e(1))
  moreover have "(k \<in> set ids) = (\<exists>v c rid g. view_at (st_db s) k = Some v \<and> v_claim v = Some (PLocal c rid g))"
    using local_claim_row_iff [OF prow_at_inv [OF ok]] by (auto simp: e(5) view_at_def view_def)
  ultimately show ?thesis using op by blast
qed

theorem restart_clears_local_claims_witness:
  "\<exists>db' ids. clearLocalTurnClaimsAfterRestart (st_db demo_store) 9 = Inr (db', ids)
    \<and> view_at db' ''s1'' = map_option after_restart (view_at (st_db demo_store) ''s1'')
    \<and> (''s1'' \<in> set ids) = (\<exists>v c rid g. view_at (st_db demo_store) ''s1'' = Some v
        \<and> v_claim v = Some (PLocal c rid g))"
  by (rule restart_clears_local_claims [OF demo_reachable])

subsection \<open>Failing\<close>

text \<open>
  Failing a placement never touches a turn. Only placements without a worker turn can fail, the
  claim of a local turn survives, no release is ever signalled, and the generation grows unless the
  placement had failed before.
\<close>

theorem fail_keeps_claim:
  assumes "reachable gw s" "view_at (st_db s) k = Some v" "required sid FSessionId = Inr k"
    "fail_placement (st_db s) sid err g n = Inr (db', p, released)"
  shows "\<not> released \<and> v_state v \<notin> {WActive, WDraining}
    \<and> view_at db' k = Some (v\<lparr>v_state := WFailed,
        v_gen := (if v_state v = WFailed then v_gen v else v_gen v + 1)\<rparr>)"
proof -
  have ok: "db_ok (st_db s)" using reachable_inv [OF assms(1)] by (simp add: store_inv_def db_inv_def)
  show ?thesis
    using ok assms(4)
  proof (rule fail_effect)
    fix sid' r err'
    let ?r' = "if row_state r = WFailed then set_recovery_error err' n r
        else set_failed (transition_generation r + 1) err' (local_claim (claim_of_row r)) n r"
    assume k: "required sid FSessionId = Inr sid'" and u: "row_updated (st_db s) db' sid' r ?r'"
      and can: "row_state r = WFailed \<or> canTransitionWorkerSessionPlacement (row_state r) WFailed"
      and rel: "\<not> released" and loc: "local_claim (claim_of_row r) = claim_of_row r"
    have k': "sid' = k" using k assms(3) by simp
    note u' = row_updatedD [OF u [unfolded k']]
    have v: "v = view r" using u'(1) assms(2) by (simp add: view_at_def)
    have "claim_of_row (set_recovery_error err' n r) = claim_of_row r"
      by (simp add: set_recovery_error_def claim_of_row_def)
    moreover have "claim_of_row (set_failed (transition_generation r + 1) err'
        (local_claim (claim_of_row r)) n r) = claim_of_row r"
      using loc by (cases "claim_of_row r" rule: local_claim.cases) (simp_all add: claim_set_failed)
    moreover have "row_state (set_failed (transition_generation r + 1) err'
        (local_claim (claim_of_row r)) n r) = WFailed"
      by (intro row_state_text) (simp add: set_failed_def)
    moreover have "row_state (set_recovery_error err' n r) = row_state r"
      by (simp add: set_recovery_error_def row_state_def)
    ultimately have "view ?r' = (view r)\<lparr>v_state := WFailed,
        v_gen := (if row_state r = WFailed then transition_generation r else transition_generation r + 1)\<rparr>"
      by (auto simp: view_def) (simp_all add: set_recovery_error_def set_failed_def)
    then show ?thesis
      using rel can u'(2) v by (auto simp: view_at_def canTransition_iff view_def)
  qed
qed

lemma demo_fail: "map_sum id (\<lambda>_. ()) (fail_placement (st_db (demo_store_of demo_starting)) ''s1''
    ''boom'' None 9) = Inr ()"
  by code_simp

theorem fail_keeps_claim_witness:
  "\<exists>db' released. \<not> released \<and> v_state (view demo_starting) \<notin> {WActive, WDraining}
    \<and> view_at db' ''s1'' = Some ((view demo_starting)\<lparr>v_state := WFailed,
        v_gen := (if v_state (view demo_starting) = WFailed then v_gen (view demo_starting)
                  else v_gen (view demo_starting) + 1)\<rparr>)"
proof -
  have id: "session_id demo_starting = ''s1''" by code_simp
  have v: "view_at (st_db (demo_store_of demo_starting)) ''s1'' = Some (view demo_starting)"
    by (simp add: demo_store_of_def view_at_def prow_at_def id)
  obtain db' p released where
    "fail_placement (st_db (demo_store_of demo_starting)) ''s1'' ''boom'' None 9 = Inr (db', p, released)"
    using demo_fail by (cases "fail_placement (st_db (demo_store_of demo_starting)) ''s1'' ''boom'' None 9")
      auto
  from fail_keeps_claim [OF demo_starting_reachable v _ this] show ?thesis by auto
qed

subsection \<open>The reconciliation journal\<close>

text \<open>
  the journal gives back what was put in. After a reconciliation began, its owner loads exactly
  the plan and the base snapshot it stored, provided the plan is one the plan parser accepts and the
  snapshot has the digest the plan names.
\<close>

theorem journal_roundtrip:
  assumes "reachable gw s" "plan_ok plan" "sha256 pack = pl_basePackSha256 plan"
    "beginWorkspaceReconciliation (st_db s) own plan pack n = Inr db'"
  shows "loadWorkspaceReconciliation sha256 db' own False = Inr (Some (plan, pack))"
proof -
  have ok: "db_ok (st_db s)" using reachable_inv [OF assms(1)] by (simp add: store_inv_def db_inv_def)
  let ?row = "\<lparr>j_session_id = jo_sessionId own, j_environment_id = jo_environmentId own,
     j_owner_epoch = jo_ownerEpoch own, j_placement_generation = jo_placementGeneration own,
     j_base_manifest_ref = pl_baseManifestRef plan, j_current_manifest_ref = pl_currentManifestRef plan,
     j_plan_json = serializeWorkerWorkspaceReconciliationPlan plan, j_base_pack = pack,
     j_created_at_ms = n\<rparr>"
  from assms(4) obtain p t where
    own: "assertJournalOwner (st_db s) own False = Inr p"
    and base: "p_workspaceBaseManifestRef p = Some (pl_baseManifestRef plan)"
    and ins: "sql_insert_ignore j_session_id journal_check ?row (journals (st_db s)) = Inr (t, 1)"
    and db': "db' = (st_db s)\<lparr>journals := t\<rparr>"
    unfolding beginWorkspaceReconciliation_def by (auto split: if_splits)
  from ins have new: "jo_sessionId own \<notin> j_session_id ` set (journals (st_db s))"
    "t = journals (st_db s) @ [?row]" "journal_check ?row"
    by (auto simp: sql_insert_ignore_def split: if_splits)
  have "journal_first db' (jo_sessionId own) = Some ?row"
    using new by (simp add: journal_first_eq jrow_at_def db' row_of_append row_of_None [THEN iffD2])
  moreover have "assertJournalOwner db' own False = Inr p"
    using own by (simp add: assertJournalOwner_def getRequired_def find_placement_def db')
  moreover have "length pack \<le> 268435456" using new(3) by (simp add: journal_check_def)
  ultimately show ?thesis
    using base plan_roundtrip_ok [OF assms(2)] assms(3)
    by (simp add: loadWorkspaceReconciliation_def)
qed

definition demo_plan :: wplan where
  "demo_plan = \<lparr>pl_temporaryNonce = replicate 32 CHR ''0'',
     pl_baseManifestRef = demo_ref,
     pl_currentManifestRef = ''sha256:'' @ replicate 64 CHR ''1'',
     pl_baseEntries = [], pl_appliedEntries = [], pl_baseDirectories = [], pl_appliedDirectories = [],
     pl_appliedManifestRef = None, pl_baseTree = replicate 40 CHR ''0'',
     pl_basePackSha256 = replicate 64 CHR ''0''\<rparr>"

definition demo_owner :: jowner where
  "demo_owner = \<lparr>jo_sessionId = ''s1'', jo_environmentId = ''e1'', jo_ownerEpoch = 2,
     jo_placementGeneration = 5\<rparr>"

lemma demo_plan_ok: "plan_ok demo_plan"
  by code_simp

lemma demo_owner_current:
  "assertJournalOwner (st_db (demo_store_of demo_active)) demo_owner False
     = Inr (raw_placement demo_active)"
  "workspace_base_manifest_ref demo_active = Some (pl_baseManifestRef demo_plan)"
  "pl_appliedManifestRef demo_plan = None"
  by code_simp+

lemma demo_begin: "succeeds (beginWorkspaceReconciliation (st_db (demo_store_of demo_active))
    demo_owner demo_plan ''pack'' 9)"
  using demo_owner_current
  by (simp add: beginWorkspaceReconciliation_def sql_insert_ignore_def journal_check_def
      demo_store_of_def empty_db_def demo_owner_def)

theorem journal_roundtrip_witness:
  "\<exists>db'. beginWorkspaceReconciliation (st_db (demo_store_of demo_active)) demo_owner demo_plan
      ''pack'' 9 = Inr db'
    \<and> loadWorkspaceReconciliation (\<lambda>_. replicate 64 CHR ''0'') db' demo_owner False
      = Inr (Some (demo_plan, ''pack''))"
proof -
  obtain db' where b: "beginWorkspaceReconciliation (st_db (demo_store_of demo_active)) demo_owner
      demo_plan ''pack'' 9 = Inr db'"
    using demo_begin by (auto simp: succeeds_iff)
  have "(\<lambda>_. replicate 64 CHR ''0'') ''pack'' = pl_basePackSha256 demo_plan"
    by (simp add: demo_plan_def)
  from journal_roundtrip [OF demo_active_reachable demo_plan_ok this b] b show ?thesis by blast
qed

end
