(* ===== verification/Ingress_Types.thy ===== *)
theory Ingress_Types
  imports Js_Map "HOL-Library.List_Lexorder"
begin

section \<open>Channel ingress: the data\<close>

text \<open>
  \<^verbatim>\<open>src/channels/message-access/types.ts\<close> and the types of
  \<^verbatim>\<open>mention-gating.ts\<close>: what an inbound channel event, the allowlists it is checked
  against, the policy and the evaluated gates are. Optional properties are options, string
  unions datatypes; the open unions (identifier kinds, channel ids) are strings. An allowlist entry
  written as a number stands for its decimal text, which is all the code reads of it. Properties nothing reads are left out: the
  conversation's ids and title, and the source, reason and diagnostic id of a membership fact. A
  route's effect is one of allow, block-dispatch and ignore, one gate-effect type serves both.
\<close>

datatype reason = RAllowed | RRouteBlocked | RRouteSenderEmpty
  | RDmDisabled | RDmOpen | RDmAllowlisted | RDmPairingRequired | RDmNotAllowlisted
  | RGroupDisabled | RGroupOpen | RGroupAllowed | RGroupEmptyAllowlist | RGroupNotAllowlisted
  | RCommandAuthorized | RControlCommandUnauthorized
  | REventAuthorized | REventUnauthorized | REventPairingNotAllowed | RSenderNotRequired
  | ROriginMissing | ROriginNotMatched | RActivationAllowed | RActivationSkipped
  | RAccessGroupMissing | RAccessGroupUnsupported | RAccessGroupFailed
  | RMutableDisabled | RNoPolicyMatch

datatype sensitivity = SensNormal | SensPii

subsection \<open>Identifiers, entries, matches\<close>

record id_material =
  id_opaqueId :: string
  id_kind :: string
  id_dangerous :: "bool option"
  id_sensitivity :: "sensitivity option"
  id_value :: string

type_synonym subject = "id_material list"

text \<open>A normalized entry; the internal one extends it by the raw comparable value.\<close>

record nentry =
  ne_id :: string
  ne_kind :: string
  ne_dangerous :: "bool option"
  ne_sensitivity :: "sensitivity option"

record ientry = nentry +
  ie_value :: string

record diagnostic =
  dg_id :: "string option"
  dg_reason :: reason

record imatch =
  im_matched :: bool
  im_entryIds :: "string list"

datatype match_context = CtxDm | CtxGroup | CtxRoute | CtxCommand

record normalized =
  no_matchable :: "ientry list"
  no_invalid :: "diagnostic list"
  no_disabled :: "diagnostic list"

text \<open>The channel's adapter: what it makes of entries for an account, and its matcher.\<close>

record adapter =
  ad_normalizeEntries :: "string list \<Rightarrow> match_context \<Rightarrow> string \<Rightarrow> normalized"
  ad_matchSubject :: "subject \<Rightarrow> ientry list \<Rightarrow> match_context \<Rightarrow> imatch"

datatype group_fault = GroupMissing | GroupUnsupported | GroupFailed

datatype membership_result = MatchedBy "string list" | NotMatched | Faulted group_fault

record membership_fact =
  mf_groupName :: string
  mf_result :: membership_result

record access_groups =
  ag_referenced :: "string list"
  ag_matched :: "string list"
  ag_missing :: "string list"
  ag_unsupported :: "string list"
  ag_failed :: "string list"

record allowlist =
  al_rawEntryCount :: nat
  al_normalizedEntries :: "nentry list"
  al_invalidEntries :: "diagnostic list"
  al_disabledEntries :: "diagnostic list"
  al_matchedEntryIds :: "string list"
  al_hasConfiguredEntries :: bool
  al_hasMatchableEntries :: bool
  al_hasWildcard :: bool
  al_accessGroups :: access_groups
  al_match :: imatch

record allowlist_facts =
  af_configured :: bool
  af_matched :: bool
  af_reasonCode :: reason
  af_matchedEntryIds :: "string list"
  af_invalidEntryCount :: nat
  af_disabledEntryCount :: nat
  af_accessGroups :: access_groups

subsection \<open>Routes, events, policies\<close>

datatype gate_kind = KRoute | KRouteSender | KDmSender | KGroupSender | KMembership
  | KOwnerAllowlist | KNestedAllowlist | KCommand | KEvent | KMention

datatype gate_effect = EfAllow | EfBlockDispatch | EfBlockCommand | EfSkip | EfObserve | EfIgnore

datatype route_state = RsNotConfigured | RsMatched | RsNotMatched | RsDisabled | RsLookupFailed

datatype sender_policy = SpInherit | SpReplace | SpDenyWhenEmpty

datatype sender_source = SrcEffectiveDm | SrcEffectiveGroup

record route_facts =
  rf_id :: string
  rf_kind :: gate_kind
  rf_gate :: route_state
  rf_effect :: gate_effect
  rf_precedence :: int
  rf_senderPolicy :: sender_policy
  rf_match :: "imatch option"
  rf_senderAllowFrom :: "string list option"
  rf_senderAllowFromSource :: "sender_source option"

record resolved_route =
  rr_id :: string
  rr_kind :: gate_kind
  rr_gate :: route_state
  rr_effect :: gate_effect
  rr_precedence :: int
  rr_senderPolicy :: sender_policy
  rr_match :: "imatch option"
  rr_senderAllowlist :: "allowlist option"

datatype event_kind = EvMessage | EvReaction | EvButton | EvPostback | EvNativeCommand
  | EvSlashCommand | EvSystem

datatype auth_mode = AuthInbound | AuthCommand | AuthOriginSubject | AuthRouteOnly | AuthNone

record event_input =
  ei_kind :: event_kind
  ei_authMode :: auth_mode
  ei_mayPair :: bool
  ei_originSubject :: "subject option"

record ingress_event =
  ev_kind :: event_kind
  ev_authMode :: auth_mode
  ev_mayPair :: bool
  ev_hasOriginSubject :: bool
  ev_originSubjectMatched :: bool

datatype mention_kind = MkReplyToBot | MkQuotedBot | MkBotThread | MkNative

record mention_facts =
  mn_canDetectMention :: bool
  mn_wasMentioned :: bool
  mn_hasAnyMention :: "bool option"
  mn_implicitKinds :: "mention_kind list option"

record implicit_mentions =
  mi_replyToBot :: "bool option"
  mi_quotedBot :: "bool option"
  mi_threadParticipation :: "bool option"

datatype conversation_kind = CkDirect | CkGroup | CkChannel

text \<open>An access group is a list of senders per channel, or of a type the resolver cannot expand.\<close>

datatype access_group = MessageSenders "(string \<times> string list) list" | OtherGroup

record state_input =
  si_channelId :: string
  si_accountId :: string
  si_subject :: subject
  si_conversationKind :: conversation_kind
  si_adapter :: adapter
  si_accessGroups :: "(string \<times> access_group) list option"
  si_membership :: "membership_fact list option"
  si_routeFacts :: "route_facts list option"
  si_mentionFacts :: "mention_facts option"
  si_event :: event_input
  si_dm :: "string list option"
  si_group :: "string list option"
  si_commandOwner :: "string list option"
  si_commandGroup :: "string list option"
  si_pairingStore :: "string list option"

datatype dm_policy = DmPairing | DmAllowlist | DmOpen | DmDisabled

datatype group_policy = GpAllowlist | GpOpen | GpDisabled

datatype mutable_matching = MutableDisabled | MutableEnabled

datatype activation_order = BeforeSender | AfterCommand

datatype groups_off_mode = OffAllow | OffDeny | OffConfigured

record activation_policy =
  ap_requireMention :: bool
  ap_allowTextCommands :: bool
  ap_implicitMentions :: "implicit_mentions option"
  ap_allowedKinds :: "mention_kind list option"
  ap_order :: "activation_order option"

record command_policy =
  cp_useAccessGroups :: "bool option"
  cp_allowTextCommands :: bool
  cp_hasControlCommand :: bool
  cp_modeWhenOff :: "groups_off_mode option"

record ingress_policy =
  po_dmPolicy :: dm_policy
  po_groupPolicy :: group_policy
  po_groupFallback :: "bool option"
  po_mutable :: "mutable_matching option"
  po_activation :: "activation_policy option"
  po_command :: "command_policy option"

subsection \<open>Gates, state, decision\<close>

datatype gate_phase = PhRoute | PhSender | PhCommand | PhEvent | PhActivation

datatype any_policy = PolicyDm dm_policy | PolicyGroup group_policy

record command_facts =
  cf_useAccessGroups :: bool
  cf_allowTextCommands :: bool
  cf_modeWhenOff :: "groups_off_mode option"
  cf_shouldBlock :: bool

record activation_facts =
  ac_hasMentionFacts :: bool
  ac_requireMention :: bool
  ac_allowTextCommands :: bool
  ac_allowedKinds :: "mention_kind list option"
  ac_order :: "activation_order option"
  ac_shouldSkip :: bool
  ac_canDetectMention :: "bool option"
  ac_wasMentioned :: "bool option"
  ac_hasAnyMention :: "bool option"
  ac_implicitKinds :: "mention_kind list option"
  ac_effectiveWasMentioned :: "bool option"
  ac_shouldBypassMention :: "bool option"

record gate =
  ga_id :: string
  ga_phase :: gate_phase
  ga_kind :: gate_kind
  ga_effect :: gate_effect
  ga_allowed :: bool
  ga_reason :: reason
  ga_match :: "imatch option"
  ga_allowlist :: "allowlist_facts option"
  ga_sender :: "any_policy option"
  ga_command :: "command_facts option"
  ga_event :: "ingress_event option"
  ga_activation :: "activation_facts option"

record ingress_state =
  is_channelId :: string
  is_accountId :: string
  is_conversationKind :: conversation_kind
  is_event :: ingress_event
  is_mentionFacts :: "mention_facts option"
  is_routeFacts :: "resolved_route list"
  is_dm :: allowlist
  is_pairingStore :: allowlist
  is_group :: allowlist
  is_commandOwner :: allowlist
  is_commandGroup :: allowlist

datatype admission = AdDispatch | AdObserve | AdSkip | AdDrop | AdPairingRequired

datatype decision_kind = DkAllow | DkBlock | DkPairing

record ingress_decision =
  de_admission :: admission
  de_decision :: decision_kind
  de_gateId :: string
  de_reason :: reason
  de_gates :: "gate list"

text \<open>A gate with only the properties every gate has.\<close>

definition plain_gate :: "string \<Rightarrow> gate_phase \<Rightarrow> gate_kind \<Rightarrow> gate_effect \<Rightarrow> bool \<Rightarrow> reason \<Rightarrow> gate" where
  "plain_gate i ph k ef al r = \<lparr>ga_id = i, ga_phase = ph, ga_kind = k, ga_effect = ef,
     ga_allowed = al, ga_reason = r, ga_match = None, ga_allowlist = None, ga_sender = None,
     ga_command = None, ga_event = None, ga_activation = None\<rparr>"

lemma plain_gate_sel [simp]:
  "ga_id (plain_gate i ph k ef al r) = i" "ga_phase (plain_gate i ph k ef al r) = ph"
  "ga_kind (plain_gate i ph k ef al r) = k" "ga_effect (plain_gate i ph k ef al r) = ef"
  "ga_allowed (plain_gate i ph k ef al r) = al" "ga_reason (plain_gate i ph k ef al r) = r"
  by (simp_all add: plain_gate_def)

end
