(* ===== verification/Ingress_Allowlist.thy ===== *)
theory Ingress_Allowlist
  imports Ingress_Types
begin

section \<open>Channel ingress: allowlists\<close>

text \<open>
  \<^verbatim>\<open>src/channels/message-access/allowlist.ts\<close> and the entry parsers of
  \<^verbatim>\<open>src/channels/allow-from.ts\<close>: access-group references, the merge of allowlists, the
  policy for mutable identifiers, and the allowlist a group sender is held against.
\<close>

definition ACCESS_GROUP_ALLOW_FROM_PREFIX :: string where
  "ACCESS_GROUP_ALLOW_FROM_PREFIX = ''accessGroup:''"

definition parseAccessGroupAllowFromEntry :: "string \<Rightarrow> string option" where
  "parseAccessGroupAllowFromEntry entry =
     (let trimmed = js_trim entry; n = length ACCESS_GROUP_ALLOW_FROM_PREFIX in
      if take n trimmed \<noteq> ACCESS_GROUP_ALLOW_FROM_PREFIX then None
      else (let name = js_trim (drop n trimmed) in if length name > 0 then Some name else None))"

text \<open>\<^verbatim>\<open>normalizeStringEntries\<close> of an optional list.\<close>

definition normalizeStringEntries :: "string list \<Rightarrow> string list" where
  "normalizeStringEntries xs = filter (\<lambda>s. s \<noteq> []) (map js_trim xs)"

definition mergeDmAllowFromSources ::
    "string list option \<Rightarrow> string list option \<Rightarrow> dm_policy option \<Rightarrow> string list" where
  "mergeDmAllowFromSources allowFrom storeAllowFrom dmPolicy =
     normalizeStringEntries (case_option [] id allowFrom
       @ (if dmPolicy = Some DmAllowlist \<or> dmPolicy = Some DmOpen then []
          else case_option [] id storeAllowFrom))"

definition resolveGroupAllowFromSources ::
    "string list option \<Rightarrow> string list option \<Rightarrow> bool option \<Rightarrow> string list" where
  "resolveGroupAllowFromSources allowFrom groupAllowFrom fallbackToAllowFrom =
     normalizeStringEntries
       (if groupAllowFrom \<noteq> None \<and> length (the groupAllowFrom) > 0 then the groupAllowFrom
        else if fallbackToAllowFrom = Some False then []
        else case_option [] id allowFrom)"

definition isSenderIdAllowed ::
    "string list \<Rightarrow> bool \<Rightarrow> bool \<Rightarrow> string option \<Rightarrow> bool \<Rightarrow> bool" where
  "isSenderIdAllowed entries hasWildcard hasEntries senderId allowWhenEmpty =
     (if \<not> hasEntries then allowWhenEmpty
      else if hasWildcard then True
      else if \<not> truthy_str senderId then False
      else the senderId \<in> set entries)"

subsection \<open>Diagnostics and merging\<close>

definition allowlistFailureReason :: "allowlist \<Rightarrow> reason option" where
  "allowlistFailureReason a =
     (if length (ag_failed (al_accessGroups a)) > 0 then Some RAccessGroupFailed
      else if length (ag_unsupported (al_accessGroups a)) > 0 then Some RAccessGroupUnsupported
      else if length (ag_missing (al_accessGroups a)) > 0 then Some RAccessGroupMissing
      else None)"

definition redactedAllowlistDiagnostics :: "allowlist \<Rightarrow> reason \<Rightarrow> allowlist_facts" where
  "redactedAllowlistDiagnostics a r =
     \<lparr>af_configured = al_hasConfiguredEntries a, af_matched = im_matched (al_match a),
      af_reasonCode = r, af_matchedEntryIds = al_matchedEntryIds a,
      af_invalidEntryCount = length (al_invalidEntries a),
      af_disabledEntryCount = length (al_disabledEntries a),
      af_accessGroups = al_accessGroups a\<rparr>"

definition flat_map :: "('a \<Rightarrow> 'b list) \<Rightarrow> 'a list \<Rightarrow> 'b list" where
  "flat_map f xs = concat (map f xs)"

definition mergeResolvedAllowlists :: "allowlist list \<Rightarrow> allowlist" where
  "mergeResolvedAllowlists als =
     (let matches = map al_match als;
          ids = uniqueValues (flat_map al_matchedEntryIds als);
          groups = (\<lambda>sel. uniqueValues (flat_map (\<lambda>a. sel (al_accessGroups a)) als))
      in \<lparr>al_rawEntryCount = sum_list (map al_rawEntryCount als),
          al_normalizedEntries = flat_map al_normalizedEntries als,
          al_invalidEntries = flat_map al_invalidEntries als,
          al_disabledEntries = flat_map al_disabledEntries als,
          al_matchedEntryIds = ids,
          al_hasConfiguredEntries = list_ex al_hasConfiguredEntries als,
          al_hasMatchableEntries = list_ex al_hasMatchableEntries als,
          al_hasWildcard = list_ex al_hasWildcard als,
          al_accessGroups = \<lparr>ag_referenced = groups ag_referenced, ag_matched = groups ag_matched,
            ag_missing = groups ag_missing, ag_unsupported = groups ag_unsupported,
            ag_failed = groups ag_failed\<rparr>,
          al_match = \<lparr>im_matched = list_ex im_matched matches \<or> length ids > 0,
                      im_entryIds = ids\<rparr>\<rparr>)"

definition dangerous :: "nentry \<Rightarrow> bool" where
  "dangerous e \<longleftrightarrow> ne_dangerous e = Some True"

definition applyMutableIdentifierPolicy :: "allowlist \<Rightarrow> ingress_policy \<Rightarrow> allowlist" where
  "applyMutableIdentifierPolicy a policy =
     (if po_mutable policy = Some MutableEnabled then a
      else
       (let dangerousEntryIds = map ne_id (filter dangerous (al_normalizedEntries a)) in
        if length dangerousEntryIds = 0 then a
        else
         (let ids = filter (\<lambda>i. i \<notin> set dangerousEntryIds) (al_matchedEntryIds a) in
          a\<lparr>al_disabledEntries := al_disabledEntries a
              @ map (\<lambda>e. \<lparr>dg_id = Some (ne_id e), dg_reason = RMutableDisabled\<rparr>)
                  (filter dangerous (al_normalizedEntries a)),
            al_matchedEntryIds := ids,
            al_hasMatchableEntries := list_ex (\<lambda>e. \<not> dangerous e) (al_normalizedEntries a),
            al_match := \<lparr>im_matched = length ids > 0, im_entryIds = ids\<rparr>\<rparr>)))"

text \<open>The loop over the route facts, then the mutable-identifier policy.\<close>

definition route_override :: "allowlist \<Rightarrow> resolved_route \<Rightarrow> allowlist" where
  "route_override effective r =
     (case rr_senderAllowlist r of
        None \<Rightarrow> effective
      | Some s \<Rightarrow>
          (if rr_gate r \<noteq> RsMatched then effective
           else if rr_senderPolicy r = SpInherit then mergeResolvedAllowlists [effective, s]
           else s))"

definition effectiveGroupSenderAllowlist :: "ingress_state \<Rightarrow> ingress_policy \<Rightarrow> allowlist" where
  "effectiveGroupSenderAllowlist st policy =
     applyMutableIdentifierPolicy
       (foldl route_override
         (if po_groupFallback policy = Some True \<and> \<not> al_hasConfiguredEntries (is_group st)
          then is_dm st else is_group st) (is_routeFacts st)) policy"

subsection \<open>Facts\<close>

text \<open>What policy-disabled mutable identifiers still leave of a match.\<close>

lemma mutable_policy_safe:
  assumes "po_mutable policy \<noteq> Some MutableEnabled" "e \<in> set (al_normalizedEntries a)" "dangerous e"
  shows "ne_id e \<notin> set (al_matchedEntryIds (applyMutableIdentifierPolicy a policy))"
    "ne_id e \<notin> set (im_entryIds (al_match (applyMutableIdentifierPolicy a policy)))"
proof -
  have "filter dangerous (al_normalizedEntries a) \<noteq> []"
    using assms(2,3) by (auto simp: filter_empty_conv)
  then show "ne_id e \<notin> set (al_matchedEntryIds (applyMutableIdentifierPolicy a policy))"
    "ne_id e \<notin> set (im_entryIds (al_match (applyMutableIdentifierPolicy a policy)))"
    using assms by (auto simp: applyMutableIdentifierPolicy_def Let_def)
qed

lemma mutable_policy_shrinks:
  "set (al_matchedEntryIds (applyMutableIdentifierPolicy a policy)) \<subseteq> set (al_matchedEntryIds a)"
  "al_hasWildcard (applyMutableIdentifierPolicy a policy) = al_hasWildcard a"
  "al_hasConfiguredEntries (applyMutableIdentifierPolicy a policy) = al_hasConfiguredEntries a"
  "al_accessGroups (applyMutableIdentifierPolicy a policy) = al_accessGroups a"
  by (auto simp: applyMutableIdentifierPolicy_def Let_def)

end
