(* ===== verification/Ingress_Gates.thy ===== *)
theory Ingress_Gates
  imports Ingress_Allowlist
begin

section \<open>Channel ingress: commands, mentions, senders\<close>

text \<open>
  \<^verbatim>\<open>src/channels/command-gating.ts\<close>, \<^verbatim>\<open>src/channels/mention-gating.ts\<close>
  and \<^verbatim>\<open>src/channels/message-access/sender-gates.ts\<close>.
\<close>

subsection \<open>Command authorization\<close>

record authorizer =
  au_configured :: bool
  au_allowed :: bool

definition resolveCommandAuthorizedFromAuthorizers ::
    "bool \<Rightarrow> authorizer list \<Rightarrow> groups_off_mode option \<Rightarrow> bool" where
  "resolveCommandAuthorizedFromAuthorizers useAccessGroups authorizers mode0 =
     (let mode = (case mode0 of None \<Rightarrow> OffAllow | Some m \<Rightarrow> m) in
      if \<not> useAccessGroups then
        (if mode = OffAllow then True
         else if mode = OffDeny then False
         else if \<not> list_ex au_configured authorizers then True
         else list_ex (\<lambda>e. au_configured e \<and> au_allowed e) authorizers)
      else list_ex (\<lambda>e. au_configured e \<and> au_allowed e) authorizers)"

text \<open>The pair is \<^verbatim>\<open>commandAuthorized\<close> and \<^verbatim>\<open>shouldBlock\<close>.\<close>

definition resolveControlCommandGate ::
    "bool \<Rightarrow> authorizer list \<Rightarrow> bool \<Rightarrow> bool \<Rightarrow> groups_off_mode option \<Rightarrow> bool \<times> bool" where
  "resolveControlCommandGate useAccessGroups authorizers allowTextCommands hasControlCommand mode =
     (let commandAuthorized = resolveCommandAuthorizedFromAuthorizers useAccessGroups authorizers mode
      in (commandAuthorized, allowTextCommands \<and> hasControlCommand \<and> \<not> commandAuthorized))"

definition resolveDualTextControlCommandGate ::
    "bool \<Rightarrow> bool \<Rightarrow> bool \<Rightarrow> bool \<Rightarrow> bool \<Rightarrow> bool \<Rightarrow> groups_off_mode option \<Rightarrow> bool \<times> bool" where
  "resolveDualTextControlCommandGate useAccessGroups primaryConfigured primaryAllowed
       secondaryConfigured secondaryAllowed hasControlCommand mode =
     resolveControlCommandGate useAccessGroups
       [\<lparr>au_configured = primaryConfigured, au_allowed = primaryAllowed\<rparr>,
        \<lparr>au_configured = secondaryConfigured, au_allowed = secondaryAllowed\<rparr>]
       True hasControlCommand mode"

subsection \<open>Mentions\<close>

record mention_policy =
  mp_isGroup :: bool
  mp_requireMention :: bool
  mp_implicitMentions :: "implicit_mentions option"
  mp_allowedKinds :: "mention_kind list option"
  mp_allowTextCommands :: bool
  mp_hasControlCommand :: bool
  mp_commandAuthorized :: bool

record mention_decision =
  md_effectiveWasMentioned :: bool
  md_shouldSkip :: bool
  md_implicitMention :: bool
  md_matchedKinds :: "mention_kind list"
  md_shouldBypassMention :: bool

definition implicitMentionKindWhen :: "mention_kind \<Rightarrow> bool \<Rightarrow> mention_kind list" where
  "implicitMentionKindWhen kind enabled = (if enabled then [kind] else [])"

definition allowedImplicitMentionKindsFromConfig :: "implicit_mentions \<Rightarrow> mention_kind list" where
  "allowedImplicitMentionKindsFromConfig config =
     implicitMentionKindWhen MkReplyToBot (mi_replyToBot config \<noteq> Some False)
     @ implicitMentionKindWhen MkQuotedBot (mi_quotedBot config \<noteq> Some False)
     @ implicitMentionKindWhen MkBotThread (mi_threadParticipation config \<noteq> Some False)
     @ [MkNative]"

text \<open>The loop collects the allowed kinds, each once.\<close>

fun match_kinds :: "mention_kind list option \<Rightarrow> mention_kind list \<Rightarrow> mention_kind list \<Rightarrow> mention_kind list" where
  "match_kinds allowed matched [] = matched"
| "match_kinds allowed matched (kind # rest) =
     (if allowed \<noteq> None \<and> kind \<notin> set (the allowed) then match_kinds allowed matched rest
      else if kind \<notin> set matched then match_kinds allowed (matched @ [kind]) rest
      else match_kinds allowed matched rest)"

definition resolveMatchedImplicitMentionKinds ::
    "mention_kind list option \<Rightarrow> mention_kind list option \<Rightarrow> mention_kind list" where
  "resolveMatchedImplicitMentionKinds kinds allowed =
     (let inputKinds = case_option [] id kinds in
      if length inputKinds = 0 then [] else match_kinds allowed [] inputKinds)"

definition resolveMentionDecisionCore ::
    "bool \<Rightarrow> bool \<Rightarrow> bool \<Rightarrow> mention_kind list option \<Rightarrow> mention_kind list option \<Rightarrow> bool
     \<Rightarrow> mention_decision" where
  "resolveMentionDecisionCore requireMention canDetectMention wasMentioned kinds allowed bypass =
     (let matched = resolveMatchedImplicitMentionKinds kinds allowed;
          implicitMention = length matched > 0;
          effective = wasMentioned \<or> implicitMention \<or> bypass
      in \<lparr>md_effectiveWasMentioned = effective,
          md_shouldSkip = (requireMention \<and> canDetectMention \<and> \<not> effective),
          md_implicitMention = implicitMention, md_matchedKinds = matched,
          md_shouldBypassMention = bypass\<rparr>)"

definition resolveInboundMentionDecision :: "mention_facts \<Rightarrow> mention_policy \<Rightarrow> mention_decision" where
  "resolveInboundMentionDecision facts policy =
     (let allowed = (case mp_allowedKinds policy of
            Some ks \<Rightarrow> Some ks
          | None \<Rightarrow> map_option allowedImplicitMentionKindsFromConfig (mp_implicitMentions policy));
          bypass = mp_isGroup policy \<and> mp_requireMention policy \<and> \<not> mn_wasMentioned facts
            \<and> mn_hasAnyMention facts \<noteq> Some True \<and> mp_allowTextCommands policy
            \<and> mp_commandAuthorized policy \<and> mp_hasControlCommand policy
      in resolveMentionDecisionCore (mp_requireMention policy) (mn_canDetectMention facts)
           (mn_wasMentioned facts) (mn_implicitKinds facts) allowed bypass)"

lemma match_kinds_set:
  "set (match_kinds allowed matched ks) = set matched
     \<union> {k \<in> set ks. allowed = None \<or> k \<in> set (the allowed)}"
  by (induction allowed matched ks rule: match_kinds.induct) auto

lemma match_kinds_distinct: "distinct matched \<Longrightarrow> distinct (match_kinds allowed matched ks)"
  by (induction allowed matched ks rule: match_kinds.induct) auto

lemma matched_kinds_set:
  "set (resolveMatchedImplicitMentionKinds kinds allowed)
     = {k \<in> set (case_option [] id kinds). allowed = None \<or> k \<in> set (the allowed)}"
  by (auto simp: resolveMatchedImplicitMentionKinds_def match_kinds_set Let_def)

subsection \<open>Sender gates\<close>

definition senderGate ::
    "string \<Rightarrow> gate_kind \<Rightarrow> gate_effect \<Rightarrow> bool \<Rightarrow> reason \<Rightarrow> imatch \<Rightarrow> any_policy \<Rightarrow> allowlist \<Rightarrow> gate" where
  "senderGate i kind effect allowed reasonCode m policy source =
     (plain_gate i PhSender kind effect allowed reasonCode)
       \<lparr>ga_match := Some m, ga_sender := Some policy,
        ga_allowlist := Some (redactedAllowlistDiagnostics source reasonCode)\<rparr>"

definition senderGateForDirect :: "ingress_state \<Rightarrow> ingress_policy \<Rightarrow> gate" where
  "senderGateForDirect st policy =
     (let dm = applyMutableIdentifierPolicy (is_dm st) policy;
          pairingStore = applyMutableIdentifierPolicy (is_pairingStore st) policy;
          p = po_dmPolicy policy;
          allow = (\<lambda>r. senderGate ''sender:dm'' KDmSender EfAllow True r (al_match dm) (PolicyDm p) dm);
          block = (\<lambda>r. senderGate ''sender:dm'' KDmSender EfBlockDispatch False r (al_match dm)
                     (PolicyDm p) dm)
      in if p = DmDisabled then block RDmDisabled
         else if p = DmOpen then
           (if al_hasWildcard dm then allow RDmOpen
            else if im_matched (al_match dm) then allow RDmAllowlisted
            else block RDmNotAllowlisted)
         else if im_matched (al_match dm) then allow RDmAllowlisted
         else if p = DmPairing \<and> im_matched (al_match pairingStore) then
           senderGate ''sender:dm'' KDmSender EfAllow True RDmAllowlisted (al_match pairingStore)
             (PolicyDm p) pairingStore
         else if p = DmPairing \<and> ev_mayPair (is_event st) then block RDmPairingRequired
         else block (if p = DmPairing then REventPairingNotAllowed
                     else (case allowlistFailureReason dm of
                             None \<Rightarrow> RDmNotAllowlisted | Some r \<Rightarrow> r)))"

definition senderGateForGroup :: "ingress_state \<Rightarrow> ingress_policy \<Rightarrow> gate" where
  "senderGateForGroup st policy =
     (let grp = effectiveGroupSenderAllowlist st policy;
          p = po_groupPolicy policy;
          allow = (\<lambda>r. senderGate ''sender:group'' KGroupSender EfAllow True r (al_match grp)
                     (PolicyGroup p) grp);
          block = (\<lambda>r. senderGate ''sender:group'' KGroupSender EfBlockDispatch False r (al_match grp)
                     (PolicyGroup p) grp)
      in if p = GpDisabled then block RGroupDisabled
         else if p = GpOpen then allow RGroupOpen
         else if \<not> al_hasConfiguredEntries grp then block RGroupEmptyAllowlist
         else if im_matched (al_match grp) then allow RGroupAllowed
         else block (case allowlistFailureReason grp of
                       None \<Rightarrow> RGroupNotAllowlisted | Some r \<Rightarrow> r))"

definition applyEventAuthModeToSenderGate :: "ingress_state \<Rightarrow> gate \<Rightarrow> gate" where
  "applyEventAuthModeToSenderGate st g =
     (if ev_authMode (is_event st) = AuthInbound \<or> ga_allowed g then g
      else g\<lparr>ga_effect := EfIgnore, ga_allowed := True, ga_reason := RSenderNotRequired,
             ga_allowlist := map_option (\<lambda>a. a\<lparr>af_reasonCode := RSenderNotRequired\<rparr>) (ga_allowlist g)\<rparr>)"

end
