(* ===== verification/Ingress_Decision.thy ===== *)
theory Ingress_Decision
  imports Ingress_Gates
begin

section \<open>Channel ingress: the decision\<close>

text \<open>
  \<^verbatim>\<open>src/channels/message-access/decision.ts\<close>: the gates of an inbound event in order,
  and the admission that follows from them.
\<close>

definition decisiveDecision ::
    "admission \<Rightarrow> decision_kind \<Rightarrow> gate \<Rightarrow> gate list \<Rightarrow> ingress_decision" where
  "decisiveDecision adm dec g gates = \<lparr>de_admission = adm, de_decision = dec,
     de_gateId = ga_id g, de_reason = ga_reason g, de_gates = gates\<rparr>"

definition routeGates :: "ingress_state \<Rightarrow> gate list" where
  "routeGates st = map (\<lambda>r.
     (plain_gate (rr_id r) PhRoute (rr_kind r) (rr_effect r) (rr_effect r \<noteq> EfBlockDispatch)
       (if rr_effect r = EfBlockDispatch then RRouteBlocked else RAllowed))
       \<lparr>ga_match := rr_match r\<rparr>) (is_routeFacts st)"

definition empty_route_sender :: "resolved_route \<Rightarrow> bool" where
  "empty_route_sender r \<longleftrightarrow> rr_senderPolicy r = SpDenyWhenEmpty \<and> rr_gate r = RsMatched
     \<and> (case rr_senderAllowlist r of None \<Rightarrow> True | Some a \<Rightarrow> \<not> al_hasConfiguredEntries a)"

definition routeSenderEmptyGate :: "ingress_state \<Rightarrow> gate option" where
  "routeSenderEmptyGate st =
     (case find empty_route_sender (is_routeFacts st) of
        None \<Rightarrow> None
      | Some r \<Rightarrow> Some ((plain_gate (rr_id r @ '':sender'') PhRoute KRouteSender EfBlockDispatch False
          RRouteSenderEmpty)\<lparr>ga_match := rr_match r,
          ga_allowlist := map_option (\<lambda>a. redactedAllowlistDiagnostics a RRouteSenderEmpty)
            (rr_senderAllowlist r)\<rparr>))"

definition mergeCommandMatch :: "imatch \<Rightarrow> imatch \<Rightarrow> imatch" where
  "mergeCommandMatch own grp =
     (let ids = uniqueValues (im_entryIds own @ im_entryIds grp)
      in \<lparr>im_matched = im_matched own \<or> im_matched grp \<or> length ids > 0, im_entryIds = ids\<rparr>)"

text \<open>The two authorizers a command is checked against.\<close>

definition command_authorizers :: "ingress_state \<Rightarrow> ingress_policy \<Rightarrow> authorizer list" where
  "command_authorizers st policy =
     map (\<lambda>a. \<lparr>au_configured = al_hasConfiguredEntries a, au_allowed = im_matched (al_match a)\<rparr>)
       [applyMutableIdentifierPolicy (is_commandOwner st) policy,
        applyMutableIdentifierPolicy (is_commandGroup st) policy]"

definition commandGate :: "ingress_state \<Rightarrow> ingress_policy \<Rightarrow> gate" where
  "commandGate st policy =
     (case po_command policy of
        None \<Rightarrow> plain_gate ''command'' PhCommand KCommand EfAllow True RCommandAuthorized
      | Some command \<Rightarrow>
          (let useAccessGroups = (cp_useAccessGroups command \<noteq> Some False);
               own = applyMutableIdentifierPolicy (is_commandOwner st) policy;
               grp = applyMutableIdentifierPolicy (is_commandGroup st) policy;
               authorized = resolveCommandAuthorizedFromAuthorizers useAccessGroups
                 (command_authorizers st policy) (cp_modeWhenOff command);
               shouldBlock = cp_allowTextCommands command \<and> cp_hasControlCommand command \<and> \<not> authorized
           in (plain_gate ''command'' PhCommand KCommand
                (if shouldBlock then EfBlockCommand else EfAllow) authorized
                (if shouldBlock then RControlCommandUnauthorized else RCommandAuthorized))
                \<lparr>ga_match := Some (mergeCommandMatch (al_match own) (al_match grp)),
                 ga_command := Some \<lparr>cf_useAccessGroups = useAccessGroups,
                   cf_allowTextCommands = cp_allowTextCommands command,
                   cf_modeWhenOff = cp_modeWhenOff command, cf_shouldBlock = shouldBlock\<rparr>\<rparr>))"

definition event_result :: "ingress_state \<Rightarrow> bool \<Rightarrow> reason \<Rightarrow> gate" where
  "event_result st allowed r =
     (plain_gate ''event'' PhEvent KEvent (if allowed then EfAllow else EfBlockDispatch) allowed r)
       \<lparr>ga_event := Some (is_event st)\<rparr>"

definition eventGate :: "ingress_state \<Rightarrow> gate \<Rightarrow> gate \<Rightarrow> gate" where
  "eventGate st sender command =
     (let mode = ev_authMode (is_event st) in
      if mode = AuthNone \<or> mode = AuthRouteOnly then event_result st True REventAuthorized
      else if mode = AuthCommand then
        event_result st (ga_allowed command)
          (if ga_allowed command then REventAuthorized else REventUnauthorized)
      else if mode = AuthOriginSubject then
        (if \<not> ev_hasOriginSubject (is_event st) then event_result st False ROriginMissing
         else (let matched = ev_originSubjectMatched (is_event st)
               in event_result st matched (if matched then REventAuthorized else ROriginNotMatched)))
      else event_result st (ga_allowed sender)
             (if ga_allowed sender then REventAuthorized else REventUnauthorized))"

definition resolveAllowedImplicitMentionKinds ::
    "activation_policy option \<Rightarrow> mention_kind list option" where
  "resolveAllowedImplicitMentionKinds activation =
     (case activation of
        None \<Rightarrow> None
      | Some a \<Rightarrow> (case ap_allowedKinds a of
                     Some ks \<Rightarrow> Some ks
                   | None \<Rightarrow> map_option allowedImplicitMentionKindsFromConfig (ap_implicitMentions a)))"

definition activationMetadata ::
    "activation_policy option \<Rightarrow> mention_facts option \<Rightarrow> bool \<Rightarrow> bool option \<Rightarrow> bool option
     \<Rightarrow> activation_facts" where
  "activationMetadata activation facts shouldSkip effective bypass =
     \<lparr>ac_hasMentionFacts = (facts \<noteq> None),
      ac_requireMention = (case activation of None \<Rightarrow> False | Some a \<Rightarrow> ap_requireMention a),
      ac_allowTextCommands = (case activation of None \<Rightarrow> False | Some a \<Rightarrow> ap_allowTextCommands a),
      ac_allowedKinds = resolveAllowedImplicitMentionKinds activation,
      ac_order = Option.bind activation ap_order,
      ac_shouldSkip = shouldSkip,
      ac_canDetectMention = map_option mn_canDetectMention facts,
      ac_wasMentioned = map_option mn_wasMentioned facts,
      ac_hasAnyMention = Option.bind facts mn_hasAnyMention,
      ac_implicitKinds = Option.bind facts mn_implicitKinds,
      ac_effectiveWasMentioned = effective, ac_shouldBypassMention = bypass\<rparr>"

definition activation_result ::
    "ingress_state \<Rightarrow> ingress_policy \<Rightarrow> bool \<Rightarrow> bool option \<Rightarrow> bool option \<Rightarrow> gate" where
  "activation_result st policy shouldSkip effective bypass =
     (plain_gate ''activation'' PhActivation KMention (if shouldSkip then EfSkip else EfAllow)
       (\<not> shouldSkip) (if shouldSkip then RActivationSkipped else RActivationAllowed))
       \<lparr>ga_activation := Some (activationMetadata (po_activation policy) (is_mentionFacts st)
          shouldSkip effective bypass)\<rparr>"

definition activationGate :: "ingress_state \<Rightarrow> ingress_policy \<Rightarrow> gate \<Rightarrow> gate" where
  "activationGate st policy command =
     (case (po_activation policy, is_mentionFacts st) of
        (Some activation, Some facts) \<Rightarrow>
          (let result = resolveInboundMentionDecision facts
             \<lparr>mp_isGroup = (is_conversationKind st \<noteq> CkDirect),
              mp_requireMention = ap_requireMention activation, mp_implicitMentions = None,
              mp_allowedKinds = resolveAllowedImplicitMentionKinds (Some activation),
              mp_allowTextCommands = ap_allowTextCommands activation,
              mp_hasControlCommand =
                (case po_command policy of None \<Rightarrow> False | Some c \<Rightarrow> cp_hasControlCommand c),
              mp_commandAuthorized = ga_allowed command\<rparr>
           in activation_result st policy (md_shouldSkip result)
                (Some (md_effectiveWasMentioned result)) (Some (md_shouldBypassMention result)))
      | (_, facts) \<Rightarrow>
          activation_result st policy False
            (map_option (\<lambda>f. mn_wasMentioned f
               \<or> (case mn_implicitKinds f of None \<Rightarrow> False | Some ks \<Rightarrow> length ks > 0)) facts) None)"

text \<open>The last stage, once sender, command and event let the event through.\<close>

definition finish_activation :: "gate \<Rightarrow> gate list \<Rightarrow> ingress_decision" where
  "finish_activation activation gates =
     (if ga_effect activation = EfSkip then decisiveDecision AdSkip DkAllow activation gates
      else if ga_effect activation = EfObserve then decisiveDecision AdObserve DkAllow activation gates
      else decisiveDecision AdDispatch DkAllow activation gates)"

text \<open>From the sender gate on; \<open>before\<close> is the activation gate that already ran, if any.\<close>

definition decide_from_sender ::
    "ingress_state \<Rightarrow> ingress_policy \<Rightarrow> gate option \<Rightarrow> gate list \<Rightarrow> ingress_decision" where
  "decide_from_sender st policy before gates0 =
     (let sender0 = (if is_conversationKind st = CkDirect then senderGateForDirect st policy
                     else senderGateForGroup st policy);
          sender = applyEventAuthModeToSenderGate st sender0;
          gates1 = gates0 @ [sender]
      in if \<not> ga_allowed sender then
           (let pairing = (ga_reason sender = RDmPairingRequired)
            in decisiveDecision (if pairing then AdPairingRequired else AdDrop)
                 (if pairing then DkPairing else DkBlock) sender gates1)
         else
           (let command = commandGate st policy; gates2 = gates1 @ [command]
            in if ga_effect command = EfBlockCommand
               then decisiveDecision AdDrop DkBlock command gates2
               else
                 (let event = eventGate st sender command; gates3 = gates2 @ [event]
                  in if \<not> ga_allowed event then decisiveDecision AdDrop DkBlock event gates3
                     else (case before of
                             Some activation \<Rightarrow> finish_activation activation gates3
                           | None \<Rightarrow>
                               (let activation = activationGate st policy command
                                in finish_activation activation (gates3 @ [activation]))))))"

definition activation_before_sender :: "ingress_state \<Rightarrow> ingress_policy \<Rightarrow> gate option" where
  "activation_before_sender st policy =
     (case po_activation policy of
        None \<Rightarrow> None
      | Some a \<Rightarrow>
          (if ap_order a = Some BeforeSender \<and> \<not> ap_allowTextCommands a
           then Some (activationGate st policy (commandGate st (policy\<lparr>po_command := None\<rparr>)))
           else None))"

definition decideChannelIngress :: "ingress_state \<Rightarrow> ingress_policy \<Rightarrow> ingress_decision" where
  "decideChannelIngress st policy =
     (let gates0 = routeGates st @ (case routeSenderEmptyGate st of None \<Rightarrow> [] | Some g \<Rightarrow> [g])
      in case find (\<lambda>g. ga_effect g = EfBlockDispatch) gates0 of
           Some routeBlock \<Rightarrow> decisiveDecision AdDrop DkBlock routeBlock gates0
         | None \<Rightarrow>
             (case activation_before_sender st policy of
                None \<Rightarrow> decide_from_sender st policy None gates0
              | Some activation \<Rightarrow>
                  (if ga_effect activation = EfSkip
                   then decisiveDecision AdSkip DkAllow activation (gates0 @ [activation])
                   else decide_from_sender st policy (Some activation) (gates0 @ [activation]))))"

end
