(* ===== verification/Ingress_Facts.thy ===== *)
theory Ingress_Facts
  imports Ingress_Decision
begin

section \<open>Channel ingress: what admits an event\<close>

text \<open>
  An abstract specification of \<^verbatim>\<open>decideChannelIngress\<close>: four independent conditions on
  the resolved state and the policy, with no gate, order or early return in them. The lemmas show
  that each gate computes its condition; the decision is put together from them in
  \<open>Ingress_Properties\<close>.
\<close>

subsection \<open>The specification\<close>

text \<open>No route refuses dispatch, and no matched route that demands senders lacks them.\<close>

definition route_admits :: "ingress_state \<Rightarrow> bool" where
  "route_admits st \<longleftrightarrow>
     list_all (\<lambda>r. rr_effect r \<noteq> EfBlockDispatch \<and> \<not> empty_route_sender r) (is_routeFacts st)"

text \<open>The matches a sender can rely on, after the policy for mutable identifiers.\<close>

definition listed :: "ingress_policy \<Rightarrow> allowlist \<Rightarrow> bool" where
  "listed policy a \<longleftrightarrow> im_matched (al_match (applyMutableIdentifierPolicy a policy))"

definition sender_listed :: "ingress_state \<Rightarrow> ingress_policy \<Rightarrow> bool" where
  "sender_listed st policy =
     (if is_conversationKind st = CkDirect then
        (case po_dmPolicy policy of
           DmDisabled \<Rightarrow> False
         | DmOpen \<Rightarrow> al_hasWildcard (is_dm st) \<or> listed policy (is_dm st)
         | DmAllowlist \<Rightarrow> listed policy (is_dm st)
         | DmPairing \<Rightarrow> listed policy (is_dm st) \<or> listed policy (is_pairingStore st))
      else
        (case po_groupPolicy policy of
           GpDisabled \<Rightarrow> False
         | GpOpen \<Rightarrow> True
         | GpAllowlist \<Rightarrow> al_hasConfiguredEntries (effectiveGroupSenderAllowlist st policy)
             \<and> im_matched (al_match (effectiveGroupSenderAllowlist st policy))))"

text \<open>Only inbound messages are held against the sender lists.\<close>

definition sender_admitted :: "ingress_state \<Rightarrow> ingress_policy \<Rightarrow> bool" where
  "sender_admitted st policy \<longleftrightarrow> ev_authMode (is_event st) = AuthInbound \<longrightarrow> sender_listed st policy"

definition command_listed :: "ingress_state \<Rightarrow> ingress_policy \<Rightarrow> bool" where
  "command_listed st policy \<longleftrightarrow>
     list_ex (\<lambda>a. al_hasConfiguredEntries a \<and> listed policy a) [is_commandOwner st, is_commandGroup st]"

definition command_authorized :: "ingress_state \<Rightarrow> ingress_policy \<Rightarrow> bool" where
  "command_authorized st policy =
     (case po_command policy of
        None \<Rightarrow> True
      | Some c \<Rightarrow>
          (if cp_useAccessGroups c \<noteq> Some False then command_listed st policy
           else (case cp_modeWhenOff c of
                   None \<Rightarrow> True
                 | Some OffAllow \<Rightarrow> True
                 | Some OffDeny \<Rightarrow> False
                 | Some OffConfigured \<Rightarrow>
                     \<not> al_hasConfiguredEntries (is_commandOwner st)
                     \<and> \<not> al_hasConfiguredEntries (is_commandGroup st)
                     \<or> command_listed st policy)))"

definition is_control_command :: "ingress_policy \<Rightarrow> bool" where
  "is_control_command policy =
     (case po_command policy of
        None \<Rightarrow> False | Some c \<Rightarrow> cp_allowTextCommands c \<and> cp_hasControlCommand c)"

definition command_admitted :: "ingress_state \<Rightarrow> ingress_policy \<Rightarrow> bool" where
  "command_admitted st policy \<longleftrightarrow> is_control_command policy \<longrightarrow> command_authorized st policy"

definition event_admitted :: "ingress_state \<Rightarrow> ingress_policy \<Rightarrow> bool" where
  "event_admitted st policy =
     (case ev_authMode (is_event st) of
        AuthCommand \<Rightarrow> command_authorized st policy
      | AuthOriginSubject \<Rightarrow> ev_hasOriginSubject (is_event st) \<and> ev_originSubjectMatched (is_event st)
      | _ \<Rightarrow> True)"

text \<open>A mention is required, could have been seen, and is neither there nor made up for.\<close>

definition implicitly_mentioned :: "activation_policy \<Rightarrow> mention_facts \<Rightarrow> bool" where
  "implicitly_mentioned a f \<longleftrightarrow>
     list_ex (\<lambda>k. case resolveAllowedImplicitMentionKinds (Some a) of None \<Rightarrow> True
       | Some ks \<Rightarrow> k \<in> set ks) (case_option [] id (mn_implicitKinds f))"

definition command_bypasses_mention ::
    "ingress_state \<Rightarrow> ingress_policy \<Rightarrow> activation_policy \<Rightarrow> mention_facts \<Rightarrow> bool" where
  "command_bypasses_mention st policy a f \<longleftrightarrow>
     is_conversationKind st \<noteq> CkDirect \<and> mn_hasAnyMention f \<noteq> Some True \<and> ap_allowTextCommands a
     \<and> command_authorized st policy
     \<and> (case po_command policy of None \<Rightarrow> False | Some c \<Rightarrow> cp_hasControlCommand c)"

definition mention_missing :: "ingress_state \<Rightarrow> ingress_policy \<Rightarrow> bool" where
  "mention_missing st policy =
     (case (po_activation policy, is_mentionFacts st) of
        (Some a, Some f) \<Rightarrow> ap_requireMention a \<and> mn_canDetectMention f \<and> \<not> mn_wasMentioned f
          \<and> \<not> implicitly_mentioned a f \<and> \<not> command_bypasses_mention st policy a f
      | _ \<Rightarrow> False)"

text \<open>Activation runs first when it is asked to and no text command could bypass it.\<close>

definition mention_first :: "ingress_policy \<Rightarrow> bool" where
  "mention_first policy =
     (case po_activation policy of
        None \<Rightarrow> False
      | Some a \<Rightarrow> ap_order a = Some BeforeSender \<and> \<not> ap_allowTextCommands a)"

subsection \<open>Routes\<close>

lemma find_None_iff_list_all: "find P xs = None \<longleftrightarrow> list_all (\<lambda>x. \<not> P x) xs"
  by (auto simp: find_None_iff list_all_iff)

lemma routeSenderEmptyGate_None:
  "routeSenderEmptyGate st = None \<longleftrightarrow> list_all (\<lambda>r. \<not> empty_route_sender r) (is_routeFacts st)"
  by (simp add: routeSenderEmptyGate_def find_None_iff_list_all [symmetric] split: option.split)

lemma routeSenderEmptyGate_block:
  "routeSenderEmptyGate st = Some g \<Longrightarrow>
     ga_effect g = EfBlockDispatch \<and> ga_reason g = RRouteSenderEmpty \<and> \<not> ga_allowed g"
  by (auto simp: routeSenderEmptyGate_def split: option.splits)

definition route_gates :: "ingress_state \<Rightarrow> gate list" where
  "route_gates st = routeGates st @ (case routeSenderEmptyGate st of None \<Rightarrow> [] | Some g \<Rightarrow> [g])"

lemma routeGates_effects: "map ga_effect (routeGates st) = map rr_effect (is_routeFacts st)"
  by (simp add: routeGates_def)

lemma route_block_iff:
  "find (\<lambda>g. ga_effect g = EfBlockDispatch) (route_gates st) = None \<longleftrightarrow> route_admits st"
proof -
  have "list_all (\<lambda>g. ga_effect g \<noteq> EfBlockDispatch) (routeGates st)
        = list_all (\<lambda>r. rr_effect r \<noteq> EfBlockDispatch) (is_routeFacts st)"
    by (simp add: routeGates_def list_all_iff)
  moreover have "list_all (\<lambda>g. ga_effect g \<noteq> EfBlockDispatch)
        (case routeSenderEmptyGate st of None \<Rightarrow> [] | Some g \<Rightarrow> [g])
        = list_all (\<lambda>r. \<not> empty_route_sender r) (is_routeFacts st)"
    by (auto simp: routeSenderEmptyGate_None [symmetric] dest: routeSenderEmptyGate_block
        split: option.split)
  ultimately show ?thesis
    by (auto simp: find_None_iff_list_all route_gates_def route_admits_def list_all_iff)
qed

subsection \<open>Senders\<close>

lemma senderGate_sel [simp]:
  "ga_id (senderGate i k ef al r m p a) = i" "ga_kind (senderGate i k ef al r m p a) = k"
  "ga_effect (senderGate i k ef al r m p a) = ef" "ga_allowed (senderGate i k ef al r m p a) = al"
  "ga_reason (senderGate i k ef al r m p a) = r" "ga_phase (senderGate i k ef al r m p a) = PhSender"
  by (simp_all add: senderGate_def)

lemma mutable_policy_wildcard [simp]:
  "al_hasWildcard (applyMutableIdentifierPolicy a policy) = al_hasWildcard a"
  by (rule mutable_policy_shrinks)

lemma mutable_policy_configured [simp]:
  "al_hasConfiguredEntries (applyMutableIdentifierPolicy a policy) = al_hasConfiguredEntries a"
  by (rule mutable_policy_shrinks)

definition sender_gate :: "ingress_state \<Rightarrow> ingress_policy \<Rightarrow> gate" where
  "sender_gate st policy = applyEventAuthModeToSenderGate st
     (if is_conversationKind st = CkDirect then senderGateForDirect st policy
      else senderGateForGroup st policy)"

lemma direct_gate_allowed:
  "is_conversationKind st = CkDirect \<Longrightarrow>
     ga_allowed (senderGateForDirect st policy) = sender_listed st policy"
  by (cases "po_dmPolicy policy")
    (auto simp: senderGateForDirect_def sender_listed_def listed_def Let_def)

lemma group_gate_allowed:
  "is_conversationKind st \<noteq> CkDirect \<Longrightarrow>
     ga_allowed (senderGateForGroup st policy) = sender_listed st policy"
  by (cases "po_groupPolicy policy")
    (auto simp: senderGateForGroup_def sender_listed_def Let_def)

lemma sender_gate_allowed: "ga_allowed (sender_gate st policy) = sender_admitted st policy"
  by (auto simp: sender_gate_def applyEventAuthModeToSenderGate_def sender_admitted_def
      direct_gate_allowed group_gate_allowed)

lemma group_gate_reason: "ga_reason (senderGateForGroup st policy) \<noteq> RDmPairingRequired"
  by (auto simp: senderGateForGroup_def allowlistFailureReason_def Let_def split: option.split if_splits)

text \<open>Who is offered pairing.\<close>

definition pairing_offered :: "ingress_state \<Rightarrow> ingress_policy \<Rightarrow> bool" where
  "pairing_offered st policy \<longleftrightarrow>
     is_conversationKind st = CkDirect \<and> po_dmPolicy policy = DmPairing \<and> ev_mayPair (is_event st)
     \<and> ev_authMode (is_event st) = AuthInbound
     \<and> \<not> listed policy (is_dm st) \<and> \<not> listed policy (is_pairingStore st)"

lemma direct_gate_reason:
  "ga_reason (senderGateForDirect st policy) = RDmPairingRequired \<longleftrightarrow>
     po_dmPolicy policy = DmPairing \<and> ev_mayPair (is_event st)
     \<and> \<not> listed policy (is_dm st) \<and> \<not> listed policy (is_pairingStore st)"
  by (cases "po_dmPolicy policy")
    (auto simp: senderGateForDirect_def listed_def allowlistFailureReason_def Let_def
      split: option.split if_splits)

lemma sender_gate_pairing:
  "\<not> ga_allowed (sender_gate st policy) \<and> ga_reason (sender_gate st policy) = RDmPairingRequired
     \<longleftrightarrow> pairing_offered st policy"
proof (cases "is_conversationKind st = CkDirect")
  case True
  have "\<not> ga_allowed (senderGateForDirect st policy)"
    if "ga_reason (senderGateForDirect st policy) = RDmPairingRequired"
    using that True by (auto simp: direct_gate_reason direct_gate_allowed sender_listed_def)
  with True show ?thesis
    by (auto simp: sender_gate_def applyEventAuthModeToSenderGate_def pairing_offered_def
        direct_gate_reason)
next
  case False
  then show ?thesis
    by (auto simp: sender_gate_def applyEventAuthModeToSenderGate_def pairing_offered_def
        group_gate_reason)
qed

subsection \<open>Commands, events, activation\<close>

lemma command_authorizers_authorized:
  "resolveCommandAuthorizedFromAuthorizers use (command_authorizers st policy) mode =
     (if use then command_listed st policy
      else (case mode of
              None \<Rightarrow> True | Some OffAllow \<Rightarrow> True | Some OffDeny \<Rightarrow> False
            | Some OffConfigured \<Rightarrow> \<not> al_hasConfiguredEntries (is_commandOwner st)
                \<and> \<not> al_hasConfiguredEntries (is_commandGroup st) \<or> command_listed st policy))"
  by (auto simp: resolveCommandAuthorizedFromAuthorizers_def command_authorizers_def
      command_listed_def listed_def Let_def split: option.split groups_off_mode.split)

lemma command_gate_allowed: "ga_allowed (commandGate st policy) = command_authorized st policy"
  by (simp add: commandGate_def command_authorized_def command_authorizers_authorized Let_def
      split: option.split)

lemma command_gate_effect:
  "ga_effect (commandGate st policy) = (if command_admitted st policy then EfAllow else EfBlockCommand)"
  by (auto simp: commandGate_def command_admitted_def command_authorized_def is_control_command_def
      command_authorizers_authorized Let_def split: option.split)

lemma command_gate_without: "commandGate st (policy\<lparr>po_command := None\<rparr>)
    = plain_gate ''command'' PhCommand KCommand EfAllow True RCommandAuthorized"
  by (simp add: commandGate_def)

lemma event_result_sel [simp]:
  "ga_allowed (event_result st al r) = al" "ga_reason (event_result st al r) = r"
  "ga_id (event_result st al r) = ''event''" "ga_phase (event_result st al r) = PhEvent"
  "ga_effect (event_result st al r) = (if al then EfAllow else EfBlockDispatch)"
  by (simp_all add: event_result_def)

lemma event_gate_allowed:
  "sender_admitted st policy \<Longrightarrow>
     ga_allowed (eventGate st (sender_gate st policy) (commandGate st policy)) = event_admitted st policy"
  by (cases "ev_authMode (is_event st)")
    (auto simp: eventGate_def event_admitted_def command_gate_allowed sender_gate_allowed Let_def)

lemma activation_result_sel [simp]:
  "ga_effect (activation_result st policy sk e b) = (if sk then EfSkip else EfAllow)"
  "ga_allowed (activation_result st policy sk e b) = (\<not> sk)"
  "ga_id (activation_result st policy sk e b) = ''activation''"
  "ga_phase (activation_result st policy sk e b) = PhActivation"
  "ga_reason (activation_result st policy sk e b) = (if sk then RActivationSkipped else RActivationAllowed)"
  by (simp_all add: activation_result_def)

lemma implicit_mention_iff:
  "length (resolveMatchedImplicitMentionKinds (mn_implicitKinds f)
     (resolveAllowedImplicitMentionKinds (Some a))) > 0 \<longleftrightarrow> implicitly_mentioned a f"
proof -
  have "length M > 0 \<longleftrightarrow> (\<exists>k. k \<in> set M)" for M :: "mention_kind list"
    by (cases M) auto
  then show ?thesis
    by (cases "resolveAllowedImplicitMentionKinds (Some a)")
      (simp_all add: matched_kinds_set implicitly_mentioned_def list_ex_iff Bex_def)
qed

text \<open>What a mention check comes to, given whether the command gate lets a command through.\<close>

definition mention_missing_with :: "ingress_state \<Rightarrow> ingress_policy \<Rightarrow> bool \<Rightarrow> bool" where
  "mention_missing_with st policy authorized =
     (case (po_activation policy, is_mentionFacts st) of
        (Some a, Some f) \<Rightarrow> ap_requireMention a \<and> mn_canDetectMention f \<and> \<not> mn_wasMentioned f
          \<and> \<not> implicitly_mentioned a f
          \<and> \<not> (is_conversationKind st \<noteq> CkDirect \<and> mn_hasAnyMention f \<noteq> Some True
               \<and> ap_allowTextCommands a \<and> authorized
               \<and> (case po_command policy of None \<Rightarrow> False | Some c \<Rightarrow> cp_hasControlCommand c))
      | _ \<Rightarrow> False)"

lemma mention_missing_with_auth:
  "mention_missing_with st policy (command_authorized st policy) = mention_missing st policy"
  by (simp add: mention_missing_with_def mention_missing_def command_bypasses_mention_def
      split: option.split)

lemma activation_gate_effect:
  "ga_effect (activationGate st policy command)
     = (if mention_missing_with st policy (ga_allowed command) then EfSkip else EfAllow)"
proof (cases "po_activation policy")
  case None
  then show ?thesis by (simp add: activationGate_def mention_missing_with_def)
next
  case (Some a)
  note act = this
  show ?thesis
  proof (cases "is_mentionFacts st")
    case None
    with act show ?thesis by (simp add: activationGate_def mention_missing_with_def)
  next
    case (Some f)
    have "md_shouldSkip (resolveInboundMentionDecision f
             \<lparr>mp_isGroup = (is_conversationKind st \<noteq> CkDirect),
              mp_requireMention = ap_requireMention a, mp_implicitMentions = None,
              mp_allowedKinds = resolveAllowedImplicitMentionKinds (Some a),
              mp_allowTextCommands = ap_allowTextCommands a,
              mp_hasControlCommand =
                (case po_command policy of None \<Rightarrow> False | Some c \<Rightarrow> cp_hasControlCommand c),
              mp_commandAuthorized = ga_allowed command\<rparr>)
        = mention_missing_with st policy (ga_allowed command)"
      using act Some implicit_mention_iff [of f a]
      by (auto simp: resolveInboundMentionDecision_def resolveMentionDecisionCore_def
          mention_missing_with_def Let_def split: option.splits)
    with act Some show ?thesis by (simp add: activationGate_def Let_def)
  qed
qed

lemma activation_gate_skips:
  "ga_effect (activationGate st policy (commandGate st policy))
     = (if mention_missing st policy then EfSkip else EfAllow)"
  by (simp add: activation_gate_effect command_gate_allowed mention_missing_with_auth)

lemma activation_first_effect:
  "mention_first policy \<Longrightarrow>
     \<exists>g. activation_before_sender st policy = Some g
       \<and> ga_effect g = (if mention_missing st policy then EfSkip else EfAllow)"
  by (auto simp: activation_before_sender_def mention_first_def activation_gate_effect
      mention_missing_with_def mention_missing_def command_bypasses_mention_def split: option.splits)

lemma activation_later: "\<not> mention_first policy \<Longrightarrow> activation_before_sender st policy = None"
  by (auto simp: activation_before_sender_def mention_first_def split: option.splits)

end
