(* ===== verification/Ingress_Properties.thy ===== *)
theory Ingress_Properties
  imports Ingress_Facts
begin

section \<open>Channel ingress: the decision implements its specification\<close>

text \<open>
  The gates of \<open>Ingress_Decision\<close> put together: what is admitted, how a decision is explained
  by its gate graph, that the place of the mention gate does not change who is dispatched, and
  what policy-disabled mutable identifiers and route overrides leave of an allowlist.
\<close>

subsection \<open>The specification of the whole decision\<close>

definition specified_admission :: "ingress_state \<Rightarrow> ingress_policy \<Rightarrow> admission" where
  "specified_admission st policy =
     (if \<not> route_admits st then AdDrop
      else if mention_first policy \<and> mention_missing st policy then AdSkip
      else if pairing_offered st policy then AdPairingRequired
      else if sender_admitted st policy \<and> command_admitted st policy \<and> event_admitted st policy
      then (if mention_missing st policy then AdSkip else AdDispatch)
      else AdDrop)"

lemma decisive_sel [simp]:
  "de_admission (decisiveDecision a k g gs) = a" "de_decision (decisiveDecision a k g gs) = k"
  "de_gateId (decisiveDecision a k g gs) = ga_id g" "de_reason (decisiveDecision a k g gs) = ga_reason g"
  "de_gates (decisiveDecision a k g gs) = gs"
  by (simp_all add: decisiveDecision_def)

lemma finish_activation_skips:
  "ga_effect g = (if b then EfSkip else EfAllow) \<Longrightarrow>
     finish_activation g gs = decisiveDecision (if b then AdSkip else AdDispatch) DkAllow g gs"
  by (simp add: finish_activation_def)

lemma pairing_not_admitted: "pairing_offered st policy \<Longrightarrow> \<not> sender_admitted st policy"
  using sender_gate_pairing [of st policy] by (simp add: sender_gate_allowed)

text \<open>The stages after the routes, as one case distinction over the specification's conditions.\<close>

lemma decide_from_sender_cases:
  assumes before: "\<forall>g. before = Some g \<longrightarrow> ga_effect g = (if mention_missing st policy then EfSkip else EfAllow)"
  defines "s \<equiv> sender_gate st policy" and "c \<equiv> commandGate st policy"
  defines "e \<equiv> eventGate st s c" and "a \<equiv> activationGate st policy c"
  shows "decide_from_sender st policy before gs =
    (if pairing_offered st policy then decisiveDecision AdPairingRequired DkPairing s (gs @ [s])
     else if \<not> sender_admitted st policy then decisiveDecision AdDrop DkBlock s (gs @ [s])
     else if \<not> command_admitted st policy then decisiveDecision AdDrop DkBlock c (gs @ [s, c])
     else if \<not> event_admitted st policy then decisiveDecision AdDrop DkBlock e (gs @ [s, c, e])
     else decisiveDecision (if mention_missing st policy then AdSkip else AdDispatch) DkAllow
       (case before of Some g \<Rightarrow> g | None \<Rightarrow> a)
       (gs @ [s, c, e] @ (case before of Some g \<Rightarrow> [] | None \<Rightarrow> [a])))"
proof -
  note unfold = decide_from_sender_def sender_gate_def [symmetric] Let_def s_def [symmetric]
    c_def [symmetric] e_def [symmetric] a_def [symmetric]
  have s: "ga_allowed s = sender_admitted st policy"
    by (simp add: s_def sender_gate_allowed)
  have pair: "pairing_offered st policy = (\<not> ga_allowed s \<and> ga_reason s = RDmPairingRequired)"
    by (simp add: s_def sender_gate_pairing)
  have c: "ga_effect c = (if command_admitted st policy then EfAllow else EfBlockCommand)"
    by (simp add: c_def command_gate_effect)
  have a: "ga_effect a = (if mention_missing st policy then EfSkip else EfAllow)"
    by (simp add: a_def c_def activation_gate_skips)
  show ?thesis
  proof (cases "sender_admitted st policy")
    case False
    with s show ?thesis by (simp add: unfold pair)
  next
    case True
    then have e: "ga_allowed e = event_admitted st policy"
      by (simp add: e_def s_def c_def event_gate_allowed)
    from True have "\<not> pairing_offered st policy" using pairing_not_admitted by blast
    with True show ?thesis
      using before a
      by (cases before) (simp_all add: unfold s c e finish_activation_skips)
  qed
qed

lemma decide_routes:
  "decideChannelIngress st policy =
     (case find (\<lambda>g. ga_effect g = EfBlockDispatch) (route_gates st) of
        Some g \<Rightarrow> decisiveDecision AdDrop DkBlock g (route_gates st)
      | None \<Rightarrow>
          (case activation_before_sender st policy of
             None \<Rightarrow> decide_from_sender st policy None (route_gates st)
           | Some a \<Rightarrow>
               (if ga_effect a = EfSkip then decisiveDecision AdSkip DkAllow a (route_gates st @ [a])
                else decide_from_sender st policy (Some a) (route_gates st @ [a]))))"
  by (simp only: decideChannelIngress_def route_gates_def Let_def)

lemma before_sender_effect:
  "activation_before_sender st policy = Some g \<Longrightarrow>
     mention_first policy \<and> ga_effect g = (if mention_missing st policy then EfSkip else EfAllow)"
  using activation_first_effect [of policy st] activation_later [of policy st]
  by (cases "mention_first policy") auto

lemma decide_from_sender_admission:
  assumes "\<And>g. before = Some g \<Longrightarrow> ga_effect g = (if mention_missing st policy then EfSkip else EfAllow)"
  shows "de_admission (decide_from_sender st policy before gs) =
    (if pairing_offered st policy then AdPairingRequired
     else if sender_admitted st policy \<and> command_admitted st policy \<and> event_admitted st policy
     then (if mention_missing st policy then AdSkip else AdDispatch) else AdDrop)"
  by (subst decide_from_sender_cases) (use assms in auto)

lemma admission_specified: "de_admission (decideChannelIngress st policy) = specified_admission st policy"
proof (cases "find (\<lambda>g. ga_effect g = EfBlockDispatch) (route_gates st)")
  case (Some g)
  then have "\<not> route_admits st" using route_block_iff [of st] by simp
  with Some show ?thesis by (simp add: decide_routes specified_admission_def)
next
  case None
  then have routes: "route_admits st" by (simp add: route_block_iff)
  show ?thesis
  proof (cases "activation_before_sender st policy")
    case (Some a)
    note a = before_sender_effect [OF this]
    then have "de_admission (decide_from_sender st policy (Some a) gs) = specified_admission st policy"
      if "\<not> mention_missing st policy" for gs
      using that routes by (subst decide_from_sender_admission) (auto simp: specified_admission_def)
    with a None Some routes show ?thesis
      by (auto simp: decide_routes specified_admission_def)
  next
    case later: None
    then have "\<not> mention_first policy" using activation_first_effect [of policy st] by auto
    then have "de_admission (decide_from_sender st policy None gs) = specified_admission st policy" for gs
      using routes by (subst decide_from_sender_admission) (auto simp: specified_admission_def)
    with None later show ?thesis by (simp add: decide_routes)
  qed
qed

text \<open>The conditions read everything of the policy but the order of activation.\<close>

lemma mutable_policy_order:
  "applyMutableIdentifierPolicy a (policy\<lparr>po_activation := x\<rparr>) = applyMutableIdentifierPolicy a policy"
  by (simp add: applyMutableIdentifierPolicy_def)

lemma order_free_lists:
  "listed (policy\<lparr>po_activation := x\<rparr>) a = listed policy a"
  "effectiveGroupSenderAllowlist st (policy\<lparr>po_activation := x\<rparr>) = effectiveGroupSenderAllowlist st policy"
  "command_listed st (policy\<lparr>po_activation := x\<rparr>) = command_listed st policy"
  by (simp_all add: listed_def effectiveGroupSenderAllowlist_def command_listed_def mutable_policy_order)

lemma order_free_command:
  "command_authorized st (policy\<lparr>po_activation := x\<rparr>) = command_authorized st policy"
  by (simp add: command_authorized_def order_free_lists
      split: option.split groups_off_mode.split)

lemma order_free_sender:
  "sender_listed st (policy\<lparr>po_activation := x\<rparr>) = sender_listed st policy"
  by (cases "po_dmPolicy policy"; cases "po_groupPolicy policy")
    (simp_all add: sender_listed_def order_free_lists)

lemma order_free:
  "sender_admitted st (policy\<lparr>po_activation := x\<rparr>) = sender_admitted st policy"
  "command_admitted st (policy\<lparr>po_activation := x\<rparr>) = command_admitted st policy"
  "event_admitted st (policy\<lparr>po_activation := x\<rparr>) = event_admitted st policy"
  "pairing_offered st (policy\<lparr>po_activation := x\<rparr>) = pairing_offered st policy"
  by (simp_all add: sender_admitted_def order_free_sender command_admitted_def is_control_command_def
      order_free_command event_admitted_def pairing_offered_def order_free_lists
      split: auth_mode.split)

lemma order_free_implicit:
  "implicitly_mentioned (a\<lparr>ap_order := order\<rparr>) f = implicitly_mentioned a f"
proof -
  have "resolveAllowedImplicitMentionKinds (Some (a\<lparr>ap_order := order\<rparr>))
      = resolveAllowedImplicitMentionKinds (Some a)"
    by (simp add: resolveAllowedImplicitMentionKinds_def split: option.split)
  then show ?thesis by (simp add: implicitly_mentioned_def)
qed

lemma order_free_mention:
  "mention_missing st (policy\<lparr>po_activation := map_option (\<lambda>a. a\<lparr>ap_order := order\<rparr>) (po_activation policy)\<rparr>)
     = mention_missing st policy"
  by (cases "po_activation policy"; cases "is_mentionFacts st")
    (simp_all add: mention_missing_def order_free_implicit command_bypasses_mention_def
      order_free_command)

text \<open>
  C34: The admission is the one the abstract specification names: an event is dropped unless the
  routes admit it, skipped early when a mention is missing and checked first, answered with a
  pairing request when pairing is offered, dropped unless sender, command and event are admitted,
  and then skipped or dispatched by the mention check.
\<close>

theorem admission_is_specified:
  "de_admission (decideChannelIngress st policy) = specified_admission st policy"
  by (rule admission_specified)

text \<open>
  An event is dispatched exactly when the routes admit it, its sender is authorized (or it is no
  inbound message), its command is authorized or no text control command, its event check
  passes, and no required mention is missing.
\<close>

lemma dispatch_iff_admitted:
  "de_admission (decideChannelIngress st policy) = AdDispatch \<longleftrightarrow>
     route_admits st \<and> sender_admitted st policy \<and> command_admitted st policy
     \<and> event_admitted st policy \<and> \<not> mention_missing st policy"
  by (auto simp: admission_specified specified_admission_def dest: pairing_not_admitted)

text \<open>
  Where the mention check runs does not matter for who is dispatched: any two activation orders
  dispatch the same events.
\<close>

theorem order_keeps_dispatch:
  "de_admission (decideChannelIngress st (policy\<lparr>po_activation :=
       map_option (\<lambda>a. a\<lparr>ap_order := order1\<rparr>) (po_activation policy)\<rparr>)) = AdDispatch
   \<longleftrightarrow> de_admission (decideChannelIngress st (policy\<lparr>po_activation :=
       map_option (\<lambda>a. a\<lparr>ap_order := order2\<rparr>) (po_activation policy)\<rparr>)) = AdDispatch"
proof -
  have same: "specified_admission st (policy\<lparr>po_activation :=
        map_option (\<lambda>a. a\<lparr>ap_order := order\<rparr>) (po_activation policy)\<rparr>) = AdDispatch
      \<longleftrightarrow> specified_admission st policy = AdDispatch" for order
    by (auto simp: order_free order_free_mention specified_admission_def dest: pairing_not_admitted)
  show ?thesis by (simp only: admission_specified same)
qed

subsection \<open>The gate graph explains the decision\<close>

text \<open>
  A gate that lets the event pass, and a gate that accounts for an outcome. Effects of route gates
  other than \<open>EfBlockDispatch\<close> are only recorded.
\<close>

definition passes :: "gate \<Rightarrow> bool" where
  "passes g \<longleftrightarrow> ga_effect g \<noteq> EfBlockDispatch
     \<and> (ga_phase g = PhRoute \<or> ga_effect g \<noteq> EfBlockCommand \<and> ga_effect g \<noteq> EfSkip)"

fun explains :: "admission \<Rightarrow> decision_kind \<Rightarrow> gate \<Rightarrow> bool" where
  "explains AdDispatch k g = (k = DkAllow \<and> ga_phase g = PhActivation \<and> ga_effect g = EfAllow)"
| "explains AdObserve k g = False"
| "explains AdSkip k g = (k = DkAllow \<and> ga_phase g = PhActivation \<and> ga_effect g = EfSkip)"
| "explains AdPairingRequired k g =
     (k = DkPairing \<and> ga_phase g = PhSender \<and> ga_reason g = RDmPairingRequired)"
| "explains AdDrop k g = (k = DkBlock \<and> \<not> passes g)"

text \<open>The decision is about \<open>g\<close>, the gates before it let the event pass, so do those after
  it in a dispatch.\<close>

definition explained_by :: "ingress_decision \<Rightarrow> gate list \<Rightarrow> gate \<Rightarrow> gate list \<Rightarrow> bool" where
  "explained_by d pre g post \<longleftrightarrow> de_gates d = pre @ g # post \<and> list_all passes pre
     \<and> de_gateId d = ga_id g \<and> de_reason d = ga_reason g
     \<and> explains (de_admission d) (de_decision d) g
     \<and> (de_admission d = AdDispatch \<longrightarrow> list_all passes post)"

lemma explainedI: "explained_by d pre g post \<Longrightarrow> \<exists>pre g post. explained_by d pre g post"
  by blast

lemma direct_gate_effect:
  "ga_effect (senderGateForDirect st policy)
     = (if ga_allowed (senderGateForDirect st policy) then EfAllow else EfBlockDispatch)
   \<and> ga_phase (senderGateForDirect st policy) = PhSender"
  by (simp add: senderGateForDirect_def Let_def)

lemma group_gate_effect:
  "ga_effect (senderGateForGroup st policy)
     = (if ga_allowed (senderGateForGroup st policy) then EfAllow else EfBlockDispatch)
   \<and> ga_phase (senderGateForGroup st policy) = PhSender"
  by (simp add: senderGateForGroup_def Let_def)

lemma sender_gate_effect:
  "ga_phase (sender_gate st policy) = PhSender"
  "sender_admitted st policy \<Longrightarrow> ga_effect (sender_gate st policy) \<in> {EfAllow, EfIgnore}"
  "\<not> sender_admitted st policy \<Longrightarrow> ga_effect (sender_gate st policy) = EfBlockDispatch"
  using direct_gate_effect [of st policy] group_gate_effect [of st policy]
    sender_gate_allowed [of st policy]
  by (auto simp: sender_gate_def applyEventAuthModeToSenderGate_def split: if_splits)

lemma sender_passes: "passes (sender_gate st policy) = sender_admitted st policy"
  using sender_gate_effect [of st policy]
  by (cases "sender_admitted st policy") (auto simp: passes_def)

lemma command_gate_phase: "ga_phase (commandGate st policy) = PhCommand"
  by (simp add: commandGate_def Let_def split: option.split)

lemma command_passes: "passes (commandGate st policy) = command_admitted st policy"
  by (simp add: passes_def command_gate_phase command_gate_effect)

lemma event_gate_shape:
  "ga_effect (eventGate st s c) = (if ga_allowed (eventGate st s c) then EfAllow else EfBlockDispatch)"
  "ga_phase (eventGate st s c) = PhEvent"
  by (simp_all add: eventGate_def Let_def)

lemma event_passes: "passes (eventGate st s c) = ga_allowed (eventGate st s c)"
  by (simp add: passes_def event_gate_shape)

lemma activation_gate_phase: "ga_phase (activationGate st policy c) = PhActivation"
  by (simp add: activationGate_def Let_def split: option.split prod.split)

lemma before_sender_phase: "activation_before_sender st policy = Some g \<Longrightarrow> ga_phase g = PhActivation"
  by (auto simp: activation_before_sender_def activation_gate_phase split: option.splits if_splits)

lemma route_gate_phases: "list_all (\<lambda>g. ga_phase g = PhRoute) (route_gates st)"
  by (auto simp: route_gates_def routeGates_def routeSenderEmptyGate_def list_all_iff
      split: option.splits)

lemma route_gates_pass:
  "find (\<lambda>g. ga_effect g = EfBlockDispatch) (route_gates st) = None \<Longrightarrow> list_all passes (route_gates st)"
  using route_gate_phases [of st] by (auto simp: find_None_iff passes_def list_all_iff)

lemma find_Some_splits:
  "find P xs = Some x \<Longrightarrow> \<exists>ys zs. xs = ys @ x # zs \<and> P x \<and> list_all (\<lambda>y. \<not> P y) ys"
proof (induction xs)
  case (Cons a xs)
  show ?case
  proof (cases "P a")
    case True
    with Cons.prems show ?thesis by - (rule exI [of _ "[]"], rule exI [of _ xs], simp)
  next
    case False
    with Cons obtain ys zs where "xs = ys @ x # zs \<and> P x \<and> list_all (\<lambda>y. \<not> P y) ys" by auto
    with False show ?thesis by - (rule exI [of _ "a # ys"], rule exI [of _ zs], simp)
  qed
qed simp

lemma route_block_explained:
  assumes "find (\<lambda>g. ga_effect g = EfBlockDispatch) (route_gates st) = Some g"
  shows "\<exists>pre post. explained_by (decisiveDecision AdDrop DkBlock g (route_gates st)) pre g post"
proof -
  from find_Some_splits [OF assms] obtain pre post where
    split: "route_gates st = pre @ g # post" "ga_effect g = EfBlockDispatch"
      "list_all (\<lambda>y. ga_effect y \<noteq> EfBlockDispatch) pre"
    by auto
  with route_gate_phases [of st] have "list_all passes pre"
    by (auto simp: passes_def list_all_iff)
  with split show ?thesis by (auto simp: explained_by_def passes_def)
qed

lemma decide_from_sender_explained:
  assumes before: "\<And>g. before = Some g \<Longrightarrow> ga_effect g = (if mention_missing st policy then EfSkip else EfAllow)
      \<and> ga_phase g = PhActivation \<and> gs = gs0 @ [g] \<and> \<not> mention_missing st policy"
    and none: "before = None \<Longrightarrow> gs = gs0" and pass: "list_all passes gs0"
  shows "\<exists>pre g post. explained_by (decide_from_sender st policy before gs) pre g post"
proof -
  have gs: "list_all passes gs"
    using before none pass by (cases before) (auto simp: passes_def)
  have e: "sender_admitted st policy \<Longrightarrow>
      passes (eventGate st (sender_gate st policy) (commandGate st policy)) = event_admitted st policy"
    by (simp add: event_passes event_gate_allowed)
  have pair: "pairing_offered st policy \<Longrightarrow> ga_reason (sender_gate st policy) = RDmPairingRequired"
    using sender_gate_pairing [of st policy] by simp
  note simps = explained_by_def gs sender_passes command_passes sender_gate_effect(1) pair
  have "\<forall>g. before = Some g \<longrightarrow> ga_effect g = (if mention_missing st policy then EfSkip else EfAllow)"
    using before by blast
  note eq = decide_from_sender_cases [OF this, where gs = gs]
  show ?thesis
  proof (cases "sender_admitted st policy \<and> command_admitted st policy \<and> event_admitted st policy")
    case False
    then consider "\<not> sender_admitted st policy"
      | "sender_admitted st policy" "\<not> command_admitted st policy"
      | "sender_admitted st policy" "command_admitted st policy" "\<not> event_admitted st policy" by blast
    then show ?thesis
    proof cases
      case 1
      then show ?thesis unfolding eq
        by (intro explainedI [of _ gs "sender_gate st policy"
            "[]"])
          (simp add: simps)
    next
      case 2
      then have "\<not> pairing_offered st policy" using pairing_not_admitted by blast
      with 2 show ?thesis unfolding eq
        by (intro explainedI [of _ "gs @ [sender_gate st policy]" "commandGate st policy"
            "[]"]) (simp add: simps)
    next
      case 3
      then have "\<not> pairing_offered st policy" using pairing_not_admitted by blast
      with 3 e show ?thesis unfolding eq
        by (intro explainedI [of _ "gs @ [sender_gate st policy, commandGate st policy]"
            "eventGate st (sender_gate st policy) (commandGate st policy)"
            "[]"]) (simp add: simps)
    qed
  next
    case True
    then have p: "\<not> pairing_offered st policy" using pairing_not_admitted by blast
    show ?thesis
    proof (cases before)
      case None
      with True p e show ?thesis unfolding eq
        by (intro explainedI [of _ "gs @ [sender_gate st policy, commandGate st policy,
              eventGate st (sender_gate st policy) (commandGate st policy)]"
            "activationGate st policy (commandGate st policy)"
            "[]"])
          (simp add: simps activation_gate_phase activation_gate_skips)
    next
      case (Some g)
      with True p e before [OF Some] pass show ?thesis unfolding eq
        by (intro explainedI [of _ gs0 g
            "[sender_gate st policy, commandGate st policy,
              eventGate st (sender_gate st policy) (commandGate st policy)]"])
          (simp add: simps)
    qed
  qed
qed

text \<open>
  Every decision is explained by its own gate graph: it carries the id and the reason of one of
  the gates it returns, every gate before that one let the event pass, the gate's phase, effect and
  the decision kind account for the admission, and in a dispatch no gate at all refuses.
\<close>

theorem decision_is_explained:
  "\<exists>pre g post. explained_by (decideChannelIngress st policy) pre g post"
proof (cases "find (\<lambda>g. ga_effect g = EfBlockDispatch) (route_gates st)")
  case (Some g)
  then show ?thesis using route_block_explained [OF Some] by (auto simp: decide_routes)
next
  case None
  note pass = route_gates_pass [OF None]
  show ?thesis
  proof (cases "activation_before_sender st policy")
    case later: None
    have "\<exists>pre g post. explained_by (decide_from_sender st policy None (route_gates st)) pre g post"
      by (rule decide_from_sender_explained [where ?gs0.0 = "route_gates st"]) (use pass in simp_all)
    with None later show ?thesis by (simp add: decide_routes)
  next
    case (Some a)
    note a = before_sender_effect [OF Some] before_sender_phase [OF Some]
    show ?thesis
    proof (cases "mention_missing st policy")
      case True
      with None Some a pass show ?thesis
        by (intro explainedI [of _ "route_gates st" a
            "[]"])
          (simp add: decide_routes explained_by_def)
    next
      case False
      have "\<exists>pre g post. explained_by
          (decide_from_sender st policy (Some a) (route_gates st @ [a])) pre g post"
        by (rule decide_from_sender_explained [where ?gs0.0 = "route_gates st"]) (use a False pass in auto)
      with None Some a False show ?thesis by (simp add: decide_routes)
    qed
  qed
qed

end
