(* ===== verification/Ingress_State.thy ===== *)
theory Ingress_State
  imports Ingress_Allowlist
begin

section \<open>Channel ingress: resolving the state\<close>

text \<open>
  \<^verbatim>\<open>src/channels/message-access/state.ts\<close>: from the raw lists of an event to resolved
  allowlists. The adapter's functions are the channel's own and stay arguments; their promises are
  their values, since nothing here writes shared state between two awaits. Routes are ordered by
  precedence and then by \<^verbatim>\<open>localeCompare\<close> of their ids, which is the order of the
  collation keys \<open>collate\<close> of the runtime's locale.
\<close>

text \<open>A natural number in a template string.\<close>

fun js_nat :: "nat \<Rightarrow> string" where
  "js_nat n = (if n < 10 then [char_of (48 + n)] else js_nat (n div 10) @ [char_of (48 + n mod 10)])"

declare js_nat.simps [simp del]

definition redactedEntries :: "ientry list \<Rightarrow> nentry list" where
  "redactedEntries entries = map nentry.truncate entries"

definition emptyMatch :: imatch where
  "emptyMatch = \<lparr>im_matched = False, im_entryIds = []\<rparr>"

definition mergeMatches :: "imatch list \<Rightarrow> imatch" where
  "mergeMatches matches =
     (let ids = uniqueValues (flat_map im_entryIds matches)
      in \<lparr>im_matched = list_ex im_matched matches \<or> length ids > 0, im_entryIds = ids\<rparr>)"

text \<open>A \<^verbatim>\<open>Map\<close> built from the facts: a later fact replaces an earlier one.\<close>

definition accessGroupFactByName :: "membership_fact list option \<Rightarrow> (string \<times> membership_fact) list" where
  "accessGroupFactByName facts =
     foldl (\<lambda>m f. jm_put (mf_groupName f) f m) [] (case_option [] id facts)"

record match_result =
  mr_normalizedEntries :: "nentry list"
  mr_invalidEntries :: "diagnostic list"
  mr_disabledEntries :: "diagnostic list"
  mr_match :: imatch

definition normalizeAndMatch ::
    "adapter \<Rightarrow> subject \<Rightarrow> string \<Rightarrow> string list \<Rightarrow> match_context \<Rightarrow> match_result" where
  "normalizeAndMatch ad sub accountId entries ctx =
     (if length entries = 0 then
        \<lparr>mr_normalizedEntries = [], mr_invalidEntries = [], mr_disabledEntries = [],
         mr_match = emptyMatch\<rparr>
      else
       (let n = ad_normalizeEntries ad entries ctx accountId in
        \<lparr>mr_normalizedEntries = redactedEntries (no_matchable n), mr_invalidEntries = no_invalid n,
         mr_disabledEntries = no_disabled n,
         mr_match = (if length (no_matchable n) > 0 then ad_matchSubject ad sub (no_matchable n) ctx
                     else emptyMatch)\<rparr>))"

definition referencedAccessGroups :: "string list \<Rightarrow> string list" where
  "referencedAccessGroups entries = uniqueValues (List.map_filter parseAccessGroupAllowFromEntry entries)"

definition directAllowlistEntries :: "string list \<Rightarrow> string list" where
  "directAllowlistEntries entries = filter (\<lambda>e. parseAccessGroupAllowFromEntry e = None) entries"

text \<open>The configured group of a name; \<^verbatim>\<open>Object.prototype\<close> names are not modelled.\<close>

definition configured_group :: "state_input \<Rightarrow> string \<Rightarrow> access_group option" where
  "configured_group input name = Option.bind (si_accessGroups input) (\<lambda>gs. map_of gs name)"

definition groupSenderEntries :: "state_input \<Rightarrow> string \<Rightarrow> string list" where
  "groupSenderEntries input name =
     (case configured_group input name of
        Some (MessageSenders members) \<Rightarrow>
          normalizeStringEntries (case_option [] id (map_of members ''*'')
            @ case_option [] id (map_of members (si_channelId input)))
      | _ \<Rightarrow> [])"

subsection \<open>Origin subjects\<close>

definition eventSubjectMatchContext :: "state_input \<Rightarrow> match_context" where
  "eventSubjectMatchContext input =
     (if si_conversationKind input = CkDirect then CtxDm else CtxGroup)"

definition normalizeSubjectIdentifiersForMatch ::
    "state_input \<Rightarrow> subject \<Rightarrow> match_context \<Rightarrow> string \<Rightarrow> ientry list" where
  "normalizeSubjectIdentifiersForMatch input sub ctx opaquePrefix =
     flat_map (\<lambda>(i, identifier).
       map (\<lambda>(j, e). \<lparr>ne_id = opaquePrefix @ ''-'' @ js_nat (i + 1) @ '':'' @ js_nat (j + 1),
              ne_kind = ne_kind e, ne_dangerous = ne_dangerous e,
              ne_sensitivity = ne_sensitivity e, ie_value = ie_value e\<rparr>)
         (List.enumerate 0
           (filter (\<lambda>e. ne_kind e = id_kind identifier \<and> ie_value e \<noteq> ''*'')
             (no_matchable (ad_normalizeEntries (si_adapter input) [id_value identifier] ctx
               (si_accountId input))))))
       (List.enumerate 0 sub)"

definition same_identifier :: "subject \<Rightarrow> subject \<Rightarrow> bool" where
  "same_identifier origin current = list_ex (\<lambda>o1. list_ex (\<lambda>c. id_kind c = id_kind o1
     \<and> id_value c = id_value o1) current) origin"

definition originSubjectMatched :: "state_input \<Rightarrow> bool" where
  "originSubjectMatched input =
     (case ei_originSubject (si_event input) of
        None \<Rightarrow> False
      | Some origin \<Rightarrow>
          (if same_identifier origin (si_subject input) then True
           else
            (let ctx = eventSubjectMatchContext input;
                 originEntries = normalizeSubjectIdentifiersForMatch input origin ctx ''origin'';
                 currentEntries = normalizeSubjectIdentifiersForMatch input (si_subject input) ctx ''current''
             in if length originEntries > 0
                   \<and> im_matched (ad_matchSubject (si_adapter input) (si_subject input) originEntries ctx)
                then True
                else if length currentEntries = 0 then False
                else im_matched (ad_matchSubject (si_adapter input) origin currentEntries ctx))))"

subsection \<open>Access groups\<close>

record group_entries =
  ge_normalizedEntries :: "nentry list"
  ge_invalidEntries :: "diagnostic list"
  ge_disabledEntries :: "diagnostic list"
  ge_matches :: "imatch list"
  ge_accessGroups :: access_groups

definition push_fault :: "group_fault \<Rightarrow> string \<Rightarrow> access_groups \<Rightarrow> access_groups" where
  "push_fault f name ag =
     (case f of GroupMissing \<Rightarrow> ag\<lparr>ag_missing := ag_missing ag @ [name]\<rparr>
      | GroupUnsupported \<Rightarrow> ag\<lparr>ag_unsupported := ag_unsupported ag @ [name]\<rparr>
      | GroupFailed \<Rightarrow> ag\<lparr>ag_failed := ag_failed ag @ [name]\<rparr>)"

definition add_fault :: "group_fault \<Rightarrow> string \<Rightarrow> group_entries \<Rightarrow> group_entries" where
  "add_fault f name acc = acc\<lparr>ge_accessGroups := push_fault f name (ge_accessGroups acc)\<rparr>"

definition add_matched :: "imatch \<Rightarrow> string \<Rightarrow> group_entries \<Rightarrow> group_entries" where
  "add_matched m name acc = acc\<lparr>ge_matches := ge_matches acc @ [m],
     ge_accessGroups := (ge_accessGroups acc)\<lparr>ag_matched := ag_matched (ge_accessGroups acc) @ [name]\<rparr>\<rparr>"

text \<open>One round of the loop over the referenced groups.\<close>

definition resolve_group ::
    "state_input \<Rightarrow> match_context \<Rightarrow> group_entries \<Rightarrow> string \<Rightarrow> group_entries" where
  "resolve_group input ctx acc name =
     (case jm_get (accessGroupFactByName (si_membership input)) name of
        Some f \<Rightarrow>
          (case mf_result f of
             MatchedBy ids \<Rightarrow> add_matched \<lparr>im_matched = True, im_entryIds = ids\<rparr> name acc
           | Faulted reason \<Rightarrow> add_fault reason name acc
           | NotMatched \<Rightarrow> acc)
      | None \<Rightarrow>
          (case configured_group input name of
             None \<Rightarrow> add_fault GroupMissing name acc
           | Some OtherGroup \<Rightarrow> add_fault GroupUnsupported name acc
           | Some (MessageSenders members) \<Rightarrow>
               (let r = normalizeAndMatch (si_adapter input) (si_subject input) (si_accountId input)
                      (groupSenderEntries input name) ctx;
                    acc' = acc\<lparr>
                      ge_normalizedEntries := ge_normalizedEntries acc @ mr_normalizedEntries r,
                      ge_invalidEntries := ge_invalidEntries acc @ mr_invalidEntries r,
                      ge_disabledEntries := ge_disabledEntries acc @ mr_disabledEntries r\<rparr>
                in if im_matched (mr_match r) then add_matched (mr_match r) name acc' else acc')))"

definition resolveAccessGroupEntries ::
    "state_input \<Rightarrow> match_context \<Rightarrow> string list \<Rightarrow> group_entries" where
  "resolveAccessGroupEntries input ctx referenced =
     foldl (resolve_group input ctx)
       \<lparr>ge_normalizedEntries = [], ge_invalidEntries = [], ge_disabledEntries = [], ge_matches = [],
        ge_accessGroups = \<lparr>ag_referenced = referenced, ag_matched = [], ag_missing = [],
          ag_unsupported = [], ag_failed = []\<rparr>\<rparr> referenced"

subsection \<open>The state\<close>

definition resolveIngressAllowlist ::
    "state_input \<Rightarrow> string list option \<Rightarrow> match_context \<Rightarrow> allowlist" where
  "resolveIngressAllowlist input rawEntries ctx =
     (let entries = normalizeStringEntries (case_option [] id rawEntries);
          directEntries = directAllowlistEntries entries;
          direct = normalizeAndMatch (si_adapter input) (si_subject input) (si_accountId input)
            directEntries ctx;
          groups = resolveAccessGroupEntries input ctx (referencedAccessGroups entries);
          m = mergeMatches (mr_match direct # ge_matches groups)
      in \<lparr>al_rawEntryCount = length entries,
          al_normalizedEntries = mr_normalizedEntries direct @ ge_normalizedEntries groups,
          al_invalidEntries = mr_invalidEntries direct @ ge_invalidEntries groups,
          al_disabledEntries = mr_disabledEntries direct @ ge_disabledEntries groups,
          al_matchedEntryIds = im_entryIds m,
          al_hasConfiguredEntries = length entries > 0,
          al_hasMatchableEntries = length (mr_normalizedEntries direct) > 0
             \<or> length (ge_normalizedEntries groups) > 0,
          al_hasWildcard = ''*'' \<in> set directEntries,
          al_accessGroups = ge_accessGroups groups,
          al_match = m\<rparr>)"

definition resolve_route :: "state_input \<Rightarrow> route_facts \<Rightarrow> resolved_route" where
  "resolve_route input r =
     (let senderAllowFrom =
            (case rf_senderAllowFrom r of
               Some xs \<Rightarrow> Some xs
             | None \<Rightarrow> (case rf_senderAllowFromSource r of
                          Some SrcEffectiveDm \<Rightarrow> si_dm input
                        | Some SrcEffectiveGroup \<Rightarrow> si_group input
                        | None \<Rightarrow> None))
      in \<lparr>rr_id = rf_id r, rr_kind = rf_kind r, rr_gate = rf_gate r, rr_effect = rf_effect r,
          rr_precedence = rf_precedence r, rr_senderPolicy = rf_senderPolicy r,
          rr_match = rf_match r,
          rr_senderAllowlist = map_option (\<lambda>xs. resolveIngressAllowlist input (Some xs) CtxRoute)
            senderAllowFrom\<rparr>)"

definition resolveRouteFacts :: "(string \<Rightarrow> nat list) \<Rightarrow> state_input \<Rightarrow> resolved_route list" where
  "resolveRouteFacts collate input =
     map (resolve_route input)
       (sort_key rf_precedence (sort_key (collate \<circ> rf_id) (case_option [] id (si_routeFacts input))))"

definition resolveChannelIngressState :: "(string \<Rightarrow> nat list) \<Rightarrow> state_input \<Rightarrow> ingress_state" where
  "resolveChannelIngressState collate input =
     \<lparr>is_channelId = si_channelId input, is_accountId = si_accountId input,
      is_conversationKind = si_conversationKind input,
      is_event = \<lparr>ev_kind = ei_kind (si_event input), ev_authMode = ei_authMode (si_event input),
        ev_mayPair = ei_mayPair (si_event input),
        ev_hasOriginSubject = (ei_originSubject (si_event input) \<noteq> None),
        ev_originSubjectMatched = originSubjectMatched input\<rparr>,
      is_mentionFacts = si_mentionFacts input,
      is_routeFacts = resolveRouteFacts collate input,
      is_dm = resolveIngressAllowlist input (si_dm input) CtxDm,
      is_pairingStore = resolveIngressAllowlist input (si_pairingStore input) CtxDm,
      is_group = resolveIngressAllowlist input (si_group input) CtxGroup,
      is_commandOwner = resolveIngressAllowlist input (si_commandOwner input) CtxCommand,
      is_commandGroup = resolveIngressAllowlist input (si_commandGroup input) CtxCommand\<rparr>"

end
