(* ===== verification/Ingress_Identity.thy ===== *)
theory Ingress_Identity
  imports Ingress_State
begin

section \<open>Channel ingress: identities\<close>

text \<open>
  \<^verbatim>\<open>src/channels/message-access/runtime-identity.ts\<close>: the adapter made from an identity
  descriptor, that is from the normalizers a channel plugin supplies for its fields. Those
  functions stay fields of the descriptor. \<^verbatim>\<open>null\<close> and \<^verbatim>\<open>undefined\<close> results
  of a normalizer are both \<open>None\<close>.
\<close>

datatype danger = AlwaysDangerous "bool option" | DangerousWhen "string \<Rightarrow> bool option"

record id_field =
  fi_key :: "string option"
  fi_kind :: "string option"
  fi_normalize :: "(string \<Rightarrow> string option) option"
  fi_normalizeEntry :: "(string \<Rightarrow> string option) option"
  fi_normalizeSubject :: "(string \<Rightarrow> string option) option"
  fi_dangerous :: danger
  fi_sensitivity :: "sensitivity option"

text \<open>The hooks: \<open>resolveEntryId entry entryIndex fieldKey fieldIndex\<close>.\<close>

record id_descriptor =
  de_primary :: id_field
  de_aliases :: "id_field list option"
  de_isWildcardEntry :: "(string \<Rightarrow> bool) option"
  de_matchEntry :: "(subject \<Rightarrow> ientry \<Rightarrow> match_context \<Rightarrow> bool option) option"
  de_resolveEntryId :: "(string \<Rightarrow> nat \<Rightarrow> string \<Rightarrow> nat \<Rightarrow> string) option"

text \<open>\<^verbatim>\<open>ResolvedIdentityField\<close>: key and kind filled in.\<close>

record res_field =
  re_key :: string
  re_kind :: string
  re_field :: id_field

definition defineStableChannelIngressIdentity ::
    "id_field \<Rightarrow> id_field list option \<Rightarrow> (string \<Rightarrow> bool) option
     \<Rightarrow> (subject \<Rightarrow> ientry \<Rightarrow> match_context \<Rightarrow> bool option) option
     \<Rightarrow> (string \<Rightarrow> nat \<Rightarrow> string \<Rightarrow> nat \<Rightarrow> string) option \<Rightarrow> string option \<Rightarrow> id_descriptor" where
  "defineStableChannelIngressIdentity primary aliases isWildcard matchEntry resolveEntryId entryIdPrefix =
     \<lparr>de_primary = primary, de_aliases = aliases, de_isWildcardEntry = isWildcard,
      de_matchEntry = matchEntry,
      de_resolveEntryId = (case resolveEntryId of
        Some f \<Rightarrow> Some f
      | None \<Rightarrow> (if truthy_str entryIdPrefix
                 then Some (\<lambda>_ entryIndex _ _. the entryIdPrefix @ ''-'' @ js_nat (entryIndex + 1))
                 else None))\<rparr>"

datatype norm_mode = ModeEntry | ModeSubject

definition normalizeFieldValue :: "res_field \<Rightarrow> string \<Rightarrow> norm_mode \<Rightarrow> string option" where
  "normalizeFieldValue field v mode =
     (let fld = re_field field;
          own = (if mode = ModeEntry then fi_normalizeEntry fld else fi_normalizeSubject fld);
          normalize = (case own of Some f \<Rightarrow> f
            | None \<Rightarrow> (case fi_normalize fld of Some f \<Rightarrow> f | None \<Rightarrow> Some))
      in case normalize v of
           None \<Rightarrow> None
         | Some n \<Rightarrow> (if js_trim n = [] then None else Some (js_trim n)))"

fun fieldDangerous :: "res_field \<Rightarrow> string \<Rightarrow> bool option" where
  "fieldDangerous field v =
     (case fi_dangerous (re_field field) of AlwaysDangerous d \<Rightarrow> d | DangerousWhen f \<Rightarrow> f v)"

text \<open>An alias always has a key; its \<open>None\<close> case is never reached.\<close>

definition identityFields :: "id_descriptor \<Rightarrow> res_field list" where
  "identityFields d =
     \<lparr>re_key = case_option ''stableId'' id (fi_key (de_primary d)),
      re_kind = case_option ''stable-id'' id (fi_kind (de_primary d)), re_field = de_primary d\<rparr>
     # map (\<lambda>a. \<lparr>re_key = case_option [] id (fi_key a),
          re_kind = case_option (''plugin:'' @ case_option [] id (fi_key a)) id (fi_kind a),
          re_field = a\<rparr>) (case_option [] id (de_aliases d))"

definition identityMatchKey :: "string \<Rightarrow> string \<Rightarrow> string" where
  "identityMatchKey kind v = kind @ '':'' @ v"

definition adapterEntry ::
    "id_descriptor \<Rightarrow> res_field \<Rightarrow> nat \<Rightarrow> string \<Rightarrow> nat \<Rightarrow> string \<Rightarrow> string option \<Rightarrow> ientry" where
  "adapterEntry d field fieldIndex entry entryIndex v fallbackSuffix =
     \<lparr>ne_id = (case de_resolveEntryId d of
        Some f \<Rightarrow> f entry entryIndex (re_key field) fieldIndex
      | None \<Rightarrow> ''entry-'' @ js_nat (entryIndex + 1) @ '':''
          @ case_option (re_key field) id fallbackSuffix),
      ne_kind = re_kind field, ne_dangerous = fieldDangerous field entry,
      ne_sensitivity = fi_sensitivity (re_field field), ie_value = v\<rparr>"

definition is_wildcard :: "id_descriptor \<Rightarrow> string \<Rightarrow> bool" where
  "is_wildcard d v = (case de_isWildcardEntry d of Some f \<Rightarrow> f v | None \<Rightarrow> v = ''*'')"

text \<open>What one configured entry normalizes to.\<close>

definition entry_material :: "id_descriptor \<Rightarrow> nat \<times> string \<Rightarrow> ientry list" where
  "entry_material d = (\<lambda>(entryIndex, entry).
     (if is_wildcard d entry then
        [adapterEntry d (hd (identityFields d)) 0 entry entryIndex ''*'' (Some ''wildcard'')]
      else flat_map (\<lambda>(fieldIndex, field).
             (case normalizeFieldValue field entry ModeEntry of
                None \<Rightarrow> []
              | Some v \<Rightarrow> [adapterEntry d field fieldIndex entry entryIndex v None]))
             (List.enumerate 0 (identityFields d))))"

text \<open>The comparison keys of a subject, and the entries they select.\<close>

definition subject_keys :: "id_descriptor \<Rightarrow> subject \<Rightarrow> string list" where
  "subject_keys d sub = flat_map (\<lambda>identifier.
     (case find (\<lambda>c. re_kind c = id_kind identifier) (identityFields d) of
        None \<Rightarrow> []
      | Some field \<Rightarrow>
          (case normalizeFieldValue field (id_value identifier) ModeSubject of
             None \<Rightarrow> [] | Some v \<Rightarrow> [identityMatchKey (id_kind identifier) v]))) sub"

definition entry_matches :: "id_descriptor \<Rightarrow> subject \<Rightarrow> match_context \<Rightarrow> ientry \<Rightarrow> bool" where
  "entry_matches d sub ctx e =
     (let fallback = ie_value e = ''*''
            \<or> identityMatchKey (ne_kind e) (ie_value e) \<in> set (subject_keys d sub)
      in case Option.bind (de_matchEntry d) (\<lambda>f. f sub e ctx) of Some b \<Rightarrow> b | None \<Rightarrow> fallback)"

definition createIdentityAdapter :: "id_descriptor \<Rightarrow> adapter" where
  "createIdentityAdapter d =
     \<lparr>ad_normalizeEntries = (\<lambda>entries ctx accountId.
        \<lparr>no_matchable = flat_map (entry_material d) (List.enumerate 0 entries),
         no_invalid = [], no_disabled = []\<rparr>),
      ad_matchSubject = (\<lambda>sub entries ctx.
        (let ids = map ne_id (filter (entry_matches d sub ctx) entries)
         in \<lparr>im_matched = length ids > 0, im_entryIds = ids\<rparr>))\<rparr>"

text \<open>
  \<^verbatim>\<open>createIdentitySubject\<close>: numbers are given as their text; an absent, null or
  undefined id contributes nothing.
\<close>

definition createIdentitySubject ::
    "id_descriptor \<Rightarrow> string option \<Rightarrow> (string \<times> string) list option \<Rightarrow> subject" where
  "createIdentitySubject d stableId aliases =
     flat_map (\<lambda>(i, field).
       (case (if i = 0 then stableId else Option.bind aliases (\<lambda>m. map_of m (re_key field))) of
          None \<Rightarrow> []
        | Some v \<Rightarrow> [\<lparr>id_opaqueId = re_key field, id_kind = re_kind field,
            id_dangerous = fieldDangerous field v,
            id_sensitivity = fi_sensitivity (re_field field), id_value = v\<rparr>]))
       (List.enumerate 0 (identityFields d))"

end
