(* ===== verification/Ingress_Resolution.thy ===== *)
theory Ingress_Resolution
  imports Ingress_Properties Ingress_Identity
begin

section \<open>Channel ingress: who an allowlist lists\<close>

text \<open>
  Properties of the resolved state. The locale \<open>matching_adapter\<close> is the contract the resolver
  relies on of a channel's adapter: a match reports the ids it matched by. The adapter that
  \<^verbatim>\<open>createIdentityAdapter\<close> builds keeps it, whatever hooks its descriptor carries;
  through it the lists of the configuration are followed to the admission of an event.
\<close>

subsection \<open>The adapter's contract\<close>

locale matching_adapter =
  fixes ad :: adapter
  assumes match_has_ids:
    "im_matched (ad_matchSubject ad sub es ctx) \<longleftrightarrow> im_entryIds (ad_matchSubject ad sub es ctx) \<noteq> []"
  and ids_of_entries: "set (im_entryIds (ad_matchSubject ad sub es ctx)) \<subseteq> ne_id ` set es"

text \<open>What a referenced group contributes: a fact about it decides, else its configured senders.\<close>

definition group_admits :: "state_input \<Rightarrow> match_context \<Rightarrow> string \<Rightarrow> bool" where
  "group_admits input ctx name =
     (case jm_get (accessGroupFactByName (si_membership input)) name of
        Some f \<Rightarrow> (case mf_result f of MatchedBy ids \<Rightarrow> True | _ \<Rightarrow> False)
      | None \<Rightarrow>
          (case configured_group input name of
             Some (MessageSenders members) \<Rightarrow>
               im_matched (mr_match (normalizeAndMatch (si_adapter input) (si_subject input)
                 (si_accountId input) (groupSenderEntries input name) ctx))
           | _ \<Rightarrow> False))"

definition direct_match :: "state_input \<Rightarrow> match_context \<Rightarrow> string list \<Rightarrow> imatch" where
  "direct_match input ctx entries = mr_match (normalizeAndMatch (si_adapter input) (si_subject input)
     (si_accountId input) (directAllowlistEntries entries) ctx)"

text \<open>The loop over the groups adds one match per admitting group.\<close>

lemma resolve_group_matches:
  "\<exists>ms. ge_matches (resolve_group input ctx acc name) = ge_matches acc @ ms
     \<and> list_all im_matched ms \<and> (ms \<noteq> [] \<longleftrightarrow> group_admits input ctx name)"
  by (auto simp: resolve_group_def group_admits_def add_matched_def add_fault_def Let_def
      split: option.split membership_result.split access_group.split)

lemma resolve_groups_matches:
  "\<exists>ms. ge_matches (foldl (resolve_group input ctx) acc names) = ge_matches acc @ ms
     \<and> list_all im_matched ms \<and> (ms \<noteq> [] \<longleftrightarrow> list_ex (group_admits input ctx) names)"
proof (induction names arbitrary: acc)
  case (Cons name names)
  from resolve_group_matches [of input ctx acc name] Cons.IH [of "resolve_group input ctx acc name"]
  show ?case by fastforce
qed simp

lemma access_group_matches:
  "list_all im_matched (ge_matches (resolveAccessGroupEntries input ctx names))"
  "ge_matches (resolveAccessGroupEntries input ctx names) \<noteq> [] \<longleftrightarrow> list_ex (group_admits input ctx) names"
proof -
  obtain acc where acc: "ge_matches acc = []"
    "resolveAccessGroupEntries input ctx names = foldl (resolve_group input ctx) acc names"
    by (rule that, simp_all add: resolveAccessGroupEntries_def)
  with resolve_groups_matches [of input ctx acc names]
  show "list_all im_matched (ge_matches (resolveAccessGroupEntries input ctx names))"
    "ge_matches (resolveAccessGroupEntries input ctx names) \<noteq> [] \<longleftrightarrow> list_ex (group_admits input ctx) names"
    by auto
qed

context matching_adapter
begin

lemma normalizeAndMatch_ids:
  "im_matched (mr_match (normalizeAndMatch ad sub acct es ctx))
     \<longleftrightarrow> im_entryIds (mr_match (normalizeAndMatch ad sub acct es ctx)) \<noteq> []"
  by (simp add: normalizeAndMatch_def emptyMatch_def match_has_ids Let_def)

lemma allowlist_match_iff:
  assumes "si_adapter input = ad"
  shows "im_matched (al_match (resolveIngressAllowlist input raw ctx)) \<longleftrightarrow>
    im_matched (direct_match input ctx (normalizeStringEntries (case_option [] id raw)))
    \<or> list_ex (group_admits input ctx)
        (referencedAccessGroups (normalizeStringEntries (case_option [] id raw)))"
proof -
  define es where "es = normalizeStringEntries (case_option [] id raw)"
  define gs where "gs = ge_matches (resolveAccessGroupEntries input ctx (referencedAccessGroups es))"
  define dm where "dm = direct_match input ctx es"
  have dm: "im_matched dm \<longleftrightarrow> im_entryIds dm \<noteq> []"
    by (simp add: dm_def direct_match_def assms normalizeAndMatch_ids)
  have gs: "list_all im_matched gs" "gs \<noteq> [] \<longleftrightarrow> list_ex (group_admits input ctx) (referencedAccessGroups es)"
    by (simp_all add: gs_def access_group_matches)
  have "al_match (resolveIngressAllowlist input raw ctx) = mergeMatches (dm # gs)"
    by (simp add: resolveIngressAllowlist_def Let_def es_def gs_def dm_def direct_match_def)
  moreover have "im_matched (mergeMatches (dm # gs)) \<longleftrightarrow> im_matched dm \<or> gs \<noteq> []"
    using dm gs(1) by (cases gs) (auto simp: mergeMatches_def flat_map_def uniqueValues_Nil_iff Let_def)
  ultimately show ?thesis using gs(2) by (simp add: es_def dm_def)
qed

end

subsection \<open>Identity adapters keep the contract\<close>

lemma identity_match:
  "ad_matchSubject (createIdentityAdapter d) sub es ctx
     = \<lparr>im_matched = list_ex (entry_matches d sub ctx) es,
        im_entryIds = map ne_id (filter (entry_matches d sub ctx) es)\<rparr>"
  by (auto simp: createIdentityAdapter_def Let_def list_ex_iff filter_empty_conv)

interpretation identity: matching_adapter "createIdentityAdapter d" for d
  by unfold_locales (auto simp: identity_match list_ex_iff filter_empty_conv)

text \<open>
  What a configured entry has to be for a subject: a wildcard, or a name that one field of the
  identity normalizes to a key of the subject (or to \<^verbatim>\<open>*\<close>).
\<close>

definition field_names :: "id_descriptor \<Rightarrow> subject \<Rightarrow> string \<Rightarrow> res_field \<Rightarrow> bool" where
  "field_names d sub entry field =
     (case normalizeFieldValue field entry ModeEntry of
        None \<Rightarrow> False
      | Some v \<Rightarrow> v = ''*'' \<or> identityMatchKey (re_kind field) v \<in> set (subject_keys d sub))"

definition entry_names :: "id_descriptor \<Rightarrow> subject \<Rightarrow> string \<Rightarrow> bool" where
  "entry_names d sub entry \<longleftrightarrow>
     is_wildcard d entry \<or> list_ex (field_names d sub entry) (identityFields d)"

lemma adapterEntry_sel [simp]:
  "ne_kind (adapterEntry d field i e j v s) = re_kind field"
  "ie_value (adapterEntry d field i e j v s) = v"
  by (simp_all add: adapterEntry_def)

lemma list_ex_flat_enumerate:
  "(\<And>n x. list_ex P (f (n, x)) = R x) \<Longrightarrow>
     list_ex P (flat_map f (List.enumerate n xs)) \<longleftrightarrow> list_ex R xs"
  by (induction xs arbitrary: n) (simp_all add: flat_map_def)

lemma entry_material_matches:
  assumes "de_matchEntry d = None"
  shows "list_ex (entry_matches d sub ctx) (entry_material d (i, entry)) = entry_names d sub entry"
proof (cases "is_wildcard d entry")
  case True
  then show ?thesis
    by (simp add: entry_material_def entry_names_def entry_matches_def assms)
next
  case False
  have field: "list_ex (entry_matches d sub ctx)
      ((\<lambda>(j, field). case normalizeFieldValue field entry ModeEntry of
            None \<Rightarrow> [] | Some v \<Rightarrow> [adapterEntry d field j entry i v None]) (j, field))
      = field_names d sub entry field" for j field
    by (simp add: entry_matches_def field_names_def assms split: option.split)
  from False have "entry_material d (i, entry)
      = flat_map (\<lambda>(j, field). case normalizeFieldValue field entry ModeEntry of
            None \<Rightarrow> [] | Some v \<Rightarrow> [adapterEntry d field j entry i v None])
          (List.enumerate 0 (identityFields d))"
    by (simp add: entry_material_def)
  with False show ?thesis
    by (simp only: entry_names_def simp_thms) (rule list_ex_flat_enumerate, rule field)
qed

lemma identity_normalize:
  "no_matchable (ad_normalizeEntries (createIdentityAdapter d) es ctx acct)
     = flat_map (entry_material d) (List.enumerate 0 es)"
  by (simp add: createIdentityAdapter_def)

lemma identity_direct_match:
  assumes "de_matchEntry d = None" "si_adapter input = createIdentityAdapter d"
  shows "im_matched (direct_match input ctx es)
    \<longleftrightarrow> list_ex (entry_names d (si_subject input)) (directAllowlistEntries es)"
proof -
  let ?es = "directAllowlistEntries es"
  let ?P = "entry_matches d (si_subject input) ctx"
  have "list_ex ?P (flat_map (entry_material d) (List.enumerate 0 ?es))
      = list_ex (entry_names d (si_subject input)) ?es"
    by (rule list_ex_flat_enumerate, rule entry_material_matches [OF assms(1)])
  then show ?thesis
    by (cases "?es"; cases "flat_map (entry_material d) (List.enumerate 0 ?es)")
      (auto simp: direct_match_def normalizeAndMatch_def identity_normalize assms(2) emptyMatch_def
        identity_match Let_def)
qed

subsection \<open>From the lists of the configuration to the admission\<close>

text \<open>The raw list names the sender: an entry of it or a group it references does.\<close>

definition names_sender :: "id_descriptor \<Rightarrow> state_input \<Rightarrow> match_context \<Rightarrow> string list option \<Rightarrow> bool" where
  "names_sender d input ctx raw \<longleftrightarrow>
     (let entries = normalizeStringEntries (case_option [] id raw)
      in list_ex (entry_names d (si_subject input)) (directAllowlistEntries entries)
         \<or> list_ex (group_admits input ctx) (referencedAccessGroups entries))"

lemma names_sender_match:
  assumes "de_matchEntry d = None" "si_adapter input = createIdentityAdapter d"
  shows "im_matched (al_match (resolveIngressAllowlist input raw ctx)) = names_sender d input ctx raw"
  using identity.allowlist_match_iff [OF assms(2)] identity_direct_match [OF assms]
  by (simp add: names_sender_def Let_def)

lemma resolved_ids:
  "al_matchedEntryIds (resolveIngressAllowlist input raw ctx)
     = im_entryIds (al_match (resolveIngressAllowlist input raw ctx))"
  "im_entryIds (al_match (resolveIngressAllowlist input raw ctx)) \<noteq> []
     \<Longrightarrow> im_matched (al_match (resolveIngressAllowlist input raw ctx))"
  by (simp_all add: resolveIngressAllowlist_def mergeMatches_def Let_def)

text \<open>The policy for mutable identifiers can only take a resolved match away.\<close>

lemma mutable_policy_matched:
  "im_matched (al_match (applyMutableIdentifierPolicy a policy))
     \<Longrightarrow> im_matched (al_match a) \<or> al_matchedEntryIds a \<noteq> []"
  by (cases "al_matchedEntryIds a = []")
    (auto simp: applyMutableIdentifierPolicy_def Let_def split: if_splits)

lemma listed_resolved:
  "listed policy (resolveIngressAllowlist input raw ctx)
     \<Longrightarrow> im_matched (al_match (resolveIngressAllowlist input raw ctx))"
  unfolding listed_def using resolved_ids [of input raw ctx] mutable_policy_matched by metis

lemma listed_enabled: "po_mutable policy = Some MutableEnabled \<Longrightarrow> listed policy a = im_matched (al_match a)"
  by (simp add: listed_def applyMutableIdentifierPolicy_def)

lemma state_sel [simp]:
  "is_conversationKind (resolveChannelIngressState collate input) = si_conversationKind input"
  "ev_authMode (is_event (resolveChannelIngressState collate input)) = ei_authMode (si_event input)"
  "ev_mayPair (is_event (resolveChannelIngressState collate input)) = ei_mayPair (si_event input)"
  "is_mentionFacts (resolveChannelIngressState collate input) = si_mentionFacts input"
  "is_routeFacts (resolveChannelIngressState collate input) = resolveRouteFacts collate input"
  "is_dm (resolveChannelIngressState collate input) = resolveIngressAllowlist input (si_dm input) CtxDm"
  "is_pairingStore (resolveChannelIngressState collate input)
     = resolveIngressAllowlist input (si_pairingStore input) CtxDm"
  "is_group (resolveChannelIngressState collate input)
     = resolveIngressAllowlist input (si_group input) CtxGroup"
  by (simp_all add: resolveChannelIngressState_def)

text \<open>
  For a channel with an identity adapter (without a matching hook of its own), a resolved
  allowlist matches exactly when one of its entries is a wildcard or names a normalized identifier
  of the sender, or one of the access groups it references admits the sender; a missing,
  unsupported or failed group never does.
\<close>

theorem identity_allowlist_iff:
  assumes "de_matchEntry d = None" "si_adapter input = createIdentityAdapter d"
  shows "im_matched (al_match (resolveIngressAllowlist input raw ctx)) \<longleftrightarrow>
    list_ex (entry_names d (si_subject input))
      (directAllowlistEntries (normalizeStringEntries (case_option [] id raw)))
    \<or> list_ex (group_admits input ctx)
      (referencedAccessGroups (normalizeStringEntries (case_option [] id raw)))"
  using names_sender_match [OF assms] by (simp add: names_sender_def Let_def)

text \<open>
  A stranger gets no direct message through: unless the policy is open, an inbound direct
  message whose sender neither the configured list nor the pairing store names is never dispatched,
  whatever routes, commands, mentions and mutable-identifier policy are configured.
\<close>

theorem stranger_is_not_dispatched:
  assumes "de_matchEntry d = None" "si_adapter input = createIdentityAdapter d"
    and "si_conversationKind input = CkDirect" "ei_authMode (si_event input) = AuthInbound"
    and "po_dmPolicy policy \<noteq> DmOpen"
    and "\<not> names_sender d input CtxDm (si_dm input)"
    and "\<not> names_sender d input CtxDm (si_pairingStore input)"
  shows "de_admission (decideChannelIngress (resolveChannelIngressState collate input) policy) \<noteq> AdDispatch"
proof -
  have "\<not> listed policy (resolveIngressAllowlist input raw CtxDm)"
    if "\<not> names_sender d input CtxDm raw" for raw
    using that listed_resolved [of policy input raw CtxDm] names_sender_match [OF assms(1,2)] by blast
  then have "\<not> sender_admitted (resolveChannelIngressState collate input) policy"
    using assms by (cases "po_dmPolicy policy") (auto simp: sender_admitted_def sender_listed_def)
  then show ?thesis
    by (simp add: admission_specified specified_admission_def)
qed

text \<open>
  A plain inbound direct message (no routes, commands or activation policy, mutable identifiers
  enabled) is dispatched exactly as the direct-message policy says: never when disabled; when the
  list names the sender under an allowlist; when the list or the pairing store does under pairing;
  and under an open policy when the list has the wildcard or names the sender.
\<close>

theorem plain_direct_message:
  assumes "de_matchEntry d = None" "si_adapter input = createIdentityAdapter d"
    and "si_conversationKind input = CkDirect" "ei_authMode (si_event input) = AuthInbound"
    and "si_routeFacts input = None" "po_command policy = None" "po_activation policy = None"
    and "po_mutable policy = Some MutableEnabled"
  shows "de_admission (decideChannelIngress (resolveChannelIngressState collate input) policy) = AdDispatch
    \<longleftrightarrow> (case po_dmPolicy policy of
          DmDisabled \<Rightarrow> False
        | DmAllowlist \<Rightarrow> names_sender d input CtxDm (si_dm input)
        | DmPairing \<Rightarrow> names_sender d input CtxDm (si_dm input)
            \<or> names_sender d input CtxDm (si_pairingStore input)
        | DmOpen \<Rightarrow> al_hasWildcard (resolveIngressAllowlist input (si_dm input) CtxDm)
            \<or> names_sender d input CtxDm (si_dm input))"
proof -
  let ?st = "resolveChannelIngressState collate input"
  have "listed policy (resolveIngressAllowlist input raw CtxDm) = names_sender d input CtxDm raw" for raw
    by (simp add: listed_enabled assms(8) names_sender_match [OF assms(1,2)])
  then have "sender_admitted ?st policy \<longleftrightarrow> (case po_dmPolicy policy of
          DmDisabled \<Rightarrow> False
        | DmAllowlist \<Rightarrow> names_sender d input CtxDm (si_dm input)
        | DmPairing \<Rightarrow> names_sender d input CtxDm (si_dm input)
            \<or> names_sender d input CtxDm (si_pairingStore input)
        | DmOpen \<Rightarrow> al_hasWildcard (resolveIngressAllowlist input (si_dm input) CtxDm)
            \<or> names_sender d input CtxDm (si_dm input))"
    using assms by (cases "po_dmPolicy policy") (simp_all add: sender_admitted_def sender_listed_def)
  moreover have "route_admits ?st" "command_admitted ?st policy" "event_admitted ?st policy"
    "\<not> mention_missing ?st policy" "\<not> mention_first policy"
    using assms by (simp_all add: route_admits_def resolveRouteFacts_def command_admitted_def
        is_control_command_def event_admitted_def mention_missing_def mention_first_def)
  ultimately show ?thesis
    by (auto simp: admission_specified specified_admission_def dest: pairing_not_admitted)
qed

subsection \<open>A small channel\<close>

text \<open>
  A channel whose users have a stable id and a handle they can change: \<^verbatim>\<open>@name\<close>
  entries name handles, others ids. Entry ids come from \<^verbatim>\<open>entryIdPrefix\<close>.
\<close>

definition demo_identity :: id_descriptor where
  "demo_identity = defineStableChannelIngressIdentity
     \<lparr>fi_key = None, fi_kind = None, fi_normalize = None,
      fi_normalizeEntry = Some (\<lambda>e. if take 1 e = ''@'' then None else Some e),
      fi_normalizeSubject = None, fi_dangerous = AlwaysDangerous None, fi_sensitivity = None\<rparr>
     (Some [\<lparr>fi_key = Some ''handle'', fi_kind = None, fi_normalize = None,
       fi_normalizeEntry = Some (\<lambda>e. if take 1 e = ''@'' then Some (drop 1 e) else None),
       fi_normalizeSubject = None, fi_dangerous = AlwaysDangerous (Some True), fi_sensitivity = None\<rparr>])
     None None None (Some ''entry'')"

definition demo_input :: "string list \<Rightarrow> state_input" where
  "demo_input dm = \<lparr>si_channelId = ''demo'', si_accountId = ''default'',
     si_subject = createIdentitySubject demo_identity (Some ''u1'') (Some [(''handle'', ''ann'')]),
     si_conversationKind = CkDirect, si_adapter = createIdentityAdapter demo_identity,
     si_accessGroups = Some [(''team'', MessageSenders [(''*'', [''@bob''])])],
     si_membership = None, si_routeFacts = None, si_mentionFacts = None,
     si_event = \<lparr>ei_kind = EvMessage, ei_authMode = AuthInbound, ei_mayPair = True,
       ei_originSubject = None\<rparr>,
     si_dm = Some dm, si_group = None, si_commandOwner = None, si_commandGroup = None,
     si_pairingStore = None\<rparr>"

definition demo_policy :: "dm_policy \<Rightarrow> mutable_matching option \<Rightarrow> ingress_policy" where
  "demo_policy dm m = \<lparr>po_dmPolicy = dm, po_groupPolicy = GpDisabled, po_groupFallback = None,
     po_mutable = m, po_activation = None, po_command = None\<rparr>"

lemma demo_adapter: "de_matchEntry demo_identity = None"
    "si_adapter (demo_input dm) = createIdentityAdapter demo_identity"
  by (simp_all add: demo_identity_def defineStableChannelIngressIdentity_def demo_input_def)

lemma demo_names:
  "names_sender demo_identity (demo_input [''u1'']) CtxDm (Some [''u1''])"
  "names_sender demo_identity (demo_input [''@ann'']) CtxDm (Some [''@ann''])"
  "\<not> names_sender demo_identity (demo_input [''u2'']) CtxDm (Some [''u2''])"
  "\<not> names_sender demo_identity (demo_input [''u2'']) CtxDm None"
  by code_simp+

lemma demo_si [simp]:
  "si_conversationKind (demo_input dm) = CkDirect" "ei_authMode (si_event (demo_input dm)) = AuthInbound"
  "si_routeFacts (demo_input dm) = None" "si_dm (demo_input dm) = Some dm"
  "si_pairingStore (demo_input dm) = None"
  by (simp_all add: demo_input_def)

lemma demo_po [simp]:
  "po_dmPolicy (demo_policy p m) = p" "po_mutable (demo_policy p m) = m"
  "po_command (demo_policy p m) = None" "po_activation (demo_policy p m) = None"
  by (simp_all add: demo_policy_def)

theorem identity_allowlist_iff_witness:
  "im_matched (al_match (resolveIngressAllowlist (demo_input [''u1'']) (Some [''u1'']) CtxDm))"
  using identity_allowlist_iff [OF demo_adapter(1) demo_adapter(2) [of "[''u1'']"], of "Some [''u1'']" CtxDm]
    demo_names(1)
  by (simp add: names_sender_def Let_def)

theorem stranger_is_not_dispatched_witness:
  "de_admission (decideChannelIngress
     (resolveChannelIngressState (\<lambda>_. []) (demo_input [''u2''])) (demo_policy DmAllowlist None)) \<noteq> AdDispatch"
  by (rule stranger_is_not_dispatched [OF demo_adapter]) (simp_all add: demo_names)

theorem plain_direct_message_witness:
  "de_admission (decideChannelIngress
     (resolveChannelIngressState (\<lambda>_. []) (demo_input [''@ann'']))
     (demo_policy DmAllowlist (Some MutableEnabled))) = AdDispatch"
  using plain_direct_message [OF demo_adapter, of "[''@ann'']" "demo_policy DmAllowlist (Some MutableEnabled)"
      "\<lambda>_. []"]
  by (simp add: demo_names)

subsection \<open>Mutable identifiers and route overrides\<close>

lemma mutable_policy_match_iff:
  assumes "po_mutable policy \<noteq> Some MutableEnabled" "filter dangerous (al_normalizedEntries a) \<noteq> []"
  shows "im_matched (al_match (applyMutableIdentifierPolicy a policy))
    \<longleftrightarrow> (\<exists>i\<in>set (al_matchedEntryIds a). i \<notin> ne_id ` set (filter dangerous (al_normalizedEntries a)))"
proof -
  have "im_matched (al_match (applyMutableIdentifierPolicy a policy)) \<longleftrightarrow>
      filter (\<lambda>i. i \<notin> set (map ne_id (filter dangerous (al_normalizedEntries a))))
        (al_matchedEntryIds a) \<noteq> []"
    using assms by (simp add: applyMutableIdentifierPolicy_def Let_def del: set_map set_filter)
  then show ?thesis by (simp only: filter_empty_conv set_map) blast
qed

text \<open>What a list does for the sender when mutable entries do not count.\<close>

definition admits_stably :: "allowlist \<Rightarrow> bool" where
  "admits_stably a =
     (let mutable = filter dangerous (al_normalizedEntries a)
      in if mutable = [] then im_matched (al_match a)
         else list_ex (\<lambda>i. i \<notin> ne_id ` set mutable) (al_matchedEntryIds a))"

lemma listed_stably: "po_mutable policy \<noteq> Some MutableEnabled \<Longrightarrow> listed policy a = admits_stably a"
  by (cases "filter dangerous (al_normalizedEntries a) = []")
    (simp_all add: listed_def admits_stably_def mutable_policy_match_iff list_ex_iff Let_def,
     simp add: applyMutableIdentifierPolicy_def)

text \<open>
  C35: With mutable identifier matching not enabled, a dispatched inbound direct message has an
  authorization that rests on no mutable entry: direct messages are not disabled, and the policy is
  open with a wildcard on the list, or the configured list admits the sender, or, under pairing, the
  pairing store does; and a list that has mutable entries admits only by a matched entry id that
  none of them carries.
\<close>

theorem mutable_names_do_not_admit:
  assumes "po_mutable policy \<noteq> Some MutableEnabled"
    and "is_conversationKind st = CkDirect" "ev_authMode (is_event st) = AuthInbound"
    and "de_admission (decideChannelIngress st policy) = AdDispatch"
  shows "po_dmPolicy policy \<noteq> DmDisabled
    \<and> (po_dmPolicy policy = DmOpen \<and> al_hasWildcard (is_dm st) \<or> admits_stably (is_dm st)
       \<or> po_dmPolicy policy = DmPairing \<and> admits_stably (is_pairingStore st))"
proof -
  have "sender_admitted st policy"
    using assms(4) by (auto simp: admission_specified specified_admission_def split: if_splits)
  then show ?thesis
    using assms(1-3) by (cases "po_dmPolicy policy")
      (auto simp: sender_admitted_def sender_listed_def listed_stably)
qed

theorem mutable_names_do_not_admit_witness:
  "po_dmPolicy (demo_policy DmAllowlist None) \<noteq> DmDisabled
    \<and> (po_dmPolicy (demo_policy DmAllowlist None) = DmOpen
         \<and> al_hasWildcard (is_dm (resolveChannelIngressState (\<lambda>_. []) (demo_input [''@bob'', ''u1''])))
       \<or> admits_stably (is_dm (resolveChannelIngressState (\<lambda>_. []) (demo_input [''@bob'', ''u1''])))
       \<or> po_dmPolicy (demo_policy DmAllowlist None) = DmPairing
         \<and> admits_stably (is_pairingStore (resolveChannelIngressState (\<lambda>_. []) (demo_input [''@bob'', ''u1'']))))"
  by (rule mutable_names_do_not_admit) (simp, simp, simp, code_simp)

text \<open>
  The last matched route with senders of its own that does not inherit decides alone who may
  speak in a group: the channel's list and every earlier route are out of the picture, and a sender
  not on that route's list is never dispatched.
\<close>

theorem replacing_route_decides:
  assumes "is_routeFacts st = pre @ r # post" "rr_gate r = RsMatched" "rr_senderAllowlist r = Some s"
    and "rr_senderPolicy r \<noteq> SpInherit"
    and "list_all (\<lambda>q. rr_gate q \<noteq> RsMatched \<or> rr_senderAllowlist q = None) post"
    and "po_groupPolicy policy = GpAllowlist" "is_conversationKind st \<noteq> CkDirect"
    and "ev_authMode (is_event st) = AuthInbound" "\<not> listed policy s"
  shows "effectiveGroupSenderAllowlist st policy = applyMutableIdentifierPolicy s policy
    \<and> de_admission (decideChannelIngress st policy) \<noteq> AdDispatch"
proof -
  have "foldl route_override a post = a" for a
    using assms(5) by (induction post) (auto simp: route_override_def split: option.split)
  moreover have "route_override a r = s" for a
    using assms(2-4) by (simp add: route_override_def)
  ultimately have eff: "effectiveGroupSenderAllowlist st policy = applyMutableIdentifierPolicy s policy"
    by (simp add: effectiveGroupSenderAllowlist_def assms(1))
  then have "\<not> sender_admitted st policy"
    using assms(6-9) by (simp add: sender_admitted_def sender_listed_def listed_def)
  with eff show ?thesis by (simp add: admission_specified specified_admission_def)
qed

definition demo_room :: state_input where
  "demo_room = (demo_input [])\<lparr>si_conversationKind := CkGroup, si_group := Some [''u1''],
     si_routeFacts := Some [\<lparr>rf_id = ''room'', rf_kind = KRoute, rf_gate = RsMatched,
       rf_effect = EfAllow, rf_precedence = 0, rf_senderPolicy = SpReplace, rf_match = None,
       rf_senderAllowFrom = Some [''u2''], rf_senderAllowFromSource = None\<rparr>]\<rparr>"

theorem replacing_route_decides_witness:
  "\<exists>s. effectiveGroupSenderAllowlist (resolveChannelIngressState (\<lambda>_. []) demo_room)
         ((demo_policy DmDisabled None)\<lparr>po_groupPolicy := GpAllowlist\<rparr>) = s
     \<and> de_admission (decideChannelIngress (resolveChannelIngressState (\<lambda>_. []) demo_room)
         ((demo_policy DmDisabled None)\<lparr>po_groupPolicy := GpAllowlist\<rparr>)) \<noteq> AdDispatch"
proof -
  let ?s = "resolveIngressAllowlist demo_room (Some [''u2'']) CtxRoute"
  let ?p = "(demo_policy DmDisabled None)\<lparr>po_groupPolicy := GpAllowlist\<rparr>"
  have no: "\<not> listed ?p ?s" by code_simp
  have route: "is_routeFacts (resolveChannelIngressState (\<lambda>_. []) demo_room)
      = [] @ \<lparr>rr_id = ''room'', rr_kind = KRoute, rr_gate = RsMatched, rr_effect = EfAllow,
         rr_precedence = 0, rr_senderPolicy = SpReplace, rr_match = None,
         rr_senderAllowlist = Some ?s\<rparr> # []"
    by (simp add: resolveRouteFacts_def resolve_route_def demo_room_def)
  show ?thesis
    using replacing_route_decides [OF route, of ?s ?p] no
    by (simp add: demo_room_def)
qed

subsection \<open>Entry ids of a list and of a group\<close>









lemma resolve_dm [simp]:
  "resolveIngressAllowlist (input\<lparr>si_dm := x\<rparr>) raw ctx = resolveIngressAllowlist input raw ctx"
proof -
  let ?i = "input\<lparr>si_dm := x\<rparr>"
  have s: "si_adapter ?i = si_adapter input" "si_subject ?i = si_subject input" "si_accountId ?i = si_accountId input"
    "si_membership ?i = si_membership input" "si_channelId ?i = si_channelId input"
    "si_accessGroups ?i = si_accessGroups input" by simp_all
  have c: "configured_group ?i n = configured_group input n" for n by (simp only: configured_group_def s)
  have "groupSenderEntries ?i n = groupSenderEntries input n" for n by (simp only: groupSenderEntries_def c s)
  then have "resolve_group ?i = resolve_group input" by (intro ext) (simp only: resolve_group_def c s)
  then show ?thesis by (simp add: resolveIngressAllowlist_def resolveAccessGroupEntries_def)
qed







end
