(* ===== verification/Pair_Loop_Guard.thy ===== *)
theory Pair_Loop_Guard
  imports Js_Map "HOL-Library.Char_ord" "HOL-Library.List_Lexorder"
begin

section \<open>The pair-loop guard\<close>

text \<open>
  \<^verbatim>\<open>src/plugin-sdk/pair-loop-guard-runtime.ts\<close>: suppression of two bots that answer
  each other. A guard is its map of tracked pairs with the next pruning time. Configured numbers are
  JavaScript numbers (\<open>None\<close> for what is no number); resolved settings are finite, that is
  rational; clock readings are integers.
\<close>

record pair_settings =
  ps_enabled :: bool
  ps_maxEventsPerWindow :: rat
  ps_windowMs :: rat
  ps_cooldownMs :: rat

record pair_config =
  pc_enabled :: "bool option"
  pc_maxEventsPerWindow :: "js_num option"
  pc_windowSeconds :: "js_num option"
  pc_cooldownSeconds :: "js_num option"

record pair_entry =
  pe_recentMs :: "int list"
  pe_windowMs :: int
  pe_cooldownStartedAtMs :: int
  pe_cooldownUntilMs :: int

record pair_guard =
  pg_tracked :: "(string, pair_entry) jmap"
  pg_pruneIntervalMs :: int
  pg_nextPruneAtMs :: int

datatype pair_result = NotSuppressed | Suppressed int

definition DEFAULT_PAIR_LOOP_GUARD_SETTINGS :: pair_settings where
  "DEFAULT_PAIR_LOOP_GUARD_SETTINGS = \<lparr>ps_enabled = True, ps_maxEventsPerWindow = 20,
     ps_windowMs = 60 * 1000, ps_cooldownMs = 60 * 1000\<rparr>"

subsection \<open>Settings\<close>

text \<open>The narrower config wins wherever it defines a value.\<close>

definition over :: "'a option \<Rightarrow> 'a option \<Rightarrow> 'a option" where
  "over old new = (case new of Some v \<Rightarrow> Some v | None \<Rightarrow> old)"

definition has_pair_value :: "pair_config \<Rightarrow> bool" where
  "has_pair_value c \<longleftrightarrow> pc_enabled c \<noteq> None \<or> pc_maxEventsPerWindow c \<noteq> None
     \<or> pc_windowSeconds c \<noteq> None \<or> pc_cooldownSeconds c \<noteq> None"

definition overlay_pair_config :: "pair_config \<times> bool \<Rightarrow> pair_config option \<Rightarrow> pair_config \<times> bool" where
  "overlay_pair_config acc config =
     (case config of
        None \<Rightarrow> acc
      | Some c \<Rightarrow>
          (let m = fst acc in
           (\<lparr>pc_enabled = over (pc_enabled m) (pc_enabled c),
             pc_maxEventsPerWindow = over (pc_maxEventsPerWindow m) (pc_maxEventsPerWindow c),
             pc_windowSeconds = over (pc_windowSeconds m) (pc_windowSeconds c),
             pc_cooldownSeconds = over (pc_cooldownSeconds m) (pc_cooldownSeconds c)\<rparr>,
            snd acc \<or> has_pair_value c)))"

definition mergePairLoopGuardConfig :: "pair_config option list \<Rightarrow> pair_config option" where
  "mergePairLoopGuardConfig configs =
     (let (merged, hasValue) = foldl overlay_pair_config
            (\<lparr>pc_enabled = None, pc_maxEventsPerWindow = None, pc_windowSeconds = None,
              pc_cooldownSeconds = None\<rparr>, False) configs
      in if hasValue then Some merged else None)"

definition positiveInteger :: "js_num option \<Rightarrow> int option" where
  "positiveInteger v =
     (case Option.bind v js_finite of
        Some r \<Rightarrow> if r > 0 then Some \<lfloor>r\<rfloor> else None
      | None \<Rightarrow> None)"

definition first_of :: "'a option \<Rightarrow> 'a option \<Rightarrow> 'a \<Rightarrow> 'a" where
  "first_of a b d = (case a of Some x \<Rightarrow> x | None \<Rightarrow> (case b of Some y \<Rightarrow> y | None \<Rightarrow> d))"

definition resolvePairLoopGuardSettings ::
    "pair_config option \<Rightarrow> pair_config option \<Rightarrow> bool \<Rightarrow> pair_settings" where
  "resolvePairLoopGuardSettings config defaultsConfig defaultEnabled =
     (let field = (\<lambda>sel c. positiveInteger (Option.bind c sel));
          configuredEnabled = first_of (Option.bind config pc_enabled)
            (Option.bind defaultsConfig pc_enabled) True;
          maxEvents = first_of (field pc_maxEventsPerWindow config)
            (field pc_maxEventsPerWindow defaultsConfig) 20;
          windowSeconds = first_of (field pc_windowSeconds config)
            (field pc_windowSeconds defaultsConfig) 60;
          cooldownSeconds = first_of (field pc_cooldownSeconds config)
            (field pc_cooldownSeconds defaultsConfig) 60
      in \<lparr>ps_enabled = (defaultEnabled \<and> configuredEnabled),
          ps_maxEventsPerWindow = of_int maxEvents,
          ps_windowMs = of_int (windowSeconds * 1000),
          ps_cooldownMs = of_int (cooldownSeconds * 1000)\<rparr>)"

subsection \<open>The guard\<close>

definition KEY_SEPARATOR :: char where
  "KEY_SEPARATOR = CHR 0x01"

definition buildPairKey :: "string \<Rightarrow> string \<Rightarrow> string \<Rightarrow> string \<Rightarrow> string" where
  "buildPairKey scopeId conversationId senderId receiverId =
     (let lhs = (if senderId < receiverId then senderId else receiverId);
          rhs = (if senderId < receiverId then receiverId else senderId)
      in js_join KEY_SEPARATOR [scopeId, conversationId, lhs, rhs])"

definition pruneRecentTimestamps :: "pair_entry \<Rightarrow> int \<Rightarrow> int \<Rightarrow> pair_entry" where
  "pruneRecentTimestamps e nowMs windowMs =
     e\<lparr>pe_recentMs := filter (\<lambda>t. t > nowMs - windowMs) (pe_recentMs e)\<rparr>"

definition countCurrentWindowEvents :: "pair_entry \<Rightarrow> int \<Rightarrow> int" where
  "countCurrentWindowEvents e nowMs = int (length (filter (\<lambda>t. t \<le> nowMs) (pe_recentMs e)))"

definition createPairLoopGuard :: "int option \<Rightarrow> pair_guard" where
  "createPairLoopGuard pruneIntervalMs =
     \<lparr>pg_tracked = [], pg_pruneIntervalMs = case_option 60000 id pruneIntervalMs, pg_nextPruneAtMs = 0\<rparr>"

text \<open>The sweep drops what is neither recent nor cooling down, and trims the rest.\<close>

definition pruneInactiveTrackedPairs :: "pair_guard \<Rightarrow> int \<Rightarrow> pair_guard" where
  "pruneInactiveTrackedPairs g nowMs =
     (if pg_pruneIntervalMs g \<le> 0 \<or> nowMs < pg_nextPruneAtMs g then g
      else g\<lparr>pg_nextPruneAtMs := nowMs + pg_pruneIntervalMs g,
             pg_tracked := jm_sweep (\<lambda>_ e. pe_recentMs e = [] \<and> pe_cooldownUntilMs e \<le> nowMs)
               (map (\<lambda>(k, e). (k, pruneRecentTimestamps e nowMs (pe_windowMs e))) (pg_tracked g))\<rparr>)"

text \<open>One event of a pair whose entry is \<open>e\<close>.\<close>

definition record_event :: "pair_entry \<Rightarrow> int \<Rightarrow> int \<Rightarrow> int \<Rightarrow> int \<Rightarrow> pair_entry \<times> pair_result" where
  "record_event e maxEvents windowMs cooldownMs nowMs =
     (if pe_cooldownStartedAtMs e \<le> nowMs \<and> pe_cooldownUntilMs e > nowMs
      then (e, Suppressed (pe_cooldownUntilMs e))
      else
       (let e1 = pruneRecentTimestamps (e\<lparr>pe_windowMs := windowMs\<rparr>) nowMs windowMs;
            e2 = e1\<lparr>pe_recentMs := pe_recentMs e1 @ [nowMs]\<rparr>
        in if countCurrentWindowEvents e2 nowMs > maxEvents then
             (e2\<lparr>pe_cooldownStartedAtMs := nowMs, pe_cooldownUntilMs := nowMs + cooldownMs,
                 pe_recentMs := filter (\<lambda>t. t > nowMs) (pe_recentMs e2)\<rparr>,
              Suppressed (nowMs + cooldownMs))
           else (e2, NotSuppressed)))"

text \<open>The tracked entry of a pair, or a new one.\<close>

definition blank_entry :: "int \<Rightarrow> pair_entry" where
  "blank_entry w = \<lparr>pe_recentMs = [], pe_windowMs = w, pe_cooldownStartedAtMs = 0, pe_cooldownUntilMs = 0\<rparr>"

definition entry_of :: "pair_guard \<Rightarrow> string \<Rightarrow> int \<Rightarrow> pair_entry" where
  "entry_of g key w = (case jm_get (pg_tracked g) key of Some e \<Rightarrow> e | None \<Rightarrow> blank_entry w)"

definition recordAndCheck ::
    "pair_guard \<Rightarrow> string \<Rightarrow> string \<Rightarrow> string \<Rightarrow> string \<Rightarrow> pair_settings \<Rightarrow> int \<Rightarrow> pair_guard \<times> pair_result" where
  "recordAndCheck g0 scopeId conversationId senderId receiverId settings nowMs =
     (if \<not> ps_enabled settings then (g0, NotSuppressed)
      else if scopeId = [] \<or> conversationId = [] \<or> senderId = [] \<or> receiverId = []
      then (g0, NotSuppressed)
      else if senderId = receiverId then (g0, NotSuppressed)
      else
       (let maxEvents = \<lfloor>ps_maxEventsPerWindow settings\<rfloor>;
            windowMs = \<lfloor>ps_windowMs settings\<rfloor>;
            cooldownMs = \<lfloor>ps_cooldownMs settings\<rfloor>
        in if maxEvents \<le> 0 \<or> windowMs \<le> 0 \<or> cooldownMs \<le> 0 then (g0, NotSuppressed)
           else
            (let g = pruneInactiveTrackedPairs g0 nowMs;
                 key = buildPairKey scopeId conversationId senderId receiverId;
                 (e, result) = record_event (entry_of g key windowMs) maxEvents windowMs cooldownMs nowMs
             in (g\<lparr>pg_tracked := jm_put key e (pg_tracked g)\<rparr>, result))))"

definition pg_clear :: "pair_guard \<Rightarrow> pair_guard" where
  "pg_clear g = g\<lparr>pg_tracked := [], pg_nextPruneAtMs := 0\<rparr>"

text \<open>Key, retained events and end of cooldown of every tracked pair.\<close>

definition pg_snapshot :: "pair_guard \<Rightarrow> (string \<times> nat \<times> int) list" where
  "pg_snapshot g = map (\<lambda>(k, e). (k, length (pe_recentMs e), pe_cooldownUntilMs e)) (pg_tracked g)"

end
