(* ===== verification/Pair_Loop_Facts.thy ===== *)
theory Pair_Loop_Facts
  imports Pair_Loop_Guard
begin

section \<open>The pair-loop guard: rate and recovery\<close>

text \<open>
  Runs of a guard over the events of many pairs under a clock that does not go back. A pair whose
  cooldown is at least its window never gets more than its allowance through in any window, wherever
  the window lies; a suppressed pair stays suppressed to the end of its cooldown and no longer.
\<close>

record pair_event =
  pv_scope :: string
  pv_conversation :: string
  pv_sender :: string
  pv_receiver :: string
  pv_settings :: pair_settings
  pv_now :: int

definition pv_key :: "pair_event \<Rightarrow> string" where
  "pv_key v = buildPairKey (pv_scope v) (pv_conversation v) (pv_sender v) (pv_receiver v)"

definition pv_record :: "pair_guard \<Rightarrow> pair_event \<Rightarrow> pair_guard \<times> pair_result" where
  "pv_record g v = recordAndCheck g (pv_scope v) (pv_conversation v) (pv_sender v) (pv_receiver v)
     (pv_settings v) (pv_now v)"

text \<open>Settings the guard acts on, and events it counts.\<close>

definition active_settings :: "pair_settings \<Rightarrow> bool" where
  "active_settings s \<longleftrightarrow> ps_enabled s \<and> \<lfloor>ps_maxEventsPerWindow s\<rfloor> > 0 \<and> \<lfloor>ps_windowMs s\<rfloor> > 0
     \<and> \<lfloor>ps_cooldownMs s\<rfloor> > 0"

definition counted :: "pair_event \<Rightarrow> bool" where
  "counted v \<longleftrightarrow> pv_scope v \<noteq> [] \<and> pv_conversation v \<noteq> [] \<and> pv_sender v \<noteq> [] \<and> pv_receiver v \<noteq> []
     \<and> pv_sender v \<noteq> pv_receiver v \<and> active_settings (pv_settings v)"

fun pg_run :: "pair_guard \<Rightarrow> pair_event list \<Rightarrow> pair_guard" where
  "pg_run g [] = g"
| "pg_run g (v # vs) = pg_run (fst (pv_record g v)) vs"

text \<open>The times at which counted events of a pair get through.\<close>

fun passes_of :: "pair_guard \<Rightarrow> string \<Rightarrow> pair_event list \<Rightarrow> int list" where
  "passes_of g key [] = []"
| "passes_of g key (v # vs) =
     (if counted v \<and> pv_key v = key \<and> snd (pv_record g v) = NotSuppressed then [pv_now v] else [])
     @ passes_of (fst (pv_record g v)) key vs"

lemma pv_record_idle: "\<not> counted v \<Longrightarrow> pv_record g v = (g, NotSuppressed)"
  by (auto simp: pv_record_def recordAndCheck_def counted_def active_settings_def Let_def not_less)

lemma pv_record_counted:
  fixes g :: pair_guard
  assumes "counted v"
  defines "g' \<equiv> pruneInactiveTrackedPairs g (pv_now v)"
  shows "pv_record g v =
    (let (e, r) = record_event (entry_of g' (pv_key v) \<lfloor>ps_windowMs (pv_settings v)\<rfloor>)
           \<lfloor>ps_maxEventsPerWindow (pv_settings v)\<rfloor> \<lfloor>ps_windowMs (pv_settings v)\<rfloor>
           \<lfloor>ps_cooldownMs (pv_settings v)\<rfloor> (pv_now v)
     in (g'\<lparr>pg_tracked := jm_put (pv_key v) e (pg_tracked g')\<rparr>, r))"
  using assms
  by (simp add: pv_record_def recordAndCheck_def counted_def active_settings_def
      pv_key_def Let_def not_le)

subsection \<open>What the sweep leaves of an entry\<close>

lemma jm_get_map_vals: "jm_get (map (\<lambda>(k, e). (k, f e)) m) k = map_option f (jm_get m k)"
  by (induction m) auto

lemma jm_keys_map_vals: "jm_keys (map (\<lambda>(k, e). (k, f e)) m) = jm_keys m"
  by (simp add: jm_keys_def case_prod_beta comp_def)

definition pg_distinct :: "pair_guard \<Rightarrow> bool" where
  "pg_distinct g \<longleftrightarrow> distinct (jm_keys (pg_tracked g))"

lemma sweep_entry:
  assumes "pg_distinct g"
  shows "pg_distinct (pruneInactiveTrackedPairs g now)"
    "jm_get (pg_tracked (pruneInactiveTrackedPairs g now)) k = jm_get (pg_tracked g) k
     \<or> (\<exists>e. jm_get (pg_tracked g) k = Some e
          \<and> (let e' = pruneRecentTimestamps e now (pe_windowMs e) in
             if pe_recentMs e' = [] \<and> pe_cooldownUntilMs e' \<le> now
             then jm_get (pg_tracked (pruneInactiveTrackedPairs g now)) k = None
             else jm_get (pg_tracked (pruneInactiveTrackedPairs g now)) k = Some e'))"
proof -
  let ?m = "map (\<lambda>(k, e). (k, pruneRecentTimestamps e now (pe_windowMs e))) (pg_tracked g)"
  have d: "distinct (jm_keys ?m)"
    unfolding jm_keys_map_vals using assms by (simp add: pg_distinct_def)
  show "pg_distinct (pruneInactiveTrackedPairs g now)"
    using assms d by (simp add: pruneInactiveTrackedPairs_def pg_distinct_def distinct_jm_sweep)
  show "jm_get (pg_tracked (pruneInactiveTrackedPairs g now)) k = jm_get (pg_tracked g) k
     \<or> (\<exists>e. jm_get (pg_tracked g) k = Some e
          \<and> (let e' = pruneRecentTimestamps e now (pe_windowMs e) in
             if pe_recentMs e' = [] \<and> pe_cooldownUntilMs e' \<le> now
             then jm_get (pg_tracked (pruneInactiveTrackedPairs g now)) k = None
             else jm_get (pg_tracked (pruneInactiveTrackedPairs g now)) k = Some e'))"
    by (cases "jm_get (pg_tracked g) k")
      (auto simp: pruneInactiveTrackedPairs_def jm_get_sweep [OF d] Let_def
        jm_get_map_vals [of "\<lambda>e. pruneRecentTimestamps e now (pe_windowMs e)"])
qed

subsection \<open>Entries under a monotone clock\<close>

text \<open>Nothing recorded lies ahead, and a pair that cools down has nothing recorded.\<close>

definition entry_ok :: "pair_entry \<Rightarrow> int \<Rightarrow> bool" where
  "entry_ok e now \<longleftrightarrow> list_all (\<lambda>t. t \<le> now) (pe_recentMs e)
     \<and> (pe_cooldownUntilMs e > now \<longrightarrow> pe_recentMs e = [] \<and> pe_cooldownStartedAtMs e \<le> now)"

definition guard_ok :: "pair_guard \<Rightarrow> int \<Rightarrow> bool" where
  "guard_ok g now \<longleftrightarrow> pg_distinct g \<and> (\<forall>k e. jm_get (pg_tracked g) k = Some e \<longrightarrow> entry_ok e now)"

lemma entry_ok_later: "entry_ok e now \<Longrightarrow> now \<le> now' \<Longrightarrow> entry_ok e now'"
  by (auto simp: entry_ok_def list_all_iff)

lemma guard_ok_later: "guard_ok g now \<Longrightarrow> now \<le> now' \<Longrightarrow> guard_ok g now'"
  by (auto simp: guard_ok_def intro: entry_ok_later)

lemma guard_ok_sweep: "guard_ok g now \<Longrightarrow> guard_ok (pruneInactiveTrackedPairs g now) now"
proof -
  assume ok: "guard_ok g now"
  have "entry_ok e now" if e: "jm_get (pg_tracked (pruneInactiveTrackedPairs g now)) k = Some e" for k e
  proof -
    have trim: "entry_ok (pruneRecentTimestamps a now w) now" if "entry_ok a now" for a w
      using that by (auto simp: entry_ok_def pruneRecentTimestamps_def list_all_iff)
    from ok have all: "\<And>a. jm_get (pg_tracked g) k = Some a \<Longrightarrow> entry_ok a now" and d: "pg_distinct g"
      by (auto simp: guard_ok_def)
    from sweep_entry(2) [OF d, of now k] show ?thesis
    proof (elim disjE exE conjE)
      assume "jm_get (pg_tracked (pruneInactiveTrackedPairs g now)) k = jm_get (pg_tracked g) k"
      with e all show ?thesis by simp
    next
      fix a
      assume "jm_get (pg_tracked g) k = Some a"
        "let e' = pruneRecentTimestamps a now (pe_windowMs a) in
           if pe_recentMs e' = [] \<and> pe_cooldownUntilMs e' \<le> now
           then jm_get (pg_tracked (pruneInactiveTrackedPairs g now)) k = None
           else jm_get (pg_tracked (pruneInactiveTrackedPairs g now)) k = Some e'"
      with e all trim show ?thesis by (auto simp: Let_def split: if_splits)
    qed
  qed
  moreover have "pg_distinct (pruneInactiveTrackedPairs g now)"
    using ok by (simp add: guard_ok_def sweep_entry(1))
  ultimately show ?thesis by (simp add: guard_ok_def)
qed

lemma entry_of_ok: "guard_ok g now \<Longrightarrow> 0 \<le> now \<Longrightarrow> entry_ok (entry_of g key w) now"
  by (simp add: entry_of_def guard_ok_def split: option.split) (simp add: entry_ok_def blank_entry_def)

lemma record_event_cases:
  fixes e :: pair_entry and m w cool now :: int
  defines "rs \<equiv> filter (\<lambda>t. t > now - w) (pe_recentMs e) @ [now]"
  obtains (cooling) "pe_cooldownStartedAtMs e \<le> now" "pe_cooldownUntilMs e > now"
      "record_event e m w cool now = (e, Suppressed (pe_cooldownUntilMs e))"
  | (tripped) "\<not> (pe_cooldownStartedAtMs e \<le> now \<and> pe_cooldownUntilMs e > now)"
      "int (length (filter (\<lambda>t. t \<le> now) rs)) > m"
      "record_event e m w cool now = (\<lparr>pe_recentMs = filter (\<lambda>t. t > now) rs, pe_windowMs = w,
         pe_cooldownStartedAtMs = now, pe_cooldownUntilMs = now + cool\<rparr>, Suppressed (now + cool))"
  | (passed) "\<not> (pe_cooldownStartedAtMs e \<le> now \<and> pe_cooldownUntilMs e > now)"
      "int (length (filter (\<lambda>t. t \<le> now) rs)) \<le> m"
      "record_event e m w cool now = (e\<lparr>pe_windowMs := w, pe_recentMs := rs\<rparr>, NotSuppressed)"
proof (cases "pe_cooldownStartedAtMs e \<le> now \<and> pe_cooldownUntilMs e > now")
  case True
  then show ?thesis by (intro cooling) (auto simp: record_event_def)
next
  case no: False
  note unfold = record_event_def pruneRecentTimestamps_def countCurrentWindowEvents_def rs_def Let_def
  show ?thesis
  proof (cases "int (length (filter (\<lambda>t. t \<le> now) rs)) > m")
    case True
    show ?thesis
      by (rule tripped [OF no True], cases e) (use no True in \<open>auto simp: unfold\<close>)
  next
    case False
    then have le: "int (length (filter (\<lambda>t. t \<le> now) rs)) \<le> m" by simp
    show ?thesis
      by (rule passed [OF no le], cases e) (use no False in \<open>auto simp: unfold\<close>)
  qed
qed

lemma filter_ahead_Nil: "list_all (\<lambda>t. t \<le> now) xs \<Longrightarrow> filter (\<lambda>t. t > (now :: int)) xs = []"
  by (auto simp: filter_empty_conv list_all_iff)

lemma list_all_filter_sub: "list_all P xs \<Longrightarrow> list_all P (filter Q xs)"
  by (auto simp: list_all_iff)

lemma record_event_ok:
  assumes "entry_ok e now" "0 < cool"
  shows "entry_ok (fst (record_event e m w cool now)) now"
proof -
  have rs: "list_all (\<lambda>t. t \<le> now) (filter (\<lambda>t. t > now - w) (pe_recentMs e) @ [now])"
    using assms(1) by (simp add: entry_ok_def list_all_filter_sub)
  show ?thesis
  proof (cases rule: record_event_cases [where e = e and m = m and w = w and cool = cool and now = now])
    case cooling
    with assms show ?thesis by simp
  next
    case tripped
    with filter_ahead_Nil [OF rs] show ?thesis by (simp add: entry_ok_def)
  next
    case passed
    with assms(1) rs show ?thesis by (auto simp: entry_ok_def)
  qed
qed

lemma record_keeps_ok:
  assumes "guard_ok g now" "now \<le> pv_now v" "0 \<le> pv_now v"
  shows "guard_ok (fst (pv_record g v)) (pv_now v)"
proof (cases "counted v")
  case False
  with guard_ok_later [OF assms(1,2)] show ?thesis by (simp add: pv_record_idle)
next
  case True
  let ?g = "pruneInactiveTrackedPairs g (pv_now v)"
  have ok: "guard_ok ?g (pv_now v)"
    by (rule guard_ok_sweep [OF guard_ok_later [OF assms(1,2)]])
  obtain e r where rec: "record_event (entry_of ?g (pv_key v) \<lfloor>ps_windowMs (pv_settings v)\<rfloor>)
       \<lfloor>ps_maxEventsPerWindow (pv_settings v)\<rfloor> \<lfloor>ps_windowMs (pv_settings v)\<rfloor>
       \<lfloor>ps_cooldownMs (pv_settings v)\<rfloor> (pv_now v) = (e, r)" by fastforce
  have "0 < \<lfloor>ps_cooldownMs (pv_settings v)\<rfloor>"
    using True by (simp add: counted_def active_settings_def)
  from record_event_ok [OF entry_of_ok [OF ok assms(3)] this] rec have "entry_ok e (pv_now v)"
    by (metis fst_conv)
  with ok rec True show ?thesis
    by (auto simp: pv_record_counted guard_ok_def pg_distinct_def jm.distinct_put jm_get_put)
qed

lemma run_keeps_ok:
  "guard_ok g now \<Longrightarrow> sorted (now # map pv_now vs) \<Longrightarrow> 0 \<le> now \<Longrightarrow>
     guard_ok (pg_run g vs) (last (now # map pv_now vs))"
proof (induction vs arbitrary: g now)
  case (Cons v vs)
  have "guard_ok (fst (pv_record g v)) (pv_now v)"
    using Cons.prems by (intro record_keeps_ok) auto
  from Cons.IH [OF this] Cons.prems show ?case by auto
qed simp

lemma guard_ok_create: "guard_ok (createPairLoopGuard i) now"
  by (simp add: createPairLoopGuard_def guard_ok_def pg_distinct_def jm_keys_def)

subsection \<open>A cooldown lasts exactly as long as announced\<close>

lemma pv_record_result:
  fixes g :: pair_guard
  assumes "counted v"
  defines "e \<equiv> record_event (entry_of (pruneInactiveTrackedPairs g (pv_now v)) (pv_key v)
      \<lfloor>ps_windowMs (pv_settings v)\<rfloor>) \<lfloor>ps_maxEventsPerWindow (pv_settings v)\<rfloor>
      \<lfloor>ps_windowMs (pv_settings v)\<rfloor> \<lfloor>ps_cooldownMs (pv_settings v)\<rfloor> (pv_now v)"
  shows "snd (pv_record g v) = snd e"
    "jm_get (pg_tracked (fst (pv_record g v))) k = (if k = pv_key v then Some (fst e)
       else jm_get (pg_tracked (pruneInactiveTrackedPairs g (pv_now v))) k)"
  by (simp_all add: pv_record_counted [OF assms(1)] e_def jm_get_put case_prod_beta Let_def)

lemma suppressed_entry:
  fixes e :: pair_entry and now m w cool u :: int
  assumes "entry_ok e now" "0 < cool" "snd (record_event e m w cool now) = Suppressed u"
  defines "e' \<equiv> fst (record_event e m w cool now)"
  shows "pe_cooldownUntilMs e' = u \<and> now < u \<and> pe_cooldownStartedAtMs e' \<le> now \<and> pe_recentMs e' = []"
proof -
  have ok: "entry_ok e' now" unfolding e'_def by (rule record_event_ok [OF assms(1,2)])
  have "pe_cooldownUntilMs e' = u \<and> now < u"
    using assms(2,3)
    by (cases rule: record_event_cases [where e = e and m = m and w = w and cool = cool and now = now])
      (auto simp: e'_def)
  with ok show ?thesis by (simp add: entry_ok_def)
qed

text \<open>The sweep keeps a cooling entry, and may forget one whose cooldown is over.\<close>

lemma swept_idle_entry:
  fixes g :: pair_guard and now w :: int and key :: string
  assumes "pg_distinct g" "jm_get (pg_tracked g) key = Some e" "pe_recentMs e = []"
  defines "e' \<equiv> entry_of (pruneInactiveTrackedPairs g now) key w"
  shows "pe_recentMs e' = []"
    "pe_cooldownUntilMs e' = pe_cooldownUntilMs e \<and> pe_cooldownStartedAtMs e' = pe_cooldownStartedAtMs e
     \<or> pe_cooldownUntilMs e \<le> now \<and> pe_cooldownUntilMs e' = 0"
  using sweep_entry(2) [OF assms(1), of now key] assms(2,3)
  by (auto simp: e'_def entry_of_def pruneRecentTimestamps_def blank_entry_def Let_def split: if_splits)

lemma idle_entry_passes:
  "pe_recentMs e = [] \<Longrightarrow> pe_cooldownUntilMs e \<le> now \<Longrightarrow> 0 < m \<Longrightarrow>
     snd (record_event e m w cool now) = NotSuppressed"
  by (simp add: record_event_def pruneRecentTimestamps_def countCurrentWindowEvents_def Let_def)

lemma cooling_entry_suppresses:
  "pe_cooldownStartedAtMs e \<le> now \<Longrightarrow> now < pe_cooldownUntilMs e \<Longrightarrow>
     snd (record_event e m w cool now) = Suppressed (pe_cooldownUntilMs e)"
  by (simp add: record_event_def)

lemma after_suppression:
  assumes "guard_ok g t0" "t0 \<le> pv_now v" "pv_now v \<le> pv_now v'" "0 \<le> pv_now v"
    and "counted v" "counted v'" "pv_key v' = pv_key v" "snd (pv_record g v) = Suppressed u"
  shows "snd (pv_record (fst (pv_record g v)) v')
    = (if pv_now v' < u then Suppressed u else NotSuppressed)"
proof -
  let ?s = "pruneInactiveTrackedPairs g (pv_now v)" and ?g' = "fst (pv_record g v)"
  let ?rec = "record_event (entry_of ?s (pv_key v) \<lfloor>ps_windowMs (pv_settings v)\<rfloor>)
      \<lfloor>ps_maxEventsPerWindow (pv_settings v)\<rfloor> \<lfloor>ps_windowMs (pv_settings v)\<rfloor>
      \<lfloor>ps_cooldownMs (pv_settings v)\<rfloor> (pv_now v)"
  have act: "0 < \<lfloor>ps_cooldownMs (pv_settings v)\<rfloor>" "0 < \<lfloor>ps_maxEventsPerWindow (pv_settings v')\<rfloor>"
    using assms(5,6) by (simp_all add: counted_def active_settings_def)
  have "guard_ok ?s (pv_now v)"
    by (rule guard_ok_sweep [OF guard_ok_later [OF assms(1,2)]])
  from suppressed_entry [OF entry_of_ok [OF this assms(4)] act(1)] assms(8)
  have e: "pe_cooldownUntilMs (fst ?rec) = u" "pv_now v < u" "pe_cooldownStartedAtMs (fst ?rec) \<le> pv_now v"
    "pe_recentMs (fst ?rec) = []"
    by (simp_all add: pv_record_result [OF assms(5)])
  have "guard_ok ?g' (pv_now v)"
    using assms(1,2,4) by (rule record_keeps_ok)
  then have d: "pg_distinct ?g'" by (simp add: guard_ok_def)
  have get: "jm_get (pg_tracked ?g') (pv_key v') = Some (fst ?rec)"
    by (simp add: pv_record_result [OF assms(5)] assms(7))
  note swept = swept_idle_entry [OF d get e(4), of "pv_now v'" "\<lfloor>ps_windowMs (pv_settings v')\<rfloor>"]
  show ?thesis
  proof (cases "pv_now v' < u")
    case True
    with swept(2) e assms(3) show ?thesis
      by (simp add: pv_record_result [OF assms(6)] cooling_entry_suppresses)
  next
    case False
    with swept(2) e assms(3,4) have "pe_cooldownUntilMs (entry_of (pruneInactiveTrackedPairs ?g' (pv_now v'))
        (pv_key v') \<lfloor>ps_windowMs (pv_settings v')\<rfloor>) \<le> pv_now v'"
      by auto
    with False swept(1) act(2) show ?thesis
      by (simp add: pv_record_result [OF assms(6)] idle_entry_passes)
  qed
qed

text \<open>
  A suppression ends: when a pair is told it is suppressed until \<open>u\<close>, its next event is
  suppressed with the same end as long as it comes before \<open>u\<close>, and gets through from \<open>u\<close>
  on, whatever sweeps happen in between.
\<close>

theorem cooldown_is_exact:
  assumes "sorted (0 # map pv_now (vs @ [v, v']))" "counted v" "counted v'" "pv_key v' = pv_key v"
    and "snd (pv_record (pg_run (createPairLoopGuard i) vs) v) = Suppressed u"
  shows "snd (pv_record (fst (pv_record (pg_run (createPairLoopGuard i) vs) v)) v')
    = (if pv_now v' < u then Suppressed u else NotSuppressed)"
proof -
  have s: "sorted (0 # map pv_now vs)" and le: "last (0 # map pv_now vs) \<le> pv_now v"
    "pv_now v \<le> pv_now v'" "0 \<le> pv_now v"
    using assms(1) by (auto simp: sorted_append last_map)
  show ?thesis
    by (rule after_suppression [OF run_keeps_ok [OF guard_ok_create s order_refl] le(1,2,3) assms(2-5)])
qed

definition demo_event :: "string \<Rightarrow> string \<Rightarrow> int \<Rightarrow> pair_event" where
  "demo_event a b t = \<lparr>pv_scope = ''demo'', pv_conversation = ''room'', pv_sender = a, pv_receiver = b,
     pv_settings = \<lparr>ps_enabled = True, ps_maxEventsPerWindow = 1, ps_windowMs = 10, ps_cooldownMs = 20\<rparr>,
     pv_now = t\<rparr>"

lemma demo_counted: "counted (demo_event ''a'' ''b'' t)" "counted (demo_event ''b'' ''a'' t)"
  by (simp_all add: demo_event_def counted_def active_settings_def)

lemma demo_suppressed:
  "snd (pv_record (pg_run (createPairLoopGuard None) [demo_event ''a'' ''b'' 100]) (demo_event ''b'' ''a'' 101))
     = Suppressed 121"
  by code_simp

theorem cooldown_is_exact_witness:
  "snd (pv_record (fst (pv_record (pg_run (createPairLoopGuard None) [demo_event ''a'' ''b'' 100])
      (demo_event ''b'' ''a'' 101))) (demo_event ''a'' ''b'' 120)) = Suppressed 121"
proof -
  have "pv_key (demo_event ''a'' ''b'' 120) = pv_key (demo_event ''b'' ''a'' 101)" by code_simp
  from cooldown_is_exact [OF _ demo_counted(2) demo_counted(1) this demo_suppressed]
  show ?thesis by (simp add: demo_event_def)
qed


section \<open>The pair-loop guard: what gets through\<close>

text \<open>
  Against the history of what the guard let through for a pair, its entry is an exact memory of the
  part that can still matter: everything above the later of now and the end of the cooldown, less
  the window. From that follows the bound on every window, and from the settings the case in which
  there is none.
\<close>

subsection \<open>The memory of a pair\<close>

definition agrees :: "int \<Rightarrow> pair_entry \<Rightarrow> int list \<Rightarrow> int \<Rightarrow> bool" where
  "agrees w e ps now \<longleftrightarrow>
     filter (\<lambda>p. p > max now (pe_cooldownUntilMs e) - w) ps
     = filter (\<lambda>p. p > max now (pe_cooldownUntilMs e) - w) (pe_recentMs e)"

lemma filter_above_mono:
  assumes "filter (\<lambda>p. p > h) xs = filter (\<lambda>p. p > h) ys" "h \<le> (h' :: int)"
  shows "filter (\<lambda>p. p > h') xs = filter (\<lambda>p. p > h') ys"
proof -
  have "filter (\<lambda>p. p > h') zs = filter (\<lambda>p. p > h') (filter (\<lambda>p. p > h) zs)" for zs
    unfolding filter_filter by (rule filter_cong) (use assms(2) in auto)
  then show ?thesis using assms(1) by metis
qed

lemma agrees_later: "agrees w e ps now \<Longrightarrow> now \<le> now' \<Longrightarrow> agrees w e ps now'"
  unfolding agrees_def by (erule filter_above_mono) linarith

lemma agrees_trim:
  assumes "agrees w e ps now"
  shows "agrees w (pruneRecentTimestamps e now w) ps now"
proof -
  let ?h = "max now (pe_cooldownUntilMs e) - w"
  have "filter (\<lambda>p. p > ?h) (filter (\<lambda>t. t > now - w) zs) = filter (\<lambda>p. p > ?h) zs" for zs :: "int list"
    unfolding filter_filter by (rule filter_cong) auto
  with assms show ?thesis by (simp add: agrees_def pruneRecentTimestamps_def)
qed

lemma agrees_forget:
  assumes "agrees w e ps now" "pe_recentMs (pruneRecentTimestamps e now w) = []"
    "pe_cooldownUntilMs e \<le> now"
  shows "agrees w (blank_entry w') ps now"
proof -
  have "filter (\<lambda>p. p > now - w) ps = []"
    using assms by (simp add: agrees_def pruneRecentTimestamps_def)
  from filter_above_mono [of "now - w" ps "[]" "max now 0 - w"] this
  show ?thesis by (simp add: agrees_def blank_entry_def)
qed

text \<open>Windows of a history.\<close>

definition in_window :: "int \<Rightarrow> int \<Rightarrow> int list \<Rightarrow> int" where
  "in_window w t ps = int (length (filter (\<lambda>p. t - w < p \<and> p \<le> t) ps))"

lemma length_filter_mono:
  "(\<And>x. P x \<Longrightarrow> Q x) \<Longrightarrow> length (filter P xs) \<le> length (filter Q xs)"
  by (induction xs) auto

text \<open>The invariant of one pair with settings \<open>s\<close> and history \<open>ps\<close>.\<close>

definition pair_inv :: "pair_settings \<Rightarrow> string \<Rightarrow> pair_guard \<Rightarrow> int list \<Rightarrow> int \<Rightarrow> bool" where
  "pair_inv s key g ps now \<longleftrightarrow> guard_ok g now \<and> list_all (\<lambda>p. p \<le> now) ps
     \<and> agrees \<lfloor>ps_windowMs s\<rfloor> (entry_of g key \<lfloor>ps_windowMs s\<rfloor>) ps now
     \<and> pe_windowMs (entry_of g key \<lfloor>ps_windowMs s\<rfloor>) = \<lfloor>ps_windowMs s\<rfloor>
     \<and> (\<forall>t. in_window \<lfloor>ps_windowMs s\<rfloor> t ps \<le> \<lfloor>ps_maxEventsPerWindow s\<rfloor>)"

lemma pair_inv_later: "pair_inv s key g ps now \<Longrightarrow> now \<le> now' \<Longrightarrow> pair_inv s key g ps now'"
  by (auto simp: pair_inv_def list_all_iff intro: guard_ok_later agrees_later)

lemma pair_inv_sweep:
  assumes "pair_inv s key g ps now"
  shows "pair_inv s key (pruneInactiveTrackedPairs g now) ps now"
proof -
  let ?w = "\<lfloor>ps_windowMs s\<rfloor>" and ?g = "pruneInactiveTrackedPairs g now"
  from assms have ok: "guard_ok g now" and agr: "agrees ?w (entry_of g key ?w) ps now"
    and win: "pe_windowMs (entry_of g key ?w) = ?w" by (auto simp: pair_inv_def)
  then have d: "pg_distinct g" by (simp add: guard_ok_def)
  have "agrees ?w (entry_of ?g key ?w) ps now \<and> pe_windowMs (entry_of ?g key ?w) = ?w"
    using sweep_entry(2) [OF d, of now key]
  proof (elim disjE exE conjE)
    assume "jm_get (pg_tracked ?g) key = jm_get (pg_tracked g) key"
    with agr win show ?thesis by (simp add: entry_of_def)
  next
    fix a
    assume a: "jm_get (pg_tracked g) key = Some a"
      "let e' = pruneRecentTimestamps a now (pe_windowMs a) in
         if pe_recentMs e' = [] \<and> pe_cooldownUntilMs e' \<le> now
         then jm_get (pg_tracked ?g) key = None else jm_get (pg_tracked ?g) key = Some e'"
    then have w: "pe_windowMs a = ?w" "agrees ?w a ps now" using agr win by (simp_all add: entry_of_def)
    show ?thesis
    proof (cases "pe_recentMs (pruneRecentTimestamps a now ?w) = []
        \<and> pe_cooldownUntilMs (pruneRecentTimestamps a now ?w) \<le> now")
      case True
      with a w have "entry_of ?g key ?w = blank_entry ?w" by (simp add: entry_of_def Let_def)
      with True w agrees_forget [OF w(2)] show ?thesis
        by (simp add: blank_entry_def pruneRecentTimestamps_def)
    next
      case False
      with a w have "jm_get (pg_tracked ?g) key = Some (pruneRecentTimestamps a now ?w)"
        by (simp add: Let_def)
      then have "entry_of ?g key ?w = pruneRecentTimestamps a now ?w" by (simp add: entry_of_def)
      with w agrees_trim [OF w(2)] show ?thesis by (simp add: pruneRecentTimestamps_def)
    qed
  qed
  with assms guard_ok_sweep [OF ok] show ?thesis by (simp add: pair_inv_def)
qed

text \<open>One event of the pair itself.\<close>

lemma event_agrees:
  fixes e :: pair_entry and ps :: "int list" and m w cool now :: int
  assumes "agrees w e ps now" "entry_ok e now" "list_all (\<lambda>p. p \<le> now) ps" "0 < w" "w \<le> cool"
    and "\<And>t. in_window w t ps \<le> m"
  defines "r \<equiv> record_event e m w cool now"
  defines "ps' \<equiv> ps @ (if snd r = NotSuppressed then [now] else [])"
  shows "agrees w (fst r) ps' now" "\<And>t. in_window w t ps' \<le> m" "pe_windowMs e = w \<Longrightarrow> pe_windowMs (fst r) = w"
proof -
  have "agrees w (fst r) ps' now \<and> (\<forall>t. in_window w t ps' \<le> m)
      \<and> (pe_windowMs e = w \<longrightarrow> pe_windowMs (fst r) = w)"
  proof (cases rule: record_event_cases [where e = e and m = m and w = w and cool = cool and now = now])
    case cooling
    with assms(1,6) show ?thesis by (simp add: r_def ps'_def)
  next
    case tripped
    have "filter (\<lambda>p. p > max now (now + cool) - w) ps = []"
      using assms(3,4,5) by (auto simp: filter_empty_conv list_all_iff)
    moreover have "filter (\<lambda>t. t > now) (filter (\<lambda>t. t > now - w) (pe_recentMs e) @ [now]) = []"
      using assms(2) by (intro filter_ahead_Nil) (simp add: entry_ok_def list_all_filter_sub)
    ultimately show ?thesis using tripped(3) assms(6) by (simp add: r_def ps'_def agrees_def)
  next
    case passed
    then have u: "pe_cooldownUntilMs e \<le> now" using assms(2) by (auto simp: entry_ok_def)
    let ?rs = "filter (\<lambda>t. t > now - w) (pe_recentMs e) @ [now]"
    have recent: "filter (\<lambda>p. p > now - w) ps' = ?rs"
      using assms(1,4) passed(3) u by (simp add: r_def ps'_def agrees_def)
    have "agrees w (fst r) ps' now"
      using recent passed(3) u assms(4) by (simp add: r_def agrees_def)
    moreover have "in_window w t ps' \<le> m" for t
    proof (cases "t < now")
      case True
      then have "in_window w t ps' = in_window w t ps"
        using passed(3) by (simp add: in_window_def ps'_def r_def)
      with assms(6) show ?thesis by simp
    next
      case False
      then have "in_window w t ps' \<le> int (length (filter (\<lambda>p. p > now - w) ps'))"
        by (simp add: in_window_def) (rule length_filter_mono, linarith)
      also have "\<dots> = int (length (filter (\<lambda>t. t \<le> now) ?rs))"
      proof -
        have "list_all (\<lambda>t. t \<le> now) ?rs"
          using assms(2) by (simp add: entry_ok_def list_all_filter_sub)
        then have "filter (\<lambda>t. t \<le> now) ?rs = ?rs" by (simp only: filter_id_conv list_all_iff)
        then show ?thesis by (simp only: recent)
      qed
      finally show ?thesis using passed(2) by linarith
    qed
    ultimately show ?thesis using passed(3) by (simp add: r_def)
  qed
  then show "agrees w (fst r) ps' now" "\<And>t. in_window w t ps' \<le> m"
    "pe_windowMs e = w \<Longrightarrow> pe_windowMs (fst r) = w" by auto
qed

subsection \<open>Runs\<close>

definition pass_now :: "pair_guard \<Rightarrow> string \<Rightarrow> pair_event \<Rightarrow> int list" where
  "pass_now g key v =
     (if counted v \<and> pv_key v = key \<and> snd (pv_record g v) = NotSuppressed then [pv_now v] else [])"

lemma pair_inv_step:
  assumes "pair_inv s key g ps now" "now \<le> pv_now v" "0 \<le> pv_now v"
    and "active_settings s" "\<lfloor>ps_windowMs s\<rfloor> \<le> \<lfloor>ps_cooldownMs s\<rfloor>"
    and "counted v \<and> pv_key v = key \<Longrightarrow> pv_settings v = s"
  shows "pair_inv s key (fst (pv_record g v)) (ps @ pass_now g key v) (pv_now v)"
proof (cases "counted v")
  case False
  with pair_inv_later [OF assms(1,2)] show ?thesis by (simp add: pv_record_idle pass_now_def)
next
  case True
  let ?g = "pruneInactiveTrackedPairs g (pv_now v)" and ?w = "\<lfloor>ps_windowMs s\<rfloor>"
  have inv: "pair_inv s key ?g ps (pv_now v)"
    by (rule pair_inv_sweep [OF pair_inv_later [OF assms(1,2)]])
  have ok: "guard_ok (fst (pv_record g v)) (pv_now v)"
    using assms(1-3) by (intro record_keeps_ok) (auto simp: pair_inv_def)
  show ?thesis
  proof (cases "pv_key v = key")
    case False
    then have "entry_of (fst (pv_record g v)) key ?w = entry_of ?g key ?w"
      by (simp add: entry_of_def pv_record_result(2) [OF True])
    with inv ok False show ?thesis by (simp add: pair_inv_def pass_now_def)
  next
    case key: True
    let ?e = "entry_of ?g key ?w"
    let ?r = "record_event ?e \<lfloor>ps_maxEventsPerWindow s\<rfloor> ?w \<lfloor>ps_cooldownMs s\<rfloor> (pv_now v)"
    from assms(6) True key have s: "pv_settings v = s" by simp
    have e: "agrees ?w ?e ps (pv_now v)" "entry_ok ?e (pv_now v)" "list_all (\<lambda>p. p \<le> pv_now v) ps"
      "pe_windowMs ?e = ?w" "in_window ?w t ps \<le> \<lfloor>ps_maxEventsPerWindow s\<rfloor>" for t
      using inv entry_of_ok [of ?g "pv_now v" key ?w] assms(3) by (auto simp: pair_inv_def)
    have w: "0 < ?w" using assms(4) by (simp add: active_settings_def)
    note step = event_agrees [OF e(1-3) w assms(5) e(5)]
    have "entry_of (fst (pv_record g v)) key ?w = fst ?r"
      using s key by (simp add: entry_of_def pv_record_result(2) [OF True])
    moreover have "pass_now g key v = (if snd ?r = NotSuppressed then [pv_now v] else [])"
      using s key True by (simp add: pass_now_def pv_record_result(1) [OF True])
    ultimately show ?thesis
      using ok step e(3,4) by (simp add: pair_inv_def)
  qed
qed

lemma passes_bounded:
  assumes "pair_inv s key g ps now" "sorted (now # map pv_now vs)" "0 \<le> now"
    and "active_settings s" "\<lfloor>ps_windowMs s\<rfloor> \<le> \<lfloor>ps_cooldownMs s\<rfloor>"
    and "list_all (\<lambda>v. counted v \<and> pv_key v = key \<longrightarrow> pv_settings v = s) vs"
  shows "in_window \<lfloor>ps_windowMs s\<rfloor> t (ps @ passes_of g key vs) \<le> \<lfloor>ps_maxEventsPerWindow s\<rfloor>"
  using assms(1-3,6)
proof (induction vs arbitrary: g ps now)
  case Nil
  then show ?case by (simp add: pair_inv_def)
next
  case (Cons v vs)
  have "pair_inv s key (fst (pv_record g v)) (ps @ pass_now g key v) (pv_now v)"
    using Cons.prems assms(4,5) by (intro pair_inv_step) auto
  from Cons.IH [OF this] Cons.prems show ?case
    by (simp add: pass_now_def [symmetric])
qed

lemma pair_inv_create: "active_settings s \<Longrightarrow> pair_inv s key (createPairLoopGuard i) [] 0"
  using guard_ok_create [of i 0]
  by (simp add: pair_inv_def agrees_def entry_of_def createPairLoopGuard_def blank_entry_def
      in_window_def active_settings_def)

text \<open>
  C37: A pair never gets more than its allowance through in any window: from a new guard, with the
  events of many pairs and their sweeps interleaved, the unsuppressed events of a pair in any
  interval of its window's length number at most \<open>maxEventsPerWindow\<close>. This is a bound under three
  conditions: the clock does not go back from one event to the next, every event of the pair comes
  with the same settings, and their cooldown is at least as long as their window (as with the
  defaults). The guard also takes events out of order, and is meant to; for those the bound does not
  hold, since an event is judged only against the earlier ones that are not ahead of it in time (with
  an allowance of one, an event at 120000 and then one at 119999 both pass).
\<close>

theorem pass_rate_bounded:
  assumes "sorted (0 # map pv_now vs)" "active_settings s" "\<lfloor>ps_windowMs s\<rfloor> \<le> \<lfloor>ps_cooldownMs s\<rfloor>"
    and "list_all (\<lambda>v. counted v \<and> pv_key v = key \<longrightarrow> pv_settings v = s) vs"
  shows "in_window \<lfloor>ps_windowMs s\<rfloor> t (passes_of (createPairLoopGuard i) key vs)
    \<le> \<lfloor>ps_maxEventsPerWindow s\<rfloor>"
  using passes_bounded [OF pair_inv_create [OF assms(2)] assms(1) order_refl assms(2-4)] by simp

theorem pass_rate_bounded_witness:
  "in_window 10 101 (passes_of (createPairLoopGuard None) (buildPairKey ''demo'' ''room'' ''a'' ''b'')
     [demo_event ''a'' ''b'' 100, demo_event ''b'' ''a'' 101]) \<le> 1"
  using pass_rate_bounded [of "[demo_event ''a'' ''b'' 100, demo_event ''b'' ''a'' 101]"
      "pv_settings (demo_event ''a'' ''b'' 0)" "buildPairKey ''demo'' ''room'' ''a'' ''b''" 101 None]
  by (simp add: demo_event_def active_settings_def)

subsection \<open>Both directions are one pair\<close>

lemma buildPairKey_swap: "buildPairKey s c a b = buildPairKey s c b a"
  by (cases a b rule: linorder_cases) (auto simp: buildPairKey_def dest: order.asym)

text \<open>
  The guard does not tell the directions of a pair apart: an event from one to the other leaves
  the same guard and the same answer as one back.
\<close>

lemma direction_does_not_matter:
  "recordAndCheck g scope conversation a b settings now = recordAndCheck g scope conversation b a settings now"
  by (auto simp: recordAndCheck_def buildPairKey_swap [of scope conversation a b] Let_def)

subsection \<open>Fractional settings\<close>

text \<open>
  A fractional threshold between zero and one is rounded down to zero instead of falling back to
  the default, and the guard then lets every event of the pair through without recording it.
\<close>

theorem fractional_threshold_disables:
  assumes "0 < r" "r < 1" "pc_maxEventsPerWindow c = Some (Fin r)"
  shows "ps_maxEventsPerWindow (resolvePairLoopGuardSettings (Some c) defaults enabled) = 0
    \<and> recordAndCheck g scope conversation a b (resolvePairLoopGuardSettings (Some c) defaults enabled) now
      = (g, NotSuppressed)"
proof -
  have "\<lfloor>r\<rfloor> = 0" using assms(1,2) by (simp add: floor_eq_iff)
  then have "ps_maxEventsPerWindow (resolvePairLoopGuardSettings (Some c) defaults enabled) = 0"
    using assms by (simp add: resolvePairLoopGuardSettings_def positiveInteger_def first_of_def Let_def)
  then show ?thesis by (simp add: recordAndCheck_def Let_def)
qed

theorem fractional_threshold_disables_witness:
  "ps_maxEventsPerWindow (resolvePairLoopGuardSettings (Some \<lparr>pc_enabled = Some True,
       pc_maxEventsPerWindow = Some (Fin (1 / 2)), pc_windowSeconds = None, pc_cooldownSeconds = None\<rparr>)
     None True) = 0"
  by (rule fractional_threshold_disables [THEN conjunct1, of "1 / 2"]) simp_all

end
