(* ===== verification/Webhook_Guards.thy ===== *)
theory Webhook_Guards
  imports Js_Map
begin

section \<open>Memory guards of the webhook ingress\<close>

text \<open>
  \<^verbatim>\<open>src/plugin-sdk/webhook-memory-guards.ts\<close> with
  \<^verbatim>\<open>webhook-numeric-options.ts\<close> and \<^verbatim>\<open>src/infra/map-size.ts\<close>: the
  fixed-window rate limiter, the bounded counter and the anomaly tracker built on it. A closure over
  mutable variables is a record of its options and variables; every call returns the updated record.
  Options are JavaScript numbers, clock readings are integers.
\<close>

subsection \<open>Numeric options and map pruning\<close>

definition resolveWebhookIntegerOption :: "js_num option \<Rightarrow> int \<Rightarrow> int \<Rightarrow> int" where
  "resolveWebhookIntegerOption v fallback lo =
     (let candidate = (case Option.bind v js_finite of Some r \<Rightarrow> r | None \<Rightarrow> of_int fallback)
      in max lo \<lfloor>candidate\<rfloor>)"

text \<open>The loop deletes the first key until the map fits.\<close>

function drop_oldest :: "int \<Rightarrow> ('k, 'v) jmap \<Rightarrow> ('k, 'v) jmap" where
  "drop_oldest limit m =
     (if int (length m) > limit then
        (case jm_keys m of [] \<Rightarrow> m | oldest # _ \<Rightarrow> drop_oldest limit (jm_delete oldest m))
      else m)"
  by auto

termination
proof (relation "measure (\<lambda>(_, m). length m)")
  fix limit m and oldest :: 'k and rest
  assume "jm_keys (m :: ('k, 'v) jmap) = oldest # rest"
  then have "oldest \<in> set (jm_keys m)" by simp
  from jm.size_delete_present [OF this]
  show "((limit, jm_delete oldest m), limit, m) \<in> measure (\<lambda>(_, m). length m)" by simp
qed simp

declare drop_oldest.simps [simp del]

definition pruneMapToMaxSize :: "('k, 'v) jmap \<Rightarrow> js_num \<Rightarrow> ('k, 'v) jmap" where
  "pruneMapToMaxSize m maxSize =
     (case maxSize of
        NaN \<Rightarrow> m
      | PosInf \<Rightarrow> m
      | NegInf \<Rightarrow> []
      | Fin r \<Rightarrow> (let limit = max 0 \<lfloor>r\<rfloor> in if limit \<le> 0 then [] else drop_oldest limit m))"

abbreviation prune_to :: "int \<Rightarrow> ('k, 'v) jmap \<Rightarrow> ('k, 'v) jmap" where
  "prune_to n m \<equiv> pruneMapToMaxSize m (Fin (of_int n))"

text \<open>Delete-then-set: the key becomes the newest.\<close>

definition touch :: "'k \<Rightarrow> 'v \<Rightarrow> ('k, 'v) jmap \<Rightarrow> ('k, 'v) jmap" where
  "touch key v m = jm_put key v (jm_delete key m)"

subsection \<open>The fixed-window rate limiter\<close>

record fw_state =
  fw_count :: int
  fw_windowStartMs :: int

record rate_limiter =
  rl_windowMs :: int
  rl_maxRequests :: int
  rl_maxTrackedKeys :: int
  rl_pruneIntervalMs :: int
  rl_state :: "(string, fw_state) jmap"
  rl_lastPruneMs :: int

definition createFixedWindowRateLimiter ::
    "js_num \<Rightarrow> js_num \<Rightarrow> js_num \<Rightarrow> js_num option \<Rightarrow> rate_limiter" where
  "createFixedWindowRateLimiter windowMs0 maxRequests maxTrackedKeys pruneIntervalMs =
     (let windowMs = resolveWebhookIntegerOption (Some windowMs0) 60000 1 in
      \<lparr>rl_windowMs = windowMs,
       rl_maxRequests = resolveWebhookIntegerOption (Some maxRequests) 120 1,
       rl_maxTrackedKeys = resolveWebhookIntegerOption (Some maxTrackedKeys) 4096 1,
       rl_pruneIntervalMs = resolveWebhookIntegerOption pruneIntervalMs windowMs 1,
       rl_state = [], rl_lastPruneMs = 0\<rparr>)"

definition fw_expired :: "rate_limiter \<Rightarrow> int \<Rightarrow> fw_state \<Rightarrow> bool" where
  "fw_expired rl nowMs e \<longleftrightarrow> nowMs - fw_windowStartMs e \<ge> rl_windowMs rl"

definition rl_prune :: "rate_limiter \<Rightarrow> int \<Rightarrow> rate_limiter" where
  "rl_prune rl nowMs = rl\<lparr>rl_state := jm_sweep (\<lambda>_ e. fw_expired rl nowMs e) (rl_state rl)\<rparr>"

definition isRateLimited :: "rate_limiter \<Rightarrow> string \<Rightarrow> int \<Rightarrow> rate_limiter \<times> bool" where
  "isRateLimited rl0 key nowMs =
     (if key = [] then (rl0, False)
      else
       (let rl = (if nowMs - rl_lastPruneMs rl0 \<ge> rl_pruneIntervalMs rl0
                  then (rl_prune rl0 nowMs)\<lparr>rl_lastPruneMs := nowMs\<rparr> else rl0);
            fresh = (rl\<lparr>rl_state := prune_to (rl_maxTrackedKeys rl)
                       (touch key \<lparr>fw_count = 1, fw_windowStartMs = nowMs\<rparr> (rl_state rl))\<rparr>, False)
        in case jm_get (rl_state rl) key of
             None \<Rightarrow> fresh
           | Some existing \<Rightarrow>
               (if fw_expired rl nowMs existing then fresh
                else
                 (let nextCount = fw_count existing + 1
                  in (rl\<lparr>rl_state := prune_to (rl_maxTrackedKeys rl)
                        (touch key \<lparr>fw_count = nextCount,
                           fw_windowStartMs = fw_windowStartMs existing\<rparr> (rl_state rl))\<rparr>,
                      nextCount > rl_maxRequests rl)))))"

definition rl_size :: "rate_limiter \<Rightarrow> int" where
  "rl_size rl = int (length (rl_state rl))"

definition rl_clear :: "rate_limiter \<Rightarrow> rate_limiter" where
  "rl_clear rl = rl\<lparr>rl_state := [], rl_lastPruneMs := 0\<rparr>"

subsection \<open>The bounded counter\<close>

record counter_state =
  cs_count :: int
  cs_updatedAtMs :: int

record bounded_counter =
  bc_maxTrackedKeys :: int
  bc_ttlMs :: int
  bc_pruneIntervalMs :: int
  bc_counters :: "(string, counter_state) jmap"
  bc_lastPruneMs :: int

definition createBoundedCounter :: "js_num \<Rightarrow> js_num option \<Rightarrow> js_num option \<Rightarrow> bounded_counter" where
  "createBoundedCounter maxTrackedKeys ttlMs0 pruneIntervalMs =
     (let ttlMs = resolveWebhookIntegerOption ttlMs0 0 0 in
      \<lparr>bc_maxTrackedKeys = resolveWebhookIntegerOption (Some maxTrackedKeys) 4096 1,
       bc_ttlMs = ttlMs,
       bc_pruneIntervalMs = resolveWebhookIntegerOption pruneIntervalMs
         (if ttlMs > 0 then ttlMs else 60000) 1,
       bc_counters = [], bc_lastPruneMs = 0\<rparr>)"

definition cs_expired :: "bounded_counter \<Rightarrow> int \<Rightarrow> counter_state \<Rightarrow> bool" where
  "cs_expired bc nowMs e \<longleftrightarrow> bc_ttlMs bc > 0 \<and> nowMs - cs_updatedAtMs e \<ge> bc_ttlMs bc"

definition bc_prune :: "bounded_counter \<Rightarrow> int \<Rightarrow> bounded_counter" where
  "bc_prune bc nowMs =
     (if bc_ttlMs bc > 0
      then bc\<lparr>bc_counters := jm_sweep (\<lambda>_ e. cs_expired bc nowMs e) (bc_counters bc)\<rparr> else bc)"

definition bc_increment :: "bounded_counter \<Rightarrow> string \<Rightarrow> int \<Rightarrow> bounded_counter \<times> int" where
  "bc_increment bc0 key nowMs =
     (if key = [] then (bc0, 0)
      else
       (let bc = (if nowMs - bc_lastPruneMs bc0 \<ge> bc_pruneIntervalMs bc0
                  then (bc_prune bc0 nowMs)\<lparr>bc_lastPruneMs := nowMs\<rparr> else bc0);
            baseCount = (case jm_get (bc_counters bc) key of
              None \<Rightarrow> 0
            | Some existing \<Rightarrow> if cs_expired bc nowMs existing then 0 else cs_count existing);
            nextCount = baseCount + 1
        in (bc\<lparr>bc_counters := prune_to (bc_maxTrackedKeys bc)
              (touch key \<lparr>cs_count = nextCount, cs_updatedAtMs = nowMs\<rparr> (bc_counters bc))\<rparr>,
            nextCount)))"

definition bc_clear :: "bounded_counter \<Rightarrow> bounded_counter" where
  "bc_clear bc = bc\<lparr>bc_counters := [], bc_lastPruneMs := 0\<rparr>"

subsection \<open>The anomaly tracker\<close>

record anomaly_tracker =
  at_logEvery :: int
  at_trackedStatusCodes :: "int list"
  at_counter :: bounded_counter

definition WEBHOOK_ANOMALY_STATUS_CODES :: "int list" where
  "WEBHOOK_ANOMALY_STATUS_CODES = [400, 401, 408, 413, 415, 429]"

definition createWebhookAnomalyTracker ::
    "js_num option \<Rightarrow> js_num option \<Rightarrow> js_num option \<Rightarrow> int list option \<Rightarrow> anomaly_tracker" where
  "createWebhookAnomalyTracker maxTrackedKeys0 ttlMs0 logEvery trackedStatusCodes =
     (let maxTrackedKeys = resolveWebhookIntegerOption maxTrackedKeys0 4096 1;
          ttlMs = resolveWebhookIntegerOption ttlMs0 (6 * 60 * 60000) 0
      in \<lparr>at_logEvery = resolveWebhookIntegerOption logEvery 25 1,
          at_trackedStatusCodes = (case trackedStatusCodes of
            Some cs \<Rightarrow> cs | None \<Rightarrow> WEBHOOK_ANOMALY_STATUS_CODES),
          at_counter = createBoundedCounter (Fin (of_int maxTrackedKeys)) (Some (Fin (of_int ttlMs)))
            None\<rparr>)"

text \<open>The last component is the argument of the message to log, when one is logged.\<close>

definition at_record ::
    "anomaly_tracker \<Rightarrow> string \<Rightarrow> int \<Rightarrow> bool \<Rightarrow> int \<Rightarrow> anomaly_tracker \<times> int \<times> int option" where
  "at_record tr key statusCode hasLog nowMs =
     (if statusCode \<notin> set (at_trackedStatusCodes tr) then (tr, 0, None)
      else
       (let (counter, n) = bc_increment (at_counter tr) key nowMs
        in (tr\<lparr>at_counter := counter\<rparr>, n,
            if hasLog \<and> (n = 1 \<or> n mod at_logEvery tr = 0) then Some n else None)))"

definition at_clear :: "anomaly_tracker \<Rightarrow> anomaly_tracker" where
  "at_clear tr = tr\<lparr>at_counter := bc_clear (at_counter tr)\<rparr>"

end
