(* ===== verification/Webhook_Facts.thy ===== *)
theory Webhook_Facts
  imports Webhook_Guards
begin

section \<open>Webhook guards: bounded memory, exact windows\<close>

text \<open>
  The maps of the guards never outgrow their cap; as long as the keys in use fit it, the rate limiter
  answers like a limiter with unbounded memory that never prunes; and within one window a key gets
  exactly its allowance.
\<close>

subsection \<open>Pruning\<close>

lemma jm_delete_first: "distinct (jm_keys (e # m)) \<Longrightarrow> jm_delete (fst e) (e # m) = m"
  by (cases e) (force simp: jm_delete_def jm_keys_def filter_id_conv)

lemma drop_oldest_drop:
  assumes "distinct (jm_keys m)" "0 \<le> limit"
  shows "drop_oldest limit m = drop (length m - nat limit) m"
  using assms
proof (induction m)
  case Nil
  then show ?case by (simp add: drop_oldest.simps)
next
  case (Cons e m)
  show ?case
  proof (cases "int (length (e # m)) > limit")
    case False
    then show ?thesis by (simp add: drop_oldest.simps)
  next
    case True
    have "drop_oldest limit (e # m) = drop_oldest limit (jm_delete (fst e) (e # m))"
      using True by (subst drop_oldest.simps) (simp add: jm_keys_def)
    also have "\<dots> = drop (length m - nat limit) m"
      using Cons by (simp add: jm_delete_first) (simp add: jm_keys_def)
    also have "\<dots> = drop (length (e # m) - nat limit) (e # m)"
      using True Cons.prems(2) by (simp add: Suc_diff_le nat_le_iff)
    finally show ?thesis .
  qed
qed

lemma prune_to_drop:
  assumes "distinct (jm_keys m)" "1 \<le> n"
  shows "prune_to n m = drop (length m - nat n) m"
  using assms by (simp add: pruneMapToMaxSize_def drop_oldest_drop)

text \<open>
  Pruning a map to a size returns, for every map with distinct keys: its newest entries, as many
  as the rounded-down size allows, in order; an unknown or infinite size changes nothing.
\<close>

theorem prune_keeps_newest:
  assumes "distinct (jm_keys m)"
  shows "pruneMapToMaxSize m maxSize =
    (case maxSize of NaN \<Rightarrow> m | PosInf \<Rightarrow> m | NegInf \<Rightarrow> []
     | Fin r \<Rightarrow> drop (length m - nat \<lfloor>r\<rfloor>) m)"
  using assms by (auto simp: pruneMapToMaxSize_def drop_oldest_drop Let_def max_def split: js_num.split)

theorem prune_keeps_newest_witness:
  "pruneMapToMaxSize [(''a'', 1 :: nat), (''b'', 2), (''c'', 3)] (Fin (5 / 2)) = [(''b'', 2), (''c'', 3)]"
proof -
  have "\<lfloor>5 / 2 :: rat\<rfloor> = 2" by (simp add: floor_eq_iff)
  then show ?thesis by (subst prune_keeps_newest) (simp_all add: jm_keys_def)
qed

lemma touch_distinct: "distinct (jm_keys m) \<Longrightarrow> distinct (jm_keys (touch k v m))"
  by (simp add: touch_def jm.distinct_touch)

lemma touch_get: "jm_get (touch k v m) j = (if j = k then Some v else jm_get m j)"
  by (simp add: touch_def jm.get_touch)

lemma touch_keys: "jm_keys (touch k v m) = removeAll k (jm_keys m) @ [k]"
  by (simp add: touch_def jm.keys_touch)

lemma jm_keys_drop: "jm_keys (drop n m) = drop n (jm_keys m)"
  by (simp add: jm_keys_def drop_map)

lemma prune_touch:
  assumes "distinct (jm_keys m)" "1 \<le> n"
  shows "distinct (jm_keys (prune_to n (touch k v m)))"
    "int (length (prune_to n (touch k v m))) \<le> n"
    "set (jm_keys (prune_to n (touch k v m))) \<subseteq> insert k (set (jm_keys m))"
proof -
  note drop = prune_to_drop [OF touch_distinct [OF assms(1)] assms(2), of k v]
  show "distinct (jm_keys (prune_to n (touch k v m)))"
    using touch_distinct [OF assms(1)] by (simp add: drop jm_keys_drop distinct_drop)
  show "int (length (prune_to n (touch k v m))) \<le> n"
    using assms(2) by (simp add: drop)
  have "set (jm_keys (prune_to n (touch k v m))) \<subseteq> set (jm_keys (touch k v m))"
    by (simp add: drop jm_keys_drop set_drop_subset)
  then show "set (jm_keys (prune_to n (touch k v m))) \<subseteq> insert k (set (jm_keys m))"
    by (auto simp: touch_keys)
qed

text \<open>Nothing is evicted while the keys fit.\<close>

lemma prune_fits:
  assumes "distinct (jm_keys m)" "1 \<le> n" "int (length m) \<le> n"
  shows "prune_to n m = m"
proof -
  have "length m - nat n = 0" using assms(2,3) by simp
  with prune_to_drop [OF assms(1,2)] show ?thesis by simp
qed

subsection \<open>Bounded memory\<close>

text \<open>The calls of a guard: \<open>Call key now\<close> or a reset.\<close>

datatype guard_call = Call string int | Reset

fun rl_run :: "rate_limiter \<Rightarrow> guard_call list \<Rightarrow> rate_limiter" where
  "rl_run rl [] = rl"
| "rl_run rl (Call key now # cs) = rl_run (fst (isRateLimited rl key now)) cs"
| "rl_run rl (Reset # cs) = rl_run (rl_clear rl) cs"

fun bc_run :: "bounded_counter \<Rightarrow> guard_call list \<Rightarrow> bounded_counter" where
  "bc_run bc [] = bc"
| "bc_run bc (Call key now # cs) = bc_run (fst (bc_increment bc key now)) cs"
| "bc_run bc (Reset # cs) = bc_run (bc_clear bc) cs"

definition rl_ok :: "rate_limiter \<Rightarrow> bool" where
  "rl_ok rl \<longleftrightarrow> distinct (jm_keys (rl_state rl)) \<and> int (length (rl_state rl)) \<le> rl_maxTrackedKeys rl
     \<and> 1 \<le> rl_maxTrackedKeys rl"

definition bc_ok :: "bounded_counter \<Rightarrow> bool" where
  "bc_ok bc \<longleftrightarrow> distinct (jm_keys (bc_counters bc))
     \<and> int (length (bc_counters bc)) \<le> bc_maxTrackedKeys bc \<and> 1 \<le> bc_maxTrackedKeys bc"

lemma option_at_least: "lo \<le> resolveWebhookIntegerOption v f lo"
  by (simp add: resolveWebhookIntegerOption_def Let_def)

lemma rl_ok_create: "rl_ok (createFixedWindowRateLimiter w m k p)"
  using option_at_least [of 1 "Some k" 4096]
  by (simp add: createFixedWindowRateLimiter_def rl_ok_def Let_def jm_keys_def)

lemma bc_ok_create: "bc_ok (createBoundedCounter k t p)"
  using option_at_least [of 1 "Some k" 4096]
  by (simp add: createBoundedCounter_def bc_ok_def Let_def jm_keys_def)

definition rl_swept :: "rate_limiter \<Rightarrow> int \<Rightarrow> rate_limiter" where
  "rl_swept rl nowMs = (if nowMs - rl_lastPruneMs rl \<ge> rl_pruneIntervalMs rl
     then (rl_prune rl nowMs)\<lparr>rl_lastPruneMs := nowMs\<rparr> else rl)"

lemma rl_swept_sel [simp]:
  "rl_maxTrackedKeys (rl_swept rl now) = rl_maxTrackedKeys rl"
  "rl_windowMs (rl_swept rl now) = rl_windowMs rl" "rl_maxRequests (rl_swept rl now) = rl_maxRequests rl"
  "fw_expired (rl_swept rl now) = fw_expired rl"
  by (auto simp: rl_swept_def rl_prune_def fw_expired_def fun_eq_iff)

lemma rl_swept_state: "rl_state (rl_swept rl now) = rl_state rl
    \<or> rl_state (rl_swept rl now) = jm_sweep (\<lambda>_ e. fw_expired rl now e) (rl_state rl)"
  by (simp add: rl_swept_def rl_prune_def)

lemma rl_swept_ok: "rl_ok rl \<Longrightarrow> rl_ok (rl_swept rl now)"
  using rl_swept_state [of rl now] length_jm_sweep [of "\<lambda>_ e. fw_expired rl now e" "rl_state rl"]
  by (auto simp: rl_ok_def distinct_jm_sweep)

text \<open>The entry a call leaves for its key, and its answer.\<close>

definition rl_next :: "rate_limiter \<Rightarrow> string \<Rightarrow> int \<Rightarrow> fw_state \<times> bool" where
  "rl_next rl key now =
     (case jm_get (rl_state rl) key of
        None \<Rightarrow> (\<lparr>fw_count = 1, fw_windowStartMs = now\<rparr>, False)
      | Some e \<Rightarrow>
          (if fw_expired rl now e then (\<lparr>fw_count = 1, fw_windowStartMs = now\<rparr>, False)
           else (\<lparr>fw_count = fw_count e + 1, fw_windowStartMs = fw_windowStartMs e\<rparr>,
                 fw_count e + 1 > rl_maxRequests rl)))"

lemma isRateLimited_alt:
  "isRateLimited rl key now =
     (if key = [] then (rl, False)
      else
       (let s = rl_swept rl now
        in (s\<lparr>rl_state := prune_to (rl_maxTrackedKeys s) (touch key (fst (rl_next s key now)) (rl_state s))\<rparr>,
            snd (rl_next s key now))))"
  by (simp add: isRateLimited_def rl_next_def rl_swept_def [symmetric] Let_def split: option.split)

lemma isRateLimited_ok: "rl_ok rl \<Longrightarrow> rl_ok (fst (isRateLimited rl key now))"
  using rl_swept_ok [of rl now] by (simp add: isRateLimited_alt Let_def rl_ok_def prune_touch)

lemma rl_run_ok: "rl_ok rl \<Longrightarrow> rl_ok (rl_run rl cs)"
proof (induction rl cs rule: rl_run.induct)
  case (3 rl cs)
  then show ?case by (auto simp: rl_ok_def rl_clear_def jm_keys_def)
qed (auto simp: isRateLimited_ok)

lemma bc_increment_ok:
  assumes "bc_ok bc"
  shows "bc_ok (fst (bc_increment bc key now))"
proof -
  define s where "s = (if now - bc_lastPruneMs bc \<ge> bc_pruneIntervalMs bc
    then (bc_prune bc now)\<lparr>bc_lastPruneMs := now\<rparr> else bc)"
  have "bc_ok s" "bc_maxTrackedKeys s = bc_maxTrackedKeys bc"
    using assms length_jm_sweep [of "\<lambda>_ e. cs_expired bc now e" "bc_counters bc"]
    by (auto simp: s_def bc_prune_def bc_ok_def distinct_jm_sweep)
  then show ?thesis
    using assms by (simp add: bc_increment_def s_def [symmetric] Let_def bc_ok_def prune_touch)
qed

lemma bc_run_ok: "bc_ok bc \<Longrightarrow> bc_ok (bc_run bc cs)"
proof (induction bc cs rule: bc_run.induct)
  case (3 bc cs)
  then show ?case by (auto simp: bc_ok_def bc_clear_def jm_keys_def)
qed (auto simp: bc_increment_ok)

lemma rl_run_cap: "rl_maxTrackedKeys (rl_run rl cs) = rl_maxTrackedKeys rl"
  by (induction rl cs rule: rl_run.induct) (simp_all add: isRateLimited_alt rl_clear_def Let_def)

lemma bc_run_cap: "bc_maxTrackedKeys (bc_run bc cs) = bc_maxTrackedKeys bc"
  by (induction bc cs rule: bc_run.induct) (simp_all add: bc_increment_def bc_prune_def bc_clear_def Let_def)

text \<open>
  Whatever options a rate limiter and a bounded counter are created with and whatever calls,
  clock readings and resets follow, they never track more keys than the resolved cap, at least one
  and one entry per key.
\<close>

theorem guards_stay_bounded:
  "rl_size (rl_run (createFixedWindowRateLimiter w m k p) cs) \<le> resolveWebhookIntegerOption (Some k) 4096 1
   \<and> distinct (jm_keys (rl_state (rl_run (createFixedWindowRateLimiter w m k p) cs)))
   \<and> int (length (bc_counters (bc_run (createBoundedCounter k t p) cs)))
       \<le> resolveWebhookIntegerOption (Some k) 4096 1
   \<and> distinct (jm_keys (bc_counters (bc_run (createBoundedCounter k t p) cs)))"
proof -
  have "rl_ok (rl_run (createFixedWindowRateLimiter w m k p) cs)"
    "bc_ok (bc_run (createBoundedCounter k t p) cs)"
    by (simp_all add: rl_run_ok bc_run_ok rl_ok_create bc_ok_create)
  then show ?thesis
    by (simp add: rl_ok_def bc_ok_def rl_size_def rl_run_cap bc_run_cap
        createFixedWindowRateLimiter_def createBoundedCounter_def Let_def)
qed

subsection \<open>The limiter against an unbounded one\<close>

text \<open>A limiter with a total map for a state, no pruning and no cap.\<close>

definition ref_next :: "int \<Rightarrow> int \<Rightarrow> fw_state option \<Rightarrow> int \<Rightarrow> fw_state \<times> bool" where
  "ref_next windowMs maxRequests e0 now =
     (case e0 of
        None \<Rightarrow> (\<lparr>fw_count = 1, fw_windowStartMs = now\<rparr>, False)
      | Some e \<Rightarrow>
          (if now - fw_windowStartMs e \<ge> windowMs then (\<lparr>fw_count = 1, fw_windowStartMs = now\<rparr>, False)
           else (\<lparr>fw_count = fw_count e + 1, fw_windowStartMs = fw_windowStartMs e\<rparr>,
                 fw_count e + 1 > maxRequests)))"

fun ref_answers :: "int \<Rightarrow> int \<Rightarrow> (string \<Rightarrow> fw_state option) \<Rightarrow> (string \<times> int) list \<Rightarrow> bool list" where
  "ref_answers w m st [] = []"
| "ref_answers w m st ((key, now) # cs) =
     (if key = [] then False # ref_answers w m st cs
      else snd (ref_next w m (st key) now)
        # ref_answers w m (st(key \<mapsto> fst (ref_next w m (st key) now))) cs)"

fun rl_answers :: "rate_limiter \<Rightarrow> (string \<times> int) list \<Rightarrow> bool list" where
  "rl_answers rl [] = []"
| "rl_answers rl ((key, now) # cs) =
     snd (isRateLimited rl key now) # rl_answers (fst (isRateLimited rl key now)) cs"

text \<open>The limiter holds what the reference holds, but may have dropped expired entries.\<close>

definition sim_at :: "int \<Rightarrow> fw_state option \<Rightarrow> fw_state option \<Rightarrow> int \<Rightarrow> bool" where
  "sim_at w mine theirs now \<longleftrightarrow> mine = theirs
     \<or> mine = None \<and> (\<exists>e. theirs = Some e \<and> now - fw_windowStartMs e \<ge> w)"

definition sim :: "string set \<Rightarrow> rate_limiter \<Rightarrow> (string \<Rightarrow> fw_state option) \<Rightarrow> int \<Rightarrow> bool" where
  "sim K rl st now \<longleftrightarrow> rl_ok rl \<and> finite K \<and> int (card K) \<le> rl_maxTrackedKeys rl
     \<and> set (jm_keys (rl_state rl)) \<subseteq> K
     \<and> (\<forall>k. sim_at (rl_windowMs rl) (jm_get (rl_state rl) k) (st k) now)"

lemma sim_later: "sim K rl st now \<Longrightarrow> now \<le> now' \<Longrightarrow> sim K rl st now'"
  unfolding sim_def sim_at_def by force

lemma sim_swept:
  assumes "sim K rl st now"
  shows "sim K (rl_swept rl now) st now"
proof -
  have d: "distinct (jm_keys (rl_state rl))" using assms by (simp add: sim_def rl_ok_def)
  have "sim_at (rl_windowMs rl) (jm_get (jm_sweep (\<lambda>_ e. fw_expired rl now e) (rl_state rl)) k) (st k) now"
    for k
  proof -
    have "sim_at (rl_windowMs rl) (jm_get (rl_state rl) k) (st k) now"
      using assms by (simp add: sim_def)
    then show ?thesis
      by (auto simp: sim_at_def jm_get_sweep [OF d] fw_expired_def split: option.split)
  qed
  moreover have "set (jm_keys (jm_sweep (\<lambda>_ e. fw_expired rl now e) (rl_state rl))) \<subseteq> K"
    using assms jm_keys_sweep_subset [of "\<lambda>_ e. fw_expired rl now e" "rl_state rl"]
    by (auto simp: sim_def)
  ultimately show ?thesis
    using assms rl_swept_state [of rl now] rl_swept_ok [of rl now] by (auto simp: sim_def)
qed

lemma sim_next:
  assumes "sim K rl st now"
  shows "rl_next rl key now = ref_next (rl_windowMs rl) (rl_maxRequests rl) (st key) now"
proof -
  have "sim_at (rl_windowMs rl) (jm_get (rl_state rl) key) (st key) now"
    using assms by (simp add: sim_def)
  then show ?thesis
    by (auto simp: sim_at_def rl_next_def ref_next_def fw_expired_def split: option.split)
qed

lemma sim_touch:
  assumes "sim K rl st now" "key \<in> K"
  shows "sim K (rl\<lparr>rl_state := prune_to (rl_maxTrackedKeys rl) (touch key e (rl_state rl))\<rparr>)
    (st(key \<mapsto> e)) now"
proof -
  let ?m = "touch key e (rl_state rl)"
  have ok: "rl_ok rl" using assms(1) by (simp add: sim_def)
  then have d: "distinct (jm_keys ?m)" by (simp add: rl_ok_def touch_distinct)
  have sub: "set (jm_keys ?m) \<subseteq> K"
    using assms by (auto simp: sim_def touch_keys)
  have "length ?m = card (set (jm_keys ?m))"
    using distinct_card [OF d] by simp
  also have "\<dots> \<le> card K"
    using sub assms(1) by (intro card_mono) (auto simp: sim_def)
  finally have fits: "int (length ?m) \<le> rl_maxTrackedKeys rl"
    using assms(1) by (simp add: sim_def)
  then have "prune_to (rl_maxTrackedKeys rl) ?m = ?m"
    using d ok by (intro prune_fits) (auto simp: rl_ok_def)
  with assms(1) d fits sub show ?thesis
    by (auto simp: sim_def rl_ok_def touch_get sim_at_def)
qed

lemma sim_answers:
  assumes "sim K rl st now0" "sorted (now0 # map snd cs)" "set (map fst cs) - {[]} \<subseteq> K"
  shows "rl_answers rl cs = ref_answers (rl_windowMs rl) (rl_maxRequests rl) st cs"
  using assms
proof (induction cs arbitrary: rl st now0)
  case (Cons c cs)
  obtain key now where c: "c = (key, now)" by (cases c)
  have s0: "sim K rl st now"
    by (rule sim_later [OF Cons.prems(1)]) (use Cons.prems(2) c in simp)
  show ?case
  proof (cases "key = []")
    case True
    with Cons.IH [OF s0] Cons.prems c show ?thesis by (simp add: isRateLimited_alt)
  next
    case False
    let ?s = "rl_swept rl now"
    have s: "sim K ?s st now" by (rule sim_swept [OF s0])
    note nx = sim_next [OF s, of key]
    have "key \<in> K" using False Cons.prems(3) c by auto
    then have "sim K (fst (isRateLimited rl key now))
        (st(key \<mapsto> fst (ref_next (rl_windowMs rl) (rl_maxRequests rl) (st key) now))) now"
      using sim_touch [OF s, of key "fst (rl_next ?s key now)"] False nx
      by (simp add: isRateLimited_alt Let_def)
    moreover have "sorted (now # map snd cs)" "set (map fst cs) - {[]} \<subseteq> K"
      using Cons.prems(2,3) c by auto
    ultimately have "rl_answers (fst (isRateLimited rl key now)) cs
        = ref_answers (rl_windowMs (fst (isRateLimited rl key now)))
            (rl_maxRequests (fst (isRateLimited rl key now)))
            (st(key \<mapsto> fst (ref_next (rl_windowMs rl) (rl_maxRequests rl) (st key) now))) cs"
      by (rule Cons.IH)
    with c False nx show ?thesis
      by (simp add: isRateLimited_alt Let_def)
  qed
qed simp

lemma sim_create:
  "finite K \<Longrightarrow> int (card K) \<le> resolveWebhookIntegerOption (Some k) 4096 1 \<Longrightarrow>
     sim K (createFixedWindowRateLimiter w m k p) (\<lambda>_. None) now"
  using rl_ok_create [of w m k p]
  by (simp add: sim_def createFixedWindowRateLimiter_def Let_def jm_keys_def sim_at_def)

text \<open>
  C38: While the keys of the requests fit the cap and the clock does not go back, the rate limiter
  answers exactly like one that remembers every key forever: neither the expiry sweeps nor the
  eviction of old keys ever shows.
\<close>

theorem limiter_equals_unbounded:
  assumes "sorted (map snd cs)"
    and "int (card (set (map fst cs) - {[]})) \<le> resolveWebhookIntegerOption (Some k) 4096 1"
  shows "rl_answers (createFixedWindowRateLimiter w m k p) cs
    = ref_answers (resolveWebhookIntegerOption (Some w) 60000 1)
        (resolveWebhookIntegerOption (Some m) 120 1) (\<lambda>_. None) cs"
proof (cases cs)
  case (Cons c rest)
  have "sim (set (map fst cs) - {[]}) (createFixedWindowRateLimiter w m k p) (\<lambda>_. None) (snd c)"
    using assms(2) by (intro sim_create) auto
  from sim_answers [OF this, of cs] assms(1) Cons show ?thesis
    by (simp add: createFixedWindowRateLimiter_def Let_def)
qed simp

theorem limiter_equals_unbounded_witness:
  "rl_answers (createFixedWindowRateLimiter (Fin 10) (Fin 1) (Fin 2) None)
     [(''a'', 1), (''b'', 2), (''a'', 3), (''a'', 12)]
   = ref_answers (resolveWebhookIntegerOption (Some (Fin 10)) 60000 1)
       (resolveWebhookIntegerOption (Some (Fin 1)) 120 1) (\<lambda>_. None)
       [(''a'', 1), (''b'', 2), (''a'', 3), (''a'', 12)]"
  by (rule limiter_equals_unbounded) (simp_all add: resolveWebhookIntegerOption_def card_insert_if)

text \<open>The reference within one window, from a window that has seen \<open>n\<close> requests.\<close>

lemma ref_window:
  assumes "st key = Some \<lparr>fw_count = n, fw_windowStartMs = t0\<rparr>" "key \<noteq> []"
    and "list_all (\<lambda>t. t < t0 + w) ts"
  shows "ref_answers w m st (map (Pair key) ts) = map (\<lambda>i. n + 1 + int i > m) [0..<length ts]"
  using assms
proof (induction ts arbitrary: st n)
  case (Cons t ts)
  have step: "ref_next w m (st key) t = (\<lparr>fw_count = n + 1, fw_windowStartMs = t0\<rparr>, n + 1 > m)"
    using Cons.prems by (simp add: ref_next_def)
  have "ref_answers w m (st(key \<mapsto> \<lparr>fw_count = n + 1, fw_windowStartMs = t0\<rparr>)) (map (Pair key) ts)
      = map (\<lambda>i. n + 1 + 1 + int i > m) [0..<length ts]"
    using Cons.prems by (intro Cons.IH) auto
  moreover have "map (\<lambda>i. n + 1 + int i > m) [0..<length (t # ts)]
      = (n + 1 > m) # map (\<lambda>i. n + 1 + 1 + int i > m) [0..<length ts]"
    by (simp add: upt_conv_Cons map_Suc_upt [symmetric] add.commute add.left_commute del: upt_Suc)
  ultimately show ?case
    using Cons.prems(2) by (simp only: list.map ref_answers.simps step fst_conv snd_conv if_False)
qed simp

text \<open>
  Within one window a key gets exactly its allowance: of the requests in the window that the
  first one opens, the first \<open>maxRequests\<close> pass and every later one is limited.
\<close>

theorem window_allowance:
  assumes "key \<noteq> []" "sorted (t0 # ts)" "list_all (\<lambda>t. t < t0 + resolveWebhookIntegerOption (Some w) 60000 1) ts"
  shows "rl_answers (createFixedWindowRateLimiter w m k p) (map (Pair key) (t0 # ts))
    = map (\<lambda>i. int i \<ge> resolveWebhookIntegerOption (Some m) 120 1) [0..<length (t0 # ts)]"
proof -
  let ?w = "resolveWebhookIntegerOption (Some w) 60000 1"
  let ?m = "resolveWebhookIntegerOption (Some m) 120 1"
  have "sim {key} (createFixedWindowRateLimiter w m k p) (\<lambda>_. None) t0"
    using option_at_least [of 1 "Some k" 4096] by (intro sim_create) auto
  moreover have "set (map fst (map (Pair key) (t0 # ts))) - {[]} \<subseteq> {key}" by auto
  moreover have "sorted (t0 # map snd (map (Pair key) (t0 # ts)))"
    using assms(2) by (simp add: comp_def)
  ultimately have "rl_answers (createFixedWindowRateLimiter w m k p) (map (Pair key) (t0 # ts))
      = ref_answers (rl_windowMs (createFixedWindowRateLimiter w m k p))
          (rl_maxRequests (createFixedWindowRateLimiter w m k p)) (\<lambda>_. None) (map (Pair key) (t0 # ts))"
    by (metis sim_answers)
  then have "rl_answers (createFixedWindowRateLimiter w m k p) (map (Pair key) (t0 # ts))
      = ref_answers ?w ?m (\<lambda>_. None) (map (Pair key) (t0 # ts))"
    by (simp add: createFixedWindowRateLimiter_def Let_def)
  also have "\<dots> = False # map (\<lambda>i. 1 + 1 + int i > ?m) [0..<length ts]"
    using assms(1) ref_window [OF _ assms(1,3), of "[key \<mapsto> \<lparr>fw_count = 1, fw_windowStartMs = t0\<rparr>]" 1 ?m]
    by (simp add: ref_next_def)
  also have "\<dots> = map (\<lambda>i. int i \<ge> ?m) [0..<length (t0 # ts)]"
    using option_at_least [of 1 "Some m" 120]
    by (auto simp: upt_conv_Cons map_Suc_upt [symmetric] simp del: upt_Suc)
  finally show ?thesis .
qed

theorem window_allowance_witness:
  "rl_answers (createFixedWindowRateLimiter (Fin 10) (Fin 2) NaN None) (map (Pair ''a'') [5, 6, 14])
     = [False, False, True]"
  using window_allowance [of "''a''" 5 "[6, 14]" "Fin 10" "Fin 2" NaN None]
  by (simp add: resolveWebhookIntegerOption_def)

subsection \<open>The anomaly tracker\<close>

text \<open>
  An anomaly without a key is not counted, but the sampling test holds of the count zero that is
  returned for it: every such anomaly is logged, with a count of zero.
\<close>

theorem ignored_key_is_logged:
  "at_record (createWebhookAnomalyTracker None None None None) [] 401 True now
    = (createWebhookAnomalyTracker None None None None, 0, Some 0)"
  by (simp add: at_record_def createWebhookAnomalyTracker_def bc_increment_def
      WEBHOOK_ANOMALY_STATUS_CODES_def Let_def)

end
