(* ===== verification/Control_Plane_Limit.thy ===== *)
theory Control_Plane_Limit
  imports Js_Map
begin

section \<open>The write budget of control-plane clients\<close>

text \<open>
  \<^verbatim>\<open>src/gateway/control-plane-rate-limit.ts\<close> and
  \<^verbatim>\<open>control-plane-identity.ts\<close>: the module's bucket map is an explicit argument.
  Of a client the identity parts count: device id, address, connection id, each \<open>None\<close> when it is
  no string. The second part bounds the writes of a client and the size of the map.
\<close>

definition CONTROL_PLANE_RATE_LIMIT_MAX_REQUESTS :: int where
  "CONTROL_PLANE_RATE_LIMIT_MAX_REQUESTS = 30"

definition CONTROL_PLANE_RATE_LIMIT_WINDOW_MS :: int where
  "CONTROL_PLANE_RATE_LIMIT_WINDOW_MS = 60000"

definition CONTROL_PLANE_BUCKET_MAX_STALE_MS :: int where
  "CONTROL_PLANE_BUCKET_MAX_STALE_MS = 5 * 60000"

definition CONTROL_PLANE_BUCKET_MAX_ENTRIES :: nat where
  "CONTROL_PLANE_BUCKET_MAX_ENTRIES = 10000"

record bucket =
  bk_count :: int
  bk_windowStartMs :: int

type_synonym buckets = "(string, bucket) jmap"

record gw_client =
  gc_deviceId :: "string option"
  gc_clientIp :: "string option"
  gc_connId :: "string option"

definition normalizeControlPlaneIdentityPart :: "string option \<Rightarrow> string \<Rightarrow> string" where
  "normalizeControlPlaneIdentityPart v fallback =
     (case v of None \<Rightarrow> fallback
      | Some s \<Rightarrow> (let normalized = js_trim s in if length normalized > 0 then normalized else fallback))"

definition resolveControlPlaneRateLimitKey :: "gw_client option \<Rightarrow> string" where
  "resolveControlPlaneRateLimitKey client =
     (let deviceId = normalizeControlPlaneIdentityPart (Option.bind client gc_deviceId) ''unknown-device'';
          clientIp = normalizeControlPlaneIdentityPart (Option.bind client gc_clientIp) ''unknown-ip'';
          connId = normalizeControlPlaneIdentityPart (Option.bind client gc_connId) []
      in if deviceId = ''unknown-device'' \<and> clientIp = ''unknown-ip'' \<and> connId \<noteq> []
         then deviceId @ ''|'' @ clientIp @ ''|conn='' @ connId
         else deviceId @ ''|'' @ clientIp)"

record budget =
  bu_allowed :: bool
  bu_retryAfterMs :: int
  bu_remaining :: int
  bu_key :: string

text \<open>The hard cap: a new key first evicts the oldest bucket of a full map.\<close>

definition make_room :: "buckets \<Rightarrow> string \<Rightarrow> buckets" where
  "make_room m key =
     (if \<not> jm_has m key \<and> length m \<ge> CONTROL_PLANE_BUCKET_MAX_ENTRIES then
        (case jm_keys m of [] \<Rightarrow> m | oldest # _ \<Rightarrow> jm_delete oldest m)
      else m)"

definition consumeControlPlaneWriteBudget ::
    "buckets \<Rightarrow> gw_client option \<Rightarrow> string \<Rightarrow> int \<Rightarrow> buckets \<times> budget" where
  "consumeControlPlaneWriteBudget m client meth nowMs =
     (let key = meth @ ''|'' @ resolveControlPlaneRateLimitKey client;
          fresh = (jm_put key \<lparr>bk_count = 1, bk_windowStartMs = nowMs\<rparr> (make_room m key),
                   \<lparr>bu_allowed = True, bu_retryAfterMs = 0,
                    bu_remaining = CONTROL_PLANE_RATE_LIMIT_MAX_REQUESTS - 1, bu_key = key\<rparr>)
      in case jm_get m key of
           None \<Rightarrow> fresh
         | Some bucket \<Rightarrow>
             (if nowMs - bk_windowStartMs bucket \<ge> CONTROL_PLANE_RATE_LIMIT_WINDOW_MS then fresh
              else if bk_count bucket \<ge> CONTROL_PLANE_RATE_LIMIT_MAX_REQUESTS then
                (m, \<lparr>bu_allowed = False,
                     bu_retryAfterMs = max 0
                       (bk_windowStartMs bucket + CONTROL_PLANE_RATE_LIMIT_WINDOW_MS - nowMs),
                     bu_remaining = 0, bu_key = key\<rparr>)
              else
                (let count = bk_count bucket + 1
                 in (jm_put key (bucket\<lparr>bk_count := count\<rparr>) m,
                     \<lparr>bu_allowed = True, bu_retryAfterMs = 0,
                      bu_remaining = max 0 (CONTROL_PLANE_RATE_LIMIT_MAX_REQUESTS - count),
                      bu_key = key\<rparr>))))"

text \<open>The sweep of the maintenance timer, with the number of buckets it drops.\<close>

definition pruneStaleControlPlaneBuckets :: "buckets \<Rightarrow> int \<Rightarrow> buckets \<times> int" where
  "pruneStaleControlPlaneBuckets m nowMs =
     (let stale = (\<lambda>b. nowMs - bk_windowStartMs b > CONTROL_PLANE_BUCKET_MAX_STALE_MS)
      in (jm_sweep (\<lambda>_ b. stale b) m, int (length (filter (\<lambda>(_, b). stale b) m))))"


section \<open>The write budget is bounded\<close>

text \<open>
  Invariants of the bucket map over any sequence of budget requests and maintenance sweeps, with
  any clock readings.
\<close>

datatype budget_call = Consume "gw_client option" string int | Sweep int

fun budget_run :: "buckets \<Rightarrow> budget_call list \<Rightarrow> buckets" where
  "budget_run m [] = m"
| "budget_run m (Consume client meth now # cs) =
     budget_run (fst (consumeControlPlaneWriteBudget m client meth now)) cs"
| "budget_run m (Sweep now # cs) = budget_run (fst (pruneStaleControlPlaneBuckets m now)) cs"

definition count_ok :: "bucket \<Rightarrow> bool" where
  "count_ok b \<longleftrightarrow> 1 \<le> bk_count b \<and> bk_count b \<le> CONTROL_PLANE_RATE_LIMIT_MAX_REQUESTS"

definition buckets_ok :: "buckets \<Rightarrow> bool" where
  "buckets_ok m \<longleftrightarrow> distinct (jm_keys m) \<and> length m \<le> CONTROL_PLANE_BUCKET_MAX_ENTRIES
     \<and> list_all (\<lambda>(_, b). count_ok b) m"

lemma jm_put_vals: "list_all (\<lambda>(_, b). P b) m \<Longrightarrow> P v \<Longrightarrow> list_all (\<lambda>(_, b). P b) (jm_put k v m)"
  by (induction k v m rule: jm_put.induct) auto

lemma jm_delete_vals: "list_all (\<lambda>(_, b). P b) m \<Longrightarrow> list_all (\<lambda>(_, b). P b) (jm_delete k m)"
  by (auto simp: jm_delete_def list_all_iff)

lemma jm_get_vals: "list_all (\<lambda>(_, b). P b) m \<Longrightarrow> jm_get m k = Some v \<Longrightarrow> P v"
  by (auto simp: list_all_iff dest: jm_get_in)

lemma jm_put_length: "length (jm_put k v m) = (if jm_has m k then length m else Suc (length m))"
  by (metis jm.keys_put jm_get_keys jm_has_def length_append_singleton length_jm_keys)

lemma sweep_ok: "buckets_ok m \<Longrightarrow> buckets_ok (jm_sweep d m)"
  using length_jm_sweep [of d m]
  by (auto simp: buckets_ok_def distinct_jm_sweep) (auto simp: jm_sweep_def list_all_iff)

text \<open>A fresh bucket first makes room for itself.\<close>

lemma delete_first_smaller: "jm_keys m = o1 # rest \<Longrightarrow> length (jm_delete o1 m) < length m"
  using jm.size_delete_present [of o1 m] by (metis length_jm_keys list.set_intros(1))

lemma make_room_ok:
  assumes "buckets_ok m"
  shows "buckets_ok (make_room m key)"
    "\<not> jm_has (make_room m key) key \<Longrightarrow> length (make_room m key) < CONTROL_PLANE_BUCKET_MAX_ENTRIES"
proof -
  consider (keep) "make_room m key = m" "jm_has m key \<or> length m < CONTROL_PLANE_BUCKET_MAX_ENTRIES"
    | (evict) o1 rest where "jm_keys m = o1 # rest" "make_room m key = jm_delete o1 m"
  proof (cases "\<not> jm_has m key \<and> length m \<ge> CONTROL_PLANE_BUCKET_MAX_ENTRIES")
    case True
    then have "length (jm_keys m) > 0"
      by (auto simp: CONTROL_PLANE_BUCKET_MAX_ENTRIES_def)
    then obtain o1 rest where "jm_keys m = o1 # rest" by (cases "jm_keys m") auto
    with True show ?thesis by (intro that(2)) (simp_all add: make_room_def)
  next
    case False
    then show ?thesis by (intro that(1)) (auto simp: make_room_def)
  qed
  then have "buckets_ok (make_room m key) \<and> (\<not> jm_has (make_room m key) key
      \<longrightarrow> length (make_room m key) < CONTROL_PLANE_BUCKET_MAX_ENTRIES)"
  proof cases
    case keep
    with assms show ?thesis by auto
  next
    case evict
    from delete_first_smaller [OF evict(1)] assms evict(2) show ?thesis
      by (auto simp: buckets_ok_def jm.distinct_delete jm_delete_vals)
  qed
  then show "buckets_ok (make_room m key)"
    "\<not> jm_has (make_room m key) key \<Longrightarrow> length (make_room m key) < CONTROL_PLANE_BUCKET_MAX_ENTRIES"
    by auto
qed

lemma put_ok:
  assumes "buckets_ok m" "count_ok b" "\<not> jm_has m key \<Longrightarrow> length m < CONTROL_PLANE_BUCKET_MAX_ENTRIES"
  shows "buckets_ok (jm_put key b m)"
  using assms by (auto simp: buckets_ok_def jm.distinct_put jm_put_length jm_put_vals)

lemma consume_ok:
  assumes "buckets_ok m"
  shows "buckets_ok (fst (consumeControlPlaneWriteBudget m client meth now))"
proof -
  define key where "key = meth @ ''|'' @ resolveControlPlaneRateLimitKey client"
  have fresh: "count_ok \<lparr>bk_count = 1, bk_windowStartMs = now\<rparr>"
    by (simp add: count_ok_def CONTROL_PLANE_RATE_LIMIT_MAX_REQUESTS_def)
  have "list_all (\<lambda>(_, b). count_ok b) m" using assms by (simp add: buckets_ok_def)
  note old = jm_get_vals [OF this]
  have again: "count_ok (b\<lparr>bk_count := bk_count b + 1\<rparr>)"
    if "jm_get m key = Some b" "\<not> bk_count b \<ge> CONTROL_PLANE_RATE_LIMIT_MAX_REQUESTS" for b
    using old [OF that(1)] that(2) by (simp add: count_ok_def)
  show ?thesis
    unfolding consumeControlPlaneWriteBudget_def Let_def key_def [symmetric]
    using put_ok [OF make_room_ok(1) [OF assms] fresh make_room_ok(2) [OF assms]] assms
    by (auto split: option.split intro!: put_ok [OF assms] again simp: jm_has_def)
qed

lemma budget_run_ok: "buckets_ok m \<Longrightarrow> buckets_ok (budget_run m cs)"
  by (induction m cs rule: budget_run.induct)
    (simp_all add: consume_ok pruneStaleControlPlaneBuckets_def sweep_ok Let_def)

lemma buckets_ok_empty: "buckets_ok []"
  by (simp add: buckets_ok_def jm_keys_def)

text \<open>
  After any sequence of requests and sweeps the gateway holds at most 10000 buckets, one per key,
  each with a count between 1 and 30; the next request reports between 0 and 29 remaining calls,
  a refused one none, and an admitted one nothing to wait for.
\<close>

theorem write_budget_bounded:
  "buckets_ok (budget_run [] cs)
   \<and> (case consumeControlPlaneWriteBudget (budget_run [] cs) client meth now of
        (m, b) \<Rightarrow> buckets_ok m \<and> 0 \<le> bu_remaining b \<and> bu_remaining b < 30 \<and> 0 \<le> bu_retryAfterMs b
          \<and> (if bu_allowed b then bu_retryAfterMs b = 0 else bu_remaining b = 0))"
proof -
  let ?m = "budget_run [] cs"
  have ok: "buckets_ok ?m" by (simp add: budget_run_ok buckets_ok_empty)
  obtain m b where mb: "consumeControlPlaneWriteBudget ?m client meth now = (m, b)" by fastforce
  have "buckets_ok m" using consume_ok [OF ok, of client meth now] mb by simp
  moreover have "list_all (\<lambda>(_, b). count_ok b) ?m" using ok by (simp add: buckets_ok_def)
  note old = jm_get_vals [OF this]
  have "0 \<le> bu_remaining b \<and> bu_remaining b < 30 \<and> 0 \<le> bu_retryAfterMs b
      \<and> (if bu_allowed b then bu_retryAfterMs b = 0 else bu_remaining b = 0)"
    using mb by (auto simp: consumeControlPlaneWriteBudget_def Let_def
        CONTROL_PLANE_RATE_LIMIT_MAX_REQUESTS_def count_ok_def
        split: option.splits if_splits dest!: old)
  ultimately show ?thesis using ok mb by simp
qed

end
