(* ===== verification/Transcript_Tree.thy ===== *)
theory Transcript_Tree
  imports Json Js_Map
begin

section \<open>Transcript trees\<close>

text \<open>
  \<^verbatim>\<open>src/config/sessions/transcript-tree.ts\<close>: a session transcript is a list of JSON
  rows; rows link to parents, leaf rows move the active leaf, reset rows cut the visible history.
  A reference that is null is \<open>None\<close>; where it may also be undefined the type is
  \<open>string option option\<close> with undefined \<open>None\<close> and null \<open>Some None\<close>. Rows come
  from JSON text, so a property is absent rather than undefined.
\<close>

record tree_entry =
  te_id :: string
  te_parentId :: "string option"
  te_leafId :: "string option option"
  te_appendParentId :: "string option"
  te_side :: bool

record tree_node = tree_entry +
  tn_entry :: json
  tn_index :: nat

record transcript_tree =
  tt_nodes :: "tree_node list"
  tt_byId :: "(string, tree_node) jmap"
  tt_leafId :: "string option"
  tt_appendParentId :: "string option"
  tt_hasLeafControl :: bool
  tt_hasLeafUpdate :: bool
  tt_hasExplicitLeafUpdate :: bool
  tt_hasInvalidLeafControl :: bool

subsection \<open>Rows\<close>

definition readNonEmptyString :: "json option \<Rightarrow> string option" where
  "readNonEmptyString v =
     (case v of Some (JStr s) \<Rightarrow> if length (js_trim s) > 0 then Some s else None | _ \<Rightarrow> None)"

definition canonical_types :: "string list" where
  "canonical_types = [''message'', ''thinking_level_change'', ''model_change'', ''compaction'', ''reset'',
     ''branch_summary'', ''custom'', ''custom_message'', ''label'', ''session_info'']"

definition isCanonicalSessionEntryType :: "json option \<Rightarrow> bool" where
  "isCanonicalSessionEntryType v =
     (case v of Some (JStr s) \<Rightarrow> s \<in> set canonical_types | _ \<Rightarrow> False)"

text \<open>The properties of a row that is a record.\<close>

fun fields_of :: "json \<Rightarrow> (string \<times> json) list option" where
  "fields_of (JObj fs) = Some fs"
| "fields_of _ = None"

definition field_is :: "(string \<times> json) list \<Rightarrow> string \<Rightarrow> string \<Rightarrow> bool" where
  "field_is fs name v \<longleftrightarrow> jprop fs name = Some (JStr v)"

definition isCanonicalSessionTranscriptEntry :: "json \<Rightarrow> bool" where
  "isCanonicalSessionTranscriptEntry r =
     (case fields_of r of None \<Rightarrow> False | Some fs \<Rightarrow> isCanonicalSessionEntryType (jprop fs ''type''))"

definition isSessionTranscriptSideAppendEntry :: "json \<Rightarrow> bool" where
  "isSessionTranscriptSideAppendEntry r =
     (isCanonicalSessionTranscriptEntry r
      \<and> (case fields_of r of None \<Rightarrow> False | Some fs \<Rightarrow> field_is fs ''appendMode'' ''side''))"

text \<open>A reference: null, a nonempty string, or invalid (\<open>None\<close>).\<close>

definition reference :: "json option \<Rightarrow> string option option" where
  "reference v =
     (if v = Some JNull then Some None else map_option Some (readNonEmptyString v))"

definition parse_leaf :: "(string \<times> json) list \<Rightarrow> string \<Rightarrow> tree_entry option" where
  "parse_leaf fs rowId =
     (let targetId = reference (jprop fs ''targetId'');
          appendParentId = (if jprop fs ''appendParentId'' = None then targetId
                            else reference (jprop fs ''appendParentId''));
          mode_ok = (jprop fs ''appendMode'' = None \<or> field_is fs ''appendMode'' ''side'')
      in case (targetId, appendParentId) of
           (Some t, Some a) \<Rightarrow>
             (if mode_ok then Some \<lparr>te_id = rowId, te_parentId = t, te_leafId = Some t,
                te_appendParentId = a, te_side = field_is fs ''appendMode'' ''side''\<rparr> else None)
         | _ \<Rightarrow> None)"

definition parseSessionTranscriptTreeEntry :: "json \<Rightarrow> tree_entry option" where
  "parseSessionTranscriptTreeEntry r =
     (case fields_of r of
        None \<Rightarrow> None
      | Some fs \<Rightarrow>
          (if field_is fs ''type'' ''session'' \<or> jprop fs ''parentId'' = None then None
           else
            (case (readNonEmptyString (jprop fs ''id''), reference (jprop fs ''parentId'')) of
               (Some rowId, Some parentId) \<Rightarrow>
                 (if field_is fs ''type'' ''leaf'' then parse_leaf fs rowId
                  else
                   (let side = field_is fs ''appendMode'' ''side'' in
                    Some \<lparr>te_id = rowId, te_parentId = parentId,
                      te_leafId = (if isCanonicalSessionTranscriptEntry r \<and> \<not> side
                                   then Some (Some rowId) else None),
                      te_appendParentId = Some rowId, te_side = side\<rparr>))
             | _ \<Rightarrow> None)))"

definition isSessionTranscriptLeafControl :: "json \<Rightarrow> bool" where
  "isSessionTranscriptLeafControl r =
     (case fields_of r of
        None \<Rightarrow> False
      | Some fs \<Rightarrow> field_is fs ''type'' ''leaf'' \<and> parseSessionTranscriptTreeEntry r \<noteq> None)"

definition parseParentlessCanonicalEntry :: "json \<Rightarrow> string option \<Rightarrow> tree_entry option" where
  "parseParentlessCanonicalEntry r parentId =
     (case fields_of r of
        None \<Rightarrow> None
      | Some fs \<Rightarrow>
          (if \<not> isCanonicalSessionTranscriptEntry r \<or> jprop fs ''parentId'' \<noteq> None then None
           else
            (case readNonEmptyString (jprop fs ''id'') of
               None \<Rightarrow> None
             | Some rowId \<Rightarrow>
                 (let side = field_is fs ''appendMode'' ''side'' in
                  Some \<lparr>te_id = rowId, te_parentId = parentId,
                    te_leafId = (if side then None else Some (Some rowId)),
                    te_appendParentId = Some rowId, te_side = side\<rparr>))))"

subsection \<open>Walks\<close>

lemma unseen_decreases:
  assumes "jm_get m c = Some p" "c \<notin> set seen"
  shows "card (set (jm_keys m) - set (c # seen)) < card (set (jm_keys m) - set seen)"
proof -
  from assms(1) have "c \<in> set (jm_keys m)" using jm_get_keys [of m c] by auto
  with assms(2) show ?thesis by (intro psubset_card_mono) auto
qed

text \<open>The loop of \<^verbatim>\<open>resolveCanonicalParentId\<close>: through leaf controls, to a
  visible row, a missing one, or one already met.\<close>

function canonical_parent ::
    "(string, tree_node) jmap \<Rightarrow> string list \<Rightarrow> string option \<Rightarrow> string option" where
  "canonical_parent byId seen None = None"
| "canonical_parent byId seen (Some c) =
     (if c \<in> set seen then Some c
      else
       (case jm_get byId c of
          None \<Rightarrow> Some c
        | Some parent \<Rightarrow>
            (if isSessionTranscriptLeafControl (tn_entry parent)
             then canonical_parent byId (c # seen) (te_parentId parent) else Some c)))"
  by pat_completeness auto

termination
  by (relation "measure (\<lambda>(byId, seen, _). card (set (jm_keys byId) - set seen))")
    (simp_all add: unseen_decreases del: set_simps)

declare canonical_parent.simps [simp del]

definition resolveCanonicalParentId ::
    "string option \<Rightarrow> (string, tree_node) jmap \<Rightarrow> string option" where
  "resolveCanonicalParentId parentId byId = canonical_parent byId [] parentId"

text \<open>The loop of \<^verbatim>\<open>selectSessionTranscriptTreePathNodes\<close>: a cycle gives no path.\<close>

function tree_walk ::
    "(string, tree_node) jmap \<Rightarrow> string list \<Rightarrow> tree_node list \<Rightarrow> string option \<Rightarrow> tree_node list" where
  "tree_walk byId seen path None = path"
| "tree_walk byId seen path (Some c) =
     (if c = [] then path
      else if c \<in> set seen then []
      else
       (case jm_get byId c of
          None \<Rightarrow> path
        | Some current \<Rightarrow>
            tree_walk byId (c # seen)
              (if isSessionTranscriptLeafControl (tn_entry current) then path else current # path)
              (te_parentId current)))"
  by pat_completeness auto

termination
  by (relation "measure (\<lambda>(byId, seen, _, _). card (set (jm_keys byId) - set seen))")
    (simp_all add: unseen_decreases del: set_simps)

declare tree_walk.simps [simp del]

definition selectSessionTranscriptTreePathNodes ::
    "transcript_tree \<Rightarrow> string option \<Rightarrow> tree_node list" where
  "selectSessionTranscriptTreePathNodes tree leafId =
     (case leafId of None \<Rightarrow> [] | Some l \<Rightarrow> tree_walk (tt_byId tree) [] [] (Some l))"

subsection \<open>The scan\<close>

record scan_state =
  sc_nodes :: "tree_node list"
  sc_byId :: "(string, tree_node) jmap"
  sc_leafId :: "string option"
  sc_appendParentId :: "string option"
  sc_hasLeafControl :: bool
  sc_hasLeafUpdate :: bool
  sc_hasExplicitLeafUpdate :: bool
  sc_hasInvalidLeafControl :: bool
  sc_latestResetId :: "string option"
  sc_resetDescendantIds :: "string list"
  sc_invalidLeafControlIds :: "string list"

definition scan_start :: scan_state where
  "scan_start = \<lparr>sc_nodes = [], sc_byId = [], sc_leafId = None, sc_appendParentId = None,
     sc_hasLeafControl = False, sc_hasLeafUpdate = False, sc_hasExplicitLeafUpdate = False,
     sc_hasInvalidLeafControl = False, sc_latestResetId = None, sc_resetDescendantIds = [],
     sc_invalidLeafControlIds = []\<rparr>"

definition node_of :: "tree_entry \<Rightarrow> json \<Rightarrow> nat \<Rightarrow> tree_node" where
  "node_of te row index = \<lparr>te_id = te_id te, te_parentId = te_parentId te, te_leafId = te_leafId te,
     te_appendParentId = te_appendParentId te, te_side = te_side te, tn_entry = row, tn_index = index\<rparr>"

text \<open>A leaf control may not lead back behind the latest reset: it stays on the current leaf.\<close>

definition clamp_leaf_control :: "scan_state \<Rightarrow> json \<Rightarrow> tree_entry option \<Rightarrow> tree_entry option" where
  "clamp_leaf_control st row explicit =
     (case explicit of
        None \<Rightarrow> None
      | Some te \<Rightarrow>
          (if sc_latestResetId st \<noteq> None \<and> sc_leafId st \<noteq> None \<and> te_leafId te \<noteq> None
              \<and> isSessionTranscriptLeafControl row
              \<and> (case the (te_leafId te) of None \<Rightarrow> True
                 | Some l \<Rightarrow> l \<notin> set (sc_resetDescendantIds st))
           then Some (te\<lparr>te_parentId := sc_leafId st, te_leafId := Some (sc_leafId st),
                        te_appendParentId := sc_leafId st\<rparr>)
           else Some te))"

definition isKnownLeafReference :: "scan_state \<Rightarrow> string option \<Rightarrow> bool" where
  "isKnownLeafReference st ref =
     (case ref of None \<Rightarrow> True
      | Some i \<Rightarrow> jm_has (sc_byId st) i \<and> i \<notin> set (sc_invalidLeafControlIds st))"

definition invalid_leaf_control :: "scan_state \<Rightarrow> json \<Rightarrow> tree_entry option \<Rightarrow> bool" where
  "invalid_leaf_control st row explicit =
     (case explicit of
        None \<Rightarrow> False
      | Some te \<Rightarrow> te_leafId te \<noteq> None \<and> isSessionTranscriptLeafControl row
          \<and> (\<not> isKnownLeafReference st (the (te_leafId te))
             \<or> \<not> isKnownLeafReference st (te_appendParentId te)))"

text \<open>The raw \<^verbatim>\<open>parentId\<close> of a parsed row is null or a string.\<close>

definition raw_parent :: "json \<Rightarrow> string option" where
  "raw_parent row = json_string (Option.bind (fields_of row) (\<lambda>fs. jprop fs ''parentId''))"

definition scan_invalid :: "scan_state \<Rightarrow> nat \<Rightarrow> json \<Rightarrow> tree_entry \<Rightarrow> scan_state" where
  "scan_invalid st index row te =
     (let node = (node_of te row index)\<lparr>te_parentId := raw_parent row, te_leafId := None,
            te_appendParentId := sc_appendParentId st\<rparr>
      in st\<lparr>sc_hasInvalidLeafControl := True,
            sc_invalidLeafControlIds := te_id te # sc_invalidLeafControlIds st,
            sc_nodes := sc_nodes st @ [node], sc_byId := jm_put (te_id node) node (sc_byId st)\<rparr>)"

text \<open>The visible parent of a canonical row.\<close>

definition logical_parent :: "scan_state \<Rightarrow> bool \<Rightarrow> tree_entry \<Rightarrow> string option" where
  "logical_parent st explicit te =
     (let canonicalParentIsStale = explicit \<and> te_parentId te \<noteq> None
            \<and> \<not> jm_has (sc_byId st) (the (te_parentId te)) \<and> sc_leafId st \<noteq> None;
          crossesResetBoundary = sc_latestResetId st \<noteq> None \<and> \<not> te_side te
            \<and> (case te_parentId te of None \<Rightarrow> True | Some q \<Rightarrow> q \<notin> set (sc_resetDescendantIds st))
      in if crossesResetBoundary then sc_leafId st
         else if \<not> te_side te \<and> canonicalParentIsStale then sc_leafId st
         else if explicit \<and> \<not> te_side te \<and> te_parentId te = sc_appendParentId st
            \<and> sc_leafId st \<noteq> sc_appendParentId st then sc_leafId st
         else te_parentId te)"

definition normalize_parent :: "scan_state \<Rightarrow> json \<Rightarrow> bool \<Rightarrow> tree_entry \<Rightarrow> tree_entry" where
  "normalize_parent st row explicit te =
     (if isCanonicalSessionTranscriptEntry row
      then te\<lparr>te_parentId := resolveCanonicalParentId (logical_parent st explicit te) (sc_byId st)\<rparr>
      else te)"

definition is_reset :: "json \<Rightarrow> bool" where
  "is_reset row = (case fields_of row of None \<Rightarrow> False | Some fs \<Rightarrow> field_is fs ''type'' ''reset'')"

text \<open>The reset bookkeeping for a new node: latest reset and its descendants.\<close>

definition track_reset :: "scan_state \<Rightarrow> tree_node \<Rightarrow> string option \<times> string list" where
  "track_reset st node =
     (if is_reset (tn_entry node) then (Some (te_id node), [te_id node])
      else if sc_latestResetId st \<noteq> None \<and> te_parentId node \<noteq> None
         \<and> the (te_parentId node) \<in> set (sc_resetDescendantIds st)
      then (sc_latestResetId st, te_id node # sc_resetDescendantIds st)
      else (sc_latestResetId st, sc_resetDescendantIds st))"

definition scan_node :: "scan_state \<Rightarrow> bool \<Rightarrow> tree_node \<Rightarrow> scan_state" where
  "scan_node st explicit node =
     (let (latest, descendants) = track_reset st node;
          updates = te_leafId node \<noteq> None
      in st\<lparr>sc_nodes := sc_nodes st @ [node], sc_byId := jm_put (te_id node) node (sc_byId st),
            sc_latestResetId := latest, sc_resetDescendantIds := descendants,
            sc_appendParentId := te_appendParentId node,
            sc_leafId := (case te_leafId node of None \<Rightarrow> sc_leafId st | Some l \<Rightarrow> l),
            sc_hasLeafUpdate := sc_hasLeafUpdate st \<or> updates,
            sc_hasExplicitLeafUpdate := sc_hasExplicitLeafUpdate st \<or> updates \<and> explicit,
            sc_hasLeafControl := sc_hasLeafControl st
              \<or> isSessionTranscriptLeafControl (tn_entry node)\<rparr>)"

text \<open>One row.\<close>

definition scan_row :: "scan_state \<Rightarrow> nat \<times> json \<Rightarrow> scan_state" where
  "scan_row st = (\<lambda>(index, row).
     (let explicit = clamp_leaf_control st row (parseSessionTranscriptTreeEntry row) in
      if invalid_leaf_control st row explicit then scan_invalid st index row (the explicit)
      else
       (case (case explicit of Some te \<Rightarrow> Some te
              | None \<Rightarrow> parseParentlessCanonicalEntry row (sc_leafId st)) of
          None \<Rightarrow> st
        | Some te \<Rightarrow>
            scan_node st (explicit \<noteq> None)
              (node_of (normalize_parent st row (explicit \<noteq> None) te) row index))))"

definition scan_rows :: "json list \<Rightarrow> scan_state" where
  "scan_rows rows = foldl scan_row scan_start (List.enumerate 0 rows)"

definition scanSessionTranscriptTree :: "json list \<Rightarrow> transcript_tree" where
  "scanSessionTranscriptTree rows =
     (let st = scan_rows rows in
      \<lparr>tt_nodes = sc_nodes st, tt_byId = sc_byId st, tt_leafId = sc_leafId st,
       tt_appendParentId = sc_appendParentId st, tt_hasLeafControl = sc_hasLeafControl st,
       tt_hasLeafUpdate = sc_hasLeafUpdate st,
       tt_hasExplicitLeafUpdate = sc_hasExplicitLeafUpdate st,
       tt_hasInvalidLeafControl = sc_hasInvalidLeafControl st\<rparr>)"

subsection \<open>Selections\<close>

definition entry_at :: "'a list \<Rightarrow> nat \<Rightarrow> 'a option" where
  "entry_at xs i = (if i < length xs then Some (xs ! i) else None)"

definition entries_of :: "'a list \<Rightarrow> tree_node list \<Rightarrow> 'a list" where
  "entries_of xs nodes = List.map_filter (\<lambda>n. entry_at xs (tn_index n)) nodes"

text \<open>The suffix of a reset's own path that the reset keeps, from \<^verbatim>\<open>firstKeptEntryId\<close>.\<close>

definition retained_path :: "transcript_tree \<Rightarrow> (string \<times> json) list \<Rightarrow> tree_node list option" where
  "retained_path tree fs =
     (case (readNonEmptyString (jprop fs ''id''), readNonEmptyString (jprop fs ''firstKeptEntryId'')) of
        (Some resetId, Some kept) \<Rightarrow>
          (let resetPath = selectSessionTranscriptTreePathNodes tree (Some resetId);
               rest = dropWhile (\<lambda>n. te_id n \<noteq> kept) resetPath
           in if rest \<noteq> [] then Some rest else None)
      | _ \<Rightarrow> None)"

text \<open>The loop back from the first active row to the nearest compaction or reset.\<close>

fun boundary_before ::
    "transcript_tree \<Rightarrow> 'a list \<Rightarrow> json list \<Rightarrow> 'a list \<Rightarrow> nat \<Rightarrow> 'a list" where
  "boundary_before tree entries records active 0 = active"
| "boundary_before tree entries records active (Suc i) =
     (case Option.bind (entry_at records i) fields_of of
        None \<Rightarrow> boundary_before tree entries records active i
      | Some fs \<Rightarrow>
          (if \<not> field_is fs ''type'' ''compaction'' \<and> \<not> field_is fs ''type'' ''reset''
           then boundary_before tree entries records active i
           else
            (case entry_at entries i of
               None \<Rightarrow> active
             | Some entry \<Rightarrow>
                 (case (if field_is fs ''type'' ''reset'' then retained_path tree fs else None) of
                    Some nodes \<Rightarrow> entries_of entries nodes @ active
                  | None \<Rightarrow> entry # active))))"

definition selectSessionTranscriptActiveEntries ::
    "'a list \<Rightarrow> ('a \<Rightarrow> json) \<Rightarrow> transcript_tree option \<Rightarrow> bool \<Rightarrow> 'a list" where
  "selectSessionTranscriptActiveEntries entries recordOf tree0 failClosed =
     (let records = map recordOf entries;
          tree = (case tree0 of Some t \<Rightarrow> t | None \<Rightarrow> scanSessionTranscriptTree records)
      in if failClosed \<and> tt_hasInvalidLeafControl tree then []
         else if \<not> tt_hasExplicitLeafUpdate tree then entries
         else
          (let activePath = selectSessionTranscriptTreePathNodes tree (tt_leafId tree);
               first = (case activePath of [] \<Rightarrow> 0 | n # _ \<Rightarrow> tn_index n)
           in boundary_before tree entries records (entries_of entries activePath) first))"

record selected_node = tree_node +
  sn_selectedParentId :: "string option"

definition with_parent :: "tree_node \<Rightarrow> string option \<Rightarrow> selected_node" where
  "with_parent n q = \<lparr>te_id = te_id n, te_parentId = te_parentId n, te_leafId = te_leafId n,
     te_appendParentId = te_appendParentId n, te_side = te_side n, tn_entry = tn_entry n,
     tn_index = tn_index n, sn_selectedParentId = q\<rparr>"

text \<open>Each node of a path with the id of the one before it.\<close>

fun link_path :: "string option \<Rightarrow> tree_node list \<Rightarrow> selected_node list" where
  "link_path q [] = []"
| "link_path q (n # ns) = with_parent n q # link_path (Some (te_id n)) ns"

definition mergeSessionTranscriptTreePaths :: "tree_node list list \<Rightarrow> selected_node list" where
  "mergeSessionTranscriptTreePaths paths =
     sort_key tn_index (map snd (foldl (\<lambda>m n. jm_put (te_id n) n m) [] (concat (map (link_path None) paths))))"

definition mergeSessionTranscriptVisiblePathWithOpaqueAppendPath ::
    "tree_node list \<Rightarrow> tree_node list \<Rightarrow> string option \<Rightarrow> selected_node list \<times> string option" where
  "mergeSessionTranscriptVisiblePathWithOpaqueAppendPath visiblePath appendPath appendParentId =
     (let nodes = mergeSessionTranscriptTreePaths [visiblePath];
          selectedIds = map te_id nodes;
          opaqueSuffix = rev (takeWhile (\<lambda>n. \<not> (te_id n \<in> set selectedIds
            \<or> isCanonicalSessionTranscriptEntry (tn_entry n))) (rev appendPath));
          last_id = (\<lambda>ns. if ns = [] then None else Some (te_id (last ns)));
          nodes' = nodes @ link_path (last_id nodes) opaqueSuffix
      in (nodes',
          case appendParentId of
            None \<Rightarrow> None
          | Some a \<Rightarrow> (if a \<in> set (map te_id nodes') then Some a else last_id nodes')))"

definition json_ref :: "string option \<Rightarrow> json" where
  "json_ref r = (case r of None \<Rightarrow> JNull | Some s \<Rightarrow> JStr s)"

text \<open>\<^verbatim>\<open>Object.assign({}, entry, { parentId })\<close> where the logical parent differs.\<close>

definition with_logical_parent :: "transcript_tree \<Rightarrow> json \<Rightarrow> json" where
  "with_logical_parent tree row =
     (case fields_of row of
        None \<Rightarrow> row
      | Some fs \<Rightarrow>
          (case jm_get (tt_byId tree) (case_option [] id (readNonEmptyString (jprop fs ''id''))) of
             None \<Rightarrow> row
           | Some node \<Rightarrow>
               (if jprop fs ''parentId'' = Some (json_ref (te_parentId node)) then row
                else JObj (jm_put ''parentId'' (json_ref (te_parentId node)) fs))))"

definition selectSessionTranscriptLeafControlledPath :: "json list \<Rightarrow> json list option" where
  "selectSessionTranscriptLeafControlledPath entries =
     (let tree = scanSessionTranscriptTree entries in
      if \<not> tt_hasLeafControl tree then None
      else Some (map (with_logical_parent tree)
        (selectSessionTranscriptActiveEntries entries id (Some tree) False)))"

end
