(* ===== verification/Transcript_Facts.thy ===== *)
theory Transcript_Facts
  imports Transcript_Tree
begin

section \<open>Transcript trees: navigation and paths\<close>

text \<open>
  The scan keeps its cursors on rows it has seen; a selected path is the chain of visible ancestors,
  with leaf controls skipped, whatever cycles and gaps the rows contain; and a transcript written
  by plain appends is selected whole.
\<close>

subsection \<open>What a row parses to\<close>

lemma parse_leaf_shape:
  "parse_leaf fs i = Some te \<Longrightarrow> te_id te = i \<and> te_leafId te \<noteq> None"
  by (auto simp: parse_leaf_def Let_def split: option.splits if_splits)

lemma readNonEmptyString_not_Nil: "readNonEmptyString v = Some s \<Longrightarrow> s \<noteq> []"
  by (auto simp: readNonEmptyString_def split: option.splits json.splits if_splits)

lemma parse_cases:
  assumes "parseSessionTranscriptTreeEntry row = Some te"
  shows "te_id te \<noteq> [] \<and> (isSessionTranscriptLeafControl row \<and> te_leafId te \<noteq> None
    \<or> \<not> isSessionTranscriptLeafControl row
      \<and> (te_leafId te = None \<or> te_leafId te = Some (Some (te_id te)))
      \<and> te_appendParentId te = Some (te_id te))"
  using assms parse_leaf_shape readNonEmptyString_not_Nil
  by (fastforce simp: parseSessionTranscriptTreeEntry_def isSessionTranscriptLeafControl_def Let_def
      split: option.splits if_splits)

lemma parentless_shape:
  "parseParentlessCanonicalEntry row q = Some te \<Longrightarrow> te_id te \<noteq> []
     \<and> (te_leafId te = None \<or> te_leafId te = Some (Some (te_id te)))
     \<and> te_appendParentId te = Some (te_id te) \<and> te_parentId te = q"
  using readNonEmptyString_not_Nil
  by (fastforce simp: parseParentlessCanonicalEntry_def Let_def split: option.splits if_splits)

lemma clamp_id: "clamp_leaf_control st row explicit = Some te \<Longrightarrow> \<exists>te0. explicit = Some te0 \<and> te_id te = te_id te0"
  by (auto simp: clamp_leaf_control_def split: option.splits if_splits)

lemma node_of_sel [simp]:
  "te_id (node_of te row i) = te_id te" "te_parentId (node_of te row i) = te_parentId te"
  "te_leafId (node_of te row i) = te_leafId te" "te_side (node_of te row i) = te_side te"
  "te_appendParentId (node_of te row i) = te_appendParentId te"
  "tn_entry (node_of te row i) = row" "tn_index (node_of te row i) = i"
  by (simp_all add: node_of_def)

lemma normalize_parent_sel [simp]:
  "te_id (normalize_parent st row b te) = te_id te" "te_leafId (normalize_parent st row b te) = te_leafId te"
  "te_appendParentId (normalize_parent st row b te) = te_appendParentId te"
  by (simp_all add: normalize_parent_def)

subsection \<open>The cursors stay on known rows\<close>

definition known :: "(string, tree_node) jmap \<Rightarrow> string option \<Rightarrow> bool" where
  "known byId ref = (case ref of None \<Rightarrow> True | Some i \<Rightarrow> jm_has byId i)"

text \<open>Nodes are stored under their own, nonempty ids.\<close>

definition by_own_id :: "(string, tree_node) jmap \<Rightarrow> bool" where
  "by_own_id m \<longleftrightarrow> list_all (\<lambda>(k, n). k = te_id n \<and> k \<noteq> []) m"

definition scan_ok :: "scan_state \<Rightarrow> bool" where
  "scan_ok st \<longleftrightarrow> known (sc_byId st) (sc_leafId st) \<and> known (sc_byId st) (sc_appendParentId st)
     \<and> known (sc_byId st) (sc_latestResetId st)
     \<and> list_all (jm_has (sc_byId st)) (sc_resetDescendantIds st)
     \<and> by_own_id (sc_byId st) \<and> set (jm_keys (sc_byId st)) = te_id ` set (sc_nodes st)"

lemma jm_has_put [simp]: "jm_has (jm_put k v m) j \<longleftrightarrow> j = k \<or> jm_has m j"
  by (simp add: jm_has_def jm_get_put)

lemma known_put: "known m ref \<Longrightarrow> known (jm_put k v m) ref"
  by (auto simp: known_def split: option.splits)

lemma by_own_id_put: "by_own_id m \<Longrightarrow> te_id n \<noteq> [] \<Longrightarrow> by_own_id (jm_put (te_id n) n m)"
  unfolding by_own_id_def by (induction "te_id n" n m rule: jm_put.induct) auto

lemma by_own_id_get: "by_own_id m \<Longrightarrow> jm_get m k = Some n \<Longrightarrow> te_id n = k \<and> k \<noteq> []"
  by (auto simp: by_own_id_def list_all_iff dest!: jm_get_in)

lemma known_Some [simp]: "known m (Some i) = jm_has m i" "known m None"
  by (simp_all add: known_def)

lemma scan_invalid_ok:
  assumes "scan_ok st" "te_id te \<noteq> []"
  shows "scan_ok (scan_invalid st index row te)"
  using assms
  by (auto simp: scan_ok_def scan_invalid_def Let_def known_put list_all_iff jm_keys_put
      intro!: by_own_id_put [where n = "(node_of te row index)\<lparr>te_parentId := raw_parent row,
        te_leafId := None, te_appendParentId := sc_appendParentId st\<rparr>", simplified])

lemma scan_node_ok:
  assumes "scan_ok st" "te_id node \<noteq> []"
    and "\<And>l. te_leafId node = Some l \<Longrightarrow> known (jm_put (te_id node) node (sc_byId st)) l"
    and "known (jm_put (te_id node) node (sc_byId st)) (te_appendParentId node)"
  shows "scan_ok (scan_node st explicit node)"
proof -
  have "known (jm_put (te_id node) node (sc_byId st))
      (case te_leafId node of None \<Rightarrow> sc_leafId st | Some l \<Rightarrow> l)"
    using assms(1,3) by (auto simp: scan_ok_def known_put split: option.split)
  with assms(1,2,4) show ?thesis
    by (auto simp: scan_ok_def scan_node_def track_reset_def Let_def known_put list_all_iff
        jm_keys_put by_own_id_put)
qed

lemma scan_row_ok:
  assumes "scan_ok st"
  shows "scan_ok (scan_row st (index, row))"
proof -
  let ?e = "clamp_leaf_control st row (parseSessionTranscriptTreeEntry row)"
  show ?thesis
  proof (cases "invalid_leaf_control st row ?e")
    case True
    then obtain te where te: "?e = Some te" by (auto simp: invalid_leaf_control_def split: option.splits)
    then have "te_id te \<noteq> []" using clamp_id parse_cases by metis
    with True te assms show ?thesis by (simp add: scan_row_def scan_invalid_ok)
  next
    case valid: False
    show ?thesis
    proof (cases ?e)
      case None
      show ?thesis
      proof (cases "parseParentlessCanonicalEntry row (sc_leafId st)")
        case b: None
        with None valid assms show ?thesis by (simp add: scan_row_def)
      next
        case (Some te)
        from parentless_shape [OF this]
        have te: "te_id te \<noteq> []" "te_appendParentId te = Some (te_id te)"
          "\<And>l. te_leafId te = Some l \<Longrightarrow> l = Some (te_id te)" by auto
        have "scan_ok (scan_node st False (node_of (normalize_parent st row False te) row index))"
          by (rule scan_node_ok [OF assms]) (use te in auto)
        with None Some valid show ?thesis by (simp add: scan_row_def)
      qed
    next
      case (Some te)
      then obtain te0 where te0: "parseSessionTranscriptTreeEntry row = Some te0" "te_id te = te_id te0"
        using clamp_id by blast
      note shape = parse_cases [OF te0(1)]
      have "known (jm_put (te_id te) n (sc_byId st)) l" if "te_leafId te = Some l" for l n
      proof (cases "isSessionTranscriptLeafControl row")
        case True
        with valid Some that have "isKnownLeafReference st l"
          by (auto simp: invalid_leaf_control_def)
        then show ?thesis by (auto simp: isKnownLeafReference_def known_def split: option.splits)
      next
        case False
        with Some te0 have "te = te0" by (auto simp: clamp_leaf_control_def split: if_splits)
        with False shape that show ?thesis by auto
      qed
      moreover have "known (jm_put (te_id te) n (sc_byId st)) (te_appendParentId te)" for n
      proof (cases "isSessionTranscriptLeafControl row")
        case True
        with shape Some te0 have "te_leafId te \<noteq> None"
          by (auto simp: clamp_leaf_control_def split: if_splits)
        with True valid Some have "isKnownLeafReference st (te_appendParentId te)"
          by (auto simp: invalid_leaf_control_def)
        then show ?thesis by (auto simp: isKnownLeafReference_def known_def split: option.splits)
      next
        case False
        with Some te0 have "te = te0" by (auto simp: clamp_leaf_control_def split: if_splits)
        with False shape show ?thesis by auto
      qed
      ultimately show ?thesis
        using Some valid assms shape te0(2) by (auto simp: scan_row_def intro!: scan_node_ok)
    qed
  qed
qed

lemma scan_rows_ok: "scan_ok (scan_rows rows)"
proof -
  have "scan_ok (foldl scan_row st irows)" if "scan_ok st" for st irows
    using that by (induction irows arbitrary: st) (auto simp: scan_row_ok)
  then show ?thesis
    by (simp add: scan_rows_def scan_start_def scan_ok_def by_own_id_def jm_keys_def)
qed

subsection \<open>The index holds the newest row of each id\<close>

definition newest :: "tree_node list \<Rightarrow> string \<Rightarrow> tree_node option" where
  "newest nodes i = find (\<lambda>n. te_id n = i) (rev nodes)"

definition indexed :: "scan_state \<Rightarrow> bool" where
  "indexed st \<longleftrightarrow> jm_get (sc_byId st) = newest (sc_nodes st)"

text \<open>Row \<open>k\<close> is the next to be read; the nodes so far come from earlier rows, in order.\<close>

definition from_rows :: "json list \<Rightarrow> nat \<Rightarrow> tree_node list \<Rightarrow> bool" where
  "from_rows rows k nodes \<longleftrightarrow> sorted_wrt (<) (map tn_index nodes)
     \<and> list_all (\<lambda>n. tn_index n < k \<and> tn_entry n = rows ! tn_index n) nodes"

lemma newest_snoc: "newest (ns @ [n]) = (newest ns)(te_id n \<mapsto> n)"
  by (auto simp: newest_def fun_eq_iff)

lemma scan_row_adds:
  "sc_nodes (scan_row st (i, row)) = sc_nodes st \<and> sc_byId (scan_row st (i, row)) = sc_byId st
   \<or> (\<exists>n. sc_nodes (scan_row st (i, row)) = sc_nodes st @ [n] \<and> tn_index n = i \<and> tn_entry n = row
        \<and> sc_byId (scan_row st (i, row)) = jm_put (te_id n) n (sc_byId st))"
  by (auto simp: scan_row_def scan_invalid_def scan_node_def track_reset_def Let_def split: option.split)

lemma scan_row_indexed: "indexed st \<Longrightarrow> indexed (scan_row st irow)"
  using scan_row_adds [of st "fst irow" "snd irow"]
  by (auto simp: indexed_def newest_snoc jm_get_put fun_eq_iff)

lemma scan_row_from_rows:
  assumes "from_rows rows k (sc_nodes st)"
  shows "from_rows rows (Suc k) (sc_nodes (scan_row st (k, rows ! k)))"
  using scan_row_adds [of st k "rows ! k"] assms
  by (auto simp: from_rows_def list_all_iff sorted_wrt_append less_Suc_eq)

lemma scan_rows_indexed:
  "indexed (scan_rows rows) \<and> from_rows rows (length rows) (sc_nodes (scan_rows rows))"
proof -
  have "indexed (foldl scan_row scan_start (take k (List.enumerate 0 rows)))
      \<and> from_rows rows k (sc_nodes (foldl scan_row scan_start (take k (List.enumerate 0 rows))))"
    if "k \<le> length rows" for k
    using that
  proof (induction k)
    case 0
    then show ?case by (simp add: scan_start_def indexed_def from_rows_def newest_def fun_eq_iff jm_get.simps)
  next
    case (Suc k)
    then have "take (Suc k) (List.enumerate 0 rows) = take k (List.enumerate 0 rows) @ [(k, rows ! k)]"
      by (simp add: take_Suc_conv_app_nth nth_enumerate_eq)
    with Suc show ?case by (simp add: scan_row_indexed scan_row_from_rows)
  qed
  from this [of "length rows"] show ?thesis by (simp add: scan_rows_def)
qed

text \<open>
  C40: However malformed a transcript is, its scan leaves the active leaf and the append cursor on
  rows it has stored (or on nothing). The nodes are rows of the transcript in their order, and the
  index gives for an id exactly the newest node of that id, so it holds no other node and each under
  its own nonempty id.
\<close>

theorem navigation_stays_known:
  "known (tt_byId (scanSessionTranscriptTree rows)) (tt_leafId (scanSessionTranscriptTree rows))
   \<and> known (tt_byId (scanSessionTranscriptTree rows)) (tt_appendParentId (scanSessionTranscriptTree rows))
   \<and> set (jm_keys (tt_byId (scanSessionTranscriptTree rows)))
     = te_id ` set (tt_nodes (scanSessionTranscriptTree rows))
   \<and> by_own_id (tt_byId (scanSessionTranscriptTree rows))
   \<and> jm_get (tt_byId (scanSessionTranscriptTree rows)) = newest (tt_nodes (scanSessionTranscriptTree rows))
   \<and> from_rows rows (length rows) (tt_nodes (scanSessionTranscriptTree rows))"
  using scan_rows_ok [of rows] scan_rows_indexed [of rows]
  by (simp add: scanSessionTranscriptTree_def scan_ok_def indexed_def Let_def)


section \<open>Transcript trees: the selected path\<close>

text \<open>
  The ancestry of a row as an inductive notion, with leaf controls transparent, and the walk of
  \<^verbatim>\<open>selectSessionTranscriptTreePathNodes\<close> shown to compute it: the whole chain of
  visible ancestors when there is one, and nothing when the parents run in a circle.
\<close>

subsection \<open>Ancestry\<close>

text \<open>\<open>through m ref n\<close>: the reference leads, over leaf controls, to the visible node \<open>n\<close>.\<close>

inductive through :: "(string, tree_node) jmap \<Rightarrow> string option \<Rightarrow> tree_node \<Rightarrow> bool" for m where
  here: "jm_get m c = Some n \<Longrightarrow> \<not> isSessionTranscriptLeafControl (tn_entry n) \<Longrightarrow> through m (Some c) n"
| over: "jm_get m c = Some d \<Longrightarrow> isSessionTranscriptLeafControl (tn_entry d)
    \<Longrightarrow> through m (te_parentId d) n \<Longrightarrow> through m (Some c) n"

text \<open>\<open>stops m ref\<close>: it leads to no visible node: to null or to a row that is not there.\<close>

inductive stops :: "(string, tree_node) jmap \<Rightarrow> string option \<Rightarrow> bool" for m where
  root: "stops m None"
| missing: "jm_get m c = None \<Longrightarrow> stops m (Some c)"
| over: "jm_get m c = Some d \<Longrightarrow> isSessionTranscriptLeafControl (tn_entry d)
    \<Longrightarrow> stops m (te_parentId d) \<Longrightarrow> stops m (Some c)"

text \<open>The visible ancestors of a reference, nearest first, all the way.\<close>

fun ancestry :: "(string, tree_node) jmap \<Rightarrow> string option \<Rightarrow> tree_node list \<Rightarrow> bool" where
  "ancestry m q [] = stops m q"
| "ancestry m q (n # ns) = (through m q n \<and> ancestry m (te_parentId n) ns)"

text \<open>The number of rows on the way, controls included.\<close>

inductive ends_in :: "(string, tree_node) jmap \<Rightarrow> string option \<Rightarrow> nat \<Rightarrow> bool" for m where
  root: "ends_in m None 0"
| missing: "jm_get m c = None \<Longrightarrow> ends_in m (Some c) 0"
| step: "jm_get m c = Some n \<Longrightarrow> ends_in m (te_parentId n) k \<Longrightarrow> ends_in m (Some c) (Suc k)"

inductive_cases ends_in_NoneE: "ends_in m None k"
inductive_cases ends_in_SomeE: "ends_in m (Some c) k"

lemma ends_in_unique: "ends_in m q k \<Longrightarrow> ends_in m q j \<Longrightarrow> j = k"
proof (induction arbitrary: j rule: ends_in.induct)
  case (step c n k)
  from step.prems show ?case
  proof (rule ends_in_SomeE)
    assume "jm_get m c = None"
    with step.hyps(1) show ?thesis by simp
  next
    fix n' k'
    assume "j = Suc k'" "jm_get m c = Some n'" "ends_in m (te_parentId n') k'"
    with step.hyps(1) step.IH show ?thesis by simp
  qed
qed (auto elim: ends_in_NoneE ends_in_SomeE)

lemma through_ends: "through m q n \<Longrightarrow> ends_in m (te_parentId n) k \<Longrightarrow> \<exists>j. ends_in m q j"
  by (induction rule: through.induct) (auto intro: ends_in.step)

lemma stops_ends: "stops m q \<Longrightarrow> \<exists>j. ends_in m q j"
  by (induction rule: stops.induct) (auto intro: ends_in.intros)

lemma ancestry_ends: "ancestry m q ns \<Longrightarrow> \<exists>j. ends_in m q j"
proof (induction ns arbitrary: q)
  case (Cons n ns)
  then obtain j where "ends_in m (te_parentId n) j" by auto
  with Cons.prems show ?case using through_ends by auto
qed (simp add: stops_ends)

lemma through_get: "through m q n \<Longrightarrow> \<exists>c. jm_get m c = Some n"
  by (induction rule: through.induct) auto

lemma through_visible: "through m q n \<Longrightarrow> \<not> isSessionTranscriptLeafControl (tn_entry n)"
  by (induction rule: through.induct) auto

subsection \<open>The walk\<close>

text \<open>A walk that ends gathers the ancestry.\<close>

lemma tree_walk_ancestry:
  assumes "ends_in m q k" "by_own_id m" "\<forall>s\<in>set seen. \<exists>j. ends_in m (Some s) j \<and> k < j"
  shows "\<exists>ns. tree_walk m seen path q = rev ns @ path \<and> ancestry m q ns"
  using assms
proof (induction arbitrary: seen path rule: ends_in.induct)
  case root
  then show ?case by (auto simp: tree_walk.simps intro: stops.root exI [of _ "[]"])
next
  case (missing c)
  then have "c \<notin> set seen" using ends_in_unique [OF ends_in.missing] less_irrefl by metis
  with missing show ?case
    by (auto simp: tree_walk.simps intro: stops.missing exI [of _ "[]"])
next
  case (step c n k)
  have "c \<notin> set seen"
    using step.prems(2) ends_in_unique [OF ends_in.step [OF step.hyps]] less_irrefl by metis
  moreover have "c \<noteq> []" using by_own_id_get [OF step.prems(1) step.hyps(1)] by simp
  ultimately have walk: "tree_walk m seen path (Some c) = tree_walk m (c # seen)
      (if isSessionTranscriptLeafControl (tn_entry n) then path else n # path) (te_parentId n)"
    using step.hyps(1) by (simp add: tree_walk.simps)
  have seen: "\<forall>s\<in>set (c # seen). \<exists>j. ends_in m (Some s) j \<and> k < j"
    using step.prems(2) ends_in.step [OF step.hyps] by (auto dest: Suc_lessD)
  from step.IH [OF step.prems(1) seen] walk step.hyps(1) show ?case
  proof (cases "isSessionTranscriptLeafControl (tn_entry n)")
    case True
    from step.IH [OF step.prems(1) seen, of path] obtain ns where
      "tree_walk m (c # seen) path (te_parentId n) = rev ns @ path" "ancestry m (te_parentId n) ns"
      by auto
    with True step.hyps(1) have "ancestry m (Some c) ns"
      by (cases ns) (auto intro: stops.over through.over)
    with True walk \<open>tree_walk m (c # seen) path (te_parentId n) = rev ns @ path\<close> show ?thesis
      by (intro exI [of _ ns]) simp
  next
    case False
    from step.IH [OF step.prems(1) seen, of "n # path"] obtain ns where
      "tree_walk m (c # seen) (n # path) (te_parentId n) = rev ns @ n # path"
      "ancestry m (te_parentId n) ns"
      by auto
    with False walk step.hyps(1) show ?thesis
      by (intro exI [of _ "n # ns"]) (auto intro: through.here)
  qed
qed

text \<open>A walk that does not end meets a row twice.\<close>

lemma tree_walk_cycle:
  assumes "\<And>k. \<not> ends_in m q k" "by_own_id m"
  shows "tree_walk m seen path q = []"
  using assms
proof (induction m seen path q rule: tree_walk.induct)
  case (1 m seen path)
  then show ?case using ends_in.root by blast
next
  case (2 m seen path c)
  obtain n where n: "jm_get m c = Some n"
    using 2(2) [of 0] ends_in.missing [of m c] by (cases "jm_get m c") auto
  have "\<not> ends_in m (te_parentId n) k" for k
    using 2(2) [of "Suc k"] ends_in.step [OF n] by blast
  moreover have "c \<noteq> []" using by_own_id_get [OF 2(3) n] by simp
  ultimately show ?case
    using n 2(1) [OF _ _ n _ 2(3)] by (simp add: tree_walk.simps)
qed

lemma selected_ancestry:
  assumes "by_own_id (tt_byId tree)"
  shows "if \<exists>ns. ancestry (tt_byId tree) (Some l) ns
    then ancestry (tt_byId tree) (Some l) (rev (selectSessionTranscriptTreePathNodes tree (Some l)))
    else selectSessionTranscriptTreePathNodes tree (Some l) = []"
proof (cases "\<exists>k. ends_in (tt_byId tree) (Some l) k")
  case True
  then obtain k where "ends_in (tt_byId tree) (Some l) k" by auto
  from tree_walk_ancestry [OF this assms, of "[]" "[]"] show ?thesis
    by (auto simp: selectSessionTranscriptTreePathNodes_def)
next
  case False
  then have "tree_walk (tt_byId tree) [] [] (Some l) = []"
    using assms by (intro tree_walk_cycle) auto
  moreover have "\<not> (\<exists>ns. ancestry (tt_byId tree) (Some l) ns)"
    using False ancestry_ends by blast
  ultimately show ?thesis by (simp add: selectSessionTranscriptTreePathNodes_def)
qed

lemma ancestry_visible:
  "ancestry m q ns \<Longrightarrow> n \<in> set ns \<Longrightarrow> \<not> isSessionTranscriptLeafControl (tn_entry n)"
  by (induction ns arbitrary: q) (auto dest: through_visible)

lemma tree_by_own_id: "by_own_id (tt_byId (scanSessionTranscriptTree rows))"
  using scan_rows_ok [of rows] by (simp add: scanSessionTranscriptTree_def scan_ok_def Let_def)

text \<open>
  C39: Selecting the path of any row of a scanned transcript always returns, and returns exactly the
  visible ancestry of that row up to the root or to a missing parent, oldest first, with leaf
  controls skipped; only when the parents run in a circle, so that there is no such ancestry, it is
  empty.
\<close>

theorem selected_path_is_ancestry:
  "if \<exists>ns. ancestry (tt_byId (scanSessionTranscriptTree rows)) (Some l) ns
   then ancestry (tt_byId (scanSessionTranscriptTree rows)) (Some l)
     (rev (selectSessionTranscriptTreePathNodes (scanSessionTranscriptTree rows) (Some l)))
   else selectSessionTranscriptTreePathNodes (scanSessionTranscriptTree rows) (Some l) = []"
  by (rule selected_ancestry [OF tree_by_own_id])

end
