(* ===== verification/Transcript_Linear.thy ===== *)
theory Transcript_Linear
  imports Transcript_Facts
begin

section \<open>Transcript trees: plain appends\<close>

text \<open>
  The transcript an appender writes that links each message to the one before it: the scan rebuilds
  the chain, and the readers select every row in the order it was written.
\<close>

subsection \<open>Ancestries are unique\<close>

inductive_cases through_NoneE: "through m None n"
inductive_cases through_SomeE: "through m (Some c) n"
inductive_cases stops_SomeE: "stops m (Some c)"

lemma through_unique: "through m q n \<Longrightarrow> through m q n' \<Longrightarrow> n' = n"
proof (induction rule: through.induct)
  case (here c n)
  from here.prems show ?case by (rule through_SomeE) (use here.hyps in auto)
next
  case (over c d n)
  from over.prems show ?case by (rule through_SomeE) (use over.hyps over.IH in auto)
qed

lemma through_not_stops: "through m q n \<Longrightarrow> \<not> stops m q"
proof (induction rule: through.induct)
  case (here c n)
  then show ?case by (auto elim: stops_SomeE)
next
  case (over c d n)
  then show ?case by (auto elim: stops_SomeE)
qed

lemma ancestry_unique: "ancestry m q xs \<Longrightarrow> ancestry m q ys \<Longrightarrow> xs = ys"
proof (induction xs arbitrary: q ys)
  case Nil
  then show ?case by (cases ys) (auto dest: through_not_stops)
next
  case (Cons x xs)
  show ?case
  proof (cases ys)
    case Nil
    with Cons.prems through_not_stops show ?thesis by auto
  next
    case (Cons y ys')
    with Cons.prems have "y = x" by (auto dest: through_unique)
    with Cons Cons.prems Cons.IH show ?thesis by auto
  qed
qed

subsection \<open>The rows\<close>

type_synonym message_row = "string \<times> (string \<times> json) list"

definition message_json :: "string option \<Rightarrow> message_row \<Rightarrow> json" where
  "message_json q r = JObj ((''type'', JStr ''message'') # (''id'', JStr (fst r))
     # (''parentId'', json_ref q) # snd r)"

fun appended :: "string option \<Rightarrow> message_row list \<Rightarrow> json list" where
  "appended q [] = []"
| "appended q (r # rs) = message_json q r # appended (Some (fst r)) rs"

text \<open>A usable id and a payload that does not ask for a side append.\<close>

definition plain_row :: "message_row \<Rightarrow> bool" where
  "plain_row r \<longleftrightarrow> js_trim (fst r) \<noteq> [] \<and> jprop (snd r) ''appendMode'' = None"

definition good_ref :: "string option \<Rightarrow> bool" where
  "good_ref q = (case q of None \<Rightarrow> True | Some s \<Rightarrow> js_trim s \<noteq> [])"

lemma reference_ref: "good_ref q \<Longrightarrow> reference (Some (json_ref q)) = Some q"
  by (cases q) (auto simp: good_ref_def reference_def json_ref_def readNonEmptyString_def)

lemma message_parses:
  assumes "plain_row r" "good_ref q"
  shows "parseSessionTranscriptTreeEntry (message_json q r)
    = Some \<lparr>te_id = fst r, te_parentId = q, te_leafId = Some (Some (fst r)),
        te_appendParentId = Some (fst r), te_side = False\<rparr>"
  using assms reference_ref [OF assms(2)]
  by (simp add: message_json_def parseSessionTranscriptTreeEntry_def jprop_def field_is_def plain_row_def
      readNonEmptyString_def isCanonicalSessionTranscriptEntry_def isCanonicalSessionEntryType_def
      canonical_types_def)

lemma message_kind [simp]:
  "\<not> isSessionTranscriptLeafControl (message_json q r)"
  "isCanonicalSessionTranscriptEntry (message_json q r)"
  "\<not> is_reset (message_json q r)"
  by (simp_all add: message_json_def isSessionTranscriptLeafControl_def field_is_def jprop_def
      isCanonicalSessionTranscriptEntry_def isCanonicalSessionEntryType_def canonical_types_def
      is_reset_def)

subsection \<open>The scan\<close>

definition message_node :: "string option \<Rightarrow> nat \<Rightarrow> message_row \<Rightarrow> tree_node" where
  "message_node q k r = node_of \<lparr>te_id = fst r, te_parentId = q, te_leafId = Some (Some (fst r)),
     te_appendParentId = Some (fst r), te_side = False\<rparr> (message_json q r) k"

fun message_nodes :: "string option \<Rightarrow> nat \<Rightarrow> message_row list \<Rightarrow> tree_node list" where
  "message_nodes q k [] = []"
| "message_nodes q k (r # rs) = message_node q k r # message_nodes (Some (fst r)) (Suc k) rs"

fun last_ref :: "string option \<Rightarrow> message_row list \<Rightarrow> string option" where
  "last_ref q [] = q"
| "last_ref q (r # rs) = last_ref (Some (fst r)) rs"

definition nodes_map :: "tree_node list \<Rightarrow> (string, tree_node) jmap" where
  "nodes_map ns = map (\<lambda>n. (te_id n, n)) ns"

text \<open>The state after plain appends: nothing but the chain.\<close>

definition linear_state :: "scan_state \<Rightarrow> tree_node list \<Rightarrow> string option \<Rightarrow> bool" where
  "linear_state st ns q \<longleftrightarrow> sc_nodes st = ns \<and> sc_byId st = nodes_map ns \<and> sc_leafId st = q
     \<and> sc_appendParentId st = q \<and> sc_latestResetId st = None
     \<and> \<not> sc_hasInvalidLeafControl st \<and> (sc_hasExplicitLeafUpdate st \<longleftrightarrow> ns \<noteq> [])
     \<and> list_all (\<lambda>n. \<not> isSessionTranscriptLeafControl (tn_entry n)) ns
     \<and> (case q of None \<Rightarrow> True | Some c \<Rightarrow> c \<in> te_id ` set ns)"

lemma nodes_map_get: "distinct (map te_id ns) \<Longrightarrow> n \<in> set ns \<Longrightarrow> jm_get (nodes_map ns) (te_id n) = Some n"
  by (induction ns) (auto simp: nodes_map_def)

lemma nodes_map_put: "te_id n \<notin> te_id ` set ns \<Longrightarrow> jm_put (te_id n) n (nodes_map ns) = nodes_map (ns @ [n])"
  by (induction ns) (auto simp: nodes_map_def)

lemma nodes_map_known: "jm_get (nodes_map ns) c = Some n \<Longrightarrow> n \<in> set ns"
  by (auto simp: nodes_map_def dest: jm_get_in)

lemma nodes_map_has: "jm_has (nodes_map ns) c \<longleftrightarrow> c \<in> te_id ` set ns"
  by (induction ns) (auto simp: nodes_map_def jm_has_def)

lemma linear_resolve:
  assumes "linear_state st ns q"
  shows "resolveCanonicalParentId q (sc_byId st) = q"
proof (cases q)
  case (Some c)
  with assms obtain n where n: "jm_get (nodes_map ns) c = Some n"
    by (auto simp: linear_state_def nodes_map_has [symmetric] jm_has_def)
  with assms have "\<not> isSessionTranscriptLeafControl (tn_entry n)"
    using nodes_map_known [OF n] by (auto simp: linear_state_def list_all_iff)
  with Some n assms show ?thesis
    by (simp add: resolveCanonicalParentId_def canonical_parent.simps linear_state_def)
qed (simp add: resolveCanonicalParentId_def canonical_parent.simps)

lemma linear_step:
  assumes "linear_state st ns q" "plain_row r" "good_ref q" "fst r \<notin> te_id ` set ns"
  shows "linear_state (scan_row st (k, message_json q r)) (ns @ [message_node q k r]) (Some (fst r))"
proof -
  let ?te = "\<lparr>te_id = fst r, te_parentId = q, te_leafId = Some (Some (fst r)),
      te_appendParentId = Some (fst r), te_side = False\<rparr>"
  have st: "sc_leafId st = q" "sc_appendParentId st = q" "sc_latestResetId st = None"
    using assms(1) by (simp_all add: linear_state_def)
  have explicit: "clamp_leaf_control st (message_json q r) (parseSessionTranscriptTreeEntry (message_json q r))
      = Some ?te"
    using st by (simp add: message_parses [OF assms(2,3)] clamp_leaf_control_def)
  have valid: "\<not> invalid_leaf_control st (message_json q r) (Some ?te)"
    by (simp add: invalid_leaf_control_def)
  have "logical_parent st True ?te = q"
    using st by (simp add: logical_parent_def Let_def)
  then have node: "node_of (normalize_parent st (message_json q r) True ?te) (message_json q r) k
      = message_node q k r"
    using linear_resolve [OF assms(1)] by (simp add: normalize_parent_def message_node_def)
  have "scan_row st (k, message_json q r) = scan_node st True (message_node q k r)"
    unfolding scan_row_def Let_def prod.case explicit
    using valid node by simp
  with assms(1,4) nodes_map_put [of "message_node q k r" ns] show ?thesis
    by (simp add: linear_state_def scan_node_def track_reset_def message_node_def Let_def)
qed

lemma linear_scan:
  assumes "linear_state st ns q" "good_ref q" "list_all plain_row rs" "distinct (map te_id ns @ map fst rs)"
  shows "linear_state (foldl scan_row st (List.enumerate k (appended q rs)))
    (ns @ message_nodes q k rs) (last_ref q rs)"
  using assms
proof (induction rs arbitrary: st ns q k)
  case (Cons r rs)
  have "linear_state (scan_row st (k, message_json q r)) (ns @ [message_node q k r]) (Some (fst r))"
    using Cons.prems by (intro linear_step) (auto simp: image_iff)
  moreover have "good_ref (Some (fst r))" using Cons.prems(3) by (simp add: good_ref_def plain_row_def)
  moreover have "te_id (message_node q k r) = fst r" by (simp add: message_node_def)
  ultimately have "linear_state (foldl scan_row (scan_row st (k, message_json q r))
      (List.enumerate (Suc k) (appended (Some (fst r)) rs)))
      ((ns @ [message_node q k r]) @ message_nodes (Some (fst r)) (Suc k) rs) (last_ref (Some (fst r)) rs)"
    using Cons.prems by (intro Cons.IH) auto
  then show ?case by simp
qed simp

subsection \<open>Its path\<close>

lemma message_nodes_append:
  "message_nodes q k (rs @ [r]) = message_nodes q k rs @ [message_node (last_ref q rs) (k + length rs) r]"
  by (induction rs arbitrary: q k) simp_all

lemma last_ref_append [simp]: "last_ref q (rs @ [r]) = Some (fst r)"
  by (induction rs arbitrary: q) simp_all

lemma message_node_sel [simp]:
  "te_id (message_node q k r) = fst r" "te_parentId (message_node q k r) = q"
  "tn_index (message_node q k r) = k" "tn_entry (message_node q k r) = message_json q r"
  by (simp_all add: message_node_def)

lemma message_nodes_ids: "map te_id (message_nodes q k rs) = map fst rs"
  by (induction rs arbitrary: q k) simp_all

lemma linear_ancestry:
  assumes "\<And>n. n \<in> set (message_nodes None k rs) \<Longrightarrow> jm_get m (te_id n) = Some n"
  shows "ancestry m (last_ref None rs) (rev (message_nodes None k rs))"
  using assms
proof (induction rs rule: rev_induct)
  case (snoc r rs)
  let ?n = "message_node (last_ref None rs) (k + length rs) r"
  from snoc.prems [of ?n] have "jm_get m (fst r) = Some ?n" by (simp add: message_nodes_append)
  then have "through m (Some (fst r)) ?n" by (rule through.here) simp
  moreover have "ancestry m (last_ref None rs) (rev (message_nodes None k rs))"
    by (rule snoc.IH) (simp add: snoc.prems message_nodes_append)
  ultimately show ?case by (simp add: message_nodes_append)
qed (simp add: stops.root)

lemma entries_of_all:
  "xs = pre @ post \<Longrightarrow> length rs = length post \<Longrightarrow> entries_of xs (message_nodes q (length pre) rs) = post"
proof (induction rs arbitrary: pre post q)
  case (Cons r rs)
  then obtain x post' where post: "post = x # post'" by (cases post) auto
  with Cons.IH [of "pre @ [x]" post' "Some (fst r)"] Cons.prems show ?case
    by (simp add: entries_of_def List.map_filter_simps entry_at_def nth_append)
qed (simp add: entries_of_def)

lemma length_appended [simp]: "length (appended q rs) = length rs"
  by (induction rs arbitrary: q) simp_all

text \<open>
  A transcript written by plain appends, each message linked to the one before and with its own
  id, is read back whole: the active leaf is the last message, its path is all rows in the order of
  writing, and the active entries are the transcript itself.
\<close>

theorem appended_transcript_is_active:
  assumes "list_all plain_row rs" "distinct (map fst rs)"
  shows "tt_leafId (scanSessionTranscriptTree (appended None rs)) = last_ref None rs
    \<and> map te_id (selectSessionTranscriptTreePathNodes (scanSessionTranscriptTree (appended None rs))
        (last_ref None rs)) = map fst rs
    \<and> selectSessionTranscriptActiveEntries (appended None rs) id None failClosed = appended None rs"
proof -
  let ?t = "scanSessionTranscriptTree (appended None rs)"
  let ?ns = "message_nodes None 0 rs"
  have "linear_state scan_start [] None" by (simp add: linear_state_def scan_start_def nodes_map_def)
  from linear_scan [OF this _ assms(1), of 0] assms(2)
  have lin: "linear_state (scan_rows (appended None rs)) ?ns (last_ref None rs)"
    by (simp add: good_ref_def scan_rows_def)
  then have t: "tt_byId ?t = nodes_map ?ns" "tt_leafId ?t = last_ref None rs"
    "\<not> tt_hasInvalidLeafControl ?t" "tt_hasExplicitLeafUpdate ?t \<longleftrightarrow> ?ns \<noteq> []"
    by (simp_all add: linear_state_def scanSessionTranscriptTree_def Let_def)
  have anc: "ancestry (tt_byId ?t) (last_ref None rs) (rev ?ns)"
    by (rule linear_ancestry) (simp add: t nodes_map_get message_nodes_ids assms(2))
  have path: "selectSessionTranscriptTreePathNodes ?t (last_ref None rs) = ?ns"
  proof (cases "last_ref None rs")
    case None
    with anc have "?ns = []"
      by (cases "rev ?ns") (auto elim: through_NoneE)
    with None show ?thesis by (simp add: selectSessionTranscriptTreePathNodes_def)
  next
    case (Some l)
    from selected_ancestry [OF tree_by_own_id, of "appended None rs" l] anc Some
    have "ancestry (tt_byId ?t) (Some l) (rev (selectSessionTranscriptTreePathNodes ?t (Some l)))"
      by (auto split: if_splits)
    from ancestry_unique [OF this anc [unfolded Some]] Some show ?thesis by simp
  qed
  have "selectSessionTranscriptActiveEntries (appended None rs) id None failClosed = appended None rs"
  proof (cases rs)
    case (Cons r rs')
    have "entries_of (appended None rs) ?ns = appended None rs"
      using entries_of_all [of "appended None rs" "[]" "appended None rs" rs None] by simp
    with Cons t path show ?thesis
      by (simp add: selectSessionTranscriptActiveEntries_def Let_def)
  next
    case Nil
    then show ?thesis using t by (simp add: selectSessionTranscriptActiveEntries_def Let_def)
  qed
  with t path show ?thesis by (simp add: message_nodes_ids)
qed

theorem appended_transcript_is_active_witness:
  "selectSessionTranscriptActiveEntries
     (appended None [(''a'', []), (''b'', [(''text'', JStr ''hi'')])]) id None True
   = appended None [(''a'', []), (''b'', [(''text'', JStr ''hi'')])]"
  using appended_transcript_is_active [of "[(''a'', []), (''b'', [(''text'', JStr ''hi'')])]" True]
  by (simp add: plain_row_def jprop_def js_trim_def js_space_def)

end
