(* ===== verification/Board_Layout.thy ===== *)
theory Board_Layout
  imports Js_Prelude Json "HOL-Library.Product_Lexorder"
begin

section \<open>The layout of a board\<close>

text \<open>
  \<^verbatim>\<open>src/boards/board-layout.ts\<close> with the types of
  \<^verbatim>\<open>packages/gateway-protocol/src/schema/board.ts\<close>: a board is a list of tabs and a
  list of widgets, each carrying its position, and an operation rewrites both in place. An object
  the code holds by reference is the index of its entry in the list it was found in; the clones the
  code takes before it mutates are no steps of the model, where values are immutable. The
  fields a widget only has in a response (frame urls, view tickets) are not stored and not modelled.
  Numbers of a request are finite (they come out of JSON): \<open>rat\<close>.
\<close>

datatype chat_dock = DockLeft | DockRight | DockBottom | DockHidden

datatype board_size = SizeSm | SizeMd | SizeLg | SizeXl | SizeFull

datatype content_kind = KHtml | KMcpApp | KPlugin

datatype presentation = Card | FullBleed | Frameless

datatype height_mode = HeightAuto | HeightFixed

datatype grant_state = GNone | GPending | GGranted | GRejected

record board_declared =
  bd_netOrigins :: "string list option"
  bd_tools :: "string list option"

record board_tab =
  bt_tabId :: string
  bt_title :: string
  bt_position :: int
  bt_chatDock :: chat_dock

record board_widget =
  bw_name :: string
  bw_tabId :: string
  bw_title :: "string option"
  bw_contentKind :: content_kind
  bw_presentation :: "presentation option"
  bw_heightMode :: "height_mode option"
  bw_pluginKind :: "string option"
  bw_props :: "json option"
  bw_sizeW :: int
  bw_sizeH :: int
  bw_position :: int
  bw_grantState :: grant_state
  bw_revision :: int
  bw_instanceId :: "string option"
  bw_declaredSummary :: "string list option"
  bw_declared :: "board_declared option"

record board_layout =
  bl_tabs :: "board_tab list"
  bl_widgets :: "board_widget list"

datatype board_op =
    TabCreate string string "chat_dock option"
  | TabUpdate string "string option" "chat_dock option" "rat option"
  | TabDelete string
  | TabsReorder "string list"
  | WidgetMove string "string option" "rat option" "string option"
  | WidgetResize string rat rat "height_mode option"
  | WidgetRemove string

text \<open>
  The codes of a \<^verbatim>\<open>BoardValidationError\<close>; \<open>BTypeError\<close> is JavaScript's own error
  when a property of undefined is written.
\<close>

datatype board_error = BConflict | BInvalid | BNotFound | BTypeError

fun BOARD_SIZE_PRESETS :: "board_size \<Rightarrow> int \<times> int" where
  "BOARD_SIZE_PRESETS SizeSm = (3, 3)"
| "BOARD_SIZE_PRESETS SizeMd = (6, 4)"
| "BOARD_SIZE_PRESETS SizeLg = (8, 6)"
| "BOARD_SIZE_PRESETS SizeXl = (12, 8)"
| "BOARD_SIZE_PRESETS SizeFull = (12, 8)"

subsection \<open>Helpers\<close>

definition js_trunc :: "rat \<Rightarrow> int" where
  "js_trunc r = (if r \<ge> 0 then \<lfloor>r\<rfloor> else \<lceil>r\<rceil>)"

definition clampInteger :: "rat \<Rightarrow> int \<Rightarrow> int \<Rightarrow> int" where
  "clampInteger v mn mx = min mx (max mn (js_trunc v))"

text \<open>\<^verbatim>\<open>findIndex\<close>; the entries other than the one at an index; \<^verbatim>\<open>splice(k, 0, x)\<close>.\<close>

fun find_index :: "('a \<Rightarrow> bool) \<Rightarrow> 'a list \<Rightarrow> nat option" where
  "find_index p [] = None"
| "find_index p (x # xs) = (if p x then Some 0 else map_option Suc (find_index p xs))"

definition without :: "nat \<Rightarrow> 'a list \<Rightarrow> 'a list" where
  "without i xs = take i xs @ drop (Suc i) xs"

definition splice_in :: "nat \<Rightarrow> 'a \<Rightarrow> 'a list \<Rightarrow> 'a list" where
  "splice_in k x xs = take k xs @ x # drop k xs"

definition number_tabs :: "board_tab list \<Rightarrow> board_tab list" where
  "number_tabs ts = map (\<lambda>(i, t). t\<lparr>bt_position := int i\<rparr>) (enumerate 0 ts)"

definition number_in_order :: "board_widget list \<Rightarrow> board_widget list" where
  "number_in_order ws = map (\<lambda>(i, w). w\<lparr>bw_position := int i\<rparr>) (enumerate 0 ws)"

subsection \<open>Normal form\<close>

text \<open>\<open>next tab\<close> is the next position the Map holds for a tab, 0 when it holds none.\<close>

fun number_widgets :: "(string \<Rightarrow> int) \<Rightarrow> board_widget list \<Rightarrow> board_widget list" where
  "number_widgets next [] = []"
| "number_widgets next (w # ws) =
     w\<lparr>bw_position := next (bw_tabId w)\<rparr>
       # number_widgets (next(bw_tabId w := next (bw_tabId w) + 1)) ws"

text \<open>A later tab with the same id would win in the Map of tab positions.\<close>

definition tab_position :: "board_tab list \<Rightarrow> string \<Rightarrow> int" where
  "tab_position ts tabId =
     (case map_of (rev (map (\<lambda>t. (bt_tabId t, bt_position t)) ts)) tabId of
        Some p \<Rightarrow> p
      | None \<Rightarrow> js_max_safe)"

definition normalizeBoardLayout :: "board_layout \<Rightarrow> board_layout" where
  "normalizeBoardLayout layout =
     (let tabs = number_tabs (sort_key bt_position (bl_tabs layout));
          widgets = sort_key (\<lambda>w. (tab_position tabs (bw_tabId w), bw_position w)) (bl_widgets layout)
      in \<lparr>bl_tabs = tabs, bl_widgets = number_widgets (\<lambda>_. 0) widgets\<rparr>)"

subsection \<open>Operations\<close>

definition requireTab :: "board_layout \<Rightarrow> string \<Rightarrow> board_error + nat" where
  "requireTab layout tabId =
     (case find_index (\<lambda>t. bt_tabId t = tabId) (bl_tabs layout) of
        None \<Rightarrow> Inl BNotFound
      | Some i \<Rightarrow> Inr i)"

definition requireWidget :: "board_layout \<Rightarrow> string \<Rightarrow> board_error + nat" where
  "requireWidget layout name =
     (case find_index (\<lambda>w. bw_name w = name) (bl_widgets layout) of
        None \<Rightarrow> Inl BNotFound
      | Some i \<Rightarrow> Inr i)"

definition moveTab :: "board_layout \<Rightarrow> nat \<Rightarrow> rat \<Rightarrow> board_layout" where
  "moveTab layout i position =
     (let ordered = sort_key bt_position (without i (bl_tabs layout));
          k = nat (clampInteger position 0 (int (length ordered)))
      in layout\<lparr>bl_tabs := number_tabs (splice_in k (bl_tabs layout ! i) ordered)\<rparr>)"

text \<open>Where the moved widget goes among the widgets of the target tab.\<close>

definition target_position ::
    "board_widget list \<Rightarrow> string \<Rightarrow> rat option \<Rightarrow> string option \<Rightarrow> board_error + nat" where
  "target_position targetWidgets name position after =
     (case after of
        Some a \<Rightarrow>
          if a = name then Inl BInvalid
          else (case find_index (\<lambda>w. bw_name w = a) targetWidgets of
                  None \<Rightarrow> Inl BNotFound
                | Some k \<Rightarrow> Inr (Suc k))
      | None \<Rightarrow>
          (case position of
             Some p \<Rightarrow> Inr (nat (clampInteger p 0 (int (length targetWidgets))))
           | None \<Rightarrow> Inr (length targetWidgets)))"

definition moveWidget ::
    "board_layout \<Rightarrow> nat \<Rightarrow> string \<Rightarrow> rat option \<Rightarrow> string option \<Rightarrow> board_error + board_layout" where
  "moveWidget layout i targetTabId position after =
     bnd (requireTab layout targetTabId) (\<lambda>_.
     if position \<noteq> None \<and> after \<noteq> None then Inl BInvalid
     else
      (let rest = without i (bl_widgets layout);
           widget = bl_widgets layout ! i;
           targetWidgets = sort_key bw_position (filter (\<lambda>w. bw_tabId w = targetTabId) rest)
       in bnd (target_position targetWidgets (bw_name widget) position after) (\<lambda>k.
          let targets = number_in_order
                (splice_in k (widget\<lparr>bw_tabId := targetTabId\<rparr>) targetWidgets);
              others = filter (\<lambda>w. bw_tabId w \<noteq> targetTabId) rest
          in Inr (layout\<lparr>bl_widgets := others @ targets\<rparr>))))"

definition tabUpdate ::
    "board_layout \<Rightarrow> string \<Rightarrow> string option \<Rightarrow> chat_dock option \<Rightarrow> rat option \<Rightarrow> board_error + board_layout" where
  "tabUpdate layout tabId title chatDock position =
     bnd (requireTab layout tabId) (\<lambda>i.
     if title = None \<and> chatDock = None \<and> position = None then Inl BInvalid
     else
      (let t0 = bl_tabs layout ! i;
           t1 = (case title of Some s \<Rightarrow> t0\<lparr>bt_title := s\<rparr> | None \<Rightarrow> t0);
           t2 = (case chatDock of Some d \<Rightarrow> t1\<lparr>bt_chatDock := d\<rparr> | None \<Rightarrow> t1);
           layout' = layout\<lparr>bl_tabs := (bl_tabs layout)[i := t2]\<rparr>
       in Inr (case position of Some p \<Rightarrow> moveTab layout' i p | None \<Rightarrow> layout')))"

text \<open>
  The widgets of a deleted tab move to the first remaining one, with a position after all others.
\<close>

definition tabDelete :: "board_layout \<Rightarrow> string \<Rightarrow> board_error + board_layout" where
  "tabDelete layout tabId =
     bnd (requireTab layout tabId) (\<lambda>i.
     let remainingTabs = sort_key bt_position (without i (bl_tabs layout));
         tabWidgets = filter (\<lambda>w. bw_tabId w = bt_tabId (bl_tabs layout ! i)) (bl_widgets layout)
     in if remainingTabs = [] \<and> tabWidgets \<noteq> [] then Inl BInvalid
        else Inr (layout\<lparr>bl_tabs := remainingTabs,
          bl_widgets := map (\<lambda>w. if bw_tabId w = bt_tabId (bl_tabs layout ! i)
              then w\<lparr>bw_tabId := bt_tabId (hd remainingTabs), bw_position := js_max_safe\<rparr> else w)
            (bl_widgets layout)\<rparr>))"

text \<open>\<^verbatim>\<open>byId.get(tabId)!\<close> would be undefined for an id no tab has.\<close>

definition tabsReorder :: "board_layout \<Rightarrow> string list \<Rightarrow> board_error + board_layout" where
  "tabsReorder layout tabIds =
     (if length tabIds \<noteq> length (bl_tabs layout)
         \<or> card (set tabIds) \<noteq> length tabIds
         \<or> list_ex (\<lambda>i. \<not> list_ex (\<lambda>t. bt_tabId t = i) (bl_tabs layout)) tabIds
      then Inl BInvalid
      else
       (let byId = map_of (rev (map (\<lambda>t. (bt_tabId t, t)) (bl_tabs layout)))
        in bnd (map_res (\<lambda>i. case byId i of None \<Rightarrow> Inl BTypeError | Some t \<Rightarrow> Inr t) tabIds)
             (\<lambda>ts. Inr (layout\<lparr>bl_tabs := number_tabs ts\<rparr>))))"

fun applyBoardOp :: "board_layout \<Rightarrow> board_op \<Rightarrow> board_error + board_layout" where
  "applyBoardOp layout (TabCreate tabId title chatDock) =
     (if list_ex (\<lambda>t. bt_tabId t = tabId) (bl_tabs layout) then Inl BConflict
      else Inr (layout\<lparr>bl_tabs := bl_tabs layout @
             [\<lparr>bt_tabId = tabId, bt_title = title, bt_position = int (length (bl_tabs layout)),
               bt_chatDock = case_option DockRight id chatDock\<rparr>]\<rparr>))"
| "applyBoardOp layout (TabUpdate tabId title chatDock position) =
     tabUpdate layout tabId title chatDock position"
| "applyBoardOp layout (TabDelete tabId) = tabDelete layout tabId"
| "applyBoardOp layout (TabsReorder tabIds) = tabsReorder layout tabIds"
| "applyBoardOp layout (WidgetMove name tabId position after) =
     bnd (requireWidget layout name) (\<lambda>i.
       moveWidget layout i (case_option (bw_tabId (bl_widgets layout ! i)) id tabId) position after)"
| "applyBoardOp layout (WidgetResize name sizeW sizeH heightMode) =
     bnd (requireWidget layout name) (\<lambda>i.
       Inr (layout\<lparr>bl_widgets := (bl_widgets layout)
         [i := (bl_widgets layout ! i)\<lparr>bw_sizeW := clampInteger sizeW 1 12,
             bw_sizeH := clampInteger sizeH 1 20,
             bw_heightMode := Some (case_option HeightFixed id heightMode)\<rparr>]\<rparr>))"
| "applyBoardOp layout (WidgetRemove name) =
     bnd (requireWidget layout name) (\<lambda>_.
       Inr (layout\<lparr>bl_widgets := filter (\<lambda>w. bw_name w \<noteq> name) (bl_widgets layout)\<rparr>))"

fun apply_each :: "board_layout \<Rightarrow> board_op list \<Rightarrow> board_error + board_layout" where
  "apply_each layout [] = Inr layout"
| "apply_each layout (op # ops) =
     bnd (applyBoardOp layout op) (\<lambda>next. apply_each (normalizeBoardLayout next) ops)"

definition applyBoardOps :: "board_layout \<Rightarrow> board_op list \<Rightarrow> board_error + board_layout" where
  "applyBoardOps layout ops =
     bnd (apply_each layout ops) (\<lambda>next. Inr (normalizeBoardLayout next))"

subsection \<open>Placing a widget\<close>

text \<open>
  \<^verbatim>\<open>Object.assign(existing, widget, { tabId, position })\<close>: a key the new widget does
  not have keeps its old value.
\<close>

definition assigned :: "'a option \<Rightarrow> 'a option \<Rightarrow> 'a option" where
  "assigned old new = (case new of Some v \<Rightarrow> Some v | None \<Rightarrow> old)"

definition assign_widget :: "board_widget \<Rightarrow> board_widget \<Rightarrow> string \<Rightarrow> board_widget" where
  "assign_widget existing widget tabId =
     \<lparr>bw_name = bw_name widget, bw_tabId = tabId,
      bw_title = assigned (bw_title existing) (bw_title widget),
      bw_contentKind = bw_contentKind widget,
      bw_presentation = assigned (bw_presentation existing) (bw_presentation widget),
      bw_heightMode = assigned (bw_heightMode existing) (bw_heightMode widget),
      bw_pluginKind = assigned (bw_pluginKind existing) (bw_pluginKind widget),
      bw_props = assigned (bw_props existing) (bw_props widget),
      bw_sizeW = bw_sizeW widget, bw_sizeH = bw_sizeH widget,
      bw_position = bw_position existing,
      bw_grantState = bw_grantState widget, bw_revision = bw_revision widget,
      bw_instanceId = assigned (bw_instanceId existing) (bw_instanceId widget),
      bw_declaredSummary = assigned (bw_declaredSummary existing) (bw_declaredSummary widget),
      bw_declared = assigned (bw_declared existing) (bw_declared widget)\<rparr>"

definition insertBoardWidget ::
    "board_layout \<Rightarrow> board_widget \<Rightarrow> string \<Rightarrow> string option \<Rightarrow> bool \<Rightarrow> board_error + board_layout" where
  "insertBoardWidget layout widget tabId after move =
     bnd (case find_index (\<lambda>w. bw_name w = bw_name widget) (bl_widgets layout) of
            Some i \<Rightarrow>
              (let next = layout\<lparr>bl_widgets := (bl_widgets layout)
                     [i := assign_widget (bl_widgets layout ! i) widget tabId]\<rparr>
               in if move then moveWidget next i tabId None after else Inr next)
          | None \<Rightarrow>
              (let next = layout\<lparr>bl_widgets := bl_widgets layout @ [widget\<lparr>bw_tabId := tabId\<rparr>]\<rparr>
               in bnd (requireWidget next (bw_name widget)) (\<lambda>i.
                    moveWidget next i tabId None after)))
       (\<lambda>next. Inr (normalizeBoardLayout next))"

end
