(* ===== verification/Board_Capabilities.thy ===== *)
theory Board_Capabilities
  imports Board_Layout "HOL-Library.Char_ord" "HOL-Library.List_Lexorder"
begin

section \<open>What a widget may declare\<close>

text \<open>
  \<^verbatim>\<open>src/boards/board-capabilities.ts\<close> and the normalization of a content security
  policy in \<^verbatim>\<open>src/agents/sandbox-host.ts\<close> it checks its origins with. The URL parser
  of the runtime is the parameter \<open>parse_url\<close>: the parts of the URL a string denotes, or \<open>None\<close>
  where \<^verbatim>\<open>new URL\<close> throws.
\<close>

record url_parts =
  url_protocol :: string
  url_username :: string
  url_password :: string
  url_hostname :: string
  url_pathname :: string
  url_search :: string
  url_hash :: string
  url_origin :: string

type_synonym url_parser = "string \<Rightarrow> url_parts option"

definition MAX_DECLARED_ORIGINS :: nat where
  "MAX_DECLARED_ORIGINS = 32"

definition MAX_DECLARED_TOOLS :: nat where
  "MAX_DECLARED_TOOLS = 64"

definition BOARD_WIDGET_TOOL_MAX_LENGTH :: nat where
  "BOARD_WIDGET_TOOL_MAX_LENGTH = length ''cron.trigger:'' + 256"

definition control_char :: "char \<Rightarrow> bool" where
  "control_char c \<longleftrightarrow> of_char c \<le> (31 :: nat) \<or> of_char c = (127 :: nat)"

definition hasControlCharacter :: "string \<Rightarrow> bool" where
  "hasControlCharacter s \<longleftrightarrow> list_ex control_char s"

subsection \<open>Host names\<close>

definition digit_char :: "char \<Rightarrow> bool" where
  "digit_char c \<longleftrightarrow> c \<in> set ''0123456789''"

definition letter_char :: "char \<Rightarrow> bool" where
  "letter_char c \<longleftrightarrow> c \<in> set ''abcdefghijklmnopqrstuvwxyzABCDEFGHIJKLMNOPQRSTUVWXYZ''"

text \<open>\<^verbatim>\<open>/^\[[0-9A-Fa-f:.]+\]$/u\<close>\<close>

definition bracketed_host :: "string \<Rightarrow> bool" where
  "bracketed_host h \<longleftrightarrow> length h \<ge> 3 \<and> hd h = CHR ''['' \<and> last h = CHR '']''
     \<and> list_all (\<lambda>c. digit_char c \<or> c \<in> set ''abcdefABCDEF:.'') (butlast (tl h))"

text \<open>\<^verbatim>\<open>/^[A-Za-z0-9.-]+$/u\<close>\<close>

definition plain_host :: "string \<Rightarrow> bool" where
  "plain_host h \<longleftrightarrow> h \<noteq> [] \<and> list_all (\<lambda>c. letter_char c \<or> digit_char c \<or> c \<in> set ''.-'') h"

text \<open>\<^verbatim>\<open>/^(?:\*\.)?[A-Za-z0-9.-]+$/u\<close>\<close>

definition wildcard_host :: "string \<Rightarrow> bool" where
  "wildcard_host h \<longleftrightarrow> plain_host h \<or> take 2 h = ''*.'' \<and> plain_host (drop 2 h)"

subsection \<open>Origins and tools\<close>

definition normalizeBoardNetOrigin :: "url_parser \<Rightarrow> string \<Rightarrow> board_error + string" where
  "normalizeBoardNetOrigin parse_url v =
     (if v \<noteq> js_trim v \<or> length v = 0 \<or> length v > 2048 then Inl BInvalid
      else (case parse_url v of
              None \<Rightarrow> Inl BInvalid
            | Some p \<Rightarrow>
                if url_protocol p \<noteq> ''https:'' \<or> url_username p \<noteq> [] \<or> url_password p \<noteq> []
                   \<or> url_pathname p \<noteq> ''/'' \<or> url_search p \<noteq> [] \<or> url_hash p \<noteq> []
                   \<or> \<not> (bracketed_host (url_hostname p) \<or> plain_host (url_hostname p))
                   \<or> CHR ''*'' \<in> set (url_hostname p)
                   \<or> (url_hostname p \<noteq> [] \<and> last (url_hostname p) = CHR ''.'')
                then Inl BInvalid
                else Inr (url_origin p)))"

definition normalizeTool :: "string \<Rightarrow> board_error + string" where
  "normalizeTool v =
     (let tool = js_trim v
      in if length tool = 0 \<or> length tool > BOARD_WIDGET_TOOL_MAX_LENGTH \<or> tool \<noteq> v
            \<or> hasControlCharacter tool
         then Inl BInvalid else Inr tool)"

subsection \<open>The sandbox policy\<close>

text \<open>
  \<^verbatim>\<open>normalizeDomains\<close>: the entries kept, as origins; undefined when none is.
\<close>

definition domain_entry :: "url_parser \<Rightarrow> bool \<Rightarrow> string \<Rightarrow> url_parts option" where
  "domain_entry parse_url allowWebSocket e =
     (if length e = 0 \<or> length e > 2048 \<or> e \<noteq> js_trim e \<or> hasControlCharacter e then None
      else (case parse_url e of
              None \<Rightarrow> None
            | Some p \<Rightarrow>
                if url_protocol p \<notin> set (if allowWebSocket
                       then [''http:'', ''https:'', ''ws:'', ''wss:''] else [''http:'', ''https:''])
                   \<or> url_username p \<noteq> [] \<or> url_password p \<noteq> [] \<or> url_pathname p \<noteq> ''/''
                   \<or> url_search p \<noteq> [] \<or> url_hash p \<noteq> []
                   \<or> \<not> (bracketed_host (url_hostname p) \<or> wildcard_host (url_hostname p))
                then None else Some p))"

definition normalizeDomains :: "url_parser \<Rightarrow> bool \<Rightarrow> string list \<Rightarrow> string list option" where
  "normalizeDomains parse_url allowWebSocket value =
     (let entries = map url_origin (List.map_filter (domain_entry parse_url allowWebSocket) value)
      in if entries = [] then None else Some entries)"

text \<open>UTF-8 length of a string of code units below 256, and its quoted JSON form.\<close>

definition utf8_length :: "string \<Rightarrow> nat" where
  "utf8_length s = sum_list (map (\<lambda>c. if of_char c < (128 :: nat) then 1 else 2) s)"

definition hex_digit :: "nat \<Rightarrow> char" where
  "hex_digit n = ''0123456789abcdef'' ! (n mod 16)"

definition json_char :: "char \<Rightarrow> string" where
  "json_char c =
     (if c = CHR 0x22 \<or> c = CHR 0x5C then [CHR 0x5C, c]
      else if c = CHR 0x08 then [CHR 0x5C, CHR ''b'']
      else if c = CHR 0x09 then [CHR 0x5C, CHR ''t'']
      else if c = CHR 0x0A then [CHR 0x5C, CHR ''n'']
      else if c = CHR 0x0C then [CHR 0x5C, CHR ''f'']
      else if c = CHR 0x0D then [CHR 0x5C, CHR ''r'']
      else if of_char c < (32 :: nat)
      then [CHR 0x5C, CHR ''u'', CHR ''0'', CHR ''0'', hex_digit (of_char c div 16), hex_digit (of_char c)]
      else [c])"

definition json_quote :: "string \<Rightarrow> string" where
  "json_quote s = CHR 0x22 # concat (map json_char s) @ [CHR 0x22]"

definition json_list_bytes :: "string list \<Rightarrow> nat" where
  "json_list_bytes ss = 2 + (length ss - 1) + sum_list (map (\<lambda>s. utf8_length (json_quote s)) ss)"

text \<open>
  \<^verbatim>\<open>buildSandboxHostContentSecurityPolicy\<close> for a policy with connection domains only:
  the directives joined by a semicolon and a space.
\<close>

definition sq :: "string \<Rightarrow> string" where
  "sq s = CHR 0x27 # s @ [CHR 0x27]"

definition csp_directives :: "string list \<Rightarrow> string list" where
  "csp_directives connections =
     [''default-src '' @ sq ''none'',
      ''script-src '' @ sq ''self'' @ '' '' @ sq ''unsafe-inline'',
      ''style-src '' @ sq ''self'' @ '' '' @ sq ''unsafe-inline'',
      ''img-src '' @ sq ''self'' @ '' data:'',
      ''media-src '' @ sq ''self'' @ '' data:'',
      ''font-src '' @ sq ''self'',
      ''connect-src '' @ (if connections = [] then sq ''none'' else js_join (CHR '' '') connections),
      ''webrtc '' @ sq ''block'',
      ''frame-src '' @ sq ''none'',
      ''base-uri '' @ sq ''self'',
      ''object-src '' @ sq ''none'',
      ''form-action '' @ sq ''none'',
      ''frame-ancestors http: https:'']"

definition csp_header_bytes :: "string list \<Rightarrow> nat" where
  "csp_header_bytes connections =
     sum_list (map utf8_length (csp_directives connections)) + 2 * (length (csp_directives connections) - 1)"

text \<open>
  \<^verbatim>\<open>normalizeSandboxHostCsp({ connectDomains })\<close>, read at
  \<^verbatim>\<open>?.connectDomains\<close>: \<open>Inl\<close> where it throws. The JSON text is
  \<^verbatim>\<open>{"connectDomains":[...]}\<close>.
\<close>

definition sandbox_connect_domains :: "url_parser \<Rightarrow> string list \<Rightarrow> board_error + string list option" where
  "sandbox_connect_domains parse_url domains =
     (case normalizeDomains parse_url True domains of
        None \<Rightarrow> Inr None
      | Some entries \<Rightarrow>
          if 19 + json_list_bytes entries > 5 * 1024
             \<or> csp_header_bytes entries > 6 * 1024
          then Inl BInvalid
          else Inr (Some entries))"

subsection \<open>Declarations\<close>

definition list_of :: "'a list option \<Rightarrow> 'a list" where
  "list_of x = case_option [] id x"

definition non_empty :: "'a list \<Rightarrow> 'a list option" where
  "non_empty xs = (if xs = [] then None else Some xs)"

definition normalizeBoardWidgetDeclared ::
    "url_parser \<Rightarrow> board_declared option \<Rightarrow> board_error + board_declared option" where
  "normalizeBoardWidgetDeclared parse_url declared =
     (case declared of
        None \<Rightarrow> Inr None
      | Some d \<Rightarrow>
          if length (list_of (bd_netOrigins d)) > MAX_DECLARED_ORIGINS then Inl BInvalid
          else if length (list_of (bd_tools d)) > MAX_DECLARED_TOOLS then Inl BInvalid
          else
            bnd (map_res (normalizeBoardNetOrigin parse_url) (list_of (bd_netOrigins d))) (\<lambda>os.
            bnd (map_res normalizeTool (list_of (bd_tools d))) (\<lambda>ts.
            let netOrigins = sort (uniqueValues os);
                tools = sort (uniqueValues ts)
            in bnd (sandbox_connect_domains parse_url netOrigins) (\<lambda>sandboxOrigins.
               if netOrigins \<noteq> [] \<and> sandboxOrigins \<noteq> Some netOrigins then Inl BInvalid
               else if netOrigins = [] \<and> tools = [] then Inr None
               else Inr (Some \<lparr>bd_netOrigins = non_empty netOrigins, bd_tools = non_empty tools\<rparr>)))))"

definition boardDeclarationIsSubset :: "board_declared option \<Rightarrow> board_declared option \<Rightarrow> bool" where
  "boardDeclarationIsSubset requested granted \<longleftrightarrow>
     list_all (\<lambda>origin. origin \<in> set (list_of (Option.bind granted bd_netOrigins)))
       (list_of (Option.bind requested bd_netOrigins))
     \<and> list_all (\<lambda>tool. tool \<in> set (list_of (Option.bind granted bd_tools)))
       (list_of (Option.bind requested bd_tools))"

definition boardWidgetHasGrantedTool :: "board_declared option \<Rightarrow> grant_state \<Rightarrow> string \<Rightarrow> bool" where
  "boardWidgetHasGrantedTool declared grantState tool \<longleftrightarrow>
     grantState = GGranted \<and> tool \<in> set (list_of (Option.bind declared bd_tools))"

subsection \<open>A normal form\<close>

text \<open>
  What the parser of the runtime promises: the origin of an https URL, where it is a URL again, is
  an https URL of the same host.
\<close>

definition origins_stable :: "url_parser \<Rightarrow> bool" where
  "origins_stable parse_url \<longleftrightarrow>
     (\<forall>s p q. parse_url s = Some p \<longrightarrow> url_protocol p = ''https:'' \<longrightarrow> parse_url (url_origin p) = Some q
        \<longrightarrow> url_protocol q = ''https:'' \<and> url_hostname q = url_hostname p)"

lemma map_filter_all:
  assumes "length (List.map_filter f xs) = length xs"
  shows "list_all2 (\<lambda>x y. f x = Some y) xs (List.map_filter f xs)"
  using assms
proof (induction xs)
  case (Cons x xs)
  have "length (List.map_filter f xs) \<le> length xs"
    by (simp add: map_filter_def)
  with Cons show ?case by (cases "f x") (auto simp: map_filter_simps)
qed (simp add: map_filter_simps)

lemma normalizeTool_Inr: "normalizeTool v = Inr t \<Longrightarrow> t = v"
  by (auto simp: normalizeTool_def Let_def split: if_splits)

lemma tools_kept: "map_res normalizeTool ts = Inr us \<Longrightarrow> us = ts \<and> (\<forall>t\<in>set ts. normalizeTool t = Inr t)"
  unfolding map_res_Inr by (induction ts us rule: list_all2_induct) (auto dest: normalizeTool_Inr)

lemma sandbox_accepts:
  assumes "sandbox_connect_domains parse_url os = Inr (Some os)"
  shows "o' \<in> set os \<Longrightarrow> \<exists>p. domain_entry parse_url True o' = Some p \<and> url_origin p = o'"
proof -
  let ?m = "List.map_filter (domain_entry parse_url True) os"
  have m: "map url_origin ?m = os"
    using assms by (auto simp: sandbox_connect_domains_def normalizeDomains_def Let_def split: option.splits if_splits)
  hence l: "length ?m = length os" by (metis length_map)
  assume "o' \<in> set os"
  then obtain i where i: "i < length os" "o' = os ! i" by (auto simp: in_set_conv_nth)
  have "domain_entry parse_url True (os ! i) = Some (?m ! i)"
    using map_filter_all [OF l] i by (simp add: list_all2_conv_all_nth)
  moreover have "url_origin (?m ! i) = os ! i" using m i l by (metis nth_map)
  ultimately show ?thesis using i by blast
qed

lemma origin_kept:
  assumes u: "origins_stable parse_url" and n: "normalizeBoardNetOrigin parse_url v = Inr o'"
    and s: "domain_entry parse_url True o' = Some q" "url_origin q = o'"
  shows "normalizeBoardNetOrigin parse_url o' = Inr o'"
proof -
  from n obtain p where p: "parse_url v = Some p" "url_protocol p = ''https:''" "url_origin p = o'"
    "bracketed_host (url_hostname p) \<or> plain_host (url_hostname p)" "CHR ''*'' \<notin> set (url_hostname p)"
    "\<not> (url_hostname p \<noteq> [] \<and> last (url_hostname p) = CHR ''.'')"
    by (auto simp: normalizeBoardNetOrigin_def split: if_splits option.splits)
  from s have q: "parse_url o' = Some q" "o' = js_trim o'" "length o' \<noteq> 0" "\<not> length o' > 2048"
    "url_username q = []" "url_password q = []" "url_pathname q = ''/''" "url_search q = []" "url_hash q = []"
    by (auto simp: domain_entry_def split: if_splits option.splits)
  from u p q(1) have h: "url_protocol q = ''https:''" "url_hostname q = url_hostname p"
    unfolding origins_stable_def by blast+
  have e: "normalizeBoardNetOrigin parse_url o' = Inr (url_origin q)"
    unfolding normalizeBoardNetOrigin_def q(1) h option.case
    using p(4-6) q(2-9) by (auto simp: h)
  thus ?thesis using s(2) by simp
qed

lemma map_res_id: "(\<And>x. x \<in> set xs \<Longrightarrow> f x = Inr x) \<Longrightarrow> map_res f xs = Inr xs"
  using map_res_map [of xs f "\<lambda>x. x"] by simp

lemma list_of_non_empty [simp]: "list_of (non_empty xs) = xs"
  by (simp add: list_of_def non_empty_def)

lemma length_uniqueValues: "length (uniqueValues xs) \<le> length xs"
proof -
  have "length (uniqueValues xs) = card (set xs)"
    using distinct_card [OF distinct_uniqueValues] by (metis set_uniqueValues)
  thus ?thesis using card_length [of xs] by simp
qed

lemma declared_fixed:
  assumes "length os \<le> MAX_DECLARED_ORIGINS" "length ts \<le> MAX_DECLARED_TOOLS"
    and "map_res (normalizeBoardNetOrigin parse_url) os = Inr os" "map_res normalizeTool ts = Inr ts"
    and "sort (uniqueValues os) = os" "sort (uniqueValues ts) = ts"
    and "sandbox_connect_domains parse_url os = Inr so" "\<not> (os \<noteq> [] \<and> so \<noteq> Some os)" "\<not> (os = [] \<and> ts = [])"
  shows "normalizeBoardWidgetDeclared parse_url (Some \<lparr>bd_netOrigins = non_empty os, bd_tools = non_empty ts\<rparr>)
    = Inr (Some \<lparr>bd_netOrigins = non_empty os, bd_tools = non_empty ts\<rparr>)"
  using assms by (auto simp: normalizeBoardWidgetDeclared_def Let_def)

text \<open>Normalizing a normalized declaration changes nothing.\<close>

theorem declared_stable:
  assumes u: "origins_stable parse_url" and n: "normalizeBoardWidgetDeclared parse_url d = Inr e"
  shows "normalizeBoardWidgetDeclared parse_url e = Inr e"
proof (cases e)
  case (Some e')
  with n obtain d' os ts where d: "d = Some d'"
    "length (list_of (bd_netOrigins d')) \<le> MAX_DECLARED_ORIGINS"
    "length (list_of (bd_tools d')) \<le> MAX_DECLARED_TOOLS"
    and os: "map_res (normalizeBoardNetOrigin parse_url) (list_of (bd_netOrigins d')) = Inr os"
    and ts: "map_res normalizeTool (list_of (bd_tools d')) = Inr ts"
    by (auto simp: normalizeBoardWidgetDeclared_def Let_def split: option.splits)
  let ?os = "sort (uniqueValues os)" and ?ts = "sort (uniqueValues ts)"
  obtain so where so: "sandbox_connect_domains parse_url ?os = Inr so"
    "\<not> (?os \<noteq> [] \<and> so \<noteq> Some ?os)" "\<not> (?os = [] \<and> ?ts = [])"
    and e': "e' = \<lparr>bd_netOrigins = non_empty ?os, bd_tools = non_empty ?ts\<rparr>"
    using n d os ts Some
    by (cases "sandbox_connect_domains parse_url ?os")
      (auto simp: normalizeBoardWidgetDeclared_def Let_def split: if_splits)
  have lo: "length ?os \<le> MAX_DECLARED_ORIGINS" "length ?ts \<le> MAX_DECLARED_TOOLS"
    using d(2,3) os ts length_uniqueValues [of os] length_uniqueValues [of ts]
    unfolding map_res_Inr by (auto dest!: list_all2_lengthD)
  have o1: "map_res (normalizeBoardNetOrigin parse_url) ?os = Inr ?os"
  proof (rule map_res_id)
    fix x assume x: "x \<in> set ?os"
    hence "?os \<noteq> []" by (metis empty_iff list.set(1))
    with so(1,2) have "sandbox_connect_domains parse_url ?os = Inr (Some ?os)" by blast
    from sandbox_accepts [OF this x] obtain q where
      q: "domain_entry parse_url True x = Some q" "url_origin q = x" by blast
    from x have "x \<in> set os" by simp
    with map_res_set [OF os] obtain v where "normalizeBoardNetOrigin parse_url v = Inr x" by blast
    from origin_kept [OF u this q] show "normalizeBoardNetOrigin parse_url x = Inr x" .
  qed
  have t1: "map_res normalizeTool ?ts = Inr ?ts"
    using tools_kept [OF ts] by (intro map_res_id) auto
  have ss: "sort (uniqueValues ?os) = ?os" "sort (uniqueValues ?ts) = ?ts"
    by (intro trans [OF arg_cong [where f = sort, OF uniqueValues_distinct]]; simp add: sorted_sort_id)+
  show ?thesis
    unfolding Some e' by (rule declared_fixed [OF lo o1 t1 ss so])
next
  case None
  thus ?thesis by (simp add: normalizeBoardWidgetDeclared_def)
qed

end
