(* ===== verification/Board_Codec.thy ===== *)
theory Board_Codec
  imports Board_Capabilities
begin

section \<open>Rows and contents of a board\<close>

text \<open>
  \<^verbatim>\<open>src/boards/sqlite-board-codec.ts\<close>, with the put parameters of
  \<^verbatim>\<open>packages/gateway-protocol/src/schema/board.ts\<close>. The manifest of a row is the text of a
  JSON object, represented by its fields; a descriptor text is represented by the value it denotes.
  What the code takes from the runtime is the record \<open>board_env\<close>: the URL parser, the digest,
  the decimal text of a number.
\<close>

record board_env =
  be_parse_url :: url_parser
  be_sha256 :: "string \<Rightarrow> string"
  be_num_text :: "rat \<Rightarrow> string"

record mcp_descriptor =
  md_serverName :: string
  md_toolName :: string
  md_uiResourceUri :: string
  md_toolCallId :: string

text \<open>\<^verbatim>\<open>BoardWidgetMaterializedContent\<close>; an MCP app comes with \<^verbatim>\<open>interactive\<close>.\<close>

datatype board_content =
    CHtml string
  | CMcpApp mcp_descriptor bool
  | CPlugin string "json option"

fun content_kind_of :: "board_content \<Rightarrow> content_kind" where
  "content_kind_of (CHtml _) = KHtml"
| "content_kind_of (CMcpApp _ _) = KMcpApp"
| "content_kind_of (CPlugin _ _) = KPlugin"

record put_placement =
  pp_tabId :: "string option"
  pp_size :: "board_size option"
  pp_after :: "string option"

record put_params =
  pm_name :: string
  pm_title :: "string option"
  pm_content :: board_content
  pm_presentation :: "presentation option"
  pm_heightMode :: "height_mode option"
  pm_placement :: put_placement
  pm_declared :: "board_declared option"

datatype board_author = AuthorUser | AuthorAgent

record tab_row =
  tr_session_key :: string
  tr_tab_id :: string
  tr_title :: string
  tr_position :: int
  tr_chat_dock :: chat_dock
  tr_created_by :: board_author
  tr_revision :: int

record widget_row =
  wr_session_key :: string
  wr_name :: string
  wr_tab_id :: string
  wr_title :: "string option"
  wr_content_kind :: content_kind
  wr_html :: "string option"
  wr_descriptor_json :: "json option"
  wr_sha256 :: string
  wr_view_generation :: "string option"
  wr_revision :: int
  wr_size_w :: int
  wr_size_h :: int
  wr_position :: int
  wr_manifest :: "(string \<times> json) list"
  wr_grant_state :: grant_state
  wr_granted_sha :: "string option"
  wr_created_by :: board_author
  wr_created_at :: int
  wr_updated_at :: int

subsection \<open>JSON text\<close>

text \<open>\<^verbatim>\<open>JSON.stringify\<close>.\<close>

fun sep_concat :: "string list \<Rightarrow> string" where
  "sep_concat [] = []"
| "sep_concat [s] = s"
| "sep_concat (s # t # ts) = s @ '','' @ sep_concat (t # ts)"

fun json_text :: "(rat \<Rightarrow> string) \<Rightarrow> json \<Rightarrow> string" where
  "json_text num JNull = ''null''"
| "json_text num (JBool b) = (if b then ''true'' else ''false'')"
| "json_text num (JNum r) = num r"
| "json_text num (JStr s) = json_quote s"
| "json_text num (JArr vs) = ''['' @ sep_concat (map (json_text num) vs) @ '']''"
| "json_text num (JObj fs) =
     ''{'' @ sep_concat (map (\<lambda>(k, v). json_quote k @ '':'' @ json_text num v) fs) @ ''}''"

definition jfield :: "json \<Rightarrow> string \<Rightarrow> json option" where
  "jfield v name = (case v of JObj fs \<Rightarrow> jprop fs name | _ \<Rightarrow> None)"

text \<open>\<^verbatim>\<open>{ ...fields, [name]: v }\<close>\<close>

fun set_prop :: "string \<Rightarrow> json \<Rightarrow> (string \<times> json) list \<Rightarrow> (string \<times> json) list" where
  "set_prop name v [] = [(name, v)]"
| "set_prop name v ((k, w) # fs) = (if k = name then (k, v) # fs else (k, w) # set_prop name v fs)"

subsection \<open>The manifest\<close>

definition BOARD_GRANT_SEMANTICS_VERSION :: int where
  "BOARD_GRANT_SEMANTICS_VERSION = 2"

record board_manifest =
  mf_declared :: "board_declared option"
  mf_declarationInvalid :: bool
  mf_grantSemanticsVersion :: "int option"
  mf_presentation :: "presentation option"
  mf_heightMode :: "height_mode option"
  mf_mcpAppInteractive :: "bool option"
  mf_mcpAppInstanceId :: "string option"

fun presentation_text :: "presentation \<Rightarrow> string" where
  "presentation_text Card = ''card''"
| "presentation_text FullBleed = ''full-bleed''"
| "presentation_text Frameless = ''frameless''"

fun height_text :: "height_mode \<Rightarrow> string" where
  "height_text HeightAuto = ''auto''"
| "height_text HeightFixed = ''fixed''"

definition json_presentation :: "json option \<Rightarrow> presentation option" where
  "json_presentation v =
     (if v = Some (JStr ''card'') then Some Card
      else if v = Some (JStr ''full-bleed'') then Some FullBleed
      else if v = Some (JStr ''frameless'') then Some Frameless
      else None)"

definition json_height :: "json option \<Rightarrow> height_mode option" where
  "json_height v =
     (if v = Some (JStr ''auto'') then Some HeightAuto
      else if v = Some (JStr ''fixed'') then Some HeightFixed
      else None)"

fun json_bool :: "json option \<Rightarrow> bool option" where
  "json_bool (Some (JBool b)) = Some b"
| "json_bool _ = None"

text \<open>The strings of an array; undefined when the property is no array.\<close>

fun json_strings :: "json option \<Rightarrow> string list option" where
  "json_strings (Some (JArr vs)) = Some (List.map_filter (\<lambda>v. json_string (Some v)) vs)"
| "json_strings _ = None"

definition instance_id :: "json option \<Rightarrow> string option" where
  "instance_id v = (case json_string v of Some s \<Rightarrow> if hex_text 32 s then Some s else None | None \<Rightarrow> None)"

definition parseManifest :: "url_parser \<Rightarrow> (string \<times> json) list \<Rightarrow> board_manifest" where
  "parseManifest parse_url parsed =
     (let netOrigins = json_strings (jprop parsed ''netOrigins'');
          tools = json_strings (jprop parsed ''tools'')
      in case normalizeBoardWidgetDeclared parse_url
           (Some \<lparr>bd_netOrigins = Option.bind netOrigins non_empty, bd_tools = Option.bind tools non_empty\<rparr>) of
        Inr declared \<Rightarrow>
          \<lparr>mf_declared = declared, mf_declarationInvalid = False,
           mf_grantSemanticsVersion =
             (if jprop parsed ''grantSemanticsVersion'' = Some (jint BOARD_GRANT_SEMANTICS_VERSION)
              then Some BOARD_GRANT_SEMANTICS_VERSION else None),
           mf_presentation = json_presentation (jprop parsed ''presentation''),
           mf_heightMode = json_height (jprop parsed ''heightMode''),
           mf_mcpAppInteractive = json_bool (jprop parsed ''mcpAppInteractive''),
           mf_mcpAppInstanceId = instance_id (jprop parsed ''mcpAppInstanceId'')\<rparr>
      | Inl _ \<Rightarrow>
          \<lparr>mf_declared = None, mf_declarationInvalid = True, mf_grantSemanticsVersion = None,
           mf_presentation = None, mf_heightMode = None, mf_mcpAppInteractive = None,
           mf_mcpAppInstanceId = None\<rparr>)"

definition json_texts :: "string list \<Rightarrow> json" where
  "json_texts ss = JArr (map JStr ss)"

definition serializeManifest ::
    "board_declared option \<Rightarrow> grant_state \<Rightarrow> (bool \<times> string) option
      \<Rightarrow> presentation option \<Rightarrow> height_mode option \<Rightarrow> (string \<times> json) list" where
  "serializeManifest declared grantState mcpAppAuthority presentation heightMode =
     jopt ''netOrigins'' (map_option json_texts (Option.bind declared bd_netOrigins))
     @ jopt ''tools'' (map_option json_texts (Option.bind declared bd_tools))
     @ jopt ''presentation'' (map_option (\<lambda>p. JStr (presentation_text p)) presentation)
     @ jopt ''heightMode'' (map_option (\<lambda>h. JStr (height_text h)) heightMode)
     @ (if grantState = GGranted
        then [(''grantSemanticsVersion'', jint BOARD_GRANT_SEMANTICS_VERSION)] else [])
     @ (case mcpAppAuthority of
          Some (interactive, instanceId) \<Rightarrow>
            [(''mcpAppInteractive'', JBool interactive), (''mcpAppInstanceId'', JStr instanceId)]
        | None \<Rightarrow> [])"

definition updateManifestHeightMode ::
    "(string \<times> json) list \<Rightarrow> height_mode \<Rightarrow> (string \<times> json) list" where
  "updateManifestHeightMode parsed heightMode = set_prop ''heightMode'' (JStr (height_text heightMode)) parsed"

definition effectiveGrantState :: "grant_state \<Rightarrow> board_manifest \<Rightarrow> grant_state" where
  "effectiveGrantState grantState manifest =
     (if mf_declarationInvalid manifest
         \<or> (mf_declared manifest = None \<and> mf_mcpAppInteractive manifest \<noteq> Some True)
      then (if grantState = GRejected then GRejected else GNone)
      else if grantState = GGranted
              \<and> mf_grantSemanticsVersion manifest \<noteq> Some BOARD_GRANT_SEMANTICS_VERSION
      then GPending
      else grantState)"

subsection \<open>Contents\<close>

definition descriptor_value :: "mcp_descriptor \<Rightarrow> json" where
  "descriptor_value d =
     JObj [(''serverName'', JStr (md_serverName d)), (''toolName'', JStr (md_toolName d)),
       (''uiResourceUri'', JStr (md_uiResourceUri d)), (''toolCallId'', JStr (md_toolCallId d))]"

definition plugin_value :: "string \<Rightarrow> json option \<Rightarrow> json" where
  "plugin_value pluginKind props = JObj ([(''pluginKind'', JStr pluginKind)] @ jopt ''props'' props)"

definition stringify :: "board_env \<Rightarrow> json \<Rightarrow> string" where
  "stringify env v = json_text (be_num_text env) v"

text \<open>The fields of a put, spread over a row.\<close>

definition createBoardWidgetContentFields ::
    "board_env \<Rightarrow> put_params \<Rightarrow> presentation option \<Rightarrow> height_mode option \<Rightarrow> int \<Rightarrow> grant_state
      \<Rightarrow> string \<Rightarrow> int \<Rightarrow> widget_row \<Rightarrow> widget_row" where
  "createBoardWidgetContentFields env params presentation heightMode revision grantState viewGeneration now row =
     (let manifest = serializeManifest (pm_declared params) grantState
            (case pm_content params of CMcpApp _ interactive \<Rightarrow> Some (interactive, viewGeneration) | _ \<Rightarrow> None)
            presentation heightMode
      in case pm_content params of
        CHtml html \<Rightarrow>
          row\<lparr>wr_content_kind := KHtml, wr_html := Some html, wr_descriptor_json := None,
            wr_sha256 := be_sha256 env html, wr_view_generation := Some viewGeneration,
            wr_revision := revision, wr_manifest := manifest, wr_grant_state := grantState,
            wr_granted_sha := (if grantState = GGranted then Some (be_sha256 env html) else None),
            wr_updated_at := now\<rparr>
      | CPlugin pluginKind props \<Rightarrow>
          row\<lparr>wr_content_kind := KPlugin, wr_html := None,
            wr_descriptor_json := Some (plugin_value pluginKind props),
            wr_sha256 := be_sha256 env (stringify env (plugin_value pluginKind props)),
            wr_view_generation := None, wr_revision := revision, wr_manifest := manifest,
            wr_grant_state := GNone, wr_granted_sha := None, wr_updated_at := now\<rparr>
      | CMcpApp descriptor interactive \<Rightarrow>
          row\<lparr>wr_content_kind := KMcpApp, wr_html := None,
            wr_descriptor_json := Some (descriptor_value descriptor),
            wr_sha256 := be_sha256 env (stringify env (descriptor_value descriptor)),
            wr_view_generation := None, wr_revision := revision, wr_manifest := manifest,
            wr_grant_state := grantState,
            wr_granted_sha := (if grantState = GGranted
              then Some (be_sha256 env (stringify env (descriptor_value descriptor))) else None),
            wr_updated_at := now\<rparr>)"

subsection \<open>From rows\<close>

definition createBoardDeclaredSummary :: "board_declared option \<Rightarrow> string list option" where
  "createBoardDeclaredSummary declared =
     non_empty (map (\<lambda>o'. ''Network access: '' @ o') (list_of (Option.bind declared bd_netOrigins))
       @ map (\<lambda>t. ''Tool access: '' @ t) (list_of (Option.bind declared bd_tools)))"

definition rowToTab :: "tab_row \<Rightarrow> board_tab" where
  "rowToTab row = \<lparr>bt_tabId = tr_tab_id row, bt_title = tr_title row, bt_position = tr_position row,
     bt_chatDock = tr_chat_dock row\<rparr>"

text \<open>An empty instance id is falsy.\<close>

definition truthy :: "string option \<Rightarrow> string option" where
  "truthy s = (if truthy_str s then s else None)"

definition rowToWidget :: "widget_row \<Rightarrow> board_manifest \<Rightarrow> board_widget" where
  "rowToWidget row manifest =
     (let pluginContent = (if wr_content_kind row = KPlugin then wr_descriptor_json row else None)
      in \<lparr>bw_name = wr_name row, bw_tabId = wr_tab_id row, bw_title = wr_title row,
          bw_contentKind = wr_content_kind row, bw_presentation = mf_presentation manifest,
          bw_heightMode = mf_heightMode manifest,
          bw_pluginKind = Option.bind pluginContent (\<lambda>v. json_string (jfield v ''pluginKind'')),
          bw_props = Option.bind pluginContent (\<lambda>v. jfield v ''props''),
          bw_sizeW = wr_size_w row, bw_sizeH = wr_size_h row, bw_position = wr_position row,
          bw_grantState = effectiveGrantState (wr_grant_state row) manifest,
          bw_revision = wr_revision row,
          bw_instanceId = truthy (if wr_content_kind row = KMcpApp then mf_mcpAppInstanceId manifest
            else wr_view_generation row),
          bw_declaredSummary = createBoardDeclaredSummary (mf_declared manifest),
          bw_declared = mf_declared manifest\<rparr>)"

record html_metadata =
  hm_revision :: int
  hm_sha256 :: string
  hm_viewGeneration :: string
  hm_grantState :: grant_state
  hm_declared :: "board_declared option"

definition rowToHtmlViewMetadata :: "widget_row \<Rightarrow> board_manifest \<Rightarrow> html_metadata option" where
  "rowToHtmlViewMetadata row manifest =
     (if wr_content_kind row \<noteq> KHtml then None
      else map_option (\<lambda>g. \<lparr>hm_revision = wr_revision row, hm_sha256 = wr_sha256 row, hm_viewGeneration = g,
          hm_grantState = effectiveGrantState (wr_grant_state row) manifest,
          hm_declared = mf_declared manifest\<rparr>) (wr_view_generation row))"

subsection \<open>Reading back what was written\<close>

text \<open>A declaration in the form the code stores it.\<close>

definition declared_normal :: "url_parser \<Rightarrow> board_declared option \<Rightarrow> bool" where
  "declared_normal parse_url d \<longleftrightarrow> normalizeBoardWidgetDeclared parse_url d = Inr d"

lemma jprop_set_prop: "jprop (set_prop k v fs) n = (if n = k then Some v else jprop fs n)"
  by (induction k v fs rule: set_prop.induct) (auto simp: jprop_def)

lemma json_presentation_text [simp]: "json_presentation (Some (JStr (presentation_text p))) = Some p"
  by (cases p) (auto simp: json_presentation_def)

lemma json_height_text [simp]: "json_height (Some (JStr (height_text h))) = Some h"
  by (cases h) (auto simp: json_height_def)

lemma json_none [simp]: "json_presentation None = None" "json_height None = None" "instance_id None = None"
  by (auto simp: json_presentation_def json_height_def instance_id_def)

lemma json_strings_texts [simp]: "json_strings (Some (json_texts ss)) = Some ss"
  by (induction ss) (auto simp: json_texts_def map_filter_simps)

lemma list_of_None [simp]: "list_of None = []"
  by (simp add: list_of_def)

lemma list_of_Some [simp]: "list_of (Some xs) = xs"
  by (simp add: list_of_def)

lemma non_empty_list [simp]: "Option.bind (non_empty xs) non_empty = non_empty xs" "non_empty [] = None"
  by (simp_all add: non_empty_def)

lemma normalized_form:
  assumes "normalizeBoardWidgetDeclared parse_url d = Inr (Some e)"
  shows "e = \<lparr>bd_netOrigins = non_empty (list_of (bd_netOrigins e)), bd_tools = non_empty (list_of (bd_tools e))\<rparr>"
    and "\<not> (list_of (bd_netOrigins e) = [] \<and> list_of (bd_tools e) = [])"
  using assms by (auto simp: normalizeBoardWidgetDeclared_def Let_def split: option.splits if_splits elim!: bnd_InrE)

lemma normalize_nothing [simp]:
  "normalizeBoardWidgetDeclared parse_url (Some \<lparr>bd_netOrigins = None, bd_tools = None\<rparr>) = Inr None"
  by (simp add: normalizeBoardWidgetDeclared_def sandbox_connect_domains_def normalizeDomains_def
      map_filter_simps uniqueValues_def)

lemma normalized_declared:
  assumes "origins_stable parse_url" "normalizeBoardWidgetDeclared parse_url d = Inr e"
  shows "declared_normal parse_url e"
  using declared_stable [OF assms] by (simp add: declared_normal_def)

lemma declared_read_back:
  assumes "declared_normal parse_url d"
  shows "normalizeBoardWidgetDeclared parse_url
     (Some \<lparr>bd_netOrigins = Option.bind d (\<lambda>e. Option.bind (bd_netOrigins e) non_empty),
        bd_tools = Option.bind d (\<lambda>e. Option.bind (bd_tools e) non_empty)\<rparr>) = Inr d"
proof (cases d)
  case (Some e)
  with assms have n: "normalizeBoardWidgetDeclared parse_url (Some e) = Inr (Some e)"
    by (simp add: declared_normal_def)
  have "\<lparr>bd_netOrigins = Option.bind (bd_netOrigins e) non_empty, bd_tools = Option.bind (bd_tools e) non_empty\<rparr> = e"
    by (subst (1 2 3) normalized_form(1) [OF n]) simp
  thus ?thesis using n Some by simp
qed simp

text \<open>What a manifest the code wrote says.\<close>

definition written_manifest ::
    "board_declared option \<Rightarrow> grant_state \<Rightarrow> (bool \<times> string) option \<Rightarrow> presentation option
      \<Rightarrow> height_mode option \<Rightarrow> board_manifest" where
  "written_manifest declared grantState auth presentation heightMode =
     \<lparr>mf_declared = declared, mf_declarationInvalid = False,
      mf_grantSemanticsVersion = (if grantState = GGranted then Some BOARD_GRANT_SEMANTICS_VERSION else None),
      mf_presentation = presentation, mf_heightMode = heightMode,
      mf_mcpAppInteractive = map_option fst auth, mf_mcpAppInstanceId = map_option snd auth\<rparr>"

lemma jprop_serialize:
  "jprop (serializeManifest d g a p h) ''netOrigins'' = map_option json_texts (Option.bind d bd_netOrigins)"
  "jprop (serializeManifest d g a p h) ''tools'' = map_option json_texts (Option.bind d bd_tools)"
  "jprop (serializeManifest d g a p h) ''presentation'' = map_option (\<lambda>p. JStr (presentation_text p)) p"
  "jprop (serializeManifest d g a p h) ''heightMode'' = map_option (\<lambda>h. JStr (height_text h)) h"
  "jprop (serializeManifest d g a p h) ''grantSemanticsVersion'' =
     (if g = GGranted then Some (jint BOARD_GRANT_SEMANTICS_VERSION) else None)"
  "jprop (serializeManifest d g a p h) ''mcpAppInteractive'' = map_option (JBool \<circ> fst) a"
  "jprop (serializeManifest d g a p h) ''mcpAppInstanceId'' = map_option (JStr \<circ> snd) a"
  by (auto simp: serializeManifest_def jprop_append jprop_jopt split: option.splits)
    (auto simp: jprop_def)

lemma strings_of_texts [simp]: "json_strings (map_option json_texts x) = x"
  by (cases x) simp_all

theorem parse_serialize:
  assumes "declared_normal parse_url d" and "\<forall>x. a = Some x \<longrightarrow> hex_text 32 (snd x)"
  shows "parseManifest parse_url (serializeManifest d g a p h) = written_manifest d g a p h"
proof -
  have "json_presentation (map_option (\<lambda>p. JStr (presentation_text p)) p) = p"
    "json_height (map_option (\<lambda>h. JStr (height_text h)) h) = h"
    "json_bool (map_option (JBool \<circ> fst) a) = map_option fst a"
    by ((cases p; simp), (cases h; simp), (cases a; simp))
  moreover have "instance_id (map_option (JStr \<circ> snd) a) = map_option snd a"
    using assms(2) by (cases a) (auto simp: instance_id_def)
  ultimately show ?thesis
    by (simp add: parseManifest_def jprop_serialize declared_read_back [OF assms(1)] written_manifest_def)
qed

lemma parse_height:
  assumes "\<not> mf_declarationInvalid (parseManifest parse_url fs)"
  shows "parseManifest parse_url (updateManifestHeightMode fs h) = (parseManifest parse_url fs)\<lparr>mf_heightMode := Some h\<rparr>"
  using assms
  by (auto simp: parseManifest_def updateManifestHeightMode_def jprop_set_prop Let_def split: sum.splits)

end
