(* ===== verification/Board_Store.thy ===== *)
theory Board_Store
  imports Board_Codec
begin

section \<open>The stored boards\<close>

text \<open>
  \<^verbatim>\<open>src/boards/board-store.ts\<close> (the pure functions both stores share) and
  \<^verbatim>\<open>src/boards/sqlite-board-store.ts\<close>, the store the gateway uses. The state is the agent
  database the session key resolves to: its session nodes and the two board tables with their primary
  keys and the cascade of the foreign key of \<^verbatim>\<open>board_widgets\<close>. The tables are created
  lazily by the first write; a database without them is one where they are empty. A call is one
  transaction: it returns the new tables or an error and no change. The clock and the random id of a
  put are arguments.
\<close>

definition BOARD_MAX_WIDGETS :: nat where
  "BOARD_MAX_WIDGETS = 48"

definition BOARD_MAX_WIDGET_HTML_BYTES :: nat where
  "BOARD_MAX_WIDGET_HTML_BYTES = 256 * 1024"

definition BOARD_MAX_WIDGET_PLUGIN_PROPS_BYTES :: nat where
  "BOARD_MAX_WIDGET_PLUGIN_PROPS_BYTES = 8 * 1024"

record board_snapshot =
  bs_sessionKey :: string
  bs_revision :: int
  bs_layout :: board_layout

definition emptyBoardSnapshot :: "string \<Rightarrow> board_snapshot" where
  "emptyBoardSnapshot sessionKey =
     \<lparr>bs_sessionKey = sessionKey, bs_revision = 0, bs_layout = \<lparr>bl_tabs = [], bl_widgets = []\<rparr>\<rparr>"

subsection \<open>A put\<close>

definition validatePluginContent :: "board_env \<Rightarrow> put_params \<Rightarrow> board_error + unit" where
  "validatePluginContent env params =
     (case pm_content params of
        CPlugin _ props \<Rightarrow>
          if pm_declared params \<noteq> None then Inl BInvalid
          else if utf8_length (stringify env (case_option (JObj []) id props)) > BOARD_MAX_WIDGET_PLUGIN_PROPS_BYTES
          then Inl BInvalid else Inr ()
      | _ \<Rightarrow> Inr ())"

definition html_too_large :: "put_params \<Rightarrow> bool" where
  "html_too_large params \<longleftrightarrow>
     (case pm_content params of CHtml html \<Rightarrow> utf8_length html > BOARD_MAX_WIDGET_HTML_BYTES | _ \<Rightarrow> False)"

definition main_tab :: board_tab where
  "main_tab = \<lparr>bt_tabId = ''main'', bt_title = ''Main'', bt_position = 0, bt_chatDock = DockRight\<rparr>"

definition with_main_tab :: "board_layout \<Rightarrow> board_layout" where
  "with_main_tab layout = (if bl_tabs layout = [] then layout\<lparr>bl_tabs := [main_tab]\<rparr> else layout)"

definition widget_named :: "board_layout \<Rightarrow> string \<Rightarrow> board_widget option" where
  "widget_named layout name = find (\<lambda>w. bw_name w = name) (bl_widgets layout)"

definition put_tab_id :: "board_layout \<Rightarrow> put_params \<Rightarrow> board_widget option \<Rightarrow> string" where
  "put_tab_id layout params existing =
     (case pp_tabId (pm_placement params) of
        Some t \<Rightarrow> t
      | None \<Rightarrow> (case existing of Some w \<Rightarrow> bw_tabId w | None \<Rightarrow> bt_tabId (hd (bl_tabs layout))))"

definition is_interactive :: "board_content \<Rightarrow> bool" where
  "is_interactive c = (case c of CMcpApp _ i \<Rightarrow> i | _ \<Rightarrow> True)"

definition preservesGrant ::
    "board_env \<Rightarrow> board_content \<Rightarrow> board_declared option \<Rightarrow> bool \<Rightarrow> string option \<Rightarrow> board_widget option \<Rightarrow> bool" where
  "preservesGrant env content declared scopeMatches grantedSha256 existing \<longleftrightarrow>
     declared \<noteq> None \<and> scopeMatches \<and> is_interactive content
     \<and> map_option bw_grantState existing = Some GGranted
     \<and> (case content of CHtml html \<Rightarrow> Some (be_sha256 env html) = grantedSha256 | _ \<Rightarrow> True)
     \<and> boardDeclarationIsSubset declared (Option.bind existing bw_declared)"

definition put_grant_state ::
    "board_content \<Rightarrow> bool \<Rightarrow> string list option \<Rightarrow> grant_state" where
  "put_grant_state content preserves declaredSummary =
     (case content of
        CPlugin _ _ \<Rightarrow> GNone
      | CHtml _ \<Rightarrow> if preserves then GGranted else if declaredSummary \<noteq> None then GPending else GNone
      | CMcpApp _ interactive \<Rightarrow>
          if preserves then GGranted else if \<not> interactive then GNone else GPending)"

definition put_widget_value ::
    "put_params \<Rightarrow> board_widget option \<Rightarrow> string \<Rightarrow> grant_state \<Rightarrow> nat \<Rightarrow> string
      \<Rightarrow> board_declared option \<Rightarrow> board_widget" where
  "put_widget_value params existing tabId grantState count instanceId declared =
     (let size = BOARD_SIZE_PRESETS (case_option SizeMd id (pp_size (pm_placement params)));
          sized = pp_size (pm_placement params) \<noteq> None
      in \<lparr>bw_name = pm_name params, bw_tabId = tabId,
          bw_title = assigned (Option.bind existing bw_title) (pm_title params),
          bw_contentKind = content_kind_of (pm_content params),
          bw_presentation = assigned (Option.bind existing bw_presentation) (pm_presentation params),
          bw_heightMode = assigned (Option.bind existing bw_heightMode) (pm_heightMode params),
          bw_pluginKind = (case pm_content params of CPlugin k _ \<Rightarrow> Some k | _ \<Rightarrow> None),
          bw_props = (case pm_content params of CPlugin _ p \<Rightarrow> p | _ \<Rightarrow> None),
          bw_sizeW = (if sized then fst size else case_option (fst size) bw_sizeW existing),
          bw_sizeH = (if sized then snd size else case_option (snd size) bw_sizeH existing),
          bw_position = case_option (int count) bw_position existing,
          bw_grantState = grantState,
          bw_revision = case_option 0 bw_revision existing + 1,
          bw_instanceId = (case pm_content params of CPlugin _ _ \<Rightarrow> None | _ \<Rightarrow> Some instanceId),
          bw_declaredSummary = createBoardDeclaredSummary declared,
          bw_declared = declared\<rparr>)"

definition clear_declared :: "string \<Rightarrow> board_layout \<Rightarrow> board_layout" where
  "clear_declared name layout =
     layout\<lparr>bl_widgets := map (\<lambda>w. if bw_name w = name
        then w\<lparr>bw_declaredSummary := None, bw_declared := None\<rparr> else w) (bl_widgets layout)\<rparr>"

definition createBoardWidgetPutSnapshot ::
    "board_env \<Rightarrow> board_snapshot \<Rightarrow> put_params \<Rightarrow> bool \<Rightarrow> string option \<Rightarrow> string \<Rightarrow> board_error + board_snapshot" where
  "createBoardWidgetPutSnapshot env prior params scopeMatches grantedSha256 instanceId =
     bnd (validatePluginContent env params) (\<lambda>_.
     if html_too_large params then Inl BInvalid
     else
      (let layout = with_main_tab (normalizeBoardLayout (bs_layout prior));
           existing = widget_named layout (pm_name params);
           tabId = put_tab_id layout params existing;
           placement = pm_placement params
       in if existing = None \<and> length (bl_widgets layout) \<ge> BOARD_MAX_WIDGETS then Inl BInvalid
          else if \<not> list_ex (\<lambda>t. bt_tabId t = tabId) (bl_tabs layout) then Inl BNotFound
          else
           bnd (case pm_content params of
                  CPlugin _ _ \<Rightarrow> Inr None
                | _ \<Rightarrow> normalizeBoardWidgetDeclared (be_parse_url env) (pm_declared params)) (\<lambda>declared.
           let preserves = preservesGrant env (pm_content params) declared scopeMatches grantedSha256 existing;
               grantState = put_grant_state (pm_content params) preserves (createBoardDeclaredSummary declared)
           in bnd (insertBoardWidget layout
                (put_widget_value params existing tabId grantState (length (bl_widgets layout)) instanceId declared)
                tabId (truthy (pp_after placement))
                (pp_tabId placement \<noteq> None \<or> pp_after placement \<noteq> None)) (\<lambda>inserted.
              Inr \<lparr>bs_sessionKey = bs_sessionKey prior, bs_revision = bs_revision prior + 1,
                bs_layout = (if createBoardDeclaredSummary declared = None
                  then clear_declared (pm_name params) inserted else inserted)\<rparr>))))"

subsection \<open>A decision\<close>

datatype grant_decision = DecideGranted | DecideRejected

fun decided :: "grant_decision \<Rightarrow> grant_state" where
  "decided DecideGranted = GGranted"
| "decided DecideRejected = GRejected"

definition createBoardGrantSnapshot ::
    "board_snapshot \<Rightarrow> string \<Rightarrow> grant_decision \<Rightarrow> int \<Rightarrow> string option \<Rightarrow> board_error + board_snapshot" where
  "createBoardGrantSnapshot current name decision revision instanceId =
     (case find_index (\<lambda>w. bw_name w = name) (bl_widgets (bs_layout current)) of
        None \<Rightarrow> Inl BNotFound
      | Some i \<Rightarrow>
         (let widget = bl_widgets (bs_layout current) ! i
          in if bw_revision widget \<noteq> revision then Inl BConflict
             else if bw_instanceId widget \<noteq> None \<and> bw_instanceId widget \<noteq> instanceId then Inl BConflict
             else if bw_grantState widget \<noteq> GPending then Inl BInvalid
             else Inr (current\<lparr>bs_revision := bs_revision current + 1,
               bs_layout := (bs_layout current)\<lparr>bl_widgets :=
                 (bl_widgets (bs_layout current))[i := widget\<lparr>bw_grantState := decided decision\<rparr>]\<rparr>\<rparr>)))"

subsection \<open>The database\<close>

record board_db =
  db_session_nodes :: "string \<Rightarrow> json option option"
  db_tabs :: "tab_row list"
  db_widgets :: "widget_row list"

text \<open>
  The entry of a session node, \<open>Some None\<close> when its text does not parse.
\<close>

definition hasSession :: "board_db \<Rightarrow> string \<Rightarrow> bool" where
  "hasSession db sessionKey \<longleftrightarrow>
     (case db_session_nodes db sessionKey of
        Some (Some (JObj fs)) \<Rightarrow> json_string (jprop fs ''sessionId'') \<noteq> None
      | _ \<Rightarrow> False)"

definition tab_rows :: "board_db \<Rightarrow> string \<Rightarrow> tab_row list" where
  "tab_rows db s = filter (\<lambda>r. tr_session_key r = s) (db_tabs db)"

definition widget_rows :: "board_db \<Rightarrow> string \<Rightarrow> widget_row list" where
  "widget_rows db s = filter (\<lambda>r. wr_session_key r = s) (db_widgets db)"

record stored_board =
  sb_snapshot :: board_snapshot
  sb_tabRows :: "tab_row list"
  sb_widgetRows :: "widget_row list"
  sb_htmlViewMetadata :: "(string \<times> html_metadata) list"

definition admitted :: "url_parser \<Rightarrow> widget_row \<Rightarrow> bool" where
  "admitted parse_url row \<longleftrightarrow>
     (wr_content_kind row \<noteq> KMcpApp
      \<or> (mf_mcpAppInteractive (parseManifest parse_url (wr_manifest row)) \<noteq> None
         \<and> mf_mcpAppInstanceId (parseManifest parse_url (wr_manifest row)) \<noteq> None))"

definition readStoredBoard :: "board_env \<Rightarrow> board_db \<Rightarrow> string \<Rightarrow> stored_board" where
  "readStoredBoard env db sessionKey =
     (let parse = (\<lambda>r. parseManifest (be_parse_url env) (wr_manifest r));
          tabRows = sort_key (\<lambda>r. (tr_position r, tr_tab_id r)) (tab_rows db sessionKey);
          selected = sort_key (\<lambda>r. (wr_tab_id r, wr_position r, wr_name r)) (widget_rows db sessionKey);
          rows = filter (admitted (be_parse_url env)) selected
      in \<lparr>sb_snapshot = \<lparr>bs_sessionKey = sessionKey,
            bs_revision = foldl (\<lambda>m r. max m (tr_revision r)) 0 tabRows,
            bs_layout = normalizeBoardLayout \<lparr>bl_tabs = map rowToTab tabRows,
              bl_widgets = map (\<lambda>r. rowToWidget r (parse r)) rows\<rparr>\<rparr>,
          sb_tabRows = tabRows, sb_widgetRows = rows,
          sb_htmlViewMetadata = List.map_filter (\<lambda>r. map_option (Pair (wr_name r))
            (rowToHtmlViewMetadata r (parse r))) rows\<rparr>)"

subsection \<open>Statements\<close>

definition tab_author :: "tab_row list \<Rightarrow> string \<Rightarrow> board_author" where
  "tab_author rows tabId =
     (case map_of (rev (map (\<lambda>r. (tr_tab_id r, tr_created_by r)) rows)) tabId of
        Some a \<Rightarrow> a | None \<Rightarrow> AuthorAgent)"

definition upsertTab :: "string \<Rightarrow> int \<Rightarrow> tab_row list \<Rightarrow> board_tab \<Rightarrow> board_db \<Rightarrow> board_db" where
  "upsertTab s revision rows tab db =
     (if list_ex (\<lambda>r. tr_session_key r = s \<and> tr_tab_id r = bt_tabId tab) (db_tabs db)
      then db\<lparr>db_tabs := map (\<lambda>r. if tr_session_key r = s \<and> tr_tab_id r = bt_tabId tab
        then r\<lparr>tr_title := bt_title tab, tr_position := bt_position tab, tr_chat_dock := bt_chatDock tab,
               tr_revision := revision\<rparr>
        else r) (db_tabs db)\<rparr>
      else db\<lparr>db_tabs := db_tabs db @
        [\<lparr>tr_session_key = s, tr_tab_id = bt_tabId tab, tr_title = bt_title tab,
          tr_position = bt_position tab, tr_chat_dock = bt_chatDock tab,
          tr_created_by = tab_author rows (bt_tabId tab), tr_revision = revision\<rparr>]\<rparr>)"

definition upsertTabs :: "stored_board \<Rightarrow> board_snapshot \<Rightarrow> board_db \<Rightarrow> board_db" where
  "upsertTabs previous next db =
     fold (upsertTab (bs_sessionKey next) (bs_revision next) (sb_tabRows previous)) (bl_tabs (bs_layout next)) db"

text \<open>An update of the widget row with a primary key.\<close>

definition on_widget :: "string \<Rightarrow> string \<Rightarrow> (widget_row \<Rightarrow> widget_row) \<Rightarrow> board_db \<Rightarrow> board_db" where
  "on_widget s name f db =
     db\<lparr>db_widgets := map (\<lambda>r. if wr_session_key r = s \<and> wr_name r = name then f r else r) (db_widgets db)\<rparr>"

definition set_layout :: "board_widget \<Rightarrow> widget_row \<Rightarrow> widget_row" where
  "set_layout w r = r\<lparr>wr_tab_id := bw_tabId w, wr_title := bw_title w, wr_size_w := bw_sizeW w,
     wr_size_h := bw_sizeH w, wr_position := bw_position w\<rparr>"

definition updateWidgetLayouts :: "board_snapshot \<Rightarrow> int \<Rightarrow> board_db \<Rightarrow> board_db" where
  "updateWidgetLayouts snapshot updatedAt db =
     fold (\<lambda>w. on_widget (bs_sessionKey snapshot) (bw_name w)
       (\<lambda>r. (set_layout w r)\<lparr>wr_updated_at := updatedAt\<rparr>)) (bl_widgets (bs_layout snapshot)) db"

definition updateWidgetHeightMode :: "stored_board \<Rightarrow> board_op \<Rightarrow> board_db \<Rightarrow> board_db" where
  "updateWidgetHeightMode previous op db =
     (case op of
        WidgetResize name _ _ heightMode \<Rightarrow>
          (case find (\<lambda>r. wr_name r = name) (sb_widgetRows previous) of
             None \<Rightarrow> db
           | Some row \<Rightarrow> on_widget (bs_sessionKey (sb_snapshot previous)) name
               (\<lambda>r. r\<lparr>wr_manifest := updateManifestHeightMode (wr_manifest row) (case_option HeightFixed id heightMode)\<rparr>)
               db)
      | _ \<Rightarrow> db)"

definition updateWidgetHeightModes :: "stored_board \<Rightarrow> board_op list \<Rightarrow> board_db \<Rightarrow> board_db" where
  "updateWidgetHeightModes previous ops db = fold (updateWidgetHeightMode previous) ops db"

definition deleteWidget :: "string \<Rightarrow> string \<Rightarrow> board_db \<Rightarrow> board_db" where
  "deleteWidget s name db =
     db\<lparr>db_widgets := filter (\<lambda>r. \<not> (wr_session_key r = s \<and> wr_name r = name)) (db_widgets db)\<rparr>"

definition deleteRemovedWidgets :: "stored_board \<Rightarrow> board_snapshot \<Rightarrow> board_db \<Rightarrow> board_db" where
  "deleteRemovedWidgets previous next db =
     fold (\<lambda>row d. if wr_name row \<in> bw_name ` set (bl_widgets (bs_layout next)) then d
        else deleteWidget (bs_sessionKey next) (wr_name row) d) (sb_widgetRows previous) db"

text \<open>The widgets of a deleted tab go with it: \<^verbatim>\<open>ON DELETE CASCADE\<close>.\<close>

definition deleteTab :: "string \<Rightarrow> string \<Rightarrow> board_db \<Rightarrow> board_db" where
  "deleteTab s tabId db =
     db\<lparr>db_tabs := filter (\<lambda>r. \<not> (tr_session_key r = s \<and> tr_tab_id r = tabId)) (db_tabs db),
        db_widgets := filter (\<lambda>r. \<not> (wr_session_key r = s \<and> wr_tab_id r = tabId)) (db_widgets db)\<rparr>"

definition deleteRemovedTabs :: "stored_board \<Rightarrow> board_snapshot \<Rightarrow> board_db \<Rightarrow> board_db" where
  "deleteRemovedTabs previous next db =
     fold (\<lambda>row d. if tr_tab_id row \<in> bt_tabId ` set (bl_tabs (bs_layout next)) then d
        else deleteTab (bs_sessionKey next) (tr_tab_id row) d) (sb_tabRows previous) db"

text \<open>\<^verbatim>\<open>INSERT ... ON CONFLICT (session_key, name) DO UPDATE\<close>; the fields are spread last.\<close>

definition upsertWidget ::
    "string \<Rightarrow> board_widget \<Rightarrow> (widget_row \<Rightarrow> widget_row) \<Rightarrow> board_author \<Rightarrow> int \<Rightarrow> board_db \<Rightarrow> board_db" where
  "upsertWidget s w put_fields created_by created_at db =
     (if list_ex (\<lambda>r. wr_session_key r = s \<and> wr_name r = bw_name w) (db_widgets db)
      then on_widget s (bw_name w) (\<lambda>r. put_fields (set_layout w r)) db
      else db\<lparr>db_widgets := db_widgets db @
        [put_fields \<lparr>wr_session_key = s, wr_name = bw_name w, wr_tab_id = bw_tabId w, wr_title = bw_title w,
           wr_content_kind = KHtml, wr_html = None, wr_descriptor_json = None, wr_sha256 = [],
           wr_view_generation = None, wr_revision = 0, wr_size_w = bw_sizeW w, wr_size_h = bw_sizeH w,
           wr_position = bw_position w, wr_manifest = [], wr_grant_state = GNone, wr_granted_sha = None,
           wr_created_by = created_by, wr_created_at = created_at, wr_updated_at = 0\<rparr>]\<rparr>)"

subsection \<open>The store\<close>

definition getSnapshot :: "board_env \<Rightarrow> board_db \<Rightarrow> string \<Rightarrow> board_snapshot" where
  "getSnapshot env db s = (if hasSession db s then sb_snapshot (readStoredBoard env db s) else emptyBoardSnapshot s)"

definition getSnapshotWithHtmlViewMetadata ::
    "board_env \<Rightarrow> board_db \<Rightarrow> string \<Rightarrow> board_snapshot \<times> (string \<times> html_metadata) list" where
  "getSnapshotWithHtmlViewMetadata env db s =
     (if hasSession db s
      then (sb_snapshot (readStoredBoard env db s), sb_htmlViewMetadata (readStoredBoard env db s))
      else (emptyBoardSnapshot s, []))"

text \<open>The operations of a write. \<open>hasSession\<close> is asked before the transaction and in it.\<close>

definition applyOps ::
    "board_env \<Rightarrow> board_db \<Rightarrow> string \<Rightarrow> board_op list \<Rightarrow> int \<Rightarrow> board_error + board_snapshot \<times> board_db" where
  "applyOps env db s ops now =
     (if ops = [] then Inr (getSnapshot env db s, db)
      else if \<not> hasSession db s then Inl BNotFound
      else
       (let previous = readStoredBoard env db s
        in bnd (applyBoardOps (bs_layout (sb_snapshot previous)) ops) (\<lambda>layout.
           let next = \<lparr>bs_sessionKey = s, bs_revision = bs_revision (sb_snapshot previous) + 1, bs_layout = layout\<rparr>
           in Inr (next,
                deleteRemovedTabs previous next
                  (updateWidgetHeightModes previous ops
                    (updateWidgetLayouts next now
                      (deleteRemovedWidgets previous next
                        (upsertTabs previous next db))))))))"

definition canonical_params :: "put_params \<Rightarrow> board_declared option \<Rightarrow> put_params" where
  "canonical_params params declared = params\<lparr>pm_declared := declared\<rparr>"

definition grantScopeMatches :: "widget_row option \<Rightarrow> board_content \<Rightarrow> bool" where
  "grantScopeMatches existing content =
     (case existing of
        None \<Rightarrow> True
      | Some row \<Rightarrow>
         (case wr_content_kind row of
            KHtml \<Rightarrow> content_kind_of content = KHtml
          | KMcpApp \<Rightarrow> (case (wr_descriptor_json row, content) of
              (Some v, CMcpApp d _) \<Rightarrow> jfield v ''serverName'' = Some (JStr (md_serverName d)) | _ \<Rightarrow> False)
          | KPlugin \<Rightarrow> (case (wr_descriptor_json row, content) of
              (Some v, CPlugin k _) \<Rightarrow> jfield v ''pluginKind'' = Some (JStr k) | _ \<Rightarrow> False)))"

definition putWidget ::
    "board_env \<Rightarrow> board_db \<Rightarrow> string \<Rightarrow> put_params \<Rightarrow> string \<Rightarrow> int \<Rightarrow> board_error + board_snapshot \<times> board_db" where
  "putWidget env db s params viewGeneration now =
     (if \<not> hasSession db s then Inl BNotFound
      else
       bnd (normalizeBoardWidgetDeclared (be_parse_url env) (pm_declared params)) (\<lambda>declared.
       let canonicalParams = canonical_params params declared;
           previous = readStoredBoard env db s;
           existing = find (\<lambda>r. wr_name r = pm_name params) (sb_widgetRows previous)
       in bnd (createBoardWidgetPutSnapshot env (sb_snapshot previous) canonicalParams
                (grantScopeMatches existing (pm_content params))
                (Option.bind existing wr_granted_sha) viewGeneration) (\<lambda>next.
          case widget_named (bs_layout next) (pm_name params) of
            None \<Rightarrow> Inl BTypeError
          | Some widget \<Rightarrow>
              Inr (next,
                updateWidgetLayouts next now
                  (upsertWidget s widget
                    (createBoardWidgetContentFields env canonicalParams (bw_presentation widget)
                       (bw_heightMode widget) (bw_revision widget) (bw_grantState widget) viewGeneration now)
                    (case_option AuthorAgent wr_created_by existing) (case_option now wr_created_at existing)
                    (upsertTabs previous next db))))))"

definition decide_row :: "board_env \<Rightarrow> grant_decision \<Rightarrow> int \<Rightarrow> widget_row \<Rightarrow> widget_row \<Rightarrow> widget_row" where
  "decide_row env decision now row r =
     (let manifest = parseManifest (be_parse_url env) (wr_manifest row)
      in r\<lparr>wr_grant_state := decided decision,
           wr_granted_sha := (if decision = DecideGranted then Some (wr_sha256 row) else None),
           wr_manifest := serializeManifest (mf_declared manifest) (decided decision)
             (case (mf_mcpAppInteractive manifest, truthy (mf_mcpAppInstanceId manifest)) of
                (Some b, Some i) \<Rightarrow> Some (b, i) | _ \<Rightarrow> None)
             (mf_presentation manifest) (mf_heightMode manifest),
           wr_updated_at := now\<rparr>)"

definition grant ::
    "board_env \<Rightarrow> board_db \<Rightarrow> string \<Rightarrow> string \<Rightarrow> grant_decision \<Rightarrow> int \<Rightarrow> string option \<Rightarrow> int
      \<Rightarrow> board_error + board_snapshot \<times> board_db" where
  "grant env db s name decision revision instanceId now =
     (if \<not> hasSession db s then Inl BNotFound
      else
       (let previous = readStoredBoard env db s
        in bnd (createBoardGrantSnapshot (sb_snapshot previous) name decision revision instanceId) (\<lambda>next.
           case find (\<lambda>r. wr_name r = name) (sb_widgetRows previous) of
             None \<Rightarrow> Inl BTypeError
           | Some row \<Rightarrow>
               Inr (next, on_widget s name (decide_row env decision now row) (upsertTabs previous next db)))))"

record html_document =
  hd_html :: string
  hd_metadata :: html_metadata

definition row_named :: "board_db \<Rightarrow> string \<Rightarrow> string \<Rightarrow> widget_row option" where
  "row_named db s name = find (\<lambda>r. wr_session_key r = s \<and> wr_name r = name) (db_widgets db)"

definition rowToHtmlDocument :: "board_env \<Rightarrow> widget_row \<Rightarrow> html_document option" where
  "rowToHtmlDocument env row =
     (case (wr_html row, rowToHtmlViewMetadata row (parseManifest (be_parse_url env) (wr_manifest row))) of
        (Some html, Some m) \<Rightarrow> Some \<lparr>hd_html = html, hd_metadata = m\<rparr>
      | _ \<Rightarrow> None)"

definition readWidgetHtml :: "board_env \<Rightarrow> board_db \<Rightarrow> string \<Rightarrow> string \<Rightarrow> html_document option" where
  "readWidgetHtml env db s name =
     (if hasSession db s then Option.bind (row_named db s name) (rowToHtmlDocument env) else None)"

record mcp_document =
  ma_descriptor :: json
  ma_revision :: int
  ma_instanceId :: string
  ma_grantState :: grant_state
  ma_declaredTools :: "string list"
  ma_interactive :: bool

definition rowToMcpDocument :: "board_env \<Rightarrow> widget_row \<Rightarrow> mcp_document option" where
  "rowToMcpDocument env row =
     (let manifest = parseManifest (be_parse_url env) (wr_manifest row)
      in if wr_content_kind row \<noteq> KMcpApp then None
         else (case (wr_descriptor_json row, mf_mcpAppInteractive manifest, mf_mcpAppInstanceId manifest) of
            (Some v, Some b, Some i) \<Rightarrow>
              Some \<lparr>ma_descriptor = v, ma_revision = wr_revision row, ma_instanceId = i,
                ma_grantState = effectiveGrantState (wr_grant_state row) manifest,
                ma_declaredTools = list_of (Option.bind (mf_declared manifest) bd_tools), ma_interactive = b\<rparr>
          | _ \<Rightarrow> None))"

definition readWidgetMcpApp :: "board_env \<Rightarrow> board_db \<Rightarrow> string \<Rightarrow> string \<Rightarrow> mcp_document option" where
  "readWidgetMcpApp env db s name =
     (if hasSession db s then Option.bind (row_named db s name) (rowToMcpDocument env) else None)"

text \<open>The session keys a registered agent database lists.\<close>

definition listSessionsWithBoards :: "board_db list \<Rightarrow> string list" where
  "listSessionsWithBoards dbs = sort (remdups (concat (map (\<lambda>db. map tr_session_key (db_tabs db)) dbs)))"

end
