(* ===== verification/Board_Normal.thy ===== *)
theory Board_Normal
  imports Board_Layout "HOL-Library.Multiset"
begin

section \<open>Boards as lists of lists\<close>

text \<open>
  What a layout means: the tabs in order, each with its widgets in order, and no positions. \<open>board\<close>
  is that abstract board, \<open>conc\<close> numbers it as the code stores it, \<open>abs_board\<close> reads it back.
  The main fact is \<open>normalize_groups\<close>: normalizing any layout whose tab ids are distinct and whose
  widgets are all on a tab gives the numbered form of its grouping, so the sorting by a pair of
  positions and the renumbering of the code are one map.
\<close>

type_synonym board = "(board_tab \<times> board_widget list) list"

definition strip_tab :: "board_tab \<Rightarrow> board_tab" where
  "strip_tab t = t\<lparr>bt_position := 0\<rparr>"

definition strip_widget :: "board_widget \<Rightarrow> board_widget" where
  "strip_widget w = w\<lparr>bw_tabId := [], bw_position := 0\<rparr>"

abbreviation tab_ids :: "board \<Rightarrow> string list" where
  "tab_ids B \<equiv> map (\<lambda>e. bt_tabId (fst e)) B"

abbreviation items :: "board \<Rightarrow> board_widget list" where
  "items B \<equiv> concat (map snd B)"

abbreviation on_tab :: "string \<Rightarrow> board_widget list \<Rightarrow> board_widget list" where
  "on_tab i ws \<equiv> filter (\<lambda>w. bw_tabId w = i) ws"

definition place :: "string \<Rightarrow> board_widget list \<Rightarrow> board_widget list" where
  "place i ws = number_in_order (map (\<lambda>w. w\<lparr>bw_tabId := i\<rparr>) ws)"

definition conc :: "board \<Rightarrow> board_layout" where
  "conc B = \<lparr>bl_tabs = number_tabs (map fst B),
     bl_widgets = concat (map (\<lambda>(t, ws). place (bt_tabId t) ws) B)\<rparr>"

definition abs_board :: "board_layout \<Rightarrow> board" where
  "abs_board L = map (\<lambda>t. (strip_tab t, map strip_widget (on_tab (bt_tabId t) (bl_widgets L)))) (bl_tabs L)"

definition stripped :: "board \<Rightarrow> bool" where
  "stripped B \<longleftrightarrow> (\<forall>e\<in>set B. bt_position (fst e) = 0
     \<and> (\<forall>w\<in>set (snd e). bw_tabId w = [] \<and> bw_position w = 0))"

definition board_ok :: "board \<Rightarrow> bool" where
  "board_ok B \<longleftrightarrow> distinct (tab_ids B) \<and> distinct (map bw_name (items B)) \<and> stripped B
     \<and> int (length (items B)) \<le> js_max_safe"

subsection \<open>Numbering\<close>

lemma length_number_tabs [simp]: "length (number_tabs ts) = length ts"
  by (simp add: number_tabs_def)

lemma number_tabs_nth [simp]:
  "i < length ts \<Longrightarrow> number_tabs ts ! i = (ts ! i)\<lparr>bt_position := int i\<rparr>"
  by (simp add: number_tabs_def nth_enumerate_eq)

lemma map_number_tabs:
  "(\<And>t p. f (t\<lparr>bt_position := p\<rparr>) = f t) \<Longrightarrow> map f (number_tabs ts) = map f ts"
  by (rule nth_equalityI) auto

lemma number_tabs_Nil [simp]: "number_tabs [] = []"
  by (simp add: number_tabs_def)

lemma number_tabs_strip [simp]: "number_tabs (map strip_tab ts) = number_tabs ts"
  by (rule nth_equalityI) (auto simp: strip_tab_def)

lemma number_tabs_number [simp]: "number_tabs (number_tabs ts) = number_tabs ts"
  by (rule nth_equalityI) auto

lemma positions_number_tabs: "map bt_position (number_tabs ts) = map int [0..<length ts]"
  by (rule nth_equalityI) auto

lemma length_number_in_order [simp]: "length (number_in_order ws) = length ws"
  by (simp add: number_in_order_def)

lemma number_in_order_nth [simp]:
  "i < length ws \<Longrightarrow> number_in_order ws ! i = (ws ! i)\<lparr>bw_position := int i\<rparr>"
  by (simp add: number_in_order_def nth_enumerate_eq)

lemma map_number_in_order:
  "(\<And>w p. f (w\<lparr>bw_position := p\<rparr>) = f w) \<Longrightarrow> map f (number_in_order ws) = map f ws"
  by (rule nth_equalityI) auto

lemma length_place [simp]: "length (place i ws) = length ws"
  by (simp add: place_def)

lemma place_nth [simp]:
  "k < length ws \<Longrightarrow> place i ws ! k = (ws ! k)\<lparr>bw_tabId := i, bw_position := int k\<rparr>"
  by (simp add: place_def)

lemma place_Nil [simp]: "place i [] = []"
  by (simp add: place_def number_in_order_def)

lemma map_place:
  "(\<And>w j p. f (w\<lparr>bw_tabId := j, bw_position := p\<rparr>) = f w) \<Longrightarrow> map f (place i ws) = map f ws"
  by (rule nth_equalityI) auto

lemma names_place [simp]: "map bw_name (place i ws) = map bw_name ws"
  by (rule map_place) simp

lemma place_tab: "w \<in> set (place i ws) \<Longrightarrow> bw_tabId w = i"
  by (auto simp: in_set_conv_nth)

lemma place_position:
  "w \<in> set (place i ws) \<Longrightarrow> 0 \<le> bw_position w \<and> bw_position w < int (length ws)"
  by (auto simp: in_set_conv_nth)

lemma place_strip [simp]: "place i (map strip_widget ws) = place i ws"
  by (rule nth_equalityI) (auto simp: strip_widget_def)

lemma place_cong_strip: "map strip_widget us = map strip_widget ws \<Longrightarrow> place i us = place i ws"
  by (metis place_strip)

lemma strip_place [simp]: "map strip_widget (place i ws) = map strip_widget ws"
  by (rule nth_equalityI) (auto simp: strip_widget_def)

lemma place_sorted: "sorted (map bw_position (place i ws))"
  by (auto simp: sorted_iff_nth_mono)

lemma sort_place [simp]: "sort_key bw_position (place i ws) = place i ws"
  by (rule sort_key_id_if_sorted) (rule place_sorted)

lemma on_tab_place [simp]: "on_tab i (place i ws) = place i ws"
  by (simp add: filter_id_conv place_tab)

lemma on_other_tab_place [simp]: "i \<noteq> j \<Longrightarrow> on_tab j (place i ws) = []"
  using place_tab by (fastforce simp: filter_empty_conv)

lemma strip_tab_id [simp]: "bt_tabId (strip_tab t) = bt_tabId t"
  by (simp add: strip_tab_def)

lemma strip_widget_simps [simp]:
  "bw_name (strip_widget w) = bw_name w" "bw_tabId (strip_widget w) = []"
  "bw_position (strip_widget w) = 0" "strip_widget (w\<lparr>bw_tabId := i\<rparr>) = strip_widget w"
  "strip_widget (w\<lparr>bw_position := p\<rparr>) = strip_widget w" "strip_widget (strip_widget w) = strip_widget w"
  by (simp_all add: strip_widget_def)

text \<open>\<open>number_widgets\<close> counts every tab on its own.\<close>

fun number_from :: "int \<Rightarrow> board_widget list \<Rightarrow> board_widget list" where
  "number_from n [] = []"
| "number_from n (w # ws) = w\<lparr>bw_position := n\<rparr> # number_from (n + 1) ws"

lemma length_number_from [simp]: "length (number_from n ws) = length ws"
  by (induction n ws rule: number_from.induct) auto

lemma number_from_nth: "k < length ws \<Longrightarrow> number_from n ws ! k = (ws ! k)\<lparr>bw_position := n + int k\<rparr>"
proof (induction n ws arbitrary: k rule: number_from.induct)
  case (2 n w ws)
  then show ?case by (cases k) auto
qed simp

lemma number_from_0: "number_from 0 ws = number_in_order ws"
  by (rule nth_equalityI) (auto simp: number_from_nth)

lemma number_widgets_append:
  assumes "\<And>w. w \<in> set ws \<Longrightarrow> bw_tabId w = i"
  shows "number_widgets next (ws @ us)
       = number_from (next i) ws @ number_widgets (next(i := next i + int (length ws))) us"
  using assms
proof (induction ws arbitrary: "next")
  case (Cons w ws)
  from Cons.prems have [simp]: "bw_tabId w = i" by simp
  have u: "(next(i := next i + 1))(i := (next(i := next i + 1)) i + int (length ws))
      = next(i := next i + int (length (w # ws)))"
    by (simp add: fun_eq_iff)
  from Cons.IH [of "next(i := next i + 1)"] Cons.prems show ?case
    unfolding u by (simp add: fun_upd_def)
qed simp

lemma number_widgets_groups:
  assumes "distinct (map bt_tabId ts)" "\<And>t. t \<in> set ts \<Longrightarrow> next (bt_tabId t) = 0"
    and "\<And>t w. t \<in> set ts \<Longrightarrow> w \<in> set (g t) \<Longrightarrow> bw_tabId w = bt_tabId t"
  shows "number_widgets next (concat (map g ts)) = concat (map (\<lambda>t. place (bt_tabId t) (g t)) ts)"
  using assms
proof (induction ts arbitrary: "next")
  case (Cons t ts)
  have "map (\<lambda>w. w\<lparr>bw_tabId := bt_tabId t\<rparr>) (g t) = g t"
    using Cons.prems(3) [of t] by (intro map_idI) simp
  hence p: "number_from (next (bt_tabId t)) (g t) = place (bt_tabId t) (g t)"
    using Cons.prems(2) [of t] by (simp add: place_def number_from_0)
  have "bt_tabId u \<noteq> bt_tabId t" if "u \<in> set ts" for u
    using Cons.prems(1) that by (auto simp: image_iff)
  hence i: "number_widgets (next(bt_tabId t := next (bt_tabId t) + int (length (g t)))) (concat (map g ts))
      = concat (map (\<lambda>t. place (bt_tabId t) (g t)) ts)"
    by (intro Cons.IH) (use Cons.prems in auto)
  show ?case
    using number_widgets_append [of "g t" "bt_tabId t" "next" "concat (map g ts)"] Cons.prems(3) [of t] p i
    by simp
qed simp

subsection \<open>Normalizing\<close>

lemma map_of_distinct_rev:
  assumes "distinct (map f xs)" "x \<in> set xs"
  shows "map_of (rev (map (\<lambda>y. (f y, g y)) xs)) (f x) = Some (g x)"
proof -
  have "distinct (map fst (rev (map (\<lambda>y. (f y, g y)) xs)))"
    using assms(1) by (simp add: rev_map [symmetric] comp_def del: rev_map)
  thus ?thesis using assms(2) by (intro map_of_is_SomeI) auto
qed

lemma tab_position_number:
  assumes "distinct (map bt_tabId ts)" "k < length ts"
  shows "tab_position (number_tabs ts) (bt_tabId (ts ! k)) = int k"
proof -
  have "distinct (map bt_tabId (number_tabs ts))"
    using assms(1) by (simp add: map_number_tabs)
  moreover have "number_tabs ts ! k \<in> set (number_tabs ts)"
    using assms(2) by (intro nth_mem) simp
  ultimately have "map_of (rev (map (\<lambda>t. (bt_tabId t, bt_position t)) (number_tabs ts)))
      (bt_tabId (number_tabs ts ! k)) = Some (bt_position (number_tabs ts ! k))"
    by (rule map_of_distinct_rev)
  thus ?thesis using assms(2) by (simp add: tab_position_def)
qed

lemma concat_pick:
  assumes "distinct (map h ts)" "t \<in> set ts" "\<And>u. u \<in> set ts \<Longrightarrow> h u \<noteq> h t \<Longrightarrow> g u = []"
  shows "concat (map g ts) = g t"
  using assms
proof (induction ts)
  case (Cons u ts)
  show ?case
  proof (cases "u = t")
    case True
    with Cons.prems have "\<forall>v\<in>set ts. g v = []" by (auto simp: image_iff)
    with True show ?thesis by (simp add: concat_eq_Nil_conv)
  next
    case False
    with Cons.prems have t: "t \<in> set ts" by simp
    hence "h u \<noteq> h t" using Cons.prems(1) by (auto simp: image_iff)
    hence "g u = []" using Cons.prems(3) by simp
    with Cons.IH t Cons.prems show ?thesis by simp
  qed
qed simp

text \<open>Sorting by tab, then position, is sorting every tab's widgets and concatenating.\<close>

lemma mset_on_tabs:
  assumes "distinct (map bt_tabId ts)" "\<And>w. w \<in> set ws \<Longrightarrow> bw_tabId w \<in> set (map bt_tabId ts)"
  shows "mset (concat (map (\<lambda>t. on_tab (bt_tabId t) ws) ts)) = mset ws"
  using assms
proof (induction ts arbitrary: ws)
  case (Cons t ts)
  let ?r = "filter (\<lambda>w. bw_tabId w \<noteq> bt_tabId t) ws"
  have "on_tab (bt_tabId u) ?r = on_tab (bt_tabId u) ws" if "u \<in> set ts" for u
    using Cons.prems(1) that by (auto simp: image_iff intro!: filter_cong)
  hence m: "map (\<lambda>u. on_tab (bt_tabId u) ws) ts = map (\<lambda>u. on_tab (bt_tabId u) ?r) ts"
    by (intro map_cong) auto
  have "mset (concat (map (\<lambda>u. on_tab (bt_tabId u) ?r) ts)) = mset ?r"
    by (rule Cons.IH) (use Cons.prems in auto)
  moreover have "mset (on_tab (bt_tabId t) ws) + mset ?r = mset ws"
    by (induction ws) auto
  ultimately show ?case
    unfolding list.map concat.simps mset_append m by (simp only:)
next
  case Nil
  then show ?case by (cases ws) auto
qed

lemma mset_concat_cong:
  "(\<And>t. t \<in> set ts \<Longrightarrow> mset (f t) = mset (g t)) \<Longrightarrow> mset (concat (map f ts)) = mset (concat (map g ts))"
  by (induction ts) auto

lemma sort_by_tab:
  assumes d: "distinct (map bt_tabId ts)"
    and ws: "\<And>w. w \<in> set ws \<Longrightarrow> bw_tabId w \<in> set (map bt_tabId ts)"
    and P: "\<And>k. k < length ts \<Longrightarrow> P (bt_tabId (ts ! k)) = int k"
  shows "sort_key (\<lambda>w. (P (bw_tabId w), bw_position w)) ws
       = concat (map (\<lambda>t. sort_key bw_position (on_tab (bt_tabId t) ws)) ts)" (is "_ = ?ys")
proof (rule properties_for_sort_key)
  have "mset ?ys = mset (concat (map (\<lambda>t. on_tab (bt_tabId t) ws) ts))"
    by (rule mset_concat_cong) simp
  thus "mset ?ys = mset ws" using mset_on_tabs [OF d ws] by simp
next
  have inj: "a = b" if "P (bt_tabId a) = P (bt_tabId b)" "a \<in> set ts" "b \<in> set ts" for a b
    using that P by (auto simp: in_set_conv_nth)
  fix v assume "v \<in> set ?ys"
  then obtain t where t: "t \<in> set ts" "bw_tabId v = bt_tabId t" by auto
  have eq: "(P (bw_tabId v), bw_position v) = (P (bw_tabId x), bw_position x)
      \<longleftrightarrow> bw_tabId x = bt_tabId t \<and> bw_position x = bw_position v" if "x \<in> set ws" for x
  proof -
    from ws [OF that] obtain u where u: "u \<in> set ts" "bw_tabId x = bt_tabId u" by auto
    have "P (bt_tabId t) = P (bt_tabId u) \<longleftrightarrow> bt_tabId u = bt_tabId t"
      using inj [OF _ t(1) u(1)] by metis
    thus ?thesis unfolding t(2) u(2) by (simp add: eq_commute)
  qed
  have f: "filter (\<lambda>x. (P (bw_tabId v), bw_position v) = (P (bw_tabId x), bw_position x))
        (sort_key bw_position (on_tab (bt_tabId u) ws))
      = filter (\<lambda>x. bw_tabId x = bt_tabId t \<and> bw_position x = bw_position v)
        (sort_key bw_position (on_tab (bt_tabId u) ws))" for u
    by (rule filter_cong [OF refl], rule eq) simp
  have "filter (\<lambda>x. (P (bw_tabId v), bw_position v) = (P (bw_tabId x), bw_position x)) ?ys
      = concat (map (\<lambda>u. filter (\<lambda>x. bw_tabId x = bt_tabId t \<and> bw_position x = bw_position v)
          (sort_key bw_position (on_tab (bt_tabId u) ws))) ts)"
    unfolding filter_concat map_map comp_def f ..
  also have "\<dots> = filter (\<lambda>x. bw_tabId x = bt_tabId t \<and> bw_position x = bw_position v)
          (sort_key bw_position (on_tab (bt_tabId t) ws))"
    by (rule concat_pick [OF d t(1)]) (auto simp: filter_empty_conv)
  also have "\<dots> = filter (\<lambda>x. bw_position x = bw_position v) (sort_key bw_position (on_tab (bt_tabId t) ws))"
    by (rule filter_cong) auto
  also have "\<dots> = filter (\<lambda>x. bw_position x = bw_position v) (on_tab (bt_tabId t) ws)"
    by (rule sort_key_stable)
  also have "\<dots> = filter (\<lambda>x. (P (bw_tabId v), bw_position v) = (P (bw_tabId x), bw_position x)) ws"
    unfolding filter_filter by (rule filter_cong [OF refl]) (subst eq, assumption, auto)
  finally show "filter (\<lambda>x. (P (bw_tabId v), bw_position v) = (P (bw_tabId x), bw_position x)) ?ys
      = filter (\<lambda>x. (P (bw_tabId v), bw_position v) = (P (bw_tabId x), bw_position x)) ws" .
next
  have "sorted_wrt (\<lambda>t u. P (bt_tabId t) < P (bt_tabId u)) ts"
    using P by (simp add: sorted_wrt_iff_nth_less)
  thus "sorted (map (\<lambda>w. (P (bw_tabId w), bw_position w)) ?ys)"
  proof (induction ts)
    case (Cons t us)
    have m: "map (\<lambda>w. (P (bw_tabId w), bw_position w)) (sort_key bw_position (on_tab (bt_tabId t) ws))
      = map (\<lambda>p. (P (bt_tabId t), p)) (map bw_position (sort_key bw_position (on_tab (bt_tabId t) ws)))"
      by (auto intro: map_cong)
    have "sorted (map (\<lambda>p. (P (bt_tabId t), p)) (map bw_position (sort_key bw_position (on_tab (bt_tabId t) ws))))"
      by (rule sorted_map_mono) (auto simp: mono_on_def)
    hence "sorted (map (\<lambda>w. (P (bw_tabId w), bw_position w)) (sort_key bw_position (on_tab (bt_tabId t) ws)))"
      unfolding m .
    with Cons show ?case by (auto simp: sorted_append)
  qed simp
qed

text \<open>The grouping of a layout, as its abstract board.\<close>

definition group_board :: "board_layout \<Rightarrow> board" where
  "group_board L = map (\<lambda>t. (strip_tab t, map strip_widget
     (sort_key bw_position (on_tab (bt_tabId t) (bl_widgets L))))) (sort_key bt_position (bl_tabs L))"

definition loose :: "board_layout \<Rightarrow> bool" where
  "loose L \<longleftrightarrow> distinct (map bt_tabId (bl_tabs L))
     \<and> (\<forall>w\<in>set (bl_widgets L). bw_tabId w \<in> bt_tabId ` set (bl_tabs L))"

theorem normalize_groups:
  assumes "loose L"
  shows "normalizeBoardLayout L = conc (group_board L)"
proof -
  let ?ts = "sort_key bt_position (bl_tabs L)"
  let ?g = "\<lambda>t. sort_key bw_position (on_tab (bt_tabId t) (bl_widgets L))"
  have "mset (map bt_tabId ?ts) = mset (map bt_tabId (bl_tabs L))" by simp
  hence d: "distinct (map bt_tabId ?ts)"
    using assms by (metis loose_def mset_eq_imp_distinct_iff)
  have s: "sort_key (\<lambda>w. (tab_position (number_tabs ?ts) (bw_tabId w), bw_position w)) (bl_widgets L)
      = concat (map ?g ?ts)"
    by (rule sort_by_tab [OF d]) (use assms d in \<open>auto simp: loose_def tab_position_number\<close>)
  have n: "number_widgets (\<lambda>_. 0) (concat (map ?g ?ts)) = concat (map (\<lambda>t. place (bt_tabId t) (?g t)) ?ts)"
    by (rule number_widgets_groups [OF d]) auto
  show ?thesis
    unfolding normalizeBoardLayout_def conc_def group_board_def Let_def s n
    by (simp add: comp_def flip: map_map) (simp add: comp_def)
qed

end
