(* ===== verification/Board_Spec.thy ===== *)
theory Board_Spec
  imports Board_Normal
begin

section \<open>What board operations mean\<close>

text \<open>
  The specification of the layout operations on the abstract board, where a tab is taken with its
  widgets and nothing has a position. \<open>layout_ok\<close> is the invariant of a stored layout: tabs are
  numbered from 0, the widgets stand tab by tab in the order of the tabs, and within a tab they are
  numbered from 0.
\<close>

definition layout_ok :: "board_layout \<Rightarrow> bool" where
  "layout_ok L \<longleftrightarrow> distinct (map bt_tabId (bl_tabs L))
     \<and> distinct (map bw_name (bl_widgets L))
     \<and> map bt_position (bl_tabs L) = map int [0..<length (bl_tabs L)]
     \<and> bl_widgets L = concat (map (\<lambda>t. on_tab (bt_tabId t) (bl_widgets L)) (bl_tabs L))
     \<and> (\<forall>t\<in>set (bl_tabs L). map bw_position (on_tab (bt_tabId t) (bl_widgets L))
          = map int [0..<length (on_tab (bt_tabId t) (bl_widgets L))])
     \<and> int (length (bl_widgets L)) \<le> js_max_safe"

abbreviation is_tab :: "string \<Rightarrow> board_tab \<times> board_widget list \<Rightarrow> bool" where
  "is_tab i e \<equiv> bt_tabId (fst e) = i"

definition find_tab :: "string \<Rightarrow> board \<Rightarrow> (board_tab \<times> board_widget list) option" where
  "find_tab i B = find (is_tab i) B"

definition widgets_of :: "board \<Rightarrow> string \<Rightarrow> board_widget list" where
  "widgets_of B i = (case find_tab i B of None \<Rightarrow> [] | Some e \<Rightarrow> snd e)"

definition set_head :: "string option \<Rightarrow> chat_dock option \<Rightarrow> board_tab \<Rightarrow> board_tab" where
  "set_head title dock t = t\<lparr>bt_title := case_option (bt_title t) id title,
     bt_chatDock := case_option (bt_chatDock t) id dock\<rparr>"

text \<open>\<open>on_items f\<close> edits every tab's widgets; \<open>at_tab i f\<close> edits one tab.\<close>

definition on_items :: "(board_widget list \<Rightarrow> board_widget list) \<Rightarrow> board \<Rightarrow> board" where
  "on_items f B = map (\<lambda>(t, ws). (t, f ws)) B"

definition at_tab :: "string \<Rightarrow> (board_tab \<times> board_widget list \<Rightarrow> board_tab \<times> board_widget list) \<Rightarrow> board \<Rightarrow> board" where
  "at_tab i f B = map (\<lambda>e. if is_tab i e then f e else e) B"

definition resized :: "rat \<Rightarrow> rat \<Rightarrow> height_mode option \<Rightarrow> board_widget \<Rightarrow> board_widget" where
  "resized sizeW sizeH heightMode w = w\<lparr>bw_sizeW := clampInteger sizeW 1 12,
     bw_sizeH := clampInteger sizeH 1 20, bw_heightMode := Some (case_option HeightFixed id heightMode)\<rparr>"

text \<open>
  Where a widget goes: right behind its anchor, at a position cut down to the length of the list, or
  at the end.
\<close>

fun behind :: "string \<Rightarrow> board_widget list \<Rightarrow> nat option" where
  "behind a [] = None"
| "behind a (w # ws) = (if bw_name w = a then Some 1 else map_option Suc (behind a ws))"

definition spec_position ::
    "board_widget list \<Rightarrow> string \<Rightarrow> rat option \<Rightarrow> string option \<Rightarrow> board_error + nat" where
  "spec_position ws name position after =
     (case (after, position) of
        (Some a, _) \<Rightarrow>
          if a = name then Inl BInvalid
          else if a \<in> bw_name ` set ws then Inr (the (behind a ws)) else Inl BNotFound
      | (None, Some p) \<Rightarrow> Inr (if p \<le> 0 then 0 else min (length ws) (nat \<lfloor>p\<rfloor>))
      | (None, None) \<Rightarrow> Inr (length ws))"

lemma behind_index: "behind a ws = map_option Suc (find_index (\<lambda>w. bw_name w = a) ws)"
  by (induction ws) (auto simp: option.map_comp comp_def)

text \<open>Putting the widget \<open>w\<close> among the widgets of a tab of a board that does not hold it.\<close>

definition spec_place ::
    "board_widget \<Rightarrow> string \<Rightarrow> rat option \<Rightarrow> string option \<Rightarrow> board \<Rightarrow> board_error + board" where
  "spec_place w i position after B =
     (if find_tab i B = None then Inl BNotFound
      else if position \<noteq> None \<and> after \<noteq> None then Inl BInvalid
      else bnd (spec_position (widgets_of B i) (bw_name w) position after) (\<lambda>k.
             Inr (at_tab i (\<lambda>(t, ws). (t, splice_in k w ws)) B)))"

definition named :: "string \<Rightarrow> board_widget \<Rightarrow> bool" where
  "named name w \<longleftrightarrow> bw_name w = name"

definition home_of :: "string \<Rightarrow> board \<Rightarrow> (board_tab \<times> board_widget list) option" where
  "home_of name B = find (\<lambda>(_, ws). list_ex (named name) ws) B"

definition take_out :: "string \<Rightarrow> board \<Rightarrow> board" where
  "take_out name B = on_items (filter (\<lambda>w. \<not> named name w)) B"

fun spec_op :: "board_op \<Rightarrow> board \<Rightarrow> board_error + board" where
  "spec_op (TabCreate i title dock) B =
     (if i \<in> set (tab_ids B) then Inl BConflict
      else Inr (B @ [(\<lparr>bt_tabId = i, bt_title = title, bt_position = 0,
                       bt_chatDock = case_option DockRight id dock\<rparr>, [])]))"
| "spec_op (TabUpdate i title dock position) B =
     (case find_tab i B of
        None \<Rightarrow> Inl BNotFound
      | Some (t, ws) \<Rightarrow>
          if title = None \<and> dock = None \<and> position = None then Inl BInvalid
          else (case position of
                  None \<Rightarrow> Inr (at_tab i (\<lambda>(t, ws). (set_head title dock t, ws)) B)
                | Some p \<Rightarrow>
                    (let rest = filter (\<lambda>e. \<not> is_tab i e) B
                     in Inr (splice_in (nat (clampInteger p 0 (int (length rest))))
                              (set_head title dock t, ws) rest))))"
| "spec_op (TabDelete i) B =
     (case find_tab i B of
        None \<Rightarrow> Inl BNotFound
      | Some (_, ws) \<Rightarrow>
          (case filter (\<lambda>e. \<not> is_tab i e) B of
             [] \<Rightarrow> if ws = [] then Inr [] else Inl BInvalid
           | (u, us) # rest \<Rightarrow> Inr ((u, us @ ws) # rest)))"
| "spec_op (TabsReorder is) B =
     (if distinct is \<and> set is = set (tab_ids B)
      then Inr (map (\<lambda>i. hd (filter (is_tab i) B)) is)
      else Inl BInvalid)"
| "spec_op (WidgetMove name target position after) B =
     (case home_of name B of
        None \<Rightarrow> Inl BNotFound
      | Some (home, ws) \<Rightarrow>
          spec_place (hd (filter (named name) ws)) (case_option (bt_tabId home) id target)
            position after (take_out name B))"
| "spec_op (WidgetResize name sizeW sizeH heightMode) B =
     (if home_of name B = None then Inl BNotFound
      else Inr (on_items (map (\<lambda>w. if named name w then resized sizeW sizeH heightMode w else w)) B))"
| "spec_op (WidgetRemove name) B =
     (if home_of name B = None then Inl BNotFound else Inr (take_out name B))"

fun spec_ops :: "board_op list \<Rightarrow> board \<Rightarrow> board_error + board" where
  "spec_ops [] B = Inr B"
| "spec_ops (op # ops) B = bnd (spec_op op B) (spec_ops ops)"

subsection \<open>Lists found by key\<close>

lemma find_index_None: "find_index p xs = None \<longleftrightarrow> (\<forall>x\<in>set xs. \<not> p x)"
  by (induction xs) auto

lemma find_index_Some: "find_index p xs = Some i \<Longrightarrow> i < length xs \<and> p (xs ! i)"
  by (induction xs arbitrary: i) (auto split: if_splits simp: nth_Cons split: nat.splits)

lemma find_index_nth_cong:
  "length xs = length ys \<Longrightarrow> (\<And>i. i < length xs \<Longrightarrow> p (xs ! i) = q (ys ! i)) \<Longrightarrow>
   find_index p xs = find_index q ys"
proof (induction xs arbitrary: ys)
  case (Cons x xs)
  then obtain y zs where ys: "ys = y # zs" by (cases ys) auto
  have "p x = q y" using Cons.prems(2) [of 0] by (simp add: ys)
  moreover have "find_index p xs = find_index q zs"
    by (rule Cons.IH) (use Cons.prems(1) Cons.prems(2) [of "Suc i" for i] in \<open>auto simp: ys\<close>)
  ultimately show ?case by (simp add: ys)
qed simp

lemma without_by_key:
  "distinct (map f xs) \<Longrightarrow> i < length xs \<Longrightarrow> without i xs = filter (\<lambda>x. f x \<noteq> f (xs ! i)) xs"
proof (induction xs arbitrary: i)
  case (Cons x xs)
  show ?case
  proof (cases i)
    case 0
    have "filter (\<lambda>y. f y \<noteq> f x) xs = xs"
      using Cons.prems(1) by (auto simp: filter_id_conv image_iff)
    with 0 show ?thesis by (simp add: without_def)
  next
    case (Suc j)
    with Cons.prems have "f x \<noteq> f (xs ! j)" by auto
    with Suc Cons show ?thesis by (simp add: without_def)
  qed
qed simp

lemma update_by_key:
  "distinct (map f xs) \<Longrightarrow> i < length xs \<Longrightarrow>
   xs[i := y] = map (\<lambda>x. if f x = f (xs ! i) then y else x) xs"
  by (rule nth_equalityI) (auto simp: nth_list_update distinct_conv_nth)

text \<open>Taking an element out before or after a stable sort is the same.\<close>

lemma sort_without:
  "map snd (filter (\<lambda>(j, _). j \<noteq> i) (sort_key (f \<circ> snd) (enumerate 0 xs)))
     = sort_key f (without i xs)"
proof -
  have ins: "map snd (insort_key (f \<circ> snd) e es) = insort_key f (snd e) (map snd es)" for e :: "nat \<times> 'a" and es
    by (induction es) auto
  have srt: "map snd (sort_key (f \<circ> snd) es) = sort_key f (map snd es)" for es :: "(nat \<times> 'a) list"
    proof (induction es)
    case (Cons e es)
    then show ?case by (simp add: ins [unfolded comp_def] comp_def)
  qed simp
  have flt: "map snd (filter (\<lambda>(j, _). j \<noteq> i + n) (enumerate n xs)) = without i xs" for n
  proof (induction xs arbitrary: i n)
    case (Cons x xs)
    show ?case
    proof (cases i)
      case 0
      have "filter (\<lambda>(j, _). j \<noteq> n) (enumerate (Suc n) xs) = enumerate (Suc n) xs"
        by (auto simp: filter_id_conv in_set_enumerate_eq)
      with 0 show ?thesis by (simp add: without_def)
    next
      case (Suc k)
      with Cons.IH [of k "Suc n"] show ?thesis by (simp add: without_def)
    qed
  qed (simp add: without_def)
  show ?thesis using flt [of 0] by (simp add: filter_sort srt)
qed

lemma set_splice_in [simp]: "set (splice_in k x xs) = insert x (set xs)"
  unfolding splice_in_def by (metis append_take_drop_id insert_is_Un list.simps(15) set_append sup.left_commute)

lemma map_splice_in: "map f (splice_in k x xs) = splice_in k (f x) (map f xs)"
  by (simp add: splice_in_def take_map drop_map)

lemma mset_splice_in [simp]: "mset (splice_in k x xs) = add_mset x (mset xs)"
  unfolding splice_in_def by (metis append_take_drop_id mset.simps(2) mset_append union_mset_add_mset_right)

lemma distinct_splice_in [simp]: "distinct (splice_in k x xs) \<longleftrightarrow> x \<notin> set xs \<and> distinct xs"
  by (metis distinct.simps(2) mset.simps(2) mset_eq_imp_distinct_iff mset_splice_in)

subsection \<open>Layouts and boards\<close>

lemma find_tab_Some: "find_tab i B = Some e \<Longrightarrow> e \<in> set B \<and> is_tab i e"
  unfolding find_tab_def by (auto simp: find_Some_iff)

lemma find_tab_None: "find_tab i B = None \<longleftrightarrow> i \<notin> set (tab_ids B)"
  unfolding find_tab_def by (force simp: find_None_iff)

lemma widgets_of_in:
  assumes "distinct (tab_ids B)" "(t, ws) \<in> set B"
  shows "widgets_of B (bt_tabId t) = ws"
  using assms unfolding widgets_of_def find_tab_def
  by (induction B) (force split: if_splits simp: image_iff)+

lemma board_by_tabs:
  "distinct (tab_ids B) \<Longrightarrow> map (\<lambda>t. (t, widgets_of B (bt_tabId t))) (map fst B) = B"
  by (auto simp: widgets_of_in intro!: map_idI)

lemma tab_ids_fst: "tab_ids B = map bt_tabId (map fst B)"
  by simp

lemma bl_tabs_conc [simp]: "bl_tabs (conc B) = number_tabs (map fst B)"
  by (simp add: conc_def)

lemma ids_conc [simp]: "map bt_tabId (bl_tabs (conc B)) = tab_ids B"
  by (simp add: map_number_tabs tab_ids_fst)

lemma names_conc: "map bw_name (bl_widgets (conc B)) = map bw_name (items B)"
  unfolding conc_def by (induction B) auto

lemma length_conc: "length (bl_widgets (conc B)) = length (items B)"
  by (metis length_map names_conc)

lemma strip_items: "map strip_widget (bl_widgets (conc B)) = map strip_widget (items B)"
  unfolding conc_def by (induction B) auto

lemma on_tab_conc:
  assumes "distinct (tab_ids B)"
  shows "on_tab i (bl_widgets (conc B)) = place i (widgets_of B i)"
proof (cases "find_tab i B")
  case None
  hence "\<And>t ws. (t, ws) \<in> set B \<Longrightarrow> bt_tabId t \<noteq> i" by (force simp: find_tab_None)
  with None show ?thesis
    by (auto simp: conc_def filter_concat widgets_of_def concat_eq_Nil_conv intro!: on_other_tab_place)
next
  case (Some e)
  obtain t ws where e: "e = (t, ws)" by (cases e)
  with find_tab_Some [OF Some] have t: "(t, ws) \<in> set B" "bt_tabId t = i" by auto
  have "concat (map (\<lambda>e. on_tab i (place (bt_tabId (fst e)) (snd e))) B)
      = on_tab i (place (bt_tabId (fst (t, ws))) (snd (t, ws)))"
    by (rule concat_pick [where h = "\<lambda>e. bt_tabId (fst e)"])
      (use assms t in auto)
  with t e Some show ?thesis
    by (simp add: conc_def filter_concat comp_def case_prod_beta widgets_of_def)
qed

lemma strippedD:
  assumes "stripped B" "e \<in> set B"
  shows "strip_tab (fst e) = fst e" "map strip_widget (snd e) = snd e"
  using assms by (auto simp: stripped_def strip_tab_def strip_widget_def intro!: map_idI)

lemma strip_widgets_of: "stripped B \<Longrightarrow> map strip_widget (widgets_of B i) = widgets_of B i"
  by (auto simp: widgets_of_def split: option.splits dest!: find_tab_Some strippedD(2))

lemma strip_tabs: "stripped B \<Longrightarrow> map strip_tab (map fst B) = map fst B"
  by (auto intro!: map_idI dest: strippedD(1))

lemma board_okD:
  "board_ok B \<Longrightarrow> distinct (tab_ids B)" "board_ok B \<Longrightarrow> stripped B"
  "board_ok B \<Longrightarrow> distinct (map bw_name (items B))"
  by (simp_all add: board_ok_def)

lemma loose_conc: "distinct (tab_ids B) \<Longrightarrow> loose (conc B)"
proof -
  assume d: "distinct (tab_ids B)"
  have "bw_tabId w \<in> bt_tabId ` fst ` set B" if "w \<in> set (bl_widgets (conc B))" for w
    using that place_tab by (force simp: conc_def)
  moreover have "bt_tabId ` set (bl_tabs (conc B)) = bt_tabId ` fst ` set B"
    by (metis ids_conc list.set_map tab_ids_fst)
  ultimately show ?thesis using d ids_conc [of B] unfolding loose_def by simp
qed

lemma abs_conc: "board_ok B \<Longrightarrow> abs_board (conc B) = B"
proof -
  assume B: "board_ok B"
  have "abs_board (conc B) = map (\<lambda>t. (strip_tab t, map strip_widget (widgets_of B (bt_tabId t)))) (number_tabs (map fst B))"
    by (simp add: abs_board_def on_tab_conc board_okD [OF B])
  also have "\<dots> = map (\<lambda>t. (t, widgets_of B (bt_tabId t))) (map strip_tab (map fst B))"
    by (rule nth_equalityI) (auto simp: strip_widgets_of board_okD [OF B] strip_tab_def)
  finally show ?thesis
    by (simp only: strip_tabs [OF board_okD(2) [OF B]] board_by_tabs [OF board_okD(1) [OF B]])
qed

lemma conc_ok:
  assumes B: "board_ok B"
  shows "layout_ok (conc B)"
proof -
  have d: "distinct (tab_ids B)" using B by (rule board_okD)
  have "bl_widgets (conc B) = concat (map (\<lambda>t. place (bt_tabId t) (widgets_of B (bt_tabId t))) (map fst B))"
    unfolding conc_def using widgets_of_in [OF d] by (auto intro!: arg_cong [where f = concat])
  moreover have "map (\<lambda>t. place (bt_tabId t) (widgets_of B (bt_tabId t))) (map fst B)
      = map (\<lambda>t. on_tab (bt_tabId t) (bl_widgets (conc B))) (bl_tabs (conc B))"
    by (rule nth_equalityI) (auto simp: on_tab_conc [OF d])
  ultimately have w: "bl_widgets (conc B)
      = concat (map (\<lambda>t. on_tab (bt_tabId t) (bl_widgets (conc B))) (bl_tabs (conc B)))"
    by (simp only:)
  have p: "map bw_position (place i ws) = map int [0..<length ws]" for i ws
    by (rule nth_equalityI) auto
  show ?thesis
    unfolding layout_ok_def
  proof (intro conjI ballI)
    show "distinct (map bt_tabId (bl_tabs (conc B)))" using d unfolding ids_conc .
    show "distinct (map bw_name (bl_widgets (conc B)))" using board_okD(3) [OF B] unfolding names_conc .
    show "map bt_position (bl_tabs (conc B)) = map int [0..<length (bl_tabs (conc B))]"
      by (simp add: positions_number_tabs)
    show "int (length (bl_widgets (conc B))) \<le> js_max_safe"
      using B by (simp add: length_conc board_ok_def)
    show "bl_widgets (conc B) = concat (map (\<lambda>t. on_tab (bt_tabId t) (bl_widgets (conc B))) (bl_tabs (conc B)))"
      by (rule w)
    show "map bw_position (on_tab (bt_tabId t) (bl_widgets (conc B)))
        = map int [0..<length (on_tab (bt_tabId t) (bl_widgets (conc B)))]" for t
      by (simp add: on_tab_conc [OF d] p)
  qed
qed

lemma conc_abs:
  assumes L: "layout_ok L"
  shows "conc (abs_board L) = L" "board_ok (abs_board L)"
proof -
  let ?g = "\<lambda>t. on_tab (bt_tabId t) (bl_widgets L)"
  have t: "number_tabs (bl_tabs L) = bl_tabs L"
  proof (rule nth_equalityI)
    fix i assume "i < length (number_tabs (bl_tabs L))"
    moreover have "map bt_position (bl_tabs L) ! i = map int [0..<length (bl_tabs L)] ! i"
      using L unfolding layout_ok_def by simp
    ultimately show "number_tabs (bl_tabs L) ! i = bl_tabs L ! i" by simp
  qed simp
  have g: "place (bt_tabId t) (?g t) = ?g t" if "t \<in> set (bl_tabs L)" for t
  proof (rule nth_equalityI)
    fix i assume i: "i < length (place (bt_tabId t) (?g t))"
    hence "?g t ! i \<in> set (?g t)" by (intro nth_mem) simp
    hence "bw_tabId (?g t ! i) = bt_tabId t" by simp
    moreover have "map bw_position (?g t) ! i = map int [0..<length (?g t)] ! i"
      using L that unfolding layout_ok_def by simp
    hence "bw_position (?g t ! i) = int i" using i by simp
    ultimately show "place (bt_tabId t) (?g t) ! i = ?g t ! i" using i by simp
  qed simp
  have "concat (map (\<lambda>(t, ws). place (bt_tabId t) ws) (abs_board L)) = concat (map ?g (bl_tabs L))"
    by (auto simp: abs_board_def g intro!: arg_cong [where f = concat])
  also have "\<dots> = bl_widgets L" using L unfolding layout_ok_def by simp
  finally show c: "conc (abs_board L) = L"
    unfolding conc_def by (simp add: abs_board_def comp_def t flip: map_map)
      (simp add: comp_def t number_tabs_strip [unfolded strip_tab_def])
  have "bt_position (fst e) = 0 \<and> (\<forall>w\<in>set (snd e). bw_tabId w = [] \<and> bw_position w = 0)"
    if "e \<in> set (abs_board L)" for e
    using that by (auto simp: abs_board_def strip_tab_def)
  hence "stripped (abs_board L)" by (auto simp: stripped_def)
  moreover have "map bw_name (items (abs_board L)) = map bw_name (bl_widgets L)"
    using names_conc [of "abs_board L"] c by simp
  moreover have "tab_ids (abs_board L) = map bt_tabId (bl_tabs L)"
    using ids_conc [of "abs_board L"] c by simp
  moreover have "length (items (abs_board L)) = length (bl_widgets L)"
    using length_conc [of "abs_board L"] c by simp
  ultimately show "board_ok (abs_board L)"
    using L by (simp add: board_ok_def layout_ok_def)
qed

lemma layout_ok_iff: "layout_ok L \<longleftrightarrow> (\<exists>B. board_ok B \<and> L = conc B)"
  using conc_ok conc_abs by metis

text \<open>A sufficient condition for the normal form of a layout to be a given board.\<close>

lemma normalizeI:
  assumes "loose L" "map strip_tab (sort_key bt_position (bl_tabs L)) = map fst B"
    and "\<And>t ws. (t, ws) \<in> set B \<Longrightarrow>
      map strip_widget (sort_key bw_position (on_tab (bt_tabId t) (bl_widgets L))) = ws"
  shows "normalizeBoardLayout L = conc B"
proof -
  let ?f = "\<lambda>i. map strip_widget (sort_key bw_position (on_tab i (bl_widgets L)))"
  have "group_board L = map (\<lambda>t. (t, ?f (bt_tabId t))) (map strip_tab (sort_key bt_position (bl_tabs L)))"
    by (simp add: group_board_def)
  also have "\<dots> = B"
    unfolding assms(2) using assms(3) by (auto intro!: map_idI)
  finally show ?thesis using normalize_groups [OF assms(1)] by simp
qed

lemma sort_number_tabs [simp]: "sort_key bt_position (number_tabs ts) = number_tabs ts"
  by (rule sort_key_id_if_sorted) (auto simp: positions_number_tabs sorted_iff_nth_mono)

lemma strip_number_tabs [simp]: "map strip_tab (number_tabs ts) = map strip_tab ts"
  by (rule nth_equalityI) (auto simp: strip_tab_def)

text \<open>Normalizing a stored layout changes nothing.\<close>

lemma normalize_conc:
  assumes B: "board_ok B"
  shows "normalizeBoardLayout (conc B) = conc B"
proof (rule normalizeI)
  show "loose (conc B)" by (rule loose_conc [OF board_okD(1) [OF B]])
  show "map strip_tab (sort_key bt_position (bl_tabs (conc B))) = map fst B"
    using strip_tabs [OF board_okD(2) [OF B]] by simp
  fix t ws assume "(t, ws) \<in> set B"
  thus "map strip_widget (sort_key bw_position (on_tab (bt_tabId t) (bl_widgets (conc B)))) = ws"
    using widgets_of_in [OF board_okD(1) [OF B]] strip_widgets_of [OF board_okD(2) [OF B], of "bt_tabId t"]
    by (simp add: on_tab_conc [OF board_okD(1) [OF B]])
qed

lemma normalize_ok: "layout_ok L \<Longrightarrow> normalizeBoardLayout L = L"
  using normalize_conc conc_abs by metis

end
