(* ===== verification/Board_Refinement.thy ===== *)
theory Board_Refinement
  imports Board_Spec
begin

section \<open>The layout operations implement their meaning\<close>

text \<open>
  One lemma per operation: applied to the numbered form of a board and normalized, it gives the
  numbered form of the board the specification names, and the same error when it fails.
\<close>

abbreviation in_normal_form :: "board_error + board_layout \<Rightarrow> board_error + board_layout" where
  "in_normal_form m \<equiv> bnd m (\<lambda>L. Inr (normalizeBoardLayout L))"

abbreviation concrete :: "board_error + board \<Rightarrow> board_error + board_layout" where
  "concrete m \<equiv> bnd m (\<lambda>B. Inr (conc B))"

subsection \<open>Tabs and widgets by index and by key\<close>

lemma find_by_index: "find p xs = map_option ((!) xs) (find_index p xs)"
  by (induction xs) (auto simp: option.map_comp comp_def)

lemma find_index_tabs [simp]:
  "find_index (\<lambda>t. bt_tabId t = i) (number_tabs (map fst B)) = find_index (is_tab i) B"
  by (rule find_index_nth_cong) auto

lemma requireTab_conc:
  "bl_tabs L = number_tabs (map fst B) \<Longrightarrow> requireTab L i =
     (case find_index (is_tab i) B of None \<Rightarrow> Inl BNotFound | Some k \<Rightarrow> Inr k)"
  by (simp add: requireTab_def)

lemma find_tab_index: "find_tab i B = map_option ((!) B) (find_index (is_tab i) B)"
  by (simp add: find_tab_def find_by_index)

lemma map_without: "map f (without k xs) = without k (map f xs)"
  by (simp add: without_def take_map drop_map)

lemma set_without: "set (without k xs) \<subseteq> set xs"
  unfolding without_def using set_take_subset set_drop_subset by fastforce

lemma length_without: "k < length xs \<Longrightarrow> length (without k xs) = length xs - 1"
  by (simp add: without_def)

lemma without_update: "without k (xs[k := x]) = without k xs"
  by (simp add: without_def)

lemma without_Cons: "without k (x # xs) = (case k of 0 \<Rightarrow> xs | Suc j \<Rightarrow> x # without j xs)"
  by (simp add: without_def split: nat.splits)

lemma sorted_without: "sorted (map f xs) \<Longrightarrow> sorted (map f (without k xs))"
proof (induction xs arbitrary: k)
  case (Cons x xs)
  then show ?case
    using set_without [of _ xs] by (fastforce simp: without_Cons split: nat.splits)
qed (simp add: without_def)

lemma sort_without_tabs [simp]:
  "sort_key bt_position (without k (number_tabs ts)) = without k (number_tabs ts)"
  by (intro sort_key_id_if_sorted sorted_without) (auto simp: positions_number_tabs sorted_iff_nth_mono)

lemma number_tabs_cong: "map strip_tab ts = map strip_tab us \<Longrightarrow> number_tabs ts = number_tabs us"
  by (metis number_tabs_strip)

lemma without_tabs:
  assumes "distinct (tab_ids B)" "find_index (is_tab i) B = Some k"
  shows "without k B = filter (\<lambda>e. \<not> is_tab i e) B"
  using without_by_key [OF assms(1)] find_index_Some [OF assms(2)] by simp

lemma map_widgets_of:
  assumes "distinct (tab_ids B)" "stripped B" "set C \<subseteq> set B"
  shows "map (\<lambda>t. (strip_tab t, widgets_of B (bt_tabId t))) (map fst C) = C"
proof -
  have "(strip_tab (fst e), widgets_of B (bt_tabId (fst e))) = e" if "e \<in> set C" for e
    using that assms widgets_of_in [OF assms(1), of "fst e" "snd e"] strippedD(1) [OF assms(2), of e]
    by auto
  thus ?thesis by (simp add: comp_def map_idI)
qed

lemma ids_number_tabs: "bt_tabId ` set (number_tabs ts) = bt_tabId ` set ts"
  by (metis (no_types, lifting) list.set_map map_number_tabs board_tab.select_convs(1)
      board_tab.surjective board_tab.update_convs(3))

subsection \<open>Operations on tabs\<close>

text \<open>Any renumbering of the tabs that keeps those with widgets.\<close>

lemma normalize_retab:
  assumes B: "distinct (tab_ids B)" "stripped B"
    and ts: "distinct (map bt_tabId ts)" "set (tab_ids B) \<subseteq> bt_tabId ` set ts"
  shows "normalizeBoardLayout ((conc B)\<lparr>bl_tabs := number_tabs ts\<rparr>)
       = conc (map (\<lambda>t. (strip_tab t, widgets_of B (bt_tabId t))) ts)"
proof (rule normalizeI)
  have i: "bt_tabId ` set (number_tabs ts) = bt_tabId ` set ts"
    by (metis (no_types, lifting) list.set_map map_number_tabs board_tab.select_convs(1)
        board_tab.surjective board_tab.update_convs(3))
  have "distinct (map bt_tabId (number_tabs ts))" using ts(1) by (simp add: map_number_tabs)
  with loose_conc [OF B(1)] ts(2) i
  show "loose ((conc B)\<lparr>bl_tabs := number_tabs ts\<rparr>)"
    unfolding loose_def using ids_conc [of B] by (metis (no_types, lifting) list.set_map subsetD
        board_layout.select_convs(1,2) board_layout.surjective board_layout.update_convs(1))
qed (auto simp: on_tab_conc [OF B(1)] strip_widgets_of [OF B(2)] comp_def)

lemma number_tabs_snoc:
  "number_tabs (ts @ [t]) = number_tabs ts @ [t\<lparr>bt_position := int (length ts)\<rparr>]"
  by (rule nth_equalityI) (auto simp: nth_append less_Suc_eq)

lemma refines_create:
  assumes B: "board_ok B"
  shows "in_normal_form (applyBoardOp (conc B) (TabCreate i title dock)) = concrete (spec_op (TabCreate i title dock) B)"
proof -
  let ?t = "\<lparr>bt_tabId = i, bt_title = title, bt_position = 0, bt_chatDock = case_option DockRight id dock\<rparr>"
  have ex: "list_ex (\<lambda>t. bt_tabId t = i) (bl_tabs (conc B)) \<longleftrightarrow> i \<in> set (tab_ids B)"
    using ids_conc [of B] by (metis (mono_tags, lifting) imageE image_eqI list.set_map list_ex_iff)
  show ?thesis
  proof (cases "i \<in> set (tab_ids B)")
    case False
    hence "find_tab i B = None" by (simp add: find_tab_None)
    hence w: "widgets_of B i = []" by (simp add: widgets_of_def)
    have "normalizeBoardLayout ((conc B)\<lparr>bl_tabs := number_tabs (map fst B @ [?t])\<rparr>)
        = conc (map (\<lambda>t. (strip_tab t, widgets_of B (bt_tabId t))) (map fst B @ [?t]))"
      by (rule normalize_retab) (use False board_okD [OF B] in \<open>auto simp: image_iff comp_def\<close>)
    also have "\<dots> = conc (B @ [(?t, [])])"
      using map_widgets_of [OF board_okD(1,2) [OF B], of B] w by (simp add: strip_tab_def)
    finally show ?thesis using False ex by (simp add: number_tabs_snoc)
  qed (use ex in simp)
qed

lemma head_updates:
  "(case dock of Some d \<Rightarrow> (case title of Some s \<Rightarrow> t\<lparr>bt_title := s\<rparr> | None \<Rightarrow> t)\<lparr>bt_chatDock := d\<rparr>
     | None \<Rightarrow> (case title of Some s \<Rightarrow> t\<lparr>bt_title := s\<rparr> | None \<Rightarrow> t)) = set_head title dock t"
  by (cases t) (auto simp: set_head_def split: option.splits)

lemma set_head_id [simp]: "bt_tabId (set_head title dock t) = bt_tabId t"
  by (simp add: set_head_def)

lemma set_head_position [simp]:
  "set_head title dock (t\<lparr>bt_position := p\<rparr>) = (set_head title dock t)\<lparr>bt_position := p\<rparr>"
  by (rule board_tab.equality) (simp_all add: set_head_def split: option.splits)

lemma strip_set_head [simp]: "strip_tab (set_head title dock t) = set_head title dock (strip_tab t)"
  by (simp add: strip_tab_def)

lemma refines_update:
  assumes B: "board_ok B"
  shows "in_normal_form (applyBoardOp (conc B) (TabUpdate i title dock pos)) = concrete (spec_op (TabUpdate i title dock pos) B)"
proof (cases "find_index (is_tab i) B")
  case None
  thus ?thesis by (simp add: tabUpdate_def requireTab_conc find_tab_index)
next
  case (Some k)
  note k = find_index_Some [OF Some]
  obtain t ws where e: "B ! k = (t, ws)" by (cases "B ! k")
  have d: "distinct (tab_ids B)" and s: "stripped B" using B by (rule board_okD)+
  have ti: "bt_tabId t = i" using k e by simp
  have tin: "(t, ws) \<in> set B" using k e by (metis nth_mem)
  have h: "strip_tab t = t" "widgets_of B i = ws"
    using strippedD(1) [OF s tin] widgets_of_in [OF d tin] ti by auto
  let ?ts = "(map fst B)[k := set_head title dock t]"
  have ids: "map bt_tabId ?ts = tab_ids B"
    by (rule nth_equalityI) (use k e in \<open>auto simp: nth_list_update\<close>)
  have tabs: "(number_tabs (map fst B))[k := set_head title dock (number_tabs (map fst B) ! k)] = number_tabs ?ts"
    by (rule nth_equalityI) (use k e in \<open>auto simp: nth_list_update\<close>)
  show ?thesis
  proof (cases "title = None \<and> dock = None \<and> pos = None")
    case True
    thus ?thesis using Some e by (simp add: tabUpdate_def requireTab_conc find_tab_index)
  next
    case False
    have only: "is_tab i (B ! j) \<longleftrightarrow> j = k" if "j < length B" for j
      using nth_eq_iff_index_eq [OF d, of j k] that k by simp
    show ?thesis
    proof (cases pos)
      case None
      have "normalizeBoardLayout ((conc B)\<lparr>bl_tabs := number_tabs ?ts\<rparr>)
          = conc (map (\<lambda>t. (strip_tab t, widgets_of B (bt_tabId t))) ?ts)"
      proof (rule normalize_retab [OF d s])
        show "distinct (map bt_tabId ?ts)" using d unfolding ids .
        show "set (tab_ids B) \<subseteq> bt_tabId ` set ?ts" using ids by (metis list.set_map order_refl)
      qed
      also have "map (\<lambda>t. (strip_tab t, widgets_of B (bt_tabId t))) ?ts = at_tab i (\<lambda>(t, ws). (set_head title dock t, ws)) B"
      proof (rule nth_equalityI)
        fix j assume "j < length (map (\<lambda>t. (strip_tab t, widgets_of B (bt_tabId t))) ?ts)"
        hence j: "j < length B" by simp
        hence "B ! j = (strip_tab (fst (B ! j)), widgets_of B (bt_tabId (fst (B ! j))))"
          using strippedD(1) [OF s, of "B ! j"] widgets_of_in [OF d, of "fst (B ! j)" "snd (B ! j)"] by simp
        thus "map (\<lambda>t. (strip_tab t, widgets_of B (bt_tabId t))) ?ts ! j
            = at_tab i (\<lambda>(t, ws). (set_head title dock t, ws)) B ! j"
          using j only [OF j] e h ti by (auto simp: at_tab_def nth_list_update)
      qed (simp add: at_tab_def)
      finally show ?thesis
        using False Some e None tabs
        by (simp add: tabUpdate_def requireTab_conc find_tab_index Let_def head_updates)
    next
      case (Some p)
      let ?k = "nat (clampInteger p 0 (int (length (without k B))))"
      have st: "map strip_tab (splice_in ?k (number_tabs ?ts ! k) (without k (number_tabs ?ts)))
          = map strip_tab (splice_in ?k (set_head title dock t) (without k (map fst B)))"
        using k by (simp add: map_splice_in map_without map_update without_update)
          (simp add: strip_tab_def)
      have mv: "moveTab ((conc B)\<lparr>bl_tabs := number_tabs ?ts\<rparr>) k p
          = (conc B)\<lparr>bl_tabs := number_tabs (splice_in ?k (set_head title dock t) (without k (map fst B)))\<rparr>"
        using number_tabs_cong [OF st] k by (simp add: moveTab_def Let_def length_without)
      have w: "set (tab_ids B) \<subseteq> bt_tabId ` set (splice_in ?k (set_head title dock t) (without k (map fst B)))"
        "distinct (map bt_tabId (splice_in ?k (set_head title dock t) (without k (map fst B))))"
        unfolding map_without [symmetric] without_tabs [OF d \<open>find_index (is_tab i) B = Some k\<close>]
        using d ti by (auto simp: map_splice_in distinct_map_filter image_iff comp_def)
      have "normalizeBoardLayout ((conc B)\<lparr>bl_tabs := number_tabs (splice_in ?k (set_head title dock t) (without k (map fst B)))\<rparr>)
         = conc (splice_in ?k (set_head title dock t, ws) (without k B))"
        using normalize_retab [OF d s w(2,1)] map_widgets_of [OF d s set_without, of k] h ti
        by (simp add: map_splice_in map_without)
      thus ?thesis
        using False \<open>find_index (is_tab i) B = Some k\<close> e Some tabs mv
          without_tabs [OF d \<open>find_index (is_tab i) B = Some k\<close>]
        by (simp add: tabUpdate_def requireTab_conc find_tab_index Let_def head_updates)
    qed
  qed
qed

text \<open>A stable sort puts the entries with the greatest key last, in their order.\<close>

lemma sort_greatest_last:
  assumes "\<And>x. x \<in> set xs \<Longrightarrow> f x \<le> (m :: int)"
  shows "sort_key f xs = sort_key f (filter (\<lambda>x. f x < m) xs) @ filter (\<lambda>x. f x = m) xs"
proof (rule properties_for_sort_key)
  show "mset (sort_key f (filter (\<lambda>x. f x < m) xs) @ filter (\<lambda>x. f x = m) xs) = mset xs"
    using assms by (induction xs) fastforce+
  have "sorted (map f (filter (\<lambda>x. f x = m) xs))" by (induction xs) auto
  thus "sorted (map f (sort_key f (filter (\<lambda>x. f x < m) xs) @ filter (\<lambda>x. f x = m) xs))"
    by (auto simp: sorted_append)
  fix y
  have s: "filter (\<lambda>x. f y = f x) (sort_key f zs) = filter (\<lambda>x. f y = f x) zs" for zs
    using sort_key_stable [of f "f y" zs] by (simp add: eq_commute)
  assume "y \<in> set (sort_key f (filter (\<lambda>x. f x < m) xs) @ filter (\<lambda>x. f x = m) xs)"
  show "filter (\<lambda>x. f y = f x) (sort_key f (filter (\<lambda>x. f x < m) xs) @ filter (\<lambda>x. f x = m) xs)
      = filter (\<lambda>x. f y = f x) xs"
    using assms unfolding filter_append s filter_filter
  proof (cases "f y = m")
    case True
    then show "filter (\<lambda>x. f x < m \<and> f y = f x) xs @ filter (\<lambda>x. f x = m \<and> f y = f x) xs
        = filter (\<lambda>x. f y = f x) xs"
      by (induction xs) auto
  next
    case False
    with assms show "filter (\<lambda>x. f x < m \<and> f y = f x) xs @ filter (\<lambda>x. f x = m \<and> f y = f x) xs
        = filter (\<lambda>x. f y = f x) xs"
      by (induction xs) (fastforce simp: order.strict_iff_order)+
  qed
qed

lemma place_below_max:
  assumes "board_ok B" "w \<in> set (place i (widgets_of B i))"
  shows "bw_position w < js_max_safe"
proof -
  have "length (widgets_of B i) \<le> length (items B)"
  proof (cases "find_tab i B")
    case (Some e)
    with find_tab_Some [OF Some] have "length (snd e) \<in> set (map length (map snd B))" by auto
    hence "length (snd e) \<le> sum_list (map length (map snd B))"
      by (rule member_le_sum_list) simp
    with Some show ?thesis by (simp add: widgets_of_def length_concat)
  qed (simp add: widgets_of_def)
  with place_position [OF assms(2)] assms(1) show ?thesis
    by (simp add: board_ok_def)
qed

text \<open>What the tab of the fallback holds after a deletion.\<close>

lemma on_tab_moved:
  assumes B: "board_ok B" and ij: "i \<noteq> j"
    and g: "g = (\<lambda>w. if bw_tabId w = i then w\<lparr>bw_tabId := j, bw_position := js_max_safe\<rparr> else w)"
  shows "map strip_widget (sort_key bw_position (on_tab j (map g (bl_widgets (conc B)))))
       = widgets_of B j @ widgets_of B i"
proof -
  have d: "distinct (tab_ids B)" and s: "stripped B" using B by (rule board_okD)+
  let ?W = "bl_widgets (conc B)"
  have lt: "bw_position w < js_max_safe" if "w \<in> set ?W" "bw_tabId w = j" for w
  proof -
    have "w \<in> set (on_tab j ?W)" using that by simp
    thus ?thesis unfolding on_tab_conc [OF d] by (rule place_below_max [OF B])
  qed
  have le: "bw_position x \<le> js_max_safe" if "x \<in> set (on_tab j (map g ?W))" for x
  proof -
    from that obtain w where "w \<in> set ?W" "x = g w" "bw_tabId (g w) = j" by auto
    with lt [of w] show ?thesis by (auto simp: g split: if_splits)
  qed
  have "filter (\<lambda>w. bw_tabId (g w) = j \<and> bw_position (g w) < js_max_safe) ?W = on_tab j ?W"
    by (rule filter_cong [OF refl]) (use lt ij in \<open>auto simp: g\<close>)
  hence "filter (\<lambda>x. bw_position x < js_max_safe) (on_tab j (map g ?W)) = map g (on_tab j ?W)"
    by (simp add: filter_map comp_def)
  moreover have "map g (on_tab j ?W) = on_tab j ?W"
    using ij by (intro map_idI) (auto simp: g)
  moreover have "filter (\<lambda>w. bw_tabId (g w) = j \<and> bw_position (g w) = js_max_safe) ?W = on_tab i ?W"
  proof (rule filter_cong [OF refl])
    fix w assume "w \<in> set ?W"
    with lt [of w] ij show "(bw_tabId (g w) = j \<and> bw_position (g w) = js_max_safe) = (bw_tabId w = i)"
      by (auto simp: g)
  qed
  hence "filter (\<lambda>x. bw_position x = js_max_safe) (on_tab j (map g ?W)) = map g (on_tab i ?W)"
    by (simp add: filter_map comp_def)
  moreover have "map strip_widget (map g (on_tab i ?W)) = map strip_widget (on_tab i ?W)"
    by (auto simp: g strip_widget_def)
  ultimately show ?thesis
    using sort_greatest_last [of "on_tab j (map g ?W)" bw_position, OF le] by (simp add: on_tab_conc [OF d] strip_widgets_of [OF s])
qed

lemma on_tab_unmoved:
  "k \<noteq> i \<Longrightarrow> k \<noteq> j \<Longrightarrow>
   on_tab k (map (\<lambda>w. if bw_tabId w = i then w\<lparr>bw_tabId := j, bw_position := p\<rparr> else w) ws) = on_tab k ws"
  by (induction ws) auto

lemma refines_delete:
  assumes B: "board_ok B"
  shows "in_normal_form (applyBoardOp (conc B) (TabDelete i)) = concrete (spec_op (TabDelete i) B)"
proof (cases "find_index (is_tab i) B")
  case None
  thus ?thesis by (simp add: tabDelete_def requireTab_conc find_tab_index)
next
  case (Some k)
  note k = find_index_Some [OF Some]
  have d: "distinct (tab_ids B)" and s: "stripped B" using B by (rule board_okD)+
  let ?rest = "filter (\<lambda>e. \<not> is_tab i e) B"
  have rest: "without k B = ?rest" by (rule without_tabs [OF d Some])
  have i: "bt_tabId (number_tabs (map fst B) ! k) = i" "find_tab i B = Some (B ! k)"
    using k Some by (simp_all add: find_tab_index)
  have wi: "widgets_of B i = snd (B ! k)" using i by (simp add: widgets_of_def)
  have tabs: "map strip_tab (without k (number_tabs (map fst B))) = map fst ?rest"
    by (metis map_without rest strip_number_tabs strip_tabs [OF s])
  have e: "without k (number_tabs (map fst B)) = [] \<longleftrightarrow> ?rest = []"
    using arg_cong [OF tabs, of length] by auto
  show ?thesis
  proof (cases ?rest)
    case Nil
    hence n: "without k (number_tabs (map fst B)) = []" using e by simp
    show ?thesis
    proof (cases "snd (B ! k)")
      case empty: Nil
      have B1: "B = [B ! k]"
      proof -
        have "length (without k B) = 0" using rest Nil by simp
        hence "length B = 1" using k by (simp add: length_without)
        thus ?thesis using k by (cases B) auto
      qed
      have w0: "bl_widgets (conc B) = []"
        by (subst B1) (simp add: conc_def case_prod_beta empty)
      have "normalizeBoardLayout ((conc B)\<lparr>bl_tabs := [], bl_widgets := []\<rparr>) = conc []"
        by (rule normalizeI) (simp_all add: loose_def)
      thus ?thesis
        using Nil empty i n Some w0
        by (simp add: tabDelete_def requireTab_conc Let_def case_prod_beta)
    next
      case Cons
      with Nil i n Some show ?thesis
        by (simp add: tabDelete_def requireTab_conc Let_def case_prod_beta on_tab_conc [OF d] wi place_def number_in_order_def)
    qed
  next
    case (Cons f rest')
    obtain u us where f: "f = (u, us)" by (cases f)
    let ?R = "without k (number_tabs (map fst B))"
    let ?j = "bt_tabId (hd ?R)"
    have "strip_tab (hd ?R) = u" using tabs Cons f e by (cases ?R) auto
    hence j: "?j = bt_tabId u" by (metis strip_tab_id)
    have "set ?rest \<subseteq> set B" by auto
    with Cons f have uB: "(u, us) \<in> set B" "set rest' \<subseteq> set B" by auto
    have "f \<in> set ?rest" using Cons by simp
    hence ne: "i \<noteq> bt_tabId u" using f by auto
    have dr: "distinct (map (\<lambda>e. bt_tabId (fst e)) (f # rest'))"
      using distinct_map_filter [OF d, of "\<lambda>e. \<not> is_tab i e"] Cons by simp
    let ?L = "(conc B)\<lparr>bl_tabs := ?R, bl_widgets := map (\<lambda>w. if bw_tabId w = i
        then w\<lparr>bw_tabId := ?j, bw_position := js_max_safe\<rparr> else w) (bl_widgets (conc B))\<rparr>"
    have idR: "map bt_tabId ?R = tab_ids ?rest"
      using arg_cong [OF tabs, of "map bt_tabId"] by (simp add: comp_def)
    have "normalizeBoardLayout ?L = conc ((u, us @ snd (B ! k)) # rest')"
    proof (rule normalizeI)
      have "bw_tabId w \<in> set (tab_ids B)" if "w \<in> set (bl_widgets (conc B))" for w
        using loose_conc [OF d] that ids_conc [of B] unfolding loose_def by (metis list.set_map)
      moreover have "set (tab_ids B) \<subseteq> insert i (bt_tabId ` set ?R)"
        using arg_cong [OF idR, of set] by auto
      moreover have "?j \<in> bt_tabId ` set ?R" using e Cons by (intro imageI hd_in_set) auto
      ultimately show "loose ?L"
        using idR distinct_map_filter [OF d, of "\<lambda>e. \<not> is_tab i e"] by (auto simp: loose_def)
      show "map strip_tab (sort_key bt_position (bl_tabs ?L)) = map fst ((u, us @ snd (B ! k)) # rest')"
        using tabs Cons f by simp
      fix t ws assume "(t, ws) \<in> set ((u, us @ snd (B ! k)) # rest')"
      then consider "t = u" "ws = us @ snd (B ! k)" | "(t, ws) \<in> set rest'" by auto
      thus "map strip_widget (sort_key bw_position (on_tab (bt_tabId t) (bl_widgets ?L))) = ws"
      proof cases
        case 1
        thus ?thesis
          using on_tab_moved [OF B ne refl] widgets_of_in [OF d uB(1)] wi by (simp add: j cong: if_cong)
      next
        case 2
        have "bt_tabId t \<noteq> bt_tabId u" using dr f 2 by (force simp: image_iff)
        moreover have "(t, ws) \<in> set ?rest" using Cons 2 by simp
        hence "bt_tabId t \<noteq> i" "(t, ws) \<in> set B" by auto
        ultimately show ?thesis
          using widgets_of_in [OF d, of t ws] strip_widgets_of [OF s, of "bt_tabId t"]
          by (simp add: on_tab_unmoved j on_tab_conc [OF d])
      qed
    qed
    with Cons f i e Some show ?thesis
      by (simp add: tabDelete_def requireTab_conc Let_def case_prod_beta)
  qed
qed

lemma hd_filter_tab:
  assumes "distinct (tab_ids B)" "i \<in> set (tab_ids B)"
  shows "hd (filter (is_tab i) B) \<in> set B \<and> is_tab i (hd (filter (is_tab i) B))"
proof -
  from assms(2) have "filter (is_tab i) B \<noteq> []" by (force simp: filter_empty_conv)
  hence "hd (filter (is_tab i) B) \<in> set (filter (is_tab i) B)" by (rule hd_in_set)
  thus ?thesis by simp
qed

lemma refines_reorder:
  assumes B: "board_ok B"
  shows "in_normal_form (applyBoardOp (conc B) (TabsReorder is)) = concrete (spec_op (TabsReorder is) B)"
proof -
  have d: "distinct (tab_ids B)" and s: "stripped B" using B by (rule board_okD)+
  let ?T = "number_tabs (map fst B)"
  have ids: "map bt_tabId ?T = tab_ids B" using ids_conc [of B] by simp
  have ex: "list_ex (\<lambda>t. bt_tabId t = i) ?T \<longleftrightarrow> i \<in> set (tab_ids B)" for i
    unfolding ids [symmetric] by (auto simp: list_ex_iff)
  have guard: "(length is \<noteq> length ?T \<or> card (set is) \<noteq> length is
      \<or> list_ex (\<lambda>i. \<not> list_ex (\<lambda>t. bt_tabId t = i) ?T) is)
      \<longleftrightarrow> \<not> (distinct is \<and> set is = set (tab_ids B))"
  proof -
    have "set is = set (tab_ids B)" if "distinct is" "length is = length B" "set is \<subseteq> set (tab_ids B)"
      using that distinct_card [of "is"] distinct_card [OF d] by (intro card_subset_eq) auto
    moreover have "length is = length B" if "distinct is" "set is = set (tab_ids B)"
      using that distinct_card [of "is"] distinct_card [OF d] by simp
    moreover have "card (set is) = length is \<longleftrightarrow> distinct is"
      using card_distinct distinct_card by metis
    moreover have "list_ex (\<lambda>i. \<not> list_ex (\<lambda>t. bt_tabId t = i) ?T) is \<longleftrightarrow> \<not> set is \<subseteq> set (tab_ids B)"
      unfolding ex by (auto simp: list_ex_iff)
    ultimately show ?thesis by auto
  qed
  show ?thesis
  proof (cases "distinct is \<and> set is = set (tab_ids B)")
    case False
    thus ?thesis using guard by (simp add: tabsReorder_def)
  next
    case True
    let ?e = "\<lambda>i. hd (filter (is_tab i) B)"
    let ?m = "\<lambda>i. map_of (rev (map (\<lambda>t. (bt_tabId t, t)) ?T)) i"
    have e: "?e i \<in> set B" "is_tab i (?e i)" if "i \<in> set is" for i
      using hd_filter_tab [OF d, of i] True that by auto
    have m: "?m i = Some (the (?m i)) \<and> strip_tab (the (?m i)) = fst (?e i)" if i: "i \<in> set is" for i
    proof -
      obtain k where k: "k < length B" "B ! k = ?e i" using e(1) [OF i] by (auto simp: in_set_conv_nth)
      have "?T ! k \<in> set ?T" using k by (intro nth_mem) simp
      hence "?m (bt_tabId (?T ! k)) = Some (?T ! k)"
        using map_of_distinct_rev [of bt_tabId ?T "?T ! k" "\<lambda>t. t"] d ids by simp
      moreover have "bt_tabId (?T ! k) = i" using k e(2) [OF i] by simp
      moreover have "strip_tab (?T ! k) = fst (?e i)"
        using k strippedD(1) [OF s e(1) [OF i]] by (simp add: strip_tab_def)
      ultimately show ?thesis by simp
    qed
    have r: "map_res (\<lambda>i. case ?m i of None \<Rightarrow> Inl BTypeError | Some t \<Rightarrow> Inr t) is
        = Inr (map (\<lambda>i. the (?m i)) is)"
    proof (rule map_res_map)
      fix i assume "i \<in> set is"
      from m [OF this] obtain t where "?m i = Some t" by blast
      thus "(case ?m i of None \<Rightarrow> Inl BTypeError | Some t \<Rightarrow> Inr t) = Inr (the (?m i))" by simp
    qed
    have "map strip_tab (map (\<lambda>i. the (?m i)) is) = map strip_tab (map (\<lambda>i. fst (?e i)) is)"
      using m strippedD(1) [OF s e(1)] by auto
    hence n: "number_tabs (map (\<lambda>i. the (?m i)) is) = number_tabs (map fst (map ?e is))"
      by (intro number_tabs_cong) (simp add: comp_def)
    have idl: "map bt_tabId (map fst (map ?e is)) = is"
      using e(2) by (simp add: comp_def map_idI)
    have "normalizeBoardLayout ((conc B)\<lparr>bl_tabs := number_tabs (map fst (map ?e is))\<rparr>)
        = conc (map (\<lambda>t. (strip_tab t, widgets_of B (bt_tabId t))) (map fst (map ?e is)))"
    proof (rule normalize_retab [OF d s])
      show "distinct (map bt_tabId (map fst (map ?e is)))" using True unfolding idl by simp
      show "set (tab_ids B) \<subseteq> bt_tabId ` set (map fst (map ?e is))"
        using True arg_cong [OF idl, of set] by (simp only: list.set_map order_refl)
    qed
    also have "map (\<lambda>t. (strip_tab t, widgets_of B (bt_tabId t))) (map fst (map ?e is)) = map ?e is"
      using e(1) by (intro map_widgets_of [OF d s]) auto
    finally show ?thesis
      using True guard r n by (simp add: tabsReorder_def Let_def)
  qed
qed

subsection \<open>Operations on widgets\<close>

lemma home_of_None: "home_of name B = None \<longleftrightarrow> name \<notin> set (map bw_name (items B))"
  unfolding home_of_def by (force simp: find_None_iff list_ex_iff named_def)

lemma requireWidget_None: "find_index (\<lambda>w. bw_name w = name) (bl_widgets (conc B)) = None \<longleftrightarrow> home_of name B = None"
  unfolding home_of_None names_conc [symmetric] find_index_None by auto

lemma named_home:
  assumes "distinct (map bw_name (items B))" "(t, ws) \<in> set B" "w \<in> set ws" "bw_name w = name"
    and "home_of name B = Some (u, us)"
  shows "us = ws \<and> u = t \<and> filter (named name) ws = [w]"
  using assms
proof (induction B)
  case (Cons e B)
  obtain v vs where e: "e = (v, vs)" by (cases e)
  have one: "filter (named name) xs = [w]" if "distinct (map bw_name xs)" "w \<in> set xs" for xs
    using that assms(4) by (induction xs) (auto simp: named_def image_iff filter_empty_conv)
  show ?case
  proof (cases "list_ex (named name) vs")
    case True
    hence u: "u = v" "us = vs" using Cons.prems(5) by (simp_all add: home_of_def e)
    have "(t, ws) \<notin> set B"
    proof
      assume "(t, ws) \<in> set B"
      hence "name \<in> bw_name ` set (items B)" using Cons.prems(3,4) by force
      moreover have "name \<in> bw_name ` set vs" using True by (auto simp: list_ex_iff named_def)
      ultimately show False using Cons.prems(1) by (auto simp: e)
    qed
    hence "t = v" "ws = vs" using Cons.prems(2) e by auto
    thus ?thesis using u one Cons.prems(1,3) e by simp
  next
    case False
    hence "(t, ws) \<in> set B" using Cons.prems(2-4) e by (auto simp: list_ex_iff named_def)
    moreover have "home_of name B = Some (u, us)" using Cons.prems(5) False by (simp add: home_of_def e)
    ultimately show ?thesis using Cons.IH Cons.prems(1,3,4) e by simp
  qed
qed simp

lemma placed_widget:
  assumes "w \<in> set (bl_widgets (conc B))"
  obtains t ws x where "(t, ws) \<in> set B" "x \<in> set ws" "bw_tabId w = bt_tabId t"
    "strip_widget w = strip_widget x" "bw_name w = bw_name x"
proof -
  from assms obtain t ws where t: "(t, ws) \<in> set B" "w \<in> set (place (bt_tabId t) ws)"
    by (auto simp: conc_def)
  then obtain j where "j < length ws" "w = (ws ! j)\<lparr>bw_tabId := bt_tabId t, bw_position := int j\<rparr>"
    by (auto simp: in_set_conv_nth)
  thus ?thesis using that [OF t(1), of "ws ! j"] by (simp add: strip_widget_def)
qed

lemma map_eq_self: "map f xs = xs \<Longrightarrow> x \<in> set xs \<Longrightarrow> f x = x"
  by (induction xs) auto

lemma found_widget:
  assumes B: "board_ok B" and k: "find_index (\<lambda>w. bw_name w = name) (bl_widgets (conc B)) = Some k"
    and h: "home_of name B = Some (u, us)"
  shows "bw_tabId (bl_widgets (conc B) ! k) = bt_tabId u"
    "strip_widget (bl_widgets (conc B) ! k) = hd (filter (named name) us)"
    "bw_name (hd (filter (named name) us)) = name"
proof -
  let ?w = "bl_widgets (conc B) ! k"
  have w: "?w \<in> set (bl_widgets (conc B))" "bw_name ?w = name" using find_index_Some [OF k] by auto
  obtain t ws x where x: "(t, ws) \<in> set B" "x \<in> set ws" "bw_tabId ?w = bt_tabId t"
    "strip_widget ?w = strip_widget x" "bw_name ?w = bw_name x"
    using placed_widget [OF w(1)] by blast
  have "strip_widget x = x"
    using map_eq_self [OF strippedD(2) [OF board_okD(2) [OF B] x(1)]] x(2) by simp
  with named_home [OF board_okD(3) [OF B] x(1,2) _ h] x w(2)
  show "bw_tabId ?w = bt_tabId u" "strip_widget ?w = hd (filter (named name) us)"
    "bw_name (hd (filter (named name) us)) = name" by auto
qed

lemma widgets_on_items: "widgets_of (on_items f B) i = (if i \<in> set (tab_ids B) then f (widgets_of B i) else [])"
  unfolding on_items_def widgets_of_def find_tab_def
  by (induction B) (auto split: option.splits)

lemma tab_ids_on_items [simp]: "tab_ids (on_items f B) = tab_ids B"
  by (auto simp: on_items_def)

lemma fst_on_items [simp]: "map fst (on_items f B) = map fst B"
  by (auto simp: on_items_def)

text \<open>Rewriting the widget list without moving anything.\<close>

lemma normalize_items:
  assumes B: "board_ok B"
    and ws: "\<And>w. w \<in> set ws \<Longrightarrow> bw_tabId w \<in> set (tab_ids B)"
    and f: "\<And>i. sorted (map bw_position (on_tab i ws))"
      "\<And>i. i \<in> set (tab_ids B) \<Longrightarrow> map strip_widget (on_tab i ws) = f (widgets_of B i)"
  shows "normalizeBoardLayout ((conc B)\<lparr>bl_widgets := ws\<rparr>) = conc (on_items f B)"
proof (rule normalizeI)
  have d: "distinct (tab_ids B)" and s: "stripped B" using B by (rule board_okD)+
  show "loose ((conc B)\<lparr>bl_widgets := ws\<rparr>)"
    using ws loose_conc [OF d] unfolding loose_def by (simp add: ids_number_tabs image_image)
  show "map strip_tab (sort_key bt_position (bl_tabs ((conc B)\<lparr>bl_widgets := ws\<rparr>))) = map fst (on_items f B)"
    using strip_tabs [OF s] by simp
  fix t us assume "(t, us) \<in> set (on_items f B)"
  then obtain vs where v: "(t, vs) \<in> set B" "us = f vs" by (auto simp: on_items_def)
  hence "bt_tabId t \<in> set (tab_ids B)" by force
  with v show "map strip_widget (sort_key bw_position (on_tab (bt_tabId t) (bl_widgets ((conc B)\<lparr>bl_widgets := ws\<rparr>)))) = us"
    using f widgets_of_in [OF d v(1)] by (simp add: sort_key_id_if_sorted)
qed

lemma conc_widget_tab: "w \<in> set (bl_widgets (conc B)) \<Longrightarrow> bw_tabId w \<in> set (tab_ids B)"
  by (erule placed_widget) force

lemma refines_remove:
  assumes B: "board_ok B"
  shows "in_normal_form (applyBoardOp (conc B) (WidgetRemove name)) = concrete (spec_op (WidgetRemove name) B)"
proof (cases "find_index (\<lambda>w. bw_name w = name) (bl_widgets (conc B))")
  case None
  thus ?thesis using requireWidget_None [of name B] by (simp add: requireWidget_def)
next
  case (Some k)
  have d: "distinct (tab_ids B)" and s: "stripped B" using B by (rule board_okD)+
  have "normalizeBoardLayout ((conc B)\<lparr>bl_widgets := filter (\<lambda>w. bw_name w \<noteq> name) (bl_widgets (conc B))\<rparr>)
      = conc (on_items (filter (\<lambda>w. \<not> named name w)) B)"
  proof (rule normalize_items [OF B])
    fix i
    have o: "on_tab i (filter (\<lambda>w. bw_name w \<noteq> name) (bl_widgets (conc B)))
        = filter (\<lambda>w. bw_name w \<noteq> name) (place i (widgets_of B i))"
      unfolding on_tab_conc [OF d, symmetric] filter_filter by (rule filter_cong) auto
    show "sorted (map bw_position (on_tab i (filter (\<lambda>w. bw_name w \<noteq> name) (bl_widgets (conc B)))))"
      unfolding o by (rule sorted_filter [OF place_sorted])
    have "map strip_widget (filter (\<lambda>w. bw_name w \<noteq> name) (place i (widgets_of B i)))
        = filter (\<lambda>w. bw_name w \<noteq> name) (map strip_widget (place i (widgets_of B i)))"
      by (simp add: filter_map comp_def del: strip_place)
    thus "map strip_widget (on_tab i (filter (\<lambda>w. bw_name w \<noteq> name) (bl_widgets (conc B))))
        = filter (\<lambda>w. \<not> named name w) (widgets_of B i)"
      unfolding o by (simp only: strip_place strip_widgets_of [OF s] named_def)
  qed (auto dest: conc_widget_tab)
  thus ?thesis
    using Some requireWidget_None [of name B] by (simp add: requireWidget_def take_out_def)
qed

lemma strip_resized: "strip_widget (resized a b h w) = resized a b h (strip_widget w)"
  by (rule board_widget.equality) (simp_all add: resized_def strip_widget_def)

lemma refines_resize:
  assumes B: "board_ok B"
  shows "in_normal_form (applyBoardOp (conc B) (WidgetResize name a b h)) = concrete (spec_op (WidgetResize name a b h) B)"
proof (cases "find_index (\<lambda>w. bw_name w = name) (bl_widgets (conc B))")
  case None
  thus ?thesis using requireWidget_None [of name B] by (simp add: requireWidget_def)
next
  case (Some k)
  note k = find_index_Some [OF Some]
  have d: "distinct (tab_ids B)" and s: "stripped B" using B by (rule board_okD)+
  let ?W = "bl_widgets (conc B)" and ?f = "\<lambda>w. if named name w then resized a b h w else w"
  have "?W[k := resized a b h (?W ! k)] = map (\<lambda>w. if bw_name w = bw_name (?W ! k) then resized a b h (?W ! k) else w) ?W"
    by (rule update_by_key) (use k board_okD(3) [OF B] in \<open>auto simp: names_conc\<close>)
  also have "\<dots> = map ?f ?W"
  proof (rule map_cong [OF refl])
    fix w assume w: "w \<in> set ?W"
    have "w = ?W ! k" if "bw_name w = name"
      using k w that board_okD(3) [OF B] unfolding names_conc [symmetric]
      by (metis distinct_map inj_on_def nth_mem)
    thus "(if bw_name w = bw_name (?W ! k) then resized a b h (?W ! k) else w) = ?f w"
      using k by (auto simp: named_def)
  qed
  finally have u: "?W[k := resized a b h (?W ! k)] = map ?f ?W" .
  have f: "bw_tabId (?f w) = bw_tabId w" "bw_position (?f w) = bw_position w" "strip_widget (?f w) = ?f (strip_widget w)" for w
    by (simp_all add: resized_def named_def strip_resized [unfolded resized_def])
  have "normalizeBoardLayout ((conc B)\<lparr>bl_widgets := map ?f ?W\<rparr>) = conc (on_items (map ?f) B)"
  proof (rule normalize_items [OF B])
    fix i
    have o: "on_tab i (map ?f ?W) = map ?f (place i (widgets_of B i))"
      unfolding on_tab_conc [OF d, symmetric] by (simp add: filter_map comp_def f)
    show "sorted (map bw_position (on_tab i (map ?f ?W)))"
      unfolding o using place_sorted by (simp add: comp_def f)
    have "map strip_widget (map ?f (place i (widgets_of B i))) = map ?f (map strip_widget (place i (widgets_of B i)))"
      by (simp only: map_map comp_def f)
    thus "map strip_widget (on_tab i (map ?f ?W)) = map ?f (widgets_of B i)"
      unfolding o by (simp only: strip_place strip_widgets_of [OF s])
  next
    fix w assume "w \<in> set (map ?f ?W)"
    then obtain v where "v \<in> set ?W" "w = ?f v" by auto
    thus "bw_tabId w \<in> set (tab_ids B)" using conc_widget_tab by (simp only: f)
  qed
  thus ?thesis
    using Some requireWidget_None [of name B] u by (simp add: requireWidget_def resized_def)
qed

lemma target_position_names:
  "map bw_name us = map bw_name ws \<Longrightarrow> target_position us name pos after = target_position ws name pos after"
proof -
  assume n: "map bw_name us = map bw_name ws"
  hence l: "length us = length ws" by (metis length_map)
  have "find_index (\<lambda>w. bw_name w = a) us = find_index (\<lambda>w. bw_name w = a) ws" for a
    by (rule find_index_nth_cong [OF l]) (metis n l nth_map)
  thus ?thesis by (simp add: target_position_def l split: option.splits)
qed

text \<open>
  The move of a widget, whatever the widget and wherever it came from: only the other
  widgets matter, and they are those of the board \<open>C\<close>.
\<close>

lemma target_position_spec: "target_position ws name pos after = spec_position ws name pos after"
proof (cases after)
  case (Some a)
  show ?thesis
  proof (cases "find_index (\<lambda>w. bw_name w = a) ws")
    case none: None
    hence "a \<notin> bw_name ` set ws" by (auto simp: find_index_None)
    with none Some show ?thesis by (simp add: target_position_def spec_position_def)
  next
    case (Some i)
    hence "a \<in> bw_name ` set ws" using find_index_Some [OF Some] by force
    with Some \<open>after = Some a\<close> show ?thesis by (simp add: target_position_def spec_position_def behind_index)
  qed
next
  case None
  have "nat (clampInteger p 0 (int (length ws))) = (if p \<le> 0 then 0 else min (length ws) (nat \<lfloor>p\<rfloor>))" for p
  proof (cases "p \<le> 0")
    case True
    hence "js_trunc p \<le> 0" by (auto simp: js_trunc_def)
    with True show ?thesis by (simp add: clampInteger_def)
  next
    case False
    have "nat (min (int l) (max 0 x)) = min l (nat x)" for l x by (auto simp: min_def max_def)
    with False show ?thesis by (simp add: clampInteger_def js_trunc_def)
  qed
  with None show ?thesis by (simp add: target_position_def spec_position_def split: option.split)
qed

lemma moveWidget_refines:
  assumes C: "distinct (tab_ids C)" "stripped C"
    and tabs: "bl_tabs L = number_tabs (map fst C)"
    and rest: "rest = without k (bl_widgets L)"
    and r: "\<And>w. w \<in> set rest \<Longrightarrow> bw_tabId w \<in> set (tab_ids C)"
      "\<And>i. sorted (map bw_position (on_tab i rest))"
      "\<And>i. map strip_widget (on_tab i rest) = widgets_of C i"
  shows "in_normal_form (moveWidget L k i pos after)
       = concrete (spec_place (strip_widget (bl_widgets L ! k)) i pos after C)"
proof (cases "find_index (is_tab i) C")
  case None
  thus ?thesis
    by (simp add: moveWidget_def requireTab_conc [OF tabs] spec_place_def find_tab_index)
next
  case (Some m)
  let ?w = "bl_widgets L ! k" and ?T = "on_tab i rest"
  have tp: "target_position ?T (bw_name ?w) pos after
      = spec_position (widgets_of C i) (bw_name (strip_widget ?w)) pos after"
  proof -
    have "map bw_name ?T = map bw_name (widgets_of C i)"
      unfolding r(3) [symmetric] by (simp add: comp_def)
    from target_position_names [OF this] show ?thesis by (simp add: target_position_spec)
  qed
  have sT: "sort_key bw_position ?T = ?T" by (rule sort_key_id_if_sorted) (rule r(2))
  have iC: "i \<in> set (tab_ids C)" using find_index_Some [OF Some] by (force simp: in_set_conv_nth)
  show ?thesis
  proof (cases "(pos \<noteq> None \<and> after \<noteq> None) \<or> isl (target_position ?T (bw_name ?w) pos after)")
    case True
    thus ?thesis
      using Some tp sT
      by (auto simp: moveWidget_def requireTab_conc [OF tabs] spec_place_def find_tab_index Let_def
          isl_def simp flip: rest)
  next
    case False
    then obtain n where n: "target_position ?T (bw_name ?w) pos after = Inr n"
      by (cases "target_position ?T (bw_name ?w) pos after") auto
    let ?S = "splice_in n (?w\<lparr>bw_tabId := i\<rparr>) ?T"
    let ?N = "number_in_order ?S" and ?O = "filter (\<lambda>w. bw_tabId w \<noteq> i) rest"
    have NT: "?N = place i ?S"
    proof -
      have "map (\<lambda>w. w\<lparr>bw_tabId := i\<rparr>) ?S = ?S" by (rule map_idI) auto
      thus ?thesis by (simp add: place_def)
    qed
    have "normalizeBoardLayout (L\<lparr>bl_widgets := ?O @ ?N\<rparr>)
        = conc (at_tab i (\<lambda>(t, ws). (t, splice_in n (strip_widget ?w) ws)) C)"
    proof (rule normalizeI)
      show "loose (L\<lparr>bl_widgets := ?O @ ?N\<rparr>)"
        unfolding loose_def
      proof (intro conjI ballI)
        show "distinct (map bt_tabId (bl_tabs (L\<lparr>bl_widgets := ?O @ ?N\<rparr>)))"
          using C(1) by (simp add: tabs map_number_tabs comp_def)
        fix w assume "w \<in> set (bl_widgets (L\<lparr>bl_widgets := ?O @ ?N\<rparr>))"
        hence "w \<in> set rest \<or> w \<in> set (place i ?S)" unfolding NT by auto
        hence "bw_tabId w \<in> set (tab_ids C)" using r(1) iC place_tab by blast
        thus "bw_tabId w \<in> bt_tabId ` set (bl_tabs (L\<lparr>bl_widgets := ?O @ ?N\<rparr>))"
          by (simp add: tabs ids_number_tabs image_image)
      qed
      show "map strip_tab (sort_key bt_position (bl_tabs (L\<lparr>bl_widgets := ?O @ ?N\<rparr>)))
          = map fst (at_tab i (\<lambda>(t, ws). (t, splice_in n (strip_widget ?w) ws)) C)"
        using strip_tabs [OF C(2)] by (auto simp: tabs at_tab_def comp_def case_prod_beta)
      fix t ws assume "(t, ws) \<in> set (at_tab i (\<lambda>(t, ws). (t, splice_in n (strip_widget ?w) ws)) C)"
      then obtain vs where v: "(t, vs) \<in> set C"
        "ws = (if bt_tabId t = i then splice_in n (strip_widget ?w) vs else vs)"
        by (auto simp: at_tab_def case_prod_beta split: if_splits)
      have wo: "widgets_of C (bt_tabId t) = vs" by (rule widgets_of_in [OF C(1) v(1)])
      show "map strip_widget (sort_key bw_position (on_tab (bt_tabId t) (bl_widgets (L\<lparr>bl_widgets := ?O @ ?N\<rparr>)))) = ws"
      proof (cases "bt_tabId t = i")
        case True
        have "on_tab i (?O @ ?N) = place i ?S" unfolding NT by (simp add: filter_empty_conv)
        with True v wo r(3) [of i] show ?thesis by (simp add: map_splice_in)
      next
        case F: False
        have "on_tab (bt_tabId t) ?O = on_tab (bt_tabId t) rest"
          using F by (auto intro!: filter_cong)
        hence "on_tab (bt_tabId t) (?O @ ?N) = on_tab (bt_tabId t) rest"
          unfolding NT using F by simp
        with F v wo r(2,3) [of "bt_tabId t"] show ?thesis by (simp add: sort_key_id_if_sorted)
      qed
    qed
    moreover have "spec_position (widgets_of C i) (bw_name ?w) pos after = Inr n"
      using tp n by simp
    moreover have "\<not> (pos \<noteq> None \<and> after \<noteq> None)" using False by blast
    ultimately show ?thesis
      using Some sT n
      by (auto simp: moveWidget_def requireTab_conc [OF tabs] spec_place_def find_tab_index Let_def simp flip: rest)
  qed
qed

text \<open>What is left of a stored layout without the widget of a name.\<close>

lemma rest_of_conc:
  assumes B: "board_ok B" and rest: "rest = filter (\<lambda>w. bw_name w \<noteq> name) (bl_widgets (conc B))"
  shows "w \<in> set rest \<Longrightarrow> bw_tabId w \<in> set (tab_ids B)"
    "sorted (map bw_position (on_tab i rest))"
    "map strip_widget (on_tab i rest) = widgets_of (take_out name B) i"
proof -
  have d: "distinct (tab_ids B)" and s: "stripped B" using B by (rule board_okD)+
  show "w \<in> set rest \<Longrightarrow> bw_tabId w \<in> set (tab_ids B)" using conc_widget_tab by (simp add: rest)
  have o: "on_tab i rest = filter (\<lambda>w. bw_name w \<noteq> name) (place i (widgets_of B i))"
    unfolding on_tab_conc [OF d, symmetric] rest filter_filter by (rule filter_cong) auto
  show "sorted (map bw_position (on_tab i rest))"
    unfolding o by (rule sorted_filter [OF place_sorted])
  have "map strip_widget (on_tab i rest) = filter (\<lambda>w. bw_name w \<noteq> name) (widgets_of B i)"
  proof -
    have "map strip_widget (filter (\<lambda>w. bw_name w \<noteq> name) (place i (widgets_of B i)))
        = filter (\<lambda>w. bw_name w \<noteq> name) (map strip_widget (place i (widgets_of B i)))"
      by (simp add: filter_map comp_def del: strip_place)
    thus ?thesis unfolding o by (simp only: strip_place strip_widgets_of [OF s])
  qed
  moreover have "widgets_of B i = []" if "i \<notin> set (tab_ids B)"
    using that find_tab_None [of i B] by (simp add: widgets_of_def)
  ultimately show "map strip_widget (on_tab i rest) = widgets_of (take_out name B) i"
    by (simp add: take_out_def widgets_on_items named_def)
qed

lemma stripped_on_filter: "stripped B \<Longrightarrow> stripped (take_out name B)"
  by (auto simp: stripped_def take_out_def on_items_def)

lemma refines_move:
  assumes B: "board_ok B"
  shows "in_normal_form (applyBoardOp (conc B) (WidgetMove name i pos after)) = concrete (spec_op (WidgetMove name i pos after) B)"
proof (cases "find_index (\<lambda>w. bw_name w = name) (bl_widgets (conc B))")
  case None
  thus ?thesis using requireWidget_None [of name B] by (simp add: requireWidget_def)
next
  case (Some k)
  note k = find_index_Some [OF Some]
  from Some requireWidget_None [of name B] obtain u us where h: "home_of name B = Some (u, us)" by auto
  note f = found_widget [OF B Some h]
  have d: "distinct (tab_ids B)" and s: "stripped B" using B by (rule board_okD)+
  have w: "without k (bl_widgets (conc B)) = filter (\<lambda>w. bw_name w \<noteq> name) (bl_widgets (conc B))"
    using without_by_key [of bw_name "bl_widgets (conc B)" k] k board_okD(3) [OF B] by (simp add: names_conc)
  have "in_normal_form (moveWidget (conc B) k (case_option (bt_tabId u) id i) pos after)
      = concrete (spec_place (strip_widget (bl_widgets (conc B) ! k)) (case_option (bt_tabId u) id i) pos after (take_out name B))"
    by (rule moveWidget_refines [OF _ stripped_on_filter [OF s] _ w [symmetric]])
      (use d rest_of_conc [OF B refl] in \<open>auto simp: take_out_def\<close>)
  moreover have "applyBoardOp (conc B) (WidgetMove name i pos after)
      = moveWidget (conc B) k (case_option (bt_tabId u) id i) pos after"
    by (cases i) (simp_all add: requireWidget_def Some f(1))
  moreover have "spec_op (WidgetMove name i pos after) B
      = spec_place (strip_widget (bl_widgets (conc B) ! k)) (case_option (bt_tabId u) id i) pos after (take_out name B)"
    by (simp add: h f(2))
  ultimately show ?thesis by (simp only:)
qed

lemma op_refines:
  "board_ok B \<Longrightarrow> in_normal_form (applyBoardOp (conc B) op) = concrete (spec_op op B)"
  by (cases op) (simp_all only: refines_create refines_update refines_delete refines_reorder
      refines_move refines_resize refines_remove)

end
