(* ===== verification/Board_Meaning.thy ===== *)
theory Board_Meaning
  imports Board_Refinement
begin

section \<open>Layouts stay well formed\<close>

text \<open>
  The specification keeps \<open>board_ok\<close>, and with the refinement of the single operations this gives
  the refinement and the invariant of whole operation lists and of placing a widget.
\<close>

lemma items_split:
  assumes "distinct (tab_ids B)" "(t, ws) \<in> set B" "bt_tabId t = i"
  shows "mset B = add_mset (t, ws) (mset (filter (\<lambda>e. \<not> is_tab i e) B))"
  using assms
proof (induction B)
  case (Cons e B)
  show ?case
  proof (cases "is_tab i e")
    case True
    have "filter (\<lambda>e. \<not> is_tab i e) B = B"
      using Cons.prems(1) True by (auto simp: filter_id_conv image_iff)
    moreover have "e = (t, ws)"
      using Cons.prems True by (force simp: image_iff)
    ultimately show ?thesis using True by simp
  next
    case False
    with Cons show ?thesis by (auto simp: add_mset_commute)
  qed
qed simp

lemma mset_items: "mset (items B) = \<Sum>\<^sub># (image_mset (\<lambda>e. mset (snd e)) (mset B))"
  by (induction B) auto

lemma items_perm: "mset B = mset C \<Longrightarrow> mset (items B) = mset (items C)"
  unfolding mset_items by simp

lemma board_ok_perm:
  assumes B: "board_ok B" and t: "mset (tab_ids C) = mset (tab_ids B)"
    and w: "mset (map bw_name (items C)) = mset (map bw_name (items B))" and s: "stripped C"
  shows "board_ok C"
proof -
  have "length (items C) = length (items B)"
    using arg_cong [OF w, of size] by simp
  thus ?thesis
    using B s mset_eq_imp_distinct_iff [OF t] mset_eq_imp_distinct_iff [OF w]
    by (simp add: board_ok_def)
qed

lemma board_ok_same_items:
  assumes B: "board_ok B" and t: "mset (tab_ids C) = mset (tab_ids B)"
    and w: "mset (items C) = mset (items B)" and s: "stripped C"
  shows "board_ok C"
proof (rule board_ok_perm [OF B t _ s])
  show "mset (map bw_name (items C)) = mset (map bw_name (items B))"
    using arg_cong [OF w, of "image_mset bw_name"] unfolding mset_map .
qed

lemma stripped_subset: "stripped B \<Longrightarrow> set C \<subseteq> set B \<Longrightarrow> stripped C"
  by (auto simp: stripped_def)

lemma ok_take_out:
  assumes "board_ok B"
  shows "board_ok (take_out name B)" "items (take_out name B) = filter (\<lambda>w. \<not> named name w) (items B)"
proof -
  show i: "items (take_out name B) = filter (\<lambda>w. \<not> named name w) (items B)"
    unfolding take_out_def on_items_def by (induction B) auto
  have "int (length (items (take_out name B))) \<le> js_max_safe"
    using assms length_filter_le [of "\<lambda>w. \<not> named name w" "items B"]
    unfolding i board_ok_def by linarith
  thus "board_ok (take_out name B)"
    using assms stripped_on_filter [of B name] distinct_map_filter [of bw_name "items B"]
    unfolding board_ok_def i by (simp add: take_out_def)
qed

lemma ok_place:
  assumes C: "board_ok C" and x: "strip_widget x = x" "bw_name x \<notin> bw_name ` set (items C)"
    and l: "int (length (items C)) < js_max_safe" and p: "spec_place x i pos after C = Inr D"
  shows "board_ok D" "mset (items D) = add_mset x (mset (items C))" "tab_ids D = tab_ids C"
proof -
  from p obtain n where D: "D = at_tab i (\<lambda>(t, ws). (t, splice_in n x ws)) C" and i: "i \<in> set (tab_ids C)"
    unfolding spec_place_def using find_tab_None [of i C] by (auto split: if_splits)
  show t: "tab_ids D = tab_ids C" by (auto simp: D at_tab_def case_prod_beta)
  have "distinct (tab_ids C)" using C by (rule board_okD)
  with i show m: "mset (items D) = add_mset x (mset (items C))" unfolding D
  proof (induction C)
    case (Cons e C)
    show ?case
    proof (cases "is_tab i e")
      case True
      hence "at_tab i f C = C" for f
        using Cons.prems by (auto simp: at_tab_def image_iff intro!: map_idI)
      thus ?thesis using True by (simp add: at_tab_def case_prod_beta)
    next
      case False
      with Cons show ?thesis by (auto simp: at_tab_def)
    qed
  qed simp
  have x0: "bw_tabId x = [] \<and> bw_position x = 0" using x(1) by (metis strip_widget_simps(2,3))
  have "stripped D"
    unfolding stripped_def
  proof
    fix e assume "e \<in> set D"
    then obtain f where f: "f \<in> set C" "e = (if is_tab i f then (fst f, splice_in n x (snd f)) else f)"
      unfolding D at_tab_def set_map case_prod_beta by (rule imageE)
    have "bt_position (fst f) = 0 \<and> (\<forall>w\<in>set (snd f). bw_tabId w = [] \<and> bw_position w = 0)"
      using board_okD(2) [OF C] f(1) unfolding stripped_def by (rule bspec)
    thus "bt_position (fst e) = 0 \<and> (\<forall>w\<in>set (snd e). bw_tabId w = [] \<and> bw_position w = 0)"
      using f(2) x0 by simp
  qed
  moreover have "distinct (map bw_name (items D))"
    using mset_eq_imp_distinct_iff [of "map bw_name (items D)" "bw_name x # map bw_name (items C)"]
      arg_cong [OF m, of "image_mset bw_name"] x(2) board_okD(3) [OF C] by simp
  moreover have "length (items D) = Suc (length (items C))"
    using arg_cong [OF m, of size] by simp
  ultimately show "board_ok D" using C l t by (simp add: board_ok_def)
qed

lemma ok_create: "board_ok B \<Longrightarrow> spec_op (TabCreate i title dock) B = Inr C \<Longrightarrow> board_ok C"
  by (auto simp: board_ok_def stripped_def)

lemma ok_update:
  assumes B: "board_ok B" and C: "spec_op (TabUpdate i title dock pos) B = Inr C"
  shows "board_ok C"
proof -
  from C obtain t ws where f: "find_tab i B = Some (t, ws)" by (auto split: option.splits)
  with find_tab_Some [OF f] have t: "(t, ws) \<in> set B" "bt_tabId t = i" by auto
  have h: "strip_tab (set_head title dock t) = set_head title dock t"
    using strippedD(1) [OF board_okD(2) [OF B] t(1)] by simp
  let ?rest = "filter (\<lambda>e. \<not> is_tab i e) B"
  have m: "mset B = add_mset (t, ws) (mset ?rest)" by (rule items_split [OF board_okD(1) [OF B] t])
  show ?thesis
  proof (cases pos)
    case None
    hence C: "C = at_tab i (\<lambda>(t, ws). (set_head title dock t, ws)) B"
      using C f by (auto split: if_splits)
    have "tab_ids C = tab_ids B" "map snd C = map snd B"
      by (auto simp: C at_tab_def case_prod_beta)
    moreover have "stripped C"
      using board_okD(2) [OF B] by (force simp: C stripped_def at_tab_def case_prod_beta set_head_def)
    ultimately show ?thesis using B by (simp add: board_ok_def)
  next
    case (Some p)
    then obtain n where C: "C = splice_in n (set_head title dock t, ws) ?rest"
      using C f by (auto simp: Let_def split: if_splits)
    have "mset C = add_mset (set_head title dock t, ws) (mset ?rest)" by (simp add: C)
    hence mC: "mset C = add_mset (set_head title dock t, ws) (mset ?rest)" .
    have "mset (tab_ids C) = mset (tab_ids B)" unfolding mset_map mC m by simp
    moreover have "mset (items C) = mset (items B)" unfolding mset_items mC m by simp
    moreover have "bt_position (set_head title dock t) = 0"
      using arg_cong [OF h, of bt_position] by (simp add: strip_tab_def)
    hence "stripped C"
      using board_okD(2) [OF B] t(1) by (auto simp: C stripped_def)
    ultimately show ?thesis using board_ok_same_items [OF B] by blast
  qed
qed

lemma ok_delete:
  assumes B: "board_ok B" and C: "spec_op (TabDelete i) B = Inr C"
  shows "board_ok C"
proof -
  from C obtain t ws where f: "find_tab i B = Some (t, ws)" by (auto split: option.splits)
  with find_tab_Some [OF f] have t: "(t, ws) \<in> set B" "bt_tabId t = i" by auto
  let ?rest = "filter (\<lambda>e. \<not> is_tab i e) B"
  have m: "mset B = add_mset (t, ws) (mset ?rest)" by (rule items_split [OF board_okD(1) [OF B] t])
  show ?thesis
  proof (cases ?rest)
    case Nil
    hence "C = []" using C f by (auto split: if_splits)
    thus ?thesis by (simp add: board_ok_def stripped_def js_max_safe_def)
  next
    case (Cons e r)
    hence C: "C = (fst e, snd e @ ws) # r" using C f by (cases e) auto
    have "mset (items C) = mset (items B)"
      unfolding mset_items m Cons by (simp add: C ac_simps)
    hence w: "distinct (map bw_name (items C))" "length (items C) = length (items B)"
      using board_okD(3) [OF B] by (metis mset_eq_imp_distinct_iff mset_map, metis size_mset)
    have "distinct (tab_ids (e # r))"
      using distinct_map_filter [OF board_okD(1) [OF B], of "\<lambda>e. \<not> is_tab i e"] Cons by simp
    moreover have "stripped (e # r)" using board_okD(2) [OF B] stripped_subset [of B "e # r"] by (force simp flip: Cons)
    moreover have "\<forall>w\<in>set ws. bw_tabId w = [] \<and> bw_position w = 0"
      using board_okD(2) [OF B] t(1) by (auto simp: stripped_def)
    ultimately show ?thesis using w B by (auto simp: C board_ok_def stripped_def)
  qed
qed

lemma ok_reorder:
  assumes B: "board_ok B" and C: "spec_op (TabsReorder is) B = Inr C"
  shows "board_ok C"
proof -
  let ?e = "\<lambda>i. hd (filter (is_tab i) B)"
  from C have i: "distinct is" "set is = set (tab_ids B)" "C = map ?e is" by (auto split: if_splits)
  have d: "distinct (tab_ids B)" using B by (rule board_okD)
  have e: "?e i \<in> set B" "is_tab i (?e i)" if "i \<in> set is" for i
    using hd_filter_tab [OF d, of i] i that by auto
  have "tab_ids C = is" using e(2) by (simp add: i(3) map_idI)
  moreover have cB: "set C \<subseteq> set B" using e(1) by (auto simp: i(3))
  moreover have "set B \<subseteq> set C"
  proof
    fix x assume x: "x \<in> set B"
    hence xi: "bt_tabId (fst x) \<in> set is" using i(2) by auto
    have "?e (bt_tabId (fst x)) = x"
    proof (rule inj_onD)
      show "inj_on (\<lambda>e. bt_tabId (fst e)) (set B)" using d by (simp add: distinct_map)
    qed (use e [OF xi] x in auto)
    from image_eqI [of x ?e, OF this [symmetric] xi] show "x \<in> set C" unfolding i(3) set_map .
  qed
  ultimately have "mset C = mset B"
    using i(1) d distinct_map [of "\<lambda>e. bt_tabId (fst e)"] set_eq_iff_mset_eq_distinct [of C B] by auto
  hence m: "mset C = mset B" .
  have "mset (tab_ids C) = mset (tab_ids B)" unfolding mset_map m ..
  with items_perm [OF m] show ?thesis
    using board_ok_same_items [OF B] stripped_subset [OF board_okD(2) [OF B] cB] by blast
qed

lemma ok_resize:
  assumes B: "board_ok B" and C: "spec_op (WidgetResize name a b h) B = Inr C"
  shows "board_ok C"
proof -
  let ?f = "\<lambda>w. if named name w then resized a b h w else w"
  from C have C: "C = on_items (map ?f) B" by (auto split: if_splits)
  have "map bw_name (items C) = map bw_name (items B)"
    unfolding C on_items_def by (induction B) (auto simp: resized_def)
  moreover have "stripped C"
    using board_okD(2) [OF B] by (auto simp: C stripped_def on_items_def resized_def)
  ultimately show ?thesis by (intro board_ok_perm [OF B]) (simp_all add: C)
qed

lemma ok_move:
  assumes B: "board_ok B" and C: "spec_op (WidgetMove name i pos after) B = Inr C"
  shows "board_ok C"
proof -
  from C obtain u us where h: "home_of name B = Some (u, us)" by (auto split: option.splits)
  let ?x = "hd (filter (named name) us)"
  obtain k where k: "find_index (\<lambda>w. bw_name w = name) (bl_widgets (conc B)) = Some k"
    using h requireWidget_None [of name B] by (cases "find_index (\<lambda>w. bw_name w = name) (bl_widgets (conc B))") auto
  have x: "strip_widget ?x = ?x" "bw_name ?x = name"
    using found_widget(2,3) [OF B k h] by (metis strip_widget_simps(6), simp)
  note t = ok_take_out [OF B, of name]
  have n: "name \<in> bw_name ` set (items B)"
    using h home_of_None [of name B] by simp
  hence "length (items (take_out name B)) < length (items B)"
    unfolding t(2) named_def by (metis (mono_tags, lifting) imageE length_filter_less)
  hence l: "int (length (items (take_out name B))) < js_max_safe" using B by (simp add: board_ok_def)
  show ?thesis
    by (rule ok_place(1) [OF t(1) x(1) _ l]) (use C h x in \<open>auto simp: t(2) named_def split: option.splits\<close>)
qed

lemma spec_op_ok: "board_ok B \<Longrightarrow> spec_op op B = Inr C \<Longrightarrow> board_ok C"
proof (cases op)
  case (WidgetRemove name)
  moreover assume "board_ok B" "spec_op op B = Inr C"
  ultimately show ?thesis using ok_take_out(1) [of B name] by (auto split: if_splits)
qed (blast intro: ok_create ok_update ok_delete ok_reorder ok_resize ok_move)+

subsection \<open>Operation lists\<close>

lemma apply_each_refines:
  "board_ok B \<Longrightarrow> apply_each (conc B) ops = concrete (spec_ops ops B)"
proof (induction ops arbitrary: B)
  case (Cons op ops)
  have "apply_each (conc B) (op # ops) = bnd (in_normal_form (applyBoardOp (conc B) op)) (\<lambda>L. apply_each L ops)"
    by (cases "applyBoardOp (conc B) op") simp_all
  also have "\<dots> = bnd (concrete (spec_op op B)) (\<lambda>L. apply_each L ops)"
    by (simp only: op_refines [OF Cons.prems])
  also have "\<dots> = concrete (spec_ops (op # ops) B)"
    using Cons.IH spec_op_ok [OF Cons.prems, of op] by (cases "spec_op op B") simp_all
  finally show ?case .
qed simp

lemma spec_ops_ok: "board_ok B \<Longrightarrow> spec_ops ops B = Inr C \<Longrightarrow> board_ok C"
  by (induction ops arbitrary: B) (auto dest: spec_op_ok)

lemma ops_refine:
  assumes "board_ok B"
  shows "applyBoardOps (conc B) ops = concrete (spec_ops ops B)"
  using normalize_conc spec_ops_ok [OF assms, of ops]
  by (cases "spec_ops ops B") (simp_all add: applyBoardOps_def apply_each_refines [OF assms])

lemma ops_keep_layout:
  assumes "layout_ok L" "applyBoardOps L ops = Inr L'"
  shows "layout_ok L'"
proof -
  from assms(1) have B: "board_ok (abs_board L)" and L: "L = conc (abs_board L)"
    using conc_abs by auto
  from assms(2) obtain C where "spec_ops ops (abs_board L) = Inr C" "L' = conc C"
    using ops_refine [OF B, of ops] L by (cases "spec_ops ops (abs_board L)") auto
  thus ?thesis using conc_ok spec_ops_ok [OF B] by simp
qed

end
