(* ===== verification/Board_Tables.thy ===== *)
theory Board_Tables
  imports Board_Store Board_Meaning
begin

section \<open>What the statements do to the rows of a session\<close>

text \<open>
  Each statement of the board store, and each loop of statements, as a function of the rows of the
  session it names; the rows of every other session stay as they are.
\<close>

lemma filter_map_keep:
  "(\<And>x. p (f x) = p x) \<Longrightarrow> filter p (map f xs) = map f (filter p xs)"
  by (induction xs) auto

subsection \<open>Widgets\<close>

lemma widget_rows_on_widget:
  assumes "\<And>r. wr_session_key (f r) = wr_session_key r"
  shows "widget_rows (on_widget s name f db) s' =
     (if s' = s then map (\<lambda>r. if wr_name r = name then f r else r) (widget_rows db s) else widget_rows db s')"
proof -
  let ?g = "\<lambda>r. if wr_session_key r = s \<and> wr_name r = name then f r else r"
  have "widget_rows (on_widget s name f db) s' = map ?g (widget_rows db s')"
    unfolding widget_rows_def on_widget_def by (simp add: filter_map_keep assms)
  also have "\<dots> = (if s' = s then map (\<lambda>r. if wr_name r = name then f r else r) (widget_rows db s) else widget_rows db s')"
    by (auto simp: widget_rows_def intro!: map_idI)
  finally show ?thesis .
qed

lemma on_widget_simps [simp]:
  "db_tabs (on_widget s name f db) = db_tabs db" "db_session_nodes (on_widget s name f db) = db_session_nodes db"
  by (simp_all add: on_widget_def)

lemma fold_on_widget [simp]:
  "db_tabs (fold (\<lambda>x. on_widget s (n x) (g x)) xs db) = db_tabs db"
  "db_session_nodes (fold (\<lambda>x. on_widget s (n x) (g x)) xs db) = db_session_nodes db"
  by (induction xs arbitrary: db) simp_all

definition rewrite :: "('x \<Rightarrow> string) \<Rightarrow> ('x \<Rightarrow> widget_row \<Rightarrow> widget_row) \<Rightarrow> 'x \<Rightarrow> widget_row \<Rightarrow> widget_row" where
  "rewrite n g x r = (if wr_name r = n x then g x r else r)"

lemma rewrite_simps:
  "wr_name r = n x \<Longrightarrow> rewrite n g x r = g x r"
  "wr_name r \<noteq> n x \<Longrightarrow> rewrite n g x r = r"
  by (simp_all add: rewrite_def)

lemma widget_rows_fold:
  assumes "\<And>x r. wr_session_key (g x r) = wr_session_key r"
  shows "widget_rows (fold (\<lambda>x. on_widget s (n x) (g x)) xs db) s' =
     (if s' = s then map (fold (rewrite n g) xs) (widget_rows db s) else widget_rows db s')"
proof (induction xs arbitrary: db)
  case (Cons x xs)
  show ?case
    using Cons [of "on_widget s (n x) (g x) db"]
    by (auto simp: widget_rows_on_widget assms rewrite_simps)
qed (auto simp: comp_def)

lemma rewrite_other: "wr_name r \<notin> n ` set xs \<Longrightarrow> fold (rewrite n g) xs r = r"
  by (induction xs) (auto simp: rewrite_simps)

lemma rewrite_one:
  assumes "distinct (map n xs)" "x \<in> set xs" "wr_name r = n x" "\<And>y r. wr_name (g y r) = wr_name r"
  shows "fold (rewrite n g) xs r = g x r"
  using assms
proof (induction xs arbitrary: r)
  case (Cons y xs)
  show ?case
  proof (cases "x = y")
    case True
    with Cons.prems have "wr_name (g x r) \<notin> n ` set xs" by auto
    with True Cons.prems show ?thesis by (simp add: rewrite_simps rewrite_other)
  next
    case False
    with Cons.prems have "x \<in> set xs" "n y \<noteq> n x" by auto
    with Cons show ?thesis by (simp add: rewrite_simps)
  qed
qed simp

lemma widget_rows_deleteWidget:
  "widget_rows (deleteWidget s name db) s' =
     (if s' = s then filter (\<lambda>r. wr_name r \<noteq> name) (widget_rows db s) else widget_rows db s')"
  by (auto simp: widget_rows_def deleteWidget_def intro!: filter_cong)

abbreviation drop_widgets :: "string set \<Rightarrow> string \<Rightarrow> widget_row list \<Rightarrow> board_db \<Rightarrow> board_db" where
  "drop_widgets N s rows db \<equiv> fold (\<lambda>row d. if wr_name row \<in> N then d else deleteWidget s (wr_name row) d) rows db"

lemma fold_deleteWidget:
  shows "widget_rows (drop_widgets N s rows db) s' =
     (if s' = s then filter (\<lambda>r. wr_name r \<in> N \<or> wr_name r \<notin> wr_name ` set rows) (widget_rows db s)
      else widget_rows db s')"
    and "db_tabs (drop_widgets N s rows db) = db_tabs db"
    and "db_session_nodes (drop_widgets N s rows db) = db_session_nodes db"
proof (induction rows arbitrary: db)
  case (Cons row rows)
  { case 1 thus ?case using Cons(1) by (auto simp: widget_rows_deleteWidget intro!: filter_cong) }
  { case 2 thus ?case using Cons(2) by (simp add: deleteWidget_def) }
  { case 3 thus ?case using Cons(3) by (simp add: deleteWidget_def) }
qed simp_all

subsection \<open>Tabs\<close>

lemma tab_rows_deleteTab:
  "tab_rows (deleteTab s i db) s' =
     (if s' = s then filter (\<lambda>r. tr_tab_id r \<noteq> i) (tab_rows db s) else tab_rows db s')"
  "widget_rows (deleteTab s i db) s' =
     (if s' = s then filter (\<lambda>r. wr_tab_id r \<noteq> i) (widget_rows db s) else widget_rows db s')"
  by (auto simp: tab_rows_def widget_rows_def deleteTab_def intro!: filter_cong)

abbreviation drop_tabs :: "string set \<Rightarrow> string \<Rightarrow> tab_row list \<Rightarrow> board_db \<Rightarrow> board_db" where
  "drop_tabs N s rows db \<equiv> fold (\<lambda>row d. if tr_tab_id row \<in> N then d else deleteTab s (tr_tab_id row) d) rows db"

lemma fold_deleteTab:
  shows "tab_rows (drop_tabs N s rows db) s' =
     (if s' = s then filter (\<lambda>r. tr_tab_id r \<in> N \<or> tr_tab_id r \<notin> tr_tab_id ` set rows) (tab_rows db s)
      else tab_rows db s')"
    and "widget_rows (drop_tabs N s rows db) s' =
     (if s' = s then filter (\<lambda>r. wr_tab_id r \<in> N \<or> wr_tab_id r \<notin> tr_tab_id ` set rows) (widget_rows db s)
      else widget_rows db s')"
    and "db_session_nodes (drop_tabs N s rows db) = db_session_nodes db"
proof (induction rows arbitrary: db)
  case (Cons row rows)
  { case 1 thus ?case using Cons(1) by (auto simp: tab_rows_deleteTab intro!: filter_cong) }
  { case 2 thus ?case using Cons(2) by (auto simp: tab_rows_deleteTab intro!: filter_cong) }
  { case 3 thus ?case using Cons(3) by (simp add: deleteTab_def) }
qed simp_all

definition set_tab :: "int \<Rightarrow> board_tab \<Rightarrow> tab_row \<Rightarrow> tab_row" where
  "set_tab revision tab r = r\<lparr>tr_title := bt_title tab, tr_position := bt_position tab,
     tr_chat_dock := bt_chatDock tab, tr_revision := revision\<rparr>"

definition new_tab :: "string \<Rightarrow> int \<Rightarrow> tab_row list \<Rightarrow> board_tab \<Rightarrow> tab_row" where
  "new_tab s revision rows tab =
     \<lparr>tr_session_key = s, tr_tab_id = bt_tabId tab, tr_title = bt_title tab, tr_position = bt_position tab,
      tr_chat_dock = bt_chatDock tab, tr_created_by = tab_author rows (bt_tabId tab), tr_revision = revision\<rparr>"

lemma upsertTab_cases:
  "upsertTab s revision rows tab db =
     (if bt_tabId tab \<in> tr_tab_id ` set (tab_rows db s)
      then db\<lparr>db_tabs := map (\<lambda>r. if tr_session_key r = s \<and> tr_tab_id r = bt_tabId tab
        then set_tab revision tab r else r) (db_tabs db)\<rparr>
      else db\<lparr>db_tabs := db_tabs db @ [new_tab s revision rows tab]\<rparr>)"
proof -
  have "list_ex (\<lambda>r. tr_session_key r = s \<and> tr_tab_id r = bt_tabId tab) (db_tabs db)
     \<longleftrightarrow> bt_tabId tab \<in> tr_tab_id ` set (tab_rows db s)"
    by (auto simp: list_ex_iff tab_rows_def image_iff)
  thus ?thesis by (simp add: upsertTab_def set_tab_def new_tab_def)
qed

lemma tab_rows_update: "tab_rows (db\<lparr>db_tabs := T\<rparr>) s = filter (\<lambda>r. tr_session_key r = s) T"
  by (simp add: tab_rows_def)

lemma set_tab_keys [simp]:
  "tr_session_key (set_tab v t r) = tr_session_key r" "tr_tab_id (set_tab v t r) = tr_tab_id r"
  by (simp_all add: set_tab_def)

lemma tab_rows_upsert:
  "tab_rows (upsertTab s revision rows tab db) s' =
     (if s' \<noteq> s then tab_rows db s'
      else if bt_tabId tab \<in> tr_tab_id ` set (tab_rows db s)
      then map (\<lambda>r. if tr_tab_id r = bt_tabId tab then set_tab revision tab r else r) (tab_rows db s)
      else tab_rows db s @ [new_tab s revision rows tab])"
proof -
  let ?g = "\<lambda>r. if tr_session_key r = s \<and> tr_tab_id r = bt_tabId tab then set_tab revision tab r else r"
  have "filter (\<lambda>r. tr_session_key r = s') (map ?g (db_tabs db)) = map ?g (tab_rows db s')"
    unfolding tab_rows_def by (rule filter_map_keep) simp
  also have "\<dots> = (if s' = s then map (\<lambda>r. if tr_tab_id r = bt_tabId tab then set_tab revision tab r else r) (tab_rows db s)
      else tab_rows db s')"
    by (auto simp: tab_rows_def intro!: map_idI)
  finally have "filter (\<lambda>r. tr_session_key r = s') (map ?g (db_tabs db)) = \<dots>" .
  moreover have "tr_session_key (new_tab s revision rows tab) = s"
    by (simp add: new_tab_def)
  ultimately show ?thesis
    by (cases "s' = s") (auto simp: upsertTab_cases tab_rows_update tab_rows_def [symmetric])
qed

lemma upsertTab_simps [simp]:
  "db_widgets (upsertTab s revision rows tab db) = db_widgets db"
  "db_session_nodes (upsertTab s revision rows tab db) = db_session_nodes db"
  by (simp_all add: upsertTab_cases)

lemma upsertTabs_simps [simp]:
  "db_widgets (upsertTabs previous next db) = db_widgets db"
  "db_session_nodes (upsertTabs previous next db) = db_session_nodes db"
proof -
  have "db_widgets (fold (upsertTab s v rows) ts db) = db_widgets db
     \<and> db_session_nodes (fold (upsertTab s v rows) ts db) = db_session_nodes db" for s v rows ts
    by (induction ts arbitrary: db) simp_all
  thus "db_widgets (upsertTabs previous next db) = db_widgets db"
    "db_session_nodes (upsertTabs previous next db) = db_session_nodes db"
    by (simp_all add: upsertTabs_def)
qed

lemma widget_rows_upsertTabs [simp]: "widget_rows (upsertTabs previous next db) s = widget_rows db s"
  by (simp add: widget_rows_def)

text \<open>The rows after all tabs are written.\<close>

definition tabs_written :: "int \<Rightarrow> board_tab list \<Rightarrow> tab_row list \<Rightarrow> tab_row list \<Rightarrow> bool" where
  "tabs_written revision ts T T' \<longleftrightarrow> distinct (map tr_tab_id T')
     \<and> tr_tab_id ` set T' = tr_tab_id ` set T \<union> bt_tabId ` set ts
     \<and> (\<forall>r\<in>set T'. if tr_tab_id r \<in> bt_tabId ` set ts then rowToTab r \<in> set ts \<and> tr_revision r = revision
                   else r \<in> set T)"

lemma tabs_written_upsert:
  assumes "distinct (map tr_tab_id T)"
  shows "tabs_written revision [tab] T
     (if bt_tabId tab \<in> tr_tab_id ` set T
      then map (\<lambda>r. if tr_tab_id r = bt_tabId tab then set_tab revision tab r else r) T
      else T @ [new_tab s revision rows tab])"
proof (cases "bt_tabId tab \<in> tr_tab_id ` set T")
  case True
  let ?T = "map (\<lambda>r. if tr_tab_id r = bt_tabId tab then set_tab revision tab r else r) T"
  have ids: "map tr_tab_id ?T = map tr_tab_id T"
    by (simp add: set_tab_def)
  hence set: "tr_tab_id ` set ?T = tr_tab_id ` set T"
    by (metis list.set_map)
  have "\<forall>r\<in>set ?T. if tr_tab_id r \<in> bt_tabId ` set [tab] then rowToTab r \<in> set [tab] \<and> tr_revision r = revision
      else r \<in> set T"
    by (auto simp: rowToTab_def set_tab_def)
  moreover have "tr_tab_id ` set T \<union> bt_tabId ` set [tab] = tr_tab_id ` set T"
    using True by auto
  ultimately show ?thesis
    unfolding tabs_written_def if_P [OF True] ids set using assms by blast
next
  case False
  hence "tr_tab_id r \<noteq> bt_tabId tab" if "r \<in> set T" for r
    using that by (metis image_eqI)
  hence other: "r \<in> set T \<Longrightarrow> tr_tab_id r \<noteq> bt_tabId tab" for r .
  show ?thesis
    unfolding tabs_written_def if_not_P [OF False] using assms False
    by (auto simp: rowToTab_def new_tab_def dest: other)
qed

lemma tabs_written_trans:
  assumes "tabs_written v [t] T U" "tabs_written v ts U V" "bt_tabId t \<notin> bt_tabId ` set ts"
  shows "tabs_written v (t # ts) T V"
  unfolding tabs_written_def
proof (intro conjI ballI)
  show "distinct (map tr_tab_id V)" using assms(2) by (simp add: tabs_written_def)
  show "tr_tab_id ` set V = tr_tab_id ` set T \<union> bt_tabId ` set (t # ts)"
    using assms(1,2) by (auto simp: tabs_written_def)
  fix r assume r: "r \<in> set V"
  show "if tr_tab_id r \<in> bt_tabId ` set (t # ts) then rowToTab r \<in> set (t # ts) \<and> tr_revision r = v else r \<in> set T"
  proof (cases "tr_tab_id r \<in> bt_tabId ` set ts")
    case True
    thus ?thesis using assms(2) r by (auto simp: tabs_written_def)
  next
    case False
    with assms(2) r have "r \<in> set U" by (auto simp: tabs_written_def)
    thus ?thesis using assms(1) False by (auto simp: tabs_written_def)
  qed
qed

lemma tab_rows_upsertTabs:
  assumes d: "distinct (map bt_tabId (bl_tabs (bs_layout next)))"
    and T: "distinct (map tr_tab_id (tab_rows db (bs_sessionKey next)))"
  shows "tabs_written (bs_revision next) (bl_tabs (bs_layout next)) (tab_rows db (bs_sessionKey next))
       (tab_rows (upsertTabs previous next db) (bs_sessionKey next))"
proof -
  have "tabs_written v ts (tab_rows db s) (tab_rows (fold (upsertTab s v rows) ts db) s)"
    if "distinct (map bt_tabId ts)" "distinct (map tr_tab_id (tab_rows db s))" for v ts s rows
    using that
  proof (induction ts arbitrary: db)
    case Nil
    thus ?case by (simp add: tabs_written_def)
  next
    case (Cons t ts)
    have w: "tabs_written v [t] (tab_rows db s) (tab_rows (upsertTab s v rows t db) s)"
      using tabs_written_upsert [OF Cons.prems(2), of v t s rows] by (simp add: tab_rows_upsert)
    hence "distinct (map tr_tab_id (tab_rows (upsertTab s v rows t db) s))"
      by (simp add: tabs_written_def)
    from Cons.IH [OF _ this] Cons.prems(1)
    have "tabs_written v ts (tab_rows (upsertTab s v rows t db) s) (tab_rows (fold (upsertTab s v rows) (t # ts) db) s)"
      by simp
    from tabs_written_trans [OF w this] Cons.prems(1) show ?case by auto
  qed
  thus ?thesis using d T by (simp add: upsertTabs_def)
qed

lemma tab_rows_upsertTabs_other [simp]:
  "s' \<noteq> bs_sessionKey next \<Longrightarrow> tab_rows (upsertTabs previous next db) s' = tab_rows db s'"
proof -
  have "s' \<noteq> s \<Longrightarrow> tab_rows (fold (upsertTab s v rows) ts db) s' = tab_rows db s'" for s v rows ts
    by (induction ts arbitrary: db) (simp_all add: tab_rows_upsert)
  thus "s' \<noteq> bs_sessionKey next \<Longrightarrow> tab_rows (upsertTabs previous next db) s' = tab_rows db s'"
    by (simp add: upsertTabs_def)
qed

end
