(* ===== verification/Board_Reading.thy ===== *)
theory Board_Reading
  imports Board_Tables
begin

section \<open>What the rows of a session denote\<close>

text \<open>
  \<open>denotes\<close> is the invariant of the stored rows: they are, in any order, the tabs and widgets of
  one layout in normal form, and each widget row is one the code writes (\<open>row_ok\<close>). Reading gives
  that layout back, whatever order the tables hold the rows in.
\<close>

definition widget_of :: "board_env \<Rightarrow> widget_row \<Rightarrow> board_widget" where
  "widget_of env r = rowToWidget r (parseManifest (be_parse_url env) (wr_manifest r))"

definition content_ok :: "board_env \<Rightarrow> widget_row \<Rightarrow> bool" where
  "content_ok env r \<longleftrightarrow>
     (let m = parseManifest (be_parse_url env) (wr_manifest r)
      in (wr_content_kind r = KHtml \<longrightarrow>
            (\<exists>h g. wr_html r = Some h \<and> wr_sha256 r = be_sha256 env h \<and> wr_descriptor_json r = None
               \<and> wr_view_generation r = Some g \<and> hex_text 32 g
               \<and> mf_mcpAppInteractive m = None \<and> mf_mcpAppInstanceId m = None))
         \<and> (wr_content_kind r = KMcpApp \<longrightarrow>
            (\<exists>d. wr_descriptor_json r = Some (descriptor_value d))
               \<and> wr_html r = None \<and> wr_view_generation r = None
               \<and> mf_mcpAppInteractive m \<noteq> None \<and> mf_mcpAppInstanceId m \<noteq> None)
         \<and> (wr_content_kind r = KPlugin \<longrightarrow>
            (\<exists>k p. wr_descriptor_json r = Some (plugin_value k p))
               \<and> wr_html r = None \<and> wr_view_generation r = None \<and> mf_declared m = None
               \<and> mf_mcpAppInteractive m = None \<and> mf_mcpAppInstanceId m = None))"

definition row_ok :: "board_env \<Rightarrow> widget_row \<Rightarrow> bool" where
  "row_ok env r \<longleftrightarrow>
     \<not> mf_declarationInvalid (parseManifest (be_parse_url env) (wr_manifest r))
     \<and> effectiveGrantState (wr_grant_state r) (parseManifest (be_parse_url env) (wr_manifest r)) = wr_grant_state r
     \<and> content_ok env r
     \<and> (wr_grant_state r = GGranted \<longrightarrow> wr_granted_sha r = Some (wr_sha256 r))"

definition denotes :: "board_env \<Rightarrow> board_db \<Rightarrow> string \<Rightarrow> board_layout \<Rightarrow> bool" where
  "denotes env db s L \<longleftrightarrow> layout_ok L
     \<and> distinct (map tr_tab_id (tab_rows db s)) \<and> rowToTab ` set (tab_rows db s) = set (bl_tabs L)
     \<and> distinct (map wr_name (widget_rows db s)) \<and> widget_of env ` set (widget_rows db s) = set (bl_widgets L)
     \<and> (\<forall>r\<in>set (widget_rows db s). row_ok env r)"

lemma denotesD:
  assumes "denotes env db s L"
  shows "layout_ok L" "distinct (map tr_tab_id (tab_rows db s))"
    "rowToTab ` set (tab_rows db s) = set (bl_tabs L)" "distinct (map wr_name (widget_rows db s))"
    "widget_of env ` set (widget_rows db s) = set (bl_widgets L)"
    "r \<in> set (widget_rows db s) \<Longrightarrow> row_ok env r"
  using assms by (auto simp: denotes_def)

lemma rowToTab_id [simp]: "bt_tabId (rowToTab r) = tr_tab_id r"
  by (simp add: rowToTab_def)

lemma widget_of_simps [simp]:
  "bw_name (widget_of env r) = wr_name r" "bw_tabId (widget_of env r) = wr_tab_id r"
  "bw_contentKind (widget_of env r) = wr_content_kind r"
  "bw_revision (widget_of env r) = wr_revision r"
  "bw_declared (widget_of env r) = mf_declared (parseManifest (be_parse_url env) (wr_manifest r))"
  by (simp_all add: widget_of_def rowToWidget_def Let_def)

lemma row_ok_grant: "row_ok env r \<Longrightarrow> bw_grantState (widget_of env r) = wr_grant_state r"
  by (simp add: row_ok_def widget_of_def rowToWidget_def Let_def)

lemma row_ok_admitted: "row_ok env r \<Longrightarrow> admitted (be_parse_url env) r"
  by (auto simp: row_ok_def content_ok_def admitted_def Let_def)

lemma layout_okD:
  assumes "layout_ok L"
  shows "distinct (map bt_tabId (bl_tabs L))" "distinct (map bw_name (bl_widgets L))"
    "w \<in> set (bl_widgets L) \<Longrightarrow> bw_tabId w \<in> bt_tabId ` set (bl_tabs L)"
    "int (length (bl_widgets L)) \<le> js_max_safe"
proof -
  show "distinct (map bt_tabId (bl_tabs L))" "distinct (map bw_name (bl_widgets L))"
    "int (length (bl_widgets L)) \<le> js_max_safe"
    using assms by (auto simp: layout_ok_def)
  assume w: "w \<in> set (bl_widgets L)"
  have "bl_widgets L = concat (map (\<lambda>t. on_tab (bt_tabId t) (bl_widgets L)) (bl_tabs L))"
    using assms by (simp add: layout_ok_def)
  with w have "w \<in> set (concat (map (\<lambda>t. on_tab (bt_tabId t) (bl_widgets L)) (bl_tabs L)))" by simp
  thus "bw_tabId w \<in> bt_tabId ` set (bl_tabs L)" by auto
qed

subsection \<open>Reading\<close>

lemma filter_key_one: "distinct (map f ys) \<Longrightarrow> k \<in> set ys \<Longrightarrow> filter (\<lambda>x. f k = f x) ys = [k]"
proof (induction ys)
  case (Cons y ys)
  show ?case
  proof (cases "k = y")
    case True
    with Cons.prems have "filter (\<lambda>x. f k = f x) ys = []" by (auto simp: filter_empty_conv)
    with True show ?thesis by simp
  next
    case False
    with Cons.prems have k: "k \<in> set ys" by simp
    hence "f k \<in> f ` set ys" by (rule imageI)
    with Cons.prems have "f k \<noteq> f y" by auto
    with k Cons show ?thesis by simp
  qed
qed simp

lemma sort_key_perm:
  assumes m: "mset xs = mset ys" and d: "distinct (map f ys)" and s: "sorted (map f ys)"
  shows "sort_key f xs = ys"
proof (rule properties_for_sort_key)
  fix k assume k: "k \<in> set ys"
  have "mset (filter (\<lambda>x. f k = f x) xs) = mset (filter (\<lambda>x. f k = f x) ys)"
    using m by (metis mset_filter)
  also have "\<dots> = {#k#}"
    using filter_key_one [OF d k] by simp
  finally have "filter (\<lambda>x. f k = f x) xs = [k]"
    by (metis mset_single_iff_right)
  thus "filter (\<lambda>x. f k = f x) ys = filter (\<lambda>x. f k = f x) xs"
    using filter_key_one [OF d k] by simp
qed (use m s in simp_all)

lemma normalize_perm:
  assumes L: "layout_ok L" and ts: "mset ts = mset (bl_tabs L)" and ws: "mset ws = mset (bl_widgets L)"
  shows "normalizeBoardLayout \<lparr>bl_tabs = ts, bl_widgets = ws\<rparr> = L"
proof -
  from L obtain B where B: "board_ok B" "L = conc B" by (auto simp: layout_ok_iff)
  have sets: "set ts = set (bl_tabs L)" "set ws = set (bl_widgets L)"
    using ts ws by (metis set_mset_mset)+
  have "mset (map bt_tabId ts) = mset (map bt_tabId (bl_tabs L))"
    using ts by simp
  hence dt: "distinct (map bt_tabId ts)"
    using layout_okD(1) [OF L] by (metis mset_eq_imp_distinct_iff)
  have "sort_key bt_position ts = number_tabs (map fst B)"
    by (rule sort_key_perm) (use ts B(2) in \<open>simp_all add: positions_number_tabs distinct_map inj_on_def sorted_map sorted_wrt_iff_nth_less\<close>)
  hence t: "map strip_tab (sort_key bt_position ts) = map fst B"
    using strip_tabs [OF board_okD(2) [OF B(1)]] by simp
  have w: "map strip_widget (sort_key bw_position (on_tab (bt_tabId t) ws)) = us" if e: "(t, us) \<in> set B" for t us
  proof -
    have on: "on_tab (bt_tabId t) (bl_widgets L) = place (bt_tabId t) us"
      using on_tab_conc [OF board_okD(1) [OF B(1)]] widgets_of_in [OF board_okD(1) [OF B(1)] e] B(2) by simp
    have d: "distinct (map bw_position (place (bt_tabId t) us))"
      by (auto simp: distinct_conv_nth)
    have "mset (on_tab (bt_tabId t) ws) = mset (place (bt_tabId t) us)"
      unfolding on [symmetric] by (metis ws mset_filter)
    from sort_key_perm [OF this d place_sorted]
    have "sort_key bw_position (on_tab (bt_tabId t) ws) = place (bt_tabId t) us" .
    thus ?thesis using strippedD(2) [OF board_okD(2) [OF B(1)] e] by simp
  qed
  have "loose \<lparr>bl_tabs = ts, bl_widgets = ws\<rparr>"
    using dt layout_okD(3) [OF L] by (simp add: loose_def sets)
  from normalizeI [OF this, of B] t w have "normalizeBoardLayout \<lparr>bl_tabs = ts, bl_widgets = ws\<rparr> = conc B" by simp
  thus ?thesis using B(2) by simp
qed

lemma mset_by_sets:
  assumes "distinct xs" "distinct (map f xs)" "distinct ys" "g ` set xs = set ys" "\<And>x. h (g x) = f x"
  shows "mset (map g xs) = mset ys"
proof -
  have "distinct (map h (map g xs))" using assms(2,5) by (simp add: comp_def)
  hence "distinct (map g xs)" by (simp only: distinct_map)
  moreover have "set (map g xs) = set ys" using assms(4) by simp
  ultimately show ?thesis using assms(3) by (metis set_eq_iff_mset_eq_distinct)
qed

lemma sb_widgetRows:
  assumes "denotes env db s L"
  shows "mset (sb_widgetRows (readStoredBoard env db s)) = mset (widget_rows db s)"
    "set (sb_widgetRows (readStoredBoard env db s)) = set (widget_rows db s)"
    "set (sb_tabRows (readStoredBoard env db s)) = set (tab_rows db s)"
proof -
  have "filter (admitted (be_parse_url env)) (sort_key (\<lambda>r. (wr_tab_id r, wr_position r, wr_name r)) (widget_rows db s))
     = sort_key (\<lambda>r. (wr_tab_id r, wr_position r, wr_name r)) (widget_rows db s)"
    using denotesD(6) [OF assms] by (simp add: filter_id_conv row_ok_admitted)
  thus "mset (sb_widgetRows (readStoredBoard env db s)) = mset (widget_rows db s)"
    by (simp add: readStoredBoard_def Let_def)
  thus "set (sb_widgetRows (readStoredBoard env db s)) = set (widget_rows db s)"
    by (metis set_mset_mset)
  show "set (sb_tabRows (readStoredBoard env db s)) = set (tab_rows db s)"
    by (simp add: readStoredBoard_def Let_def)
qed

theorem read_layout:
  assumes "denotes env db s L"
  shows "bs_layout (sb_snapshot (readStoredBoard env db s)) = L"
proof -
  note d = denotesD [OF assms]
  let ?T = "sort_key (\<lambda>r. (tr_position r, tr_tab_id r)) (tab_rows db s)"
  let ?W = "sb_widgetRows (readStoredBoard env db s)"
  have ts: "mset (map rowToTab ?T) = mset (bl_tabs L)"
  proof (rule mset_by_sets [where f = tr_tab_id and h = bt_tabId])
    have "mset (map tr_tab_id ?T) = mset (map tr_tab_id (tab_rows db s))" by simp
    thus t: "distinct (map tr_tab_id ?T)" using d(2) mset_eq_imp_distinct_iff by blast
    thus "distinct ?T" by (simp only: distinct_map)
    show "distinct (bl_tabs L)" using layout_okD(1) [OF d(1)] by (simp only: distinct_map)
  qed (use d in simp_all)
  have ws: "mset (map (widget_of env) ?W) = mset (bl_widgets L)"
  proof (rule mset_by_sets [where f = wr_name and h = bw_name])
    have "mset (map wr_name ?W) = mset (map wr_name (widget_rows db s))" using sb_widgetRows(1) [OF assms] by simp
    thus t: "distinct (map wr_name ?W)" using d(4) mset_eq_imp_distinct_iff by blast
    thus "distinct ?W" by (simp only: distinct_map)
    show "distinct (bl_widgets L)" using layout_okD(2) [OF d(1)] by (simp only: distinct_map)
  qed (use d sb_widgetRows(2) [OF assms] in simp_all)
  have "bs_layout (sb_snapshot (readStoredBoard env db s))
     = normalizeBoardLayout \<lparr>bl_tabs = map rowToTab ?T, bl_widgets = map (widget_of env) ?W\<rparr>"
    unfolding readStoredBoard_def Let_def widget_of_def [abs_def] by simp
  thus ?thesis using normalize_perm [OF d(1) ts ws] by simp
qed

lemma fold_max: "foldl (\<lambda>m r. max m (f r)) (a :: int) rs = Max (insert a (f ` set rs))"
proof (induction rs arbitrary: a)
  case (Cons r rs)
  have "foldl (\<lambda>m r. max m (f r)) a (r # rs) = Max (insert (max a (f r)) (f ` set rs))"
    using Cons by simp
  also have "\<dots> = Max (insert a (f ` set (r # rs)))"
    by (cases "rs = []") (simp_all add: max.assoc)
  finally show ?case .
qed simp

lemma read_revision:
  "bs_revision (sb_snapshot (readStoredBoard env db s)) = Max (insert 0 (tr_revision ` set (tab_rows db s)))"
  by (simp add: readStoredBoard_def Let_def fold_max)

lemma read_session: "bs_sessionKey (sb_snapshot (readStoredBoard env db s)) = s"
  by (simp add: readStoredBoard_def Let_def)

lemma stored_row:
  assumes "denotes env db s L"
  shows "find (\<lambda>r. wr_name r = name) (sb_widgetRows (readStoredBoard env db s)) =
     find (\<lambda>r. wr_name r = name) (widget_rows db s)"
proof -
  note d = denotesD [OF assms]
  have m: "mset (filter (\<lambda>r. wr_name r = name) (sb_widgetRows (readStoredBoard env db s)))
     = mset (filter (\<lambda>r. wr_name r = name) (widget_rows db s))"
    using sb_widgetRows(1) [OF assms] by (metis mset_filter)
  have find_filter: "find p xs = (case filter p xs of [] \<Rightarrow> None | x # _ \<Rightarrow> Some x)" for p :: "widget_row \<Rightarrow> bool" and xs
    by (induction xs) auto
  have "filter (\<lambda>r. wr_name r = name) (widget_rows db s) = [] \<or> (\<exists>r. filter (\<lambda>r. wr_name r = name) (widget_rows db s) = [r])"
  proof (cases "filter (\<lambda>r. wr_name r = name) (widget_rows db s) = []")
    case False
    then obtain r where r: "r \<in> set (widget_rows db s)" "wr_name r = name" by (auto simp: filter_empty_conv)
    have "filter (\<lambda>x. wr_name x = name) (widget_rows db s) = filter (\<lambda>x. wr_name r = wr_name x) (widget_rows db s)"
      using r(2) by (intro filter_cong) auto
    with filter_key_one [OF d(4) r(1)] show ?thesis by simp
  qed simp
  hence "filter (\<lambda>r. wr_name r = name) (sb_widgetRows (readStoredBoard env db s))
     = filter (\<lambda>r. wr_name r = name) (widget_rows db s)"
    using m by (metis mset.simps mset_single_iff_right mset_zero_iff)
  thus ?thesis unfolding find_filter by simp
qed

end
