(* ===== verification/Board_Writing.thy ===== *)
theory Board_Writing
  imports Board_Reading
begin

section \<open>Storing the result of layout operations\<close>

text \<open>
  After \<^verbatim>\<open>applyOps\<close> the rows of the session denote the layout the operations gave, so
  the next read returns it. The step from the layout to the rows rests on what an operation list may
  do to a widget: place it elsewhere, remove it, and resize it (\<open>resize_by\<close>), nothing else.
\<close>

fun resize_by :: "board_op \<Rightarrow> board_widget \<Rightarrow> board_widget" where
  "resize_by (WidgetResize name a b h) w = (if bw_name w = name then resized a b h w else w)"
| "resize_by _ w = w"

lemma resize_by_strip: "strip_widget (resize_by op w) = resize_by op (strip_widget w)"
  by (cases op) (simp_all add: strip_resized)

lemma resize_by_keeps [simp]:
  "bw_name (resize_by op w) = bw_name w" "bw_title (resize_by op w) = bw_title w"
  "bw_contentKind (resize_by op w) = bw_contentKind w" "bw_presentation (resize_by op w) = bw_presentation w"
  "bw_pluginKind (resize_by op w) = bw_pluginKind w" "bw_props (resize_by op w) = bw_props w"
  "bw_grantState (resize_by op w) = bw_grantState w" "bw_revision (resize_by op w) = bw_revision w"
  "bw_instanceId (resize_by op w) = bw_instanceId w" "bw_declaredSummary (resize_by op w) = bw_declaredSummary w"
  "bw_declared (resize_by op w) = bw_declared w"
  by (cases op; simp add: resized_def)+

lemma fold_resize_keeps:
  "bw_name (fold resize_by ops w) = bw_name w" "bw_title (fold resize_by ops w) = bw_title w"
  "bw_contentKind (fold resize_by ops w) = bw_contentKind w"
  "bw_presentation (fold resize_by ops w) = bw_presentation w"
  "bw_pluginKind (fold resize_by ops w) = bw_pluginKind w" "bw_props (fold resize_by ops w) = bw_props w"
  "bw_grantState (fold resize_by ops w) = bw_grantState w" "bw_revision (fold resize_by ops w) = bw_revision w"
  "bw_instanceId (fold resize_by ops w) = bw_instanceId w"
  "bw_declaredSummary (fold resize_by ops w) = bw_declaredSummary w"
  "bw_declared (fold resize_by ops w) = bw_declared w"
  by (induction ops arbitrary: w; simp)+

lemma fold_resize_strip: "strip_widget (fold resize_by ops w) = fold resize_by ops (strip_widget w)"
  by (induction ops arbitrary: w) (simp_all add: resize_by_strip)

subsection \<open>The widgets of a result\<close>

lemma spec_place_items:
  "spec_place x i pos after C = Inr D \<Longrightarrow> set (items D) \<subseteq> insert x (set (items C))"
  by (force simp: spec_place_def at_tab_def case_prod_beta split: if_splits)

lemma home_of_Some: "home_of name B = Some (u, us) \<Longrightarrow> (u, us) \<in> set B \<and> filter (named name) us \<noteq> []"
  by (auto simp: home_of_def find_Some_iff list_ex_iff filter_empty_conv dest: nth_mem)

lemma spec_op_items:
  assumes B: "board_ok B" and C: "spec_op op B = Inr C"
  shows "set (items C) \<subseteq> resize_by op ` set (items B)"
proof (cases op)
  case (TabCreate i title dock)
  with C have "items C = items B" by (auto split: if_splits)
  thus ?thesis by (simp add: TabCreate)
next
  case (TabUpdate i title dock pos)
  with C obtain t ws where f: "find_tab i B = Some (t, ws)" by (auto split: option.splits)
  with find_tab_Some [OF f] have t: "(t, ws) \<in> set B" by auto
  show ?thesis
  proof (cases pos)
    case None
    hence "C = at_tab i (\<lambda>(t, ws). (set_head title dock t, ws)) B"
      using C f TabUpdate by (auto split: if_splits)
    hence "map snd C = map snd B" by (auto simp: at_tab_def case_prod_beta)
    thus ?thesis by (simp add: TabUpdate)
  next
    case (Some p)
    then obtain n where "C = splice_in n (set_head title dock t, ws) (filter (\<lambda>e. \<not> is_tab i e) B)"
      using C f TabUpdate by (auto simp: Let_def split: if_splits)
    hence "set (items C) \<subseteq> set (items B)" using t by auto
    thus ?thesis by (simp add: TabUpdate)
  qed
next
  case (TabDelete i)
  with C obtain t ws where f: "find_tab i B = Some (t, ws)" by (auto split: option.splits)
  with find_tab_Some [OF f] have t: "(t, ws) \<in> set B" by auto
  show ?thesis
  proof (cases "filter (\<lambda>e. \<not> is_tab i e) B")
    case Nil
    thus ?thesis using C f TabDelete by (auto split: if_splits)
  next
    case (Cons e r)
    hence "set (e # r) \<subseteq> set B" by (metis filter_is_subset)
    moreover have "C = (fst e, snd e @ ws) # r" using C f TabDelete Cons by (cases e) auto
    ultimately have "set (items C) \<subseteq> set (items B)" using t by auto
    thus ?thesis by (simp add: TabDelete)
  qed
next
  case (TabsReorder ids)
  have "hd (filter (is_tab i) B) \<in> set B" if "i \<in> set (tab_ids B)" for i
    using hd_filter_tab [OF board_okD(1) [OF B] that] by blast
  moreover have "set ids = set (tab_ids B)" "C = map (\<lambda>i. hd (filter (is_tab i) B)) ids"
    using C TabsReorder by (auto split: if_splits)
  ultimately have "set C \<subseteq> set B" by (metis (no_types, lifting) image_subset_iff list.set_map)
  hence "set (items C) \<subseteq> set (items B)" by auto
  thus ?thesis by (simp add: TabsReorder)
next
  case (WidgetMove name i pos after)
  with C obtain u us where h: "home_of name B = Some (u, us)" by (auto split: option.splits)
  from home_of_Some [OF h] have u: "hd (filter (named name) us) \<in> set (filter (named name) us)" "(u, us) \<in> set B"
    by (blast intro: hd_in_set)+
  from u(1) have "hd (filter (named name) us) \<in> set us" unfolding set_filter by blast
  with u(2) have "hd (filter (named name) us) \<in> set (items B)" by (auto intro!: bexI [of _ "(u, us)"])
  moreover have "set (items C) \<subseteq> insert (hd (filter (named name) us)) (set (items (take_out name B)))"
    using C WidgetMove h spec_place_items by auto
  moreover have "set (items (take_out name B)) \<subseteq> set (items B)"
    unfolding ok_take_out(2) [OF B] by (rule filter_is_subset)
  ultimately have "set (items C) \<subseteq> set (items B)" by blast
  thus ?thesis by (simp add: WidgetMove)
next
  case (WidgetRemove name)
  hence "C = take_out name B" using C by (auto split: if_splits)
  hence "set (items C) \<subseteq> set (items B)"
    using ok_take_out(2) [OF B] filter_is_subset by metis
  thus ?thesis by (simp add: WidgetRemove)
next
  case (WidgetResize name a b h)
  hence "C = on_items (map (\<lambda>w. if named name w then resized a b h w else w)) B" using C by (auto split: if_splits)
  hence "items C = map (resize_by op) (items B)"
    unfolding on_items_def by (induction B arbitrary: C) (auto simp: WidgetResize named_def)
  thus ?thesis by simp
qed

lemma spec_ops_items:
  "board_ok B \<Longrightarrow> spec_ops ops B = Inr C \<Longrightarrow> set (items C) \<subseteq> fold resize_by ops ` set (items B)"
proof (induction ops arbitrary: B)
  case (Cons op ops)
  from Cons.prems(2) obtain D where D: "spec_op op B = Inr D" "spec_ops ops D = Inr C" by auto
  have "set (items C) \<subseteq> fold resize_by ops ` set (items D)"
    by (rule Cons.IH [OF spec_op_ok [OF Cons.prems(1) D(1)] D(2)])
  also have "\<dots> \<subseteq> fold resize_by ops ` resize_by op ` set (items B)"
    by (intro image_mono spec_op_items [OF Cons.prems(1) D(1)])
  also have "\<dots> = fold resize_by (op # ops) ` set (items B)"
    unfolding image_image by (intro image_cong refl) simp
  finally show ?case .
qed simp

lemma strip_conc_widgets:
  "strip_widget ` set (bl_widgets (conc B)) = strip_widget ` set (items B)"
  using arg_cong [OF strip_items, of set B] by simp

lemma ops_widgets:
  assumes L: "layout_ok L" and a: "applyBoardOps L ops = Inr L'" and w': "w' \<in> set (bl_widgets L')"
  shows "\<exists>w\<in>set (bl_widgets L). strip_widget w' = strip_widget (fold resize_by ops w)"
proof -
  from L have B: "board_ok (abs_board L)" "L = conc (abs_board L)" using conc_abs by auto
  from a obtain C where C: "spec_ops ops (abs_board L) = Inr C" "L' = conc C"
    using ops_refine [OF B(1), of ops] B(2) by (cases "spec_ops ops (abs_board L)") auto
  have "strip_widget w' \<in> strip_widget ` set (items C)"
    using w' C(2) strip_conc_widgets by blast
  then obtain x where x: "strip_widget w' = strip_widget x" "x \<in> set (items C)" by (rule imageE)
  from subsetD [OF spec_ops_items [OF B(1) C(1)] x(2)] obtain v where
    v: "v \<in> set (items (abs_board L))" "strip_widget w' = strip_widget (fold resize_by ops v)"
    unfolding x(1) by (blast elim: imageE)
  have "strip_widget v \<in> strip_widget ` set (bl_widgets L)"
    using v(1) B(2) strip_conc_widgets by (metis imageI)
  then obtain w where "w \<in> set (bl_widgets L)" "strip_widget v = strip_widget w" by auto
  thus ?thesis using v(2) by (metis fold_resize_strip)
qed

subsection \<open>The height modes\<close>

definition height_row :: "stored_board \<Rightarrow> board_op \<Rightarrow> widget_row \<Rightarrow> widget_row" where
  "height_row previous op r =
     (case op of
        WidgetResize name _ _ h \<Rightarrow>
          (case find (\<lambda>r. wr_name r = name) (sb_widgetRows previous) of
             None \<Rightarrow> r
           | Some row \<Rightarrow> if wr_name r = name
               then r\<lparr>wr_manifest := updateManifestHeightMode (wr_manifest row) (case_option HeightFixed id h)\<rparr> else r)
      | _ \<Rightarrow> r)"

lemma map_height_row:
  "(\<And>r. height_row previous op r = r) \<Longrightarrow> map (height_row previous op) rs = rs"
  by (simp add: map_idI)

lemma widget_rows_height:
  "widget_rows (updateWidgetHeightMode previous op db) s' =
     (if s' = bs_sessionKey (sb_snapshot previous) then map (height_row previous op) (widget_rows db s')
      else widget_rows db s')"
proof (cases op)
  case (WidgetResize name a b h)
  show ?thesis
  proof (cases "find (\<lambda>r. wr_name r = name) (sb_widgetRows previous)")
    case None
    hence "height_row previous op r = r" for r by (simp add: height_row_def WidgetResize)
    thus ?thesis using None WidgetResize by (simp add: updateWidgetHeightMode_def map_height_row)
  next
    case (Some row)
    hence "height_row previous op = (\<lambda>r. if wr_name r = name
       then r\<lparr>wr_manifest := updateManifestHeightMode (wr_manifest row) (case_option HeightFixed id h)\<rparr> else r)"
      by (simp add: height_row_def WidgetResize fun_eq_iff)
    thus ?thesis using Some WidgetResize by (simp add: updateWidgetHeightMode_def widget_rows_on_widget)
  qed
qed (simp_all add: updateWidgetHeightMode_def map_height_row height_row_def)

lemma updateWidgetHeightMode_simps [simp]:
  "db_tabs (updateWidgetHeightMode previous op db) = db_tabs db"
  "db_session_nodes (updateWidgetHeightMode previous op db) = db_session_nodes db"
  by (auto simp: updateWidgetHeightMode_def split: board_op.splits option.splits)

lemma widget_rows_heights:
  "widget_rows (updateWidgetHeightModes previous ops db) s' =
     (if s' = bs_sessionKey (sb_snapshot previous) then map (fold (height_row previous) ops) (widget_rows db s')
      else widget_rows db s')"
  unfolding updateWidgetHeightModes_def
  by (induction ops arbitrary: db) (simp_all add: widget_rows_height map_idI)

lemma updateWidgetHeightModes_simps [simp]:
  "db_tabs (updateWidgetHeightModes previous ops db) = db_tabs db"
  "db_session_nodes (updateWidgetHeightModes previous ops db) = db_session_nodes db"
  unfolding updateWidgetHeightModes_def by (induction ops arbitrary: db) simp_all

lemma fold_height_row:
  assumes row: "find (\<lambda>r. wr_name r = name) (sb_widgetRows previous) = Some row"
    and valid: "\<not> mf_declarationInvalid (parseManifest p (wr_manifest row))"
    and r: "wr_name r = name" "bw_name w = name"
    and h: "parseManifest p (wr_manifest r) = (parseManifest p (wr_manifest row))\<lparr>mf_heightMode := bw_heightMode w\<rparr>"
  shows "\<exists>X. fold (height_row previous) ops r = r\<lparr>wr_manifest := X\<rparr>
     \<and> parseManifest p X = (parseManifest p (wr_manifest row))\<lparr>mf_heightMode := bw_heightMode (fold resize_by ops w)\<rparr>"
  using r h
proof (induction ops arbitrary: r w)
  case Nil
  thus ?case by (intro exI [of _ "wr_manifest r"]) simp
next
  case (Cons op ops)
  have "\<exists>Y. height_row previous op r = r\<lparr>wr_manifest := Y\<rparr>
     \<and> parseManifest p Y = (parseManifest p (wr_manifest row))\<lparr>mf_heightMode := bw_heightMode (resize_by op w)\<rparr>"
  proof (cases "\<exists>a b h. op = WidgetResize name a b h")
    case True
    then obtain a b h where op: "op = WidgetResize name a b h" by blast
    show ?thesis
      by (rule exI [of _ "updateManifestHeightMode (wr_manifest row) (case_option HeightFixed id h)"])
        (use row Cons.prems parse_height [OF valid] op in \<open>simp add: height_row_def resized_def\<close>)
  next
    case False
    hence "height_row previous op r = r" "resize_by op w = w"
      using Cons.prems(1,2) by (cases op; auto simp: height_row_def split: option.splits)+
    thus ?thesis using Cons.prems by (intro exI [of _ "wr_manifest r"]) simp
  qed
  then obtain Y where Y: "height_row previous op r = r\<lparr>wr_manifest := Y\<rparr>"
    "parseManifest p Y = (parseManifest p (wr_manifest row))\<lparr>mf_heightMode := bw_heightMode (resize_by op w)\<rparr>"
    by blast
  from Cons.IH [of "r\<lparr>wr_manifest := Y\<rparr>" "resize_by op w"] Cons.prems Y show ?case by auto
qed

subsection \<open>The rows after the operations\<close>

lemma strip_widget_eqD:
  assumes "strip_widget w = strip_widget v"
  shows "bw_name w = bw_name v" "bw_title w = bw_title v" "bw_contentKind w = bw_contentKind v"
    "bw_presentation w = bw_presentation v"
    "bw_heightMode w = bw_heightMode v" "bw_pluginKind w = bw_pluginKind v" "bw_props w = bw_props v"
    "bw_sizeW w = bw_sizeW v" "bw_sizeH w = bw_sizeH v"
    "bw_grantState w = bw_grantState v" "bw_revision w = bw_revision v" "bw_instanceId w = bw_instanceId v"
    "bw_declaredSummary w = bw_declaredSummary v" "bw_declared w = bw_declared v"
  using arg_cong [OF assms, of bw_name] arg_cong [OF assms, of bw_title] arg_cong [OF assms, of bw_contentKind]
    arg_cong [OF assms, of bw_presentation] arg_cong [OF assms, of bw_heightMode]
    arg_cong [OF assms, of bw_pluginKind] arg_cong [OF assms, of bw_props] arg_cong [OF assms, of bw_sizeW]
    arg_cong [OF assms, of bw_sizeH] arg_cong [OF assms, of bw_grantState]
    arg_cong [OF assms, of bw_revision] arg_cong [OF assms, of bw_instanceId]
    arg_cong [OF assms, of bw_declaredSummary] arg_cong [OF assms, of bw_declared]
  by (simp_all add: strip_widget_def)

lemma effective_height [simp]: "effectiveGrantState g (m\<lparr>mf_heightMode := h\<rparr>) = effectiveGrantState g m"
  by (simp add: effectiveGrantState_def)

text \<open>The widget a row with the layout of \<open>w\<close> and another manifest stands for.\<close>

lemma widget_of_layout:
  assumes w: "strip_widget w = strip_widget v" "widget_of env r = u"
    and v: "bw_name v = bw_name u" "bw_contentKind v = bw_contentKind u" "bw_presentation v = bw_presentation u"
      "bw_pluginKind v = bw_pluginKind u" "bw_props v = bw_props u" "bw_grantState v = bw_grantState u"
      "bw_revision v = bw_revision u" "bw_instanceId v = bw_instanceId u"
      "bw_declaredSummary v = bw_declaredSummary u" "bw_declared v = bw_declared u"
    and X: "parseManifest (be_parse_url env) X
       = (parseManifest (be_parse_url env) (wr_manifest r))\<lparr>mf_heightMode := bw_heightMode v\<rparr>"
  shows "widget_of env ((set_layout w r)\<lparr>wr_updated_at := now, wr_manifest := X\<rparr>) = w"
proof -
  have e: "bw_name w = bw_name v" "bw_contentKind w = bw_contentKind v" "bw_presentation w = bw_presentation v"
    "bw_heightMode w = bw_heightMode v" "bw_pluginKind w = bw_pluginKind v" "bw_props w = bw_props v"
    "bw_grantState w = bw_grantState v" "bw_revision w = bw_revision v" "bw_instanceId w = bw_instanceId v"
    "bw_declaredSummary w = bw_declaredSummary v" "bw_declared w = bw_declared v"
    using strip_widget_eqD [OF w(1)] by blast+
  show ?thesis
    by (rule board_widget.equality)
      (simp_all add: e v flip: w(2), simp_all add: widget_of_def rowToWidget_def Let_def set_layout_def X)
qed

end
