(* ===== verification/Board_Apply.thy ===== *)
theory Board_Apply
  imports Board_Writing
begin

section \<open>The store applies a list of operations\<close>

text \<open>
  The rows of the session after \<^verbatim>\<open>applyOps\<close> denote the layout it returns, and no row of
  another session changes.
\<close>

lemma same_key: "distinct (map f xs) \<Longrightarrow> x \<in> set xs \<Longrightarrow> y \<in> set xs \<Longrightarrow> f x = f y \<Longrightarrow> x = y"
  by (metis distinct_map inj_on_def)

lemma find_key: "distinct (map f xs) \<Longrightarrow> x \<in> set xs \<Longrightarrow> find (\<lambda>y. f y = f x) xs = Some x"
proof (induction xs)
  case (Cons y ys)
  show ?case
  proof (cases "f y = f x")
    case True
    with Cons.prems have "y = x" by (intro same_key [of f "y # ys"]) auto
    thus ?thesis by simp
  next
    case False
    with Cons show ?thesis by auto
  qed
qed simp

lemma tabs_exact:
  assumes w: "tabs_written v ts T T'" and d: "distinct (map bt_tabId ts)"
  shows "rowToTab ` {r \<in> set T'. tr_tab_id r \<in> bt_tabId ` set ts} = set ts"
    and "r \<in> set T' \<Longrightarrow> tr_tab_id r \<in> bt_tabId ` set ts \<Longrightarrow> tr_revision r = v"
proof -
  have r: "rowToTab r \<in> set ts" if "r \<in> set T'" "tr_tab_id r \<in> bt_tabId ` set ts" for r
    using w that by (auto simp: tabs_written_def)
  have "t \<in> rowToTab ` {r \<in> set T'. tr_tab_id r \<in> bt_tabId ` set ts}" if t: "t \<in> set ts" for t
  proof -
    have "bt_tabId t \<in> tr_tab_id ` set T'" using w t by (auto simp: tabs_written_def)
    then obtain r where r': "r \<in> set T'" "tr_tab_id r = bt_tabId t" by auto
    have "rowToTab r \<in> set ts" using r [OF r'(1)] r'(2) t by simp
    hence "rowToTab r = t"
      by (rule same_key [OF d _ t]) (simp add: r'(2))
    thus ?thesis using r' t by blast
  qed
  thus "rowToTab ` {r \<in> set T'. tr_tab_id r \<in> bt_tabId ` set ts} = set ts" using r by blast
  show "r \<in> set T' \<Longrightarrow> tr_tab_id r \<in> bt_tabId ` set ts \<Longrightarrow> tr_revision r = v"
    using w by (auto simp: tabs_written_def)
qed

text \<open>The database \<^verbatim>\<open>applyOps\<close> leaves.\<close>

definition applied :: "stored_board \<Rightarrow> board_snapshot \<Rightarrow> board_op list \<Rightarrow> int \<Rightarrow> board_db \<Rightarrow> board_db" where
  "applied previous next ops now db =
     deleteRemovedTabs previous next (updateWidgetHeightModes previous ops
       (updateWidgetLayouts next now (deleteRemovedWidgets previous next (upsertTabs previous next db))))"

definition relayout :: "int \<Rightarrow> board_widget \<Rightarrow> widget_row \<Rightarrow> widget_row" where
  "relayout now w r = (set_layout w r)\<lparr>wr_updated_at := now\<rparr>"

lemma relayout_keys [simp]:
  "wr_session_key (relayout now w r) = wr_session_key r" "wr_name (relayout now w r) = wr_name r"
  by (simp_all add: relayout_def set_layout_def)

lemma height_row_keys: "wr_name (fold (height_row previous) ops r) = wr_name r"
  by (induction ops arbitrary: r)
    (auto simp: height_row_def split: board_op.splits option.splits)

lemma updateWidgetLayouts_rows:
  "widget_rows (updateWidgetLayouts next now db) s' =
     (if s' = bs_sessionKey next
      then map (fold (rewrite bw_name (relayout now)) (bl_widgets (bs_layout next))) (widget_rows db s')
      else widget_rows db s')"
  "db_tabs (updateWidgetLayouts next now db) = db_tabs db"
  "db_session_nodes (updateWidgetLayouts next now db) = db_session_nodes db"
proof -
  have "updateWidgetLayouts next now db
     = fold (\<lambda>w. on_widget (bs_sessionKey next) (bw_name w) (relayout now w)) (bl_widgets (bs_layout next)) db"
    by (simp add: updateWidgetLayouts_def relayout_def [abs_def])
  thus "widget_rows (updateWidgetLayouts next now db) s' =
     (if s' = bs_sessionKey next
      then map (fold (rewrite bw_name (relayout now)) (bl_widgets (bs_layout next))) (widget_rows db s')
      else widget_rows db s')"
    "db_tabs (updateWidgetLayouts next now db) = db_tabs db"
    "db_session_nodes (updateWidgetLayouts next now db) = db_session_nodes db"
    by (simp_all add: widget_rows_fold)
qed

lemma tab_rows_cong: "db_tabs d = db_tabs e \<Longrightarrow> tab_rows d s = tab_rows e s"
  by (simp add: tab_rows_def)

text \<open>The tables of another session.\<close>

lemma applied_elsewhere:
  assumes k: "bs_sessionKey next = s" "bs_sessionKey (sb_snapshot previous) = s" and s': "s' \<noteq> s"
  shows "tab_rows (applied previous next ops now db) s' = tab_rows db s'"
    and "widget_rows (applied previous next ops now db) s' = widget_rows db s'"
proof -
  have "tab_rows (deleteRemovedWidgets previous next d) s' = tab_rows d s'" for d
    unfolding deleteRemovedWidgets_def by (rule tab_rows_cong) (rule fold_deleteWidget)
  moreover have "tab_rows (updateWidgetHeightModes previous ops d) s' = tab_rows d s'" for d
    by (rule tab_rows_cong) simp
  moreover have "tab_rows (updateWidgetLayouts next now d) s' = tab_rows d s'" for d
    by (rule tab_rows_cong) (rule updateWidgetLayouts_rows)
  ultimately show "tab_rows (applied previous next ops now db) s' = tab_rows db s'"
    using k s' by (simp add: applied_def deleteRemovedTabs_def fold_deleteTab)
  show "widget_rows (applied previous next ops now db) s' = widget_rows db s'"
    using k s' by (simp add: applied_def deleteRemovedTabs_def deleteRemovedWidgets_def fold_deleteTab
        fold_deleteWidget widget_rows_heights updateWidgetLayouts_rows)
qed

lemma applied_nodes: "db_session_nodes (applied previous next ops now db) = db_session_nodes db"
  by (simp add: applied_def deleteRemovedTabs_def deleteRemovedWidgets_def fold_deleteTab fold_deleteWidget
      updateWidgetLayouts_rows)

lemma applied_tabs:
  assumes k: "bs_sessionKey next = s" and T: "distinct (map tr_tab_id (tab_rows db s))"
    and p: "set (sb_tabRows previous) = set (tab_rows db s)"
    and d: "distinct (map bt_tabId (bl_tabs (bs_layout next)))"
  shows "distinct (map tr_tab_id (tab_rows (applied previous next ops now db) s))"
    and "rowToTab ` set (tab_rows (applied previous next ops now db) s) = set (bl_tabs (bs_layout next))"
    and "r \<in> set (tab_rows (applied previous next ops now db) s) \<Longrightarrow> tr_revision r = bs_revision next"
proof -
  let ?N = "bt_tabId ` set (bl_tabs (bs_layout next))"
  let ?T = "tab_rows (upsertTabs previous next db) s"
  have w: "tabs_written (bs_revision next) (bl_tabs (bs_layout next)) (tab_rows db s) ?T"
    using tab_rows_upsertTabs [OF d, of db previous] T k by simp
  have "tab_rows (deleteRemovedWidgets previous next d) s = tab_rows d s" for d
    unfolding deleteRemovedWidgets_def by (rule tab_rows_cong) (rule fold_deleteWidget)
  moreover have "tab_rows (updateWidgetHeightModes previous ops d) s = tab_rows d s" for d
    by (rule tab_rows_cong) simp
  moreover have "tab_rows (updateWidgetLayouts next now d) s = tab_rows d s" for d
    by (rule tab_rows_cong) (rule updateWidgetLayouts_rows)
  ultimately have f: "tab_rows (applied previous next ops now db) s
      = filter (\<lambda>r. tr_tab_id r \<in> ?N \<or> tr_tab_id r \<notin> tr_tab_id ` set (tab_rows db s)) ?T"
    by (simp add: applied_def deleteRemovedTabs_def fold_deleteTab k p)
  have "r \<in> set ?T \<Longrightarrow> tr_tab_id r \<in> ?N \<union> tr_tab_id ` set (tab_rows db s)" for r
    using w by (auto simp: tabs_written_def)
  hence e: "set (tab_rows (applied previous next ops now db) s) = {r \<in> set ?T. tr_tab_id r \<in> ?N}"
    unfolding f by auto
  show "distinct (map tr_tab_id (tab_rows (applied previous next ops now db) s))"
    unfolding f using w by (intro distinct_map_filter) (simp add: tabs_written_def)
  show "rowToTab ` set (tab_rows (applied previous next ops now db) s) = set (bl_tabs (bs_layout next))"
    unfolding e by (rule tabs_exact(1) [OF w d])
  show "r \<in> set (tab_rows (applied previous next ops now db) s) \<Longrightarrow> tr_revision r = bs_revision next"
    unfolding e using tabs_exact(2) [OF w d] by blast
qed

text \<open>One widget row: kept when its widget is, with its new place and height mode.\<close>

definition applied_row :: "stored_board \<Rightarrow> board_snapshot \<Rightarrow> board_op list \<Rightarrow> int \<Rightarrow> widget_row \<Rightarrow> widget_row" where
  "applied_row previous next ops now r =
     fold (height_row previous) ops (fold (rewrite bw_name (relayout now)) (bl_widgets (bs_layout next)) r)"

lemma applied_row_name: "wr_name (applied_row previous next ops now r) = wr_name r"
proof -
  have "wr_name (fold (rewrite bw_name (relayout now)) ws r) = wr_name r" for ws
    by (induction ws arbitrary: r) (auto simp: rewrite_def)
  thus ?thesis by (simp add: applied_row_def height_row_keys)
qed

lemma applied_widget:
  assumes den: "denotes env db s L" and ops: "applyBoardOps L ops = Inr (bs_layout next)"
    and prev: "previous = readStoredBoard env db s"
    and r: "r \<in> set (widget_rows db s)" and w: "w \<in> set (bl_widgets (bs_layout next))" "bw_name w = wr_name r"
  shows "widget_of env (applied_row previous next ops now r) = w"
    and "row_ok env (applied_row previous next ops now r)"
    and "\<exists>X. applied_row previous next ops now r = (relayout now w r)\<lparr>wr_manifest := X\<rparr>
       \<and> (\<exists>h. parseManifest (be_parse_url env) X
            = (parseManifest (be_parse_url env) (wr_manifest r))\<lparr>mf_heightMode := h\<rparr>)"
proof -
  note d = denotesD [OF den]
  have L': "layout_ok (bs_layout next)" by (rule ops_keep_layout [OF d(1) ops])
  have "fold (rewrite bw_name (relayout now)) (bl_widgets (bs_layout next)) r = relayout now w r"
    by (rule rewrite_one) (use layout_okD(2) [OF L'] w in simp_all)
  hence e: "applied_row previous next ops now r = fold (height_row previous) ops (relayout now w r)"
    by (simp add: applied_row_def)
  let ?u = "widget_of env r"
  have u: "?u \<in> set (bl_widgets L)" using d(5) r by blast
  obtain u' where u': "u' \<in> set (bl_widgets L)" "strip_widget w = strip_widget (fold resize_by ops u')"
    using ops_widgets [OF d(1) ops w(1)] by blast
  have "bw_name u' = wr_name r"
    using strip_widget_eqD(1) [OF u'(2)] w(2) by (simp add: fold_resize_keeps)
  hence "u' = ?u"
    by (intro same_key [OF layout_okD(2) [OF d(1)] u'(1) u]) simp
  hence v: "strip_widget w = strip_widget (fold resize_by ops ?u)" using u'(2) by simp
  have ok: "row_ok env r" using d(6) r by blast
  have m: "parseManifest (be_parse_url env) (wr_manifest (relayout now w r))
     = (parseManifest (be_parse_url env) (wr_manifest r))\<lparr>mf_heightMode := bw_heightMode ?u\<rparr>"
    by (simp add: relayout_def set_layout_def widget_of_def rowToWidget_def Let_def)
  have find: "find (\<lambda>x. wr_name x = wr_name r) (sb_widgetRows previous) = Some r"
    unfolding prev stored_row [OF den]
    by (rule find_key [OF d(4) r])
  obtain X where X: "applied_row previous next ops now r = (relayout now w r)\<lparr>wr_manifest := X\<rparr>"
    "parseManifest (be_parse_url env) X = (parseManifest (be_parse_url env) (wr_manifest r))
       \<lparr>mf_heightMode := bw_heightMode (fold resize_by ops ?u)\<rparr>"
    using fold_height_row [OF find _ _ _ m, of ops] ok w(2) unfolding e by (auto simp: row_ok_def)
  show "widget_of env (applied_row previous next ops now r) = w"
    unfolding X(1) relayout_def
    by (rule widget_of_layout [OF v refl _ _ _ _ _ _ _ _ _ _ X(2)]) (simp_all add: fold_resize_keeps)
  show "row_ok env (applied_row previous next ops now r)"
    using ok unfolding X(1) row_ok_def content_ok_def
    by (simp add: X(2) relayout_def set_layout_def Let_def)
  show "\<exists>X. applied_row previous next ops now r = (relayout now w r)\<lparr>wr_manifest := X\<rparr>
       \<and> (\<exists>h. parseManifest (be_parse_url env) X
            = (parseManifest (be_parse_url env) (wr_manifest r))\<lparr>mf_heightMode := h\<rparr>)"
    using X by blast
qed

lemma applied_names:
  assumes L: "layout_ok L" and ops: "applyBoardOps L ops = Inr L'" and w: "w \<in> set (bl_widgets L')"
  shows "bw_name w \<in> bw_name ` set (bl_widgets L)"
proof -
  from ops_widgets [OF L ops w] obtain u where
    u: "u \<in> set (bl_widgets L)" "strip_widget w = strip_widget (fold resize_by ops u)" by blast
  from strip_widget_eqD(1) [OF u(2)] have "bw_name w = bw_name u" by (simp add: fold_resize_keeps)
  thus ?thesis using u(1) by simp
qed

lemma applied_widget_rows:
  assumes den: "denotes env db s L" and ops: "applyBoardOps L ops = Inr (bs_layout next)"
    and prev: "previous = readStoredBoard env db s" and k: "bs_sessionKey next = s"
  shows "widget_rows (applied previous next ops now db) s =
     map (applied_row previous next ops now)
       (filter (\<lambda>r. wr_name r \<in> bw_name ` set (bl_widgets (bs_layout next))) (widget_rows db s))"
proof -
  note d = denotesD [OF den]
  have L': "layout_ok (bs_layout next)" by (rule ops_keep_layout [OF d(1) ops])
  let ?W = "filter (\<lambda>r. wr_name r \<in> bw_name ` set (bl_widgets (bs_layout next))) (widget_rows db s)"
  have p: "bs_sessionKey (sb_snapshot previous) = s" by (simp add: prev read_session)
  have "widget_rows (deleteRemovedWidgets previous next (upsertTabs previous next db)) s
     = filter (\<lambda>r. wr_name r \<in> bw_name ` set (bl_widgets (bs_layout next))
          \<or> wr_name r \<notin> wr_name ` set (widget_rows db s)) (widget_rows db s)"
    unfolding deleteRemovedWidgets_def k fold_deleteWidget using sb_widgetRows(2) [OF den]
    by (simp add: prev)
  also have "\<dots> = ?W" by (intro filter_cong) auto
  finally have 1: "widget_rows (deleteRemovedWidgets previous next (upsertTabs previous next db)) s = ?W" .
  have 2: "widget_rows (updateWidgetHeightModes previous ops (updateWidgetLayouts next now
       (deleteRemovedWidgets previous next (upsertTabs previous next db)))) s
     = map (applied_row previous next ops now) ?W"
    unfolding widget_rows_heights updateWidgetLayouts_rows using 1 k p
    by (simp add: applied_row_def)
  have "wr_tab_id r \<in> bt_tabId ` set (bl_tabs (bs_layout next))"
    if r: "r \<in> set (map (applied_row previous next ops now) ?W)" for r
  proof -
    from r obtain q w where q: "q \<in> set (widget_rows db s)" "w \<in> set (bl_widgets (bs_layout next))"
      "bw_name w = wr_name q" "r = applied_row previous next ops now q" by auto
    hence "widget_of env r = w" using applied_widget(1) [OF den ops prev] by blast
    hence "wr_tab_id r = bw_tabId w" by (metis widget_of_simps(2))
    thus ?thesis using layout_okD(3) [OF L' q(2)] by simp
  qed
  hence "filter (\<lambda>r. wr_tab_id r \<in> bt_tabId ` set (bl_tabs (bs_layout next))
       \<or> wr_tab_id r \<notin> tr_tab_id ` set (sb_tabRows previous)) (map (applied_row previous next ops now) ?W)
     = map (applied_row previous next ops now) ?W"
    by (auto simp: filter_id_conv)
  thus ?thesis
    unfolding applied_def deleteRemovedTabs_def k fold_deleteTab using 2 by simp
qed

theorem applied_denotes:
  assumes den: "denotes env db s L" and ops: "applyBoardOps L ops = Inr (bs_layout next)"
    and prev: "previous = readStoredBoard env db s" and k: "bs_sessionKey next = s"
  shows "denotes env (applied previous next ops now db) s (bs_layout next)"
proof -
  note d = denotesD [OF den]
  have L': "layout_ok (bs_layout next)" by (rule ops_keep_layout [OF d(1) ops])
  have t: "set (sb_tabRows previous) = set (tab_rows db s)"
    unfolding prev by (rule sb_widgetRows(3) [OF den])
  note W = applied_widget_rows [OF den ops prev k, of now]
  let ?f = "applied_row previous next ops now"
  let ?W = "filter (\<lambda>r. wr_name r \<in> bw_name ` set (bl_widgets (bs_layout next))) (widget_rows db s)"
  have names: "map wr_name (map ?f ?W) = map wr_name ?W"
    by (simp add: applied_row_name)
  have row: "\<exists>w\<in>set (bl_widgets (bs_layout next)). bw_name w = wr_name r \<and> widget_of env (?f r) = w \<and> row_ok env (?f r)"
    if "r \<in> set ?W" for r
  proof -
    from that obtain w where w: "r \<in> set (widget_rows db s)" "w \<in> set (bl_widgets (bs_layout next))"
      "bw_name w = wr_name r" by auto
    show ?thesis using w applied_widget(1,2) [OF den ops prev w] by blast
  qed
  have "w \<in> widget_of env ` ?f ` set ?W" if w: "w \<in> set (bl_widgets (bs_layout next))" for w
  proof -
    have "bw_name w \<in> bw_name ` widget_of env ` set (widget_rows db s)"
      unfolding d(5) by (rule applied_names [OF d(1) ops w])
    then obtain r where r: "r \<in> set (widget_rows db s)" "bw_name w = wr_name r" by auto
    hence "r \<in> set ?W" using w by (auto simp: image_iff intro!: bexI [of _ w])
    moreover have "widget_of env (?f r) = w" by (rule applied_widget(1) [OF den ops prev r(1) w r(2)])
    ultimately show ?thesis by (metis imageI)
  qed
  hence ws: "widget_of env ` set (map ?f ?W) = set (bl_widgets (bs_layout next))"
    using row by fastforce
  show ?thesis
    unfolding denotes_def W
  proof (intro conjI ballI)
    show "distinct (map tr_tab_id (tab_rows (applied previous next ops now db) s))"
      "rowToTab ` set (tab_rows (applied previous next ops now db) s) = set (bl_tabs (bs_layout next))"
      using applied_tabs [OF k d(2) t layout_okD(1) [OF L']] by blast+
    show "distinct (map wr_name (map ?f ?W))"
      unfolding names by (rule distinct_map_filter [OF d(4)])
    show "row_ok env r" if "r \<in> set (map ?f ?W)" for r using that row by auto
  qed (use L' ws in auto)
qed

subsection \<open>The operation\<close>

lemma applyOps_Inr:
  assumes "hasSession db s" "denotes env db s L" "ops \<noteq> []"
  shows "applyOps env db s ops now = Inr (snap, db') \<longleftrightarrow>
     (\<exists>L'. applyBoardOps L ops = Inr L'
        \<and> snap = \<lparr>bs_sessionKey = s, bs_revision = bs_revision (sb_snapshot (readStoredBoard env db s)) + 1, bs_layout = L'\<rparr>
        \<and> db' = applied (readStoredBoard env db s) snap ops now db)"
  using assms by (auto simp: applyOps_def read_layout Let_def applied_def bnd_Inr_iff)

lemma getSnapshot_denotes:
  "hasSession db s \<Longrightarrow> denotes env db s L \<Longrightarrow> bs_layout (getSnapshot env db s) = L"
  by (simp add: getSnapshot_def read_layout)

lemma snapshot_of_revision:
  assumes "hasSession db s" "denotes env db s L" "bl_tabs L \<noteq> []"
    and "\<And>r. r \<in> set (tab_rows db s) \<Longrightarrow> tr_revision r = v" "0 \<le> v"
  shows "getSnapshot env db s = \<lparr>bs_sessionKey = s, bs_revision = v, bs_layout = L\<rparr>"
proof -
  have "tab_rows db s \<noteq> []" using denotesD(3) [OF assms(2)] assms(3) by auto
  hence "tr_revision ` set (tab_rows db s) = {v}" using assms(4) by (auto simp: image_iff) (metis list.set_sel(1))
  hence "bs_revision (sb_snapshot (readStoredBoard env db s)) = v"
    using assms(5) by (simp add: read_revision)
  thus ?thesis using assms(1) read_layout [OF assms(2)]
    by (intro board_snapshot.equality) (simp_all add: getSnapshot_def read_session)
qed

lemma revision_nonneg: "0 \<le> bs_revision (sb_snapshot (readStoredBoard env db s))"
  by (simp add: read_revision)

theorem applyOps_stores:
  assumes h: "hasSession db s" and den: "denotes env db s L"
    and a: "applyOps env db s ops now = Inr (snap, db')"
  shows "denotes env db' s (bs_layout snap)" and "hasSession db' s"
    and "ops \<noteq> [] \<Longrightarrow> bl_tabs (bs_layout snap) \<noteq> [] \<Longrightarrow> getSnapshot env db' s = snap"
proof -
  have "denotes env db' s (bs_layout snap) \<and> hasSession db' s
     \<and> (ops \<noteq> [] \<longrightarrow> bl_tabs (bs_layout snap) \<noteq> [] \<longrightarrow> getSnapshot env db' s = snap)"
  proof (cases "ops = []")
    case True
    hence "snap = getSnapshot env db s" "db' = db" using a by (auto simp: applyOps_def)
    thus ?thesis using True h den getSnapshot_denotes by simp
  next
    case False
    note d = denotesD [OF den]
    let ?p = "readStoredBoard env db s"
    from a applyOps_Inr [OF h den False] obtain L' where L': "applyBoardOps L ops = Inr L'"
      and snap: "snap = \<lparr>bs_sessionKey = s, bs_revision = bs_revision (sb_snapshot ?p) + 1, bs_layout = L'\<rparr>"
      and db': "db' = applied ?p snap ops now db" by blast
    have k: "bs_sessionKey snap = s" and l: "applyBoardOps L ops = Inr (bs_layout snap)" using L' snap by auto
    have den': "denotes env db' s (bs_layout snap)"
      unfolding db' by (rule applied_denotes [OF den l refl k])
    have h': "hasSession db' s" using h by (simp add: hasSession_def db' applied_nodes)
    have r: "r \<in> set (tab_rows db' s) \<Longrightarrow> tr_revision r = bs_revision snap" for r
      unfolding db'
      by (rule applied_tabs(3) [OF k d(2) sb_widgetRows(3) [OF den]
            layout_okD(1) [OF ops_keep_layout [OF d(1) l]]])
    have "0 \<le> bs_revision snap" using revision_nonneg [of env db s] by (simp add: snap)
    hence "getSnapshot env db' s = snap" if "bl_tabs (bs_layout snap) \<noteq> []"
      using snapshot_of_revision [OF h' den' that r] by (simp add: snap)
    thus ?thesis using den' h' by blast
  qed
  thus "denotes env db' s (bs_layout snap)" "hasSession db' s"
    "ops \<noteq> [] \<Longrightarrow> bl_tabs (bs_layout snap) \<noteq> [] \<Longrightarrow> getSnapshot env db' s = snap" by blast+
qed

lemma applyOps_elsewhere:
  assumes a: "applyOps env db s ops now = Inr (snap, db')" and s': "s' \<noteq> s"
  shows "tab_rows db' s' = tab_rows db s'" "widget_rows db' s' = widget_rows db s'"
    "db_session_nodes db' = db_session_nodes db"
proof -
  from a consider "db' = db"
    | L' where "db' = applied (readStoredBoard env db s)
        \<lparr>bs_sessionKey = s, bs_revision = bs_revision (sb_snapshot (readStoredBoard env db s)) + 1, bs_layout = L'\<rparr> ops now db"
    by (auto simp: applyOps_def Let_def applied_def bnd_Inr_iff split: if_splits)
  hence "tab_rows db' s' = tab_rows db s' \<and> widget_rows db' s' = widget_rows db s' \<and> db_session_nodes db' = db_session_nodes db"
    by cases (simp_all add: applied_elsewhere [OF _ _ s'] applied_nodes read_session)
  thus "tab_rows db' s' = tab_rows db s'" "widget_rows db' s' = widget_rows db s'"
    "db_session_nodes db' = db_session_nodes db" by blast+
qed

end
