(* ===== verification/Board_Insert.thy ===== *)
theory Board_Insert
  imports Board_Writing
begin

section \<open>Placing a widget on the layout\<close>

text \<open>
  \<^verbatim>\<open>insertBoardWidget\<close> on a layout in normal form: a new widget is placed, an existing one
  is placed again or rewritten where it stands; every other widget keeps its contents and the result
  is in normal form.
\<close>

lemma take_out_absent:
  assumes "name \<notin> bw_name ` set (items B)"
  shows "take_out name B = B"
proof -
  have "\<not> named name x" if "e \<in> set B" "x \<in> set (snd e)" for e x
  proof -
    have "x \<in> set (items B)" using that by auto
    thus ?thesis using assms imageI [of x "set (items B)" bw_name] by (auto simp only: named_def)
  qed
  thus ?thesis unfolding take_out_def on_items_def
    by (intro map_idI) (force simp: filter_id_conv)
qed

lemma find_index_snoc: "find_index p xs = None \<Longrightarrow> p x \<Longrightarrow> find_index p (xs @ [x]) = Some (length xs)"
  by (induction xs) (auto split: if_splits)

lemma insert_new:
  assumes B: "board_ok B" and n: "bw_name w \<notin> bw_name ` set (items B)"
  shows "insertBoardWidget (conc B) w i after move = concrete (spec_place (strip_widget w) i None after B)"
proof -
  let ?ws = "bl_widgets (conc B)"
  have n': "bw_name w \<notin> bw_name ` set ?ws"
    using n names_conc [of B] by (metis list.set_map)
  hence f: "find_index (\<lambda>v. bw_name v = bw_name w) ?ws = None"
    unfolding find_index_None by (metis image_eqI)
  have find: "find_index (\<lambda>v. bw_name v = bw_name w) (?ws @ [w\<lparr>bw_tabId := i\<rparr>]) = Some (length ?ws)"
    by (rule find_index_snoc [OF f]) simp
  have r: "?ws = filter (\<lambda>v. bw_name v \<noteq> bw_name w) ?ws"
    using n' by (intro sym [OF filter_True] ballI) (metis image_eqI)
  note rest = rest_of_conc [OF B r, unfolded take_out_absent [OF n]]
  let ?L = "(conc B)\<lparr>bl_widgets := ?ws @ [w\<lparr>bw_tabId := i\<rparr>]\<rparr>"
  have "in_normal_form (moveWidget ?L (length ?ws) i None after) = concrete (spec_place (strip_widget (bl_widgets ?L ! length ?ws)) i None after B)"
    by (rule moveWidget_refines [where rest = ?ws]) (use B rest in \<open>auto simp: board_okD without_def\<close>)
  thus ?thesis
    unfolding insertBoardWidget_def f by (simp add: requireWidget_def find Let_def)
qed

lemma strip_assign: "strip_widget (assign_widget e w i) = strip_widget (assign_widget (strip_widget e) w i)"
  by (simp add: assign_widget_def strip_widget_def)

lemma assign_simps [simp]:
  "bw_name (assign_widget e w i) = bw_name w" "bw_tabId (assign_widget e w i) = i"
  "bw_position (assign_widget e w i) = bw_position e"
  by (simp_all add: assign_widget_def)

lemma insert_moved:
  assumes B: "board_ok B" and k: "find_index (\<lambda>v. bw_name v = bw_name w) (bl_widgets (conc B)) = Some k"
  shows "insertBoardWidget (conc B) w i after True =
     concrete (spec_place (strip_widget (assign_widget (bl_widgets (conc B) ! k) w i)) i None after (take_out (bw_name w) B))"
proof -
  let ?ws = "bl_widgets (conc B)" and ?y = "assign_widget (bl_widgets (conc B) ! k) w i"
  have kn: "k < length ?ws" "bw_name (?ws ! k) = bw_name w" using find_index_Some [OF k] by auto
  have d: "distinct (map bw_name ?ws)" using board_okD(3) [OF B] names_conc [of B] by simp
  let ?rest = "without k ?ws"
  have r: "?rest = filter (\<lambda>v. bw_name v \<noteq> bw_name w) ?ws"
    using without_by_key [OF d kn(1)] kn(2) by simp
  note rest = rest_of_conc [OF B r]
  note t = ok_take_out(1) [OF B, of "bw_name w"]
  have c: "map fst (take_out (bw_name w) B) = map fst B" "tab_ids (take_out (bw_name w) B) = tab_ids B"
    by (simp_all add: take_out_def)
  let ?L = "(conc B)\<lparr>bl_widgets := ?ws[k := ?y]\<rparr>"
  have "in_normal_form (moveWidget ?L k i None after)
      = concrete (spec_place (strip_widget (bl_widgets ?L ! k)) i None after (take_out (bw_name w) B))"
    by (rule moveWidget_refines [where rest = ?rest])
      (use board_okD(1,2) [OF t] rest kn(1) in \<open>simp_all add: without_update c\<close>)
  thus ?thesis
    unfolding insertBoardWidget_def k using kn(1) by (simp add: Let_def)
qed

lemma insert_kept:
  assumes B: "board_ok B" and k: "find_index (\<lambda>v. bw_name v = bw_name w) (bl_widgets (conc B)) = Some k"
    and i: "bw_tabId (bl_widgets (conc B) ! k) = i"
  shows "insertBoardWidget (conc B) w i after False =
     Inr (conc (on_items (map (\<lambda>u. if named (bw_name w) u
        then strip_widget (assign_widget (bl_widgets (conc B) ! k) w i) else u)) B))"
proof -
  let ?ws = "bl_widgets (conc B)" and ?y = "assign_widget (bl_widgets (conc B) ! k) w i"
  let ?f = "\<lambda>v. if bw_name v = bw_name w then ?y else v"
  have kn: "k < length ?ws" "bw_name (?ws ! k) = bw_name w" using find_index_Some [OF k] by auto
  have d: "distinct (map bw_name ?ws)" using board_okD(3) [OF B] names_conc [of B] by simp
  have u: "?ws[k := ?y] = map ?f ?ws"
    using update_by_key [OF d kn(1)] kn(2) by simp
  have same: "v = ?ws ! k" if "v \<in> set ?ws" "bw_name v = bw_name w" for v
    using d that kn by (metis distinct_map inj_on_def nth_mem)
  have keep: "bw_tabId (?f v) = bw_tabId v \<and> bw_position (?f v) = bw_position v" if "v \<in> set ?ws" for v
    using same [OF that] i by auto
  have on: "on_tab j (map ?f ?ws) = map ?f (on_tab j ?ws)" for j
    unfolding filter_map comp_def using keep by (intro arg_cong [where f = "map ?f"] filter_cong) auto
  have "normalizeBoardLayout ((conc B)\<lparr>bl_widgets := map ?f ?ws\<rparr>)
     = conc (on_items (map (\<lambda>u. if named (bw_name w) u then strip_widget ?y else u)) B)"
  proof (rule normalize_items [OF B])
    show "v \<in> set (map ?f ?ws) \<Longrightarrow> bw_tabId v \<in> set (tab_ids B)" for v
      using keep conc_widget_tab [of _ B] by fastforce
    show "sorted (map bw_position (on_tab j (map ?f ?ws)))" for j
    proof -
      have "map bw_position (map ?f (on_tab j ?ws)) = map bw_position (on_tab j ?ws)"
        using keep by (auto intro!: map_cong)
      moreover have "sorted (map bw_position (on_tab j ?ws))"
        unfolding on_tab_conc [OF board_okD(1) [OF B]] by (rule place_sorted)
      ultimately show ?thesis unfolding on by (simp only:)
    qed
    show "map strip_widget (on_tab j (map ?f ?ws))
        = map (\<lambda>u. if named (bw_name w) u then strip_widget ?y else u) (widgets_of B j)"
      if j: "j \<in> set (tab_ids B)" for j
    proof -
      have "map strip_widget (map ?f (on_tab j ?ws))
        = map (\<lambda>u. if named (bw_name w) u then strip_widget ?y else u) (map strip_widget (on_tab j ?ws))"
        by (auto simp: named_def)
      also have "map strip_widget (on_tab j ?ws) = widgets_of B j"
        unfolding on_tab_conc [OF board_okD(1) [OF B]] using strip_widgets_of [OF board_okD(2) [OF B]] by simp
      finally show ?thesis unfolding on .
    qed
  qed
  thus ?thesis
    unfolding insertBoardWidget_def k by (simp add: Let_def u)
qed

subsection \<open>The layout with the widget\<close>

definition merged :: "board_layout \<Rightarrow> board_widget \<Rightarrow> string \<Rightarrow> board_widget" where
  "merged L w i = (case widget_named L (bw_name w) of Some e \<Rightarrow> assign_widget e w i | None \<Rightarrow> w)"

text \<open>\<open>L'\<close> is \<open>L\<close> with the widget \<open>m\<close> in place of the one of its name, if any, and others only moved.\<close>

definition gained :: "board_layout \<Rightarrow> board_widget \<Rightarrow> board_layout \<Rightarrow> bool" where
  "gained L m L' \<longleftrightarrow> layout_ok L' \<and> bl_tabs L' = bl_tabs L
     \<and> strip_widget ` set (bl_widgets L')
         = insert (strip_widget m) (strip_widget ` {v \<in> set (bl_widgets L). bw_name v \<noteq> bw_name m})"

lemma spec_place_fst: "spec_place x i pos after C = Inr D \<Longrightarrow> map fst D = map fst C"
  by (auto simp: spec_place_def at_tab_def case_prod_beta split: if_splits)

lemma widget_named_index:
  "widget_named L name = map_option ((!) (bl_widgets L)) (find_index (\<lambda>v. bw_name v = name) (bl_widgets L))"
  unfolding widget_named_def by (rule find_by_index)

lemma strip_filter:
  "strip_widget ` {v \<in> A. bw_name v \<noteq> n} = {u \<in> strip_widget ` A. bw_name u \<noteq> n}"
  by auto

lemma bw_name_merged [simp]: "bw_name (merged L w i) = bw_name w"
  by (simp add: merged_def split: option.splits)

lemma gained_board:
  assumes B: "board_ok B" and C: "board_ok C" "map fst C = map fst B"
    and i: "set (items C) = insert (strip_widget m) {u \<in> set (items B). bw_name u \<noteq> bw_name m}"
  shows "gained (conc B) m (conc C)"
proof -
  have "strip_widget ` set (items C) = insert (strip_widget m) {u \<in> strip_widget ` set (items B). bw_name u \<noteq> bw_name m}"
    unfolding i by auto
  hence "strip_widget ` set (bl_widgets (conc C))
      = insert (strip_widget m) (strip_widget ` {v \<in> set (bl_widgets (conc B)). bw_name v \<noteq> bw_name m})"
    unfolding strip_filter strip_conc_widgets .
  thus ?thesis using conc_ok [OF C(1)] C(2) by (simp add: gained_def)
qed

lemma items_map: "items (on_items (map f) B) = map f (items B)"
  unfolding on_items_def by (induction B) auto

lemma insert_gained:
  assumes L: "layout_ok L" and a: "insertBoardWidget L w i after move = Inr L'"
    and stay: "\<And>e. widget_named L (bw_name w) = Some e \<Longrightarrow> \<not> move \<Longrightarrow> bw_tabId e = i"
    and room: "widget_named L (bw_name w) = None \<Longrightarrow> int (length (bl_widgets L)) < js_max_safe"
  shows "gained L (merged L w i) L'"
proof -
  from L have B: "board_ok (abs_board L)" and L2: "L = conc (abs_board L)" using conc_abs by auto
  let ?B = "abs_board L" and ?n = "bw_name w"
  have names: "bw_name ` set (bl_widgets L) = bw_name ` set (items ?B)"
    using names_conc [of ?B] L2 by (metis list.set_map)
  note t = ok_take_out [OF B, of ?n]
  have out: "set (items (take_out ?n ?B)) = {u \<in> set (items ?B). bw_name u \<noteq> ?n}"
    unfolding t(2) set_filter named_def ..
  show ?thesis
  proof (cases "find_index (\<lambda>v. bw_name v = ?n) (bl_widgets L)")
    case None
    hence w: "widget_named L ?n = None" by (simp add: widget_named_index)
    have n: "?n \<notin> bw_name ` set (items ?B)"
      using None unfolding names [symmetric] find_index_None by auto
    from a insert_new [OF B n, of i after move] L2 obtain C where
      C: "spec_place (strip_widget w) i None after ?B = Inr C" "L' = conc C"
      by (cases "spec_place (strip_widget w) i None after ?B") auto
    have l: "int (length (items ?B)) < js_max_safe"
      using room [OF w] length_conc [of ?B] L2 by simp
    note p = ok_place [OF B _ _ l C(1)]
    have x: "strip_widget (strip_widget w) = strip_widget w" "bw_name (strip_widget w) \<notin> bw_name ` set (items ?B)"
      using n by (simp_all only: strip_widget_simps not_False_eq_True)
    have "mset (items C) = add_mset (strip_widget w) (mset (items ?B))"
      by (rule p(2) [OF x])
    hence "set (items C) = insert (strip_widget w) (set (items ?B))"
      by (metis set_mset_add_mset_insert set_mset_mset)
    also have "set (items ?B) = {u \<in> set (items ?B). bw_name u \<noteq> ?n}"
      using n by (intro set_eqI) (metis (mono_tags, lifting) image_eqI mem_Collect_eq)
    finally have "gained (conc ?B) w (conc C)"
      by (rule gained_board [OF B p(1) [OF x] spec_place_fst [OF C(1)]])
    thus ?thesis using L2 C(2) w by (simp add: merged_def)
  next
    case (Some k)
    hence k: "find_index (\<lambda>v. bw_name v = ?n) (bl_widgets (conc ?B)) = Some k" using L2 by simp
    let ?m = "assign_widget (bl_widgets L ! k) w i"
    have w: "widget_named L ?n = Some (bl_widgets L ! k)" using Some by (simp add: widget_named_index)
    have m: "merged L w i = ?m" by (simp add: merged_def w)
    have n: "?n \<in> bw_name ` set (items ?B)"
      using find_index_Some [OF Some] unfolding names [symmetric] by (metis image_eqI nth_mem)
    show ?thesis
    proof (cases move)
      case True
      from a insert_moved [OF B k, of i after] L2 True obtain C where
        C: "spec_place (strip_widget ?m) i None after (take_out ?n ?B) = Inr C" "L' = conc C"
        by (cases "spec_place (strip_widget ?m) i None after (take_out ?n ?B)") auto
      have "length (items (take_out ?n ?B)) < length (items ?B)"
        using n unfolding t(2) named_def by (metis (mono_tags, lifting) imageE length_filter_less)
      hence l: "int (length (items (take_out ?n ?B))) < js_max_safe" using B by (simp add: board_ok_def)
      note p = ok_place [OF t(1) _ _ l C(1)]
      have x: "bw_name (strip_widget ?m) \<notin> bw_name ` set (items (take_out ?n ?B))" unfolding out by auto
      have "mset (items C) = add_mset (strip_widget ?m) (mset (items (take_out ?n ?B)))"
        by (rule p(2)) (use x in simp_all)
      hence "set (items C) = insert (strip_widget ?m) (set (items (take_out ?n ?B)))"
        by (metis set_mset_add_mset_insert set_mset_mset)
      hence "set (items C) = insert (strip_widget ?m) {u \<in> set (items ?B). bw_name u \<noteq> bw_name ?m}"
        unfolding out by simp
      moreover have "board_ok C" by (rule p(1)) (use x in simp_all)
      moreover have "map fst C = map fst ?B"
        using spec_place_fst [OF C(1)] by (simp add: take_out_def)
      ultimately have "gained (conc ?B) ?m (conc C)" by (intro gained_board [OF B])
      thus ?thesis using L2 C(2) m by simp
    next
      case False
      let ?C = "on_items (map (\<lambda>u. if named ?n u then strip_widget ?m else u)) ?B"
      have "insertBoardWidget L w i after False = Inr (conc ?C)"
        by (rule insert_kept [OF B k, folded L2, OF stay [OF w False]])
      hence L': "L' = conc ?C" using a False by simp
      have i: "items ?C = map (\<lambda>u. if named ?n u then strip_widget ?m else u) (items ?B)"
        by (rule items_map)
      have m0: "bw_tabId (strip_widget ?m) = [] \<and> bw_position (strip_widget ?m) = 0" by simp
      have "stripped ?C"
        using board_okD(2) [OF B] m0 by (fastforce simp: stripped_def on_items_def)
      moreover have "map bw_name (items ?C) = map bw_name (items ?B)" unfolding i by (simp add: named_def)
      ultimately have "board_ok ?C"
        by (intro board_ok_perm [OF B]) simp_all
      moreover have "set (items ?C) = insert (strip_widget ?m) {u \<in> set (items ?B). bw_name u \<noteq> bw_name ?m}"
        unfolding i using n by (auto simp: named_def image_iff)
      ultimately have "gained (conc ?B) ?m (conc ?C)" by (intro gained_board [OF B]) simp_all
      thus ?thesis using L2 L' m by simp
    qed
  qed
qed

lemma gained_widgets:
  assumes g: "gained L m L'"
  shows "bw_name ` set (bl_widgets L') = insert (bw_name m) (bw_name ` set (bl_widgets L))"
    and "w \<in> set (bl_widgets L') \<Longrightarrow> bw_name w = bw_name m \<Longrightarrow> strip_widget w = strip_widget m"
    and "w \<in> set (bl_widgets L') \<Longrightarrow> bw_name w \<noteq> bw_name m \<Longrightarrow>
      \<exists>v\<in>set (bl_widgets L). strip_widget w = strip_widget v \<and> bw_name v = bw_name w"
proof -
  have e: "strip_widget ` set (bl_widgets L')
      = insert (strip_widget m) (strip_widget ` {v \<in> set (bl_widgets L). bw_name v \<noteq> bw_name m})"
    using g by (simp add: gained_def)
  have "bw_name ` strip_widget ` set (bl_widgets L')
      = insert (bw_name m) (bw_name ` {v \<in> set (bl_widgets L). bw_name v \<noteq> bw_name m})"
    unfolding e by (simp add: image_image)
  thus "bw_name ` set (bl_widgets L') = insert (bw_name m) (bw_name ` set (bl_widgets L))"
    by (auto simp: image_image)
  have s: "strip_widget w = strip_widget m \<or> (\<exists>v\<in>set (bl_widgets L). strip_widget w = strip_widget v \<and> bw_name v \<noteq> bw_name m)"
    if "w \<in> set (bl_widgets L')" for w
    using imageI [OF that, of strip_widget] unfolding e by auto
  show "w \<in> set (bl_widgets L') \<Longrightarrow> bw_name w = bw_name m \<Longrightarrow> strip_widget w = strip_widget m"
    using s [of w] strip_widget_eqD(1) by metis
  show "w \<in> set (bl_widgets L') \<Longrightarrow> bw_name w \<noteq> bw_name m \<Longrightarrow>
      \<exists>v\<in>set (bl_widgets L). strip_widget w = strip_widget v \<and> bw_name v = bw_name w"
    using s [of w] strip_widget_eqD(1) by metis
qed

end
