(* ===== verification/Board_Put.thy ===== *)
theory Board_Put
  imports Board_Apply Board_Insert
begin

section \<open>The store puts a widget\<close>

text \<open>
  What \<^verbatim>\<open>createBoardWidgetPutSnapshot\<close> returns and what \<^verbatim>\<open>putWidget\<close>
  stores. They differ in three fields of the widget that is put: \<open>Object.assign\<close> keeps what the
  widget it replaces had where the new one has no value, the stored row does not (\<open>as_stored\<close>).
\<close>

lemma with_main_tab_ok:
  assumes "layout_ok L"
  shows "layout_ok (with_main_tab L)" "bl_widgets (with_main_tab L) = bl_widgets L"
proof -
  have "bl_widgets L = []" if "bl_tabs L = []"
    using assms that unfolding layout_ok_def by (metis concat.simps(1) list.map(1))
  thus "layout_ok (with_main_tab L)" "bl_widgets (with_main_tab L) = bl_widgets L"
    using assms by (auto simp: with_main_tab_def layout_ok_def main_tab_def js_max_safe_def)
qed

lemma layout_ok_map:
  assumes f: "\<And>w. bw_name (f w) = bw_name w \<and> bw_tabId (f w) = bw_tabId w \<and> bw_position (f w) = bw_position w"
    and L: "layout_ok L"
  shows "layout_ok (L\<lparr>bl_widgets := map f (bl_widgets L)\<rparr>)"
proof -
  have on: "on_tab i (map f ws) = map f (on_tab i ws)" for i ws
    by (rule filter_map_keep) (simp add: f)
  have n: "map bw_name (map f ws) = map bw_name ws" "map bw_position (map f ws) = map bw_position ws" for ws
    using f by (induction ws) simp_all
  have "map f (bl_widgets L) = map f (concat (map (\<lambda>t. on_tab (bt_tabId t) (bl_widgets L)) (bl_tabs L)))"
    using L by (simp add: layout_ok_def)
  hence c: "map f (bl_widgets L) = concat (map (\<lambda>t. on_tab (bt_tabId t) (map f (bl_widgets L))) (bl_tabs L))"
    unfolding on by (simp only: map_concat map_map comp_def)
  show ?thesis
    unfolding layout_ok_def
  proof (intro conjI ballI)
    show "bl_widgets (L\<lparr>bl_widgets := map f (bl_widgets L)\<rparr>)
      = concat (map (\<lambda>t. on_tab (bt_tabId t) (bl_widgets (L\<lparr>bl_widgets := map f (bl_widgets L)\<rparr>)))
          (bl_tabs (L\<lparr>bl_widgets := map f (bl_widgets L)\<rparr>)))"
      using c by simp
    show "distinct (map bw_name (bl_widgets (L\<lparr>bl_widgets := map f (bl_widgets L)\<rparr>)))"
      using layout_okD(2) [OF L] f by (simp add: comp_def)
    fix t assume "t \<in> set (bl_tabs (L\<lparr>bl_widgets := map f (bl_widgets L)\<rparr>))"
    hence "map bw_position (on_tab (bt_tabId t) (bl_widgets L)) = map int [0..<length (on_tab (bt_tabId t) (bl_widgets L))]"
      using L by (simp add: layout_ok_def)
    thus "map bw_position (on_tab (bt_tabId t) (bl_widgets (L\<lparr>bl_widgets := map f (bl_widgets L)\<rparr>)))
       = map int [0..<length (on_tab (bt_tabId t) (bl_widgets (L\<lparr>bl_widgets := map f (bl_widgets L)\<rparr>)))]"
      by (simp add: on comp_def f)
  qed (use L in \<open>simp_all add: layout_ok_def\<close>)
qed

definition undeclared :: "board_widget \<Rightarrow> board_widget" where
  "undeclared w = w\<lparr>bw_declaredSummary := None, bw_declared := None\<rparr>"

lemma undeclared_simps [simp]:
  "bw_name (undeclared w) = bw_name w" "bw_tabId (undeclared w) = bw_tabId w"
  "bw_position (undeclared w) = bw_position w" "strip_widget (undeclared w) = undeclared (strip_widget w)"
  by (simp_all add: undeclared_def strip_widget_def)

lemma clear_declared_map:
  "clear_declared name L = L\<lparr>bl_widgets := map (\<lambda>w. if bw_name w = name then undeclared w else w) (bl_widgets L)\<rparr>"
  by (simp add: clear_declared_def undeclared_def)

lemma gained_clear:
  assumes g: "gained L m L'"
  shows "gained L (undeclared m) (clear_declared (bw_name m) L')"
proof -
  let ?f = "\<lambda>w. if bw_name w = bw_name m then undeclared w else w"
  have ok: "layout_ok (clear_declared (bw_name m) L')"
    unfolding clear_declared_map by (rule layout_ok_map) (use g in \<open>auto simp: gained_def\<close>)
  have "strip_widget ` ?f ` set (bl_widgets L') = ?f ` strip_widget ` set (bl_widgets L')"
    unfolding image_image by (intro image_cong refl) simp
  also have "\<dots> = insert (strip_widget (undeclared m)) (?f ` strip_widget ` {v \<in> set (bl_widgets L). bw_name v \<noteq> bw_name m})"
    using g by (simp add: gained_def)
  also have "?f ` strip_widget ` {v \<in> set (bl_widgets L). bw_name v \<noteq> bw_name m}
      = strip_widget ` {v \<in> set (bl_widgets L). bw_name v \<noteq> bw_name m}"
    unfolding image_image by (intro image_cong refl) simp
  finally show ?thesis
    using g ok unfolding gained_def by (simp add: clear_declared_map)
qed

subsection \<open>The snapshot\<close>

text \<open>The widget a put leaves on the board it returns.\<close>

definition put_result ::
    "board_layout \<Rightarrow> put_params \<Rightarrow> grant_state \<Rightarrow> string \<Rightarrow> board_declared option \<Rightarrow> board_widget" where
  "put_result L params grantState instanceId declared =
     (let existing = widget_named L (pm_name params);
          tabId = put_tab_id L params existing;
          w = merged L (put_widget_value params existing tabId grantState (length (bl_widgets L)) instanceId declared) tabId
      in if createBoardDeclaredSummary declared = None then undeclared w else w)"

definition put_grant ::
    "board_env \<Rightarrow> board_layout \<Rightarrow> put_params \<Rightarrow> bool \<Rightarrow> string option \<Rightarrow> board_declared option \<Rightarrow> grant_state" where
  "put_grant env L params scopeMatches grantedSha256 declared =
     put_grant_state (pm_content params)
       (preservesGrant env (pm_content params) declared scopeMatches grantedSha256 (widget_named L (pm_name params)))
       (createBoardDeclaredSummary declared)"

lemma put_value_name [simp]: "bw_name (put_widget_value params e i g n gen d) = pm_name params"
  by (simp add: put_widget_value_def Let_def)

theorem put_snapshot:
  assumes L: "layout_ok (bs_layout prior)" and d: "declared_normal (be_parse_url env) (pm_declared params)"
    and p: "createBoardWidgetPutSnapshot env prior params scope sha gen = Inr next"
  defines "L0 \<equiv> with_main_tab (bs_layout prior)"
  shows "bs_sessionKey next = bs_sessionKey prior" "bs_revision next = bs_revision prior + 1"
    and "gained L0 (put_result L0 params (put_grant env L0 params scope sha (pm_declared params)) gen (pm_declared params))
       (bs_layout next)"
    and "widget_named L0 (pm_name params) = None \<Longrightarrow> length (bl_widgets L0) < BOARD_MAX_WIDGETS"
    and "content_kind_of (pm_content params) = KPlugin \<Longrightarrow> pm_declared params = None"
proof -
  have n: "normalizeBoardLayout (bs_layout prior) = bs_layout prior" by (rule normalize_ok [OF L])
  have pl: "pm_declared params = None" if "validatePluginContent env params = Inr ()" "content_kind_of (pm_content params) = KPlugin"
    using that by (cases "pm_content params") (auto simp: validatePluginContent_def split: if_splits)
  let ?e = "widget_named L0 (pm_name params)"
  let ?i = "put_tab_id L0 params ?e"
  from p have v: "validatePluginContent env params = Inr ()"
    by (cases "validatePluginContent env params") (auto simp: createBoardWidgetPutSnapshot_def)
  have dd: "(case pm_content params of CPlugin _ _ \<Rightarrow> Inr None
      | _ \<Rightarrow> normalizeBoardWidgetDeclared (be_parse_url env) (pm_declared params)) = Inr (pm_declared params)"
    using pl [OF v] d by (cases "pm_content params") (simp_all add: declared_normal_def)
  let ?d = "pm_declared params"
  let ?g = "put_grant env L0 params scope sha ?d"
  let ?w = "put_widget_value params ?e ?i ?g (length (bl_widgets L0)) gen ?d"
  let ?move = "pp_tabId (pm_placement params) \<noteq> None \<or> pp_after (pm_placement params) \<noteq> None"
  obtain L1 where c: "\<not> (?e = None \<and> BOARD_MAX_WIDGETS \<le> length (bl_widgets L0))"
    and ins: "insertBoardWidget L0 ?w ?i (truthy (pp_after (pm_placement params))) ?move = Inr L1"
    and nx: "next = \<lparr>bs_sessionKey = bs_sessionKey prior, bs_revision = bs_revision prior + 1,
        bs_layout = (if createBoardDeclaredSummary ?d = None then clear_declared (pm_name params) L1 else L1)\<rparr>"
    using p unfolding createBoardWidgetPutSnapshot_def v bnd.simps Let_def n L0_def [symmetric] dd put_grant_def [symmetric]
    by (auto split: if_splits)
  have L0: "layout_ok L0" unfolding L0_def by (rule with_main_tab_ok [OF L])
  have g: "gained L0 (merged L0 ?w ?i) L1"
  proof (rule insert_gained [OF L0 ins])
    fix e assume "widget_named L0 (bw_name ?w) = Some e" "\<not> ?move"
    thus "bw_tabId e = ?i" by (auto simp: put_tab_id_def)
  next
    assume "widget_named L0 (bw_name ?w) = None"
    thus "int (length (bl_widgets L0)) < js_max_safe"
      using c by (simp add: BOARD_MAX_WIDGETS_def js_max_safe_def)
  qed
  show "bs_sessionKey next = bs_sessionKey prior" "bs_revision next = bs_revision prior + 1"
    by (simp_all add: nx)
  have "gained L0 (if createBoardDeclaredSummary ?d = None then undeclared (merged L0 ?w ?i) else merged L0 ?w ?i) (bs_layout next)"
    using g gained_clear [OF g] by (simp add: nx)
  thus "gained L0 (put_result L0 params ?g gen ?d) (bs_layout next)"
    by (simp add: put_result_def Let_def)
  show "?e = None \<Longrightarrow> length (bl_widgets L0) < BOARD_MAX_WIDGETS" using c by simp
  show "content_kind_of (pm_content params) = KPlugin \<Longrightarrow> ?d = None" by (rule pl [OF v])
qed

lemma summary_None:
  assumes "declared_normal p d"
  shows "createBoardDeclaredSummary d = None \<longleftrightarrow> d = None"
proof (cases d)
  case (Some e)
  with assms have "normalizeBoardWidgetDeclared p (Some e) = Inr (Some e)" by (simp add: declared_normal_def)
  from normalized_form(2) [OF this] show ?thesis
    by (auto simp: Some createBoardDeclaredSummary_def non_empty_def)
qed (simp add: createBoardDeclaredSummary_def)

lemma put_result_fields:
  assumes "declared_normal p d"
  shows "bw_name (put_result L params g gen d) = pm_name params"
    "bw_contentKind (put_result L params g gen d) = content_kind_of (pm_content params)"
    "bw_grantState (put_result L params g gen d) = g"
    "bw_declared (put_result L params g gen d) = d"
    "bw_declaredSummary (put_result L params g gen d) = createBoardDeclaredSummary d"
    "bw_revision (put_result L params g gen d) = case_option 0 bw_revision (widget_named L (pm_name params)) + 1"
    "bw_instanceId (put_result L params g gen d) =
       assigned (Option.bind (widget_named L (pm_name params)) bw_instanceId)
         (case pm_content params of CPlugin _ _ \<Rightarrow> None | _ \<Rightarrow> Some gen)"
  using summary_None [OF assms]
  by (auto simp: put_result_def Let_def merged_def put_widget_value_def assign_widget_def undeclared_def assigned_def
      split: option.splits)

subsection \<open>The stored row\<close>

definition as_stored :: "put_params \<Rightarrow> string \<Rightarrow> board_widget \<Rightarrow> board_widget" where
  "as_stored params instanceId w = w\<lparr>
     bw_pluginKind := (case pm_content params of CPlugin k _ \<Rightarrow> Some k | _ \<Rightarrow> None),
     bw_props := (case pm_content params of CPlugin _ p \<Rightarrow> p | _ \<Rightarrow> None),
     bw_instanceId := (case pm_content params of CPlugin _ _ \<Rightarrow> None | _ \<Rightarrow> Some instanceId)\<rparr>"

definition stored_layout :: "put_params \<Rightarrow> string \<Rightarrow> board_layout \<Rightarrow> board_layout" where
  "stored_layout params instanceId L = L\<lparr>bl_widgets :=
     map (\<lambda>w. if bw_name w = pm_name params then as_stored params instanceId w else w) (bl_widgets L)\<rparr>"

abbreviation put_row :: "board_env \<Rightarrow> put_params \<Rightarrow> board_widget \<Rightarrow> string \<Rightarrow> int \<Rightarrow> widget_row \<Rightarrow> widget_row" where
  "put_row env params w gen now r \<equiv>
     createBoardWidgetContentFields env params (bw_presentation w) (bw_heightMode w) (bw_revision w)
       (bw_grantState w) gen now (set_layout w r)"

lemma put_row_keys [simp]:
  "wr_session_key (createBoardWidgetContentFields env params p h v g gen now r) = wr_session_key r"
  "wr_name (createBoardWidgetContentFields env params p h v g gen now r) = wr_name r"
  "wr_session_key (set_layout w r) = wr_session_key r" "wr_name (set_layout w r) = wr_name r"
  by (auto simp: createBoardWidgetContentFields_def set_layout_def Let_def split: board_content.splits)

lemma hex_not_empty: "hex_text 32 g \<Longrightarrow> g \<noteq> []"
  by (auto simp: hex_text_def)

lemma put_grant_effective:
  assumes "declared_normal p d" "g = put_grant_state content preserves (createBoardDeclaredSummary d)"
    and "preserves \<Longrightarrow> d \<noteq> None \<and> is_interactive content"
    and "content_kind_of content = KPlugin \<Longrightarrow> d = None"
  shows "effectiveGrantState g (written_manifest d g
     (case content of CMcpApp _ b \<Rightarrow> Some (b, gen) | _ \<Rightarrow> None) pr h) = g"
  using assms summary_None [OF assms(1)]
  by (cases content) (auto simp: put_grant_state_def effectiveGrantState_def written_manifest_def
      is_interactive_def split: if_splits)

lemma as_stored_row:
  assumes m: "parseManifest (be_parse_url env) (wr_manifest q) = written_manifest (pm_declared params) (bw_grantState w)
      (case pm_content params of CMcpApp _ b \<Rightarrow> Some (b, gen) | _ \<Rightarrow> None) (bw_presentation w) (bw_heightMode w)"
    and gen: "gen \<noteq> []"
    and x: "wr_content_kind q = content_kind_of (pm_content params)" "wr_title q = bw_title w"
      "wr_tab_id q = bw_tabId w" "wr_size_w q = bw_sizeW w" "wr_size_h q = bw_sizeH w"
      "wr_position q = bw_position w" "wr_revision q = bw_revision w" "wr_name q = bw_name w"
    and y: "wr_view_generation q = (case pm_content params of CHtml _ \<Rightarrow> Some gen | _ \<Rightarrow> None)"
      "wr_descriptor_json q = (case pm_content params of CHtml _ \<Rightarrow> None
         | CMcpApp d _ \<Rightarrow> Some (descriptor_value d) | CPlugin k p \<Rightarrow> Some (plugin_value k p))"
    and g: "effectiveGrantState (wr_grant_state q) (written_manifest (pm_declared params) (bw_grantState w)
      (case pm_content params of CMcpApp _ b \<Rightarrow> Some (b, gen) | _ \<Rightarrow> None) (bw_presentation w) (bw_heightMode w)) = bw_grantState w"
    and w: "bw_contentKind w = content_kind_of (pm_content params)" "bw_declared w = pm_declared params"
      "bw_declaredSummary w = createBoardDeclaredSummary (pm_declared params)"
  shows "widget_of env q = as_stored params gen w"
proof -
  have t: "truthy (Some gen) = Some gen" "truthy None = None"
    using gen by (simp_all add: truthy_def truthy_str_iff)
  have pv: "jfield (plugin_value k p) ''pluginKind'' = Some (JStr k)" "jfield (plugin_value k p) ''props'' = p" for k p
    by (cases p; simp add: jfield_def plugin_value_def jprop_def)+
  have "bw_grantState (widget_of env q) = bw_grantState w"
    using g m by (simp add: widget_of_def rowToWidget_def Let_def)
  moreover have "bw_pluginKind (widget_of env q) = bw_pluginKind (as_stored params gen w)"
    "bw_props (widget_of env q) = bw_props (as_stored params gen w)"
    "bw_instanceId (widget_of env q) = bw_instanceId (as_stored params gen w)"
    by (cases "pm_content params";
        simp add: widget_of_def rowToWidget_def Let_def as_stored_def x(1) y pv m written_manifest_def t)+
  moreover have "bw_presentation (widget_of env q) = bw_presentation w"
    "bw_heightMode (widget_of env q) = bw_heightMode w"
    "bw_declared (widget_of env q) = bw_declared w" "bw_declaredSummary (widget_of env q) = bw_declaredSummary w"
    by (simp_all add: widget_of_def rowToWidget_def Let_def m written_manifest_def w)
  moreover have "bw_name (widget_of env q) = bw_name w" "bw_tabId (widget_of env q) = bw_tabId w"
    "bw_title (widget_of env q) = bw_title w" "bw_contentKind (widget_of env q) = bw_contentKind w"
    "bw_sizeW (widget_of env q) = bw_sizeW w" "bw_sizeH (widget_of env q) = bw_sizeH w"
    "bw_position (widget_of env q) = bw_position w" "bw_revision (widget_of env q) = bw_revision w"
    by (simp_all add: widget_of_def rowToWidget_def Let_def x w)
  ultimately show ?thesis
    by (intro board_widget.equality) (simp_all add: as_stored_def)
qed

lemma put_row_ok:
  assumes d: "declared_normal (be_parse_url env) (pm_declared params)" and gen: "hex_text 32 gen"
    and g: "bw_grantState w = put_grant_state (pm_content params) preserves (createBoardDeclaredSummary (pm_declared params))"
    and pr: "preserves \<Longrightarrow> pm_declared params \<noteq> None \<and> is_interactive (pm_content params)"
    and pl: "content_kind_of (pm_content params) = KPlugin \<Longrightarrow> pm_declared params = None"
    and w: "bw_contentKind w = content_kind_of (pm_content params)" "bw_declared w = pm_declared params"
      "bw_declaredSummary w = createBoardDeclaredSummary (pm_declared params)"
    and r: "wr_name r = bw_name w"
  shows "row_ok env (relayout now w (put_row env params w gen now r))"
    and "widget_of env (relayout now w (put_row env params w gen now r)) = as_stored params gen w"
    and "wr_grant_state (relayout now w (put_row env params w gen now r)) = bw_grantState w"
proof -
  let ?a = "case pm_content params of CMcpApp _ b \<Rightarrow> Some (b, gen) | _ \<Rightarrow> None"
  let ?r = "relayout now w (put_row env params w gen now r)"
  let ?m = "written_manifest (pm_declared params) (bw_grantState w) ?a (bw_presentation w) (bw_heightMode w)"
  have "parseManifest (be_parse_url env) (serializeManifest (pm_declared params) (bw_grantState w) ?a
      (bw_presentation w) (bw_heightMode w)) = ?m"
    by (rule parse_serialize [OF d]) (use gen in \<open>auto split: board_content.splits\<close>)
  hence m: "parseManifest (be_parse_url env) (wr_manifest ?r) = ?m"
    by (cases "pm_content params")
      (simp_all add: createBoardWidgetContentFields_def Let_def relayout_def set_layout_def)
  have e: "effectiveGrantState (bw_grantState w) ?m = bw_grantState w"
    by (rule put_grant_effective [OF d g pr pl])
  have n: "bw_grantState w = GNone" if "content_kind_of (pm_content params) = KPlugin"
    using that g by (cases "pm_content params") (simp_all add: put_grant_state_def)
  show gs: "wr_grant_state ?r = bw_grantState w"
    using n by (cases "pm_content params")
      (simp_all add: createBoardWidgetContentFields_def Let_def relayout_def set_layout_def)
  have c: "content_ok env ?r"
    unfolding content_ok_def m using gen pl
    by (cases "pm_content params")
      (auto simp: createBoardWidgetContentFields_def Let_def relayout_def set_layout_def written_manifest_def)
  have s: "wr_granted_sha ?r = Some (wr_sha256 ?r)" if "bw_grantState w = GGranted"
    using that n by (cases "pm_content params")
      (simp_all add: createBoardWidgetContentFields_def Let_def relayout_def set_layout_def)
  show "row_ok env ?r"
    unfolding row_ok_def m gs using e c s by (simp add: written_manifest_def)
  have x: "wr_content_kind ?r = content_kind_of (pm_content params)" "wr_title ?r = bw_title w"
    "wr_tab_id ?r = bw_tabId w" "wr_size_w ?r = bw_sizeW w" "wr_size_h ?r = bw_sizeH w"
    "wr_position ?r = bw_position w" "wr_revision ?r = bw_revision w" "wr_name ?r = bw_name w"
    using r by (cases "pm_content params"; simp add: createBoardWidgetContentFields_def Let_def relayout_def set_layout_def)+
  have y: "wr_view_generation ?r = (case pm_content params of CHtml _ \<Rightarrow> Some gen | _ \<Rightarrow> None)"
    "wr_descriptor_json ?r = (case pm_content params of CHtml _ \<Rightarrow> None
       | CMcpApp d _ \<Rightarrow> Some (descriptor_value d) | CPlugin k p \<Rightarrow> Some (plugin_value k p))"
    by (cases "pm_content params"; simp add: createBoardWidgetContentFields_def Let_def relayout_def set_layout_def)+
  show "widget_of env ?r = as_stored params gen w"
    by (rule as_stored_row [OF m hex_not_empty [OF gen] x y]) (use gs e w in simp_all)
qed

end
