(* ===== verification/Board_Put_Store.thy ===== *)
theory Board_Put_Store
  imports Board_Put
begin

section \<open>The rows after a put\<close>

text \<open>
  The rows of the session after \<^verbatim>\<open>putWidget\<close> denote the layout it returns with the widget
  in its stored form.
\<close>

definition template :: "string \<Rightarrow> board_widget \<Rightarrow> board_author \<Rightarrow> int \<Rightarrow> widget_row" where
  "template s w cb ca = \<lparr>wr_session_key = s, wr_name = bw_name w, wr_tab_id = bw_tabId w, wr_title = bw_title w,
     wr_content_kind = KHtml, wr_html = None, wr_descriptor_json = None, wr_sha256 = [],
     wr_view_generation = None, wr_revision = 0, wr_size_w = bw_sizeW w, wr_size_h = bw_sizeH w,
     wr_position = bw_position w, wr_manifest = [], wr_grant_state = GNone, wr_granted_sha = None,
     wr_created_by = cb, wr_created_at = ca, wr_updated_at = 0\<rparr>"

lemma template_simps [simp]:
  "wr_session_key (template s w cb ca) = s" "wr_name (template s w cb ca) = bw_name w"
  "set_layout w (template s w cb ca) = template s w cb ca"
  by (simp_all add: template_def set_layout_def)

lemma widget_rows_upsertWidget:
  assumes f: "\<And>r. wr_session_key (f r) = wr_session_key r"
  shows "widget_rows (upsertWidget s w f cb ca db) s' =
     (if s' \<noteq> s then widget_rows db s'
      else if bw_name w \<in> wr_name ` set (widget_rows db s)
      then map (\<lambda>r. if wr_name r = bw_name w then f (set_layout w r) else r) (widget_rows db s)
      else widget_rows db s @ [f (set_layout w (template s w cb ca))])"
    and "db_tabs (upsertWidget s w f cb ca db) = db_tabs db"
    and "db_session_nodes (upsertWidget s w f cb ca db) = db_session_nodes db"
proof -
  have e: "list_ex (\<lambda>r. wr_session_key r = s \<and> wr_name r = bw_name w) (db_widgets db)
     \<longleftrightarrow> bw_name w \<in> wr_name ` set (widget_rows db s)"
    by (auto simp: list_ex_iff widget_rows_def image_iff)
  have u: "upsertWidget s w f cb ca db =
     (if bw_name w \<in> wr_name ` set (widget_rows db s)
      then on_widget s (bw_name w) (\<lambda>r. f (set_layout w r)) db
      else db\<lparr>db_widgets := db_widgets db @ [f (template s w cb ca)]\<rparr>)"
    unfolding upsertWidget_def e template_def ..
  show "db_tabs (upsertWidget s w f cb ca db) = db_tabs db"
    "db_session_nodes (upsertWidget s w f cb ca db) = db_session_nodes db"
    by (simp_all add: u)
  have a: "widget_rows (db\<lparr>db_widgets := db_widgets db @ [f (template s w cb ca)]\<rparr>) s' =
     (if s' = s then widget_rows db s @ [f (template s w cb ca)] else widget_rows db s')"
    by (simp add: widget_rows_def f)
  show "widget_rows (upsertWidget s w f cb ca db) s' =
     (if s' \<noteq> s then widget_rows db s'
      else if bw_name w \<in> wr_name ` set (widget_rows db s)
      then map (\<lambda>r. if wr_name r = bw_name w then f (set_layout w r) else r) (widget_rows db s)
      else widget_rows db s @ [f (set_layout w (template s w cb ca))])"
    unfolding u using a by (cases "s' = s") (auto simp: widget_rows_on_widget f)
qed

abbreviation put_db ::
    "stored_board \<Rightarrow> board_snapshot \<Rightarrow> string \<Rightarrow> board_widget \<Rightarrow> (widget_row \<Rightarrow> widget_row)
      \<Rightarrow> board_author \<Rightarrow> int \<Rightarrow> int \<Rightarrow> board_db \<Rightarrow> board_db" where
  "put_db previous next s w f cb ca now db \<equiv>
     updateWidgetLayouts next now (upsertWidget s w f cb ca (upsertTabs previous next db))"

lemma written_tabs:
  assumes T: "distinct (map tr_tab_id (tab_rows db s))"
    and d: "distinct (map bt_tabId (bl_tabs (bs_layout next)))" and k: "bs_sessionKey next = s"
    and keep: "tr_tab_id ` set (tab_rows db s) \<subseteq> bt_tabId ` set (bl_tabs (bs_layout next))"
    and D: "db_tabs D = db_tabs (upsertTabs previous next db)"
  shows "distinct (map tr_tab_id (tab_rows D s))" "rowToTab ` set (tab_rows D s) = set (bl_tabs (bs_layout next))"
    "r \<in> set (tab_rows D s) \<Longrightarrow> tr_revision r = bs_revision next"
proof -
  let ?T = "tab_rows (upsertTabs previous next db) s"
  have w: "tabs_written (bs_revision next) (bl_tabs (bs_layout next)) (tab_rows db s) ?T"
    using tab_rows_upsertTabs [OF d, of db previous] T k by simp
  have e: "tab_rows D s = ?T" by (rule tab_rows_cong [OF D])
  have "tr_tab_id r \<in> bt_tabId ` set (bl_tabs (bs_layout next))" if "r \<in> set ?T" for r
  proof -
    have "tr_tab_id r \<in> tr_tab_id ` set ?T" using that by (rule imageI)
    thus ?thesis using w keep by (auto simp: tabs_written_def)
  qed
  hence a: "{r \<in> set ?T. tr_tab_id r \<in> bt_tabId ` set (bl_tabs (bs_layout next))} = set ?T" by blast
  show "distinct (map tr_tab_id (tab_rows D s))" unfolding e using w by (simp add: tabs_written_def)
  show "rowToTab ` set (tab_rows D s) = set (bl_tabs (bs_layout next))"
    unfolding e using tabs_exact(1) [OF w d] by (simp only: a)
  show "r \<in> set (tab_rows D s) \<Longrightarrow> tr_revision r = bs_revision next"
    unfolding e using tabs_exact(2) [OF w d] a by blast
qed

lemma widget_of_relayout:
  assumes "strip_widget w = strip_widget (widget_of env r)" "row_ok env r"
  shows "widget_of env (relayout now w r) = w" "row_ok env (relayout now w r)"
proof -
  have "(set_layout w r)\<lparr>wr_updated_at := now, wr_manifest := wr_manifest r\<rparr> = relayout now w r"
    by (simp add: relayout_def set_layout_def)
  moreover have "parseManifest (be_parse_url env) (wr_manifest r)
      = (parseManifest (be_parse_url env) (wr_manifest r))\<lparr>mf_heightMode := bw_heightMode (widget_of env r)\<rparr>"
    by (simp add: widget_of_def rowToWidget_def Let_def)
  ultimately show "widget_of env (relayout now w r) = w"
    using widget_of_layout [OF assms(1) refl refl refl refl refl refl refl refl refl refl refl, of "wr_manifest r" now]
    by simp
  show "row_ok env (relayout now w r)"
    using assms(2) by (simp add: row_ok_def content_ok_def relayout_def set_layout_def Let_def)
qed

lemma layout_ok_stored: "layout_ok L \<Longrightarrow> layout_ok (stored_layout params gen L)"
  unfolding stored_layout_def by (rule layout_ok_map) (simp_all add: as_stored_def)

text \<open>Rows that stand for the widgets of a layout one by one.\<close>

lemma rows_denote:
  assumes n: "distinct (map wr_name W)" and ws: "distinct (map bw_name ws)"
    and names: "wr_name ` set W = bw_name ` set ws"
    and each: "\<forall>r\<in>set W. \<forall>w\<in>set ws. bw_name w = wr_name r \<longrightarrow> g (relayout now w r) = h w"
  defines "U \<equiv> map (fold (rewrite bw_name (relayout now)) ws) W"
  shows "distinct (map wr_name U)" "g ` set U = h ` set ws"
    and "u \<in> set U \<Longrightarrow> \<exists>r\<in>set W. \<exists>w\<in>set ws. bw_name w = wr_name r \<and> u = relayout now w r"
proof -
  have one: "fold (rewrite bw_name (relayout now)) ws r = relayout now w r"
    if "w \<in> set ws" "bw_name w = wr_name r" for r w
    by (rule rewrite_one [OF ws that(1)]) (use that in simp_all)
  have ex: "\<exists>w\<in>set ws. bw_name w = wr_name r" if "r \<in> set W" for r
    using imageI [OF that, of wr_name] names by auto
  have U: "\<exists>r\<in>set W. \<exists>w\<in>set ws. bw_name w = wr_name r \<and> u = relayout now w r" if u: "u \<in> set U" for u
  proof -
    from u obtain r where r: "r \<in> set W" "u = fold (rewrite bw_name (relayout now)) ws r" unfolding U_def by auto
    from ex [OF r(1)] obtain w where w: "w \<in> set ws" "bw_name w = wr_name r" by blast
    show ?thesis using r(1) w one [OF w] r(2) by blast
  qed
  show "u \<in> set U \<Longrightarrow> \<exists>r\<in>set W. \<exists>w\<in>set ws. bw_name w = wr_name r \<and> u = relayout now w r" by (rule U)
  have "wr_name (fold (rewrite bw_name (relayout now)) ws r) = wr_name r" if "r \<in> set W" for r
    using ex [OF that] one by auto
  hence "map wr_name U = map wr_name W" unfolding U_def by simp
  thus "distinct (map wr_name U)" using n by simp
  show "g ` set U = h ` set ws"
  proof (intro equalityI subsetI)
    fix x assume "x \<in> g ` set U"
    then obtain u where u: "u \<in> set U" "x = g u" by blast
    from U [OF u(1)] obtain r w where "r \<in> set W" "w \<in> set ws" "bw_name w = wr_name r" "u = relayout now w r" by blast
    thus "x \<in> h ` set ws" using each u(2) by blast
  next
    fix x assume "x \<in> h ` set ws"
    then obtain w where w: "w \<in> set ws" "x = h w" by blast
    have "bw_name w \<in> wr_name ` set W" using w(1) names by blast
    then obtain r where r: "r \<in> set W" "bw_name w = wr_name r" by auto
    have "relayout now w r \<in> set U"
      unfolding U_def using r one [OF w(1) r(2)] by (metis (no_types, lifting) image_eqI list.set_map)
    thus "x \<in> g ` set U" using each r w by (metis image_eqI)
  qed
qed

subsection \<open>The operation\<close>

text \<open>What a successful put did.\<close>

definition put_widget_of :: "board_env \<Rightarrow> board_db \<Rightarrow> string \<Rightarrow> put_params \<Rightarrow> board_layout \<Rightarrow> string
    \<Rightarrow> board_declared option \<Rightarrow> board_widget" where
  "put_widget_of env db s params L gen d =
     (let L0 = with_main_tab L;
          existing = find (\<lambda>r. wr_name r = pm_name params) (widget_rows db s)
      in put_result L0 (canonical_params params d)
           (put_grant env L0 (canonical_params params d) (grantScopeMatches existing (pm_content params))
              (Option.bind existing wr_granted_sha) d) gen d)"

lemma canonical_simps [simp]:
  "pm_name (canonical_params params d) = pm_name params" "pm_content (canonical_params params d) = pm_content params"
  "pm_declared (canonical_params params d) = d" "pm_placement (canonical_params params d) = pm_placement params"
  by (simp_all add: canonical_params_def)

lemma widget_named_in:
  assumes "layout_ok L" "name \<in> bw_name ` set (bl_widgets L)"
  obtains w where "widget_named L name = Some w" "w \<in> set (bl_widgets L)" "bw_name w = name"
proof -
  from assms(2) obtain w where w: "w \<in> set (bl_widgets L)" "bw_name w = name" by auto
  have "widget_named L name = Some w"
    using find_key [OF layout_okD(2) [OF assms(1)] w(1)] w(2) by (simp add: widget_named_def)
  with w that show ?thesis by blast
qed

text \<open>What a successful put is: the declaration it stored, the widget it left, the rows it wrote.\<close>

definition put_done :: "board_env \<Rightarrow> board_db \<Rightarrow> string \<Rightarrow> put_params \<Rightarrow> board_layout \<Rightarrow> string \<Rightarrow> int
    \<Rightarrow> board_snapshot \<Rightarrow> board_db \<Rightarrow> board_declared option \<Rightarrow> board_widget \<Rightarrow> bool" where
  "put_done env db s params L gen now snap db' d w \<longleftrightarrow>
     normalizeBoardWidgetDeclared (be_parse_url env) (pm_declared params) = Inr d
     \<and> declared_normal (be_parse_url env) d
     \<and> bs_sessionKey snap = s \<and> bs_revision snap = bs_revision (sb_snapshot (readStoredBoard env db s)) + 1
     \<and> gained (with_main_tab L) (put_widget_of env db s params L gen d) (bs_layout snap)
     \<and> w \<in> set (bl_widgets (bs_layout snap)) \<and> bw_name w = pm_name params
     \<and> strip_widget w = strip_widget (put_widget_of env db s params L gen d)
     \<and> (widget_named (with_main_tab L) (pm_name params) = None \<longrightarrow> length (bl_widgets L) < BOARD_MAX_WIDGETS)
     \<and> (content_kind_of (pm_content params) = KPlugin \<longrightarrow> d = None)
     \<and> (\<exists>cb ca. db' = put_db (readStoredBoard env db s) snap s w
          (createBoardWidgetContentFields env (canonical_params params d) (bw_presentation w) (bw_heightMode w)
             (bw_revision w) (bw_grantState w) gen now) cb ca now db)"

lemma putWidget_cases:
  assumes u: "origins_stable (be_parse_url env)" and h: "hasSession db s" and den: "denotes env db s L"
    and p: "putWidget env db s params gen now = Inr (snap, db')"
  obtains d w where "put_done env db s params L gen now snap db' d w"
proof -
  let ?prev = "readStoredBoard env db s"
  let ?ex = "find (\<lambda>r. wr_name r = pm_name params) (widget_rows db s)"
  from p h obtain d where d: "normalizeBoardWidgetDeclared (be_parse_url env) (pm_declared params) = Inr d"
    by (cases "normalizeBoardWidgetDeclared (be_parse_url env) (pm_declared params)") (auto simp: putWidget_def)
  let ?c = "canonical_params params d"
  have dn: "declared_normal (be_parse_url env) d" by (rule normalized_declared [OF u d])
  from p obtain w where
    c: "createBoardWidgetPutSnapshot env (sb_snapshot ?prev) ?c (grantScopeMatches ?ex (pm_content params))
       (Option.bind ?ex wr_granted_sha) gen = Inr snap"
    and w: "widget_named (bs_layout snap) (pm_name params) = Some w"
    and db': "db' = put_db ?prev snap s w
      (createBoardWidgetContentFields env ?c (bw_presentation w) (bw_heightMode w)
         (bw_revision w) (bw_grantState w) gen now)
      (case_option AuthorAgent wr_created_by ?ex) (case_option now wr_created_at ?ex) now db"
    using h d by (auto simp: putWidget_def Let_def bnd_Inr_iff stored_row [OF den] split: option.splits)
  have L: "layout_ok (bs_layout (sb_snapshot ?prev))" "bs_layout (sb_snapshot ?prev) = L"
    using read_layout [OF den] denotesD(1) [OF den] by simp_all
  note s' = put_snapshot [OF L(1) _ c, unfolded L(2) canonical_simps, OF dn]
  have g: "gained (with_main_tab L) (put_widget_of env db s params L gen d) (bs_layout snap)"
    using s'(3) by (simp add: put_widget_of_def Let_def)
  have n: "bw_name (put_widget_of env db s params L gen d) = pm_name params"
    using put_result_fields(1) [OF dn] by (simp add: put_widget_of_def Let_def)
  have w': "w \<in> set (bl_widgets (bs_layout snap))" "bw_name w = pm_name params"
    using w by (auto simp: widget_named_def find_Some_iff)
  have "strip_widget w = strip_widget (put_widget_of env db s params L gen d)"
    by (rule gained_widgets(2) [OF g w'(1)]) (simp add: w'(2) n)
  moreover have "bs_sessionKey snap = s" using s'(1) by (simp add: read_session)
  moreover have "widget_named (with_main_tab L) (pm_name params) = None \<longrightarrow> length (bl_widgets L) < BOARD_MAX_WIDGETS"
    using s'(4) with_main_tab_ok(2) L by simp
  moreover have "content_kind_of (pm_content params) = KPlugin \<longrightarrow> d = None" using s'(5) by simp
  ultimately have "put_done env db s params L gen now snap db' d w"
    unfolding put_done_def using d dn s'(2) g w' db' by blast
  thus thesis by (rule that)
qed

lemma put_fields:
  assumes dn: "declared_normal (be_parse_url env) d" and w: "strip_widget w = strip_widget (put_widget_of env db s params L gen d)"
  shows "bw_contentKind w = content_kind_of (pm_content params)" "bw_declared w = d"
    "bw_declaredSummary w = createBoardDeclaredSummary d"
    "bw_grantState w = put_grant env (with_main_tab L) (canonical_params params d)
       (grantScopeMatches (find (\<lambda>r. wr_name r = pm_name params) (widget_rows db s)) (pm_content params))
       (Option.bind (find (\<lambda>r. wr_name r = pm_name params) (widget_rows db s)) wr_granted_sha) d"
  using put_result_fields [OF dn] strip_widget_eqD [OF w] by (simp_all add: put_widget_of_def Let_def)

text \<open>The rows before the layouts are written: the row of the widget that is put, and the others.\<close>

definition put_rows :: "string \<Rightarrow> board_widget \<Rightarrow> (widget_row \<Rightarrow> widget_row) \<Rightarrow> board_author \<Rightarrow> int
    \<Rightarrow> widget_row list \<Rightarrow> widget_row list" where
  "put_rows s w f cb ca W =
     (if bw_name w \<in> wr_name ` set W
      then map (\<lambda>r. if wr_name r = bw_name w then f (set_layout w r) else r) W
      else W @ [f (set_layout w (template s w cb ca))])"

lemma put_rows_cases:
  assumes f: "\<And>r. wr_name (f r) = wr_name r" and W: "distinct (map wr_name W)"
  shows "distinct (map wr_name (put_rows s w f cb ca W))"
    and "wr_name ` set (put_rows s w f cb ca W) = insert (bw_name w) (wr_name ` set W)"
    and "r \<in> set (put_rows s w f cb ca W) \<Longrightarrow>
      (wr_name r = bw_name w \<and> (\<exists>q. wr_name q = bw_name w \<and> r = f (set_layout w q))) \<or> (wr_name r \<noteq> bw_name w \<and> r \<in> set W)"
proof -
  have n: "map wr_name (put_rows s w f cb ca W) =
     (if bw_name w \<in> wr_name ` set W then map wr_name W else map wr_name W @ [bw_name w])"
    by (simp add: put_rows_def f)
  show "distinct (map wr_name (put_rows s w f cb ca W))"
    unfolding n using W by auto
  have "wr_name ` set (put_rows s w f cb ca W) = set (map wr_name (put_rows s w f cb ca W))" by simp
  thus "wr_name ` set (put_rows s w f cb ca W) = insert (bw_name w) (wr_name ` set W)"
    unfolding n by auto
  show "r \<in> set (put_rows s w f cb ca W) \<Longrightarrow>
      (wr_name r = bw_name w \<and> (\<exists>q. wr_name q = bw_name w \<and> r = f (set_layout w q))) \<or> (wr_name r \<noteq> bw_name w \<and> r \<in> set W)"
  proof (cases "bw_name w \<in> wr_name ` set W")
    case True
    moreover assume "r \<in> set (put_rows s w f cb ca W)"
    ultimately obtain q where q: "q \<in> set W" "r = (if wr_name q = bw_name w then f (set_layout w q) else q)"
      by (auto simp: put_rows_def)
    thus ?thesis by (cases "wr_name q = bw_name w") (auto simp: f)
  next
    case False
    moreover assume "r \<in> set (put_rows s w f cb ca W)"
    ultimately consider "r \<in> set W" | "r = f (set_layout w (template s w cb ca))"
      by (auto simp: put_rows_def)
    thus ?thesis
    proof cases
      case 1
      with False have "wr_name r \<noteq> bw_name w" by (metis image_eqI)
      with 1 show ?thesis by blast
    next
      case 2
      hence "wr_name r = bw_name w" by (simp add: f del: template_simps(3))
      with 2 show ?thesis using template_simps(2) by blast
    qed
  qed
qed

lemma put_db_rows:
  assumes f: "\<And>r. wr_session_key (f r) = wr_session_key r" and k: "bs_sessionKey next = s"
  shows "widget_rows (put_db previous next s w f cb ca now db) s =
     map (fold (rewrite bw_name (relayout now)) (bl_widgets (bs_layout next))) (put_rows s w f cb ca (widget_rows db s))"
    and "s' \<noteq> s \<Longrightarrow> widget_rows (put_db previous next s w f cb ca now db) s' = widget_rows db s'"
    and "s' \<noteq> s \<Longrightarrow> tab_rows (put_db previous next s w f cb ca now db) s' = tab_rows db s'"
    and "db_session_nodes (put_db previous next s w f cb ca now db) = db_session_nodes db"
proof -
  show "widget_rows (put_db previous next s w f cb ca now db) s =
     map (fold (rewrite bw_name (relayout now)) (bl_widgets (bs_layout next))) (put_rows s w f cb ca (widget_rows db s))"
    unfolding updateWidgetLayouts_rows put_rows_def using k by (simp add: widget_rows_upsertWidget f)
  show "s' \<noteq> s \<Longrightarrow> widget_rows (put_db previous next s w f cb ca now db) s' = widget_rows db s'"
    unfolding updateWidgetLayouts_rows using k by (simp add: widget_rows_upsertWidget f)
  have "tab_rows (put_db previous next s w f cb ca now db) s' = tab_rows (upsertTabs previous next db) s'"
    by (rule tab_rows_cong) (simp add: updateWidgetLayouts_rows widget_rows_upsertWidget f)
  thus "s' \<noteq> s \<Longrightarrow> tab_rows (put_db previous next s w f cb ca now db) s' = tab_rows db s'"
    using k by simp
  show "db_session_nodes (put_db previous next s w f cb ca now db) = db_session_nodes db"
    by (simp add: updateWidgetLayouts_rows widget_rows_upsertWidget f)
qed

text \<open>The rows of a put, each with what it stands for.\<close>

abbreviation put_fields_of :: "board_env \<Rightarrow> put_params \<Rightarrow> board_declared option \<Rightarrow> board_widget \<Rightarrow> string \<Rightarrow> int
    \<Rightarrow> widget_row \<Rightarrow> widget_row" where
  "put_fields_of env params d w gen now \<equiv> createBoardWidgetContentFields env (canonical_params params d)
     (bw_presentation w) (bw_heightMode w) (bw_revision w) (bw_grantState w) gen now"

lemma put_row_written:
  assumes p: "put_done env db s params L gen now snap db' d w" and gen: "hex_text 32 gen" and q: "wr_name q = bw_name w"
  shows "widget_of env (relayout now w (put_fields_of env params d w gen now (set_layout w q))) = as_stored params gen w"
    "row_ok env (relayout now w (put_fields_of env params d w gen now (set_layout w q)))"
    "wr_grant_state (relayout now w (put_fields_of env params d w gen now (set_layout w q))) = bw_grantState w"
proof -
  have dn: "declared_normal (be_parse_url env) d"
    and sw: "strip_widget w = strip_widget (put_widget_of env db s params L gen d)"
    and pl: "content_kind_of (pm_content params) = KPlugin \<Longrightarrow> d = None"
    using p by (simp_all add: put_done_def)
  note f = put_fields [OF dn sw]
  have pr: "preservesGrant env (pm_content params) d scope sha e \<Longrightarrow> d \<noteq> None \<and> is_interactive (pm_content params)" for scope sha e
    by (simp add: preservesGrant_def)
  have as: "as_stored (canonical_params params d) gen w = as_stored params gen w" by (simp add: as_stored_def)
  note r = put_row_ok [of env "canonical_params params d" gen w, unfolded canonical_simps,
      OF dn gen f(4) [unfolded put_grant_def canonical_simps] pr pl f(1-3) q]
  show "widget_of env (relayout now w (put_fields_of env params d w gen now (set_layout w q))) = as_stored params gen w"
    using r(2) [where now = now] unfolding as by simp
  show "row_ok env (relayout now w (put_fields_of env params d w gen now (set_layout w q)))"
    "wr_grant_state (relayout now w (put_fields_of env params d w gen now (set_layout w q))) = bw_grantState w"
    using r(1,3) [where now = now] by simp_all
qed

definition put_form :: "put_params \<Rightarrow> string \<Rightarrow> board_widget \<Rightarrow> board_widget" where
  "put_form params gen v = (if bw_name v = pm_name params then as_stored params gen v else v)"

lemma put_each:
  assumes p: "put_done env db s params L gen now snap db' d w" and gen: "hex_text 32 gen" and den: "denotes env db s L"
    and r: "r \<in> set (put_rows s w (put_fields_of env params d w gen now) cb ca (widget_rows db s))"
    and v: "v \<in> set (bl_widgets (bs_layout snap))" "bw_name v = wr_name r"
  shows "widget_of env (relayout now v r) = put_form params gen v \<and> row_ok env (relayout now v r)"
proof -
  note d = denotesD [OF den]
  have g: "gained (with_main_tab L) (put_widget_of env db s params L gen d) (bs_layout snap)"
    and w: "w \<in> set (bl_widgets (bs_layout snap))" "bw_name w = pm_name params"
    and sw: "strip_widget w = strip_widget (put_widget_of env db s params L gen d)"
    using p by (simp_all add: put_done_def)
  have L': "layout_ok (bs_layout snap)" using g by (simp add: gained_def)
  have fn: "wr_name (put_fields_of env params d w gen now r) = wr_name r" for r by simp
  note W = put_rows_cases [OF fn d(4), where s = s and w = w and cb = cb and ca = ca]
  show ?thesis
  proof (cases "wr_name r = bw_name w")
    case True
    with W(3) [OF r] obtain q where q: "wr_name q = bw_name w" "r = put_fields_of env params d w gen now (set_layout w q)"
      by blast
    have "v = w" by (rule same_key [OF layout_okD(2) [OF L'] v(1) w(1)]) (simp add: v(2) True)
    thus ?thesis using put_row_written [OF p gen q(1)] q(2) w(2) by (simp add: put_form_def)
  next
    case False
    with W(3) [OF r] have r': "r \<in> set (widget_rows db s)" by blast
    have "bw_name v \<noteq> bw_name (put_widget_of env db s params L gen d)"
      using False v(2) strip_widget_eqD(1) [OF sw] by simp
    from gained_widgets(3) [OF g v(1) this] obtain x where
      x: "x \<in> set (bl_widgets L)" "strip_widget v = strip_widget x" "bw_name x = bw_name v"
      unfolding with_main_tab_ok(2) [OF d(1)] by blast
    have "widget_of env r \<in> set (bl_widgets L)" using d(5) r' by blast
    hence "x = widget_of env r"
      by (intro same_key [OF layout_okD(2) [OF d(1)] x(1)]) (simp_all add: x(3) v(2))
    with x(2) have "strip_widget v = strip_widget (widget_of env r)" by simp
    from widget_of_relayout [OF this d(6) [OF r']] show ?thesis using False v(2) w(2) by (simp add: put_form_def)
  qed
qed

lemma put_names:
  assumes p: "put_done env db s params L gen now snap db' d w" and den: "denotes env db s L"
  shows "wr_name ` set (put_rows s w (put_fields_of env params d w gen now) cb ca (widget_rows db s))
     = bw_name ` set (bl_widgets (bs_layout snap))"
    and "distinct (map wr_name (put_rows s w (put_fields_of env params d w gen now) cb ca (widget_rows db s)))"
proof -
  note d = denotesD [OF den]
  have g: "gained (with_main_tab L) (put_widget_of env db s params L gen d) (bs_layout snap)"
    and sw: "strip_widget w = strip_widget (put_widget_of env db s params L gen d)"
    using p by (simp_all add: put_done_def)
  have fn: "wr_name (put_fields_of env params d w gen now r) = wr_name r" for r by simp
  note W = put_rows_cases [OF fn d(4), where s = s and w = w and cb = cb and ca = ca]
  have "wr_name ` set (widget_rows db s) = bw_name ` widget_of env ` set (widget_rows db s)"
    by (simp add: image_image)
  thus "wr_name ` set (put_rows s w (put_fields_of env params d w gen now) cb ca (widget_rows db s))
     = bw_name ` set (bl_widgets (bs_layout snap))"
    unfolding W(2) gained_widgets(1) [OF g] with_main_tab_ok(2) [OF d(1)] d(5) strip_widget_eqD(1) [OF sw] by simp
  show "distinct (map wr_name (put_rows s w (put_fields_of env params d w gen now) cb ca (widget_rows db s)))"
    by (rule W(1))
qed

lemma put_tabs_kept:
  assumes den: "denotes env db s L" and t: "bl_tabs L' = bl_tabs (with_main_tab L)"
  shows "tr_tab_id ` set (tab_rows db s) \<subseteq> bt_tabId ` set (bl_tabs L')"
proof -
  have "tr_tab_id ` set (tab_rows db s) = bt_tabId ` rowToTab ` set (tab_rows db s)" by (simp add: image_image)
  thus ?thesis unfolding denotesD(3) [OF den] t by (auto simp: with_main_tab_def)
qed

theorem put_stored:
  assumes p: "put_done env db s params L gen now snap db' d w" and gen: "hex_text 32 gen" and den: "denotes env db s L"
  shows "denotes env db' s (stored_layout params gen (bs_layout snap))"
    and "r \<in> set (tab_rows db' s) \<Longrightarrow> tr_revision r = bs_revision snap"
    and "u \<in> set (widget_rows db' s) \<Longrightarrow>
      (\<exists>q. wr_name q = bw_name w \<and> u = relayout now w (put_fields_of env params d w gen now (set_layout w q)))
      \<or> (\<exists>r\<in>set (widget_rows db s). \<exists>v. wr_name r \<noteq> bw_name w \<and> u = relayout now v r)"
proof -
  note d = denotesD [OF den]
  from p obtain cb ca where k: "bs_sessionKey snap = s"
    and g: "gained (with_main_tab L) (put_widget_of env db s params L gen d) (bs_layout snap)"
    and w: "w \<in> set (bl_widgets (bs_layout snap))"
    and db': "db' = put_db (readStoredBoard env db s) snap s w (put_fields_of env params d w gen now) cb ca now db"
    unfolding put_done_def by blast
  have L': "layout_ok (bs_layout snap)" and tabs: "bl_tabs (bs_layout snap) = bl_tabs (with_main_tab L)"
    using g by (simp_all add: gained_def)
  let ?W = "put_rows s w (put_fields_of env params d w gen now) cb ca (widget_rows db s)"
  have fn: "wr_name (put_fields_of env params d w gen now r) = wr_name r"
    "wr_session_key (put_fields_of env params d w gen now r) = wr_session_key r" for r by simp_all
  have each: "\<forall>r\<in>set ?W. \<forall>v\<in>set (bl_widgets (bs_layout snap)). bw_name v = wr_name r \<longrightarrow>
      widget_of env (relayout now v r) = put_form params gen v" using put_each [OF p gen den] by blast
  note R = rows_denote [where g = "widget_of env" and h = "put_form params gen" and now = now,
      OF put_names(2) [OF p den] layout_okD(2) [OF L'] put_names(1) [OF p den] each]
  have rows: "widget_rows db' s = map (fold (rewrite bw_name (relayout now)) (bl_widgets (bs_layout snap))) ?W"
    unfolding db' by (rule put_db_rows(1) [OF fn(2) k])
  have D: "db_tabs db' = db_tabs (upsertTabs (readStoredBoard env db s) snap db)"
    unfolding db' by (simp add: updateWidgetLayouts_rows widget_rows_upsertWidget)
  note T = written_tabs [OF d(2) layout_okD(1) [OF L'] k put_tabs_kept [OF den tabs] D]
  show "r \<in> set (tab_rows db' s) \<Longrightarrow> tr_revision r = bs_revision snap" by (rule T(3))
  have b: "bl_widgets (stored_layout params gen (bs_layout snap)) = map (put_form params gen) (bl_widgets (bs_layout snap))"
    by (simp add: stored_layout_def put_form_def)
  show "denotes env db' s (stored_layout params gen (bs_layout snap))"
    unfolding denotes_def
  proof (intro conjI ballI)
    show "layout_ok (stored_layout params gen (bs_layout snap))" by (rule layout_ok_stored [OF L'])
    show "rowToTab ` set (tab_rows db' s) = set (bl_tabs (stored_layout params gen (bs_layout snap)))"
      using T(2) by (simp add: stored_layout_def)
    show "distinct (map wr_name (widget_rows db' s))" unfolding rows by (rule R(1))
    show "widget_of env ` set (widget_rows db' s) = set (bl_widgets (stored_layout params gen (bs_layout snap)))"
      unfolding rows b using R(2) by (simp only: list.set_map)
    fix r assume "r \<in> set (widget_rows db' s)"
    from R(3) [OF this [unfolded rows]] show "row_ok env r" using put_each [OF p gen den] by blast
  qed (rule T(1))
  assume "u \<in> set (widget_rows db' s)"
  from R(3) [OF this [unfolded rows]] obtain r v where
    r: "r \<in> set ?W" "v \<in> set (bl_widgets (bs_layout snap))" "bw_name v = wr_name r" "u = relayout now v r" by blast
  from put_rows_cases(3) [OF fn(1) d(4) r(1)] consider
      q where "wr_name r = bw_name w" "wr_name q = bw_name w" "r = put_fields_of env params d w gen now (set_layout w q)"
    | "wr_name r \<noteq> bw_name w" "r \<in> set (widget_rows db s)" by blast
  thus "(\<exists>q. wr_name q = bw_name w \<and> u = relayout now w (put_fields_of env params d w gen now (set_layout w q)))
      \<or> (\<exists>r\<in>set (widget_rows db s). \<exists>v. wr_name r \<noteq> bw_name w \<and> u = relayout now v r)"
  proof cases
    case 1
    have "v = w" by (rule same_key [OF layout_okD(2) [OF L'] r(2) w]) (simp add: r(3) 1(1))
    thus ?thesis using 1 r(4) by blast
  next
    case 2
    thus ?thesis using r(4) by blast
  qed
qed

lemma put_elsewhere:
  assumes p: "put_done env db s params L gen now snap db' d w"
  shows "s' \<noteq> s \<Longrightarrow> widget_rows db' s' = widget_rows db s'" "s' \<noteq> s \<Longrightarrow> tab_rows db' s' = tab_rows db s'"
    and "db_session_nodes db' = db_session_nodes db"
proof -
  from p obtain cb ca where k: "bs_sessionKey snap = s"
    and db': "db' = put_db (readStoredBoard env db s) snap s w (put_fields_of env params d w gen now) cb ca now db"
    unfolding put_done_def by blast
  have fn: "wr_session_key (put_fields_of env params d w gen now r) = wr_session_key r" for r by simp
  show "s' \<noteq> s \<Longrightarrow> widget_rows db' s' = widget_rows db s'" "s' \<noteq> s \<Longrightarrow> tab_rows db' s' = tab_rows db s'"
    "db_session_nodes db' = db_session_nodes db"
    unfolding db' by (rule put_db_rows [OF fn k]; assumption)+
qed

end
