(* ===== verification/Board_Grant.thy ===== *)
theory Board_Grant
  imports Board_Put_Store
begin

section \<open>The store records a decision\<close>

text \<open>
  \<^verbatim>\<open>grant\<close> decides only a pending widget, and only on the revision and the instance the
  decision names; then the rows denote the layout with that one grant state changed.
\<close>

lemma parsed_normal:
  assumes "origins_stable parse_url"
  shows "declared_normal parse_url (mf_declared (parseManifest parse_url fs))"
proof -
  have "declared_normal parse_url None" by (simp add: declared_normal_def normalizeBoardWidgetDeclared_def)
  thus ?thesis
    using normalized_declared [OF assms] by (simp add: parseManifest_def Let_def split: sum.splits)
qed

lemma parsed_instance: "mf_mcpAppInstanceId (parseManifest p fs) = Some i \<Longrightarrow> hex_text 32 i"
  by (auto simp: parseManifest_def Let_def instance_id_def split: sum.splits option.splits if_splits)

definition decided_widget :: "string \<Rightarrow> grant_decision \<Rightarrow> board_widget \<Rightarrow> board_widget" where
  "decided_widget name decision w = (if bw_name w = name then w\<lparr>bw_grantState := decided decision\<rparr> else w)"

lemma rewritten:
  assumes "\<not> mf_declarationInvalid m" "map_option fst a = mf_mcpAppInteractive m" "map_option snd a = mf_mcpAppInstanceId m"
  shows "written_manifest (mf_declared m) g a (mf_presentation m) (mf_heightMode m)
     = m\<lparr>mf_grantSemanticsVersion := (if g = GGranted then Some BOARD_GRANT_SEMANTICS_VERSION else None)\<rparr>"
  using assms by (intro board_manifest.equality) (simp_all add: written_manifest_def)

lemma decide_row_ok:
  assumes u: "origins_stable (be_parse_url env)" and r: "row_ok env r" and g: "bw_grantState (widget_of env r) = GPending"
  shows "row_ok env (decide_row env decision now r r)"
    and "widget_of env (decide_row env decision now r r) = (widget_of env r)\<lparr>bw_grantState := decided decision\<rparr>"
    and "wr_grant_state (decide_row env decision now r r) = decided decision"
proof -
  let ?m = "parseManifest (be_parse_url env) (wr_manifest r)"
  let ?a = "case (mf_mcpAppInteractive ?m, truthy (mf_mcpAppInstanceId ?m)) of (Some b, Some i) \<Rightarrow> Some (b, i) | _ \<Rightarrow> None"
  have c: "content_ok env r" using r by (simp add: row_ok_def)
  have pend: "wr_grant_state r = GPending" using row_ok_grant [OF r] g by simp
  have inst: "mf_mcpAppInstanceId ?m = Some i \<Longrightarrow> hex_text 32 i" for i by (rule parsed_instance)
  have a: "map_option fst ?a = mf_mcpAppInteractive ?m" "map_option snd ?a = mf_mcpAppInstanceId ?m"
    using c hex_not_empty [OF inst]
    by (cases "wr_content_kind r"; force simp: content_ok_def Let_def truthy_def truthy_str_iff split: option.splits)+
  have hex: "\<forall>x. ?a = Some x \<longrightarrow> hex_text 32 (snd x)"
    using a(2) inst by force
  have m: "parseManifest (be_parse_url env) (wr_manifest (decide_row env decision now r r))
     = ?m\<lparr>mf_grantSemanticsVersion := (if decided decision = GGranted then Some BOARD_GRANT_SEMANTICS_VERSION else None)\<rparr>"
  proof -
    have "wr_manifest (decide_row env decision now r r)
        = serializeManifest (mf_declared ?m) (decided decision) ?a (mf_presentation ?m) (mf_heightMode ?m)"
      by (simp add: decide_row_def Let_def)
    also have "parseManifest (be_parse_url env) \<dots>
        = written_manifest (mf_declared ?m) (decided decision) ?a (mf_presentation ?m) (mf_heightMode ?m)"
      by (rule parse_serialize [OF parsed_normal [OF u] hex])
    also have "\<dots> = ?m\<lparr>mf_grantSemanticsVersion := (if decided decision = GGranted then Some BOARD_GRANT_SEMANTICS_VERSION else None)\<rparr>"
      by (rule rewritten [OF _ a]) (use r in \<open>simp add: row_ok_def\<close>)
    finally show ?thesis .
  qed
  have e: "effectiveGrantState (decided decision) (parseManifest (be_parse_url env) (wr_manifest (decide_row env decision now r r)))
     = decided decision"
    using r pend unfolding m row_ok_def by (cases decision) (auto simp: effectiveGrantState_def split: if_splits)
  have f: "wr_content_kind (decide_row env decision now r r) = wr_content_kind r"
    "wr_html (decide_row env decision now r r) = wr_html r"
    "wr_sha256 (decide_row env decision now r r) = wr_sha256 r"
    "wr_descriptor_json (decide_row env decision now r r) = wr_descriptor_json r"
    "wr_view_generation (decide_row env decision now r r) = wr_view_generation r"
    "wr_granted_sha (decide_row env decision now r r) = (if decision = DecideGranted then Some (wr_sha256 r) else None)"
    by (simp_all add: decide_row_def Let_def)
  show gs: "wr_grant_state (decide_row env decision now r r) = decided decision"
    by (simp add: decide_row_def Let_def)
  show "row_ok env (decide_row env decision now r r)"
    unfolding row_ok_def gs e using r c
    by (auto simp: m row_ok_def content_ok_def Let_def f) (cases decision; simp)+
  show "widget_of env (decide_row env decision now r r) = (widget_of env r)\<lparr>bw_grantState := decided decision\<rparr>"
    unfolding widget_of_def rowToWidget_def Let_def gs e
    by (simp add: m f) (simp add: decide_row_def Let_def)
qed

lemma grant_cases:
  assumes h: "hasSession db s" and den: "denotes env db s L"
    and p: "grant env db s name decision revision instanceId now = Inr (snap, db')"
  obtains r where "r \<in> set (widget_rows db s)" "wr_name r = name" "wr_revision r = revision"
    "bw_instanceId (widget_of env r) = None \<or> bw_instanceId (widget_of env r) = instanceId"
    "bw_grantState (widget_of env r) = GPending"
    "snap = \<lparr>bs_sessionKey = s, bs_revision = bs_revision (sb_snapshot (readStoredBoard env db s)) + 1,
      bs_layout = L\<lparr>bl_widgets := map (decided_widget name decision) (bl_widgets L)\<rparr>\<rparr>"
    "db' = on_widget s name (decide_row env decision now r) (upsertTabs (readStoredBoard env db s) snap db)"
proof -
  let ?prev = "readStoredBoard env db s"
  note d = denotesD [OF den]
  have L: "bs_layout (sb_snapshot ?prev) = L" by (rule read_layout [OF den])
  from p h obtain r where
    c: "createBoardGrantSnapshot (sb_snapshot ?prev) name decision revision instanceId = Inr snap"
    and r: "find (\<lambda>r. wr_name r = name) (widget_rows db s) = Some r"
    and db': "db' = on_widget s name (decide_row env decision now r) (upsertTabs ?prev snap db)"
    by (auto simp: grant_def Let_def bnd_Inr_iff stored_row [OF den] split: option.splits)
  from c obtain i where i: "find_index (\<lambda>w. bw_name w = name) (bl_widgets L) = Some i"
    unfolding createBoardGrantSnapshot_def L by (auto split: option.splits)
  let ?w = "bl_widgets L ! i"
  have iw: "i < length (bl_widgets L)" "bw_name ?w = name" using find_index_Some [OF i] by auto
  have r': "r \<in> set (widget_rows db s)" "wr_name r = name" using r by (auto simp: find_Some_iff)
  have "widget_of env r \<in> set (bl_widgets L)" using d(5) r'(1) by blast
  hence w: "?w = widget_of env r"
    by (intro same_key [OF layout_okD(2) [OF d(1)]]) (use iw r' in simp_all)
  from c have k: "bw_revision ?w = revision" "bw_instanceId ?w = None \<or> bw_instanceId ?w = instanceId"
    "bw_grantState ?w = GPending"
    and snap: "snap = (sb_snapshot ?prev)\<lparr>bs_revision := bs_revision (sb_snapshot ?prev) + 1,
      bs_layout := L\<lparr>bl_widgets := (bl_widgets L)[i := ?w\<lparr>bw_grantState := decided decision\<rparr>]\<rparr>\<rparr>"
    unfolding createBoardGrantSnapshot_def L i by (auto simp: Let_def split: if_splits)
  have "(bl_widgets L)[i := ?w\<lparr>bw_grantState := decided decision\<rparr>]
      = map (\<lambda>v. if bw_name v = bw_name ?w then ?w\<lparr>bw_grantState := decided decision\<rparr> else v) (bl_widgets L)"
    by (rule update_by_key [OF layout_okD(2) [OF d(1)] iw(1)])
  also have "\<dots> = map (decided_widget name decision) (bl_widgets L)"
  proof (rule map_cong [OF refl])
    fix v assume v: "v \<in> set (bl_widgets L)"
    have "v = ?w" if "bw_name v = bw_name ?w"
      using same_key [OF layout_okD(2) [OF d(1)] v nth_mem [OF iw(1)] that] .
    thus "(if bw_name v = bw_name ?w then ?w\<lparr>bw_grantState := decided decision\<rparr> else v) = decided_widget name decision v"
      using iw(2) by (auto simp: decided_widget_def)
  qed
  finally have ws: "(bl_widgets L)[i := ?w\<lparr>bw_grantState := decided decision\<rparr>] = map (decided_widget name decision) (bl_widgets L)" .
  show thesis
  proof (rule that [OF r' _ _ _ _ db'])
    show "snap = \<lparr>bs_sessionKey = s, bs_revision = bs_revision (sb_snapshot ?prev) + 1,
      bs_layout = L\<lparr>bl_widgets := map (decided_widget name decision) (bl_widgets L)\<rparr>\<rparr>"
      unfolding snap ws by (simp add: read_session)
  qed (use k w in auto)
qed

theorem grant_denotes:
  assumes u: "origins_stable (be_parse_url env)" and h: "hasSession db s" and den: "denotes env db s L"
    and p: "grant env db s name decision revision instanceId now = Inr (snap, db')"
  shows "denotes env db' s (bs_layout snap)"
proof -
  note d = denotesD [OF den]
  from grant_cases [OF h den p] obtain r where r: "r \<in> set (widget_rows db s)" "wr_name r = name"
    "bw_grantState (widget_of env r) = GPending"
    and snap: "snap = \<lparr>bs_sessionKey = s, bs_revision = bs_revision (sb_snapshot (readStoredBoard env db s)) + 1,
      bs_layout = L\<lparr>bl_widgets := map (decided_widget name decision) (bl_widgets L)\<rparr>\<rparr>"
    and db': "db' = on_widget s name (decide_row env decision now r) (upsertTabs (readStoredBoard env db s) snap db)"
    by metis
  let ?L' = "L\<lparr>bl_widgets := map (decided_widget name decision) (bl_widgets L)\<rparr>"
  let ?f = "\<lambda>q. if wr_name q = name then decide_row env decision now r q else q"
  have k: "bs_sessionKey snap = s" "bs_layout snap = ?L'" by (simp_all add: snap)
  have key: "wr_session_key (decide_row env decision now r q) = wr_session_key q"
    "wr_name (decide_row env decision now r q) = wr_name q" for q
    by (simp_all add: decide_row_def Let_def)
  have rows: "widget_rows db' s = map ?f (widget_rows db s)"
    unfolding db' by (simp add: widget_rows_on_widget key)
  have L': "layout_ok ?L'"
    by (rule layout_ok_map [OF _ d(1)]) (simp add: decided_widget_def)
  have t: "bl_tabs (bs_layout snap) = bl_tabs L" by (simp add: k)
  have keep: "tr_tab_id ` set (tab_rows db s) \<subseteq> bt_tabId ` set (bl_tabs (bs_layout snap))"
  proof -
    have "tr_tab_id ` set (tab_rows db s) = bt_tabId ` rowToTab ` set (tab_rows db s)" by (simp add: image_image)
    thus ?thesis unfolding d(3) t by blast
  qed
  have D: "db_tabs db' = db_tabs (upsertTabs (readStoredBoard env db s) snap db)" by (simp add: db')
  have dt: "distinct (map bt_tabId (bl_tabs (bs_layout snap)))" unfolding t by (rule layout_okD(1) [OF d(1)])
  note T = written_tabs [OF d(2) dt k(1) keep D]
  have row: "widget_of env (?f q) = decided_widget name decision (widget_of env q) \<and> row_ok env (?f q)"
    if q: "q \<in> set (widget_rows db s)" for q
  proof (cases "wr_name q = name")
    case True
    hence "q = r" by (intro same_key [OF d(4) q r(1)]) (simp add: r(2))
    thus ?thesis using decide_row_ok [OF u d(6) [OF r(1)] r(3)] True by (simp add: decided_widget_def)
  next
    case False
    thus ?thesis using d(6) [OF q] by (simp add: decided_widget_def)
  qed
  show ?thesis
    unfolding denotes_def k(2)
  proof (intro conjI ballI)
    show "layout_ok ?L'" by (rule L')
    show "distinct (map tr_tab_id (tab_rows db' s))" by (rule T(1))
    show "rowToTab ` set (tab_rows db' s) = set (bl_tabs ?L')" using T(2) by (simp add: k)
    have "map wr_name (map ?f (widget_rows db s)) = map wr_name (widget_rows db s)"
      unfolding map_map by (rule map_cong [OF refl]) (simp add: key)
    thus "distinct (map wr_name (widget_rows db' s))" unfolding rows using d(4) by (simp only:)
    have "widget_of env ` ?f ` set (widget_rows db s) = decided_widget name decision ` widget_of env ` set (widget_rows db s)"
      unfolding image_image by (intro image_cong refl conjunct1 [OF row])
    thus "widget_of env ` set (widget_rows db' s) = set (bl_widgets ?L')"
      unfolding rows d(5) by simp
    fix q assume "q \<in> set (widget_rows db' s)"
    then obtain x where "x \<in> set (widget_rows db s)" "q = ?f x" unfolding rows by auto
    thus "row_ok env q" using row by blast
  qed
qed

end
