(* ===== verification/Board_System.thy ===== *)
theory Board_System
  imports Board_Grant
begin

section \<open>Every board of a database, and who approved what\<close>

text \<open>
  The reachable databases: from one without boards, any calls of the store that succeed and any
  change of the session nodes (a deleted node takes its rows with it). Beside the database runs a
  ghost: for each widget whose grant stands, what the operator had before them when they granted it
  (\<open>approval\<close>). The code keeps no such record; the theorems say the rows need none.
\<close>

datatype grant_subject = HtmlBytes string | McpServer "json option"

record approval =
  ap_subject :: grant_subject
  ap_declared :: "board_declared option"

definition subject_of :: "widget_row \<Rightarrow> grant_subject" where
  "subject_of r = (case wr_content_kind r of
     KHtml \<Rightarrow> HtmlBytes (wr_sha256 r)
   | _ \<Rightarrow> McpServer (Option.bind (wr_descriptor_json r) (\<lambda>v. jfield v ''serverName'')))"

definition declared_of :: "board_env \<Rightarrow> widget_row \<Rightarrow> board_declared option" where
  "declared_of env r = mf_declared (parseManifest (be_parse_url env) (wr_manifest r))"

type_synonym approvals = "string \<Rightarrow> string \<Rightarrow> approval option"

definition standing :: "board_db \<Rightarrow> approvals \<Rightarrow> approvals" where
  "standing db A s name =
     (if list_ex (\<lambda>r. wr_name r = name \<and> wr_grant_state r = GGranted) (widget_rows db s) then A s name else None)"

definition approve :: "board_env \<Rightarrow> board_db \<Rightarrow> string \<Rightarrow> string \<Rightarrow> approvals \<Rightarrow> approvals" where
  "approve env db s name A =
     A(s := (A s)(name := map_option (\<lambda>r. \<lparr>ap_subject = subject_of r, ap_declared = declared_of env r\<rparr>)
       (find (\<lambda>r. wr_name r = name) (widget_rows db s))))"

definition set_sessions :: "(string \<Rightarrow> json option option) \<Rightarrow> board_db \<Rightarrow> board_db" where
  "set_sessions f db =
     db\<lparr>db_session_nodes := f, db_tabs := filter (\<lambda>r. f (tr_session_key r) \<noteq> None) (db_tabs db),
        db_widgets := filter (\<lambda>r. f (wr_session_key r) \<noteq> None) (db_widgets db)\<rparr>"

inductive board_reach :: "board_env \<Rightarrow> board_db \<Rightarrow> approvals \<Rightarrow> bool" for env where
  Start: "db_tabs db = [] \<Longrightarrow> db_widgets db = [] \<Longrightarrow> board_reach env db (\<lambda>_ _. None)"
| Sessions: "board_reach env db A \<Longrightarrow> board_reach env (set_sessions f db) (standing (set_sessions f db) A)"
| Ops: "board_reach env db A \<Longrightarrow> applyOps env db s ops now = Inr (snap, db') \<Longrightarrow> board_reach env db' (standing db' A)"
| Put: "board_reach env db A \<Longrightarrow> hex_text 32 gen \<Longrightarrow> putWidget env db s params gen now = Inr (snap, db')
    \<Longrightarrow> board_reach env db' (standing db' A)"
| Grant: "board_reach env db A \<Longrightarrow> grant env db s name DecideGranted revision inst now = Inr (snap, db')
    \<Longrightarrow> board_reach env db' (standing db' (approve env db s name A))"
| Reject: "board_reach env db A \<Longrightarrow> grant env db s name DecideRejected revision inst now = Inr (snap, db')
    \<Longrightarrow> board_reach env db' (standing db' A)"

subsection \<open>Invariants\<close>

definition board_inv :: "board_env \<Rightarrow> board_db \<Rightarrow> bool" where
  "board_inv env db \<longleftrightarrow> (\<forall>s. \<exists>L. denotes env db s L \<and> length (bl_widgets L) \<le> BOARD_MAX_WIDGETS)"

definition covered :: "board_env \<Rightarrow> approvals \<Rightarrow> string \<Rightarrow> widget_row \<Rightarrow> bool" where
  "covered env A s r \<longleftrightarrow>
     (wr_grant_state r = GGranted \<longrightarrow>
       (\<exists>a. A s (wr_name r) = Some a \<and> ap_subject a = subject_of r \<and> wr_content_kind r \<noteq> KPlugin
          \<and> boardDeclarationIsSubset (declared_of env r) (ap_declared a)))"

definition grants_covered :: "board_env \<Rightarrow> board_db \<Rightarrow> approvals \<Rightarrow> bool" where
  "grants_covered env db A \<longleftrightarrow> (\<forall>s. \<forall>r\<in>set (widget_rows db s). covered env A s r)"

lemma denotes_cong:
  "tab_rows d s = tab_rows e s \<Longrightarrow> widget_rows d s = widget_rows e s \<Longrightarrow> denotes env d s L = denotes env e s L"
  by (simp add: denotes_def)

lemma denotes_empty: "tab_rows db s = [] \<Longrightarrow> widget_rows db s = [] \<Longrightarrow> denotes env db s \<lparr>bl_tabs = [], bl_widgets = []\<rparr>"
  by (simp add: denotes_def layout_ok_def js_max_safe_def)

lemma inv_one:
  assumes i: "board_inv env db" and e: "\<And>s'. s' \<noteq> s \<Longrightarrow> tab_rows db' s' = tab_rows db s'"
      "\<And>s'. s' \<noteq> s \<Longrightarrow> widget_rows db' s' = widget_rows db s'"
    and s: "denotes env db' s L" "length (bl_widgets L) \<le> BOARD_MAX_WIDGETS"
  shows "board_inv env db'"
  unfolding board_inv_def
proof
  fix s'
  show "\<exists>L. denotes env db' s' L \<and> length (bl_widgets L) \<le> BOARD_MAX_WIDGETS"
  proof (cases "s' = s")
    case False
    thus ?thesis using i e [OF False] denotes_cong [of db' s' db env] unfolding board_inv_def by metis
  qed (use s in blast)
qed

text \<open>A standing grant is covered when the row is as it was, or when its new state is.\<close>

lemma covered_standing:
  assumes "r \<in> set (widget_rows db s)" "covered env A s r"
  shows "covered env (standing db A) s r"
  using assms by (auto simp: covered_def standing_def list_ex_iff)

lemma subject_cong:
  "wr_content_kind r = wr_content_kind q \<Longrightarrow> wr_sha256 r = wr_sha256 q \<Longrightarrow> wr_descriptor_json r = wr_descriptor_json q
    \<Longrightarrow> subject_of r = subject_of q"
  by (cases "wr_content_kind q") (simp_all add: subject_of_def)

lemma covered_same:
  assumes "covered env A s q" "wr_name r = wr_name q" "wr_grant_state r = wr_grant_state q"
    "wr_content_kind r = wr_content_kind q" "wr_sha256 r = wr_sha256 q"
    "wr_descriptor_json r = wr_descriptor_json q" "declared_of env r = declared_of env q"
  shows "covered env A s r"
proof -
  have "subject_of r = subject_of q" using assms by (intro subject_cong)
  thus ?thesis using assms by (simp add: covered_def)
qed

lemma covered_relayout: "covered env A s r \<Longrightarrow> covered env A s (relayout now w r)"
  by (rule covered_same) (simp_all add: relayout_def set_layout_def declared_of_def)

lemma grants_one:
  assumes g: "grants_covered env db A"
    and e: "\<And>s'. s' \<noteq> s \<Longrightarrow> widget_rows db' s' = widget_rows db s'"
    and A: "\<And>s'. s' \<noteq> s \<Longrightarrow> A' s' = A s'"
    and r: "\<And>r. r \<in> set (widget_rows db' s) \<Longrightarrow> covered env A' s r"
  shows "grants_covered env db' (standing db' A')"
  unfolding grants_covered_def
proof (intro allI ballI)
  fix s' r assume r': "r \<in> set (widget_rows db' s')"
  show "covered env (standing db' A') s' r"
  proof (rule covered_standing [OF r'])
    show "covered env A' s' r"
    proof (cases "s' = s")
      case False
      thus ?thesis using g e A r' unfolding grants_covered_def covered_def by metis
    qed (use r r' in simp)
  qed
qed

subsection \<open>One step\<close>

lemma ops_step:
  assumes i: "board_inv env db" and g: "grants_covered env db A"
    and a: "applyOps env db s ops now = Inr (snap, db')"
  shows "board_inv env db'" "grants_covered env db' (standing db' A)"
proof -
  from i obtain L where L: "denotes env db s L" "length (bl_widgets L) \<le> BOARD_MAX_WIDGETS"
    unfolding board_inv_def by blast
  have "board_inv env db' \<and> grants_covered env db' (standing db' A)"
  proof (cases "ops = []")
    case True
    hence "db' = db" using a by (simp add: applyOps_def)
    thus ?thesis using i grants_one [OF g, of s db A] g by (auto simp: grants_covered_def)
  next
    case False
    hence h: "hasSession db s" using a by (auto simp: applyOps_def split: if_splits)
    note e = applyOps_elsewhere [OF a]
    from a applyOps_Inr [OF h L(1) False] obtain L' where L': "applyBoardOps L ops = Inr (bs_layout snap)"
      and k: "bs_sessionKey snap = s" and db': "db' = applied (readStoredBoard env db s) snap ops now db" by auto
    note d = denotesD [OF L(1)]
    have ok: "layout_ok (bs_layout snap)" by (rule ops_keep_layout [OF d(1) L'])
    have "set (map bw_name (bl_widgets (bs_layout snap))) \<subseteq> set (map bw_name (bl_widgets L))"
      using applied_names [OF d(1) L'] by auto
    hence "length (map bw_name (bl_widgets (bs_layout snap))) \<le> length (map bw_name (bl_widgets L))"
      using distinct_card [OF layout_okD(2) [OF ok]] distinct_card [OF layout_okD(2) [OF d(1)]]
      by (metis List.finite_set card_mono)
    hence "board_inv env db'"
      using inv_one [OF i e(1,2) applyOps_stores(1) [OF h L(1) a]] L(2) by simp
    moreover have "covered env A s u" if u: "u \<in> set (widget_rows db' s)" for u
    proof -
      from u obtain r w where r: "r \<in> set (widget_rows db s)" "w \<in> set (bl_widgets (bs_layout snap))"
        "bw_name w = wr_name r" "u = applied_row (readStoredBoard env db s) snap ops now r"
        unfolding db' applied_widget_rows [OF L(1) L' refl k] by auto
      from applied_widget(3) [OF L(1) L' refl r(1-3), of now] r(4) obtain X h where
        X: "u = (relayout now w r)\<lparr>wr_manifest := X\<rparr>"
        "parseManifest (be_parse_url env) X = (parseManifest (be_parse_url env) (wr_manifest r))\<lparr>mf_heightMode := h\<rparr>"
        by blast
      have "covered env A s r" using g r(1) by (simp add: grants_covered_def)
      thus ?thesis
        by (rule covered_same) (simp_all add: X relayout_def set_layout_def declared_of_def)
    qed
    hence "grants_covered env db' (standing db' A)"
      using grants_one [where A' = A, OF g e(2)] by blast
    ultimately show ?thesis by blast
  qed
  thus "board_inv env db'" "grants_covered env db' (standing db' A)" by blast+
qed

lemma set_sessions_rows:
  "tab_rows (set_sessions f db) s = (if f s = None then [] else tab_rows db s)"
  "widget_rows (set_sessions f db) s = (if f s = None then [] else widget_rows db s)"
  by (auto simp: tab_rows_def widget_rows_def set_sessions_def filter_empty_conv intro!: filter_cong)

lemma sessions_step:
  assumes i: "board_inv env db" and g: "grants_covered env db A"
  shows "board_inv env (set_sessions f db)" "grants_covered env (set_sessions f db) (standing (set_sessions f db) A)"
proof -
  show "board_inv env (set_sessions f db)"
    unfolding board_inv_def
  proof
    fix s
    show "\<exists>L. denotes env (set_sessions f db) s L \<and> length (bl_widgets L) \<le> BOARD_MAX_WIDGETS"
    proof (cases "f s")
      case None
      thus ?thesis using denotes_empty [of "set_sessions f db" s env] by (auto simp: set_sessions_rows)
    next
      case (Some x)
      thus ?thesis using i denotes_cong [of "set_sessions f db" s db env]
        unfolding board_inv_def by (simp add: set_sessions_rows)
    qed
  qed
  show "grants_covered env (set_sessions f db) (standing (set_sessions f db) A)"
    using g covered_standing unfolding grants_covered_def by (auto simp: set_sessions_rows split: if_splits)
qed

lemma subset_trans: "boardDeclarationIsSubset a b \<Longrightarrow> boardDeclarationIsSubset b c \<Longrightarrow> boardDeclarationIsSubset a c"
  by (auto simp: boardDeclarationIsSubset_def list_all_iff)

lemma subset_refl: "boardDeclarationIsSubset a a"
  by (auto simp: boardDeclarationIsSubset_def list_all_iff)

lemma put_covered:
  assumes p: "put_done env db s params L gen now snap db' d w" and gen: "hex_text 32 gen" and den: "denotes env db s L"
    and g: "\<forall>r\<in>set (widget_rows db s). covered env A s r" and q: "wr_name q = bw_name w"
  shows "covered env A s (relayout now w (put_fields_of env params d w gen now (set_layout w q)))"
  unfolding covered_def
proof
  let ?u = "relayout now w (put_fields_of env params d w gen now (set_layout w q))"
  note W = put_row_written [OF p gen q]
  note dn = denotesD [OF den]
  let ?ex = "find (\<lambda>r. wr_name r = pm_name params) (widget_rows db s)"
  assume "wr_grant_state ?u = GGranted"
  hence granted: "bw_grantState w = GGranted" using W(3) by simp
  have dnorm: "declared_normal (be_parse_url env) d" and wn: "bw_name w = pm_name params"
    and sw: "strip_widget w = strip_widget (put_widget_of env db s params L gen d)"
    using p by (simp_all add: put_done_def)
  note f = put_fields [OF dnorm sw]
  have pres: "preservesGrant env (pm_content params) d (grantScopeMatches ?ex (pm_content params))
       (Option.bind ?ex wr_granted_sha) (widget_named (with_main_tab L) (pm_name params))"
    and kind: "content_kind_of (pm_content params) \<noteq> KPlugin"
    using granted unfolding f(4) put_grant_def put_grant_state_def canonical_simps
    by (auto split: board_content.splits if_splits)
  then obtain e where e: "widget_named (with_main_tab L) (pm_name params) = Some e" "bw_grantState e = GGranted"
    and sub: "boardDeclarationIsSubset d (bw_declared e)"
    by (auto simp: preservesGrant_def)
  from e(1) have "e \<in> set (bl_widgets L)" "bw_name e = pm_name params"
    using with_main_tab_ok(2) [OF dn(1)] by (auto simp: widget_named_def find_Some_iff)
  then obtain r where r: "r \<in> set (widget_rows db s)" "e = widget_of env r" "wr_name r = pm_name params"
    using dn(5) by (metis imageE widget_of_simps(1))
  have ok: "row_ok env r" by (rule dn(6) [OF r(1)])
  have rg: "wr_grant_state r = GGranted" using row_ok_grant [OF ok] e(2) r(2) by simp
  from g r(1) rg obtain a where a: "A s (wr_name r) = Some a" "ap_subject a = subject_of r"
    "boardDeclarationIsSubset (declared_of env r) (ap_declared a)"
    unfolding covered_def by blast
  have find: "?ex = Some r" using find_key [OF dn(4) r(1)] r(3) by simp
  have gs: "wr_granted_sha r = Some (wr_sha256 r)" using ok rg by (simp add: row_ok_def)
  have subj: "subject_of ?u = subject_of r"
  proof (cases "pm_content params")
    case (CHtml html)
    hence "wr_content_kind r = KHtml" "be_sha256 env html = wr_sha256 r"
      using pres gs by (auto simp: preservesGrant_def find grantScopeMatches_def split: content_kind.splits option.splits)
    thus ?thesis using CHtml
      by (simp add: subject_of_def relayout_def set_layout_def createBoardWidgetContentFields_def Let_def)
  next
    case (CMcpApp desc b)
    hence "wr_content_kind r = KMcpApp"
      "Option.bind (wr_descriptor_json r) (\<lambda>v. jfield v ''serverName'') = Some (JStr (md_serverName desc))"
      using pres by (auto simp: preservesGrant_def find grantScopeMatches_def split: content_kind.splits option.splits)
    thus ?thesis using CMcpApp
      by (simp add: subject_of_def relayout_def set_layout_def createBoardWidgetContentFields_def Let_def
          descriptor_value_def jfield_def jprop_def)
  qed (use kind in simp)
  have "declared_of env ?u = d"
    using arg_cong [OF W(1), of bw_declared] f(2) by (simp add: declared_of_def as_stored_def)
  moreover have "bw_declared e = declared_of env r" by (simp add: r(2) declared_of_def)
  ultimately have "boardDeclarationIsSubset (declared_of env ?u) (ap_declared a)"
    using subset_trans [OF sub] a(3) by simp
  moreover have "wr_content_kind ?u \<noteq> KPlugin"
    using arg_cong [OF W(1), of bw_contentKind] f(1) kind by (simp add: as_stored_def)
  moreover have "wr_name ?u = wr_name r" using q wn r(3) by simp
  ultimately show "\<exists>a. A s (wr_name ?u) = Some a \<and> ap_subject a = subject_of ?u \<and> wr_content_kind ?u \<noteq> KPlugin
      \<and> boardDeclarationIsSubset (declared_of env ?u) (ap_declared a)"
    using a(1,2) subj by auto
qed

lemma put_step:
  assumes u: "origins_stable (be_parse_url env)" and gen: "hex_text 32 gen"
    and i: "board_inv env db" and g: "grants_covered env db A"
    and p: "putWidget env db s params gen now = Inr (snap, db')"
  shows "board_inv env db'" "grants_covered env db' (standing db' A)"
proof -
  from i obtain L where L: "denotes env db s L" "length (bl_widgets L) \<le> BOARD_MAX_WIDGETS"
    unfolding board_inv_def by blast
  have h: "hasSession db s" using p by (simp add: putWidget_def split: if_splits)
  from putWidget_cases [OF u h L(1) p] obtain d w where P: "put_done env db s params L gen now snap db' d w" by blast
  note S = put_stored [OF P gen L(1)] and e = put_elsewhere [OF P]
  have g0: "gained (with_main_tab L) (put_widget_of env db s params L gen d) (bs_layout snap)"
    and sw: "strip_widget w = strip_widget (put_widget_of env db s params L gen d)" and wn: "bw_name w = pm_name params"
    and room: "widget_named (with_main_tab L) (pm_name params) = None \<longrightarrow> length (bl_widgets L) < BOARD_MAX_WIDGETS"
    using P by (simp_all add: put_done_def)
  note dn = denotesD [OF L(1)]
  have ok: "layout_ok (bs_layout snap)" using g0 by (simp add: gained_def)
  have names: "bw_name ` set (bl_widgets (bs_layout snap)) = insert (pm_name params) (bw_name ` set (bl_widgets L))"
    using gained_widgets(1) [OF g0] with_main_tab_ok(2) [OF dn(1)] strip_widget_eqD(1) [OF sw] wn by simp
  have "length (bl_widgets (bs_layout snap)) = card (bw_name ` set (bl_widgets (bs_layout snap)))"
    using distinct_card [OF layout_okD(2) [OF ok]] by simp
  also have "\<dots> \<le> BOARD_MAX_WIDGETS"
  proof (cases "pm_name params \<in> bw_name ` set (bl_widgets L)")
    case True
    thus ?thesis unfolding names using distinct_card [OF layout_okD(2) [OF dn(1)]] L(2) by (simp add: insert_absorb)
  next
    case False
    hence "widget_named (with_main_tab L) (pm_name params) = None"
      unfolding widget_named_def find_None_iff with_main_tab_ok(2) [OF dn(1)] by (metis image_eqI)
    with room False show ?thesis unfolding names using distinct_card [OF layout_okD(2) [OF dn(1)]] by simp
  qed
  finally have "length (bl_widgets (stored_layout params gen (bs_layout snap))) \<le> BOARD_MAX_WIDGETS"
    by (simp add: stored_layout_def)
  from inv_one [OF i e(2,1) S(1) this] show "board_inv env db'" by blast
  have g': "\<forall>r\<in>set (widget_rows db s). covered env A s r" using g by (simp add: grants_covered_def)
  have "covered env A s r" if r: "r \<in> set (widget_rows db' s)" for r
    using S(3) [OF r] put_covered [OF P gen L(1) g'] g' covered_relayout by metis
  from grants_one [OF g e(1) refl this] show "grants_covered env db' (standing db' A)" by blast
qed

lemma grant_step:
  assumes u: "origins_stable (be_parse_url env)" and i: "board_inv env db" and g: "grants_covered env db A"
    and p: "grant env db s name decision revision inst now = Inr (snap, db')"
  shows "board_inv env db'"
    and "grants_covered env db' (standing db' (if decision = DecideGranted then approve env db s name A else A))"
proof -
  from i obtain L where L: "denotes env db s L" "length (bl_widgets L) \<le> BOARD_MAX_WIDGETS"
    unfolding board_inv_def by blast
  have h: "hasSession db s" using p by (simp add: grant_def split: if_splits)
  note dn = denotesD [OF L(1)]
  from grant_cases [OF h L(1) p] obtain r where r: "r \<in> set (widget_rows db s)" "wr_name r = name"
    "bw_grantState (widget_of env r) = GPending"
    and snap: "snap = \<lparr>bs_sessionKey = s, bs_revision = bs_revision (sb_snapshot (readStoredBoard env db s)) + 1,
      bs_layout = L\<lparr>bl_widgets := map (decided_widget name decision) (bl_widgets L)\<rparr>\<rparr>"
    and db': "db' = on_widget s name (decide_row env decision now r) (upsertTabs (readStoredBoard env db s) snap db)"
    by metis
  have key: "wr_session_key (decide_row env decision now r q) = wr_session_key q" for q
    by (simp add: decide_row_def Let_def)
  have k: "bs_sessionKey snap = s" by (simp add: snap)
  have e: "s' \<noteq> s \<Longrightarrow> tab_rows db' s' = tab_rows db s'" "s' \<noteq> s \<Longrightarrow> widget_rows db' s' = widget_rows db s'" for s'
    unfolding db' using tab_rows_cong [of "on_widget s name (decide_row env decision now r) (upsertTabs (readStoredBoard env db s) snap db)" "upsertTabs (readStoredBoard env db s) snap db"]
    by (simp_all add: widget_rows_on_widget key k)
  have "length (bl_widgets (bs_layout snap)) \<le> BOARD_MAX_WIDGETS" using L(2) by (simp add: snap)
  from inv_one [OF i e grant_denotes [OF u h L(1) p] this] show "board_inv env db'" by blast
  let ?A = "if decision = DecideGranted then approve env db s name A else A"
  have rows: "widget_rows db' s = map (\<lambda>q. if wr_name q = name then decide_row env decision now r q else q) (widget_rows db s)"
    unfolding db' by (simp add: widget_rows_on_widget key)
  have find: "find (\<lambda>q. wr_name q = name) (widget_rows db s) = Some r"
    using find_key [OF dn(4) r(1)] r(2) by simp
  have "covered env ?A s q'" if q': "q' \<in> set (widget_rows db' s)" for q'
  proof -
    from q' obtain q where q: "q \<in> set (widget_rows db s)" "q' = (if wr_name q = name then decide_row env decision now r q else q)"
      unfolding rows by auto
    show ?thesis
    proof (cases "wr_name q = name")
      case False
      hence "?A s (wr_name q) = A s (wr_name q)" by (simp add: approve_def)
      thus ?thesis using g q False by (simp add: grants_covered_def covered_def)
    next
      case True
      hence "q = r" by (intro same_key [OF dn(4) q(1) r(1)]) (simp add: r(2))
      hence q2: "q' = decide_row env decision now r r" using q(2) True by simp
      note D = decide_row_ok [OF u dn(6) [OF r(1)] r(3), of decision now]
      have dd: "declared_of env q' = declared_of env r"
        using arg_cong [OF D(2), of bw_declared] by (simp add: q2 declared_of_def)
      have ss: "subject_of q' = subject_of r" "wr_content_kind q' = wr_content_kind r" "wr_name q' = name"
        by (intro subject_cong; simp add: q2 decide_row_def Let_def)
          (simp_all add: q2 decide_row_def Let_def r(2))
      have pl: "wr_content_kind r \<noteq> KPlugin"
        using dn(6) [OF r(1)] r(3) row_ok_grant [OF dn(6) [OF r(1)]]
        by (auto simp: row_ok_def content_ok_def Let_def effectiveGrantState_def)
      show ?thesis
      proof (cases decision)
        case DecideGranted
        thus ?thesis
          using ss dd pl find subset_refl by (simp add: covered_def approve_def)
      next
        case DecideRejected
        thus ?thesis using D(3) by (simp add: covered_def q2)
      qed
    qed
  qed
  moreover have "s' \<noteq> s \<Longrightarrow> ?A s' = A s'" for s' by (simp add: approve_def)
  ultimately show "grants_covered env db' (standing db' ?A)"
    using grants_one [OF g e(2)] by blast
qed

theorem reach_inv:
  assumes u: "origins_stable (be_parse_url env)" and r: "board_reach env db A"
  shows "board_inv env db \<and> grants_covered env db A"
  using r
proof induction
  case (Start db)
  hence "tab_rows db s = []" "widget_rows db s = []" for s by (simp_all add: tab_rows_def widget_rows_def)
  thus ?case using denotes_empty [of db] by (fastforce simp: board_inv_def grants_covered_def)
next
  case (Sessions db A f)
  thus ?case using sessions_step by blast
next
  case (Ops db A s ops now snap db')
  thus ?case using ops_step by blast
next
  case (Put db A gen s params now snap db')
  thus ?case using put_step [OF u] by blast
next
  case (Grant db A s name revision inst now snap db')
  from grant_step [OF u _ _ Grant.hyps(2)] Grant.IH show ?case by (auto simp only: if_True refl)
next
  case (Reject db A s name revision inst now snap db')
  from grant_step [OF u _ _ Reject.hyps(2)] Reject.IH show ?case by (auto simp only: if_False grant_decision.distinct)
qed

subsection \<open>Sizes\<close>

text \<open>
  Whatever sizes the requests ask for, the widgets of every stored board stay within the grid: a
  put takes a preset or keeps the size the widget has, a resize is clamped, nothing else sets one.
\<close>

definition in_grid :: "board_widget \<Rightarrow> bool" where
  "in_grid w \<longleftrightarrow> 1 \<le> bw_sizeW w \<and> bw_sizeW w \<le> 12 \<and> 1 \<le> bw_sizeH w \<and> bw_sizeH w \<le> 20"

definition grid_inv :: "board_env \<Rightarrow> board_db \<Rightarrow> bool" where
  "grid_inv env db \<longleftrightarrow> (\<forall>s. \<forall>r\<in>set (widget_rows db s). in_grid (widget_of env r))"

lemma grid_strip: "strip_widget w = strip_widget v \<Longrightarrow> in_grid w = in_grid v"
  using strip_widget_eqD(8,9) [of w v] by (simp add: in_grid_def)

lemma grid_resized: "in_grid w \<Longrightarrow> in_grid (fold resize_by ops w)"
proof (induction ops arbitrary: w)
  case (Cons op ops)
  have "in_grid (resize_by op w)"
    using Cons.prems by (cases op) (auto simp: in_grid_def resized_def clampInteger_def)
  thus ?case using Cons.IH by simp
qed simp

lemma grid_denotes:
  assumes "grid_inv env db" "denotes env db s L" "w \<in> set (bl_widgets L)"
  shows "in_grid w"
  using assms denotesD(5) [OF assms(2)] unfolding grid_inv_def by (metis imageE)

text \<open>A write to one session whose new board lies in the grid.\<close>

lemma grid_one:
  assumes i: "grid_inv env db" and e: "\<And>s'. s' \<noteq> s \<Longrightarrow> widget_rows db' s' = widget_rows db s'"
    and d: "denotes env db' s L'" and g: "\<And>w. w \<in> set (bl_widgets L') \<Longrightarrow> in_grid w"
  shows "grid_inv env db'"
  unfolding grid_inv_def
proof (intro allI ballI)
  fix s' r assume r: "r \<in> set (widget_rows db' s')"
  show "in_grid (widget_of env r)"
  proof (cases "s' = s")
    case True
    hence "widget_of env r \<in> set (bl_widgets L')" using r denotesD(5) [OF d] by blast
    thus ?thesis by (rule g)
  qed (use i e r in \<open>simp add: grid_inv_def\<close>)
qed

lemma ops_grid:
  assumes b: "board_inv env db" and i: "grid_inv env db" and a: "applyOps env db s ops now = Inr (snap, db')"
  shows "grid_inv env db'"
proof (cases "ops = []")
  case True
  thus ?thesis using a i by (simp add: applyOps_def)
next
  case False
  hence h: "hasSession db s" using a by (auto simp: applyOps_def split: if_splits)
  from b obtain L where L: "denotes env db s L" unfolding board_inv_def by blast
  from a applyOps_Inr [OF h L False] have L': "applyBoardOps L ops = Inr (bs_layout snap)" by auto
  show ?thesis
  proof (rule grid_one [OF i applyOps_elsewhere(2) [OF a] applyOps_stores(1) [OF h L a]])
    fix w assume "w \<in> set (bl_widgets (bs_layout snap))"
    from ops_widgets [OF denotesD(1) [OF L] L' this] obtain v where
      "v \<in> set (bl_widgets L)" "strip_widget w = strip_widget (fold resize_by ops v)" by blast
    thus "in_grid w" using grid_strip grid_resized grid_denotes [OF i L] by metis
  qed
qed

lemma preset_grid: "1 \<le> fst (BOARD_SIZE_PRESETS z) \<and> fst (BOARD_SIZE_PRESETS z) \<le> 12
    \<and> 1 \<le> snd (BOARD_SIZE_PRESETS z) \<and> snd (BOARD_SIZE_PRESETS z) \<le> 20"
  by (cases z) simp_all

lemma put_result_size:
  "bw_sizeW (put_result L params g gen d) = (case pp_size (pm_placement params) of
     Some z \<Rightarrow> fst (BOARD_SIZE_PRESETS z)
   | None \<Rightarrow> case_option (fst (BOARD_SIZE_PRESETS SizeMd)) bw_sizeW (widget_named L (pm_name params)))"
  "bw_sizeH (put_result L params g gen d) = (case pp_size (pm_placement params) of
     Some z \<Rightarrow> snd (BOARD_SIZE_PRESETS z)
   | None \<Rightarrow> case_option (snd (BOARD_SIZE_PRESETS SizeMd)) bw_sizeH (widget_named L (pm_name params)))"
  by (simp_all add: put_result_def Let_def merged_def put_widget_value_def assign_widget_def undeclared_def
      split: option.split)

lemma put_widget_grid:
  assumes i: "grid_inv env db" and L: "denotes env db s L"
  shows "in_grid (put_widget_of env db s params L gen d)"
proof -
  have e: "in_grid e" if "widget_named (with_main_tab L) (pm_name params) = Some e" for e
    using that with_main_tab_ok(2) [OF denotesD(1) [OF L]] grid_denotes [OF i L]
    by (auto simp: widget_named_def find_Some_iff)
  show ?thesis
  proof (cases "pp_size (pm_placement params)")
    case None
    with e preset_grid [of SizeMd] show ?thesis
      by (simp add: in_grid_def put_widget_of_def Let_def put_result_size split: option.split)
  next
    case (Some z)
    with preset_grid [of z] show ?thesis
      by (simp add: in_grid_def put_widget_of_def Let_def put_result_size)
  qed
qed

lemma put_grid:
  assumes u: "origins_stable (be_parse_url env)" and gen: "hex_text 32 gen"
    and b: "board_inv env db" and i: "grid_inv env db" and p: "putWidget env db s params gen now = Inr (snap, db')"
  shows "grid_inv env db'"
proof -
  from b obtain L where L: "denotes env db s L" unfolding board_inv_def by blast
  have h: "hasSession db s" using p by (simp add: putWidget_def split: if_splits)
  from putWidget_cases [OF u h L p] obtain d w where P: "put_done env db s params L gen now snap db' d w" by blast
  let ?m = "put_widget_of env db s params L gen d"
  have g: "gained (with_main_tab L) ?m (bs_layout snap)" using P by (simp add: put_done_def)
  show ?thesis
  proof (rule grid_one [OF i put_elsewhere(1) [OF P] put_stored(1) [OF P gen L]])
    fix x assume "x \<in> set (bl_widgets (stored_layout params gen (bs_layout snap)))"
    then obtain v where v: "v \<in> set (bl_widgets (bs_layout snap))" "in_grid x = in_grid v"
      by (auto simp: stored_layout_def as_stored_def in_grid_def)
    have "in_grid v"
    proof (cases "bw_name v = bw_name ?m")
      case True
      with gained_widgets(2) [OF g v(1)] grid_strip put_widget_grid [OF i L] show ?thesis by blast
    next
      case False
      from gained_widgets(3) [OF g v(1) this] obtain y where "y \<in> set (bl_widgets L)" "strip_widget v = strip_widget y"
        unfolding with_main_tab_ok(2) [OF denotesD(1) [OF L]] by blast
      with grid_strip grid_denotes [OF i L] show ?thesis by blast
    qed
    with v(2) show "in_grid x" by simp
  qed
qed

lemma grant_grid:
  assumes u: "origins_stable (be_parse_url env)" and b: "board_inv env db" and i: "grid_inv env db"
    and p: "grant env db s name decision revision inst now = Inr (snap, db')"
  shows "grid_inv env db'"
proof -
  from b obtain L where L: "denotes env db s L" unfolding board_inv_def by blast
  have h: "hasSession db s" using p by (simp add: grant_def split: if_splits)
  from grant_cases [OF h L p] obtain r where
    snap: "snap = \<lparr>bs_sessionKey = s, bs_revision = bs_revision (sb_snapshot (readStoredBoard env db s)) + 1,
      bs_layout = L\<lparr>bl_widgets := map (decided_widget name decision) (bl_widgets L)\<rparr>\<rparr>"
    and db': "db' = on_widget s name (decide_row env decision now r) (upsertTabs (readStoredBoard env db s) snap db)"
    by metis
  have key: "wr_session_key (decide_row env decision now r q) = wr_session_key q" for q
    by (simp add: decide_row_def Let_def)
  have e: "widget_rows db' s' = widget_rows db s'" if "s' \<noteq> s" for s'
    using that unfolding db' by (simp add: widget_rows_on_widget key snap)
  show ?thesis
  proof (rule grid_one [OF i e grant_denotes [OF u h L p]])
    fix x assume "x \<in> set (bl_widgets (bs_layout snap))"
    then obtain v where "v \<in> set (bl_widgets L)" "x = decided_widget name decision v" by (auto simp: snap)
    with grid_denotes [OF i L] show "in_grid x" by (fastforce simp: in_grid_def decided_widget_def)
  qed
qed

lemma reach_grid:
  assumes u: "origins_stable (be_parse_url env)" and r: "board_reach env db A"
  shows "grid_inv env db"
  using r
proof induction
  case (Start db)
  thus ?case by (simp add: grid_inv_def widget_rows_def)
next
  case (Sessions db A f)
  thus ?case by (simp add: grid_inv_def set_sessions_rows)
next
  case (Ops db A s ops now snap db')
  thus ?case using ops_grid reach_inv [OF u] by blast
next
  case (Put db A gen s params now snap db')
  thus ?case using put_grid [OF u] reach_inv [OF u] by blast
next
  case (Grant db A s name revision inst now snap db')
  thus ?case using grant_grid [OF u] reach_inv [OF u] by blast
next
  case (Reject db A s name revision inst now snap db')
  thus ?case using grant_grid [OF u] reach_inv [OF u] by blast
qed

end
