(* ===== verification/Board_Properties.thy ===== *)
theory Board_Properties
  imports Board_System
begin

section \<open>A board to try the store on\<close>

text \<open>
  One session, one HTML widget that declares a network origin and a tool: put, then granted. The
  values the store computes for it, for the concrete instances of the properties.
\<close>

definition demo_url :: url_parser where
  "demo_url u = (if u = ''https://a.b'' then Some \<lparr>url_protocol = ''https:'', url_username = [], url_password = [],
     url_hostname = ''a.b'', url_pathname = ''/'', url_search = [], url_hash = [], url_origin = ''https://a.b''\<rparr> else None)"

definition demo_env :: board_env where
  "demo_env = \<lparr>be_parse_url = demo_url, be_sha256 = (\<lambda>s. ''#'' @ s), be_num_text = (\<lambda>_. ''0'')\<rparr>"

definition demo_db :: board_db where
  "demo_db = \<lparr>db_session_nodes = (\<lambda>s. if s = ''s'' then Some (Some (JObj [(''sessionId'', JStr ''1'')])) else None),
     db_tabs = [], db_widgets = []\<rparr>"

definition demo_gen :: string where
  "demo_gen = replicate 32 (CHR ''a'')"

definition demo_declared :: "board_declared option" where
  "demo_declared = Some \<lparr>bd_netOrigins = Some [''https://a.b''], bd_tools = Some [''t'']\<rparr>"

definition demo_put :: "board_content \<Rightarrow> put_params" where
  "demo_put content = \<lparr>pm_name = ''w'', pm_title = None, pm_content = content, pm_presentation = None,
     pm_heightMode = None, pm_placement = \<lparr>pp_tabId = None, pp_size = None, pp_after = None\<rparr>,
     pm_declared = (case content of CHtml _ \<Rightarrow> demo_declared | _ \<Rightarrow> None)\<rparr>"

definition demo_widget :: "grant_state \<Rightarrow> board_widget" where
  "demo_widget g = \<lparr>bw_name = ''w'', bw_tabId = ''main'', bw_title = None, bw_contentKind = KHtml,
     bw_presentation = None, bw_heightMode = None, bw_pluginKind = None, bw_props = None,
     bw_sizeW = 6, bw_sizeH = 4, bw_position = 0, bw_grantState = g, bw_revision = 1,
     bw_instanceId = Some demo_gen, bw_declaredSummary = createBoardDeclaredSummary demo_declared,
     bw_declared = demo_declared\<rparr>"

definition demo_layout :: "grant_state \<Rightarrow> board_layout" where
  "demo_layout g = \<lparr>bl_tabs = [main_tab], bl_widgets = [demo_widget g]\<rparr>"

definition demo_row :: "grant_state \<Rightarrow> widget_row" where
  "demo_row g = \<lparr>wr_session_key = ''s'', wr_name = ''w'', wr_tab_id = ''main'', wr_title = None,
     wr_content_kind = KHtml, wr_html = Some ''hi'', wr_descriptor_json = None, wr_sha256 = ''#hi'',
     wr_view_generation = Some demo_gen, wr_revision = 1, wr_size_w = 6, wr_size_h = 4, wr_position = 0,
     wr_manifest = serializeManifest demo_declared g None None None, wr_grant_state = g,
     wr_granted_sha = (if g = GGranted then Some ''#hi'' else None),
     wr_created_by = AuthorAgent, wr_created_at = 0, wr_updated_at = 0\<rparr>"

definition demo_tab :: "int \<Rightarrow> tab_row" where
  "demo_tab v = \<lparr>tr_session_key = ''s'', tr_tab_id = ''main'', tr_title = ''Main'', tr_position = 0,
     tr_chat_dock = DockRight, tr_created_by = AuthorAgent, tr_revision = v\<rparr>"

definition demo_at :: "int \<Rightarrow> grant_state \<Rightarrow> board_db" where
  "demo_at v g = demo_db\<lparr>db_tabs := [demo_tab v], db_widgets := [demo_row g]\<rparr>"

definition demo_snap :: "int \<Rightarrow> grant_state \<Rightarrow> board_snapshot" where
  "demo_snap v g = \<lparr>bs_sessionKey = ''s'', bs_revision = v, bs_layout = demo_layout g\<rparr>"

lemma demo_stable: "origins_stable (be_parse_url demo_env)"
  by (auto simp: origins_stable_def demo_env_def demo_url_def split: if_splits)

lemma demo_gen_hex [simp]: "hex_text 32 demo_gen"
  by (simp add: hex_text_def demo_gen_def hex_char_def list_all_iff)

lemma demo_session [simp]: "hasSession demo_db ''s''" "hasSession (demo_at v g) ''s''"
  by (simp_all add: hasSession_def demo_db_def demo_at_def jprop_def)

lemma demo_normal: "normalizeBoardWidgetDeclared (be_parse_url demo_env) demo_declared = Inr demo_declared"
  by (simp add: demo_declared_def demo_env_def demo_url_def normalizeBoardWidgetDeclared_def
      MAX_DECLARED_ORIGINS_def MAX_DECLARED_TOOLS_def normalizeBoardNetOrigin_def
      js_trim_def js_space_def bracketed_host_def plain_host_def wildcard_host_def letter_char_def digit_char_def
      normalizeTool_def Let_def BOARD_WIDGET_TOOL_MAX_LENGTH_def hasControlCharacter_def control_char_def
      uniqueValues_def sandbox_connect_domains_def normalizeDomains_def domain_entry_def map_filter_simps
      json_list_bytes_def json_quote_def json_char_def utf8_length_def csp_header_bytes_def csp_directives_def
      sq_def non_empty_def)

lemma demo_parse:
  "parseManifest (be_parse_url demo_env) (wr_manifest (demo_row g)) = written_manifest demo_declared g None None None"
  unfolding demo_row_def widget_row.simps
  by (rule parse_serialize) (simp_all add: declared_normal_def demo_normal)

lemma demo_denotes: "denotes demo_env (demo_at v g) ''s'' (demo_layout g)"
proof -
  have rows: "tab_rows (demo_at v g) ''s'' = [demo_tab v]" "widget_rows (demo_at v g) ''s'' = [demo_row g]"
    by (simp_all add: tab_rows_def widget_rows_def demo_at_def demo_tab_def demo_row_def)
  have e: "effectiveGrantState g (written_manifest demo_declared g None None None) = g"
    by (simp add: effectiveGrantState_def written_manifest_def demo_declared_def)
  have ok: "row_ok demo_env (demo_row g)"
    unfolding row_ok_def content_ok_def demo_parse Let_def using e demo_gen_hex
    by (simp add: demo_row_def written_manifest_def demo_env_def)
  have w: "widget_of demo_env (demo_row g) = demo_widget g"
    unfolding widget_of_def rowToWidget_def demo_parse Let_def using e hex_not_empty [OF demo_gen_hex]
    by (simp add: demo_row_def written_manifest_def demo_widget_def truthy_def)
  have t: "rowToTab (demo_tab v) = main_tab" by (simp add: rowToTab_def demo_tab_def main_tab_def)
  have "layout_ok (demo_layout g)"
    by (simp add: layout_ok_def demo_layout_def demo_widget_def main_tab_def js_max_safe_def)
  thus ?thesis using ok w t by (simp add: denotes_def rows demo_layout_def)
qed

lemma demo_start: "board_reach demo_env demo_db (\<lambda>_ _. None)"
  by (rule board_reach.Start) (simp_all add: demo_db_def)

lemma demo_empty: "denotes demo_env demo_db s \<lparr>bl_tabs = [], bl_widgets = []\<rparr>"
  by (rule denotes_empty) (simp_all add: tab_rows_def widget_rows_def demo_db_def)

lemma demo_read_empty:
  "readStoredBoard demo_env demo_db ''s'' = \<lparr>sb_snapshot = emptyBoardSnapshot ''s'', sb_tabRows = [],
     sb_widgetRows = [], sb_htmlViewMetadata = []\<rparr>"
  by (simp add: readStoredBoard_def tab_rows_def widget_rows_def Let_def demo_db_def normalizeBoardLayout_def
      number_tabs_def enumerate_eq_zip map_filter_simps emptyBoardSnapshot_def)

lemma number_one:
  "number_tabs [t] = [t\<lparr>bt_position := 0\<rparr>]" "number_in_order [w] = [w\<lparr>bw_position := 0\<rparr>]"
  "number_widgets f [w] = [w\<lparr>bw_position := f (bw_tabId w)\<rparr>]"
  by (simp_all add: number_tabs_def number_in_order_def enumerate_eq_zip)

lemma normalize_one:
  "normalizeBoardLayout \<lparr>bl_tabs = [t], bl_widgets = [w]\<rparr> = \<lparr>bl_tabs = [t\<lparr>bt_position := 0\<rparr>], bl_widgets = [w\<lparr>bw_position := 0\<rparr>]\<rparr>"
  by (simp add: normalizeBoardLayout_def number_one Let_def)

lemma demo_insert:
  "insertBoardWidget \<lparr>bl_tabs = [main_tab], bl_widgets = []\<rparr> (demo_widget GPending) ''main'' None False = Inr (demo_layout GPending)"
  by (simp add: insertBoardWidget_def requireWidget_def requireTab_def moveWidget_def target_position_def Let_def
      main_tab_def demo_widget_def demo_layout_def without_def splice_in_def number_one normalize_one)

lemma demo_put_snapshot:
  "createBoardWidgetPutSnapshot demo_env (emptyBoardSnapshot ''s'') (canonical_params (demo_put (CHtml ''hi'')) demo_declared)
     True None demo_gen = Inr (demo_snap 1 GPending)"
proof -
  have v: "put_widget_value (canonical_params (demo_put (CHtml ''hi'')) demo_declared) None ''main'' GPending 0 demo_gen demo_declared
     = demo_widget GPending"
    by (simp add: put_widget_value_def canonical_params_def demo_put_def assigned_def demo_widget_def Let_def)
  have n: "normalizeBoardLayout \<lparr>bl_tabs = [], bl_widgets = []\<rparr> = \<lparr>bl_tabs = [], bl_widgets = []\<rparr>"
    by (simp add: normalizeBoardLayout_def number_tabs_def enumerate_eq_zip Let_def)
  obtain y where s: "createBoardDeclaredSummary demo_declared = Some y"
    by (simp add: createBoardDeclaredSummary_def demo_declared_def non_empty_def)
  show ?thesis
    using v demo_normal demo_insert
    by (simp add: s createBoardWidgetPutSnapshot_def validatePluginContent_def demo_put_def canonical_params_def html_too_large_def
        utf8_length_def BOARD_MAX_WIDGET_HTML_BYTES_def emptyBoardSnapshot_def n with_main_tab_def widget_named_def
        put_tab_id_def main_tab_def BOARD_MAX_WIDGETS_def preservesGrant_def put_grant_state_def truthy_def demo_snap_def Let_def)
qed

lemma demo_tabs:
  "db_tabs db = [] \<Longrightarrow> upsertTabs (readStoredBoard demo_env demo_db ''s'') (demo_snap 1 g) db = db\<lparr>db_tabs := [demo_tab 1]\<rparr>"
  by (simp add: upsertTabs_def demo_snap_def demo_layout_def upsertTab_def main_tab_def demo_tab_def tab_author_def
      demo_read_empty)

lemma demo_put_ok:
  "putWidget demo_env demo_db ''s'' (demo_put (CHtml ''hi'')) demo_gen 0 = Inr (demo_snap 1 GPending, demo_at 1 GPending)"
proof -
  let ?p = "readStoredBoard demo_env demo_db ''s''"
  have c: "createBoardWidgetPutSnapshot demo_env (sb_snapshot ?p) (canonical_params (demo_put (CHtml ''hi'')) demo_declared)
      True None demo_gen = Inr (demo_snap 1 GPending)"
    using demo_put_snapshot by (simp add: demo_read_empty)
  have w: "widget_named (bs_layout (demo_snap 1 GPending)) ''w'' = Some (demo_widget GPending)"
    by (simp add: widget_named_def demo_snap_def demo_layout_def demo_widget_def)
  have e: "sb_widgetRows ?p = []" by (simp add: demo_read_empty)
  have n: "normalizeBoardWidgetDeclared (be_parse_url demo_env) (pm_declared (demo_put (CHtml ''hi''))) = Inr demo_declared"
    using demo_normal by (simp add: demo_put_def)
  have s: "pm_name (demo_put (CHtml ''hi'')) = ''w''" by (simp add: demo_put_def)
  have "putWidget demo_env demo_db ''s'' (demo_put (CHtml ''hi'')) demo_gen 0 = Inr (demo_snap 1 GPending,
      updateWidgetLayouts (demo_snap 1 GPending) 0 (upsertWidget ''s'' (demo_widget GPending)
        (createBoardWidgetContentFields demo_env (canonical_params (demo_put (CHtml ''hi'')) demo_declared) None None 1 GPending demo_gen 0)
        AuthorAgent 0 (demo_db\<lparr>db_tabs := [demo_tab 1]\<rparr>)))"
    unfolding putWidget_def using c w demo_tabs [of demo_db GPending]
    by (simp add: n e s Let_def grantScopeMatches_def demo_widget_def) (simp add: demo_db_def)
  also have "\<dots> = Inr (demo_snap 1 GPending, demo_at 1 GPending)"
    by (simp add: updateWidgetLayouts_def demo_snap_def demo_layout_def upsertWidget_def on_widget_def set_layout_def
        demo_db_def demo_at_def demo_row_def demo_widget_def createBoardWidgetContentFields_def demo_put_def
        canonical_params_def Let_def demo_env_def)
  finally show ?thesis .
qed

lemma demo_revision: "0 \<le> v \<Longrightarrow> bs_revision (sb_snapshot (readStoredBoard demo_env (demo_at v g) ''s'')) = v"
  by (simp add: read_revision tab_rows_def demo_at_def demo_tab_def max_def)

lemma demo_read: "0 \<le> v \<Longrightarrow> sb_snapshot (readStoredBoard demo_env (demo_at v g) ''s'') = demo_snap v g"
  using read_layout [OF demo_denotes, of v g] demo_revision [of v g]
  by (intro board_snapshot.equality) (simp_all add: read_session demo_snap_def)

lemma demo_grant_ok:
  "grant demo_env (demo_at 1 GPending) ''s'' ''w'' DecideGranted 1 (Some demo_gen) 0
     = Inr (demo_snap 2 GGranted, demo_at 2 GGranted)"
proof -
  let ?p = "readStoredBoard demo_env (demo_at 1 GPending) ''s''"
  have c: "createBoardGrantSnapshot (demo_snap 1 GPending) ''w'' DecideGranted 1 (Some demo_gen) = Inr (demo_snap 2 GGranted)"
    by (simp add: createBoardGrantSnapshot_def demo_snap_def demo_layout_def demo_widget_def Let_def)
  have f: "find (\<lambda>r. wr_name r = ''w'') (sb_widgetRows ?p) = Some (demo_row GPending)"
    unfolding stored_row [OF demo_denotes] by (simp add: widget_rows_def demo_at_def demo_row_def)
  have t: "upsertTabs ?p (demo_snap 2 GGranted) (demo_at 1 GPending) = (demo_at 1 GPending)\<lparr>db_tabs := [demo_tab 2]\<rparr>"
    by (simp add: upsertTabs_def demo_snap_def demo_layout_def upsertTab_def main_tab_def demo_tab_def demo_at_def)
  have d: "decide_row demo_env DecideGranted 0 (demo_row GPending) (demo_row GPending) = demo_row GGranted"
    unfolding decide_row_def demo_parse Let_def by (simp add: written_manifest_def demo_row_def)
  have o: "on_widget ''s'' ''w'' (decide_row demo_env DecideGranted 0 (demo_row GPending)) ((demo_at 1 GPending)\<lparr>db_tabs := [demo_tab 2]\<rparr>)
     = demo_at 2 GGranted"
    using d by (simp add: on_widget_def demo_at_def) (simp add: demo_row_def)
  show ?thesis
    unfolding grant_def Let_def demo_read [OF zero_le_one] c bnd.simps f option.case t o by simp
qed

lemma demo_html:
  "readWidgetHtml demo_env (demo_at 2 GGranted) ''s'' ''w'' = Some \<lparr>hd_html = ''hi'', hd_metadata =
     \<lparr>hm_revision = 1, hm_sha256 = ''#hi'', hm_viewGeneration = demo_gen, hm_grantState = GGranted,
      hm_declared = demo_declared\<rparr>\<rparr>"
proof -
  have "row_named (demo_at 2 GGranted) ''s'' ''w'' = Some (demo_row GGranted)"
    by (simp add: row_named_def demo_at_def demo_row_def)
  moreover have "rowToHtmlDocument demo_env (demo_row GGranted) = Some \<lparr>hd_html = ''hi'', hd_metadata =
     \<lparr>hm_revision = 1, hm_sha256 = ''#hi'', hm_viewGeneration = demo_gen, hm_grantState = GGranted,
      hm_declared = demo_declared\<rparr>\<rparr>"
    unfolding rowToHtmlDocument_def rowToHtmlViewMetadata_def demo_parse
    by (simp add: demo_row_def written_manifest_def effectiveGrantState_def demo_declared_def)
  ultimately show ?thesis by (simp add: readWidgetHtml_def)
qed

definition demo_approvals :: approvals where
  "demo_approvals = standing (demo_at 2 GGranted) (approve demo_env (demo_at 1 GPending) ''s'' ''w''
     (standing (demo_at 1 GPending) (\<lambda>_ _. None)))"

lemma demo_reach: "board_reach demo_env (demo_at 2 GGranted) demo_approvals"
  unfolding demo_approvals_def
  by (rule board_reach.Grant [OF board_reach.Put [OF demo_start demo_gen_hex demo_put_ok] demo_grant_ok])

subsection \<open>A plugin in the place of the widget\<close>

definition plugin_widget :: board_widget where
  "plugin_widget = (demo_widget GNone)\<lparr>bw_contentKind := KPlugin, bw_pluginKind := Some ''k'', bw_revision := 2,
     bw_declaredSummary := None, bw_declared := None\<rparr>"

definition plugin_snap :: board_snapshot where
  "plugin_snap = \<lparr>bs_sessionKey = ''s'', bs_revision = 3,
     bs_layout = \<lparr>bl_tabs = [main_tab], bl_widgets = [plugin_widget]\<rparr>\<rparr>"

definition plugin_put :: put_params where
  "plugin_put = canonical_params (demo_put (CPlugin ''k'' None)) None"

lemma plugin_put_simps [simp]:
  "pm_name plugin_put = ''w''" "pm_title plugin_put = None" "pm_content plugin_put = CPlugin ''k'' None"
  "pm_presentation plugin_put = None" "pm_heightMode plugin_put = None" "pm_declared plugin_put = None"
  "pm_placement plugin_put = \<lparr>pp_tabId = None, pp_size = None, pp_after = None\<rparr>"
  by (simp_all add: plugin_put_def demo_put_def canonical_params_def)

lemma plugin_insert:
  "insertBoardWidget (demo_layout GGranted)
     (put_widget_value plugin_put (Some (demo_widget GGranted)) ''main'' GNone 1 demo_gen None)
     ''main'' None False = Inr (demo_layout GNone\<lparr>bl_widgets := [plugin_widget\<lparr>
        bw_declaredSummary := createBoardDeclaredSummary demo_declared, bw_declared := demo_declared\<rparr>]\<rparr>)"
  by (simp add: insertBoardWidget_def Let_def demo_layout_def normalize_one main_tab_def
      put_widget_value_def assign_widget_def assigned_def demo_widget_def plugin_widget_def createBoardDeclaredSummary_def
      non_empty_def)

lemma plugin_snapshot:
  "createBoardWidgetPutSnapshot demo_env (demo_snap 2 GGranted) plugin_put False (Some ''#hi'') demo_gen = Inr plugin_snap"
proof -
  have n: "normalizeBoardLayout (demo_layout GGranted) = demo_layout GGranted"
    by (rule normalize_ok [OF denotesD(1) [OF demo_denotes]])
  have f: "widget_named (demo_layout GGranted) ''w'' = Some (demo_widget GGranted)"
    by (simp add: widget_named_def demo_layout_def demo_widget_def)
  have w: "with_main_tab (demo_layout GGranted) = demo_layout GGranted" by (simp add: with_main_tab_def demo_layout_def)
  have t: "put_tab_id (demo_layout GGranted) plugin_put (Some (demo_widget GGranted)) = ''main''"
    by (simp add: put_tab_id_def demo_widget_def)
  have l: "list_ex (\<lambda>t. bt_tabId t = ''main'') (bl_tabs (demo_layout GGranted))" "length (bl_widgets (demo_layout GGranted)) = 1"
    by (simp_all add: demo_layout_def main_tab_def)
  have s: "createBoardDeclaredSummary None = None" by (simp add: createBoardDeclaredSummary_def)
  have v: "validatePluginContent demo_env plugin_put = Inr ()" "\<not> html_too_large plugin_put"
    by (simp_all add: validatePluginContent_def stringify_def utf8_length_def
        BOARD_MAX_WIDGET_PLUGIN_PROPS_BYTES_def html_too_large_def)
  have g: "put_grant_state (CPlugin ''k'' None) b None = GNone" for b by (simp add: put_grant_state_def)
  have c: "clear_declared ''w'' (demo_layout GNone\<lparr>bl_widgets := [plugin_widget\<lparr>
        bw_declaredSummary := createBoardDeclaredSummary demo_declared, bw_declared := demo_declared\<rparr>]\<rparr>)
      = bs_layout plugin_snap"
    by (simp add: clear_declared_def plugin_snap_def demo_layout_def plugin_widget_def demo_widget_def)
  show ?thesis
    unfolding createBoardWidgetPutSnapshot_def Let_def demo_snap_def board_snapshot.simps n w
    using plugin_insert c t by (simp add: v f l s g truthy_def plugin_snap_def)
qed

lemma plugin_put_ok:
  obtains db' where "putWidget demo_env (demo_at 2 GGranted) ''s'' (demo_put (CPlugin ''k'' None)) demo_gen 0 = Inr (plugin_snap, db')"
proof -
  let ?p = "readStoredBoard demo_env (demo_at 2 GGranted) ''s''"
  have f: "find (\<lambda>r. wr_name r = ''w'') (sb_widgetRows ?p) = Some (demo_row GGranted)"
    unfolding stored_row [OF demo_denotes] by (simp add: widget_rows_def demo_at_def demo_row_def)
  have n: "pm_name (demo_put (CPlugin ''k'' None)) = ''w''" "pm_content (demo_put (CPlugin ''k'' None)) = CPlugin ''k'' None"
    "pm_declared (demo_put (CPlugin ''k'' None)) = None"
    by (simp_all add: demo_put_def)
  have m: "grantScopeMatches (Some (demo_row GGranted)) (CPlugin ''k'' None) = False"
    "wr_granted_sha (demo_row GGranted) = Some ''#hi''"
    by (simp_all add: grantScopeMatches_def demo_row_def)
  have w: "widget_named (bs_layout plugin_snap) ''w'' = Some plugin_widget"
    by (simp add: widget_named_def plugin_snap_def plugin_widget_def demo_widget_def)
  have d: "normalizeBoardWidgetDeclared (be_parse_url demo_env) None = Inr None"
    by (simp add: normalizeBoardWidgetDeclared_def)
  show ?thesis
    by (rule that) (unfold putWidget_def, simp add: n d f m w demo_read plugin_snapshot plugin_put_def [symmetric] Let_def)
qed

section \<open>What the boards promise\<close>

text \<open>
  The properties of the board components, each with an instance on the board
  above.
\<close>

lemma row_named_in: "row_named db s name = Some r \<Longrightarrow> r \<in> set (widget_rows db s) \<and> wr_name r = name"
  by (auto simp: row_named_def widget_rows_def find_Some_iff)

lemma reach_denotes:
  assumes "origins_stable (be_parse_url env)" "board_reach env db A"
  obtains L where "denotes env db s L" "length (bl_widgets L) \<le> BOARD_MAX_WIDGETS"
  using reach_inv [OF assms] unfolding board_inv_def by blast

lemma reach_covered:
  assumes u: "origins_stable (be_parse_url env)" and r: "board_reach env db A" and w: "r \<in> set (widget_rows db s)"
    and g: "effectiveGrantState (wr_grant_state r) (parseManifest (be_parse_url env) (wr_manifest r)) = GGranted"
  shows "row_ok env r" "\<exists>a. A s (wr_name r) = Some a \<and> ap_subject a = subject_of r
     \<and> boardDeclarationIsSubset (declared_of env r) (ap_declared a)"
proof -
  obtain L where L: "denotes env db s L" using reach_denotes [OF u r] by blast
  show ok: "row_ok env r" by (rule denotesD(6) [OF L w])
  have "wr_grant_state r = GGranted" using ok g by (simp add: row_ok_def)
  thus "\<exists>a. A s (wr_name r) = Some a \<and> ap_subject a = subject_of r
     \<and> boardDeclarationIsSubset (declared_of env r) (ap_declared a)"
    using reach_inv [OF u r] w unfolding grants_covered_def covered_def by blast
qed

lemma read_html_row:
  assumes "readWidgetHtml env db s name = Some doc"
  obtains r where "r \<in> set (widget_rows db s)" "wr_name r = name" "wr_html r = Some (hd_html doc)"
    "rowToHtmlViewMetadata r (parseManifest (be_parse_url env) (wr_manifest r)) = Some (hd_metadata doc)"
proof -
  from assms obtain r where r: "row_named db s name = Some r" "rowToHtmlDocument env r = Some doc"
    by (auto simp: readWidgetHtml_def bind_eq_Some_conv split: if_splits)
  from r(2) have "wr_html r = Some (hd_html doc)"
    "rowToHtmlViewMetadata r (parseManifest (be_parse_url env) (wr_manifest r)) = Some (hd_metadata doc)"
    by (auto simp: rowToHtmlDocument_def split: option.splits)
  with row_named_in [OF r(1)] that show ?thesis by blast
qed

lemma html_metadata_fields:
  "rowToHtmlViewMetadata r m = Some x \<Longrightarrow> wr_content_kind r = KHtml \<and> hm_declared x = mf_declared m
     \<and> hm_grantState x = effectiveGrantState (wr_grant_state r) m"
  by (auto simp: rowToHtmlViewMetadata_def split: if_splits)

lemma read_app_row:
  assumes "readWidgetMcpApp env db s name = Some doc"
  obtains r where "r \<in> set (widget_rows db s)" "wr_name r = name" "wr_content_kind r = KMcpApp"
    "wr_descriptor_json r = Some (ma_descriptor doc)"
    "effectiveGrantState (wr_grant_state r) (parseManifest (be_parse_url env) (wr_manifest r)) = ma_grantState doc"
    "ma_declaredTools doc = list_of (Option.bind (declared_of env r) bd_tools)"
proof -
  from assms obtain r where r: "row_named db s name = Some r" "rowToMcpDocument env r = Some doc"
    by (auto simp: readWidgetMcpApp_def bind_eq_Some_conv split: if_splits)
  from r(2) have "wr_content_kind r = KMcpApp \<and> wr_descriptor_json r = Some (ma_descriptor doc)
    \<and> effectiveGrantState (wr_grant_state r) (parseManifest (be_parse_url env) (wr_manifest r)) = ma_grantState doc
    \<and> ma_declaredTools doc = list_of (Option.bind (declared_of env r) bd_tools)"
    by (auto simp: rowToMcpDocument_def declared_of_def Let_def split: option.splits if_splits)
  with row_named_in [OF r(1)] that show ?thesis by blast
qed

lemma subset_tools:
  "boardDeclarationIsSubset d e \<Longrightarrow> t \<in> set (list_of (Option.bind d bd_tools)) \<Longrightarrow> t \<in> set (list_of (Option.bind e bd_tools))"
  by (auto simp: boardDeclarationIsSubset_def list_all_iff)

subsection \<open>Grants\<close>

text \<open>
  C10: A widget document the store serves as granted is the document the operator approved. For an HTML
  widget \<^verbatim>\<open>readWidgetHtml\<close> returns as granted there is a standing approval of exactly
  those bytes (their digest), and what the widget declares, hence every tool it may call
  (\<^verbatim>\<open>boardWidgetHasGrantedTool\<close>), was part of the approved declaration, however the
  widget was put again, moved, resized and granted in between.
\<close>

theorem granted_html_approved:
  assumes "origins_stable (be_parse_url env)" and "board_reach env db A"
    and "readWidgetHtml env db s name = Some doc" and "hm_grantState (hd_metadata doc) = GGranted"
  shows "\<exists>a. A s name = Some a \<and> ap_subject a = HtmlBytes (be_sha256 env (hd_html doc))
     \<and> boardDeclarationIsSubset (hm_declared (hd_metadata doc)) (ap_declared a)
     \<and> (\<forall>tool. boardWidgetHasGrantedTool (hm_declared (hd_metadata doc)) (hm_grantState (hd_metadata doc)) tool
          \<longrightarrow> tool \<in> set (list_of (Option.bind (ap_declared a) bd_tools)))"
proof -
  from read_html_row [OF assms(3)] obtain r where
    r: "r \<in> set (widget_rows db s)" "wr_name r = name" "wr_html r = Some (hd_html doc)"
    and m: "rowToHtmlViewMetadata r (parseManifest (be_parse_url env) (wr_manifest r)) = Some (hd_metadata doc)" .
  have k: "wr_content_kind r = KHtml" "hm_declared (hd_metadata doc) = declared_of env r"
    "effectiveGrantState (wr_grant_state r) (parseManifest (be_parse_url env) (wr_manifest r)) = GGranted"
    using html_metadata_fields [OF m] assms(4) by (simp_all add: declared_of_def)
  note c = reach_covered [OF assms(1,2) r(1) k(3)]
  have "subject_of r = HtmlBytes (be_sha256 env (hd_html doc))"
    using c(1) k(1) r(3) by (auto simp: subject_of_def row_ok_def content_ok_def Let_def)
  with c(2) obtain a where a: "A s name = Some a" "ap_subject a = HtmlBytes (be_sha256 env (hd_html doc))"
    "boardDeclarationIsSubset (declared_of env r) (ap_declared a)" unfolding r(2) by auto
  thus ?thesis unfolding k(2) boardWidgetHasGrantedTool_def using subset_tools [OF a(3)] by blast
qed

lemma granted_html_approved_witness:
  "\<exists>a. demo_approvals ''s'' ''w'' = Some a \<and> ap_subject a = HtmlBytes ''#hi''
     \<and> ''t'' \<in> set (list_of (Option.bind (ap_declared a) bd_tools))"
  using granted_html_approved [OF demo_stable demo_reach demo_html]
  by (auto simp: demo_env_def boardWidgetHasGrantedTool_def demo_declared_def)

text \<open>
  An MCP app served as granted runs against the approved server: for a document
  \<^verbatim>\<open>readWidgetMcpApp\<close> returns as granted there is a standing approval of the
  server its descriptor names, and every tool it declares was part of the approved declaration.
\<close>

theorem granted_app_approved:
  assumes "origins_stable (be_parse_url env)" and "board_reach env db A"
    and "readWidgetMcpApp env db s name = Some doc" and "ma_grantState doc = GGranted"
  shows "\<exists>a. A s name = Some a \<and> ap_subject a = McpServer (jfield (ma_descriptor doc) ''serverName'')
     \<and> set (ma_declaredTools doc) \<subseteq> set (list_of (Option.bind (ap_declared a) bd_tools))"
proof -
  from read_app_row [OF assms(3)] obtain r where
    r: "r \<in> set (widget_rows db s)" "wr_name r = name" "wr_content_kind r = KMcpApp"
      "wr_descriptor_json r = Some (ma_descriptor doc)"
      "effectiveGrantState (wr_grant_state r) (parseManifest (be_parse_url env) (wr_manifest r)) = ma_grantState doc"
      "ma_declaredTools doc = list_of (Option.bind (declared_of env r) bd_tools)" .
  from reach_covered(2) [OF assms(1,2) r(1)] r(5) assms(4) obtain a where
    "A s (wr_name r) = Some a" "ap_subject a = subject_of r" "boardDeclarationIsSubset (declared_of env r) (ap_declared a)"
    by auto
  thus ?thesis unfolding r(6) using subset_tools r(2-4) by (auto simp: subject_of_def)
qed

definition app_content :: board_content where
  "app_content = CMcpApp \<lparr>md_serverName = ''srv'', md_toolName = ''t'', md_uiResourceUri = ''u'', md_toolCallId = ''c''\<rparr> True"

subsection \<open>Decisions\<close>

text \<open>
  C11: A decision applies only to what the operator decided on: after a widget has been put again, a
  grant or a rejection of the revision the board showed before is refused as a conflict, whatever
  instance it names, and changes nothing.
\<close>

theorem stale_decision_refused:
  assumes u: "origins_stable (be_parse_url env)" and r: "board_reach env db A" and gen: "hex_text 32 gen"
    and p: "putWidget env db s params gen now = Inr (snap, db')"
    and old: "widget_named (bs_layout (getSnapshot env db s)) (pm_name params) = Some old"
  shows "grant env db' s (pm_name params) decision (bw_revision old) instance now' = Inl BConflict"
proof -
  obtain L where L: "denotes env db s L" using reach_denotes [OF u r] by blast
  have h: "hasSession db s" using p by (simp add: putWidget_def split: if_splits)
  from putWidget_cases [OF u h L p] obtain d w where P: "put_done env db s params L gen now snap db' d w" by blast
  have den': "denotes env db' s (stored_layout params gen (bs_layout snap))" by (rule put_stored(1) [OF P gen L])
  have h': "hasSession db' s" using h put_elsewhere(3) [OF P] by (simp add: hasSession_def)
  have w: "w \<in> set (bl_widgets (bs_layout snap))" "bw_name w = pm_name params"
    and sw: "strip_widget w = strip_widget (put_widget_of env db s params L gen d)"
    and dn: "declared_normal (be_parse_url env) d"
    using P by (simp_all add: put_done_def)
  have "widget_named (with_main_tab L) (pm_name params) = Some old"
    using old getSnapshot_denotes [OF h L] with_main_tab_ok(2) [OF denotesD(1) [OF L]] by (simp add: widget_named_def)
  hence rev: "bw_revision w = bw_revision old + 1"
    using put_result_fields(6) [OF dn] strip_widget_eqD(11) [OF sw] by (simp add: put_widget_of_def Let_def)
  let ?L = "stored_layout params gen (bs_layout snap)"
  have L': "layout_ok ?L" by (rule denotesD(1) [OF den'])
  have w': "as_stored params gen w \<in> set (bl_widgets ?L)"
    using w by (auto simp: stored_layout_def image_iff intro!: bexI [of _ w])
  have s: "bs_layout (sb_snapshot (readStoredBoard env db' s)) = ?L" by (rule read_layout [OF den'])
  have "pm_name params \<in> bw_name ` set (bl_widgets ?L)" using w' w(2) by (force simp: as_stored_def)
  then obtain i where i: "find_index (\<lambda>v. bw_name v = pm_name params) (bl_widgets ?L) = Some i"
    by (cases "find_index (\<lambda>v. bw_name v = pm_name params) (bl_widgets ?L)") (auto simp: find_index_None)
  have "bl_widgets ?L ! i = as_stored params gen w"
    using find_index_Some [OF i] w(2) by (intro same_key [OF layout_okD(2) [OF L'] _ w']) (auto simp: as_stored_def)
  hence "bw_revision (bl_widgets ?L ! i) = bw_revision old + 1" using rev by (simp add: as_stored_def)
  thus ?thesis using h' i by (simp add: grant_def createBoardGrantSnapshot_def s Let_def)
qed

lemma demo_named: "widget_named (bs_layout (getSnapshot demo_env (demo_at v g) ''s'')) ''w'' = Some (demo_widget g)"
  using getSnapshot_denotes [OF demo_session(2) demo_denotes, of v g]
  by (simp add: widget_named_def demo_layout_def demo_widget_def)

lemma stale_decision_refused_witness:
  "\<exists>db'. putWidget demo_env (demo_at 2 GGranted) ''s'' (demo_put (CPlugin ''k'' None)) demo_gen 0 = Inr (plugin_snap, db')
     \<and> grant demo_env db' ''s'' ''w'' DecideRejected 1 (Some demo_gen) 0 = Inl BConflict"
proof -
  obtain db' where p: "putWidget demo_env (demo_at 2 GGranted) ''s'' (demo_put (CPlugin ''k'' None)) demo_gen 0 = Inr (plugin_snap, db')"
    by (rule plugin_put_ok)
  have n: "pm_name (demo_put (CPlugin ''k'' None)) = ''w''" "bw_revision (demo_widget GGranted) = 1"
    by (simp_all add: demo_put_def demo_widget_def)
  from stale_decision_refused [OF demo_stable demo_reach demo_gen_hex p, unfolded n(1), OF demo_named] n(2) p
  show ?thesis by auto
qed

subsection \<open>What is stored\<close>

text \<open>
  C12: What \<^verbatim>\<open>applyOps\<close> returns is what is stored: the next read of the session
  gives the layout the operations gave, and the whole snapshot with its revision as long as the board
  has a tab (a board without tabs is no board and starts again at revision 0).
\<close>

theorem ops_read_back:
  assumes u: "origins_stable (be_parse_url env)" and r: "board_reach env db A" and o: "ops \<noteq> []"
    and a: "applyOps env db s ops now = Inr (snap, db')"
  shows "bs_layout (getSnapshot env db' s) = bs_layout snap
     \<and> (bl_tabs (bs_layout snap) \<noteq> [] \<longrightarrow> getSnapshot env db' s = snap)"
proof -
  obtain L where L: "denotes env db s L" using reach_denotes [OF u r] by blast
  have h: "hasSession db s" using a o by (auto simp: applyOps_def split: if_splits)
  note S = applyOps_stores [OF h L a]
  show ?thesis using getSnapshot_denotes [OF S(2,1)] S(3) [OF o] by blast
qed

lemma ops_read_back_witness:
  "\<exists>snap db'. applyOps demo_env (demo_at 2 GGranted) ''s'' [WidgetResize ''w'' 3 30 None] 5 = Inr (snap, db')
     \<and> getSnapshot demo_env db' ''s'' = snap \<and> map bw_sizeH (bl_widgets (bs_layout snap)) = [20]"
proof -
  have a: "applyBoardOps (demo_layout GGranted) [WidgetResize ''w'' 3 30 None]
     = Inr \<lparr>bl_tabs = [main_tab], bl_widgets = [resized 3 30 None (demo_widget GGranted)]\<rparr>"
    by (simp add: applyBoardOps_def requireWidget_def demo_layout_def demo_widget_def normalize_one main_tab_def resized_def)
  then obtain snap db' where s: "applyOps demo_env (demo_at 2 GGranted) ''s'' [WidgetResize ''w'' 3 30 None] 5 = Inr (snap, db')"
    "bs_layout snap = \<lparr>bl_tabs = [main_tab], bl_widgets = [resized 3 30 None (demo_widget GGranted)]\<rparr>"
    using applyOps_Inr [OF demo_session(2) demo_denotes, of "[WidgetResize ''w'' 3 30 None]"] by auto
  from ops_read_back [OF demo_stable demo_reach _ s(1)] s show ?thesis
    by (auto simp: resized_def clampInteger_def js_trunc_def)
qed

text \<open>
  C13: What \<^verbatim>\<open>putWidget\<close> stores: the next read of the session gives the snapshot
  it returned, but for three fields of the widget that was put: its plugin kind, its props and its
  instance id are those of the new content, whatever the returned snapshot kept of the old one.
\<close>

theorem put_reads_back:
  assumes u: "origins_stable (be_parse_url env)" and r: "board_reach env db A" and gen: "hex_text 32 gen"
    and p: "putWidget env db s params gen now = Inr (snap, db')"
  shows "getSnapshot env db' s = snap\<lparr>bs_layout := stored_layout params gen (bs_layout snap)\<rparr>"
proof -
  obtain L where L: "denotes env db s L" using reach_denotes [OF u r] by blast
  have h: "hasSession db s" using p by (simp add: putWidget_def split: if_splits)
  from putWidget_cases [OF u h L p] obtain d w where P: "put_done env db s params L gen now snap db' d w" by blast
  note S = put_stored [OF P gen L]
  have h': "hasSession db' s" using h put_elsewhere(3) [OF P] by (simp add: hasSession_def)
  have k: "bs_sessionKey snap = s" "bs_revision snap = bs_revision (sb_snapshot (readStoredBoard env db s)) + 1"
    and g: "gained (with_main_tab L) (put_widget_of env db s params L gen d) (bs_layout snap)"
    using P by (simp_all add: put_done_def)
  have t: "bl_tabs (stored_layout params gen (bs_layout snap)) \<noteq> []"
    using g by (simp add: gained_def stored_layout_def with_main_tab_def)
  have "0 \<le> bs_revision snap" using revision_nonneg [of env db s] k(2) by simp
  from snapshot_of_revision [OF h' S(1) t S(2) this]
  have "getSnapshot env db' s = \<lparr>bs_sessionKey = s, bs_revision = bs_revision snap,
      bs_layout = stored_layout params gen (bs_layout snap)\<rparr>" by blast
  thus ?thesis using k(1) by (intro board_snapshot.equality) simp_all
qed

lemma put_reads_back_witness:
  "\<exists>db'. putWidget demo_env (demo_at 2 GGranted) ''s'' (demo_put (CPlugin ''k'' None)) demo_gen 0 = Inr (plugin_snap, db')
     \<and> getSnapshot demo_env db' ''s'' = plugin_snap\<lparr>bs_layout :=
          \<lparr>bl_tabs = [main_tab], bl_widgets = [plugin_widget\<lparr>bw_instanceId := None\<rparr>]\<rparr>\<rparr>
     \<and> bw_instanceId plugin_widget = Some demo_gen"
proof -
  obtain db' where p: "putWidget demo_env (demo_at 2 GGranted) ''s'' (demo_put (CPlugin ''k'' None)) demo_gen 0 = Inr (plugin_snap, db')"
    by (rule plugin_put_ok)
  have l: "stored_layout (demo_put (CPlugin ''k'' None)) demo_gen (bs_layout plugin_snap)
     = \<lparr>bl_tabs = [main_tab], bl_widgets = [plugin_widget\<lparr>bw_instanceId := None\<rparr>]\<rparr>"
    by (simp add: stored_layout_def as_stored_def plugin_snap_def plugin_widget_def demo_widget_def demo_put_def)
  show ?thesis
    using put_reads_back [OF demo_stable demo_reach demo_gen_hex p] p
    unfolding l by (auto simp: plugin_widget_def demo_widget_def)
qed

text \<open>
  C14: Every board the store returns is in normal form (tabs numbered from 0, widgets grouped by tab
  and numbered from 0 in each, ids and names unique, every widget on an existing tab), holds at
  most 48 widgets and gives each a size of the grid, 1 to 12 columns and 1 to 20 rows.
\<close>

theorem boards_well_formed:
  assumes u: "origins_stable (be_parse_url env)" and r: "board_reach env db A"
  shows "layout_ok (bs_layout (getSnapshot env db s)) \<and> length (bl_widgets (bs_layout (getSnapshot env db s))) \<le> 48
    \<and> list_all in_grid (bl_widgets (bs_layout (getSnapshot env db s)))"
proof (cases "hasSession db s")
  case True
  obtain L where L: "denotes env db s L" "length (bl_widgets L) \<le> BOARD_MAX_WIDGETS" using reach_denotes [OF u r] by blast
  thus ?thesis using getSnapshot_denotes [OF True L(1)] denotesD(1) [OF L(1)] grid_denotes [OF reach_grid [OF u r] L(1)]
    by (simp add: BOARD_MAX_WIDGETS_def list_all_iff)
next
  case False
  thus ?thesis by (simp add: getSnapshot_def emptyBoardSnapshot_def layout_ok_def js_max_safe_def)
qed

lemma boards_well_formed_witness:
  "layout_ok (demo_layout GGranted) \<and> length (bl_widgets (demo_layout GGranted)) \<le> 48
    \<and> list_all in_grid (bl_widgets (demo_layout GGranted))"
  using boards_well_formed [OF demo_stable demo_reach, of "''s''"]
  unfolding getSnapshot_denotes [OF demo_session(2) demo_denotes] .

text \<open>
  C15: The layout operations are the operations on a list of tabs, each with the list of its widgets:
  applied to the numbered form of such a board, an operation list gives the numbered form of what the
  specification gives, or the same error; in particular no list of operations makes the code read a
  property of undefined.
\<close>

theorem board_ops_refine:
  assumes "board_ok B"
  shows "applyBoardOps (conc B) ops = (case spec_ops ops B of Inl e \<Rightarrow> Inl e | Inr C \<Rightarrow> Inr (conc C))"
  using ops_refine [OF assms, of ops] by (cases "spec_ops ops B") simp_all

lemma board_ops_refine_witness:
  "applyBoardOps (conc []) [TabCreate ''a'' ''A'' None, TabCreate ''b'' ''B'' None, TabsReorder [''b'', ''a'']]
     = Inr (conc [(\<lparr>bt_tabId = ''b'', bt_title = ''B'', bt_position = 0, bt_chatDock = DockRight\<rparr>, []),
         (\<lparr>bt_tabId = ''a'', bt_title = ''A'', bt_position = 0, bt_chatDock = DockRight\<rparr>, [])])"
  using board_ops_refine [of "[]" "[TabCreate ''a'' ''A'' None, TabCreate ''b'' ''B'' None, TabsReorder [''b'', ''a'']]"]
  by (auto simp: board_ok_def stripped_def js_max_safe_def)

end
