(* ===== verification/Exec_Policy.thy ===== *)
theory Exec_Policy
  imports Json
begin

section \<open>Exec approval policy\<close>

text \<open>
  \<^verbatim>\<open>src/infra/exec-approvals-core.ts\<close> and
  \<^verbatim>\<open>exec-approvals-policy.ts\<close>: the security and ask settings, the modes that
  abbreviate them, what needs an approval and which decisions a prompt offers. Left out of the
  second file: the text search that recognizes commands about audit suppressions.
\<close>

datatype exec_target = TargetAuto | HostSandbox | HostGateway | HostNode

datatype exec_security = SecDeny | SecAllowlist | SecFull

datatype exec_ask = AskOff | AskOnMiss | AskAlways

datatype exec_mode = ModeDeny | ModeAllowlist | ModeAsk | ModeAuto | ModeFull

datatype exec_decision = AllowOnce | AllowAlways | DecideDeny

datatype exec_error =
    EInvalidTarget
  | EApprovalChanged
  | ENoAgentId
  | EDelayedWithoutSnapshot
  | EPersistWithoutApproval
  | EMutationFenced
  | EAgentDeleted

subsection \<open>Texts\<close>

fun security_text :: "exec_security \<Rightarrow> string" where
  "security_text SecDeny = ''deny''"
| "security_text SecAllowlist = ''allowlist''"
| "security_text SecFull = ''full''"

fun ask_text :: "exec_ask \<Rightarrow> string" where
  "ask_text AskOff = ''off''"
| "ask_text AskOnMiss = ''on-miss''"
| "ask_text AskAlways = ''always''"

definition security_of :: "string \<Rightarrow> exec_security option" where
  "security_of s =
     (if s = ''deny'' then Some SecDeny else if s = ''allowlist'' then Some SecAllowlist
      else if s = ''full'' then Some SecFull else None)"

definition ask_of :: "string \<Rightarrow> exec_ask option" where
  "ask_of s =
     (if s = ''off'' then Some AskOff else if s = ''on-miss'' then Some AskOnMiss
      else if s = ''always'' then Some AskAlways else None)"

lemma security_of_text [simp]: "security_of (security_text s) = Some s"
  by (cases s) (simp_all add: security_of_def)

lemma ask_of_text [simp]: "ask_of (ask_text a) = Some a"
  by (cases a) (simp_all add: ask_of_def)

lemma security_of_Some: "security_of t = Some s \<longleftrightarrow> t = security_text s"
  by (cases s) (auto simp: security_of_def split: if_splits)

lemma ask_of_Some: "ask_of t = Some a \<longleftrightarrow> t = ask_text a"
  by (cases a) (auto simp: ask_of_def split: if_splits)

definition normalizeOptionalString :: "string option \<Rightarrow> string option" where
  "normalizeOptionalString v =
     (case v of None \<Rightarrow> None | Some s \<Rightarrow> if js_trim s = [] then None else Some (js_trim s))"

definition normalizeOptionalLowercaseString :: "string option \<Rightarrow> string option" where
  "normalizeOptionalLowercaseString v = map_option js_lower (normalizeOptionalString v)"

definition normalizeExecHost :: "string option \<Rightarrow> exec_target option" where
  "normalizeExecHost v =
     (case normalizeOptionalLowercaseString v of
        None \<Rightarrow> None
      | Some s \<Rightarrow>
          if s = ''sandbox'' then Some HostSandbox else if s = ''gateway'' then Some HostGateway
          else if s = ''node'' then Some HostNode else None)"

definition normalizeExecTarget :: "string option \<Rightarrow> exec_target option" where
  "normalizeExecTarget v =
     (let normalized = normalizeOptionalLowercaseString v
      in if normalized = Some ''auto'' then Some TargetAuto else normalizeExecHost normalized)"

text \<open>Of an unknown value; undefined and null are no target.\<close>

definition requireValidExecTarget :: "json option \<Rightarrow> exec_error + exec_target option" where
  "requireValidExecTarget v =
     (case v of
        None \<Rightarrow> Inr None
      | Some JNull \<Rightarrow> Inr None
      | Some (JStr s) \<Rightarrow>
         (case normalizeOptionalLowercaseString (Some s) of
            None \<Rightarrow> Inr None
          | Some n \<Rightarrow>
             (case normalizeExecTarget (Some n) of
                Some t \<Rightarrow> Inr (Some t)
              | None \<Rightarrow> Inl EInvalidTarget))
      | _ \<Rightarrow> Inl EInvalidTarget)"

definition normalizeExecSecurity :: "string option \<Rightarrow> exec_security option" where
  "normalizeExecSecurity v = Option.bind (normalizeOptionalLowercaseString v) security_of"

definition normalizeExecAsk :: "string option \<Rightarrow> exec_ask option" where
  "normalizeExecAsk v = Option.bind (normalizeOptionalLowercaseString v) ask_of"

definition normalizeExecMode :: "string option \<Rightarrow> exec_mode option" where
  "normalizeExecMode v =
     (case normalizeOptionalLowercaseString v of
        None \<Rightarrow> None
      | Some s \<Rightarrow>
          if s = ''deny'' then Some ModeDeny else if s = ''allowlist'' then Some ModeAllowlist
          else if s = ''ask'' then Some ModeAsk else if s = ''auto'' then Some ModeAuto
          else if s = ''full'' then Some ModeFull else None)"

subsection \<open>Modes\<close>

definition resolveExecModeFromPolicy :: "exec_security \<Rightarrow> exec_ask \<Rightarrow> exec_mode" where
  "resolveExecModeFromPolicy security ask =
     (if security = SecDeny then ModeDeny
      else if security = SecAllowlist \<and> ask = AskOff then ModeAllowlist
      else if security = SecFull \<and> ask \<noteq> AskAlways then ModeFull
      else ModeAsk)"

fun resolveExecPolicyForMode :: "exec_mode \<Rightarrow> exec_security \<times> exec_ask \<times> bool" where
  "resolveExecPolicyForMode ModeDeny = (SecDeny, AskOff, False)"
| "resolveExecPolicyForMode ModeAllowlist = (SecAllowlist, AskOff, False)"
| "resolveExecPolicyForMode ModeAsk = (SecAllowlist, AskOnMiss, False)"
| "resolveExecPolicyForMode ModeAuto = (SecAllowlist, AskOnMiss, True)"
| "resolveExecPolicyForMode ModeFull = (SecFull, AskOff, False)"

definition resolveExecModePolicy ::
    "exec_mode option \<Rightarrow> exec_security \<Rightarrow> exec_ask \<Rightarrow> exec_mode \<times> exec_security \<times> exec_ask \<times> bool" where
  "resolveExecModePolicy mode security ask =
     (case mode of
        None \<Rightarrow> (resolveExecModeFromPolicy security ask, security, ask, False)
      | Some m \<Rightarrow> (m, resolveExecPolicyForMode m))"

subsection \<open>Requirements and orders\<close>

definition requiresExecApproval ::
    "exec_ask \<Rightarrow> exec_security \<Rightarrow> bool \<Rightarrow> bool \<Rightarrow> bool option \<Rightarrow> bool" where
  "requiresExecApproval ask security analysisOk allowlistSatisfied durableApprovalSatisfied =
     (if ask = AskAlways then True
      else if durableApprovalSatisfied = Some True then False
      else ask = AskOnMiss \<and> security = SecAllowlist \<and> (\<not> analysisOk \<or> \<not> allowlistSatisfied))"

fun security_rank :: "exec_security \<Rightarrow> nat" where
  "security_rank SecDeny = 0"
| "security_rank SecAllowlist = 1"
| "security_rank SecFull = 2"

fun ask_rank :: "exec_ask \<Rightarrow> nat" where
  "ask_rank AskOff = 0"
| "ask_rank AskOnMiss = 1"
| "ask_rank AskAlways = 2"

definition minSecurity :: "exec_security \<Rightarrow> exec_security \<Rightarrow> exec_security" where
  "minSecurity a b = (if security_rank a \<le> security_rank b then a else b)"

definition maxAsk :: "exec_ask \<Rightarrow> exec_ask \<Rightarrow> exec_ask" where
  "maxAsk a b = (if ask_rank a \<ge> ask_rank b then a else b)"

subsection \<open>Decisions\<close>

datatype allow_always_reason = NoReusablePattern | PromptOnly | RuntimePayload | Unplanned

record allow_pattern =
  ap_pattern :: string
  ap_argPattern :: "string option"

datatype persistence_decision =
    PersistPatterns "allow_pattern list" "string option"
  | PersistExactCommand string
  | PersistOneShot "allow_always_reason list"

definition DEFAULT_EXEC_APPROVAL_DECISIONS :: "exec_decision list" where
  "DEFAULT_EXEC_APPROVAL_DECISIONS = [AllowOnce, AllowAlways, DecideDeny]"

definition isOptionalExecApprovalDecision :: "exec_decision \<Rightarrow> bool" where
  "isOptionalExecApprovalDecision d \<longleftrightarrow> d = AllowAlways"

text \<open>The optional decisions among the texts of a request.\<close>

definition normalizeExecApprovalUnavailableDecisions :: "string list option \<Rightarrow> exec_decision list" where
  "normalizeExecApprovalUnavailableDecisions ds =
     (case ds of
        None \<Rightarrow> []
      | Some xs \<Rightarrow> if ''allow-always'' \<in> set xs then [AllowAlways] else [])"

definition resolveExecApprovalAllowedDecisions ::
    "string option \<Rightarrow> persistence_decision option \<Rightarrow> exec_decision list" where
  "resolveExecApprovalAllowedDecisions ask persistence =
     (if normalizeExecAsk ask = Some AskAlways
         \<or> (case persistence of Some (PersistOneShot _) \<Rightarrow> True | _ \<Rightarrow> False)
      then [AllowOnce, DecideDeny] else DEFAULT_EXEC_APPROVAL_DECISIONS)"

definition resolveExecApprovalUnavailableDecisions ::
    "string option \<Rightarrow> persistence_decision option \<Rightarrow> exec_decision list" where
  "resolveExecApprovalUnavailableDecisions ask persistence =
     filter (\<lambda>d. d \<notin> set (resolveExecApprovalAllowedDecisions ask persistence)) [AllowAlways]"

definition resolveExecApprovalRequestAllowedDecisions ::
    "string option \<Rightarrow> string list option \<Rightarrow> exec_decision list" where
  "resolveExecApprovalRequestAllowedDecisions ask unavailableDecisions =
     (let policyDecisions = resolveExecApprovalAllowedDecisions ask None;
          unavailable = normalizeExecApprovalUnavailableDecisions unavailableDecisions
      in if unavailable = [] then policyDecisions
         else filter (\<lambda>d. \<not> isOptionalExecApprovalDecision d \<or> d \<notin> set unavailable) policyDecisions)"

definition isExecApprovalDecisionAllowed :: "exec_decision \<Rightarrow> string option \<Rightarrow> bool" where
  "isExecApprovalDecisionAllowed decision ask \<longleftrightarrow>
     decision \<in> set (resolveExecApprovalAllowedDecisions ask None)"

subsection \<open>Facts\<close>

lemma minSecurity_rank [simp]: "security_rank (minSecurity a b) = min (security_rank a) (security_rank b)"
  by (simp add: minSecurity_def)

lemma maxAsk_rank [simp]: "ask_rank (maxAsk a b) = max (ask_rank a) (ask_rank b)"
  by (simp add: maxAsk_def)

lemma security_rank_inject: "security_rank a = security_rank b \<longleftrightarrow> a = b"
  by (cases a; cases b) simp_all

lemma ask_rank_inject: "ask_rank a = ask_rank b \<longleftrightarrow> a = b"
  by (cases a; cases b) simp_all

lemma minSecurity_deny [simp]: "minSecurity SecDeny a = SecDeny" "minSecurity a SecDeny = SecDeny"
  by (cases a; simp add: minSecurity_def)+

lemma minSecurity_self [simp]: "minSecurity a a = a"
  by (simp add: minSecurity_def)

lemma maxAsk_self [simp]: "maxAsk a a = a"
  by (simp add: maxAsk_def)

text \<open>A mode is recovered from its policy, except that automatic review reads as asking.\<close>

lemma mode_of_policy:
  "resolveExecModeFromPolicy (fst (resolveExecPolicyForMode m)) (fst (snd (resolveExecPolicyForMode m)))
     = (if m = ModeAuto then ModeAsk else m)"
  by (cases m) (simp_all add: resolveExecModeFromPolicy_def)

end
