(* ===== verification/Exec_File.thy ===== *)
theory Exec_File
  imports Exec_Policy Js_Map
begin

section \<open>The stored approval policy\<close>

text \<open>
  \<^verbatim>\<open>src/infra/exec-approvals-config.ts\<close>: what a persisted policy file may hold and
  its normal form. The policy fields of a file that has not been normalized can be any JSON value;
  an allowlist of such a file can hold texts. A field \<open>None\<close> is absent. The random ids of new
  entries are an argument \<open>fresh\<close>: the id given to the entry at a position of an agent's list.
  Paths and the creation of tokens are left out.
\<close>

record exec_policy =
  xp_security :: "json option"
  xp_ask :: "json option"
  xp_askFallback :: "json option"
  xp_autoAllowSkills :: "bool option"

record allow_entry =
  ae_id :: "string option"
  ae_pattern :: string
  ae_source :: "string option"
  ae_commandText :: "string option"
  ae_argPattern :: "string option"
  ae_lastUsedAt :: "rat option"
  ae_lastUsedCommand :: "string option"
  ae_lastResolvedPath :: "string option"

text \<open>An item of an unchecked allowlist; \<open>OtherItem\<close> is any other value but null.\<close>

datatype raw_item = TextItem string | EntryItem allow_entry | OtherItem

record 'e exec_agent =
  xa_policy :: exec_policy
  xa_allowlist :: "'e list option"

record 'e exec_file =
  xf_socketPath :: "string option"
  xf_socketToken :: "string option"
  xf_defaults :: exec_policy
  xf_agents :: "(string, 'e exec_agent) jmap"

type_synonym raw_file = "raw_item exec_file"
type_synonym approvals_file = "allow_entry exec_file"

type_synonym fresh_ids = "string \<Rightarrow> nat \<Rightarrow> string"

definition no_policy :: exec_policy where
  "no_policy = \<lparr>xp_security = None, xp_ask = None, xp_askFallback = None, xp_autoAllowSkills = None\<rparr>"

text \<open>A normalized file where an unchecked one is expected: the same value.\<close>

definition raw_agent :: "allow_entry exec_agent \<Rightarrow> raw_item exec_agent" where
  "raw_agent a = \<lparr>xa_policy = xa_policy a, xa_allowlist = map_option (map EntryItem) (xa_allowlist a)\<rparr>"

definition as_raw :: "approvals_file \<Rightarrow> raw_file" where
  "as_raw f = \<lparr>xf_socketPath = xf_socketPath f, xf_socketToken = xf_socketToken f,
     xf_defaults = xf_defaults f, xf_agents = map (\<lambda>(k, a). (k, raw_agent a)) (xf_agents f)\<rparr>"

subsection \<open>Policy fields\<close>

definition json_security :: "json option \<Rightarrow> exec_security option" where
  "json_security v = Option.bind (json_string v) security_of"

definition json_ask :: "json option \<Rightarrow> exec_ask option" where
  "json_ask v = Option.bind (json_string v) ask_of"

definition isExecSecurity :: "json option \<Rightarrow> bool" where
  "isExecSecurity v \<longleftrightarrow> json_security v \<noteq> None"

definition isExecAsk :: "json option \<Rightarrow> bool" where
  "isExecAsk v \<longleftrightarrow> json_ask v \<noteq> None"

definition sanitizeExecApprovalPolicy :: "exec_policy \<Rightarrow> exec_policy" where
  "sanitizeExecApprovalPolicy p =
     (let trimmed = (\<lambda>v. map_option (JStr \<circ> js_trim) (json_string v));
          checked = (\<lambda>ok v. if ok v then v else None)
      in \<lparr>xp_security = checked isExecSecurity (trimmed (xp_security p)),
          xp_ask = checked isExecAsk (trimmed (xp_ask p)),
          xp_askFallback = checked isExecSecurity (trimmed (xp_askFallback p)),
          xp_autoAllowSkills = xp_autoAllowSkills p\<rparr>)"

subsection \<open>Allowlists\<close>

definition normalizeAllowlistPattern :: "string \<Rightarrow> string option" where
  "normalizeAllowlistPattern v = normalizeOptionalLowercaseString (Some v)"

text \<open>
  \<^verbatim>\<open>pushEntry\<close> over both lists: an item without a pattern is passed over, and so is
  one whose key (pattern in lower case, trimmed argument pattern) was seen.
\<close>

fun push_entries :: "(string \<times> string) list \<Rightarrow> raw_item list \<Rightarrow> raw_item list" where
  "push_entries seen [] = []"
| "push_entries seen (EntryItem e # es) =
     (case normalizeAllowlistPattern (ae_pattern e) of
        None \<Rightarrow> push_entries seen es
      | Some p \<Rightarrow>
         (let key = (p, case_option [] js_trim (ae_argPattern e))
          in if key \<in> set seen then push_entries seen es
             else EntryItem e # push_entries (key # seen) es))"
| "push_entries seen (_ # es) = push_entries seen es"

definition mergeLegacyAgent :: "raw_item exec_agent \<Rightarrow> raw_item exec_agent \<Rightarrow> raw_item exec_agent" where
  "mergeLegacyAgent current legacy =
     (let c = xa_policy current; l = xa_policy legacy;
          allowlist = push_entries [] (case_option [] id (xa_allowlist current)
            @ case_option [] id (xa_allowlist legacy))
      in \<lparr>xa_policy = \<lparr>xp_security = nullish_or (xp_security c) (xp_security l),
            xp_ask = nullish_or (xp_ask c) (xp_ask l),
            xp_askFallback = nullish_or (xp_askFallback c) (xp_askFallback l),
            xp_autoAllowSkills = (case xp_autoAllowSkills c of None \<Rightarrow> xp_autoAllowSkills l | Some b \<Rightarrow> Some b)\<rparr>,
          xa_allowlist = (if allowlist = [] then None else Some allowlist)\<rparr>)"

definition text_entry :: "string \<Rightarrow> allow_entry" where
  "text_entry p = \<lparr>ae_id = None, ae_pattern = p, ae_source = None, ae_commandText = None,
     ae_argPattern = None, ae_lastUsedAt = None, ae_lastUsedCommand = None, ae_lastResolvedPath = None\<rparr>"

definition coerce_item :: "raw_item \<Rightarrow> allow_entry option" where
  "coerce_item item =
     (case item of
        TextItem s \<Rightarrow> if js_trim s = [] then None else Some (text_entry (js_trim s))
      | EntryItem e \<Rightarrow> if js_trim (ae_pattern e) = [] then None else Some e
      | OtherItem \<Rightarrow> None)"

text \<open>An empty list stays; one that loses all its items is dropped.\<close>

definition coerceAllowlistEntries :: "raw_item list option \<Rightarrow> allow_entry list option" where
  "coerceAllowlistEntries allowlist =
     (case allowlist of
        None \<Rightarrow> None
      | Some [] \<Rightarrow> Some []
      | Some items \<Rightarrow>
         (let result = List.map_filter coerce_item items
          in if result = [] then None else Some result))"

definition ensureAllowlistIds :: "(nat \<Rightarrow> string) \<Rightarrow> allow_entry list option \<Rightarrow> allow_entry list option" where
  "ensureAllowlistIds new allowlist =
     map_option (\<lambda>es. map (\<lambda>(i, e). if truthy_str (ae_id e) then e else e\<lparr>ae_id := Some (new i)\<rparr>)
       (enumerate 0 es)) allowlist"

definition stripAllowlistCommandText :: "allow_entry list option \<Rightarrow> allow_entry list option" where
  "stripAllowlistCommandText allowlist = map_option (map (\<lambda>e. e\<lparr>ae_commandText := None\<rparr>)) allowlist"

subsection \<open>The normal form\<close>

definition DEFAULT_AGENT_ID :: string where
  "DEFAULT_AGENT_ID = ''main''"

definition merge_default :: "(string, raw_item exec_agent) jmap \<Rightarrow> (string, raw_item exec_agent) jmap" where
  "merge_default agents =
     (case jm_get agents ''default'' of
        None \<Rightarrow> agents
      | Some legacyDefault \<Rightarrow>
          jm_delete ''default''
            (jm_put DEFAULT_AGENT_ID
              (case jm_get agents DEFAULT_AGENT_ID of
                 None \<Rightarrow> legacyDefault
               | Some main \<Rightarrow> mergeLegacyAgent main legacyDefault) agents))"

definition normalize_agent :: "(nat \<Rightarrow> string) \<Rightarrow> raw_item exec_agent \<Rightarrow> allow_entry exec_agent" where
  "normalize_agent new a =
     \<lparr>xa_policy = sanitizeExecApprovalPolicy (xa_policy a),
      xa_allowlist = stripAllowlistCommandText (ensureAllowlistIds new (coerceAllowlistEntries (xa_allowlist a)))\<rparr>"

definition trimmed_or_none :: "string option \<Rightarrow> string option" where
  "trimmed_or_none v = (case v of None \<Rightarrow> None | Some s \<Rightarrow> if js_trim s = [] then None else Some (js_trim s))"

definition normalizeExecApprovalsInternal :: "fresh_ids \<Rightarrow> raw_file \<Rightarrow> approvals_file" where
  "normalizeExecApprovalsInternal fresh f =
     \<lparr>xf_socketPath = trimmed_or_none (xf_socketPath f), xf_socketToken = trimmed_or_none (xf_socketToken f),
      xf_defaults = sanitizeExecApprovalPolicy (xf_defaults f),
      xf_agents = map (\<lambda>(k, a). (k, normalize_agent (fresh k) a)) (merge_default (xf_agents f))\<rparr>"

definition createFailClosedExecApprovalsFallback :: "fresh_ids \<Rightarrow> approvals_file" where
  "createFailClosedExecApprovalsFallback fresh =
     normalizeExecApprovalsInternal fresh \<lparr>xf_socketPath = None, xf_socketToken = None,
       xf_defaults = \<lparr>xp_security = Some (JStr ''deny''), xp_ask = Some (JStr ''off''),
         xp_askFallback = Some (JStr ''deny''), xp_autoAllowSkills = Some False\<rparr>,
       xf_agents = []\<rparr>"

subsection \<open>Persisted values\<close>

definition absent_or :: "(json option \<Rightarrow> bool) \<Rightarrow> json option \<Rightarrow> bool" where
  "absent_or ok v \<longleftrightarrow> v = None \<or> ok v"

definition is_string :: "json option \<Rightarrow> bool" where
  "is_string v \<longleftrightarrow> json_string v \<noteq> None"

definition is_boolean :: "json option \<Rightarrow> bool" where
  "is_boolean v \<longleftrightarrow> v = Some (JBool True) \<or> v = Some (JBool False)"

definition is_number :: "json option \<Rightarrow> bool" where
  "is_number v \<longleftrightarrow> (case v of Some (JNum _) \<Rightarrow> True | _ \<Rightarrow> False)"

definition hasValidExecApprovalPolicyFields :: "json \<Rightarrow> bool" where
  "hasValidExecApprovalPolicyFields v \<longleftrightarrow>
     (case v of
        JObj fs \<Rightarrow> absent_or isExecSecurity (jprop fs ''security'') \<and> absent_or isExecAsk (jprop fs ''ask'')
          \<and> absent_or isExecSecurity (jprop fs ''askFallback'')
          \<and> absent_or is_boolean (jprop fs ''autoAllowSkills'')
      | _ \<Rightarrow> False)"

definition isValidPersistedExecAllowlistEntry :: "json \<Rightarrow> bool" where
  "isValidPersistedExecAllowlistEntry v \<longleftrightarrow>
     (case v of
        JStr s \<Rightarrow> js_trim s \<noteq> []
      | JObj fs \<Rightarrow>
          (case jprop fs ''pattern'' of Some (JStr p) \<Rightarrow> js_trim p \<noteq> [] | _ \<Rightarrow> False)
          \<and> absent_or is_string (jprop fs ''id'') \<and> absent_or is_string (jprop fs ''source'')
          \<and> absent_or is_string (jprop fs ''commandText'') \<and> absent_or is_string (jprop fs ''argPattern'')
          \<and> absent_or is_number (jprop fs ''lastUsedAt'')
          \<and> absent_or is_string (jprop fs ''lastUsedCommand'')
          \<and> absent_or is_string (jprop fs ''lastResolvedPath'')
      | _ \<Rightarrow> False)"

definition valid_agent :: "json \<Rightarrow> bool" where
  "valid_agent v \<longleftrightarrow> hasValidExecApprovalPolicyFields v
     \<and> (case v of
          JObj fs \<Rightarrow> absent_or (\<lambda>l. case l of Some (JArr es) \<Rightarrow> list_all isValidPersistedExecAllowlistEntry es | _ \<Rightarrow> False)
            (jprop fs ''allowlist'')
        | _ \<Rightarrow> False)"

definition valid_socket :: "json option \<Rightarrow> bool" where
  "valid_socket v \<longleftrightarrow>
     (case v of
        Some (JObj fs) \<Rightarrow> absent_or is_string (jprop fs ''path'') \<and> absent_or is_string (jprop fs ''token'')
      | _ \<Rightarrow> False)"

definition isValidPersistedExecApprovals :: "json \<Rightarrow> bool" where
  "isValidPersistedExecApprovals v \<longleftrightarrow>
     (case v of
        JObj fs \<Rightarrow> jprop fs ''version'' = Some (JNum 1)
          \<and> absent_or valid_socket (jprop fs ''socket'')
          \<and> absent_or (\<lambda>d. case d of Some p \<Rightarrow> hasValidExecApprovalPolicyFields p | None \<Rightarrow> False) (jprop fs ''defaults'')
          \<and> absent_or (\<lambda>a. case a of Some (JObj gs) \<Rightarrow> list_all (valid_agent \<circ> snd) gs | _ \<Rightarrow> False) (jprop fs ''agents'')
      | _ \<Rightarrow> False)"

text \<open>A checked value as a file.\<close>

fun json_flag :: "json option \<Rightarrow> bool option" where
  "json_flag (Some (JBool b)) = Some b"
| "json_flag _ = None"

fun json_number :: "json option \<Rightarrow> rat option" where
  "json_number (Some (JNum r)) = Some r"
| "json_number _ = None"

definition policy_of_json :: "(string \<times> json) list \<Rightarrow> exec_policy" where
  "policy_of_json fs = \<lparr>xp_security = jprop fs ''security'', xp_ask = jprop fs ''ask'',
     xp_askFallback = jprop fs ''askFallback'', xp_autoAllowSkills = json_flag (jprop fs ''autoAllowSkills'')\<rparr>"

definition item_of_json :: "json \<Rightarrow> raw_item" where
  "item_of_json v =
     (case v of
        JStr s \<Rightarrow> TextItem s
      | JObj fs \<Rightarrow>
         (case json_string (jprop fs ''pattern'') of
            None \<Rightarrow> OtherItem
          | Some p \<Rightarrow> EntryItem \<lparr>ae_id = json_string (jprop fs ''id''), ae_pattern = p,
              ae_source = json_string (jprop fs ''source''), ae_commandText = json_string (jprop fs ''commandText''),
              ae_argPattern = json_string (jprop fs ''argPattern''), ae_lastUsedAt = json_number (jprop fs ''lastUsedAt''),
              ae_lastUsedCommand = json_string (jprop fs ''lastUsedCommand''),
              ae_lastResolvedPath = json_string (jprop fs ''lastResolvedPath'')\<rparr>)
      | _ \<Rightarrow> OtherItem)"

definition agent_of_json :: "json \<Rightarrow> raw_item exec_agent" where
  "agent_of_json v =
     (let fs = object_fields (Some v)
      in \<lparr>xa_policy = policy_of_json fs,
          xa_allowlist = (case jprop fs ''allowlist'' of Some (JArr es) \<Rightarrow> Some (map item_of_json es) | _ \<Rightarrow> None)\<rparr>)"

definition file_of_json :: "json \<Rightarrow> raw_file" where
  "file_of_json v =
     (let fs = object_fields (Some v); socket = object_fields (jprop fs ''socket'')
      in \<lparr>xf_socketPath = json_string (jprop socket ''path''), xf_socketToken = json_string (jprop socket ''token''),
          xf_defaults = policy_of_json (object_fields (jprop fs ''defaults'')),
          xf_agents = map (\<lambda>(k, a). (k, agent_of_json a)) (object_fields (jprop fs ''agents''))\<rparr>)"

text \<open>\<open>None\<close>: a text \<^verbatim>\<open>JSON.parse\<close> refuses.\<close>

definition tryParsePersistedExecApprovals :: "fresh_ids \<Rightarrow> json option \<Rightarrow> approvals_file option" where
  "tryParsePersistedExecApprovals fresh parsed =
     (case parsed of
        Some v \<Rightarrow> if isValidPersistedExecApprovals v
          then Some (normalizeExecApprovalsInternal fresh (file_of_json v)) else None
      | None \<Rightarrow> None)"

text \<open>\<^verbatim>\<open>JSON.stringify(file, null, 2)\<close>, as the value it writes.\<close>

definition policy_json :: "exec_policy \<Rightarrow> (string \<times> json) list" where
  "policy_json p = jopt ''security'' (xp_security p) @ jopt ''ask'' (xp_ask p)
     @ jopt ''askFallback'' (xp_askFallback p)
     @ jopt ''autoAllowSkills'' (map_option JBool (xp_autoAllowSkills p))"

definition entry_json :: "allow_entry \<Rightarrow> json" where
  "entry_json e = JObj (jopt ''id'' (map_option JStr (ae_id e)) @ [(''pattern'', JStr (ae_pattern e))]
     @ jopt ''source'' (map_option JStr (ae_source e)) @ jopt ''commandText'' (map_option JStr (ae_commandText e))
     @ jopt ''argPattern'' (map_option JStr (ae_argPattern e)) @ jopt ''lastUsedAt'' (map_option JNum (ae_lastUsedAt e))
     @ jopt ''lastUsedCommand'' (map_option JStr (ae_lastUsedCommand e))
     @ jopt ''lastResolvedPath'' (map_option JStr (ae_lastResolvedPath e)))"

definition agent_json :: "allow_entry exec_agent \<Rightarrow> json" where
  "agent_json a = JObj (policy_json (xa_policy a)
     @ jopt ''allowlist'' (map_option (\<lambda>es. JArr (map entry_json es)) (xa_allowlist a)))"

definition serializeExecApprovals :: "approvals_file \<Rightarrow> json" where
  "serializeExecApprovals f = JObj
     [(''version'', JNum 1),
      (''socket'', JObj (jopt ''path'' (map_option JStr (xf_socketPath f)) @ jopt ''token'' (map_option JStr (xf_socketToken f)))),
      (''defaults'', JObj (policy_json (xf_defaults f))),
      (''agents'', JObj (map (\<lambda>(k, a). (k, agent_json a)) (xf_agents f)))]"

end
