(* ===== verification/Exec_Approvals.thy ===== *)
theory Exec_Approvals
  imports Exec_File "HOL-Library.Product_Lexorder" "HOL-Library.List_Lexorder" "HOL-Library.Char_ord"
    "HOL-Library.Option_ord"
begin

section \<open>Authority to execute\<close>

text \<open>
  \<^verbatim>\<open>src/infra/exec-approvals-resolver.ts\<close>, the grants and snapshots of
  \<^verbatim>\<open>exec-approvals-allow-always.ts\<close> and
  \<^verbatim>\<open>exec-approvals-authorization.ts\<close>: the policy of an agent, durable grants, the
  policy snapshot that is carried with a delayed decision, and the check made before a command runs.
  A rule key, a JSON text of a tuple in the code, is the tuple. The digest of a command text is an
  argument \<open>sha\<close>. Paths, the socket and the derivation of reusable patterns from a parsed command
  line are left out.
\<close>

subsection \<open>The policy of an agent\<close>

definition DEFAULT_SECURITY :: exec_security where
  "DEFAULT_SECURITY = SecFull"

definition DEFAULT_ASK :: exec_ask where
  "DEFAULT_ASK = AskOff"

definition DEFAULT_EXEC_APPROVAL_ASK_FALLBACK :: exec_security where
  "DEFAULT_EXEC_APPROVAL_ASK_FALLBACK = SecDeny"

definition DEFAULT_AUTO_ALLOW_SKILLS :: bool where
  "DEFAULT_AUTO_ALLOW_SKILLS = False"

record exec_overrides =
  xo_security :: "exec_security option"
  xo_ask :: "exec_ask option"
  xo_askFallback :: "exec_security option"
  xo_autoAllowSkills :: "bool option"

record exec_settings =
  xs_security :: exec_security
  xs_ask :: exec_ask
  xs_askFallback :: exec_security
  xs_autoAllowSkills :: bool

record exec_resolved =
  xr_defaults :: exec_settings
  xr_agent :: exec_settings
  xr_securitySource :: "string option"
  xr_askSource :: "string option"
  xr_askFallbackSource :: "string option"
  xr_allowlist :: "allow_entry list"

definition no_overrides :: exec_overrides where
  "no_overrides = \<lparr>xo_security = None, xo_ask = None, xo_askFallback = None, xo_autoAllowSkills = None\<rparr>"

text \<open>
  One field of the policy: \<open>read\<close> checks a value, \<open>get\<close> selects the field. A field the raw
  agent sets but the normalized one lost falls back to the defaults, past the wildcard.
\<close>

definition resolve_default_field ::
    "string \<Rightarrow> (json option \<Rightarrow> 'v option) \<Rightarrow> (exec_policy \<Rightarrow> json option) \<Rightarrow> exec_policy \<Rightarrow> 'v \<Rightarrow> 'v \<times> string option" where
  "resolve_default_field name read get defaults fallback =
     (case read (get defaults) of
        Some v \<Rightarrow> (v, Some (''defaults.'' @ name))
      | None \<Rightarrow> (fallback, None))"

definition nullish :: "json option \<Rightarrow> bool" where
  "nullish v \<longleftrightarrow> v = None \<or> v = Some JNull"

definition resolve_agent_field ::
    "string \<Rightarrow> (json option \<Rightarrow> 'v option) \<Rightarrow> (exec_policy \<Rightarrow> json option) \<Rightarrow> exec_policy
      \<Rightarrow> exec_policy \<Rightarrow> exec_policy \<Rightarrow> exec_policy \<Rightarrow> exec_policy \<Rightarrow> string \<Rightarrow> 'v \<Rightarrow> 'v \<times> string option" where
  "resolve_agent_field name read get defaults agent rawAgent wildcard rawWildcard agentKey fallback =
     (let fallbackField = resolve_default_field name read get defaults fallback
      in if \<not> nullish (get rawAgent)
         then (case read (get agent) of
                 Some v \<Rightarrow> (v, Some (''agents.'' @ agentKey @ ''.'' @ name))
               | None \<Rightarrow> fallbackField)
         else if \<not> nullish (get rawWildcard)
         then (case read (get wildcard) of
                 Some v \<Rightarrow> (v, Some (''agents.*.'' @ name))
               | None \<Rightarrow> fallbackField)
         else fallbackField)"

definition agent_policy :: "'e exec_file \<Rightarrow> string \<Rightarrow> exec_policy" where
  "agent_policy f key = case_option no_policy xa_policy (jm_get (xf_agents f) key)"

definition agent_allowlist :: "'e exec_file \<Rightarrow> string \<Rightarrow> 'e list" where
  "agent_allowlist f key =
     (case jm_get (xf_agents f) key of None \<Rightarrow> [] | Some a \<Rightarrow> case_option [] id (xa_allowlist a))"

definition normalizeSecurity :: "json option \<Rightarrow> exec_security \<Rightarrow> exec_security" where
  "normalizeSecurity v fallback = case_option fallback id (json_security v)"

definition normalizeAsk :: "json option \<Rightarrow> exec_ask \<Rightarrow> exec_ask" where
  "normalizeAsk v fallback = case_option fallback id (json_ask v)"

text \<open>\<open>a ?? b ?? c\<close> for flags\<close>

definition flag_or :: "bool option \<Rightarrow> bool \<Rightarrow> bool" where
  "flag_or v b = case_option b id v"

definition resolveExecApprovalsFromFilePrepared ::
    "'e exec_file \<Rightarrow> approvals_file \<Rightarrow> string option \<Rightarrow> exec_overrides \<Rightarrow> exec_resolved" where
  "resolveExecApprovalsFromFilePrepared rawFile f agentId overrides =
     (let defaults = xf_defaults f;
          agentKey = case_option ''default'' id agentId;
          agent = agent_policy f agentKey; wildcard = agent_policy f ''*'';
          rawAgent = agent_policy rawFile agentKey; rawWildcard = agent_policy rawFile ''*'';
          fallbackSecurity = case_option DEFAULT_SECURITY id (xo_security overrides);
          fallbackAsk = case_option DEFAULT_ASK id (xo_ask overrides);
          fallbackAskFallback = case_option DEFAULT_EXEC_APPROVAL_ASK_FALLBACK id (xo_askFallback overrides);
          fallbackAutoAllowSkills = flag_or (xo_autoAllowSkills overrides) DEFAULT_AUTO_ALLOW_SKILLS;
          resolvedDefaults = \<lparr>xs_security = normalizeSecurity (xp_security defaults) fallbackSecurity,
            xs_ask = normalizeAsk (xp_ask defaults) fallbackAsk,
            xs_askFallback = normalizeSecurity (xp_askFallback defaults) fallbackAskFallback,
            xs_autoAllowSkills = flag_or (xp_autoAllowSkills defaults) fallbackAutoAllowSkills\<rparr>;
          security = resolve_agent_field ''security'' json_security xp_security defaults agent rawAgent
            wildcard rawWildcard agentKey (xs_security resolvedDefaults);
          ask = resolve_agent_field ''ask'' json_ask xp_ask defaults agent rawAgent
            wildcard rawWildcard agentKey (xs_ask resolvedDefaults);
          askFallback = resolve_agent_field ''askFallback'' json_security xp_askFallback defaults agent rawAgent
            wildcard rawWildcard agentKey (xs_askFallback resolvedDefaults)
      in \<lparr>xr_defaults = resolvedDefaults,
          xr_agent = \<lparr>xs_security = fst security, xs_ask = fst ask, xs_askFallback = fst askFallback,
            xs_autoAllowSkills = flag_or (xp_autoAllowSkills agent)
              (flag_or (xp_autoAllowSkills wildcard) (xs_autoAllowSkills resolvedDefaults))\<rparr>,
          xr_securitySource = snd security, xr_askSource = snd ask, xr_askFallbackSource = snd askFallback,
          xr_allowlist = agent_allowlist f ''*'' @ agent_allowlist f agentKey\<rparr>)"

definition resolveExecApprovalsFromFileInternal ::
    "fresh_ids \<Rightarrow> raw_file \<Rightarrow> string option \<Rightarrow> exec_overrides \<Rightarrow> exec_resolved" where
  "resolveExecApprovalsFromFileInternal fresh rawFile agentId overrides =
     resolveExecApprovalsFromFilePrepared rawFile (normalizeExecApprovalsInternal fresh rawFile) agentId overrides"

subsection \<open>Durable grants\<close>

type_synonym digest = "string \<Rightarrow> string"

definition buildDurableCommandApprovalPattern :: "digest \<Rightarrow> string \<Rightarrow> string" where
  "buildDurableCommandApprovalPattern sha commandText = ''=command:'' @ take 16 (sha commandText)"

definition buildNodeCommandApprovalPattern :: "digest \<Rightarrow> string \<Rightarrow> string" where
  "buildNodeCommandApprovalPattern sha commandText = ''=node-command:'' @ take 16 (sha commandText)"

definition hasNodeCommandAllowAlwaysMarker ::
    "digest \<Rightarrow> allow_entry list \<Rightarrow> string option \<Rightarrow> bool" where
  "hasNodeCommandAllowAlwaysMarker sha allowlist commandText \<longleftrightarrow>
     (case normalizeOptionalString commandText of
        None \<Rightarrow> False
      | Some t \<Rightarrow> list_ex (\<lambda>e. ae_source e = Some ''allow-always''
          \<and> ae_pattern e = buildNodeCommandApprovalPattern sha t) allowlist)"

definition hasExactCommandDurableExecApproval ::
    "digest \<Rightarrow> allow_entry list \<Rightarrow> string option \<Rightarrow> bool" where
  "hasExactCommandDurableExecApproval sha allowlist commandText \<longleftrightarrow>
     (case normalizeOptionalString commandText of
        None \<Rightarrow> False
      | Some t \<Rightarrow> list_ex (\<lambda>e. ae_source e = Some ''allow-always''
          \<and> (ae_pattern e = buildDurableCommandApprovalPattern sha t
             \<or> map_option js_trim (ae_commandText e) = Some t)) allowlist)"

definition hasSegmentDurableExecApproval :: "bool \<Rightarrow> allow_entry option list \<Rightarrow> bool" where
  "hasSegmentDurableExecApproval analysisOk entries \<longleftrightarrow>
     analysisOk \<and> entries \<noteq> []
     \<and> list_all (\<lambda>e. Option.bind e ae_source = Some ''allow-always'') entries"

definition hasDurableExecApproval ::
    "digest \<Rightarrow> bool \<Rightarrow> allow_entry option list \<Rightarrow> allow_entry list \<Rightarrow> string option \<Rightarrow> bool" where
  "hasDurableExecApproval sha analysisOk entries allowlist commandText \<longleftrightarrow>
     hasExactCommandDurableExecApproval sha allowlist commandText
     \<or> hasSegmentDurableExecApproval analysisOk entries"

type_synonym match_key = "string \<times> string option"
type_synonym rule_key = "string \<times> string option \<times> string option"

definition buildAllowlistEntryMatchKey :: "allow_entry \<Rightarrow> match_key" where
  "buildAllowlistEntryMatchKey e = (ae_pattern e, ae_argPattern e)"

subsection \<open>The policy snapshot\<close>

record policy_rule =
  pr_pattern :: string
  pr_argPattern :: "string option"
  pr_source :: "string option"

record policy_snapshot =
  sn_security :: exec_security
  sn_ask :: exec_ask
  sn_askFallback :: exec_security
  sn_autoAllowSkills :: bool
  sn_allowlistRules :: "policy_rule list"

definition buildExecApprovalPolicyRuleKey :: "policy_rule \<Rightarrow> rule_key" where
  "buildExecApprovalPolicyRuleKey r = (pr_pattern r, pr_argPattern r, pr_source r)"

definition buildAllowAlwaysUpgradeRuleKey :: "policy_rule \<Rightarrow> rule_key option" where
  "buildAllowAlwaysUpgradeRuleKey r =
     (if pr_source r \<noteq> None then None
      else Some (pr_pattern r, pr_argPattern r, Some ''allow-always''))"

text \<open>
  The order of the rules: by UTF-8 bytes, which is by code units, absent before present.
\<close>

definition canonicalizeExecApprovalPolicyRules :: "policy_rule list \<Rightarrow> policy_rule list" where
  "canonicalizeExecApprovalPolicyRules rules = sort_key buildExecApprovalPolicyRuleKey (uniqueValues rules)"

definition rule_of_entry :: "allow_entry \<Rightarrow> policy_rule" where
  "rule_of_entry e = \<lparr>pr_pattern = ae_pattern e, pr_argPattern = ae_argPattern e,
     pr_source = (if ae_source e = Some ''allow-always'' then ae_source e else None)\<rparr>"

definition createExecApprovalPolicySnapshot :: "fresh_ids \<Rightarrow> raw_file \<Rightarrow> string option \<Rightarrow> policy_snapshot" where
  "createExecApprovalPolicySnapshot fresh f agentId =
     (let resolved = resolveExecApprovalsFromFileInternal fresh f agentId no_overrides
      in \<lparr>sn_security = xs_security (xr_agent resolved), sn_ask = xs_ask (xr_agent resolved),
          sn_askFallback = xs_askFallback (xr_agent resolved),
          sn_autoAllowSkills = xs_autoAllowSkills (xr_agent resolved),
          sn_allowlistRules = canonicalizeExecApprovalPolicyRules (map rule_of_entry (xr_allowlist resolved))\<rparr>)"

definition isExecApprovalPolicySnapshotCurrent :: "policy_snapshot \<Rightarrow> policy_snapshot \<Rightarrow> bool" where
  "isExecApprovalPolicySnapshotCurrent expected current \<longleftrightarrow>
     (let currentRuleKeys = map buildExecApprovalPolicyRuleKey (sn_allowlistRules current)
      in sn_security expected = sn_security current \<and> sn_ask expected = sn_ask current
         \<and> sn_askFallback expected = sn_askFallback current
         \<and> sn_autoAllowSkills expected = sn_autoAllowSkills current
         \<and> list_all (\<lambda>rule. buildExecApprovalPolicyRuleKey rule \<in> set currentRuleKeys
              \<or> (case buildAllowAlwaysUpgradeRuleKey rule of
                   None \<Rightarrow> False
                 | Some key \<Rightarrow> key \<in> set currentRuleKeys)) (sn_allowlistRules expected))"

subsection \<open>Adding grants\<close>

text \<open>
  \<open>newId\<close> and \<open>now\<close> are the random id and the clock of the update; \<open>Inr None\<close> leaves the
  file as it is. An empty agent id counts as absent.
\<close>

definition matches_entry :: "string \<Rightarrow> string option \<Rightarrow> allow_entry \<Rightarrow> bool" where
  "matches_entry pattern argPattern e \<longleftrightarrow> ae_pattern e = pattern \<and> ae_argPattern e = argPattern"

definition put_agent_allowlist :: "string \<Rightarrow> allow_entry list \<Rightarrow> approvals_file \<Rightarrow> approvals_file" where
  "put_agent_allowlist target allowlist f =
     f\<lparr>xf_agents := jm_put target
        \<lparr>xa_policy = agent_policy f target, xa_allowlist = Some allowlist\<rparr> (xf_agents f)\<rparr>"

definition updated_allowlist ::
    "string \<Rightarrow> rat \<Rightarrow> string \<Rightarrow> string option \<Rightarrow> string option \<Rightarrow> allow_entry list \<Rightarrow> allow_entry list" where
  "updated_allowlist newId now trimmed argPattern source allowlist =
     (if find (matches_entry trimmed argPattern) allowlist \<noteq> None
      then map (\<lambda>e. if matches_entry trimmed argPattern e
             then e\<lparr>ae_argPattern := argPattern, ae_source := case_option (ae_source e) Some source,
                    ae_lastUsedAt := Some now\<rparr>
             else e) allowlist
      else allowlist @ [\<lparr>ae_id = Some newId, ae_pattern = trimmed, ae_source = source, ae_commandText = None,
             ae_argPattern = argPattern, ae_lastUsedAt = Some now, ae_lastUsedCommand = None,
             ae_lastResolvedPath = None\<rparr>])"

definition applyAllowlistEntryUpdate ::
    "string \<Rightarrow> rat \<Rightarrow> approvals_file \<Rightarrow> string option \<Rightarrow> string \<Rightarrow> string option \<Rightarrow> string option
      \<Rightarrow> exec_error + approvals_file option" where
  "applyAllowlistEntryUpdate newId now f agentId pattern argPattern0 source =
     (if \<not> truthy_str agentId then Inl ENoAgentId
      else
       (let target = the agentId;
            allowlist = agent_allowlist f target;
            trimmed = js_trim pattern;
            argPattern = (if argPattern0 = Some [] then None else argPattern0);
            existingEntry = find (matches_entry trimmed argPattern) allowlist
        in if trimmed = [] then Inr None
           else if (case existingEntry of None \<Rightarrow> False | Some e \<Rightarrow> \<not> truthy_str source \<or> ae_source e = source)
           then Inr None
           else Inr (Some (put_agent_allowlist target
                  (updated_allowlist newId now trimmed argPattern source allowlist) f))))"

definition decision_entries :: "digest \<Rightarrow> persistence_decision \<Rightarrow> (string \<times> string option) list" where
  "decision_entries sha decision =
     (case decision of
        PersistExactCommand text \<Rightarrow>
          (case normalizeOptionalString (Some text) of
             None \<Rightarrow> [] | Some t \<Rightarrow> [(buildDurableCommandApprovalPattern sha t, None)])
      | PersistPatterns patterns text \<Rightarrow>
          map (\<lambda>p. (ap_pattern p, ap_argPattern p)) patterns
          @ (case normalizeOptionalString text of
               None \<Rightarrow> [] | Some t \<Rightarrow> [(buildNodeCommandApprovalPattern sha t, None)])
      | PersistOneShot _ \<Rightarrow> [])"

text \<open>The id of the \<open>i\<close>-th new entry is \<open>newId i\<close>.\<close>

fun apply_entries ::
    "(nat \<Rightarrow> string) \<Rightarrow> rat \<Rightarrow> string option \<Rightarrow> nat \<Rightarrow> (string \<times> string option) list
      \<Rightarrow> approvals_file \<times> bool \<Rightarrow> exec_error + approvals_file \<times> bool" where
  "apply_entries newId now agentId i [] acc = Inr acc"
| "apply_entries newId now agentId i ((pattern, argPattern) # es) (next, changed) =
     bnd (applyAllowlistEntryUpdate (newId i) now next agentId pattern argPattern (Some ''allow-always'')) (\<lambda>updated.
       apply_entries newId now agentId (Suc i) es
         (case updated of Some f \<Rightarrow> (f, True) | None \<Rightarrow> (next, changed)))"

definition applyAllowAlwaysDecision ::
    "digest \<Rightarrow> (nat \<Rightarrow> string) \<Rightarrow> rat \<Rightarrow> approvals_file \<Rightarrow> string option \<Rightarrow> persistence_decision
      \<Rightarrow> exec_error + approvals_file option" where
  "applyAllowAlwaysDecision sha newId now f agentId decision =
     bnd (apply_entries newId now agentId 0 (decision_entries sha decision) (f, False)) (\<lambda>(next, changed).
       Inr (if changed then Some next else None))"

subsection \<open>The check before execution\<close>

datatype authorization_source = CurrentPolicy | AskFallback | ExplicitApproval | AutoReview

record usage_authorization =
  ua_source :: authorization_source
  ua_security :: exec_security
  ua_ask :: exec_ask
  ua_allowlistSatisfied :: bool
  ua_policySnapshot :: "policy_snapshot option"
  ua_requireAutoAllowSkills :: bool
  ua_requireExactCommandApproval :: bool
  ua_requireDurableAllowlistApproval :: bool

definition snapshot_stands :: "fresh_ids \<Rightarrow> raw_file \<Rightarrow> string option \<Rightarrow> usage_authorization \<Rightarrow> bool" where
  "snapshot_stands fresh f agentId authorization \<longleftrightarrow>
     (case ua_policySnapshot authorization of
        None \<Rightarrow> False
      | Some expected \<Rightarrow> isExecApprovalPolicySnapshotCurrent expected (createExecApprovalPolicySnapshot fresh f agentId))"

text \<open>The checks of an allowlist plan, after the settings have been compared.\<close>

definition check_allowlist_plan ::
    "digest \<Rightarrow> exec_resolved \<Rightarrow> string \<Rightarrow> match_key list \<Rightarrow> usage_authorization \<Rightarrow> exec_error + unit" where
  "check_allowlist_plan sha current command matchKeys authorization =
     (if ua_requireExactCommandApproval authorization
      then (if hasExactCommandDurableExecApproval sha (xr_allowlist current) (Some command) then Inr ()
            else Inl EApprovalChanged)
      else
       (let durableKeys = map buildAllowlistEntryMatchKey
              (filter (\<lambda>e. ae_source e = Some ''allow-always'') (xr_allowlist current));
            currentKeys = map buildAllowlistEntryMatchKey (xr_allowlist current)
        in if ua_requireDurableAllowlistApproval authorization
              \<and> (matchKeys = [] \<or> list_ex (\<lambda>k. k \<notin> set durableKeys) matchKeys)
           then Inl EApprovalChanged
           else if \<not> ua_allowlistSatisfied authorization then Inl EApprovalChanged
           else if list_ex (\<lambda>k. k \<notin> set currentKeys) matchKeys then Inl EApprovalChanged
           else if ua_requireAutoAllowSkills authorization \<and> \<not> xs_autoAllowSkills (xr_agent current)
           then Inl EApprovalChanged
           else Inr ()))"

definition assertCurrentUsageAuthorization ::
    "digest \<Rightarrow> fresh_ids \<Rightarrow> raw_file \<Rightarrow> string option \<Rightarrow> string \<Rightarrow> match_key list \<Rightarrow> usage_authorization
      \<Rightarrow> exec_error + unit" where
  "assertCurrentUsageAuthorization sha fresh f agentId command matchKeys authorization =
     (let current = resolveExecApprovalsFromFileInternal fresh f agentId
            (no_overrides\<lparr>xo_security := Some (ua_security authorization), xo_ask := Some (ua_ask authorization)\<rparr>);
          security = minSecurity (ua_security authorization) (xs_security (xr_agent current));
          ask = maxAsk (ua_ask authorization) (xs_ask (xr_agent current));
          delayed = ua_source authorization = ExplicitApproval \<or> ua_source authorization = AutoReview
      in if security = SecDeny then Inl EApprovalChanged
         else if delayed \<and> \<not> snapshot_stands fresh f agentId authorization then Inl EApprovalChanged
         else
          (case ua_source authorization of
             ExplicitApproval \<Rightarrow> Inr ()
           | AutoReview \<Rightarrow> if ask = AskAlways then Inl EApprovalChanged else Inr ()
           | AskFallback \<Rightarrow>
              (let askFallback = minSecurity security (xs_askFallback (xr_agent current))
               in if askFallback = SecDeny \<or> askFallback \<noteq> ua_security authorization then Inl EApprovalChanged
                  else if askFallback = SecFull then Inr ()
                  else check_allowlist_plan sha current command matchKeys authorization)
           | CurrentPolicy \<Rightarrow>
               if security \<noteq> ua_security authorization \<or> ask \<noteq> ua_ask authorization then Inl EApprovalChanged
               else if security \<noteq> SecAllowlist then Inr ()
               else check_allowlist_plan sha current command matchKeys authorization))"

subsection \<open>Recording the use\<close>

definition isGeneratedHashedArgPattern :: "string option \<Rightarrow> bool" where
  "isGeneratedHashedArgPattern v \<longleftrightarrow>
     (case v of None \<Rightarrow> False | Some s \<Rightarrow> take 12 s = ''sha256:argv:'')"

definition match_keys :: "allow_entry list \<Rightarrow> match_key list" where
  "match_keys matches = uniqueValues (map buildAllowlistEntryMatchKey (filter (\<lambda>e. ae_pattern e \<noteq> []) matches))"

definition used_entry :: "string \<Rightarrow> rat \<Rightarrow> string \<Rightarrow> string option \<Rightarrow> allow_entry \<Rightarrow> allow_entry" where
  "used_entry newId now command resolvedPath e =
     e\<lparr>ae_id := Some (case_option newId id (ae_id e)), ae_lastUsedAt := Some now,
       ae_lastUsedCommand := (if isGeneratedHashedArgPattern (ae_argPattern e) then None else Some command),
       ae_lastResolvedPath := resolvedPath\<rparr>"

definition record_use ::
    "(nat \<Rightarrow> string) \<Rightarrow> rat \<Rightarrow> match_key list \<Rightarrow> string \<Rightarrow> string option \<Rightarrow> allow_entry list \<Rightarrow> allow_entry list" where
  "record_use newId now keys command resolvedPath es =
     map (\<lambda>(i, e). if buildAllowlistEntryMatchKey e \<in> set keys
        then used_entry (newId i) now command resolvedPath e else e) (enumerate 0 es)"

definition applyRecordedAllowlistMetadata ::
    "fresh_ids \<Rightarrow> rat \<Rightarrow> approvals_file \<Rightarrow> string option \<Rightarrow> allow_entry list \<Rightarrow> string \<Rightarrow> string option
      \<Rightarrow> exec_error + approvals_file option" where
  "applyRecordedAllowlistMetadata newIds now f agentId matches command resolvedPath =
     (let keys = match_keys matches
      in if keys = [] then Inr None
         else if \<not> truthy_str agentId then Inl ENoAgentId
         else
          (let target = the agentId;
               touched = (\<lambda>k a. k \<in> set (if target = ''*'' then [target] else [''*'', target])
                 \<and> list_ex (\<lambda>e. buildAllowlistEntryMatchKey e \<in> set keys) (case_option [] id (xa_allowlist a)))
           in if list_ex (\<lambda>(k, a). touched k a) (xf_agents f)
              then Inr (Some (f\<lparr>xf_agents := map (\<lambda>(k, a). (k, if touched k a
                then a\<lparr>xa_allowlist := map_option (record_use (newIds k) now keys command resolvedPath) (xa_allowlist a)\<rparr>
                else a)) (xf_agents f)\<rparr>))
              else Inr None))"

definition applyRecordedAllowlistUse ::
    "digest \<Rightarrow> fresh_ids \<Rightarrow> fresh_ids \<Rightarrow> rat \<Rightarrow> approvals_file \<Rightarrow> string option \<Rightarrow> allow_entry list \<Rightarrow> string
      \<Rightarrow> string option \<Rightarrow> usage_authorization option \<Rightarrow> exec_error + approvals_file option" where
  "applyRecordedAllowlistUse sha fresh newIds now f agentId matches command resolvedPath authorization =
     bnd (case authorization of
            None \<Rightarrow> Inr ()
          | Some a \<Rightarrow> assertCurrentUsageAuthorization sha fresh (as_raw f) agentId command (match_keys matches) a) (\<lambda>_.
       applyRecordedAllowlistMetadata newIds now f agentId matches command resolvedPath)"

text \<open>The random ids and the clock of a commit.\<close>

record commit_env =
  ce_sha :: digest
  ce_fresh :: fresh_ids
  ce_grantIds :: "nat \<Rightarrow> string"
  ce_useIds :: fresh_ids
  ce_now :: rat

record commit_params =
  cp_agentId :: "string option"
  cp_matches :: "allow_entry list"
  cp_command :: string
  cp_resolvedPath :: "string option"
  cp_authorization :: usage_authorization
  cp_allowAlwaysDecision :: "persistence_decision option"

definition is_persistent :: "persistence_decision option \<Rightarrow> bool" where
  "is_persistent d \<longleftrightarrow> (case d of None \<Rightarrow> False | Some (PersistOneShot _) \<Rightarrow> False | _ \<Rightarrow> True)"

text \<open>What is asked of the parameters before the update, and the update.\<close>

definition commit_precheck :: "commit_params \<Rightarrow> exec_error + unit" where
  "commit_precheck p =
     (let source = ua_source (cp_authorization p)
      in if (source = ExplicitApproval \<or> source = AutoReview) \<and> ua_policySnapshot (cp_authorization p) = None
         then Inl EDelayedWithoutSnapshot
         else if is_persistent (cp_allowAlwaysDecision p) \<and> source \<noteq> ExplicitApproval
         then Inl EPersistWithoutApproval else Inr ())"

definition commit_update :: "commit_env \<Rightarrow> commit_params \<Rightarrow> approvals_file \<Rightarrow> exec_error + approvals_file option" where
  "commit_update env p f =
     bnd (assertCurrentUsageAuthorization (ce_sha env) (ce_fresh env) (as_raw f) (cp_agentId p) (cp_command p)
            (match_keys (cp_matches p)) (cp_authorization p)) (\<lambda>_.
     bnd (if is_persistent (cp_allowAlwaysDecision p)
          then applyAllowAlwaysDecision (ce_sha env) (ce_grantIds env) (ce_now env) f (cp_agentId p)
                 (the (cp_allowAlwaysDecision p))
          else Inr None) (\<lambda>granted.
     bnd (applyRecordedAllowlistMetadata (ce_useIds env) (ce_now env) (case_option f id granted) (cp_agentId p)
            (cp_matches p) (cp_command p) (cp_resolvedPath p)) (\<lambda>recorded.
       Inr (case recorded of Some g \<Rightarrow> Some g | None \<Rightarrow> granted))))"

end
