(* ===== verification/Exec_Facts.thy ===== *)
theory Exec_Facts
  imports Exec_Approvals
begin

section \<open>The normal form of an approval policy\<close>

text \<open>
  Normalizing gives a file that normalizing leaves alone, and that survives being written and read
  back. On such a file the resolver reads the policy fields themselves; two files with the same
  fields give every agent the same settings.
\<close>

definition normal_entry :: "allow_entry \<Rightarrow> bool" where
  "normal_entry e \<longleftrightarrow> js_trim (ae_pattern e) \<noteq> [] \<and> truthy_str (ae_id e) \<and> ae_commandText e = None"

definition normal_policy :: "exec_policy \<Rightarrow> bool" where
  "normal_policy p \<longleftrightarrow> sanitizeExecApprovalPolicy p = p"

definition normal_agent :: "allow_entry exec_agent \<Rightarrow> bool" where
  "normal_agent a \<longleftrightarrow> normal_policy (xa_policy a) \<and> list_all normal_entry (case_option [] id (xa_allowlist a))"

definition normal_file :: "approvals_file \<Rightarrow> bool" where
  "normal_file f \<longleftrightarrow> trimmed_or_none (xf_socketPath f) = xf_socketPath f
     \<and> trimmed_or_none (xf_socketToken f) = xf_socketToken f \<and> normal_policy (xf_defaults f)
     \<and> ''default'' \<notin> set (jm_keys (xf_agents f)) \<and> (\<forall>(k, a)\<in>set (xf_agents f). normal_agent a)"

definition fresh_ok :: "fresh_ids \<Rightarrow> bool" where
  "fresh_ok fresh \<longleftrightarrow> (\<forall>k i. fresh k i \<noteq> [])"

subsection \<open>Policy fields\<close>

lemma trim_texts [simp]:
  "js_trim (security_text s) = security_text s" "js_trim (ask_text a) = ask_text a"
  by (cases s; simp add: js_trim_def js_space_def) (cases a; simp add: js_trim_def js_space_def)

lemma json_security_iff: "json_security v = Some s \<longleftrightarrow> v = Some (JStr (security_text s))"
  by (cases v rule: json_string.cases) (auto simp: json_security_def security_of_Some)

lemma json_ask_iff: "json_ask v = Some a \<longleftrightarrow> v = Some (JStr (ask_text a))"
  by (cases v rule: json_string.cases) (auto simp: json_ask_def ask_of_Some)

lemma isExecSecurityE: "isExecSecurity v \<Longrightarrow> (\<And>s. v = Some (JStr (security_text s)) \<Longrightarrow> P) \<Longrightarrow> P"
  unfolding isExecSecurity_def by (metis json_security_iff not_None_eq)

lemma isExecAskE: "isExecAsk v \<Longrightarrow> (\<And>a. v = Some (JStr (ask_text a)) \<Longrightarrow> P) \<Longrightarrow> P"
  unfolding isExecAsk_def by (metis json_ask_iff not_None_eq)

definition clean_field :: "(json option \<Rightarrow> bool) \<Rightarrow> json option \<Rightarrow> bool" where
  "clean_field ok v \<longleftrightarrow> v = None \<or> ok v"

lemma sanitized_fields:
  "clean_field isExecSecurity (xp_security (sanitizeExecApprovalPolicy p))"
  "clean_field isExecAsk (xp_ask (sanitizeExecApprovalPolicy p))"
  "clean_field isExecSecurity (xp_askFallback (sanitizeExecApprovalPolicy p))"
  by (simp_all add: sanitizeExecApprovalPolicy_def clean_field_def Let_def)

lemma normal_policy_iff:
  "normal_policy p \<longleftrightarrow> clean_field isExecSecurity (xp_security p) \<and> clean_field isExecAsk (xp_ask p)
     \<and> clean_field isExecSecurity (xp_askFallback p)"
proof
  assume "normal_policy p"
  thus "clean_field isExecSecurity (xp_security p) \<and> clean_field isExecAsk (xp_ask p)
     \<and> clean_field isExecSecurity (xp_askFallback p)"
    using sanitized_fields [of p] by (simp add: normal_policy_def)
next
  have s: "(if isExecSecurity (map_option (JStr \<circ> js_trim) (json_string v))
      then map_option (JStr \<circ> js_trim) (json_string v) else None) = v" if "clean_field isExecSecurity v" for v
    using that unfolding clean_field_def
    by (auto elim!: isExecSecurityE) (auto simp: isExecSecurity_def json_security_def)
  have a: "(if isExecAsk (map_option (JStr \<circ> js_trim) (json_string v))
      then map_option (JStr \<circ> js_trim) (json_string v) else None) = v" if "clean_field isExecAsk v" for v
    using that unfolding clean_field_def
    by (auto elim!: isExecAskE) (auto simp: isExecAsk_def json_ask_def)
  assume "clean_field isExecSecurity (xp_security p) \<and> clean_field isExecAsk (xp_ask p)
     \<and> clean_field isExecSecurity (xp_askFallback p)"
  thus "normal_policy p"
    unfolding normal_policy_def sanitizeExecApprovalPolicy_def Let_def by (cases p) (simp only: exec_policy.simps s a)
qed

lemma normal_sanitized [simp]: "normal_policy (sanitizeExecApprovalPolicy p)"
  by (simp add: normal_policy_iff sanitized_fields)

lemma normal_no_policy [simp]: "normal_policy no_policy"
  by (simp add: normal_policy_iff no_policy_def clean_field_def)

subsection \<open>Allowlists\<close>

lemma coerce_item_pattern: "coerce_item i = Some e \<Longrightarrow> js_trim (ae_pattern e) \<noteq> []"
  by (auto simp: coerce_item_def text_entry_def split: raw_item.splits if_splits)

lemma coerced_patterns:
  assumes "coerceAllowlistEntries items = Some es" "e \<in> set es"
  shows "js_trim (ae_pattern e) \<noteq> []"
proof -
  from assms(1) have "es = [] \<or> es = List.map_filter coerce_item (the items)"
    unfolding coerceAllowlistEntries_def Let_def
    by (cases items) (simp_all del: map_filter_simps split: list.splits if_splits)
  with assms(2) have "e \<in> set (List.map_filter coerce_item (the items))" by auto
  then obtain i where "coerce_item i = Some e" by (auto simp: map_filter_def)
  thus ?thesis by (rule coerce_item_pattern)
qed

lemma coerce_entries:
  assumes "list_all normal_entry es"
  shows "coerceAllowlistEntries (Some (map EntryItem es)) = Some es"
proof -
  have "List.map_filter coerce_item (map EntryItem es) = es"
    using assms by (induction es) (auto simp: map_filter_simps coerce_item_def normal_entry_def)
  thus ?thesis by (cases es) (simp_all add: coerceAllowlistEntries_def)
qed

lemma ensured_ids:
  "list_all normal_entry es \<Longrightarrow> ensureAllowlistIds new (Some es) = Some es"
  unfolding ensureAllowlistIds_def
  by (simp, rule nth_equalityI) (auto simp: nth_enumerate_eq normal_entry_def list_all_length)

lemma stripped_text:
  "list_all normal_entry es \<Longrightarrow> stripAllowlistCommandText (Some es) = Some es"
  unfolding stripAllowlistCommandText_def
  by (simp, rule map_idI) (auto simp: normal_entry_def list_all_iff)

lemma normalize_agent_normal:
  assumes "\<forall>i. new i \<noteq> []"
  shows "normal_agent (normalize_agent new a)"
proof (cases "coerceAllowlistEntries (xa_allowlist a)")
  case None
  thus ?thesis by (simp add: normalize_agent_def normal_agent_def ensureAllowlistIds_def stripAllowlistCommandText_def)
next
  case (Some es)
  have p: "js_trim (ae_pattern (es ! i)) \<noteq> []" if "i < length es" for i
    using coerced_patterns [OF Some] that by simp
  show ?thesis
    using p assms
    by (auto simp: normalize_agent_def normal_agent_def Some ensureAllowlistIds_def stripAllowlistCommandText_def
        normal_entry_def list_all_length nth_enumerate_eq)
qed

lemma normalize_agent_id: "normal_agent a \<Longrightarrow> normalize_agent new (raw_agent a) = a"
proof (cases "xa_allowlist a")
  case None
  assume "normal_agent a"
  with None show ?thesis
    by (simp add: normalize_agent_def raw_agent_def normal_agent_def normal_policy_def coerceAllowlistEntries_def
        ensureAllowlistIds_def stripAllowlistCommandText_def)
next
  case (Some es)
  assume "normal_agent a"
  with Some show ?thesis
    by (simp add: normalize_agent_def raw_agent_def normal_agent_def normal_policy_def coerce_entries ensured_ids stripped_text)
qed

subsection \<open>Files\<close>

lemma trimmed_idem [simp]: "trimmed_or_none (trimmed_or_none v) = trimmed_or_none v"
  by (simp add: trimmed_or_none_def split: option.splits)

lemma merge_default_gone: "''default'' \<notin> set (jm_keys (merge_default agents))"
proof (cases "jm_get agents ''default''")
  case None
  thus ?thesis using jm_get_keys [of agents "''default''"] by (simp add: merge_default_def)
next
  case (Some d)
  thus ?thesis by (simp add: merge_default_def jm_keys_delete)
qed

lemma merge_default_none: "''default'' \<notin> set (jm_keys agents) \<Longrightarrow> merge_default agents = agents"
  using jm_get_keys [of agents "''default''"] by (simp add: merge_default_def)

lemma keys_map: "jm_keys (map (\<lambda>(k, a). (k, g k a)) m) = jm_keys m"
  by (induction m) (auto simp: jm_keys_def)

lemma get_map: "jm_get (map (\<lambda>(k, a). (k, g k a)) m) j = map_option (g j) (jm_get m j)"
  by (induction m) auto

lemma normalize_normal: "fresh_ok fresh \<Longrightarrow> normal_file (normalizeExecApprovalsInternal fresh f)"
  by (auto simp: normal_file_def normalizeExecApprovalsInternal_def keys_map merge_default_gone fresh_ok_def
      intro!: normalize_agent_normal)

lemma normalize_id:
  assumes "normal_file f"
  shows "normalizeExecApprovalsInternal fresh (as_raw f) = f"
proof -
  have k: "jm_keys (xf_agents (as_raw f)) = jm_keys (xf_agents f)"
    by (simp add: as_raw_def keys_map)
  have "map (\<lambda>(k, a). (k, normalize_agent (fresh k) a)) (map (\<lambda>(k, a). (k, raw_agent a)) (xf_agents f)) = xf_agents f"
    using assms by (simp add: normal_file_def, intro map_idI) (auto simp: normalize_agent_id)
  thus ?thesis
    using assms merge_default_none [of "xf_agents (as_raw f)"] k
    by (intro exec_file.equality)
      (simp_all add: normalizeExecApprovalsInternal_def normal_file_def as_raw_def normal_policy_def)
qed

end
