(* ===== verification/Exec_Authority.thy ===== *)
theory Exec_Authority
  imports Exec_Facts
begin

section \<open>What a pending decision rests on\<close>

text \<open>
  A file extends another when it has the same settings and lost no rule: every entry is still there,
  or there with an allow-always mark it did not have. A snapshot taken of a file stays current in every
  extension, and granting and recording a use extend the file.
\<close>

definition always :: "allow_entry \<Rightarrow> bool" where
  "always e \<longleftrightarrow> ae_source e = Some ''allow-always''"

definition same_key :: "allow_entry \<Rightarrow> allow_entry \<Rightarrow> bool" where
  "same_key e e' \<longleftrightarrow> ae_pattern e' = ae_pattern e \<and> ae_argPattern e' = ae_argPattern e"

definition keeps_grants :: "allow_entry list \<Rightarrow> allow_entry list \<Rightarrow> bool" where
  "keeps_grants es es' \<longleftrightarrow> (\<forall>e\<in>set es. \<exists>e'\<in>set es'. same_key e e' \<and> (always e \<longrightarrow> always e'))"

lemma keeps_refl [simp]: "keeps_grants es es"
  by (auto simp: keeps_grants_def same_key_def)

lemma keeps_trans: "keeps_grants a b \<Longrightarrow> keeps_grants b c \<Longrightarrow> keeps_grants a c"
  unfolding keeps_grants_def same_key_def by metis

lemma keeps_append: "keeps_grants a a' \<Longrightarrow> keeps_grants b b' \<Longrightarrow> keeps_grants (a @ b) (a' @ b')"
  unfolding keeps_grants_def by (simp add: ball_Un bex_Un)

lemma keeps_map:
  assumes "\<And>e. e \<in> set es \<Longrightarrow> same_key e (g e) \<and> (always e \<longrightarrow> always (g e))"
  shows "keeps_grants es (map g es)"
  using assms by (auto simp: keeps_grants_def)

subsection \<open>Settings\<close>

lemma agent_policy_raw [simp]: "agent_policy (as_raw f) k = agent_policy f k"
  by (simp add: agent_policy_def as_raw_def get_map raw_agent_def split: option.split)

definition same_settings :: "approvals_file \<Rightarrow> approvals_file \<Rightarrow> bool" where
  "same_settings f f' \<longleftrightarrow> xf_defaults f' = xf_defaults f \<and> (\<forall>k. agent_policy f' k = agent_policy f k)"

abbreviation resolved :: "fresh_ids \<Rightarrow> approvals_file \<Rightarrow> string option \<Rightarrow> exec_overrides \<Rightarrow> exec_resolved" where
  "resolved fresh f \<equiv> resolveExecApprovalsFromFileInternal fresh (as_raw f)"

lemma resolved_prepared:
  "normal_file f \<Longrightarrow> resolved fresh f = resolveExecApprovalsFromFilePrepared f f"
  by (intro ext) (simp only: resolveExecApprovalsFromFileInternal_def normalize_id
      resolveExecApprovalsFromFilePrepared_def agent_policy_raw)

lemma resolved_settings:
  assumes "normal_file f" "normal_file f'" "same_settings f f'"
  shows "xr_agent (resolved fresh f' a ovr) = xr_agent (resolved fresh' f a ovr)"
proof -
  have d: "xf_defaults f' = xf_defaults f" "agent_policy f' = agent_policy f"
    using assms(3) by (auto simp: same_settings_def)
  show ?thesis
    unfolding resolved_prepared [OF assms(1)] resolved_prepared [OF assms(2)]
    by (simp only: resolveExecApprovalsFromFilePrepared_def Let_def exec_resolved.select_convs d)
qed

lemma resolved_allowlist:
  assumes "normal_file f"
  shows "xr_allowlist (resolved fresh f a ovr) = agent_allowlist f ''*'' @ agent_allowlist f (case_option ''default'' id a)"
  unfolding resolved_prepared [OF assms]
  by (simp only: resolveExecApprovalsFromFilePrepared_def Let_def exec_resolved.select_convs)

subsection \<open>Snapshots\<close>

abbreviation snapshot_of :: "fresh_ids \<Rightarrow> approvals_file \<Rightarrow> string option \<Rightarrow> policy_snapshot" where
  "snapshot_of fresh f \<equiv> createExecApprovalPolicySnapshot fresh (as_raw f)"

abbreviation settings_of :: "fresh_ids \<Rightarrow> approvals_file \<Rightarrow> string option \<Rightarrow> exec_settings" where
  "settings_of fresh f a \<equiv> xr_agent (resolved fresh f a no_overrides)"

definition rule_stands :: "policy_rule \<Rightarrow> allow_entry list \<Rightarrow> bool" where
  "rule_stands r es \<longleftrightarrow> (\<exists>e\<in>set es. ae_pattern e = pr_pattern r \<and> ae_argPattern e = pr_argPattern r
     \<and> (pr_source r = (if always e then Some ''allow-always'' else None)
        \<or> pr_source r = None \<and> always e))"

lemma rule_key_in:
  "(p, a, s) \<in> buildExecApprovalPolicyRuleKey ` set (canonicalizeExecApprovalPolicyRules (map rule_of_entry es))
     \<longleftrightarrow> (\<exists>e\<in>set es. ae_pattern e = p \<and> ae_argPattern e = a \<and> s = (if always e then Some ''allow-always'' else None))"
  by (force simp: canonicalizeExecApprovalPolicyRules_def buildExecApprovalPolicyRuleKey_def rule_of_entry_def always_def)

lemma snapshot_sel:
  "sn_security (snapshot_of fresh f a) = xs_security (settings_of fresh f a)"
  "sn_ask (snapshot_of fresh f a) = xs_ask (settings_of fresh f a)"
  "sn_askFallback (snapshot_of fresh f a) = xs_askFallback (settings_of fresh f a)"
  "sn_autoAllowSkills (snapshot_of fresh f a) = xs_autoAllowSkills (settings_of fresh f a)"
  "sn_allowlistRules (snapshot_of fresh f a)
     = canonicalizeExecApprovalPolicyRules (map rule_of_entry (xr_allowlist (resolved fresh f a no_overrides)))"
  by (simp_all add: createExecApprovalPolicySnapshot_def Let_def)

lemma rule_check:
  "(buildExecApprovalPolicyRuleKey r \<in> buildExecApprovalPolicyRuleKey ` set (canonicalizeExecApprovalPolicyRules (map rule_of_entry es))
    \<or> (case buildAllowAlwaysUpgradeRuleKey r of None \<Rightarrow> False
       | Some key \<Rightarrow> key \<in> buildExecApprovalPolicyRuleKey ` set (canonicalizeExecApprovalPolicyRules (map rule_of_entry es))))
    \<longleftrightarrow> rule_stands r es"
  unfolding buildExecApprovalPolicyRuleKey_def [of r] buildAllowAlwaysUpgradeRuleKey_def rule_stands_def
  by (cases "pr_source r = None") (auto simp: rule_key_in)

lemma current_iff:
  "isExecApprovalPolicySnapshotCurrent sn (snapshot_of fresh f a)
     \<longleftrightarrow> sn_security sn = xs_security (settings_of fresh f a) \<and> sn_ask sn = xs_ask (settings_of fresh f a)
       \<and> sn_askFallback sn = xs_askFallback (settings_of fresh f a)
       \<and> sn_autoAllowSkills sn = xs_autoAllowSkills (settings_of fresh f a)
       \<and> (\<forall>r\<in>set (sn_allowlistRules sn). rule_stands r (xr_allowlist (resolved fresh f a no_overrides)))"
  unfolding isExecApprovalPolicySnapshotCurrent_def Let_def snapshot_sel set_map list_all_iff rule_check by blast

lemma rule_stands_keeps:
  assumes "keeps_grants es es'" "rule_stands r es"
  shows "rule_stands r es'"
proof -
  from assms(2) obtain e where e: "e \<in> set es" "ae_pattern e = pr_pattern r" "ae_argPattern e = pr_argPattern r"
    "pr_source r = (if always e then Some ''allow-always'' else None) \<or> pr_source r = None \<and> always e"
    by (auto simp: rule_stands_def)
  with assms(1) obtain e' where e': "e' \<in> set es'" "same_key e e'" "always e \<longrightarrow> always e'"
    by (auto simp: keeps_grants_def)
  with e show ?thesis by (auto simp: rule_stands_def same_key_def split: if_splits intro!: bexI [of _ e'])
qed

lemma rules_stand_iff:
  "(\<forall>r\<in>set (canonicalizeExecApprovalPolicyRules (map rule_of_entry es)). rule_stands r es') \<longleftrightarrow> keeps_grants es es'"
proof -
  have "rule_stands (rule_of_entry e) es' \<longleftrightarrow> (\<exists>e'\<in>set es'. same_key e e' \<and> (always e \<longrightarrow> always e'))" for e
    by (auto simp: rule_stands_def rule_of_entry_def same_key_def always_def)
  thus ?thesis by (simp add: canonicalizeExecApprovalPolicyRules_def keeps_grants_def)
qed

subsection \<open>Extensions\<close>

definition extends :: "approvals_file \<Rightarrow> approvals_file \<Rightarrow> bool" where
  "extends f f' \<longleftrightarrow> normal_file f' \<and> same_settings f f'
     \<and> (\<forall>k. keeps_grants (agent_allowlist f k) (agent_allowlist f' k))"

lemma extends_refl: "normal_file f \<Longrightarrow> extends f f"
  by (simp add: extends_def same_settings_def)

lemma extends_trans: "extends f g \<Longrightarrow> extends g h \<Longrightarrow> extends f h"
  unfolding extends_def same_settings_def by (metis keeps_trans)

lemma extends_current:
  assumes "normal_file f" "extends f f'"
    and "isExecApprovalPolicySnapshotCurrent sn (snapshot_of fresh f a)"
  shows "isExecApprovalPolicySnapshotCurrent sn (snapshot_of fresh' f' a)"
proof -
  have n: "normal_file f'" "same_settings f f'" using assms(2) by (simp_all add: extends_def)
  have k: "keeps_grants (xr_allowlist (resolved fresh f a no_overrides)) (xr_allowlist (resolved fresh' f' a no_overrides))"
    using assms(2) unfolding resolved_allowlist [OF assms(1)] resolved_allowlist [OF n(1)]
    by (intro keeps_append) (simp_all add: extends_def)
  show ?thesis
    using assms(3) rule_stands_keeps [OF k] unfolding current_iff resolved_settings [OF assms(1) n, of fresh' a no_overrides fresh]
    by blast
qed

text \<open>Replacing the allowlist of one agent.\<close>

lemma put_policy [simp]: "agent_policy (put_agent_allowlist t es f) k = agent_policy f k"
  by (simp add: agent_policy_def put_agent_allowlist_def jm_get_put)

lemma put_allowlist: "agent_allowlist (put_agent_allowlist t es f) k = (if k = t then es else agent_allowlist f k)"
  by (simp add: agent_allowlist_def put_agent_allowlist_def jm_get_put)

lemma normal_agent_policy: "normal_file f \<Longrightarrow> normal_policy (agent_policy f k)"
  by (auto simp: agent_policy_def normal_file_def normal_agent_def dest!: jm_get_in split: option.split)

lemma normal_agent_allowlist: "normal_file f \<Longrightarrow> list_all normal_entry (agent_allowlist f k)"
  by (auto simp: agent_allowlist_def normal_file_def normal_agent_def dest!: jm_get_in split: option.split)

lemma extends_put:
  assumes f: "normal_file f" and t: "t \<noteq> ''default''" and n: "list_all normal_entry es"
    and k: "keeps_grants (agent_allowlist f t) es"
  shows "extends f (put_agent_allowlist t es f)"
proof -
  have "normal_agent a" if "(j, a) \<in> set (xf_agents (put_agent_allowlist t es f))" for j a
    using that set_jm_put [of t _ "xf_agents f"] f n normal_agent_policy [OF f, of t]
    by (force simp: put_agent_allowlist_def normal_file_def normal_agent_def)
  moreover have "''default'' \<notin> set (jm_keys (xf_agents (put_agent_allowlist t es f)))"
    using f t by (simp add: put_agent_allowlist_def normal_file_def jm_keys_put)
  ultimately have "normal_file (put_agent_allowlist t es f)"
    using f by (auto simp: normal_file_def put_agent_allowlist_def)
  moreover have "same_settings f (put_agent_allowlist t es f)"
    unfolding same_settings_def put_policy by (simp add: put_agent_allowlist_def)
  ultimately show ?thesis using k by (simp add: extends_def put_allowlist)
qed

subsection \<open>Grants\<close>

lemma updated_keeps: "keeps_grants es (updated_allowlist i now p a (Some ''allow-always'') es)"
proof (cases "find (matches_entry p a) es")
  case None
  thus ?thesis by (auto simp: updated_allowlist_def keeps_grants_def same_key_def)
next
  case (Some e)
  thus ?thesis
    by (auto simp: updated_allowlist_def same_key_def always_def matches_entry_def intro!: keeps_map)
qed

lemma updated_normal:
  assumes "list_all normal_entry es" "js_trim p \<noteq> []" "i \<noteq> []"
  shows "list_all normal_entry (updated_allowlist i now p a s es)"
  using assms by (auto simp: updated_allowlist_def list_all_iff normal_entry_def)

lemma updated_granted:
  "\<exists>e\<in>set (updated_allowlist i now p a (Some ''allow-always'') es). matches_entry p a e \<and> always e"
proof (cases "find (matches_entry p a) es")
  case None
  thus ?thesis by (auto simp: updated_allowlist_def matches_entry_def always_def)
next
  case (Some e)
  hence e: "e \<in> set es" "matches_entry p a e" by (auto simp: find_Some_iff)
  let ?g = "\<lambda>e. if matches_entry p a e then e\<lparr>ae_argPattern := a, ae_source := Some ''allow-always'',
    ae_lastUsedAt := Some now\<rparr> else e"
  have m: "updated_allowlist i now p a (Some ''allow-always'') es = map ?g es"
    using Some by (simp add: updated_allowlist_def)
  have "matches_entry p a (?g e) \<and> always (?g e)"
    using e(2) by (simp add: matches_entry_def always_def)
  thus ?thesis unfolding m set_map by (rule bexI) (rule imageI [OF e(1)])
qed

definition cleaned_arg :: "string option \<Rightarrow> string option" where
  "cleaned_arg a = (if a = Some [] then None else a)"

definition granted :: "approvals_file \<Rightarrow> string \<Rightarrow> string \<times> string option \<Rightarrow> bool" where
  "granted f t g \<longleftrightarrow> (\<exists>e\<in>set (agent_allowlist f t). ae_pattern e = js_trim (fst g)
     \<and> ae_argPattern e = cleaned_arg (snd g) \<and> always e)"

lemma granted_keeps:
  assumes "extends f f'" "granted f t g"
  shows "granted f' t g"
proof -
  from assms(2) obtain e where e: "e \<in> set (agent_allowlist f t)" "ae_pattern e = js_trim (fst g)"
    "ae_argPattern e = cleaned_arg (snd g)" "always e" by (auto simp: granted_def)
  have "keeps_grants (agent_allowlist f t) (agent_allowlist f' t)" using assms(1) by (simp add: extends_def)
  with e(1) obtain e' where "e' \<in> set (agent_allowlist f' t)" "same_key e e'" "always e \<longrightarrow> always e'"
    by (auto simp: keeps_grants_def)
  with e show ?thesis by (auto simp: granted_def same_key_def)
qed

text \<open>One entry: the file is extended, and afterwards the grant stands.\<close>

lemma entry_update:
  assumes f: "normal_file f" and t: "a \<noteq> Some ''default''" and i: "i \<noteq> []"
    and u: "applyAllowlistEntryUpdate i now f a p g (Some ''allow-always'') = Inr r"
  shows "extends f (case_option f id r)" "js_trim p \<noteq> [] \<Longrightarrow> granted (case_option f id r) (the a) (p, g)"
proof -
  let ?t = "the a" and ?es = "agent_allowlist f (the a)" and ?p = "js_trim p" and ?g = "cleaned_arg g"
  have a: "?t \<noteq> ''default''" "truthy_str a" using u t by (auto simp: applyAllowlistEntryUpdate_def truthy_str_iff)
  note U = u [unfolded applyAllowlistEntryUpdate_def Let_def cleaned_arg_def [symmetric]]
  consider (blank) "?p = []" "r = None"
    | (there) e where "?p \<noteq> []" "find (matches_entry ?p ?g) ?es = Some e" "always e" "r = None"
    | (put) "?p \<noteq> []" "r = Some (put_agent_allowlist ?t (updated_allowlist i now ?p ?g (Some ''allow-always'') ?es) f)"
    using U a(2) by (auto simp: always_def split: if_splits option.splits)
  hence "extends f (case_option f id r) \<and> (?p \<noteq> [] \<longrightarrow> granted (case_option f id r) ?t (p, g))"
  proof cases
    case blank
    thus ?thesis by (simp add: extends_refl [OF f])
  next
    case there
    thus ?thesis using find_Some_iff [of "matches_entry ?p ?g" ?es e]
      by (auto simp: extends_refl [OF f] granted_def matches_entry_def)
  next
    case put
    have "list_all normal_entry (updated_allowlist i now ?p ?g (Some ''allow-always'') ?es)"
      using updated_normal [OF normal_agent_allowlist [OF f]] put(1) i by simp
    with put(2) extends_put [OF f a(1)] updated_keeps updated_granted [of i now ?p ?g ?es] show ?thesis
      by (auto simp: granted_def put_allowlist matches_entry_def)
  qed
  thus "extends f (case_option f id r)" "?p \<noteq> [] \<Longrightarrow> granted (case_option f id r) ?t (p, g)" by simp_all
qed

lemma entries_update:
  assumes "normal_file f" "a \<noteq> Some ''default''" "\<forall>i. ids i \<noteq> []"
    and "apply_entries ids now a i gs (f, c) = Inr (f', c')"
  shows "extends f f' \<and> (c' \<longrightarrow> True) \<and> (\<not> c' \<longrightarrow> f' = f \<and> \<not> c)
     \<and> (\<forall>g\<in>set gs. js_trim (fst g) \<noteq> [] \<longrightarrow> granted f' (the a) g)"
  using assms(1,4)
proof (induction gs arbitrary: i f c)
  case Nil
  thus ?case by (auto simp: extends_refl)
next
  case (Cons x gs)
  obtain p g where x: "x = (p, g)" by (cases x)
  from Cons.prems(2) x obtain r where
    r: "applyAllowlistEntryUpdate (ids i) now f a p g (Some ''allow-always'') = Inr r"
    "apply_entries ids now a (Suc i) gs (case r of Some h \<Rightarrow> (h, True) | None \<Rightarrow> (f, c)) = Inr (f', c')"
    by auto
  have i: "ids i \<noteq> []" using assms(3) by blast
  note e = entry_update [OF Cons.prems(1) assms(2) i r(1)]
  have s: "(case r of Some h \<Rightarrow> (h, True) | None \<Rightarrow> (f, c)) = (case_option f id r, c \<or> r \<noteq> None)"
    by (cases r) auto
  have n: "normal_file (case_option f id r)" using e(1) by (simp add: extends_def)
  note I = Cons.IH [OF n r(2) [unfolded s]]
  have "extends f f'" using extends_trans [OF e(1)] I by blast
  moreover have "js_trim p \<noteq> [] \<longrightarrow> granted f' (the a) (p, g)" using e(2) granted_keeps I by blast
  ultimately show ?case using I by (cases r) (auto simp: x)
qed

lemma decision_update:
  assumes "normal_file f" "a \<noteq> Some ''default''" "\<forall>i. ids i \<noteq> []"
    and d: "applyAllowAlwaysDecision sha ids now f a decision = Inr r"
  shows "extends f (case_option f id r)
     \<and> (\<forall>g\<in>set (decision_entries sha decision). js_trim (fst g) \<noteq> [] \<longrightarrow> granted (case_option f id r) (the a) g)"
proof -
  from d obtain f' c where s: "apply_entries ids now a 0 (decision_entries sha decision) (f, False) = Inr (f', c)"
    and r: "r = (if c then Some f' else None)" by (auto simp: applyAllowAlwaysDecision_def)
  from entries_update [OF assms(1-3) s] r show ?thesis by (cases c) auto
qed

subsection \<open>Recorded uses\<close>

lemma length_record_use [simp]: "length (record_use ids now keys c p es) = length es"
  by (simp add: record_use_def)

lemma record_use_nth:
  "i < length es \<Longrightarrow> record_use ids now keys c p es ! i
     = (if buildAllowlistEntryMatchKey (es ! i) \<in> set keys then used_entry (ids i) now c p (es ! i) else es ! i)"
  by (simp add: record_use_def nth_enumerate_eq)

lemma used_entry_simps [simp]:
  "ae_pattern (used_entry i now c p e) = ae_pattern e" "ae_argPattern (used_entry i now c p e) = ae_argPattern e"
  "ae_source (used_entry i now c p e) = ae_source e" "ae_commandText (used_entry i now c p e) = ae_commandText e"
  by (simp_all add: used_entry_def)

lemma record_use_rules: "map rule_of_entry (record_use ids now keys c p es) = map rule_of_entry es"
  by (rule nth_equalityI) (simp_all add: record_use_nth rule_of_entry_def)

lemma record_use_normal: "list_all normal_entry es \<Longrightarrow> list_all normal_entry (record_use ids now keys c p es)"
  by (auto simp: list_all_length record_use_nth normal_entry_def used_entry_def truthy_str_iff split: option.split)

lemma record_use_keeps: "keeps_grants es (record_use ids now keys c p es)"
  unfolding keeps_grants_def
proof
  fix e assume "e \<in> set es"
  then obtain i where i: "i < length es" "e = es ! i" by (auto simp: in_set_conv_nth)
  hence "record_use ids now keys c p es ! i \<in> set (record_use ids now keys c p es)" by simp
  moreover have "same_key e (record_use ids now keys c p es ! i) \<and> (always e \<longrightarrow> always (record_use ids now keys c p es ! i))"
    using i by (simp add: record_use_nth same_key_def always_def)
  ultimately show "\<exists>e'\<in>set (record_use ids now keys c p es). same_key e e' \<and> (always e \<longrightarrow> always e')" by blast
qed

lemma recorded_cases:
  assumes "applyRecordedAllowlistMetadata newIds now f a matches c p = Inr (Some f')"
  obtains P where "f' = f\<lparr>xf_agents := map (\<lambda>(k, x). (k, if P k x
       then x\<lparr>xa_allowlist := map_option (record_use (newIds k) now (match_keys matches) c p) (xa_allowlist x)\<rparr>
       else x)) (xf_agents f)\<rparr>"
  using assms that unfolding applyRecordedAllowlistMetadata_def Let_def by (auto split: if_splits)

lemma recorded:
  assumes f: "normal_file f" and r: "applyRecordedAllowlistMetadata newIds now f a matches c p = Inr (Some f')"
  shows "extends f f'" "map rule_of_entry (agent_allowlist f' k) = map rule_of_entry (agent_allowlist f k)"
proof -
  from recorded_cases [OF r] obtain P where f': "f' = f\<lparr>xf_agents := map (\<lambda>(k, x). (k, if P k x
       then x\<lparr>xa_allowlist := map_option (record_use (newIds k) now (match_keys matches) c p) (xa_allowlist x)\<rparr>
       else x)) (xf_agents f)\<rparr>" .
  have pol: "agent_policy f' k = agent_policy f k" for k
    by (simp add: f' agent_policy_def get_map split: option.split)
  have al: "agent_allowlist f' k = agent_allowlist f k
      \<or> agent_allowlist f' k = record_use (newIds k) now (match_keys matches) c p (agent_allowlist f k)" for k
    by (auto simp: f' agent_allowlist_def get_map record_use_def split: option.split)
  have na: "normal_agent (x\<lparr>xa_allowlist := map_option (record_use ids now ks c p) (xa_allowlist x)\<rparr>)"
    if "normal_agent x" for x ids ks
    using that by (cases "xa_allowlist x") (auto simp: normal_agent_def record_use_normal)
  have "normal_file f'"
    using f na unfolding normal_file_def f' by (auto simp: keys_map)
  moreover have "same_settings f f'" using pol by (simp add: same_settings_def f')
  moreover have "keeps_grants (agent_allowlist f k) (agent_allowlist f' k)" for k
    using al [of k] record_use_keeps [of "agent_allowlist f k"] by auto
  ultimately show "extends f f'" by (simp add: extends_def)
  show "map rule_of_entry (agent_allowlist f' k) = map rule_of_entry (agent_allowlist f k)"
    using al [of k] record_use_rules by metis
qed

end
