(* ===== verification/Exec_Store.thy ===== *)
theory Exec_Store
  imports Exec_Authority
begin

section \<open>The store of the approval policy\<close>

text \<open>
  \<^verbatim>\<open>src/infra/exec-approvals-store.ts\<close> and
  \<^verbatim>\<open>exec-approvals-sqlite.ts\<close>: the one row that holds the policy, the lease that
  fences it while an agent is deleted, and the agents whose deletion is journaled. The text of the row
  is the value it denotes, or a text that does not parse; its digest is taken for the text itself. A
  transaction either commits the new state or, as \<open>Inl\<close>, leaves the old one. The projected
  columns of the row, the migration gate and the warnings are left out.
\<close>

datatype stored_text = Malformed string | Wrote json

record exec_store =
  es_row :: "stored_text option"
  es_lease :: "(string \<times> int) option"
  es_deleted :: "string \<Rightarrow> bool"

fun parsed_text :: "stored_text \<Rightarrow> json option" where
  "parsed_text (Wrote v) = Some v"
| "parsed_text (Malformed _) = None"

definition snapshotFromExecApprovalsRow :: "fresh_ids \<Rightarrow> stored_text option \<Rightarrow> approvals_file" where
  "snapshotFromExecApprovalsRow fresh row =
     (case row of
        None \<Rightarrow> normalizeExecApprovalsInternal fresh
          \<lparr>xf_socketPath = None, xf_socketToken = None, xf_defaults = no_policy, xf_agents = []\<rparr>
      | Some t \<Rightarrow>
         (case tryParsePersistedExecApprovals fresh (parsed_text t) of
            Some f \<Rightarrow> f
          | None \<Rightarrow> createFailClosedExecApprovalsFallback fresh))"

text \<open>
  A mutation by the holder of the lease needs the lease to be its own and alive; any other needs
  that no lease is alive.
\<close>

definition assertExecApprovalsMutationAllowed :: "exec_store \<Rightarrow> string option \<Rightarrow> int \<Rightarrow> exec_error + unit" where
  "assertExecApprovalsMutationAllowed st leaseOwner now =
     (case leaseOwner of
        Some owner \<Rightarrow>
          (case es_lease st of
             Some (o', expires) \<Rightarrow> if o' = owner \<and> expires > now then Inr () else Inl EMutationFenced
           | None \<Rightarrow> Inl EMutationFenced)
      | None \<Rightarrow>
          (case es_lease st of
             Some (_, expires) \<Rightarrow> if expires > now then Inl EMutationFenced else Inr ()
           | None \<Rightarrow> Inr ()))"

definition writeExecApprovalsConfigRow :: "exec_store \<Rightarrow> json \<Rightarrow> string option \<Rightarrow> int \<Rightarrow> exec_error + exec_store" where
  "writeExecApprovalsConfigRow st raw leaseOwner now =
     bnd (assertExecApprovalsMutationAllowed st leaseOwner now) (\<lambda>_. Inr (st\<lparr>es_row := Some (Wrote raw)\<rparr>))"

definition deleteExecApprovalsConfigRow :: "exec_store \<Rightarrow> string option \<Rightarrow> int \<Rightarrow> exec_error + exec_store" where
  "deleteExecApprovalsConfigRow st leaseOwner now =
     bnd (assertExecApprovalsMutationAllowed st leaseOwner now) (\<lambda>_. Inr (st\<lparr>es_row := None\<rparr>))"

text \<open>No policy of a deleted agent changes, but for the one removal or restoration that is allowed.\<close>

definition deleted_change ::
    "exec_store \<Rightarrow> approvals_file \<Rightarrow> approvals_file \<Rightarrow> string option \<Rightarrow> string option \<Rightarrow> string \<Rightarrow> bool" where
  "deleted_change st current next allowRemoval allowRestore agentId \<longleftrightarrow>
     (let old = jm_get (xf_agents current) agentId; new = jm_get (xf_agents next) agentId;
          allowedRemoval = (Some agentId = allowRemoval \<and> old \<noteq> None \<and> new = None);
          allowedRestore = (Some agentId = allowRestore \<and> old = None \<and> new \<noteq> None)
      in es_deleted st agentId \<and> \<not> allowedRemoval \<and> \<not> allowedRestore \<and> old \<noteq> new)"

definition assertNoDeletedAgentApprovalChanged ::
    "exec_store \<Rightarrow> approvals_file \<Rightarrow> approvals_file \<Rightarrow> string option \<Rightarrow> string option \<Rightarrow> exec_error + unit" where
  "assertNoDeletedAgentApprovalChanged st current next allowRemoval allowRestore =
     (if list_ex (deleted_change st current next allowRemoval allowRestore)
           (jm_keys (xf_agents current) @ jm_keys (xf_agents next))
      then Inl EAgentDeleted else Inr ())"

record update_params =
  up_baseRow :: "stored_text option option"
  up_allowRemoval :: "string option"
  up_allowRestore :: "string option"
  up_leaseOwner :: "string option"

definition plain_update :: update_params where
  "plain_update = \<lparr>up_baseRow = None, up_allowRemoval = None, up_allowRestore = None, up_leaseOwner = None\<rparr>"

text \<open>
  \<open>Inr (None, st)\<close>: the row is not the one the caller based its update on. The snapshot returned
  is the file read after the update.
\<close>

definition updateExecApprovalsInTransaction ::
    "fresh_ids \<Rightarrow> int \<Rightarrow> update_params \<Rightarrow> (approvals_file \<Rightarrow> exec_error + approvals_file option) \<Rightarrow> exec_store
      \<Rightarrow> exec_error + approvals_file option \<times> exec_store" where
  "updateExecApprovalsInTransaction fresh now p update st =
     (let current = snapshotFromExecApprovalsRow fresh (es_row st)
      in if up_baseRow p \<noteq> None \<and> up_baseRow p \<noteq> Some (es_row st) then Inr (None, st)
         else
          bnd (update current) (\<lambda>result.
          case result of
            None \<Rightarrow> Inr (Some current, st)
          | Some next \<Rightarrow>
              bnd (assertNoDeletedAgentApprovalChanged st current next (up_allowRemoval p) (up_allowRestore p)) (\<lambda>_.
              let raw = serializeExecApprovals next
              in if es_row st = Some (Wrote raw) then Inr (Some current, st)
                 else
                  bnd (writeExecApprovalsConfigRow st raw (up_leaseOwner p) now) (\<lambda>st'.
                    Inr (Some (snapshotFromExecApprovalsRow fresh (es_row st')), st')))))"

definition saveExecApprovals :: "fresh_ids \<Rightarrow> int \<Rightarrow> approvals_file \<Rightarrow> exec_store \<Rightarrow> exec_error + exec_store" where
  "saveExecApprovals fresh now f st =
     bnd (updateExecApprovalsInTransaction fresh now plain_update (\<lambda>_. Inr (Some f)) st) (\<lambda>(_, st'). Inr st')"

definition commitExecAuthorizationLocked ::
    "commit_env \<Rightarrow> int \<Rightarrow> commit_params \<Rightarrow> exec_store \<Rightarrow> exec_error + exec_store" where
  "commitExecAuthorizationLocked env now p st =
     bnd (commit_precheck p) (\<lambda>_.
     bnd (updateExecApprovalsInTransaction (ce_fresh env) now plain_update (commit_update env p) st) (\<lambda>(_, st').
       Inr st'))"

text \<open>
  \<^verbatim>\<open>withAgentExecApprovalsRemoved\<close>, once its lease is held by \<open>owner\<close>: the policy
  is taken out, \<open>commit\<close> runs, and where it fails the policy is put back. The outcome of the
  commit is an argument, with the state it leaves; an uncertain commit is not rolled back. A failed
  roll-back is reported as the error it met.
\<close>

datatype commit_outcome = Committed | CommitFailed | CommitUncertain

definition remove_agent_policy :: "fresh_ids \<Rightarrow> int \<Rightarrow> string \<Rightarrow> string \<Rightarrow> exec_store \<Rightarrow> exec_error + exec_store" where
  "remove_agent_policy fresh now owner key st =
     bnd (updateExecApprovalsInTransaction fresh now
            \<lparr>up_baseRow = Some (es_row st), up_allowRemoval = Some key, up_allowRestore = None, up_leaseOwner = Some owner\<rparr>
            (\<lambda>f. Inr (Some (f\<lparr>xf_agents := jm_delete key (xf_agents f)\<rparr>))) st) (\<lambda>(updated, st').
       if updated = None then Inl EApprovalChanged else Inr st')"

definition restore_agent_policy ::
    "fresh_ids \<Rightarrow> int \<Rightarrow> string \<Rightarrow> string \<Rightarrow> allow_entry exec_agent \<Rightarrow> exec_store \<Rightarrow> exec_error + exec_store" where
  "restore_agent_policy fresh now owner key removed st =
     bnd (updateExecApprovalsInTransaction fresh now
            \<lparr>up_baseRow = None, up_allowRemoval = None, up_allowRestore = Some key, up_leaseOwner = Some owner\<rparr>
            (\<lambda>f. Inr (Some (f\<lparr>xf_agents := jm_put key removed (xf_agents f)\<rparr>))) st) (\<lambda>(_, st'). Inr st')"

definition withAgentExecApprovalsRemoved ::
    "fresh_ids \<Rightarrow> int \<Rightarrow> int \<Rightarrow> string \<Rightarrow> string \<Rightarrow> (exec_store \<Rightarrow> commit_outcome \<times> exec_store) \<Rightarrow> exec_store
      \<Rightarrow> exec_error + commit_outcome \<times> exec_store" where
  "withAgentExecApprovalsRemoved fresh now later owner key commit st =
     (let removedPolicy = jm_get (xf_agents (snapshotFromExecApprovalsRow fresh (es_row st))) key
      in bnd (if removedPolicy \<noteq> None then remove_agent_policy fresh now owner key st else Inr st) (\<lambda>st1.
         case (commit st1, removedPolicy) of
           ((CommitFailed, st2), Some removed) \<Rightarrow>
             bnd (restore_agent_policy fresh later owner key removed st2) (\<lambda>st3. Inr (CommitFailed, st3))
         | ((outcome, st2), _) \<Rightarrow> Inr (outcome, st2)))"

text \<open>The row as it was saved, put back; with \<open>base\<close> only over the row the caller knows.\<close>

definition write_back_row :: "stored_text option \<Rightarrow> string option \<Rightarrow> int \<Rightarrow> exec_store \<Rightarrow> exec_error + exec_store" where
  "write_back_row row leaseOwner now st =
     (case row of
        None \<Rightarrow> deleteExecApprovalsConfigRow st leaseOwner now
      | Some t \<Rightarrow> bnd (assertExecApprovalsMutationAllowed st leaseOwner now) (\<lambda>_. Inr (st\<lparr>es_row := Some t\<rparr>)))"

definition restoreExecApprovalsSnapshot :: "stored_text option \<Rightarrow> int \<Rightarrow> exec_store \<Rightarrow> exec_error + exec_store" where
  "restoreExecApprovalsSnapshot row now st = write_back_row row None now st"

definition restoreExecApprovalsSnapshotLocked ::
    "stored_text option \<Rightarrow> stored_text option \<Rightarrow> int \<Rightarrow> exec_store \<Rightarrow> exec_error + bool \<times> exec_store" where
  "restoreExecApprovalsSnapshotLocked row base now st =
     (if es_row st \<noteq> base then Inr (False, st)
      else bnd (write_back_row row None now st) (\<lambda>st'. Inr (True, st')))"

text \<open>The default path of the socket and a new token are arguments.\<close>

definition ensureExecApprovalsSocket :: "fresh_ids \<Rightarrow> string \<Rightarrow> string \<Rightarrow> approvals_file \<Rightarrow> approvals_file" where
  "ensureExecApprovalsSocket fresh defaultPath token f =
     (let next = normalizeExecApprovalsInternal fresh (as_raw f)
      in next\<lparr>xf_socketPath := Some (case_option defaultPath id (normalizeOptionalString (xf_socketPath next))),
              xf_socketToken := Some (case_option token id (normalizeOptionalString (xf_socketToken next)))\<rparr>)"

definition ensureExecApprovals ::
    "fresh_ids \<Rightarrow> int \<Rightarrow> string \<Rightarrow> string \<Rightarrow> exec_store \<Rightarrow> exec_error + approvals_file option \<times> exec_store" where
  "ensureExecApprovals fresh now defaultPath token st =
     updateExecApprovalsInTransaction fresh now plain_update
       (\<lambda>f. Inr (Some (ensureExecApprovalsSocket fresh defaultPath token f))) st"

end
