(* ===== verification/Exec_Effective.thy ===== *)
theory Exec_Effective
  imports Exec_Authority
begin

section \<open>The effective policy\<close>

text \<open>
  \<^verbatim>\<open>src/infra/exec-approvals-effective.ts\<close>: what the configuration requests for a
  scope, what the host's approval file allows, and the policy that results, each with the text that
  names its source.
\<close>

record exec_policy_config =
  ec_host :: "exec_target option"
  ec_mode :: "exec_mode option"
  ec_security :: "exec_security option"
  ec_ask :: "exec_ask option"

record requested_policy =
  rq_mode :: exec_mode
  rq_modeSource :: string
  rq_security :: exec_security
  rq_securitySource :: string
  rq_ask :: exec_ask
  rq_askSource :: string

record 'v field_summary =
  fs_requested :: 'v
  fs_requestedSource :: string
  fs_host :: 'v
  fs_hostSource :: string
  fs_effective :: 'v
  fs_note :: string

record scope_snapshot =
  ss_scopeLabel :: string
  ss_configPath :: string
  ss_agentId :: "string option"
  ss_host :: "exec_target \<times> string"
  ss_modeRequested :: "exec_mode \<times> string"
  ss_modeEffective :: "exec_mode \<times> string"
  ss_security :: "exec_security field_summary"
  ss_ask :: "exec_ask field_summary"
  ss_askFallback :: "exec_security \<times> string"
  ss_allowedDecisions :: "exec_decision list"

definition DEFAULT_REQUESTED_SECURITY :: exec_security where
  "DEFAULT_REQUESTED_SECURITY = SecFull"

definition DEFAULT_REQUESTED_ASK :: exec_ask where
  "DEFAULT_REQUESTED_ASK = AskOff"

text \<open>A scope or global configuration that is not given.\<close>

definition no_config :: exec_policy_config where
  "no_config = \<lparr>ec_host = None, ec_mode = None, ec_security = None, ec_ask = None\<rparr>"

definition given :: "exec_policy_config option \<Rightarrow> exec_policy_config" where
  "given c = case_option no_config id c"

text \<open>The value of a field with the path it comes from: the scope, the tool settings, or the default.\<close>

definition resolve_requested :: "(exec_policy_config \<Rightarrow> 'v option) \<Rightarrow> 'v \<Rightarrow> exec_policy_config option
      \<Rightarrow> exec_policy_config option \<Rightarrow> 'v \<times> string" where
  "resolve_requested get fallback scope glob =
     (case get (given scope) of
        Some v \<Rightarrow> (v, ''scope'')
      | None \<Rightarrow>
         (case get (given glob) of
            Some v \<Rightarrow> (v, ''tools.exec'')
          | None \<Rightarrow> (fallback, ''__default__'')))"

definition resolveRequestedHost ::
    "exec_policy_config option \<Rightarrow> exec_policy_config option \<Rightarrow> exec_target \<times> string" where
  "resolveRequestedHost scope glob = resolve_requested ec_host TargetAuto scope glob"

definition formatRequestedSource :: "string \<Rightarrow> string \<Rightarrow> string \<Rightarrow> string" where
  "formatRequestedSource sourcePath field defaultValue =
     (if sourcePath = ''__default__'' then ''OpenCrustacean default ('' @ defaultValue @ '')''
      else sourcePath @ ''.'' @ field)"

definition formatModeSource :: "string \<Rightarrow> string \<Rightarrow> string" where
  "formatModeSource sourcePath configPath =
     (if sourcePath = ''__default__'' then ''derived from OpenCrustacean defaults''
      else (if sourcePath = ''scope'' then configPath else sourcePath) @ ''.mode'')"

definition hasLegacyExecPolicyOverride :: "exec_policy_config option \<Rightarrow> bool" where
  "hasLegacyExecPolicyOverride c \<longleftrightarrow> ec_security (given c) \<noteq> None \<or> ec_ask (given c) \<noteq> None"

definition security_source :: "string \<Rightarrow> string" where
  "security_source path = formatRequestedSource path ''security'' (security_text DEFAULT_REQUESTED_SECURITY)"

definition ask_source :: "string \<Rightarrow> string" where
  "ask_source path = formatRequestedSource path ''ask'' (ask_text DEFAULT_REQUESTED_ASK)"

definition mode_request :: "exec_mode \<Rightarrow> string \<Rightarrow> requested_policy" where
  "mode_request m source =
     (case resolveExecModePolicy (Some m) DEFAULT_REQUESTED_SECURITY DEFAULT_REQUESTED_ASK of
        (mode, security, ask, _) \<Rightarrow>
          \<lparr>rq_mode = mode, rq_modeSource = source, rq_security = security, rq_securitySource = source,
           rq_ask = ask, rq_askSource = source\<rparr>)"

definition field_request :: "exec_security \<Rightarrow> string \<Rightarrow> exec_ask \<Rightarrow> string \<Rightarrow> requested_policy" where
  "field_request security securitySource ask askSource =
     \<lparr>rq_mode = resolveExecModeFromPolicy security ask,
      rq_modeSource = (if securitySource = askSource then ''derived from '' @ securitySource
        else ''derived from '' @ securitySource @ '' and '' @ askSource),
      rq_security = security, rq_securitySource = securitySource, rq_ask = ask, rq_askSource = askSource\<rparr>"

definition resolveRequestedPolicy ::
    "exec_policy_config option \<Rightarrow> exec_policy_config option \<Rightarrow> string \<Rightarrow> requested_policy" where
  "resolveRequestedPolicy scope glob configPath =
     (case ec_mode (given scope) of
        Some m \<Rightarrow> mode_request m (formatModeSource ''scope'' configPath)
      | None \<Rightarrow>
         (case ec_mode (given glob) of
            Some m \<Rightarrow>
              if \<not> hasLegacyExecPolicyOverride scope
              then mode_request m (formatModeSource ''tools.exec'' configPath)
              else
               (let inherited = mode_request m (formatModeSource ''tools.exec'' configPath)
                in field_request
                     (case_option (rq_security inherited) id (ec_security (given scope)))
                     (if ec_security (given scope) \<noteq> None then security_source configPath else rq_securitySource inherited)
                     (case_option (rq_ask inherited) id (ec_ask (given scope)))
                     (if ec_ask (given scope) \<noteq> None then ask_source configPath else rq_askSource inherited))
          | None \<Rightarrow>
             (let security = resolve_requested ec_security DEFAULT_REQUESTED_SECURITY scope glob;
                  ask = resolve_requested ec_ask DEFAULT_REQUESTED_ASK scope glob;
                  path = (\<lambda>p. if p = ''scope'' then configPath else p)
              in field_request (fst security) (security_source (path (snd security)))
                   (fst ask) (ask_source (path (snd ask))))))"

text \<open>The empty suffix or source is falsy.\<close>

definition formatHostFieldSource :: "string \<Rightarrow> string \<Rightarrow> string option \<Rightarrow> string option \<Rightarrow> string" where
  "formatHostFieldSource hostPath field sourceSuffix hostDefaultSource =
     (if truthy_str sourceSuffix then hostPath @ '' '' @ the sourceSuffix
      else if truthy_str hostDefaultSource then the hostDefaultSource
      else if field = ''askFallback''
      then ''OpenCrustacean default ('' @ security_text DEFAULT_EXEC_APPROVAL_ASK_FALLBACK @ '')''
      else ''inherits requested tool policy'')"

definition resolveAskNote :: "exec_ask \<Rightarrow> exec_ask \<Rightarrow> string" where
  "resolveAskNote requestedAsk effectiveAsk =
     (if effectiveAsk = requestedAsk then ''requested ask applies'' else ''more aggressive ask wins'')"

text \<open>The defaults a host has of its own: security, ask and fallback.\<close>

type_synonym host_defaults = "exec_security \<times> exec_ask \<times> exec_security"

definition host_overrides :: "host_defaults option \<Rightarrow> requested_policy \<Rightarrow> exec_overrides" where
  "host_overrides hostDefaults rq =
     (case hostDefaults of
        None \<Rightarrow> no_overrides\<lparr>xo_security := Some (rq_security rq), xo_ask := Some (rq_ask rq)\<rparr>
      | Some (s, a, fb) \<Rightarrow> no_overrides\<lparr>xo_security := Some s, xo_ask := Some a, xo_askFallback := Some fb\<rparr>)"

definition resolveExecPolicyScopeSnapshot ::
    "fresh_ids \<Rightarrow> raw_file \<Rightarrow> exec_policy_config option \<Rightarrow> exec_policy_config option \<Rightarrow> string \<Rightarrow> string
      \<Rightarrow> string option \<Rightarrow> string \<Rightarrow> host_defaults option \<Rightarrow> string option \<Rightarrow> scope_snapshot" where
  "resolveExecPolicyScopeSnapshot fresh approvals scope glob configPath scopeLabel agentId hostPath
      hostDefaults hostDefaultSource =
     (let requestedHost = resolveRequestedHost scope glob;
          rq = resolveRequestedPolicy scope glob configPath;
          resolved = resolveExecApprovalsFromFileInternal fresh approvals agentId (host_overrides hostDefaults rq);
          effectiveSecurity = minSecurity (rq_security rq) (xs_security (xr_agent resolved));
          effectiveAsk = maxAsk (rq_ask rq) (xs_ask (xr_agent resolved));
          effectiveAskFallback = minSecurity effectiveSecurity (xs_askFallback (xr_agent resolved));
          effectiveMode = (if effectiveSecurity = rq_security rq \<and> effectiveAsk = rq_ask rq then rq_mode rq
            else resolveExecModeFromPolicy effectiveSecurity effectiveAsk)
      in \<lparr>ss_scopeLabel = scopeLabel, ss_configPath = configPath,
          ss_agentId = (if truthy_str agentId then agentId else None),
          ss_host = (fst requestedHost,
            if snd requestedHost = ''__default__'' then ''OpenCrustacean default (auto)''
            else (if snd requestedHost = ''scope'' then configPath else snd requestedHost) @ ''.host''),
          ss_modeRequested = (rq_mode rq, rq_modeSource rq),
          ss_modeEffective = (effectiveMode,
            if effectiveMode = rq_mode rq then ''requested mode applies'' else ''host policy changes effective mode''),
          ss_security = \<lparr>fs_requested = rq_security rq, fs_requestedSource = rq_securitySource rq,
            fs_host = xs_security (xr_agent resolved),
            fs_hostSource = formatHostFieldSource hostPath ''security'' (xr_securitySource resolved) hostDefaultSource,
            fs_effective = effectiveSecurity,
            fs_note = (if effectiveSecurity = rq_security rq then ''requested security applies''
              else ''stricter host security wins'')\<rparr>,
          ss_ask = \<lparr>fs_requested = rq_ask rq, fs_requestedSource = rq_askSource rq,
            fs_host = xs_ask (xr_agent resolved),
            fs_hostSource = formatHostFieldSource hostPath ''ask'' (xr_askSource resolved) hostDefaultSource,
            fs_effective = effectiveAsk, fs_note = resolveAskNote (rq_ask rq) effectiveAsk\<rparr>,
          ss_askFallback = (effectiveAskFallback,
            formatHostFieldSource hostPath ''askFallback'' (xr_askFallbackSource resolved) hostDefaultSource),
          ss_allowedDecisions = resolveExecApprovalAllowedDecisions (Some (ask_text effectiveAsk)) None\<rparr>)"

text \<open>The scopes of a configuration: the tool settings, then the agents it or the file names, in order.\<close>

type_synonym agent_config = "string \<times> exec_policy_config option"

definition scope_agent_ids :: "'e exec_file \<Rightarrow> string \<Rightarrow> agent_config list \<Rightarrow> string list" where
  "scope_agent_ids approvals defaultAgentId configuredAgents =
     sort (uniqueValues
       (map fst (filter (\<lambda>(i, exec). i \<noteq> defaultAgentId \<or> exec \<noteq> None) configuredAgents)
        @ filter (\<lambda>i. i \<noteq> ''*'' \<and> i \<noteq> ''default'' \<and> i \<noteq> defaultAgentId) (jm_keys (xf_agents approvals))))"

definition collectExecPolicyScopeSnapshots ::
    "fresh_ids \<Rightarrow> raw_file \<Rightarrow> string \<Rightarrow> exec_policy_config option \<Rightarrow> agent_config list \<Rightarrow> string
      \<Rightarrow> host_defaults option \<Rightarrow> string option \<Rightarrow> scope_snapshot list" where
  "collectExecPolicyScopeSnapshots fresh approvals defaultAgentId toolsExec configuredAgents hostPath
      hostDefaults hostDefaultSource =
     resolveExecPolicyScopeSnapshot fresh approvals toolsExec None ''tools.exec'' ''tools.exec''
       (Some defaultAgentId) hostPath hostDefaults hostDefaultSource
     # map (\<lambda>i. resolveExecPolicyScopeSnapshot fresh approvals
         (Option.bind (find (\<lambda>(j, _). j = i) configuredAgents) snd) toolsExec
         (''agents.entries.'' @ i @ ''.tools.exec'') (''agent:'' @ i) (Some i) hostPath hostDefaults hostDefaultSource)
       (scope_agent_ids approvals defaultAgentId configuredAgents)"

end
