(* ===== verification/Exec_Store_Facts.thy ===== *)
theory Exec_Store_Facts
  imports Exec_Store Exec_Effective
begin

section \<open>The stored policy\<close>

text \<open>
  A normal file is read back from the row it was written to; what is read does not depend on the ids
  new entries get, but for those ids; and every transaction leaves a row whose policy extends, equals
  or replaces the one before as its update says.
\<close>

subsection \<open>Reading back\<close>

lemmas jprops = jprop_append jprop_jopt

lemma jprop_simps [simp]: "jprop [] k = None" "jprop ((a, v) # xs) k = (if k = a then Some v else jprop xs k)"
  by (simp_all add: jprop_def)

lemma policy_json_props:
  "jprop (policy_json p @ xs) ''security'' = (case xp_security p of None \<Rightarrow> jprop xs ''security'' | v \<Rightarrow> v)"
  "jprop (policy_json p @ xs) ''ask'' = (case xp_ask p of None \<Rightarrow> jprop xs ''ask'' | v \<Rightarrow> v)"
  "jprop (policy_json p @ xs) ''askFallback'' = (case xp_askFallback p of None \<Rightarrow> jprop xs ''askFallback'' | v \<Rightarrow> v)"
  "jprop (policy_json p @ xs) ''autoAllowSkills''
     = (case xp_autoAllowSkills p of None \<Rightarrow> jprop xs ''autoAllowSkills'' | Some b \<Rightarrow> Some (JBool b))"
  "jprop (policy_json p @ xs) ''allowlist'' = jprop xs ''allowlist''"
  by (simp_all add: policy_json_def jprops split: option.split)

lemma policy_json_alone:
  "jprop (policy_json p) ''security'' = xp_security p" "jprop (policy_json p) ''ask'' = xp_ask p"
  "jprop (policy_json p) ''askFallback'' = xp_askFallback p"
  "jprop (policy_json p) ''autoAllowSkills'' = map_option JBool (xp_autoAllowSkills p)"
  using policy_json_props [of p "[]"] by (simp_all split: option.splits)

lemma agent_json_props:
  "jprop (policy_json p @ jopt ''allowlist'' l) ''security'' = xp_security p"
  "jprop (policy_json p @ jopt ''allowlist'' l) ''ask'' = xp_ask p"
  "jprop (policy_json p @ jopt ''allowlist'' l) ''askFallback'' = xp_askFallback p"
  "jprop (policy_json p @ jopt ''allowlist'' l) ''autoAllowSkills'' = map_option JBool (xp_autoAllowSkills p)"
  "jprop (policy_json p @ jopt ''allowlist'' l) ''allowlist'' = l"
  by (simp_all add: policy_json_props jprop_jopt split: option.split)

lemma json_flag_map [simp]: "json_flag (map_option JBool b) = b"
  by (cases b) simp_all

lemma json_number_map [simp]: "json_number (map_option JNum b) = b"
  by (cases b) simp_all

lemma json_string_map [simp]: "json_string (map_option JStr b) = b"
  by (cases b) simp_all

lemma absent_or_string [simp]: "absent_or is_string (map_option JStr s)"
  by (cases s) (simp_all add: absent_or_def is_string_def)

lemma absent_or_number [simp]: "absent_or is_number (map_option JNum n)"
  by (cases n) (simp_all add: absent_or_def is_number_def)

lemma absent_or_boolean [simp]: "absent_or is_boolean (map_option JBool b)"
  by (cases b) (auto simp: absent_or_def is_boolean_def)

lemma clean_absent: "clean_field ok v = absent_or ok v"
  by (simp add: clean_field_def absent_or_def)

lemma valid_policy:
  assumes "normal_policy p"
  shows "hasValidExecApprovalPolicyFields (JObj (policy_json p))"
    "hasValidExecApprovalPolicyFields (JObj (policy_json p @ jopt ''allowlist'' l))"
  using assms by (simp_all add: hasValidExecApprovalPolicyFields_def normal_policy_iff clean_absent
      policy_json_alone agent_json_props)

lemma policy_back:
  "policy_of_json (policy_json p) = p" "policy_of_json (policy_json p @ jopt ''allowlist'' l) = p"
  by (cases p; simp add: policy_of_json_def policy_json_alone agent_json_props)+

definition entry_fields :: "allow_entry \<Rightarrow> (string \<times> json) list" where
  "entry_fields e = jopt ''id'' (map_option JStr (ae_id e)) @ [(''pattern'', JStr (ae_pattern e))]
     @ jopt ''source'' (map_option JStr (ae_source e)) @ jopt ''commandText'' (map_option JStr (ae_commandText e))
     @ jopt ''argPattern'' (map_option JStr (ae_argPattern e)) @ jopt ''lastUsedAt'' (map_option JNum (ae_lastUsedAt e))
     @ jopt ''lastUsedCommand'' (map_option JStr (ae_lastUsedCommand e))
     @ jopt ''lastResolvedPath'' (map_option JStr (ae_lastResolvedPath e))"

lemma entry_json_fields: "entry_json e = JObj (entry_fields e)"
  by (simp add: entry_json_def entry_fields_def)

lemma entry_props:
  "jprop (entry_fields e) ''id'' = map_option JStr (ae_id e)" "jprop (entry_fields e) ''pattern'' = Some (JStr (ae_pattern e))"
  "jprop (entry_fields e) ''source'' = map_option JStr (ae_source e)"
  "jprop (entry_fields e) ''commandText'' = map_option JStr (ae_commandText e)"
  "jprop (entry_fields e) ''argPattern'' = map_option JStr (ae_argPattern e)"
  "jprop (entry_fields e) ''lastUsedAt'' = map_option JNum (ae_lastUsedAt e)"
  "jprop (entry_fields e) ''lastUsedCommand'' = map_option JStr (ae_lastUsedCommand e)"
  "jprop (entry_fields e) ''lastResolvedPath'' = map_option JStr (ae_lastResolvedPath e)"
  unfolding entry_fields_def by (simp_all add: jprops split: option.split)

lemma entry_back: "item_of_json (entry_json e) = EntryItem e"
  by (simp add: item_of_json_def entry_json_fields entry_props)

lemma valid_entry: "normal_entry e \<Longrightarrow> isValidPersistedExecAllowlistEntry (entry_json e)"
  by (simp add: isValidPersistedExecAllowlistEntry_def entry_json_fields entry_props normal_entry_def
      absent_or_string [of None, simplified])

lemma agent_back: "agent_of_json (agent_json a) = raw_agent a"
proof -
  have "agent_of_json (agent_json a) = \<lparr>xa_policy = xa_policy a, xa_allowlist =
      (case map_option (\<lambda>es. JArr (map entry_json es)) (xa_allowlist a) of
         Some (JArr es) \<Rightarrow> Some (map item_of_json es) | _ \<Rightarrow> None)\<rparr>"
    by (simp only: agent_of_json_def agent_json_def object_fields.simps Let_def policy_back agent_json_props)
  thus ?thesis by (cases "xa_allowlist a") (simp_all add: raw_agent_def entry_back comp_def)
qed

lemma valid_agent_json:
  assumes "normal_agent a"
  shows "valid_agent (agent_json a)"
proof -
  have "hasValidExecApprovalPolicyFields (agent_json a)"
    using assms unfolding agent_json_def normal_agent_def by (intro valid_policy) simp
  moreover have "absent_or (\<lambda>l. case l of Some (JArr es) \<Rightarrow> list_all isValidPersistedExecAllowlistEntry es | _ \<Rightarrow> False)
      (map_option (\<lambda>es. JArr (map entry_json es)) (xa_allowlist a))"
    using assms by (cases "xa_allowlist a") (auto simp: absent_or_def normal_agent_def list_all_iff valid_entry)
  ultimately show ?thesis
    unfolding valid_agent_def agent_json_def json.case agent_json_props by simp
qed

lemma file_back: "file_of_json (serializeExecApprovals f) = as_raw f"
  by (simp add: file_of_json_def serializeExecApprovals_def as_raw_def policy_back jprops agent_back
      comp_def case_prod_beta split: option.split)

lemma valid_file: "normal_file f \<Longrightarrow> isValidPersistedExecApprovals (serializeExecApprovals f)"
  by (auto simp: isValidPersistedExecApprovals_def serializeExecApprovals_def normal_file_def valid_policy
      valid_socket_def jprops absent_or_def is_string_def list_all_iff valid_agent_json split: option.split)

lemma read_back:
  "normal_file f \<Longrightarrow> tryParsePersistedExecApprovals fresh (Some (serializeExecApprovals f)) = Some f"
  by (simp add: tryParsePersistedExecApprovals_def valid_file file_back normalize_id)

lemma row_back: "normal_file f \<Longrightarrow> snapshotFromExecApprovalsRow fresh (Some (Wrote (serializeExecApprovals f))) = f"
  by (simp add: snapshotFromExecApprovalsRow_def read_back)

lemma snapshot_normal: "fresh_ok fresh \<Longrightarrow> normal_file (snapshotFromExecApprovalsRow fresh row)"
  by (auto simp: snapshotFromExecApprovalsRow_def createFailClosedExecApprovalsFallback_def
      tryParsePersistedExecApprovals_def normalize_normal split: option.split)

subsection \<open>The ids do not matter\<close>

lemma ensured_rules:
  "map_option (map rule_of_entry) (stripAllowlistCommandText (ensureAllowlistIds new es))
     = map_option (map rule_of_entry) (stripAllowlistCommandText (ensureAllowlistIds new' es))"
proof (cases es)
  case (Some l)
  show ?thesis
    unfolding Some stripAllowlistCommandText_def ensureAllowlistIds_def option.map option.inject
    by (rule nth_equalityI) (auto simp: nth_enumerate_eq rule_of_entry_def)
qed (simp add: stripAllowlistCommandText_def ensureAllowlistIds_def)

lemma same_rules_keep:
  assumes "map rule_of_entry es = map rule_of_entry es'"
  shows "keeps_grants es es'"
  unfolding keeps_grants_def
proof
  fix e assume "e \<in> set es"
  hence "rule_of_entry e \<in> set (map rule_of_entry es)" by simp
  then obtain e' where "e' \<in> set es'" "rule_of_entry e = rule_of_entry e'" unfolding assms by auto
  thus "\<exists>e'\<in>set es'. same_key e e' \<and> (always e \<longrightarrow> always e')"
    by (auto simp: rule_of_entry_def same_key_def always_def split: if_splits intro!: bexI [of _ e'])
qed

lemma normalize_extends:
  assumes "fresh_ok fresh'"
  shows "extends (normalizeExecApprovalsInternal fresh raw) (normalizeExecApprovalsInternal fresh' raw)"
proof -
  have p: "agent_policy (normalizeExecApprovalsInternal fresh' raw) k = agent_policy (normalizeExecApprovalsInternal fresh raw) k" for k
    by (simp add: agent_policy_def normalizeExecApprovalsInternal_def get_map normalize_agent_def split: option.split)
  have "map rule_of_entry (agent_allowlist (normalizeExecApprovalsInternal fresh raw) k)
      = map rule_of_entry (agent_allowlist (normalizeExecApprovalsInternal fresh' raw) k)" for k
  proof (cases "jm_get (merge_default (xf_agents raw)) k")
    case (Some a)
    from ensured_rules [of "fresh k" "coerceAllowlistEntries (xa_allowlist a)" "fresh' k"] Some show ?thesis
      by (auto simp: agent_allowlist_def normalizeExecApprovalsInternal_def get_map normalize_agent_def split: option.splits)
  qed (simp add: agent_allowlist_def normalizeExecApprovalsInternal_def get_map)
  with p show ?thesis
    by (simp add: extends_def same_settings_def normalize_normal [OF assms] same_rules_keep)
      (simp add: normalizeExecApprovalsInternal_def)
qed

lemma snapshot_extends:
  "fresh_ok fresh' \<Longrightarrow> extends (snapshotFromExecApprovalsRow fresh row) (snapshotFromExecApprovalsRow fresh' row)"
  by (auto simp: snapshotFromExecApprovalsRow_def createFailClosedExecApprovalsFallback_def
      tryParsePersistedExecApprovals_def normalize_extends split: option.split)

subsection \<open>The check before execution\<close>

text \<open>Whatever passes the check has a security that does not deny, and, when it is delayed, a snapshot that stands.\<close>

lemma assert_passes:
  assumes "assertCurrentUsageAuthorization sha fresh f a command keys auth = Inr ()"
  shows "minSecurity (ua_security auth) (xs_security (xr_agent (resolveExecApprovalsFromFileInternal fresh f a
           (no_overrides\<lparr>xo_security := Some (ua_security auth), xo_ask := Some (ua_ask auth)\<rparr>)))) \<noteq> SecDeny"
    "ua_source auth = ExplicitApproval \<or> ua_source auth = AutoReview \<Longrightarrow> snapshot_stands fresh f a auth"
  using assms by (auto simp: assertCurrentUsageAuthorization_def Let_def split: if_splits)

lemma assert_explicit:
  assumes "ua_source auth = ExplicitApproval"
  shows "assertCurrentUsageAuthorization sha fresh f a command keys auth = Inr ()
    \<longleftrightarrow> minSecurity (ua_security auth) (xs_security (xr_agent (resolveExecApprovalsFromFileInternal fresh f a
           (no_overrides\<lparr>xo_security := Some (ua_security auth), xo_ask := Some (ua_ask auth)\<rparr>)))) \<noteq> SecDeny
      \<and> snapshot_stands fresh f a auth"
  using assms by (simp add: assertCurrentUsageAuthorization_def Let_def)

lemma current_snapshots_iff:
  assumes "normal_file f" "normal_file f'"
  shows "isExecApprovalPolicySnapshotCurrent (snapshot_of fresh f a) (snapshot_of fresh' f' a)
    \<longleftrightarrow> settings_of fresh' f' a = settings_of fresh f a
      \<and> keeps_grants (agent_allowlist f ''*'' @ agent_allowlist f (case_option ''default'' id a))
          (agent_allowlist f' ''*'' @ agent_allowlist f' (case_option ''default'' id a))"
proof -
  have e: "x = y \<longleftrightarrow> xs_security y = xs_security x \<and> xs_ask y = xs_ask x \<and> xs_askFallback y = xs_askFallback x
      \<and> xs_autoAllowSkills y = xs_autoAllowSkills x" for x y :: exec_settings
    by (cases x; cases y) auto
  show ?thesis
    unfolding current_iff snapshot_sel rules_stand_iff resolved_allowlist [OF assms(1)] resolved_allowlist [OF assms(2)]
      e [of "settings_of fresh' f' a"] by blast
qed

lemma plan_keys:
  assumes "check_allowlist_plan sha current command keys auth = Inr ()"
  shows "if ua_requireExactCommandApproval auth
    then hasExactCommandDurableExecApproval sha (xr_allowlist current) (Some command)
    else set keys \<subseteq> buildAllowlistEntryMatchKey ` set (xr_allowlist current)
      \<and> (ua_requireDurableAllowlistApproval auth \<longrightarrow>
           keys \<noteq> [] \<and> set keys \<subseteq> buildAllowlistEntryMatchKey ` {e \<in> set (xr_allowlist current). always e})
      \<and> (ua_requireAutoAllowSkills auth \<longrightarrow> xs_autoAllowSkills (xr_agent current))"
  using assms unfolding check_allowlist_plan_def Let_def
  by (simp add: list_ex_iff always_def split: if_splits) blast+

subsection \<open>Transactions\<close>

lemma update_cases:
  assumes "updateExecApprovalsInTransaction fresh now p update st = Inr (r, st')"
  obtains (stale) "r = None" "st' = st" "up_baseRow p \<noteq> None" "up_baseRow p \<noteq> Some (es_row st)"
  | (kept) "update (snapshotFromExecApprovalsRow fresh (es_row st)) = Inr None" "st' = st"
      "r = Some (snapshotFromExecApprovalsRow fresh (es_row st))"
  | (same) "next" where "update (snapshotFromExecApprovalsRow fresh (es_row st)) = Inr (Some next)" "st' = st"
      "r = Some (snapshotFromExecApprovalsRow fresh (es_row st))" "es_row st = Some (Wrote (serializeExecApprovals next))"
  | (written) "next" where "update (snapshotFromExecApprovalsRow fresh (es_row st)) = Inr (Some next)"
      "assertNoDeletedAgentApprovalChanged st (snapshotFromExecApprovalsRow fresh (es_row st)) next
         (up_allowRemoval p) (up_allowRestore p) = Inr ()"
      "assertExecApprovalsMutationAllowed st (up_leaseOwner p) now = Inr ()"
      "st' = st\<lparr>es_row := Some (Wrote (serializeExecApprovals next))\<rparr>"
      "r = Some (snapshotFromExecApprovalsRow fresh (es_row st'))"
proof -
  let ?f = "snapshotFromExecApprovalsRow fresh (es_row st)"
  note U = assms [unfolded updateExecApprovalsInTransaction_def Let_def]
  show ?thesis
  proof (cases "up_baseRow p \<noteq> None \<and> up_baseRow p \<noteq> Some (es_row st)")
    case True
    with U stale show ?thesis by simp
  next
    case False
    from U [unfolded if_not_P [OF False] bnd_Inr_iff] obtain x where x: "update ?f = Inr x"
      and w: "(case x of None \<Rightarrow> Inr (Some ?f, st)
        | Some h \<Rightarrow> bnd (assertNoDeletedAgentApprovalChanged st ?f h (up_allowRemoval p) (up_allowRestore p)) (\<lambda>_.
            if es_row st = Some (Wrote (serializeExecApprovals h)) then Inr (Some ?f, st)
            else bnd (writeExecApprovalsConfigRow st (serializeExecApprovals h) (up_leaseOwner p) now)
              (\<lambda>st'. Inr (Some (snapshotFromExecApprovalsRow fresh (es_row st')), st')))) = Inr (r, st')"
      by blast
    show ?thesis
    proof (cases x)
      case None
      with x have "update ?f = Inr None" by simp
      moreover from w None have "st' = st" "r = Some ?f" by auto
      ultimately show ?thesis by (rule kept)
    next
      case (Some h)
      from w [unfolded Some option.case bnd_Inr_iff] obtain u :: unit where
        "assertNoDeletedAgentApprovalChanged st ?f h (up_allowRemoval p) (up_allowRestore p) = Inr u"
        "(if es_row st = Some (Wrote (serializeExecApprovals h)) then Inr (Some ?f, st)
            else bnd (writeExecApprovalsConfigRow st (serializeExecApprovals h) (up_leaseOwner p) now)
              (\<lambda>st'. Inr (Some (snapshotFromExecApprovalsRow fresh (es_row st')), st'))) = Inr (r, st')" by blast
      hence d: "assertNoDeletedAgentApprovalChanged st ?f h (up_allowRemoval p) (up_allowRestore p) = Inr ()"
        and w': "(if es_row st = Some (Wrote (serializeExecApprovals h)) then Inr (Some ?f, st)
            else bnd (writeExecApprovalsConfigRow st (serializeExecApprovals h) (up_leaseOwner p) now)
              (\<lambda>st'. Inr (Some (snapshotFromExecApprovalsRow fresh (es_row st')), st'))) = Inr (r, st')"
        by simp_all
      have x: "update ?f = Inr (Some h)" using x Some by simp
      show ?thesis
      proof (cases "es_row st = Some (Wrote (serializeExecApprovals h))")
        case True
        from w' True have "st' = st" "r = Some ?f" by auto
        from same [OF x this True] show ?thesis .
      next
        case F: False
        from w' [unfolded if_not_P [OF F] bnd_Inr_iff] obtain st1 where s: "writeExecApprovalsConfigRow st (serializeExecApprovals h) (up_leaseOwner p) now = Inr st1"
          "r = Some (snapshotFromExecApprovalsRow fresh (es_row st1))" "st' = st1"
          by auto
        from s(1) have "assertExecApprovalsMutationAllowed st (up_leaseOwner p) now = Inr ()"
          "st1 = st\<lparr>es_row := Some (Wrote (serializeExecApprovals h))\<rparr>"
          by (auto simp: writeExecApprovalsConfigRow_def)
        with written [OF x d] s(2,3) show ?thesis by simp
      qed
    qed
  qed
qed

text \<open>The file an update leaves to read, when it gives a normal one.\<close>

lemma update_reads:
  assumes u: "updateExecApprovalsInTransaction fresh now p update st = Inr (r, st')" and b: "up_baseRow p = None \<or> up_baseRow p = Some (es_row st)"
    and n: "\<And>next. update (snapshotFromExecApprovalsRow fresh (es_row st)) = Inr (Some next) \<Longrightarrow> normal_file next"
  obtains "update (snapshotFromExecApprovalsRow fresh (es_row st)) = Inr None" "es_row st' = es_row st"
  | "next" where "update (snapshotFromExecApprovalsRow fresh (es_row st)) = Inr (Some next)" "normal_file next"
      "es_row st' = Some (Wrote (serializeExecApprovals next))" "\<And>fr. snapshotFromExecApprovalsRow fr (es_row st') = next"
  using u
proof (cases rule: update_cases)
  case stale
  with b show ?thesis by auto
next
  case kept
  with that(1) show ?thesis by simp
next
  case (same "next")
  with that(2) n row_back show ?thesis by simp
next
  case (written "next")
  with that(2) n row_back show ?thesis by simp
qed

text \<open>What a commit does to the file, and that the check it makes passed.\<close>

definition ids_ok :: "commit_env \<Rightarrow> bool" where
  "ids_ok env \<longleftrightarrow> fresh_ok (ce_fresh env) \<and> fresh_ok (ce_useIds env) \<and> (\<forall>i. ce_grantIds env i \<noteq> [])"

lemma commit_update_cases:
  assumes ids: "ids_ok env" and f: "normal_file f" and a: "cp_agentId p \<noteq> Some ''default''"
    and c: "commit_update env p f = Inr r"
  shows "assertCurrentUsageAuthorization (ce_sha env) (ce_fresh env) (as_raw f) (cp_agentId p) (cp_command p)
       (match_keys (cp_matches p)) (cp_authorization p) = Inr ()"
    "extends f (case_option f id r)"
    "is_persistent (cp_allowAlwaysDecision p) \<Longrightarrow>
       \<forall>g\<in>set (decision_entries (ce_sha env) (the (cp_allowAlwaysDecision p))). js_trim (fst g) \<noteq> []
          \<longrightarrow> granted (case_option f id r) (the (cp_agentId p)) g"
proof -
  let ?D = "is_persistent (cp_allowAlwaysDecision p)" and ?d = "the (cp_allowAlwaysDecision p)"
  let ?G = "if ?D then applyAllowAlwaysDecision (ce_sha env) (ce_grantIds env) (ce_now env) f (cp_agentId p) ?d else Inr None"
  from c obtain g q where
    s: "assertCurrentUsageAuthorization (ce_sha env) (ce_fresh env) (as_raw f) (cp_agentId p) (cp_command p)
       (match_keys (cp_matches p)) (cp_authorization p) = Inr ()"
    and g: "?G = Inr g"
    and q: "applyRecordedAllowlistMetadata (ce_useIds env) (ce_now env) (case_option f id g) (cp_agentId p)
       (cp_matches p) (cp_command p) (cp_resolvedPath p) = Inr q"
    and r: "r = (case q of Some h \<Rightarrow> Some h | None \<Rightarrow> g)"
    unfolding commit_update_def bnd_Inr_iff by auto
  show "assertCurrentUsageAuthorization (ce_sha env) (ce_fresh env) (as_raw f) (cp_agentId p) (cp_command p)
       (match_keys (cp_matches p)) (cp_authorization p) = Inr ()" by (rule s)
  have G: "extends f (case_option f id g) \<and> (?D \<longrightarrow> (\<forall>x\<in>set (decision_entries (ce_sha env) ?d).
      js_trim (fst x) \<noteq> [] \<longrightarrow> granted (case_option f id g) (the (cp_agentId p)) x))"
  proof (cases ?D)
    case True
    with g have "applyAllowAlwaysDecision (ce_sha env) (ce_grantIds env) (ce_now env) f (cp_agentId p) ?d = Inr g" by simp
    from decision_update [OF f a _ this] ids True show ?thesis by (simp add: ids_ok_def)
  next
    case False
    with g show ?thesis by (auto simp: extends_refl [OF f])
  qed
  have n: "normal_file (case_option f id g)" using G by (simp add: extends_def)
  have R: "extends (case_option f id g) (case_option f id r)"
  proof (cases q)
    case None
    with r show ?thesis by (simp add: extends_refl [OF n])
  next
    case (Some h)
    with r recorded(1) [OF n] q show ?thesis by simp
  qed
  show "extends f (case_option f id r)" using extends_trans G R by blast
  show "\<forall>x\<in>set (decision_entries (ce_sha env) ?d). js_trim (fst x) \<noteq> [] \<longrightarrow> granted (case_option f id r) (the (cp_agentId p)) x"
    if ?D using G granted_keeps [OF R] that by blast
qed

text \<open>The same of a commit to the store: the read after it, whatever ids it makes up.\<close>

lemma commit_stored:
  assumes ids: "ids_ok env" and a: "cp_agentId p \<noteq> Some ''default''" and fr: "fresh_ok fresh'"
    and c: "commitExecAuthorizationLocked env now p st = Inr st'"
  obtains r where "commit_update env p (snapshotFromExecApprovalsRow (ce_fresh env) (es_row st)) = Inr r"
    "extends (snapshotFromExecApprovalsRow (ce_fresh env) (es_row st)) (snapshotFromExecApprovalsRow fresh' (es_row st'))"
    "extends (case_option (snapshotFromExecApprovalsRow (ce_fresh env) (es_row st)) id r)
       (snapshotFromExecApprovalsRow fresh' (es_row st'))"
proof -
  let ?f = "snapshotFromExecApprovalsRow (ce_fresh env) (es_row st)"
  have f: "normal_file ?f" using ids by (simp add: snapshot_normal ids_ok_def)
  from c obtain x where u: "updateExecApprovalsInTransaction (ce_fresh env) now plain_update (commit_update env p) st = Inr (x, st')"
    by (auto simp: commitExecAuthorizationLocked_def bnd_Inr_iff)
  have n: "normal_file h" if "commit_update env p ?f = Inr (Some h)" for h
    using commit_update_cases(2) [OF ids f a that] by (simp add: extends_def)
  from u show ?thesis
  proof (rule update_reads)
    show "up_baseRow plain_update = None \<or> up_baseRow plain_update = Some (es_row st)" by (simp add: plain_update_def)
    show "normal_file h" if "commit_update env p ?f = Inr (Some h)" for h by (rule n [OF that])
  next
    assume k: "commit_update env p ?f = Inr None" "es_row st' = es_row st"
    have "extends ?f (snapshotFromExecApprovalsRow fresh' (es_row st'))"
      unfolding k(2) by (rule snapshot_extends [OF fr])
    with k(1) that [of None] show ?thesis by simp
  next
    fix h assume h: "commit_update env p ?f = Inr (Some h)" "normal_file h"
      "\<And>fr. snapshotFromExecApprovalsRow fr (es_row st') = h"
    have "extends ?f h" using commit_update_cases(2) [OF ids f a h(1)] by simp
    with h that [of "Some h"] show ?thesis by (simp add: extends_refl)
  qed
qed

end
