(* ===== verification/Exec_Properties.thy ===== *)
theory Exec_Properties
  imports Exec_Store_Facts
begin

section \<open>What exec approvals promise\<close>

text \<open>
  The properties of the approval policy, each with an instance on the small policy below.
\<close>

definition xdemo_sha :: digest where
  "xdemo_sha s = s"

definition xdemo_fresh :: fresh_ids where
  "xdemo_fresh k i = ''new''"

definition xdemo_entry :: allow_entry where
  "xdemo_entry = (text_entry ''/bin/ls'')\<lparr>ae_id := Some ''i''\<rparr>"

definition xdemo_policy :: exec_policy where
  "xdemo_policy = no_policy\<lparr>xp_security := Some (JStr ''allowlist''), xp_ask := Some (JStr ''on-miss'')\<rparr>"

definition xdemo_file :: approvals_file where
  "xdemo_file = \<lparr>xf_socketPath = None, xf_socketToken = None, xf_defaults = xdemo_policy,
     xf_agents = [(''a'', \<lparr>xa_policy = no_policy, xa_allowlist = Some [xdemo_entry]\<rparr>)]\<rparr>"

definition xdemo_store :: exec_store where
  "xdemo_store = \<lparr>es_row = Some (Wrote (serializeExecApprovals xdemo_file)), es_lease = None, es_deleted = (\<lambda>_. False)\<rparr>"

lemma xdemo_ids: "fresh_ok xdemo_fresh"
  by (simp add: fresh_ok_def xdemo_fresh_def)

lemma xdemo_entry_normal: "normal_entry xdemo_entry"
  by (simp add: normal_entry_def xdemo_entry_def text_entry_def js_trim_def js_space_def)

lemma xdemo_policy_normal: "normal_policy xdemo_policy"
  by (simp add: normal_policy_iff xdemo_policy_def no_policy_def clean_field_def isExecSecurity_def isExecAsk_def
      json_security_def json_ask_def security_of_def ask_of_def)

lemma xdemo_normal: "normal_file xdemo_file"
  using xdemo_entry_normal xdemo_policy_normal
  by (simp add: normal_file_def xdemo_file_def trimmed_or_none_def jm_keys_def normal_agent_def)

lemma xdemo_row: "snapshotFromExecApprovalsRow fresh (es_row xdemo_store) = xdemo_file"
  by (simp add: xdemo_store_def row_back xdemo_normal)

lemma xdemo_settings:
  "xr_agent (resolved fresh xdemo_file (Some ''a'') ovr) =
     \<lparr>xs_security = SecAllowlist, xs_ask = AskOnMiss,
      xs_askFallback = case_option SecDeny id (xo_askFallback ovr),
      xs_autoAllowSkills = flag_or (xo_autoAllowSkills ovr) False\<rparr>"
  unfolding resolved_prepared [OF xdemo_normal]
  by (simp add: resolveExecApprovalsFromFilePrepared_def Let_def xdemo_file_def xdemo_policy_def no_policy_def
      agent_policy_def resolve_agent_field_def resolve_default_field_def nullish_def normalizeSecurity_def
      normalizeAsk_def json_security_def json_ask_def security_of_def ask_of_def flag_or_def
      DEFAULT_EXEC_APPROVAL_ASK_FALLBACK_def DEFAULT_AUTO_ALLOW_SKILLS_def split: option.split)

lemma xdemo_allowlist: "xr_allowlist (resolved fresh xdemo_file (Some ''a'') ovr) = [xdemo_entry]"
  unfolding resolved_allowlist [OF xdemo_normal] by (simp add: agent_allowlist_def xdemo_file_def)

subsection \<open>The normal form\<close>

text \<open>
  C24: The normal form of an approval policy is stable: normalizing a normalized file changes nothing,
  whatever ids are at hand, and the file written to the row and parsed again is the same file.
\<close>

theorem approvals_roundtrip:
  assumes "fresh_ok fresh"
  shows "normalizeExecApprovalsInternal fresh' (as_raw (normalizeExecApprovalsInternal fresh raw))
       = normalizeExecApprovalsInternal fresh raw
     \<and> tryParsePersistedExecApprovals fresh' (Some (serializeExecApprovals (normalizeExecApprovalsInternal fresh raw)))
       = Some (normalizeExecApprovalsInternal fresh raw)"
  using normalize_normal [OF assms] by (simp add: normalize_id read_back)

lemma approvals_roundtrip_witness:
  "tryParsePersistedExecApprovals xdemo_fresh (Some (serializeExecApprovals (normalizeExecApprovalsInternal xdemo_fresh
       (as_raw xdemo_file\<lparr>xf_socketPath := Some '' /s ''\<rparr>))))
     = Some (xdemo_file\<lparr>xf_socketPath := Some ''/s''\<rparr>)"
proof -
  have "normalizeExecApprovalsInternal xdemo_fresh (as_raw xdemo_file\<lparr>xf_socketPath := Some '' /s ''\<rparr>)
      = (normalizeExecApprovalsInternal xdemo_fresh (as_raw xdemo_file))\<lparr>xf_socketPath := Some ''/s''\<rparr>"
    by (simp add: normalizeExecApprovalsInternal_def trimmed_or_none_def js_trim_def js_space_def)
  with approvals_roundtrip [OF xdemo_ids, of xdemo_fresh "as_raw xdemo_file\<lparr>xf_socketPath := Some '' /s ''\<rparr>"]
  show ?thesis by (simp add: normalize_id xdemo_normal)
qed

subsection \<open>Merging the legacy default agent\<close>

text \<open>
  The items of an agent's stored allowlist: the nonblank plain texts, the objects, and the agent as
  it would be had it no texts.
\<close>

definition agent_items :: "raw_item exec_agent \<Rightarrow> raw_item list" where
  "agent_items a = case_option [] id (xa_allowlist a)"

definition is_text :: "raw_item \<Rightarrow> bool" where
  "is_text i = (case i of TextItem _ \<Rightarrow> True | _ \<Rightarrow> False)"

definition agent_texts :: "raw_item exec_agent \<Rightarrow> string set" where
  "agent_texts a = {p. TextItem p \<in> set (agent_items a) \<and> js_trim p \<noteq> []}"

definition agent_objects :: "raw_item exec_agent \<Rightarrow> allow_entry set" where
  "agent_objects a = {e. EntryItem e \<in> set (agent_items a)}"

definition without_texts :: "raw_item exec_agent \<Rightarrow> raw_item exec_agent" where
  "without_texts a = a\<lparr>xa_allowlist := map_option (filter (\<lambda>i. \<not> is_text i)) (xa_allowlist a)\<rparr>"

lemma push_entries_filter: "push_entries seen (filter (\<lambda>i. \<not> is_text i) xs) = push_entries seen xs"
  by (induction seen xs rule: push_entries.induct) (auto simp: is_text_def Let_def split: option.split)

lemma push_entries_objects: "i \<in> set (push_entries seen xs) \<Longrightarrow> i \<in> set xs \<and> (\<exists>e. i = EntryItem e)"
proof (induction xs arbitrary: seen)
  case (Cons x xs)
  then show ?case by (cases x) (auto simp: Let_def split: option.splits if_splits)
qed simp

lemma items_without: "agent_items (without_texts a) = filter (\<lambda>i. \<not> is_text i) (agent_items a)"
  by (simp add: agent_items_def without_texts_def split: option.split)

lemma merge_without: "mergeLegacyAgent (without_texts m) (without_texts d) = mergeLegacyAgent m d"
proof -
  have "push_entries [] (agent_items (without_texts m) @ agent_items (without_texts d)) = push_entries [] (agent_items m @ agent_items d)"
    unfolding items_without filter_append [symmetric] push_entries_filter ..
  moreover have "xa_policy (without_texts a) = xa_policy a" for a by (simp add: without_texts_def)
  ultimately show ?thesis by (simp add: mergeLegacyAgent_def Let_def flip: agent_items_def)
qed

text \<open>What the normal form makes of the items of one agent.\<close>

lemma normalized_patterns:
  "ae_pattern ` set (case_option [] id (xa_allowlist (normalize_agent new a)))
     = ae_pattern ` set (List.map_filter coerce_item (agent_items a))"
proof -
  have "map ae_pattern (map (\<lambda>(i, e). if truthy_str (ae_id e) then e else e\<lparr>ae_id := Some (new i)\<rparr>) (enumerate 0 es))
      = map ae_pattern es" for es :: "allow_entry list"
    by (rule nth_equalityI) (simp_all add: nth_enumerate_eq)
  hence "ae_pattern ` set (map (\<lambda>(i, e). if truthy_str (ae_id e) then e else e\<lparr>ae_id := Some (new i)\<rparr>) (enumerate 0 es))
      = ae_pattern ` set es" for es :: "allow_entry list"
    by (metis list.set_map)
  thus ?thesis
    by (auto simp: normalize_agent_def agent_items_def coerceAllowlistEntries_def ensureAllowlistIds_def
        stripAllowlistCommandText_def Let_def image_image map_filter_simps split: option.split list.split)
qed

lemma coerced_pattern:
  "coerce_item i = Some e \<Longrightarrow> (\<exists>p. i = TextItem p \<and> ae_pattern e = js_trim p) \<or> i = EntryItem e"
  by (cases i) (auto simp: coerce_item_def text_entry_def split: if_splits)

lemma mem_map_filter: "e \<in> set (List.map_filter f xs) \<longleftrightarrow> (\<exists>x\<in>set xs. f x = Some e)"
  by (force simp: map_filter_def)

lemma text_patterns: "js_trim ` agent_texts a \<subseteq> ae_pattern ` set (case_option [] id (xa_allowlist (normalize_agent new a)))"
proof
  fix p assume "p \<in> js_trim ` agent_texts a"
  then obtain q where q: "TextItem q \<in> set (agent_items a)" "js_trim q \<noteq> []" "p = js_trim q" by (auto simp: agent_texts_def)
  hence "coerce_item (TextItem q) = Some (text_entry p)" by (simp add: coerce_item_def)
  with q(1) have "text_entry p \<in> set (List.map_filter coerce_item (agent_items a))"
    unfolding mem_map_filter by blast
  moreover have "ae_pattern (text_entry p) = p" by (simp add: text_entry_def)
  ultimately
  show "p \<in> ae_pattern ` set (case_option [] id (xa_allowlist (normalize_agent new a)))"
    unfolding normalized_patterns by (metis imageI)
qed

lemma merged_patterns:
  "ae_pattern ` set (case_option [] id (xa_allowlist (normalize_agent new (mergeLegacyAgent m d))))
     \<subseteq> ae_pattern ` (agent_objects m \<union> agent_objects d)"
proof -
  have "agent_items (mergeLegacyAgent m d) = push_entries [] (agent_items m @ agent_items d)"
    by (simp add: agent_items_def mergeLegacyAgent_def Let_def)
  hence "e \<in> agent_objects m \<union> agent_objects d" if "e \<in> set (List.map_filter coerce_item (agent_items (mergeLegacyAgent m d)))" for e
    using that coerced_pattern [of _ e] push_entries_objects [of _ "[]" "agent_items m @ agent_items d"]
    unfolding mem_map_filter agent_objects_def by fastforce
  thus ?thesis unfolding normalized_patterns by blast
qed

lemma normalized_agent:
  "agent_allowlist (normalizeExecApprovalsInternal fresh f) k =
     (case jm_get (merge_default (xf_agents f)) k of None \<Rightarrow> []
      | Some a \<Rightarrow> case_option [] id (xa_allowlist (normalize_agent (fresh k) a)))"
  by (simp add: agent_allowlist_def normalizeExecApprovalsInternal_def get_map split: option.split)

text \<open>
  C25: Merging a legacy default agent into an existing main agent loses the plain texts of both,
  whatever else the file and the two allowlists hold. After the merge every rule of main comes from
  an object of one of the lists, and main has the rules it would have if neither list had texts. The
  checks accept each nonblank text all the same, and without a merge (the one agent without the
  other) it becomes a rule.
\<close>

theorem merge_loses_texts:
  assumes "jm_get (xf_agents f) ''default'' = Some d" and "jm_get (xf_agents f) ''main'' = Some m"
  shows "ae_pattern ` set (agent_allowlist (normalizeExecApprovalsInternal fresh f) ''main'')
      \<subseteq> ae_pattern ` (agent_objects m \<union> agent_objects d)
    \<and> agent_allowlist (normalizeExecApprovalsInternal fresh f) ''main''
      = agent_allowlist (normalizeExecApprovalsInternal fresh (f\<lparr>xf_agents :=
          jm_put ''main'' (without_texts m) (jm_put ''default'' (without_texts d) (xf_agents f))\<rparr>)) ''main''
    \<and> js_trim ` agent_texts m \<subseteq> ae_pattern ` set (agent_allowlist (normalizeExecApprovalsInternal fresh
          (f\<lparr>xf_agents := jm_delete ''default'' (xf_agents f)\<rparr>)) ''main'')
    \<and> js_trim ` agent_texts d \<subseteq> ae_pattern ` set (agent_allowlist (normalizeExecApprovalsInternal fresh
          (f\<lparr>xf_agents := jm_delete ''main'' (xf_agents f)\<rparr>)) ''main'')
    \<and> agent_texts m \<union> agent_texts d \<subseteq> {p. isValidPersistedExecAllowlistEntry (JStr p)}"
proof (intro conjI)
  have merged: "jm_get (merge_default (xf_agents f)) ''main'' = Some (mergeLegacyAgent m d)"
    using assms by (simp add: merge_default_def DEFAULT_AGENT_ID_def jm_get_put jm_get_delete)
  show "ae_pattern ` set (agent_allowlist (normalizeExecApprovalsInternal fresh f) ''main'')
      \<subseteq> ae_pattern ` (agent_objects m \<union> agent_objects d)"
    using merged_patterns by (simp add: normalized_agent merged)
  have "jm_get (merge_default (jm_put ''main'' (without_texts m) (jm_put ''default'' (without_texts d) (xf_agents f)))) ''main''
      = Some (mergeLegacyAgent m d)"
    using assms merge_without [of m d] by (simp add: merge_default_def DEFAULT_AGENT_ID_def jm_get_put jm_get_delete)
  thus "agent_allowlist (normalizeExecApprovalsInternal fresh f) ''main''
      = agent_allowlist (normalizeExecApprovalsInternal fresh (f\<lparr>xf_agents :=
          jm_put ''main'' (without_texts m) (jm_put ''default'' (without_texts d) (xf_agents f))\<rparr>)) ''main''"
    by (simp add: normalized_agent merged)
  have "jm_get (merge_default (jm_delete ''default'' (xf_agents f))) ''main'' = Some m"
    using assms by (simp add: merge_default_def jm_get_delete)
  thus "js_trim ` agent_texts m \<subseteq> ae_pattern ` set (agent_allowlist (normalizeExecApprovalsInternal fresh
          (f\<lparr>xf_agents := jm_delete ''default'' (xf_agents f)\<rparr>)) ''main'')"
    using text_patterns by (simp add: normalized_agent)
  have "jm_get (merge_default (jm_delete ''main'' (xf_agents f))) ''main'' = Some d"
    using assms by (simp add: merge_default_def DEFAULT_AGENT_ID_def jm_get_put jm_get_delete)
  thus "js_trim ` agent_texts d \<subseteq> ae_pattern ` set (agent_allowlist (normalizeExecApprovalsInternal fresh
          (f\<lparr>xf_agents := jm_delete ''main'' (xf_agents f)\<rparr>)) ''main'')"
    using text_patterns by (simp add: normalized_agent)
  show "agent_texts m \<union> agent_texts d \<subseteq> {p. isValidPersistedExecAllowlistEntry (JStr p)}"
    by (auto simp: agent_texts_def isValidPersistedExecAllowlistEntry_def)
qed

definition mixed_agent :: "string \<Rightarrow> string \<Rightarrow> raw_item exec_agent" where
  "mixed_agent p q = \<lparr>xa_policy = no_policy, xa_allowlist = Some [TextItem p, EntryItem (text_entry q)]\<rparr>"

definition mixed_file :: raw_file where
  "mixed_file = \<lparr>xf_socketPath = None, xf_socketToken = None, xf_defaults = no_policy,
     xf_agents = [(''default'', mixed_agent ''cat'' ''pwd''), (''main'', mixed_agent ''ls'' ''id'')]\<rparr>"

lemma mixed_sets: "agent_objects (mixed_agent p q) = {text_entry q}"
    "js_trim p \<noteq> [] \<Longrightarrow> agent_texts (mixed_agent p q) = {p}"
  by (auto simp: agent_objects_def agent_texts_def agent_items_def mixed_agent_def)

lemma merge_loses_texts_witness:
  "ae_pattern ` set (agent_allowlist (normalizeExecApprovalsInternal xdemo_fresh mixed_file) ''main'') \<subseteq> {''id'', ''pwd''}
    \<and> ''ls'' \<in> ae_pattern ` set (agent_allowlist (normalizeExecApprovalsInternal xdemo_fresh
          (mixed_file\<lparr>xf_agents := jm_delete ''default'' (xf_agents mixed_file)\<rparr>)) ''main'')
    \<and> ''cat'' \<in> ae_pattern ` set (agent_allowlist (normalizeExecApprovalsInternal xdemo_fresh
          (mixed_file\<lparr>xf_agents := jm_delete ''main'' (xf_agents mixed_file)\<rparr>)) ''main'')
    \<and> isValidPersistedExecAllowlistEntry (JStr ''ls'') \<and> isValidPersistedExecAllowlistEntry (JStr ''cat'')"
proof -
  have t: "js_trim ''ls'' = ''ls''" "js_trim ''cat'' = ''cat''" by (simp_all add: js_trim_def js_space_def)
  have p: "ae_pattern (text_entry q) = q" for q by (simp add: text_entry_def)
  have g: "jm_get (xf_agents mixed_file) ''default'' = Some (mixed_agent ''cat'' ''pwd'')"
    "jm_get (xf_agents mixed_file) ''main'' = Some (mixed_agent ''ls'' ''id'')"
    by (simp_all add: mixed_file_def)
  have s: "agent_texts (mixed_agent ''cat'' ''pwd'') = {''cat''}" "agent_texts (mixed_agent ''ls'' ''id'') = {''ls''}"
    using mixed_sets(2) t by simp_all
  note th = merge_loses_texts [OF g, of xdemo_fresh]
  show ?thesis
    using th unfolding s mixed_sets(1) image_Un image_insert image_empty t p by blast
qed

subsection \<open>The effective policy\<close>

lemma mode_request_sel:
  "rq_mode (mode_request m s) = m" "rq_security (mode_request m s) = fst (resolveExecPolicyForMode m)"
  "rq_ask (mode_request m s) = fst (snd (resolveExecPolicyForMode m))"
  by (cases m; simp add: mode_request_def resolveExecModePolicy_def)+

lemma requested_mode:
  "(\<exists>m. rq_mode (resolveRequestedPolicy scope glob path) = m
      \<and> rq_security (resolveRequestedPolicy scope glob path) = fst (resolveExecPolicyForMode m)
      \<and> rq_ask (resolveRequestedPolicy scope glob path) = fst (snd (resolveExecPolicyForMode m)))
   \<or> rq_mode (resolveRequestedPolicy scope glob path)
      = resolveExecModeFromPolicy (rq_security (resolveRequestedPolicy scope glob path))
          (rq_ask (resolveRequestedPolicy scope glob path))"
  by (auto simp: resolveRequestedPolicy_def mode_request_sel field_request_def Let_def split: option.split)

lemma requested_deny:
  assumes "rq_security (resolveRequestedPolicy scope glob path) = SecDeny"
  shows "rq_mode (resolveRequestedPolicy scope glob path) = ModeDeny"
proof -
  have "m = ModeDeny" if "fst (resolveExecPolicyForMode m) = SecDeny" for m using that by (cases m) simp_all
  thus ?thesis using requested_mode [of scope glob path] assms by (auto simp: resolveExecModeFromPolicy_def)
qed

text \<open>
  C20: The effective policy of a scope is never wider than what its configuration requests nor than
  what the host allows: security is the lower of the two, asking the stricter, the fallback within the
  effective security, and a host or a request that denies makes the effective mode deny.
\<close>

theorem effective_policy_bounded:
  "let s = resolveExecPolicyScopeSnapshot fresh approvals scope glob path label agentId hostPath hostDefaults src
   in security_rank (fs_effective (ss_security s))
        = min (security_rank (fs_requested (ss_security s))) (security_rank (fs_host (ss_security s)))
      \<and> ask_rank (fs_effective (ss_ask s)) = max (ask_rank (fs_requested (ss_ask s))) (ask_rank (fs_host (ss_ask s)))
      \<and> security_rank (fst (ss_askFallback s)) \<le> security_rank (fs_effective (ss_security s))
      \<and> (fst (ss_modeEffective s) = ModeDeny \<longleftrightarrow> fs_requested (ss_security s) = SecDeny \<or> fs_host (ss_security s) = SecDeny)"
proof -
  let ?rq = "resolveRequestedPolicy scope glob path"
  let ?r = "xr_agent (resolveExecApprovalsFromFileInternal fresh approvals agentId (host_overrides hostDefaults ?rq))"
  let ?e = "minSecurity (rq_security ?rq) (xs_security ?r)" and ?a = "maxAsk (rq_ask ?rq) (xs_ask ?r)"
  have e: "?e = SecDeny \<longleftrightarrow> rq_security ?rq = SecDeny \<or> xs_security ?r = SecDeny"
    by (cases "rq_security ?rq"; cases "xs_security ?r") (simp_all add: minSecurity_def)
  have d: "rq_mode ?rq = ModeDeny \<longleftrightarrow> rq_security ?rq = SecDeny"
  proof
    assume "rq_mode ?rq = ModeDeny"
    thus "rq_security ?rq = SecDeny"
      using requested_mode [of scope glob path] by (auto simp: resolveExecModeFromPolicy_def split: if_splits)
  qed (rule requested_deny)
  have p: "resolveExecModeFromPolicy x y = ModeDeny \<longleftrightarrow> x = SecDeny" for x y
    by (simp add: resolveExecModeFromPolicy_def)
  have "(if ?e = rq_security ?rq \<and> ?a = rq_ask ?rq then rq_mode ?rq else resolveExecModeFromPolicy ?e ?a) = ModeDeny
      \<longleftrightarrow> rq_security ?rq = SecDeny \<or> xs_security ?r = SecDeny"
    using e d p by auto
  thus ?thesis
    unfolding resolveExecPolicyScopeSnapshot_def Let_def scope_snapshot.simps field_summary.simps fst_conv
    by (simp add: min_le_iff_disj)
qed

subsection \<open>A policy that cannot be read\<close>

lemma fail_closed_settings:
  assumes "fresh_ok fresh"
  shows "xs_security (xr_agent (resolved fresh' (createFailClosedExecApprovalsFallback fresh) a ovr)) = SecDeny"
proof -
  have n: "normal_file (createFailClosedExecApprovalsFallback fresh)"
    using assms by (simp add: createFailClosedExecApprovalsFallback_def normalize_normal)
  show ?thesis
    unfolding resolved_prepared [OF n]
    by (simp add: resolveExecApprovalsFromFilePrepared_def Let_def createFailClosedExecApprovalsFallback_def
        normalizeExecApprovalsInternal_def merge_default_def agent_policy_def no_policy_def resolve_agent_field_def
        resolve_default_field_def nullish_def sanitizeExecApprovalPolicy_def isExecSecurity_def json_security_def
        security_of_def normalizeSecurity_def js_trim_def js_space_def)
qed

text \<open>
  C21: A stored policy that cannot be read denies everything: whatever the row holds that does not
  parse as a policy, no authorization of any agent passes the check before execution, delayed or not,
  and the effective mode of every scope is deny.
\<close>

theorem unreadable_policy_denies:
  assumes "fresh_ok fresh" and "tryParsePersistedExecApprovals fresh (parsed_text t) = None"
  shows "assertCurrentUsageAuthorization sha fresh' (as_raw (snapshotFromExecApprovalsRow fresh (Some t))) a command keys auth
       = Inl EApprovalChanged
     \<and> fst (ss_modeEffective (resolveExecPolicyScopeSnapshot fresh' (as_raw (snapshotFromExecApprovalsRow fresh (Some t)))
         scope glob path label a hostPath hostDefaults src)) = ModeDeny"
proof -
  have f: "snapshotFromExecApprovalsRow fresh (Some t) = createFailClosedExecApprovalsFallback fresh"
    using assms(2) by (simp add: snapshotFromExecApprovalsRow_def)
  note d = fail_closed_settings [OF assms(1), of fresh' a]
  have e: "fs_host (ss_security (resolveExecPolicyScopeSnapshot fresh' (as_raw (createFailClosedExecApprovalsFallback fresh))
      scope glob path label a hostPath hostDefaults src)) = SecDeny"
    unfolding resolveExecPolicyScopeSnapshot_def Let_def scope_snapshot.simps field_summary.simps d by simp
  have mode_deny: "fst (ss_modeEffective s) = ModeDeny"
    if "s = resolveExecPolicyScopeSnapshot fresh' (as_raw (createFailClosedExecApprovalsFallback fresh))
      scope glob path label a hostPath hostDefaults src" for s
  proof -
    let ?rq = "resolveRequestedPolicy scope glob path"
    have "rq_security ?rq = SecDeny \<Longrightarrow> rq_mode ?rq = ModeDeny" by (rule requested_deny)
    thus ?thesis unfolding that resolveExecPolicyScopeSnapshot_def Let_def scope_snapshot.simps field_summary.simps d
      by (auto simp: resolveExecModeFromPolicy_def)
  qed
  show ?thesis
    unfolding f using mode_deny by (simp add: assertCurrentUsageAuthorization_def Let_def d)
qed

lemma unreadable_policy_denies_witness:
  "assertCurrentUsageAuthorization xdemo_sha xdemo_fresh (as_raw (snapshotFromExecApprovalsRow xdemo_fresh (Some (Malformed ''{''))))
      (Some ''a'') ''ls'' [] \<lparr>ua_source = CurrentPolicy, ua_security = SecFull, ua_ask = AskOff, ua_allowlistSatisfied = True,
        ua_policySnapshot = None, ua_requireAutoAllowSkills = False, ua_requireExactCommandApproval = False,
        ua_requireDurableAllowlistApproval = False\<rparr> = Inl EApprovalChanged"
proof -
  have "tryParsePersistedExecApprovals xdemo_fresh (parsed_text (Malformed ''{'')) = None"
    by (simp add: tryParsePersistedExecApprovals_def)
  from unreadable_policy_denies [OF xdemo_ids this] show ?thesis by blast
qed

end
