(* ===== verification/Exec_Decisions.thy ===== *)
theory Exec_Decisions
  imports Exec_Store
begin

section \<open>Decisions that persist\<close>

text \<open>
  The rest of \<^verbatim>\<open>src/infra/exec-approvals-allow-always.ts\<close>,
  \<^verbatim>\<open>exec-approvals-authorization.ts\<close>,
  \<^verbatim>\<open>exec-approval-policy-snapshot.ts\<close> and
  \<^verbatim>\<open>exec-approvals-config.ts\<close>: which form an allow-always decision is persisted
  in, the policy snapshot as it arrives from another process, and the updates of the store that add
  grants or record uses. Arguments: which argument vectors carry a runtime payload or are shell
  wrappers, and the patterns derived from a segment. A caller's copy of the file, which the code
  overwrites in place, is returned.
\<close>

subsection \<open>The form of a decision\<close>

datatype trust_mode = Executable | ExactCommand | PromptOnlyTrust

text \<open>\<open>pc_wrapperArgv\<close> is \<open>None\<close> for the direct transport.\<close>

record plan_candidate =
  pc_trustMode :: trust_mode
  pc_allowAlways :: bool
  pc_argv :: "string list"
  pc_wrapperArgv :: "string list option"

text \<open>The groups of a plan; \<open>None\<close> is a plan that is not ok.\<close>

type_synonym authorization_plan = "plan_candidate list list option"

definition candidate_reasons :: "(string list \<Rightarrow> bool) \<Rightarrow> plan_candidate \<Rightarrow> allow_always_reason list" where
  "candidate_reasons payload c =
     (if pc_trustMode c = PromptOnlyTrust then [PromptOnly] else [])
     @ (if pc_trustMode c = ExactCommand then [NoReusablePattern] else [])
     @ (if pc_trustMode c = Executable \<and> \<not> pc_allowAlways c then [NoReusablePattern] else [])
     @ (if payload (pc_argv c) then [RuntimePayload] else [])
     @ (case pc_wrapperArgv c of
          None \<Rightarrow> []
        | Some argv \<Rightarrow> if payload argv then [RuntimePayload] else [])"

definition resolvePlanPersistenceState ::
    "(string list \<Rightarrow> bool) \<Rightarrow> authorization_plan option \<Rightarrow> bool \<times> allow_always_reason list" where
  "resolvePlanPersistenceState payload plan =
     (case plan of
        None \<Rightarrow> (True, [])
      | Some None \<Rightarrow> (False, [Unplanned])
      | Some (Some groups) \<Rightarrow>
         (let candidates = concat groups
          in (list_all pc_allowAlways candidates, uniqueValues (concat (map (candidate_reasons payload) candidates)))))"

text \<open>A segment is its argument vector; \<open>entries\<close> derives the patterns of one segment.\<close>

record pattern_coverage =
  pv_complete :: bool
  pv_patterns :: "allow_pattern list"

definition add_patterns :: "allow_pattern list \<Rightarrow> (string \<times> string, allow_pattern) jmap \<Rightarrow> (string \<times> string, allow_pattern) jmap" where
  "add_patterns ps byKey =
     foldl (\<lambda>m p. jm_put (ap_pattern p, case_option [] id (ap_argPattern p)) p m) byKey ps"

definition resolveAllowAlwaysPatternCoverage ::
    "(string list \<Rightarrow> bool) \<Rightarrow> (string list \<Rightarrow> allow_pattern list) \<Rightarrow> string list list \<Rightarrow> pattern_coverage" where
  "resolveAllowAlwaysPatternCoverage wrapper entries segments =
     (let byKey = foldl (\<lambda>m s. add_patterns (entries s) m) [] segments;
          represented = length (filter (\<lambda>s. \<not> wrapper s \<and> entries s \<noteq> []) segments)
      in \<lparr>pv_complete = (segments \<noteq> [] \<and> represented = length segments), pv_patterns = map snd byKey\<rparr>)"

definition resolveAllowAlwaysPersistenceDecision ::
    "(string list \<Rightarrow> bool) \<Rightarrow> (string list \<Rightarrow> bool) \<Rightarrow> (string list \<Rightarrow> allow_pattern list) \<Rightarrow> string list list
      \<Rightarrow> string option \<Rightarrow> authorization_plan option \<Rightarrow> bool option \<Rightarrow> pattern_coverage option \<Rightarrow> persistence_decision" where
  "resolveAllowAlwaysPersistenceDecision payload wrapper entries segments text plan runtimePayload preparedCoverage =
     (let (reusable, planReasons) = resolvePlanPersistenceState payload plan;
          reasons = (if runtimePayload = Some True \<and> RuntimePayload \<notin> set planReasons
            then planReasons @ [RuntimePayload] else planReasons);
          commandText = normalizeOptionalString text;
          hardReasons = filter (\<lambda>r. r \<noteq> NoReusablePattern) reasons;
          coverage = resolveAllowAlwaysPatternCoverage wrapper entries segments
      in if hardReasons \<noteq> [] then PersistOneShot hardReasons
         else if (case preparedCoverage of None \<Rightarrow> False | Some c \<Rightarrow> pv_complete c \<and> pv_patterns c \<noteq> [])
         then PersistPatterns (pv_patterns (the preparedCoverage)) commandText
         else if reusable \<and> pv_patterns coverage \<noteq> []
         then PersistPatterns (pv_patterns coverage) (if pv_complete coverage then commandText else None)
         else PersistOneShot (if NoReusablePattern \<in> set reasons then reasons else reasons @ [NoReusablePattern]))"

datatype durable_requirement = RequireExactCommand | RequireSegmentAllowlist

definition resolveDurableExecApprovalRequirement ::
    "digest \<Rightarrow> bool \<Rightarrow> allow_entry list \<Rightarrow> string option \<Rightarrow> durable_requirement option" where
  "resolveDurableExecApprovalRequirement sha durableApprovalRequired allowlist commandText =
     (if \<not> durableApprovalRequired then None
      else if hasExactCommandDurableExecApproval sha allowlist commandText then Some RequireExactCommand
      else Some RequireSegmentAllowlist)"

subsection \<open>A snapshot from outside\<close>

definition rule_of_json :: "json \<Rightarrow> policy_rule option" where
  "rule_of_json v =
     (case v of
        JObj fs \<Rightarrow>
         (case jprop fs ''pattern'' of
            Some (JStr p) \<Rightarrow>
              if (jprop fs ''argPattern'' \<noteq> None \<and> json_string (jprop fs ''argPattern'') = None)
                \<or> (jprop fs ''source'' \<noteq> None \<and> jprop fs ''source'' \<noteq> Some (JStr ''allow-always''))
              then None
              else Some \<lparr>pr_pattern = p, pr_argPattern = json_string (jprop fs ''argPattern''),
                pr_source = json_string (jprop fs ''source'')\<rparr>
          | _ \<Rightarrow> None)
      | _ \<Rightarrow> None)"

text \<open>\<open>None\<close>: undefined. \<open>Some None\<close>: null, the value is no snapshot.\<close>

definition normalizeExecApprovalPolicySnapshot :: "json option \<Rightarrow> policy_snapshot option option" where
  "normalizeExecApprovalPolicySnapshot v =
     (case v of
        None \<Rightarrow> None
      | Some (JObj fs) \<Rightarrow>
         Some (case (json_security (jprop fs ''security''), json_ask (jprop fs ''ask''),
             json_security (jprop fs ''askFallback''), jprop fs ''autoAllowSkills'', jprop fs ''allowlistRules'') of
           (Some security, Some ask, Some askFallback, Some (JBool autoAllowSkills), Some (JArr rawRules)) \<Rightarrow>
             (let rules = map rule_of_json rawRules
              in if None \<in> set rules then None
                 else Some \<lparr>sn_security = security, sn_ask = ask, sn_askFallback = askFallback,
                   sn_autoAllowSkills = autoAllowSkills,
                   sn_allowlistRules = canonicalizeExecApprovalPolicyRules (map the rules)\<rparr>)
         | _ \<Rightarrow> None)
      | Some _ \<Rightarrow> Some None)"

text \<open>The snapshot as a JSON value.\<close>

definition rule_json :: "policy_rule \<Rightarrow> json" where
  "rule_json r = JObj ([(''pattern'', JStr (pr_pattern r))] @ jopt ''argPattern'' (map_option JStr (pr_argPattern r))
     @ jopt ''source'' (map_option JStr (pr_source r)))"

definition snapshot_json :: "policy_snapshot \<Rightarrow> json" where
  "snapshot_json s = JObj [(''security'', JStr (security_text (sn_security s))), (''ask'', JStr (ask_text (sn_ask s))),
     (''askFallback'', JStr (security_text (sn_askFallback s))), (''autoAllowSkills'', JBool (sn_autoAllowSkills s)),
     (''allowlistRules'', JArr (map rule_json (sn_allowlistRules s)))]"

subsection \<open>Updates of the store\<close>

text \<open>An update whose file, when there is one, replaces the caller's.\<close>

definition refreshed :: "fresh_ids \<Rightarrow> int \<Rightarrow> (approvals_file \<Rightarrow> exec_error + approvals_file option) \<Rightarrow> approvals_file
      \<Rightarrow> exec_store \<Rightarrow> exec_error + approvals_file \<times> exec_store" where
  "refreshed fresh now update approvals st =
     bnd (updateExecApprovalsInTransaction fresh now plain_update update st) (\<lambda>(snapshot, st').
       Inr (case_option approvals id snapshot, st'))"

definition addAllowlistEntry ::
    "fresh_ids \<Rightarrow> int \<Rightarrow> string \<Rightarrow> approvals_file \<Rightarrow> string option \<Rightarrow> string \<Rightarrow> string option \<Rightarrow> string option
      \<Rightarrow> exec_store \<Rightarrow> exec_error + approvals_file \<times> exec_store" where
  "addAllowlistEntry fresh now newId approvals agentId pattern argPattern source st =
     refreshed fresh now (\<lambda>f. applyAllowlistEntryUpdate newId (of_int now) f agentId pattern argPattern source) approvals st"

definition addDurableCommandApproval ::
    "digest \<Rightarrow> fresh_ids \<Rightarrow> int \<Rightarrow> string \<Rightarrow> approvals_file \<Rightarrow> string option \<Rightarrow> string \<Rightarrow> exec_store
      \<Rightarrow> exec_error + approvals_file \<times> exec_store" where
  "addDurableCommandApproval sha fresh now newId approvals agentId commandText st =
     (if js_trim commandText = [] then Inr (approvals, st)
      else addAllowlistEntry fresh now newId approvals agentId
             (buildDurableCommandApprovalPattern sha (js_trim commandText)) None (Some ''allow-always'') st)"

definition persistAllowAlwaysDecision ::
    "digest \<Rightarrow> fresh_ids \<Rightarrow> int \<Rightarrow> (nat \<Rightarrow> string) \<Rightarrow> approvals_file \<Rightarrow> string option \<Rightarrow> persistence_decision
      \<Rightarrow> exec_store \<Rightarrow> exec_error + approvals_file \<times> exec_store" where
  "persistAllowAlwaysDecision sha fresh now newIds approvals agentId decision st =
     (if \<not> is_persistent (Some decision) then Inr (approvals, st)
      else refreshed fresh now (\<lambda>f. applyAllowAlwaysDecision sha newIds (of_int now) f agentId decision) approvals st)"

definition persistAllowAlwaysPatterns ::
    "(string list \<Rightarrow> bool) \<Rightarrow> (string list \<Rightarrow> allow_pattern list) \<Rightarrow> digest \<Rightarrow> fresh_ids \<Rightarrow> int \<Rightarrow> (nat \<Rightarrow> string)
      \<Rightarrow> approvals_file \<Rightarrow> string option \<Rightarrow> string list list \<Rightarrow> string option \<Rightarrow> exec_store
      \<Rightarrow> exec_error + allow_pattern list \<times> approvals_file \<times> exec_store" where
  "persistAllowAlwaysPatterns wrapper entries sha fresh now newIds approvals agentId segments text st =
     (let coverage = resolveAllowAlwaysPatternCoverage wrapper entries segments;
          commandText = (if pv_complete coverage \<and> pv_patterns coverage \<noteq> [] then normalizeOptionalString text else None)
      in bnd (persistAllowAlwaysDecision sha fresh now newIds approvals agentId
               (PersistPatterns (pv_patterns coverage) commandText) st) (\<lambda>(f, st').
           Inr (pv_patterns coverage, f, st')))"

definition recordAllowlistMatchesUse ::
    "digest \<Rightarrow> fresh_ids \<Rightarrow> fresh_ids \<Rightarrow> int \<Rightarrow> approvals_file \<Rightarrow> string option \<Rightarrow> allow_entry list \<Rightarrow> string
      \<Rightarrow> string option \<Rightarrow> usage_authorization option \<Rightarrow> exec_store \<Rightarrow> exec_error + approvals_file \<times> exec_store" where
  "recordAllowlistMatchesUse sha fresh newIds now approvals agentId matches command resolvedPath authorization st =
     (if matches = [] \<and> authorization = None then Inr (approvals, st)
      else refreshed fresh now (\<lambda>f. applyRecordedAllowlistUse sha fresh newIds (of_int now) f agentId matches command
             resolvedPath authorization) approvals st)"

definition recordAllowlistUse ::
    "digest \<Rightarrow> fresh_ids \<Rightarrow> fresh_ids \<Rightarrow> int \<Rightarrow> approvals_file \<Rightarrow> string option \<Rightarrow> allow_entry \<Rightarrow> string
      \<Rightarrow> string option \<Rightarrow> exec_store \<Rightarrow> exec_error + approvals_file \<times> exec_store" where
  "recordAllowlistUse sha fresh newIds now approvals agentId entry command resolvedPath st =
     recordAllowlistMatchesUse sha fresh newIds now approvals agentId [entry] command resolvedPath None st"

text \<open>The default path and a new token are arguments; the fields are trimmed, an empty text counts as given.\<close>

definition mergeExecApprovalsSocketDefaults ::
    "string \<Rightarrow> string \<Rightarrow> approvals_file \<Rightarrow> approvals_file option \<Rightarrow> approvals_file" where
  "mergeExecApprovalsSocketDefaults defaultPath token normalized current =
     (let pick = (\<lambda>get d. case get normalized of
            Some s \<Rightarrow> js_trim s
          | None \<Rightarrow> case_option d js_trim (Option.bind current get))
      in normalized\<lparr>xf_socketPath := Some (pick xf_socketPath defaultPath),
                    xf_socketToken := Some (pick xf_socketToken token)\<rparr>)"

end
