(* ===== verification/Exec_Commits.thy ===== *)
theory Exec_Commits
  imports Exec_Properties Exec_Decisions
begin

section \<open>Commits against the current policy\<close>

text \<open>
  An execution is committed in one transaction with the read of the policy it relies on. The
  properties of that transaction, of durable grants, and of the deletion of an agent.
\<close>

subsection \<open>An authorization and the policy it passes\<close>

text \<open>
  C17: An explicit approval given some time ago authorizes an execution exactly while the current policy
  does not deny, gives the agent the settings it had at the decision, and still holds every allowlist
  rule of then, or the same rule with an allow-always mark it did not have.
\<close>

theorem delayed_approval_bound:
  assumes "normal_file f" "normal_file f'" and "ua_source auth = ExplicitApproval"
    and "ua_policySnapshot auth = Some (createExecApprovalPolicySnapshot fresh (as_raw f) a)"
  shows "assertCurrentUsageAuthorization sha fresh' (as_raw f') a command keys auth = Inr ()
    \<longleftrightarrow> minSecurity (ua_security auth) (xs_security (xr_agent (resolveExecApprovalsFromFileInternal fresh' (as_raw f') a
           (no_overrides\<lparr>xo_security := Some (ua_security auth), xo_ask := Some (ua_ask auth)\<rparr>)))) \<noteq> SecDeny
      \<and> settings_of fresh' f' a = settings_of fresh f a
      \<and> keeps_grants (agent_allowlist f ''*'' @ agent_allowlist f (case_option ''default'' id a))
          (agent_allowlist f' ''*'' @ agent_allowlist f' (case_option ''default'' id a))"
  unfolding assert_explicit [OF assms(3)] snapshot_stands_def assms(4) option.case
    current_snapshots_iff [OF assms(1,2)] by blast

definition xdemo_auth :: usage_authorization where
  "xdemo_auth = \<lparr>ua_source = ExplicitApproval, ua_security = SecAllowlist, ua_ask = AskOnMiss,
     ua_allowlistSatisfied = False,
     ua_policySnapshot = Some (createExecApprovalPolicySnapshot xdemo_fresh (as_raw xdemo_file) (Some ''a'')),
     ua_requireAutoAllowSkills = False, ua_requireExactCommandApproval = False,
     ua_requireDurableAllowlistApproval = False\<rparr>"

lemma xdemo_passes:
  "assertCurrentUsageAuthorization xdemo_sha xdemo_fresh (as_raw xdemo_file) (Some ''a'') ''ls'' [] xdemo_auth = Inr ()"
proof -
  have "snapshot_stands xdemo_fresh (as_raw xdemo_file) (Some ''a'') xdemo_auth"
    using current_snapshots_iff [OF xdemo_normal xdemo_normal, of xdemo_fresh "Some ''a''" xdemo_fresh]
    by (simp add: snapshot_stands_def xdemo_auth_def)
  moreover have "ua_source xdemo_auth = ExplicitApproval" "ua_security xdemo_auth = SecAllowlist"
    by (simp_all add: xdemo_auth_def)
  ultimately show ?thesis by (simp add: assert_explicit xdemo_settings)
qed

definition xdemo_revoked :: approvals_file where
  "xdemo_revoked = xdemo_file\<lparr>xf_agents := []\<rparr>"

lemma xdemo_revoked_normal: "normal_file xdemo_revoked"
  using xdemo_normal by (simp add: normal_file_def xdemo_revoked_def jm_keys_def)

lemma delayed_approval_bound_witness:
  "assertCurrentUsageAuthorization xdemo_sha xdemo_fresh (as_raw xdemo_file) (Some ''a'') ''ls'' [] xdemo_auth = Inr ()
   \<and> assertCurrentUsageAuthorization xdemo_sha xdemo_fresh (as_raw xdemo_revoked) (Some ''a'') ''ls'' [] xdemo_auth \<noteq> Inr ()"
proof -
  have a: "ua_source xdemo_auth = ExplicitApproval"
    "ua_policySnapshot xdemo_auth = Some (createExecApprovalPolicySnapshot xdemo_fresh (as_raw xdemo_file) (Some ''a''))"
    "ua_security xdemo_auth = SecAllowlist"
    by (simp_all add: xdemo_auth_def)
  have l: "agent_allowlist xdemo_file ''a'' = [xdemo_entry]" "agent_allowlist xdemo_revoked k = []" for k
    by (simp_all add: agent_allowlist_def xdemo_file_def xdemo_revoked_def)
  have "minSecurity SecAllowlist (xs_security (xr_agent (resolved xdemo_fresh xdemo_file (Some ''a'') ovr))) \<noteq> SecDeny" for ovr
    by (simp add: xdemo_settings)
  with delayed_approval_bound [OF xdemo_normal xdemo_normal a(1,2), of xdemo_sha xdemo_fresh "''ls''" "[]"] a(3)
    delayed_approval_bound [OF xdemo_normal xdemo_revoked_normal a(1,2), of xdemo_sha xdemo_fresh "''ls''" "[]"]
  show ?thesis by (auto simp: l keeps_grants_def)
qed

text \<open>
  C16: A committed execution had authority in the stored policy of that moment: the security is not
  deny; a direct execution asks for no more than the policy gives, and under an allowlist each of its
  matches is a rule there, or its exact command is durably approved; a fallback stays within the
  fallback; a delayed approval rests on a snapshot that stands; and only an explicit approval grants
  anything durably.
\<close>

theorem commit_has_authority:
  assumes "commitExecAuthorizationLocked env now p st = Inr st'"
  shows "let auth = cp_authorization p; f = as_raw (snapshotFromExecApprovalsRow (ce_fresh env) (es_row st));
      cur = resolveExecApprovalsFromFileInternal (ce_fresh env) f (cp_agentId p)
        (no_overrides\<lparr>xo_security := Some (ua_security auth), xo_ask := Some (ua_ask auth)\<rparr>)
    in xs_security (xr_agent cur) \<noteq> SecDeny \<and> ua_security auth \<noteq> SecDeny
      \<and> (ua_source auth = CurrentPolicy \<longrightarrow>
           security_rank (ua_security auth) \<le> security_rank (xs_security (xr_agent cur))
           \<and> ask_rank (xs_ask (xr_agent cur)) \<le> ask_rank (ua_ask auth)
           \<and> (ua_security auth = SecAllowlist \<longrightarrow>
                hasExactCommandDurableExecApproval (ce_sha env) (xr_allowlist cur) (Some (cp_command p))
                \<or> set (match_keys (cp_matches p)) \<subseteq> buildAllowlistEntryMatchKey ` set (xr_allowlist cur)))
      \<and> (ua_source auth = AskFallback \<longrightarrow>
           security_rank (ua_security auth) \<le> security_rank (xs_askFallback (xr_agent cur)))
      \<and> (ua_source auth = ExplicitApproval \<or> ua_source auth = AutoReview \<longrightarrow>
           snapshot_stands (ce_fresh env) f (cp_agentId p) auth)
      \<and> (is_persistent (cp_allowAlwaysDecision p) \<longrightarrow> ua_source auth = ExplicitApproval)"
proof -
  define auth where "auth = cp_authorization p"
  define f where "f = as_raw (snapshotFromExecApprovalsRow (ce_fresh env) (es_row st))"
  define cur where "cur = resolveExecApprovalsFromFileInternal (ce_fresh env) f (cp_agentId p)
        (no_overrides\<lparr>xo_security := Some (ua_security auth), xo_ask := Some (ua_ask auth)\<rparr>)"
  from assms obtain x where pre: "commit_precheck p = Inr ()"
    and u: "updateExecApprovalsInTransaction (ce_fresh env) now plain_update (commit_update env p) st = Inr (x, st')"
    by (auto simp: commitExecAuthorizationLocked_def bnd_Inr_iff)
  from u obtain r where r: "commit_update env p (snapshotFromExecApprovalsRow (ce_fresh env) (es_row st)) = Inr r"
    by (cases rule: update_cases) (auto simp: plain_update_def)
  hence c: "assertCurrentUsageAuthorization (ce_sha env) (ce_fresh env) f (cp_agentId p) (cp_command p)
      (match_keys (cp_matches p)) auth = Inr ()"
    by (auto simp: commit_update_def bnd_Inr_iff f_def auth_def)
  note s = assert_passes(1) [OF c, folded cur_def]
  have deny: "ua_security auth \<noteq> SecDeny" "xs_security (xr_agent cur) \<noteq> SecDeny" using s by auto
  have cu: "minSecurity (ua_security auth) (xs_security (xr_agent cur)) = ua_security auth
      \<and> maxAsk (ua_ask auth) (xs_ask (xr_agent cur)) = ua_ask auth
      \<and> (ua_security auth = SecAllowlist \<longrightarrow> check_allowlist_plan (ce_sha env) cur (cp_command p)
           (match_keys (cp_matches p)) auth = Inr ())" if "ua_source auth = CurrentPolicy"
    using c that unfolding assertCurrentUsageAuthorization_def Let_def cur_def [symmetric]
    by (auto split: if_splits)
  have fb: "minSecurity (minSecurity (ua_security auth) (xs_security (xr_agent cur))) (xs_askFallback (xr_agent cur))
      = ua_security auth" if "ua_source auth = AskFallback"
    using c that unfolding assertCurrentUsageAuthorization_def Let_def cur_def [symmetric]
    by (auto split: if_splits)
  have cu_rank: "security_rank (ua_security auth) \<le> security_rank (xs_security (xr_agent cur))
      \<and> ask_rank (xs_ask (xr_agent cur)) \<le> ask_rank (ua_ask auth)" if "ua_source auth = CurrentPolicy"
    using arg_cong [OF cu [OF that, THEN conjunct1], of security_rank]
      arg_cong [OF cu [OF that, THEN conjunct2, THEN conjunct1], of ask_rank]
    by (simp add: min_def max_def split: if_splits)
  have plan: "hasExactCommandDurableExecApproval (ce_sha env) (xr_allowlist cur) (Some (cp_command p))
      \<or> set (match_keys (cp_matches p)) \<subseteq> buildAllowlistEntryMatchKey ` set (xr_allowlist cur)"
    if "ua_source auth = CurrentPolicy" "ua_security auth = SecAllowlist"
    using plan_keys [of "ce_sha env" cur "cp_command p" "match_keys (cp_matches p)" auth] cu [OF that(1)] that(2)
    by (auto split: if_splits)
  have fb_rank: "security_rank (ua_security auth) \<le> security_rank (xs_askFallback (xr_agent cur))"
    if "ua_source auth = AskFallback"
    using arg_cong [OF fb [OF that], of security_rank] by simp
  have pers: "ua_source auth = ExplicitApproval" if "is_persistent (cp_allowAlwaysDecision p)"
    using pre that by (auto simp: commit_precheck_def Let_def auth_def split: if_splits)
  show ?thesis
    unfolding Let_def auth_def [symmetric] f_def [symmetric] cur_def [symmetric]
    using deny cu_rank plan fb_rank pers assert_passes(2) [OF c] by blast
qed

lemma update_runs:
  assumes "update (snapshotFromExecApprovalsRow fresh (es_row st)) = Inr x"
    and "up_baseRow p = None \<or> up_baseRow p = Some (es_row st)" and "es_deleted st = (\<lambda>_. False)"
    and "assertExecApprovalsMutationAllowed st (up_leaseOwner p) now = Inr ()"
  obtains f st' where "updateExecApprovalsInTransaction fresh now p update st = Inr (Some f, st')"
    "es_deleted st' = es_deleted st" "es_lease st' = es_lease st"
proof -
  have "assertNoDeletedAgentApprovalChanged st c h q r = Inr ()" for c h q r
    using assms(3) by (simp add: assertNoDeletedAgentApprovalChanged_def deleted_change_def Let_def list_ex_iff)
  hence "\<exists>f st'. updateExecApprovalsInTransaction fresh now p update st = Inr (Some f, st')
      \<and> es_deleted st' = es_deleted st \<and> es_lease st' = es_lease st"
    using assms by (cases x) (auto simp: updateExecApprovalsInTransaction_def Let_def writeExecApprovalsConfigRow_def)
  with that show ?thesis by blast
qed

definition xdemo_env :: commit_env where
  "xdemo_env = \<lparr>ce_sha = xdemo_sha, ce_fresh = xdemo_fresh, ce_grantIds = (\<lambda>_. ''g''), ce_useIds = xdemo_fresh, ce_now = 5\<rparr>"

definition xdemo_commit :: commit_params where
  "xdemo_commit = \<lparr>cp_agentId = Some ''a'', cp_matches = [], cp_command = ''ls'', cp_resolvedPath = None,
     cp_authorization = xdemo_auth, cp_allowAlwaysDecision = Some (PersistExactCommand ''ls'')\<rparr>"

lemma xdemo_commit_ids: "ids_ok xdemo_env"
  by (simp add: ids_ok_def xdemo_env_def xdemo_ids)

lemma xdemo_commit_runs:
  obtains st' where "commitExecAuthorizationLocked xdemo_env now xdemo_commit xdemo_store = Inr st'"
proof -
  have "assertCurrentUsageAuthorization xdemo_sha xdemo_fresh (as_raw xdemo_file) (Some ''a'') ''ls'' [] xdemo_auth = Inr ()"
    by (rule xdemo_passes)
  hence "\<exists>x. commit_update xdemo_env xdemo_commit xdemo_file = Inr x"
    by (simp add: commit_update_def xdemo_env_def xdemo_commit_def match_keys_def is_persistent_def
        applyAllowAlwaysDecision_def decision_entries_def applyRecordedAllowlistMetadata_def Let_def
        normalizeOptionalString_def js_trim_def js_space_def applyAllowlistEntryUpdate_def truthy_str_iff
        buildDurableCommandApprovalPattern_def xdemo_sha_def)
  then obtain x where "commit_update xdemo_env xdemo_commit (snapshotFromExecApprovalsRow xdemo_fresh (es_row xdemo_store)) = Inr x"
    unfolding xdemo_row by blast
  hence "commit_update xdemo_env xdemo_commit (snapshotFromExecApprovalsRow (ce_fresh xdemo_env) (es_row xdemo_store)) = Inr x"
    by (simp add: xdemo_env_def)
  then obtain r st' where "updateExecApprovalsInTransaction (ce_fresh xdemo_env) now plain_update (commit_update xdemo_env xdemo_commit) xdemo_store = Inr (Some r, st')"
    by (rule update_runs [where now = now and p = plain_update])
      (simp_all add: xdemo_store_def plain_update_def assertExecApprovalsMutationAllowed_def)
  moreover have "commit_precheck xdemo_commit = Inr ()"
    by (simp add: commit_precheck_def xdemo_commit_def xdemo_auth_def is_persistent_def)
  ultimately show ?thesis using that by (simp add: commitExecAuthorizationLocked_def)
qed

lemma commit_has_authority_witness:
  "\<exists>st'. commitExecAuthorizationLocked xdemo_env 0 xdemo_commit xdemo_store = Inr st'
     \<and> snapshot_stands xdemo_fresh (as_raw xdemo_file) (Some ''a'') xdemo_auth"
proof -
  obtain st' where c: "commitExecAuthorizationLocked xdemo_env 0 xdemo_commit xdemo_store = Inr st'"
    by (rule xdemo_commit_runs)
  have p: "cp_authorization xdemo_commit = xdemo_auth" "cp_agentId xdemo_commit = Some ''a''"
    "ce_fresh xdemo_env = xdemo_fresh" "ua_source xdemo_auth = ExplicitApproval"
    by (simp_all add: xdemo_commit_def xdemo_env_def xdemo_auth_def)
  from commit_has_authority [OF c, unfolded Let_def p xdemo_row] c show ?thesis by blast
qed

subsection \<open>What a commit leaves standing\<close>

text \<open>
  The operations that grant rules or record their use, each with the ids and the clock of its run.
  A grant for an agent called \<^verbatim>\<open>default\<close> is not among them: its entries are
  stored under the legacy name, and the next read merges them into main, where entries of the same
  pattern are dropped.
\<close>

inductive grant_step :: "exec_store \<Rightarrow> exec_store \<Rightarrow> bool" where
  commit: "commitExecAuthorizationLocked env now p st = Inr st' \<Longrightarrow> ids_ok env
    \<Longrightarrow> cp_agentId p \<noteq> Some ''default'' \<Longrightarrow> grant_step st st'"
| persist: "persistAllowAlwaysDecision sha fresh now ids approvals a decision st = Inr (approvals', st') \<Longrightarrow> fresh_ok fresh
    \<Longrightarrow> (\<And>i. ids i \<noteq> []) \<Longrightarrow> a \<noteq> Some ''default'' \<Longrightarrow> grant_step st st'"
| add: "addAllowlistEntry fresh now i approvals a pattern arg source st = Inr (approvals', st') \<Longrightarrow> fresh_ok fresh
    \<Longrightarrow> i \<noteq> [] \<Longrightarrow> a \<noteq> Some ''default'' \<Longrightarrow> source = None \<or> source = Some ''allow-always'' \<Longrightarrow> grant_step st st'"
| durable: "addDurableCommandApproval sha fresh now i approvals a commandText st = Inr (approvals', st') \<Longrightarrow> fresh_ok fresh
    \<Longrightarrow> i \<noteq> [] \<Longrightarrow> a \<noteq> Some ''default'' \<Longrightarrow> grant_step st st'"
| record_use: "recordAllowlistMatchesUse sha fresh ids now approvals a matches command path auth st = Inr (approvals', st')
    \<Longrightarrow> fresh_ok fresh \<Longrightarrow> grant_step st st'"

lemma entry_added:
  assumes f: "normal_file f" and t: "a \<noteq> Some ''default''" and i: "i \<noteq> []"
    and u: "applyAllowlistEntryUpdate i now f a p g None = Inr r"
  shows "extends f (case_option f id r)"
proof -
  let ?es = "agent_allowlist f (the a)" and ?p = "js_trim p" and ?g = "cleaned_arg g"
  have a: "the a \<noteq> ''default''" "truthy_str a" using u t by (auto simp: applyAllowlistEntryUpdate_def truthy_str_iff)
  note U = u [unfolded applyAllowlistEntryUpdate_def Let_def cleaned_arg_def [symmetric]]
  consider (kept) "r = None" | (put) "?p \<noteq> []" "find (matches_entry ?p ?g) ?es = None"
      "r = Some (put_agent_allowlist (the a) (updated_allowlist i now ?p ?g None ?es) f)"
    using U a(2) by (auto split: if_splits option.splits)
  thus ?thesis
  proof cases
    case kept
    thus ?thesis by (simp add: extends_refl [OF f])
  next
    case put
    have "keeps_grants ?es (updated_allowlist i now ?p ?g None ?es)"
      using put(2) by (auto simp: updated_allowlist_def keeps_grants_def same_key_def)
    moreover have "list_all normal_entry (updated_allowlist i now ?p ?g None ?es)"
      using updated_normal [OF normal_agent_allowlist [OF f]] put(1) i by simp
    ultimately show ?thesis using put(3) extends_put [OF f a(1)] by simp
  qed
qed

lemma refreshed_extends:
  assumes "refreshed fresh now update approvals st = Inr (g, st')" and fresh: "fresh_ok fresh" "fresh_ok fresh'"
    and u: "\<And>r. update (snapshotFromExecApprovalsRow fresh (es_row st)) = Inr r \<Longrightarrow>
      extends (snapshotFromExecApprovalsRow fresh (es_row st)) (case_option (snapshotFromExecApprovalsRow fresh (es_row st)) id r)"
  shows "extends (snapshotFromExecApprovalsRow fresh (es_row st)) (snapshotFromExecApprovalsRow fresh' (es_row st'))"
proof -
  from assms(1) obtain x where x: "updateExecApprovalsInTransaction fresh now plain_update update st = Inr (x, st')"
    by (auto simp: refreshed_def bnd_Inr_iff)
  have b: "up_baseRow plain_update = None \<or> up_baseRow plain_update = Some (es_row st)" by (simp add: plain_update_def)
  have n: "normal_file h" if "update (snapshotFromExecApprovalsRow fresh (es_row st)) = Inr (Some h)" for h
    using u [OF that] by (simp add: extends_def)
  show ?thesis
  proof (rule update_reads [OF x b n])
    assume "es_row st' = es_row st"
    thus ?thesis using snapshot_extends [OF fresh(2)] by simp
  next
    fix h assume "update (snapshotFromExecApprovalsRow fresh (es_row st)) = Inr (Some h)"
      "\<And>fr. snapshotFromExecApprovalsRow fr (es_row st') = h"
    thus ?thesis using u [of "Some h"] by simp
  qed
qed

lemma add_extends:
  assumes "addAllowlistEntry fresh now i approvals a pattern arg source st = Inr (g, st')" and "fresh_ok fresh" "fresh_ok fresh'"
    and "i \<noteq> []" "a \<noteq> Some ''default''" "source = None \<or> source = Some ''allow-always''"
  shows "extends (snapshotFromExecApprovalsRow fresh (es_row st)) (snapshotFromExecApprovalsRow fresh' (es_row st'))"
  using assms(1) [unfolded addAllowlistEntry_def] assms(2,3)
proof (rule refreshed_extends)
  fix r assume "applyAllowlistEntryUpdate i (of_int now) (snapshotFromExecApprovalsRow fresh (es_row st)) a pattern arg source = Inr r"
  thus "extends (snapshotFromExecApprovalsRow fresh (es_row st)) (case_option (snapshotFromExecApprovalsRow fresh (es_row st)) id r)"
    using assms(6) entry_update(1) [OF snapshot_normal [OF assms(2)] assms(5,4)]
      entry_added [OF snapshot_normal [OF assms(2)] assms(5,4)] by blast
qed

lemma persist_extends:
  assumes "persistAllowAlwaysDecision sha fresh now ids approvals a decision st = Inr (g, st')" and "fresh_ok fresh" "fresh_ok fresh'"
    and "\<forall>i. ids i \<noteq> []" "a \<noteq> Some ''default''"
  shows "extends (snapshotFromExecApprovalsRow fresh (es_row st)) (snapshotFromExecApprovalsRow fresh' (es_row st'))"
proof (cases "is_persistent (Some decision)")
  case True
  hence "refreshed fresh now (\<lambda>f. applyAllowAlwaysDecision sha ids (of_int now) f a decision) approvals st = Inr (g, st')"
    using assms(1) by (simp add: persistAllowAlwaysDecision_def)
  from this assms(2,3) show ?thesis
    by (rule refreshed_extends) (use decision_update [OF snapshot_normal [OF assms(2)] assms(5,4)] in blast)
next
  case False
  thus ?thesis using assms(1) snapshot_extends [OF assms(3)] by (simp add: persistAllowAlwaysDecision_def)
qed

lemma use_extends:
  assumes "recordAllowlistMatchesUse sha fresh ids now approvals a matches command path auth st = Inr (g, st')"
    and "fresh_ok fresh" "fresh_ok fresh'"
  shows "extends (snapshotFromExecApprovalsRow fresh (es_row st)) (snapshotFromExecApprovalsRow fresh' (es_row st'))"
proof (cases "matches = [] \<and> auth = None")
  case True
  thus ?thesis using assms(1) snapshot_extends [OF assms(3)] by (simp add: recordAllowlistMatchesUse_def)
next
  case False
  let ?f = "snapshotFromExecApprovalsRow fresh (es_row st)"
  have n: "normal_file ?f" by (rule snapshot_normal [OF assms(2)])
  from False assms(1) have "refreshed fresh now (\<lambda>f. applyRecordedAllowlistUse sha fresh ids (of_int now) f a matches command
      path auth) approvals st = Inr (g, st')" unfolding recordAllowlistMatchesUse_def if_not_P [OF False] by simp
  thus ?thesis using assms(2,3)
  proof (rule refreshed_extends)
    fix r assume "applyRecordedAllowlistUse sha fresh ids (of_int now) ?f a matches command path auth = Inr r"
    hence r: "applyRecordedAllowlistMetadata ids (of_int now) ?f a matches command path = Inr r"
      by (auto simp: applyRecordedAllowlistUse_def bnd_Inr_iff)
    show "extends ?f (case_option ?f id r)"
    proof (cases r)
      case None
      thus ?thesis by (simp add: extends_refl [OF n])
    next
      case (Some h)
      with recorded(1) [OF n] r show ?thesis by simp
    qed
  qed
qed

lemma step_extends:
  assumes "grant_step st st'" and f: "fresh_ok fresh" "fresh_ok fresh'"
  shows "extends (snapshotFromExecApprovalsRow fresh (es_row st)) (snapshotFromExecApprovalsRow fresh' (es_row st'))"
proof -
  have "\<exists>fr. fresh_ok fr \<and> extends (snapshotFromExecApprovalsRow fr (es_row st)) (snapshotFromExecApprovalsRow fresh' (es_row st'))"
    using assms(1)
  proof cases
    case (commit env now p)
    from commit(2,3) f(2) commit(1) have "extends (snapshotFromExecApprovalsRow (ce_fresh env) (es_row st)) (snapshotFromExecApprovalsRow fresh' (es_row st'))"
      by (rule commit_stored)
    with commit(2) show ?thesis by (auto simp: ids_ok_def)
  next
    case (persist sha fr now ids approvals a decision approvals')
    thus ?thesis using persist_extends f(2) by blast
  next
    case (add fr now i approvals a pattern arg source approvals')
    thus ?thesis using add_extends f(2) by blast
  next
    case (durable sha fr now i approvals a commandText approvals')
    thus ?thesis using add_extends f(2) snapshot_extends [OF f(2)]
      by (auto simp: addDurableCommandApproval_def split: if_splits)
  next
    case (record_use sha fr ids now approvals a matches command path auth approvals')
    thus ?thesis using use_extends f(2) by blast
  qed
  then obtain fr where "fresh_ok fr" "extends (snapshotFromExecApprovalsRow fr (es_row st)) (snapshotFromExecApprovalsRow fresh' (es_row st'))"
    by blast
  thus ?thesis using extends_trans [OF snapshot_extends] by blast
qed

lemma steps_extend:
  assumes "grant_step\<^sup>*\<^sup>* st st'" and "fresh_ok fresh" "fresh_ok fresh'"
  shows "extends (snapshotFromExecApprovalsRow fresh (es_row st)) (snapshotFromExecApprovalsRow fresh' (es_row st'))"
  using assms
proof (induction arbitrary: fresh')
  case base
  thus ?case using snapshot_extends by blast
next
  case (step s s')
  thus ?case using extends_trans step_extends by blast
qed

text \<open>
  C18: Granting takes nothing from decisions that are still pending: a policy snapshot of any agent that is
  current stays current through any sequence of commits, persisted decisions, added entries and
  recorded uses, also where they upgrade rules it holds to allow-always, as long as none of these
  grants is for the agent id \<^verbatim>\<open>default\<close>. One that is can make a snapshot of main
  stale, because the next read merges the legacy name into main.
\<close>

theorem pending_snapshots_survive:
  assumes "grant_step\<^sup>*\<^sup>* st st'" and "fresh_ok fresh" "fresh_ok fresh'"
    and "isExecApprovalPolicySnapshotCurrent sn
      (createExecApprovalPolicySnapshot fresh (as_raw (snapshotFromExecApprovalsRow fresh (es_row st))) b)"
  shows "isExecApprovalPolicySnapshotCurrent sn
      (createExecApprovalPolicySnapshot fresh' (as_raw (snapshotFromExecApprovalsRow fresh' (es_row st'))) b)"
  by (rule extends_current [OF snapshot_normal [OF assms(2)] steps_extend [OF assms(1-3)] assms(4)])

lemma xdemo_agent: "cp_agentId xdemo_commit \<noteq> Some ''default''"
  by (simp add: xdemo_commit_def)

lemma pending_snapshots_survive_witness:
  "\<exists>st'. commitExecAuthorizationLocked xdemo_env 0 xdemo_commit xdemo_store = Inr st'
     \<and> isExecApprovalPolicySnapshotCurrent (createExecApprovalPolicySnapshot xdemo_fresh (as_raw xdemo_file) (Some ''b''))
       (createExecApprovalPolicySnapshot xdemo_fresh (as_raw (snapshotFromExecApprovalsRow xdemo_fresh (es_row st'))) (Some ''b''))"
proof -
  obtain st' where c: "commitExecAuthorizationLocked xdemo_env 0 xdemo_commit xdemo_store = Inr st'"
    by (rule xdemo_commit_runs)
  hence s: "grant_step\<^sup>*\<^sup>* xdemo_store st'" using grant_step.commit xdemo_commit_ids xdemo_agent by blast
  have "isExecApprovalPolicySnapshotCurrent (snapshot_of xdemo_fresh xdemo_file (Some ''b''))
      (createExecApprovalPolicySnapshot xdemo_fresh (as_raw (snapshotFromExecApprovalsRow xdemo_fresh (es_row xdemo_store))) (Some ''b''))"
    unfolding xdemo_row by (simp add: current_snapshots_iff xdemo_normal)
  from pending_snapshots_survive [OF s xdemo_ids xdemo_ids this] c show ?thesis by blast
qed

subsection \<open>A snapshot that travels\<close>

lemma canonical_idem:
  "canonicalizeExecApprovalPolicyRules (canonicalizeExecApprovalPolicyRules rules) = canonicalizeExecApprovalPolicyRules rules"
  by (simp add: canonicalizeExecApprovalPolicyRules_def uniqueValues_distinct sorted_sort_id sort_key_id_if_sorted)

lemma rule_props:
  fixes r :: policy_rule
  defines "fs \<equiv> [(''pattern'', JStr (pr_pattern r))] @ jopt ''argPattern'' (map_option JStr (pr_argPattern r))
     @ jopt ''source'' (map_option JStr (pr_source r))"
  shows "jprop fs ''pattern'' = Some (JStr (pr_pattern r))" "jprop fs ''argPattern'' = map_option JStr (pr_argPattern r)"
    "jprop fs ''source'' = map_option JStr (pr_source r)"
  unfolding fs_def by (simp_all add: jprops split: option.split)

lemma rule_back:
  "pr_source r = None \<or> pr_source r = Some ''allow-always'' \<Longrightarrow> rule_of_json (rule_json r) = Some r"
  unfolding rule_of_json_def rule_json_def json.case rule_props
  by (cases r) (auto simp: map_option_case split: option.split)

lemma rules_back:
  "map (rule_of_json \<circ> rule_json) (sn_allowlistRules (createExecApprovalPolicySnapshot fresh f a))
     = map Some (sn_allowlistRules (createExecApprovalPolicySnapshot fresh f a))"
  by (rule map_cong [OF refl])
    (auto simp: createExecApprovalPolicySnapshot_def Let_def canonicalizeExecApprovalPolicyRules_def rule_of_entry_def
      intro!: rule_back)

text \<open>
  A policy snapshot survives its way to another process: written as JSON and checked on arrival, it
  is the snapshot that was taken, whatever file and agent it was taken of.
\<close>

theorem snapshot_travels:
  "normalizeExecApprovalPolicySnapshot (Some (snapshot_json (createExecApprovalPolicySnapshot fresh f a)))
     = Some (Some (createExecApprovalPolicySnapshot fresh f a))"
proof -
  define sn where "sn = createExecApprovalPolicySnapshot fresh f a"
  have r: "map rule_of_json (map rule_json (sn_allowlistRules sn)) = map Some (sn_allowlistRules sn)"
    using rules_back [of fresh f a] by (simp add: sn_def)
  have c: "canonicalizeExecApprovalPolicyRules (sn_allowlistRules sn) = sn_allowlistRules sn"
    by (simp add: sn_def createExecApprovalPolicySnapshot_def Let_def canonical_idem)
  have m: "map the (map Some xs) = xs" "None \<notin> set (map Some xs)" for xs :: "policy_rule list"
    by (auto simp: comp_def)
  show ?thesis
    unfolding sn_def [symmetric] snapshot_json_def normalizeExecApprovalPolicySnapshot_def
    by (simp add: json_security_def json_ask_def r m c Let_def del: map_map)
qed

lemma trim_solid: "(\<And>c. c \<in> set s \<Longrightarrow> \<not> js_space c) \<Longrightarrow> js_trim s = s"
  unfolding js_trim_def by (metis dropWhile_eq_self_iff hd_in_set hd_rev last_in_set rev_rev_ident set_rev)

lemma pattern_solid:
  assumes "\<forall>c\<in>set (sha t). \<not> js_space c"
  shows "js_trim (buildDurableCommandApprovalPattern sha t) = buildDurableCommandApprovalPattern sha t"
  using assms by (intro trim_solid)
    (auto simp: buildDurableCommandApprovalPattern_def js_space_def dest: in_set_takeD)

text \<open>
  C19: An explicit approval to always allow an exact command is durable: after the commit the command, as it
  was approved, has a durable approval under the stored policy, so that it needs no further approval
  unless every execution is asked about. It holds for every agent but one called
  \<^verbatim>\<open>default\<close>, whose entries the next read gives to main. The digest of the command
  is taken to hold no white space.
\<close>

theorem grant_is_durable:
  assumes "ids_ok env" "fresh_ok fresh'" and "cp_agentId p \<noteq> Some ''default''"
    and "commitExecAuthorizationLocked env now p st = Inr st'"
    and "cp_allowAlwaysDecision p = Some (PersistExactCommand text)" and "js_trim text \<noteq> []"
    and "\<forall>c\<in>set (ce_sha env (js_trim text)). \<not> js_space c"
  shows "let allowlist = xr_allowlist (resolveExecApprovalsFromFileInternal fresh
        (as_raw (snapshotFromExecApprovalsRow fresh' (es_row st'))) (cp_agentId p) overrides)
    in hasDurableExecApproval (ce_sha env) ok entries allowlist (Some text)
      \<and> (requiresExecApproval ask security ok satisfied
           (Some (hasDurableExecApproval (ce_sha env) ok entries allowlist (Some text))) \<longleftrightarrow> ask = AskAlways)"
  using assms(4)
proof (rule commit_stored [OF assms(1,3,2)])
  let ?f = "snapshotFromExecApprovalsRow (ce_fresh env) (es_row st)" and ?f' = "snapshotFromExecApprovalsRow fresh' (es_row st')"
  let ?pat = "buildDurableCommandApprovalPattern (ce_sha env) (js_trim text)"
  fix r assume r: "commit_update env p ?f = Inr r" and e: "extends (case_option ?f id r) ?f'"
  have n: "normal_file ?f" using assms(1) by (simp add: snapshot_normal ids_ok_def)
  have n': "normal_file ?f'" by (rule snapshot_normal [OF assms(2)])
  have d: "is_persistent (cp_allowAlwaysDecision p)"
    "decision_entries (ce_sha env) (the (cp_allowAlwaysDecision p)) = [(?pat, None)]"
    using assms(5,6) by (simp_all add: is_persistent_def decision_entries_def normalizeOptionalString_def)
  have pat: "js_trim ?pat = ?pat" by (rule pattern_solid [of "ce_sha env" "js_trim text", OF assms(7)])
  have "granted (case_option ?f id r) (the (cp_agentId p)) (?pat, None)"
    using commit_update_cases(3) [OF assms(1) n assms(3) r d(1)] pat
    by (simp add: d(2)) (simp add: buildDurableCommandApprovalPattern_def)
  from granted_keeps [OF e this] obtain g where g: "g \<in> set (agent_allowlist ?f' (the (cp_agentId p)))"
    "ae_pattern g = ?pat" "ae_source g = Some ''allow-always''"
    by (auto simp: granted_def always_def pat)
  have "cp_agentId p \<noteq> None"
  proof
    assume "cp_agentId p = None"
    with r d pat show False
      by (auto simp: commit_update_def bnd_Inr_iff applyAllowAlwaysDecision_def applyAllowlistEntryUpdate_def truthy_str_iff)
  qed
  with g(1) have "g \<in> set (xr_allowlist (resolved fresh ?f' (cp_agentId p) overrides))"
    unfolding resolved_allowlist [OF n'] by auto
  hence "hasDurableExecApproval (ce_sha env) ok entries (xr_allowlist (resolved fresh ?f' (cp_agentId p) overrides)) (Some text)"
    using g(2,3) assms(6) unfolding hasDurableExecApproval_def hasExactCommandDurableExecApproval_def
    by (auto simp: normalizeOptionalString_def list_ex_iff)
  thus ?thesis by (simp add: Let_def requiresExecApproval_def)
qed

lemma grant_is_durable_witness:
  "\<exists>st'. commitExecAuthorizationLocked xdemo_env 0 xdemo_commit xdemo_store = Inr st'
     \<and> hasDurableExecApproval xdemo_sha False [] (xr_allowlist (resolveExecApprovalsFromFileInternal xdemo_fresh
          (as_raw (snapshotFromExecApprovalsRow xdemo_fresh (es_row st'))) (Some ''a'') no_overrides)) (Some ''ls'')"
proof -
  obtain st' where c: "commitExecAuthorizationLocked xdemo_env 0 xdemo_commit xdemo_store = Inr st'"
    by (rule xdemo_commit_runs)
  have p: "cp_allowAlwaysDecision xdemo_commit = Some (PersistExactCommand ''ls'')" "js_trim ''ls'' \<noteq> []"
    "\<forall>c\<in>set (ce_sha xdemo_env (js_trim ''ls'')). \<not> js_space c"
    by (simp_all add: xdemo_commit_def xdemo_env_def xdemo_sha_def js_trim_def js_space_def)
  have a: "cp_agentId xdemo_commit = Some ''a''" "ce_sha xdemo_env = xdemo_sha"
    by (simp_all add: xdemo_commit_def xdemo_env_def)
  from grant_is_durable [OF xdemo_commit_ids xdemo_ids xdemo_agent c p, unfolded Let_def a] c
  show ?thesis by blast
qed

subsection \<open>Deleting an agent\<close>

lemma no_change_get:
  assumes "assertNoDeletedAgentApprovalChanged st f h removal restore = Inr ()" and "es_deleted st k"
    and "removal \<noteq> Some k" "restore \<noteq> Some k"
  shows "jm_get (xf_agents h) k = jm_get (xf_agents f) k"
proof (cases "k \<in> set (jm_keys (xf_agents f) @ jm_keys (xf_agents h))")
  case True
  hence "\<not> deleted_change st f h removal restore k"
    using assms(1) by (auto simp: assertNoDeletedAgentApprovalChanged_def list_ex_iff split: if_splits)
  with assms(2-4) show ?thesis by (auto simp: deleted_change_def Let_def)
next
  case False
  thus ?thesis using jm_get_keys [of "xf_agents f" k] jm_get_keys [of "xf_agents h" k] by simp
qed

lemma update_checked:
  assumes "updateExecApprovalsInTransaction fresh now p update st = Inr (Some f, st')"
    and "update (snapshotFromExecApprovalsRow fresh (es_row st)) = Inr (Some next)"
  shows "assertNoDeletedAgentApprovalChanged st (snapshotFromExecApprovalsRow fresh (es_row st)) next
    (up_allowRemoval p) (up_allowRestore p) = Inr ()"
  using assms by (auto simp: updateExecApprovalsInTransaction_def Let_def bnd_Inr_iff split: if_splits)

text \<open>
  C22: The policy of a deleted agent is frozen: a file that an update hands to the store, and that is
  neither the agent's own removal nor its restoration, is accepted only if it says of the agent what
  the stored policy says. If that file is in normal form, then so does the policy read back after the
  update. (The updates of the code hand over files in normal form, but for a grant to the agent id
  \<^verbatim>\<open>default\<close>: the next read merges its entries into main, also when main is deleted.)
  And while the lease of a deletion is alive, an update without the lease leaves the row as it is.
\<close>

theorem deleted_policy_frozen:
  assumes "updateExecApprovalsInTransaction fresh now p update st = Inr (r, st')"
    and "up_allowRemoval p \<noteq> Some k" "up_allowRestore p \<noteq> Some k"
  shows "(es_deleted st k \<longrightarrow>
       (\<forall>next. r \<noteq> None \<and> update (snapshotFromExecApprovalsRow fresh (es_row st)) = Inr (Some next) \<longrightarrow>
          jm_get (xf_agents next) k = jm_get (xf_agents (snapshotFromExecApprovalsRow fresh (es_row st))) k))
     \<and> (es_deleted st k \<and>
         (\<forall>next. update (snapshotFromExecApprovalsRow fresh (es_row st)) = Inr (Some next) \<longrightarrow> normal_file next) \<longrightarrow>
       jm_get (xf_agents (snapshotFromExecApprovalsRow fresh (es_row st'))) k
         = jm_get (xf_agents (snapshotFromExecApprovalsRow fresh (es_row st))) k)
     \<and> (up_leaseOwner p = None \<and> (\<exists>owner expires. es_lease st = Some (owner, expires) \<and> now < expires) \<longrightarrow> st' = st)"
proof (intro conjI impI allI)
  fix h
  assume "es_deleted st k" "r \<noteq> None \<and> update (snapshotFromExecApprovalsRow fresh (es_row st)) = Inr (Some h)"
  with assms(1) update_checked no_change_get [OF _ _ assms(2,3)]
  show "jm_get (xf_agents h) k = jm_get (xf_agents (snapshotFromExecApprovalsRow fresh (es_row st))) k"
    by (cases r) blast+
next
  assume d: "es_deleted st k \<and>
    (\<forall>next. update (snapshotFromExecApprovalsRow fresh (es_row st)) = Inr (Some next) \<longrightarrow> normal_file next)"
  show "jm_get (xf_agents (snapshotFromExecApprovalsRow fresh (es_row st'))) k
      = jm_get (xf_agents (snapshotFromExecApprovalsRow fresh (es_row st))) k"
    using assms(1)
  proof (cases rule: update_cases)
    case (written "next")
    have "snapshotFromExecApprovalsRow fresh (es_row st') = next"
      using written(1,4) d by (simp add: row_back)
    then show ?thesis using no_change_get [OF written(2) _ assms(2,3)] d by simp
  qed simp_all
next
  assume l: "up_leaseOwner p = None \<and> (\<exists>owner expires. es_lease st = Some (owner, expires) \<and> now < expires)"
  show "st' = st"
    using assms(1)
    by (cases rule: update_cases) (use l in \<open>auto simp: assertExecApprovalsMutationAllowed_def\<close>)
qed

text \<open>Agent a is deleted; an update that gives agent b a policy goes through and leaves a's as it is.\<close>

definition xdemo_tomb :: exec_store where
  "xdemo_tomb = xdemo_store\<lparr>es_deleted := (\<lambda>k. k = ''a'')\<rparr>"

definition xdemo_more :: approvals_file where
  "xdemo_more = xdemo_file\<lparr>xf_agents := jm_put ''b'' \<lparr>xa_policy = no_policy, xa_allowlist = None\<rparr> (xf_agents xdemo_file)\<rparr>"

lemma xdemo_more_normal: "normal_file xdemo_more"
  using xdemo_normal xdemo_policy_normal
  by (simp add: xdemo_more_def normal_file_def xdemo_file_def jm_keys_def normal_agent_def no_policy_def
      normal_policy_iff clean_field_def)

lemma deleted_policy_frozen_witness:
  "\<exists>st'. updateExecApprovalsInTransaction xdemo_fresh 3 plain_update (\<lambda>_. Inr (Some xdemo_more)) xdemo_tomb
       = Inr (Some xdemo_more, st')
   \<and> es_deleted xdemo_tomb ''a'' \<and> es_row st' \<noteq> es_row xdemo_tomb
   \<and> jm_get (xf_agents (snapshotFromExecApprovalsRow xdemo_fresh (es_row st'))) ''a''
       = jm_get (xf_agents xdemo_file) ''a''"
proof -
  have f: "snapshotFromExecApprovalsRow xdemo_fresh (es_row xdemo_tomb) = xdemo_file"
    using xdemo_row by (simp add: xdemo_tomb_def)
  let ?st' = "xdemo_tomb\<lparr>es_row := Some (Wrote (serializeExecApprovals xdemo_more))\<rparr>"
  have rd: "snapshotFromExecApprovalsRow xdemo_fresh (es_row ?st') = xdemo_more"
    by (simp add: row_back xdemo_more_normal)
  have ne: "xdemo_more \<noteq> xdemo_file" by (simp add: xdemo_more_def xdemo_file_def)
  hence row: "es_row ?st' \<noteq> es_row xdemo_tomb" "es_row xdemo_tomb \<noteq> Some (Wrote (serializeExecApprovals xdemo_more))"
    using f rd by (metis, metis exec_store.select_convs(1) exec_store.update_convs(1) exec_store.surjective)
  have "assertNoDeletedAgentApprovalChanged xdemo_tomb xdemo_file xdemo_more None None = Inr ()"
    by (simp add: assertNoDeletedAgentApprovalChanged_def deleted_change_def Let_def list_ex_iff xdemo_tomb_def
        xdemo_more_def jm_get_put)
  moreover have "assertExecApprovalsMutationAllowed xdemo_tomb None 3 = Inr ()"
    by (simp add: assertExecApprovalsMutationAllowed_def xdemo_tomb_def xdemo_store_def)
  ultimately have u: "updateExecApprovalsInTransaction xdemo_fresh 3 plain_update (\<lambda>_. Inr (Some xdemo_more)) xdemo_tomb
       = Inr (Some xdemo_more, ?st')"
    using row rd unfolding updateExecApprovalsInTransaction_def Let_def f
    by (simp add: plain_update_def writeExecApprovalsConfigRow_def)
  have d: "es_deleted xdemo_tomb ''a''" by (simp add: xdemo_tomb_def)
  have "up_allowRemoval plain_update \<noteq> Some ''a''" "up_allowRestore plain_update \<noteq> Some ''a''"
    by (simp_all add: plain_update_def)
  from deleted_policy_frozen [OF u this, unfolded f] d xdemo_more_normal u row show ?thesis by blast
qed

lemma deleted_normal: "normal_file f \<Longrightarrow> normal_file (f\<lparr>xf_agents := jm_delete key (xf_agents f)\<rparr>)"
  unfolding normal_file_def using jm_keys_delete [of key "xf_agents f"] by (auto simp: jm_delete_def)

lemma put_normal:
  assumes "normal_file f" "normal_agent a" "key \<noteq> ''default''"
  shows "normal_file (f\<lparr>xf_agents := jm_put key a (xf_agents f)\<rparr>)"
  using assms set_jm_put [of key a "xf_agents f"] by (force simp: normal_file_def jm_keys_put)

lemma removed_reads:
  assumes "remove_agent_policy fresh now owner key st = Inr st'" and "fresh_ok fresh"
  shows "snapshotFromExecApprovalsRow fresh (es_row st')
    = (snapshotFromExecApprovalsRow fresh (es_row st))
        \<lparr>xf_agents := jm_delete key (xf_agents (snapshotFromExecApprovalsRow fresh (es_row st)))\<rparr>"
proof -
  let ?f = "snapshotFromExecApprovalsRow fresh (es_row st)"
  let ?p = "\<lparr>up_baseRow = Some (es_row st), up_allowRemoval = Some key, up_allowRestore = None, up_leaseOwner = Some owner\<rparr>"
  have n: "normal_file (?f\<lparr>xf_agents := jm_delete key (xf_agents ?f)\<rparr>)"
    by (intro deleted_normal snapshot_normal assms(2))
  from assms(1) obtain r where "updateExecApprovalsInTransaction fresh now ?p
      (\<lambda>f. Inr (Some (f\<lparr>xf_agents := jm_delete key (xf_agents f)\<rparr>))) st = Inr (r, st')"
    by (auto simp: remove_agent_policy_def bnd_Inr_iff split: if_splits)
  thus ?thesis by (rule update_reads) (use n in auto)
qed

lemma restored_reads:
  assumes "restore_agent_policy fresh now owner key a st = Inr st'" and "fresh_ok fresh"
    and "normal_agent a" "key \<noteq> ''default''"
  shows "snapshotFromExecApprovalsRow fresh (es_row st')
    = (snapshotFromExecApprovalsRow fresh (es_row st))
        \<lparr>xf_agents := jm_put key a (xf_agents (snapshotFromExecApprovalsRow fresh (es_row st)))\<rparr>"
proof -
  let ?f = "snapshotFromExecApprovalsRow fresh (es_row st)"
  let ?p = "\<lparr>up_baseRow = None, up_allowRemoval = None, up_allowRestore = Some key, up_leaseOwner = Some owner\<rparr>"
  have n: "normal_file (?f\<lparr>xf_agents := jm_put key a (xf_agents ?f)\<rparr>)"
    by (intro put_normal snapshot_normal assms)
  from assms(1) obtain r where "updateExecApprovalsInTransaction fresh now ?p
      (\<lambda>f. Inr (Some (f\<lparr>xf_agents := jm_put key a (xf_agents f)\<rparr>))) st = Inr (r, st')"
    by (auto simp: restore_agent_policy_def bnd_Inr_iff)
  thus ?thesis by (rule update_reads) (use n in auto)
qed

text \<open>
  C23: A deletion whose commit fails gives the agent its policy back: where the commit left the row alone,
  the stored policy afterwards gives every agent, the settings and the socket what they had before.
\<close>

theorem failed_deletion_restores:
  assumes "fresh_ok fresh"
    and "withAgentExecApprovalsRemoved fresh now later owner key commit st = Inr (CommitFailed, st')"
    and "\<And>st1. es_row (snd (commit st1)) = es_row st1"
  shows "let f = snapshotFromExecApprovalsRow fresh (es_row st); f' = snapshotFromExecApprovalsRow fresh (es_row st')
    in (\<forall>k. jm_get (xf_agents f') k = jm_get (xf_agents f) k) \<and> xf_defaults f' = xf_defaults f
       \<and> xf_socketPath f' = xf_socketPath f \<and> xf_socketToken f' = xf_socketToken f"
proof (cases "jm_get (xf_agents (snapshotFromExecApprovalsRow fresh (es_row st))) key")
  case None
  with assms(2) assms(3) [of st] have "es_row st' = es_row st"
    by (auto simp: withAgentExecApprovalsRemoved_def Let_def split: prod.splits commit_outcome.splits)
  thus ?thesis by (simp add: Let_def)
next
  case (Some a)
  let ?f = "snapshotFromExecApprovalsRow fresh (es_row st)"
  have n: "normal_file ?f" by (rule snapshot_normal [OF assms(1)])
  have a: "normal_agent a" "key \<noteq> ''default''"
    using n jm_get_in [OF Some] jm_get_keys [of "xf_agents ?f" key] Some by (auto simp: normal_file_def)
  from assms(2) Some obtain st1 where s1: "remove_agent_policy fresh now owner key st = Inr st1"
    and w: "(case (commit st1, Some a) of ((CommitFailed, st2), Some removed) \<Rightarrow>
        bnd (restore_agent_policy fresh later owner key removed st2) (\<lambda>st3. Inr (CommitFailed, st3))
      | ((outcome, st2), _) \<Rightarrow> Inr (outcome, st2)) = Inr (CommitFailed, st')"
    by (auto simp: withAgentExecApprovalsRemoved_def Let_def bnd_Inr_iff)
  obtain st2 where s2: "restore_agent_policy fresh later owner key a st2 = Inr st'" "es_row st2 = es_row st1"
    using w assms(3) [of st1] by (cases "commit st1"; cases "fst (commit st1)") (auto simp: bnd_Inr_iff)
  show ?thesis
    unfolding Let_def restored_reads [OF s2(1) assms(1) a] s2(2) removed_reads [OF s1 assms(1)]
    using Some by (simp add: jm_get_put jm_get_delete)
qed

definition xdemo_leased :: exec_store where
  "xdemo_leased = xdemo_store\<lparr>es_lease := Some (''o'', 9)\<rparr>"

lemma xdemo_lease: "es_lease st = Some (''o'', 9) \<Longrightarrow> assertExecApprovalsMutationAllowed st (Some ''o'') 3 = Inr ()"
  by (simp add: assertExecApprovalsMutationAllowed_def)

lemma xdemo_deletion_runs:
  obtains st' where "withAgentExecApprovalsRemoved xdemo_fresh 3 3 ''o'' ''a'' (\<lambda>s. (CommitFailed, s)) xdemo_leased
    = Inr (CommitFailed, st')"
proof -
  have l: "es_lease xdemo_leased = Some (''o'', 9)" "es_deleted xdemo_leased = (\<lambda>_. False)"
    by (simp_all add: xdemo_leased_def xdemo_store_def)
  obtain a where a: "jm_get (xf_agents (snapshotFromExecApprovalsRow xdemo_fresh (es_row xdemo_leased))) ''a'' = Some a"
    using xdemo_row [of xdemo_fresh] by (simp add: xdemo_leased_def xdemo_file_def)
  obtain f st1 where u1: "updateExecApprovalsInTransaction xdemo_fresh 3
      \<lparr>up_baseRow = Some (es_row xdemo_leased), up_allowRemoval = Some ''a'', up_allowRestore = None, up_leaseOwner = Some ''o''\<rparr>
      (\<lambda>f. Inr (Some (f\<lparr>xf_agents := jm_delete ''a'' (xf_agents f)\<rparr>))) xdemo_leased = Inr (Some f, st1)"
    and l1: "es_deleted st1 = (\<lambda>_. False)" "es_lease st1 = Some (''o'', 9)"
    by (rule update_runs [where st = xdemo_leased and fresh = xdemo_fresh and now = 3
          and p = "\<lparr>up_baseRow = Some (es_row xdemo_leased), up_allowRemoval = Some ''a'', up_allowRestore = None, up_leaseOwner = Some ''o''\<rparr>"
          and update = "\<lambda>f. Inr (Some (f\<lparr>xf_agents := jm_delete ''a'' (xf_agents f)\<rparr>))", OF refl])
      (simp_all add: l xdemo_lease)
  obtain g st2 where u2: "updateExecApprovalsInTransaction xdemo_fresh 3
      \<lparr>up_baseRow = None, up_allowRemoval = None, up_allowRestore = Some ''a'', up_leaseOwner = Some ''o''\<rparr>
      (\<lambda>f. Inr (Some (f\<lparr>xf_agents := jm_put ''a'' a (xf_agents f)\<rparr>))) st1 = Inr (Some g, st2)"
    by (rule update_runs [where st = st1 and fresh = xdemo_fresh and now = 3
          and p = "\<lparr>up_baseRow = None, up_allowRemoval = None, up_allowRestore = Some ''a'', up_leaseOwner = Some ''o''\<rparr>"
          and update = "\<lambda>f. Inr (Some (f\<lparr>xf_agents := jm_put ''a'' a (xf_agents f)\<rparr>))", OF refl])
      (simp_all add: l1 xdemo_lease)
  show ?thesis
    by (rule that [of st2]) (simp add: withAgentExecApprovalsRemoved_def Let_def a remove_agent_policy_def u1
        restore_agent_policy_def u2)
qed

lemma failed_deletion_restores_witness:
  "\<exists>st'. withAgentExecApprovalsRemoved xdemo_fresh 3 3 ''o'' ''a'' (\<lambda>s. (CommitFailed, s)) xdemo_leased
      = Inr (CommitFailed, st')
    \<and> jm_get (xf_agents (snapshotFromExecApprovalsRow xdemo_fresh (es_row st'))) ''a''
      = jm_get (xf_agents (snapshotFromExecApprovalsRow xdemo_fresh (es_row xdemo_leased))) ''a''"
proof -
  obtain st' where w: "withAgentExecApprovalsRemoved xdemo_fresh 3 3 ''o'' ''a'' (\<lambda>s. (CommitFailed, s)) xdemo_leased
    = Inr (CommitFailed, st')"
    by (rule xdemo_deletion_runs)
  from failed_deletion_restores [OF xdemo_ids w] w show ?thesis by (simp add: Let_def)
qed

end
