(* ===== verification/Run_Attempt.thy ===== *)
theory Run_Attempt
  imports Js_Prelude
begin

section \<open>How an attempt of a run ends\<close>

text \<open>
  The attempt terminals of \<^verbatim>\<open>src/agents/agent-run-terminal-outcome.ts\<close>: the closed
  type, the merge of one observation into what is known, the failure detail, and the way from and to
  the flags of the shipped harness result. An error is what can be thrown: a text, an Error object with
  its name, code and cause, an object with a name, or anything else.
\<close>

datatype thrown =
    ThrownText string
  | ThrownError string "string option" "thrown option"
  | ThrownObject "string option"
  | ThrownOther

datatype failure_source = FromPrompt | FromCompaction | FromPrecheck | FromHook

type_synonym attempt_failure = "failure_source \<times> thrown"

datatype timeout_observation = ToolExecution | Compaction

datatype timeout_phase = Prompt | During timeout_observation

datatype timeout_source = RuntimeTimeout | IdleTimeout | RunBudget | ExternalTimeout

datatype abort_source = YieldCleanup | RuntimeAbort | ExternalAbort

text \<open>
  \<open>AtObserved\<close> is the timeout with the source \<^verbatim>\<open>observation\<close>, which
  interrupts nothing; the flag of \<open>AtTimeout\<close> says that handling it also aborted the run.
\<close>

datatype attempt_terminal =
    AtOk
  | AtAborted abort_source "attempt_failure option" "timeout_observation option"
  | AtObserved timeout_observation "attempt_failure option"
  | AtTimeout timeout_phase timeout_source bool "attempt_failure option"
  | AtFailed attempt_failure "timeout_observation option"

fun attempt_kind_rank :: "attempt_terminal \<Rightarrow> nat" where
  "attempt_kind_rank AtOk = 0"
| "attempt_kind_rank (AtFailed _ _) = 1"
| "attempt_kind_rank (AtAborted _ _ _) = 2"
| "attempt_kind_rank (AtObserved _ _) = 3"
| "attempt_kind_rank (AtTimeout _ _ _ _) = 3"

fun timeout_phase_rank :: "timeout_phase \<Rightarrow> nat" where
  "timeout_phase_rank Prompt = 0"
| "timeout_phase_rank (During ToolExecution) = 1"
| "timeout_phase_rank (During Compaction) = 2"

text \<open>The rank of the source \<^verbatim>\<open>observation\<close> is 0.\<close>

fun timeout_source_rank :: "timeout_source \<Rightarrow> nat" where
  "timeout_source_rank RuntimeTimeout = 1"
| "timeout_source_rank IdleTimeout = 2"
| "timeout_source_rank RunBudget = 3"
| "timeout_source_rank ExternalTimeout = 4"

fun abort_source_rank :: "abort_source \<Rightarrow> nat" where
  "abort_source_rank YieldCleanup = 0"
| "abort_source_rank RuntimeAbort = 1"
| "abort_source_rank ExternalAbort = 2"

subsection \<open>Failure and timeout detail\<close>

definition mergeAgentRunAttemptTimeoutPhase :: "timeout_phase \<Rightarrow> timeout_observation option \<Rightarrow> timeout_phase" where
  "mergeAgentRunAttemptTimeoutPhase phase observation =
     (case observation of
        None \<Rightarrow> phase
      | Some o' \<Rightarrow> if timeout_phase_rank (During o') > timeout_phase_rank phase then During o' else phase)"

fun getAgentRunAttemptFailure :: "attempt_terminal \<Rightarrow> attempt_failure option" where
  "getAgentRunAttemptFailure AtOk = None"
| "getAgentRunAttemptFailure (AtFailed f _) = Some f"
| "getAgentRunAttemptFailure (AtAborted _ f _) = f"
| "getAgentRunAttemptFailure (AtObserved _ f) = f"
| "getAgentRunAttemptFailure (AtTimeout _ _ _ f) = f"

fun withAgentRunAttemptFailure :: "attempt_terminal \<Rightarrow> attempt_failure option \<Rightarrow> attempt_terminal" where
  "withAgentRunAttemptFailure terminal None = terminal"
| "withAgentRunAttemptFailure AtOk (Some f) = AtOk"
| "withAgentRunAttemptFailure (AtFailed _ observation) (Some f) = AtFailed f observation"
| "withAgentRunAttemptFailure (AtAborted source _ observation) (Some f) = AtAborted source (Some f) observation"
| "withAgentRunAttemptFailure (AtObserved phase _) (Some f) = AtObserved phase (Some f)"
| "withAgentRunAttemptFailure (AtTimeout phase source aborted _) (Some f) = AtTimeout phase source aborted (Some f)"

definition stronger_observation :: "timeout_observation option \<Rightarrow> timeout_observation \<Rightarrow> timeout_observation" where
  "stronger_observation observation phase =
     (if observation = Some Compaction \<or> phase = Compaction then Compaction else ToolExecution)"

text \<open>Of an aborted or failed terminal; the code's type admits no other.\<close>

fun withAgentRunAttemptTimeoutObservation :: "attempt_terminal \<Rightarrow> timeout_observation \<Rightarrow> attempt_terminal" where
  "withAgentRunAttemptTimeoutObservation (AtAborted source f observation) phase =
     AtAborted source f (Some (stronger_observation observation phase))"
| "withAgentRunAttemptTimeoutObservation (AtFailed f observation) phase =
     AtFailed f (Some (stronger_observation observation phase))"
| "withAgentRunAttemptTimeoutObservation terminal phase = terminal"

fun timeout_observed :: "attempt_terminal \<Rightarrow> timeout_observation option" where
  "timeout_observed (AtAborted _ _ observation) = observation"
| "timeout_observed (AtFailed _ observation) = observation"
| "timeout_observed _ = None"

fun hasAgentRunAttemptTimeoutAbort :: "attempt_terminal \<Rightarrow> bool" where
  "hasAgentRunAttemptTimeoutAbort (AtTimeout _ _ aborted _) = aborted"
| "hasAgentRunAttemptTimeoutAbort _ = False"

fun setAgentRunAttemptTerminalFailure :: "attempt_terminal \<Rightarrow> attempt_failure option \<Rightarrow> attempt_terminal" where
  "setAgentRunAttemptTerminalFailure (AtFailed _ observation) None =
     (case observation of Some phase \<Rightarrow> AtObserved phase None | None \<Rightarrow> AtOk)"
| "setAgentRunAttemptTerminalFailure (AtAborted source _ observation) None = AtAborted source None observation"
| "setAgentRunAttemptTerminalFailure (AtObserved phase _) None = AtObserved phase None"
| "setAgentRunAttemptTerminalFailure (AtTimeout phase source aborted _) None = AtTimeout phase source aborted None"
| "setAgentRunAttemptTerminalFailure AtOk None = AtOk"
| "setAgentRunAttemptTerminalFailure (AtObserved phase _) (Some f) = AtFailed f (Some phase)"
| "setAgentRunAttemptTerminalFailure (AtFailed _ observation) (Some f) = AtFailed f observation"
| "setAgentRunAttemptTerminalFailure AtOk (Some f) = AtFailed f None"
| "setAgentRunAttemptTerminalFailure (AtAborted source _ observation) (Some f) = AtAborted source (Some f) observation"
| "setAgentRunAttemptTerminalFailure (AtTimeout phase source aborted _) (Some f) = AtTimeout phase source aborted (Some f)"

subsection \<open>Merging\<close>

fun is_aborted :: "attempt_terminal \<Rightarrow> bool" where
  "is_aborted (AtAborted _ _ _) = True"
| "is_aborted _ = False"

fun interrupting_abort :: "attempt_terminal \<Rightarrow> bool" where
  "interrupting_abort (AtAborted source _ _) = (source \<noteq> YieldCleanup)"
| "interrupting_abort _ = False"

fun external_abort :: "attempt_terminal \<Rightarrow> bool" where
  "external_abort (AtAborted source _ _) = (source = ExternalAbort)"
| "external_abort _ = False"

text \<open>Two timeouts, neither or one of them an observation.\<close>

fun merge_timeouts :: "attempt_terminal \<Rightarrow> attempt_terminal \<Rightarrow> attempt_terminal" where
  "merge_timeouts (AtObserved p _) (AtObserved q _) =
     AtObserved (if p = Compaction \<or> q = Compaction then Compaction else ToolExecution) None"
| "merge_timeouts (AtTimeout p s a _) (AtObserved q _) =
     AtTimeout (if timeout_phase_rank (During q) > timeout_phase_rank p then During q else p) s a None"
| "merge_timeouts (AtObserved p _) (AtTimeout q s a _) =
     AtTimeout (if timeout_phase_rank q > timeout_phase_rank (During p) then q else During p) s a None"
| "merge_timeouts (AtTimeout p s a _) (AtTimeout q t b _) =
     AtTimeout (if timeout_phase_rank q > timeout_phase_rank p then q else p)
       (if timeout_source_rank t > timeout_source_rank s then t else s) (a \<or> b) None"
| "merge_timeouts current incoming = current"

text \<open>A timeout with an aborted or failed terminal.\<close>

fun absorb_into_timeout :: "attempt_terminal \<Rightarrow> attempt_terminal \<Rightarrow> attempt_terminal" where
  "absorb_into_timeout (AtTimeout phase source aborted f) other =
     AtTimeout (mergeAgentRunAttemptTimeoutPhase phase (timeout_observed other))
       (if external_abort other then ExternalTimeout else source) (interrupting_abort other \<or> aborted) f"
| "absorb_into_timeout terminal other = terminal"

text \<open>Two terminals of which each is aborted or failed.\<close>

fun select_interruption :: "attempt_terminal \<Rightarrow> attempt_terminal \<Rightarrow> attempt_terminal" where
  "select_interruption (AtAborted s _ _) (AtAborted t _ _) =
     AtAborted (if abort_source_rank t > abort_source_rank s then t else s) None None"
| "select_interruption current incoming =
     (if attempt_kind_rank incoming \<ge> attempt_kind_rank current then incoming else current)"

definition observe_all :: "attempt_terminal \<Rightarrow> timeout_observation option list \<Rightarrow> attempt_terminal" where
  "observe_all terminal observations =
     foldl (\<lambda>t observation. case observation of None \<Rightarrow> t | Some p \<Rightarrow> withAgentRunAttemptTimeoutObservation t p)
       terminal observations"

definition mergeAgentRunAttemptTerminal :: "attempt_terminal \<Rightarrow> attempt_terminal \<Rightarrow> attempt_terminal" where
  "mergeAgentRunAttemptTerminal current incoming =
     (if incoming = AtOk then current
      else
       (let failure = (case getAgentRunAttemptFailure incoming of
              Some f \<Rightarrow> Some f | None \<Rightarrow> getAgentRunAttemptFailure current)
        in withAgentRunAttemptFailure
            (case (current, incoming) of
               (AtOk, _) \<Rightarrow> incoming
             | (AtObserved _ _, AtObserved _ _) \<Rightarrow> merge_timeouts current incoming
             | (AtObserved _ _, AtTimeout _ _ _ _) \<Rightarrow> merge_timeouts current incoming
             | (AtTimeout _ _ _ _, AtObserved _ _) \<Rightarrow> merge_timeouts current incoming
             | (AtTimeout _ _ _ _, AtTimeout _ _ _ _) \<Rightarrow> merge_timeouts current incoming
             | (_, AtObserved phase _) \<Rightarrow> withAgentRunAttemptTimeoutObservation current phase
             | (AtObserved phase _, _) \<Rightarrow> withAgentRunAttemptTimeoutObservation incoming phase
             | (_, AtTimeout _ _ _ _) \<Rightarrow> absorb_into_timeout incoming current
             | (AtTimeout _ _ _ _, _) \<Rightarrow> absorb_into_timeout current incoming
             | (_, _) \<Rightarrow> observe_all (select_interruption current incoming)
                   [timeout_observed current, timeout_observed incoming]) failure))"

subsection \<open>The flags of a harness result\<close>

record attempt_input =
  ai_aborted :: bool
  ai_externalAbort :: bool
  ai_idleTimedOut :: bool
  ai_promptError :: "thrown option"
  ai_promptErrorSource :: "failure_source option"
  ai_timedOut :: bool
  ai_timedOutByRunBudget :: bool
  ai_timedOutDuringCompaction :: bool
  ai_timedOutDuringToolExecution :: bool

definition normalizeAgentRunAttemptTerminal :: "attempt_input \<Rightarrow> attempt_terminal" where
  "normalizeAgentRunAttemptTerminal i =
     (let aborted = (if ai_aborted i \<or> ai_externalAbort i
            then mergeAgentRunAttemptTerminal AtOk
                   (AtAborted (if ai_externalAbort i then ExternalAbort else RuntimeAbort) None None)
            else AtOk);
          timed =
           (if ai_timedOut i \<or> ai_idleTimedOut i \<or> ai_timedOutByRunBudget i
            then mergeAgentRunAttemptTerminal aborted
                   (AtTimeout (if ai_timedOutDuringCompaction i then During Compaction
                               else if ai_timedOutDuringToolExecution i then During ToolExecution else Prompt)
                     (if ai_externalAbort i then ExternalTimeout else if ai_timedOutByRunBudget i then RunBudget
                      else if ai_idleTimedOut i then IdleTimeout else RuntimeTimeout)
                     (ai_aborted i \<or> ai_externalAbort i) None)
            else if ai_timedOutDuringCompaction i \<or> ai_timedOutDuringToolExecution i
            then mergeAgentRunAttemptTerminal aborted
                   (AtObserved (if ai_timedOutDuringCompaction i then Compaction else ToolExecution) None)
            else aborted)
      in case ai_promptError i of
           None \<Rightarrow> timed
         | Some e \<Rightarrow> setAgentRunAttemptTerminalFailure timed
             (Some (case_option FromPrompt id (ai_promptErrorSource i), e)))"

record attempt_projection =
  ap_aborted :: bool
  ap_cleanupYieldAborted :: bool
  ap_externalAbort :: bool
  ap_failed :: bool
  ap_idleTimedOut :: bool
  ap_interrupted :: bool
  ap_promptError :: "thrown option"
  ap_promptErrorSource :: "failure_source option"
  ap_timedOut :: bool
  ap_timedOutByRunBudget :: bool
  ap_timedOutDuringCompaction :: bool
  ap_timedOutDuringToolExecution :: bool

fun timeout_source_of :: "attempt_terminal \<Rightarrow> timeout_source option" where
  "timeout_source_of (AtTimeout _ source _ _) = Some source"
| "timeout_source_of _ = None"

fun timed_out_during :: "attempt_terminal \<Rightarrow> timeout_observation \<Rightarrow> bool" where
  "timed_out_during (AtTimeout phase _ _ _) o' = (phase = During o')"
| "timed_out_during (AtObserved phase _) o' = (phase = o')"
| "timed_out_during terminal o' = (timeout_observed terminal = Some o')"

definition projectAgentRunAttemptTerminal :: "attempt_terminal \<Rightarrow> attempt_projection" where
  "projectAgentRunAttemptTerminal terminal =
     (let failure = getAgentRunAttemptFailure terminal;
          externalAbort = (external_abort terminal \<or> timeout_source_of terminal = Some ExternalTimeout);
          timedOut = (timeout_source_of terminal \<noteq> None)
      in \<lparr>ap_aborted = (interrupting_abort terminal \<or> hasAgentRunAttemptTimeoutAbort terminal),
          ap_cleanupYieldAborted = (is_aborted terminal \<and> \<not> interrupting_abort terminal),
          ap_externalAbort = externalAbort,
          ap_failed = (failure \<noteq> None),
          ap_idleTimedOut = (timeout_source_of terminal = Some IdleTimeout),
          ap_interrupted = (externalAbort \<or> timedOut),
          ap_promptError = map_option snd failure,
          ap_promptErrorSource = map_option fst failure,
          ap_timedOut = timedOut,
          ap_timedOutByRunBudget = (timeout_source_of terminal = Some RunBudget),
          ap_timedOutDuringCompaction = timed_out_during terminal Compaction,
          ap_timedOutDuringToolExecution = timed_out_during terminal ToolExecution\<rparr>)"

end
