(* ===== verification/Run_Attempt_Facts.thy ===== *)
theory Run_Attempt_Facts
  imports Run_Attempt
begin

section \<open>What an attempt has seen\<close>

text \<open>
  The verdict of a terminal, all of it but the error: whether it failed, the strongest abort, the
  strongest timeout, the latest phase, and whether a timeout aborted the run. Verdicts combine
  component by component, and settling a combination lets a timeout absorb aborts and failures. The
  merge of the code implements that, so verdicts do not depend on the order of observations.
\<close>

subsection \<open>Merges that forget the order\<close>

locale observation_merge =
  fixes merge :: "'s \<Rightarrow> 's \<Rightarrow> 's" and view :: "'s \<Rightarrow> 'v" and combine :: "'v \<Rightarrow> 'v \<Rightarrow> 'v" and settle :: "'v \<Rightarrow> 'v"
  assumes view_merge: "view (merge s t) = settle (combine (view s) (view t))"
    and view_settled: "settle (view s) = view s"
    and settle_combine: "settle (combine (settle v) w) = settle (combine v w)"
    and combine_assoc: "combine (combine u v) w = combine u (combine v w)"
    and combine_commute: "combine v w = combine w v"
    and combine_idem: "combine v v = v"
begin

lemma view_foldl: "view (foldl merge s ts) = settle (foldl combine (view s) (map view ts))"
proof (induction ts rule: rev_induct)
  case Nil
  thus ?case by (simp add: view_settled)
next
  case (snoc t ts)
  thus ?case by (simp add: view_merge settle_combine)
qed

lemma combine_left_commute: "combine u (combine v w) = combine v (combine u w)"
  by (metis combine_assoc combine_commute)

lemma combine_idem_on: "comp_fun_idem combine"
proof
  show "combine y \<circ> combine x = combine x \<circ> combine y" for x y by (rule ext) (simp add: combine_left_commute)
  show "combine x \<circ> combine x = combine x" for x
    by (rule ext) (metis comp_apply combine_assoc combine_idem)
qed

lemma foldl_combine: "foldl combine v vs = Finite_Set.fold combine v (set vs)"
proof -
  have "foldl combine v vs = fold combine vs v"
    by (induction vs arbitrary: v) (simp_all add: combine_commute)
  thus ?thesis
    by (simp add: comp_fun_idem_on.fold_set_fold [OF combine_idem_on [unfolded comp_fun_idem_def'], of vs])
qed

lemma settled_order_free:
  "view ` set ts = view ` set us \<Longrightarrow> view (foldl merge s ts) = view (foldl merge s us)"
  by (simp add: view_foldl foldl_combine)

lemma seen_again: "t \<in> set ts \<Longrightarrow> view (merge (foldl merge s ts) t) = view (foldl merge s ts)"
  using settled_order_free [of "ts @ [t]" ts s] by (auto simp: insert_absorb)

end

subsection \<open>Verdicts\<close>

record attempt_verdict =
  av_failed :: bool
  av_abort :: nat
  av_timeout :: nat
  av_phase :: nat
  av_timeoutAborted :: bool

definition observation_rank :: "timeout_observation option \<Rightarrow> nat" where
  "observation_rank observation = (case observation of None \<Rightarrow> 0 | Some p \<Rightarrow> timeout_phase_rank (During p))"

definition seen_nothing :: attempt_verdict where
  "seen_nothing = \<lparr>av_failed = False, av_abort = 0, av_timeout = 0, av_phase = 0, av_timeoutAborted = False\<rparr>"

fun verdict :: "attempt_terminal \<Rightarrow> attempt_verdict" where
  "verdict AtOk = seen_nothing"
| "verdict (AtFailed _ observation) = seen_nothing\<lparr>av_failed := True, av_phase := observation_rank observation\<rparr>"
| "verdict (AtAborted source _ observation) =
     seen_nothing\<lparr>av_abort := Suc (abort_source_rank source), av_phase := observation_rank observation\<rparr>"
| "verdict (AtObserved phase _) = seen_nothing\<lparr>av_phase := observation_rank (Some phase)\<rparr>"
| "verdict (AtTimeout phase source aborted _) =
     seen_nothing\<lparr>av_timeout := timeout_source_rank source, av_phase := timeout_phase_rank phase, av_timeoutAborted := aborted\<rparr>"

definition combine_verdicts :: "attempt_verdict \<Rightarrow> attempt_verdict \<Rightarrow> attempt_verdict" where
  "combine_verdicts v w = \<lparr>av_failed = (av_failed v \<or> av_failed w), av_abort = max (av_abort v) (av_abort w),
     av_timeout = max (av_timeout v) (av_timeout w), av_phase = max (av_phase v) (av_phase w),
     av_timeoutAborted = (av_timeoutAborted v \<or> av_timeoutAborted w)\<rparr>"

definition settle_verdict :: "attempt_verdict \<Rightarrow> attempt_verdict" where
  "settle_verdict v =
     (if av_timeout v > 0
      then \<lparr>av_failed = False, av_abort = 0, av_timeout = (if av_abort v \<ge> 3 then max 4 (av_timeout v) else av_timeout v),
            av_phase = av_phase v, av_timeoutAborted = (av_timeoutAborted v \<or> av_abort v \<ge> 2)\<rparr>
      else if av_abort v > 0 then v\<lparr>av_failed := False\<rparr> else v)"

lemmas verdict_defs = seen_nothing_def combine_verdicts_def settle_verdict_def observation_rank_def

lemma verdict_eqI:
  "av_failed v = av_failed w \<Longrightarrow> av_abort v = av_abort w \<Longrightarrow> av_timeout v = av_timeout w \<Longrightarrow> av_phase v = av_phase w
    \<Longrightarrow> av_timeoutAborted v = av_timeoutAborted w \<Longrightarrow> v = (w :: attempt_verdict)"
  by simp

lemma verdict_with_failure [simp]: "verdict (withAgentRunAttemptFailure t f) = verdict t"
  by (cases t; cases f) simp_all

lemma observation_simps [simp]:
  "observation_rank None = 0" "observation_rank (Some p) = timeout_phase_rank (During p)"
  by (simp_all add: observation_rank_def)

lemma stronger_rank:
  "timeout_phase_rank (During (stronger_observation observation p))
     = max (observation_rank observation) (timeout_phase_rank (During p))"
proof (cases observation)
  case None
  thus ?thesis by (cases p) (simp_all add: stronger_observation_def)
next
  case (Some q)
  thus ?thesis by (cases p; cases q) (simp_all add: stronger_observation_def)
qed

lemma merged_phase_rank:
  "timeout_phase_rank (mergeAgentRunAttemptTimeoutPhase phase observation) = max (timeout_phase_rank phase) (observation_rank observation)"
  by (simp add: mergeAgentRunAttemptTimeoutPhase_def observation_rank_def max_def split: option.split)

lemma max_choice: "f (if f y > f x then y else x) = max (f x) (f y)" for f :: "'a \<Rightarrow> nat"
  by (simp add: max_def)

lemma observation_choice:
  "timeout_phase_rank (During (if p = Compaction \<or> q = Compaction then Compaction else ToolExecution))
     = max (timeout_phase_rank (During p)) (timeout_phase_rank (During q))"
  by (cases p; cases q) simp_all

lemma timeout_source_pos [simp]: "0 < timeout_source_rank s" "timeout_source_rank s \<le> 4"
  by (cases s; simp)+

lemma abort_source_3 [simp]: "3 \<le> Suc (abort_source_rank s) \<longleftrightarrow> s = ExternalAbort" "2 \<le> Suc (abort_source_rank s) \<longleftrightarrow> s \<noteq> YieldCleanup"
  "2 \<le> abort_source_rank s \<longleftrightarrow> s = ExternalAbort" "Suc 0 \<le> abort_source_rank s \<longleftrightarrow> s \<noteq> YieldCleanup"
  by (cases s; simp)+

lemma settle_verdict_id [simp]: "settle_verdict (verdict t) = verdict t"
  by (cases t) (simp_all add: verdict_defs)

lemma settle_combined: "settle_verdict (combine_verdicts (settle_verdict v) w) = settle_verdict (combine_verdicts v w)"
  by (rule verdict_eqI) (auto simp: settle_verdict_def combine_verdicts_def)

lemma verdicts_commute: "combine_verdicts v w = combine_verdicts w v"
  by (simp add: combine_verdicts_def max.commute disj_commute)

lemma verdict_with_observed:
  assumes "is_aborted t \<or> (\<exists>f o'. t = AtFailed f o')"
  shows "verdict (withAgentRunAttemptTimeoutObservation t p) = settle_verdict (combine_verdicts (verdict t) (verdict (AtObserved p f)))"
    "verdict (withAgentRunAttemptTimeoutObservation t p) = settle_verdict (combine_verdicts (verdict (AtObserved p f)) (verdict t))"
  using assms by (cases t; simp add: verdict_defs stronger_rank max.commute)+

lemma verdict_timeouts:
  "verdict (merge_timeouts (AtObserved p f) (AtObserved q g)) = settle_verdict (combine_verdicts (verdict (AtObserved p f)) (verdict (AtObserved q g)))"
  "verdict (merge_timeouts (AtObserved p f) (AtTimeout y t b g)) = settle_verdict (combine_verdicts (verdict (AtObserved p f)) (verdict (AtTimeout y t b g)))"
  "verdict (merge_timeouts (AtTimeout x s a f) (AtObserved q g)) = settle_verdict (combine_verdicts (verdict (AtTimeout x s a f)) (verdict (AtObserved q g)))"
  "verdict (merge_timeouts (AtTimeout x s a f) (AtTimeout y t b g)) = settle_verdict (combine_verdicts (verdict (AtTimeout x s a f)) (verdict (AtTimeout y t b g)))"
  by (simp_all add: verdict_defs max_choice observation_choice max.commute del: timeout_phase_rank.simps)

lemma verdict_absorb:
  assumes "is_aborted t \<or> (\<exists>f o'. t = AtFailed f o')"
  shows "verdict (absorb_into_timeout (AtTimeout x s a f) t) = settle_verdict (combine_verdicts (verdict t) (verdict (AtTimeout x s a f)))"
proof -
  have "max 4 (timeout_source_rank s) = timeout_source_rank ExternalTimeout" using timeout_source_pos(2) [of s] by simp
  with assms show ?thesis
    by (cases t) (auto simp: verdict_defs merged_phase_rank max.commute simp del: timeout_source_rank.simps timeout_phase_rank.simps)
qed

lemma verdict_absorb_left:
  "is_aborted t \<or> (\<exists>f o'. t = AtFailed f o') \<Longrightarrow> verdict (absorb_into_timeout (AtTimeout x s a f) t)
    = settle_verdict (combine_verdicts (verdict (AtTimeout x s a f)) (verdict t))"
  by (subst verdicts_commute) (rule verdict_absorb)

lemma interruption:
  "is_aborted (AtAborted s f o') \<or> (\<exists>g p. AtAborted s f o' = AtFailed g p)"
  "is_aborted (AtFailed g p) \<or> (\<exists>h q. AtFailed g p = AtFailed h q)"
  by simp_all

lemma verdict_both:
  assumes "is_aborted t \<or> (\<exists>f o'. t = AtFailed f o')" "is_aborted u \<or> (\<exists>f o'. u = AtFailed f o')"
  shows "verdict (observe_all (select_interruption t u) [timeout_observed t, timeout_observed u])
    = settle_verdict (combine_verdicts (verdict t) (verdict u))"
  using assms
  by (cases t; cases u)
    (auto simp: observe_all_def verdict_defs stronger_rank max_choice split: option.split simp del: timeout_phase_rank.simps abort_source_rank.simps)

lemma merge_verdict: "verdict (mergeAgentRunAttemptTerminal t u) = settle_verdict (combine_verdicts (verdict t) (verdict u))"
proof (cases "t = AtOk \<or> u = AtOk")
  case True
  have c: "combine_verdicts seen_nothing v = v" "combine_verdicts v seen_nothing = v" for v
    by (simp_all add: combine_verdicts_def seen_nothing_def)
  from True show ?thesis by (auto simp: mergeAgentRunAttemptTerminal_def Let_def c)
next
  case False
  thus ?thesis
    by (cases t; cases u) (simp_all only: mergeAgentRunAttemptTerminal_def Let_def verdict_with_failure if_False if_True
        attempt_terminal.distinct attempt_terminal.case prod.case simp_thms verdict_timeouts
        verdict_absorb_left [OF interruption(1)] verdict_absorb_left [OF interruption(2)]
        verdict_with_observed [OF interruption(1)] verdict_with_observed [OF interruption(2)]
        verdict_both [OF interruption(1) interruption(1)] verdict_both [OF interruption(1) interruption(2)]
        verdict_both [OF interruption(2) interruption(1)] verdict_both [OF interruption(2) interruption(2)],
      (rule arg_cong [where f = settle_verdict], rule verdicts_commute)+)
qed

interpretation attempts: observation_merge mergeAgentRunAttemptTerminal verdict combine_verdicts settle_verdict
proof
  show "combine_verdicts (combine_verdicts u v) w = combine_verdicts u (combine_verdicts v w)" for u v w
    by (simp add: combine_verdicts_def max.assoc)
  show "combine_verdicts v v = v" for v
    by (simp add: combine_verdicts_def)
  show "settle_verdict (combine_verdicts (settle_verdict v) w) = settle_verdict (combine_verdicts v w)" for v w
    by (rule settle_combined)
  show "combine_verdicts v w = combine_verdicts w v" for v w
    by (rule verdicts_commute)
qed (simp_all add: merge_verdict)

subsection \<open>The error is the last one reported\<close>

lemma failure_with [simp]:
  "t \<noteq> AtOk \<Longrightarrow> getAgentRunAttemptFailure (withAgentRunAttemptFailure t (Some f)) = Some f"
  "withAgentRunAttemptFailure t None = t"
  by (cases t; simp)+

lemma observed_failure [simp]: "getAgentRunAttemptFailure (withAgentRunAttemptTimeoutObservation t p) = getAgentRunAttemptFailure t"
  by (cases t) simp_all

lemma observed_ok [simp]: "withAgentRunAttemptTimeoutObservation t p = AtOk \<longleftrightarrow> t = AtOk"
  by (cases t) simp_all

lemma merge_failure:
  "getAgentRunAttemptFailure (mergeAgentRunAttemptTerminal t u)
     = (case getAgentRunAttemptFailure u of Some f \<Rightarrow> Some f | None \<Rightarrow> getAgentRunAttemptFailure t)"
proof (cases "u = AtOk")
  case True
  thus ?thesis by (simp add: mergeAgentRunAttemptTerminal_def)
next
  case False
  show ?thesis
  proof (cases "getAgentRunAttemptFailure u = None \<and> getAgentRunAttemptFailure t = None")
    case True
    with False show ?thesis
      by (cases t; cases u) (auto simp: mergeAgentRunAttemptTerminal_def observe_all_def Let_def split: option.split)
  next
    case F: False
    then obtain f where f: "(case getAgentRunAttemptFailure u of Some f \<Rightarrow> Some f | None \<Rightarrow> getAgentRunAttemptFailure t) = Some f"
      by (cases "getAgentRunAttemptFailure u") auto
    show ?thesis
      using False unfolding f mergeAgentRunAttemptTerminal_def Let_def
      by (cases t; cases u) (auto simp: observe_all_def split: option.split)
  qed
qed

text \<open>The last failure of a list of observations.\<close>

definition last_failure :: "attempt_terminal list \<Rightarrow> attempt_failure option" where
  "last_failure ts = (case List.map_filter getAgentRunAttemptFailure (rev ts) of [] \<Rightarrow> None | f # _ \<Rightarrow> Some f)"

lemma foldl_failure: "getAgentRunAttemptFailure (foldl mergeAgentRunAttemptTerminal AtOk ts) = last_failure ts"
proof (induction ts rule: rev_induct)
  case Nil
  show ?case by (simp add: last_failure_def map_filter_simps)
next
  case (snoc t ts)
  thus ?case by (simp add: merge_failure last_failure_def map_filter_simps split: option.split)
qed

subsection \<open>The projection of a verdict\<close>

lemma projection_verdict:
  "ap_timedOut (projectAgentRunAttemptTerminal t) \<longleftrightarrow> av_timeout (verdict t) > 0"
  "ap_idleTimedOut (projectAgentRunAttemptTerminal t) \<longleftrightarrow> av_timeout (verdict t) = 2"
  "ap_timedOutByRunBudget (projectAgentRunAttemptTerminal t) \<longleftrightarrow> av_timeout (verdict t) = 3"
  "ap_externalAbort (projectAgentRunAttemptTerminal t) \<longleftrightarrow> av_timeout (verdict t) = 4 \<or> av_abort (verdict t) = 3"
  "ap_aborted (projectAgentRunAttemptTerminal t) \<longleftrightarrow> av_timeoutAborted (verdict t) \<or> av_abort (verdict t) \<ge> 2"
  "ap_cleanupYieldAborted (projectAgentRunAttemptTerminal t) \<longleftrightarrow> av_abort (verdict t) = 1"
  "ap_timedOutDuringCompaction (projectAgentRunAttemptTerminal t) \<longleftrightarrow> av_phase (verdict t) = 2"
  "ap_timedOutDuringToolExecution (projectAgentRunAttemptTerminal t) \<longleftrightarrow> av_phase (verdict t) = 1"
  by (cases t; auto simp: projectAgentRunAttemptTerminal_def Let_def verdict_defs
      elim: abort_source_rank.elims timeout_source_rank.elims timeout_phase_rank.elims split: option.splits)+

subsection \<open>Many observations\<close>

abbreviation observed_terminal :: "attempt_terminal list \<Rightarrow> attempt_terminal" where
  "observed_terminal ts \<equiv> foldl mergeAgentRunAttemptTerminal AtOk ts"

definition combined_verdict :: "attempt_terminal list \<Rightarrow> attempt_verdict" where
  "combined_verdict ts = foldl combine_verdicts seen_nothing (map verdict ts)"

lemma observed_verdict: "verdict (observed_terminal ts) = settle_verdict (combined_verdict ts)"
  by (simp add: attempts.view_foldl combined_verdict_def)

lemma combined_snoc: "combined_verdict (ts @ [t]) = combine_verdicts (combined_verdict ts) (verdict t)"
  by (simp add: combined_verdict_def)

lemma combined_Nil: "combined_verdict [] = seen_nothing"
  by (simp add: combined_verdict_def)

lemma combined_iff:
  "0 < k \<Longrightarrow> k \<le> av_abort (combined_verdict ts) \<longleftrightarrow> list_ex (\<lambda>t. k \<le> av_abort (verdict t)) ts"
  "0 < k \<Longrightarrow> k \<le> av_timeout (combined_verdict ts) \<longleftrightarrow> list_ex (\<lambda>t. k \<le> av_timeout (verdict t)) ts"
  "0 < k \<Longrightarrow> k \<le> av_phase (combined_verdict ts) \<longleftrightarrow> list_ex (\<lambda>t. k \<le> av_phase (verdict t)) ts"
  "av_timeoutAborted (combined_verdict ts) \<longleftrightarrow> list_ex (\<lambda>t. av_timeoutAborted (verdict t)) ts"
  by (induction ts rule: rev_induct)
    (auto simp: combined_snoc combined_Nil combine_verdicts_def seen_nothing_def le_max_iff_disj)

lemma rank_bounds [simp]: "abort_source_rank s \<le> 2" "timeout_phase_rank p \<le> 2" "observation_rank o' \<le> 2"
proof -
  show "abort_source_rank s \<le> 2" by (cases s) simp_all
  have p: "timeout_phase_rank p \<le> 2" for p by (cases p rule: timeout_phase_rank.cases) simp_all
  thus "timeout_phase_rank p \<le> 2" .
  show "observation_rank o' \<le> 2" using p by (cases o') (simp_all del: timeout_phase_rank.simps)
qed

lemma verdict_bounds:
  "av_timeout (verdict t) \<le> 4" "av_abort (verdict t) \<le> 3" "av_phase (verdict t) \<le> 2"
  "av_timeoutAborted (verdict t) \<Longrightarrow> 0 < av_timeout (verdict t)"
proof -
  show "av_timeout (verdict t) \<le> 4" by (cases t) (simp_all add: seen_nothing_def)
  show "av_abort (verdict t) \<le> 3"
    using rank_bounds(1) by (cases t) (auto simp: seen_nothing_def numeral_3_eq_3 numeral_2_eq_2 simp del: rank_bounds)
  show "av_phase (verdict t) \<le> 2" using rank_bounds(2)[of "During o'" for o'] by (cases t) (simp_all add: seen_nothing_def)
  show "0 < av_timeout (verdict t)" if "av_timeoutAborted (verdict t)" using that by (cases t) (simp_all add: seen_nothing_def)
qed

text \<open>The fields of the projection after any observations, one bound at a time.\<close>

lemma settled_fields:
  "0 < av_timeout (settle_verdict v) \<longleftrightarrow> 1 \<le> av_timeout v"
  "4 \<le> av_timeout (settle_verdict v) \<or> 3 \<le> av_abort (settle_verdict v) \<longleftrightarrow> 4 \<le> av_timeout v \<or> 3 \<le> av_abort v"
  "av_timeoutAborted (settle_verdict v) \<or> 2 \<le> av_abort (settle_verdict v) \<longleftrightarrow> av_timeoutAborted v \<or> 2 \<le> av_abort v"
  "av_phase (settle_verdict v) = av_phase v"
  "3 \<le> av_timeout (settle_verdict v) \<longleftrightarrow> 3 \<le> av_timeout v \<or> 1 \<le> av_timeout v \<and> 3 \<le> av_abort v"
  "2 \<le> av_timeout (settle_verdict v) \<longleftrightarrow> 2 \<le> av_timeout v \<or> 1 \<le> av_timeout v \<and> 3 \<le> av_abort v"
  "4 \<le> av_timeout (settle_verdict v) \<longleftrightarrow> 4 \<le> av_timeout v \<or> 1 \<le> av_timeout v \<and> 3 \<le> av_abort v"
  "av_abort (settle_verdict v) = (if 1 \<le> av_timeout v then 0 else av_abort v)"
  by (auto simp: settle_verdict_def)

lemma eq_bounds: "n = k \<longleftrightarrow> k \<le> n \<and> \<not> Suc k \<le> (n :: nat)"
  by auto

lemma projection_bounds:
  "ap_timedOut (projectAgentRunAttemptTerminal t) \<longleftrightarrow> 1 \<le> av_timeout (verdict t)"
  "ap_idleTimedOut (projectAgentRunAttemptTerminal t) \<longleftrightarrow> 2 \<le> av_timeout (verdict t) \<and> \<not> 3 \<le> av_timeout (verdict t)"
  "ap_timedOutByRunBudget (projectAgentRunAttemptTerminal t) \<longleftrightarrow> 3 \<le> av_timeout (verdict t) \<and> \<not> 4 \<le> av_timeout (verdict t)"
  "ap_externalAbort (projectAgentRunAttemptTerminal t) \<longleftrightarrow> 4 \<le> av_timeout (verdict t) \<or> 3 \<le> av_abort (verdict t)"
  "ap_aborted (projectAgentRunAttemptTerminal t) \<longleftrightarrow> av_timeoutAborted (verdict t) \<or> 2 \<le> av_abort (verdict t)"
  "ap_cleanupYieldAborted (projectAgentRunAttemptTerminal t) \<longleftrightarrow> 1 \<le> av_abort (verdict t) \<and> \<not> 2 \<le> av_abort (verdict t)"
  "ap_timedOutDuringCompaction (projectAgentRunAttemptTerminal t) \<longleftrightarrow> 2 \<le> av_phase (verdict t)"
  "ap_timedOutDuringToolExecution (projectAgentRunAttemptTerminal t) \<longleftrightarrow> 1 \<le> av_phase (verdict t) \<and> \<not> 2 \<le> av_phase (verdict t)"
  using verdict_bounds [of t] by (auto simp: projection_verdict)

lemma verdict_steps:
  "2 \<le> av_timeout v \<Longrightarrow> 1 \<le> av_timeout v" "3 \<le> av_timeout v \<Longrightarrow> 2 \<le> av_timeout v" "4 \<le> av_timeout v \<Longrightarrow> 3 \<le> av_timeout v"
  "2 \<le> av_abort v \<Longrightarrow> 1 \<le> av_abort v" "3 \<le> av_abort v \<Longrightarrow> 2 \<le> av_abort v"
  "2 \<le> av_phase v \<Longrightarrow> 1 \<le> av_phase v"
  by simp_all

lemma seen_iff:
  "1 \<le> av_timeout (combined_verdict ts) \<longleftrightarrow> list_ex (\<lambda>t. 1 \<le> av_timeout (verdict t)) ts"
  "2 \<le> av_timeout (combined_verdict ts) \<longleftrightarrow> list_ex (\<lambda>t. 2 \<le> av_timeout (verdict t)) ts"
  "3 \<le> av_timeout (combined_verdict ts) \<longleftrightarrow> list_ex (\<lambda>t. 3 \<le> av_timeout (verdict t)) ts"
  "4 \<le> av_timeout (combined_verdict ts) \<longleftrightarrow> list_ex (\<lambda>t. 4 \<le> av_timeout (verdict t)) ts"
  "1 \<le> av_abort (combined_verdict ts) \<longleftrightarrow> list_ex (\<lambda>t. 1 \<le> av_abort (verdict t)) ts"
  "2 \<le> av_abort (combined_verdict ts) \<longleftrightarrow> list_ex (\<lambda>t. 2 \<le> av_abort (verdict t)) ts"
  "3 \<le> av_abort (combined_verdict ts) \<longleftrightarrow> list_ex (\<lambda>t. 3 \<le> av_abort (verdict t)) ts"
  "1 \<le> av_phase (combined_verdict ts) \<longleftrightarrow> list_ex (\<lambda>t. 1 \<le> av_phase (verdict t)) ts"
  "2 \<le> av_phase (combined_verdict ts) \<longleftrightarrow> list_ex (\<lambda>t. 2 \<le> av_phase (verdict t)) ts"
  by (rule combined_iff; simp)+

lemma settled_bounds:
  "1 \<le> av_timeout (settle_verdict v) \<longleftrightarrow> 1 \<le> av_timeout v"
  "1 \<le> av_abort (settle_verdict v) \<longleftrightarrow> \<not> 1 \<le> av_timeout v \<and> 1 \<le> av_abort v"
  "2 \<le> av_abort (settle_verdict v) \<longleftrightarrow> \<not> 1 \<le> av_timeout v \<and> 2 \<le> av_abort v"
  "3 \<le> av_abort (settle_verdict v) \<longleftrightarrow> \<not> 1 \<le> av_timeout v \<and> 3 \<le> av_abort v"
  "av_timeoutAborted (settle_verdict v) \<longleftrightarrow> av_timeoutAborted v \<or> 1 \<le> av_timeout v \<and> 2 \<le> av_abort v"
  by (auto simp: settle_verdict_def)

lemma aborted_timed_out: "av_timeoutAborted (verdict t) \<Longrightarrow> 1 \<le> av_timeout (verdict t)"
  using verdict_bounds(4) [of t] by simp

lemmas observed_bounds = observed_verdict settled_bounds settled_fields(4-7) seen_iff combined_iff(4) list_ex_iff

lemma observed_flags:
  "ap_timedOut (projectAgentRunAttemptTerminal (observed_terminal ts)) = list_ex (\<lambda>t. ap_timedOut (projectAgentRunAttemptTerminal t)) ts"
  "ap_aborted (projectAgentRunAttemptTerminal (observed_terminal ts)) = list_ex (\<lambda>t. ap_aborted (projectAgentRunAttemptTerminal t)) ts"
  "ap_externalAbort (projectAgentRunAttemptTerminal (observed_terminal ts)) = list_ex (\<lambda>t. ap_externalAbort (projectAgentRunAttemptTerminal t)) ts"
  "ap_timedOutDuringCompaction (projectAgentRunAttemptTerminal (observed_terminal ts))
     = list_ex (\<lambda>t. ap_timedOutDuringCompaction (projectAgentRunAttemptTerminal t)) ts"
  unfolding projection_bounds observed_bounds by blast+

lemma weaker_flags:
  "ap_timedOutDuringToolExecution (projectAgentRunAttemptTerminal (observed_terminal ts))
     = (list_ex (\<lambda>t. ap_timedOutDuringToolExecution (projectAgentRunAttemptTerminal t)) ts
        \<and> \<not> list_ex (\<lambda>t. ap_timedOutDuringCompaction (projectAgentRunAttemptTerminal t)) ts)"
  "ap_timedOutByRunBudget (projectAgentRunAttemptTerminal (observed_terminal ts))
     = (list_ex (\<lambda>t. ap_timedOutByRunBudget (projectAgentRunAttemptTerminal t)) ts
        \<and> \<not> list_ex (\<lambda>t. ap_externalAbort (projectAgentRunAttemptTerminal t)) ts)"
  "ap_idleTimedOut (projectAgentRunAttemptTerminal (observed_terminal ts))
     = (list_ex (\<lambda>t. ap_idleTimedOut (projectAgentRunAttemptTerminal t)) ts
        \<and> \<not> list_ex (\<lambda>t. ap_timedOutByRunBudget (projectAgentRunAttemptTerminal t)) ts
        \<and> \<not> list_ex (\<lambda>t. ap_externalAbort (projectAgentRunAttemptTerminal t)) ts)"
  "ap_cleanupYieldAborted (projectAgentRunAttemptTerminal (observed_terminal ts))
     = (list_ex (\<lambda>t. ap_cleanupYieldAborted (projectAgentRunAttemptTerminal t)) ts
        \<and> \<not> list_ex (\<lambda>t. ap_aborted (projectAgentRunAttemptTerminal t)) ts
        \<and> \<not> list_ex (\<lambda>t. ap_timedOut (projectAgentRunAttemptTerminal t)) ts)"
  unfolding projection_bounds observed_bounds using verdict_steps aborted_timed_out by blast+

end
