(* ===== verification/Run_Outcome.thy ===== *)
theory Run_Outcome
  imports Run_Attempt Json
begin

section \<open>The outcome of a run\<close>

text \<open>
  The terminal outcomes of \<^verbatim>\<open>src/agents/agent-run-terminal-outcome.ts\<close> with the
  parts of \<^verbatim>\<open>run-termination.ts\<close>,
  \<^verbatim>\<open>run-timeout-attribution.ts\<close> and
  \<^verbatim>\<open>src/shared/agent-liveness.ts\<close> it uses: reading raw status metadata, mapping an
  attempt, and merging a later observation into the outcome of a run. Values of unknown type are JSON
  values, numbers are finite. Errors that throw when they are looked at are left out.
\<close>

subsection \<open>Texts and phases\<close>

datatype run_phase = Queue | Preflight | Provider | PostTurn | GatewayDraining

fun run_phase_text :: "run_phase \<Rightarrow> string" where
  "run_phase_text Queue = ''queue''"
| "run_phase_text Preflight = ''preflight''"
| "run_phase_text Provider = ''provider''"
| "run_phase_text PostTurn = ''post_turn''"
| "run_phase_text GatewayDraining = ''gateway_draining''"

definition AGENT_RUN_TIMEOUT_PHASES :: "run_phase list" where
  "AGENT_RUN_TIMEOUT_PHASES = [Queue, Preflight, Provider, PostTurn, GatewayDraining]"

definition normalizeAgentRunTimeoutPhase :: "json option \<Rightarrow> run_phase option" where
  "normalizeAgentRunTimeoutPhase v =
     (case json_string v of
        None \<Rightarrow> None
      | Some s \<Rightarrow> find (\<lambda>p. run_phase_text p = js_trim s) AGENT_RUN_TIMEOUT_PHASES)"

fun asBoolean :: "json option \<Rightarrow> bool option" where
  "asBoolean (Some (JBool b)) = Some b"
| "asBoolean _ = None"

fun asFiniteTimestamp :: "json option \<Rightarrow> rat option" where
  "asFiniteTimestamp (Some (JNum r)) = Some r"
| "asFiniteTimestamp _ = None"

definition asNonEmptyString :: "json option \<Rightarrow> string option" where
  "asNonEmptyString v = (case json_string v of None \<Rightarrow> None | Some s \<Rightarrow> if js_trim s = [] then None else Some s)"

definition isBlockedLivenessState :: "string option \<Rightarrow> bool" where
  "isBlockedLivenessState v \<longleftrightarrow> map_option (js_lower \<circ> js_trim) v = Some ''blocked''"

definition isAbandonedLivenessState :: "string option \<Rightarrow> bool" where
  "isAbandonedLivenessState v \<longleftrightarrow> map_option (js_lower \<circ> js_trim) v = Some ''abandoned''"

definition formatBlockedLivenessError :: "string option \<Rightarrow> string" where
  "formatBlockedLivenessError e =
     (let message = case_option [] js_trim e
      in if message = [] then ''Agent run blocked before producing a usable result.'' else message)"

definition formatAbandonedLivenessError :: "string option \<Rightarrow> string" where
  "formatAbandonedLivenessError e =
     (let message = case_option [] js_trim e
      in if message = [] then ''Agent run ended before producing a complete result.'' else message)"

definition AGENT_RUN_ABORTED_ERROR :: string where
  "AGENT_RUN_ABORTED_ERROR = ''agent run aborted''"

definition AGENT_RUN_RESTART_ABORT_STOP_REASON :: string where
  "AGENT_RUN_RESTART_ABORT_STOP_REASON = ''restart''"

definition AGENT_RUN_RESTART_ABORT_ERROR_CODE :: string where
  "AGENT_RUN_RESTART_ABORT_ERROR_CODE = ''OPENCLAW_RESTART_ABORT''"

definition isAbortedAgentStopReason :: "string option \<Rightarrow> bool" where
  "isAbortedAgentStopReason v \<longleftrightarrow> v = Some ''aborted'' \<or> v = Some AGENT_RUN_RESTART_ABORT_STOP_REASON"

definition isCancellationStopReason :: "string option \<Rightarrow> bool" where
  "isCancellationStopReason v \<longleftrightarrow> v = Some ''rpc'' \<or> v = Some ''stop''"

definition isHardAgentRunTimeoutPhase :: "json option \<Rightarrow> bool" where
  "isHardAgentRunTimeoutPhase v \<longleftrightarrow>
     (case normalizeAgentRunTimeoutPhase v of
        None \<Rightarrow> False | Some p \<Rightarrow> p \<in> {Preflight, Provider, PostTurn})"

subsection \<open>Outcomes\<close>

datatype wait_status = WaitOk | WaitError | WaitTimeout

datatype terminal_reason =
    Completed | HardTimeout | TimedOut | Cancelled | Aborted | Blocked | Abandoned | Failed

record run_outcome =
  ro_reason :: terminal_reason
  ro_status :: wait_status
  ro_error :: "string option"
  ro_stopReason :: "string option"
  ro_livenessState :: "string option"
  ro_timeoutPhase :: "run_phase option"
  ro_providerStarted :: "bool option"
  ro_startedAt :: "rat option"
  ro_endedAt :: "rat option"

record terminal_input =
  ti_status :: wait_status
  ti_error :: "json option"
  ti_stopReason :: "json option"
  ti_livenessState :: "json option"
  ti_timeoutPhase :: "json option"
  ti_providerStarted :: "json option"
  ti_startedAt :: "json option"
  ti_endedAt :: "json option"

definition isStickyAgentRunTerminalOutcome :: "run_outcome option \<Rightarrow> bool" where
  "isStickyAgentRunTerminalOutcome outcome \<longleftrightarrow>
     (case outcome of None \<Rightarrow> False | Some o' \<Rightarrow> ro_reason o' = HardTimeout \<or> ro_reason o' = Cancelled)"

definition buildAgentRunTerminalOutcome :: "terminal_input \<Rightarrow> run_outcome" where
  "buildAgentRunTerminalOutcome input =
     (let stopReason = asNonEmptyString (ti_stopReason input);
          livenessState = asNonEmptyString (ti_livenessState input);
          timeoutPhase = normalizeAgentRunTimeoutPhase (ti_timeoutPhase input);
          providerStarted = asBoolean (ti_providerStarted input);
          rawError = asNonEmptyString (ti_error input);
          restartCancelled = (stopReason = Some AGENT_RUN_RESTART_ABORT_STOP_REASON);
          hardTimeout = (isHardAgentRunTimeoutPhase (map_option (JStr \<circ> run_phase_text) timeoutPhase)
            \<or> \<not> restartCancelled \<and> ti_status input = WaitTimeout \<and> providerStarted = Some True);
          aborted = (isAbortedAgentStopReason stopReason \<and> \<not> restartCancelled);
          cancelled = (restartCancelled \<or> ti_status input \<noteq> WaitOk \<and> isCancellationStopReason stopReason);
          blocked = isBlockedLivenessState livenessState;
          abandoned = isAbandonedLivenessState livenessState;
          error = (if hardTimeout then rawError
            else if blocked then Some (formatBlockedLivenessError rawError)
            else if aborted \<and> rawError = None then Some AGENT_RUN_ABORTED_ERROR
            else if aborted \<or> cancelled then rawError
            else if abandoned then Some (formatAbandonedLivenessError rawError)
            else rawError);
          reason = (if hardTimeout then HardTimeout else if blocked then Blocked else if aborted then Aborted
            else if cancelled then Cancelled else if abandoned then Abandoned
            else if ti_status input = WaitTimeout then TimedOut
            else if ti_status input = WaitError then Failed else Completed)
      in \<lparr>ro_reason = reason,
          ro_status = (if reason = Completed then WaitOk
            else if reason = HardTimeout \<or> reason = TimedOut then WaitTimeout else WaitError),
          ro_error = error, ro_stopReason = stopReason, ro_livenessState = livenessState,
          ro_timeoutPhase = timeoutPhase, ro_providerStarted = providerStarted,
          ro_startedAt = asFiniteTimestamp (ti_startedAt input),
          ro_endedAt = asFiniteTimestamp (ti_endedAt input)\<rparr>)"

subsection \<open>The outcome of an attempt\<close>

record abort_signal =
  as_aborted :: bool
  as_reason :: thrown

fun isAgentRunRestartAbortReason :: "thrown \<Rightarrow> bool" where
  "isAgentRunRestartAbortReason (ThrownError _ code _) = (code = Some AGENT_RUN_RESTART_ABORT_ERROR_CODE)"
| "isAgentRunRestartAbortReason _ = False"

fun isAgentRunTimeoutAbortReason :: "thrown \<Rightarrow> bool" where
  "isAgentRunTimeoutAbortReason (ThrownError name _ _) = (name = ''TimeoutError'')"
| "isAgentRunTimeoutAbortReason (ThrownObject name) = (name = Some ''TimeoutError'')"
| "isAgentRunTimeoutAbortReason _ = False"

definition resolveAgentRunAbortLifecycleFields :: "abort_signal option \<Rightarrow> bool \<times> string option" where
  "resolveAgentRunAbortLifecycleFields signal =
     (case signal of
        None \<Rightarrow> (False, None)
      | Some s \<Rightarrow>
          if \<not> as_aborted s then (False, None)
          else (True, Some (if isAgentRunRestartAbortReason (as_reason s) then AGENT_RUN_RESTART_ABORT_STOP_REASON
            else if isAgentRunTimeoutAbortReason (as_reason s) then ''timeout'' else ''aborted'')))"

text \<open>Through at most three causes.\<close>

fun restart_within :: "nat \<Rightarrow> thrown \<Rightarrow> bool" where
  "restart_within 0 candidate = False"
| "restart_within (Suc n) candidate =
     (if isAgentRunRestartAbortReason candidate then True
      else case candidate of ThrownError _ _ (Some cause) \<Rightarrow> restart_within n cause | _ \<Rightarrow> False)"

definition hasRestartAbortReason :: "thrown option \<Rightarrow> bool" where
  "hasRestartAbortReason v = (case v of None \<Rightarrow> False | Some e \<Rightarrow> restart_within 3 e)"

record prompt_timeout =
  pt_livenessState :: "string option"
  pt_timeoutPhase :: "run_phase option"
  pt_providerStarted :: "bool option"

record assistant_end =
  ae_stopReason :: "string option"
  ae_errorMessage :: "string option"

fun thrown_json :: "thrown \<Rightarrow> json option" where
  "thrown_json (ThrownText s) = Some (JStr s)"
| "thrown_json _ = Some JNull"

fun during_prompt :: "attempt_terminal \<Rightarrow> bool" where
  "during_prompt (AtTimeout phase _ _ _) = (phase = Prompt)"
| "during_prompt _ = False"

definition buildAgentRunTerminalOutcomeFromAttempt ::
    "attempt_terminal \<Rightarrow> prompt_timeout option \<Rightarrow> assistant_end option \<Rightarrow> abort_signal option \<Rightarrow> run_outcome" where
  "buildAgentRunTerminalOutcomeFromAttempt terminal promptTimeoutOutcome assistant abortSignal =
     (let projected = projectAgentRunAttemptTerminal terminal;
          (abortAborted, abortStopReason) = resolveAgentRunAbortLifecycleFields abortSignal;
          timedOut = (ap_timedOut projected \<or> abortStopReason = Some ''timeout'');
          timedOutDuringPrompt = (ap_timedOut projected \<and> during_prompt terminal);
          timeoutPhase = (case Option.bind promptTimeoutOutcome pt_timeoutPhase of
              Some p \<Rightarrow> Some p | None \<Rightarrow> if timedOutDuringPrompt then Some Provider else None);
          providerStarted = (case Option.bind promptTimeoutOutcome pt_providerStarted of
              Some b \<Rightarrow> Some b | None \<Rightarrow> if timedOutDuringPrompt then Some True else None);
          restartAborted = hasRestartAbortReason (ap_promptError projected);
          assistantStopReason = (if ap_promptErrorSource projected \<noteq> None then None
            else Option.bind assistant ae_stopReason);
          unattributedAttemptTimeout = (ap_timedOut projected \<and> timeoutPhase = None \<and> providerStarted \<noteq> Some True);
          stopReason = (if unattributedAttemptTimeout then None
            else if abortStopReason \<noteq> None then abortStopReason
            else if restartAborted then Some AGENT_RUN_RESTART_ABORT_STOP_REASON
            else if \<not> timedOut \<and> ap_aborted projected then Some ''aborted''
            else if \<not> timedOut then assistantStopReason else None);
          status = (if timedOut then WaitTimeout
            else if abortAborted \<or> ap_aborted projected \<or> ap_promptErrorSource projected \<noteq> None
              \<or> assistantStopReason = Some ''error'' then WaitError
            else WaitOk)
      in buildAgentRunTerminalOutcome
          \<lparr>ti_status = status,
           ti_error = (if ap_promptErrorSource projected \<noteq> None
             then Option.bind (ap_promptError projected) thrown_json
             else map_option JStr (Option.bind assistant ae_errorMessage)),
           ti_stopReason = map_option JStr stopReason,
           ti_livenessState = map_option JStr (Option.bind promptTimeoutOutcome pt_livenessState),
           ti_timeoutPhase = map_option (JStr \<circ> run_phase_text) timeoutPhase,
           ti_providerStarted = map_option JBool providerStarted,
           ti_startedAt = None, ti_endedAt = None\<rparr>)"

subsection \<open>Waiting and merging\<close>

definition wait_status_of :: "json option \<Rightarrow> wait_status option" where
  "wait_status_of v =
     (if v = Some (JStr ''ok'') then Some WaitOk else if v = Some (JStr ''timeout'') then Some WaitTimeout
      else if v = Some (JStr ''error'') then Some WaitError else None)"

text \<open>The status of \<open>wait\<close> is replaced by the one it is found to carry; pending and unknown give none.\<close>

definition buildAgentRunTerminalOutcomeFromWaitResult :: "(json option \<times> terminal_input) option \<Rightarrow> run_outcome option" where
  "buildAgentRunTerminalOutcomeFromWaitResult wait =
     (case wait of
        None \<Rightarrow> None
      | Some (raw, input) \<Rightarrow>
         (case wait_status_of raw of
            None \<Rightarrow> None
          | Some status \<Rightarrow> Some (buildAgentRunTerminalOutcome (input\<lparr>ti_status := status\<rparr>))))"

definition both_ended :: "(rat \<Rightarrow> rat \<Rightarrow> bool) \<Rightarrow> run_outcome \<Rightarrow> run_outcome \<Rightarrow> bool" where
  "both_ended p a b \<longleftrightarrow> (case (ro_endedAt a, ro_endedAt b) of (Some x, Some y) \<Rightarrow> p x y | _ \<Rightarrow> False)"

definition completedBeforeOrAtTimeout :: "run_outcome \<Rightarrow> run_outcome \<Rightarrow> bool" where
  "completedBeforeOrAtTimeout completed timeout \<longleftrightarrow>
     ro_reason completed = Completed \<and> both_ended (\<le>) completed timeout"

text \<open>
  Whether the merge returns the incoming outcome: the code's callers ask whether the result is the
  existing object.
\<close>

definition incoming_wins :: "run_outcome \<Rightarrow> run_outcome \<Rightarrow> bool" where
  "incoming_wins current incoming \<longleftrightarrow>
     (if ro_reason current = Cancelled
      then ro_reason incoming = HardTimeout \<and> both_ended (\<le>) incoming current
      else if ro_reason current = HardTimeout
      then (if ro_reason incoming = Cancelled \<and> both_ended (<) incoming current then True
            else completedBeforeOrAtTimeout incoming current)
      else if ro_reason incoming = Cancelled then True
      else if ro_reason incoming = HardTimeout then \<not> completedBeforeOrAtTimeout current incoming
      else True)"

definition mergeAgentRunTerminalOutcome :: "run_outcome option \<Rightarrow> run_outcome \<Rightarrow> run_outcome" where
  "mergeAgentRunTerminalOutcome current incoming =
     (case current of
        None \<Rightarrow> incoming
      | Some c \<Rightarrow> if incoming_wins c incoming then incoming else c)"

subsection \<open>Outcomes carried by errors\<close>

text \<open>
  Thrown objects in memory: each may carry an outcome and point to its cause. The walk stops at an
  object it has met.
\<close>

record thrown_object =
  to_outcome :: "run_outcome option"
  to_cause :: "nat option"

function find_outcome :: "thrown_object list \<Rightarrow> nat set \<Rightarrow> nat option \<Rightarrow> run_outcome option" where
  "find_outcome heap seen candidate =
     (case candidate of
        None \<Rightarrow> None
      | Some i \<Rightarrow>
          if i \<ge> length heap \<or> i \<in> seen then None
          else if to_outcome (heap ! i) \<noteq> None then to_outcome (heap ! i)
          else find_outcome heap (insert i seen) (to_cause (heap ! i)))"
  by pat_completeness auto

termination
proof (relation "measure (\<lambda>(heap, seen, _). card ({..<length heap} - seen))")
  fix heap :: "thrown_object list" and seen candidate i
  assume "candidate = Some i" "\<not> (i \<ge> length heap \<or> i \<in> seen)"
  hence i: "i \<in> {..<length heap} - seen" by simp
  have "{..<length heap} - insert i seen = {..<length heap} - seen - {i}" by blast
  with card_Diff1_less [OF _ i] show "((heap, insert i seen, to_cause (heap ! i)), heap, seen, candidate)
      \<in> measure (\<lambda>(heap, seen, _). card ({..<length heap} - seen))"
    by simp
qed simp

declare find_outcome.simps [simp del]

definition findAgentRunTerminalOutcome :: "thrown_object list \<Rightarrow> nat option \<Rightarrow> run_outcome option" where
  "findAgentRunTerminalOutcome heap e = find_outcome heap {} e"

end
