(* ===== verification/Run_Jobs.thy ===== *)
theory Run_Jobs
  imports Run_Outcome Js_Map
begin

section \<open>The registry of run outcomes\<close>

text \<open>
  \<^verbatim>\<open>src/gateway/server-methods/agent-job.ts\<close>: the terminal snapshots of runs by
  source, the errors and timeouts that wait for a retry, the versions, and the callers of
  \<^verbatim>\<open>agent.wait\<close>. A callback of a timer, an event and a call are steps, each with
  the time it happens at; a waiter is an entry of the state, and an answer given to it is appended to
  \<open>jb_answers\<close>. Data of unknown type is JSON.
\<close>

definition AGENT_RUN_CACHE_TTL_MS :: int where
  "AGENT_RUN_CACHE_TTL_MS = 600000"

definition AGENT_RUN_CACHE_MAX_ENTRIES :: nat where
  "AGENT_RUN_CACHE_MAX_ENTRIES = 5000"

datatype job_source = AgentSource | ChatSource | LifecycleSource

record job_snapshot =
  js_status :: wait_status
  js_startedAt :: "rat option"
  js_endedAt :: "rat option"
  js_error :: "string option"
  js_stopReason :: "string option"
  js_livenessState :: "string option"
  js_yielded :: bool
  js_pendingError :: bool
  js_timeoutPhase :: "run_phase option"
  js_providerStarted :: "bool option"

record run_observation = job_snapshot +
  ob_runId :: string
  ob_source :: job_source
  ob_recordedAt :: rat
  ob_version :: int

record run_snapshot = run_observation +
  rs_cachedAt :: int

record job_record =
  jr_cachedAt :: int
  jr_snapshots :: "(job_source, run_snapshot) jmap"

record job_waiter =
  jw_id :: nat
  jw_runId :: string
  jw_chatOnly :: bool
  jw_afterVersion :: int

record job_registry =
  jb_jobs :: "(string, job_record) jmap"
  jb_starts :: "(string, rat) jmap"
  jb_errors :: "(string, run_observation) jmap"
  jb_timeouts :: "(string, run_observation) jmap"
  jb_waiters :: "job_waiter list"
  jb_answers :: "(nat \<times> job_snapshot option) list"
  jb_version :: int

definition empty_registry :: job_registry where
  "empty_registry = \<lparr>jb_jobs = [], jb_starts = [], jb_errors = [], jb_timeouts = [], jb_waiters = [],
     jb_answers = [], jb_version = 0\<rparr>"

subsection \<open>The cache\<close>

definition pruneAgentRunCache :: "int \<Rightarrow> job_registry \<Rightarrow> job_registry" where
  "pruneAgentRunCache now st =
     st\<lparr>jb_jobs := jm_sweep (\<lambda>_ job. \<not> now - jr_cachedAt job \<le> AGENT_RUN_CACHE_TTL_MS) (jb_jobs st)\<rparr>"

definition has_waiter :: "job_registry \<Rightarrow> string \<Rightarrow> bool" where
  "has_waiter st runId \<longleftrightarrow> list_ex (\<lambda>w. jw_runId w = runId) (jb_waiters st)"

text \<open>The loop over the keys, oldest first; \<open>n\<close> jobs are still to be removed.\<close>

fun remove_oldest :: "(string \<Rightarrow> bool) \<Rightarrow> nat \<Rightarrow> (string, job_record) jmap \<Rightarrow> (string, job_record) jmap" where
  "remove_oldest waited n [] = []"
| "remove_oldest waited n ((k, job) # jobs) =
     (if n = 0 then (k, job) # jobs
      else if waited k then (k, job) # remove_oldest waited n jobs
      else remove_oldest waited (n - 1) jobs)"

definition enforceAgentRunCacheMaxEntries :: "job_registry \<Rightarrow> job_registry" where
  "enforceAgentRunCacheMaxEntries st =
     (if length (jb_jobs st) \<le> AGENT_RUN_CACHE_MAX_ENTRIES then st
      else st\<lparr>jb_jobs := remove_oldest (has_waiter st) (length (jb_jobs st) - AGENT_RUN_CACHE_MAX_ENTRIES) (jb_jobs st)\<rparr>)"

subsection \<open>Snapshots\<close>

definition terminalOutcomeFromSnapshot :: "'a job_snapshot_scheme \<Rightarrow> run_outcome option" where
  "terminalOutcomeFromSnapshot s =
     (if js_pendingError s then None
      else Some (buildAgentRunTerminalOutcome
        \<lparr>ti_status = js_status s, ti_error = map_option JStr (js_error s), ti_stopReason = map_option JStr (js_stopReason s),
         ti_livenessState = map_option JStr (js_livenessState s),
         ti_timeoutPhase = map_option (JStr \<circ> run_phase_text) (js_timeoutPhase s),
         ti_providerStarted = map_option JBool (js_providerStarted s),
         ti_startedAt = map_option JNum (js_startedAt s), ti_endedAt = map_option JNum (js_endedAt s)\<rparr>))"

definition shouldPreserveTerminalSnapshot :: "'a job_snapshot_scheme \<Rightarrow> 'b job_snapshot_scheme \<Rightarrow> bool" where
  "shouldPreserveTerminalSnapshot existing incoming \<longleftrightarrow>
     (case (terminalOutcomeFromSnapshot existing, terminalOutcomeFromSnapshot incoming) of
        (Some e, Some i) \<Rightarrow> \<not> incoming_wins e i
      | _ \<Rightarrow> False)"

definition mergeSnapshot :: "run_snapshot option \<Rightarrow> run_snapshot \<Rightarrow> run_snapshot" where
  "mergeSnapshot existing incoming =
     (case existing of
        None \<Rightarrow> incoming
      | Some e \<Rightarrow>
          if shouldPreserveTerminalSnapshot e incoming then e\<lparr>rs_cachedAt := rs_cachedAt incoming\<rparr> else incoming)"

definition getFreshestDedupeSnapshot :: "(job_source, run_snapshot) jmap \<Rightarrow> run_snapshot option" where
  "getFreshestDedupeSnapshot snapshots =
     (case (jm_get snapshots AgentSource, jm_get snapshots ChatSource) of
        (Some agent, Some chat) \<Rightarrow>
          Some (if ob_recordedAt chat > ob_recordedAt agent then mergeSnapshot (Some agent) chat
                else mergeSnapshot (Some chat) agent)
      | (Some agent, None) \<Rightarrow> Some agent
      | (None, chat) \<Rightarrow> chat)"

definition getCanonicalAgentRunSnapshot :: "(job_source, run_snapshot) jmap \<Rightarrow> run_snapshot option" where
  "getCanonicalAgentRunSnapshot snapshots =
     (case (getFreshestDedupeSnapshot snapshots, jm_get snapshots LifecycleSource) of
        (Some dedupe, Some lifecycle) \<Rightarrow>
          Some (if ob_version dedupe > ob_version lifecycle then mergeSnapshot (Some lifecycle) dedupe
                else mergeSnapshot (Some dedupe) lifecycle)
      | (Some dedupe, None) \<Rightarrow> Some dedupe
      | (None, lifecycle) \<Rightarrow> lifecycle)"

text \<open>The lookup, after the cache was pruned.\<close>

definition find_snapshot :: "job_registry \<Rightarrow> string \<Rightarrow> bool \<Rightarrow> int \<Rightarrow> run_snapshot option" where
  "find_snapshot st runId chatOnly afterVersion =
     (case jm_get (jb_jobs st) runId of
        None \<Rightarrow> None
      | Some job \<Rightarrow>
         (case (if chatOnly then jm_get (jr_snapshots job) ChatSource else getCanonicalAgentRunSnapshot (jr_snapshots job)) of
            None \<Rightarrow> None
          | Some s \<Rightarrow> if ob_version s > afterVersion then Some s else None))"

definition getAgentRunSnapshot ::
    "int \<Rightarrow> string \<Rightarrow> bool \<Rightarrow> int \<Rightarrow> job_registry \<Rightarrow> run_snapshot option \<times> job_registry" where
  "getAgentRunSnapshot now runId chatOnly afterVersion st =
     (let st' = pruneAgentRunCache now st in (find_snapshot st' runId chatOnly afterVersion, st'))"

definition publicSnapshot :: "'a job_snapshot_scheme \<Rightarrow> job_snapshot" where
  "publicSnapshot s = job_snapshot.truncate s"

subsection \<open>Recording\<close>

definition answer :: "nat \<Rightarrow> job_snapshot option \<Rightarrow> job_registry \<Rightarrow> job_registry" where
  "answer i s st = st\<lparr>jb_waiters := filter (\<lambda>w. jw_id w \<noteq> i) (jb_waiters st), jb_answers := jb_answers st @ [(i, s)]\<rparr>"

definition wake :: "int \<Rightarrow> job_waiter \<Rightarrow> job_registry \<Rightarrow> job_registry" where
  "wake now w st =
     (case getAgentRunSnapshot now (jw_runId w) (jw_chatOnly w) (jw_afterVersion w) st of
        (Some s, st') \<Rightarrow> answer (jw_id w) (Some (publicSnapshot s)) st'
      | (None, st') \<Rightarrow> st')"

definition notifyAgentRunWaiters :: "int \<Rightarrow> string \<Rightarrow> job_registry \<Rightarrow> job_registry" where
  "notifyAgentRunWaiters now runId st = fold (wake now) (filter (\<lambda>w. jw_runId w = runId) (jb_waiters st)) st"

definition as_cached :: "int \<Rightarrow> int \<Rightarrow> run_observation \<Rightarrow> run_snapshot" where
  "as_cached now version o' = run_observation.extend (o'\<lparr>ob_version := version\<rparr>) \<lparr>rs_cachedAt = now\<rparr>"

definition store_snapshot :: "int \<Rightarrow> run_snapshot \<Rightarrow> job_registry \<Rightarrow> job_registry" where
  "store_snapshot now entry st =
     (let snapshots = case_option [] jr_snapshots (jm_get (jb_jobs st) (ob_runId entry))
      in st\<lparr>jb_jobs := jm_put (ob_runId entry) \<lparr>jr_cachedAt = now,
           jr_snapshots = jm_put (ob_source entry) (mergeSnapshot (jm_get snapshots (ob_source entry)) entry) snapshots\<rparr>
           (jb_jobs st)\<rparr>)"

definition recordAgentRunSnapshot :: "int \<Rightarrow> run_observation \<Rightarrow> int \<Rightarrow> job_registry \<Rightarrow> job_registry" where
  "recordAgentRunSnapshot now snapshot version st =
     notifyAgentRunWaiters now (ob_runId snapshot)
       (enforceAgentRunCacheMaxEntries
         (store_snapshot now (as_cached now version snapshot) (pruneAgentRunCache now st)))"

definition nextAgentRunVersion :: "job_registry \<Rightarrow> job_registry" where
  "nextAgentRunVersion st = st\<lparr>jb_version := jb_version st + 1\<rparr>"

definition clearPendingAgentRunError :: "string \<Rightarrow> job_registry \<Rightarrow> job_registry" where
  "clearPendingAgentRunError runId st = st\<lparr>jb_errors := jm_delete runId (jb_errors st)\<rparr>"

definition clearPendingAgentRunTimeout :: "string \<Rightarrow> job_registry \<Rightarrow> job_registry" where
  "clearPendingAgentRunTimeout runId st = st\<lparr>jb_timeouts := jm_delete runId (jb_timeouts st)\<rparr>"

definition beginAgentJob :: "string \<Rightarrow> rat option \<Rightarrow> job_registry \<Rightarrow> job_registry" where
  "beginAgentJob runId startedAt st =
     (let st1 = clearPendingAgentRunTimeout runId (clearPendingAgentRunError runId (nextAgentRunVersion st));
          st2 = st1\<lparr>jb_jobs := jm_delete runId (jb_jobs st1)\<rparr>
      in case startedAt of None \<Rightarrow> st2 | Some t \<Rightarrow> st2\<lparr>jb_starts := jm_put runId t (jb_starts st2)\<rparr>)"

subsection \<open>Errors and timeouts that wait for a retry\<close>

definition preserved_by :: "(string, run_observation) jmap \<Rightarrow> run_observation \<Rightarrow> bool" where
  "preserved_by pendingRuns snapshot \<longleftrightarrow>
     (case jm_get pendingRuns (ob_runId snapshot) of
        None \<Rightarrow> False | Some e \<Rightarrow> shouldPreserveTerminalSnapshot e snapshot)"

text \<open>\<^verbatim>\<open>schedulePendingAgentRunTerminal\<close>: clearing the old entry stops its timer.\<close>

definition schedule_terminal :: "run_observation \<Rightarrow> (string, run_observation) jmap \<Rightarrow> (string, run_observation) jmap" where
  "schedule_terminal snapshot pendingRuns =
     (if preserved_by pendingRuns snapshot then pendingRuns
      else jm_put (ob_runId snapshot) snapshot (jm_delete (ob_runId snapshot) pendingRuns))"

definition schedulePendingAgentRunError :: "run_observation \<Rightarrow> job_registry \<Rightarrow> job_registry" where
  "schedulePendingAgentRunError snapshot st =
     (if preserved_by (jb_timeouts st) snapshot then st
      else
       (let st1 = clearPendingAgentRunTimeout (ob_runId snapshot) st
        in st1\<lparr>jb_errors := schedule_terminal snapshot (jb_errors st1)\<rparr>))"

definition schedulePendingAgentRunTimeout :: "run_observation \<Rightarrow> job_registry \<Rightarrow> job_registry" where
  "schedulePendingAgentRunTimeout snapshot st =
     (if preserved_by (jb_timeouts st) snapshot then st
      else
       (let st1 = clearPendingAgentRunError (ob_runId snapshot) st
        in st1\<lparr>jb_timeouts := schedule_terminal snapshot (jb_timeouts st1)\<rparr>))"

text \<open>The timer of a pending entry.\<close>

definition fire_error :: "int \<Rightarrow> string \<Rightarrow> job_registry \<Rightarrow> job_registry" where
  "fire_error now runId st =
     (case jm_get (jb_errors st) runId of
        None \<Rightarrow> st
      | Some s \<Rightarrow> recordAgentRunSnapshot now s (ob_version s) (st\<lparr>jb_errors := jm_delete runId (jb_errors st)\<rparr>))"

definition fire_timeout :: "int \<Rightarrow> string \<Rightarrow> job_registry \<Rightarrow> job_registry" where
  "fire_timeout now runId st =
     (case jm_get (jb_timeouts st) runId of
        None \<Rightarrow> st
      | Some s \<Rightarrow> recordAgentRunSnapshot now s (ob_version s) (st\<lparr>jb_timeouts := jm_delete runId (jb_timeouts st)\<rparr>))"

definition createPendingErrorTimeoutSnapshot :: "'a job_snapshot_scheme \<Rightarrow> job_snapshot" where
  "createPendingErrorTimeoutSnapshot s =
     \<lparr>js_status = WaitTimeout, js_startedAt = js_startedAt s, js_endedAt = None, js_error = js_error s,
      js_stopReason = None, js_livenessState = None, js_yielded = False, js_pendingError = True,
      js_timeoutPhase = None, js_providerStarted = js_providerStarted s\<rparr>"


section \<open>Events of the registry\<close>

text \<open>
  The lifecycle listener, the dedupe entries of the gateway and the calls of
  \<^verbatim>\<open>agent.wait\<close>, of \<^verbatim>\<open>agent-job.ts\<close>. An absent data object is
  one without properties. The id of a waiter is an argument.
\<close>

subsection \<open>Lifecycle events\<close>

fun json_truthy :: "json option \<Rightarrow> bool" where
  "json_truthy None = False"
| "json_truthy (Some JNull) = False"
| "json_truthy (Some (JBool b)) = b"
| "json_truthy (Some (JNum r)) = (r \<noteq> 0)"
| "json_truthy (Some (JStr s)) = (s \<noteq> [])"
| "json_truthy (Some (JArr _)) = True"
| "json_truthy (Some (JObj _)) = True"

type_synonym event_data = "(string \<times> json) list"

definition createSnapshotFromLifecycleEvent ::
    "rat \<Rightarrow> string \<Rightarrow> bool \<Rightarrow> event_data \<Rightarrow> job_registry \<Rightarrow> run_observation \<times> job_registry" where
  "createSnapshotFromLifecycleEvent now runId isError data st =
     (let startedAt = (case asFiniteTimestamp (jprop data ''startedAt'') of
            Some t \<Rightarrow> Some t | None \<Rightarrow> jm_get (jb_starts st) runId);
          endedAt = asFiniteTimestamp (jprop data ''endedAt'');
          error = json_string (jprop data ''error'');
          stopReason = json_string (jprop data ''stopReason'');
          livenessState = json_string (jprop data ''livenessState'');
          outcome = buildAgentRunTerminalOutcome
            \<lparr>ti_status = (if isError then WaitError else if json_truthy (jprop data ''aborted'') then WaitTimeout else WaitOk),
             ti_error = map_option JStr error, ti_stopReason = map_option JStr stopReason,
             ti_livenessState = map_option JStr livenessState, ti_timeoutPhase = jprop data ''timeoutPhase'',
             ti_providerStarted = jprop data ''providerStarted'',
             ti_startedAt = map_option JNum startedAt, ti_endedAt = map_option JNum endedAt\<rparr>;
          st' = nextAgentRunVersion st
      in (\<lparr>js_status = ro_status outcome, js_startedAt = startedAt, js_endedAt = endedAt, js_error = ro_error outcome,
           js_stopReason = stopReason, js_livenessState = livenessState,
           js_yielded = (jprop data ''yielded'' = Some (JBool True)), js_pendingError = False,
           js_timeoutPhase = ro_timeoutPhase outcome, js_providerStarted = ro_providerStarted outcome,
           ob_runId = runId, ob_source = LifecycleSource, ob_recordedAt = now, ob_version = jb_version st'\<rparr>, st'))"

text \<open>The listener, for an event of the lifecycle stream; \<open>phase\<close> is the phase of its data.\<close>

definition on_lifecycle :: "int \<Rightarrow> string \<Rightarrow> event_data \<Rightarrow> job_registry \<Rightarrow> job_registry" where
  "on_lifecycle now runId data st =
     (let phase = jprop data ''phase''
      in if phase = Some (JStr ''start'')
         then beginAgentJob runId (Some (case asFiniteTimestamp (jprop data ''startedAt'') of
                Some t \<Rightarrow> t | None \<Rightarrow> of_int now)) st
         else if phase \<noteq> Some (JStr ''end'') \<and> phase \<noteq> Some (JStr ''error'') then st
         else
          (let isError = (phase = Some (JStr ''error''));
               (snapshot, st1) = createSnapshotFromLifecycleEvent (of_int now) runId isError data st;
               st2 = st1\<lparr>jb_starts := jm_delete runId (jb_starts st1)\<rparr>
           in if isError then schedulePendingAgentRunError snapshot st2
              else if js_status snapshot = WaitTimeout then schedulePendingAgentRunTimeout snapshot st2
              else if preserved_by (jb_timeouts st2) snapshot then st2
              else recordAgentRunSnapshot now snapshot (ob_version snapshot)
                     (clearPendingAgentRunTimeout runId (clearPendingAgentRunError runId st2))))"

subsection \<open>Dedupe entries\<close>

record dedupe_entry =
  de_ts :: rat
  de_ok :: bool
  de_payload :: "json option"
  de_errorMessage :: "string option"

datatype dedupe_observation = DedupeActive | DedupeTerminal job_snapshot | DedupeUntracked

definition isNonTerminalAgentRunStatus :: "string option \<Rightarrow> bool" where
  "isNonTerminalAgentRunStatus v \<longleftrightarrow> v \<in> {Some ''accepted'', Some ''started'', Some ''in_flight''}"

definition terminal_status :: "string option \<Rightarrow> bool \<Rightarrow> wait_status option" where
  "terminal_status status ok =
     (case wait_status_of (map_option JStr status) of
        Some s \<Rightarrow> Some s
      | None \<Rightarrow> if ok then None else Some WaitError)"

definition first_given :: "'v option \<Rightarrow> 'v option \<Rightarrow> 'v option" where
  "first_given a b = (case a of Some v \<Rightarrow> Some v | None \<Rightarrow> b)"

definition parseDedupeObservation :: "dedupe_entry \<Rightarrow> dedupe_observation" where
  "parseDedupeObservation entry =
     (let payload = object_fields (de_payload entry);
          resultMeta = object_fields (jprop (object_fields (jprop payload ''result'')) ''meta'');
          status = json_string (jprop payload ''status'')
      in if isNonTerminalAgentRunStatus status then DedupeActive
         else
          (case terminal_status status (de_ok entry) of
             None \<Rightarrow> DedupeUntracked
           | Some terminalStatus \<Rightarrow>
              (let startedAt = asFiniteTimestamp (jprop payload ''startedAt'');
                   endedAt = first_given (asFiniteTimestamp (jprop payload ''endedAt'')) (Some (de_ts entry));
                   stopReason = first_given (asNonEmptyString (jprop payload ''stopReason''))
                     (asNonEmptyString (jprop resultMeta ''stopReason''));
                   livenessState = first_given (asNonEmptyString (jprop payload ''livenessState''))
                     (asNonEmptyString (jprop resultMeta ''livenessState''));
                   outcome = buildAgentRunTerminalOutcome
                     \<lparr>ti_status = terminalStatus,
                      ti_error = map_option JStr (first_given (json_string (jprop payload ''error''))
                        (first_given (json_string (jprop payload ''summary'')) (de_errorMessage entry))),
                      ti_stopReason = map_option JStr stopReason, ti_livenessState = map_option JStr livenessState,
                      ti_timeoutPhase = nullish_or (jprop payload ''timeoutPhase'') (jprop resultMeta ''timeoutPhase''),
                      ti_providerStarted = nullish_or (jprop payload ''providerStarted'') (jprop resultMeta ''providerStarted''),
                      ti_startedAt = map_option JNum startedAt, ti_endedAt = map_option JNum endedAt\<rparr>
               in DedupeTerminal
                    \<lparr>js_status = ro_status outcome, js_startedAt = startedAt, js_endedAt = endedAt,
                     js_error = (if ro_status outcome = WaitOk then None else ro_error outcome),
                     js_stopReason = stopReason, js_livenessState = livenessState,
                     js_yielded = (jprop payload ''yielded'' = Some (JBool True)
                       \<or> jprop resultMeta ''yielded'' = Some (JBool True)),
                     js_pendingError = False, js_timeoutPhase = ro_timeoutPhase outcome,
                     js_providerStarted = ro_providerStarted outcome\<rparr>)))"

definition parseDedupeKey :: "string \<Rightarrow> (string \<times> job_source) option" where
  "parseDedupeKey key =
     (let source = takeWhile (\<lambda>c. c \<noteq> CHR '':'') key;
          runId = drop (Suc (length source)) key
      in if CHR '':'' \<notin> set key then None
         else if runId = [] then None
         else if source = ''agent'' then Some (runId, AgentSource)
         else if source = ''chat'' then Some (runId, ChatSource)
         else None)"

definition dedupe_outcome :: "dedupe_observation \<Rightarrow> run_outcome option" where
  "dedupe_outcome observation =
     (case observation of DedupeTerminal s \<Rightarrow> terminalOutcomeFromSnapshot s | _ \<Rightarrow> None)"

text \<open>Whether the entry that is there keeps its place.\<close>

definition keeps_entry :: "dedupe_entry option \<Rightarrow> dedupe_observation \<Rightarrow> bool" where
  "keeps_entry existing incoming \<longleftrightarrow>
     (case Option.bind existing (dedupe_outcome \<circ> parseDedupeObservation) of
        None \<Rightarrow> False
      | Some e \<Rightarrow> isStickyAgentRunTerminalOutcome (Some e)
          \<and> (case dedupe_outcome incoming of None \<Rightarrow> True | Some i \<Rightarrow> \<not> incoming_wins e i))"

definition setGatewayDedupeEntry ::
    "int \<Rightarrow> string \<Rightarrow> dedupe_entry \<Rightarrow> (string, dedupe_entry) jmap \<times> job_registry
      \<Rightarrow> (string, dedupe_entry) jmap \<times> job_registry" where
  "setGatewayDedupeEntry now key entry s =
     (case s of (dedupe, st) \<Rightarrow>
       (let incoming = parseDedupeObservation entry
        in if keeps_entry (jm_get dedupe key) incoming then (dedupe, st)
           else (jm_put key entry dedupe,
            (case parseDedupeKey key of
               None \<Rightarrow> st
             | Some (runId, source) \<Rightarrow>
                (case incoming of
                   DedupeActive \<Rightarrow> beginAgentJob runId None st
                 | DedupeUntracked \<Rightarrow> st
                 | DedupeTerminal snapshot \<Rightarrow>
                    (let st' = nextAgentRunVersion st
                     in recordAgentRunSnapshot now
                          (job_snapshot.extend snapshot \<lparr>ob_runId = runId, ob_source = source, ob_recordedAt = de_ts entry,
                             ob_version = jb_version st'\<rparr>) (jb_version st') st'))))))"

subsection \<open>Waiting\<close>

definition waitForAgentJob :: "int \<Rightarrow> nat \<Rightarrow> string \<Rightarrow> int \<Rightarrow> bool \<Rightarrow> bool \<Rightarrow> job_registry \<Rightarrow> job_registry" where
  "waitForAgentJob now i runId timeoutMs ignoreCachedSnapshot chatOnly st =
     (let afterVersion = (if ignoreCachedSnapshot then jb_version st else -1)
      in case getAgentRunSnapshot now runId chatOnly afterVersion st of
           (Some s, st') \<Rightarrow> st'\<lparr>jb_answers := jb_answers st' @ [(i, Some (publicSnapshot s))]\<rparr>
         | (None, st') \<Rightarrow>
             if timeoutMs \<le> 0 then st'\<lparr>jb_answers := jb_answers st' @ [(i, None)]\<rparr>
             else
              (let w = \<lparr>jw_id = i, jw_runId = runId, jw_chatOnly = chatOnly, jw_afterVersion = afterVersion\<rparr>
               in wake now w (st'\<lparr>jb_waiters := jb_waiters st' @ [w]\<rparr>)))"

text \<open>The timer of a waiter; a settled one is no longer there.\<close>

definition timeout_answer :: "job_waiter \<Rightarrow> job_registry \<Rightarrow> job_snapshot option" where
  "timeout_answer w st =
     (if jw_chatOnly w then None
      else
       (let newer = (\<lambda>s. case s of None \<Rightarrow> None | Some x \<Rightarrow> if ob_version x > jw_afterVersion w then Some x else None)
        in case newer (jm_get (jb_errors st) (jw_runId w)) of
             Some s \<Rightarrow> Some (createPendingErrorTimeoutSnapshot s)
           | None \<Rightarrow>
              (case newer (jm_get (jb_timeouts st) (jw_runId w)) of
                 Some s \<Rightarrow>
                   if map_option ro_reason (terminalOutcomeFromSnapshot s) = Some HardTimeout then Some (publicSnapshot s)
                   else None
               | None \<Rightarrow> None)))"

definition on_wait_timeout :: "nat \<Rightarrow> job_registry \<Rightarrow> job_registry" where
  "on_wait_timeout i st =
     (case find (\<lambda>w. jw_id w = i) (jb_waiters st) of
        None \<Rightarrow> st
      | Some w \<Rightarrow> answer i (timeout_answer w st) st)"

subsection \<open>The state machine\<close>

text \<open>The ids of waiters are new.\<close>

inductive job_step :: "(string, dedupe_entry) jmap \<times> job_registry \<Rightarrow> (string, dedupe_entry) jmap \<times> job_registry \<Rightarrow> bool" where
  lifecycle: "job_step (dedupe, st) (dedupe, on_lifecycle now runId data st)"
| error_timer: "job_step (dedupe, st) (dedupe, fire_error now runId st)"
| timeout_timer: "job_step (dedupe, st) (dedupe, fire_timeout now runId st)"
| dedupe: "job_step s (setGatewayDedupeEntry now key entry s)"
| wait: "i \<notin> jw_id ` set (jb_waiters st) \<Longrightarrow>
    job_step (dedupe, st) (dedupe, waitForAgentJob now i runId timeoutMs ignoreCached chatOnly st)"
| wait_timeout: "job_step (dedupe, st) (dedupe, on_wait_timeout i st)"

end
