(* ===== verification/Run_Facts.thy ===== *)
theory Run_Facts
  imports Run_Jobs
begin

section \<open>What the registry keeps\<close>

text \<open>
  The invariant of the registry: nothing stored is newer than its version, no run waits with an error
  and a timeout, and no waiter is left that a stored snapshot answers. Every step keeps it.
\<close>

definition jobs_below :: "int \<Rightarrow> (string, job_record) jmap \<Rightarrow> bool" where
  "jobs_below v jobs \<longleftrightarrow> (\<forall>k job j s. (k, job) \<in> set jobs \<longrightarrow> (j, s) \<in> set (jr_snapshots job) \<longrightarrow> ob_version s \<le> v)"

definition pending_below :: "int \<Rightarrow> (string, run_observation) jmap \<Rightarrow> bool" where
  "pending_below v pend \<longleftrightarrow> (\<forall>k s. (k, s) \<in> set pend \<longrightarrow> ob_version s \<le> v)"

definition stored_below :: "int \<Rightarrow> job_registry \<Rightarrow> bool" where
  "stored_below v st \<longleftrightarrow> jobs_below v (jb_jobs st) \<and> pending_below v (jb_errors st) \<and> pending_below v (jb_timeouts st)"

definition well_kept :: "job_registry \<Rightarrow> bool" where
  "well_kept st \<longleftrightarrow> distinct (jm_keys (jb_jobs st)) \<and> distinct (map jw_id (jb_waiters st))
     \<and> stored_below (jb_version st) st \<and> set (jm_keys (jb_errors st)) \<inter> set (jm_keys (jb_timeouts st)) = {}"

definition unanswered :: "job_registry \<Rightarrow> job_waiter \<Rightarrow> bool" where
  "unanswered st w \<longleftrightarrow> find_snapshot st (jw_runId w) (jw_chatOnly w) (jw_afterVersion w) = None"

definition job_inv :: "job_registry \<Rightarrow> bool" where
  "job_inv st \<longleftrightarrow> well_kept st \<and> (\<forall>w\<in>set (jb_waiters st). unanswered st w)"

lemma jobs_below_sub: "jobs_below v m \<Longrightarrow> set m' \<subseteq> set m \<Longrightarrow> jobs_below v m'"
  unfolding jobs_below_def by blast

lemma kept_fewer:
  assumes "well_kept st" "set (jb_jobs st') \<subseteq> set (jb_jobs st)" "distinct (jm_keys (jb_jobs st'))"
    and "jb_errors st' = jb_errors st" "jb_timeouts st' = jb_timeouts st" "jb_version st' = jb_version st" "jb_waiters st' = jb_waiters st"
  shows "well_kept st'"
  using assms(1,3-7) jobs_below_sub [OF _ assms(2)] by (simp add: well_kept_def stored_below_def)

subsection \<open>Deletions\<close>

lemma find_cong: "jm_get (jb_jobs st') r = jm_get (jb_jobs st) r \<Longrightarrow> find_snapshot st' r = find_snapshot st r"
  by (intro ext) (simp add: find_snapshot_def)

lemma find_deleted: "jm_get (jb_jobs st) r = None \<Longrightarrow> find_snapshot st r c v = None"
  by (simp add: find_snapshot_def)

lemma unanswered_loses:
  assumes "jm_get (jb_jobs st') (jw_runId w) = jm_get (jb_jobs st) (jw_runId w) \<or> jm_get (jb_jobs st') (jw_runId w) = None"
    and "unanswered st w"
  shows "unanswered st' w"
  using assms find_cong [of st' "jw_runId w" st] find_deleted [of st' "jw_runId w"] by (auto simp: unanswered_def)

lemma prune_sel [simp]:
  "jb_waiters (pruneAgentRunCache now st) = jb_waiters st" "jb_errors (pruneAgentRunCache now st) = jb_errors st"
  "jb_timeouts (pruneAgentRunCache now st) = jb_timeouts st" "jb_version (pruneAgentRunCache now st) = jb_version st"
  "jb_answers (pruneAgentRunCache now st) = jb_answers st" "jb_starts (pruneAgentRunCache now st) = jb_starts st"
  by (simp_all add: pruneAgentRunCache_def)

lemma prune_loses:
  "well_kept st \<Longrightarrow> jm_get (jb_jobs (pruneAgentRunCache now st)) k = jm_get (jb_jobs st) k
     \<or> jm_get (jb_jobs (pruneAgentRunCache now st)) k = None"
  by (auto simp: pruneAgentRunCache_def well_kept_def jm_get_sweep split: option.split)

lemma prune_subset: "set (jb_jobs (pruneAgentRunCache now st)) \<subseteq> set (jb_jobs st)"
  by (auto simp: pruneAgentRunCache_def jm_sweep_def)

lemma prune_kept:
  assumes "well_kept st"
  shows "well_kept (pruneAgentRunCache now st)"
proof (rule kept_fewer [OF assms prune_subset])
  show "distinct (jm_keys (jb_jobs (pruneAgentRunCache now st)))"
    using assms by (simp add: well_kept_def pruneAgentRunCache_def distinct_jm_sweep)
qed simp_all

lemma remove_oldest_sub: "set (remove_oldest p n m) \<subseteq> set m"
  by (induction p n m rule: remove_oldest.induct) auto

lemma remove_oldest_distinct: "distinct (jm_keys m) \<Longrightarrow> distinct (jm_keys (remove_oldest p n m))"
proof (induction p n m rule: remove_oldest.induct)
  case (2 p n k job jobs)
  have "set (jm_keys (remove_oldest p n jobs)) \<subseteq> set (jm_keys jobs)"
    using remove_oldest_sub [of p n jobs] by (auto simp: jm_keys_def)
  with 2 show ?case by (auto simp: jm_keys_def)
qed simp

lemma remove_oldest_loses:
  "distinct (jm_keys m) \<Longrightarrow> jm_get (remove_oldest p n m) k = jm_get m k \<or> jm_get (remove_oldest p n m) k = None"
proof (induction p n m rule: remove_oldest.induct)
  case (2 p n j job jobs)
  have "jm_get (remove_oldest p (n - 1) jobs) j = None" if "j \<notin> set (jm_keys jobs)"
    using that remove_oldest_sub [of p "n - 1" jobs] jm_get_keys [of "remove_oldest p (n - 1) jobs" j]
    by (auto simp: jm_keys_def)
  with 2 show ?case by (auto simp: jm_keys_def)
qed simp

lemma enforce_sel [simp]:
  "jb_waiters (enforceAgentRunCacheMaxEntries st) = jb_waiters st" "jb_errors (enforceAgentRunCacheMaxEntries st) = jb_errors st"
  "jb_timeouts (enforceAgentRunCacheMaxEntries st) = jb_timeouts st" "jb_version (enforceAgentRunCacheMaxEntries st) = jb_version st"
  "jb_answers (enforceAgentRunCacheMaxEntries st) = jb_answers st"
  by (simp_all add: enforceAgentRunCacheMaxEntries_def)

lemma enforce_loses:
  "well_kept st \<Longrightarrow> jm_get (jb_jobs (enforceAgentRunCacheMaxEntries st)) k = jm_get (jb_jobs st) k
     \<or> jm_get (jb_jobs (enforceAgentRunCacheMaxEntries st)) k = None"
  by (auto simp: enforceAgentRunCacheMaxEntries_def well_kept_def dest: remove_oldest_loses)

lemma enforce_kept:
  assumes "well_kept st"
  shows "well_kept (enforceAgentRunCacheMaxEntries st)"
proof (rule kept_fewer [OF assms])
  show "set (jb_jobs (enforceAgentRunCacheMaxEntries st)) \<subseteq> set (jb_jobs st)"
    using remove_oldest_sub by (simp add: enforceAgentRunCacheMaxEntries_def)
  show "distinct (jm_keys (jb_jobs (enforceAgentRunCacheMaxEntries st)))"
    using assms remove_oldest_distinct by (simp add: well_kept_def enforceAgentRunCacheMaxEntries_def)
qed simp_all

subsection \<open>Waking\<close>

lemma answer_kept: "well_kept st \<Longrightarrow> well_kept (answer i s st)"
  by (simp add: well_kept_def answer_def stored_below_def distinct_map_filter)

lemma wake_cases:
  "wake now w st = (case find_snapshot (pruneAgentRunCache now st) (jw_runId w) (jw_chatOnly w) (jw_afterVersion w) of
     Some s \<Rightarrow> answer (jw_id w) (Some (publicSnapshot s)) (pruneAgentRunCache now st)
   | None \<Rightarrow> pruneAgentRunCache now st)"
  by (simp add: wake_def getAgentRunSnapshot_def Let_def)

lemma wake_kept: "well_kept st \<Longrightarrow> well_kept (wake now w st)"
  by (auto simp: wake_cases answer_kept prune_kept split: option.split)

lemma wake_jobs [simp]: "jb_jobs (wake now w st) = jb_jobs (pruneAgentRunCache now st)"
  by (simp add: wake_cases answer_def split: option.split)

lemma wake_waiters: "set (jb_waiters (wake now w st)) \<subseteq> set (jb_waiters st)"
  by (auto simp: wake_cases answer_def split: option.split)

lemma wake_unanswered:
  assumes "well_kept st" and "x \<in> set (jb_waiters (wake now w st))" and "unanswered st x \<or> x = w"
  shows "unanswered (wake now w st) x"
proof -
  have l: "unanswered (pruneAgentRunCache now st) x \<Longrightarrow> unanswered (wake now w st) x"
    using unanswered_loses [of "wake now w st" x "pruneAgentRunCache now st"] by simp
  from assms(3) show ?thesis
  proof
    assume "unanswered st x"
    thus ?thesis using unanswered_loses [OF prune_loses [OF assms(1)]] l by blast
  next
    assume x: "x = w"
    have "find_snapshot (pruneAgentRunCache now st) (jw_runId w) (jw_chatOnly w) (jw_afterVersion w) = None"
      using assms(2) x by (auto simp: wake_cases answer_def split: option.splits)
    thus ?thesis using x l by (simp add: unanswered_def)
  qed
qed

lemma wake_all:
  "well_kept st \<Longrightarrow> \<forall>x\<in>set (jb_waiters st). x \<notin> set ws \<longrightarrow> unanswered st x \<Longrightarrow> job_inv (fold (wake now) ws st)"
proof (induction ws arbitrary: st)
  case Nil
  thus ?case by (simp add: job_inv_def)
next
  case (Cons w ws)
  have "\<forall>x\<in>set (jb_waiters (wake now w st)). x \<notin> set ws \<longrightarrow> unanswered (wake now w st) x"
  proof (intro ballI impI)
    fix x assume x: "x \<in> set (jb_waiters (wake now w st))" "x \<notin> set ws"
    with Cons.prems(2) wake_waiters [of now w st] have "unanswered st x \<or> x = w" by auto
    thus "unanswered (wake now w st) x" by (rule wake_unanswered [OF Cons.prems(1) x(1)])
  qed
  thus ?case using Cons.IH [OF wake_kept [OF Cons.prems(1)]] by simp
qed

lemma notify_inv:
  assumes "well_kept st" and "\<forall>w\<in>set (jb_waiters st). jw_runId w \<noteq> r \<longrightarrow> unanswered st w"
  shows "job_inv (notifyAgentRunWaiters now r st)"
  unfolding notifyAgentRunWaiters_def using assms by (intro wake_all) auto

subsection \<open>Recording\<close>

lemma merge_version: "ob_version (mergeSnapshot e s) = ob_version s \<or> (\<exists>x. e = Some x \<and> ob_version (mergeSnapshot e s) = ob_version x)"
  by (cases e) (auto simp: mergeSnapshot_def)

lemma put_sel [simp]:
  "jb_waiters (store_snapshot now e st) = jb_waiters st" "jb_errors (store_snapshot now e st) = jb_errors st"
  "jb_timeouts (store_snapshot now e st) = jb_timeouts st" "jb_version (store_snapshot now e st) = jb_version st"
  "jb_answers (store_snapshot now e st) = jb_answers st"
  by (simp_all add: store_snapshot_def Let_def)

lemma put_other: "k \<noteq> ob_runId e \<Longrightarrow> jm_get (jb_jobs (store_snapshot now e st)) k = jm_get (jb_jobs st) k"
  by (simp add: store_snapshot_def Let_def jm_get_put)

lemma store_snapshot_kept:
  assumes "well_kept st" "ob_version e \<le> jb_version st"
  shows "well_kept (store_snapshot now e st)"
proof -
  let ?old = "case_option [] jr_snapshots (jm_get (jb_jobs st) (ob_runId e))"
  let ?m = "mergeSnapshot (jm_get ?old (ob_source e)) e"
  let ?new = "jm_put (ob_source e) ?m ?old"
  let ?job = "\<lparr>jr_cachedAt = now, jr_snapshots = ?new\<rparr>"
  have b: "jobs_below (jb_version st) (jb_jobs st)" using assms(1) by (simp add: well_kept_def stored_below_def)
  have old: "ob_version s \<le> jb_version st" if "(j, s) \<in> set ?old" for j s
  proof (cases "jm_get (jb_jobs st) (ob_runId e)")
    case (Some job)
    hence "(ob_runId e, job) \<in> set (jb_jobs st)" by (rule jm_get_in)
    with b that Some show ?thesis unfolding jobs_below_def by simp
  qed (use that in simp)
  have m: "ob_version ?m \<le> jb_version st"
    using merge_version [of "jm_get ?old (ob_source e)" e]
  proof
    assume "\<exists>x. jm_get ?old (ob_source e) = Some x \<and> ob_version ?m = ob_version x"
    then obtain x where "jm_get ?old (ob_source e) = Some x" "ob_version ?m = ob_version x" by blast
    thus ?thesis using old [OF jm_get_in] by simp
  qed (simp add: assms(2))
  have new: "ob_version s \<le> jb_version st" if "(j, s) \<in> set ?new" for j s
  proof -
    have "(j, s) \<in> insert (ob_source e, ?m) (set ?old)" using that set_jm_put by (rule set_rev_mp)
    with m old show ?thesis by blast
  qed
  have "jobs_below (jb_version st) (jm_put (ob_runId e) ?job (jb_jobs st))"
    unfolding jobs_below_def
  proof (intro allI impI)
    fix k job j s assume k: "(k, job) \<in> set (jm_put (ob_runId e) ?job (jb_jobs st))" and s: "(j, s) \<in> set (jr_snapshots job)"
    have "(k, job) \<in> insert (ob_runId e, ?job) (set (jb_jobs st))" using k set_jm_put by (rule set_rev_mp)
    thus "ob_version s \<le> jb_version st"
    proof
      assume "(k, job) = (ob_runId e, ?job)"
      with s new show ?thesis by simp
    next
      assume "(k, job) \<in> set (jb_jobs st)"
      with b s show ?thesis unfolding jobs_below_def by blast
    qed
  qed
  thus ?thesis
    using assms(1) jm.distinct_put [of "jb_jobs st"] by (simp add: well_kept_def stored_below_def store_snapshot_def Let_def)
qed

lemma as_cached_sel [simp]:
  "ob_runId (as_cached now v o') = ob_runId o'" "ob_version (as_cached now v o') = v" "ob_source (as_cached now v o') = ob_source o'"
  by (simp_all add: as_cached_def run_observation.defs)

lemma record_inv:
  assumes "job_inv st" "v \<le> jb_version st"
  shows "job_inv (recordAgentRunSnapshot now o' v st)"
proof -
  let ?p = "pruneAgentRunCache now st" and ?e = "as_cached now v o'"
  have k: "well_kept ?p" "well_kept (store_snapshot now ?e ?p)"
    using assms store_snapshot_kept [of ?p ?e now] by (simp_all add: job_inv_def prune_kept)
  have u: "unanswered (enforceAgentRunCacheMaxEntries (store_snapshot now ?e ?p)) w"
    if "w \<in> set (jb_waiters st)" "jw_runId w \<noteq> ob_runId o'" for w
  proof -
    have "well_kept st" "unanswered st w" using that(1) assms(1) by (auto simp: job_inv_def)
    hence p: "unanswered ?p w" using unanswered_loses [OF prune_loses] by blast
    have "jm_get (jb_jobs (store_snapshot now ?e ?p)) (jw_runId w) = jm_get (jb_jobs ?p) (jw_runId w)"
      by (rule put_other) (simp add: that(2))
    from unanswered_loses [OF disjI1 [OF this] p] have "unanswered (store_snapshot now ?e ?p) w" .
    thus ?thesis by (rule unanswered_loses [OF enforce_loses [OF k(2)]])
  qed
  show ?thesis
    unfolding recordAgentRunSnapshot_def
  proof (rule notify_inv [OF enforce_kept [OF k(2)]], intro ballI impI)
    fix w assume "w \<in> set (jb_waiters (enforceAgentRunCacheMaxEntries (store_snapshot now ?e ?p)))" "jw_runId w \<noteq> ob_runId o'"
    thus "unanswered (enforceAgentRunCacheMaxEntries (store_snapshot now ?e ?p)) w" by (intro u) simp_all
  qed
qed

subsection \<open>The steps\<close>

text \<open>A state with the same jobs and waiters and a version that is not lower.\<close>

lemma inv_pending:
  assumes "job_inv st" and "jb_jobs st' = jb_jobs st" "jb_waiters st' = jb_waiters st" "jb_version st \<le> jb_version st'"
    and "pending_below (jb_version st') (jb_errors st')" "pending_below (jb_version st') (jb_timeouts st')"
    and "set (jm_keys (jb_errors st')) \<inter> set (jm_keys (jb_timeouts st')) = {}"
  shows "job_inv st'"
proof -
  have "jobs_below (jb_version st') (jb_jobs st')"
    using assms(1,2,4) by (fastforce simp: job_inv_def well_kept_def stored_below_def jobs_below_def)
  moreover have "unanswered st' w" if "unanswered st w" for w
    using unanswered_loses [OF _ that, of st'] assms(2) by simp
  ultimately show ?thesis using assms by (simp add: job_inv_def well_kept_def stored_below_def)
qed

lemma pending_delete: "pending_below v m \<Longrightarrow> pending_below v (jm_delete k m)"
  by (auto simp: pending_below_def jm_delete_def)

lemma pending_mono: "pending_below v m \<Longrightarrow> v \<le> u \<Longrightarrow> pending_below u m"
  by (fastforce simp: pending_below_def)

lemma pending_put: "pending_below v m \<Longrightarrow> ob_version s \<le> v \<Longrightarrow> pending_below v (jm_put k s m)"
  unfolding pending_below_def using set_jm_put [of k s m] by blast

lemma pending_get: "pending_below v m \<Longrightarrow> jm_get m k = Some s \<Longrightarrow> ob_version s \<le> v"
  unfolding pending_below_def using jm_get_in by fast

lemma schedule_below: "pending_below v m \<Longrightarrow> ob_version s \<le> v \<Longrightarrow> pending_below v (schedule_terminal s m)"
  by (simp add: schedule_terminal_def pending_put pending_delete)

lemma schedule_keys: "set (jm_keys (schedule_terminal s m)) \<subseteq> insert (ob_runId s) (set (jm_keys m))"
  by (auto simp: schedule_terminal_def jm_keys_put jm_keys_delete)

lemmas inv_defs = job_inv_def well_kept_def stored_below_def

lemma version_inv: "job_inv st \<Longrightarrow> job_inv (nextAgentRunVersion st)"
  by (rule inv_pending) (auto simp: nextAgentRunVersion_def inv_defs intro: pending_mono)

lemma clear_inv: "job_inv st \<Longrightarrow> job_inv (clearPendingAgentRunError r st)" "job_inv st \<Longrightarrow> job_inv (clearPendingAgentRunTimeout r st)"
  by (rule inv_pending; auto simp: clearPendingAgentRunError_def clearPendingAgentRunTimeout_def inv_defs pending_delete jm_keys_delete)+

lemma error_inv:
  assumes "job_inv st" "ob_version s \<le> jb_version st"
  shows "job_inv (schedulePendingAgentRunError s st)"
proof (cases "preserved_by (jb_timeouts st) s")
  case False
  have d: "set (jm_keys (jb_errors st)) \<inter> set (jm_keys (jb_timeouts st)) = {}" using assms(1) by (simp add: inv_defs)
  show ?thesis
    using assms False d schedule_keys [of s "jb_errors st"]
    by (intro inv_pending [OF assms(1)])
      (auto simp: schedulePendingAgentRunError_def clearPendingAgentRunTimeout_def Let_def inv_defs schedule_below
        pending_delete jm_keys_delete)
qed (use assms in \<open>simp add: schedulePendingAgentRunError_def\<close>)

lemma timeout_inv:
  assumes "job_inv st" "ob_version s \<le> jb_version st"
  shows "job_inv (schedulePendingAgentRunTimeout s st)"
proof (cases "preserved_by (jb_timeouts st) s")
  case False
  have d: "set (jm_keys (jb_errors st)) \<inter> set (jm_keys (jb_timeouts st)) = {}" using assms(1) by (simp add: inv_defs)
  show ?thesis
    using assms False d schedule_keys [of s "jb_timeouts st"]
    by (intro inv_pending [OF assms(1)])
      (auto simp: schedulePendingAgentRunTimeout_def clearPendingAgentRunError_def Let_def inv_defs schedule_below
        pending_delete jm_keys_delete)
qed (use assms in \<open>simp add: schedulePendingAgentRunTimeout_def\<close>)

lemma fire_inv: "job_inv st \<Longrightarrow> job_inv (fire_error now r st)" "job_inv st \<Longrightarrow> job_inv (fire_timeout now r st)"
proof -
  assume i: "job_inv st"
  have p: "pending_below (jb_version st) (jb_errors st)" "pending_below (jb_version st) (jb_timeouts st)"
    using i by (simp_all add: inv_defs)
  note c = clear_inv [OF i, of r, unfolded clearPendingAgentRunError_def clearPendingAgentRunTimeout_def]
  show "job_inv (fire_error now r st)"
    using i pending_get [OF p(1)] record_inv [OF c(1)] by (auto simp: fire_error_def split: option.split)
  show "job_inv (fire_timeout now r st)"
    using i pending_get [OF p(2)] record_inv [OF c(2)] by (auto simp: fire_timeout_def split: option.split)
qed

lemma jobs_deleted_inv:
  assumes "job_inv st"
  shows "job_inv (st\<lparr>jb_jobs := jm_delete r (jb_jobs st)\<rparr>)"
proof -
  let ?st' = "st\<lparr>jb_jobs := jm_delete r (jb_jobs st)\<rparr>"
  have "well_kept ?st'"
    using assms jm.distinct_delete [of "jb_jobs st" r]
    by (intro kept_fewer [of st ?st']) (auto simp: inv_defs jm_delete_def)
  moreover have "unanswered ?st' w" if "unanswered st w" for w
    using that by (intro unanswered_loses [of ?st' w st]) (auto simp: jm_get_delete)
  ultimately show ?thesis using assms by (simp add: job_inv_def)
qed

lemma starts_inv [simp]: "job_inv (st\<lparr>jb_starts := x\<rparr>) \<longleftrightarrow> job_inv st"
  by (simp add: inv_defs unanswered_def find_snapshot_def)

lemma begin_inv: "job_inv st \<Longrightarrow> job_inv (beginAgentJob r t st)"
  by (auto simp: beginAgentJob_def Let_def jobs_deleted_inv clear_inv version_inv split: option.split)

lemma answers_inv [simp]: "job_inv (st\<lparr>jb_answers := x\<rparr>) \<longleftrightarrow> job_inv st"
  by (simp add: inv_defs unanswered_def find_snapshot_def)

lemma answer_inv: "job_inv st \<Longrightarrow> job_inv (answer i s st)"
  using answer_kept [of st i s] unanswered_loses [of "answer i s st"] by (auto simp: job_inv_def answer_def)

lemma created:
  assumes "createSnapshotFromLifecycleEvent now r isError data st = (s, st')"
  shows "st' = nextAgentRunVersion st" "ob_version s = jb_version st'" "ob_runId s = r" "ob_source s = LifecycleSource"
    "js_pendingError s = False"
proof -
  have e: "s = fst (createSnapshotFromLifecycleEvent now r isError data st)"
    "st' = snd (createSnapshotFromLifecycleEvent now r isError data st)" using assms by simp_all
  show "st' = nextAgentRunVersion st" "ob_version s = jb_version st'" "ob_runId s = r" "ob_source s = LifecycleSource"
    "js_pendingError s = False"
    unfolding e by (simp_all add: createSnapshotFromLifecycleEvent_def Let_def)
qed

lemma starts_version [simp]: "jb_version (st\<lparr>jb_starts := x\<rparr>) = jb_version st"
  by simp

lemma lifecycle_inv:
  assumes "job_inv st"
  shows "job_inv (on_lifecycle now r data st)"
proof -
  let ?e = "jprop data ''phase'' = Some (JStr ''error'')"
  obtain s st1 where c: "createSnapshotFromLifecycleEvent (of_int now) r ?e data st = (s, st1)" by fastforce
  note C = created [OF c]
  let ?st2 = "st1\<lparr>jb_starts := jm_delete r (jb_starts st1)\<rparr>"
  have i: "job_inv ?st2" unfolding starts_inv C(1) by (rule version_inv [OF assms])
  have v: "ob_version s \<le> jb_version ?st2" by (simp add: C(2))
  have r: "job_inv (recordAgentRunSnapshot now s (ob_version s)
      (clearPendingAgentRunTimeout r (clearPendingAgentRunError r ?st2)))"
    by (intro record_inv clear_inv i) (simp add: C(2) clearPendingAgentRunTimeout_def clearPendingAgentRunError_def)
  show ?thesis
    unfolding on_lifecycle_def Let_def c prod.case
    using begin_inv [OF assms] assms error_inv [OF i v] timeout_inv [OF i v] i r by (simp split: if_split)
qed

lemma dedupe_inv:
  assumes "job_inv st" and "setGatewayDedupeEntry now key entry (d, st) = (d', st')"
  shows "job_inv st'"
proof -
  have r: "job_inv (recordAgentRunSnapshot now o' (jb_version (nextAgentRunVersion st)) (nextAgentRunVersion st))" for o'
    by (intro record_inv version_inv assms(1)) simp
  show ?thesis
    using assms r begin_inv [OF assms(1)]
    by (auto simp: setGatewayDedupeEntry_def Let_def split: if_splits option.splits dedupe_observation.splits prod.splits)
qed

lemma prune_inv:
  assumes "job_inv st"
  shows "job_inv (pruneAgentRunCache now st)"
proof -
  have k: "well_kept st" using assms by (simp add: job_inv_def)
  show ?thesis
    using assms prune_kept [OF k] unanswered_loses [OF prune_loses [OF k]] by (auto simp: job_inv_def)
qed

lemma wait_inv:
  assumes "job_inv st" and "i \<notin> jw_id ` set (jb_waiters st)"
  shows "job_inv (waitForAgentJob now i r timeoutMs ignored chatOnly st)"
proof -
  let ?v = "if ignored then jb_version st else -1" and ?p = "pruneAgentRunCache now st"
  let ?w = "\<lparr>jw_id = i, jw_runId = r, jw_chatOnly = chatOnly, jw_afterVersion = ?v\<rparr>"
  let ?q = "?p\<lparr>jb_waiters := jb_waiters ?p @ [?w]\<rparr>"
  have p: "job_inv ?p" by (rule prune_inv [OF assms(1)])
  have k: "well_kept ?q" using p assms(2) by (auto simp: inv_defs)
  have u: "unanswered ?q x" if "unanswered ?p x" for x using unanswered_loses [OF _ that, of ?q] by simp
  have "job_inv (fold (wake now) [?w] ?q)"
    using p u by (intro wake_all k) (auto simp: job_inv_def)
  thus ?thesis
    using p by (auto simp: waitForAgentJob_def getAgentRunSnapshot_def Let_def split: option.split)
qed

lemma wait_timeout_inv: "job_inv st \<Longrightarrow> job_inv (on_wait_timeout i st)"
  by (simp add: on_wait_timeout_def answer_inv split: option.split)

lemma step_inv: "job_step s s' \<Longrightarrow> job_inv (snd s) \<Longrightarrow> job_inv (snd s')"
proof (induction rule: job_step.induct)
  case (dedupe s now key entry)
  thus ?case using dedupe_inv [of "snd s" now key entry "fst s"] by (cases "setGatewayDedupeEntry now key entry s") auto
qed (simp_all add: lifecycle_inv fire_inv wait_inv wait_timeout_inv)

lemma empty_job_inv: "job_inv empty_registry"
  by (simp add: inv_defs empty_registry_def jobs_below_def pending_below_def jm_keys_def)

definition job_start :: "(string, dedupe_entry) jmap \<times> job_registry" where
  "job_start = ([], empty_registry)"

lemma reachable_job_inv: "job_step\<^sup>*\<^sup>* job_start s \<Longrightarrow> job_inv (snd s)"
  by (induction rule: rtranclp_induct) (simp_all add: job_start_def empty_job_inv step_inv)

subsection \<open>What a lookup finds\<close>

lemma freshest_version:
  assumes "getFreshestDedupeSnapshot m = Some s"
  shows "\<exists>j x. jm_get m j = Some x \<and> ob_version s = ob_version x"
proof (cases "jm_get m AgentSource")
  case None
  with assms show ?thesis by (auto simp: getFreshestDedupeSnapshot_def)
next
  case (Some a)
  thus ?thesis
    using assms merge_version [of "Some a"] merge_version [of "jm_get m ChatSource" a]
    by (fastforce simp: getFreshestDedupeSnapshot_def split: option.splits if_splits)
qed

lemma canonical_version:
  assumes "getCanonicalAgentRunSnapshot m = Some s"
  shows "\<exists>j x. jm_get m j = Some x \<and> ob_version s = ob_version x"
proof (cases "getFreshestDedupeSnapshot m")
  case None
  with assms show ?thesis by (auto simp: getCanonicalAgentRunSnapshot_def)
next
  case (Some d)
  note D = freshest_version [OF Some]
  show ?thesis
  proof (cases "jm_get m LifecycleSource")
    case None
    with assms Some D show ?thesis by (simp add: getCanonicalAgentRunSnapshot_def)
  next
    case L: (Some l)
    have "ob_version s = ob_version d \<or> ob_version s = ob_version l"
      using assms merge_version [of "Some l" d] merge_version [of "Some d" l]
      by (auto simp: getCanonicalAgentRunSnapshot_def Some L split: if_splits)
    with D L show ?thesis by metis
  qed
qed

lemma found_below:
  assumes "jobs_below v (jb_jobs st)" "find_snapshot st r c u = Some s"
  shows "u < ob_version s \<and> ob_version s \<le> v"
proof -
  obtain job where job: "jm_get (jb_jobs st) r = Some job" and u: "u < ob_version s"
    and s: "(if c then jm_get (jr_snapshots job) ChatSource else getCanonicalAgentRunSnapshot (jr_snapshots job)) = Some s"
    using assms(2) by (auto simp: find_snapshot_def split: option.splits if_splits)
  obtain j x where x: "jm_get (jr_snapshots job) j = Some x" "ob_version s = ob_version x"
    using s canonical_version [of "jr_snapshots job" s] by (cases c) auto
  have "ob_version x \<le> v"
    using assms(1) jm_get_in [OF job] jm_get_in [OF x(1)] unfolding jobs_below_def by blast
  with u x(2) show ?thesis by simp
qed

subsection \<open>What a fresh recording leaves\<close>

lemma wake_fresh:
  assumes "well_kept st" "jm_get (jb_jobs st) r = Some job" "jr_cachedAt job = now"
  shows "jm_get (jb_jobs (fold (wake now) ws st)) r = Some job"
  using assms
proof (induction ws arbitrary: st)
  case (Cons w ws)
  have "jm_get (jb_jobs (wake now w st)) r = Some job"
    using Cons.prems by (simp add: well_kept_def pruneAgentRunCache_def jm_get_sweep AGENT_RUN_CACHE_TTL_MS_def)
  thus ?case using Cons.IH [OF wake_kept [OF Cons.prems(1)]] Cons.prems(3) by simp
qed simp

lemma recorded_job:
  assumes inv: "job_inv st" "v \<le> jb_version st" and job: "jm_get (jb_jobs st) (ob_runId s) = Some job"
    and fresh: "now - jr_cachedAt job \<le> AGENT_RUN_CACHE_TTL_MS" and room: "length (jb_jobs st) \<le> AGENT_RUN_CACHE_MAX_ENTRIES"
  shows "jm_get (jb_jobs (recordAgentRunSnapshot now s v st)) (ob_runId s)
    = Some \<lparr>jr_cachedAt = now, jr_snapshots = jm_put (ob_source s)
        (mergeSnapshot (jm_get (jr_snapshots job) (ob_source s)) (as_cached now v s)) (jr_snapshots job)\<rparr>"
proof -
  let ?p = "pruneAgentRunCache now st"
  let ?q = "store_snapshot now (as_cached now v s) ?p"
  have k: "well_kept ?p" "well_kept ?q"
    using inv store_snapshot_kept [of ?p "as_cached now v s" now] by (simp_all add: job_inv_def prune_kept)
  have p: "jm_get (jb_jobs ?p) (ob_runId s) = Some job"
    using inv job fresh by (simp add: job_inv_def well_kept_def pruneAgentRunCache_def jm_get_sweep)
  have "ob_runId s \<in> set (jm_keys (jb_jobs ?p))" using p jm_get_keys [of "jb_jobs ?p" "ob_runId s"] by simp
  hence "length (jm_keys (jb_jobs ?q)) = length (jm_keys (jb_jobs ?p))"
    by (simp add: store_snapshot_def Let_def jm_keys_put del: length_jm_keys)
  moreover have "length (jb_jobs ?p) \<le> length (jb_jobs st)" by (simp add: pruneAgentRunCache_def length_jm_sweep)
  ultimately have e: "enforceAgentRunCacheMaxEntries ?q = ?q" using room by (simp add: enforceAgentRunCacheMaxEntries_def)
  show ?thesis
    unfolding recordAgentRunSnapshot_def notifyAgentRunWaiters_def e
    by (rule wake_fresh [OF k(2)]) (simp_all add: store_snapshot_def Let_def jm_get_put p)
qed

end
