(* ===== verification/Run_Properties.thy ===== *)
theory Run_Properties
  imports Run_Attempt_Facts Run_Facts
begin

section \<open>What run outcomes promise\<close>

text \<open>
  The properties of attempt terminals, outcomes and the registry, each with an instance where it has
  hypotheses.
\<close>

subsection \<open>Attempts\<close>

text \<open>
  C30: How an attempt ended does not depend on the order or the repetition of what was observed of it: two
  lists of observations with the same verdicts, merged into the same terminal, give terminals of the
  same verdict, that is of the same abort, timeout, phase and flags.
\<close>

theorem attempt_verdict_order_free:
  assumes "verdict ` set ts = verdict ` set us"
  shows "verdict (foldl mergeAgentRunAttemptTerminal t ts) = verdict (foldl mergeAgentRunAttemptTerminal t us)
     \<and> ap_timedOut (projectAgentRunAttemptTerminal (foldl mergeAgentRunAttemptTerminal t ts))
       = ap_timedOut (projectAgentRunAttemptTerminal (foldl mergeAgentRunAttemptTerminal t us))"
  using attempts.settled_order_free [OF assms, of t] by (simp add: projection_verdict)

lemma attempt_verdict_order_free_witness:
  "verdict (foldl mergeAgentRunAttemptTerminal AtOk
      [AtAborted ExternalAbort None None, AtTimeout Prompt RuntimeTimeout False None])
   = verdict (foldl mergeAgentRunAttemptTerminal AtOk
      [AtTimeout Prompt RuntimeTimeout False None, AtAborted ExternalAbort None None, AtTimeout Prompt RuntimeTimeout False None])"
proof -
  have "verdict ` set [AtAborted ExternalAbort None None, AtTimeout Prompt RuntimeTimeout False None]
    = verdict ` set [AtTimeout Prompt RuntimeTimeout False None, AtAborted ExternalAbort None None, AtTimeout Prompt RuntimeTimeout False None]"
    by (simp add: insert_commute)
  from attempt_verdict_order_free [OF this, of AtOk] show ?thesis by blast
qed

text \<open>
  C31: The flags of an attempt say exactly what was observed: it timed out, was aborted, aborted from outside
  or timed out during compaction just when some observation says so; the weaker attributions, a
  timeout by budget or idleness, one during a tool, a cleanup after a yield, just when one says so and
  none is stronger; and its error is the last one reported.
\<close>

theorem attempt_projection_exact:
  "let p = projectAgentRunAttemptTerminal (foldl mergeAgentRunAttemptTerminal AtOk ts);
       any = (\<lambda>f. list_ex (\<lambda>t. f (projectAgentRunAttemptTerminal t)) ts)
   in ap_timedOut p = any ap_timedOut \<and> ap_aborted p = any ap_aborted \<and> ap_externalAbort p = any ap_externalAbort
    \<and> ap_timedOutDuringCompaction p = any ap_timedOutDuringCompaction
    \<and> ap_timedOutDuringToolExecution p = (any ap_timedOutDuringToolExecution \<and> \<not> any ap_timedOutDuringCompaction)
    \<and> ap_timedOutByRunBudget p = (any ap_timedOutByRunBudget \<and> \<not> any ap_externalAbort)
    \<and> ap_idleTimedOut p = (any ap_idleTimedOut \<and> \<not> any ap_timedOutByRunBudget \<and> \<not> any ap_externalAbort)
    \<and> ap_cleanupYieldAborted p = (any ap_cleanupYieldAborted \<and> \<not> any ap_aborted \<and> \<not> any ap_timedOut)
    \<and> ap_promptError p = map_option snd (last_failure ts)"
  unfolding Let_def observed_flags weaker_flags
  by (simp add: projectAgentRunAttemptTerminal_def Let_def foldl_failure)

subsection \<open>Outcomes\<close>

lemma built_ok: "ro_status (buildAgentRunTerminalOutcome i) = WaitOk \<Longrightarrow> ti_status i = WaitOk"
  by (auto simp: buildAgentRunTerminalOutcome_def Let_def split: if_splits intro: wait_status.exhaust [of "ti_status i"])

text \<open>
  C29: A run that was interrupted or failed is never reported as ok: where its attempt timed out, was
  aborted or failed, its abort signal was raised, or the assistant stopped with an error, the outcome
  is an error or a timeout, whatever else is attributed to it.
\<close>

theorem interrupted_is_not_ok:
  assumes "ap_timedOut (projectAgentRunAttemptTerminal t) \<or> ap_aborted (projectAgentRunAttemptTerminal t)
     \<or> ap_failed (projectAgentRunAttemptTerminal t) \<or> map_option as_aborted signal = Some True
     \<or> Option.bind assistant ae_stopReason = Some ''error''"
  shows "ro_status (buildAgentRunTerminalOutcomeFromAttempt t promptTimeout assistant signal) \<noteq> WaitOk"
proof
  assume "ro_status (buildAgentRunTerminalOutcomeFromAttempt t promptTimeout assistant signal) = WaitOk"
  hence "\<not> ap_timedOut (projectAgentRunAttemptTerminal t)" "\<not> ap_aborted (projectAgentRunAttemptTerminal t)"
    "ap_promptErrorSource (projectAgentRunAttemptTerminal t) = None" "\<not> fst (resolveAgentRunAbortLifecycleFields signal)"
    "Option.bind assistant ae_stopReason \<noteq> Some ''error''"
    unfolding buildAgentRunTerminalOutcomeFromAttempt_def Let_def
    by (auto dest!: built_ok split: prod.splits if_splits)
  moreover from this(3) have "\<not> ap_failed (projectAgentRunAttemptTerminal t)"
    by (simp add: projectAgentRunAttemptTerminal_def Let_def)
  moreover from this have "map_option as_aborted signal \<noteq> Some True"
    using calculation(4) by (auto simp: resolveAgentRunAbortLifecycleFields_def split: if_splits)
  ultimately show False using assms by blast
qed

lemma interrupted_is_not_ok_witness:
  "ro_status (buildAgentRunTerminalOutcomeFromAttempt (AtFailed (FromPrompt, ThrownOther) None) None
     (Some \<lparr>ae_stopReason = Some ''stop'', ae_errorMessage = None\<rparr>) None) \<noteq> WaitOk"
proof -
  have "ap_failed (projectAgentRunAttemptTerminal (AtFailed (FromPrompt, ThrownOther) None))"
    by (simp add: projectAgentRunAttemptTerminal_def Let_def)
  thus ?thesis by (intro interrupted_is_not_ok) blast
qed

text \<open>
  C32: Of two observations that ended at a known time and disagree, one of them a hard timeout or a
  cancellation, the same one owns the run whichever is seen first.
\<close>

theorem two_outcomes_commute:
  assumes "ro_endedAt a \<noteq> None" "ro_endedAt b \<noteq> None" and "ro_reason a \<noteq> ro_reason b"
    and "isStickyAgentRunTerminalOutcome (Some a) \<or> isStickyAgentRunTerminalOutcome (Some b)"
  shows "mergeAgentRunTerminalOutcome (Some a) b = mergeAgentRunTerminalOutcome (Some b) a"
proof -
  obtain x y where e: "ro_endedAt a = Some x" "ro_endedAt b = Some y" using assms(1,2) by blast
  show ?thesis
    using assms(3,4)
    by (auto simp: mergeAgentRunTerminalOutcome_def incoming_wins_def completedBeforeOrAtTimeout_def both_ended_def
        isStickyAgentRunTerminalOutcome_def e)
qed

definition ended_at :: "terminal_reason \<Rightarrow> rat \<Rightarrow> run_outcome" where
  "ended_at reason t = \<lparr>ro_reason = reason,
     ro_status = (if reason = Completed then WaitOk else if reason = HardTimeout then WaitTimeout else WaitError),
     ro_error = None, ro_stopReason = None, ro_livenessState = None, ro_timeoutPhase = None, ro_providerStarted = None,
     ro_startedAt = None, ro_endedAt = Some t\<rparr>"

lemma two_outcomes_commute_witness:
  "mergeAgentRunTerminalOutcome (Some (ended_at Cancelled 7)) (ended_at HardTimeout 6)
     = mergeAgentRunTerminalOutcome (Some (ended_at HardTimeout 6)) (ended_at Cancelled 7)"
  by (rule two_outcomes_commute) (simp_all add: ended_at_def isStickyAgentRunTerminalOutcome_def)

text \<open>
  C33: With three observations, a completion, a hard timeout and a cancellation that each ended at a
  known time, the order of arrival decides exactly when they ended in this order. Then the merge runs
  in a circle (the completion beats the timeout, the timeout the cancellation and the cancellation
  the completion), and whichever is seen last owns the run, in all six orders. Otherwise the owner is
  the same in all six: the timeout if it ended no later than the cancellation, else the cancellation.
\<close>

theorem three_outcomes_depend_on_order:
  assumes "ro_reason c = Completed" "ro_reason h = HardTimeout" "ro_reason k = Cancelled"
    and "ro_endedAt c = Some x" "ro_endedAt h = Some y" "ro_endedAt k = Some z"
    and "{u, v, w} = {c, h, k}"
  shows "mergeAgentRunTerminalOutcome (Some (mergeAgentRunTerminalOutcome (Some u) v)) w
    = (if x \<le> y \<and> y \<le> z then w else if y \<le> z then h else k)"
proof -
  have d: "c \<noteq> h" "c \<noteq> k" "h \<noteq> k" using assms(1-3) by auto
  have "u \<in> {c, h, k}" "v \<in> {c, h, k}" "w \<in> {c, h, k}" "c \<in> {u, v, w}" "h \<in> {u, v, w}" "k \<in> {u, v, w}"
    using assms(7) by auto
  then consider "u = c" "v = h" "w = k" | "u = c" "v = k" "w = h" | "u = h" "v = c" "w = k"
    | "u = h" "v = k" "w = c" | "u = k" "v = c" "w = h" | "u = k" "v = h" "w = c"
    using d by blast
  then show ?thesis
    using assms(1-6)
    by cases (simp_all add: mergeAgentRunTerminalOutcome_def incoming_wins_def completedBeforeOrAtTimeout_def both_ended_def)
qed

lemma three_outcomes_depend_on_order_witness:
  "mergeAgentRunTerminalOutcome (Some (mergeAgentRunTerminalOutcome (Some (ended_at Completed 5))
      (ended_at HardTimeout 6))) (ended_at Cancelled 7) = ended_at Cancelled 7
   \<and> mergeAgentRunTerminalOutcome (Some (mergeAgentRunTerminalOutcome (Some (ended_at Cancelled 7))
      (ended_at Completed 5))) (ended_at HardTimeout 6) = ended_at HardTimeout 6"
proof -
  have r: "ro_reason (ended_at q t) = q" "ro_endedAt (ended_at q t) = Some t" for q t
    by (simp_all add: ended_at_def)
  note th = three_outcomes_depend_on_order [OF r(1) r(1) r(1) r(2) r(2) r(2), of _ _ _ 5 6 7]
  show ?thesis
    using th [of "ended_at Completed 5" "ended_at HardTimeout 6" "ended_at Cancelled 7"]
      th [of "ended_at Cancelled 7" "ended_at Completed 5" "ended_at HardTimeout 6"] by (simp add: insert_commute)
qed

subsection \<open>The registry\<close>

text \<open>
  C26: No wakeup is lost: in every state the registry can reach, a caller that still waits is one whom
  nothing stored answers; whatever is recorded for a run has been delivered to everyone it answers.
\<close>

theorem no_wakeup_is_lost:
  assumes "job_step\<^sup>*\<^sup>* job_start (dedupe, st)" and "w \<in> set (jb_waiters st)"
  shows "find_snapshot st (jw_runId w) (jw_chatOnly w) (jw_afterVersion w) = None"
  using reachable_job_inv [OF assms(1)] assms(2) by (simp add: job_inv_def unanswered_def)

definition waiting_state :: job_registry where
  "waiting_state = waitForAgentJob 0 1 ''r'' 100 False False empty_registry"

lemma waiting_waiters: "\<lparr>jw_id = 1, jw_runId = ''r'', jw_chatOnly = False, jw_afterVersion = -1\<rparr> \<in> set (jb_waiters waiting_state)"
  by (simp add: waiting_state_def waitForAgentJob_def getAgentRunSnapshot_def pruneAgentRunCache_def jm_sweep_def
      find_snapshot_def empty_registry_def wake_def Let_def)

lemma waiting_reachable: "job_step\<^sup>*\<^sup>* job_start ([], waiting_state)"
  unfolding job_start_def waiting_state_def
  by (intro r_into_rtranclp job_step.wait) (simp add: empty_registry_def)

lemma no_wakeup_is_lost_witness:
  "find_snapshot waiting_state ''r'' False (-1) = None"
  using no_wakeup_is_lost [OF waiting_reachable waiting_waiters] by simp

text \<open>
  C27: A caller that ignores the cache is answered by nothing observed before its call: nothing stored or
  waiting for a retry has a version above the present one, which is the one its answer must exceed; and
  no run waits with an error and a timeout at once.
\<close>

theorem versions_bound_the_cache:
  assumes "job_step\<^sup>*\<^sup>* job_start (dedupe, st)"
  shows "find_snapshot st r chatOnly (jb_version st) = None
     \<and> pending_below (jb_version st) (jb_errors st) \<and> pending_below (jb_version st) (jb_timeouts st)
     \<and> (jm_get (jb_errors st) r = None \<or> jm_get (jb_timeouts st) r = None)"
proof -
  have i: "job_inv st" using reachable_job_inv [OF assms] by simp
  hence b: "jobs_below (jb_version st) (jb_jobs st)" "pending_below (jb_version st) (jb_errors st)"
    "pending_below (jb_version st) (jb_timeouts st)"
    and d: "set (jm_keys (jb_errors st)) \<inter> set (jm_keys (jb_timeouts st)) = {}" by (simp_all add: inv_defs)
  have "find_snapshot st r chatOnly (jb_version st) = None"
    using found_below [OF b(1), of r chatOnly "jb_version st"] by (cases "find_snapshot st r chatOnly (jb_version st)") fastforce+
  moreover have "jm_get (jb_errors st) r = None \<or> jm_get (jb_timeouts st) r = None"
    using d jm_get_keys [of "jb_errors st" r] jm_get_keys [of "jb_timeouts st" r] by blast
  ultimately show ?thesis using b(2,3) by blast
qed

lemma versions_bound_the_cache_witness:
  "find_snapshot waiting_state ''r'' True (jb_version waiting_state) = None"
  using versions_bound_the_cache [OF waiting_reachable, of "''r''" True] by (rule conjunct1)

lemma begun:
  "find_snapshot (beginAgentJob r t st) r c v = None" "jm_get (jb_errors (beginAgentJob r t st)) r = None"
  "jm_get (jb_timeouts (beginAgentJob r t st)) r = None" "jb_answers (beginAgentJob r t st) = jb_answers st"
  "jb_waiters (beginAgentJob r t st) = jb_waiters st"
  by (simp_all add: beginAgentJob_def find_snapshot_def clearPendingAgentRunTimeout_def clearPendingAgentRunError_def
      nextAgentRunVersion_def jm_get_delete Let_def split: option.split)

lemma error_pending:
  "jb_jobs (schedulePendingAgentRunError s st) = jb_jobs st" "jb_answers (schedulePendingAgentRunError s st) = jb_answers st"
  "jb_waiters (schedulePendingAgentRunError s st) = jb_waiters st"
  by (simp_all add: schedulePendingAgentRunError_def clearPendingAgentRunTimeout_def Let_def)

lemma created_keeps: "snd (createSnapshotFromLifecycleEvent now r e data st) = nextAgentRunVersion st"
  by (simp add: createSnapshotFromLifecycleEvent_def Let_def)

lemma next_sel:
  "jb_jobs (nextAgentRunVersion st) = jb_jobs st" "jb_answers (nextAgentRunVersion st) = jb_answers st"
  "jb_waiters (nextAgentRunVersion st) = jb_waiters st"
  by (simp_all add: nextAgentRunVersion_def)

lemma on_start:
  assumes "jprop data ''phase'' = Some (JStr ''start'')"
  shows "\<exists>t. on_lifecycle now r data st = beginAgentJob r t st"
  by (simp add: on_lifecycle_def assms Let_def del: not_None_eq) blast

lemma on_error:
  assumes "jprop data ''phase'' = Some (JStr ''error'')"
  shows "\<exists>s x. on_lifecycle now r data st = schedulePendingAgentRunError s ((nextAgentRunVersion st)\<lparr>jb_starts := x\<rparr>)"
proof -
  have p: "Some (JStr ''error'') \<noteq> Some (JStr ''start'')" by simp
  show ?thesis
    unfolding on_lifecycle_def Let_def assms prod.case_eq_if created_keeps using p by simp blast
qed

text \<open>
  A new start of a run discards what its former attempt left: no outcome is found, none waits for its
  timer and nobody is answered; an error of the run answers nobody either and leaves what is stored as
  it was, until its timer.
\<close>

theorem errors_wait_for_a_retry:
  "(let st' = on_lifecycle now r ((''phase'', JStr ''start'') # data) st in
     find_snapshot st' r chatOnly version = None \<and> jm_get (jb_errors st') r = None \<and> jm_get (jb_timeouts st') r = None
     \<and> jb_answers st' = jb_answers st \<and> jb_waiters st' = jb_waiters st)
   \<and> (let st' = on_lifecycle now r ((''phase'', JStr ''error'') # data) st in
     jb_jobs st' = jb_jobs st \<and> jb_answers st' = jb_answers st \<and> jb_waiters st' = jb_waiters st)"
proof -
  have p: "jprop ((''phase'', v) # data) ''phase'' = Some v" for v by (simp add: jprop_def)
  obtain t where t: "on_lifecycle now r ((''phase'', JStr ''start'') # data) st = beginAgentJob r t st"
    using on_start [OF p] by blast
  obtain s x where s: "on_lifecycle now r ((''phase'', JStr ''error'') # data) st
      = schedulePendingAgentRunError s ((nextAgentRunVersion st)\<lparr>jb_starts := x\<rparr>)"
    using on_error [OF p] by blast
  show ?thesis unfolding t s Let_def by (simp add: begun error_pending next_sel)
qed

lemma late_outcome_loses:
  assumes "ro_reason e \<in> {Cancelled, HardTimeout}" "ro_reason i \<notin> {Cancelled, HardTimeout}"
    and "\<not> completedBeforeOrAtTimeout i e"
  shows "\<not> incoming_wins e i"
  using assms by (auto simp: incoming_wins_def)

text \<open>
  C28: A run once recorded as cancelled or timed out hard is not reported otherwise by what comes later:
  where the outcome observed next is neither and did not complete by the time of the first, recording
  it keeps the stored snapshot of that source, with a new time of caching, as long as the job has not
  expired and the cache is not over its size.
\<close>

theorem interruption_outlives_completion:
  assumes "job_step\<^sup>*\<^sup>* job_start (dedupe, st)" "version \<le> jb_version st"
    and "jm_get (jb_jobs st) (ob_runId s) = Some job" "jm_get (jr_snapshots job) (ob_source s) = Some e"
    and "now - jr_cachedAt job \<le> AGENT_RUN_CACHE_TTL_MS" "length (jb_jobs st) \<le> AGENT_RUN_CACHE_MAX_ENTRIES"
    and "terminalOutcomeFromSnapshot e = Some x" "ro_reason x \<in> {Cancelled, HardTimeout}"
    and "terminalOutcomeFromSnapshot s = Some y" "ro_reason y \<notin> {Cancelled, HardTimeout}"
    and "\<not> completedBeforeOrAtTimeout y x"
  shows "\<exists>job'. jm_get (jb_jobs (recordAgentRunSnapshot now s version st)) (ob_runId s) = Some job'
     \<and> jm_get (jr_snapshots job') (ob_source s) = Some (e\<lparr>rs_cachedAt := now\<rparr>)"
proof -
  have i: "job_inv st" using reachable_job_inv [OF assms(1)] by simp
  have "terminalOutcomeFromSnapshot (as_cached now version s) = terminalOutcomeFromSnapshot s"
    by (simp add: terminalOutcomeFromSnapshot_def as_cached_def run_observation.defs)
  hence "shouldPreserveTerminalSnapshot e (as_cached now version s)"
    using late_outcome_loses [OF assms(8,10,11)] assms(7,9) by (simp add: shouldPreserveTerminalSnapshot_def)
  hence "mergeSnapshot (Some e) (as_cached now version s) = e\<lparr>rs_cachedAt := now\<rparr>"
    by (simp add: mergeSnapshot_def as_cached_def run_observation.defs)
  thus ?thesis using recorded_job [OF i assms(2,3,5,6)] assms(4) by (simp add: jm_get_put)
qed

definition hard_entry :: dedupe_entry where
  "hard_entry = \<lparr>de_ts = 1, de_ok = True,
     de_payload = Some (JObj [(''status'', JStr ''timeout''), (''providerStarted'', JBool True)]), de_errorMessage = None\<rparr>"

definition observed_run :: "wait_status \<Rightarrow> rat \<Rightarrow> bool option \<Rightarrow> int \<Rightarrow> run_observation" where
  "observed_run status t providerStarted version = \<lparr>js_status = status, js_startedAt = None, js_endedAt = Some t, js_error = None,
     js_stopReason = None, js_livenessState = None, js_yielded = False, js_pendingError = False, js_timeoutPhase = None,
     js_providerStarted = providerStarted, ob_runId = ''r'', ob_source = AgentSource, ob_recordedAt = t, ob_version = version\<rparr>"

definition hard_state :: job_registry where
  "hard_state = recordAgentRunSnapshot 0 (observed_run WaitTimeout 1 (Some True) 1) 1 (nextAgentRunVersion empty_registry)"

lemma hard_parsed: "parseDedupeObservation hard_entry = DedupeTerminal (job_snapshot.truncate (observed_run WaitTimeout 1 (Some True) 1))"
  by code_simp

lemma hard_reachable: "job_step\<^sup>*\<^sup>* job_start ([(''agent:r'', hard_entry)], hard_state)"
proof -
  have d: "de_ts hard_entry = 1" by (simp add: hard_entry_def)
  have "setGatewayDedupeEntry 0 ''agent:r'' hard_entry job_start = ([(''agent:r'', hard_entry)], hard_state)"
    by (simp add: setGatewayDedupeEntry_def job_start_def hard_parsed d hard_state_def keeps_entry_def parseDedupeKey_def
        observed_run_def job_snapshot.defs nextAgentRunVersion_def empty_registry_def Let_def)
  thus ?thesis using job_step.dedupe [of job_start 0 "''agent:r''" hard_entry] by (simp add: r_into_rtranclp)
qed

lemma hard_jobs: "jb_jobs hard_state = [(''r'', \<lparr>jr_cachedAt = 0,
    jr_snapshots = [(AgentSource, as_cached 0 1 (observed_run WaitTimeout 1 (Some True) 1))]\<rparr>)]" "jb_version hard_state = 1"
  by (simp_all add: hard_state_def recordAgentRunSnapshot_def notifyAgentRunWaiters_def enforceAgentRunCacheMaxEntries_def
      store_snapshot_def pruneAgentRunCache_def jm_sweep_def mergeSnapshot_def nextAgentRunVersion_def empty_registry_def
      observed_run_def as_cached_def run_observation.defs Let_def AGENT_RUN_CACHE_MAX_ENTRIES_def)

lemma observed_outcomes:
  "map_option ro_reason (terminalOutcomeFromSnapshot (as_cached 0 1 (observed_run WaitTimeout 1 (Some True) 1))) = Some HardTimeout"
  "map_option ro_endedAt (terminalOutcomeFromSnapshot (as_cached 0 1 (observed_run WaitTimeout 1 (Some True) 1))) = Some (Some 1)"
  "map_option ro_reason (terminalOutcomeFromSnapshot (observed_run WaitOk 5 None 1)) = Some Completed"
  "map_option ro_endedAt (terminalOutcomeFromSnapshot (observed_run WaitOk 5 None 1)) = Some (Some 5)"
  by code_simp+

lemma interruption_outlives_completion_witness:
  "\<exists>job. jm_get (jb_jobs (recordAgentRunSnapshot 1000 (observed_run WaitOk 5 None 1) 1 hard_state)) ''r'' = Some job
    \<and> jm_get (jr_snapshots job) AgentSource
      = Some ((as_cached 0 1 (observed_run WaitTimeout 1 (Some True) 1))\<lparr>rs_cachedAt := 1000\<rparr>)"
proof -
  obtain x where x: "terminalOutcomeFromSnapshot (as_cached 0 1 (observed_run WaitTimeout 1 (Some True) 1)) = Some x"
    "ro_reason x = HardTimeout" "ro_endedAt x = Some 1" using observed_outcomes(1,2) by fastforce
  obtain y where y: "terminalOutcomeFromSnapshot (observed_run WaitOk 5 None 1) = Some y"
    "ro_reason y = Completed" "ro_endedAt y = Some 5" using observed_outcomes(3,4) by fastforce
  have s: "ob_runId (observed_run WaitOk 5 None 1) = ''r''" "ob_source (observed_run WaitOk 5 None 1) = AgentSource"
    by (simp_all add: observed_run_def)
  have c: "\<not> completedBeforeOrAtTimeout y x" by (simp add: completedBeforeOrAtTimeout_def both_ended_def x y)
  show ?thesis
    using interruption_outlives_completion [OF hard_reachable, of 1 "observed_run WaitOk 5 None 1" _ _ 1000, OF _ _ _ _ _ x(1) _ y(1) _ c]
    by (simp add: hard_jobs s x y AGENT_RUN_CACHE_TTL_MS_def AGENT_RUN_CACHE_MAX_ENTRIES_def)
qed

end
