(* ===== verification/Spec2Isabelle.thy ===== *)
theory Spec2Isabelle
  imports Placement_Outcomes Placement_Runs Placement_Recovery Ingress_Resolution
    Pair_Loop_Facts Webhook_Facts Control_Plane_Limit Transcript_Linear Board_Properties
    Exec_Commits Run_Properties
begin

text \<open>
  A verification library for OpenClaw, a self-hosted gateway that connects message channels to
  agents. The repository is large and mostly glue; the library takes the parts of
  \<^verbatim>\<open>src/\<close> that decide something: who may run a session's turn and where, which message
  is let through to an agent, how often, which part of a transcript an agent sees, what a widget
  on a session's board may do, which commands may run, and how a run is said to have ended. Paths below
  are those of the repository.

  \<^bold>\<open>The parts and how they meet.\<close> The gateway receives an event of a channel, and channel
  ingress decides whether it is dispatched. A dispatched message becomes a turn of a session; the
  placement store says whether that turn runs locally or on a worker and gives out the claim for it.
  A worker reports back through the worker gate, and its workspace is taken over through the journal,
  the pending results and the manifest it sends. The turn reads the active branch of the session's
  transcript, and may put widgets on the session's board, which act only within what the operator
  grants them, and run commands, which need authority in the stored exec policy. However the run ends,
  what is observed of its end is merged into one outcome, which the run registry keeps and hands to those
  who wait for it. In front of all this stand the guards: the pair-loop guard against bots that answer
  each other, the webhook limiters, and the write budget of control-plane clients.

  \<^bold>\<open>Vocabulary.\<close> \<open>Js_Prelude\<close> (results, strings, numbers, deduplication),
  \<open>Js_Map\<close> (the insertion-ordered Map; interface \<open>ordered_map\<close>), \<open>Json\<close> (JSON values),
  \<open>Sql_Table\<close> (a SQLite table with CHECK clauses; interface \<open>keyed_table\<close>),
  \<open>Posix_Path\<close> (Node's \<^verbatim>\<open>path.posix\<close>). The two interfaces are interpreted on
  the models' own maps and tables; a third, \<open>matching_adapter\<close> in \<open>Ingress_Resolution\<close>, is
  what ingress needs of a channel and is interpreted on the adapter the code builds.

  \<^bold>\<open>Worker placement\<close> (\<^verbatim>\<open>src/gateway/worker-environments/placement-*.ts\<close>,
  \<^verbatim>\<open>workspace-conflicts.ts\<close>, the three tables of
  \<^verbatim>\<open>src/state/openclaw-state-schema.sql\<close>).
  \<^item> \<open>Placement_Record\<close>: the record types, the transition relation, the validators.
  \<^item> \<open>Placement_Codec\<close>: rows, CHECK clauses, \<open>fromRow\<close>, the values a transition writes;
    \<open>Placement_Rows\<close> and \<open>Placement_Db\<close>: the row invariant and the guarded update.
  \<^item> \<open>Placement_Journal\<close>, \<open>Placement_Result\<close>, \<open>Placement_Claims\<close>: the reconciliation
    journal, the pending workspace results, the turn claims; \<open>Placement_Store\<close>: the store's
    operations, its waiters and conflicts; \<open>Placement_Projector\<close>: the operator projection and the
    worker gate.
  \<^item> \<open>Placement_Effects\<close>, \<open>Placement_Fences\<close>, \<open>Placement_Moves\<close>: what each operation
    that returns has found and written. \<open>Placement_Protocol\<close> is the abstract specification,
    \<open>Placement_Refinement\<close> the simulation of every operation, \<open>Placement_System\<close> the store as a
    state machine with reachability.
  \<^item> \<open>Placement_Properties\<close>, \<open>Placement_Turns\<close>, \<open>Placement_Outcomes\<close>,
    \<open>Placement_Runs\<close>, \<open>Placement_Recovery\<close>: the properties. The store refines the protocol;
    generations fence states; rows stay readable; a claim is exclusive, leaves the row as it was
    when it is released, and is held by a pending result; waiters are woken; acknowledgements only
    advance the cursors; a restart clears local
    claims only; what failing, journaling and the projections keep.
  The clock and the instance id of the process are arguments; a transaction either commits the new
  database or, as \<open>Inl\<close>, leaves the old one.

  \<^bold>\<open>Workspace manifests\<close> (\<^verbatim>\<open>workspace-manifest.ts\<close>,
  \<^verbatim>\<open>workspace-path-exclusions.ts\<close>). \<open>Workspace_Manifest\<close> is the parser of what a
  worker claims its workspace holds and the stored reconciliation plan; \<open>Manifest_Facts\<close>: paths stay
  inside, escaping symlinks are refused except through a segment called like the synthetic root,
  an accepted manifest is sorted, free of derived paths and closed under parents, a stored plan reads
  back.

  \<^bold>\<open>Channel ingress\<close> (\<^verbatim>\<open>src/channels/message-access/\<close>,
  \<^verbatim>\<open>allow-from.ts\<close>, \<^verbatim>\<open>command-gating.ts\<close>,
  \<^verbatim>\<open>mention-gating.ts\<close>).
  \<^item> \<open>Ingress_Types\<close>: the types; \<open>Ingress_Allowlist\<close>: allowlists and the policy for mutable
    identifiers; \<open>Ingress_Gates\<close>: command, mention and sender gates; \<open>Ingress_Decision\<close>:
    \<^verbatim>\<open>decideChannelIngress\<close>; \<open>Ingress_State\<close>: from the raw lists to the resolved
    state; \<open>Ingress_Identity\<close>: the adapter made from a channel's identity descriptor.
  \<^item> \<open>Ingress_Facts\<close>: the abstract specification (five conditions without gates or order) and the
    gates against it. \<open>Ingress_Properties\<close>: the decision implements it, is explained by its own
    gate graph, and does not depend on where the mention check runs. \<open>Ingress_Resolution\<close>: who
    a list names, through the adapter and the access groups, and from there to the admission of a
    direct message; what mutable names and route overrides leave; and when the numbering of the
    entries of a group collides with that of the list and a listed sender is dropped.

  \<^bold>\<open>Guards\<close> (\<^verbatim>\<open>src/plugin-sdk/pair-loop-guard-runtime.ts\<close>,
  \<^verbatim>\<open>webhook-memory-guards.ts\<close>, \<^verbatim>\<open>webhook-numeric-options.ts\<close>,
  \<^verbatim>\<open>src/infra/map-size.ts\<close>,
  \<^verbatim>\<open>src/gateway/control-plane-rate-limit.ts\<close>). \<open>Pair_Loop_Guard\<close>,
  \<open>Webhook_Guards\<close>, \<open>Control_Plane_Limit\<close> are the models, a closure over mutable variables being
  a record that every call returns updated. \<open>Pair_Loop_Facts\<close>: a cooldown lasts exactly as
  announced, no window sees more than its allowance (under a clock that does not go
  back; for events out of order there is no such bound), and the settings that switch the guard off; \<open>Webhook_Facts\<close>: bounded memory, equality with an unbounded limiter, the
  allowance of a window. \<open>Control_Plane_Limit\<close> ends with the bounds of the write budget.

  \<^bold>\<open>Transcript trees\<close> (\<^verbatim>\<open>src/config/sessions/transcript-tree.ts\<close>).
  \<open>Transcript_Tree\<close> is the model; \<open>Transcript_Facts\<close>: the cursors stay on stored rows,
  the index gives the newest node of an id, and a selected path is the inductively defined ancestry; \<open>Transcript_Linear\<close>:
  a plainly appended transcript is read back whole.

  \<^bold>\<open>Boards\<close> (\<^verbatim>\<open>src/boards/\<close>, the board types of
  \<^verbatim>\<open>packages/gateway-protocol/src/schema/board.ts\<close>, the tables
  \<^verbatim>\<open>board_tabs\<close> and \<^verbatim>\<open>board_widgets\<close>). A board is the tabs and
  widgets of a session; an agent puts widgets, an operator grants what they declare.
  \<^item> \<open>Board_Layout\<close>: the layout operations, where an object of the code is the index of its
    entry. \<open>Board_Normal\<close>: the normal form. \<open>Board_Spec\<close>: the abstract board, a list of tabs
    each with the list of its widgets; \<open>Board_Refinement\<close>: every operation implements it;
    \<open>Board_Meaning\<close>: what the specification does to each widget.
  \<^item> \<open>Board_Capabilities\<close>: declared origins and tools, the connection domains of the sandbox
    policy. \<open>Board_Codec\<close>: rows, manifests, documents. \<open>Board_Store\<close>: puts, decisions, and
    the operations of the SQLite store over the rows of two tables.
  \<^item> \<open>Board_Tables\<close>, \<open>Board_Reading\<close>: which layout the rows of a session denote, and that
    reading returns it; \<open>Board_Writing\<close>, \<open>Board_Apply\<close>: what the statements of
    \<^verbatim>\<open>applyOps\<close> leave; \<open>Board_Insert\<close>, \<open>Board_Put\<close>,
    \<open>Board_Put_Store\<close>, \<open>Board_Grant\<close>: the same of a put and a decision.
    \<open>Board_System\<close>: the store as a state machine, with a ghost map of the standing approvals (what
    the operator granted last and nothing has revoked), and the sizes its widgets keep;
    \<open>Board_Properties\<close>: the properties.
  The view generation of a put is an argument (32 hexadecimal digits), and so is the clock. The
  hypothesis \<open>origins_stable\<close> says of the URL parser that the origin of an https URL is an https
  URL of the same host, as the URL standard has it.

  \<^bold>\<open>Exec approvals\<close> (\<^verbatim>\<open>src/infra/exec-approvals-*.ts\<close>,
  \<^verbatim>\<open>exec-approval-policy-snapshot.ts\<close>). One stored row holds the policy: defaults,
  and for each agent settings and an allowlist. A command runs only if a commit in the same transaction
  finds authority in that row; an operator's decision carries a snapshot of the policy it was made on.
  \<^item> \<open>Exec_Policy\<close>: settings, modes, decisions. \<open>Exec_File\<close>: the persisted file, its checks
    and its normal form; a file that is not normalized can hold any JSON value where the code takes one.
    \<open>Exec_Effective\<close>: the policy of a scope, from what is requested and what the host allows.
  \<^item> \<open>Exec_Approvals\<close>: the policy of an agent, durable grants, snapshots, the check before
    execution, recorded uses. \<open>Exec_Decisions\<close>: the form of a persistent decision, snapshots that
    arrive from outside, and the updates that grant. \<open>Exec_Store\<close>: the row, the lease and the
    deleted agents, every update as one transaction that commits or, as \<open>Inl\<close>, changes nothing.
  \<^item> \<open>Exec_Facts\<close>: the normal form. \<open>Exec_Authority\<close>: when a file extends another, so that
    snapshots taken of the one stand in the other, and that grants and uses extend the file.
    \<open>Exec_Store_Facts\<close>: a normal file is read back from its row; what a transaction leaves.
    \<open>Exec_Properties\<close>, \<open>Exec_Commits\<close>: the properties; \<open>grant_step\<close> is the state machine
    of the operations that grant rules or record uses. It leaves out grants for an agent called
    \<^verbatim>\<open>default\<close>: that is the legacy name of main, and what is stored under it is
    merged into main when the row is next read, so such a grant neither lasts for its agent nor leaves
    main alone. The properties that depend on this say so.
  Arguments: the ids of new entries (not empty, \<open>fresh_ok\<close>), the clock, the digest of a command
  (hexadecimal, so without white space), and what the analysis of a command line yields.

  \<^bold>\<open>Run outcomes\<close> (\<^verbatim>\<open>src/agents/agent-run-terminal-outcome.ts\<close>,
  \<^verbatim>\<open>run-termination.ts\<close>, \<^verbatim>\<open>run-timeout-attribution.ts\<close>,
  \<^verbatim>\<open>src/gateway/server-methods/agent-job.ts\<close>). An attempt of a run is observed to
  fail, time out or be aborted, in any order and more than once; the run has one outcome; the gateway
  keeps it for ten minutes and answers \<^verbatim>\<open>agent.wait\<close>, holding back errors and
  timeouts that a retry may follow.
  \<^item> \<open>Run_Attempt\<close>: the closed type of attempt terminals and their merge;
    \<open>Run_Attempt_Facts\<close>: what a merge keeps of a terminal, through the interface
    \<open>observation_merge\<close>, whose laws make the merge of many independent of their order.
  \<^item> \<open>Run_Outcome\<close>: the outcome of a run from raw metadata or from an attempt, the merge of two
    outcomes, the walk through causes for an outcome that was thrown.
  \<^item> \<open>Run_Jobs\<close>: the registry with its snapshots, pending entries, versions and waiters,
    its lifecycle events, dedupe entries, callers, timers, and the step relation
    \<open>job_step\<close>. \<open>Run_Facts\<close>: the invariant of the registry. \<open>Run_Properties\<close>:
    the properties.
  A timer is a step that may happen at any time, so the grace period is not fixed; a thrown object whose
  getters throw is left out; numbers are finite.

  \<^bold>\<open>Loops and bounds.\<close> No model uses fuel. Loops over lists are structural or folds; the two
  walks over parent links terminate because every round adds a stored row to the rows met
  (\<open>tree_walk\<close>, \<open>canonical_parent\<close>), the walk over causes because it adds an object
  (\<open>find_outcome\<close>), and the pruning loop because every round deletes a key (\<open>drop_oldest\<close>). Clock values, counters and cursors are \<open>int\<close>: the code keeps them below
  \<open>2^53\<close>, where JavaScript numbers are exact, and tests the stored ones with
  \<^verbatim>\<open>Number.isSafeInteger\<close>, which the models keep.

  \<^bold>\<open>Parameters.\<close> SHA-256 and the parse of a manifest text; a channel's adapter or the
  normalizers of its identity descriptor; the collation key that stands for
  \<^verbatim>\<open>localeCompare\<close> of route ids; the URL parser of the runtime, and the text it
  gives a number in JSON. Strings are lists of code units below 256.

  \<^bold>\<open>Not modelled.\<close> The asynchronous orchestration around the store
  (\<^verbatim>\<open>placement-dispatch.ts\<close>, \<^verbatim>\<open>service.ts\<close>: ssh, rsync, providers),
  timers and abort listeners of waiters, the serialized text of manifests, the resolver facade and the
  dynamic access groups of \<^verbatim>\<open>message-access/runtime.ts\<close>, log text. Of the boards: the
  in-memory store, which only tests use, the notices, the lazy creation of the tables, and the resource
  and frame domains of a sandbox policy, which declarations never set. Of exec approvals: the analysis of
  command lines (\<^verbatim>\<open>exec-approvals-allowlist.ts\<close>,
  \<^verbatim>\<open>exec-authorization-plan.ts\<close>), the text search for commands about audit
  suppressions, file paths and tokens, the migration gate, and the columns that project the row. Of run
  outcomes: the classification of provider errors and the creation of abort errors. The
  gateway server and its protocol, the rest of the agents, configuration, cron, plugins, the apps and the user interface are outside this
  library: they are asynchronous orchestration, rendering, generated schemas or provider clients, or
  separate decisions that would each need a model of their own.
\<close>

end
